(* ===== verification/Prelude.thy ===== *)
theory Prelude
  imports Main "HOL-Library.Word"
begin

text \<open>
  The vocabulary the components share: the machine integer types of the C and Rust sources, the
  outcome of code that can fail, byte buffers with their checked accesses, the view of a byte
  buffer as a sequence of bits, and the generic facts about them.  The named collections
  \<open>buffer_simps\<close> and \<open>digit_simps\<close> carry the proofs of the component theories.
\<close>

unbundle bit_operations_syntax

section \<open>Machine integers and failing code\<close>

type_synonym u8 = "8 word"
type_synonym u16 = "16 word"
type_synonym u32 = "32 word"
type_synonym u64 = "64 word"
type_synonym u128 = "128 word"
type_synonym bytes = "u8 list"

text \<open>
  What stops a run: a failed C \<open>assert\<close> or Rust \<open>assert!\<close>, a memory access outside its
  buffer (undefined behaviour in C, a panic for a checked Rust index), a dereferenced null
  pointer, or a Rust panic from \<open>unwrap\<close> or \<open>panic!\<close>.
\<close>

datatype fault = AssertFailed | OutOfBounds | NullPointer | Panic

type_synonym 'a run = "fault + 'a"

definition bind_run :: "'a run \<Rightarrow> ('a \<Rightarrow> 'b run) \<Rightarrow> 'b run" where
  "bind_run m f = (case m of Inl e \<Rightarrow> Inl e | Inr x \<Rightarrow> f x)"

definition guard_run :: "bool \<Rightarrow> unit run" where
  "guard_run b = (if b then Inr () else Inl AssertFailed)"

lemma bind_run_simps [simp]:
  "bind_run (Inr x) f = f x"
  "bind_run (Inl e) f = Inl e"
  by (simp_all add: bind_run_def)

lemma bind_run_cong [fundef_cong]:
  "m = m' \<Longrightarrow> (\<And>x. m' = Inr x \<Longrightarrow> f x = f' x) \<Longrightarrow> bind_run m f = bind_run m' f'"
  by (cases m') (simp_all add: bind_run_def)

lemma bind_run_Inr_conv: "bind_run m f = Inr y \<longleftrightarrow> (\<exists>x. m = Inr x \<and> f x = Inr y)"
  by (cases m) (simp_all add: bind_run_def)

lemma guard_run_True [simp]: "guard_run True = Inr ()"
  and guard_run_False [simp]: "guard_run False = Inl AssertFailed"
  by (simp_all add: guard_run_def)

text \<open>Running an operation on each element of a list, stopping at the first fault.\<close>

fun map_run :: "('a \<Rightarrow> 'b run) \<Rightarrow> 'a list \<Rightarrow> 'b list run" where
  "map_run f [] = Inr []"
| "map_run f (x # xs) = bind_run (f x) (\<lambda>y. bind_run (map_run f xs) (\<lambda>ys. Inr (y # ys)))"

lemma map_run_Inr: "(\<And>x. x \<in> set xs \<Longrightarrow> f x = Inr (g x)) \<Longrightarrow> map_run f xs = Inr (map g xs)"
  by (induction xs) simp_all

lemma map_run_length: "map_run f xs = Inr ys \<Longrightarrow> length ys = length xs"
  by (induction xs arbitrary: ys) (auto simp: bind_run_Inr_conv)

section \<open>Byte buffers\<close>

named_theorems buffer_simps "checked buffer accesses and the bits of a buffer"

text \<open>A checked read and a checked write of one element at a natural-number index.\<close>

definition read_at :: "'a list \<Rightarrow> nat \<Rightarrow> 'a run" where
  "read_at xs i = (if i < length xs then Inr (xs ! i) else Inl OutOfBounds)"

definition write_at :: "'a list \<Rightarrow> nat \<Rightarrow> 'a \<Rightarrow> 'a list run" where
  "write_at xs i x = (if i < length xs then Inr (xs[i := x]) else Inl OutOfBounds)"

lemma read_at_in [buffer_simps]: "i < length xs \<Longrightarrow> read_at xs i = Inr (xs ! i)"
  and read_at_out [buffer_simps]: "\<not> i < length xs \<Longrightarrow> read_at xs i = Inl OutOfBounds"
  and write_at_in [buffer_simps]: "i < length xs \<Longrightarrow> write_at xs i x = Inr (xs[i := x])"
  and write_at_out [buffer_simps]: "\<not> i < length xs \<Longrightarrow> write_at xs i x = Inl OutOfBounds"
  by (simp_all add: read_at_def write_at_def)

lemma write_at_length: "write_at xs i x = Inr ys \<Longrightarrow> length ys = length xs"
  by (auto simp: write_at_def split: if_splits)

text \<open>
  Bit \<open>k\<close> of a byte buffer, least significant bit of each byte first: the layout that
  \<open>get_bit\<close>/\<open>set_bit\<close> of \<^verbatim>\<open>ocelot/src/utils.rs\<close> and the C bit-matrix code agree on.
\<close>

definition buf_bit :: "bytes \<Rightarrow> nat \<Rightarrow> bool" where
  "buf_bit bs k = bit (bs ! (k div 8)) (k mod 8)"

lemma buf_bit_update:
  "i < length bs \<Longrightarrow> buf_bit (bs[i := b]) k = (if k div 8 = i then bit b (k mod 8) else buf_bit bs k)"
  by (auto simp: buf_bit_def nth_list_update)

lemma u8_bit_high [simp]: "\<not> bit (b :: u8) (8 + j)"
  using bit_imp_le_length [of b "8 + j"] by auto

lemma byte_pos: "j < 8 \<Longrightarrow> (8 * k + j) div 8 = k" "j < 8 \<Longrightarrow> (8 * k + j) mod 8 = (j :: nat)"
  by simp_all

lemma byte_eqI: "(\<And>j. j < 8 \<Longrightarrow> bit a j = bit b j) \<Longrightarrow> a = (b :: u8)"
  by (rule bit_word_eqI) simp

text \<open>Two buffers of the same length with the same bits are the same buffer.\<close>

lemma buf_eqI:
  assumes len: "length xs = length ys"
    and bits: "\<And>k. k < 8 * length xs \<Longrightarrow> buf_bit xs k = buf_bit ys k"
  shows "xs = ys"
proof (rule nth_equalityI [OF len], rule byte_eqI)
  fix i j :: nat
  assume "i < length xs" and "j < 8"
  then have "8 * i + j < 8 * length xs" and "(8 * i + j) div 8 = i" and "(8 * i + j) mod 8 = j"
    by simp_all
  with bits [of "8 * i + j"] show "bit (xs ! i) j = bit (ys ! i) j"
    by (simp add: buf_bit_def)
qed

section \<open>Positions in a matrix stored line by line\<close>

text \<open>Cell \<open>r\<close> of line \<open>c\<close>, lines of \<open>n\<close> cells each, is cell \<open>c * n + r\<close>.\<close>

lemma cell_less: "r < n \<Longrightarrow> c < m \<Longrightarrow> c * n + r < m * (n :: nat)"
proof -
  assume "r < n" and "c < m"
  then have "c * n + r < Suc c * n" and "Suc c * n \<le> m * n"
    by (simp, intro mult_le_mono1, simp)
  then show ?thesis by (rule less_le_trans)
qed

lemma cell_inj: "r < n \<Longrightarrow> r' < n \<Longrightarrow> c * n + r = c' * n + r' \<longleftrightarrow> c = c' \<and> r = (r' :: nat)"
  by (metis add.commute div_mult_self3 div_less add.right_neutral mod_mult_self3 mod_less
      less_nat_zero_code)

lemma cell_cases:
  fixes k m n :: nat
  assumes "k < m * n"
  obtains r c where "r < n" and "c < m" and "k = c * n + r"
proof
  have "0 < n" using assms by (cases n) simp_all
  then show "k mod n < n" by simp
  show "k div n < m" using assms by (simp add: less_mult_imp_div_less)
  show "k = k div n * n + k mod n" by simp
qed

section \<open>Words read as natural numbers\<close>

lemma unat_add_small:
  "unat a + unat b < 2 ^ LENGTH('a) \<Longrightarrow> unat (a + b :: 'a::len word) = unat a + unat b"
  by (simp add: unat_word_ariths take_bit_nat_eq_self flip: take_bit_eq_mod)

lemma unat_mult_small:
  "unat a * unat b < 2 ^ LENGTH('a) \<Longrightarrow> unat (a * b :: 'a::len word) = unat a * unat b"
  by (simp add: unat_word_ariths take_bit_nat_eq_self flip: take_bit_eq_mod)

lemma unat_u8_less: "unat (x :: u8) < 256"
  using unsigned_less [of x] by (simp del: unsigned_less)

lemma unat_u64_less: "unat (x :: u64) < 2 ^ 64"
  using unsigned_less [of x] by (simp del: unsigned_less)

end
