(* ===== verification/Digits.thy ===== *)
theory Digits
  imports Prelude
begin

text \<open>
  Little-endian base-\<open>q\<close> digit lists: their value, the digits of a number, and the generator
  \<^verbatim>\<open>fancy-garbling/scripts/make_lookup_tables.py\<close> that writes the C lookup tables
  (\<open>digits\<close>, \<open>digits_for_pos\<close>).  The check \<open>rows_step\<close> compares a table with the generator's output
  by additions only, so that the kernel can run it on the tables of the C file.
\<close>

section \<open>The value of a digit list and the digits of a number\<close>

named_theorems digit_simps "values and digits of digit lists"

fun val :: "nat \<Rightarrow> nat list \<Rightarrow> nat" where
  "val q [] = 0"
| "val q (d # ds) = d + q * val q ds"

fun base_digits :: "nat \<Rightarrow> nat \<Rightarrow> nat \<Rightarrow> nat list" where
  "base_digits q 0 x = []"
| "base_digits q (Suc n) x = x mod q # base_digits q n (x div q)"

definition proper :: "nat \<Rightarrow> nat list \<Rightarrow> bool" where
  "proper q ds = list_all (\<lambda>d. d < q) ds"

lemma proper_simps [digit_simps]:
  "proper q []" "proper q (d # ds) = (d < q \<and> proper q ds)"
  "proper q (ds @ es) = (proper q ds \<and> proper q es)"
  by (simp_all add: proper_def)

lemma length_base_digits [digit_simps]: "length (base_digits q n x) = n"
  by (induction n arbitrary: x) simp_all

lemma proper_base_digits [digit_simps]: "0 < q \<Longrightarrow> proper q (base_digits q n x)"
  by (induction n arbitrary: x) (simp_all add: digit_simps)

lemma val_base_digits [digit_simps]: "val q (base_digits q n x) = x mod q ^ n"
  by (induction n arbitrary: x) (simp_all add: mod_mult2_eq)

lemma base_digits_zero [digit_simps]: "base_digits q n 0 = replicate n 0"
  by (induction n) simp_all

lemma val_append [digit_simps]: "val q (ds @ es) = val q ds + q ^ length ds * val q es"
  by (induction ds) (simp_all add: algebra_simps)

lemma val_zeros [digit_simps]: "val q (replicate n 0) = 0"
  by (induction n) simp_all

text \<open>A proper digit list is determined by its length and its value.\<close>

lemma val_less: "proper q ds \<Longrightarrow> val q ds < q ^ length ds"
proof (induction ds)
  case (Cons d ds)
  then have "d < q" and "Suc (val q ds) \<le> q ^ length ds" by (simp_all add: digit_simps)
  then have "d + q * val q ds < q * Suc (val q ds)" and "q * Suc (val q ds) \<le> q * q ^ length ds"
    by (simp, intro mult_le_mono2)
  then show ?case by simp
qed simp

lemma base_digits_val: "proper q ds \<Longrightarrow> base_digits q (length ds) (val q ds) = ds"
  by (induction ds) (simp_all add: digit_simps)

lemma base_digits_mod: "0 < q \<Longrightarrow> base_digits q n (x mod q ^ n) = base_digits q n x"
  using base_digits_val [OF proper_base_digits, of q n x] by (simp add: digit_simps)

lemma digits_unique:
  "proper q ds \<Longrightarrow> length ds = n \<Longrightarrow> val q ds = x mod q ^ n \<Longrightarrow> 0 < q \<Longrightarrow> ds = base_digits q n x"
  using base_digits_val [of q ds] base_digits_mod [of q n x] by simp

lemma take_base_digits [digit_simps]: "k \<le> n \<Longrightarrow> take k (base_digits q n x) = base_digits q k x"
proof (induction n arbitrary: k x)
  case (Suc n)
  then show ?case by (cases k) simp_all
qed simp

lemma base_digits_pad:
  "x < q ^ n \<Longrightarrow> n \<le> m \<Longrightarrow> base_digits q m x = base_digits q n x @ replicate (m - n) 0"
proof (induction n arbitrary: m x)
  case (Suc n)
  then obtain m' where m: "m = Suc m'" by (cases m) simp_all
  have "x div q < q ^ n"
    using Suc.prems(1) by (intro less_mult_imp_div_less) (simp add: mult.commute)
  then have "base_digits q m' (x div q) = base_digits q n (x div q) @ replicate (m' - n) 0"
    using Suc.prems(2) m by (intro Suc.IH) simp_all
  then show ?case by (simp add: m)
qed (simp add: digit_simps)

section \<open>The table generator\<close>

text \<open>
  \<open>digits\<close> loops while \<open>x >= base\<close>.  The generator calls it with bases of at least 5; for the
  bases 0 and 1, on which the Python loop raises or never ends, the model stops at once.
\<close>

function digits :: "nat \<Rightarrow> nat \<Rightarrow> nat list" where
  "digits x base =
     (if base \<le> x \<and> 2 \<le> base
      then let d = x mod base in d # digits ((x - d) div base) base
      else [x])"
  by pat_completeness auto
termination
proof (relation "measure fst", simp_all)
  fix x base :: nat
  assume "base \<le> x \<and> 2 \<le> base"
  then have "x div base < x" and "(x - x mod base) div base \<le> x div base"
    by (simp, simp add: div_le_mono)
  then show "(x - x mod base) div base < x" by simp
qed

declare digits.simps [simp del]

fun pad_to :: "nat \<Rightarrow> nat list \<Rightarrow> nat list" where
  "pad_to n d = d @ replicate (n - length d) 0"

definition bits_per_chunk :: nat where
  "bits_per_chunk = 8"

definition digits_for_pos :: "nat \<Rightarrow> nat \<Rightarrow> nat \<times> nat list list" where
  "digits_for_pos pos base =
     (let ds = map (\<lambda>x. digits (x * 2 ^ (bits_per_chunk * pos)) base) [0..<2 ^ bits_per_chunk];
          max_ndigits = foldl (\<lambda>m d. max (length d) m) 0 ds
      in (max_ndigits, map (pad_to max_ndigits) ds))"

lemma digits_step:
  assumes "2 \<le> base" and "base \<le> x"
  shows "digits x base = x mod base # digits (x div base) base"
proof -
  have "(x - x mod base) div base = x div base"
    using assms by (simp add: minus_mod_eq_mult_div)
  with assms show ?thesis by (simp add: digits.simps [of x] Let_def)
qed

lemma digits_stop: "x < base \<Longrightarrow> digits x base = [x]"
  by (simp add: digits.simps)

lemma digits_induct [consumes 1, case_names stop step]:
  assumes "2 \<le> base" and "\<And>x. x < base \<Longrightarrow> P x" and "\<And>x. base \<le> x \<Longrightarrow> P (x div base) \<Longrightarrow> P x"
  shows "P (x :: nat)"
proof (induction x rule: less_induct)
  case (less x)
  show ?case using assms less [of "x div base"] by (cases "x < base") simp_all
qed

lemma digits_base_digits:
  assumes "2 \<le> base"
  shows "digits x base = base_digits base (length (digits x base)) x"
  using assms
  by (induction x rule: digits_induct) (simp_all add: assms digits_step digits_stop)

lemma digits_bound:
  assumes "2 \<le> base"
  shows "x < base ^ length (digits x base)"
  using assms
proof (induction x rule: digits_induct)
  case (step x)
  with assms have "x < base ^ length (digits (x div base) base) * base"
    by (simp flip: div_less_iff_less_mult)
  with step assms show ?case by (simp add: digits_step mult.commute)
qed (simp add: digits_stop)

lemma digits_length_le: "2 \<le> base \<Longrightarrow> x < base ^ Suc n \<Longrightarrow> length (digits x base) \<le> Suc n"
proof (induction n arbitrary: x)
  case (Suc n)
  show ?case
  proof (cases "x < base")
    case False
    have "x div base < base ^ Suc n"
      using Suc.prems(2) by (intro less_mult_imp_div_less) (simp add: mult.commute)
    with Suc False show ?thesis by (simp add: digits_step)
  qed (simp add: digits_stop)
qed (simp add: digits_stop)

lemma digits_length_ge:
  assumes "2 \<le> base" and "base ^ n \<le> x"
  shows "Suc n \<le> length (digits x base)"
proof -
  have "base ^ n < base ^ length (digits x base)"
    using digits_bound [OF assms(1), of x] assms(2) by simp
  with assms(1) show ?thesis by (simp add: Suc_le_eq)
qed

text \<open>
  The generator's table at position \<open>pos\<close>: every row is padded to the number of digits of the
  largest entry, \<open>255 * 256 ^ pos\<close>.
\<close>

lemma foldl_max: "foldl (\<lambda>m d. max (length d) m) m ds = fold max (map length ds) (m :: nat)"
  by (induction ds arbitrary: m) simp_all

lemma fold_max_le: "\<forall>y\<in>set xs. y \<le> k \<Longrightarrow> m \<le> k \<Longrightarrow> fold max xs m \<le> (k :: nat)"
  by (induction xs arbitrary: m) simp_all

lemma fold_max_ge: "y \<in> set xs \<or> y \<le> m \<Longrightarrow> y \<le> fold max xs (m :: nat)"
  by (induction xs arbitrary: m) (fastforce simp: le_max_iff_disj)+

lemma max_at: "x \<in> set xs \<Longrightarrow> \<forall>y\<in>set xs. y \<le> x \<Longrightarrow> fold max xs 0 = (x :: nat)"
  by (intro antisym fold_max_le fold_max_ge) simp_all

lemma digits_for_pos_rows:
  assumes base: "2 \<le> base" and lower: "base ^ n \<le> 255 * 256 ^ pos" and upper: "255 * 256 ^ pos < base ^ Suc n"
  shows "digits_for_pos pos base =
    (Suc n, map (\<lambda>x. base_digits base (Suc n) (x * 256 ^ pos)) [0..<256])"
proof -
  let ?d = "\<lambda>x. digits (x * 256 ^ pos) base"
  have le: "length (?d x) \<le> Suc n" and below: "x * 256 ^ pos < base ^ Suc n" if "x < 256" for x
  proof -
    show "x * 256 ^ pos < base ^ Suc n"
      using le_less_trans [OF mult_le_mono1 [of x 255 "256 ^ pos"] upper] that by linarith
    then show "length (?d x) \<le> Suc n" by (rule digits_length_le [OF base])
  qed
  have top: "length (?d 255) = Suc n"
    using le [of 255] digits_length_ge [OF base lower] by simp
  have max: "fold max (map (length \<circ> ?d) [0..<256]) 0 = Suc n"
    by (rule max_at) (use top le in \<open>auto simp: image_iff intro!: bexI [of _ 255]\<close>)
  have pad: "pad_to (Suc n) (?d x) = base_digits base (Suc n) (x * 256 ^ pos)" if "x < 256" for x
    using digits_base_digits [OF base, of "x * 256 ^ pos"] le [OF that]
      base_digits_pad [OF digits_bound [OF base], of "x * 256 ^ pos" "Suc n"] by simp
  have "2 ^ (bits_per_chunk * pos) = (256 :: nat) ^ pos" and "2 ^ bits_per_chunk = (256 :: nat)"
    by (simp_all add: bits_per_chunk_def power_mult)
  then show ?thesis
    using pad by (simp add: digits_for_pos_def Let_def foldl_max max del: pad_to.simps upt_rec_numeral)
qed

section \<open>Checking a table by additions\<close>

text \<open>
  \<open>row_add q c xs ys zs\<close>: the schoolbook addition of \<open>xs\<close>, \<open>ys\<close> and the carry \<open>c\<close> in base \<open>q\<close>
  gives \<open>zs\<close>, with no carry left.  In a table of the multiples of \<open>256 ^ pos\<close> each row is the
  previous one plus row 1.
\<close>

fun row_add :: "nat \<Rightarrow> nat \<Rightarrow> nat list \<Rightarrow> nat list \<Rightarrow> nat list \<Rightarrow> bool" where
  "row_add q c [] [] [] = (c = 0)"
| "row_add q c (x # xs) (y # ys) (z # zs) =
     (if x + y + c < q then z = x + y + c \<and> row_add q 0 xs ys zs
      else z + q = x + y + c \<and> row_add q 1 xs ys zs)"
| "row_add q c _ _ _ = False"

fun rows_step :: "nat \<Rightarrow> nat list \<Rightarrow> nat list list \<Rightarrow> bool" where
  "rows_step q d [] = True"
| "rows_step q d [r] = True"
| "rows_step q d (r # s # rs) = (row_add q 0 r d s \<and> rows_step q d (s # rs))"

lemma row_add_sum:
  "row_add q c xs ys zs \<Longrightarrow> val q zs = val q xs + val q ys + c \<and> length zs = length xs"
  by (induction q c xs ys zs rule: row_add.induct) (auto split: if_splits simp: algebra_simps)

lemma row_add_proper:
  "row_add q c xs ys zs \<Longrightarrow> proper q xs \<Longrightarrow> proper q ys \<Longrightarrow> c \<le> 1 \<Longrightarrow> proper q zs"
  by (induction q c xs ys zs rule: row_add.induct) (auto split: if_splits simp: digit_simps)

lemma rows_step_rows:
  assumes "rows_step q d (r # rs)" and "proper q d" and "proper q r" and "length r = n" and "0 < q"
    and "i < length (r # rs)" and "val q r + i * val q d = x"
  shows "(r # rs) ! i = base_digits q n x"
  using assms
proof (induction rs arbitrary: r i x)
  case Nil
  then show ?case using base_digits_val [of q r] by simp
next
  case (Cons s rs)
  show ?case
  proof (cases i)
    case 0
    with Cons.prems show ?thesis using base_digits_val [of q r] by simp
  next
    case (Suc j)
    have s: "val q s = val q r + val q d" "length s = n" "proper q s"
      using Cons.prems row_add_sum [of q 0 r d s] row_add_proper [of q 0 r d s] by simp_all
    have "(s # rs) ! j = base_digits q n x"
      using Cons.prems s Suc by (intro Cons.IH) (simp_all add: algebra_simps)
    with Suc show ?thesis by simp
  qed
qed

text \<open>The shape of the tables: 256 rows, the zero row first, then row \<open>d\<close>, each step adding \<open>d\<close>.\<close>

definition table_ok :: "nat \<Rightarrow> nat \<Rightarrow> nat \<Rightarrow> nat list list \<Rightarrow> bool" where
  "table_ok q n pos t = (t = map (\<lambda>x. base_digits q n (x * 256 ^ pos)) [0..<256])"

lemma table_okI:
  assumes step: "rows_step q d t" and len: "length t = 256"
    and first: "hd t = z" "list_all ((=) 0) z" "length z = n"
    and d: "val q d = 256 ^ pos" "proper q d" "length d = n" and q: "2 \<le> q"
  shows "table_ok q n pos t"
proof -
  obtain r rs where t: "t = r # rs" using len by (cases t) simp_all
  have r: "r = replicate n 0"
    using first t by (auto simp: list_all_iff intro!: replicate_eqI)
  have "t ! i = base_digits q n (i * 256 ^ pos)" if "i < 256" for i
    unfolding t
  proof (rule rows_step_rows [where d = d])
    show "proper q r" using q by (simp add: r proper_def list_all_iff)
    show "val q r + i * val q d = i * 256 ^ pos" using d by (simp add: r digit_simps)
  qed (use assms t r that in simp_all)
  then show ?thesis
    unfolding table_ok_def using len by (intro nth_equalityI) simp_all
qed

lemma length_eval: "length [] = 0" "length (x # xs) = length xs + 1"
  by simp_all

text \<open>The rewrite rules that evaluate the check on a literal table.\<close>

lemmas rows_step_eval = rows_step.simps row_add.simps arith_simps rel_simps if_True if_False
  simp_thms numeral_plus_one one_plus_numeral one_add_one refl

lemmas length_table_eval = length_eval add_0 one_add_one numeral_plus_one add_num_simps refl

end
