(* ===== verification/Lookup_Tables.thy ===== *)
theory Lookup_Tables
  imports Digits
begin

text \<open>
  The end of \<^verbatim>\<open>fancy-garbling/base_conversion/cbits/lookup_tables.c\<close>: the pointer arrays \<open>BASE<q>\<close>, the digit counts
  \<open>NDIGITS_BASE<q>\<close> and the two functions of its interface, \<open>c_get_table\<close> and \<open>c_num_digits\<close>, for all
  of its bases 5 to 113.  A table object is named by its base and its position;
  \<open>uint16_t\<close> and \<open>size_t\<close> arguments are naturals.  Reading an array past its 16 entries is
  undefined in C and \<open>OutOfBounds\<close> here.
\<close>

section \<open>The pointer arrays\<close>

text \<open>\<open>POS q p\<close> is the address of the object \<open>BASE<q>_POS<p>\<close>.\<close>

datatype tab_ptr = NULL | POS nat nat

definition BASE5 :: "tab_ptr list" where
  "BASE5 = [POS 5 0, POS 5 1, POS 5 2, POS 5 3, POS 5 4, POS 5 5, POS 5 6, POS 5 7,
     POS 5 8, POS 5 9, POS 5 10, POS 5 11, POS 5 12, POS 5 13, POS 5 14, POS 5 15]"

definition BASE6 :: "tab_ptr list" where
  "BASE6 = [POS 6 0, POS 6 1, POS 6 2, POS 6 3, POS 6 4, POS 6 5, POS 6 6, POS 6 7,
     POS 6 8, POS 6 9, POS 6 10, POS 6 11, POS 6 12, POS 6 13, POS 6 14, POS 6 15]"

definition BASE7 :: "tab_ptr list" where
  "BASE7 = [POS 7 0, POS 7 1, POS 7 2, POS 7 3, POS 7 4, POS 7 5, POS 7 6, POS 7 7,
     POS 7 8, POS 7 9, POS 7 10, POS 7 11, POS 7 12, POS 7 13, POS 7 14, POS 7 15]"

definition BASE8 :: "tab_ptr list" where
  "BASE8 = [POS 8 0, POS 8 1, POS 8 2, POS 8 3, POS 8 4, POS 8 5, POS 8 6, POS 8 7,
     POS 8 8, POS 8 9, POS 8 10, POS 8 11, POS 8 12, POS 8 13, POS 8 14, POS 8 15]"

definition BASE9 :: "tab_ptr list" where
  "BASE9 = [POS 9 0, POS 9 1, POS 9 2, POS 9 3, POS 9 4, POS 9 5, POS 9 6, POS 9 7,
     POS 9 8, POS 9 9, POS 9 10, POS 9 11, POS 9 12, POS 9 13, POS 9 14, POS 9 15]"

definition BASE10 :: "tab_ptr list" where
  "BASE10 = [POS 10 0, POS 10 1, POS 10 2, POS 10 3, POS 10 4, POS 10 5, POS 10 6, POS 10 7,
     POS 10 8, POS 10 9, POS 10 10, POS 10 11, POS 10 12, POS 10 13, POS 10 14, POS 10 15]"

definition BASE11 :: "tab_ptr list" where
  "BASE11 = [POS 11 0, POS 11 1, POS 11 2, POS 11 3, POS 11 4, POS 11 5, POS 11 6, POS 11 7,
     POS 11 8, POS 11 9, POS 11 10, POS 11 11, POS 11 12, POS 11 13, POS 11 14, POS 11 15]"

definition BASE12 :: "tab_ptr list" where
  "BASE12 = [POS 12 0, POS 12 1, POS 12 2, POS 12 3, POS 12 4, POS 12 5, POS 12 6, POS 12 7,
     POS 12 8, POS 12 9, POS 12 10, POS 12 11, POS 12 12, POS 12 13, POS 12 14, POS 12 15]"

definition BASE13 :: "tab_ptr list" where
  "BASE13 = [POS 13 0, POS 13 1, POS 13 2, POS 13 3, POS 13 4, POS 13 5, POS 13 6, POS 13 7,
     POS 13 8, POS 13 9, POS 13 10, POS 13 11, POS 13 12, POS 13 13, POS 13 14, POS 13 15]"

definition BASE14 :: "tab_ptr list" where
  "BASE14 = [POS 14 0, POS 14 1, POS 14 2, POS 14 3, POS 14 4, POS 14 5, POS 14 6, POS 14 7,
     POS 14 8, POS 14 9, POS 14 10, POS 14 11, POS 14 12, POS 14 13, POS 14 14, POS 14 15]"

definition BASE15 :: "tab_ptr list" where
  "BASE15 = [POS 15 0, POS 15 1, POS 15 2, POS 15 3, POS 15 4, POS 15 5, POS 15 6, POS 15 7,
     POS 15 8, POS 15 9, POS 15 10, POS 15 11, POS 15 12, POS 15 13, POS 15 14, POS 15 15]"

definition BASE16 :: "tab_ptr list" where
  "BASE16 = [POS 16 0, POS 16 1, POS 16 2, POS 16 3, POS 16 4, POS 16 5, POS 16 6, POS 16 7,
     POS 16 8, POS 16 9, POS 16 10, POS 16 11, POS 16 12, POS 16 13, POS 16 14, POS 16 15]"

definition BASE17 :: "tab_ptr list" where
  "BASE17 = [POS 17 0, POS 17 1, POS 17 2, POS 17 3, POS 17 4, POS 17 5, POS 17 6, POS 17 7,
     POS 17 8, POS 17 9, POS 17 10, POS 17 11, POS 17 12, POS 17 13, POS 17 14, POS 17 15]"

definition BASE18 :: "tab_ptr list" where
  "BASE18 = [POS 18 0, POS 18 1, POS 18 2, POS 18 3, POS 18 4, POS 18 5, POS 18 6, POS 18 7,
     POS 18 8, POS 18 9, POS 18 10, POS 18 11, POS 18 12, POS 18 13, POS 18 14, POS 18 15]"

definition BASE19 :: "tab_ptr list" where
  "BASE19 = [POS 19 0, POS 19 1, POS 19 2, POS 19 3, POS 19 4, POS 19 5, POS 19 6, POS 19 7,
     POS 19 8, POS 19 9, POS 19 10, POS 19 11, POS 19 12, POS 19 13, POS 19 14, POS 19 15]"

definition BASE20 :: "tab_ptr list" where
  "BASE20 = [POS 20 0, POS 20 1, POS 20 2, POS 20 3, POS 20 4, POS 20 5, POS 20 6, POS 20 7,
     POS 20 8, POS 20 9, POS 20 10, POS 20 11, POS 20 12, POS 20 13, POS 20 14, POS 20 15]"

definition BASE21 :: "tab_ptr list" where
  "BASE21 = [POS 21 0, POS 21 1, POS 21 2, POS 21 3, POS 21 4, POS 21 5, POS 21 6, POS 21 7,
     POS 21 8, POS 21 9, POS 21 10, POS 21 11, POS 21 12, POS 21 13, POS 21 14, POS 21 15]"

definition BASE22 :: "tab_ptr list" where
  "BASE22 = [POS 22 0, POS 22 1, POS 22 2, POS 22 3, POS 22 4, POS 22 5, POS 22 6, POS 22 7,
     POS 22 8, POS 22 9, POS 22 10, POS 22 11, POS 22 12, POS 22 13, POS 22 14, POS 22 15]"

definition BASE23 :: "tab_ptr list" where
  "BASE23 = [POS 23 0, POS 23 1, POS 23 2, POS 23 3, POS 23 4, POS 23 5, POS 23 6, POS 23 7,
     POS 23 8, POS 23 9, POS 23 10, POS 23 11, POS 23 12, POS 23 13, POS 23 14, POS 23 15]"

definition BASE24 :: "tab_ptr list" where
  "BASE24 = [POS 24 0, POS 24 1, POS 24 2, POS 24 3, POS 24 4, POS 24 5, POS 24 6, POS 24 7,
     POS 24 8, POS 24 9, POS 24 10, POS 24 11, POS 24 12, POS 24 13, POS 24 14, POS 24 15]"

definition BASE25 :: "tab_ptr list" where
  "BASE25 = [POS 25 0, POS 25 1, POS 25 2, POS 25 3, POS 25 4, POS 25 5, POS 25 6, POS 25 7,
     POS 25 8, POS 25 9, POS 25 10, POS 25 11, POS 25 12, POS 25 13, POS 25 14, POS 25 15]"

definition BASE26 :: "tab_ptr list" where
  "BASE26 = [POS 26 0, POS 26 1, POS 26 2, POS 26 3, POS 26 4, POS 26 5, POS 26 6, POS 26 7,
     POS 26 8, POS 26 9, POS 26 10, POS 26 11, POS 26 12, POS 26 13, POS 26 14, POS 26 15]"

definition BASE27 :: "tab_ptr list" where
  "BASE27 = [POS 27 0, POS 27 1, POS 27 2, POS 27 3, POS 27 4, POS 27 5, POS 27 6, POS 27 7,
     POS 27 8, POS 27 9, POS 27 10, POS 27 11, POS 27 12, POS 27 13, POS 27 14, POS 27 15]"

definition BASE28 :: "tab_ptr list" where
  "BASE28 = [POS 28 0, POS 28 1, POS 28 2, POS 28 3, POS 28 4, POS 28 5, POS 28 6, POS 28 7,
     POS 28 8, POS 28 9, POS 28 10, POS 28 11, POS 28 12, POS 28 13, POS 28 14, POS 28 15]"

definition BASE29 :: "tab_ptr list" where
  "BASE29 = [POS 29 0, POS 29 1, POS 29 2, POS 29 3, POS 29 4, POS 29 5, POS 29 6, POS 29 7,
     POS 29 8, POS 29 9, POS 29 10, POS 29 11, POS 29 12, POS 29 13, POS 29 14, POS 29 15]"

definition BASE30 :: "tab_ptr list" where
  "BASE30 = [POS 30 0, POS 30 1, POS 30 2, POS 30 3, POS 30 4, POS 30 5, POS 30 6, POS 30 7,
     POS 30 8, POS 30 9, POS 30 10, POS 30 11, POS 30 12, POS 30 13, POS 30 14, POS 30 15]"

definition BASE31 :: "tab_ptr list" where
  "BASE31 = [POS 31 0, POS 31 1, POS 31 2, POS 31 3, POS 31 4, POS 31 5, POS 31 6, POS 31 7,
     POS 31 8, POS 31 9, POS 31 10, POS 31 11, POS 31 12, POS 31 13, POS 31 14, POS 31 15]"

definition BASE32 :: "tab_ptr list" where
  "BASE32 = [POS 32 0, POS 32 1, POS 32 2, POS 32 3, POS 32 4, POS 32 5, POS 32 6, POS 32 7,
     POS 32 8, POS 32 9, POS 32 10, POS 32 11, POS 32 12, POS 32 13, POS 32 14, POS 32 15]"

definition BASE33 :: "tab_ptr list" where
  "BASE33 = [POS 33 0, POS 33 1, POS 33 2, POS 33 3, POS 33 4, POS 33 5, POS 33 6, POS 33 7,
     POS 33 8, POS 33 9, POS 33 10, POS 33 11, POS 33 12, POS 33 13, POS 33 14, POS 33 15]"

definition BASE34 :: "tab_ptr list" where
  "BASE34 = [POS 34 0, POS 34 1, POS 34 2, POS 34 3, POS 34 4, POS 34 5, POS 34 6, POS 34 7,
     POS 34 8, POS 34 9, POS 34 10, POS 34 11, POS 34 12, POS 34 13, POS 34 14, POS 34 15]"

definition BASE35 :: "tab_ptr list" where
  "BASE35 = [POS 35 0, POS 35 1, POS 35 2, POS 35 3, POS 35 4, POS 35 5, POS 35 6, POS 35 7,
     POS 35 8, POS 35 9, POS 35 10, POS 35 11, POS 35 12, POS 35 13, POS 35 14, POS 35 15]"

definition BASE36 :: "tab_ptr list" where
  "BASE36 = [POS 36 0, POS 36 1, POS 36 2, POS 36 3, POS 36 4, POS 36 5, POS 36 6, POS 36 7,
     POS 36 8, POS 36 9, POS 36 10, POS 36 11, POS 36 12, POS 36 13, POS 36 14, POS 36 15]"

definition BASE37 :: "tab_ptr list" where
  "BASE37 = [POS 37 0, POS 37 1, POS 37 2, POS 37 3, POS 37 4, POS 37 5, POS 37 6, POS 37 7,
     POS 37 8, POS 37 9, POS 37 10, POS 37 11, POS 37 12, POS 37 13, POS 37 14, POS 37 15]"

definition BASE38 :: "tab_ptr list" where
  "BASE38 = [POS 38 0, POS 38 1, POS 38 2, POS 38 3, POS 38 4, POS 38 5, POS 38 6, POS 38 7,
     POS 38 8, POS 38 9, POS 38 10, POS 38 11, POS 38 12, POS 38 13, POS 38 14, POS 38 15]"

definition BASE39 :: "tab_ptr list" where
  "BASE39 = [POS 39 0, POS 39 1, POS 39 2, POS 39 3, POS 39 4, POS 39 5, POS 39 6, POS 39 7,
     POS 39 8, POS 39 9, POS 39 10, POS 39 11, POS 39 12, POS 39 13, POS 39 14, POS 39 15]"

definition BASE40 :: "tab_ptr list" where
  "BASE40 = [POS 40 0, POS 40 1, POS 40 2, POS 40 3, POS 40 4, POS 40 5, POS 40 6, POS 40 7,
     POS 40 8, POS 40 9, POS 40 10, POS 40 11, POS 40 12, POS 40 13, POS 40 14, POS 40 15]"

definition BASE41 :: "tab_ptr list" where
  "BASE41 = [POS 41 0, POS 41 1, POS 41 2, POS 41 3, POS 41 4, POS 41 5, POS 41 6, POS 41 7,
     POS 41 8, POS 41 9, POS 41 10, POS 41 11, POS 41 12, POS 41 13, POS 41 14, POS 41 15]"

definition BASE42 :: "tab_ptr list" where
  "BASE42 = [POS 42 0, POS 42 1, POS 42 2, POS 42 3, POS 42 4, POS 42 5, POS 42 6, POS 42 7,
     POS 42 8, POS 42 9, POS 42 10, POS 42 11, POS 42 12, POS 42 13, POS 42 14, POS 42 15]"

definition BASE43 :: "tab_ptr list" where
  "BASE43 = [POS 43 0, POS 43 1, POS 43 2, POS 43 3, POS 43 4, POS 43 5, POS 43 6, POS 43 7,
     POS 43 8, POS 43 9, POS 43 10, POS 43 11, POS 43 12, POS 43 13, POS 43 14, POS 43 15]"

definition BASE44 :: "tab_ptr list" where
  "BASE44 = [POS 44 0, POS 44 1, POS 44 2, POS 44 3, POS 44 4, POS 44 5, POS 44 6, POS 44 7,
     POS 44 8, POS 44 9, POS 44 10, POS 44 11, POS 44 12, POS 44 13, POS 44 14, POS 44 15]"

definition BASE45 :: "tab_ptr list" where
  "BASE45 = [POS 45 0, POS 45 1, POS 45 2, POS 45 3, POS 45 4, POS 45 5, POS 45 6, POS 45 7,
     POS 45 8, POS 45 9, POS 45 10, POS 45 11, POS 45 12, POS 45 13, POS 45 14, POS 45 15]"

definition BASE46 :: "tab_ptr list" where
  "BASE46 = [POS 46 0, POS 46 1, POS 46 2, POS 46 3, POS 46 4, POS 46 5, POS 46 6, POS 46 7,
     POS 46 8, POS 46 9, POS 46 10, POS 46 11, POS 46 12, POS 46 13, POS 46 14, POS 46 15]"

definition BASE47 :: "tab_ptr list" where
  "BASE47 = [POS 47 0, POS 47 1, POS 47 2, POS 47 3, POS 47 4, POS 47 5, POS 47 6, POS 47 7,
     POS 47 8, POS 47 9, POS 47 10, POS 47 11, POS 47 12, POS 47 13, POS 47 14, POS 47 15]"

definition BASE48 :: "tab_ptr list" where
  "BASE48 = [POS 48 0, POS 48 1, POS 48 2, POS 48 3, POS 48 4, POS 48 5, POS 48 6, POS 48 7,
     POS 48 8, POS 48 9, POS 48 10, POS 48 11, POS 48 12, POS 48 13, POS 48 14, POS 48 15]"

definition BASE49 :: "tab_ptr list" where
  "BASE49 = [POS 49 0, POS 49 1, POS 49 2, POS 49 3, POS 49 4, POS 49 5, POS 49 6, POS 49 7,
     POS 49 8, POS 49 9, POS 49 10, POS 49 11, POS 49 12, POS 49 13, POS 49 14, POS 49 15]"

definition BASE50 :: "tab_ptr list" where
  "BASE50 = [POS 50 0, POS 50 1, POS 50 2, POS 50 3, POS 50 4, POS 50 5, POS 50 6, POS 50 7,
     POS 50 8, POS 50 9, POS 50 10, POS 50 11, POS 50 12, POS 50 13, POS 50 14, POS 50 15]"

definition BASE51 :: "tab_ptr list" where
  "BASE51 = [POS 51 0, POS 51 1, POS 51 2, POS 51 3, POS 51 4, POS 51 5, POS 51 6, POS 51 7,
     POS 51 8, POS 51 9, POS 51 10, POS 51 11, POS 51 12, POS 51 13, POS 51 14, POS 51 15]"

definition BASE52 :: "tab_ptr list" where
  "BASE52 = [POS 52 0, POS 52 1, POS 52 2, POS 52 3, POS 52 4, POS 52 5, POS 52 6, POS 52 7,
     POS 52 8, POS 52 9, POS 52 10, POS 52 11, POS 52 12, POS 52 13, POS 52 14, POS 52 15]"

definition BASE53 :: "tab_ptr list" where
  "BASE53 = [POS 53 0, POS 53 1, POS 53 2, POS 53 3, POS 53 4, POS 53 5, POS 53 6, POS 53 7,
     POS 53 8, POS 53 9, POS 53 10, POS 53 11, POS 53 12, POS 53 13, POS 53 14, POS 53 15]"

definition BASE54 :: "tab_ptr list" where
  "BASE54 = [POS 54 0, POS 54 1, POS 54 2, POS 54 3, POS 54 4, POS 54 5, POS 54 6, POS 54 7,
     POS 54 8, POS 54 9, POS 54 10, POS 54 11, POS 54 12, POS 54 13, POS 54 14, POS 54 15]"

definition BASE55 :: "tab_ptr list" where
  "BASE55 = [POS 55 0, POS 55 1, POS 55 2, POS 55 3, POS 55 4, POS 55 5, POS 55 6, POS 55 7,
     POS 55 8, POS 55 9, POS 55 10, POS 55 11, POS 55 12, POS 55 13, POS 55 14, POS 55 15]"

definition BASE56 :: "tab_ptr list" where
  "BASE56 = [POS 56 0, POS 56 1, POS 56 2, POS 56 3, POS 56 4, POS 56 5, POS 56 6, POS 56 7,
     POS 56 8, POS 56 9, POS 56 10, POS 56 11, POS 56 12, POS 56 13, POS 56 14, POS 56 15]"

definition BASE57 :: "tab_ptr list" where
  "BASE57 = [POS 57 0, POS 57 1, POS 57 2, POS 57 3, POS 57 4, POS 57 5, POS 57 6, POS 57 7,
     POS 57 8, POS 57 9, POS 57 10, POS 57 11, POS 57 12, POS 57 13, POS 57 14, POS 57 15]"

definition BASE58 :: "tab_ptr list" where
  "BASE58 = [POS 58 0, POS 58 1, POS 58 2, POS 58 3, POS 58 4, POS 58 5, POS 58 6, POS 58 7,
     POS 58 8, POS 58 9, POS 58 10, POS 58 11, POS 58 12, POS 58 13, POS 58 14, POS 58 15]"

definition BASE59 :: "tab_ptr list" where
  "BASE59 = [POS 59 0, POS 59 1, POS 59 2, POS 59 3, POS 59 4, POS 59 5, POS 59 6, POS 59 7,
     POS 59 8, POS 59 9, POS 59 10, POS 59 11, POS 59 12, POS 59 13, POS 59 14, POS 59 15]"

definition BASE60 :: "tab_ptr list" where
  "BASE60 = [POS 60 0, POS 60 1, POS 60 2, POS 60 3, POS 60 4, POS 60 5, POS 60 6, POS 60 7,
     POS 60 8, POS 60 9, POS 60 10, POS 60 11, POS 60 12, POS 60 13, POS 60 14, POS 60 15]"

definition BASE61 :: "tab_ptr list" where
  "BASE61 = [POS 61 0, POS 61 1, POS 61 2, POS 61 3, POS 61 4, POS 61 5, POS 61 6, POS 61 7,
     POS 61 8, POS 61 9, POS 61 10, POS 61 11, POS 61 12, POS 61 13, POS 61 14, POS 61 15]"

definition BASE62 :: "tab_ptr list" where
  "BASE62 = [POS 62 0, POS 62 1, POS 62 2, POS 62 3, POS 62 4, POS 62 5, POS 62 6, POS 62 7,
     POS 62 8, POS 62 9, POS 62 10, POS 62 11, POS 62 12, POS 62 13, POS 62 14, POS 62 15]"

definition BASE63 :: "tab_ptr list" where
  "BASE63 = [POS 63 0, POS 63 1, POS 63 2, POS 63 3, POS 63 4, POS 63 5, POS 63 6, POS 63 7,
     POS 63 8, POS 63 9, POS 63 10, POS 63 11, POS 63 12, POS 63 13, POS 63 14, POS 63 15]"

definition BASE64 :: "tab_ptr list" where
  "BASE64 = [POS 64 0, POS 64 1, POS 64 2, POS 64 3, POS 64 4, POS 64 5, POS 64 6, POS 64 7,
     POS 64 8, POS 64 9, POS 64 10, POS 64 11, POS 64 12, POS 64 13, POS 64 14, POS 64 15]"

definition BASE65 :: "tab_ptr list" where
  "BASE65 = [POS 65 0, POS 65 1, POS 65 2, POS 65 3, POS 65 4, POS 65 5, POS 65 6, POS 65 7,
     POS 65 8, POS 65 9, POS 65 10, POS 65 11, POS 65 12, POS 65 13, POS 65 14, POS 65 15]"

definition BASE66 :: "tab_ptr list" where
  "BASE66 = [POS 66 0, POS 66 1, POS 66 2, POS 66 3, POS 66 4, POS 66 5, POS 66 6, POS 66 7,
     POS 66 8, POS 66 9, POS 66 10, POS 66 11, POS 66 12, POS 66 13, POS 66 14, POS 66 15]"

definition BASE67 :: "tab_ptr list" where
  "BASE67 = [POS 67 0, POS 67 1, POS 67 2, POS 67 3, POS 67 4, POS 67 5, POS 67 6, POS 67 7,
     POS 67 8, POS 67 9, POS 67 10, POS 67 11, POS 67 12, POS 67 13, POS 67 14, POS 67 15]"

definition BASE68 :: "tab_ptr list" where
  "BASE68 = [POS 68 0, POS 68 1, POS 68 2, POS 68 3, POS 68 4, POS 68 5, POS 68 6, POS 68 7,
     POS 68 8, POS 68 9, POS 68 10, POS 68 11, POS 68 12, POS 68 13, POS 68 14, POS 68 15]"

definition BASE69 :: "tab_ptr list" where
  "BASE69 = [POS 69 0, POS 69 1, POS 69 2, POS 69 3, POS 69 4, POS 69 5, POS 69 6, POS 69 7,
     POS 69 8, POS 69 9, POS 69 10, POS 69 11, POS 69 12, POS 69 13, POS 69 14, POS 69 15]"

definition BASE70 :: "tab_ptr list" where
  "BASE70 = [POS 70 0, POS 70 1, POS 70 2, POS 70 3, POS 70 4, POS 70 5, POS 70 6, POS 70 7,
     POS 70 8, POS 70 9, POS 70 10, POS 70 11, POS 70 12, POS 70 13, POS 70 14, POS 70 15]"

definition BASE71 :: "tab_ptr list" where
  "BASE71 = [POS 71 0, POS 71 1, POS 71 2, POS 71 3, POS 71 4, POS 71 5, POS 71 6, POS 71 7,
     POS 71 8, POS 71 9, POS 71 10, POS 71 11, POS 71 12, POS 71 13, POS 71 14, POS 71 15]"

definition BASE72 :: "tab_ptr list" where
  "BASE72 = [POS 72 0, POS 72 1, POS 72 2, POS 72 3, POS 72 4, POS 72 5, POS 72 6, POS 72 7,
     POS 72 8, POS 72 9, POS 72 10, POS 72 11, POS 72 12, POS 72 13, POS 72 14, POS 72 15]"

definition BASE73 :: "tab_ptr list" where
  "BASE73 = [POS 73 0, POS 73 1, POS 73 2, POS 73 3, POS 73 4, POS 73 5, POS 73 6, POS 73 7,
     POS 73 8, POS 73 9, POS 73 10, POS 73 11, POS 73 12, POS 73 13, POS 73 14, POS 73 15]"

definition BASE74 :: "tab_ptr list" where
  "BASE74 = [POS 74 0, POS 74 1, POS 74 2, POS 74 3, POS 74 4, POS 74 5, POS 74 6, POS 74 7,
     POS 74 8, POS 74 9, POS 74 10, POS 74 11, POS 74 12, POS 74 13, POS 74 14, POS 74 15]"

definition BASE75 :: "tab_ptr list" where
  "BASE75 = [POS 75 0, POS 75 1, POS 75 2, POS 75 3, POS 75 4, POS 75 5, POS 75 6, POS 75 7,
     POS 75 8, POS 75 9, POS 75 10, POS 75 11, POS 75 12, POS 75 13, POS 75 14, POS 75 15]"

definition BASE76 :: "tab_ptr list" where
  "BASE76 = [POS 76 0, POS 76 1, POS 76 2, POS 76 3, POS 76 4, POS 76 5, POS 76 6, POS 76 7,
     POS 76 8, POS 76 9, POS 76 10, POS 76 11, POS 76 12, POS 76 13, POS 76 14, POS 76 15]"

definition BASE77 :: "tab_ptr list" where
  "BASE77 = [POS 77 0, POS 77 1, POS 77 2, POS 77 3, POS 77 4, POS 77 5, POS 77 6, POS 77 7,
     POS 77 8, POS 77 9, POS 77 10, POS 77 11, POS 77 12, POS 77 13, POS 77 14, POS 77 15]"

definition BASE78 :: "tab_ptr list" where
  "BASE78 = [POS 78 0, POS 78 1, POS 78 2, POS 78 3, POS 78 4, POS 78 5, POS 78 6, POS 78 7,
     POS 78 8, POS 78 9, POS 78 10, POS 78 11, POS 78 12, POS 78 13, POS 78 14, POS 78 15]"

definition BASE79 :: "tab_ptr list" where
  "BASE79 = [POS 79 0, POS 79 1, POS 79 2, POS 79 3, POS 79 4, POS 79 5, POS 79 6, POS 79 7,
     POS 79 8, POS 79 9, POS 79 10, POS 79 11, POS 79 12, POS 79 13, POS 79 14, POS 79 15]"

definition BASE80 :: "tab_ptr list" where
  "BASE80 = [POS 80 0, POS 80 1, POS 80 2, POS 80 3, POS 80 4, POS 80 5, POS 80 6, POS 80 7,
     POS 80 8, POS 80 9, POS 80 10, POS 80 11, POS 80 12, POS 80 13, POS 80 14, POS 80 15]"

definition BASE81 :: "tab_ptr list" where
  "BASE81 = [POS 81 0, POS 81 1, POS 81 2, POS 81 3, POS 81 4, POS 81 5, POS 81 6, POS 81 7,
     POS 81 8, POS 81 9, POS 81 10, POS 81 11, POS 81 12, POS 81 13, POS 81 14, POS 81 15]"

definition BASE82 :: "tab_ptr list" where
  "BASE82 = [POS 82 0, POS 82 1, POS 82 2, POS 82 3, POS 82 4, POS 82 5, POS 82 6, POS 82 7,
     POS 82 8, POS 82 9, POS 82 10, POS 82 11, POS 82 12, POS 82 13, POS 82 14, POS 82 15]"

definition BASE83 :: "tab_ptr list" where
  "BASE83 = [POS 83 0, POS 83 1, POS 83 2, POS 83 3, POS 83 4, POS 83 5, POS 83 6, POS 83 7,
     POS 83 8, POS 83 9, POS 83 10, POS 83 11, POS 83 12, POS 83 13, POS 83 14, POS 83 15]"

definition BASE84 :: "tab_ptr list" where
  "BASE84 = [POS 84 0, POS 84 1, POS 84 2, POS 84 3, POS 84 4, POS 84 5, POS 84 6, POS 84 7,
     POS 84 8, POS 84 9, POS 84 10, POS 84 11, POS 84 12, POS 84 13, POS 84 14, POS 84 15]"

definition BASE85 :: "tab_ptr list" where
  "BASE85 = [POS 85 0, POS 85 1, POS 85 2, POS 85 3, POS 85 4, POS 85 5, POS 85 6, POS 85 7,
     POS 85 8, POS 85 9, POS 85 10, POS 85 11, POS 85 12, POS 85 13, POS 85 14, POS 85 15]"

definition BASE86 :: "tab_ptr list" where
  "BASE86 = [POS 86 0, POS 86 1, POS 86 2, POS 86 3, POS 86 4, POS 86 5, POS 86 6, POS 86 7,
     POS 86 8, POS 86 9, POS 86 10, POS 86 11, POS 86 12, POS 86 13, POS 86 14, POS 86 15]"

definition BASE87 :: "tab_ptr list" where
  "BASE87 = [POS 87 0, POS 87 1, POS 87 2, POS 87 3, POS 87 4, POS 87 5, POS 87 6, POS 87 7,
     POS 87 8, POS 87 9, POS 87 10, POS 87 11, POS 87 12, POS 87 13, POS 87 14, POS 87 15]"

definition BASE88 :: "tab_ptr list" where
  "BASE88 = [POS 88 0, POS 88 1, POS 88 2, POS 88 3, POS 88 4, POS 88 5, POS 88 6, POS 88 7,
     POS 88 8, POS 88 9, POS 88 10, POS 88 11, POS 88 12, POS 88 13, POS 88 14, POS 88 15]"

definition BASE89 :: "tab_ptr list" where
  "BASE89 = [POS 89 0, POS 89 1, POS 89 2, POS 89 3, POS 89 4, POS 89 5, POS 89 6, POS 89 7,
     POS 89 8, POS 89 9, POS 89 10, POS 89 11, POS 89 12, POS 89 13, POS 89 14, POS 89 15]"

definition BASE90 :: "tab_ptr list" where
  "BASE90 = [POS 90 0, POS 90 1, POS 90 2, POS 90 3, POS 90 4, POS 90 5, POS 90 6, POS 90 7,
     POS 90 8, POS 90 9, POS 90 10, POS 90 11, POS 90 12, POS 90 13, POS 90 14, POS 90 15]"

definition BASE91 :: "tab_ptr list" where
  "BASE91 = [POS 91 0, POS 91 1, POS 91 2, POS 91 3, POS 91 4, POS 91 5, POS 91 6, POS 91 7,
     POS 91 8, POS 91 9, POS 91 10, POS 91 11, POS 91 12, POS 91 13, POS 91 14, POS 91 15]"

definition BASE92 :: "tab_ptr list" where
  "BASE92 = [POS 92 0, POS 92 1, POS 92 2, POS 92 3, POS 92 4, POS 92 5, POS 92 6, POS 92 7,
     POS 92 8, POS 92 9, POS 92 10, POS 92 11, POS 92 12, POS 92 13, POS 92 14, POS 92 15]"

definition BASE93 :: "tab_ptr list" where
  "BASE93 = [POS 93 0, POS 93 1, POS 93 2, POS 93 3, POS 93 4, POS 93 5, POS 93 6, POS 93 7,
     POS 93 8, POS 93 9, POS 93 10, POS 93 11, POS 93 12, POS 93 13, POS 93 14, POS 93 15]"

definition BASE94 :: "tab_ptr list" where
  "BASE94 = [POS 94 0, POS 94 1, POS 94 2, POS 94 3, POS 94 4, POS 94 5, POS 94 6, POS 94 7,
     POS 94 8, POS 94 9, POS 94 10, POS 94 11, POS 94 12, POS 94 13, POS 94 14, POS 94 15]"

definition BASE95 :: "tab_ptr list" where
  "BASE95 = [POS 95 0, POS 95 1, POS 95 2, POS 95 3, POS 95 4, POS 95 5, POS 95 6, POS 95 7,
     POS 95 8, POS 95 9, POS 95 10, POS 95 11, POS 95 12, POS 95 13, POS 95 14, POS 95 15]"

definition BASE96 :: "tab_ptr list" where
  "BASE96 = [POS 96 0, POS 96 1, POS 96 2, POS 96 3, POS 96 4, POS 96 5, POS 96 6, POS 96 7,
     POS 96 8, POS 96 9, POS 96 10, POS 96 11, POS 96 12, POS 96 13, POS 96 14, POS 96 15]"

definition BASE97 :: "tab_ptr list" where
  "BASE97 = [POS 97 0, POS 97 1, POS 97 2, POS 97 3, POS 97 4, POS 97 5, POS 97 6, POS 97 7,
     POS 97 8, POS 97 9, POS 97 10, POS 97 11, POS 97 12, POS 97 13, POS 97 14, POS 97 15]"

definition BASE98 :: "tab_ptr list" where
  "BASE98 = [POS 98 0, POS 98 1, POS 98 2, POS 98 3, POS 98 4, POS 98 5, POS 98 6, POS 98 7,
     POS 98 8, POS 98 9, POS 98 10, POS 98 11, POS 98 12, POS 98 13, POS 98 14, POS 98 15]"

definition BASE99 :: "tab_ptr list" where
  "BASE99 = [POS 99 0, POS 99 1, POS 99 2, POS 99 3, POS 99 4, POS 99 5, POS 99 6, POS 99 7,
     POS 99 8, POS 99 9, POS 99 10, POS 99 11, POS 99 12, POS 99 13, POS 99 14, POS 99 15]"

definition BASE100 :: "tab_ptr list" where
  "BASE100 = [POS 100 0, POS 100 1, POS 100 2, POS 100 3, POS 100 4, POS 100 5, POS 100 6, POS 100 7,
     POS 100 8, POS 100 9, POS 100 10, POS 100 11, POS 100 12, POS 100 13, POS 100 14, POS 100 15]"

definition BASE101 :: "tab_ptr list" where
  "BASE101 = [POS 101 0, POS 101 1, POS 101 2, POS 101 3, POS 101 4, POS 101 5, POS 101 6, POS 101 7,
     POS 101 8, POS 101 9, POS 101 10, POS 101 11, POS 101 12, POS 101 13, POS 101 14, POS 101 15]"

definition BASE102 :: "tab_ptr list" where
  "BASE102 = [POS 102 0, POS 102 1, POS 102 2, POS 102 3, POS 102 4, POS 102 5, POS 102 6, POS 102 7,
     POS 102 8, POS 102 9, POS 102 10, POS 102 11, POS 102 12, POS 102 13, POS 102 14, POS 102 15]"

definition BASE103 :: "tab_ptr list" where
  "BASE103 = [POS 103 0, POS 103 1, POS 103 2, POS 103 3, POS 103 4, POS 103 5, POS 103 6, POS 103 7,
     POS 103 8, POS 103 9, POS 103 10, POS 103 11, POS 103 12, POS 103 13, POS 103 14, POS 103 15]"

definition BASE104 :: "tab_ptr list" where
  "BASE104 = [POS 104 0, POS 104 1, POS 104 2, POS 104 3, POS 104 4, POS 104 5, POS 104 6, POS 104 7,
     POS 104 8, POS 104 9, POS 104 10, POS 104 11, POS 104 12, POS 104 13, POS 104 14, POS 104 15]"

definition BASE105 :: "tab_ptr list" where
  "BASE105 = [POS 105 0, POS 105 1, POS 105 2, POS 105 3, POS 105 4, POS 105 5, POS 105 6, POS 105 7,
     POS 105 8, POS 105 9, POS 105 10, POS 105 11, POS 105 12, POS 105 13, POS 105 14, POS 105 15]"

definition BASE106 :: "tab_ptr list" where
  "BASE106 = [POS 106 0, POS 106 1, POS 106 2, POS 106 3, POS 106 4, POS 106 5, POS 106 6, POS 106 7,
     POS 106 8, POS 106 9, POS 106 10, POS 106 11, POS 106 12, POS 106 13, POS 106 14, POS 106 15]"

definition BASE107 :: "tab_ptr list" where
  "BASE107 = [POS 107 0, POS 107 1, POS 107 2, POS 107 3, POS 107 4, POS 107 5, POS 107 6, POS 107 7,
     POS 107 8, POS 107 9, POS 107 10, POS 107 11, POS 107 12, POS 107 13, POS 107 14, POS 107 15]"

definition BASE108 :: "tab_ptr list" where
  "BASE108 = [POS 108 0, POS 108 1, POS 108 2, POS 108 3, POS 108 4, POS 108 5, POS 108 6, POS 108 7,
     POS 108 8, POS 108 9, POS 108 10, POS 108 11, POS 108 12, POS 108 13, POS 108 14, POS 108 15]"

definition BASE109 :: "tab_ptr list" where
  "BASE109 = [POS 109 0, POS 109 1, POS 109 2, POS 109 3, POS 109 4, POS 109 5, POS 109 6, POS 109 7,
     POS 109 8, POS 109 9, POS 109 10, POS 109 11, POS 109 12, POS 109 13, POS 109 14, POS 109 15]"

definition BASE110 :: "tab_ptr list" where
  "BASE110 = [POS 110 0, POS 110 1, POS 110 2, POS 110 3, POS 110 4, POS 110 5, POS 110 6, POS 110 7,
     POS 110 8, POS 110 9, POS 110 10, POS 110 11, POS 110 12, POS 110 13, POS 110 14, POS 110 15]"

definition BASE111 :: "tab_ptr list" where
  "BASE111 = [POS 111 0, POS 111 1, POS 111 2, POS 111 3, POS 111 4, POS 111 5, POS 111 6, POS 111 7,
     POS 111 8, POS 111 9, POS 111 10, POS 111 11, POS 111 12, POS 111 13, POS 111 14, POS 111 15]"

definition BASE112 :: "tab_ptr list" where
  "BASE112 = [POS 112 0, POS 112 1, POS 112 2, POS 112 3, POS 112 4, POS 112 5, POS 112 6, POS 112 7,
     POS 112 8, POS 112 9, POS 112 10, POS 112 11, POS 112 12, POS 112 13, POS 112 14, POS 112 15]"

definition BASE113 :: "tab_ptr list" where
  "BASE113 = [POS 113 0, POS 113 1, POS 113 2, POS 113 3, POS 113 4, POS 113 5, POS 113 6, POS 113 7,
     POS 113 8, POS 113 9, POS 113 10, POS 113 11, POS 113 12, POS 113 13, POS 113 14, POS 113 15]"

text \<open>The cases of the \<open>switch\<close> of \<open>c_get_table\<close>, in their order.\<close>

definition get_table_cases :: "(nat \<times> tab_ptr list) list" where
  "get_table_cases =
     [(5, BASE5), (6, BASE6), (7, BASE7), (8, BASE8),
      (9, BASE9), (10, BASE10), (11, BASE11), (12, BASE12),
      (13, BASE13), (14, BASE14), (15, BASE15), (16, BASE16),
      (17, BASE17), (18, BASE18), (19, BASE19), (20, BASE20),
      (21, BASE21), (22, BASE22), (23, BASE23), (24, BASE24),
      (25, BASE25), (26, BASE26), (27, BASE27), (28, BASE28),
      (29, BASE29), (30, BASE30), (31, BASE31), (32, BASE32),
      (33, BASE33), (34, BASE34), (35, BASE35), (36, BASE36),
      (37, BASE37), (38, BASE38), (39, BASE39), (40, BASE40),
      (41, BASE41), (42, BASE42), (43, BASE43), (44, BASE44),
      (45, BASE45), (46, BASE46), (47, BASE47), (48, BASE48),
      (49, BASE49), (50, BASE50), (51, BASE51), (52, BASE52),
      (53, BASE53), (54, BASE54), (55, BASE55), (56, BASE56),
      (57, BASE57), (58, BASE58), (59, BASE59), (60, BASE60),
      (61, BASE61), (62, BASE62), (63, BASE63), (64, BASE64),
      (65, BASE65), (66, BASE66), (67, BASE67), (68, BASE68),
      (69, BASE69), (70, BASE70), (71, BASE71), (72, BASE72),
      (73, BASE73), (74, BASE74), (75, BASE75), (76, BASE76),
      (77, BASE77), (78, BASE78), (79, BASE79), (80, BASE80),
      (81, BASE81), (82, BASE82), (83, BASE83), (84, BASE84),
      (85, BASE85), (86, BASE86), (87, BASE87), (88, BASE88),
      (89, BASE89), (90, BASE90), (91, BASE91), (92, BASE92),
      (93, BASE93), (94, BASE94), (95, BASE95), (96, BASE96),
      (97, BASE97), (98, BASE98), (99, BASE99), (100, BASE100),
      (101, BASE101), (102, BASE102), (103, BASE103), (104, BASE104),
      (105, BASE105), (106, BASE106), (107, BASE107), (108, BASE108),
      (109, BASE109), (110, BASE110), (111, BASE111), (112, BASE112),
      (113, BASE113)]"

definition c_get_table :: "nat \<Rightarrow> nat \<Rightarrow> tab_ptr run" where
  "c_get_table base pos =
     (case map_of get_table_cases base of
        Some arr \<Rightarrow> read_at arr pos
      | None \<Rightarrow> Inr NULL)"

section \<open>The digit counts\<close>

definition NDIGITS_BASE5 :: "nat list" where
  "NDIGITS_BASE5 = [4, 7, 11, 14, 18, 21, 25, 28, 32, 35, 38, 42, 45, 49, 52, 56]"

definition NDIGITS_BASE6 :: "nat list" where
  "NDIGITS_BASE6 = [4, 7, 10, 13, 16, 19, 22, 25, 28, 31, 35, 38, 41, 44, 47, 50]"

definition NDIGITS_BASE7 :: "nat list" where
  "NDIGITS_BASE7 = [3, 6, 9, 12, 15, 18, 20, 23, 26, 29, 32, 35, 38, 40, 43, 46]"

definition NDIGITS_BASE8 :: "nat list" where
  "NDIGITS_BASE8 = [3, 6, 8, 11, 14, 16, 19, 22, 24, 27, 30, 32, 35, 38, 40, 43]"

definition NDIGITS_BASE9 :: "nat list" where
  "NDIGITS_BASE9 = [3, 6, 8, 11, 13, 16, 18, 21, 23, 26, 28, 31, 33, 36, 38, 41]"

definition NDIGITS_BASE10 :: "nat list" where
  "NDIGITS_BASE10 = [3, 5, 8, 10, 13, 15, 17, 20, 22, 25, 27, 29, 32, 34, 37, 39]"

definition NDIGITS_BASE11 :: "nat list" where
  "NDIGITS_BASE11 = [3, 5, 7, 10, 12, 14, 17, 19, 21, 24, 26, 28, 31, 33, 35, 37]"

definition NDIGITS_BASE12 :: "nat list" where
  "NDIGITS_BASE12 = [3, 5, 7, 9, 12, 14, 16, 18, 21, 23, 25, 27, 30, 32, 34, 36]"

definition NDIGITS_BASE13 :: "nat list" where
  "NDIGITS_BASE13 = [3, 5, 7, 9, 11, 13, 16, 18, 20, 22, 24, 26, 29, 31, 33, 35]"

definition NDIGITS_BASE14 :: "nat list" where
  "NDIGITS_BASE14 = [3, 5, 7, 9, 11, 13, 15, 17, 19, 22, 24, 26, 28, 30, 32, 34]"

definition NDIGITS_BASE15 :: "nat list" where
  "NDIGITS_BASE15 = [3, 5, 7, 9, 11, 13, 15, 17, 19, 21, 23, 25, 27, 29, 31, 33]"

definition NDIGITS_BASE16 :: "nat list" where
  "NDIGITS_BASE16 = [2, 4, 6, 8, 10, 12, 14, 16, 18, 20, 22, 24, 26, 28, 30, 32]"

definition NDIGITS_BASE17 :: "nat list" where
  "NDIGITS_BASE17 = [2, 4, 6, 8, 10, 12, 14, 16, 18, 20, 22, 24, 26, 28, 30, 32]"

definition NDIGITS_BASE18 :: "nat list" where
  "NDIGITS_BASE18 = [2, 4, 6, 8, 10, 12, 14, 16, 18, 20, 22, 24, 25, 27, 29, 31]"

definition NDIGITS_BASE19 :: "nat list" where
  "NDIGITS_BASE19 = [2, 4, 6, 8, 10, 12, 14, 16, 17, 19, 21, 23, 25, 27, 29, 31]"

definition NDIGITS_BASE20 :: "nat list" where
  "NDIGITS_BASE20 = [2, 4, 6, 8, 10, 12, 13, 15, 17, 19, 21, 23, 25, 26, 28, 30]"

definition NDIGITS_BASE21 :: "nat list" where
  "NDIGITS_BASE21 = [2, 4, 6, 8, 10, 11, 13, 15, 17, 19, 21, 22, 24, 26, 28, 30]"

definition NDIGITS_BASE22 :: "nat list" where
  "NDIGITS_BASE22 = [2, 4, 6, 8, 9, 11, 13, 15, 17, 18, 20, 22, 24, 26, 27, 29]"

definition NDIGITS_BASE23 :: "nat list" where
  "NDIGITS_BASE23 = [2, 4, 6, 8, 9, 11, 13, 15, 16, 18, 20, 22, 23, 25, 27, 29]"

definition NDIGITS_BASE24 :: "nat list" where
  "NDIGITS_BASE24 = [2, 4, 6, 7, 9, 11, 13, 14, 16, 18, 20, 21, 23, 25, 27, 28]"

definition NDIGITS_BASE25 :: "nat list" where
  "NDIGITS_BASE25 = [2, 4, 6, 7, 9, 11, 13, 14, 16, 18, 19, 21, 23, 25, 26, 28]"

definition NDIGITS_BASE26 :: "nat list" where
  "NDIGITS_BASE26 = [2, 4, 6, 7, 9, 11, 12, 14, 16, 18, 19, 21, 23, 24, 26, 28]"

definition NDIGITS_BASE27 :: "nat list" where
  "NDIGITS_BASE27 = [2, 4, 6, 7, 9, 11, 12, 14, 16, 17, 19, 21, 22, 24, 26, 27]"

definition NDIGITS_BASE28 :: "nat list" where
  "NDIGITS_BASE28 = [2, 4, 5, 7, 9, 10, 12, 14, 15, 17, 19, 20, 22, 24, 25, 27]"

definition NDIGITS_BASE29 :: "nat list" where
  "NDIGITS_BASE29 = [2, 4, 5, 7, 9, 10, 12, 14, 15, 17, 19, 20, 22, 24, 25, 27]"

definition NDIGITS_BASE30 :: "nat list" where
  "NDIGITS_BASE30 = [2, 4, 5, 7, 9, 10, 12, 14, 15, 17, 18, 20, 22, 23, 25, 27]"

definition NDIGITS_BASE31 :: "nat list" where
  "NDIGITS_BASE31 = [2, 4, 5, 7, 9, 10, 12, 13, 15, 17, 18, 20, 21, 23, 25, 26]"

definition NDIGITS_BASE32 :: "nat list" where
  "NDIGITS_BASE32 = [2, 4, 5, 7, 8, 10, 12, 13, 15, 16, 18, 20, 21, 23, 24, 26]"

definition NDIGITS_BASE33 :: "nat list" where
  "NDIGITS_BASE33 = [2, 4, 5, 7, 8, 10, 12, 13, 15, 16, 18, 20, 21, 23, 24, 26]"

definition NDIGITS_BASE34 :: "nat list" where
  "NDIGITS_BASE34 = [2, 4, 5, 7, 8, 10, 12, 13, 15, 16, 18, 19, 21, 23, 24, 26]"

definition NDIGITS_BASE35 :: "nat list" where
  "NDIGITS_BASE35 = [2, 4, 5, 7, 8, 10, 11, 13, 15, 16, 18, 19, 21, 22, 24, 25]"

definition NDIGITS_BASE36 :: "nat list" where
  "NDIGITS_BASE36 = [2, 4, 5, 7, 8, 10, 11, 13, 14, 16, 18, 19, 21, 22, 24, 25]"

definition NDIGITS_BASE37 :: "nat list" where
  "NDIGITS_BASE37 = [2, 4, 5, 7, 8, 10, 11, 13, 14, 16, 17, 19, 20, 22, 24, 25]"

definition NDIGITS_BASE38 :: "nat list" where
  "NDIGITS_BASE38 = [2, 4, 5, 7, 8, 10, 11, 13, 14, 16, 17, 19, 20, 22, 23, 25]"

definition NDIGITS_BASE39 :: "nat list" where
  "NDIGITS_BASE39 = [2, 4, 5, 7, 8, 10, 11, 13, 14, 16, 17, 19, 20, 22, 23, 25]"

definition NDIGITS_BASE40 :: "nat list" where
  "NDIGITS_BASE40 = [2, 4, 5, 7, 8, 10, 11, 13, 14, 16, 17, 19, 20, 22, 23, 25]"

definition NDIGITS_BASE41 :: "nat list" where
  "NDIGITS_BASE41 = [2, 3, 5, 6, 8, 9, 11, 12, 14, 15, 17, 18, 20, 21, 23, 24]"

definition NDIGITS_BASE42 :: "nat list" where
  "NDIGITS_BASE42 = [2, 3, 5, 6, 8, 9, 11, 12, 14, 15, 17, 18, 20, 21, 23, 24]"

definition NDIGITS_BASE43 :: "nat list" where
  "NDIGITS_BASE43 = [2, 3, 5, 6, 8, 9, 11, 12, 14, 15, 17, 18, 20, 21, 23, 24]"

definition NDIGITS_BASE44 :: "nat list" where
  "NDIGITS_BASE44 = [2, 3, 5, 6, 8, 9, 11, 12, 14, 15, 17, 18, 20, 21, 22, 24]"

definition NDIGITS_BASE45 :: "nat list" where
  "NDIGITS_BASE45 = [2, 3, 5, 6, 8, 9, 11, 12, 14, 15, 17, 18, 19, 21, 22, 24]"

definition NDIGITS_BASE46 :: "nat list" where
  "NDIGITS_BASE46 = [2, 3, 5, 6, 8, 9, 11, 12, 14, 15, 16, 18, 19, 21, 22, 24]"

definition NDIGITS_BASE47 :: "nat list" where
  "NDIGITS_BASE47 = [2, 3, 5, 6, 8, 9, 11, 12, 13, 15, 16, 18, 19, 21, 22, 24]"

definition NDIGITS_BASE48 :: "nat list" where
  "NDIGITS_BASE48 = [2, 3, 5, 6, 8, 9, 11, 12, 13, 15, 16, 18, 19, 21, 22, 23]"

definition NDIGITS_BASE49 :: "nat list" where
  "NDIGITS_BASE49 = [2, 3, 5, 6, 8, 9, 10, 12, 13, 15, 16, 18, 19, 20, 22, 23]"

definition NDIGITS_BASE50 :: "nat list" where
  "NDIGITS_BASE50 = [2, 3, 5, 6, 8, 9, 10, 12, 13, 15, 16, 18, 19, 20, 22, 23]"

definition NDIGITS_BASE51 :: "nat list" where
  "NDIGITS_BASE51 = [2, 3, 5, 6, 8, 9, 10, 12, 13, 15, 16, 17, 19, 20, 22, 23]"

definition NDIGITS_BASE52 :: "nat list" where
  "NDIGITS_BASE52 = [2, 3, 5, 6, 8, 9, 10, 12, 13, 15, 16, 17, 19, 20, 22, 23]"

definition NDIGITS_BASE53 :: "nat list" where
  "NDIGITS_BASE53 = [2, 3, 5, 6, 7, 9, 10, 12, 13, 14, 16, 17, 19, 20, 21, 23]"

definition NDIGITS_BASE54 :: "nat list" where
  "NDIGITS_BASE54 = [2, 3, 5, 6, 7, 9, 10, 12, 13, 14, 16, 17, 19, 20, 21, 23]"

definition NDIGITS_BASE55 :: "nat list" where
  "NDIGITS_BASE55 = [2, 3, 5, 6, 7, 9, 10, 12, 13, 14, 16, 17, 18, 20, 21, 23]"

definition NDIGITS_BASE56 :: "nat list" where
  "NDIGITS_BASE56 = [2, 3, 5, 6, 7, 9, 10, 12, 13, 14, 16, 17, 18, 20, 21, 23]"

definition NDIGITS_BASE57 :: "nat list" where
  "NDIGITS_BASE57 = [2, 3, 5, 6, 7, 9, 10, 11, 13, 14, 16, 17, 18, 20, 21, 22]"

definition NDIGITS_BASE58 :: "nat list" where
  "NDIGITS_BASE58 = [2, 3, 5, 6, 7, 9, 10, 11, 13, 14, 16, 17, 18, 20, 21, 22]"

definition NDIGITS_BASE59 :: "nat list" where
  "NDIGITS_BASE59 = [2, 3, 5, 6, 7, 9, 10, 11, 13, 14, 15, 17, 18, 20, 21, 22]"

definition NDIGITS_BASE60 :: "nat list" where
  "NDIGITS_BASE60 = [2, 3, 5, 6, 7, 9, 10, 11, 13, 14, 15, 17, 18, 19, 21, 22]"

definition NDIGITS_BASE61 :: "nat list" where
  "NDIGITS_BASE61 = [2, 3, 5, 6, 7, 9, 10, 11, 13, 14, 15, 17, 18, 19, 21, 22]"

definition NDIGITS_BASE62 :: "nat list" where
  "NDIGITS_BASE62 = [2, 3, 5, 6, 7, 9, 10, 11, 13, 14, 15, 17, 18, 19, 21, 22]"

definition NDIGITS_BASE63 :: "nat list" where
  "NDIGITS_BASE63 = [2, 3, 5, 6, 7, 9, 10, 11, 13, 14, 15, 17, 18, 19, 21, 22]"

definition NDIGITS_BASE64 :: "nat list" where
  "NDIGITS_BASE64 = [2, 3, 4, 6, 7, 8, 10, 11, 12, 14, 15, 16, 18, 19, 20, 22]"

definition NDIGITS_BASE65 :: "nat list" where
  "NDIGITS_BASE65 = [2, 3, 4, 6, 7, 8, 10, 11, 12, 14, 15, 16, 18, 19, 20, 22]"

definition NDIGITS_BASE66 :: "nat list" where
  "NDIGITS_BASE66 = [2, 3, 4, 6, 7, 8, 10, 11, 12, 14, 15, 16, 18, 19, 20, 22]"

definition NDIGITS_BASE67 :: "nat list" where
  "NDIGITS_BASE67 = [2, 3, 4, 6, 7, 8, 10, 11, 12, 14, 15, 16, 18, 19, 20, 22]"

definition NDIGITS_BASE68 :: "nat list" where
  "NDIGITS_BASE68 = [2, 3, 4, 6, 7, 8, 10, 11, 12, 14, 15, 16, 18, 19, 20, 22]"

definition NDIGITS_BASE69 :: "nat list" where
  "NDIGITS_BASE69 = [2, 3, 4, 6, 7, 8, 10, 11, 12, 14, 15, 16, 18, 19, 20, 21]"

definition NDIGITS_BASE70 :: "nat list" where
  "NDIGITS_BASE70 = [2, 3, 4, 6, 7, 8, 10, 11, 12, 14, 15, 16, 17, 19, 20, 21]"

definition NDIGITS_BASE71 :: "nat list" where
  "NDIGITS_BASE71 = [2, 3, 4, 6, 7, 8, 10, 11, 12, 14, 15, 16, 17, 19, 20, 21]"

definition NDIGITS_BASE72 :: "nat list" where
  "NDIGITS_BASE72 = [2, 3, 4, 6, 7, 8, 10, 11, 12, 13, 15, 16, 17, 19, 20, 21]"

definition NDIGITS_BASE73 :: "nat list" where
  "NDIGITS_BASE73 = [2, 3, 4, 6, 7, 8, 10, 11, 12, 13, 15, 16, 17, 19, 20, 21]"

definition NDIGITS_BASE74 :: "nat list" where
  "NDIGITS_BASE74 = [2, 3, 4, 6, 7, 8, 10, 11, 12, 13, 15, 16, 17, 19, 20, 21]"

definition NDIGITS_BASE75 :: "nat list" where
  "NDIGITS_BASE75 = [2, 3, 4, 6, 7, 8, 9, 11, 12, 13, 15, 16, 17, 18, 20, 21]"

definition NDIGITS_BASE76 :: "nat list" where
  "NDIGITS_BASE76 = [2, 3, 4, 6, 7, 8, 9, 11, 12, 13, 15, 16, 17, 18, 20, 21]"

definition NDIGITS_BASE77 :: "nat list" where
  "NDIGITS_BASE77 = [2, 3, 4, 6, 7, 8, 9, 11, 12, 13, 15, 16, 17, 18, 20, 21]"

definition NDIGITS_BASE78 :: "nat list" where
  "NDIGITS_BASE78 = [2, 3, 4, 6, 7, 8, 9, 11, 12, 13, 14, 16, 17, 18, 20, 21]"

definition NDIGITS_BASE79 :: "nat list" where
  "NDIGITS_BASE79 = [2, 3, 4, 6, 7, 8, 9, 11, 12, 13, 14, 16, 17, 18, 20, 21]"

definition NDIGITS_BASE80 :: "nat list" where
  "NDIGITS_BASE80 = [2, 3, 4, 6, 7, 8, 9, 11, 12, 13, 14, 16, 17, 18, 19, 21]"

definition NDIGITS_BASE81 :: "nat list" where
  "NDIGITS_BASE81 = [2, 3, 4, 6, 7, 8, 9, 11, 12, 13, 14, 16, 17, 18, 19, 21]"

definition NDIGITS_BASE82 :: "nat list" where
  "NDIGITS_BASE82 = [2, 3, 4, 6, 7, 8, 9, 11, 12, 13, 14, 16, 17, 18, 19, 21]"

definition NDIGITS_BASE83 :: "nat list" where
  "NDIGITS_BASE83 = [2, 3, 4, 6, 7, 8, 9, 11, 12, 13, 14, 16, 17, 18, 19, 21]"

definition NDIGITS_BASE84 :: "nat list" where
  "NDIGITS_BASE84 = [2, 3, 4, 6, 7, 8, 9, 11, 12, 13, 14, 16, 17, 18, 19, 21]"

definition NDIGITS_BASE85 :: "nat list" where
  "NDIGITS_BASE85 = [2, 3, 4, 5, 7, 8, 9, 10, 12, 13, 14, 15, 17, 18, 19, 20]"

definition NDIGITS_BASE86 :: "nat list" where
  "NDIGITS_BASE86 = [2, 3, 4, 5, 7, 8, 9, 10, 12, 13, 14, 15, 17, 18, 19, 20]"

definition NDIGITS_BASE87 :: "nat list" where
  "NDIGITS_BASE87 = [2, 3, 4, 5, 7, 8, 9, 10, 12, 13, 14, 15, 17, 18, 19, 20]"

definition NDIGITS_BASE88 :: "nat list" where
  "NDIGITS_BASE88 = [2, 3, 4, 5, 7, 8, 9, 10, 12, 13, 14, 15, 17, 18, 19, 20]"

definition NDIGITS_BASE89 :: "nat list" where
  "NDIGITS_BASE89 = [2, 3, 4, 5, 7, 8, 9, 10, 12, 13, 14, 15, 17, 18, 19, 20]"

definition NDIGITS_BASE90 :: "nat list" where
  "NDIGITS_BASE90 = [2, 3, 4, 5, 7, 8, 9, 10, 12, 13, 14, 15, 17, 18, 19, 20]"

definition NDIGITS_BASE91 :: "nat list" where
  "NDIGITS_BASE91 = [2, 3, 4, 5, 7, 8, 9, 10, 12, 13, 14, 15, 16, 18, 19, 20]"

definition NDIGITS_BASE92 :: "nat list" where
  "NDIGITS_BASE92 = [2, 3, 4, 5, 7, 8, 9, 10, 12, 13, 14, 15, 16, 18, 19, 20]"

definition NDIGITS_BASE93 :: "nat list" where
  "NDIGITS_BASE93 = [2, 3, 4, 5, 7, 8, 9, 10, 12, 13, 14, 15, 16, 18, 19, 20]"

definition NDIGITS_BASE94 :: "nat list" where
  "NDIGITS_BASE94 = [2, 3, 4, 5, 7, 8, 9, 10, 11, 13, 14, 15, 16, 18, 19, 20]"

definition NDIGITS_BASE95 :: "nat list" where
  "NDIGITS_BASE95 = [2, 3, 4, 5, 7, 8, 9, 10, 11, 13, 14, 15, 16, 18, 19, 20]"

definition NDIGITS_BASE96 :: "nat list" where
  "NDIGITS_BASE96 = [2, 3, 4, 5, 7, 8, 9, 10, 11, 13, 14, 15, 16, 18, 19, 20]"

definition NDIGITS_BASE97 :: "nat list" where
  "NDIGITS_BASE97 = [2, 3, 4, 5, 7, 8, 9, 10, 11, 13, 14, 15, 16, 17, 19, 20]"

definition NDIGITS_BASE98 :: "nat list" where
  "NDIGITS_BASE98 = [2, 3, 4, 5, 7, 8, 9, 10, 11, 13, 14, 15, 16, 17, 19, 20]"

definition NDIGITS_BASE99 :: "nat list" where
  "NDIGITS_BASE99 = [2, 3, 4, 5, 7, 8, 9, 10, 11, 13, 14, 15, 16, 17, 19, 20]"

definition NDIGITS_BASE100 :: "nat list" where
  "NDIGITS_BASE100 = [2, 3, 4, 5, 7, 8, 9, 10, 11, 13, 14, 15, 16, 17, 19, 20]"

definition NDIGITS_BASE101 :: "nat list" where
  "NDIGITS_BASE101 = [2, 3, 4, 5, 7, 8, 9, 10, 11, 13, 14, 15, 16, 17, 19, 20]"

definition NDIGITS_BASE102 :: "nat list" where
  "NDIGITS_BASE102 = [2, 3, 4, 5, 6, 8, 9, 10, 11, 12, 14, 15, 16, 17, 18, 20]"

definition NDIGITS_BASE103 :: "nat list" where
  "NDIGITS_BASE103 = [2, 3, 4, 5, 6, 8, 9, 10, 11, 12, 14, 15, 16, 17, 18, 20]"

definition NDIGITS_BASE104 :: "nat list" where
  "NDIGITS_BASE104 = [2, 3, 4, 5, 6, 8, 9, 10, 11, 12, 14, 15, 16, 17, 18, 20]"

definition NDIGITS_BASE105 :: "nat list" where
  "NDIGITS_BASE105 = [2, 3, 4, 5, 6, 8, 9, 10, 11, 12, 14, 15, 16, 17, 18, 20]"

definition NDIGITS_BASE106 :: "nat list" where
  "NDIGITS_BASE106 = [2, 3, 4, 5, 6, 8, 9, 10, 11, 12, 14, 15, 16, 17, 18, 20]"

definition NDIGITS_BASE107 :: "nat list" where
  "NDIGITS_BASE107 = [2, 3, 4, 5, 6, 8, 9, 10, 11, 12, 14, 15, 16, 17, 18, 19]"

definition NDIGITS_BASE108 :: "nat list" where
  "NDIGITS_BASE108 = [2, 3, 4, 5, 6, 8, 9, 10, 11, 12, 14, 15, 16, 17, 18, 19]"

definition NDIGITS_BASE109 :: "nat list" where
  "NDIGITS_BASE109 = [2, 3, 4, 5, 6, 8, 9, 10, 11, 12, 14, 15, 16, 17, 18, 19]"

definition NDIGITS_BASE110 :: "nat list" where
  "NDIGITS_BASE110 = [2, 3, 4, 5, 6, 8, 9, 10, 11, 12, 13, 15, 16, 17, 18, 19]"

definition NDIGITS_BASE111 :: "nat list" where
  "NDIGITS_BASE111 = [2, 3, 4, 5, 6, 8, 9, 10, 11, 12, 13, 15, 16, 17, 18, 19]"

definition NDIGITS_BASE112 :: "nat list" where
  "NDIGITS_BASE112 = [2, 3, 4, 5, 6, 8, 9, 10, 11, 12, 13, 15, 16, 17, 18, 19]"

definition NDIGITS_BASE113 :: "nat list" where
  "NDIGITS_BASE113 = [2, 3, 4, 5, 6, 8, 9, 10, 11, 12, 13, 15, 16, 17, 18, 19]"

text \<open>\<open>c_num_digits\<close> converts the \<open>size_t\<close> count to its return type \<open>uint16_t\<close>.\<close>

definition num_digits_cases :: "(nat \<times> nat list) list" where
  "num_digits_cases =
     [(5, NDIGITS_BASE5), (6, NDIGITS_BASE6), (7, NDIGITS_BASE7), (8, NDIGITS_BASE8),
      (9, NDIGITS_BASE9), (10, NDIGITS_BASE10), (11, NDIGITS_BASE11), (12, NDIGITS_BASE12),
      (13, NDIGITS_BASE13), (14, NDIGITS_BASE14), (15, NDIGITS_BASE15), (16, NDIGITS_BASE16),
      (17, NDIGITS_BASE17), (18, NDIGITS_BASE18), (19, NDIGITS_BASE19), (20, NDIGITS_BASE20),
      (21, NDIGITS_BASE21), (22, NDIGITS_BASE22), (23, NDIGITS_BASE23), (24, NDIGITS_BASE24),
      (25, NDIGITS_BASE25), (26, NDIGITS_BASE26), (27, NDIGITS_BASE27), (28, NDIGITS_BASE28),
      (29, NDIGITS_BASE29), (30, NDIGITS_BASE30), (31, NDIGITS_BASE31), (32, NDIGITS_BASE32),
      (33, NDIGITS_BASE33), (34, NDIGITS_BASE34), (35, NDIGITS_BASE35), (36, NDIGITS_BASE36),
      (37, NDIGITS_BASE37), (38, NDIGITS_BASE38), (39, NDIGITS_BASE39), (40, NDIGITS_BASE40),
      (41, NDIGITS_BASE41), (42, NDIGITS_BASE42), (43, NDIGITS_BASE43), (44, NDIGITS_BASE44),
      (45, NDIGITS_BASE45), (46, NDIGITS_BASE46), (47, NDIGITS_BASE47), (48, NDIGITS_BASE48),
      (49, NDIGITS_BASE49), (50, NDIGITS_BASE50), (51, NDIGITS_BASE51), (52, NDIGITS_BASE52),
      (53, NDIGITS_BASE53), (54, NDIGITS_BASE54), (55, NDIGITS_BASE55), (56, NDIGITS_BASE56),
      (57, NDIGITS_BASE57), (58, NDIGITS_BASE58), (59, NDIGITS_BASE59), (60, NDIGITS_BASE60),
      (61, NDIGITS_BASE61), (62, NDIGITS_BASE62), (63, NDIGITS_BASE63), (64, NDIGITS_BASE64),
      (65, NDIGITS_BASE65), (66, NDIGITS_BASE66), (67, NDIGITS_BASE67), (68, NDIGITS_BASE68),
      (69, NDIGITS_BASE69), (70, NDIGITS_BASE70), (71, NDIGITS_BASE71), (72, NDIGITS_BASE72),
      (73, NDIGITS_BASE73), (74, NDIGITS_BASE74), (75, NDIGITS_BASE75), (76, NDIGITS_BASE76),
      (77, NDIGITS_BASE77), (78, NDIGITS_BASE78), (79, NDIGITS_BASE79), (80, NDIGITS_BASE80),
      (81, NDIGITS_BASE81), (82, NDIGITS_BASE82), (83, NDIGITS_BASE83), (84, NDIGITS_BASE84),
      (85, NDIGITS_BASE85), (86, NDIGITS_BASE86), (87, NDIGITS_BASE87), (88, NDIGITS_BASE88),
      (89, NDIGITS_BASE89), (90, NDIGITS_BASE90), (91, NDIGITS_BASE91), (92, NDIGITS_BASE92),
      (93, NDIGITS_BASE93), (94, NDIGITS_BASE94), (95, NDIGITS_BASE95), (96, NDIGITS_BASE96),
      (97, NDIGITS_BASE97), (98, NDIGITS_BASE98), (99, NDIGITS_BASE99), (100, NDIGITS_BASE100),
      (101, NDIGITS_BASE101), (102, NDIGITS_BASE102), (103, NDIGITS_BASE103), (104, NDIGITS_BASE104),
      (105, NDIGITS_BASE105), (106, NDIGITS_BASE106), (107, NDIGITS_BASE107), (108, NDIGITS_BASE108),
      (109, NDIGITS_BASE109), (110, NDIGITS_BASE110), (111, NDIGITS_BASE111), (112, NDIGITS_BASE112),
      (113, NDIGITS_BASE113)]"

definition c_num_digits :: "nat \<Rightarrow> nat \<Rightarrow> nat run" where
  "c_num_digits base pos =
     (case map_of num_digits_cases base of
        Some arr \<Rightarrow> bind_run (read_at arr pos) (\<lambda>n. Inr (n mod 2 ^ 16))
      | None \<Rightarrow> Inr 0)"

section \<open>What the two functions return\<close>

lemmas BASE_defs =
  BASE5_def BASE6_def BASE7_def BASE8_def BASE9_def BASE10_def
  BASE11_def BASE12_def BASE13_def BASE14_def BASE15_def BASE16_def
  BASE17_def BASE18_def BASE19_def BASE20_def BASE21_def BASE22_def
  BASE23_def BASE24_def BASE25_def BASE26_def BASE27_def BASE28_def
  BASE29_def BASE30_def BASE31_def BASE32_def BASE33_def BASE34_def
  BASE35_def BASE36_def BASE37_def BASE38_def BASE39_def BASE40_def
  BASE41_def BASE42_def BASE43_def BASE44_def BASE45_def BASE46_def
  BASE47_def BASE48_def BASE49_def BASE50_def BASE51_def BASE52_def
  BASE53_def BASE54_def BASE55_def BASE56_def BASE57_def BASE58_def
  BASE59_def BASE60_def BASE61_def BASE62_def BASE63_def BASE64_def
  BASE65_def BASE66_def BASE67_def BASE68_def BASE69_def BASE70_def
  BASE71_def BASE72_def BASE73_def BASE74_def BASE75_def BASE76_def
  BASE77_def BASE78_def BASE79_def BASE80_def BASE81_def BASE82_def
  BASE83_def BASE84_def BASE85_def BASE86_def BASE87_def BASE88_def
  BASE89_def BASE90_def BASE91_def BASE92_def BASE93_def BASE94_def
  BASE95_def BASE96_def BASE97_def BASE98_def BASE99_def BASE100_def
  BASE101_def BASE102_def BASE103_def BASE104_def BASE105_def BASE106_def
  BASE107_def BASE108_def BASE109_def BASE110_def BASE111_def BASE112_def
  BASE113_def

lemmas NDIGITS_defs =
  NDIGITS_BASE5_def NDIGITS_BASE6_def NDIGITS_BASE7_def NDIGITS_BASE8_def NDIGITS_BASE9_def NDIGITS_BASE10_def
  NDIGITS_BASE11_def NDIGITS_BASE12_def NDIGITS_BASE13_def NDIGITS_BASE14_def NDIGITS_BASE15_def NDIGITS_BASE16_def
  NDIGITS_BASE17_def NDIGITS_BASE18_def NDIGITS_BASE19_def NDIGITS_BASE20_def NDIGITS_BASE21_def NDIGITS_BASE22_def
  NDIGITS_BASE23_def NDIGITS_BASE24_def NDIGITS_BASE25_def NDIGITS_BASE26_def NDIGITS_BASE27_def NDIGITS_BASE28_def
  NDIGITS_BASE29_def NDIGITS_BASE30_def NDIGITS_BASE31_def NDIGITS_BASE32_def NDIGITS_BASE33_def NDIGITS_BASE34_def
  NDIGITS_BASE35_def NDIGITS_BASE36_def NDIGITS_BASE37_def NDIGITS_BASE38_def NDIGITS_BASE39_def NDIGITS_BASE40_def
  NDIGITS_BASE41_def NDIGITS_BASE42_def NDIGITS_BASE43_def NDIGITS_BASE44_def NDIGITS_BASE45_def NDIGITS_BASE46_def
  NDIGITS_BASE47_def NDIGITS_BASE48_def NDIGITS_BASE49_def NDIGITS_BASE50_def NDIGITS_BASE51_def NDIGITS_BASE52_def
  NDIGITS_BASE53_def NDIGITS_BASE54_def NDIGITS_BASE55_def NDIGITS_BASE56_def NDIGITS_BASE57_def NDIGITS_BASE58_def
  NDIGITS_BASE59_def NDIGITS_BASE60_def NDIGITS_BASE61_def NDIGITS_BASE62_def NDIGITS_BASE63_def NDIGITS_BASE64_def
  NDIGITS_BASE65_def NDIGITS_BASE66_def NDIGITS_BASE67_def NDIGITS_BASE68_def NDIGITS_BASE69_def NDIGITS_BASE70_def
  NDIGITS_BASE71_def NDIGITS_BASE72_def NDIGITS_BASE73_def NDIGITS_BASE74_def NDIGITS_BASE75_def NDIGITS_BASE76_def
  NDIGITS_BASE77_def NDIGITS_BASE78_def NDIGITS_BASE79_def NDIGITS_BASE80_def NDIGITS_BASE81_def NDIGITS_BASE82_def
  NDIGITS_BASE83_def NDIGITS_BASE84_def NDIGITS_BASE85_def NDIGITS_BASE86_def NDIGITS_BASE87_def NDIGITS_BASE88_def
  NDIGITS_BASE89_def NDIGITS_BASE90_def NDIGITS_BASE91_def NDIGITS_BASE92_def NDIGITS_BASE93_def NDIGITS_BASE94_def
  NDIGITS_BASE95_def NDIGITS_BASE96_def NDIGITS_BASE97_def NDIGITS_BASE98_def NDIGITS_BASE99_def NDIGITS_BASE100_def
  NDIGITS_BASE101_def NDIGITS_BASE102_def NDIGITS_BASE103_def NDIGITS_BASE104_def NDIGITS_BASE105_def NDIGITS_BASE106_def
  NDIGITS_BASE107_def NDIGITS_BASE108_def NDIGITS_BASE109_def NDIGITS_BASE110_def NDIGITS_BASE111_def NDIGITS_BASE112_def
  NDIGITS_BASE113_def

lemma upto_sixteen: "[0..<16] = [0, 1, 2, 3, 4, 5, 6, 7, 8, 9, 10, 11, 12, 13, 14, 15 :: nat]"
  by (simp add: upt_rec)

lemma get_table_cases_all: "get_table_cases = map (\<lambda>q. (q, map (POS q) [0..<16])) [5..<114]"
  by (simp add: get_table_cases_def BASE_defs upto_sixteen)

text \<open>
  A list of digit counts is right for base \<open>q\<close> if each count \<open>n\<close> is the number of base-\<open>q\<close>
  digits of the largest entry of its table, \<open>255 * 256 ^ pos\<close>.  The check carries \<open>m = 256 ^ pos\<close>
  and the power of \<open>q\<close> along.
\<close>

function counts_ok :: "nat \<Rightarrow> nat \<Rightarrow> nat \<Rightarrow> nat \<Rightarrow> nat list \<Rightarrow> bool"
  and count_ok :: "nat \<Rightarrow> nat \<Rightarrow> nat \<Rightarrow> nat \<Rightarrow> nat list \<Rightarrow> bool" where
  "counts_ok q m k p [] = True"
| "counts_ok q m k p (n # ns) = 
     (if k < n then counts_ok q m (k + 1) (q * p) (n # ns)
      else k = n \<and> 0 < n \<and> n < 57 \<and> count_ok q m n p ns)"
| "count_ok q m n p ns = (255 * m < p \<and> p \<le> q * (255 * m) \<and> counts_ok q (256 * m) n p ns)"
  by pat_completeness auto
termination
  by (relation "measures [case_sum (\<lambda>(q, m, k, p, ns). 2 * length ns) (\<lambda>(q, m, n, p, ns). 2 * length ns + 1),
      case_sum (\<lambda>(q, m, k, p, ns). hd ns - k) (\<lambda>_. 0)]") auto

lemma num_digits_cases_ok:
  "list_all (\<lambda>(q, ns). counts_ok q 1 0 1 ns \<and> length ns = 16) num_digits_cases"
  by (simp only: num_digits_cases_def NDIGITS_defs list.pred_inject prod.case counts_ok.simps
      count_ok.simps arith_simps rel_simps if_True if_False simp_thms numeral_plus_one one_plus_numeral one_add_one
      length_eval mult_1_right mult_1 cong: if_weak_cong)

lemma num_digits_cases_bases: "map fst num_digits_cases = [5..<114]"
  by (simp add: num_digits_cases_def)

lemma bases_set: "k \<in> set [5..<114] \<longleftrightarrow> 5 \<le> k \<and> k \<le> (113 :: nat)"
  unfolding set_upt atLeastLessThan_iff by linarith

lemma map_of_graph: "map_of (map (\<lambda>q. (q, f q)) xs) k = (if k \<in> set xs then Some (f k) else None)"
  by (induction xs) simp_all

lemma c_get_table_value:
  "c_get_table base pos =
     (if 5 \<le> base \<and> base \<le> 113
      then (if pos < 16 then Inr (POS base pos) else Inl OutOfBounds)
      else Inr NULL)"
  unfolding c_get_table_def get_table_cases_all map_of_graph bases_set by (simp add: buffer_simps)

declare counts_ok.simps(2) [simp del]

lemma counts_ok_up: "k < n \<Longrightarrow> counts_ok q m k p (n # ns) = counts_ok q m (Suc k) (q * p) (n # ns)"
  by (subst counts_ok.simps(2)) simp

lemma counts_ok_at:
  "\<not> k < n \<Longrightarrow> counts_ok q m k p (n # ns) = (k = n \<and> 0 < n \<and> n < 57 \<and> count_ok q m n p ns)"
  by (subst counts_ok.simps(2)) simp

lemma counts_ok_head:
  "counts_ok q m k (q ^ k) (n # ns) \<Longrightarrow> 0 < n \<and> n < 57 \<and> count_ok q m n (q ^ n) ns"
proof (induction "n - k" arbitrary: k)
  case 0
  then show ?case by (auto simp: counts_ok_at)
next
  case (Suc d)
  then have "counts_ok q m (Suc k) (q ^ Suc k) (n # ns)" and "d = n - Suc k"
    by (simp_all add: counts_ok_up)
  then show ?case by (intro Suc.hyps(1))
qed

lemma counts_ok_nth:
  "counts_ok q m k (q ^ k) ns \<Longrightarrow> p < length ns \<Longrightarrow>
     0 < ns ! p \<and> ns ! p < 57 \<and>
     q ^ (ns ! p) \<le> q * (255 * (m * 256 ^ p)) \<and> 255 * (m * 256 ^ p) < q ^ (ns ! p)"
proof (induction ns arbitrary: m k p)
  case (Cons n ns)
  note head = counts_ok_head [OF Cons.prems(1)]
  show ?case
  proof (cases p)
    case (Suc p')
    with Cons.IH [of "256 * m" n p'] Cons.prems(2) head show ?thesis by (simp add: ac_simps)
  qed (use head in simp)
qed simp

text \<open>The width of the table at a position, as the generator computes it.\<close>

definition table_width :: "nat \<Rightarrow> nat \<Rightarrow> nat" where
  "table_width q pos = fst (digits_for_pos pos q)"

lemma num_digits_array:
  assumes "5 \<le> q" and "q \<le> 113"
  obtains ns where "map_of num_digits_cases q = Some ns" and "counts_ok q 1 0 1 ns" and "length ns = 16"
proof -
  have "q \<in> set (map fst num_digits_cases)"
    using assms unfolding num_digits_cases_bases bases_set by simp
  then obtain ns where ns: "map_of num_digits_cases q = Some ns"
    by (metis map_of_eq_None_iff list.set_map not_None_eq)
  with num_digits_cases_ok have "counts_ok q 1 0 1 ns \<and> length ns = 16"
    by (fastforce simp: list_all_iff dest: map_of_SomeD)
  with ns that show thesis by blast
qed

lemma table_width_bounds:
  assumes "5 \<le> q" and "q \<le> 113" and "pos < 16"
  shows "c_num_digits q pos = Inr (table_width q pos)"
    and "0 < table_width q pos"
    and "q ^ (table_width q pos - 1) \<le> 255 * 256 ^ pos"
    and "255 * 256 ^ pos < q ^ table_width q pos"
    and "digits_for_pos pos q =
      (table_width q pos, map (\<lambda>x. base_digits q (table_width q pos) (x * 256 ^ pos)) [0..<256])"
proof -
  obtain ns where ns: "map_of num_digits_cases q = Some ns" "counts_ok q 1 0 1 ns" "length ns = 16"
    using num_digits_array [OF assms(1,2)] .
  have n: "0 < ns ! pos" "ns ! pos < 57" "q ^ (ns ! pos) \<le> q * (255 * 256 ^ pos)"
    "255 * 256 ^ pos < q ^ (ns ! pos)"
    using counts_ok_nth [of q 1 0 ns pos] ns(2,3) assms(3) by simp_all
  have "q * q ^ (ns ! pos - 1) = q ^ (ns ! pos)" using n(1) by (simp flip: power_Suc)
  with n(3) have low: "q ^ (ns ! pos - 1) \<le> 255 * 256 ^ pos"
    using assms(1) by (metis mult_le_cancel1 not_numeral_le_zero gr0I)
  have gen: "digits_for_pos pos q =
      (ns ! pos, map (\<lambda>x. base_digits q (ns ! pos) (x * 256 ^ pos)) [0..<256])"
    using digits_for_pos_rows [of q "ns ! pos - 1" pos] assms(1) n low by simp
  then have width: "table_width q pos = ns ! pos" by (simp add: table_width_def)
  show "c_num_digits q pos = Inr (table_width q pos)"
    using ns assms(3) n(2) by (simp add: c_num_digits_def width read_at_def)
  show "0 < table_width q pos" "q ^ (table_width q pos - 1) \<le> 255 * 256 ^ pos"
    "255 * 256 ^ pos < q ^ table_width q pos"
    using n low by (simp_all add: width)
  show "digits_for_pos pos q =
      (table_width q pos, map (\<lambda>x. base_digits q (table_width q pos) (x * 256 ^ pos)) [0..<256])"
    using gen by (simp add: width)
qed

lemma c_num_digits_undefined: "\<not> (5 \<le> base \<and> base \<le> 113) \<Longrightarrow> c_num_digits base pos = Inr 0"
proof -
  assume "\<not> (5 \<le> base \<and> base \<le> 113)"
  then have "base \<notin> set (map fst num_digits_cases)"
    unfolding num_digits_cases_bases bases_set .
  then have "map_of num_digits_cases base = None" by (simp add: map_of_eq_None_iff)
  then show ?thesis by (simp add: c_num_digits_def)
qed

lemma c_num_digits_beyond:
  assumes "5 \<le> q" and "q \<le> 113" and "16 \<le> pos"
  shows "c_num_digits q pos = Inl OutOfBounds"
proof -
  obtain ns where "map_of num_digits_cases q = Some ns" "length ns = 16"
    using num_digits_array [OF assms(1,2)] .
  with assms(3) show ?thesis by (simp add: c_num_digits_def read_at_def)
qed

end
