(* ===== verification/Base_Conversion.thy ===== *)
theory Base_Conversion
  imports Lookup_Tables
begin

text \<open>
  The digit arithmetic over the C tables: \<^verbatim>\<open>fancy-garbling/src/util.rs\<close> (\<open>base_q_add_eq\<close>,
  \<open>digits_per_u128\<close>, \<open>as_mixed_radix\<close>, \<open>as_base_q_u128\<close>, \<open>from_base_q\<close>), the safe wrapper
  \<^verbatim>\<open>base_conversion/src/lib.rs\<close> and \<open>_from_block_lookup\<close> of \<^verbatim>\<open>src/wire.rs\<close>.  \<open>u16\<close> and \<open>u128\<close> values are
  naturals with the wrap-around of the release build (\<open>overflow-checks = false\<close>, debug assertions
  off) written out.  The interface \<open>digit_tables\<close> states what the client relies on of the C tables.
\<close>

section \<open>Digit arithmetic\<close>

text \<open>
  The two loops of \<open>base_q_add_eq\<close>: the first runs over \<open>ys\<close>, the second carries on through the
  rest of \<open>xs\<close>; its carry \<open>c\<close> is the last one of the first loop and is not changed.
\<close>

fun carry_on :: "nat \<Rightarrow> nat \<Rightarrow> nat list \<Rightarrow> nat list" where
  "carry_on q c [] = []"
| "carry_on q c (x # xs) =
     (let s = (x + c) mod 2 ^ 16 in if q \<le> s then (s - q) # carry_on q c xs else s # xs)"

fun add_digits :: "nat \<Rightarrow> nat \<Rightarrow> nat list \<Rightarrow> nat list \<Rightarrow> nat list run" where
  "add_digits q c xs [] = Inr (carry_on q c xs)"
| "add_digits q c [] (y # ys) = Inl OutOfBounds"
| "add_digits q c (x # xs) (y # ys) =
     (let s = (x + (y + c) mod 2 ^ 16) mod 2 ^ 16;
          c' = (if q \<le> s then 1 else 0)
      in bind_run (add_digits q c' xs ys) (\<lambda>zs. Inr ((s - c' * q) # zs)))"

definition base_q_add_eq :: "nat list \<Rightarrow> nat list \<Rightarrow> nat \<Rightarrow> nat list run" where
  "base_q_add_eq xs ys q = add_digits q 0 xs ys"

text \<open>
  \<open>digits_per_u128\<close>.  Above 512 the code computes \<open>floor (128 / ceil (log2 q))\<close> in \<open>f64\<close>; for a
  \<open>u16\<close> the rounded logarithm has the same ceiling as the exact one.
\<close>

fun ceil_log2 :: "nat \<Rightarrow> nat" where
  "ceil_log2 n = (if n \<le> 1 then 0 else Suc (ceil_log2 ((n + 1) div 2)))"

declare ceil_log2.simps [simp del]

definition digits_per_u128 :: "nat \<Rightarrow> nat" where
  "digits_per_u128 modulus =
     (if modulus = 2 then 128
      else if modulus \<le> 4 then 64
      else if modulus \<le> 8 then 42
      else if modulus \<le> 16 then 32
      else if modulus \<le> 32 then 25
      else if modulus \<le> 64 then 21
      else if modulus \<le> 128 then 18
      else if modulus \<le> 256 then 16
      else if modulus \<le> 512 then 14
      else 128 div ceil_log2 modulus)"

text \<open>The remainder by a zero radix panics.\<close>

fun as_mixed_radix :: "nat \<Rightarrow> nat list \<Rightarrow> nat list run" where
  "as_mixed_radix x [] = Inr []"
| "as_mixed_radix x (m # radii) =
     (if m \<le> x
      then (if m = 0 then Inl Panic
            else let d = x mod m in
              bind_run (as_mixed_radix ((x - d) div m) radii) (\<lambda>ds. Inr (d mod 2 ^ 16 # ds)))
      else bind_run (as_mixed_radix 0 radii) (\<lambda>ds. Inr (x mod 2 ^ 16 # ds)))"

definition as_base_q :: "nat \<Rightarrow> nat \<Rightarrow> nat \<Rightarrow> nat list run" where
  "as_base_q x q n = as_mixed_radix x (replicate n q)"

definition as_base_q_u128 :: "nat \<Rightarrow> nat \<Rightarrow> nat list run" where
  "as_base_q_u128 x q = as_base_q x q (digits_per_u128 q)"

definition from_base_q :: "nat list \<Rightarrow> nat \<Rightarrow> nat" where
  "from_base_q ds q =
     foldl (\<lambda>x d. let xp = (x * q) mod 2 ^ 128 in (xp + d) mod 2 ^ 128) 0 (rev ds)"

section \<open>The wrapper of the C tables\<close>

text \<open>
  \<open>words q pos\<close> are the \<open>uint16_t\<close> values of the object \<open>BASE<q>_POS<pos>\<close>, row after row.
  \<open>from_raw_parts\<close> needs a non-null pointer and the whole slice inside the object.
\<close>

definition lookup_digits_mod_at_position ::
    "(nat \<Rightarrow> nat \<Rightarrow> nat list) \<Rightarrow> nat \<Rightarrow> nat \<Rightarrow> nat \<Rightarrow> nat list run" where
  "lookup_digits_mod_at_position words x q pos =
     bind_run (c_get_table q pos) (\<lambda>tab.
     bind_run (c_num_digits q pos) (\<lambda>len.
     case tab of
       NULL \<Rightarrow> Inl NullPointer
     | POS b p \<Rightarrow>
         if len * x + len \<le> length (words b p) then Inr (take len (drop (len * x) (words b p)))
         else Inl OutOfBounds))"

definition lookup_defined_for_mod :: "nat \<Rightarrow> bool run" where
  "lookup_defined_for_mod q = bind_run (c_num_digits q 0) (\<lambda>n. Inr (0 < n))"

text \<open>\<open>_from_block_lookup\<close>: the 16 bytes of the block, the last one first.\<close>

fun add_positions :: "(nat \<Rightarrow> nat \<Rightarrow> nat list) \<Rightarrow> bytes \<Rightarrow> nat \<Rightarrow> nat list \<Rightarrow> nat list \<Rightarrow> nat list run" where
  "add_positions words inp q [] ds = Inr ds"
| "add_positions words inp q (i # is) ds =
     bind_run (lookup_digits_mod_at_position words (unat (inp ! i)) q i) (\<lambda>cs.
     bind_run (base_q_add_eq ds cs q) (add_positions words inp q is))"

definition from_block_lookup :: "(nat \<Rightarrow> nat \<Rightarrow> nat list) \<Rightarrow> bytes \<Rightarrow> nat \<Rightarrow> nat list run" where
  "from_block_lookup words inp q =
     bind_run (lookup_digits_mod_at_position words (unat (inp ! 15)) q 15) (\<lambda>ds.
     bind_run (add_positions words inp q [0..<15] ds) (\<lambda>ds.
     Inr (take (digits_per_u128 q) ds)))"

text \<open>\<open>u128::from\<close> of a block: the bytes are little-endian.\<close>

definition u128_from_block :: "bytes \<Rightarrow> nat" where
  "u128_from_block inp = val 256 (map unat inp)"

section \<open>The digit arithmetic is exact\<close>

lemma scale_sum: "v + k * p = w \<Longrightarrow> q * v + k * (q * p) = q * (w :: nat)"
  by (auto simp: algebra_simps)

lemma carry_on_zero: "proper q xs \<Longrightarrow> q \<le> 2 ^ 16 \<Longrightarrow> carry_on q 0 xs = xs"
  by (cases xs) (simp_all add: digit_simps)

lemma carry_on_value:
  assumes "proper q xs" and "2 * q \<le> 2 ^ 16" and "c \<le> 1" and "0 < q"
  shows "proper q (carry_on q c xs) \<and> length (carry_on q c xs) = length xs \<and>
    (\<exists>k. val q (carry_on q c xs) + k * q ^ length xs = val q xs + c)"
  using assms
proof (induction xs)
  case Nil
  then show ?case by (auto simp: digit_simps)
next
  case (Cons x xs)
  then have x: "x < q" "proper q xs" "x + c < 2 ^ 16" by (simp_all add: digit_simps)
  show ?case
  proof (cases "q \<le> x + c")
    case True
    with x Cons.prems have c: "x + c = q" "c = 1" by simp_all
    obtain k where k: "val q (carry_on q c xs) + k * q ^ length xs = val q xs + c"
      and rest: "proper q (carry_on q c xs)" "length (carry_on q c xs) = length xs"
      using Cons x by auto
    have "q * val q (carry_on q c xs) + k * (q * q ^ length xs) = x + q * val q xs + c"
      using scale_sum [OF k, of q] c by (simp add: algebra_simps)
    with x c rest Cons.prems(4) show ?thesis by (auto simp: digit_simps)
  next
    case False
    with x show ?thesis by (auto simp: digit_simps intro: exI [of _ 0])
  qed
qed

lemma add_digits_value:
  assumes "proper q xs" and "proper q ys" and "length ys \<le> length xs"
    and "2 * q \<le> 2 ^ 16" and "c \<le> 1" and "0 < q"
  shows "\<exists>zs. add_digits q c xs ys = Inr zs \<and> proper q zs \<and> length zs = length xs \<and>
    (\<exists>k. val q zs + k * q ^ length xs = val q xs + val q ys + c)"
  using assms
proof (induction q c xs ys rule: add_digits.induct)
  case (1 q c xs)
  with carry_on_value [of q xs c] show ?case by simp
next
  case (3 q c x xs y ys)
  then have s: "(x + (y + c) mod 2 ^ 16) mod 2 ^ 16 = x + y + c" and d: "x < q" "y < q"
    by (simp_all add: digit_simps)
  define c' :: nat where "c' = (if q \<le> x + y + c then 1 else 0)"
  have c': "c' \<le> 1" by (simp add: c'_def)
  have "\<exists>zs. add_digits q c' xs ys = Inr zs \<and> proper q zs \<and> length zs = length xs \<and>
      (\<exists>k. val q zs + k * q ^ length xs = val q xs + val q ys + c')"
    by (rule 3(1) [OF refl]) (use 3(2-) c' s in \<open>simp_all add: digit_simps c'_def\<close>)
  then obtain zs k where zs: "add_digits q c' xs ys = Inr zs" "proper q zs" "length zs = length xs"
    and k: "val q zs + k * q ^ length xs = val q xs + val q ys + c'"
    by blast
  have digit: "x + y + c - c' * q < q" and split: "x + y + c = x + y + c - c' * q + q * c'"
    using d 3(6) by (auto simp: c'_def)
  have result: "add_digits q c (x # xs) (y # ys) = Inr ((x + y + c - c' * q) # zs)"
    by (simp only: add_digits.simps s Let_def c'_def [symmetric] zs(1) bind_run_simps)
  have "q * val q zs + k * (q * q ^ length xs) = q * val q xs + q * val q ys + q * c'"
    using scale_sum [OF k, of q] by (simp add: algebra_simps)
  with split have "val q ((x + y + c - c' * q) # zs) + k * q ^ length (x # xs) =
      val q (x # xs) + val q (y # ys) + c"
    by simp
  with result digit zs show ?case by (auto simp: digit_simps)
qed simp

lemma base_q_add_eq_digits:
  assumes "proper q xs" and "proper q ys" and "length ys \<le> length xs" and "2 * q \<le> 2 ^ 16" and "0 < q"
  shows "base_q_add_eq xs ys q = Inr (base_digits q (length xs) (val q xs + val q ys))"
proof -
  obtain zs k where zs: "base_q_add_eq xs ys q = Inr zs" "proper q zs" "length zs = length xs"
    and k: "val q zs + k * q ^ length xs = val q xs + val q ys"
    using add_digits_value [of q xs ys 0] assms by (auto simp: base_q_add_eq_def)
  have "val q zs = (val q xs + val q ys) mod q ^ length xs"
    using val_less [OF zs(2)] zs(3) by (simp flip: k)
  with zs assms(5) digits_unique [OF zs(2), of "length xs"] show ?thesis by simp
qed

lemma as_mixed_radix_digits:
  "0 < q \<Longrightarrow> q \<le> 2 ^ 16 \<Longrightarrow> as_mixed_radix x (replicate n q) = Inr (base_digits q n x)"
proof (induction n arbitrary: x)
  case (Suc n)
  have "(x - x mod q) div q = x div q" using Suc.prems by (simp add: minus_mod_eq_mult_div)
  moreover have "x mod q < 2 ^ 16"
    using mod_less_divisor [OF Suc.prems(1), of x] Suc.prems(2) by linarith
  ultimately show ?case using Suc by (simp add: Let_def)
qed simp

lemma from_base_q_val: "q ^ length ds \<le> 2 ^ 128 \<Longrightarrow> proper q ds \<Longrightarrow> from_base_q ds q = val q ds"
proof (induction ds)
  case (Cons d ds)
  have "0 < q" using Cons.prems(2) by (cases q) (simp_all add: digit_simps)
  then have "q ^ length ds \<le> q ^ length (d # ds)" by simp
  then have "q ^ length ds \<le> 2 ^ 128" using Cons.prems(1) by (rule le_trans)
  with Cons have "from_base_q ds q = val q ds" by (simp add: digit_simps)
  moreover have "d + q * val q ds < 2 ^ 128"
    using val_less [OF Cons.prems(2)] Cons.prems(1) by simp
  ultimately show ?case by (simp add: from_base_q_def Let_def mult.commute add.commute)
qed (simp add: from_base_q_def)

section \<open>The interface of the tables\<close>

lemma length_concat_const: "\<forall>r\<in>set rs. length r = n \<Longrightarrow> length (concat rs) = n * length rs"
  by (induction rs) simp_all

lemma concat_row:
  "\<forall>r\<in>set rs. length r = n \<Longrightarrow> x < length rs \<Longrightarrow> take n (drop (n * x) (concat rs)) = rs ! x"
proof (induction rs arbitrary: x)
  case (Cons r rs)
  then show ?case by (cases x) simp_all
qed simp

text \<open>
  What \<open>_from_block_lookup\<close> relies on for the base \<open>q\<close>: the objects \<open>BASE<q>_POS<pos>\<close> hold what the
  generator writes, row after row.
\<close>

lemma digits_fit:
  assumes "5 \<le> q" and "q \<le> 113"
  shows "digits_per_u128 q \<le> table_width q 15"
proof -
  obtain k d where k: "q \<le> 2 ^ k" "k * d \<le> 127" and d: "digits_per_u128 q = Suc d"
  proof -
    have "(q \<le> 2 ^ 3 \<and> digits_per_u128 q = Suc 41) \<or> (q \<le> 2 ^ 4 \<and> digits_per_u128 q = Suc 31) \<or>
      (q \<le> 2 ^ 5 \<and> digits_per_u128 q = Suc 24) \<or> (q \<le> 2 ^ 6 \<and> digits_per_u128 q = Suc 20) \<or>
      (q \<le> 2 ^ 7 \<and> digits_per_u128 q = Suc 17)"
      using assms by (simp add: digits_per_u128_def)
    then show thesis
      using that [of 3 41] that [of 4 31] that [of 5 24] that [of 6 20] that [of 7 17] by auto
  qed
  have "q ^ d \<le> (2 ^ k) ^ d" using k(1) by (rule power_mono) simp
  also have "\<dots> \<le> 2 ^ 127" using k(2) unfolding power_mult [symmetric] by (intro power_increasing) simp_all
  also have "\<dots> \<le> 255 * 256 ^ (15 :: nat)" by simp
  also have "\<dots> < q ^ table_width q 15" using table_width_bounds(4) [OF assms, of 15] by simp
  finally have "d < table_width q 15" using assms(1) by simp
  with d show ?thesis by simp
qed

lemma table_width_mono:
  assumes "5 \<le> q" and "q \<le> 113" and "i \<le> 15"
  shows "table_width q i \<le> table_width q 15"
proof -
  have "q ^ (table_width q i - 1) \<le> 255 * 256 ^ i"
    using table_width_bounds(3) assms by simp
  also have "\<dots> \<le> 255 * 256 ^ (15 :: nat)" using assms(3) by (intro mult_le_mono2 power_increasing) simp_all
  also have "\<dots> < q ^ table_width q 15" using table_width_bounds(4) [of q 15] assms by simp
  finally show ?thesis using assms(1) by simp
qed

lemma block_byte_fits:
  assumes "5 \<le> q" and "q \<le> 113" and "pos < 16"
  shows "unat (b :: u8) * 256 ^ pos < q ^ table_width q pos"
proof -
  have "unat b \<le> 255" using unat_u8_less [of b] by simp
  then have "unat b * 256 ^ pos \<le> 255 * 256 ^ pos" by (rule mult_le_mono1)
  with table_width_bounds(4) [OF assms] show ?thesis by linarith
qed

lemma val_sum: "val q ds = (\<Sum>i<length ds. ds ! i * q ^ i)"
  by (induction ds) (simp_all add: sum.lessThan_Suc_shift sum_distrib_left ac_simps del: sum.lessThan_Suc)

lemma lookup_row_at:
  assumes base: "5 \<le> q" "q \<le> 113" and "x < 256" and "pos < 16"
    and contents: "words q pos = concat (snd (digits_for_pos pos q))"
  shows "lookup_digits_mod_at_position words x q pos = Inr (base_digits q (table_width q pos) (x * 256 ^ pos))"
proof -
  define n where "n = table_width q pos"
  define rows where "rows = map (\<lambda>x. base_digits q n (x * 256 ^ pos)) [0..<256]"
  have rows: "\<forall>r\<in>set rows. length r = n" "length rows = 256"
    by (simp_all add: rows_def digit_simps del: upt_rec_numeral)
  have words: "words q pos = concat rows"
    using contents table_width_bounds(5) [OF base assms(4)] by (simp add: rows_def n_def)
  have "n * x + n \<le> length (concat rows)"
    using assms(3) mult_le_mono2 [of "Suc x" 256 n] rows(2)
    by (simp add: length_concat_const [OF rows(1)] algebra_simps)
  moreover have "take n (drop (n * x) (concat rows)) = rows ! x"
    using rows assms(3) by (intro concat_row) simp_all
  moreover have "rows ! x = base_digits q n (x * 256 ^ pos)"
    using assms(3) by (simp add: rows_def del: upt_rec_numeral)
  ultimately show ?thesis
    using assms(4) base words table_width_bounds(1) [OF base assms(4)]
    by (simp add: lookup_digits_mod_at_position_def c_get_table_value n_def)
qed

locale digit_tables =
  fixes words :: "nat \<Rightarrow> nat \<Rightarrow> nat list" and q :: nat
  assumes base: "5 \<le> q" "q \<le> 113"
    and contents: "pos < 16 \<Longrightarrow> words q pos = concat (snd (digits_for_pos pos q))"
begin

lemma lookup_row:
  "x < 256 \<Longrightarrow> pos < 16 \<Longrightarrow>
   lookup_digits_mod_at_position words x q pos = Inr (base_digits q (table_width q pos) (x * 256 ^ pos))"
  by (intro lookup_row_at base contents)

lemma add_positions_value:
  "\<forall>i\<in>set is. i < 15 \<Longrightarrow>
   add_positions words inp q is (base_digits q (table_width q 15) v) =
     Inr (base_digits q (table_width q 15) (v + (\<Sum>i\<leftarrow>is. unat (inp ! i) * 256 ^ i)))"
proof (induction "is" arbitrary: v)
  case (Cons i "is")
  let ?n = "table_width q 15" and ?y = "unat (inp ! i) * 256 ^ i"
  have look: "lookup_digits_mod_at_position words (unat (inp ! i)) q i =
      Inr (base_digits q (table_width q i) ?y)"
    using Cons.prems unat_u8_less [of "inp ! i"] by (intro lookup_row) simp_all
  have "val q (base_digits q (table_width q i) ?y) = ?y"
    using block_byte_fits [OF base, of i "inp ! i"] Cons.prems by (simp add: digit_simps)
  moreover have "length (base_digits q (table_width q i) ?y) \<le> length (base_digits q ?n v)"
    using table_width_mono [OF base, of i] Cons.prems by (simp add: digit_simps)
  ultimately have "base_q_add_eq (base_digits q ?n v) (base_digits q (table_width q i) ?y) q =
      Inr (base_digits q ?n (v mod q ^ ?n + ?y))"
    using base_q_add_eq_digits [of q "base_digits q ?n v" "base_digits q (table_width q i) ?y"] base
    by (simp add: digit_simps)
  also have "base_digits q ?n (v mod q ^ ?n + ?y) = base_digits q ?n (v + ?y)"
    using base_digits_mod [of q ?n "v mod q ^ ?n + ?y"] base_digits_mod [of q ?n "v + ?y"] base
    by (simp add: mod_add_left_eq)
  finally show ?case using Cons look by (simp add: ac_simps)
qed simp

lemma from_block_lookup_digits:
  assumes "length inp = 16"
  shows "from_block_lookup words inp q = Inr (base_digits q (digits_per_u128 q) (u128_from_block inp))"
proof -
  have "lookup_digits_mod_at_position words (unat (inp ! 15)) q 15 =
      Inr (base_digits q (table_width q 15) (unat (inp ! 15) * 256 ^ 15))"
    using unat_u8_less [of "inp ! 15"] by (intro lookup_row) simp_all
  moreover have "u128_from_block inp = unat (inp ! 15) * 256 ^ 15 + (\<Sum>i\<leftarrow>[0..<15]. unat (inp ! i) * 256 ^ i)"
    using assms by (simp add: u128_from_block_def val_sum interv_sum_list_conv_sum_set_nat
        atLeast0LessThan lessThan_nat_numeral del: upt_rec_numeral)
  ultimately show ?thesis
    using add_positions_value [of "[0..<15]" inp "unat (inp ! 15) * 256 ^ 15"] digits_fit [OF base]
    by (simp add: from_block_lookup_def digit_simps del: upt_rec_numeral)
qed

end

section \<open>Properties\<close>

text \<open>
  C14.  The two C functions over all their bases: for each base from 5 to 113 and each of the 16
  positions \<open>c_get_table\<close> returns the table object of that base and position, and \<open>c_num_digits\<close>
  the row width that the generator computes, which is never cut off by the \<open>uint16_t\<close> return type.
\<close>

theorem lookup_interface:
  assumes "5 \<le> q" and "q \<le> 113" and "pos < 16"
  shows "c_get_table q pos = Inr (POS q pos) \<and> c_num_digits q pos = Inr (fst (digits_for_pos pos q))"
  using assms table_width_bounds(1) [OF assms] by (simp add: c_get_table_value table_width_def)

theorem lookup_interface_witness:
  "c_get_table 5 15 = Inr (POS 5 15) \<and> c_num_digits 5 15 = Inr (fst (digits_for_pos 15 5))"
  using lookup_interface [of 5 15] by simp

text \<open>
  C15.  Outside its bases and positions the wrapper has no safe answer: a base without tables
  makes \<open>from_raw_parts\<close> see the null pointer, a position past the 16 tables reads beyond the pointer array, and
  only \<open>lookup_defined_for_mod\<close>, which tells the bases 5 to 113 from all others, keeps a caller from the first.
\<close>

theorem lookup_faults:
  "(\<not> (5 \<le> q \<and> q \<le> 113) \<longrightarrow> lookup_digits_mod_at_position words x q pos = Inl NullPointer) \<and>
   (5 \<le> q \<and> q \<le> 113 \<and> 16 \<le> pos \<longrightarrow> lookup_digits_mod_at_position words x q pos = Inl OutOfBounds) \<and>
   lookup_defined_for_mod q = Inr (5 \<le> q \<and> q \<le> 113)"
proof -
  have "lookup_defined_for_mod q = Inr (5 \<le> q \<and> q \<le> 113)"
    using table_width_bounds(1,2) [of q 0] c_num_digits_undefined [of q 0]
    by (cases "5 \<le> q \<and> q \<le> 113") (auto simp: lookup_defined_for_mod_def)
  then show ?thesis
    using c_num_digits_undefined [of q pos]
    by (simp add: lookup_digits_mod_at_position_def c_get_table_value)
qed

theorem lookup_faults_witness:
  "lookup_digits_mod_at_position (\<lambda>_ _. []) 2 3 6 = Inl NullPointer \<and>
   lookup_digits_mod_at_position (\<lambda>_ _. []) 2 5 16 = Inl OutOfBounds \<and>
   lookup_defined_for_mod 3 = Inr False"
  using lookup_faults [of 3 "\<lambda>_ _. []" 2 6] lookup_faults [of 5 "\<lambda>_ _. []" 2 16] by simp

text \<open>
  C16.  \<open>base_q_add_eq\<close> is addition modulo \<open>q ^ n\<close>, \<open>n\<close> the number of digits of the accumulator: on
  reduced digits, for \<open>q\<close> up to \<open>2 ^ 15\<close>, with no wrap-around in \<open>u16\<close> and the digits of the result reduced.
\<close>

theorem base_q_add_eq_sum:
  assumes "proper q xs" and "proper q ys" and "length ys \<le> length xs" and "q \<le> 2 ^ 15" and "0 < q"
  shows "\<exists>zs. base_q_add_eq xs ys q = Inr zs \<and> length zs = length xs \<and> proper q zs \<and>
    val q zs = (val q xs + val q ys) mod q ^ length xs"
  using base_q_add_eq_digits [OF assms(1-3)] assms(4,5) by (simp add: digit_simps)

theorem base_q_add_eq_sum_witness:
  "\<exists>zs. base_q_add_eq [9, 9, 0] [5] 10 = Inr zs \<and> length zs = 3 \<and> proper 10 zs \<and> val 10 zs = 104"
  using base_q_add_eq_sum [of 10 "[9, 9, 0]" "[5]"] by (simp add: proper_def numeral_3_eq_3)

end
