(* ===== verification/Tables_43_A.thy ===== *)
theory Tables_43_A
  imports Digits
begin

text \<open>
  The tables \<open>BASE43_POS0\<close> to \<open>BASE43_POS6\<close> of \<^verbatim>\<open>fancy-garbling/base_conversion/cbits/lookup_tables.c\<close>,
  entry by entry, as lists of rows of \<open>uint16_t\<close> values read as naturals.  Each lemma \<open>_ok\<close> shows that row \<open>x\<close> holds the base-43
  digits of \<open>x * 256 ^ pos\<close>, for the width that the declaration of the table has.
\<close>

definition BASE43_POS0 :: "nat list list" where
  "BASE43_POS0 = [
   [0,0], [1,0], [2,0], [3,0], [4,0], [5,0], [6,0], [7,0], [8,0], [9,0], [10,0], [11,0], [12,0], [13,0],
   [14,0], [15,0], [16,0], [17,0], [18,0], [19,0], [20,0], [21,0], [22,0], [23,0], [24,0], [25,0], [26,0],
   [27,0], [28,0], [29,0], [30,0], [31,0], [32,0], [33,0], [34,0], [35,0], [36,0], [37,0], [38,0], [39,0],
   [40,0], [41,0], [42,0], [0,1], [1,1], [2,1], [3,1], [4,1], [5,1], [6,1], [7,1], [8,1], [9,1], [10,1],
   [11,1], [12,1], [13,1], [14,1], [15,1], [16,1], [17,1], [18,1], [19,1], [20,1], [21,1], [22,1], [23,1],
   [24,1], [25,1], [26,1], [27,1], [28,1], [29,1], [30,1], [31,1], [32,1], [33,1], [34,1], [35,1], [36,1],
   [37,1], [38,1], [39,1], [40,1], [41,1], [42,1], [0,2], [1,2], [2,2], [3,2], [4,2], [5,2], [6,2], [7,2],
   [8,2], [9,2], [10,2], [11,2], [12,2], [13,2], [14,2], [15,2], [16,2], [17,2], [18,2], [19,2], [20,2],
   [21,2], [22,2], [23,2], [24,2], [25,2], [26,2], [27,2], [28,2], [29,2], [30,2], [31,2], [32,2], [33,2],
   [34,2], [35,2], [36,2], [37,2], [38,2], [39,2], [40,2], [41,2], [42,2], [0,3], [1,3], [2,3], [3,3], [4,3],
   [5,3], [6,3], [7,3], [8,3], [9,3], [10,3], [11,3], [12,3], [13,3], [14,3], [15,3], [16,3], [17,3], [18,3],
   [19,3], [20,3], [21,3], [22,3], [23,3], [24,3], [25,3], [26,3], [27,3], [28,3], [29,3], [30,3], [31,3],
   [32,3], [33,3], [34,3], [35,3], [36,3], [37,3], [38,3], [39,3], [40,3], [41,3], [42,3], [0,4], [1,4],
   [2,4], [3,4], [4,4], [5,4], [6,4], [7,4], [8,4], [9,4], [10,4], [11,4], [12,4], [13,4], [14,4], [15,4],
   [16,4], [17,4], [18,4], [19,4], [20,4], [21,4], [22,4], [23,4], [24,4], [25,4], [26,4], [27,4], [28,4],
   [29,4], [30,4], [31,4], [32,4], [33,4], [34,4], [35,4], [36,4], [37,4], [38,4], [39,4], [40,4], [41,4],
   [42,4], [0,5], [1,5], [2,5], [3,5], [4,5], [5,5], [6,5], [7,5], [8,5], [9,5], [10,5], [11,5], [12,5],
   [13,5], [14,5], [15,5], [16,5], [17,5], [18,5], [19,5], [20,5], [21,5], [22,5], [23,5], [24,5], [25,5],
   [26,5], [27,5], [28,5], [29,5], [30,5], [31,5], [32,5], [33,5], [34,5], [35,5], [36,5], [37,5], [38,5],
   [39,5], [40,5]]"

definition BASE43_POS1 :: "nat list list" where
  "BASE43_POS1 = [
   [0,0,0], [41,5,0], [39,11,0], [37,17,0], [35,23,0], [33,29,0], [31,35,0], [29,41,0], [27,4,1], [25,10,1],
   [23,16,1], [21,22,1], [19,28,1], [17,34,1], [15,40,1], [13,3,2], [11,9,2], [9,15,2], [7,21,2], [5,27,2],
   [3,33,2], [1,39,2], [42,1,3], [40,7,3], [38,13,3], [36,19,3], [34,25,3], [32,31,3], [30,37,3], [28,0,4],
   [26,6,4], [24,12,4], [22,18,4], [20,24,4], [18,30,4], [16,36,4], [14,42,4], [12,5,5], [10,11,5], [8,17,5],
   [6,23,5], [4,29,5], [2,35,5], [0,41,5], [41,3,6], [39,9,6], [37,15,6], [35,21,6], [33,27,6], [31,33,6],
   [29,39,6], [27,2,7], [25,8,7], [23,14,7], [21,20,7], [19,26,7], [17,32,7], [15,38,7], [13,1,8], [11,7,8],
   [9,13,8], [7,19,8], [5,25,8], [3,31,8], [1,37,8], [42,42,8], [40,5,9], [38,11,9], [36,17,9], [34,23,9],
   [32,29,9], [30,35,9], [28,41,9], [26,4,10], [24,10,10], [22,16,10], [20,22,10], [18,28,10], [16,34,10],
   [14,40,10], [12,3,11], [10,9,11], [8,15,11], [6,21,11], [4,27,11], [2,33,11], [0,39,11], [41,1,12], [39,7,12],
   [37,13,12], [35,19,12], [33,25,12], [31,31,12], [29,37,12], [27,0,13], [25,6,13], [23,12,13], [21,18,13],
   [19,24,13], [17,30,13], [15,36,13], [13,42,13], [11,5,14], [9,11,14], [7,17,14], [5,23,14], [3,29,14],
   [1,35,14], [42,40,14], [40,3,15], [38,9,15], [36,15,15], [34,21,15], [32,27,15], [30,33,15], [28,39,15],
   [26,2,16], [24,8,16], [22,14,16], [20,20,16], [18,26,16], [16,32,16], [14,38,16], [12,1,17], [10,7,17],
   [8,13,17], [6,19,17], [4,25,17], [2,31,17], [0,37,17], [41,42,17], [39,5,18], [37,11,18], [35,17,18],
   [33,23,18], [31,29,18], [29,35,18], [27,41,18], [25,4,19], [23,10,19], [21,16,19], [19,22,19], [17,28,19],
   [15,34,19], [13,40,19], [11,3,20], [9,9,20], [7,15,20], [5,21,20], [3,27,20], [1,33,20], [42,38,20],
   [40,1,21], [38,7,21], [36,13,21], [34,19,21], [32,25,21], [30,31,21], [28,37,21], [26,0,22], [24,6,22],
   [22,12,22], [20,18,22], [18,24,22], [16,30,22], [14,36,22], [12,42,22], [10,5,23], [8,11,23], [6,17,23],
   [4,23,23], [2,29,23], [0,35,23], [41,40,23], [39,3,24], [37,9,24], [35,15,24], [33,21,24], [31,27,24],
   [29,33,24], [27,39,24], [25,2,25], [23,8,25], [21,14,25], [19,20,25], [17,26,25], [15,32,25], [13,38,25],
   [11,1,26], [9,7,26], [7,13,26], [5,19,26], [3,25,26], [1,31,26], [42,36,26], [40,42,26], [38,5,27], [36,11,27],
   [34,17,27], [32,23,27], [30,29,27], [28,35,27], [26,41,27], [24,4,28], [22,10,28], [20,16,28], [18,22,28],
   [16,28,28], [14,34,28], [12,40,28], [10,3,29], [8,9,29], [6,15,29], [4,21,29], [2,27,29], [0,33,29],
   [41,38,29], [39,1,30], [37,7,30], [35,13,30], [33,19,30], [31,25,30], [29,31,30], [27,37,30], [25,0,31],
   [23,6,31], [21,12,31], [19,18,31], [17,24,31], [15,30,31], [13,36,31], [11,42,31], [9,5,32], [7,11,32],
   [5,17,32], [3,23,32], [1,29,32], [42,34,32], [40,40,32], [38,3,33], [36,9,33], [34,15,33], [32,21,33],
   [30,27,33], [28,33,33], [26,39,33], [24,2,34], [22,8,34], [20,14,34], [18,20,34], [16,26,34], [14,32,34],
   [12,38,34], [10,1,35], [8,7,35], [6,13,35]]"

definition BASE43_POS2 :: "nat list list" where
  "BASE43_POS2 = [
   [0,0,0,0,0], [4,19,35,0,0], [8,38,27,1,0], [12,14,20,2,0], [16,33,12,3,0], [20,9,5,4,0], [24,28,40,4,0],
   [28,4,33,5,0], [32,23,25,6,0], [36,42,17,7,0], [40,18,10,8,0], [1,38,2,9,0], [5,14,38,9,0], [9,33,30,10,0],
   [13,9,23,11,0], [17,28,15,12,0], [21,4,8,13,0], [25,23,0,14,0], [29,42,35,14,0], [33,18,28,15,0], [37,37,20,16,0],
   [41,13,13,17,0], [2,33,5,18,0], [6,9,41,18,0], [10,28,33,19,0], [14,4,26,20,0], [18,23,18,21,0], [22,42,10,22,0],
   [26,18,3,23,0], [30,37,38,23,0], [34,13,31,24,0], [38,32,23,25,0], [42,8,16,26,0], [3,28,8,27,0], [7,4,1,28,0],
   [11,23,36,28,0], [15,42,28,29,0], [19,18,21,30,0], [23,37,13,31,0], [27,13,6,32,0], [31,32,41,32,0],
   [35,8,34,33,0], [39,27,26,34,0], [0,4,19,35,0], [4,23,11,36,0], [8,42,3,37,0], [12,18,39,37,0], [16,37,31,38,0],
   [20,13,24,39,0], [24,32,16,40,0], [28,8,9,41,0], [32,27,1,42,0], [36,3,37,42,0], [40,22,29,0,1], [1,42,21,1,1],
   [5,18,14,2,1], [9,37,6,3,1], [13,13,42,3,1], [17,32,34,4,1], [21,8,27,5,1], [25,27,19,6,1], [29,3,12,7,1],
   [33,22,4,8,1], [37,41,39,8,1], [41,17,32,9,1], [2,37,24,10,1], [6,13,17,11,1], [10,32,9,12,1], [14,8,2,13,1],
   [18,27,37,13,1], [22,3,30,14,1], [26,22,22,15,1], [30,41,14,16,1], [34,17,7,17,1], [38,36,42,17,1], [42,12,35,18,1],
   [3,32,27,19,1], [7,8,20,20,1], [11,27,12,21,1], [15,3,5,22,1], [19,22,40,22,1], [23,41,32,23,1], [27,17,25,24,1],
   [31,36,17,25,1], [35,12,10,26,1], [39,31,2,27,1], [0,8,38,27,1], [4,27,30,28,1], [8,3,23,29,1], [12,22,15,30,1],
   [16,41,7,31,1], [20,17,0,32,1], [24,36,35,32,1], [28,12,28,33,1], [32,31,20,34,1], [36,7,13,35,1], [40,26,5,36,1],
   [1,3,41,36,1], [5,22,33,37,1], [9,41,25,38,1], [13,17,18,39,1], [17,36,10,40,1], [21,12,3,41,1], [25,31,38,41,1],
   [29,7,31,42,1], [33,26,23,0,2], [37,2,16,1,2], [41,21,8,2,2], [2,41,0,3,2], [6,17,36,3,2], [10,36,28,4,2],
   [14,12,21,5,2], [18,31,13,6,2], [22,7,6,7,2], [26,26,41,7,2], [30,2,34,8,2], [34,21,26,9,2], [38,40,18,10,2],
   [42,16,11,11,2], [3,36,3,12,2], [7,12,39,12,2], [11,31,31,13,2], [15,7,24,14,2], [19,26,16,15,2], [23,2,9,16,2],
   [27,21,1,17,2], [31,40,36,17,2], [35,16,29,18,2], [39,35,21,19,2], [0,12,14,20,2], [4,31,6,21,2], [8,7,42,21,2],
   [12,26,34,22,2], [16,2,27,23,2], [20,21,19,24,2], [24,40,11,25,2], [28,16,4,26,2], [32,35,39,26,2], [36,11,32,27,2],
   [40,30,24,28,2], [1,7,17,29,2], [5,26,9,30,2], [9,2,2,31,2], [13,21,37,31,2], [17,40,29,32,2], [21,16,22,33,2],
   [25,35,14,34,2], [29,11,7,35,2], [33,30,42,35,2], [37,6,35,36,2], [41,25,27,37,2], [2,2,20,38,2], [6,21,12,39,2],
   [10,40,4,40,2], [14,16,40,40,2], [18,35,32,41,2], [22,11,25,42,2], [26,30,17,0,3], [30,6,10,1,3], [34,25,2,2,3],
   [38,1,38,2,3], [42,20,30,3,3], [3,40,22,4,3], [7,16,15,5,3], [11,35,7,6,3], [15,11,0,7,3], [19,30,35,7,3],
   [23,6,28,8,3], [27,25,20,9,3], [31,1,13,10,3], [35,20,5,11,3], [39,39,40,11,3], [0,16,33,12,3], [4,35,25,13,3],
   [8,11,18,14,3], [12,30,10,15,3], [16,6,3,16,3], [20,25,38,16,3], [24,1,31,17,3], [28,20,23,18,3], [32,39,15,19,3],
   [36,15,8,20,3], [40,34,0,21,3], [1,11,36,21,3], [5,30,28,22,3], [9,6,21,23,3], [13,25,13,24,3], [17,1,6,25,3],
   [21,20,41,25,3], [25,39,33,26,3], [29,15,26,27,3], [33,34,18,28,3], [37,10,11,29,3], [41,29,3,30,3],
   [2,6,39,30,3], [6,25,31,31,3], [10,1,24,32,3], [14,20,16,33,3], [18,39,8,34,3], [22,15,1,35,3], [26,34,36,35,3],
   [30,10,29,36,3], [34,29,21,37,3], [38,5,14,38,3], [42,24,6,39,3], [3,1,42,39,3], [7,20,34,40,3], [11,39,26,41,3],
   [15,15,19,42,3], [19,34,11,0,4], [23,10,4,1,4], [27,29,39,1,4], [31,5,32,2,4], [35,24,24,3,4], [39,0,17,4,4],
   [0,20,9,5,4], [4,39,1,6,4], [8,15,37,6,4], [12,34,29,7,4], [16,10,22,8,4], [20,29,14,9,4], [24,5,7,10,4],
   [28,24,42,10,4], [32,0,35,11,4], [36,19,27,12,4], [40,38,19,13,4], [1,15,12,14,4], [5,34,4,15,4], [9,10,40,15,4],
   [13,29,32,16,4], [17,5,25,17,4], [21,24,17,18,4], [25,0,10,19,4], [29,19,2,20,4], [33,38,37,20,4], [37,14,30,21,4],
   [41,33,22,22,4], [2,10,15,23,4], [6,29,7,24,4], [10,5,0,25,4], [14,24,35,25,4], [18,0,28,26,4], [22,19,20,27,4],
   [26,38,12,28,4], [30,14,5,29,4], [34,33,40,29,4], [38,9,33,30,4], [42,28,25,31,4], [3,5,18,32,4], [7,24,10,33,4],
   [11,0,3,34,4], [15,19,38,34,4], [19,38,30,35,4], [23,14,23,36,4], [27,33,15,37,4], [31,9,8,38,4]]"

definition BASE43_POS3 :: "nat list list" where
  "BASE43_POS3 = [
   [0,0,0,0,0,0], [35,28,0,39,4,0], [27,14,1,35,9,0], [19,0,2,31,14,0], [11,29,2,27,19,0], [3,15,3,23,24,0],
   [38,0,4,19,29,0], [30,29,4,15,34,0], [22,15,5,11,39,0], [14,1,6,7,1,1], [6,30,6,3,6,1], [41,15,7,42,10,1],
   [33,1,8,38,15,1], [25,30,8,34,20,1], [17,16,9,30,25,1], [9,2,10,26,30,1], [1,31,10,22,35,1], [36,16,11,18,40,1],
   [28,2,12,14,2,2], [20,31,12,10,7,2], [12,17,13,6,12,2], [4,3,14,2,17,2], [39,31,14,41,21,2], [31,17,15,37,26,2],
   [23,3,16,33,31,2], [15,32,16,29,36,2], [7,18,17,25,41,2], [42,3,18,21,3,3], [34,32,18,17,8,3], [26,18,19,13,13,3],
   [18,4,20,9,18,3], [10,33,20,5,23,3], [2,19,21,1,28,3], [37,4,22,40,32,3], [29,33,22,36,37,3], [21,19,23,32,42,3],
   [13,5,24,28,4,4], [5,34,24,24,9,4], [40,19,25,20,14,4], [32,5,26,16,19,4], [24,34,26,12,24,4], [16,20,27,8,29,4],
   [8,6,28,4,34,4], [0,35,28,0,39,4], [35,20,29,39,0,5], [27,6,30,35,5,5], [19,35,30,31,10,5], [11,21,31,27,15,5],
   [3,7,32,23,20,5], [38,35,32,19,25,5], [30,21,33,15,30,5], [22,7,34,11,35,5], [14,36,34,7,40,5], [6,22,35,3,2,6],
   [41,7,36,42,6,6], [33,36,36,38,11,6], [25,22,37,34,16,6], [17,8,38,30,21,6], [9,37,38,26,26,6], [1,23,39,22,31,6],
   [36,8,40,18,36,6], [28,37,40,14,41,6], [20,23,41,10,3,7], [12,9,42,6,8,7], [4,38,42,2,13,7], [39,23,0,42,17,7],
   [31,9,1,38,22,7], [23,38,1,34,27,7], [15,24,2,30,32,7], [7,10,3,26,37,7], [42,38,3,22,42,7], [34,24,4,18,4,8],
   [26,10,5,14,9,8], [18,39,5,10,14,8], [10,25,6,6,19,8], [2,11,7,2,24,8], [37,39,7,41,28,8], [29,25,8,37,33,8],
   [21,11,9,33,38,8], [13,40,9,29,0,9], [5,26,10,25,5,9], [40,11,11,21,10,9], [32,40,11,17,15,9], [24,26,12,13,20,9],
   [16,12,13,9,25,9], [8,41,13,5,30,9], [0,27,14,1,35,9], [35,12,15,40,39,9], [27,41,15,36,1,10], [19,27,16,32,6,10],
   [11,13,17,28,11,10], [3,42,17,24,16,10], [38,27,18,20,21,10], [30,13,19,16,26,10], [22,42,19,12,31,10],
   [14,28,20,8,36,10], [6,14,21,4,41,10], [41,42,21,0,3,11], [33,28,22,39,7,11], [25,14,23,35,12,11], [17,0,24,31,17,11],
   [9,29,24,27,22,11], [1,15,25,23,27,11], [36,0,26,19,32,11], [28,29,26,15,37,11], [20,15,27,11,42,11],
   [12,1,28,7,4,12], [4,30,28,3,9,12], [39,15,29,42,13,12], [31,1,30,38,18,12], [23,30,30,34,23,12], [15,16,31,30,28,12],
   [7,2,32,26,33,12], [42,30,32,22,38,12], [34,16,33,18,0,13], [26,2,34,14,5,13], [18,31,34,10,10,13], [10,17,35,6,15,13],
   [2,3,36,2,20,13], [37,31,36,41,24,13], [29,17,37,37,29,13], [21,3,38,33,34,13], [13,32,38,29,39,13],
   [5,18,39,25,1,14], [40,3,40,21,6,14], [32,32,40,17,11,14], [24,18,41,13,16,14], [16,4,42,9,21,14], [8,33,42,5,26,14],
   [0,19,0,2,31,14], [35,4,1,41,35,14], [27,33,1,37,40,14], [19,19,2,33,2,15], [11,5,3,29,7,15], [3,34,3,25,12,15],
   [38,19,4,21,17,15], [30,5,5,17,22,15], [22,34,5,13,27,15], [14,20,6,9,32,15], [6,6,7,5,37,15], [41,34,7,1,42,15],
   [33,20,8,40,3,16], [25,6,9,36,8,16], [17,35,9,32,13,16], [9,21,10,28,18,16], [1,7,11,24,23,16], [36,35,11,20,28,16],
   [28,21,12,16,33,16], [20,7,13,12,38,16], [12,36,13,8,0,17], [4,22,14,4,5,17], [39,7,15,0,10,17], [31,36,15,39,14,17],
   [23,22,16,35,19,17], [15,8,17,31,24,17], [7,37,17,27,29,17], [42,22,18,23,34,17], [34,8,19,19,39,17],
   [26,37,19,15,1,18], [18,23,20,11,6,18], [10,9,21,7,11,18], [2,38,21,3,16,18], [37,23,22,42,20,18], [29,9,23,38,25,18],
   [21,38,23,34,30,18], [13,24,24,30,35,18], [5,10,25,26,40,18], [40,38,25,22,2,19], [32,24,26,18,7,19],
   [24,10,27,14,12,19], [16,39,27,10,17,19], [8,25,28,6,22,19], [0,11,29,2,27,19], [35,39,29,41,31,19],
   [27,25,30,37,36,19], [19,11,31,33,41,19], [11,40,31,29,3,20], [3,26,32,25,8,20], [38,11,33,21,13,20],
   [30,40,33,17,18,20], [22,26,34,13,23,20], [14,12,35,9,28,20], [6,41,35,5,33,20], [41,26,36,1,38,20],
   [33,12,37,40,42,20], [25,41,37,36,4,21], [17,27,38,32,9,21], [9,13,39,28,14,21], [1,42,39,24,19,21],
   [36,27,40,20,24,21], [28,13,41,16,29,21], [20,42,41,12,34,21], [12,28,42,8,39,21], [4,14,0,5,1,22], [39,42,0,1,6,22],
   [31,28,1,40,10,22], [23,14,2,36,15,22], [15,0,3,32,20,22], [7,29,3,28,25,22], [42,14,4,24,30,22], [34,0,5,20,35,22],
   [26,29,5,16,40,22], [18,15,6,12,2,23], [10,1,7,8,7,23], [2,30,7,4,12,23], [37,15,8,0,17,23], [29,1,9,39,21,23],
   [21,30,9,35,26,23], [13,16,10,31,31,23], [5,2,11,27,36,23], [40,30,11,23,41,23], [32,16,12,19,3,24],
   [24,2,13,15,8,24], [16,31,13,11,13,24], [8,17,14,7,18,24], [0,3,15,3,23,24], [35,31,15,42,27,24], [27,17,16,38,32,24],
   [19,3,17,34,37,24], [11,32,17,30,42,24], [3,18,18,26,4,25], [38,3,19,22,9,25], [30,32,19,18,14,25], [22,18,20,14,19,25],
   [14,4,21,10,24,25], [6,33,21,6,29,25], [41,18,22,2,34,25], [33,4,23,41,38,25], [25,33,23,37,0,26], [17,19,24,33,5,26],
   [9,5,25,29,10,26], [1,34,25,25,15,26], [36,19,26,21,20,26], [28,5,27,17,25,26], [20,34,27,13,30,26],
   [12,20,28,9,35,26], [4,6,29,5,40,26], [39,34,29,1,2,27], [31,20,30,40,6,27], [23,6,31,36,11,27], [15,35,31,32,16,27],
   [7,21,32,28,21,27], [42,6,33,24,26,27], [34,35,33,20,31,27], [26,21,34,16,36,27], [18,7,35,12,41,27],
   [10,36,35,8,3,28], [2,22,36,4,8,28], [37,7,37,0,13,28], [29,36,37,39,17,28], [21,22,38,35,22,28], [13,8,39,31,27,28],
   [5,37,39,27,32,28], [40,22,40,23,37,28], [32,8,41,19,42,28], [24,37,41,15,4,29]]"

definition BASE43_POS4 :: "nat list list" where
  "BASE43_POS4 = [
   [0,0,0,0,0,0,0,0], [16,23,42,11,9,29,0,0], [32,3,42,23,18,15,1,0], [5,27,41,35,27,1,2,0], [21,7,41,4,37,30,2,0],
   [37,30,40,16,3,17,3,0], [10,11,40,28,12,3,4,0], [26,34,39,40,21,32,4,0], [42,14,39,9,31,18,5,0], [15,38,38,21,40,4,6,0],
   [31,18,38,33,6,34,6,0], [4,42,37,2,16,20,7,0], [20,22,37,14,25,6,8,0], [36,2,37,26,34,35,8,0], [9,26,36,38,0,22,9,0],
   [25,6,36,7,10,8,10,0], [41,29,35,19,19,37,10,0], [14,10,35,31,28,23,11,0], [30,33,34,0,38,9,12,0], [3,14,34,12,4,39,12,0],
   [19,37,33,24,13,25,13,0], [35,17,33,36,22,11,14,0], [8,41,32,5,32,40,14,0], [24,21,32,17,41,26,15,0],
   [40,1,32,29,7,13,16,0], [13,25,31,41,16,42,16,0], [29,5,31,10,26,28,17,0], [2,29,30,22,35,14,18,0], [18,9,30,34,1,1,19,0],
   [34,32,29,3,11,30,19,0], [7,13,29,15,20,16,20,0], [23,36,28,27,29,2,21,0], [39,16,28,39,38,31,21,0],
   [12,40,27,8,5,18,22,0], [28,20,27,20,14,4,23,0], [1,1,27,32,23,33,23,0], [17,24,26,1,33,19,24,0], [33,4,26,13,42,5,25,0],
   [6,28,25,25,8,35,25,0], [22,8,25,37,17,21,26,0], [38,31,24,6,27,7,27,0], [11,12,24,18,36,36,27,0], [27,35,23,30,2,23,28,0],
   [0,16,23,42,11,9,29,0], [16,39,22,11,21,38,29,0], [32,19,22,23,30,24,30,0], [5,0,22,35,39,10,31,0], [21,23,21,4,6,40,31,0],
   [37,3,21,16,15,26,32,0], [10,27,20,28,24,12,33,0], [26,7,20,40,33,41,33,0], [42,30,19,9,0,28,34,0], [15,11,19,21,9,14,35,0],
   [31,34,18,33,18,0,36,0], [4,15,18,2,28,29,36,0], [20,38,17,14,37,15,37,0], [36,18,17,26,3,2,38,0], [9,42,16,38,12,31,38,0],
   [25,22,16,7,22,17,39,0], [41,2,16,19,31,3,40,0], [14,26,15,31,40,32,40,0], [30,6,15,0,7,19,41,0], [3,30,14,12,16,5,42,0],
   [19,10,14,24,25,34,42,0], [35,33,13,36,34,20,0,1], [8,14,13,5,1,7,1,1], [24,37,12,17,10,36,1,1], [40,17,12,29,19,22,2,1],
   [13,41,11,41,28,8,3,1], [29,21,11,10,38,37,3,1], [2,2,11,22,4,24,4,1], [18,25,10,34,13,10,5,1], [34,5,10,3,23,39,5,1],
   [7,29,9,15,32,25,6,1], [23,9,9,27,41,11,7,1], [39,32,8,39,7,41,7,1], [12,13,8,8,17,27,8,1], [28,36,7,20,26,13,9,1],
   [1,17,7,32,35,42,9,1], [17,40,6,1,2,29,10,1], [33,20,6,13,11,15,11,1], [6,1,6,25,20,1,12,1], [22,24,5,37,29,30,12,1],
   [38,4,5,6,39,16,13,1], [11,28,4,18,5,3,14,1], [27,8,4,30,14,32,14,1], [0,32,3,42,23,18,15,1], [16,12,3,11,33,4,16,1],
   [32,35,2,23,42,33,16,1], [5,16,2,35,8,20,17,1], [21,39,1,4,18,6,18,1], [37,19,1,16,27,35,18,1], [10,0,1,28,36,21,19,1],
   [26,23,0,40,2,8,20,1], [42,3,0,9,12,37,20,1], [15,27,42,20,21,23,21,1], [31,7,42,32,30,9,22,1], [4,31,41,1,40,38,22,1],
   [20,11,41,13,6,25,23,1], [36,34,40,25,15,11,24,1], [9,15,40,37,24,40,24,1], [25,38,39,6,34,26,25,1],
   [41,18,39,18,0,13,26,1], [14,42,38,30,9,42,26,1], [30,22,38,42,18,28,27,1], [3,3,38,11,28,14,28,1], [19,26,37,23,37,0,29,1],
   [35,6,37,35,3,30,29,1], [8,30,36,4,13,16,30,1], [24,10,36,16,22,2,31,1], [40,33,35,28,31,31,31,1], [13,14,35,40,40,17,32,1],
   [29,37,34,9,7,4,33,1], [2,18,34,21,16,33,33,1], [18,41,33,33,25,19,34,1], [34,21,33,2,35,5,35,1], [7,2,33,14,1,35,35,1],
   [23,25,32,26,10,21,36,1], [39,5,32,38,19,7,37,1], [12,29,31,7,29,36,37,1], [28,9,31,19,38,22,38,1], [1,33,30,31,4,9,39,1],
   [17,13,30,0,14,38,39,1], [33,36,29,12,23,24,40,1], [6,17,29,24,32,10,41,1], [22,40,28,36,41,39,41,1],
   [38,20,28,5,8,26,42,1], [11,1,28,17,17,12,0,2], [27,24,27,29,26,41,0,2], [0,5,27,41,35,27,1,2], [16,28,26,10,2,14,2,2],
   [32,8,26,22,11,0,3,2], [5,32,25,34,20,29,3,2], [21,12,25,3,30,15,4,2], [37,35,24,15,39,1,5,2], [10,16,24,27,5,31,5,2],
   [26,39,23,39,14,17,6,2], [42,19,23,8,24,3,7,2], [15,0,23,20,33,32,7,2], [31,23,22,32,42,18,8,2], [4,4,22,1,9,5,9,2],
   [20,27,21,13,18,34,9,2], [36,7,21,25,27,20,10,2], [9,31,20,37,36,6,11,2], [25,11,20,6,3,36,11,2], [41,34,19,18,12,22,12,2],
   [14,15,19,30,21,8,13,2], [30,38,18,42,30,37,13,2], [3,19,18,11,40,23,14,2], [19,42,17,23,6,10,15,2],
   [35,22,17,35,15,39,15,2], [8,3,17,4,25,25,16,2], [24,26,16,16,34,11,17,2], [40,6,16,28,0,41,17,2], [13,30,15,40,9,27,18,2],
   [29,10,15,9,19,13,19,2], [2,34,14,21,28,42,19,2], [18,14,14,33,37,28,20,2], [34,37,13,2,4,15,21,2], [7,18,13,14,13,1,22,2],
   [23,41,12,26,22,30,22,2], [39,21,12,38,31,16,23,2], [12,2,12,7,41,2,24,2], [28,25,11,19,7,32,24,2], [1,6,11,31,16,18,25,2],
   [17,29,10,0,26,4,26,2], [33,9,10,12,35,33,26,2], [6,33,9,24,1,20,27,2], [22,13,9,36,10,6,28,2], [38,36,8,5,20,35,28,2],
   [11,17,8,17,29,21,29,2], [27,40,7,29,38,7,30,2], [0,21,7,41,4,37,30,2], [16,1,7,10,14,23,31,2], [32,24,6,22,23,9,32,2],
   [5,5,6,34,32,38,32,2], [21,28,5,3,42,24,33,2], [37,8,5,15,8,11,34,2], [10,32,4,27,17,40,34,2], [26,12,4,39,26,26,35,2],
   [42,35,3,8,36,12,36,2], [15,16,3,20,2,42,36,2], [31,39,2,32,11,28,37,2], [4,20,2,1,21,14,38,2], [20,0,2,13,30,0,39,2],
   [36,23,1,25,39,29,39,2], [9,4,1,37,5,16,40,2], [25,27,0,6,15,2,41,2], [41,7,0,18,24,31,41,2], [14,31,42,29,33,17,42,2],
   [30,11,42,41,42,3,0,3], [3,35,41,10,9,33,0,3], [19,15,41,22,18,19,1,3], [35,38,40,34,27,5,2,3], [8,19,40,3,37,34,2,3],
   [24,42,39,15,3,21,3,3], [40,22,39,27,12,7,4,3], [13,3,39,39,21,36,4,3], [29,26,38,8,31,22,5,3], [2,7,38,20,40,8,6,3],
   [18,30,37,32,6,38,6,3], [34,10,37,1,16,24,7,3], [7,34,36,13,25,10,8,3], [23,14,36,25,34,39,8,3], [39,37,35,37,0,26,9,3],
   [12,18,35,6,10,12,10,3], [28,41,34,18,19,41,10,3], [1,22,34,30,28,27,11,3], [17,2,34,42,37,13,12,3],
   [33,25,33,11,4,0,13,3], [6,6,33,23,13,29,13,3], [22,29,32,35,22,15,14,3], [38,9,32,4,32,1,15,3], [11,33,31,16,41,30,15,3],
   [27,13,31,28,7,17,16,3], [0,37,30,40,16,3,17,3], [16,17,30,9,26,32,17,3], [32,40,29,21,35,18,18,3], [5,21,29,33,1,5,19,3],
   [21,1,29,2,11,34,19,3], [37,24,28,14,20,20,20,3], [10,5,28,26,29,6,21,3], [26,28,27,38,38,35,21,3], [42,8,27,7,5,22,22,3],
   [15,32,26,19,14,8,23,3], [31,12,26,31,23,37,23,3], [4,36,25,0,33,23,24,3], [20,16,25,12,42,9,25,3], [36,39,24,24,8,39,25,3],
   [9,20,24,36,17,25,26,3], [25,0,24,5,27,11,27,3], [41,23,23,17,36,40,27,3], [14,4,23,29,2,27,28,3], [30,27,22,41,11,13,29,3],
   [3,8,22,10,21,42,29,3], [19,31,21,22,30,28,30,3], [35,11,21,34,39,14,31,3], [8,35,20,3,6,1,32,3], [24,15,20,15,15,30,32,3],
   [40,38,19,27,24,16,33,3], [13,19,19,39,33,2,34,3], [29,42,18,8,0,32,34,3], [2,23,18,20,9,18,35,3], [18,3,18,32,18,4,36,3],
   [34,26,17,1,28,33,36,3], [7,7,17,13,37,19,37,3], [23,30,16,25,3,6,38,3], [39,10,16,37,12,35,38,3], [12,34,15,6,22,21,39,3],
   [28,14,15,18,31,7,40,3], [1,38,14,30,40,36,40,3], [17,18,14,42,6,23,41,3], [33,41,13,11,16,9,42,3], [6,22,13,23,25,38,42,3],
   [22,2,13,35,34,24,0,4], [38,25,12,4,1,11,1,4]]"

definition BASE43_POS5 :: "nat list list" where
  "BASE43_POS5 = [
   [0,0,0,0,0,0,0,0,0], [11,6,12,16,10,40,1,4,0], [22,12,24,32,20,37,3,8,0], [33,18,36,5,31,34,5,12,0],
   [1,25,5,22,41,31,7,16,0], [12,31,17,38,8,29,9,20,0], [23,37,29,11,19,26,11,24,0], [34,0,42,27,29,23,13,28,0],
   [2,7,11,1,40,20,15,32,0], [13,13,23,17,7,18,17,36,0], [24,19,35,33,17,15,19,40,0], [35,25,4,7,28,12,21,1,1],
   [3,32,16,23,38,9,23,5,1], [14,38,28,39,5,7,25,9,1], [25,1,41,12,16,4,27,13,1], [36,7,10,29,26,1,29,17,1],
   [4,14,22,2,37,41,30,21,1], [15,20,34,18,4,39,32,25,1], [26,26,3,35,14,36,34,29,1], [37,32,15,8,25,33,36,33,1],
   [5,39,27,24,35,30,38,37,1], [16,2,40,40,2,28,40,41,1], [27,8,9,14,13,25,42,2,2], [38,14,21,30,23,22,1,7,2],
   [6,21,33,3,34,19,3,11,2], [17,27,2,20,1,17,5,15,2], [28,33,14,36,11,14,7,19,2], [39,39,26,9,22,11,9,23,2],
   [7,3,39,25,32,8,11,27,2], [18,9,8,42,42,5,13,31,2], [29,15,20,15,10,3,15,35,2], [40,21,32,31,20,0,17,39,2],
   [8,28,1,5,31,40,18,0,3], [19,34,13,21,41,37,20,4,3], [30,40,25,37,8,35,22,8,3], [41,3,38,10,19,32,24,12,3],
   [9,10,7,27,29,29,26,16,3], [20,16,19,0,40,26,28,20,3], [31,22,31,16,7,24,30,24,3], [42,28,0,33,17,21,32,28,3],
   [10,35,12,6,28,18,34,32,3], [21,41,24,22,38,15,36,36,3], [32,4,37,38,5,13,38,40,3], [0,11,6,12,16,10,40,1,4],
   [11,17,18,28,26,7,42,5,4], [22,23,30,1,37,4,1,10,4], [33,29,42,17,4,2,3,14,4], [1,36,11,34,14,42,4,18,4],
   [12,42,23,7,25,39,6,22,4], [23,5,36,23,35,36,8,26,4], [34,11,5,40,2,34,10,30,4], [2,18,17,13,13,31,12,34,4],
   [13,24,29,29,23,28,14,38,4], [24,30,41,2,34,25,16,42,4], [35,36,10,19,1,23,18,3,5], [3,0,23,35,11,20,20,7,5],
   [14,6,35,8,22,17,22,11,5], [25,12,4,25,32,14,24,15,5], [36,18,16,41,42,11,26,19,5], [4,25,28,14,10,9,28,23,5],
   [15,31,40,30,20,6,30,27,5], [26,37,9,4,31,3,32,31,5], [37,0,22,20,41,0,34,35,5], [5,7,34,36,8,41,35,39,5],
   [16,13,3,10,19,38,37,0,6], [27,19,15,26,29,35,39,4,6], [38,25,27,42,39,32,41,8,6], [6,32,39,15,7,30,0,13,6],
   [17,38,8,32,17,27,2,17,6], [28,1,21,5,28,24,4,21,6], [39,7,33,21,38,21,6,25,6], [7,14,2,38,5,19,8,29,6],
   [18,20,14,11,16,16,10,33,6], [29,26,26,27,26,13,12,37,6], [40,32,38,0,37,10,14,41,6], [8,39,7,17,4,8,16,2,7],
   [19,2,20,33,14,5,18,6,7], [30,8,32,6,25,2,20,10,7], [41,14,1,23,35,42,21,14,7], [9,21,13,39,2,40,23,18,7],
   [20,27,25,12,13,37,25,22,7], [31,33,37,28,23,34,27,26,7], [42,39,6,2,34,31,29,30,7], [10,3,19,18,1,29,31,34,7],
   [21,9,31,34,11,26,33,38,7], [32,15,0,8,22,23,35,42,7], [0,22,12,24,32,20,37,3,8], [11,28,24,40,42,17,39,7,8],
   [22,34,36,13,10,15,41,11,8], [33,40,5,30,20,12,0,16,8], [1,4,18,3,31,9,2,20,8], [12,10,30,19,41,6,4,24,8],
   [23,16,42,35,8,4,6,28,8], [34,22,11,9,19,1,8,32,8], [2,29,23,25,29,41,9,36,8], [13,35,35,41,39,38,11,40,8],
   [24,41,4,15,7,36,13,1,9], [35,4,17,31,17,33,15,5,9], [3,11,29,4,28,30,17,9,9], [14,17,41,20,38,27,19,13,9],
   [25,23,10,37,5,25,21,17,9], [36,29,22,10,16,22,23,21,9], [4,36,34,26,26,19,25,25,9], [15,42,3,0,37,16,27,29,9],
   [26,5,16,16,4,14,29,33,9], [37,11,28,32,14,11,31,37,9], [5,18,40,5,25,8,33,41,9], [16,24,9,22,35,5,35,2,10],
   [27,30,21,38,2,3,37,6,10], [38,36,33,11,13,0,39,10,10], [6,0,3,28,23,40,40,14,10], [17,6,15,1,34,37,42,18,10],
   [28,12,27,17,1,35,1,23,10], [39,18,39,33,11,32,3,27,10], [7,25,8,7,22,29,5,31,10], [18,31,20,23,32,26,7,35,10],
   [29,37,32,39,42,23,9,39,10], [40,0,2,13,10,21,11,0,11], [8,7,14,29,20,18,13,4,11], [19,13,26,2,31,15,15,8,11],
   [30,19,38,18,41,12,17,12,11], [41,25,7,35,8,10,19,16,11], [9,32,19,8,19,7,21,20,11], [20,38,31,24,29,4,23,24,11],
   [31,1,1,41,39,1,25,28,11], [42,7,13,14,7,42,26,32,11], [10,14,25,30,17,39,28,36,11], [21,20,37,3,28,36,30,40,11],
   [32,26,6,20,38,33,32,1,12], [0,33,18,36,5,31,34,5,12], [11,39,30,9,16,28,36,9,12], [22,2,0,26,26,25,38,13,12],
   [33,8,12,42,36,22,40,17,12], [1,15,24,15,4,20,42,21,12], [12,21,36,31,14,17,1,26,12], [23,27,5,5,25,14,3,30,12],
   [34,33,17,21,35,11,5,34,12], [2,40,29,37,2,9,7,38,12], [13,3,42,10,13,6,9,42,12], [24,9,11,27,23,3,11,3,13],
   [35,15,23,0,34,0,13,7,13], [3,22,35,16,1,41,14,11,13], [14,28,4,33,11,38,16,15,13], [25,34,16,6,22,35,18,19,13],
   [36,40,28,22,32,32,20,23,13], [4,4,41,38,42,29,22,27,13], [15,10,10,12,10,27,24,31,13], [26,16,22,28,20,24,26,35,13],
   [37,22,34,1,31,21,28,39,13], [5,29,3,18,41,18,30,0,14], [16,35,15,34,8,16,32,4,14], [27,41,27,7,19,13,34,8,14],
   [38,4,40,23,29,10,36,12,14], [6,11,9,40,39,7,38,16,14], [17,17,21,13,7,5,40,20,14], [28,23,33,29,17,2,42,24,14],
   [39,29,2,3,28,42,0,29,14], [7,36,14,19,38,39,2,33,14], [18,42,26,35,5,37,4,37,14], [29,5,39,8,16,34,6,41,14],
   [40,11,8,25,26,31,8,2,15], [8,18,20,41,36,28,10,6,15], [19,24,32,14,4,26,12,10,15], [30,30,1,31,14,23,14,14,15],
   [41,36,13,4,25,20,16,18,15], [9,0,26,20,35,17,18,22,15], [20,6,38,36,2,15,20,26,15], [31,12,7,10,13,12,22,30,15],
   [42,18,19,26,23,9,24,34,15], [10,25,31,42,33,6,26,38,15], [21,31,0,16,1,4,28,42,15], [32,37,12,32,11,1,30,3,16],
   [0,1,25,5,22,41,31,7,16], [11,7,37,21,32,38,33,11,16], [22,13,6,38,42,35,35,15,16], [33,19,18,11,10,33,37,19,16],
   [1,26,30,27,20,30,39,23,16], [12,32,42,0,31,27,41,27,16], [23,38,11,17,41,24,0,32,16], [34,1,24,33,8,22,2,36,16],
   [2,8,36,6,19,19,4,40,16], [13,14,5,23,29,16,6,1,17], [24,20,17,39,39,13,8,5,17], [35,26,29,12,7,11,10,9,17],
   [3,33,41,28,17,8,12,13,17], [14,39,10,2,28,5,14,17,17], [25,2,23,18,38,2,16,21,17], [36,8,35,34,5,0,18,25,17],
   [4,15,4,8,16,40,19,29,17], [15,21,16,24,26,37,21,33,17], [26,27,28,40,36,34,23,37,17], [37,33,40,13,4,32,25,41,17],
   [5,40,9,30,14,29,27,2,18], [16,3,22,3,25,26,29,6,18], [27,9,34,19,35,23,31,10,18], [38,15,3,36,2,21,33,14,18],
   [6,22,15,9,13,18,35,18,18], [17,28,27,25,23,15,37,22,18], [28,34,39,41,33,12,39,26,18], [39,40,8,15,1,10,41,30,18],
   [7,4,21,31,11,7,0,35,18], [18,10,33,4,22,4,2,39,18], [29,16,2,21,32,1,4,0,19], [40,22,14,37,42,41,5,4,19],
   [8,29,26,10,10,39,7,8,19], [19,35,38,26,20,36,9,12,19], [30,41,7,0,31,33,11,16,19], [41,4,20,16,41,30,13,20,19],
   [9,11,32,32,8,28,15,24,19], [20,17,1,6,19,25,17,28,19], [31,23,13,22,29,22,19,32,19], [42,29,25,38,39,19,21,36,19],
   [10,36,37,11,7,17,23,40,19], [21,42,6,28,17,14,25,1,20], [32,5,19,1,28,11,27,5,20], [0,12,31,17,38,8,29,9,20],
   [11,18,0,34,5,6,31,13,20], [22,24,12,7,16,3,33,17,20], [33,30,24,23,26,0,35,21,20], [1,37,36,39,36,40,36,25,20],
   [12,0,6,13,4,38,38,29,20], [23,6,18,29,14,35,40,33,20], [34,12,30,2,25,32,42,37,20], [2,19,42,18,35,29,1,42,20],
   [13,25,11,35,2,27,3,3,21], [24,31,23,8,13,24,5,7,21], [35,37,35,24,23,21,7,11,21], [3,1,5,41,33,18,9,15,21],
   [14,7,17,14,1,16,11,19,21], [25,13,29,30,11,13,13,23,21], [36,19,41,3,22,10,15,27,21], [4,26,10,20,32,7,17,31,21],
   [15,32,22,36,42,4,19,35,21], [26,38,34,9,10,2,21,39,21], [37,1,4,26,20,42,22,0,22], [5,8,16,42,30,39,24,4,22],
   [16,14,28,15,41,36,26,8,22], [27,20,40,31,8,34,28,12,22], [38,26,9,5,19,31,30,16,22], [6,33,21,21,29,28,32,20,22],
   [17,39,33,37,39,25,34,24,22], [28,2,3,11,7,23,36,28,22], [39,8,15,27,17,20,38,32,22], [7,15,27,0,28,17,40,36,22],
   [18,21,39,16,38,14,42,40,22], [29,27,8,33,5,12,1,2,23], [40,33,20,6,16,9,3,6,23], [8,40,32,22,26,6,5,10,23],
   [19,3,2,39,36,3,7,14,23], [30,9,14,12,4,1,9,18,23], [41,15,26,28,14,41,10,22,23], [9,22,38,1,25,38,12,26,23],
   [20,28,7,18,35,35,14,30,23], [31,34,19,34,2,33,16,34,23], [42,40,31,7,13,30,18,38,23], [10,4,1,24,23,27,20,42,23]]"

definition BASE43_POS6 :: "nat list list" where
  "BASE43_POS6 = [
   [0,0,0,0,0,0,0,0,0,0,0], [21,10,13,40,33,24,22,3,24,0,0], [42,20,26,37,24,6,2,7,5,1,0], [20,31,39,34,15,31,24,10,29,1,0],
   [41,41,9,32,6,13,4,14,10,2,0], [19,9,23,29,40,37,26,17,34,2,0], [40,19,36,26,31,19,6,21,15,3,0], [18,30,6,24,22,1,29,24,39,3,0],
   [39,40,19,21,13,26,8,28,20,4,0], [17,8,33,18,4,8,31,31,1,5,0], [38,18,3,16,38,32,10,35,25,5,0], [16,29,16,13,29,14,33,38,6,6,0],
   [37,39,29,10,20,39,12,42,30,6,0], [15,7,0,8,11,21,35,2,12,7,0], [36,17,13,5,2,3,15,6,36,7,0], [14,28,26,2,36,27,37,9,17,8,0],
   [35,38,39,42,26,9,17,13,41,8,0], [13,6,10,40,17,34,39,16,22,9,0], [34,16,23,37,8,16,19,20,3,10,0], [12,27,36,34,42,40,41,23,27,10,0],
   [33,37,6,32,33,22,21,27,8,11,0], [11,5,20,29,24,4,1,31,32,11,0], [32,15,33,26,15,29,23,34,13,12,0], [10,26,3,24,6,11,3,38,37,12,0],
   [31,36,16,21,40,35,25,41,18,13,0], [9,4,30,18,31,17,5,2,0,14,0], [30,14,0,16,22,42,27,5,24,14,0], [8,25,13,13,13,24,7,9,5,15,0],
   [29,35,26,10,4,6,30,12,29,15,0], [7,3,40,7,38,30,9,16,10,16,0], [28,13,10,5,29,12,32,19,34,16,0], [6,24,23,2,20,37,11,23,15,17,0],
   [27,34,36,42,10,19,34,26,39,17,0], [5,2,7,40,1,1,14,30,20,18,0], [26,12,20,37,35,25,36,33,1,19,0], [4,23,33,34,26,7,16,37,25,19,0],
   [25,33,3,32,17,32,38,40,6,20,0], [3,1,17,29,8,14,18,1,31,20,0], [24,11,30,26,42,38,40,4,12,21,0], [2,22,0,24,33,20,20,8,36,21,0],
   [23,32,13,21,24,2,0,12,17,22,0], [1,0,27,18,15,27,22,15,41,22,0], [22,10,40,15,6,9,2,19,22,23,0], [0,21,10,13,40,33,24,22,3,24,0],
   [21,31,23,10,31,15,4,26,27,24,0], [42,41,36,7,22,40,26,29,8,25,0], [20,9,7,5,13,22,6,33,32,25,0], [41,19,20,2,4,4,29,36,13,26,0],
   [19,30,33,42,37,28,8,40,37,26,0], [40,40,3,40,28,10,31,0,19,27,0], [18,8,17,37,19,35,10,4,0,28,0], [39,18,30,34,10,17,33,7,24,28,0],
   [17,29,0,32,1,42,12,11,5,29,0], [38,39,13,29,35,23,35,14,29,29,0], [16,7,27,26,26,5,15,18,10,30,0], [37,17,40,23,17,30,37,21,34,30,0],
   [15,28,10,21,8,12,17,25,15,31,0], [36,38,23,18,42,36,39,28,39,31,0], [14,6,37,15,33,18,19,32,20,32,0],
   [35,16,7,13,24,0,42,35,1,33,0], [13,27,20,10,15,25,21,39,25,33,0], [34,37,33,7,6,7,1,0,7,34,0], [12,5,4,5,40,31,23,3,31,34,0],
   [33,15,17,2,31,13,3,7,12,35,0], [11,26,30,42,21,38,25,10,36,35,0], [32,36,0,40,12,20,5,14,17,36,0], [10,4,14,37,3,2,28,17,41,36,0],
   [31,14,27,34,37,26,7,21,22,37,0], [9,25,40,31,28,8,30,24,3,38,0], [30,35,10,29,19,33,9,28,27,38,0], [8,3,24,26,10,15,32,31,8,39,0],
   [29,13,37,23,1,40,11,35,32,39,0], [7,24,7,21,35,21,34,38,13,40,0], [28,34,20,18,26,3,14,42,37,40,0],
   [6,2,34,15,17,28,36,2,19,41,0], [27,12,4,13,8,10,16,6,0,42,0], [5,23,17,10,42,34,38,9,24,42,0], [26,33,30,7,33,16,18,13,5,0,1],
   [4,1,1,5,24,41,40,16,29,0,1], [25,11,14,2,15,23,20,20,10,1,1], [3,22,27,42,5,5,0,24,34,1,1], [24,32,40,39,39,29,22,27,15,2,1],
   [2,0,11,37,30,11,2,31,39,2,1], [23,10,24,34,21,36,24,34,20,3,1], [1,21,37,31,12,18,4,38,1,4,1], [22,31,7,29,3,0,27,41,25,4,1],
   [0,42,20,26,37,24,6,2,7,5,1], [21,9,34,23,28,6,29,5,31,5,1], [42,19,4,21,19,31,8,9,12,6,1], [20,30,17,18,10,13,31,12,36,6,1],
   [41,40,30,15,1,38,10,16,17,7,1], [19,8,1,13,35,19,33,19,41,7,1], [40,18,14,10,26,1,13,23,22,8,1], [18,29,27,7,17,26,35,26,3,9,1],
   [39,39,40,4,8,8,15,30,27,9,1], [17,7,11,2,42,32,37,33,8,10,1], [38,17,24,42,32,14,17,37,32,10,1], [16,28,37,39,23,39,39,40,13,11,1],
   [37,38,7,37,14,21,19,1,38,11,1], [15,6,21,34,5,3,42,4,19,12,1], [36,16,34,31,39,27,21,8,0,13,1], [14,27,4,29,30,9,1,12,24,13,1],
   [35,37,17,26,21,34,23,15,5,14,1], [13,5,31,23,12,16,3,19,29,14,1], [34,15,1,21,3,41,25,22,10,15,1], [12,26,14,18,37,22,5,26,34,15,1],
   [33,36,27,15,28,4,28,29,15,16,1], [11,4,41,12,19,29,7,33,39,16,1], [32,14,11,10,10,11,30,36,20,17,1],
   [10,25,24,7,1,36,9,40,1,18,1], [31,35,37,4,35,17,32,0,26,18,1], [9,3,8,2,26,42,11,4,7,19,1], [30,13,21,42,16,24,34,7,31,19,1],
   [8,24,34,39,7,6,14,11,12,20,1], [29,34,4,37,41,30,36,14,36,20,1], [7,2,18,34,32,12,16,18,17,21,1], [28,12,31,31,23,37,38,21,41,21,1],
   [6,23,1,29,14,19,18,25,22,22,1], [27,33,14,26,5,1,41,28,3,23,1], [5,1,28,23,39,25,20,32,27,23,1], [26,11,41,20,30,7,0,36,8,24,1],
   [4,22,11,18,21,32,22,39,32,24,1], [25,32,24,15,12,14,2,0,14,25,1], [3,0,38,12,3,39,24,3,38,25,1], [24,10,8,10,37,20,4,7,19,26,1],
   [2,21,21,7,28,2,27,10,0,27,1], [23,31,34,4,19,27,6,14,24,27,1], [1,42,4,2,10,9,29,17,5,28,1], [22,9,18,42,0,34,8,21,29,28,1],
   [0,20,31,39,34,15,31,24,10,29,1], [21,30,1,37,25,40,10,28,34,29,1], [42,40,14,34,16,22,33,31,15,30,1],
   [20,8,28,31,7,4,13,35,39,30,1], [41,18,41,28,41,28,35,38,20,31,1], [19,29,11,26,32,10,15,42,1,32,1],
   [40,39,24,23,23,35,37,2,26,32,1], [18,7,38,20,14,17,17,6,7,33,1], [39,17,8,18,5,42,39,9,31,33,1], [17,28,21,15,39,23,19,13,12,34,1],
   [38,38,34,12,30,5,42,16,36,34,1], [16,6,5,10,21,30,21,20,17,35,1], [37,16,18,7,12,12,1,24,41,35,1], [15,27,31,4,3,37,23,27,22,36,1],
   [36,37,1,2,37,18,3,31,3,37,1], [14,5,15,42,27,0,26,34,27,37,1], [35,15,28,39,18,25,5,38,8,38,1], [13,26,41,36,9,7,28,41,32,38,1],
   [34,36,11,34,0,32,7,2,14,39,1], [12,4,25,31,34,13,30,5,38,39,1], [33,14,38,28,25,38,9,9,19,40,1], [11,25,8,26,16,20,32,12,0,41,1],
   [32,35,21,23,7,2,12,16,24,41,1], [10,3,35,20,41,26,34,19,5,42,1], [31,13,5,18,32,8,14,23,29,42,1], [9,24,18,15,23,33,36,26,10,0,2],
   [30,34,31,12,14,15,16,30,34,0,2], [8,2,2,10,5,40,38,33,15,1,2], [29,12,15,7,39,21,18,37,39,1,2], [7,23,28,4,30,3,41,40,20,2,2],
   [28,33,41,1,21,28,20,1,2,3,2], [6,1,12,42,11,10,0,5,26,3,2], [27,11,25,39,2,35,22,8,7,4,2], [5,22,38,36,36,16,2,12,31,4,2],
   [26,32,8,34,27,41,24,15,12,5,2], [4,0,22,31,18,23,4,19,36,5,2], [25,10,35,28,9,5,27,22,17,6,2], [3,21,5,26,0,30,6,26,41,6,2],
   [24,31,18,23,34,11,29,29,22,7,2], [2,42,31,20,25,36,8,33,3,8,2], [23,9,2,18,16,18,31,36,27,8,2], [1,20,15,15,7,0,11,40,8,9,2],
   [22,30,28,12,41,24,33,0,33,9,2], [0,41,41,9,32,6,13,4,14,10,2], [21,8,12,7,23,31,35,7,38,10,2], [42,18,25,4,14,13,15,11,19,11,2],
   [20,29,38,1,5,38,37,14,0,12,2], [41,39,8,42,38,19,17,18,24,12,2], [19,7,22,39,29,1,40,21,5,13,2], [40,17,35,36,20,26,19,25,29,13,2],
   [18,28,5,34,11,8,42,28,10,14,2], [39,38,18,31,2,33,21,32,34,14,2], [17,6,32,28,36,14,1,36,15,15,2], [38,16,2,26,27,39,23,39,39,15,2],
   [16,27,15,23,18,21,3,0,21,16,2], [37,37,28,20,9,3,26,3,2,17,2], [15,5,42,17,0,28,5,7,26,17,2], [36,15,12,15,34,9,28,10,7,18,2],
   [14,26,25,12,25,34,7,14,31,18,2], [35,36,38,9,16,16,30,17,12,19,2], [13,4,9,7,7,41,9,21,36,19,2], [34,14,22,4,41,22,32,24,17,20,2],
   [12,25,35,1,32,4,12,28,41,20,2], [33,35,5,42,22,29,34,31,22,21,2], [11,3,19,39,13,11,14,35,3,22,2], [32,13,32,36,4,36,36,38,27,22,2],
   [10,24,2,34,38,17,16,42,8,23,2], [31,34,15,31,29,42,38,2,33,23,2], [9,2,29,28,20,24,18,6,14,24,2], [30,12,42,25,11,6,41,9,38,24,2],
   [8,23,12,23,2,31,20,13,19,25,2], [29,33,25,20,36,12,0,17,0,26,2], [7,1,39,17,27,37,22,20,24,26,2], [28,11,9,15,18,19,2,24,5,27,2],
   [6,22,22,12,9,1,25,27,29,27,2], [27,32,35,9,0,26,4,31,10,28,2], [5,0,6,7,34,7,27,34,34,28,2], [26,10,19,4,25,32,6,38,15,29,2],
   [4,21,32,1,16,14,29,41,39,29,2], [25,31,2,42,6,39,8,2,21,30,2], [3,42,15,39,40,20,31,5,2,31,2], [24,9,29,36,31,2,11,9,26,31,2],
   [2,20,42,33,22,27,33,12,7,32,2], [23,30,12,31,13,9,13,16,31,32,2], [1,41,25,28,4,34,35,19,12,33,2], [22,8,39,25,38,15,15,23,36,33,2],
   [0,19,9,23,29,40,37,26,17,34,2], [21,29,22,20,20,22,17,30,41,34,2], [42,39,35,17,11,4,40,33,22,35,2],
   [20,7,6,15,2,29,19,37,3,36,2], [41,17,19,12,36,10,42,40,27,36,2], [19,28,32,9,27,35,21,1,9,37,2], [40,38,2,7,18,17,1,5,33,37,2],
   [18,6,16,4,9,42,23,8,14,38,2], [39,16,29,1,0,24,3,12,38,38,2], [17,27,42,41,33,5,26,15,19,39,2], [38,37,12,39,24,30,5,19,0,40,2],
   [16,5,26,36,15,12,28,22,24,40,2], [37,15,39,33,6,37,7,26,5,41,2], [15,26,9,31,40,18,30,29,29,41,2], [36,36,22,28,31,0,10,33,10,42,2],
   [14,4,36,25,22,25,32,36,34,42,2], [35,14,6,23,13,7,12,40,15,0,3], [13,25,19,20,4,32,34,0,40,0,3], [34,35,32,17,38,13,14,4,21,1,3],
   [12,3,3,15,29,38,36,7,2,2,3], [33,13,16,12,20,20,16,11,26,2,3], [11,24,29,9,11,2,39,14,7,3,3], [32,34,42,6,2,27,18,18,31,3,3],
   [10,2,13,4,36,8,41,21,12,4,3], [31,12,26,1,27,33,20,25,36,4,3], [9,23,39,41,17,15,0,29,17,5,3], [30,33,9,39,8,40,22,32,41,5,3],
   [8,1,23,36,42,21,2,36,22,6,3], [29,11,36,33,33,3,25,39,3,7,3], [7,22,6,31,24,28,4,0,28,7,3], [28,32,19,28,15,10,27,3,9,8,3],
   [6,0,33,25,6,35,6,7,33,8,3], [27,10,3,23,40,16,29,10,14,9,3], [5,21,16,20,31,41,8,14,38,9,3], [26,31,29,17,22,23,31,17,19,10,3],
   [4,42,42,14,13,5,11,21,0,11,3], [25,9,13,12,4,30,33,24,24,11,3], [3,20,26,9,38,11,13,28,5,12,3], [24,30,39,6,29,36,35,31,29,12,3],
   [2,41,9,4,20,18,15,35,10,13,3], [23,8,23,1,11,0,38,38,34,13,3]]"

lemma BASE43_POS0_ok: "table_ok 43 2 0 BASE43_POS0"
proof (rule table_okI)
  show "rows_step 43 [1, 0] BASE43_POS0"
    by (simp only: BASE43_POS0_def rows_step_eval cong: if_weak_cong)
  show "length BASE43_POS0 = 256"
    by (simp only: BASE43_POS0_def length_table_eval)
  show "hd BASE43_POS0 = [0, 0]"
    by (simp only: BASE43_POS0_def list.sel)
qed (simp_all add: digit_simps)

lemma BASE43_POS1_ok: "table_ok 43 3 1 BASE43_POS1"
proof (rule table_okI)
  show "rows_step 43 [41, 5, 0] BASE43_POS1"
    by (simp only: BASE43_POS1_def rows_step_eval cong: if_weak_cong)
  show "length BASE43_POS1 = 256"
    by (simp only: BASE43_POS1_def length_table_eval)
  show "hd BASE43_POS1 = [0, 0, 0]"
    by (simp only: BASE43_POS1_def list.sel)
qed (simp_all add: digit_simps)

lemma BASE43_POS2_ok: "table_ok 43 5 2 BASE43_POS2"
proof (rule table_okI)
  show "rows_step 43 [4, 19, 35, 0, 0] BASE43_POS2"
    by (simp only: BASE43_POS2_def rows_step_eval cong: if_weak_cong)
  show "length BASE43_POS2 = 256"
    by (simp only: BASE43_POS2_def length_table_eval)
  show "hd BASE43_POS2 = [0, 0, 0, 0, 0]"
    by (simp only: BASE43_POS2_def list.sel)
qed (simp_all add: digit_simps)

lemma BASE43_POS3_ok: "table_ok 43 6 3 BASE43_POS3"
proof (rule table_okI)
  show "rows_step 43 [35, 28, 0, 39, 4, 0] BASE43_POS3"
    by (simp only: BASE43_POS3_def rows_step_eval cong: if_weak_cong)
  show "length BASE43_POS3 = 256"
    by (simp only: BASE43_POS3_def length_table_eval)
  show "hd BASE43_POS3 = [0, 0, 0, 0, 0, 0]"
    by (simp only: BASE43_POS3_def list.sel)
qed (simp_all add: digit_simps)

lemma BASE43_POS4_ok: "table_ok 43 8 4 BASE43_POS4"
proof (rule table_okI)
  show "rows_step 43 [16, 23, 42, 11, 9, 29, 0, 0] BASE43_POS4"
    by (simp only: BASE43_POS4_def rows_step_eval cong: if_weak_cong)
  show "length BASE43_POS4 = 256"
    by (simp only: BASE43_POS4_def length_table_eval)
  show "hd BASE43_POS4 = [0, 0, 0, 0, 0, 0, 0, 0]"
    by (simp only: BASE43_POS4_def list.sel)
qed (simp_all add: digit_simps)

lemma BASE43_POS5_ok: "table_ok 43 9 5 BASE43_POS5"
proof (rule table_okI)
  show "rows_step 43 [11, 6, 12, 16, 10, 40, 1, 4, 0] BASE43_POS5"
    by (simp only: BASE43_POS5_def rows_step_eval cong: if_weak_cong)
  show "length BASE43_POS5 = 256"
    by (simp only: BASE43_POS5_def length_table_eval)
  show "hd BASE43_POS5 = [0, 0, 0, 0, 0, 0, 0, 0, 0]"
    by (simp only: BASE43_POS5_def list.sel)
qed (simp_all add: digit_simps)

lemma BASE43_POS6_ok: "table_ok 43 11 6 BASE43_POS6"
proof (rule table_okI)
  show "rows_step 43 [21, 10, 13, 40, 33, 24, 22, 3, 24, 0, 0] BASE43_POS6"
    by (simp only: BASE43_POS6_def rows_step_eval cong: if_weak_cong)
  show "length BASE43_POS6 = 256"
    by (simp only: BASE43_POS6_def length_table_eval)
  show "hd BASE43_POS6 = [0, 0, 0, 0, 0, 0, 0, 0, 0, 0, 0]"
    by (simp only: BASE43_POS6_def list.sel)
qed (simp_all add: digit_simps)

end
