(* ===== verification/Tables_43_B.thy ===== *)
theory Tables_43_B
  imports Digits
begin

text \<open>
  The tables \<open>BASE43_POS7\<close> to \<open>BASE43_POS10\<close> of \<^verbatim>\<open>fancy-garbling/base_conversion/cbits/lookup_tables.c\<close>,
  entry by entry, as lists of rows of \<open>uint16_t\<close> values read as naturals.  Each lemma \<open>_ok\<close> shows that row \<open>x\<close> holds the base-43
  digits of \<open>x * 256 ^ pos\<close>, for the width that the declaration of the table has.
\<close>

definition BASE43_POS7 :: "nat list list" where
  "BASE43_POS7 = [
   [0,0,0,0,0,0,0,0,0,0,0,0], [1,19,36,41,1,25,17,42,15,14,3,0], [2,38,29,40,3,7,35,41,31,28,6,0], [3,14,23,39,5,32,9,41,4,0,10,0],
   [4,33,16,38,7,14,27,40,20,14,13,0], [5,9,10,37,9,39,1,40,36,28,16,0], [6,28,3,36,11,21,19,39,9,0,20,0],
   [7,4,40,34,13,3,37,38,25,14,23,0], [8,23,33,33,15,28,11,38,41,28,26,0], [9,42,26,32,17,10,29,37,14,0,30,0],
   [10,18,20,31,19,35,3,37,30,14,33,0], [11,37,13,30,21,17,21,36,3,29,36,0], [12,13,7,29,23,42,38,35,19,0,40,0],
   [13,32,0,28,25,24,13,35,35,14,0,1], [14,8,37,26,27,6,31,34,8,29,3,1], [15,27,30,25,29,31,5,34,24,0,7,1],
   [16,3,24,24,31,13,23,33,40,14,10,1], [17,22,17,23,33,38,40,32,13,29,13,1], [18,41,10,22,35,20,15,32,29,0,17,1],
   [19,17,4,21,37,2,33,31,2,15,20,1], [20,36,40,19,39,27,7,31,18,29,23,1], [21,12,34,18,41,9,25,30,34,0,27,1],
   [22,31,27,17,0,35,42,29,7,15,30,1], [23,7,21,16,2,17,17,29,23,29,33,1], [24,26,14,15,4,42,34,28,39,0,37,1],
   [25,2,8,14,6,24,9,28,12,15,40,1], [26,21,1,13,8,6,27,27,28,29,0,2], [27,40,37,11,10,31,1,27,1,1,4,2],
   [28,16,31,10,12,13,19,26,17,15,7,2], [29,35,24,9,14,38,36,25,33,29,10,2], [30,11,18,8,16,20,11,25,6,1,14,2],
   [31,30,11,7,18,2,29,24,22,15,17,2], [32,6,5,6,20,27,3,24,38,29,20,2], [33,25,41,4,22,9,21,23,11,1,24,2],
   [34,1,35,3,24,34,38,22,27,15,27,2], [35,20,28,2,26,16,13,22,0,30,30,2], [36,39,21,1,28,41,30,21,16,1,34,2],
   [37,15,15,0,30,23,5,21,32,15,37,2], [38,34,8,42,31,5,23,20,5,30,40,2], [39,10,2,41,33,30,40,19,21,1,1,3],
   [40,29,38,39,35,12,15,19,37,15,4,3], [41,5,32,38,37,37,32,18,10,30,7,3], [42,24,25,37,39,19,7,18,26,1,11,3],
   [0,1,19,36,41,1,25,17,42,15,14,3], [1,20,12,35,0,27,42,16,15,30,17,3], [2,39,5,34,2,9,17,16,31,1,21,3],
   [3,15,42,32,4,34,34,15,4,16,24,3], [4,34,35,31,6,16,9,15,20,30,27,3], [5,10,29,30,8,41,26,14,36,1,31,3],
   [6,29,22,29,10,23,1,14,9,16,34,3], [7,5,16,28,12,5,19,13,25,30,37,3], [8,24,9,27,14,30,36,12,41,1,41,3],
   [9,0,3,26,16,12,11,12,14,16,1,4], [10,19,39,24,18,37,28,11,30,30,4,4], [11,38,32,23,20,19,3,11,3,2,8,4],
   [12,14,26,22,22,1,21,10,19,16,11,4], [13,33,19,21,24,26,38,9,35,30,14,4], [14,9,13,20,26,8,13,9,8,2,18,4],
   [15,28,6,19,28,33,30,8,24,16,21,4], [16,4,0,18,30,15,5,8,40,30,24,4], [17,23,36,16,32,40,22,7,13,2,28,4],
   [18,42,29,15,34,22,40,6,29,16,31,4], [19,18,23,14,36,4,15,6,2,31,34,4], [20,37,16,13,38,29,32,5,18,2,38,4],
   [21,13,10,12,40,11,7,5,34,16,41,4], [22,32,3,11,42,36,24,4,7,31,1,5], [23,8,40,9,1,19,42,3,23,2,5,5],
   [24,27,33,8,3,1,17,3,39,16,8,5], [25,3,27,7,5,26,34,2,12,31,11,5], [26,22,20,6,7,8,9,2,28,2,15,5], [27,41,13,5,9,33,26,1,1,17,18,5],
   [28,17,7,4,11,15,1,1,17,31,21,5], [29,36,0,3,13,40,18,0,33,2,25,5], [30,12,37,1,15,22,36,42,5,17,28,5],
   [31,31,30,0,17,4,11,42,21,31,31,5], [32,7,24,42,18,29,28,41,37,2,35,5], [33,26,17,41,20,11,3,41,10,17,38,5],
   [34,2,11,40,22,36,20,40,26,31,41,5], [35,21,4,39,24,18,38,39,42,2,2,6], [36,40,40,37,26,0,13,39,15,17,5,6],
   [37,16,34,36,28,25,30,38,31,31,8,6], [38,35,27,35,30,7,5,38,4,3,12,6], [39,11,21,34,32,32,22,37,20,17,15,6],
   [40,30,14,33,34,14,40,36,36,31,18,6], [41,6,8,32,36,39,14,36,9,3,22,6], [42,25,1,31,38,21,32,35,25,17,25,6],
   [0,2,38,29,40,3,7,35,41,31,28,6], [1,21,31,28,42,28,24,34,14,3,32,6], [2,40,24,27,1,11,42,33,30,17,35,6],
   [3,16,18,26,3,36,16,33,3,32,38,6], [4,35,11,25,5,18,34,32,19,3,42,6], [5,11,5,24,7,0,9,32,35,17,2,7],
   [6,30,41,22,9,25,26,31,8,32,5,7], [7,6,35,21,11,7,1,31,24,3,9,7], [8,25,28,20,13,32,18,30,40,17,12,7],
   [9,1,22,19,15,14,36,29,13,32,15,7], [10,20,15,18,17,39,10,29,29,3,19,7], [11,39,8,17,19,21,28,28,2,18,22,7],
   [12,15,2,16,21,3,3,28,18,32,25,7], [13,34,38,14,23,28,20,27,34,3,29,7], [14,10,32,13,25,10,38,26,7,18,32,7],
   [15,29,25,12,27,35,12,26,23,32,35,7], [16,5,19,11,29,17,30,25,39,3,39,7], [17,24,12,10,31,42,4,25,12,18,42,7],
   [18,0,6,9,33,24,22,24,28,32,2,8], [19,19,42,7,35,6,40,23,1,4,6,8], [20,38,35,6,37,31,14,23,17,18,9,8],
   [21,14,29,5,39,13,32,22,33,32,12,8], [22,33,22,4,41,38,6,22,6,4,16,8], [23,9,16,3,0,21,24,21,22,18,19,8],
   [24,28,9,2,2,3,42,20,38,32,22,8], [25,4,3,1,4,28,16,20,11,4,26,8], [26,23,39,42,5,10,34,19,27,18,29,8],
   [27,42,32,41,7,35,8,19,0,33,32,8], [28,18,26,40,9,17,26,18,16,4,36,8], [29,37,19,39,11,42,0,18,32,18,39,8],
   [30,13,13,38,13,24,18,17,5,33,42,8], [31,32,6,37,15,6,36,16,21,4,3,9], [32,8,0,36,17,31,10,16,37,18,6,9],
   [33,27,36,34,19,13,28,15,10,33,9,9], [34,3,30,33,21,38,2,15,26,4,13,9], [35,22,23,32,23,20,20,14,42,18,16,9],
   [36,41,16,31,25,2,38,13,15,33,19,9], [37,17,10,30,27,27,12,13,31,4,23,9], [38,36,3,29,29,9,30,12,4,19,26,9],
   [39,12,40,27,31,34,4,12,20,33,29,9], [40,31,33,26,33,16,22,11,36,4,33,9], [41,7,27,25,35,41,39,10,9,19,36,9],
   [42,26,20,24,37,23,14,10,25,33,39,9], [0,3,14,23,39,5,32,9,41,4,0,10], [1,22,7,22,41,30,6,9,14,19,3,10],
   [2,41,0,21,0,13,24,8,30,33,6,10], [3,17,37,19,2,38,41,7,3,5,10,10], [4,36,30,18,4,20,16,7,19,19,13,10],
   [5,12,24,17,6,2,34,6,35,33,16,10], [6,31,17,16,8,27,8,6,8,5,20,10], [7,7,11,15,10,9,26,5,24,19,23,10],
   [8,26,4,14,12,34,0,5,40,33,26,10], [9,2,41,12,14,16,18,4,13,5,30,10], [10,21,34,11,16,41,35,3,29,19,33,10],
   [11,40,27,10,18,23,10,3,2,34,36,10], [12,16,21,9,20,5,28,2,18,5,40,10], [13,35,14,8,22,30,2,2,34,19,0,11],
   [14,11,8,7,24,12,20,1,7,34,3,11], [15,30,1,6,26,37,37,0,23,5,7,11], [16,6,38,4,28,19,12,0,39,19,10,11],
   [17,25,31,3,30,1,30,42,11,34,13,11], [18,1,25,2,32,26,4,42,27,5,17,11], [19,20,18,1,34,8,22,41,0,20,20,11],
   [20,39,11,0,36,33,39,40,16,34,23,11], [21,15,5,42,37,15,14,40,32,5,27,11], [22,34,41,40,39,40,31,39,5,20,30,11],
   [23,10,35,39,41,22,6,39,21,34,33,11], [24,29,28,38,0,5,24,38,37,5,37,11], [25,5,22,37,2,30,41,37,10,20,40,11],
   [26,24,15,36,4,12,16,37,26,34,0,12], [27,0,9,35,6,37,33,36,42,5,4,12], [28,19,2,34,8,19,8,36,15,20,7,12],
   [29,38,38,32,10,1,26,35,31,34,10,12], [30,14,32,31,12,26,0,35,4,6,14,12], [31,33,25,30,14,8,18,34,20,20,17,12],
   [32,9,19,29,16,33,35,33,36,34,20,12], [33,28,12,28,18,15,10,33,9,6,24,12], [34,4,6,27,20,40,27,32,25,20,27,12],
   [35,23,42,25,22,22,2,32,41,34,30,12], [36,42,35,24,24,4,20,31,14,6,34,12], [37,18,29,23,26,29,37,30,30,20,37,12],
   [38,37,22,22,28,11,12,30,3,35,40,12], [39,13,16,21,30,36,29,29,19,6,1,13], [40,32,9,20,32,18,4,29,35,20,4,13],
   [41,8,3,19,34,0,22,28,8,35,7,13], [42,27,39,17,36,25,39,27,24,6,11,13], [0,4,33,16,38,7,14,27,40,20,14,13],
   [1,23,26,15,40,32,31,26,13,35,17,13], [2,42,19,14,42,14,6,26,29,6,21,13], [3,18,13,13,1,40,23,25,2,21,24,13],
   [4,37,6,12,3,22,41,24,18,35,27,13], [5,13,0,11,5,4,16,24,34,6,31,13], [6,32,36,9,7,29,33,23,7,21,34,13],
   [7,8,30,8,9,11,8,23,23,35,37,13], [8,27,23,7,11,36,25,22,39,6,41,13], [9,3,17,6,13,18,0,22,12,21,1,14],
   [10,22,10,5,15,0,18,21,28,35,4,14], [11,41,3,4,17,25,35,20,1,7,8,14], [12,17,40,2,19,7,10,20,17,21,11,14],
   [13,36,33,1,21,32,27,19,33,35,14,14], [14,12,27,0,23,14,2,19,6,7,18,14], [15,31,20,42,24,39,19,18,22,21,21,14],
   [16,7,14,41,26,21,37,17,38,35,24,14], [17,26,7,40,28,3,12,17,11,7,28,14], [18,2,1,39,30,28,29,16,27,21,31,14],
   [19,21,37,37,32,10,4,16,0,36,34,14], [20,40,30,36,34,35,21,15,16,7,38,14], [21,16,24,35,36,17,39,14,32,21,41,14],
   [22,35,17,34,38,42,13,14,5,36,1,15], [23,11,11,33,40,24,31,13,21,7,5,15], [24,30,4,32,42,6,6,13,37,21,8,15],
   [25,6,41,30,1,32,23,12,10,36,11,15], [26,25,34,29,3,14,41,11,26,7,15,15], [27,1,28,28,5,39,15,11,42,21,18,15],
   [28,20,21,27,7,21,33,10,15,36,21,15], [29,39,14,26,9,3,8,10,31,7,25,15], [30,15,8,25,11,28,25,9,4,22,28,15],
   [31,34,1,24,13,10,0,9,20,36,31,15], [32,10,38,22,15,35,17,8,36,7,35,15], [33,29,31,21,17,17,35,7,9,22,38,15],
   [34,5,25,20,19,42,9,7,25,36,41,15], [35,24,18,19,21,24,27,6,41,7,2,16], [36,0,12,18,23,6,2,6,14,22,5,16],
   [37,19,5,17,25,31,19,5,30,36,8,16], [38,38,41,15,27,13,37,4,3,8,12,16], [39,14,35,14,29,38,11,4,19,22,15,16],
   [40,33,28,13,31,20,29,3,35,36,18,16], [41,9,22,12,33,2,4,3,8,8,22,16], [42,28,15,11,35,27,21,2,24,22,25,16],
   [0,5,9,10,37,9,39,1,40,36,28,16], [1,24,2,9,39,34,13,1,13,8,32,16], [2,0,39,7,41,16,31,0,29,22,35,16],
   [3,19,32,6,0,42,5,0,2,37,38,16], [4,38,25,5,2,24,23,42,17,8,42,16], [5,14,19,4,4,6,41,41,33,22,2,17],
   [6,33,12,3,6,31,15,41,6,37,5,17], [7,9,6,2,8,13,33,40,22,8,9,17], [8,28,42,0,10,38,7,40,38,22,12,17],
   [9,4,36,42,11,20,25,39,11,37,15,17], [10,23,29,41,13,2,0,39,27,8,19,17], [11,42,22,40,15,27,17,38,0,23,22,17],
   [12,18,16,39,17,9,35,37,16,37,25,17], [13,37,9,38,19,34,9,37,32,8,29,17], [14,13,3,37,21,16,27,36,5,23,32,17],
   [15,32,39,35,23,41,1,36,21,37,35,17], [16,8,33,34,25,23,19,35,37,8,39,17], [17,27,26,33,27,5,37,34,10,23,42,17],
   [18,3,20,32,29,30,11,34,26,37,2,18], [19,22,13,31,31,12,29,33,42,8,6,18], [20,41,6,30,33,37,3,33,15,23,9,18],
   [21,17,0,29,35,19,21,32,31,37,12,18], [22,36,36,27,37,1,39,31,4,9,16,18], [23,12,30,26,39,26,13,31,20,23,19,18],
   [24,31,23,25,41,8,31,30,36,37,22,18], [25,7,17,24,0,34,5,30,9,9,26,18], [26,26,10,23,2,16,23,29,25,23,29,18],
   [27,2,4,22,4,41,40,28,41,37,32,18], [28,21,40,20,6,23,15,28,14,9,36,18], [29,40,33,19,8,5,33,27,30,23,39,18],
   [30,16,27,18,10,30,7,27,3,38,42,18], [31,35,20,17,12,12,25,26,19,9,3,19], [32,11,14,16,14,37,42,25,35,23,6,19],
   [33,30,7,15,16,19,17,25,8,38,9,19], [34,6,1,14,18,1,35,24,24,9,13,19], [35,25,37,12,20,26,9,24,40,23,16,19],
   [36,1,31,11,22,8,27,23,13,38,19,19], [37,20,24,10,24,33,1,23,29,9,23,19], [38,39,17,9,26,15,19,22,2,24,26,19],
   [39,15,11,8,28,40,36,21,18,38,29,19], [40,34,4,7,30,22,11,21,34,9,33,19]]"

definition BASE43_POS8 :: "nat list list" where
  "BASE43_POS8 = [
   [0,0,0,0,0,0,0,0,0,0,0,0,0,0], [41,10,41,5,32,4,29,20,7,24,36,19,0,0], [39,21,39,11,21,9,15,41,14,5,30,39,0,0],
   [37,32,37,17,10,14,1,19,22,29,23,16,1,0], [35,0,36,23,42,18,30,39,29,10,17,36,1,0], [33,11,34,29,31,23,16,17,37,34,10,13,2,0],
   [31,22,32,35,20,28,2,38,1,16,4,33,2,0], [29,33,30,41,9,33,31,15,9,40,40,9,3,0], [27,1,29,4,42,37,17,36,16,21,34,29,3,0],
   [25,12,27,10,31,42,3,14,24,2,28,6,4,0], [23,23,25,16,20,4,33,34,31,26,21,26,4,0], [21,34,23,22,9,9,19,12,39,7,15,3,5,0],
   [19,2,22,28,41,13,5,33,3,32,8,23,5,0], [17,13,20,34,30,18,34,10,11,13,2,0,6,0], [15,24,18,40,19,23,20,31,18,37,38,19,6,0],
   [13,35,16,3,9,28,6,9,26,18,32,39,6,0], [11,3,15,9,41,32,35,29,33,42,25,16,7,0], [9,14,13,15,30,37,21,7,41,23,19,36,7,0],
   [7,25,11,21,19,42,7,28,5,5,13,13,8,0], [5,36,9,27,8,4,37,5,13,29,6,33,8,0], [3,4,8,33,40,8,23,26,20,10,0,10,9,0],
   [1,15,6,39,29,13,9,4,28,34,36,29,9,0], [42,25,4,2,19,18,38,24,35,15,30,6,10,0], [40,36,2,8,8,23,24,2,0,40,23,26,10,0],
   [38,4,1,14,40,27,10,23,7,21,17,3,11,0], [36,15,42,19,29,32,39,0,15,2,11,23,11,0], [34,26,40,25,18,37,25,21,22,26,4,0,12,0],
   [32,37,38,31,7,42,11,42,29,7,41,19,12,0], [30,5,37,37,39,3,41,19,37,31,34,39,12,0], [28,16,35,0,29,8,27,40,1,13,28,16,13,0],
   [26,27,33,6,18,13,13,18,9,37,21,36,13,0], [24,38,31,12,7,18,42,38,16,18,15,13,14,0], [22,6,30,18,39,22,28,16,24,42,8,33,14,0],
   [20,17,28,24,28,27,14,37,31,23,2,10,15,0], [18,28,26,30,17,32,0,15,39,4,39,29,15,0], [16,39,24,36,6,37,29,35,3,29,32,6,16,0],
   [14,7,23,42,38,41,15,13,11,10,26,26,16,0], [12,18,21,5,28,3,2,34,18,34,19,3,17,0], [10,29,19,11,17,8,31,11,26,15,13,23,17,0],
   [8,40,17,17,6,13,17,32,33,39,6,0,18,0], [6,8,16,23,38,17,3,10,41,20,0,20,18,0], [4,19,14,29,27,22,32,30,5,2,37,39,18,0],
   [2,30,12,35,16,27,18,8,13,26,30,16,19,0], [0,41,10,41,5,32,4,29,20,7,24,36,19,0], [41,8,9,4,38,36,33,6,28,31,17,13,20,0],
   [39,19,7,10,27,41,19,27,35,12,11,33,20,0], [37,30,5,16,16,3,6,5,0,37,4,10,21,0], [35,41,3,22,5,8,35,25,7,18,41,29,21,0],
   [33,9,2,28,37,12,21,3,15,42,34,6,22,0], [31,20,0,34,26,17,7,24,22,23,28,26,22,0], [29,31,41,39,15,22,36,1,30,4,22,3,23,0],
   [27,42,39,2,5,27,22,22,37,28,15,23,23,0], [25,10,38,8,37,31,8,0,2,10,9,0,24,0], [23,21,36,14,26,36,37,20,9,34,2,20,24,0],
   [21,32,34,20,15,41,23,41,16,15,39,39,24,0], [19,0,33,26,4,3,10,19,24,39,32,16,25,0], [17,11,31,32,36,7,39,39,31,20,26,36,25,0],
   [15,22,29,38,25,12,25,17,39,1,20,13,26,0], [13,33,27,1,15,17,11,38,3,26,13,33,26,0], [11,1,26,7,4,22,40,15,11,7,7,10,27,0],
   [9,12,24,13,36,26,26,36,18,31,0,30,27,0], [7,23,22,19,25,31,12,14,26,12,37,6,28,0], [5,34,20,25,14,36,41,34,33,36,30,26,28,0],
   [3,2,19,31,3,41,27,12,41,17,24,3,29,0], [1,13,17,37,35,2,14,33,5,42,17,23,29,0], [42,23,15,0,25,7,0,11,13,23,11,0,30,0],
   [40,34,13,6,14,12,29,31,20,4,5,20,30,0], [38,2,12,12,3,17,15,9,28,28,41,39,30,0], [36,13,10,18,35,21,1,30,35,9,35,16,31,0],
   [34,24,8,24,24,26,30,7,0,34,28,36,31,0], [32,35,6,30,13,31,16,28,7,15,22,13,32,0], [30,3,5,36,2,36,2,6,15,39,15,33,32,0],
   [28,14,3,42,34,40,31,26,22,20,9,10,33,0], [26,25,1,5,24,2,18,4,30,1,3,30,33,0], [24,36,42,10,13,7,4,25,37,25,39,6,34,0],
   [22,4,41,16,2,12,33,2,2,7,33,26,34,0], [20,15,39,22,34,16,19,23,9,31,26,3,35,0], [18,26,37,28,23,21,5,1,17,12,20,23,35,0],
   [16,37,35,34,12,26,34,21,24,36,13,0,36,0], [14,5,34,40,1,31,20,42,31,17,7,20,36,0], [12,16,32,3,34,35,6,20,39,41,0,40,36,0],
   [10,27,30,9,23,40,35,40,3,23,37,16,37,0], [8,38,28,15,12,2,22,18,11,4,31,36,37,0], [6,6,27,21,1,7,8,39,18,28,24,13,38,0],
   [4,17,25,27,33,11,37,16,26,9,18,33,38,0], [2,28,23,33,22,16,23,37,33,33,11,10,39,0], [0,39,21,39,11,21,9,15,41,14,5,30,39,0],
   [41,6,20,2,1,26,38,35,5,39,41,6,40,0], [39,17,18,8,33,30,24,13,13,20,35,26,40,0], [37,28,16,14,22,35,10,34,20,1,29,3,41,0],
   [35,39,14,20,11,40,39,11,28,25,22,23,41,0], [33,7,13,26,0,2,26,32,35,6,16,0,42,0], [31,18,11,32,32,6,12,10,0,31,9,20,42,0],
   [29,29,9,38,21,11,41,30,7,12,3,40,42,0], [27,40,7,1,11,16,27,8,15,36,39,16,0,1], [25,8,6,7,0,21,13,29,22,17,33,36,0,1],
   [23,19,4,13,32,25,42,6,30,41,26,13,1,1], [21,30,2,19,21,30,28,27,37,22,20,33,1,1], [19,41,0,25,10,35,14,5,2,4,14,10,2,1],
   [17,9,42,30,42,39,0,26,9,28,7,30,2,1], [15,20,40,36,31,1,30,3,17,9,1,7,3,1], [13,31,38,42,20,6,16,24,24,33,37,26,3,1],
   [11,42,36,5,10,11,2,2,32,14,31,3,4,1], [9,10,35,11,42,15,31,22,39,38,24,23,4,1], [7,21,33,17,31,20,17,0,4,20,18,0,5,1],
   [5,32,31,23,20,25,3,21,11,1,12,20,5,1], [3,0,30,29,9,30,32,41,18,25,5,40,5,1], [1,11,28,35,41,34,18,19,26,6,42,16,6,1],
   [42,21,26,41,30,39,4,40,33,30,35,36,6,1], [40,32,24,4,20,1,34,17,41,11,29,13,7,1], [38,0,23,10,9,6,20,38,5,36,22,33,7,1],
   [36,11,21,16,41,10,6,16,13,17,16,10,8,1], [34,22,19,22,30,15,35,36,20,41,9,30,8,1], [32,33,17,28,19,20,21,14,28,22,3,7,9,1],
   [30,1,16,34,8,25,7,35,35,3,40,26,9,1], [28,12,14,40,40,29,36,12,0,28,33,3,10,1], [26,23,12,3,30,34,22,33,7,9,27,23,10,1],
   [24,34,10,9,19,39,8,11,15,33,20,0,11,1], [22,2,9,15,8,1,38,31,22,14,14,20,11,1], [20,13,7,21,40,5,24,9,30,38,7,40,11,1],
   [18,24,5,27,29,10,10,30,37,19,1,17,12,1], [16,35,3,33,18,15,39,7,2,1,38,36,12,1], [14,3,2,39,7,20,25,28,9,25,31,13,13,1],
   [12,14,0,2,40,24,11,6,17,6,25,33,13,1], [10,25,41,7,29,29,40,26,24,30,18,10,14,1], [8,36,39,13,18,34,26,4,32,11,12,30,14,1],
   [6,4,38,19,7,39,12,25,39,35,5,7,15,1], [4,15,36,25,39,0,42,2,4,17,42,26,15,1], [2,26,34,31,28,5,28,23,11,41,35,3,16,1],
   [0,37,32,37,17,10,14,1,19,22,29,23,16,1], [41,4,31,0,7,15,0,22,26,3,23,0,17,1], [39,15,29,6,39,19,29,42,33,27,16,20,17,1],
   [37,26,27,12,28,24,15,20,41,8,10,40,17,1], [35,37,25,18,17,29,1,41,5,33,3,17,18,1], [33,5,24,24,6,34,30,18,13,14,40,36,18,1],
   [31,16,22,30,38,38,16,39,20,38,33,13,19,1], [29,27,20,36,27,0,3,17,28,19,27,33,19,1], [27,38,18,42,16,5,32,37,35,0,21,10,20,1],
   [25,6,17,5,6,10,18,15,0,25,14,30,20,1], [23,17,15,11,38,14,4,36,7,6,8,7,21,1], [21,28,13,17,27,19,33,13,15,30,1,27,21,1],
   [19,39,11,23,16,24,19,34,22,11,38,3,22,1], [17,7,10,29,5,29,5,12,30,35,31,23,22,1], [15,18,8,35,37,33,34,32,37,16,25,0,23,1],
   [13,29,6,41,26,38,20,10,2,41,18,20,23,1], [11,40,4,4,16,0,7,31,9,22,12,40,23,1], [9,8,3,10,5,5,36,8,17,3,6,17,24,1],
   [7,19,1,16,37,9,22,29,24,27,42,36,24,1], [5,30,42,21,26,14,8,7,32,8,36,13,25,1], [3,41,40,27,15,19,37,27,39,32,29,33,25,1],
   [1,9,39,33,4,24,23,5,4,14,23,10,26,1], [42,19,37,39,36,28,9,26,11,38,16,30,26,1], [40,30,35,2,26,33,38,3,19,19,10,7,27,1],
   [38,41,33,8,15,38,24,24,26,0,4,27,27,1], [36,9,32,14,4,0,11,2,34,24,40,3,28,1], [34,20,30,20,36,4,40,22,41,5,34,23,28,1],
   [32,31,28,26,25,9,26,0,6,30,27,0,29,1], [30,42,26,32,14,14,12,21,13,11,21,20,29,1], [28,10,25,38,3,19,41,41,20,35,14,40,29,1],
   [26,21,23,1,36,23,27,19,28,16,8,17,30,1], [24,32,21,7,25,28,13,40,35,40,1,37,30,1], [22,0,20,13,14,33,42,17,0,22,38,13,31,1],
   [20,11,18,19,3,38,28,38,7,3,32,33,31,1], [18,22,16,25,35,42,14,16,15,27,25,10,32,1], [16,33,14,31,24,4,1,37,22,8,19,30,32,1],
   [14,1,13,37,13,9,30,14,30,32,12,7,33,1], [12,12,11,0,3,14,16,35,37,13,6,27,33,1], [10,23,9,6,35,18,2,13,2,38,42,3,34,1],
   [8,34,7,12,24,23,31,33,9,19,36,23,34,1], [6,2,6,18,13,28,17,11,17,0,30,0,35,1], [4,13,4,24,2,33,3,32,24,24,23,20,35,1],
   [2,24,2,30,34,37,32,9,32,5,17,40,35,1], [0,35,0,36,23,42,18,30,39,29,10,17,36,1], [41,2,42,41,12,4,5,8,4,11,4,37,36,1],
   [39,13,40,4,2,9,34,28,11,35,40,13,37,1], [37,24,38,10,34,13,20,6,19,16,34,33,37,1], [35,35,36,16,23,18,6,27,26,40,27,10,38,1],
   [33,3,35,22,12,23,35,4,34,21,21,30,38,1], [31,14,33,28,1,28,21,25,41,2,15,7,39,1], [29,25,31,34,33,32,7,3,6,27,8,27,39,1],
   [27,36,29,40,22,37,36,23,13,8,2,4,40,1], [25,4,28,3,12,42,22,1,21,32,38,23,40,1], [23,15,26,9,1,4,9,22,28,13,32,0,41,1],
   [21,26,24,15,33,8,38,42,35,37,25,20,41,1], [19,37,22,21,22,13,24,20,0,19,19,40,41,1], [17,5,21,27,11,18,10,41,7,0,13,17,42,1],
   [15,16,19,33,0,23,39,18,15,24,6,37,42,1], [13,27,17,39,32,27,25,39,22,5,0,14,0,2], [11,38,15,2,22,32,11,17,30,29,36,33,0,2],
   [9,6,14,8,11,37,40,37,37,10,30,10,1,2], [7,17,12,14,0,42,26,15,2,35,23,30,1,2], [5,28,10,20,32,3,13,36,9,16,17,7,2,2],
   [3,39,8,26,21,8,42,13,17,40,10,27,2,2], [1,7,7,32,10,13,28,34,24,21,4,4,3,2], [42,17,5,38,42,17,14,12,32,2,41,23,3,2],
   [40,28,3,1,32,22,0,33,39,26,34,0,4,2], [38,39,1,7,21,27,29,10,4,8,28,20,4,2], [36,7,0,13,10,32,15,31,11,32,21,40,4,2],
   [34,18,41,18,42,36,1,9,19,13,15,17,5,2], [32,29,39,24,31,41,30,29,26,37,8,37,5,2], [30,40,37,30,20,3,17,7,34,18,2,14,6,2],
   [28,8,36,36,9,8,3,28,41,42,38,33,6,2], [26,19,34,42,41,12,32,5,6,24,32,10,7,2], [24,30,32,5,31,17,18,26,13,5,26,30,7,2],
   [22,41,30,11,20,22,4,4,21,29,19,7,8,2], [20,9,29,17,9,27,33,24,28,10,13,27,8,2], [18,20,27,23,41,31,19,2,36,34,6,4,9,2],
   [16,31,25,29,30,36,5,23,0,16,0,24,9,2], [14,42,23,35,19,41,34,0,8,40,36,0,10,2], [12,10,22,41,8,3,21,21,15,21,30,20,10,2],
   [10,21,20,4,41,7,7,42,22,2,24,40,10,2], [8,32,18,10,30,12,36,19,30,26,17,17,11,2], [6,0,17,16,19,17,22,40,37,7,11,37,11,2],
   [4,11,15,22,8,22,8,18,2,32,4,14,12,2], [2,22,13,28,40,26,37,38,9,13,41,33,12,2], [0,33,11,34,29,31,23,16,17,37,34,10,13,2],
   [41,0,10,40,18,36,9,37,24,18,28,30,13,2], [39,11,8,3,8,41,38,14,32,42,21,7,14,2], [37,22,6,9,40,2,25,35,39,23,15,27,14,2],
   [35,33,4,15,29,7,11,13,4,5,9,4,15,2], [33,1,3,21,18,12,40,33,11,29,2,24,15,2], [31,12,1,27,7,17,26,11,19,10,39,0,16,2],
   [29,23,42,32,39,21,12,32,26,34,32,20,16,2], [27,34,40,38,28,26,41,9,34,15,26,40,16,2], [25,2,39,1,18,31,27,30,41,39,19,17,17,2],
   [23,13,37,7,7,36,13,8,6,21,13,37,17,2], [21,24,35,13,39,40,42,28,13,2,7,14,18,2], [19,35,33,19,28,2,29,6,21,26,0,34,18,2],
   [17,3,32,25,17,7,15,27,28,7,37,10,19,2], [15,14,30,31,6,12,1,5,36,31,30,30,19,2], [13,25,28,37,38,16,30,25,0,13,24,7,20,2],
   [11,36,26,0,28,21,16,3,8,37,17,27,20,2], [9,4,25,6,17,26,2,24,15,18,11,4,21,2], [7,15,23,12,6,31,31,1,23,42,4,24,21,2],
   [5,26,21,18,38,35,17,22,30,23,41,0,22,2], [3,37,19,24,27,40,3,0,38,4,35,20,22,2], [1,5,18,30,16,2,33,20,2,29,28,40,22,2],
   [42,15,16,36,5,7,19,41,9,10,22,17,23,2], [40,26,14,42,37,11,5,19,17,34,15,37,23,2], [38,37,12,5,27,16,34,39,24,15,9,14,24,2],
   [36,5,11,11,16,21,20,17,32,39,2,34,24,2], [34,16,9,17,5,26,6,38,39,20,39,10,25,2], [32,27,7,23,37,30,35,15,4,2,33,30,25,2],
   [30,38,5,29,26,35,21,36,11,26,26,7,26,2], [28,6,4,35,15,40,7,14,19,7,20,27,26,2], [26,17,2,41,4,2,37,34,26,31,13,4,27,2],
   [24,28,0,4,37,6,23,12,34,12,7,24,27,2], [22,39,41,9,26,11,9,33,41,36,0,1,28,2], [20,7,40,15,15,16,38,10,6,18,37,20,28,2],
   [18,18,38,21,4,21,24,31,13,42,30,40,28,2], [16,29,36,27,36,25,10,9,21,23,24,17,29,2], [14,40,34,33,25,30,39,29,28,4,18,37,29,2],
   [12,8,33,39,14,35,25,7,36,28,11,14,30,2], [10,19,31,2,4,40,11,28,0,10,5,34,30,2], [8,30,29,8,36,1,41,5,8,34,41,10,31,2],
   [6,41,27,14,25,6,27,26,15,15,35,30,31,2]]"

definition BASE43_POS9 :: "nat list list" where
  "BASE43_POS9 = [
   [0,0,0,0,0,0,0,0,0,0,0,0,0,0,0], [4,9,26,20,14,11,13,4,23,39,28,7,32,2,0], [8,18,9,41,28,22,26,8,3,36,14,15,21,5,0],
   [12,27,35,18,0,34,39,12,26,32,0,23,10,8,0], [16,36,18,39,14,2,10,17,6,29,29,30,42,10,0], [20,2,2,17,29,13,23,21,29,25,15,38,31,13,0],
   [24,11,28,37,0,25,36,25,9,22,1,3,21,16,0], [28,20,11,15,15,36,6,30,32,18,30,10,10,19,0], [32,29,37,35,29,4,20,34,12,15,16,18,42,21,0],
   [36,38,20,13,1,16,33,38,35,11,2,26,31,24,0], [40,4,4,34,15,27,3,0,16,8,31,33,20,27,0], [1,14,30,11,30,38,16,4,39,4,17,41,9,30,0],
   [5,23,13,32,1,7,30,8,19,1,3,6,42,32,0], [9,32,39,9,16,18,0,13,42,40,31,13,31,35,0], [13,41,22,30,30,29,13,17,22,37,17,21,20,38,0],
   [17,7,6,8,2,41,26,21,2,34,3,29,9,41,0], [21,16,32,28,16,9,40,25,25,30,32,36,41,0,1], [25,25,15,6,31,20,10,30,5,27,18,1,31,3,1],
   [29,34,41,26,2,32,23,34,28,23,4,9,20,6,1], [33,0,25,4,17,0,37,38,8,20,33,16,9,9,1], [37,9,8,25,31,11,7,0,32,16,19,24,41,11,1],
   [41,18,34,2,3,23,20,4,12,13,5,32,30,14,1], [2,28,17,23,17,34,33,8,35,9,34,39,19,17,1], [6,37,0,1,32,2,4,13,15,6,20,4,9,20,1],
   [10,3,27,21,3,14,17,17,38,2,6,12,41,22,1], [14,12,10,42,17,25,30,21,18,42,34,19,30,25,1], [18,21,36,19,32,36,0,26,41,38,20,27,19,28,1],
   [22,30,19,40,3,5,14,30,21,35,6,35,8,31,1], [26,39,2,18,18,16,27,34,1,32,35,42,40,33,1], [30,5,29,38,32,27,40,38,24,28,21,7,30,36,1],
   [34,14,12,16,4,39,10,0,5,25,7,15,19,39,1], [38,23,38,36,18,7,24,4,28,21,36,22,8,42,1], [42,32,21,14,33,18,37,8,8,18,22,30,40,1,2],
   [3,42,4,35,4,30,7,13,31,14,8,38,29,4,2], [7,8,31,12,19,41,20,17,11,11,37,2,19,7,2], [11,17,14,33,33,9,34,21,34,7,23,10,8,10,2],
   [15,26,40,10,5,21,4,26,14,4,9,18,40,12,2], [19,35,23,31,19,32,17,30,37,0,38,25,29,15,2], [23,1,7,9,34,0,31,34,17,40,23,33,18,18,2],
   [27,10,33,29,5,12,1,39,40,36,9,41,7,21,2], [31,19,16,7,20,23,14,0,21,33,38,5,40,23,2], [35,28,42,27,34,34,27,4,1,30,24,13,29,26,2],
   [39,37,25,5,6,3,41,8,24,26,10,21,18,29,2], [0,4,9,26,20,14,11,13,4,23,39,28,7,32,2], [4,13,35,3,35,25,24,17,27,19,25,36,39,34,2],
   [8,22,18,24,6,37,37,21,7,16,11,1,29,37,2], [12,31,1,2,21,5,8,26,30,12,40,8,18,40,2], [16,40,27,22,35,16,21,30,10,9,26,16,7,0,3],
   [20,6,11,0,7,28,34,34,33,5,12,24,39,2,3], [24,15,37,20,21,39,4,39,13,2,41,31,28,5,3], [28,24,20,41,35,7,18,0,37,41,26,39,17,8,3],
   [32,33,3,19,7,19,31,4,17,38,12,4,7,11,3], [36,42,29,39,21,30,1,9,40,34,41,11,39,13,3], [40,8,13,17,36,41,14,13,20,31,27,19,28,16,3],
   [1,18,39,37,7,10,28,17,0,28,13,27,17,19,3], [5,27,22,15,22,21,41,21,23,24,42,34,6,22,3], [9,36,5,36,36,32,11,26,3,21,28,42,38,24,3],
   [13,2,32,13,8,1,25,30,26,17,14,7,28,27,3], [17,11,15,34,22,12,38,34,6,14,0,15,17,30,3], [21,20,41,11,37,23,8,39,29,10,29,22,6,33,3],
   [25,29,24,32,8,35,21,0,10,7,15,30,38,35,3], [29,38,7,10,23,3,35,4,33,3,1,38,27,38,3], [33,4,34,30,37,14,5,9,13,0,30,2,17,41,3],
   [37,13,17,8,9,26,18,13,36,39,15,10,6,1,4], [41,22,0,29,23,37,31,17,16,36,1,18,38,3,4], [2,32,26,6,38,5,2,22,39,32,30,25,27,6,4],
   [6,41,9,27,9,17,15,26,19,29,16,33,16,9,4], [10,7,36,4,24,28,28,30,42,25,2,41,5,12,4], [14,16,19,25,38,39,41,34,22,22,31,5,38,14,4],
   [18,25,2,3,10,8,12,39,2,19,17,13,27,17,4], [22,34,28,23,24,19,25,0,26,15,3,21,16,20,4], [26,0,12,1,39,30,38,4,6,12,32,28,5,23,4],
   [30,9,38,21,10,42,8,9,29,8,18,36,37,25,4], [34,18,21,42,24,10,22,13,9,5,4,1,27,28,4], [38,27,4,20,39,21,35,17,32,1,33,8,16,31,4],
   [42,36,30,40,10,33,5,22,12,41,18,16,5,34,4], [3,3,14,18,25,1,19,26,35,37,4,24,37,36,4], [7,12,40,38,39,12,32,30,15,34,33,31,26,39,4],
   [11,21,23,16,11,24,2,35,38,30,19,39,15,42,4], [15,30,6,37,25,35,15,39,18,27,5,4,5,2,5], [19,39,32,14,40,3,29,0,42,23,34,11,37,4,5],
   [23,5,16,35,11,15,42,4,22,20,20,19,26,7,5], [27,14,42,12,26,26,12,9,2,17,6,27,15,10,5], [31,23,25,33,40,37,25,13,25,13,35,34,4,13,5],
   [35,32,8,11,12,6,39,17,5,10,21,42,36,15,5], [39,41,34,31,26,17,9,22,28,6,7,7,26,18,5], [0,8,18,9,41,28,22,26,8,3,36,14,15,21,5],
   [4,17,1,30,12,40,35,30,31,42,21,22,4,24,5], [8,26,27,7,27,8,6,35,11,39,7,30,36,26,5], [12,35,10,28,41,19,19,39,34,35,36,37,25,29,5],
   [16,1,37,5,13,31,32,0,15,32,22,2,15,32,5], [20,10,20,26,27,42,2,5,38,28,8,10,4,35,5], [24,19,3,4,42,10,16,9,18,25,37,17,36,37,5],
   [28,28,29,24,13,22,29,13,41,21,23,25,25,40,5], [32,37,12,2,28,33,42,17,21,18,9,33,14,0,6], [36,3,39,22,42,1,13,22,1,15,38,40,3,3,6],
   [40,12,22,0,14,13,26,26,24,11,24,5,36,5,6], [1,22,5,21,28,24,39,30,4,8,10,13,25,8,6], [5,31,31,41,42,35,9,35,27,4,39,20,14,11,6],
   [9,40,14,19,14,4,23,39,7,1,25,28,3,14,6], [13,6,41,39,28,15,36,0,31,40,10,36,35,16,6], [17,15,24,17,0,27,6,5,11,37,39,0,25,19,6],
   [21,24,7,38,14,38,19,9,34,33,25,8,14,22,6], [25,33,33,15,29,6,33,13,14,30,11,16,3,25,6], [29,42,16,36,0,18,3,18,37,26,40,23,35,27,6],
   [33,8,0,14,15,29,16,22,17,23,26,31,24,30,6], [37,17,26,34,29,40,29,26,40,19,12,39,13,33,6], [41,26,9,12,1,9,0,31,20,16,41,3,3,36,6],
   [2,36,35,32,15,20,13,35,0,13,27,11,35,38,6], [6,2,19,10,30,31,26,39,23,9,13,19,24,41,6], [10,11,2,31,1,0,40,0,4,6,42,26,13,1,7],
   [14,20,28,8,16,11,10,5,27,2,28,34,2,4,7], [18,29,11,29,30,22,23,9,7,42,13,42,34,6,7], [22,38,37,6,2,34,36,13,30,38,42,6,24,9,7],
   [26,4,21,27,16,2,7,18,10,35,28,14,13,12,7], [30,13,4,5,31,13,20,22,33,31,14,22,2,15,7], [34,22,30,25,2,25,33,26,13,28,0,30,34,17,7],
   [38,31,13,3,17,36,3,31,36,24,29,37,23,20,7], [42,40,39,23,31,4,17,35,16,21,15,2,13,23,7], [3,7,23,1,3,16,30,39,39,17,1,10,2,26,7],
   [7,16,6,22,17,27,0,1,20,14,30,17,34,28,7], [11,25,32,42,31,38,13,5,0,11,16,25,23,31,7], [15,34,15,20,3,7,27,9,23,7,2,33,12,34,7],
   [19,0,42,40,17,18,40,13,3,4,31,40,1,37,7], [23,9,25,18,32,29,10,18,26,0,17,5,34,39,7], [27,18,8,39,3,41,23,22,6,40,2,13,23,42,7],
   [31,27,34,16,18,9,37,26,29,36,31,20,12,2,8], [35,36,17,37,32,20,7,31,9,33,17,28,1,5,8], [39,2,1,15,4,32,20,35,32,29,3,36,33,7,8],
   [0,12,27,35,18,0,34,39,12,26,32,0,23,10,8], [4,21,10,13,33,11,4,1,36,22,18,8,12,13,8], [8,30,36,33,4,23,17,5,16,19,4,16,1,16,8],
   [12,39,19,11,19,34,30,9,39,15,33,23,33,18,8], [16,5,3,32,33,2,1,14,19,12,19,31,22,21,8], [20,14,29,9,5,14,14,18,42,8,5,39,11,24,8],
   [24,23,12,30,19,25,27,22,22,5,34,3,1,27,8], [28,32,38,7,34,36,40,26,2,2,20,11,33,29,8], [32,41,21,28,5,5,11,31,25,41,5,19,22,32,8],
   [36,7,5,6,20,16,24,35,5,38,34,26,11,35,8], [40,16,31,26,34,27,37,39,28,34,20,34,0,38,8], [1,26,14,4,6,39,7,1,9,31,6,42,32,40,8],
   [5,35,40,24,20,7,21,5,32,27,35,6,22,0,9], [9,1,24,2,35,18,34,9,12,24,21,14,11,3,9], [13,10,7,23,6,30,4,14,35,20,7,22,0,6,9],
   [17,19,33,0,21,41,17,18,15,17,36,29,32,8,9], [21,28,16,21,35,9,31,22,38,13,22,37,21,11,9], [25,37,42,41,6,21,1,27,18,10,8,2,11,14,9],
   [29,3,26,19,21,32,14,31,41,6,37,9,0,17,9], [33,12,9,40,35,0,28,35,21,3,23,17,32,19,9], [37,21,35,17,7,12,41,39,1,0,9,25,21,22,9],
   [41,30,18,38,21,23,11,1,25,39,37,32,10,25,9], [2,40,1,16,36,34,24,5,5,36,23,40,42,27,9], [6,6,28,36,7,3,38,9,28,32,9,5,32,30,9],
   [10,15,11,14,22,14,8,14,8,29,38,12,21,33,9], [14,24,37,34,36,25,21,18,31,25,24,20,10,36,9], [18,33,20,12,8,37,34,22,11,22,10,28,42,38,9],
   [22,42,3,33,22,5,5,27,34,18,39,35,31,41,9], [26,8,30,10,37,16,18,31,14,15,25,0,21,1,10], [30,17,13,31,8,28,31,35,37,11,11,8,10,4,10],
   [34,26,39,8,23,39,1,40,17,8,40,15,42,6,10], [38,35,22,29,37,7,15,1,41,4,26,23,31,9,10], [42,1,6,7,9,19,28,5,21,1,12,31,20,12,10],
   [3,11,32,27,23,30,41,9,1,41,40,38,9,15,10], [7,20,15,5,38,41,11,14,24,37,26,3,42,17,10], [11,29,41,25,9,10,25,18,4,34,12,11,31,20,10],
   [15,38,24,3,24,21,38,22,27,30,41,18,20,23,10], [19,4,8,24,38,32,8,27,7,27,27,26,9,26,10], [23,13,34,1,10,1,22,31,30,23,13,34,41,28,10],
   [27,22,17,22,24,12,35,35,10,20,42,41,30,31,10], [31,31,0,0,39,23,5,40,33,16,28,6,20,34,10], [35,40,26,20,10,35,18,1,14,13,14,14,9,37,10],
   [39,6,10,41,24,3,32,5,37,9,0,22,41,39,10], [0,16,36,18,39,14,2,10,17,6,29,29,30,42,10], [4,25,19,39,10,26,15,14,40,2,15,37,19,2,11],
   [8,34,2,17,25,37,28,18,20,42,0,2,9,5,11], [12,0,29,37,39,5,42,22,0,39,29,9,41,7,11], [16,9,12,15,11,17,12,27,23,35,15,17,30,10,11],
   [20,18,38,35,25,28,25,31,3,32,1,25,19,13,11], [24,27,21,13,40,39,38,35,26,28,30,32,8,16,11], [28,36,4,34,11,8,9,40,6,25,16,40,40,18,11],
   [32,2,31,11,26,19,22,1,30,21,2,5,30,21,11], [36,11,14,32,40,30,35,5,10,18,31,12,19,24,11], [40,20,40,9,12,42,5,10,33,14,17,20,8,27,11],
   [1,30,23,30,26,10,19,14,13,11,3,28,40,29,11], [5,39,6,8,41,21,32,18,36,7,32,35,29,32,11], [9,5,33,28,12,33,2,23,16,4,18,0,19,35,11],
   [13,14,16,6,27,1,16,27,39,0,4,8,8,38,11], [17,23,42,26,41,12,29,31,19,40,32,15,40,40,11], [21,32,25,4,13,24,42,35,42,36,18,23,29,0,12],
   [25,41,8,25,27,35,12,40,22,33,4,31,18,3,12], [29,7,35,2,42,3,26,1,3,30,33,38,7,6,12], [33,16,18,23,13,15,39,5,26,26,19,3,40,8,12],
   [37,25,1,1,28,26,9,10,6,23,5,11,29,11,12], [41,34,27,21,42,37,22,14,29,19,34,18,18,14,12], [2,1,11,42,13,6,36,18,9,16,20,26,7,17,12],
   [6,10,37,19,28,17,6,23,32,12,6,34,39,19,12], [10,19,20,40,42,28,19,27,12,9,35,41,28,22,12], [14,28,3,18,14,40,32,31,35,5,21,6,18,25,12],
   [18,37,29,38,28,8,3,36,15,2,7,14,7,28,12], [22,3,13,16,0,20,16,40,38,41,35,21,39,30,12], [26,12,39,36,14,31,29,1,19,38,21,29,28,33,12],
   [30,21,22,14,29,42,42,5,42,34,7,37,17,36,12], [34,30,5,35,0,11,13,10,22,31,36,1,7,39,12], [38,39,31,12,15,22,26,14,2,28,22,9,39,41,12],
   [42,5,15,33,29,33,39,18,25,24,8,17,28,1,13], [3,15,41,10,1,2,10,23,5,21,37,24,17,4,13], [7,24,24,31,15,13,23,27,28,17,23,32,6,7,13],
   [11,33,7,9,30,24,36,31,8,14,9,40,38,9,13], [15,42,33,29,1,36,6,36,31,10,38,4,28,12,13], [19,8,17,7,16,4,20,40,11,7,24,12,17,15,13],
   [23,17,0,28,30,15,33,1,35,3,10,20,6,18,13], [27,26,26,5,2,27,3,6,15,0,39,27,38,20,13], [31,35,9,26,16,38,16,10,38,39,24,35,27,23,13],
   [35,1,36,3,31,6,30,14,18,36,10,0,17,26,13], [39,10,19,24,2,18,0,19,41,32,39,7,6,29,13], [0,20,2,2,17,29,13,23,21,29,25,15,38,31,13],
   [4,29,28,22,31,40,26,27,1,26,11,23,27,34,13], [8,38,11,0,3,9,40,31,24,22,40,30,16,37,13], [12,4,38,20,17,20,10,36,4,19,26,38,5,40,13],
   [16,13,21,41,31,31,23,40,27,15,12,3,38,42,13], [20,22,4,19,3,0,37,1,8,12,41,10,27,2,14], [24,31,30,39,17,11,7,6,31,8,27,18,16,5,14],
   [28,40,13,17,32,22,20,10,11,5,13,26,5,8,14], [32,6,40,37,3,34,33,14,34,1,42,33,37,10,14], [36,15,23,15,18,2,4,19,14,41,27,41,26,13,14],
   [40,24,6,36,32,13,17,23,37,37,13,6,16,16,14], [1,34,32,13,4,25,30,27,17,34,42,13,5,19,14], [5,0,16,34,18,36,0,32,40,30,28,21,37,21,14],
   [9,9,42,11,33,4,14,36,20,27,14,29,26,24,14], [13,18,25,32,4,16,27,40,0,24,0,37,15,27,14], [17,27,8,10,19,27,40,1,24,20,29,1,5,30,14],
   [21,36,34,30,33,38,10,6,4,17,15,9,37,32,14], [25,2,18,8,5,7,24,10,27,13,1,17,26,35,14], [29,11,1,29,19,18,37,14,7,10,30,24,15,38,14],
   [33,20,27,6,34,29,7,19,30,6,16,32,4,41,14], [37,29,10,27,5,41,20,23,10,3,2,40,36,0,15], [41,38,36,4,20,9,34,27,33,42,30,4,26,3,15],
   [2,5,20,25,34,20,4,32,13,39,16,12,15,6,15], [6,14,3,3,6,32,17,36,36,35,2,20,4,9,15], [10,23,29,23,20,0,31,40,16,32,31,27,36,11,15],
   [14,32,12,1,35,11,1,2,40,28,17,35,25,14,15], [18,41,38,21,6,23,14,6,20,25,3,0,15,17,15], [22,7,22,42,20,34,27,10,0,22,32,7,4,20,15],
   [26,16,5,20,35,2,41,14,23,18,18,15,36,22,15], [30,25,31,40,6,14,11,19,3,15,4,23,25,25,15], [34,34,14,18,21,25,24,23,26,11,33,30,14,28,15],
   [38,0,41,38,35,36,37,27,6,8,19,38,3,31,15], [42,9,24,16,7,5,8,32,29,4,5,3,36,33,15], [3,19,7,37,21,16,21,36,9,1,34,10,25,36,15],
   [7,28,33,14,36,27,34,40,32,40,19,18,14,39,15], [11,37,16,35,7,39,4,2,13,37,5,26,3,42,15], [15,3,0,13,22,7,18,6,36,33,34,33,35,1,16],
   [19,12,26,33,36,18,31,10,16,30,20,41,24,4,16], [23,21,9,11,8,30,1,15,39,26,6,6,14,7,16], [27,30,35,31,22,41,14,19,19,23,35,13,3,10,16],
   [31,39,18,9,37,9,28,23,42,19,21,21,35,12,16]]"

definition BASE43_POS10 :: "nat list list" where
  "BASE43_POS10 = [
   [0,0,0,0,0,0,0,0,0,0,0,0,0,0,0,0,0], [35,5,2,30,8,21,41,27,22,16,7,29,24,15,16,0,0], [27,11,4,17,17,42,39,12,2,33,14,15,6,31,32,0,0],
   [19,17,6,4,26,20,38,40,24,6,22,1,31,3,6,1,0], [11,23,8,34,34,41,36,25,4,23,29,30,12,19,22,1,0], [3,29,10,21,0,20,35,10,27,39,36,16,37,34,38,1,0],
   [38,34,12,8,9,41,33,38,6,13,1,3,19,7,12,2,0], [30,40,14,38,17,19,32,23,29,29,8,32,0,23,28,2,0], [22,3,17,25,26,40,30,8,9,3,16,18,25,38,1,3,0],
   [14,9,19,12,35,18,29,36,31,19,23,4,7,11,18,3,0], [6,15,21,42,0,40,27,21,11,36,30,33,31,26,34,3,0], [41,20,23,29,9,18,26,6,34,9,38,19,13,42,7,4,0],
   [33,26,25,16,18,39,24,34,13,26,2,6,38,14,24,4,0], [25,32,27,3,27,17,23,19,36,42,9,35,19,30,40,4,0], [17,38,29,33,35,38,21,4,16,16,17,21,1,3,14,5,0],
   [9,1,32,20,1,17,20,32,38,32,24,7,26,18,30,5,0], [1,7,34,7,10,38,18,17,18,6,32,36,7,34,3,6,0], [36,12,36,37,18,16,17,2,41,22,39,22,32,6,20,6,0],
   [28,18,38,24,27,37,15,30,20,39,3,9,14,22,36,6,0], [20,24,40,11,36,15,14,15,0,13,11,38,38,37,9,7,0], [12,30,42,41,1,37,12,0,23,29,18,24,20,10,26,7,0],
   [4,36,1,29,10,15,11,28,2,3,26,10,2,26,42,7,0], [39,41,3,16,19,36,9,13,25,19,33,39,26,41,15,8,0], [31,4,6,3,28,14,8,41,4,36,40,25,8,14,32,8,0],
   [23,10,8,33,36,35,6,26,27,9,5,12,33,29,5,9,0], [15,16,10,20,2,14,5,11,7,26,12,41,14,2,22,9,0], [7,22,12,7,11,35,3,39,29,42,19,27,39,17,38,9,0],
   [42,27,14,37,19,13,2,24,9,16,27,13,21,33,11,10,0], [34,33,16,24,28,34,0,9,32,32,34,42,2,6,28,10,0], [26,39,18,11,37,12,42,36,11,6,42,28,27,21,1,11,0],
   [18,2,21,41,2,34,40,21,34,22,6,15,9,37,17,11,0], [10,8,23,28,11,12,39,6,14,39,13,1,34,9,34,11,0], [2,14,25,15,20,33,37,34,36,12,21,30,15,25,7,12,0],
   [37,19,27,2,29,11,36,19,16,29,28,16,40,40,23,12,0], [29,25,29,32,37,32,34,4,39,2,36,2,22,13,40,12,0],
   [21,31,31,19,3,11,33,32,18,19,0,32,3,29,13,13,0], [13,37,33,6,12,32,31,17,41,35,7,18,28,1,30,13,0], [5,0,36,36,20,10,30,2,21,9,15,4,10,17,3,14,0],
   [40,5,38,23,29,31,28,30,0,26,22,33,34,32,19,14,0], [32,11,40,10,38,9,27,15,23,42,29,19,16,5,36,14,0],
   [24,17,42,40,3,31,25,0,3,16,37,5,41,20,9,15,0], [16,23,1,28,12,9,24,28,25,32,1,35,22,36,25,15,0], [8,29,3,15,21,30,22,13,5,6,9,21,4,9,42,15,0],
   [0,35,5,2,30,8,21,41,27,22,16,7,29,24,15,16,0], [35,40,7,32,38,29,19,26,7,39,23,36,10,40,31,16,0], [27,3,10,19,4,8,18,11,30,12,31,22,35,12,5,17,0],
   [19,9,12,6,13,29,16,39,9,29,38,8,17,28,21,17,0], [11,15,14,36,21,7,15,24,32,2,3,38,41,0,38,17,0], [3,21,16,23,30,28,13,9,12,19,10,24,23,16,11,18,0],
   [38,26,18,10,39,6,12,37,34,35,17,10,5,32,27,18,0], [30,32,20,40,4,28,10,22,14,9,25,39,29,4,1,19,0], [22,38,22,27,13,6,9,7,37,25,32,25,11,20,17,19,0],
   [14,1,25,14,22,27,7,35,16,42,39,11,36,35,33,19,0], [6,7,27,1,31,5,6,20,39,15,4,41,17,8,7,20,0], [41,12,29,31,39,26,4,5,19,32,11,27,42,23,23,20,0],
   [33,18,31,18,5,5,3,33,41,5,19,13,24,39,39,20,0], [25,24,33,5,14,26,1,18,21,22,26,42,5,12,13,21,0], [17,30,35,35,22,4,0,3,1,39,33,28,30,27,29,21,0],
   [9,36,37,22,31,25,41,30,23,12,41,14,12,0,3,22,0], [1,42,39,9,40,3,40,15,3,29,5,1,37,15,19,22,0], [36,4,42,39,5,25,38,0,26,2,13,30,18,31,35,22,0],
   [28,10,1,27,14,3,37,28,5,19,20,16,0,4,9,23,0], [20,16,3,14,23,24,35,13,28,35,27,2,25,19,25,23,0], [12,22,5,1,32,2,34,41,7,9,35,31,6,35,41,23,0],
   [4,28,7,31,40,23,32,26,30,25,42,17,31,7,15,24,0], [39,33,9,18,6,2,31,11,10,42,6,4,13,23,31,24,0], [31,39,11,5,15,23,29,39,32,15,14,33,37,38,4,25,0],
   [23,2,14,35,23,1,28,24,12,32,21,19,19,11,21,25,0], [15,8,16,22,32,22,26,9,35,5,29,5,1,27,37,25,0], [7,14,18,9,41,0,25,37,14,22,36,34,25,42,10,26,0],
   [42,19,20,39,6,22,23,22,37,38,0,21,7,15,27,26,0], [34,25,22,26,15,0,22,7,17,12,8,7,32,30,0,27,0], [26,31,24,13,24,21,20,35,39,28,15,36,13,3,17,27,0],
   [18,37,26,0,33,42,18,20,19,2,23,22,38,18,33,27,0], [10,0,29,30,41,20,17,5,42,18,30,8,20,34,6,28,0], [2,6,31,17,7,42,15,33,21,35,37,37,1,7,23,28,0],
   [37,11,33,4,16,20,14,18,1,9,2,24,26,22,39,28,0], [29,17,35,34,24,41,12,3,24,25,9,10,8,38,12,29,0], [21,23,37,21,33,19,11,31,3,42,16,39,32,10,29,29,0],
   [13,29,39,8,42,40,9,16,26,15,24,25,14,26,2,30,0], [5,35,41,38,7,19,8,1,6,32,31,11,39,41,18,30,0], [40,40,0,26,16,40,6,29,28,5,39,40,20,14,35,30,0],
   [32,3,3,13,25,18,5,14,8,22,3,27,2,30,8,31,0], [24,9,5,0,34,39,3,42,30,38,10,13,27,2,25,31,0], [16,15,7,30,42,17,2,27,10,12,18,42,8,18,41,31,0],
   [8,21,9,17,8,39,0,12,33,28,25,28,33,33,14,32,0], [0,27,11,4,17,17,42,39,12,2,33,14,15,6,31,32,0], [35,32,13,34,25,38,40,24,35,18,40,0,40,21,4,33,0],
   [27,38,15,21,34,16,39,9,15,35,4,30,21,37,20,33,0], [19,1,18,8,0,38,37,37,37,8,12,16,3,10,37,33,0], [11,7,20,38,8,16,36,22,17,25,19,2,28,25,10,34,0],
   [3,13,22,25,17,37,34,7,40,41,26,31,9,41,26,34,0], [38,18,24,12,26,15,33,35,19,15,34,17,34,13,0,35,0],
   [30,24,26,42,34,36,31,20,42,31,41,3,16,29,16,35,0], [22,30,28,29,0,15,30,5,22,5,6,33,40,1,33,35,0], [14,36,30,16,9,36,28,33,1,22,13,19,22,17,6,36,0],
   [6,42,32,3,18,14,27,18,24,38,20,5,4,33,22,36,0], [41,4,35,33,26,35,25,3,4,12,28,34,28,5,39,36,0], [33,10,37,20,35,13,24,31,26,28,35,20,10,21,12,37,0],
   [25,16,39,7,1,35,22,16,6,2,0,7,35,36,28,37,0], [17,22,41,37,9,13,21,1,29,18,7,36,16,9,2,38,0], [9,28,0,25,18,34,19,29,8,35,14,22,41,24,18,38,0],
   [1,34,2,12,27,12,18,14,31,8,22,8,23,40,34,38,0], [36,39,4,42,35,33,16,42,10,25,29,37,4,13,8,39,0], [28,2,7,29,1,12,15,27,33,41,36,23,29,28,24,39,0],
   [20,8,9,16,10,33,13,12,13,15,1,10,11,1,41,39,0], [12,14,11,3,19,11,12,40,35,31,8,39,35,16,14,40,0], [4,20,13,33,27,32,10,25,15,5,16,25,17,32,30,40,0],
   [39,25,15,20,36,10,9,10,38,21,23,11,42,4,4,41,0], [31,31,17,7,2,32,7,38,17,38,30,40,23,20,20,41,0], [23,37,19,37,10,10,6,23,40,11,38,26,5,36,36,41,0],
   [15,0,22,24,19,31,4,8,20,28,2,13,30,8,10,42,0], [7,6,24,11,28,9,3,36,42,1,10,42,11,24,26,42,0], [42,11,26,41,36,30,1,21,22,18,17,28,36,39,42,42,0],
   [34,17,28,28,2,9,0,6,2,35,24,14,18,12,16,0,1], [26,23,30,15,11,30,41,33,24,8,32,0,0,28,32,0,1], [18,29,32,2,20,8,40,18,4,25,39,29,24,0,6,1,1],
   [10,35,34,32,28,29,38,3,27,41,3,16,6,16,22,1,1], [2,41,36,19,37,7,37,31,6,15,11,2,31,31,38,1,1], [37,3,39,6,3,29,35,16,29,31,18,31,12,4,12,2,1],
   [29,9,41,36,11,7,34,1,9,5,26,17,37,19,28,2,1], [21,15,0,24,20,28,32,29,31,21,33,3,19,35,1,3,1], [13,21,2,11,29,6,31,14,11,38,40,32,0,8,18,3,1],
   [5,27,4,41,37,27,29,42,33,11,5,19,25,23,34,3,1], [40,32,6,28,3,6,28,27,13,28,12,5,7,39,7,4,1], [32,38,8,15,12,27,26,12,36,1,20,34,31,11,24,4,1],
   [24,1,11,2,21,5,25,40,15,18,27,20,13,27,40,4,1], [16,7,13,32,29,26,23,25,38,34,34,6,38,42,13,5,1], [8,13,15,19,38,4,22,10,18,8,42,35,19,15,30,5,1],
   [0,19,17,6,4,26,20,38,40,24,6,22,1,31,3,6,1], [35,24,19,36,12,4,19,23,20,41,13,8,26,3,20,6,1], [27,30,21,23,21,25,17,8,0,15,21,37,7,19,36,6,1],
   [19,36,23,10,30,3,16,36,22,31,28,23,32,34,9,7,1], [11,42,25,40,38,24,14,21,2,5,36,9,14,7,26,7,1], [3,5,28,27,4,3,13,6,25,21,0,39,38,22,42,7,1],
   [38,10,30,14,13,24,11,34,4,38,7,25,20,38,15,8,1], [30,16,32,1,22,2,10,19,27,11,15,11,2,11,32,8,1], [22,22,34,31,30,23,8,4,7,28,22,40,26,26,5,9,1],
   [14,28,36,18,39,1,7,32,29,1,30,26,8,42,21,9,1], [6,34,38,5,5,23,5,17,9,18,37,12,33,14,38,9,1], [41,39,40,35,13,1,4,2,32,34,1,42,14,30,11,10,1],
   [33,2,0,23,22,22,2,30,11,8,9,28,39,2,28,10,1], [25,8,2,10,31,0,1,15,34,24,16,14,21,18,1,11,1], [17,14,4,40,39,21,42,42,13,41,23,0,3,34,17,11,1],
   [9,20,6,27,5,0,41,27,36,14,31,29,27,6,34,11,1], [1,26,8,14,14,21,39,12,16,31,38,15,9,22,7,12,1], [36,31,10,1,23,42,37,40,38,4,3,2,34,37,23,12,1],
   [28,37,12,31,31,20,36,25,18,21,10,31,15,10,40,12,1], [20,0,15,18,40,41,34,10,41,37,17,17,40,25,13,13,1],
   [12,6,17,5,6,20,33,38,20,11,25,3,22,41,29,13,1], [4,12,19,35,14,41,31,23,0,28,32,32,3,14,3,14,1], [39,17,21,22,23,19,30,8,23,1,40,18,28,29,19,14,1],
   [31,23,23,9,32,40,28,36,2,18,4,5,10,2,36,14,1], [23,29,25,39,40,18,27,21,25,34,11,34,34,17,9,15,1], [15,35,27,26,6,40,25,6,5,8,19,20,16,33,25,15,1],
   [7,41,29,13,15,18,24,34,27,24,26,6,41,5,42,15,1], [42,3,32,0,24,39,22,19,7,41,33,35,22,21,15,16,1], [34,9,34,30,32,17,21,4,30,14,41,21,4,37,31,16,1],
   [26,15,36,17,41,38,19,32,9,31,5,8,29,9,5,17,1], [18,21,38,4,7,17,18,17,32,4,13,37,10,25,21,17,1], [10,27,40,34,15,38,16,2,12,21,20,23,35,40,37,17,1],
   [2,33,42,21,24,16,15,30,34,37,27,9,17,13,11,18,1], [37,38,1,9,33,37,13,15,14,11,35,38,41,28,27,18,1],
   [29,1,4,39,41,15,12,0,37,27,42,24,23,1,1,19,1], [21,7,6,26,7,37,10,28,16,1,7,11,5,17,17,19,1], [13,13,8,13,16,15,9,13,39,17,14,40,29,32,33,19,1],
   [5,19,10,0,25,36,7,41,18,34,21,26,11,5,7,20,1], [40,24,12,30,33,14,6,26,41,7,29,12,36,20,23,20,1], [32,30,14,17,42,35,4,11,21,24,36,41,17,36,39,20,1],
   [24,36,16,4,8,14,3,39,0,41,0,28,42,8,13,21,1], [16,42,18,34,16,35,1,24,23,14,8,14,24,24,29,21,1], [8,5,21,21,25,13,0,9,3,31,15,0,6,40,2,22,1],
   [0,11,23,8,34,34,41,36,25,4,23,29,30,12,19,22,1], [35,16,25,38,42,12,40,21,5,21,30,15,12,28,35,22,1],
   [27,22,27,25,8,34,38,6,28,37,37,1,37,0,9,23,1], [19,28,29,12,17,12,37,34,7,11,2,31,18,16,25,23,1], [11,34,31,42,25,33,35,19,30,27,9,17,0,32,41,23,1],
   [3,40,33,29,34,11,34,4,10,1,17,3,25,4,15,24,1], [38,2,36,16,0,33,32,32,32,17,24,32,6,20,31,24,1], [30,8,38,3,9,11,31,17,12,34,31,18,31,35,4,25,1],
   [22,14,40,33,17,32,29,2,35,7,39,4,13,8,21,25,1], [14,20,42,20,26,10,28,30,14,24,3,34,37,23,37,25,1],
   [6,26,1,8,35,31,26,15,37,40,10,20,19,39,10,26,1], [41,31,3,38,0,10,25,0,17,14,18,6,1,12,27,26,1], [33,37,5,25,9,31,23,28,39,30,25,35,25,27,0,27,1],
   [25,0,8,12,18,9,22,13,19,4,33,21,7,0,17,27,1], [17,6,10,42,26,30,20,41,41,20,40,7,32,15,33,27,1], [9,12,12,29,35,8,19,26,21,37,4,37,13,31,6,28,1],
   [1,18,14,16,1,30,17,11,1,11,12,23,38,3,23,28,1], [36,23,16,3,10,8,16,39,23,27,19,9,20,19,39,28,1], [28,29,18,33,18,29,14,24,3,1,27,38,1,35,12,29,1],
   [20,35,20,20,27,7,13,9,26,17,34,24,26,7,29,29,1], [12,41,22,7,36,28,11,37,5,34,41,10,8,23,2,30,1], [4,4,25,37,1,7,10,22,28,7,6,40,32,38,18,30,1],
   [39,9,27,24,10,28,8,7,8,24,13,26,14,11,35,30,1], [31,15,29,11,19,6,7,35,30,40,20,12,39,26,8,31,1], [23,21,31,41,27,27,5,20,10,14,28,41,20,42,24,31,1],
   [15,27,33,28,36,5,4,5,33,30,35,27,2,15,41,31,1], [7,33,35,15,2,27,2,33,12,4,0,14,27,30,14,32,1], [42,38,37,2,11,5,1,18,35,20,7,0,9,3,31,32,1],
   [34,1,40,32,19,26,42,2,15,37,14,29,33,18,4,33,1], [26,7,42,19,28,4,41,30,37,10,22,15,15,34,20,33,1],
   [18,13,1,7,37,25,39,15,17,27,29,1,40,6,37,33,1], [10,19,3,37,2,4,38,0,40,0,37,30,21,22,10,34,1], [2,25,5,24,11,25,36,28,19,17,1,17,3,38,26,34,1],
   [37,30,7,11,20,3,35,13,42,33,8,3,28,10,0,35,1], [29,36,9,41,28,24,33,41,21,7,16,32,9,26,16,35,1], [21,42,11,28,37,2,32,26,1,24,23,18,34,41,32,35,1],
   [13,5,14,15,3,24,30,11,24,40,30,4,16,14,6,36,1], [5,11,16,2,12,2,29,39,3,14,38,33,40,29,22,36,1], [40,16,18,32,20,23,27,24,26,30,2,20,22,2,39,36,1],
   [32,22,20,19,29,1,26,9,6,4,10,6,4,18,12,37,1], [24,28,22,6,38,22,24,37,28,20,17,35,28,33,28,37,1], [16,34,24,36,3,1,23,22,8,37,24,21,10,6,2,38,1],
   [8,40,26,23,12,22,21,7,31,10,32,7,35,21,18,38,1], [0,3,29,10,21,0,20,35,10,27,39,36,16,37,34,38,1], [35,8,31,40,29,21,18,20,33,0,4,23,41,9,8,39,1],
   [27,14,33,27,38,42,16,5,13,17,11,9,23,25,24,39,1], [19,20,35,14,4,21,15,33,35,33,18,38,4,41,40,39,1],
   [11,26,37,1,13,42,13,18,15,7,26,24,29,13,14,40,1], [3,32,39,31,21,20,12,3,38,23,33,10,11,29,30,40,1],
   [38,37,41,18,30,41,10,31,17,40,40,39,35,1,4,41,1], [30,0,1,6,39,19,9,16,40,13,5,26,17,17,20,41,1], [22,6,3,36,4,41,7,1,20,30,12,12,42,32,36,41,1],
   [14,12,5,23,13,19,6,29,42,3,20,41,23,5,10,42,1], [6,18,7,10,22,40,4,14,22,20,27,27,5,21,26,42,1], [41,23,9,40,30,18,3,42,1,37,34,13,30,36,42,42,1],
   [33,29,11,27,39,39,1,27,24,10,42,42,11,9,16,0,2], [25,35,13,14,5,18,0,12,4,27,6,29,36,24,32,0,2], [17,41,15,1,14,39,41,39,26,0,14,15,18,40,5,1,2],
   [9,4,18,31,22,17,40,24,6,17,21,1,0,13,22,1,2], [1,10,20,18,31,38,38,9,29,33,28,30,24,28,38,1,2], [36,15,22,5,40,16,37,37,8,7,36,16,6,1,12,2,2],
   [28,21,24,35,5,38,35,22,31,23,0,3,31,16,28,2,2], [20,27,26,22,14,16,34,7,11,40,7,32,12,32,1,3,2], [12,33,28,9,23,37,32,35,33,13,15,18,37,4,18,3,2],
   [4,39,30,39,31,15,31,20,13,30,22,4,19,20,34,3,2], [39,1,33,26,40,36,29,5,36,3,30,33,0,36,7,4,2], [31,7,35,13,6,15,28,33,15,20,37,19,25,8,24,4,2],
   [23,13,37,0,15,36,26,18,38,36,1,6,7,24,40,4,2], [15,19,39,30,23,14,25,3,18,10,9,35,31,39,13,5,2], [7,25,41,17,32,35,23,31,40,26,16,21,13,12,30,5,2],
   [42,30,0,5,41,13,22,16,20,0,24,7,38,27,3,6,2], [34,36,2,35,6,35,20,1,0,17,31,36,19,0,20,6,2], [26,42,4,22,15,13,19,29,22,33,38,22,1,16,36,6,2],
   [18,5,7,9,24,34,17,14,2,7,3,9,26,31,9,7,2], [10,11,9,39,32,12,16,42,24,23,10,38,7,4,26,7,2], [2,17,11,26,41,33,14,27,4,40,17,24,32,19,42,7,2],
   [37,22,13,13,7,12,13,12,27,13,25,10,14,35,15,8,2], [29,28,15,0,16,33,11,40,6,30,32,39,38,7,32,8,2], [21,34,17,30,24,11,10,25,29,3,40,25,20,23,5,9,2],
   [13,40,19,17,33,32,8,10,9,20,4,12,2,39,21,9,2], [5,3,22,4,42,10,7,38,31,36,11,41,26,11,38,9,2], [40,8,24,34,7,32,5,23,11,10,19,27,8,27,11,10,2],
   [32,14,26,21,16,10,4,8,34,26,26,13,33,42,27,10,2], [24,20,28,8,25,31,2,36,13,0,34,42,14,15,1,11,2]]"

lemma BASE43_POS7_ok: "table_ok 43 12 7 BASE43_POS7"
proof (rule table_okI)
  show "rows_step 43 [1, 19, 36, 41, 1, 25, 17, 42, 15, 14, 3, 0] BASE43_POS7"
    by (simp only: BASE43_POS7_def rows_step_eval cong: if_weak_cong)
  show "length BASE43_POS7 = 256"
    by (simp only: BASE43_POS7_def length_table_eval)
  show "hd BASE43_POS7 = [0, 0, 0, 0, 0, 0, 0, 0, 0, 0, 0, 0]"
    by (simp only: BASE43_POS7_def list.sel)
qed (simp_all add: digit_simps)

lemma BASE43_POS8_ok: "table_ok 43 14 8 BASE43_POS8"
proof (rule table_okI)
  show "rows_step 43 [41, 10, 41, 5, 32, 4, 29, 20, 7, 24, 36, 19, 0, 0] BASE43_POS8"
    by (simp only: BASE43_POS8_def rows_step_eval cong: if_weak_cong)
  show "length BASE43_POS8 = 256"
    by (simp only: BASE43_POS8_def length_table_eval)
  show "hd BASE43_POS8 = [0, 0, 0, 0, 0, 0, 0, 0, 0, 0, 0, 0, 0, 0]"
    by (simp only: BASE43_POS8_def list.sel)
qed (simp_all add: digit_simps)

lemma BASE43_POS9_ok: "table_ok 43 15 9 BASE43_POS9"
proof (rule table_okI)
  show "rows_step 43 [4, 9, 26, 20, 14, 11, 13, 4, 23, 39, 28, 7, 32, 2, 0] BASE43_POS9"
    by (simp only: BASE43_POS9_def rows_step_eval cong: if_weak_cong)
  show "length BASE43_POS9 = 256"
    by (simp only: BASE43_POS9_def length_table_eval)
  show "hd BASE43_POS9 = [0, 0, 0, 0, 0, 0, 0, 0, 0, 0, 0, 0, 0, 0, 0]"
    by (simp only: BASE43_POS9_def list.sel)
qed (simp_all add: digit_simps)

lemma BASE43_POS10_ok: "table_ok 43 17 10 BASE43_POS10"
proof (rule table_okI)
  show "rows_step 43 [35, 5, 2, 30, 8, 21, 41, 27, 22, 16, 7, 29, 24, 15, 16, 0, 0] BASE43_POS10"
    by (simp only: BASE43_POS10_def rows_step_eval cong: if_weak_cong)
  show "length BASE43_POS10 = 256"
    by (simp only: BASE43_POS10_def length_table_eval)
  show "hd BASE43_POS10 = [0, 0, 0, 0, 0, 0, 0, 0, 0, 0, 0, 0, 0, 0, 0, 0, 0]"
    by (simp only: BASE43_POS10_def list.sel)
qed (simp_all add: digit_simps)

end
