(* ===== verification/Tables_43_C.thy ===== *)
theory Tables_43_C
  imports Digits
begin

text \<open>
  The tables \<open>BASE43_POS11\<close> to \<open>BASE43_POS13\<close> of \<^verbatim>\<open>fancy-garbling/base_conversion/cbits/lookup_tables.c\<close>,
  entry by entry, as lists of rows of \<open>uint16_t\<close> values read as naturals.  Each lemma \<open>_ok\<close> shows that row \<open>x\<close> holds the base-43
  digits of \<open>x * 256 ^ pos\<close>, for the width that the declaration of the table has.
\<close>

definition BASE43_POS11 :: "nat list list" where
  "BASE43_POS11 = [
   [0,0,0,0,0,0,0,0,0,0,0,0,0,0,0,0,0,0], [16,26,30,38,33,9,1,21,36,16,41,28,39,30,17,11,2,0], [32,9,18,34,24,19,2,42,29,33,39,14,36,18,35,22,4,0],
   [5,36,5,30,15,29,3,20,23,7,38,0,33,6,10,34,6,0], [21,19,36,25,6,39,4,41,16,24,36,29,29,37,27,2,9,0],
   [37,2,24,21,40,5,6,19,10,41,34,15,26,25,2,14,11,0], [10,29,11,17,31,15,7,40,3,15,33,1,23,13,20,25,13,0],
   [26,12,42,12,22,25,8,18,40,31,31,30,19,1,38,36,15,0], [42,38,29,8,13,35,9,39,33,5,30,16,16,32,12,5,18,0],
   [15,22,17,4,4,2,11,17,27,22,28,2,13,20,30,16,20,0], [31,5,5,0,38,11,12,38,20,39,26,31,9,8,5,28,22,0],
   [4,32,35,38,28,21,13,16,14,13,25,17,6,39,22,39,24,0], [20,15,23,34,19,31,14,37,7,30,23,3,3,27,40,7,27,0],
   [36,41,10,30,10,41,15,15,1,4,22,32,42,14,15,19,29,0], [9,25,41,25,1,8,17,36,37,20,20,18,39,2,33,30,31,0],
   [25,8,29,21,35,17,18,14,31,37,18,4,36,33,7,42,33,0], [41,34,16,17,26,27,19,35,24,11,17,33,32,21,25,10,36,0],
   [14,18,4,13,17,37,20,13,18,28,15,19,29,9,0,22,38,0], [30,1,35,8,8,4,22,34,11,2,14,5,26,40,17,33,40,0],
   [3,28,22,4,42,13,23,12,5,19,12,34,22,28,35,1,0,1], [19,11,10,0,33,23,24,33,41,35,10,20,19,16,10,13,2,1],
   [35,37,40,38,23,33,25,11,35,9,9,6,16,4,28,24,4,1], [8,21,28,34,14,0,27,32,28,26,7,35,12,35,2,36,6,1],
   [24,4,16,30,5,10,28,10,22,0,6,21,9,23,20,4,9,1], [40,30,3,26,39,19,29,31,15,17,4,7,6,11,38,15,11,1],
   [13,14,34,21,30,29,30,9,9,34,2,36,2,42,12,27,13,1], [29,40,21,17,21,39,31,30,2,8,1,22,42,29,30,38,15,1],
   [2,24,9,13,12,6,33,8,39,24,42,7,39,17,5,7,18,1], [18,7,40,8,3,16,34,29,32,41,40,36,35,5,23,18,20,1],
   [34,33,27,4,37,25,35,7,26,15,39,22,32,36,40,29,22,1], [7,17,15,0,28,35,36,28,19,32,37,8,29,24,15,41,24,1],
   [23,0,3,39,18,2,38,6,13,6,36,37,25,12,33,9,27,1], [39,26,33,34,9,12,39,27,6,23,34,23,22,0,8,21,29,1],
   [12,10,21,30,0,22,40,5,0,40,32,9,19,31,25,32,31,1], [28,36,8,26,34,31,41,26,36,13,31,38,15,19,0,1,34,1],
   [1,20,39,21,25,41,42,4,30,30,29,24,12,7,18,12,36,1], [17,3,27,17,16,8,1,26,23,4,28,10,9,38,35,23,38,1],
   [33,29,14,13,7,18,2,4,17,21,26,39,5,26,10,35,40,1], [6,13,2,9,41,27,3,25,10,38,24,25,2,14,28,3,0,2],
   [22,39,32,4,32,37,4,3,4,12,23,11,42,1,3,15,2,2], [38,22,20,0,23,4,6,24,40,28,21,40,38,32,20,26,4,2],
   [11,6,8,39,13,14,7,2,34,2,20,26,35,20,38,37,6,2], [27,32,38,34,4,24,8,23,27,19,18,12,32,8,13,6,9,2],
   [0,16,26,30,38,33,9,1,21,36,16,41,28,39,30,17,11,2], [16,42,13,26,29,0,11,22,14,10,15,27,25,27,5,29,13,2],
   [32,25,1,22,20,10,12,0,8,27,13,13,22,15,23,40,15,2], [5,9,32,17,11,20,13,21,1,1,12,42,18,3,41,8,18,2],
   [21,35,19,13,2,30,14,42,37,17,10,28,15,34,15,20,20,2], [37,18,7,9,36,39,15,20,31,34,8,14,12,22,33,31,22,2],
   [10,2,38,4,27,6,17,41,24,8,7,0,9,10,8,0,25,2], [26,28,25,0,18,16,18,19,18,25,5,29,5,41,25,11,27,2], [42,11,13,39,8,26,19,40,11,42,3,15,2,29,0,23,29,2],
   [15,38,0,35,42,35,20,18,5,16,2,1,42,16,18,34,31,2], [31,21,31,30,33,2,22,39,41,32,0,30,38,4,36,2,34,2],
   [4,5,19,26,24,12,23,17,35,6,42,15,35,35,10,14,36,2], [20,31,6,22,15,22,24,38,28,23,40,1,32,23,28,25,38,2],
   [36,14,37,17,6,32,25,16,22,40,38,30,28,11,3,37,40,2], [9,41,24,13,40,41,26,37,15,14,37,16,25,42,20,5,0,3],
   [25,24,12,9,31,8,28,15,9,31,35,2,22,30,38,16,2,3], [41,7,0,5,22,18,29,36,2,5,34,31,18,18,13,28,4,3],
   [14,34,30,0,13,28,30,14,39,21,32,17,15,6,31,39,6,3], [30,17,18,39,3,38,31,35,32,38,30,3,12,37,5,8,9,3],
   [3,1,6,35,37,4,33,13,26,12,29,32,8,25,23,19,11,3], [19,27,36,30,28,14,34,34,19,29,27,18,5,13,41,30,13,3],
   [35,10,24,26,19,24,35,12,13,3,26,4,2,1,16,42,15,3], [8,37,11,22,10,34,36,33,6,20,24,33,41,31,33,10,18,3],
   [24,20,42,17,1,1,38,11,0,37,22,19,38,19,8,22,20,3], [40,3,30,13,35,10,39,32,36,10,21,5,35,7,26,33,22,3],
   [13,30,17,9,26,20,40,10,30,27,19,34,31,38,0,2,25,3], [29,13,5,5,17,30,41,31,23,1,18,20,28,26,18,13,27,3],
   [2,40,35,0,8,40,42,9,17,18,16,6,25,14,36,24,29,3], [18,23,23,39,41,6,1,31,10,35,14,35,21,2,11,36,31,3],
   [34,6,11,35,32,16,2,9,4,9,13,21,18,33,28,4,34,3], [7,33,41,30,23,26,3,30,40,25,11,7,15,21,3,16,36,3],
   [23,16,29,26,14,36,4,8,34,42,9,36,11,9,21,27,38,3], [39,42,16,22,5,3,6,29,27,16,8,22,8,40,38,38,40,3],
   [12,26,4,18,39,12,7,7,21,33,6,8,5,28,13,7,0,4], [28,9,35,13,30,22,8,28,14,7,5,37,1,16,31,18,2,4], [1,36,22,9,21,32,9,6,8,24,3,23,41,3,6,30,4,4],
   [17,19,10,5,12,42,10,27,1,41,1,9,38,34,23,41,6,4], [33,2,41,0,3,9,12,5,38,14,0,38,34,22,41,9,9,4], [6,29,28,39,36,18,13,26,31,31,41,23,31,10,16,21,11,4],
   [22,12,16,35,27,28,14,4,25,5,40,9,28,41,33,32,13,4], [38,38,3,31,18,38,15,25,18,22,38,38,24,29,8,1,16,4],
   [11,22,34,26,9,5,17,3,12,39,36,24,21,17,26,12,18,4], [27,5,22,22,0,15,18,24,5,13,35,10,18,5,1,24,20,4],
   [0,32,9,18,34,24,19,2,42,29,33,39,14,36,18,35,22,4], [16,15,40,13,25,34,20,23,35,3,32,25,11,24,36,3,25,4],
   [32,41,27,9,16,1,22,1,29,20,30,11,8,12,11,15,27,4], [5,25,15,5,7,11,23,22,22,37,28,40,4,0,29,26,29,4],
   [21,8,3,1,41,20,24,0,16,11,27,26,1,31,3,38,31,4], [37,34,33,39,31,30,25,21,9,28,25,12,41,18,21,6,34,4],
   [10,18,21,35,22,40,26,42,2,2,24,41,37,6,39,17,36,4], [26,1,9,31,13,7,28,20,39,18,22,27,34,37,13,29,38,4],
   [42,27,39,26,4,17,29,41,32,35,20,13,31,25,31,40,40,4], [15,11,27,22,38,26,30,19,26,9,19,42,27,13,6,9,0,5],
   [31,37,14,18,29,36,31,40,19,26,17,28,24,1,24,20,2,5], [4,21,2,14,20,3,33,18,13,0,16,14,21,32,41,31,4,5],
   [20,4,33,9,11,13,34,39,6,17,14,0,18,20,16,0,7,5], [36,30,20,5,2,23,35,17,0,34,12,29,14,8,34,11,9,5],
   [9,14,8,1,36,32,36,38,36,7,11,15,11,39,8,23,11,5], [25,40,38,39,26,42,37,16,30,24,9,1,8,27,26,34,13,5],
   [41,23,26,35,17,9,39,37,23,41,7,30,4,15,1,3,16,5], [14,7,14,31,8,19,40,15,17,15,6,16,1,3,19,14,18,5],
   [30,33,1,27,42,28,41,36,10,32,4,2,41,33,36,25,20,5], [3,17,32,22,33,38,42,14,4,6,3,31,37,21,11,37,22,5],
   [19,0,20,18,24,5,1,36,40,22,1,17,34,9,29,5,25,5], [35,26,7,14,15,15,2,14,34,39,42,2,31,40,3,17,27,5],
   [8,10,38,9,6,25,3,35,27,13,41,31,27,28,21,28,29,5], [24,36,25,5,40,34,4,13,21,30,39,17,24,16,39,39,31,5],
   [40,19,13,1,31,1,6,34,14,4,38,3,21,4,14,8,34,5], [13,3,1,40,21,11,7,12,8,21,36,32,17,35,31,19,36,5],
   [29,29,31,35,12,21,8,33,1,38,34,18,14,23,6,31,38,5], [2,13,19,31,3,31,9,11,38,11,33,4,11,11,24,42,40,5],
   [18,39,6,27,37,40,10,32,31,28,31,33,7,42,41,10,0,6], [34,22,37,22,28,7,12,10,25,2,30,19,4,30,16,22,2,6],
   [7,6,25,18,19,17,13,31,18,19,28,5,1,18,34,33,4,6], [23,32,12,14,10,27,14,9,12,36,26,34,40,5,9,2,7,6],
   [39,15,0,10,1,37,15,30,5,10,25,20,37,36,26,13,9,6], [12,42,30,5,35,3,17,8,42,26,23,6,34,24,1,25,11,6],
   [28,25,18,1,26,13,18,29,35,0,22,35,30,12,19,36,13,6], [1,9,6,40,16,23,19,7,29,17,20,21,27,0,37,4,16,6],
   [17,35,36,35,7,33,20,28,22,34,18,7,24,31,11,16,18,6], [33,18,24,31,41,42,21,6,16,8,17,36,20,19,29,27,20,6],
   [6,2,12,27,32,9,23,27,9,25,15,22,17,7,4,39,22,6], [22,28,42,22,23,19,24,5,3,42,13,8,14,38,21,7,25,6],
   [38,11,30,18,14,29,25,26,39,15,12,37,10,26,39,18,27,6], [11,38,17,14,5,39,26,4,33,32,10,23,7,14,14,30,29,6],
   [27,21,5,10,39,5,28,25,26,6,9,9,4,2,32,41,31,6], [0,5,36,5,30,15,29,3,20,23,7,38,0,33,6,10,34,6], [16,31,23,1,21,25,30,24,13,40,5,24,40,20,24,21,36,6],
   [32,14,11,40,11,35,31,2,7,14,4,10,37,8,42,32,38,6], [5,41,41,35,2,2,33,23,0,31,2,39,33,39,16,1,41,6],
   [21,24,29,31,36,11,34,1,37,4,1,25,30,27,34,12,0,7], [37,7,17,27,27,21,35,22,30,21,42,10,27,15,9,24,2,7],
   [10,34,4,23,18,31,36,0,24,38,40,39,23,3,27,35,4,7], [26,17,35,18,9,41,37,21,17,12,39,25,20,34,1,4,7,7],
   [42,0,23,14,0,8,39,42,10,29,37,11,17,22,19,15,9,7], [15,27,10,10,34,17,40,20,4,3,36,40,13,10,37,26,11,7],
   [31,10,41,5,25,27,41,41,40,19,34,26,10,41,11,38,13,7], [4,37,28,1,16,37,42,19,34,36,32,12,7,29,29,6,16,7],
   [20,20,16,40,6,4,1,41,27,10,31,41,3,17,4,18,18,7], [36,3,4,36,40,13,2,19,21,27,29,27,0,5,22,29,20,7],
   [9,30,34,31,31,23,3,40,14,1,28,13,40,35,39,40,22,7], [25,13,22,27,22,33,4,18,8,18,26,42,36,23,14,9,25,7],
   [41,39,9,23,13,0,6,39,1,35,24,28,33,11,32,20,27,7], [14,23,40,18,4,10,7,17,38,8,23,14,30,42,6,32,29,7],
   [30,6,28,14,38,19,8,38,31,25,21,0,27,30,24,0,32,7], [3,33,15,10,29,29,9,16,25,42,19,29,23,18,42,11,34,7],
   [19,16,3,6,20,39,10,37,18,16,18,15,20,6,17,23,36,7], [35,42,33,1,11,6,12,15,12,33,16,1,17,37,34,34,38,7],
   [8,26,21,40,1,16,13,36,5,7,15,30,13,25,9,3,41,7], [24,9,9,36,35,25,14,14,42,23,13,16,10,13,27,14,0,8],
   [40,35,39,31,26,35,15,35,35,40,11,2,7,1,2,26,2,8], [13,19,27,27,17,2,17,13,29,14,10,31,3,32,19,37,4,8],
   [29,2,15,23,8,12,18,34,22,31,8,17,0,20,37,5,7,8], [2,29,2,19,42,21,19,12,16,5,7,3,40,7,12,17,9,8], [18,12,33,14,33,31,20,33,9,22,5,32,36,38,29,28,11,8],
   [34,38,20,10,24,41,21,11,3,39,3,18,33,26,4,40,13,8], [7,22,8,6,15,8,23,32,39,12,2,4,30,14,22,8,16,8],
   [23,5,39,1,6,18,24,10,33,29,0,33,26,2,40,19,18,8], [39,31,26,40,39,27,25,31,26,3,42,18,23,33,14,31,20,8],
   [12,15,14,36,30,37,26,9,20,20,40,4,20,21,32,42,22,8], [28,41,1,32,21,4,28,30,13,37,38,33,16,9,7,11,25,8],
   [1,25,32,27,12,14,29,8,7,11,37,19,13,40,24,22,27,8], [17,8,20,23,3,24,30,29,0,28,35,5,10,28,42,33,29,8],
   [33,34,7,19,37,33,31,7,37,1,34,34,6,16,17,2,32,8], [6,18,38,14,28,0,33,28,30,18,32,20,3,4,35,13,34,8],
   [22,1,26,10,19,10,34,6,24,35,30,6,0,35,9,25,36,8], [38,27,13,6,10,20,35,27,17,9,29,35,39,22,27,36,38,8],
   [11,11,1,2,1,30,36,5,11,26,27,21,36,10,2,5,41,8], [27,37,31,40,34,39,37,26,4,0,26,7,33,41,19,16,0,9],
   [0,21,19,36,25,6,39,4,41,16,24,36,29,29,37,27,2,9], [16,4,7,32,16,16,40,25,34,33,22,22,26,17,12,39,4,9],
   [32,30,37,27,7,26,41,3,28,7,21,8,23,5,30,7,7,9], [5,14,25,23,41,35,42,24,21,24,19,37,19,36,4,19,9,9],
   [21,40,12,19,32,2,1,3,15,41,17,23,16,24,22,30,11,9], [37,23,0,15,23,12,2,24,8,15,16,9,13,12,40,41,13,9],
   [10,7,31,10,14,22,3,2,2,32,14,38,9,0,15,10,16,9], [26,33,18,6,5,32,4,23,38,5,13,24,6,31,32,21,18,9],
   [42,16,6,2,39,41,5,1,32,22,11,10,3,19,7,33,20,9], [15,0,37,40,29,8,7,22,25,39,9,39,42,6,25,1,23,9], [31,26,24,36,20,18,8,0,19,13,8,25,39,37,42,12,25,9],
   [4,10,12,32,11,28,9,21,12,30,6,11,36,25,17,24,27,9], [20,36,42,27,2,38,10,42,5,4,5,40,32,13,35,35,29,9],
   [36,19,30,23,36,4,12,20,42,20,3,26,29,1,10,4,32,9], [9,3,18,19,27,14,13,41,35,37,1,12,26,32,27,15,34,9],
   [25,29,5,15,18,24,14,19,29,11,0,41,22,20,2,27,36,9], [41,12,36,10,9,34,15,40,22,28,41,26,19,8,20,38,38,9],
   [14,39,23,6,0,1,17,18,16,2,40,12,16,39,37,6,41,9], [30,22,11,2,34,10,18,39,9,19,38,41,12,27,12,18,0,10],
   [3,6,42,40,24,20,19,17,3,36,36,27,9,15,30,29,2,10], [19,32,29,36,15,30,20,38,39,9,35,13,6,3,5,41,4,10],
   [35,15,17,32,6,40,21,16,33,26,33,42,2,34,22,9,7,10], [8,42,4,28,40,6,23,37,26,0,32,28,42,21,40,20,9,10],
   [24,25,35,23,31,16,24,15,20,17,30,14,39,9,15,32,11,10], [40,8,23,19,22,26,25,36,13,34,28,0,36,40,32,0,14,10],
   [13,35,10,15,13,36,26,14,7,8,27,29,32,28,7,12,16,10], [29,18,41,10,4,3,28,35,0,25,25,15,29,16,25,23,18,10],
   [2,2,29,6,38,12,29,13,37,41,23,1,26,4,0,35,20,10], [18,28,16,2,29,22,30,34,30,15,22,30,22,35,17,3,23,10],
   [34,11,4,41,19,32,31,12,24,32,20,16,19,23,35,14,25,10], [7,38,34,36,10,42,32,33,17,6,19,2,16,11,10,26,27,10],
   [23,21,22,32,1,9,34,11,11,23,17,31,12,42,27,37,29,10], [39,4,10,28,35,18,35,32,4,40,15,17,9,30,2,6,32,10],
   [12,31,40,23,26,28,36,10,41,13,14,3,6,18,20,17,34,10], [28,14,28,19,17,38,37,31,34,30,12,32,2,6,38,28,36,10],
   [1,41,15,15,8,5,39,9,28,4,11,18,42,36,12,40,38,10], [17,24,3,11,42,14,40,30,21,21,9,4,39,24,30,8,41,10],
   [33,7,34,6,33,24,41,8,15,38,7,33,35,12,5,20,0,11], [6,34,21,2,24,34,42,29,8,12,6,19,32,0,23,31,2,11],
   [22,17,9,41,14,1,1,8,2,29,4,5,29,31,40,42,4,11], [38,0,40,36,5,11,2,29,38,2,3,34,25,19,15,11,7,11], [11,27,27,32,39,20,3,7,32,19,1,20,22,7,33,22,9,11],
   [27,10,15,28,30,30,4,28,25,36,42,5,19,38,7,34,11,11], [0,37,2,24,21,40,5,6,19,10,41,34,15,26,25,2,14,11],
   [16,20,33,19,12,7,7,27,12,27,39,20,12,14,0,14,16,11], [32,3,21,15,3,17,8,5,6,1,38,6,9,2,18,25,18,11],
   [5,30,8,11,37,26,9,26,42,17,36,35,5,33,35,36,20,11], [21,13,39,6,28,36,10,4,36,34,34,21,2,21,10,5,23,11],
   [37,39,26,2,19,3,12,25,29,8,33,7,42,8,28,16,25,11], [10,23,14,41,9,13,13,3,23,25,31,36,38,39,2,28,27,11],
   [26,6,2,37,0,23,14,24,16,42,29,22,35,27,20,39,29,11], [42,32,32,32,34,32,15,2,10,16,28,8,32,15,38,7,32,11],
   [15,16,20,28,25,42,16,23,3,33,26,37,28,3,13,19,34,11], [31,42,7,24,16,9,18,1,40,6,25,23,25,34,30,30,36,11],
   [4,26,38,19,7,19,19,22,33,23,23,9,22,22,5,42,38,11], [20,9,26,15,41,28,20,0,27,40,21,38,18,10,23,10,41,11],
   [36,35,13,11,32,38,21,21,20,14,20,24,15,41,40,21,0,12], [9,19,1,7,23,5,23,42,13,31,18,10,12,29,15,33,2,12],
   [25,2,32,2,14,15,24,20,7,5,17,39,8,17,33,1,5,12], [41,28,19,41,4,25,25,41,0,22,15,25,5,5,8,13,7,12],
   [14,12,7,37,38,34,26,19,37,38,13,11,2,36,25,24,9,12], [30,38,37,32,29,1,28,40,30,12,12,40,41,23,0,36,11,12],
   [3,22,25,28,20,11,29,18,24,29,10,26,38,11,18,4,14,12], [19,5,13,24,11,21,30,39,17,3,9,12,35,42,35,15,16,12],
   [35,31,0,20,2,31,31,17,11,20,7,41,31,30,10,27,18,12], [8,15,31,15,36,40,32,38,4,37,5,27,28,18,28,38,20,12],
   [24,41,18,11,27,7,34,16,41,10,4,13,25,6,3,7,23,12], [40,24,6,7,18,17,35,37,34,27,2,42,21,37,20,18,25,12],
   [13,8,37,2,9,27,36,15,28,1,1,28,18,25,38,29,27,12], [29,34,24,41,42,36,37,36,21,18,42,13,15,13,13,41,29,12],
   [2,18,12,37,33,3,39,14,15,35,40,42,11,1,31,9,32,12], [18,1,0,33,24,13,40,35,8,9,39,28,8,32,5,21,34,12],
   [34,27,30,28,15,23,41,13,2,26,37,14,5,20,23,32,36,12], [7,11,18,24,6,33,42,34,38,42,35,0,2,8,41,0,39,12],
   [23,37,5,20,40,42,0,13,32,16,34,29,41,38,15,12,41,12], [39,20,36,15,31,9,2,34,25,33,32,15,38,26,33,23,0,13],
   [12,4,24,11,22,19,3,12,19,7,31,1,35,14,8,35,2,13], [28,30,11,7,13,29,4,33,12,24,29,30,31,2,26,3,5,13],
   [1,14,42,2,4,39,5,11,6,41,27,16,28,33,0,15,7,13], [17,40,29,41,37,5,7,32,42,14,26,2,25,21,18,26,9,13],
   [33,23,17,37,28,15,8,10,36,31,24,31,21,9,36,37,11,13], [6,7,5,33,19,25,9,31,29,5,23,17,18,40,10,6,14,13],
   [22,33,35,28,10,35,10,9,23,22,21,3,15,28,28,17,16,13], [38,16,23,24,1,2,12,30,16,39,19,32,11,16,3,29,18,13]]"

definition BASE43_POS12 :: "nat list list" where
  "BASE43_POS12 = [
   [0,0,0,0,0,0,0,0,0,0,0,0,0,0,0,0,0,0,0,0], [11,0,11,20,35,11,13,8,10,13,18,18,8,4,21,40,20,13,0,0], [22,0,22,40,27,23,26,16,20,26,36,36,16,8,42,37,41,26,0,0],
   [33,0,33,17,20,35,39,24,30,39,11,12,25,12,20,35,19,40,0,0], [1,1,1,38,12,4,10,33,40,9,30,30,33,16,41,32,40,10,1,0],
   [12,1,12,15,5,16,23,41,7,23,5,6,42,20,19,30,18,24,1,0], [23,1,23,35,40,27,36,6,18,36,23,24,7,25,40,27,39,37,1,0],
   [34,1,34,12,33,39,6,15,28,6,42,42,15,29,18,25,17,8,2,0], [2,2,2,33,25,8,20,23,38,19,17,18,24,33,39,22,38,21,2,0],
   [13,2,13,10,18,20,33,31,5,33,35,36,32,37,17,20,16,35,2,0], [24,2,24,30,10,32,3,40,15,3,11,12,41,41,38,17,37,5,3,0],
   [35,2,35,7,3,1,17,5,26,16,29,30,6,3,17,15,15,19,3,0], [3,3,3,28,38,12,30,13,36,29,4,6,15,7,38,12,36,32,3,0],
   [14,3,14,5,31,24,0,22,3,0,23,24,23,11,16,10,14,3,4,0], [25,3,25,25,23,36,13,30,13,13,41,42,31,15,37,7,35,16,4,0],
   [36,3,36,2,16,5,27,38,23,26,16,18,40,19,15,5,13,30,4,0], [4,4,4,23,8,17,40,3,34,39,34,36,5,24,36,2,34,0,5,0],
   [15,4,15,0,1,29,10,12,1,10,10,12,14,28,14,0,12,14,5,0], [26,4,26,20,36,40,23,20,11,23,28,30,22,32,35,40,32,27,5,0],
   [37,4,37,40,28,9,37,28,21,36,3,6,31,36,13,38,10,41,5,0], [5,5,5,18,21,21,7,37,31,6,22,24,39,40,34,35,31,11,6,0],
   [16,5,16,38,13,33,20,2,42,19,40,42,4,2,13,33,9,25,6,0], [27,5,27,15,6,2,34,10,9,33,15,18,13,6,34,30,30,38,6,0],
   [38,5,38,35,41,13,4,19,19,3,34,36,21,10,12,28,8,9,7,0], [6,6,6,13,34,25,17,27,29,16,9,12,30,14,33,25,29,22,7,0],
   [17,6,17,33,26,37,30,35,39,29,27,30,38,18,11,23,7,36,7,0], [28,6,28,10,19,6,1,1,7,0,3,6,4,23,32,20,28,6,8,0],
   [39,6,39,30,11,18,14,9,17,13,21,24,12,27,10,18,6,20,8,0], [7,7,7,8,4,30,27,17,27,26,39,42,20,31,31,15,27,33,8,0],
   [18,7,18,28,39,41,40,25,37,39,14,18,29,35,9,13,5,4,9,0], [29,7,29,5,32,10,11,34,4,10,33,36,37,39,30,10,26,17,9,0],
   [40,7,40,25,24,22,24,42,14,23,8,12,3,1,9,8,4,31,9,0], [8,8,8,3,17,34,37,7,25,36,26,30,11,5,30,5,25,1,10,0],
   [19,8,19,23,9,3,8,16,35,6,2,6,20,9,8,3,3,15,10,0], [30,8,30,0,2,15,21,24,2,20,20,24,28,13,29,0,24,28,10,0],
   [41,8,41,20,37,26,34,32,12,33,38,42,36,17,7,41,1,42,10,0], [9,9,9,41,29,38,4,41,22,3,14,18,2,22,28,38,22,12,11,0],
   [20,9,20,18,22,7,18,6,33,16,32,36,10,26,6,36,0,26,11,0], [31,9,31,38,14,19,31,14,0,30,7,12,19,30,27,33,21,39,11,0],
   [42,9,42,15,7,31,1,23,10,0,26,30,27,34,5,31,42,9,12,0], [10,10,10,36,42,42,14,31,20,13,1,6,36,38,26,28,20,23,12,0],
   [21,10,21,13,35,11,28,39,30,26,19,24,1,0,5,26,41,36,12,0], [32,10,32,33,27,23,41,4,41,39,37,42,9,4,26,23,19,7,13,0],
   [0,11,0,11,20,35,11,13,8,10,13,18,18,8,4,21,40,20,13,0], [11,11,11,31,12,4,25,21,18,23,31,36,26,12,25,18,18,34,13,0],
   [22,11,22,8,5,16,38,29,28,36,6,12,35,16,3,16,39,4,14,0], [33,11,33,28,40,27,8,38,38,6,25,30,0,21,24,13,17,18,14,0],
   [1,12,1,6,33,39,21,3,6,20,0,6,9,25,2,11,38,31,14,0], [12,12,12,26,25,8,35,11,16,33,18,24,17,29,23,8,16,2,15,0],
   [23,12,23,3,18,20,5,20,26,3,37,42,25,33,1,6,37,15,15,0], [34,12,34,23,10,32,18,28,36,16,12,18,34,37,22,3,15,29,15,0],
   [2,13,2,1,3,1,32,36,3,30,30,36,42,41,0,1,36,42,15,0], [13,13,13,21,38,12,2,2,14,0,6,12,8,3,22,41,13,13,16,0],
   [24,13,24,41,30,24,15,10,24,13,24,30,16,7,0,39,34,26,16,0], [35,13,35,18,23,36,28,18,34,26,42,5,25,11,21,36,12,40,16,0],
   [3,14,3,39,15,5,42,26,1,40,17,24,33,15,42,33,33,10,17,0], [14,14,14,16,8,17,12,35,11,10,36,42,41,19,20,31,11,24,17,0],
   [25,14,25,36,0,29,25,0,22,23,11,18,7,24,41,28,32,37,17,0], [36,14,36,13,36,40,38,8,32,36,29,36,15,28,19,26,10,8,18,0],
   [4,15,4,34,28,9,9,17,42,6,5,12,24,32,40,23,31,21,18,0], [15,15,15,11,21,21,22,25,9,20,23,30,32,36,18,21,9,35,18,0],
   [26,15,26,31,13,33,35,33,19,33,41,5,41,40,39,18,30,5,19,0], [37,15,37,8,6,2,6,42,29,3,17,24,6,2,18,16,8,19,19,0],
   [5,16,5,29,41,13,19,7,40,16,35,42,14,6,39,13,29,32,19,0], [16,16,16,6,34,25,32,15,7,30,10,18,23,10,17,11,7,3,20,0],
   [27,16,27,26,26,37,2,24,17,0,29,36,31,14,38,8,28,16,20,0], [38,16,38,3,19,6,16,32,27,13,4,12,40,18,16,6,6,30,20,0],
   [6,17,6,24,11,18,29,40,37,26,22,30,5,23,37,3,27,0,21,0], [17,17,17,1,4,30,42,5,5,40,40,5,14,27,15,1,5,14,21,0],
   [28,17,28,21,39,41,12,14,15,10,16,24,22,31,36,41,25,27,21,0], [39,17,39,41,31,10,26,22,25,23,34,42,30,35,14,39,3,41,21,0],
   [7,18,7,19,24,22,39,30,35,36,9,18,39,39,35,36,24,11,22,0], [18,18,18,39,16,34,9,39,2,7,28,36,4,1,14,34,2,25,22,0],
   [29,18,29,16,9,3,23,4,13,20,3,12,13,5,35,31,23,38,22,0], [40,18,40,36,1,15,36,12,23,33,21,30,21,9,13,29,1,9,23,0],
   [8,19,8,14,37,26,6,21,33,3,40,5,30,13,34,26,22,22,23,0], [19,19,19,34,29,38,19,29,0,17,15,24,38,17,12,24,0,36,23,0],
   [30,19,30,11,22,7,33,37,10,30,33,42,3,22,33,21,21,6,24,0], [41,19,41,31,14,19,3,3,21,0,9,18,12,26,11,19,42,19,24,0],
   [9,20,9,9,7,31,16,11,31,13,27,36,20,30,32,16,20,33,24,0], [20,20,20,29,42,42,29,19,41,26,2,12,29,34,10,14,41,3,25,0],
   [31,20,31,6,35,11,0,28,8,40,20,30,37,38,31,11,19,17,25,0], [42,20,42,26,27,23,13,36,18,10,39,5,3,0,10,9,40,30,25,0],
   [10,21,10,4,20,35,26,1,29,23,14,24,11,4,31,6,18,1,26,0], [21,21,21,24,12,4,40,9,39,36,32,42,19,8,9,4,39,14,26,0],
   [32,21,32,1,5,16,10,18,6,7,8,18,28,12,30,1,17,28,26,0], [0,22,0,22,40,27,23,26,16,20,26,36,36,16,8,42,37,41,26,0],
   [11,22,11,42,32,39,36,34,26,33,1,12,2,21,29,39,15,12,27,0], [22,22,22,19,25,8,7,0,37,3,20,30,10,25,7,37,36,25,27,0],
   [33,22,33,39,17,20,20,8,4,17,38,5,19,29,28,34,14,39,27,0], [1,23,1,17,10,32,33,16,14,30,13,24,27,33,6,32,35,9,28,0],
   [12,23,12,37,2,1,4,25,24,0,32,42,35,37,27,29,13,23,28,0], [23,23,23,14,38,12,17,33,34,13,7,18,1,42,5,27,34,36,28,0],
   [34,23,34,34,30,24,30,41,1,27,25,36,9,3,27,24,12,7,29,0], [2,24,2,12,23,36,0,7,12,40,0,12,18,7,5,22,33,20,29,0],
   [13,24,13,32,15,5,14,15,22,10,19,30,26,11,26,19,11,34,29,0], [24,24,24,9,8,17,27,23,32,23,37,5,35,15,4,17,32,4,30,0],
   [35,24,35,29,0,29,40,31,42,36,12,24,0,20,25,14,10,18,30,0], [3,25,3,7,36,40,10,40,9,7,31,42,8,24,3,12,31,31,30,0],
   [14,25,14,27,28,9,24,5,20,20,6,18,17,28,24,9,9,2,31,0], [25,25,25,4,21,21,37,13,30,33,24,36,25,32,2,7,30,15,31,0],
   [36,25,36,24,13,33,7,22,40,3,0,12,34,36,23,4,8,29,31,0], [4,26,4,2,6,2,21,30,7,17,18,30,42,40,1,2,29,42,31,0],
   [15,26,15,22,41,13,34,38,17,30,36,5,8,2,23,42,6,13,32,0], [26,26,26,42,33,25,4,4,28,0,12,24,16,6,1,40,27,26,32,0],
   [37,26,37,19,26,37,17,12,38,13,30,42,24,10,22,37,5,40,32,0], [5,27,5,40,18,6,31,20,5,27,5,18,33,14,0,35,26,10,33,0],
   [16,27,16,17,11,18,1,29,15,40,23,36,41,18,21,32,4,24,33,0], [27,27,27,37,3,30,14,37,25,10,42,11,7,23,42,29,25,37,33,0],
   [38,27,38,14,39,41,27,2,36,23,17,30,15,27,20,27,3,8,34,0], [6,28,6,35,31,10,41,10,3,37,35,5,24,31,41,24,24,21,34,0],
   [17,28,17,12,24,22,11,19,13,7,11,24,32,35,19,22,2,35,34,0], [28,28,28,32,16,34,24,27,23,20,29,42,40,39,40,19,23,5,35,0],
   [39,28,39,9,9,3,38,35,33,33,4,18,6,1,19,17,1,19,35,0], [7,29,7,30,1,15,8,1,1,4,23,36,14,5,40,14,22,32,35,0],
   [18,29,18,7,37,26,21,9,11,17,41,11,23,9,18,12,0,3,36,0], [29,29,29,27,29,38,34,17,21,30,16,30,31,13,39,9,21,16,36,0],
   [40,29,40,4,22,7,5,26,31,0,35,5,40,17,17,7,42,29,36,0], [8,30,8,25,14,19,18,34,41,13,10,24,5,22,38,4,20,0,37,0],
   [19,30,19,2,7,31,31,42,8,27,28,42,13,26,16,2,41,13,37,0], [30,30,30,22,42,42,1,8,19,40,3,18,22,30,37,42,18,27,37,0],
   [41,30,41,42,34,11,15,16,29,10,22,36,30,34,15,40,39,40,37,0], [9,31,9,20,27,23,28,24,39,23,40,11,39,38,36,37,17,11,38,0],
   [20,31,20,40,19,35,41,32,6,37,15,30,4,0,15,35,38,24,38,0], [31,31,31,17,12,4,12,41,16,7,34,5,13,4,36,32,16,38,38,0],
   [42,31,42,37,4,16,25,6,27,20,9,24,21,8,14,30,37,8,39,0], [10,32,10,15,40,27,38,14,37,33,27,42,29,12,35,27,15,22,39,0],
   [21,32,21,35,32,39,8,23,4,4,3,18,38,16,13,25,36,35,39,0], [32,32,32,12,25,8,22,31,14,17,21,36,3,21,34,22,14,6,40,0],
   [0,33,0,33,17,20,35,39,24,30,39,11,12,25,12,20,35,19,40,0], [11,33,11,10,10,32,5,5,35,0,15,30,20,29,33,17,13,33,40,0],
   [22,33,22,30,2,1,19,13,2,14,33,5,29,33,11,15,34,3,41,0], [33,33,33,7,38,12,32,21,12,27,8,24,37,37,32,12,12,17,41,0],
   [1,34,1,28,30,24,2,30,22,40,26,42,2,42,10,10,33,30,41,0], [12,34,12,5,23,36,15,38,32,10,2,18,11,3,32,7,11,1,42,0],
   [23,34,23,25,15,5,29,3,0,24,20,36,19,7,10,5,32,14,42,0], [34,34,34,2,8,17,42,11,10,37,38,11,28,11,31,2,10,28,42,0],
   [2,35,2,23,0,29,12,20,20,7,14,30,36,15,9,0,31,41,42,0], [13,35,13,0,36,40,25,28,30,20,32,5,2,20,30,40,8,12,0,1],
   [24,35,24,20,28,9,39,36,40,33,7,24,10,24,8,38,29,25,0,1], [35,35,35,40,20,21,9,2,8,4,26,42,18,28,29,35,7,39,0,1],
   [3,36,3,18,13,33,22,10,18,17,1,18,27,32,7,33,28,9,1,1], [14,36,14,38,5,2,36,18,28,30,19,36,35,36,28,30,6,23,1,1],
   [25,36,25,15,41,13,6,27,38,0,38,11,1,41,6,28,27,36,1,1], [36,36,36,35,33,25,19,35,5,14,13,30,9,2,28,25,5,7,2,1],
   [4,37,4,13,26,37,32,0,16,27,31,5,18,6,6,23,26,20,2,1], [15,37,15,33,18,6,3,9,26,40,6,24,26,10,27,20,4,34,2,1],
   [26,37,26,10,11,18,16,17,36,10,25,42,34,14,5,18,25,4,3,1], [37,37,37,30,3,30,29,25,3,24,0,18,0,19,26,15,3,18,3,1],
   [5,38,5,8,39,41,42,33,13,37,18,36,8,23,4,13,24,31,3,1], [16,38,16,28,31,10,13,42,23,7,37,11,17,27,25,10,2,2,4,1],
   [27,38,27,5,24,22,26,7,34,20,12,30,25,31,3,8,23,15,4,1], [38,38,38,25,16,34,39,15,1,34,30,5,34,35,24,5,1,29,4,1],
   [6,39,6,3,9,3,10,24,11,4,6,24,42,39,2,3,22,42,4,1], [17,39,17,23,1,15,23,32,21,17,24,42,7,1,24,0,0,13,5,1],
   [28,39,28,0,37,26,36,40,31,30,42,17,16,5,2,41,20,26,5,1], [39,39,39,20,29,38,6,6,42,0,18,36,24,9,23,38,41,39,5,1],
   [7,40,7,41,21,7,20,14,9,14,36,11,33,13,1,36,19,10,6,1], [18,40,18,18,14,19,33,22,19,27,11,30,41,17,22,33,40,23,6,1],
   [29,40,29,38,6,31,3,31,29,40,29,5,7,22,0,31,18,37,6,1], [40,40,40,15,42,42,16,39,39,10,5,24,15,26,21,28,39,7,7,1],
   [8,41,8,36,34,11,30,4,7,24,23,42,23,30,42,25,17,21,7,1], [19,41,19,13,27,23,0,13,17,37,41,17,32,34,20,23,38,34,7,1],
   [30,41,30,33,19,35,13,21,27,7,17,36,40,38,41,20,16,5,8,1], [41,41,41,10,12,4,27,29,37,20,35,11,6,0,20,18,37,18,8,1],
   [9,42,9,31,4,16,40,37,4,34,10,30,14,4,41,15,15,32,8,1], [20,42,20,8,40,27,10,3,15,4,29,5,23,8,19,13,36,2,9,1],
   [31,42,31,28,32,39,23,11,25,17,4,24,31,12,40,10,14,16,9,1], [42,42,42,5,25,8,37,19,35,30,22,42,39,16,18,8,35,29,9,1],
   [10,0,11,26,17,20,7,28,2,1,41,17,5,21,39,5,13,0,10,1], [21,0,22,3,10,32,20,36,12,14,16,36,13,25,17,3,34,13,10,1],
   [32,0,33,23,2,1,34,1,23,27,34,11,22,29,38,0,12,27,10,1], [0,1,1,1,38,12,4,10,33,40,9,30,30,33,16,41,32,40,10,1],
   [11,1,12,21,30,24,17,18,0,11,28,5,39,37,37,38,10,11,11,1], [22,1,23,41,22,36,30,26,10,24,3,24,4,42,15,36,31,24,11,1],
   [33,1,34,18,15,5,1,35,20,37,21,42,12,3,37,33,9,38,11,1], [1,2,2,39,7,17,14,0,31,7,40,17,21,7,15,31,30,8,12,1],
   [12,2,13,16,0,29,27,8,41,20,15,36,29,11,36,28,8,22,12,1], [23,2,24,36,35,40,40,16,8,34,33,11,38,15,14,26,29,35,12,1],
   [34,2,35,13,28,9,11,25,18,4,9,30,3,20,35,23,7,6,13,1], [2,3,3,34,20,21,24,33,28,17,27,5,12,24,13,21,28,19,13,1],
   [13,3,14,11,13,33,37,41,38,30,2,24,20,28,34,18,6,33,13,1], [24,3,25,31,5,2,8,7,6,1,21,42,28,32,12,16,27,3,14,1],
   [35,3,36,8,41,13,21,15,16,14,39,17,37,36,33,13,5,17,14,1], [3,4,4,29,33,25,34,23,26,27,14,36,2,41,11,11,26,30,14,1],
   [14,4,15,6,26,37,4,32,36,40,32,11,11,2,33,8,4,1,15,1], [25,4,26,26,18,6,18,40,3,11,8,30,19,6,11,6,25,14,15,1],
   [36,4,37,3,11,18,31,5,14,24,26,5,28,10,32,3,3,28,15,1], [4,5,5,24,3,30,1,14,24,37,1,24,36,14,10,1,24,41,15,1],
   [15,5,16,1,39,41,14,22,34,7,20,42,1,19,31,41,1,12,16,1], [26,5,27,21,31,10,28,30,1,21,38,17,10,23,9,39,22,25,16,1],
   [37,5,38,41,23,22,41,38,11,34,13,36,18,27,30,36,0,39,16,1], [5,6,6,19,16,34,11,4,22,4,32,11,27,31,8,34,21,9,17,1],
   [16,6,17,39,8,3,25,12,32,17,7,30,35,35,29,31,42,22,17,1], [27,6,28,16,1,15,38,20,42,30,25,5,1,40,7,29,20,36,17,1],
   [38,6,39,36,36,26,8,29,9,1,1,24,9,1,29,26,41,6,18,1], [6,7,7,14,29,38,21,37,19,14,19,42,17,5,7,24,19,20,18,1],
   [17,7,18,34,21,7,35,2,30,27,37,17,26,9,28,21,40,33,18,1], [28,7,29,11,14,19,5,11,40,40,12,36,34,13,6,19,18,4,19,1],
   [39,7,40,31,6,31,18,19,7,11,31,11,0,18,27,16,39,17,19,1], [7,8,8,9,42,42,31,27,17,24,6,30,8,22,5,14,17,31,19,1],
   [18,8,19,29,34,11,2,36,27,37,24,5,17,26,26,11,38,1,20,1], [29,8,30,6,27,23,15,1,38,7,0,24,25,30,4,9,16,15,20,1],
   [40,8,41,26,19,35,28,9,5,21,18,42,33,34,25,6,37,28,20,1], [8,9,9,4,12,4,42,17,15,34,36,17,42,38,3,4,15,42,20,1],
   [19,9,20,24,4,16,12,26,25,4,12,36,7,0,25,1,36,12,21,1], [30,9,31,1,40,27,25,34,35,17,30,11,16,4,3,42,13,26,21,1],
   [41,9,42,21,32,39,38,42,2,31,5,30,24,8,24,39,34,39,21,1], [9,10,10,42,24,8,9,8,13,1,24,5,33,12,2,37,12,10,22,1],
   [20,10,21,19,17,20,22,16,23,14,42,23,41,16,23,34,33,23,22,1], [31,10,32,39,9,32,35,24,33,27,17,42,6,21,1,32,11,37,22,1],
   [42,10,0,17,2,1,6,33,0,41,35,17,15,25,22,29,32,7,23,1], [10,11,11,37,37,12,19,41,10,11,11,36,23,29,0,27,10,21,23,1],
   [21,11,22,14,30,24,32,6,21,24,29,11,32,33,21,24,31,34,23,1], [32,11,33,34,22,36,2,15,31,37,4,30,40,37,42,21,9,5,24,1],
   [0,12,1,12,15,5,16,23,41,7,23,5,6,42,20,19,30,18,24,1], [11,12,12,32,7,17,29,31,8,21,41,23,14,3,42,16,8,32,24,1],
   [22,12,23,9,0,29,42,39,18,34,16,42,22,7,20,14,29,2,25,1], [33,12,34,29,35,40,12,5,29,4,35,17,31,11,41,11,7,16,25,1],
   [1,13,2,7,28,9,26,13,39,17,10,36,39,15,19,9,28,29,25,1], [12,13,13,27,20,21,39,21,6,31,28,11,5,20,40,6,6,0,26,1],
   [23,13,24,4,13,33,9,30,16,1,4,30,13,24,18,4,27,13,26,1], [34,13,35,24,5,2,23,38,26,14,22,5,22,28,39,1,5,27,26,1],
   [2,14,3,2,41,13,36,3,37,27,40,23,30,32,17,42,25,40,26,1], [13,14,14,22,33,25,6,12,4,41,15,42,38,36,38,39,3,11,27,1],
   [24,14,25,42,25,37,19,20,14,11,34,17,4,41,16,37,24,24,27,1], [35,14,36,19,18,6,33,28,24,24,9,36,12,2,38,34,2,38,27,1],
   [3,15,4,40,10,18,3,37,34,37,27,11,21,6,16,32,23,8,28,1], [14,15,15,17,3,30,16,2,2,8,3,30,29,10,37,29,1,22,28,1],
   [25,15,26,37,38,41,29,10,12,21,21,5,38,14,15,27,22,35,28,1], [36,15,37,14,31,10,0,19,22,34,39,23,3,19,36,24,0,6,29,1],
   [4,16,5,35,23,22,13,27,32,4,15,42,11,23,14,22,21,19,29,1], [15,16,16,12,16,34,26,35,42,17,33,17,20,27,35,19,42,32,29,1],
   [26,16,27,32,8,3,40,0,10,31,8,36,28,31,13,17,20,3,30,1], [37,16,38,9,1,15,10,9,20,1,27,11,37,35,34,14,41,16,30,1],
   [5,17,6,30,36,26,23,17,30,14,2,30,2,40,12,12,19,30,30,1], [16,17,17,7,29,38,36,25,40,27,20,5,11,1,34,9,40,0,31,1],
   [27,17,28,27,21,7,7,34,7,41,38,23,19,5,12,7,18,14,31,1], [38,17,39,4,14,19,20,42,17,11,14,42,27,9,33,4,39,27,31,1],
   [6,18,7,25,6,31,33,7,28,24,32,17,36,13,11,2,17,41,31,1], [17,18,18,2,42,42,3,16,38,37,7,36,1,18,32,42,37,11,32,1],
   [28,18,29,22,34,11,17,24,5,8,26,11,10,22,10,40,15,25,32,1], [39,18,40,42,26,23,30,32,15,21,1,30,18,26,31,37,36,38,32,1],
   [7,19,8,20,19,35,0,41,25,34,19,5,27,30,9,35,14,9,33,1], [18,19,19,40,11,4,14,6,36,4,38,23,35,34,30,32,35,22,33,1],
   [29,19,30,17,4,16,27,14,3,18,13,42,0,39,8,30,13,36,33,1], [40,19,41,37,39,27,40,22,13,31,31,17,9,0,30,27,34,6,34,1],
   [8,20,9,15,32,39,10,31,23,1,7,36,17,4,8,25,12,20,34,1], [19,20,20,35,24,8,24,39,33,14,25,11,26,8,29,22,33,33,34,1],
   [30,20,31,12,17,20,37,4,1,28,0,30,34,12,7,20,11,4,35,1], [41,20,42,32,9,32,7,13,11,41,18,5,0,17,28,17,32,17,35,1],
   [9,21,10,10,2,1,21,21,21,11,37,23,8,21,6,15,10,31,35,1], [20,21,21,30,37,12,34,29,31,24,12,42,16,25,27,12,31,1,36,1],
   [31,21,32,7,30,24,4,38,41,37,30,17,25,29,5,10,9,15,36,1], [42,21,0,28,22,36,17,3,9,8,6,36,33,33,26,7,30,28,36,1],
   [10,22,11,5,15,5,31,11,19,21,24,11,42,37,4,5,8,42,36,1]]"

definition BASE43_POS13 :: "nat list list" where
  "BASE43_POS13 = [
   [0,0,0,0,0,0,0,0,0,0,0,0,0,0,0,0,0,0,0,0,0], [21,22,22,25,7,17,1,20,29,34,42,29,7,42,25,2,29,12,37,1,0],
   [42,1,2,8,15,34,2,40,15,26,42,16,15,41,8,5,15,25,31,3,0], [20,24,24,33,22,8,4,17,2,18,42,3,23,40,34,7,1,38,25,5,0],
   [41,3,4,16,30,25,5,37,31,9,42,33,30,39,17,10,30,7,20,7,0], [19,26,26,41,37,42,6,14,18,1,42,20,38,38,0,13,16,20,14,9,0],
   [40,5,6,24,2,17,8,34,4,36,41,7,3,38,26,15,2,33,8,11,0], [18,28,28,6,10,34,9,11,34,27,41,37,10,37,9,18,31,2,3,13,0],
   [39,7,8,32,17,8,11,31,20,19,41,24,18,36,35,20,17,15,40,14,0], [17,30,30,14,25,25,12,8,7,11,41,11,26,35,18,23,3,28,34,16,0],
   [38,9,10,40,32,42,13,28,36,2,41,41,33,34,1,26,32,40,28,18,0], [16,32,32,22,40,16,15,5,23,37,40,28,41,33,27,28,18,10,23,20,0],
   [37,11,12,5,5,34,16,25,9,29,40,15,6,33,10,31,4,23,17,22,0], [15,34,34,30,12,8,18,2,39,20,40,2,14,32,36,33,33,35,11,24,0],
   [36,13,14,13,20,25,19,22,25,12,40,32,21,31,19,36,19,5,6,26,0], [14,36,36,38,27,42,20,42,11,4,40,19,29,30,2,39,5,18,0,28,0],
   [35,15,16,21,35,16,22,19,41,38,39,6,37,29,28,41,34,30,37,29,0], [13,38,38,3,0,34,23,39,27,30,39,36,1,29,11,1,21,0,32,31,0],
   [34,17,18,29,7,8,25,16,14,22,39,23,9,28,37,3,7,13,26,33,0], [12,40,40,11,15,25,26,36,0,14,39,10,17,27,20,6,36,25,20,35,0],
   [33,19,20,37,22,42,27,13,30,5,39,40,24,26,3,9,22,38,14,37,0], [11,42,42,19,30,16,29,33,16,40,38,27,32,25,29,11,8,8,9,39,0],
   [32,21,22,2,38,33,30,10,3,32,38,14,40,24,12,14,37,20,3,41,0], [10,1,2,28,2,8,32,30,32,23,38,1,5,24,38,16,23,33,40,42,0],
   [31,23,24,10,10,25,33,7,19,15,38,31,12,23,21,19,9,3,35,1,1], [9,3,4,36,17,42,34,27,5,7,38,18,20,22,4,22,38,15,29,3,1],
   [30,25,26,18,25,16,36,4,35,41,37,5,28,21,30,24,24,28,23,5,1], [8,5,6,1,33,33,37,24,21,33,37,35,35,20,13,27,10,41,17,7,1],
   [29,27,28,26,40,7,39,1,8,25,37,22,0,20,39,29,39,10,12,9,1], [7,7,8,9,5,25,40,21,37,16,37,9,8,19,22,32,25,23,6,11,1],
   [28,29,30,34,12,42,41,41,23,8,37,39,15,18,5,35,11,36,0,13,1], [6,9,10,17,20,16,0,19,10,0,37,26,23,17,31,37,40,5,38,14,1],
   [27,31,32,42,27,33,1,39,39,34,36,13,31,16,14,40,26,18,32,16,1], [5,11,12,25,35,7,3,16,26,26,36,0,39,15,40,42,12,31,26,18,1],
   [26,33,34,7,0,25,4,36,12,18,36,30,3,15,23,2,42,0,21,20,1], [4,13,14,33,7,42,5,13,42,9,36,17,11,14,6,5,28,13,15,22,1],
   [25,35,36,15,15,16,7,33,28,1,36,4,19,13,32,7,14,26,9,24,1], [3,15,16,41,22,33,8,10,15,36,35,34,26,12,15,10,0,39,3,26,1],
   [24,37,38,23,30,7,10,30,1,28,35,21,34,11,41,12,29,8,41,27,1], [2,17,18,6,38,24,11,7,31,19,35,8,42,10,24,15,15,21,35,29,1],
   [23,39,40,31,2,42,12,27,17,11,35,38,6,10,7,18,1,34,29,31,1], [1,19,20,14,10,16,14,4,4,3,35,25,14,9,33,20,30,3,24,33,1],
   [22,41,42,39,17,33,15,24,33,37,34,12,22,8,16,23,16,16,18,35,1], [0,21,22,22,25,7,17,1,20,29,34,42,29,7,42,25,2,29,12,37,1],
   [21,0,2,5,33,24,18,21,6,21,34,29,37,6,25,28,31,41,6,39,1], [42,22,24,30,40,41,19,41,35,12,34,16,2,6,8,31,17,11,1,41,1],
   [20,2,4,13,5,16,21,18,22,4,34,3,10,5,34,33,3,24,38,42,1], [41,24,26,38,12,33,22,38,8,39,33,33,17,4,17,36,32,36,32,1,2],
   [19,4,6,21,20,7,24,15,38,30,33,20,25,3,0,39,18,6,27,3,2], [40,26,28,3,28,24,25,35,24,22,33,7,33,2,26,41,4,19,21,5,2],
   [18,6,8,29,35,41,26,12,11,14,33,37,40,1,9,1,34,31,15,7,2], [39,28,30,11,0,16,28,32,40,5,33,24,5,1,35,3,20,1,10,9,2],
   [17,8,10,37,7,33,29,9,27,40,32,11,13,0,18,6,6,14,4,11,2], [38,30,32,19,15,7,31,29,13,32,32,41,20,42,0,9,35,26,41,12,2],
   [16,10,12,2,23,24,32,6,0,24,32,28,28,41,26,11,21,39,35,14,2], [37,32,34,27,30,41,33,26,29,15,32,15,36,40,9,14,7,9,30,16,2],
   [15,12,14,10,38,15,35,3,16,7,32,2,1,40,35,16,36,21,24,18,2], [36,34,36,35,2,33,36,23,2,42,31,32,8,39,18,19,22,34,18,20,2],
   [14,14,16,18,10,7,38,0,32,33,31,19,16,38,1,22,8,4,13,22,2], [35,36,38,0,18,24,39,20,18,25,31,6,24,37,27,24,37,16,7,24,2],
   [13,16,18,26,25,41,40,40,4,17,31,36,31,36,10,27,23,29,1,26,2], [34,38,40,8,33,15,42,17,34,8,31,23,39,35,36,29,9,42,38,27,2],
   [12,18,20,34,40,32,0,38,20,0,31,10,4,35,19,32,38,11,33,29,2], [33,40,42,16,5,7,2,15,7,35,30,40,11,34,2,35,24,24,27,31,2],
   [11,20,22,42,12,24,3,35,36,26,30,27,19,33,28,37,10,37,21,33,2], [32,42,1,25,20,41,4,12,23,18,30,14,27,32,11,40,39,6,16,35,2],
   [10,22,24,7,28,15,6,32,9,10,30,1,35,31,37,42,25,19,10,37,2], [31,1,4,33,35,32,7,9,39,1,30,31,42,30,20,2,12,32,4,39,2],
   [9,24,26,15,0,7,9,29,25,36,29,18,7,30,3,5,41,1,42,40,2], [30,3,6,41,7,24,10,6,12,28,29,5,15,29,29,7,27,14,36,42,2],
   [8,26,28,23,15,41,11,26,41,19,29,35,22,28,12,10,13,27,30,1,3], [29,5,8,6,23,15,13,3,28,11,29,22,30,27,38,12,42,39,24,3,3],
   [7,28,30,31,30,32,14,23,14,3,29,9,38,26,21,15,28,9,19,5,3], [28,7,10,14,38,6,16,0,1,38,28,39,2,26,4,18,14,22,13,7,3],
   [6,30,32,39,2,24,17,20,30,29,28,26,10,25,30,20,0,35,7,9,3], [27,9,12,22,10,41,18,40,16,21,28,13,18,24,13,23,29,4,2,11,3],
   [5,32,34,4,18,15,20,17,3,13,28,0,26,23,39,25,15,17,39,12,3], [26,11,14,30,25,32,21,37,32,4,28,30,33,22,22,28,1,30,33,14,3],
   [4,34,36,12,33,6,23,14,19,39,27,17,41,21,5,31,30,42,27,16,3], [25,13,16,38,40,23,24,34,5,31,27,4,6,21,31,33,16,12,22,18,3],
   [3,36,38,20,5,41,25,11,35,22,27,34,13,20,14,36,2,25,16,20,3], [24,15,18,3,13,15,27,31,21,14,27,21,21,19,40,38,31,37,10,22,3],
   [2,38,40,28,20,32,28,8,8,6,27,8,29,18,23,41,17,7,5,24,3], [23,17,20,11,28,6,30,28,37,40,26,38,36,17,6,1,4,20,42,25,3],
   [1,40,42,36,35,23,31,5,24,32,26,25,1,17,32,3,33,32,36,27,3], [22,19,22,19,0,41,32,25,10,24,26,12,9,16,15,6,19,2,31,29,3],
   [0,42,1,2,8,15,34,2,40,15,26,42,16,15,41,8,5,15,25,31,3], [21,21,24,27,15,32,35,22,26,7,26,29,24,14,24,11,34,27,19,33,3],
   [42,0,4,10,23,6,37,42,12,42,25,16,32,13,7,14,20,40,13,35,3], [20,23,26,35,30,23,38,19,42,33,25,3,40,12,33,16,6,10,8,37,3],
   [41,2,6,18,38,40,39,39,28,25,25,33,4,12,16,19,35,22,2,39,3], [19,25,28,0,3,15,41,16,15,17,25,20,12,11,42,21,21,35,39,40,3],
   [40,4,8,26,10,32,42,36,1,9,25,7,20,10,25,24,7,5,34,42,3], [18,27,30,8,18,6,1,14,31,0,25,37,27,9,8,27,36,17,28,1,4],
   [39,6,10,34,25,23,2,34,17,35,24,24,35,8,34,29,22,30,22,3,4], [17,29,32,16,33,40,3,11,4,27,24,11,0,8,17,32,8,0,17,5,4],
   [38,8,12,42,40,14,5,31,33,18,24,41,7,7,0,35,37,12,11,7,4], [16,31,34,24,5,32,6,8,20,10,24,28,15,6,26,37,23,25,5,9,4],
   [37,10,14,7,13,6,8,28,6,2,24,15,23,5,9,40,9,38,42,10,4], [15,33,36,32,20,23,9,5,36,36,23,2,31,4,35,42,38,7,37,12,4],
   [36,12,16,15,28,40,10,25,22,28,23,32,38,3,18,2,25,20,31,14,4], [14,35,38,40,35,14,12,2,9,20,23,19,3,3,1,5,11,33,25,16,4],
   [35,14,18,23,0,32,13,22,38,11,23,6,11,2,27,7,40,2,20,18,4], [13,37,40,5,8,6,15,42,24,3,23,36,18,1,10,10,26,15,14,20,4],
   [34,16,20,31,15,23,16,19,11,38,22,23,26,0,36,12,12,28,8,22,4], [12,39,42,13,23,40,17,39,40,29,22,10,34,42,18,15,41,40,2,24,4],
   [33,18,22,39,30,14,19,16,27,21,22,40,41,41,1,18,27,10,40,25,4], [11,41,1,22,38,31,20,36,13,13,22,27,6,41,27,20,13,23,34,27,4],
   [32,20,24,4,3,6,22,13,0,5,22,14,14,40,10,23,42,35,28,29,4], [10,0,4,30,10,23,23,33,29,39,21,1,22,39,36,25,28,5,23,31,4],
   [31,22,26,12,18,40,24,10,16,31,21,31,29,38,19,28,14,18,17,33,4], [9,2,6,38,25,14,26,30,2,23,21,18,37,37,2,31,0,31,11,35,4],
   [30,24,28,20,33,31,27,7,32,14,21,5,2,37,28,33,29,0,6,37,4], [8,4,8,3,41,5,29,27,18,6,21,35,9,36,11,36,15,13,0,39,4],
   [29,26,30,28,5,23,30,4,5,41,20,22,17,35,37,38,1,26,37,40,4], [7,6,10,11,13,40,31,24,34,32,20,9,25,34,20,41,30,38,31,42,4],
   [28,28,32,36,20,14,33,1,21,24,20,39,32,33,3,1,17,8,26,1,5], [6,8,12,19,28,31,34,21,7,16,20,26,40,32,29,3,3,21,20,3,5],
   [27,30,34,1,36,5,36,41,36,7,20,13,5,32,12,6,32,33,14,5,5], [5,10,14,27,0,23,37,18,23,42,19,0,13,31,38,8,18,3,9,7,5],
   [26,32,36,9,8,40,38,38,9,34,19,30,20,30,21,11,4,16,3,9,5], [4,12,16,35,15,14,40,15,39,25,19,17,28,29,4,14,33,28,40,10,5],
   [25,34,38,17,23,31,41,35,25,17,19,4,36,28,30,16,19,41,34,12,5], [3,14,18,0,31,5,0,13,12,9,19,34,0,28,13,19,5,11,29,14,5],
   [24,36,40,25,38,22,1,33,41,0,19,21,8,27,39,21,34,23,23,16,5], [2,16,20,8,3,40,2,10,28,35,18,8,16,26,22,24,20,36,17,18,5],
   [23,38,42,33,10,14,4,30,14,27,18,38,23,25,5,27,6,6,12,20,5], [1,18,22,16,18,31,5,7,1,19,18,25,31,24,31,29,35,18,6,22,5],
   [22,40,1,42,25,5,7,27,30,10,18,12,39,23,14,32,21,31,0,24,5], [0,20,24,24,33,22,8,4,17,2,18,42,3,23,40,34,7,1,38,25,5],
   [21,42,3,7,41,39,9,24,3,37,17,29,11,22,23,37,36,13,32,27,5], [42,21,26,32,5,14,11,1,33,28,17,16,19,21,6,40,22,26,26,29,5],
   [20,1,6,15,13,31,12,21,19,20,17,3,27,20,32,42,8,39,20,31,5], [41,23,28,40,20,5,14,41,5,12,17,33,34,19,15,2,38,8,15,33,5],
   [19,3,8,23,28,22,15,18,35,3,17,20,42,18,41,4,24,21,9,35,5], [40,25,30,5,36,39,16,38,21,38,16,7,7,18,24,7,10,34,3,37,5],
   [18,5,10,31,0,14,18,15,8,30,16,37,14,17,7,10,39,3,41,38,5], [39,27,32,13,8,31,19,35,37,21,16,24,22,16,33,12,25,16,35,40,5],
   [17,7,12,39,15,5,21,12,24,13,16,11,30,15,16,15,11,29,29,42,5], [38,29,34,21,23,22,22,32,10,5,16,41,37,14,42,17,40,41,23,1,6],
   [16,9,14,4,31,39,23,9,40,39,15,28,2,14,25,20,26,11,18,3,6], [37,31,36,29,38,13,25,29,26,31,15,15,10,13,8,23,12,24,12,5,6],
   [15,11,16,12,3,31,26,6,13,23,15,2,18,12,34,25,41,36,6,7,6], [36,33,38,37,10,5,28,26,42,14,15,32,25,11,17,28,27,6,1,9,6],
   [14,13,18,20,18,22,29,3,29,6,15,19,33,10,0,31,13,19,38,10,6], [35,35,40,2,26,39,30,23,15,41,14,6,41,9,26,33,42,31,32,12,6],
   [13,15,20,28,33,13,32,0,2,33,14,36,5,9,9,36,28,1,27,14,6], [34,37,42,10,41,30,33,20,31,24,14,23,13,8,35,38,14,14,21,16,6],
   [12,17,22,36,5,5,35,40,17,16,14,10,21,7,18,41,0,27,15,18,6], [33,39,1,19,13,22,36,17,4,8,14,40,28,6,1,1,30,39,9,20,6],
   [11,19,24,1,21,39,37,37,33,42,13,27,36,5,27,3,16,9,4,22,6], [32,41,3,27,28,13,39,14,20,34,13,14,1,5,10,6,2,22,41,23,6],
   [10,21,26,9,36,30,40,34,6,26,13,1,9,4,36,8,31,34,35,25,6], [31,0,6,35,0,5,42,11,36,17,13,31,16,3,19,11,17,4,30,27,6],
   [9,23,28,17,8,22,0,32,22,9,13,18,24,2,2,14,3,17,24,29,6], [30,2,8,0,16,39,1,9,9,1,13,5,32,1,28,16,32,29,18,31,6],
   [8,25,30,25,23,13,3,29,38,35,12,35,39,0,11,19,18,42,12,33,6], [29,4,10,8,31,30,4,6,25,27,12,22,4,0,37,21,4,12,7,35,6],
   [7,27,32,33,38,4,6,26,11,19,12,9,12,42,19,24,33,24,1,37,6], [28,6,12,16,3,22,7,3,41,10,12,39,19,41,2,27,19,37,38,38,6],
   [6,29,34,41,10,39,8,23,27,2,12,26,27,40,28,29,5,7,33,40,6], [27,8,14,24,18,13,10,0,14,37,11,13,35,39,11,32,34,19,27,42,6],
   [5,31,36,6,26,30,11,20,0,29,11,0,0,39,37,34,20,32,21,1,7], [26,10,16,32,33,4,13,40,29,20,11,30,7,38,20,37,6,2,16,3,7],
   [4,33,38,14,41,21,14,17,16,12,11,17,15,37,3,40,35,14,10,5,7], [25,12,18,40,5,39,15,37,2,4,11,4,23,36,29,42,21,27,4,7,7],
   [3,35,40,22,13,13,17,14,32,38,10,34,30,35,12,2,8,40,41,8,7], [24,14,20,5,21,30,18,34,18,30,10,21,38,34,38,4,37,9,36,10,7],
   [2,37,42,30,28,4,20,11,5,22,10,8,3,34,21,7,23,22,30,12,7], [23,16,22,13,36,21,21,31,34,13,10,38,10,33,4,10,9,35,24,14,7],
   [1,39,1,39,0,39,22,8,21,5,10,25,18,32,30,12,38,4,19,16,7], [22,18,24,21,8,13,24,28,7,40,9,12,26,31,13,15,24,17,13,18,7],
   [0,41,3,4,16,30,25,5,37,31,9,42,33,30,39,17,10,30,7,20,7], [21,20,26,29,23,4,27,25,23,23,9,29,41,29,22,20,39,42,1,22,7],
   [42,42,5,12,31,21,28,2,10,15,9,16,6,29,5,23,25,12,39,23,7], [20,22,28,37,38,38,29,22,39,6,9,3,14,28,31,25,11,25,33,25,7],
   [41,1,8,20,3,13,31,42,25,41,8,33,21,27,14,28,40,37,27,27,7], [19,24,30,2,11,30,32,19,12,33,8,20,29,26,40,30,26,7,22,29,7],
   [40,3,10,28,18,4,34,39,41,24,8,7,37,25,23,33,12,20,16,31,7], [18,26,32,10,26,21,35,16,28,16,8,37,1,25,6,36,41,32,10,33,7],
   [39,5,12,36,33,38,36,36,14,8,8,24,9,24,32,38,27,2,5,35,7], [17,28,34,18,41,12,38,13,1,0,8,11,17,23,15,41,13,15,42,36,7],
   [38,7,14,1,6,30,39,33,30,34,7,41,24,22,41,0,0,28,36,38,7], [16,30,36,26,13,4,41,10,17,26,7,28,32,21,24,3,29,40,30,40,7],
   [37,9,16,9,21,21,42,30,3,18,7,15,40,20,7,6,15,10,25,42,7], [15,32,38,34,28,38,0,8,33,9,7,2,5,20,33,8,1,23,19,1,8],
   [36,11,18,17,36,12,2,28,19,1,7,32,12,19,16,11,30,35,13,3,8], [14,34,40,42,0,30,3,5,6,36,6,19,20,18,42,13,16,5,8,5,8],
   [35,13,20,25,8,4,5,25,35,27,6,6,28,17,25,16,2,18,2,7,8], [13,36,42,7,16,21,6,2,22,19,6,36,35,16,8,19,31,30,39,8,8],
   [34,15,22,33,23,38,7,22,8,11,6,23,0,16,34,21,17,0,34,10,8], [12,38,1,16,31,12,9,42,37,2,6,10,8,15,17,24,3,13,28,12,8],
   [33,17,24,41,38,29,10,19,24,37,5,40,15,14,0,27,32,25,22,14,8], [11,40,3,24,3,4,12,39,10,29,5,27,23,13,26,29,18,38,16,16,8],
   [32,19,26,6,11,21,13,16,40,20,5,14,31,12,9,32,4,8,11,18,8], [10,42,5,32,18,38,14,36,26,12,5,1,39,11,35,34,33,20,5,20,8],
   [31,21,28,14,26,12,16,13,13,4,5,31,3,11,18,37,19,33,42,21,8], [9,1,8,40,33,29,17,33,42,38,4,18,11,10,1,40,5,3,37,23,8],
   [30,23,30,22,41,3,19,10,29,30,4,5,19,9,27,42,34,15,31,25,8], [8,3,10,5,6,21,20,30,15,22,4,35,26,8,10,2,21,28,25,27,8],
   [29,25,32,30,13,38,21,7,2,14,4,22,34,7,36,4,7,41,19,29,8], [7,5,12,13,21,12,23,27,31,5,4,9,42,6,19,7,36,10,14,31,8],
   [28,27,34,38,28,29,24,4,18,40,3,39,6,6,2,10,22,23,8,33,8], [6,7,14,21,36,3,26,24,4,32,3,26,14,5,28,12,8,36,2,35,8],
   [27,29,36,3,1,21,27,1,34,23,3,13,22,4,11,15,37,5,40,36,8], [5,9,16,29,8,38,28,21,20,15,3,0,30,3,37,17,23,18,34,38,8],
   [26,31,38,11,16,12,30,41,6,7,3,30,37,2,20,20,9,31,28,40,8], [4,11,18,37,23,29,31,18,36,41,2,17,2,2,3,23,38,0,23,42,8],
   [25,33,40,19,31,3,33,38,22,33,2,4,10,1,29,25,24,13,17,1,9], [3,13,20,2,39,20,34,15,9,25,2,34,17,0,12,28,10,26,11,3,9],
   [24,35,42,27,3,38,35,35,38,16,2,21,25,42,37,30,39,38,5,5,9], [2,15,22,10,11,12,37,12,25,8,2,8,33,41,20,33,25,8,0,7,9],
   [23,37,1,36,18,29,38,32,11,0,2,38,40,40,3,36,11,21,37,8,9], [1,17,24,18,26,3,40,9,41,34,1,25,5,40,29,38,40,33,31,10,9],
   [22,39,3,1,34,20,41,29,27,26,1,12,13,39,12,41,26,3,26,12,9], [0,19,26,26,41,37,42,6,14,18,1,42,20,38,38,0,13,16,20,14,9],
   [21,41,5,9,6,12,1,27,0,10,1,29,28,37,21,3,42,28,14,16,9], [42,20,28,34,13,29,2,4,30,1,1,16,36,36,4,6,28,41,8,18,9],
   [20,0,8,17,21,3,4,24,16,36,0,3,1,36,30,8,14,11,3,20,9], [41,22,30,42,28,20,5,1,3,28,0,33,8,35,13,11,0,24,40,21,9],
   [19,2,10,25,36,37,6,21,32,19,0,20,16,34,39,13,29,36,34,23,9], [40,24,32,7,1,12,8,41,18,11,0,7,24,33,22,16,15,6,29,25,9],
   [18,4,12,33,8,29,9,18,5,3,0,37,31,32,5,19,1,19,23,27,9], [39,26,34,15,16,3,11,38,34,37,42,23,39,31,31,21,30,31,17,29,9],
   [17,6,14,41,23,20,12,15,21,29,42,10,4,31,14,24,16,1,12,31,9], [38,28,36,23,31,37,13,35,7,21,42,40,11,30,40,26,2,14,6,33,9],
   [16,8,16,6,39,11,15,12,37,12,42,27,19,29,23,29,31,26,0,35,9], [37,30,38,31,3,29,16,32,23,4,42,14,27,28,6,32,17,39,37,36,9],
   [15,10,18,14,11,3,18,9,10,39,41,1,35,27,32,34,3,9,32,38,9], [36,32,40,39,18,20,19,29,39,30,41,31,42,26,15,37,32,21,26,40,9],
   [14,12,20,22,26,37,20,6,26,22,41,18,7,26,41,39,18,34,20,42,9], [35,34,42,4,34,11,22,26,12,14,41,5,15,25,24,42,4,4,15,1,10],
   [13,14,22,30,41,28,23,3,42,5,41,35,22,24,7,2,34,16,9,3,10], [34,36,1,13,6,3,25,23,28,40,40,22,30,23,33,4,20,29,3,5,10],
   [12,16,24,38,13,20,26,0,15,32,40,9,38,22,16,7,6,42,40,6,10], [33,38,3,21,21,37,27,20,1,24,40,39,2,22,42,9,35,11,35,8,10],
   [11,18,26,3,29,11,29,40,30,15,40,26,10,21,25,12,21,24,29,10,10], [32,40,5,29,36,28,30,17,17,7,40,13,18,20,8,15,7,37,23,12,10],
   [10,20,28,11,1,3,32,37,3,42,39,0,26,19,34,17,36,6,18,14,10], [31,42,7,37,8,20,33,14,33,33,39,30,33,18,17,20,22,19,12,16,10],
   [9,22,30,19,16,37,34,34,19,25,39,17,41,17,0,23,8,32,6,18,10], [30,1,10,2,24,11,36,11,6,17,39,4,6,17,26,25,37,1,1,20,10],
   [8,24,32,27,31,28,37,31,35,8,39,34,13,16,9,28,23,14,38,21,10], [29,3,12,10,39,2,39,8,22,0,39,21,21,15,35,30,9,27,32,23,10],
   [7,26,34,35,3,20,40,28,8,35,38,8,29,14,18,33,38,39,26,25,10], [28,5,14,18,11,37,41,5,38,26,38,38,36,13,1,36,24,9,21,27,10],
   [6,28,36,0,19,11,0,26,24,18,38,25,1,13,27,38,10,22,15,29,10], [27,7,16,26,26,28,1,3,11,10,38,12,9,12,10,41,39,34,9,31,10],
   [5,30,38,8,34,2,3,23,40,1,38,42,16,11,36,0,26,4,4,33,10], [26,9,18,34,41,19,4,0,27,36,37,29,24,10,19,3,12,17,41,34,10],
   [4,32,40,16,6,37,5,20,13,28,37,16,32,9,2,6,41,29,35,36,10], [25,11,20,42,13,11,7,40,42,19,37,3,40,8,28,8,27,42,29,38,10],
   [3,34,42,24,21,28,8,17,29,11,37,33,4,8,11,11,13,12,24,40,10], [24,13,22,7,29,2,10,37,15,3,37,20,12,7,37,13,42,24,18,42,10],
   [2,36,1,33,36,19,11,14,2,38,36,7,20,6,20,16,28,37,12,1,11], [23,15,24,15,1,37,12,34,31,29,36,37,27,5,3,19,14,7,7,3,11]]"

lemma BASE43_POS11_ok: "table_ok 43 18 11 BASE43_POS11"
proof (rule table_okI)
  show "rows_step 43 [16, 26, 30, 38, 33, 9, 1, 21, 36, 16, 41, 28, 39, 30, 17, 11, 2, 0] BASE43_POS11"
    by (simp only: BASE43_POS11_def rows_step_eval cong: if_weak_cong)
  show "length BASE43_POS11 = 256"
    by (simp only: BASE43_POS11_def length_table_eval)
  show "hd BASE43_POS11 = [0, 0, 0, 0, 0, 0, 0, 0, 0, 0, 0, 0, 0, 0, 0, 0, 0, 0]"
    by (simp only: BASE43_POS11_def list.sel)
qed (simp_all add: digit_simps)

lemma BASE43_POS12_ok: "table_ok 43 20 12 BASE43_POS12"
proof (rule table_okI)
  show "rows_step 43 [11, 0, 11, 20, 35, 11, 13, 8, 10, 13, 18, 18, 8, 4, 21, 40, 20, 13, 0, 0] BASE43_POS12"
    by (simp only: BASE43_POS12_def rows_step_eval cong: if_weak_cong)
  show "length BASE43_POS12 = 256"
    by (simp only: BASE43_POS12_def length_table_eval)
  show "hd BASE43_POS12 = [0, 0, 0, 0, 0, 0, 0, 0, 0, 0, 0, 0, 0, 0, 0, 0, 0, 0, 0, 0]"
    by (simp only: BASE43_POS12_def list.sel)
qed (simp_all add: digit_simps)

lemma BASE43_POS13_ok: "table_ok 43 21 13 BASE43_POS13"
proof (rule table_okI)
  show "rows_step 43 [21, 22, 22, 25, 7, 17, 1, 20, 29, 34, 42, 29, 7, 42, 25, 2, 29, 12, 37, 1, 0] BASE43_POS13"
    by (simp only: BASE43_POS13_def rows_step_eval cong: if_weak_cong)
  show "length BASE43_POS13 = 256"
    by (simp only: BASE43_POS13_def length_table_eval)
  show "hd BASE43_POS13 = [0, 0, 0, 0, 0, 0, 0, 0, 0, 0, 0, 0, 0, 0, 0, 0, 0, 0, 0, 0, 0]"
    by (simp only: BASE43_POS13_def list.sel)
qed (simp_all add: digit_simps)

end
