(* ===== verification/Tables_43_D.thy ===== *)
theory Tables_43_D
  imports Digits
begin

text \<open>
  The tables \<open>BASE43_POS14\<close> to \<open>BASE43_POS15\<close> of \<^verbatim>\<open>fancy-garbling/base_conversion/cbits/lookup_tables.c\<close>,
  entry by entry, as lists of rows of \<open>uint16_t\<close> values read as naturals.  Each lemma \<open>_ok\<close> shows that row \<open>x\<close> holds the base-43
  digits of \<open>x * 256 ^ pos\<close>, for the width that the declaration of the table has.
\<close>

definition BASE43_POS14 :: "nat list list" where
  "BASE43_POS14 = [
   [0,0,0,0,0,0,0,0,0,0,0,0,0,0,0,0,0,0,0,0,0,0,0], [1,38,3,41,8,11,14,11,18,21,36,24,35,4,29,21,0,20,1,5,11,0,0],
   [2,33,7,39,17,22,28,22,36,42,29,6,28,9,15,0,1,40,2,10,22,0,0], [3,28,11,37,26,33,42,33,11,21,23,31,20,14,1,22,1,17,4,15,33,0,0],
   [4,23,15,35,35,1,14,2,30,42,16,13,13,19,30,0,2,37,5,20,1,1,0], [5,18,19,33,1,13,28,13,5,21,10,38,5,24,16,22,2,14,7,25,12,1,0],
   [6,13,23,31,10,24,42,24,23,42,3,20,41,28,2,1,3,34,8,30,23,1,0], [7,8,27,29,19,35,13,36,41,20,40,1,34,33,31,22,3,11,10,35,34,1,0],
   [8,3,31,27,28,3,28,4,17,42,33,26,26,38,17,1,4,31,11,40,2,2,0], [9,41,34,25,37,14,42,15,35,20,27,8,19,0,4,23,4,8,13,2,14,2,0],
   [10,36,38,23,3,26,13,27,10,42,20,33,11,5,33,1,5,28,14,7,25,2,0], [11,31,42,21,12,37,27,38,28,20,14,15,4,10,19,23,5,5,16,12,36,2,0],
   [12,26,3,20,21,5,42,6,4,42,7,40,39,14,5,2,6,25,17,17,4,3,0], [13,21,7,18,30,16,13,18,22,20,1,22,32,19,34,23,6,2,19,22,15,3,0],
   [14,16,11,16,39,27,27,29,40,41,37,3,25,24,20,2,7,22,20,27,26,3,0], [15,11,15,14,5,39,41,40,15,20,31,28,17,29,6,24,7,42,21,32,37,3,0],
   [16,6,19,12,14,7,13,9,34,41,24,10,10,34,35,2,8,19,23,37,5,4,0], [17,1,23,10,23,18,27,20,9,20,18,35,2,39,21,24,8,39,24,42,16,4,0],
   [18,39,26,8,32,29,41,31,27,41,11,17,38,0,8,3,9,16,26,4,28,4,0], [19,34,30,6,41,40,12,0,3,20,5,42,30,5,37,24,9,36,27,9,39,4,0],
   [20,29,34,4,7,9,27,11,21,41,41,23,23,10,23,3,10,13,29,14,7,5,0], [21,24,38,2,16,20,41,22,39,19,35,5,16,15,9,25,10,33,30,19,18,5,0],
   [22,19,42,0,25,31,12,34,14,41,28,30,8,20,38,3,11,10,32,24,29,5,0], [23,14,3,42,33,42,26,2,33,19,22,12,1,25,24,25,11,30,33,29,40,5,0],
   [24,9,7,40,42,10,41,13,8,41,15,37,36,29,10,4,12,7,35,34,8,6,0], [25,4,11,38,8,22,12,25,26,19,9,19,29,34,39,25,12,27,36,39,19,6,0],
   [26,42,14,36,17,33,26,36,1,41,2,1,22,39,25,4,13,4,38,1,31,6,0], [27,37,18,34,26,1,41,4,20,19,39,25,14,1,12,26,13,24,39,6,42,6,0],
   [28,32,22,32,35,12,12,16,38,40,32,7,7,6,41,4,14,1,41,11,10,7,0], [29,27,26,30,1,24,26,27,13,19,26,32,42,10,27,26,14,21,42,16,21,7,0],
   [30,22,30,28,10,35,40,38,31,40,19,14,35,15,13,5,15,41,0,22,32,7,0], [31,17,34,26,19,3,12,7,7,19,13,39,27,20,42,26,15,18,2,27,0,8,0],
   [32,12,38,24,28,14,26,18,25,40,6,21,20,25,28,5,16,38,3,32,11,8,0], [33,7,42,22,37,25,40,29,0,19,0,3,13,30,14,27,16,15,5,37,22,8,0],
   [34,2,3,21,3,37,11,41,18,40,36,27,5,35,0,6,17,35,6,42,33,8,0], [35,40,6,19,12,5,26,9,37,18,30,9,41,39,29,27,17,12,8,4,2,9,0],
   [36,35,10,17,21,16,40,20,12,40,23,34,33,1,16,6,18,32,9,9,13,9,0], [37,30,14,15,30,27,11,32,30,18,17,16,26,6,2,28,18,9,11,14,24,9,0],
   [38,25,18,13,39,38,25,0,6,40,10,41,18,11,31,6,19,29,12,19,35,9,0], [39,20,22,11,5,7,40,11,24,18,4,23,11,16,17,28,19,6,14,24,3,10,0],
   [40,15,26,9,14,18,11,23,42,39,40,4,4,21,3,7,20,26,15,29,14,10,0], [41,10,30,7,23,29,25,34,17,18,34,29,39,25,32,28,20,3,17,34,25,10,0],
   [42,5,34,5,32,40,39,2,36,39,27,11,32,30,18,7,21,23,18,39,36,10,0], [0,1,38,3,41,8,11,14,11,18,21,36,24,35,4,29,21,0,20,1,5,11,0],
   [1,39,41,1,7,20,25,25,29,39,14,18,17,40,33,7,22,20,21,6,16,11,0], [2,34,2,0,16,31,39,36,4,18,8,0,10,2,20,29,22,40,22,11,27,11,0],
   [3,29,6,41,24,42,10,5,23,39,1,25,2,7,6,8,23,17,24,16,38,11,0], [4,24,10,39,33,10,25,16,41,17,38,6,38,11,35,29,23,37,25,21,6,12,0],
   [5,19,14,37,42,21,39,27,16,39,31,31,30,16,21,8,24,14,27,26,17,12,0], [6,14,18,35,8,33,10,39,34,17,25,13,23,21,7,30,24,34,28,31,28,12,0],
   [7,9,22,33,17,1,25,7,10,39,18,38,15,26,36,8,25,11,30,36,39,12,0], [8,4,26,31,26,12,39,18,28,17,12,20,8,31,22,30,25,31,31,41,7,13,0],
   [9,42,29,29,35,23,10,30,3,39,5,2,1,36,8,9,26,8,33,3,19,13,0], [10,37,33,27,1,35,24,41,21,17,42,26,36,40,37,30,26,28,34,8,30,13,0],
   [11,32,37,25,10,3,39,9,40,38,35,8,29,2,24,9,27,5,36,13,41,13,0], [12,27,41,23,19,14,10,21,15,17,29,33,21,7,10,31,27,25,37,18,9,14,0],
   [13,22,2,22,28,25,24,32,33,38,22,15,14,12,39,9,28,2,39,23,20,14,0], [14,17,6,20,37,36,38,0,9,17,16,40,6,17,25,31,28,22,40,28,31,14,0],
   [15,12,10,18,3,5,10,12,27,38,9,22,42,21,11,10,29,42,41,33,42,14,0], [16,7,14,16,12,16,24,23,2,17,3,4,35,26,40,31,29,19,0,39,10,15,0],
   [17,2,18,14,21,27,38,34,20,38,39,28,27,31,26,10,30,39,1,1,22,15,0], [18,40,21,12,30,38,9,3,39,16,33,10,20,36,12,32,30,16,3,6,33,15,0],
   [19,35,25,10,39,6,24,14,14,38,26,35,12,41,41,10,31,36,4,11,1,16,0], [20,30,29,8,5,18,38,25,32,16,20,17,5,3,28,32,31,13,6,16,12,16,0],
   [21,25,33,6,14,29,9,37,7,38,13,42,40,7,14,11,32,33,7,21,23,16,0], [22,20,37,4,23,40,23,5,26,16,7,24,33,12,0,33,32,10,9,26,34,16,0],
   [23,15,41,2,32,8,38,16,1,38,0,6,26,17,29,11,33,30,10,31,2,17,0], [24,10,2,1,41,19,9,28,19,16,37,30,18,22,15,33,33,7,12,36,13,17,0],
   [25,5,6,42,6,31,23,39,37,37,30,12,11,27,1,12,34,27,13,41,24,17,0], [26,0,10,40,15,42,37,7,13,16,24,37,3,32,30,33,34,4,15,3,36,17,0],
   [27,38,13,38,24,10,9,19,31,37,17,19,39,36,16,12,35,24,16,8,4,18,0], [28,33,17,36,33,21,23,30,6,16,11,1,32,41,2,34,35,1,18,13,15,18,0],
   [29,28,21,34,42,32,37,41,24,37,4,26,24,3,32,12,36,21,19,18,26,18,0], [30,23,25,32,8,1,9,10,0,16,41,7,17,8,18,34,36,41,20,23,37,18,0],
   [31,18,29,30,17,12,23,21,18,37,34,32,9,13,4,13,37,18,22,28,5,19,0], [32,13,33,28,26,23,37,32,36,15,28,14,2,18,33,34,37,38,23,33,16,19,0],
   [33,8,37,26,35,34,8,1,12,37,21,39,37,22,19,13,38,15,25,38,27,19,0], [34,3,41,24,1,3,23,12,30,15,15,21,30,27,5,35,38,35,26,0,39,19,0],
   [35,41,1,23,10,14,37,23,5,37,8,3,23,32,34,13,39,12,28,5,7,20,0], [36,36,5,21,19,25,8,35,23,15,2,28,15,37,20,35,39,32,29,10,18,20,0],
   [37,31,9,19,28,36,22,3,42,36,38,9,8,42,6,14,40,9,31,15,29,20,0], [38,26,13,17,37,4,37,14,17,15,32,34,0,4,36,35,40,29,32,20,40,20,0],
   [39,21,17,15,3,16,8,26,35,36,25,16,36,8,22,14,41,6,34,25,8,21,0], [40,16,21,13,12,27,22,37,10,15,19,41,28,13,8,36,41,26,35,30,19,21,0],
   [41,11,25,11,21,38,36,5,29,36,12,23,21,18,37,14,42,3,37,35,30,21,0], [42,6,29,9,30,6,8,17,4,15,6,5,14,23,23,36,42,23,38,40,41,21,0],
   [0,2,33,7,39,17,22,28,22,36,42,29,6,28,9,15,0,1,40,2,10,22,0], [1,40,36,5,5,29,36,39,40,14,36,11,42,32,38,36,0,21,41,7,21,22,0],
   [2,35,40,3,14,40,7,8,16,36,29,36,34,37,24,15,1,41,42,12,32,22,0], [3,30,1,2,23,8,22,19,34,14,23,18,27,42,10,37,1,18,1,18,0,23,0],
   [4,25,5,0,32,19,36,30,9,36,16,0,20,4,40,15,2,38,2,23,11,23,0], [5,20,9,41,40,30,7,42,27,14,10,25,12,9,26,37,2,15,4,28,22,23,0],
   [6,15,13,39,6,42,21,10,3,36,3,7,5,14,12,16,3,35,5,33,33,23,0], [7,10,17,37,15,10,36,21,21,14,40,31,40,18,41,37,3,12,7,38,1,24,0],
   [8,5,21,35,24,21,7,33,39,35,33,13,33,23,27,16,4,32,8,0,13,24,0], [9,0,25,33,33,32,21,1,15,14,27,38,25,28,13,38,4,9,10,5,24,24,0],
   [10,38,28,31,42,0,36,12,33,35,20,20,18,33,42,16,5,29,11,10,35,24,0], [11,33,32,29,8,12,7,24,8,14,14,2,11,38,28,38,5,6,13,15,3,25,0],
   [12,28,36,27,17,23,21,35,26,35,7,27,3,0,15,17,6,26,14,20,14,25,0], [13,23,40,25,26,34,35,3,2,14,1,9,39,4,1,39,6,3,16,25,25,25,0],
   [14,18,1,24,35,2,7,15,20,35,37,33,31,9,30,17,7,23,17,30,36,25,0], [15,13,5,22,1,14,21,26,38,13,31,15,24,14,16,39,7,0,19,35,4,26,0],
   [16,8,9,20,10,25,35,37,13,35,24,40,16,19,2,18,8,20,20,40,15,26,0], [17,3,13,18,19,36,6,6,32,13,18,22,9,24,31,39,8,40,21,2,27,26,0],
   [18,41,16,16,28,4,21,17,7,35,11,4,2,29,17,18,9,17,23,7,38,26,0], [19,36,20,14,37,15,35,28,25,13,5,29,37,33,3,40,9,37,24,12,6,27,0],
   [20,31,24,12,3,27,6,40,0,35,41,10,30,38,32,18,10,14,26,17,17,27,0], [21,26,28,10,12,38,20,8,19,13,35,35,22,0,19,40,10,34,27,22,28,27,0],
   [22,21,32,8,21,6,35,19,37,34,28,17,15,5,5,19,11,11,29,27,39,27,0], [23,16,36,6,30,17,6,31,12,13,22,42,7,10,34,40,11,31,30,32,7,28,0],
   [24,11,40,4,39,28,20,42,30,34,15,24,0,15,20,19,12,8,32,37,18,28,0], [25,6,1,3,5,40,34,10,6,13,9,6,36,19,6,41,12,28,33,42,29,28,0],
   [26,1,5,1,14,8,6,22,24,34,2,31,28,24,35,19,13,5,35,4,41,28,0], [27,39,8,42,22,19,20,33,42,12,39,12,21,29,21,41,13,25,36,9,9,29,0],
   [28,34,12,40,31,30,34,1,18,34,32,37,13,34,7,20,14,2,38,14,20,29,0], [29,29,16,38,40,41,5,13,36,12,26,19,6,39,36,41,14,22,39,19,31,29,0],
   [30,24,20,36,6,10,20,24,11,34,19,1,42,0,23,20,15,42,40,24,42,29,0], [31,19,24,34,15,21,34,35,29,12,13,26,34,5,9,42,15,19,42,29,10,30,0],
   [32,14,28,32,24,32,5,4,5,34,6,8,27,10,38,20,16,39,0,35,21,30,0], [33,9,32,30,33,0,20,15,23,12,0,33,19,15,24,42,16,16,2,40,32,30,0],
   [34,4,36,28,42,11,34,26,41,33,36,14,12,20,10,21,17,36,3,2,1,31,0], [35,42,39,26,8,23,5,38,16,12,30,39,4,25,39,42,17,13,5,7,12,31,0],
   [36,37,0,25,17,34,19,6,35,33,23,21,40,29,25,21,18,33,6,12,23,31,0], [37,32,4,23,26,2,34,17,10,12,17,3,33,34,11,0,19,10,8,17,34,31,0],
   [38,27,8,21,35,13,5,29,28,33,10,28,25,39,40,21,19,30,9,22,2,32,0], [39,22,12,19,1,25,19,40,3,12,4,10,18,1,27,0,20,7,11,27,13,32,0],
   [40,17,16,17,10,36,33,8,22,33,40,34,10,6,13,22,20,27,12,32,24,32,0], [41,12,20,15,19,4,5,20,40,11,34,16,3,11,42,0,21,4,14,37,35,32,0],
   [42,7,24,13,28,15,19,31,15,33,27,41,38,15,28,22,21,24,15,42,3,33,0], [0,3,28,11,37,26,33,42,33,11,21,23,31,20,14,1,22,1,17,4,15,33,0],
   [1,41,31,9,3,38,4,11,9,33,14,5,24,25,0,23,22,21,18,9,26,33,0], [2,36,35,7,12,6,19,22,27,11,8,30,16,30,29,1,23,41,19,14,37,33,0],
   [3,31,39,5,21,17,33,33,2,33,1,12,9,35,15,23,23,18,21,19,5,34,0], [4,26,0,4,30,28,4,2,21,11,38,36,1,40,1,2,24,38,22,24,16,34,0],
   [5,21,4,2,39,39,18,13,39,32,31,18,37,1,31,23,24,15,24,29,27,34,0], [6,16,8,0,5,8,33,24,14,11,25,0,30,6,17,2,25,35,25,34,38,34,0],
   [7,11,12,41,13,19,4,36,32,32,18,25,22,11,3,24,25,12,27,39,6,35,0], [8,6,16,39,22,30,18,4,8,11,12,7,15,16,32,2,26,32,28,1,18,35,0],
   [9,1,20,37,31,41,32,15,26,32,5,32,7,21,18,24,26,9,30,6,29,35,0], [10,39,23,35,40,9,4,27,1,11,42,13,0,26,4,3,27,29,31,11,40,35,0],
   [11,34,27,33,6,21,18,38,19,32,35,38,35,30,33,24,27,6,33,16,8,36,0], [12,29,31,31,15,32,32,6,38,10,29,20,28,35,19,3,28,26,34,21,19,36,0],
   [13,24,35,29,24,0,4,18,13,32,22,2,21,40,5,25,28,3,36,26,30,36,0], [14,19,39,27,33,11,18,29,31,10,16,27,13,2,35,3,29,23,37,31,41,36,0],
   [15,14,0,26,42,22,32,40,6,32,9,9,6,7,21,25,29,0,39,36,9,37,0], [16,9,4,24,8,34,3,9,25,10,3,34,41,11,7,4,30,20,40,41,20,37,0],
   [17,4,8,22,17,2,18,20,0,32,39,15,34,16,36,25,30,40,41,3,32,37,0], [18,42,11,20,26,13,32,31,18,10,33,40,26,21,22,4,31,17,0,9,0,38,0],
   [19,37,15,18,35,24,3,0,37,31,26,22,19,26,8,26,31,37,1,14,11,38,0], [20,32,19,16,1,36,17,11,12,10,20,4,12,31,37,4,32,14,3,19,22,38,0],
   [21,27,23,14,10,4,32,22,30,31,13,29,4,36,23,26,32,34,4,24,33,38,0], [22,22,27,12,19,15,3,34,5,10,7,11,40,40,9,5,33,11,6,29,1,39,0],
   [23,17,31,10,28,26,17,2,24,31,0,36,32,2,39,26,33,31,7,34,12,39,0], [24,12,35,8,37,37,31,13,42,9,37,17,25,7,25,5,34,8,9,39,23,39,0],
   [25,7,39,6,3,6,3,25,17,31,30,42,17,12,11,27,34,28,10,1,35,39,0], [26,2,0,5,12,17,17,36,35,9,24,24,10,17,40,5,35,5,12,6,3,40,0],
   [27,40,3,3,21,28,31,4,11,31,17,6,3,22,26,27,35,25,13,11,14,40,0], [28,35,7,1,30,39,2,16,29,9,11,31,38,26,12,6,36,2,15,16,25,40,0],
   [29,30,11,42,38,7,17,27,4,31,4,13,31,31,41,27,36,22,16,21,36,40,0], [30,25,15,40,4,19,31,38,22,9,41,37,23,36,27,6,37,42,17,26,4,41,0],
   [31,20,19,38,13,30,2,7,41,30,34,19,16,41,13,28,37,19,19,31,15,41,0], [32,15,23,36,22,41,16,18,16,9,28,1,9,3,0,7,38,39,20,36,26,41,0],
   [33,10,27,34,31,9,31,29,34,30,21,26,1,8,29,28,38,16,22,41,37,41,0], [34,5,31,32,40,20,2,41,9,9,15,8,37,12,15,7,39,36,23,3,6,42,0],
   [35,0,35,30,6,32,16,9,28,30,8,33,29,17,1,29,39,13,25,8,17,42,0], [36,38,38,28,15,0,31,20,3,9,2,15,22,22,30,7,40,33,26,13,28,42,0],
   [37,33,42,26,24,11,2,32,21,30,38,39,14,27,16,29,40,10,28,18,39,42,0], [38,28,3,25,33,22,16,0,40,8,32,21,7,32,2,8,41,30,29,23,7,0,1],
   [39,23,7,23,42,33,30,11,15,30,25,3,0,37,31,29,41,7,31,28,18,0,1], [40,18,11,21,8,2,2,23,33,8,19,28,35,41,17,8,42,27,32,33,29,0,1],
   [41,13,15,19,17,13,16,34,8,30,12,10,28,3,4,30,42,4,34,38,40,0,1], [42,8,19,17,26,24,30,2,27,8,6,35,20,8,33,8,0,25,35,0,9,1,1],
   [0,4,23,15,35,35,1,14,2,30,42,16,13,13,19,30,0,2,37,5,20,1,1], [1,42,26,13,1,4,16,25,20,8,36,41,5,18,5,9,1,22,38,10,31,1,1],
   [2,37,30,11,10,15,30,36,38,29,29,23,41,22,34,30,1,42,39,15,42,1,1], [3,32,34,9,19,26,1,5,14,8,23,5,34,27,20,9,2,19,41,20,10,2,1],
   [4,27,38,7,28,37,15,16,32,29,16,30,26,32,6,31,2,39,42,25,21,2,1], [5,22,42,5,37,5,30,27,7,8,10,12,19,37,35,9,3,16,1,31,32,2,1],
   [6,17,3,4,3,17,1,39,25,29,3,37,11,42,21,31,3,36,2,36,0,3,1], [7,12,7,2,12,28,15,7,1,8,40,18,4,4,8,10,4,13,4,41,11,3,1],
   [8,7,11,0,21,39,29,18,19,29,33,0,40,8,37,31,4,33,5,3,23,3,1], [9,2,15,41,29,7,1,30,37,7,27,25,32,13,23,10,5,10,7,8,34,3,1],
   [10,40,18,39,38,18,15,41,12,29,20,7,25,18,9,32,5,30,8,13,2,4,1], [11,35,22,37,4,30,29,9,31,7,14,32,17,23,38,10,6,7,10,18,13,4,1],
   [12,30,26,35,13,41,0,21,6,29,7,14,10,28,24,32,6,27,11,23,24,4,1], [13,25,30,33,22,9,15,32,24,7,1,39,2,33,10,11,7,4,13,28,35,4,1],
   [14,20,34,31,31,20,29,0,0,29,37,20,38,37,39,32,7,24,14,33,3,5,1], [15,15,38,29,40,31,0,12,18,7,31,2,31,42,25,11,8,1,16,38,14,5,1],
   [16,10,42,27,6,0,15,23,36,28,24,27,23,4,12,33,8,21,17,0,26,5,1], [17,5,3,26,15,11,29,34,11,7,18,9,16,9,41,11,9,41,18,5,37,5,1],
   [18,0,7,24,24,22,0,3,30,28,11,34,8,14,27,33,9,18,20,10,5,6,1], [19,38,10,22,33,33,14,14,5,7,5,16,1,19,13,12,10,38,21,15,16,6,1],
   [20,33,14,20,42,1,29,25,23,28,41,40,36,23,42,33,10,15,23,20,27,6,1], [21,28,18,18,8,13,0,37,41,6,35,22,29,28,28,12,11,35,24,25,38,6,1],
   [22,23,22,16,17,24,14,5,17,28,28,4,22,33,14,34,11,12,26,30,6,7,1], [23,18,26,14,26,35,28,16,35,6,22,29,14,38,0,13,12,32,27,35,17,7,1],
   [24,13,30,12,35,3,0,28,10,28,15,11,7,0,30,34,12,9,29,40,28,7,1], [25,8,34,10,1,15,14,39,28,6,9,36,42,4,16,13,13,29,30,2,40,7,1],
   [26,3,38,8,10,26,28,7,4,28,2,18,35,9,2,35,13,6,32,7,8,8,1], [27,41,41,6,19,37,42,18,22,6,39,42,27,14,31,13,14,26,33,12,19,8,1],
   [28,36,2,5,28,5,14,30,40,27,32,24,20,19,17,35,14,3,35,17,30,8,1], [29,31,6,3,37,16,28,41,15,6,26,6,13,24,3,14,15,23,36,22,41,8,1],
   [30,26,10,1,3,28,42,9,34,27,19,31,5,29,32,35,15,0,38,27,9,9,1], [31,21,14,42,11,39,13,21,9,6,13,13,41,33,18,14,16,20,39,32,20,9,1],
   [32,16,18,40,20,7,28,32,27,27,6,38,33,38,4,36,16,40,40,37,31,9,1], [33,11,22,38,29,18,42,0,3,6,0,20,26,0,34,14,17,17,42,42,42,9,1],
   [34,6,26,36,38,29,13,12,21,27,36,1,19,5,20,36,17,37,0,5,11,10,1], [35,1,30,34,4,41,27,23,39,5,30,26,11,10,6,15,18,14,2,10,22,10,1],
   [36,39,33,32,13,9,42,34,14,27,23,8,4,15,35,36,18,34,3,15,33,10,1], [37,34,37,30,22,20,13,3,33,5,17,33,39,19,21,15,19,11,5,20,1,11,1],
   [38,29,41,28,31,31,27,14,8,27,10,15,32,24,7,37,19,31,6,25,12,11,1], [39,24,2,27,40,42,41,25,26,5,4,40,24,29,36,15,20,8,8,30,23,11,1],
   [40,19,6,25,6,11,13,37,1,27,40,21,17,34,22,37,20,28,9,35,34,11,1], [41,14,10,23,15,22,27,5,20,5,34,3,10,39,8,16,21,5,11,40,2,12,1],
   [42,9,14,21,24,33,41,16,38,26,27,28,2,1,38,37,21,25,12,2,14,12,1], [0,5,18,19,33,1,13,28,13,5,21,10,38,5,24,16,22,2,14,7,25,12,1],
   [1,0,22,17,42,12,27,39,31,26,14,35,30,10,10,38,22,22,15,12,36,12,1], [2,38,25,15,8,24,41,7,7,5,8,17,23,15,39,16,23,42,16,17,4,13,1],
   [3,33,29,13,17,35,12,19,25,26,1,42,15,20,25,38,23,19,18,22,15,13,1], [4,28,33,11,26,3,27,30,0,5,38,23,8,25,11,17,24,39,19,27,26,13,1],
   [5,23,37,9,35,14,41,41,18,26,31,5,1,30,40,38,24,16,21,32,37,13,1], [6,18,41,7,1,26,12,10,37,4,25,30,36,34,26,17,25,36,22,37,5,14,1],
   [7,13,2,6,10,37,26,21,12,26,18,12,29,39,12,39,25,13,24,42,16,14,1], [8,8,6,4,19,5,41,32,30,4,12,37,21,1,42,17,26,33,25,4,28,14,1],
   [9,3,10,2,28,16,12,1,6,26,5,19,14,6,28,39,26,10,27,9,39,14,1], [10,41,13,0,37,27,26,12,24,4,42,0,7,11,14,18,27,30,28,14,7,15,1],
   [11,36,17,41,2,39,40,23,42,25,35,25,42,15,0,40,27,7,30,19,18,15,1], [12,31,21,39,11,7,12,35,17,4,29,7,35,20,29,18,28,27,31,24,29,15,1],
   [13,26,25,37,20,18,26,3,36,25,22,32,27,25,15,40,28,4,33,29,40,15,1], [14,21,29,35,29,29,40,14,11,4,16,14,20,30,1,19,29,24,34,34,8,16,1],
   [15,16,33,33,38,40,11,26,29,25,9,39,12,35,30,40,29,1,36,39,19,16,1], [16,11,37,31,4,9,26,37,4,4,3,21,5,40,16,19,30,21,37,1,31,16,1],
   [17,6,41,29,13,20,40,5,23,25,39,2,41,1,3,41,30,41,38,6,42,16,1], [18,1,2,28,22,31,11,17,41,3,33,27,33,6,32,19,31,18,40,11,10,17,1],
   [19,39,5,26,31,42,25,28,16,25,26,9,26,11,18,41,31,38,41,16,21,17,1], [20,34,9,24,40,10,40,39,34,3,20,34,18,16,4,20,32,15,0,22,32,17,1],
   [21,29,13,22,6,22,11,8,10,25,13,16,11,21,33,41,32,35,1,27,0,18,1], [22,24,17,20,15,33,25,19,28,3,7,41,3,26,19,20,33,12,3,32,11,18,1],
   [23,19,21,18,24,1,40,30,3,25,0,23,39,30,5,42,33,32,4,37,22,18,1], [24,14,25,16,33,12,11,42,21,3,37,4,32,35,34,20,34,9,6,42,33,18,1],
   [25,9,29,14,42,23,25,10,40,24,30,29,24,40,20,42,34,29,7,4,2,19,1], [26,4,33,12,8,35,39,21,15,3,24,11,17,2,7,21,35,6,9,9,13,19,1],
   [27,42,36,10,17,3,11,33,33,24,17,36,9,7,36,42,35,26,10,14,24,19,1], [28,37,40,8,26,14,25,1,9,3,11,18,2,12,22,21,36,3,12,19,35,19,1],
   [29,32,1,7,35,25,39,12,27,24,4,0,38,16,8,0,37,23,13,24,3,20,1], [30,27,5,5,1,37,10,24,2,3,41,24,30,21,37,21,37,0,15,29,14,20,1],
   [31,22,9,3,10,5,25,35,20,24,34,6,23,26,23,0,38,20,16,34,25,20,1], [32,17,13,1,19,16,39,3,39,2,28,31,15,31,9,22,38,40,17,39,36,20,1],
   [33,12,17,42,27,27,10,15,14,24,21,13,8,36,38,0,39,17,19,1,5,21,1], [34,7,21,40,36,38,24,26,32,2,15,38,0,41,24,22,39,37,20,6,16,21,1],
   [35,2,25,38,2,7,39,37,7,24,8,20,36,2,11,1,40,14,22,11,27,21,1], [36,40,28,36,11,18,10,6,26,2,2,2,29,7,40,22,40,34,23,16,38,21,1],
   [37,35,32,34,20,29,24,17,1,24,38,26,21,12,26,1,41,11,25,21,6,22,1], [38,30,36,32,29,40,38,28,19,2,32,8,14,17,12,23,41,31,26,26,17,22,1],
   [39,25,40,30,38,8,10,40,37,23,25,33,6,22,41,1,42,8,28,31,28,22,1], [40,20,1,29,4,20,24,8,13,2,19,15,42,26,27,23,42,28,29,36,39,22,1]]"

definition BASE43_POS15 :: "nat list list" where
  "BASE43_POS15 = [
   [0,0,0,0,0,0,0,0,0,0,0,0,0,0,0,0,0,0,0,0,0,0,0,0], [41,15,5,27,13,31,38,19,31,23,12,40,34,31,13,2,0,6,31,41,7,23,1,0],
   [39,31,10,11,27,19,34,39,19,4,25,37,26,20,27,4,0,12,19,40,15,3,3,0], [37,4,16,38,40,7,30,16,8,28,37,34,18,9,41,6,0,18,7,39,23,26,4,0],
   [35,20,21,22,11,39,25,36,39,8,7,32,10,41,11,9,0,24,38,37,31,6,6,0], [33,36,26,6,25,27,21,13,28,32,19,29,2,30,25,11,0,30,26,36,39,29,7,0],
   [31,9,32,33,38,15,17,33,16,13,32,26,37,18,39,13,0,36,14,35,4,10,9,0], [29,25,37,17,9,4,13,10,5,37,1,24,29,7,10,16,0,42,2,34,12,33,10,0],
   [27,41,42,1,23,35,8,30,36,17,14,21,21,39,23,18,0,5,34,32,20,13,12,0], [25,14,5,29,36,23,4,7,25,41,26,18,13,28,37,20,0,11,22,31,28,36,13,0],
   [23,30,10,13,7,12,0,27,13,22,39,15,5,17,8,23,0,17,10,30,36,16,15,0], [21,3,16,40,20,0,39,3,2,3,9,13,40,5,22,25,0,23,41,28,1,40,16,0],
   [19,19,21,24,34,31,34,23,33,26,21,10,32,37,35,27,0,29,29,27,9,20,18,0], [17,35,26,8,5,20,30,0,22,7,34,7,24,26,6,30,0,35,17,26,17,0,20,0],
   [15,8,32,35,18,8,26,20,10,31,3,5,16,15,20,32,0,41,5,25,25,23,21,0], [13,24,37,19,32,39,21,40,41,11,16,2,8,4,34,34,0,4,37,23,33,3,23,0],
   [11,40,42,3,3,28,17,17,30,35,28,42,42,35,4,37,0,10,25,22,41,26,24,0], [9,13,5,31,16,16,13,37,18,16,41,39,34,24,18,39,0,16,13,21,6,7,26,0],
   [7,29,10,15,30,4,9,14,7,40,10,37,26,13,32,41,0,22,1,20,14,30,27,0], [5,2,16,42,0,36,4,34,38,20,23,34,18,2,3,1,1,28,32,18,22,10,29,0],
   [3,18,21,26,14,24,0,11,27,1,36,31,10,34,16,3,1,34,20,17,30,33,30,0], [1,34,26,10,28,12,39,30,15,25,5,29,2,23,30,5,1,40,8,16,38,13,32,0],
   [42,6,32,37,41,0,35,7,4,6,18,26,37,11,1,8,1,3,40,14,3,37,33,0], [40,22,37,21,12,32,30,27,35,29,30,23,29,0,15,10,1,9,28,13,11,17,35,0],
   [38,38,42,5,26,20,26,4,24,10,0,21,21,32,28,12,1,15,16,12,19,40,36,0], [36,11,5,33,39,8,22,24,12,34,12,18,13,21,42,14,1,21,4,11,27,20,38,0],
   [34,27,10,17,10,40,17,1,1,15,25,15,5,10,13,17,1,27,35,9,35,0,40,0], [32,0,16,1,24,28,13,21,32,38,37,12,40,41,26,19,1,33,23,8,0,24,41,0],
   [30,16,21,28,37,16,9,41,20,19,7,10,32,30,40,21,1,39,11,7,8,4,0,1], [28,32,26,12,8,5,5,18,9,0,20,7,24,19,11,24,1,2,0,6,16,27,1,1],
   [26,5,32,39,21,36,0,38,40,23,32,4,16,8,25,26,1,8,31,4,24,7,3,1], [24,21,37,23,35,24,39,14,29,4,2,2,8,40,38,28,1,14,19,3,32,30,4,1],
   [22,37,42,7,6,13,35,34,17,28,14,42,42,28,9,31,1,20,7,2,40,10,6,1], [20,10,5,35,19,1,31,11,6,9,27,39,34,17,23,33,1,26,38,0,5,34,7,1],
   [18,26,10,19,33,32,26,31,37,32,39,36,26,6,37,35,1,32,26,42,12,14,9,1], [16,42,15,3,4,21,22,8,26,13,9,34,18,38,7,38,1,38,14,41,20,37,10,1],
   [14,15,21,30,17,9,18,28,14,37,21,31,10,27,21,40,1,1,3,40,28,17,12,1], [12,31,26,14,31,40,13,5,3,18,34,28,2,16,35,42,1,7,34,38,36,40,13,1],
   [10,4,32,41,1,29,9,25,34,41,3,26,37,4,6,2,2,13,22,37,1,21,15,1], [8,20,37,25,15,17,5,2,23,22,16,23,29,36,19,4,2,19,10,36,9,1,17,1],
   [6,36,42,9,29,5,1,22,11,3,29,20,21,25,33,6,2,25,41,34,17,24,18,1], [4,9,5,37,42,36,39,41,42,26,41,17,13,14,4,9,2,31,29,33,25,4,20,1],
   [2,25,10,21,13,25,35,18,31,7,11,15,5,3,18,11,2,37,17,32,33,27,21,1], [0,41,15,5,27,13,31,38,19,31,23,12,40,34,31,13,2,0,6,31,41,7,23,1],
   [41,13,21,32,40,1,27,15,8,12,36,9,32,23,2,16,2,6,37,29,6,31,24,1], [39,29,26,16,11,33,22,35,39,35,5,7,24,12,16,18,2,12,25,28,14,11,26,1],
   [37,2,32,0,25,21,18,12,28,16,18,4,16,1,30,20,2,18,13,27,22,34,27,1], [35,18,37,27,38,9,14,32,16,40,30,1,8,33,0,23,2,24,1,26,30,14,29,1],
   [33,34,42,11,9,41,9,9,5,21,0,42,42,21,14,25,2,30,32,24,38,37,30,1], [31,7,5,39,22,29,5,29,36,1,13,39,34,10,28,27,2,36,20,23,3,18,32,1],
   [29,23,10,23,36,17,1,6,25,25,25,36,26,42,41,29,2,42,8,22,11,41,33,1], [27,39,15,7,7,6,40,25,13,6,38,33,18,31,12,32,2,5,40,20,19,21,35,1],
   [25,12,21,34,20,37,35,2,2,30,7,31,10,20,26,34,2,11,28,19,27,1,37,1], [23,28,26,18,34,25,31,22,33,10,20,28,2,9,40,36,2,17,16,18,35,24,38,1],
   [21,1,32,2,5,14,27,42,21,34,32,25,37,40,10,39,2,23,4,17,0,5,40,1], [19,17,37,29,18,2,23,19,10,15,2,23,29,29,24,41,2,29,35,15,8,28,41,1],
   [17,33,42,13,32,33,18,39,41,38,14,20,21,18,38,0,3,35,23,14,16,8,0,2], [15,6,5,41,2,22,14,16,30,19,27,17,13,7,9,3,3,41,11,13,24,31,1,2],
   [13,22,10,25,16,10,10,36,18,0,40,14,5,39,22,5,3,4,0,12,32,11,3,2], [11,38,15,9,30,41,5,13,7,24,9,12,40,27,36,7,3,10,31,10,40,34,4,2],
   [9,11,21,36,0,30,1,33,38,4,22,9,32,16,7,10,3,16,19,9,5,15,6,2], [7,27,26,20,14,18,40,9,27,28,34,6,24,5,21,12,3,22,7,8,13,38,7,2],
   [5,0,32,4,28,6,36,29,15,9,4,4,16,37,34,14,3,28,38,6,21,18,9,2], [3,16,37,31,41,37,31,6,4,33,16,1,8,26,5,17,3,34,26,5,29,41,10,2],
   [1,32,42,15,12,26,27,26,35,13,29,41,42,14,19,19,3,40,14,4,37,21,12,2], [42,4,5,0,26,14,23,3,24,37,41,38,34,3,33,21,3,3,3,3,2,2,14,2],
   [40,20,10,27,39,2,19,23,12,18,11,36,26,35,3,24,3,9,34,1,10,25,15,2], [38,36,15,11,10,34,14,0,1,42,23,33,18,24,17,26,3,15,22,0,18,5,17,2],
   [36,9,21,38,23,22,10,20,32,22,36,30,10,13,31,28,3,21,10,42,25,28,18,2], [34,25,26,22,37,10,6,40,20,3,6,28,2,2,2,31,3,27,41,40,33,8,20,2],
   [32,41,31,6,8,42,1,17,9,27,18,25,37,33,15,33,3,33,29,39,41,31,21,2], [30,14,37,33,21,30,40,36,40,7,31,22,29,22,29,35,3,39,17,38,6,12,23,2],
   [28,30,42,17,35,18,36,13,29,31,0,20,21,11,0,38,3,2,6,37,14,35,24,2], [26,3,5,2,6,7,32,33,17,12,13,17,13,0,14,40,3,8,37,35,22,15,26,2],
   [24,19,10,29,19,38,27,10,6,36,25,14,5,32,27,42,3,14,25,34,30,38,27,2], [22,35,15,13,33,26,23,30,37,16,38,11,40,20,41,1,4,20,13,33,38,18,29,2],
   [20,8,21,40,3,15,19,7,26,40,7,9,32,9,12,4,4,26,1,32,3,42,30,2], [18,24,26,24,17,3,15,27,14,21,20,6,24,41,25,6,4,32,32,30,11,22,32,2],
   [16,40,31,8,31,34,10,4,3,2,33,3,16,30,39,8,4,38,20,29,19,2,34,2], [14,13,37,35,1,23,6,24,34,25,2,1,8,19,10,11,4,1,9,28,27,25,35,2],
   [12,29,42,19,15,11,2,1,23,6,15,41,42,7,24,13,4,7,40,26,35,5,37,2], [10,2,5,4,29,42,40,20,11,30,27,38,34,39,37,15,4,13,28,25,0,29,38,2],
   [8,18,10,31,42,30,36,40,42,10,40,35,26,28,8,18,4,19,16,24,8,9,40,2], [6,34,15,15,13,19,32,17,31,34,9,33,18,17,22,20,4,25,4,23,16,32,41,2],
   [4,7,21,42,26,7,28,37,19,15,22,30,10,6,36,22,4,31,35,21,24,12,0,3], [2,23,26,26,40,38,23,14,8,39,34,27,2,38,6,25,4,37,23,20,32,35,1,3],
   [0,39,31,10,11,27,19,34,39,19,4,25,37,26,20,27,4,0,12,19,40,15,3,3], [41,11,37,37,24,15,15,11,28,0,17,22,29,15,34,29,4,6,0,18,5,39,4,3],
   [39,27,42,21,38,3,11,31,16,24,29,19,21,4,5,32,4,12,31,16,13,19,6,3], [37,0,5,6,9,35,6,8,5,5,42,16,13,36,18,34,4,18,19,15,21,42,7,3],
   [35,16,10,33,22,23,2,28,36,28,11,14,5,25,32,36,4,24,7,14,29,22,9,3], [33,32,15,17,36,11,41,4,25,9,24,11,40,13,3,39,4,30,38,12,37,2,11,3],
   [31,5,21,1,7,0,37,24,13,33,36,8,32,2,17,41,4,36,26,11,2,26,12,3], [29,21,26,28,20,31,32,1,2,14,6,6,24,34,30,0,5,42,14,10,10,6,14,3],
   [27,37,31,12,34,19,28,21,33,37,18,3,16,23,1,3,5,5,3,9,18,29,15,3], [25,10,37,39,4,8,24,41,21,18,31,0,8,12,15,5,5,11,34,7,26,9,17,3],
   [23,26,42,23,18,39,19,18,10,42,0,41,42,0,29,7,5,17,22,6,34,32,18,3], [21,42,4,8,32,27,15,38,41,22,13,38,34,32,42,9,5,23,10,5,42,12,20,3],
   [19,15,10,35,2,16,11,15,30,3,26,35,26,21,13,12,5,29,41,3,7,36,21,3], [17,31,15,19,16,4,7,35,18,27,38,32,18,10,27,14,5,35,29,2,15,16,23,3],
   [15,4,21,3,30,35,2,12,7,8,8,30,10,42,40,16,5,41,17,1,23,39,24,3], [13,20,26,30,0,24,41,31,38,31,20,27,2,31,11,19,5,4,6,0,31,19,26,3],
   [11,36,31,14,14,12,37,8,27,12,33,24,37,19,25,21,5,10,37,41,38,42,27,3], [9,9,37,41,27,0,33,28,15,36,2,22,29,8,39,23,5,16,25,40,3,23,29,3],
   [7,25,42,25,41,31,28,5,4,17,15,19,21,40,9,26,5,22,13,39,11,3,31,3], [5,41,4,10,12,20,24,25,35,40,27,16,13,29,23,28,5,28,1,38,19,26,32,3],
   [3,14,10,37,25,8,20,2,24,21,40,13,5,18,37,30,5,34,32,36,27,6,34,3], [1,30,15,21,39,39,15,22,12,2,10,11,40,6,8,33,5,40,20,35,35,29,35,3],
   [42,2,21,5,10,28,11,42,0,26,22,8,32,38,21,35,5,3,9,34,0,10,37,3], [40,18,26,32,23,16,7,19,32,6,35,5,24,27,35,37,5,9,40,32,8,33,38,3],
   [38,34,31,16,37,4,3,39,20,30,4,3,16,16,6,40,5,15,28,31,16,13,40,3], [36,7,37,0,8,36,41,15,9,11,17,0,8,5,20,42,5,21,16,30,24,36,41,3],
   [34,23,42,27,21,24,37,35,40,34,29,40,42,36,33,1,6,27,4,29,32,16,0,4], [32,39,4,12,35,12,33,12,29,15,42,37,34,25,4,4,6,33,35,27,40,39,1,4],
   [30,12,10,39,5,1,29,32,17,39,11,35,26,14,18,6,6,39,23,26,5,20,3,4], [28,28,15,23,19,32,24,9,6,20,24,32,18,3,32,8,6,2,12,25,13,0,5,4],
   [26,1,21,7,33,20,20,29,37,0,37,29,10,35,2,11,6,8,0,24,21,23,6,4], [24,17,26,34,3,9,16,6,26,24,6,27,2,24,16,13,6,14,31,22,29,3,8,4],
   [22,33,31,18,17,40,11,26,14,5,19,24,37,12,30,15,6,20,19,21,37,26,9,4], [20,6,37,2,31,28,7,3,3,29,31,21,29,1,1,18,6,26,7,20,2,7,11,4],
   [18,22,42,29,1,17,3,23,34,9,1,19,21,33,14,20,6,32,38,18,10,30,12,4], [16,38,4,14,15,5,42,42,22,33,13,16,13,22,28,22,6,38,26,17,18,10,14,4],
   [14,11,10,41,28,36,37,19,11,14,26,13,5,11,42,24,6,1,15,16,26,33,15,4], [12,27,15,25,42,24,33,39,42,37,38,10,40,42,12,27,6,7,3,15,34,13,17,4],
   [10,0,21,9,13,13,29,16,31,18,8,8,32,31,26,29,6,13,34,13,42,36,18,4], [8,16,26,36,26,1,25,36,19,42,20,5,24,20,40,31,6,19,22,12,7,17,20,4],
   [6,32,31,20,40,32,20,13,8,23,33,2,16,9,11,34,6,25,10,11,15,40,21,4], [4,5,37,4,11,21,16,33,39,3,3,0,8,41,24,36,6,31,41,9,23,20,23,4],
   [2,21,42,31,24,9,12,10,28,27,15,40,42,29,38,38,6,37,29,8,31,0,25,4], [0,37,4,16,38,40,7,30,16,8,28,37,34,18,9,41,6,0,18,7,39,23,26,4],
   [41,9,10,0,9,29,3,7,5,32,40,34,26,7,23,0,7,6,6,6,4,4,28,4], [39,25,15,27,22,17,42,26,36,12,10,32,18,39,36,2,7,12,37,4,12,27,29,4],
   [37,41,20,11,36,5,38,3,25,36,22,29,10,28,7,5,7,18,25,3,20,7,31,4], [35,14,26,38,6,37,33,23,13,17,35,26,2,17,21,7,7,24,13,2,28,30,32,4],
   [33,30,31,22,20,25,29,0,2,41,4,24,37,5,35,9,7,30,1,1,36,10,34,4], [31,3,37,6,34,13,25,20,33,21,17,21,29,37,5,12,7,36,32,42,0,34,35,4],
   [29,19,42,33,4,2,21,40,21,2,30,18,21,26,19,14,7,42,20,41,8,14,37,4], [27,35,4,18,18,33,16,17,10,26,42,15,13,15,33,16,7,5,9,40,16,37,38,4],
   [25,8,10,2,32,21,12,37,41,6,12,13,5,4,4,19,7,11,40,38,24,17,40,4], [23,24,15,29,2,10,8,14,30,30,24,10,40,35,17,21,7,17,28,37,32,40,41,4],
   [21,40,20,13,16,41,3,34,18,11,37,7,32,24,31,23,7,23,16,36,40,20,0,5], [19,13,26,40,29,29,42,10,7,35,6,5,24,13,2,26,7,29,4,35,5,1,2,5],
   [17,29,31,24,0,18,38,30,38,15,19,2,16,2,16,28,7,35,35,33,13,24,3,5], [15,2,37,8,14,6,34,7,27,39,31,42,7,34,29,30,7,41,23,32,21,4,5,5],
   [13,18,42,35,27,37,29,27,15,20,1,40,42,22,0,33,7,4,12,31,29,27,6,5], [11,34,4,20,41,25,25,4,4,1,14,37,34,11,14,35,7,10,0,30,37,7,8,5],
   [9,7,10,4,12,14,21,24,35,24,26,34,26,0,28,37,7,16,31,28,2,31,9,5], [7,23,15,31,25,2,17,1,24,5,39,31,18,32,41,39,7,22,19,27,10,11,11,5],
   [5,39,20,15,39,33,12,21,12,29,8,29,10,21,12,42,7,28,7,26,18,34,12,5], [3,12,26,42,9,22,8,41,0,10,21,26,2,10,26,1,8,34,38,24,26,14,14,5],
   [1,28,31,26,23,10,4,18,32,33,33,23,37,41,39,3,8,40,26,23,34,37,15,5], [42,0,37,10,37,41,42,37,20,14,3,21,29,30,10,6,8,3,15,22,42,17,17,5],
   [40,16,42,37,7,30,38,14,9,38,15,18,21,19,24,8,8,9,3,21,7,41,18,5], [38,32,4,22,21,18,34,34,40,18,28,15,13,8,38,10,8,15,34,19,15,21,20,5],
   [36,5,10,6,35,6,30,11,29,42,40,12,5,40,8,13,8,21,22,18,23,1,22,5], [34,21,15,33,5,38,25,31,17,23,10,10,40,28,22,15,8,27,10,17,31,24,23,5],
   [32,37,20,17,19,26,21,8,6,4,23,7,32,17,36,17,8,33,41,15,39,4,25,5], [30,10,26,1,33,14,17,28,37,27,35,4,24,6,7,20,8,39,29,14,4,28,26,5],
   [28,26,31,28,3,3,13,5,26,8,5,2,16,38,20,22,8,2,18,13,12,8,28,5], [26,42,36,12,17,34,8,25,14,32,17,42,7,27,34,24,8,8,6,12,20,31,29,5],
   [24,15,42,39,30,22,4,2,3,13,30,39,42,15,5,27,8,14,37,10,28,11,31,5], [22,31,4,24,1,11,0,22,34,36,42,36,34,4,19,29,8,20,25,9,36,34,32,5],
   [20,4,10,8,15,42,38,41,22,17,12,34,26,36,32,31,8,26,13,8,1,15,34,5], [18,20,15,35,28,30,34,18,11,41,24,31,18,25,3,34,8,32,1,7,9,38,35,5],
   [16,36,20,19,42,18,30,38,42,21,37,28,10,14,17,36,8,38,32,5,17,18,37,5], [14,9,26,3,13,7,26,15,31,2,7,26,2,3,31,38,8,1,21,4,25,41,38,5],
   [12,25,31,30,26,38,21,35,19,26,19,23,37,34,1,41,8,7,9,3,33,21,40,5], [10,41,36,14,40,26,17,12,8,7,32,20,29,23,15,0,9,13,40,1,41,1,42,5],
   [8,14,42,41,10,15,13,32,39,30,1,18,21,12,29,2,9,19,28,0,6,25,0,6], [6,30,4,26,24,3,9,9,28,11,14,15,13,1,0,5,9,25,16,42,13,5,2,6],
   [4,3,10,10,38,34,4,29,16,35,26,12,5,33,13,7,9,31,4,41,21,28,3,6], [2,19,15,37,8,23,0,6,5,16,39,9,40,21,27,9,9,37,35,39,29,8,5,6],
   [0,35,20,21,22,11,39,25,36,39,8,7,32,10,41,11,9,0,24,38,37,31,6,6], [41,7,26,5,36,42,34,2,25,20,21,4,24,42,11,14,9,6,12,37,2,12,8,6],
   [39,23,31,32,6,31,30,22,13,1,34,1,16,31,25,16,9,12,0,36,10,35,9,6], [37,39,36,16,20,19,26,42,1,25,3,42,7,20,39,18,9,18,31,34,18,15,11,6],
   [35,12,42,0,34,7,22,19,33,5,16,39,42,8,10,21,9,24,19,33,26,38,12,6], [33,28,4,28,4,39,17,39,21,29,28,36,34,40,23,23,9,30,7,32,34,18,14,6],
   [31,1,10,12,18,27,13,16,10,10,41,33,26,29,37,25,9,36,38,30,42,41,15,6], [29,17,15,39,31,15,9,36,41,33,10,31,18,18,8,28,9,42,26,29,7,22,17,6],
   [27,33,20,23,2,4,5,13,30,14,23,28,10,7,22,30,9,5,15,28,15,2,19,6], [25,6,26,7,16,35,0,33,18,38,35,25,2,39,35,32,9,11,3,27,23,25,20,6],
   [23,22,31,34,29,23,39,9,7,19,5,23,37,27,6,35,9,17,34,25,31,5,22,6], [21,38,36,18,0,12,35,29,38,42,17,20,29,16,20,37,9,23,22,24,39,28,23,6],
   [19,11,42,2,14,0,31,6,27,23,30,17,21,5,34,39,9,29,10,23,4,9,25,6], [17,27,4,30,27,31,26,26,15,4,0,15,13,37,4,42,9,35,41,21,12,32,26,6],
   [15,0,10,14,41,19,22,3,4,28,12,12,5,26,18,1,10,41,29,20,20,12,28,6], [13,16,15,41,11,8,18,23,35,8,25,9,40,14,32,3,10,4,18,19,28,35,29,6],
   [11,32,20,25,25,39,13,0,24,32,37,6,32,3,3,6,10,10,6,18,36,15,31,6], [9,5,26,9,39,27,9,20,12,13,7,4,24,35,16,8,10,16,37,16,1,39,32,6],
   [7,21,31,36,9,16,5,40,0,37,19,1,16,24,30,10,10,22,25,15,9,19,34,6], [5,37,36,20,23,4,1,17,32,17,32,41,7,13,1,13,10,28,13,14,17,42,35,6],
   [3,10,42,4,37,35,39,36,20,41,1,39,42,1,15,15,10,34,1,13,25,22,37,6], [1,26,4,32,7,24,35,13,9,22,14,36,34,33,28,17,10,40,32,11,33,2,39,6],
   [42,41,9,16,21,12,31,33,40,2,27,33,26,22,42,19,10,3,21,10,41,25,40,6], [40,14,15,0,35,0,27,10,29,26,39,30,18,11,13,22,10,9,9,9,6,6,42,6],
   [38,30,20,27,5,32,22,30,17,7,9,28,10,0,27,24,10,15,40,7,14,29,0,7], [36,3,26,11,19,20,18,7,6,31,21,25,2,32,40,26,10,21,28,6,22,9,2,7],
   [34,19,31,38,32,8,14,27,37,11,34,22,37,20,11,29,10,27,16,5,30,32,3,7], [32,35,36,22,3,40,9,4,26,35,3,20,29,9,25,31,10,33,4,4,38,12,5,7],
   [30,8,42,6,17,28,5,24,14,16,16,17,21,41,38,33,10,39,35,2,3,36,6,7], [28,24,4,34,30,16,1,1,3,40,28,14,13,30,9,36,10,2,24,1,11,16,8,7],
   [26,40,9,18,1,5,40,20,34,20,41,11,5,19,23,38,10,8,12,0,19,39,9,7], [24,13,15,2,15,36,35,40,22,1,11,9,40,7,37,40,10,14,0,42,26,19,11,7],
   [22,29,20,29,28,24,31,17,11,25,23,6,32,39,7,0,11,20,31,40,34,42,12,7], [20,2,26,13,42,12,27,37,42,5,36,3,24,28,21,2,11,26,19,39,42,22,14,7],
   [18,18,31,40,12,1,23,14,31,29,5,1,16,17,35,4,11,32,7,38,7,3,16,7], [16,34,36,24,26,32,18,34,19,10,18,41,7,6,6,7,11,38,38,36,15,26,17,7],
   [14,7,42,8,40,20,14,11,8,34,30,38,42,37,19,9,11,1,27,35,23,6,19,7], [12,23,4,36,10,9,10,31,39,14,0,36,34,26,33,11,11,7,15,34,31,29,20,7],
   [10,39,9,20,24,40,5,8,28,38,12,33,26,15,4,14,11,13,3,33,39,9,22,7], [8,12,15,4,38,28,1,28,16,19,25,30,18,4,18,16,11,19,34,31,4,33,23,7],
   [6,28,20,31,8,17,40,4,5,0,38,27,10,36,31,18,11,25,22,30,12,13,25,7], [4,1,26,15,22,5,36,24,36,23,7,25,2,25,2,21,11,31,10,29,20,36,26,7],
   [2,17,31,42,35,36,31,1,25,4,20,22,37,13,16,23,11,37,41,27,28,16,28,7], [0,33,36,26,6,25,27,21,13,28,32,19,29,2,30,25,11,0,30,26,36,39,29,7],
   [41,5,42,10,20,13,23,41,1,9,2,17,21,34,0,28,11,6,18,25,1,20,31,7], [39,21,4,38,33,1,19,18,33,32,14,14,13,23,14,30,11,12,6,24,9,0,33,7],
   [37,37,9,22,4,33,14,38,21,13,27,11,5,12,28,32,11,18,37,22,17,23,34,7], [35,10,15,6,18,21,10,15,10,37,39,8,40,0,42,34,11,24,25,21,25,3,36,7],
   [33,26,20,33,31,9,6,35,41,17,9,6,32,32,12,37,11,30,13,20,33,26,37,7], [31,42,25,17,2,41,1,12,30,41,21,3,24,21,26,39,11,36,1,19,41,6,39,7],
   [29,15,31,1,16,29,40,31,18,22,34,0,16,10,40,41,11,42,32,17,6,30,40,7], [27,31,36,28,29,17,36,8,7,3,4,41,7,42,10,1,12,5,21,16,14,10,42,7],
   [25,4,42,12,0,6,32,28,38,26,16,38,42,30,24,3,12,11,9,15,22,33,0,8], [23,20,4,40,13,37,27,5,27,7,29,35,34,19,38,5,12,17,40,13,30,13,2,8],
   [21,36,9,24,27,25,23,25,15,31,41,32,26,8,9,8,12,23,28,12,38,36,3,8], [19,9,15,8,41,13,19,2,4,12,11,30,18,40,22,10,12,29,16,11,3,17,5,8],
   [17,25,20,35,11,2,15,22,35,35,23,27,10,29,36,12,12,35,4,10,11,40,6,8], [15,41,25,19,25,33,10,42,23,16,36,24,2,18,7,15,12,41,35,8,19,20,8,8],
   [13,14,31,3,39,21,6,19,12,40,5,22,37,6,21,17,12,4,24,7,27,0,10,8], [11,30,36,30,9,10,2,39,0,21,18,19,29,38,34,19,12,10,12,6,35,23,11,8],
   [9,3,42,14,23,41,40,15,32,1,31,16,21,27,5,22,12,16,0,5,0,4,13,8], [7,19,4,42,36,29,36,35,20,25,0,14,13,16,19,24,12,22,31,3,8,27,14,8],
   [5,35,9,26,7,18,32,12,9,6,13,11,5,5,33,26,12,28,19,2,16,7,16,8], [3,8,15,10,21,6,28,32,40,29,25,8,40,36,3,29,12,34,7,1,24,30,17,8],
   [1,24,20,37,34,37,23,9,29,10,38,5,32,25,17,31,12,40,38,42,31,10,19,8], [42,39,25,21,5,26,19,29,17,34,7,3,24,14,31,33,12,3,27,41,39,33,20,8],
   [40,12,31,5,19,14,15,6,6,15,20,0,16,3,2,36,12,9,15,40,4,14,22,8], [38,28,36,32,32,2,11,26,37,38,32,40,7,35,15,38,12,15,3,39,12,37,23,8],
   [36,1,42,16,3,34,6,3,26,19,2,38,42,23,29,40,12,21,34,37,20,17,25,8], [34,17,4,1,17,22,2,23,14,0,15,35,34,12,0,0,13,27,22,36,28,40,26,8],
   [32,33,9,28,30,10,41,42,2,24,27,32,26,1,14,2,13,33,10,35,36,20,28,8], [30,6,15,12,1,42,36,19,34,4,40,29,18,33,27,4,13,39,41,33,1,1,30,8],
   [28,22,20,39,14,30,32,39,22,28,9,27,10,22,41,6,13,2,30,32,9,24,31,8], [26,38,25,23,28,18,28,16,11,9,22,24,2,11,12,9,13,8,18,31,17,4,33,8],
   [24,11,31,7,42,6,24,36,42,32,34,21,37,42,25,11,13,14,6,30,25,27,34,8], [22,27,36,34,12,38,19,13,31,13,4,19,29,31,39,13,13,20,37,28,33,7,36,8],
   [20,0,42,18,26,26,15,33,19,37,16,16,21,20,10,16,13,26,25,27,41,30,37,8], [18,16,4,3,40,14,11,10,8,18,29,13,13,9,24,18,13,32,13,26,6,11,39,8],
   [16,32,9,30,10,3,7,30,39,41,41,10,5,41,37,20,13,38,1,25,14,34,40,8], [14,5,15,14,24,34,2,7,28,22,11,8,40,29,8,23,13,1,33,23,22,14,42,8],
   [12,21,20,41,37,22,41,26,16,3,24,5,32,18,22,25,13,7,21,22,30,37,0,9], [10,37,25,25,8,11,37,3,5,27,36,2,24,7,36,27,13,13,9,21,38,17,2,9],
   [8,10,31,9,22,42,32,23,36,7,6,0,16,39,6,30,13,19,40,19,3,41,3,9], [6,26,36,36,35,30,28,0,25,31,18,40,7,28,20,32,13,25,28,18,11,21,5,9]]"

lemma BASE43_POS14_ok: "table_ok 43 23 14 BASE43_POS14"
proof (rule table_okI)
  show "rows_step 43 [1, 38, 3, 41, 8, 11, 14, 11, 18, 21, 36, 24, 35, 4, 29, 21, 0, 20, 1, 5, 11, 0, 0] BASE43_POS14"
    by (simp only: BASE43_POS14_def rows_step_eval cong: if_weak_cong)
  show "length BASE43_POS14 = 256"
    by (simp only: BASE43_POS14_def length_table_eval)
  show "hd BASE43_POS14 = [0, 0, 0, 0, 0, 0, 0, 0, 0, 0, 0, 0, 0, 0, 0, 0, 0, 0, 0, 0, 0, 0, 0]"
    by (simp only: BASE43_POS14_def list.sel)
qed (simp_all add: digit_simps)

lemma BASE43_POS15_ok: "table_ok 43 24 15 BASE43_POS15"
proof (rule table_okI)
  show "rows_step 43 [41, 15, 5, 27, 13, 31, 38, 19, 31, 23, 12, 40, 34, 31, 13, 2, 0, 6, 31, 41, 7, 23, 1, 0] BASE43_POS15"
    by (simp only: BASE43_POS15_def rows_step_eval cong: if_weak_cong)
  show "length BASE43_POS15 = 256"
    by (simp only: BASE43_POS15_def length_table_eval)
  show "hd BASE43_POS15 = [0, 0, 0, 0, 0, 0, 0, 0, 0, 0, 0, 0, 0, 0, 0, 0, 0, 0, 0, 0, 0, 0, 0, 0]"
    by (simp only: BASE43_POS15_def list.sel)
qed (simp_all add: digit_simps)

end
