(* ===== verification/Tables_47_A.thy ===== *)
theory Tables_47_A
  imports Digits
begin

text \<open>
  The tables \<open>BASE47_POS0\<close> to \<open>BASE47_POS6\<close> of \<^verbatim>\<open>fancy-garbling/base_conversion/cbits/lookup_tables.c\<close>,
  entry by entry, as lists of rows of \<open>uint16_t\<close> values read as naturals.  Each lemma \<open>_ok\<close> shows that row \<open>x\<close> holds the base-47
  digits of \<open>x * 256 ^ pos\<close>, for the width that the declaration of the table has.
\<close>

definition BASE47_POS0 :: "nat list list" where
  "BASE47_POS0 = [
   [0,0], [1,0], [2,0], [3,0], [4,0], [5,0], [6,0], [7,0], [8,0], [9,0], [10,0], [11,0], [12,0], [13,0],
   [14,0], [15,0], [16,0], [17,0], [18,0], [19,0], [20,0], [21,0], [22,0], [23,0], [24,0], [25,0], [26,0],
   [27,0], [28,0], [29,0], [30,0], [31,0], [32,0], [33,0], [34,0], [35,0], [36,0], [37,0], [38,0], [39,0],
   [40,0], [41,0], [42,0], [43,0], [44,0], [45,0], [46,0], [0,1], [1,1], [2,1], [3,1], [4,1], [5,1], [6,1],
   [7,1], [8,1], [9,1], [10,1], [11,1], [12,1], [13,1], [14,1], [15,1], [16,1], [17,1], [18,1], [19,1],
   [20,1], [21,1], [22,1], [23,1], [24,1], [25,1], [26,1], [27,1], [28,1], [29,1], [30,1], [31,1], [32,1],
   [33,1], [34,1], [35,1], [36,1], [37,1], [38,1], [39,1], [40,1], [41,1], [42,1], [43,1], [44,1], [45,1],
   [46,1], [0,2], [1,2], [2,2], [3,2], [4,2], [5,2], [6,2], [7,2], [8,2], [9,2], [10,2], [11,2], [12,2],
   [13,2], [14,2], [15,2], [16,2], [17,2], [18,2], [19,2], [20,2], [21,2], [22,2], [23,2], [24,2], [25,2],
   [26,2], [27,2], [28,2], [29,2], [30,2], [31,2], [32,2], [33,2], [34,2], [35,2], [36,2], [37,2], [38,2],
   [39,2], [40,2], [41,2], [42,2], [43,2], [44,2], [45,2], [46,2], [0,3], [1,3], [2,3], [3,3], [4,3], [5,3],
   [6,3], [7,3], [8,3], [9,3], [10,3], [11,3], [12,3], [13,3], [14,3], [15,3], [16,3], [17,3], [18,3], [19,3],
   [20,3], [21,3], [22,3], [23,3], [24,3], [25,3], [26,3], [27,3], [28,3], [29,3], [30,3], [31,3], [32,3],
   [33,3], [34,3], [35,3], [36,3], [37,3], [38,3], [39,3], [40,3], [41,3], [42,3], [43,3], [44,3], [45,3],
   [46,3], [0,4], [1,4], [2,4], [3,4], [4,4], [5,4], [6,4], [7,4], [8,4], [9,4], [10,4], [11,4], [12,4],
   [13,4], [14,4], [15,4], [16,4], [17,4], [18,4], [19,4], [20,4], [21,4], [22,4], [23,4], [24,4], [25,4],
   [26,4], [27,4], [28,4], [29,4], [30,4], [31,4], [32,4], [33,4], [34,4], [35,4], [36,4], [37,4], [38,4],
   [39,4], [40,4], [41,4], [42,4], [43,4], [44,4], [45,4], [46,4], [0,5], [1,5], [2,5], [3,5], [4,5], [5,5],
   [6,5], [7,5], [8,5], [9,5], [10,5], [11,5], [12,5], [13,5], [14,5], [15,5], [16,5], [17,5], [18,5], [19,5],
   [20,5]]"

definition BASE47_POS1 :: "nat list list" where
  "BASE47_POS1 = [
   [0,0,0], [21,5,0], [42,10,0], [16,16,0], [37,21,0], [11,27,0], [32,32,0], [6,38,0], [27,43,0], [1,2,1],
   [22,7,1], [43,12,1], [17,18,1], [38,23,1], [12,29,1], [33,34,1], [7,40,1], [28,45,1], [2,4,2], [23,9,2],
   [44,14,2], [18,20,2], [39,25,2], [13,31,2], [34,36,2], [8,42,2], [29,0,3], [3,6,3], [24,11,3], [45,16,3],
   [19,22,3], [40,27,3], [14,33,3], [35,38,3], [9,44,3], [30,2,4], [4,8,4], [25,13,4], [46,18,4], [20,24,4],
   [41,29,4], [15,35,4], [36,40,4], [10,46,4], [31,4,5], [5,10,5], [26,15,5], [0,21,5], [21,26,5], [42,31,5],
   [16,37,5], [37,42,5], [11,1,6], [32,6,6], [6,12,6], [27,17,6], [1,23,6], [22,28,6], [43,33,6], [17,39,6],
   [38,44,6], [12,3,7], [33,8,7], [7,14,7], [28,19,7], [2,25,7], [23,30,7], [44,35,7], [18,41,7], [39,46,7],
   [13,5,8], [34,10,8], [8,16,8], [29,21,8], [3,27,8], [24,32,8], [45,37,8], [19,43,8], [40,1,9], [14,7,9],
   [35,12,9], [9,18,9], [30,23,9], [4,29,9], [25,34,9], [46,39,9], [20,45,9], [41,3,10], [15,9,10], [36,14,10],
   [10,20,10], [31,25,10], [5,31,10], [26,36,10], [0,42,10], [21,0,11], [42,5,11], [16,11,11], [37,16,11],
   [11,22,11], [32,27,11], [6,33,11], [27,38,11], [1,44,11], [22,2,12], [43,7,12], [17,13,12], [38,18,12],
   [12,24,12], [33,29,12], [7,35,12], [28,40,12], [2,46,12], [23,4,13], [44,9,13], [18,15,13], [39,20,13],
   [13,26,13], [34,31,13], [8,37,13], [29,42,13], [3,1,14], [24,6,14], [45,11,14], [19,17,14], [40,22,14],
   [14,28,14], [35,33,14], [9,39,14], [30,44,14], [4,3,15], [25,8,15], [46,13,15], [20,19,15], [41,24,15],
   [15,30,15], [36,35,15], [10,41,15], [31,46,15], [5,5,16], [26,10,16], [0,16,16], [21,21,16], [42,26,16],
   [16,32,16], [37,37,16], [11,43,16], [32,1,17], [6,7,17], [27,12,17], [1,18,17], [22,23,17], [43,28,17],
   [17,34,17], [38,39,17], [12,45,17], [33,3,18], [7,9,18], [28,14,18], [2,20,18], [23,25,18], [44,30,18],
   [18,36,18], [39,41,18], [13,0,19], [34,5,19], [8,11,19], [29,16,19], [3,22,19], [24,27,19], [45,32,19],
   [19,38,19], [40,43,19], [14,2,20], [35,7,20], [9,13,20], [30,18,20], [4,24,20], [25,29,20], [46,34,20],
   [20,40,20], [41,45,20], [15,4,21], [36,9,21], [10,15,21], [31,20,21], [5,26,21], [26,31,21], [0,37,21],
   [21,42,21], [42,0,22], [16,6,22], [37,11,22], [11,17,22], [32,22,22], [6,28,22], [27,33,22], [1,39,22],
   [22,44,22], [43,2,23], [17,8,23], [38,13,23], [12,19,23], [33,24,23], [7,30,23], [28,35,23], [2,41,23],
   [23,46,23], [44,4,24], [18,10,24], [39,15,24], [13,21,24], [34,26,24], [8,32,24], [29,37,24], [3,43,24],
   [24,1,25], [45,6,25], [19,12,25], [40,17,25], [14,23,25], [35,28,25], [9,34,25], [30,39,25], [4,45,25],
   [25,3,26], [46,8,26], [20,14,26], [41,19,26], [15,25,26], [36,30,26], [10,36,26], [31,41,26], [5,0,27],
   [26,5,27], [0,11,27], [21,16,27], [42,21,27], [16,27,27], [37,32,27], [11,38,27], [32,43,27], [6,2,28],
   [27,7,28], [1,13,28], [22,18,28], [43,23,28], [17,29,28], [38,34,28], [12,40,28], [33,45,28], [7,4,29],
   [28,9,29], [2,15,29], [23,20,29], [44,25,29]]"

definition BASE47_POS2 :: "nat list list" where
  "BASE47_POS2 = [
   [0,0,0,0,0], [18,31,29,0,0], [36,15,12,1,0], [7,0,42,1,0], [25,31,24,2,0], [43,15,7,3,0], [14,0,37,3,0],
   [32,31,19,4,0], [3,16,2,5,0], [21,0,32,5,0], [39,31,14,6,0], [10,16,44,6,0], [28,0,27,7,0], [46,31,9,8,0],
   [17,16,39,8,0], [35,0,22,9,0], [6,32,4,10,0], [24,16,34,10,0], [42,0,17,11,0], [13,32,46,11,0], [31,16,29,12,0],
   [2,1,12,13,0], [20,32,41,13,0], [38,16,24,14,0], [9,1,7,15,0], [27,32,36,15,0], [45,16,19,16,0], [16,1,2,17,0],
   [34,32,31,17,0], [5,17,14,18,0], [23,1,44,18,0], [41,32,26,19,0], [12,17,9,20,0], [30,1,39,20,0], [1,33,21,21,0],
   [19,17,4,22,0], [37,1,34,22,0], [8,33,16,23,0], [26,17,46,23,0], [44,1,29,24,0], [15,33,11,25,0], [33,17,41,25,0],
   [4,2,24,26,0], [22,33,6,27,0], [40,17,36,27,0], [11,2,19,28,0], [29,33,1,29,0], [0,18,31,29,0], [18,2,14,30,0],
   [36,33,43,30,0], [7,18,26,31,0], [25,2,9,32,0], [43,33,38,32,0], [14,18,21,33,0], [32,2,4,34,0], [3,34,33,34,0],
   [21,18,16,35,0], [39,2,46,35,0], [10,34,28,36,0], [28,18,11,37,0], [46,2,41,37,0], [17,34,23,38,0], [35,18,6,39,0],
   [6,3,36,39,0], [24,34,18,40,0], [42,18,1,41,0], [13,3,31,41,0], [31,34,13,42,0], [2,19,43,42,0], [20,3,26,43,0],
   [38,34,8,44,0], [9,19,38,44,0], [27,3,21,45,0], [45,34,3,46,0], [16,19,33,46,0], [34,3,16,0,1], [5,35,45,0,1],
   [23,19,28,1,1], [41,3,11,2,1], [12,35,40,2,1], [30,19,23,3,1], [1,4,6,4,1], [19,35,35,4,1], [37,19,18,5,1],
   [8,4,1,6,1], [26,35,30,6,1], [44,19,13,7,1], [15,4,43,7,1], [33,35,25,8,1], [4,20,8,9,1], [22,4,38,9,1],
   [40,35,20,10,1], [11,20,3,11,1], [29,4,33,11,1], [0,36,15,12,1], [18,20,45,12,1], [36,4,28,13,1], [7,36,10,14,1],
   [25,20,40,14,1], [43,4,23,15,1], [14,36,5,16,1], [32,20,35,16,1], [3,5,18,17,1], [21,36,0,18,1], [39,20,30,18,1],
   [10,5,13,19,1], [28,36,42,19,1], [46,20,25,20,1], [17,5,8,21,1], [35,36,37,21,1], [6,21,20,22,1], [24,5,3,23,1],
   [42,36,32,23,1], [13,21,15,24,1], [31,5,45,24,1], [2,37,27,25,1], [20,21,10,26,1], [38,5,40,26,1], [9,37,22,27,1],
   [27,21,5,28,1], [45,5,35,28,1], [16,37,17,29,1], [34,21,0,30,1], [5,6,30,30,1], [23,37,12,31,1], [41,21,42,31,1],
   [12,6,25,32,1], [30,37,7,33,1], [1,22,37,33,1], [19,6,20,34,1], [37,37,2,35,1], [8,22,32,35,1], [26,6,15,36,1],
   [44,37,44,36,1], [15,22,27,37,1], [33,6,10,38,1], [4,38,39,38,1], [22,22,22,39,1], [40,6,5,40,1], [11,38,34,40,1],
   [29,22,17,41,1], [0,7,0,42,1], [18,38,29,42,1], [36,22,12,43,1], [7,7,42,43,1], [25,38,24,44,1], [43,22,7,45,1],
   [14,7,37,45,1], [32,38,19,46,1], [3,23,2,0,2], [21,7,32,0,2], [39,38,14,1,2], [10,23,44,1,2], [28,7,27,2,2],
   [46,38,9,3,2], [17,23,39,3,2], [35,7,22,4,2], [6,39,4,5,2], [24,23,34,5,2], [42,7,17,6,2], [13,39,46,6,2],
   [31,23,29,7,2], [2,8,12,8,2], [20,39,41,8,2], [38,23,24,9,2], [9,8,7,10,2], [27,39,36,10,2], [45,23,19,11,2],
   [16,8,2,12,2], [34,39,31,12,2], [5,24,14,13,2], [23,8,44,13,2], [41,39,26,14,2], [12,24,9,15,2], [30,8,39,15,2],
   [1,40,21,16,2], [19,24,4,17,2], [37,8,34,17,2], [8,40,16,18,2], [26,24,46,18,2], [44,8,29,19,2], [15,40,11,20,2],
   [33,24,41,20,2], [4,9,24,21,2], [22,40,6,22,2], [40,24,36,22,2], [11,9,19,23,2], [29,40,1,24,2], [0,25,31,24,2],
   [18,9,14,25,2], [36,40,43,25,2], [7,25,26,26,2], [25,9,9,27,2], [43,40,38,27,2], [14,25,21,28,2], [32,9,4,29,2],
   [3,41,33,29,2], [21,25,16,30,2], [39,9,46,30,2], [10,41,28,31,2], [28,25,11,32,2], [46,9,41,32,2], [17,41,23,33,2],
   [35,25,6,34,2], [6,10,36,34,2], [24,41,18,35,2], [42,25,1,36,2], [13,10,31,36,2], [31,41,13,37,2], [2,26,43,37,2],
   [20,10,26,38,2], [38,41,8,39,2], [9,26,38,39,2], [27,10,21,40,2], [45,41,3,41,2], [16,26,33,41,2], [34,10,16,42,2],
   [5,42,45,42,2], [23,26,28,43,2], [41,10,11,44,2], [12,42,40,44,2], [30,26,23,45,2], [1,11,6,46,2], [19,42,35,46,2],
   [37,26,18,0,3], [8,11,1,1,3], [26,42,30,1,3], [44,26,13,2,3], [15,11,43,2,3], [33,42,25,3,3], [4,27,8,4,3],
   [22,11,38,4,3], [40,42,20,5,3], [11,27,3,6,3], [29,11,33,6,3], [0,43,15,7,3], [18,27,45,7,3], [36,11,28,8,3],
   [7,43,10,9,3], [25,27,40,9,3], [43,11,23,10,3], [14,43,5,11,3], [32,27,35,11,3], [3,12,18,12,3], [21,43,0,13,3],
   [39,27,30,13,3], [10,12,13,14,3], [28,43,42,14,3], [46,27,25,15,3], [17,12,8,16,3], [35,43,37,16,3],
   [6,28,20,17,3], [24,12,3,18,3], [42,43,32,18,3], [13,28,15,19,3], [31,12,45,19,3]]"

definition BASE47_POS3 :: "nat list list" where
  "BASE47_POS3 = [
   [0,0,0,0,0,0], [2,44,27,20,3,0], [4,41,8,41,6,0], [6,38,36,14,10,0], [8,35,17,35,13,0], [10,32,45,8,17,0],
   [12,29,26,29,20,0], [14,26,7,3,24,0], [16,23,35,23,27,0], [18,20,16,44,30,0], [20,17,44,17,34,0], [22,14,25,38,37,0],
   [24,11,6,12,41,0], [26,8,34,32,44,0], [28,5,15,6,1,1], [30,2,43,26,4,1], [32,46,23,0,8,1], [34,43,4,21,11,1],
   [36,40,32,41,14,1], [38,37,13,15,18,1], [40,34,41,35,21,1], [42,31,22,9,25,1], [44,28,3,30,28,1], [46,25,31,3,32,1],
   [1,23,12,24,35,1], [3,20,40,44,38,1], [5,17,21,18,42,1], [7,14,2,39,45,1], [9,11,30,12,2,2], [11,8,11,33,5,2],
   [13,5,39,6,9,2], [15,2,20,27,12,2], [17,46,0,1,16,2], [19,43,28,21,19,2], [21,40,9,42,22,2], [23,37,37,15,26,2],
   [25,34,18,36,29,2], [27,31,46,9,33,2], [29,28,27,30,36,2], [31,25,8,4,40,2], [33,22,36,24,43,2], [35,19,17,45,46,2],
   [37,16,45,18,3,3], [39,13,26,39,6,3], [41,10,7,13,10,3], [43,7,35,33,13,3], [45,4,16,7,17,3], [0,2,44,27,20,3],
   [2,46,24,1,24,3], [4,43,5,22,27,3], [6,40,33,42,30,3], [8,37,14,16,34,3], [10,34,42,36,37,3], [12,31,23,10,41,3],
   [14,28,4,31,44,3], [16,25,32,4,1,4], [18,22,13,25,4,4], [20,19,41,45,7,4], [22,16,22,19,11,4], [24,13,3,40,14,4],
   [26,10,31,13,18,4], [28,7,12,34,21,4], [30,4,40,7,25,4], [32,1,21,28,28,4], [34,45,1,2,32,4], [36,42,29,22,35,4],
   [38,39,10,43,38,4], [40,36,38,16,42,4], [42,33,19,37,45,4], [44,30,0,11,2,5], [46,27,28,31,5,5], [1,25,9,5,9,5],
   [3,22,37,25,12,5], [5,19,18,46,15,5], [7,16,46,19,19,5], [9,13,27,40,22,5], [11,10,8,14,26,5], [13,7,36,34,29,5],
   [15,4,17,8,33,5], [17,1,45,28,36,5], [19,45,25,2,40,5], [21,42,6,23,43,5], [23,39,34,43,46,5], [25,36,15,17,3,6],
   [27,33,43,37,6,6], [29,30,24,11,10,6], [31,27,5,32,13,6], [33,24,33,5,17,6], [35,21,14,26,20,6], [37,18,42,46,23,6],
   [39,15,23,20,27,6], [41,12,4,41,30,6], [43,9,32,14,34,6], [45,6,13,35,37,6], [0,4,41,8,41,6], [2,1,22,29,44,6],
   [4,45,2,3,1,7], [6,42,30,23,4,7], [8,39,11,44,7,7], [10,36,39,17,11,7], [12,33,20,38,14,7], [14,30,1,12,18,7],
   [16,27,29,32,21,7], [18,24,10,6,25,7], [20,21,38,26,28,7], [22,18,19,0,32,7], [24,15,0,21,35,7], [26,12,28,41,38,7],
   [28,9,9,15,42,7], [30,6,37,35,45,7], [32,3,18,9,2,8], [34,0,46,29,5,8], [36,44,26,3,9,8], [38,41,7,24,12,8],
   [40,38,35,44,15,8], [42,35,16,18,19,8], [44,32,44,38,22,8], [46,29,25,12,26,8], [1,27,6,33,29,8], [3,24,34,6,33,8],
   [5,21,15,27,36,8], [7,18,43,0,40,8], [9,15,24,21,43,8], [11,12,5,42,46,8], [13,9,33,15,3,9], [15,6,14,36,6,9],
   [17,3,42,9,10,9], [19,0,23,30,13,9], [21,44,3,4,17,9], [23,41,31,24,20,9], [25,38,12,45,23,9], [27,35,40,18,27,9],
   [29,32,21,39,30,9], [31,29,2,13,34,9], [33,26,30,33,37,9], [35,23,11,7,41,9], [37,20,39,27,44,9], [39,17,20,1,1,10],
   [41,14,1,22,4,10], [43,11,29,42,7,10], [45,8,10,16,11,10], [0,6,38,36,14,10], [2,3,19,10,18,10], [4,0,0,31,21,10],
   [6,44,27,4,25,10], [8,41,8,25,28,10], [10,38,36,45,31,10], [12,35,17,19,35,10], [14,32,45,39,38,10],
   [16,29,26,13,42,10], [18,26,7,34,45,10], [20,23,35,7,2,11], [22,20,16,28,5,11], [24,17,44,1,9,11], [26,14,25,22,12,11],
   [28,11,6,43,15,11], [30,8,34,16,19,11], [32,5,15,37,22,11], [34,2,43,10,26,11], [36,46,23,31,29,11],
   [38,43,4,5,33,11], [40,40,32,25,36,11], [42,37,13,46,39,11], [44,34,41,19,43,11], [46,31,22,40,46,11],
   [1,29,3,14,3,12], [3,26,31,34,6,12], [5,23,12,8,10,12], [7,20,40,28,13,12], [9,17,21,2,17,12], [11,14,2,23,20,12],
   [13,11,30,43,23,12], [15,8,11,17,27,12], [17,5,39,37,30,12], [19,2,20,11,34,12], [21,46,0,32,37,12],
   [23,43,28,5,41,12], [25,40,9,26,44,12], [27,37,37,46,0,13], [29,34,18,20,4,13], [31,31,46,40,7,13], [33,28,27,14,11,13],
   [35,25,8,35,14,13], [37,22,36,8,18,13], [39,19,17,29,21,13], [41,16,45,2,25,13], [43,13,26,23,28,13],
   [45,10,7,44,31,13], [0,8,35,17,35,13], [2,5,16,38,38,13], [4,2,44,11,42,13], [6,46,24,32,45,13], [8,43,5,6,2,14],
   [10,40,33,26,5,14], [12,37,14,0,9,14], [14,34,42,20,12,14], [16,31,23,41,15,14], [18,28,4,15,19,14],
   [20,25,32,35,22,14], [22,22,13,9,26,14], [24,19,41,29,29,14], [26,16,22,3,33,14], [28,13,3,24,36,14],
   [30,10,31,44,39,14], [32,7,12,18,43,14], [34,4,40,38,46,14], [36,1,21,12,3,15], [38,45,1,33,6,15], [40,42,29,6,10,15],
   [42,39,10,27,13,15], [44,36,38,0,17,15], [46,33,19,21,20,15], [1,31,0,42,23,15], [3,28,28,15,27,15],
   [5,25,9,36,30,15], [7,22,37,9,34,15], [9,19,18,30,37,15], [11,16,46,3,41,15], [13,13,27,24,44,15], [15,10,8,45,0,16],
   [17,7,36,18,4,16], [19,4,17,39,7,16], [21,1,45,12,11,16], [23,45,25,33,14,16], [25,42,6,7,18,16], [27,39,34,27,21,16],
   [29,36,15,1,25,16], [31,33,43,21,28,16], [33,30,24,42,31,16], [35,27,5,16,35,16], [37,24,33,36,38,16],
   [39,21,14,10,42,16], [41,18,42,30,45,16], [43,15,23,4,2,17], [45,12,4,25,5,17], [0,10,32,45,8,17], [2,7,13,19,12,17],
   [4,4,41,39,15,17], [6,1,22,13,19,17], [8,45,2,34,22,17], [10,42,30,7,26,17], [12,39,11,28,29,17], [14,36,39,1,33,17],
   [16,33,20,22,36,17], [18,30,1,43,39,17], [20,27,29,16,43,17], [22,24,10,37,46,17], [24,21,38,10,3,18],
   [26,18,19,31,6,18], [28,15,0,5,10,18], [30,12,28,25,13,18], [32,9,9,46,16,18], [34,6,37,19,20,18], [36,3,18,40,23,18],
   [38,0,46,13,27,18], [40,44,26,34,30,18]]"

definition BASE47_POS4 :: "nat list list" where
  "BASE47_POS4 = [
   [0,0,0,0,0,0,0,0], [42,41,7,8,34,18,0,0], [37,36,15,16,21,37,0,0], [32,31,23,24,8,9,1,0], [27,26,31,32,42,27,1,0],
   [22,21,39,40,29,46,1,0], [17,16,0,2,17,18,2,0], [12,11,8,10,4,37,2,0], [7,6,16,18,38,8,3,0], [2,1,24,26,25,27,3,0],
   [44,42,31,34,12,46,3,0], [39,37,39,42,46,17,4,0], [34,32,0,4,34,36,4,0], [29,27,8,12,21,8,5,0], [24,22,16,20,8,27,5,0],
   [19,17,24,28,42,45,5,0], [14,12,32,36,29,17,6,0], [9,7,40,44,16,36,6,0], [4,2,1,6,4,8,7,0], [46,43,8,14,38,26,7,0],
   [41,38,16,22,25,45,7,0], [36,33,24,30,12,17,8,0], [31,28,32,38,46,35,8,0], [26,23,40,46,33,7,9,0], [21,18,1,8,21,26,9,0],
   [16,13,9,16,8,45,9,0], [11,8,17,24,42,16,10,0], [6,3,25,32,29,35,10,0], [1,45,32,40,16,7,11,0], [43,39,40,1,4,26,11,0],
   [38,34,1,10,38,44,11,0], [33,29,9,18,25,16,12,0], [28,24,17,26,12,35,12,0], [23,19,25,34,46,6,13,0],
   [18,14,33,42,33,25,13,0], [13,9,41,3,21,44,13,0], [8,4,2,12,8,16,14,0], [3,46,9,20,42,34,14,0], [45,40,17,28,29,6,15,0],
   [40,35,25,36,16,25,15,0], [35,30,33,44,3,44,15,0], [30,25,41,5,38,15,16,0], [25,20,2,14,25,34,16,0],
   [20,15,10,22,12,6,17,0], [15,10,18,30,46,24,17,0], [10,5,26,38,33,43,17,0], [5,0,34,46,20,15,18,0], [0,42,41,7,8,34,18,0],
   [42,36,2,16,42,5,19,0], [37,31,10,24,29,24,19,0], [32,26,18,32,16,43,19,0], [27,21,26,40,3,15,20,0],
   [22,16,34,1,38,33,20,0], [17,11,42,9,25,5,21,0], [12,6,3,18,12,24,21,0], [7,1,11,26,46,42,21,0], [2,43,18,34,33,14,22,0],
   [44,37,26,42,20,33,22,0], [39,32,34,3,8,5,23,0], [34,27,42,11,42,23,23,0], [29,22,3,20,29,42,23,0], [24,17,11,28,16,14,24,0],
   [19,12,19,36,3,33,24,0], [14,7,27,44,37,4,25,0], [9,2,35,5,25,23,25,0], [4,44,42,13,12,42,25,0], [46,38,3,22,46,13,26,0],
   [41,33,11,30,33,32,26,0], [36,28,19,38,20,4,27,0], [31,23,27,46,7,23,27,0], [26,18,35,7,42,41,27,0],
   [21,13,43,15,29,13,28,0], [16,8,4,24,16,32,28,0], [11,3,12,32,3,4,29,0], [6,45,19,40,37,22,29,0], [1,40,27,1,25,41,29,0],
   [43,34,35,9,12,13,30,0], [38,29,43,17,46,31,30,0], [33,24,4,26,33,3,31,0], [28,19,12,34,20,22,31,0],
   [23,14,20,42,7,41,31,0], [18,9,28,3,42,12,32,0], [13,4,36,11,29,31,32,0], [8,46,43,19,16,3,33,0], [3,41,4,28,3,22,33,0],
   [45,35,12,36,37,40,33,0], [40,30,20,44,24,12,34,0], [35,25,28,5,12,31,34,0], [30,20,36,13,46,2,35,0],
   [25,15,44,21,33,21,35,0], [20,10,5,30,20,40,35,0], [15,5,13,38,7,12,36,0], [10,0,21,46,41,30,36,0], [5,42,28,7,29,2,37,0],
   [0,37,36,15,16,21,37,0], [42,31,44,23,3,40,37,0], [37,26,5,32,37,11,38,0], [32,21,13,40,24,30,38,0],
   [27,16,21,1,12,2,39,0], [22,11,29,9,46,20,39,0], [17,6,37,17,33,39,39,0], [12,1,45,25,20,11,40,0], [7,43,5,34,7,30,40,0],
   [2,38,13,42,41,1,41,0], [44,32,21,3,29,20,41,0], [39,27,29,11,16,39,41,0], [34,22,37,19,3,11,42,0], [29,17,45,27,37,29,42,0],
   [24,12,6,36,24,1,43,0], [19,7,14,44,11,20,43,0], [14,2,22,5,46,38,43,0], [9,44,29,13,33,10,44,0], [4,39,37,21,20,29,44,0],
   [46,33,45,29,7,1,45,0], [41,28,6,38,41,19,45,0], [36,23,14,46,28,38,45,0], [31,18,22,7,16,10,46,0], [26,13,30,15,3,29,46,0],
   [21,8,38,23,37,0,0,1], [16,3,46,31,24,19,0,1], [11,45,6,40,11,38,0,1], [6,40,14,1,46,9,1,1], [1,35,22,9,33,28,1,1],
   [43,29,30,17,20,0,2,1], [38,24,38,25,7,19,2,1], [33,19,46,33,41,37,2,1], [28,14,7,42,28,9,3,1], [23,9,15,3,16,28,3,1],
   [18,4,23,11,3,0,4,1], [13,46,30,19,37,18,4,1], [8,41,38,27,24,37,4,1], [3,36,46,35,11,9,5,1], [45,30,7,44,45,27,5,1],
   [40,25,15,5,33,46,5,1], [35,20,23,13,20,18,6,1], [30,15,31,21,7,37,6,1], [25,10,39,29,41,8,7,1], [20,5,0,38,28,27,7,1],
   [15,0,8,46,15,46,7,1], [10,42,15,7,3,18,8,1], [5,37,23,15,37,36,8,1], [0,32,31,23,24,8,9,1], [42,26,39,31,11,27,9,1],
   [37,21,0,40,45,45,9,1], [32,16,8,1,33,17,10,1], [27,11,16,9,20,36,10,1], [22,6,24,17,7,8,11,1], [17,1,32,25,41,26,11,1],
   [12,43,39,33,28,45,11,1], [7,38,0,42,15,17,12,1], [2,33,8,3,3,36,12,1], [44,27,16,11,37,7,13,1], [39,22,24,19,24,26,13,1],
   [34,17,32,27,11,45,13,1], [29,12,40,35,45,16,14,1], [24,7,1,44,32,35,14,1], [19,2,9,5,20,7,15,1], [14,44,16,13,7,26,15,1],
   [9,39,24,21,41,44,15,1], [4,34,32,29,28,16,16,1], [46,28,40,37,15,35,16,1], [41,23,1,46,2,7,17,1], [36,18,9,7,37,25,17,1],
   [31,13,17,15,24,44,17,1], [26,8,25,23,11,16,18,1], [21,3,33,31,45,34,18,1], [16,45,40,39,32,6,19,1],
   [11,40,1,1,20,25,19,1], [6,35,9,9,7,44,19,1], [1,30,17,17,41,15,20,1], [43,24,25,25,28,34,20,1], [38,19,33,33,15,6,21,1],
   [33,14,41,41,2,25,21,1], [28,9,2,3,37,43,21,1], [23,4,10,11,24,15,22,1], [18,46,17,19,11,34,22,1], [13,41,25,27,45,5,23,1],
   [8,36,33,35,32,24,23,1], [3,31,41,43,19,43,23,1], [45,25,2,5,7,15,24,1], [40,20,10,13,41,33,24,1], [35,15,18,21,28,5,25,1],
   [30,10,26,29,15,24,25,1], [25,5,34,37,2,43,25,1], [20,0,42,45,36,14,26,1], [15,42,2,7,24,33,26,1], [10,37,10,15,11,5,27,1],
   [5,32,18,23,45,23,27,1], [0,27,26,31,32,42,27,1], [42,21,34,39,19,14,28,1], [37,16,42,0,7,33,28,1], [32,11,3,9,41,4,29,1],
   [27,6,11,17,28,23,29,1], [22,1,19,25,15,42,29,1], [17,43,26,33,2,14,30,1], [12,38,34,41,36,32,30,1],
   [7,33,42,2,24,4,31,1], [2,28,3,11,11,23,31,1], [44,22,11,19,45,41,31,1], [39,17,19,27,32,13,32,1], [34,12,27,35,19,32,32,1],
   [29,7,35,43,6,4,33,1], [24,2,43,4,41,22,33,1], [19,44,3,13,28,41,33,1], [14,39,11,21,15,13,34,1], [9,34,19,29,2,32,34,1],
   [4,29,27,37,36,3,35,1], [46,23,35,45,23,22,35,1], [41,18,43,6,11,41,35,1], [36,13,4,15,45,12,36,1], [31,8,12,23,32,31,36,1],
   [26,3,20,31,19,3,37,1], [21,45,27,39,6,22,37,1], [16,40,35,0,41,40,37,1], [11,35,43,8,28,12,38,1], [6,30,4,17,15,31,38,1],
   [1,25,12,25,2,3,39,1], [43,19,20,33,36,21,39,1], [38,14,28,41,23,40,39,1], [33,9,36,2,11,12,40,1], [28,4,44,10,45,30,40,1],
   [23,46,4,19,32,2,41,1], [18,41,12,27,19,21,41,1], [13,36,20,35,6,40,41,1], [8,31,28,43,40,11,42,1], [3,26,36,4,28,30,42,1],
   [45,20,44,12,15,2,43,1], [40,15,5,21,2,21,43,1], [35,10,13,29,36,39,43,1], [30,5,21,37,23,11,44,1], [25,0,29,45,10,30,44,1],
   [20,42,36,6,45,1,45,1], [15,37,44,14,32,20,45,1], [10,32,5,23,19,39,45,1], [5,27,13,31,6,11,46,1], [0,22,21,39,40,29,46,1],
   [42,16,29,0,28,1,0,2], [37,11,37,8,15,20,0,2], [32,6,45,16,2,39,0,2], [27,1,6,25,36,10,1,2], [22,43,13,33,23,29,1,2],
   [17,38,21,41,10,1,2,2], [12,33,29,2,45,19,2,2], [7,28,37,10,32,38,2,2], [2,23,45,18,19,10,3,2], [44,17,6,27,6,29,3,2],
   [39,12,14,35,40,0,4,2], [34,7,22,43,27,19,4,2], [29,2,30,4,15,38,4,2], [24,44,37,12,2,10,5,2], [19,39,45,20,36,28,5,2],
   [14,34,6,29,23,0,6,2], [9,29,14,37,10,19,6,2], [4,24,22,45,44,37,6,2], [46,18,30,6,32,9,7,2], [41,13,38,14,19,28,7,2]]"

definition BASE47_POS5 :: "nat list list" where
  "BASE47_POS5 = [
   [0,0,0,0,0,0,0,0,0], [36,8,46,22,6,0,8,2,0], [25,17,45,45,12,0,16,4,0], [14,26,44,21,19,0,24,6,0], [3,35,43,44,25,0,32,8,0],
   [39,43,42,20,32,0,40,10,0], [28,5,42,43,38,0,1,13,0], [17,14,41,19,45,0,9,15,0], [6,23,40,42,4,1,17,17,0],
   [42,31,39,18,11,1,25,19,0], [31,40,38,41,17,1,33,21,0], [20,2,38,17,24,1,41,23,0], [9,11,37,40,30,1,2,26,0],
   [45,19,36,16,37,1,10,28,0], [34,28,35,39,43,1,18,30,0], [23,37,34,15,3,2,26,32,0], [12,46,33,38,9,2,34,34,0],
   [1,8,33,14,16,2,42,36,0], [37,16,32,37,22,2,3,39,0], [26,25,31,13,29,2,11,41,0], [15,34,30,36,35,2,19,43,0],
   [4,43,29,12,42,2,27,45,0], [40,4,29,35,1,3,35,0,1], [29,13,28,11,8,3,43,2,1], [18,22,27,34,14,3,4,5,1],
   [7,31,26,10,21,3,12,7,1], [43,39,25,33,27,3,20,9,1], [32,1,25,9,34,3,28,11,1], [21,10,24,32,40,3,36,13,1],
   [10,19,23,8,0,4,44,15,1], [46,27,22,31,6,4,5,18,1], [35,36,21,7,13,4,13,20,1], [24,45,20,30,19,4,21,22,1],
   [13,7,20,6,26,4,29,24,1], [2,16,19,29,32,4,37,26,1], [38,24,18,5,39,4,45,28,1], [27,33,17,28,45,4,6,31,1],
   [16,42,16,4,5,5,14,33,1], [5,4,16,27,11,5,22,35,1], [41,12,15,3,18,5,30,37,1], [30,21,14,26,24,5,38,39,1],
   [19,30,13,2,31,5,46,41,1], [8,39,12,25,37,5,7,44,1], [44,0,12,1,44,5,15,46,1], [33,9,11,24,3,6,23,1,2],
   [22,18,10,0,10,6,31,3,2], [11,27,9,23,16,6,39,5,2], [0,36,8,46,22,6,0,8,2], [36,44,7,22,29,6,8,10,2],
   [25,6,7,45,35,6,16,12,2], [14,15,6,21,42,6,24,14,2], [3,24,5,44,1,7,32,16,2], [39,32,4,20,8,7,40,18,2],
   [28,41,3,43,14,7,1,21,2], [17,3,3,19,21,7,9,23,2], [6,12,2,42,27,7,17,25,2], [42,20,1,18,34,7,25,27,2],
   [31,29,0,41,40,7,33,29,2], [20,38,46,16,0,8,41,31,2], [9,0,46,39,6,8,2,34,2], [45,8,45,15,13,8,10,36,2],
   [34,17,44,38,19,8,18,38,2], [23,26,43,14,26,8,26,40,2], [12,35,42,37,32,8,34,42,2], [1,44,41,13,39,8,42,44,2],
   [37,5,41,36,45,8,3,0,3], [26,14,40,12,5,9,11,2,3], [15,23,39,35,11,9,19,4,3], [4,32,38,11,18,9,27,6,3],
   [40,40,37,34,24,9,35,8,3], [29,2,37,10,31,9,43,10,3], [18,11,36,33,37,9,4,13,3], [7,20,35,9,44,9,12,15,3],
   [43,28,34,32,3,10,20,17,3], [32,37,33,8,10,10,28,19,3], [21,46,32,31,16,10,36,21,3], [10,8,32,7,23,10,44,23,3],
   [46,16,31,30,29,10,5,26,3], [35,25,30,6,36,10,13,28,3], [24,34,29,29,42,10,21,30,3], [13,43,28,5,2,11,29,32,3],
   [2,5,28,28,8,11,37,34,3], [38,13,27,4,15,11,45,36,3], [27,22,26,27,21,11,6,39,3], [16,31,25,3,28,11,14,41,3],
   [5,40,24,26,34,11,22,43,3], [41,1,24,2,41,11,30,45,3], [30,10,23,25,0,12,38,0,4], [19,19,22,1,7,12,46,2,4],
   [8,28,21,24,13,12,7,5,4], [44,36,20,0,20,12,15,7,4], [33,45,19,23,26,12,23,9,4], [22,7,19,46,32,12,31,11,4],
   [11,16,18,22,39,12,39,13,4], [0,25,17,45,45,12,0,16,4], [36,33,16,21,5,13,8,18,4], [25,42,15,44,11,13,16,20,4],
   [14,4,15,20,18,13,24,22,4], [3,13,14,43,24,13,32,24,4], [39,21,13,19,31,13,40,26,4], [28,30,12,42,37,13,1,29,4],
   [17,39,11,18,44,13,9,31,4], [6,1,11,41,3,14,17,33,4], [42,9,10,17,10,14,25,35,4], [31,18,9,40,16,14,33,37,4],
   [20,27,8,16,23,14,41,39,4], [9,36,7,39,29,14,2,42,4], [45,44,6,15,36,14,10,44,4], [34,6,6,38,42,14,18,46,4],
   [23,15,5,14,2,15,26,1,5], [12,24,4,37,8,15,34,3,5], [1,33,3,13,15,15,42,5,5], [37,41,2,36,21,15,3,8,5],
   [26,3,2,12,28,15,11,10,5], [15,12,1,35,34,15,19,12,5], [4,21,0,11,41,15,27,14,5], [40,29,46,33,0,16,35,16,5],
   [29,38,45,9,7,16,43,18,5], [18,0,45,32,13,16,4,21,5], [7,9,44,8,20,16,12,23,5], [43,17,43,31,26,16,20,25,5],
   [32,26,42,7,33,16,28,27,5], [21,35,41,30,39,16,36,29,5], [10,44,40,6,46,16,44,31,5], [46,5,40,29,5,17,5,34,5],
   [35,14,39,5,12,17,13,36,5], [24,23,38,28,18,17,21,38,5], [13,32,37,4,25,17,29,40,5], [2,41,36,27,31,17,37,42,5],
   [38,2,36,3,38,17,45,44,5], [27,11,35,26,44,17,6,0,6], [16,20,34,2,4,18,14,2,6], [5,29,33,25,10,18,22,4,6],
   [41,37,32,1,17,18,30,6,6], [30,46,31,24,23,18,38,8,6], [19,8,31,0,30,18,46,10,6], [8,17,30,23,36,18,7,13,6],
   [44,25,29,46,42,18,15,15,6], [33,34,28,22,2,19,23,17,6], [22,43,27,45,8,19,31,19,6], [11,5,27,21,15,19,39,21,6],
   [0,14,26,44,21,19,0,24,6], [36,22,25,20,28,19,8,26,6], [25,31,24,43,34,19,16,28,6], [14,40,23,19,41,19,24,30,6],
   [3,2,23,42,0,20,32,32,6], [39,10,22,18,7,20,40,34,6], [28,19,21,41,13,20,1,37,6], [17,28,20,17,20,20,9,39,6],
   [6,37,19,40,26,20,17,41,6], [42,45,18,16,33,20,25,43,6], [31,7,18,39,39,20,33,45,6], [20,16,17,15,46,20,41,0,7],
   [9,25,16,38,5,21,2,3,7], [45,33,15,14,12,21,10,5,7], [34,42,14,37,18,21,18,7,7], [23,4,14,13,25,21,26,9,7],
   [12,13,13,36,31,21,34,11,7], [1,22,12,12,38,21,42,13,7], [37,30,11,35,44,21,3,16,7], [26,39,10,11,4,22,11,18,7],
   [15,1,10,34,10,22,19,20,7], [4,10,9,10,17,22,27,22,7], [40,18,8,33,23,22,35,24,7], [29,27,7,9,30,22,43,26,7],
   [18,36,6,32,36,22,4,29,7], [7,45,5,8,43,22,12,31,7], [43,6,5,31,2,23,20,33,7], [32,15,4,7,9,23,28,35,7],
   [21,24,3,30,15,23,36,37,7], [10,33,2,6,22,23,44,39,7], [46,41,1,29,28,23,5,42,7], [35,3,1,5,35,23,13,44,7],
   [24,12,0,28,41,23,21,46,7], [13,21,46,3,1,24,29,1,8], [2,30,45,26,7,24,37,3,8], [38,38,44,2,14,24,45,5,8],
   [27,0,44,25,20,24,6,8,8], [16,9,43,1,27,24,14,10,8], [5,18,42,24,33,24,22,12,8], [41,26,41,0,40,24,30,14,8],
   [30,35,40,23,46,24,38,16,8], [19,44,39,46,5,25,46,18,8], [8,6,39,22,12,25,7,21,8], [44,14,38,45,18,25,15,23,8],
   [33,23,37,21,25,25,23,25,8], [22,32,36,44,31,25,31,27,8], [11,41,35,20,38,25,39,29,8], [0,3,35,43,44,25,0,32,8],
   [36,11,34,19,4,26,8,34,8], [25,20,33,42,10,26,16,36,8], [14,29,32,18,17,26,24,38,8], [3,38,31,41,23,26,32,40,8],
   [39,46,30,17,30,26,40,42,8], [28,8,30,40,36,26,1,45,8], [17,17,29,16,43,26,9,0,9], [6,26,28,39,2,27,17,2,9],
   [42,34,27,15,9,27,25,4,9], [31,43,26,38,15,27,33,6,9], [20,5,26,14,22,27,41,8,9], [9,14,25,37,28,27,2,11,9],
   [45,22,24,13,35,27,10,13,9], [34,31,23,36,41,27,18,15,9], [23,40,22,12,1,28,26,17,9], [12,2,22,35,7,28,34,19,9],
   [1,11,21,11,14,28,42,21,9], [37,19,20,34,20,28,3,24,9], [26,28,19,10,27,28,11,26,9], [15,37,18,33,33,28,19,28,9],
   [4,46,17,9,40,28,27,30,9], [40,7,17,32,46,28,35,32,9], [29,16,16,8,6,29,43,34,9], [18,25,15,31,12,29,4,37,9],
   [7,34,14,7,19,29,12,39,9], [43,42,13,30,25,29,20,41,9], [32,4,13,6,32,29,28,43,9], [21,13,12,29,38,29,36,45,9],
   [10,22,11,5,45,29,44,0,10], [46,30,10,28,4,30,5,3,10], [35,39,9,4,11,30,13,5,10], [24,1,9,27,17,30,21,7,10],
   [13,10,8,3,24,30,29,9,10], [2,19,7,26,30,30,37,11,10], [38,27,6,2,37,30,45,13,10], [27,36,5,25,43,30,6,16,10],
   [16,45,4,1,3,31,14,18,10], [5,7,4,24,9,31,22,20,10], [41,15,3,0,16,31,30,22,10], [30,24,2,23,22,31,38,24,10],
   [19,33,1,46,28,31,46,26,10], [8,42,0,22,35,31,7,29,10], [44,3,0,45,41,31,15,31,10], [33,12,46,20,1,32,23,33,10],
   [22,21,45,43,7,32,31,35,10], [11,30,44,19,14,32,39,37,10], [0,39,43,42,20,32,0,40,10], [36,0,43,18,27,32,8,42,10],
   [25,9,42,41,33,32,16,44,10], [14,18,41,17,40,32,24,46,10], [3,27,40,40,46,32,32,1,11], [39,35,39,16,6,33,40,3,11],
   [28,44,38,39,12,33,1,6,11], [17,6,38,15,19,33,9,8,11], [6,15,37,38,25,33,17,10,11], [42,23,36,14,32,33,25,12,11],
   [31,32,35,37,38,33,33,14,11], [20,41,34,13,45,33,41,16,11], [9,3,34,36,4,34,2,19,11], [45,11,33,12,11,34,10,21,11],
   [34,20,32,35,17,34,18,23,11], [23,29,31,11,24,34,26,25,11], [12,38,30,34,30,34,34,27,11], [1,0,30,10,37,34,42,29,11],
   [37,8,29,33,43,34,3,32,11], [26,17,28,9,3,35,11,34,11], [15,26,27,32,9,35,19,36,11]]"

definition BASE47_POS6 :: "nat list list" where
  "BASE47_POS6 = [
   [0,0,0,0,0,0,0,0,0,0,0], [4,35,26,8,16,35,27,38,11,0,0], [8,23,6,17,32,23,8,30,23,0,0], [12,11,33,25,1,12,36,21,35,0,0],
   [16,46,12,34,17,0,17,13,0,1,0], [20,34,39,42,33,35,44,4,12,1,0], [24,22,19,4,3,24,25,43,23,1,0], [28,10,46,12,19,12,6,35,35,1,0],
   [32,45,25,21,35,0,34,26,0,2,0], [36,33,5,30,4,36,14,18,12,2,0], [40,21,32,38,20,24,42,9,24,2,0], [44,9,12,0,37,12,23,1,36,2,0],
   [1,45,38,8,6,1,4,40,0,3,0], [5,33,18,17,22,36,31,31,12,3,0], [9,21,45,25,38,24,12,23,24,3,0], [13,9,25,34,7,13,40,14,36,3,0],
   [17,44,4,43,23,1,21,6,1,4,0], [21,32,31,4,40,36,1,45,12,4,0], [25,20,11,13,9,25,29,36,24,4,0], [29,8,38,21,25,13,10,28,36,4,0],
   [33,43,17,30,41,1,38,19,1,5,0], [37,31,44,38,10,37,18,11,13,5,0], [41,19,24,0,27,25,46,2,25,5,0], [45,7,4,9,43,13,27,41,36,5,0],
   [2,43,30,17,12,2,8,33,1,6,0], [6,31,10,26,28,37,35,24,13,6,0], [10,19,37,34,44,25,16,16,25,6,0], [14,7,17,43,13,14,44,7,37,6,0],
   [18,42,43,4,30,2,25,46,1,7,0], [22,30,23,13,46,37,5,38,13,7,0], [26,18,3,22,15,26,33,29,25,7,0], [30,6,30,30,31,14,14,21,37,7,0],
   [34,41,9,39,0,3,42,12,2,8,0], [38,29,36,0,17,38,22,4,14,8,0], [42,17,16,9,33,26,3,43,25,8,0], [46,5,43,17,2,15,31,34,37,8,0],
   [3,41,22,26,18,3,12,26,2,9,0], [7,29,2,35,34,38,39,17,14,9,0], [11,17,29,43,3,27,20,9,26,9,0], [15,5,9,5,20,15,1,1,38,9,0],
   [19,40,35,13,36,3,29,39,2,10,0], [23,28,15,22,5,39,9,31,14,10,0], [27,16,42,30,21,27,37,22,26,10,0],
   [31,4,22,39,37,15,18,14,38,10,0], [35,39,1,1,7,4,46,5,3,11,0], [39,27,28,9,23,39,26,44,14,11,0], [43,15,8,18,39,27,7,36,26,11,0],
   [0,4,35,26,8,16,35,27,38,11,0], [4,39,14,35,24,4,16,19,3,12,0], [8,27,41,43,40,39,43,10,15,12,0], [12,15,21,5,10,28,24,2,27,12,0],
   [16,3,1,14,26,16,5,41,38,12,0], [20,38,27,22,42,4,33,32,3,13,0], [24,26,7,31,11,40,13,24,15,13,0], [28,14,34,39,27,28,41,15,27,13,0],
   [32,2,14,1,44,16,22,7,39,13,0], [36,37,40,9,13,5,3,46,3,14,0], [40,25,20,18,29,40,30,37,15,14,0], [44,13,0,27,45,28,11,29,27,14,0],
   [1,2,27,35,14,17,39,20,39,14,0], [5,37,6,44,30,5,20,12,4,15,0], [9,25,33,5,0,41,0,4,16,15,0], [13,13,13,14,16,29,28,42,27,15,0],
   [17,1,40,22,32,17,9,34,39,15,0], [21,36,19,31,1,6,37,25,4,16,0], [25,24,46,39,17,41,17,17,16,16,0], [29,12,26,1,34,29,45,8,28,16,0],
   [33,0,6,10,3,18,26,0,40,16,0], [37,35,32,18,19,6,7,39,4,17,0], [41,23,12,27,35,41,34,30,16,17,0], [45,11,39,35,4,30,15,22,28,17,0],
   [2,0,19,44,20,18,43,13,40,17,0], [6,35,45,5,37,6,24,5,5,18,0], [10,23,25,14,6,42,4,44,16,18,0], [14,11,5,23,22,30,32,35,28,18,0],
   [18,46,31,31,38,18,13,27,40,18,0], [22,34,11,40,7,7,41,18,5,19,0], [26,22,38,1,24,42,21,10,17,19,0],
   [30,10,18,10,40,30,2,2,29,19,0], [34,45,44,18,9,19,30,40,40,19,0], [38,33,24,27,25,7,11,32,5,20,0], [42,21,4,36,41,42,38,23,17,20,0],
   [46,9,31,44,10,31,19,15,29,20,0], [3,45,10,6,27,19,0,7,41,20,0], [7,33,37,14,43,7,28,45,5,21,0], [11,21,17,23,12,43,8,37,17,21,0],
   [15,9,44,31,28,31,36,28,29,21,0], [19,44,23,40,44,19,17,20,41,21,0], [23,32,3,2,14,8,45,11,6,22,0], [27,20,30,10,30,43,25,3,18,22,0],
   [31,8,10,19,46,31,6,42,29,22,0], [35,43,36,27,15,20,34,33,41,22,0], [39,31,16,36,31,8,15,25,6,23,0],
   [43,19,43,44,0,44,42,16,18,23,0], [0,8,23,6,17,32,23,8,30,23,0], [4,43,2,15,33,20,4,0,42,23,0], [8,31,29,23,2,9,32,38,6,24,0],
   [12,19,9,32,18,44,12,30,18,24,0], [16,7,36,40,34,32,40,21,30,24,0], [20,42,15,2,4,21,21,13,42,24,0],
   [24,30,42,10,20,9,2,5,7,25,0], [28,18,22,19,36,44,29,43,18,25,0], [32,6,2,28,5,33,10,35,30,25,0], [36,41,28,36,21,21,38,26,42,25,0],
   [40,29,8,45,37,9,19,18,7,26,0], [44,17,35,6,7,45,46,9,19,26,0], [1,6,15,15,23,33,27,1,31,26,0], [5,41,41,23,39,21,8,40,42,26,0],
   [9,29,21,32,8,10,36,31,7,27,0], [13,17,1,41,24,45,16,23,19,27,0], [17,5,28,2,41,33,44,14,31,27,0], [21,40,7,11,10,22,25,6,43,27,0],
   [25,28,34,19,26,10,6,45,7,28,0], [29,16,14,28,42,45,33,36,19,28,0], [33,4,41,36,11,34,14,28,31,28,0],
   [37,39,20,45,27,22,42,19,43,28,0], [41,27,0,7,44,10,23,11,8,29,0], [45,15,27,15,13,46,3,3,20,29,0], [2,4,7,24,29,34,31,41,31,29,0],
   [6,39,33,32,45,22,12,33,43,29,0], [10,27,13,41,14,11,40,24,8,30,0], [14,15,40,2,31,46,20,16,20,30,0],
   [18,3,20,11,0,35,1,8,32,30,0], [22,38,46,19,16,23,29,46,43,30,0], [26,26,26,28,32,11,10,38,8,31,0], [30,14,6,37,1,0,38,29,20,31,0],
   [34,2,33,45,17,35,18,21,32,31,0], [38,37,12,7,34,23,46,12,44,31,0], [42,25,39,15,3,12,27,4,9,32,0], [46,13,19,24,19,0,8,43,20,32,0],
   [3,2,46,32,35,35,35,34,32,32,0], [7,37,25,41,4,24,16,26,44,32,0], [11,25,5,3,21,12,44,17,9,33,0], [15,13,32,11,37,0,25,9,21,33,0],
   [19,1,12,20,6,36,5,1,33,33,0], [23,36,38,28,22,24,33,39,44,33,0], [27,24,18,37,38,12,14,31,9,34,0], [31,12,45,45,7,1,42,22,21,34,0],
   [35,0,25,7,24,36,22,14,33,34,0], [39,35,4,16,40,24,3,6,45,34,0], [43,23,31,24,9,13,31,44,9,35,0], [0,12,11,33,25,1,12,36,21,35,0],
   [4,0,38,41,41,36,39,27,33,35,0], [8,35,17,3,11,25,20,19,45,35,0], [12,23,44,11,27,13,1,11,10,36,0], [16,11,24,20,43,1,29,2,22,36,0],
   [20,46,3,29,12,37,9,41,33,36,0], [24,34,30,37,28,25,37,32,45,36,0], [28,22,10,46,44,13,18,24,10,37,0],
   [32,10,37,7,14,2,46,15,22,37,0], [36,45,16,16,30,37,26,7,34,37,0], [40,33,43,24,46,25,7,46,45,37,0],
   [44,21,23,33,15,14,35,37,10,38,0], [1,10,3,42,31,2,16,29,22,38,0], [5,45,29,3,1,38,43,20,34,38,0], [9,33,9,12,17,26,24,12,46,38,0],
   [13,21,36,20,33,14,5,4,11,39,0], [17,9,16,29,2,3,33,42,22,39,0], [21,44,42,37,18,38,13,34,34,39,0], [25,32,22,46,34,26,41,25,46,39,0],
   [29,20,2,8,4,15,22,17,11,40,0], [33,8,29,16,20,3,3,9,23,40,0], [37,43,8,25,36,38,30,0,35,40,0], [41,31,35,33,5,27,11,39,46,40,0],
   [45,19,15,42,21,15,39,30,11,41,0], [2,8,42,3,38,3,20,22,23,41,0], [6,43,21,12,7,39,0,14,35,41,0], [10,31,1,21,23,27,28,5,0,42,0],
   [14,19,28,29,39,15,9,44,11,42,0], [18,7,8,38,8,4,37,35,23,42,0], [22,42,34,46,24,39,17,27,35,42,0], [26,30,14,8,41,27,45,18,0,43,0],
   [30,18,41,16,10,16,26,10,12,43,0], [34,6,21,25,26,4,7,2,24,43,0], [38,41,0,34,42,39,34,40,35,43,0], [42,29,27,42,11,28,15,32,0,44,0],
   [46,17,7,4,28,16,43,23,12,44,0], [3,6,34,12,44,4,24,15,24,44,0], [7,41,13,21,13,40,4,7,36,44,0], [11,29,40,29,29,28,32,45,0,45,0],
   [15,17,20,38,45,16,13,37,12,45,0], [19,5,0,0,15,5,41,28,24,45,0], [23,40,26,8,31,40,21,20,36,45,0], [27,28,6,17,0,29,2,12,1,46,0],
   [31,16,33,25,16,17,30,3,13,46,0], [35,4,13,34,32,5,11,42,24,46,0], [39,39,39,42,1,41,38,33,36,46,0],
   [43,27,19,4,18,29,19,25,1,0,1], [0,16,46,12,34,17,0,17,13,0,1], [4,4,26,21,3,6,28,8,25,0,1], [8,39,5,30,19,41,8,0,37,0,1],
   [12,27,32,38,35,29,36,38,1,1,1], [16,15,12,0,5,18,17,30,13,1,1], [20,3,39,8,21,6,45,21,25,1,1], [24,38,18,17,37,41,25,13,37,1,1],
   [28,26,45,25,6,30,6,5,2,2,1], [32,14,25,34,22,18,34,43,13,2,1], [36,2,5,43,38,6,15,35,25,2,1], [40,37,31,4,8,42,42,26,37,2,1],
   [44,25,11,13,24,30,23,18,2,3,1], [1,14,38,21,40,18,4,10,14,3,1], [5,2,18,30,9,7,32,1,26,3,1], [9,37,44,38,25,42,12,40,37,3,1],
   [13,25,24,0,42,30,40,31,2,4,1], [17,13,4,9,11,19,21,23,14,4,1], [21,1,31,17,27,7,2,15,26,4,1], [25,36,10,26,43,42,29,6,38,4,1],
   [29,24,37,34,12,31,10,45,2,5,1], [33,12,17,43,28,19,38,36,14,5,1], [37,0,44,4,45,7,19,28,26,5,1], [41,35,23,13,14,43,46,19,38,5,1],
   [45,23,3,22,30,31,27,11,3,6,1], [2,12,30,30,46,19,8,3,15,6,1], [6,0,10,39,15,8,36,41,26,6,1], [10,35,36,0,32,43,16,33,38,6,1],
   [14,23,16,9,1,32,44,24,3,7,1], [18,11,43,17,17,20,25,16,15,7,1], [22,46,22,26,33,8,6,8,27,7,1], [26,34,2,35,2,44,33,46,38,7,1],
   [30,22,29,43,18,32,14,38,3,8,1], [34,10,9,5,35,20,42,29,15,8,1], [38,45,35,13,4,9,23,21,27,8,1], [42,33,15,22,20,44,3,13,39,8,1],
   [46,21,42,30,36,32,31,4,4,9,1], [3,10,22,39,5,21,12,43,15,9,1], [7,45,1,1,22,9,40,34,27,9,1], [11,33,28,9,38,44,20,26,39,9,1],
   [15,21,8,18,7,33,1,18,4,10,1], [19,9,35,26,23,21,29,9,16,10,1], [23,44,14,35,39,9,10,1,28,10,1], [27,32,41,43,8,45,37,39,39,10,1],
   [31,20,21,5,25,33,18,31,4,11,1], [35,8,1,14,41,21,46,22,16,11,1], [39,43,27,22,10,10,27,14,28,11,1],
   [43,31,7,31,26,45,7,6,40,11,1], [0,20,34,39,42,33,35,44,4,12,1], [4,8,14,1,12,22,16,36,16,12,1], [8,43,40,9,28,10,44,27,28,12,1],
   [12,31,20,18,44,45,24,19,40,12,1], [16,19,0,27,13,34,5,11,5,13,1], [20,7,27,35,29,22,33,2,17,13,1], [24,42,6,44,45,10,14,41,28,13,1],
   [28,30,33,5,15,46,41,32,40,13,1], [32,18,13,14,31,34,22,24,5,14,1], [36,6,40,22,0,23,3,16,17,14,1], [40,41,19,31,16,11,31,7,29,14,1],
   [44,29,46,39,32,46,11,46,40,14,1], [1,18,26,1,2,35,39,37,5,15,1], [5,6,6,10,18,23,20,29,17,15,1], [9,41,32,18,34,11,1,21,29,15,1],
   [13,29,12,27,3,0,29,12,41,15,1], [17,17,39,35,19,35,9,4,6,16,1], [21,5,19,44,35,23,37,42,17,16,1], [25,40,45,5,5,12,18,34,29,16,1],
   [29,28,25,14,21,0,46,25,41,16,1], [33,16,5,23,37,35,26,17,6,17,1]]"

lemma BASE47_POS0_ok: "table_ok 47 2 0 BASE47_POS0"
proof (rule table_okI)
  show "rows_step 47 [1, 0] BASE47_POS0"
    by (simp only: BASE47_POS0_def rows_step_eval cong: if_weak_cong)
  show "length BASE47_POS0 = 256"
    by (simp only: BASE47_POS0_def length_table_eval)
  show "hd BASE47_POS0 = [0, 0]"
    by (simp only: BASE47_POS0_def list.sel)
qed (simp_all add: digit_simps)

lemma BASE47_POS1_ok: "table_ok 47 3 1 BASE47_POS1"
proof (rule table_okI)
  show "rows_step 47 [21, 5, 0] BASE47_POS1"
    by (simp only: BASE47_POS1_def rows_step_eval cong: if_weak_cong)
  show "length BASE47_POS1 = 256"
    by (simp only: BASE47_POS1_def length_table_eval)
  show "hd BASE47_POS1 = [0, 0, 0]"
    by (simp only: BASE47_POS1_def list.sel)
qed (simp_all add: digit_simps)

lemma BASE47_POS2_ok: "table_ok 47 5 2 BASE47_POS2"
proof (rule table_okI)
  show "rows_step 47 [18, 31, 29, 0, 0] BASE47_POS2"
    by (simp only: BASE47_POS2_def rows_step_eval cong: if_weak_cong)
  show "length BASE47_POS2 = 256"
    by (simp only: BASE47_POS2_def length_table_eval)
  show "hd BASE47_POS2 = [0, 0, 0, 0, 0]"
    by (simp only: BASE47_POS2_def list.sel)
qed (simp_all add: digit_simps)

lemma BASE47_POS3_ok: "table_ok 47 6 3 BASE47_POS3"
proof (rule table_okI)
  show "rows_step 47 [2, 44, 27, 20, 3, 0] BASE47_POS3"
    by (simp only: BASE47_POS3_def rows_step_eval cong: if_weak_cong)
  show "length BASE47_POS3 = 256"
    by (simp only: BASE47_POS3_def length_table_eval)
  show "hd BASE47_POS3 = [0, 0, 0, 0, 0, 0]"
    by (simp only: BASE47_POS3_def list.sel)
qed (simp_all add: digit_simps)

lemma BASE47_POS4_ok: "table_ok 47 8 4 BASE47_POS4"
proof (rule table_okI)
  show "rows_step 47 [42, 41, 7, 8, 34, 18, 0, 0] BASE47_POS4"
    by (simp only: BASE47_POS4_def rows_step_eval cong: if_weak_cong)
  show "length BASE47_POS4 = 256"
    by (simp only: BASE47_POS4_def length_table_eval)
  show "hd BASE47_POS4 = [0, 0, 0, 0, 0, 0, 0, 0]"
    by (simp only: BASE47_POS4_def list.sel)
qed (simp_all add: digit_simps)

lemma BASE47_POS5_ok: "table_ok 47 9 5 BASE47_POS5"
proof (rule table_okI)
  show "rows_step 47 [36, 8, 46, 22, 6, 0, 8, 2, 0] BASE47_POS5"
    by (simp only: BASE47_POS5_def rows_step_eval cong: if_weak_cong)
  show "length BASE47_POS5 = 256"
    by (simp only: BASE47_POS5_def length_table_eval)
  show "hd BASE47_POS5 = [0, 0, 0, 0, 0, 0, 0, 0, 0]"
    by (simp only: BASE47_POS5_def list.sel)
qed (simp_all add: digit_simps)

lemma BASE47_POS6_ok: "table_ok 47 11 6 BASE47_POS6"
proof (rule table_okI)
  show "rows_step 47 [4, 35, 26, 8, 16, 35, 27, 38, 11, 0, 0] BASE47_POS6"
    by (simp only: BASE47_POS6_def rows_step_eval cong: if_weak_cong)
  show "length BASE47_POS6 = 256"
    by (simp only: BASE47_POS6_def length_table_eval)
  show "hd BASE47_POS6 = [0, 0, 0, 0, 0, 0, 0, 0, 0, 0, 0]"
    by (simp only: BASE47_POS6_def list.sel)
qed (simp_all add: digit_simps)

end
