(* ===== verification/Tables_47_B.thy ===== *)
theory Tables_47_B
  imports Digits
begin

text \<open>
  The tables \<open>BASE47_POS7\<close> to \<open>BASE47_POS10\<close> of \<^verbatim>\<open>fancy-garbling/base_conversion/cbits/lookup_tables.c\<close>,
  entry by entry, as lists of rows of \<open>uint16_t\<close> values read as naturals.  Each lemma \<open>_ok\<close> shows that row \<open>x\<close> holds the base-47
  digits of \<open>x * 256 ^ pos\<close>, for the width that the declaration of the table has.
\<close>

definition BASE47_POS7 :: "nat list list" where
  "BASE47_POS7 = [
   [0,0,0,0,0,0,0,0,0,0,0,0], [37,4,32,31,6,24,7,9,18,17,1,0], [27,9,17,16,13,1,15,18,36,34,2,0], [17,14,2,1,20,25,22,27,7,5,4,0],
   [7,19,34,32,26,2,30,36,25,22,5,0], [44,23,19,17,33,26,37,45,43,39,6,0], [34,28,4,2,40,3,45,7,15,10,8,0],
   [24,33,36,33,46,27,5,17,33,27,9,0], [14,38,21,18,6,5,13,26,4,45,10,0], [4,43,6,3,13,29,20,35,22,15,12,0],
   [41,0,39,34,19,6,28,44,40,32,13,0], [31,5,24,19,26,30,35,6,12,3,15,0], [21,10,9,4,33,7,43,15,30,20,16,0],
   [11,15,41,35,39,31,3,25,1,38,17,0], [1,20,26,20,46,8,11,34,19,8,19,0], [38,24,11,5,6,33,18,43,37,25,20,0],
   [28,29,43,36,12,10,26,5,9,43,21,0], [18,34,28,21,19,34,33,14,27,13,23,0], [8,39,13,6,26,11,41,23,45,30,24,0],
   [45,43,45,37,32,35,1,33,16,1,26,0], [35,1,31,22,39,12,9,42,34,18,27,0], [25,6,16,7,46,36,16,4,6,36,28,0],
   [15,11,1,39,5,14,24,13,24,6,30,0], [5,16,33,23,12,38,31,22,42,23,31,0], [42,20,18,8,19,15,39,31,13,41,32,0],
   [32,25,3,40,25,39,46,40,31,11,34,0], [22,30,35,24,32,16,7,3,3,29,35,0], [12,35,20,9,39,40,14,12,21,46,36,0],
   [2,40,5,41,45,17,22,21,39,16,38,0], [39,44,37,25,5,42,29,30,10,34,39,0], [29,2,23,10,12,19,37,39,28,4,41,0],
   [19,7,8,42,18,43,44,1,0,22,42,0], [9,12,40,26,25,20,5,11,18,39,43,0], [46,16,25,11,32,44,12,20,36,9,45,0],
   [36,21,10,43,38,21,20,29,7,27,46,0], [26,26,42,27,45,45,27,38,25,44,0,1], [16,31,27,12,5,23,35,0,44,14,2,1],
   [6,36,12,44,11,0,43,9,15,32,3,1], [43,40,44,28,18,24,3,19,33,2,5,1], [33,45,29,13,25,1,11,28,4,20,6,1],
   [23,3,15,45,31,25,18,37,22,37,7,1], [13,8,0,30,38,2,26,46,40,7,9,1], [3,13,32,14,45,26,33,8,12,25,10,1],
   [40,17,17,46,4,4,41,17,30,42,11,1], [30,22,2,31,11,28,1,27,1,13,13,1], [20,27,34,15,18,5,9,36,19,30,14,1],
   [10,32,19,0,25,29,16,45,37,0,16,1], [0,37,4,32,31,6,24,7,9,18,17,1], [37,41,36,16,38,30,31,16,27,35,18,1],
   [27,46,21,1,45,7,39,25,45,5,20,1], [17,4,7,33,4,32,46,34,16,23,21,1], [7,9,39,17,11,9,7,44,34,40,22,1],
   [44,13,24,2,18,33,14,6,6,11,24,1], [34,18,9,34,24,10,22,15,24,28,25,1], [24,23,41,18,31,34,29,24,42,45,26,1],
   [14,28,26,3,38,11,37,33,13,16,28,1], [4,33,11,35,44,35,44,42,31,33,29,1], [41,37,43,19,4,13,5,5,3,4,31,1],
   [31,42,28,4,11,37,12,14,21,21,32,1], [21,0,14,36,17,14,20,23,39,38,33,1], [11,5,46,20,24,38,27,32,10,9,35,1],
   [1,10,31,5,31,15,35,41,28,26,36,1], [38,14,16,37,37,39,42,3,0,44,37,1], [28,19,1,22,44,16,3,13,18,14,39,1],
   [18,24,33,6,4,41,10,22,36,31,40,1], [8,29,18,38,10,18,18,31,7,2,42,1], [45,33,3,23,17,42,25,40,25,19,43,1],
   [35,38,35,7,24,19,33,2,44,36,44,1], [25,43,20,39,30,43,40,11,15,7,46,1], [15,1,6,24,37,20,1,21,33,24,0,2],
   [5,6,38,8,44,44,8,30,4,42,1,2], [42,10,23,40,3,22,16,39,22,12,3,2], [32,15,8,25,10,46,23,1,41,29,4,2],
   [22,20,40,9,17,23,31,10,12,0,6,2], [12,25,25,41,23,0,39,19,30,17,7,2], [2,30,10,26,30,24,46,28,1,35,8,2],
   [39,34,42,10,37,1,7,38,19,5,10,2], [29,39,27,42,43,25,14,0,38,22,11,2], [19,44,12,27,3,3,22,9,9,40,12,2],
   [9,2,45,11,10,27,29,18,27,10,14,2], [46,6,30,43,16,4,37,27,45,27,15,2], [36,11,15,28,23,28,44,36,16,45,16,2],
   [26,16,0,13,30,5,5,46,34,15,18,2], [16,21,32,44,36,29,12,8,6,33,19,2], [6,26,17,29,43,6,20,17,24,3,21,2],
   [43,30,2,14,3,31,27,26,42,20,22,2], [33,35,34,45,9,8,35,35,13,38,23,2], [23,40,19,30,16,32,42,44,31,8,25,2],
   [13,45,4,15,23,9,3,7,3,26,26,2], [3,3,37,46,29,33,10,16,21,43,27,2], [40,7,22,31,36,10,18,25,39,13,29,2],
   [30,12,7,16,43,34,25,34,10,31,30,2], [20,17,39,0,3,12,33,43,28,1,32,2], [10,22,24,32,9,36,40,5,0,19,33,2],
   [0,27,9,17,16,13,1,15,18,36,34,2], [37,31,41,1,23,37,8,24,36,6,36,2], [27,36,26,33,29,14,16,33,7,24,37,2],
   [17,41,11,18,36,38,23,42,25,41,38,2], [7,46,43,2,43,15,31,4,44,11,40,2], [44,3,29,34,2,40,38,13,15,29,41,2],
   [34,8,14,19,9,17,46,22,33,46,42,2], [24,13,46,3,16,41,6,32,4,17,44,2], [14,18,31,35,22,18,14,41,22,34,45,2],
   [4,23,16,20,29,42,21,3,41,4,0,3], [41,27,1,5,36,19,29,12,12,22,1,3], [31,32,33,36,42,43,36,21,30,39,2,3],
   [21,37,18,21,2,21,44,30,1,10,4,3], [11,42,3,6,9,45,4,40,19,27,5,3], [1,0,36,37,15,22,12,2,38,44,6,3],
   [38,4,21,22,22,46,19,11,9,15,8,3], [28,9,6,7,29,23,27,20,27,32,9,3], [18,14,38,38,35,0,35,29,45,2,11,3],
   [8,19,23,23,42,24,42,38,16,20,12,3], [45,23,8,8,2,2,3,1,35,37,13,3], [35,28,40,39,8,26,10,10,6,8,15,3],
   [25,33,25,24,15,3,18,19,24,25,16,3], [15,38,10,9,22,27,25,28,42,42,17,3], [5,43,42,40,28,4,33,37,13,13,19,3],
   [42,0,28,25,35,28,40,46,31,30,20,3], [32,5,13,10,42,5,1,9,3,1,22,3], [22,10,45,41,1,30,8,18,21,18,23,3],
   [12,15,30,26,8,7,16,27,39,35,24,3], [2,20,15,11,15,31,23,36,10,6,26,3], [39,24,0,43,21,8,31,45,28,23,27,3],
   [29,29,32,27,28,32,38,7,0,41,28,3], [19,34,17,12,35,9,46,16,18,11,30,3], [9,39,2,44,41,33,6,26,36,28,31,3],
   [46,43,34,28,1,11,14,35,7,46,32,3], [36,1,20,13,8,35,21,44,25,16,34,3], [26,6,5,45,14,12,29,6,44,33,35,3],
   [16,11,37,29,21,36,36,15,15,4,37,3], [6,16,22,14,28,13,44,24,33,21,38,3], [43,20,7,46,34,37,4,34,4,39,39,3],
   [33,25,39,30,41,14,12,43,22,9,41,3], [23,30,24,15,1,39,19,5,41,26,42,3], [13,35,9,0,8,16,27,14,12,44,43,3],
   [3,40,41,31,14,40,34,23,30,14,45,3], [40,44,26,16,21,17,42,32,1,32,46,3], [30,2,12,1,28,41,2,42,19,2,1,4],
   [20,7,44,32,34,18,10,4,38,19,2,4], [10,12,29,17,41,42,17,13,9,37,3,4], [0,17,14,2,1,20,25,22,27,7,5,4],
   [37,21,46,33,7,44,32,31,45,24,6,4], [27,26,31,18,14,21,40,40,16,42,7,4], [17,31,16,3,21,45,0,3,35,12,9,4],
   [7,36,1,35,27,22,8,12,6,30,10,4], [44,40,33,19,34,46,15,21,24,0,12,4], [34,45,18,4,41,23,23,30,42,17,13,4],
   [24,3,4,36,0,1,31,39,13,35,14,4], [14,8,36,20,7,25,38,1,32,5,16,4], [4,13,21,5,14,2,46,10,3,23,17,4],
   [41,17,6,37,20,26,6,20,21,40,18,4], [31,22,38,21,27,3,14,29,39,10,20,4], [21,27,23,6,34,27,21,38,10,28,21,4],
   [11,32,8,38,40,4,29,0,29,45,22,4], [1,37,40,22,0,29,36,9,0,16,24,4], [38,41,25,7,7,6,44,18,18,33,25,4],
   [28,46,10,39,13,30,4,28,36,3,27,4], [18,4,43,23,20,7,12,37,7,21,28,4], [8,9,28,8,27,31,19,46,25,38,29,4],
   [45,13,13,40,33,8,27,8,44,8,31,4], [35,18,45,24,40,32,34,17,15,26,32,4], [25,23,30,9,0,10,42,26,33,43,33,4],
   [15,28,15,41,6,34,2,36,4,14,35,4], [5,33,0,26,13,11,10,45,22,31,36,4], [42,37,32,10,20,35,17,7,41,1,38,4],
   [32,42,17,42,26,12,25,16,12,19,39,4], [22,0,3,27,33,36,32,25,30,36,40,4], [12,5,35,11,40,13,40,34,1,7,42,4],
   [2,10,20,43,46,37,0,44,19,24,43,4], [39,14,5,28,6,15,8,6,38,41,44,4], [29,19,37,12,13,39,15,15,9,12,46,4],
   [19,24,22,44,19,16,23,24,27,29,0,5], [9,29,7,29,26,40,30,33,45,46,1,5], [46,33,39,13,33,17,38,42,16,17,3,5],
   [36,38,24,45,39,41,45,4,35,34,4,5], [26,43,9,30,46,18,6,14,6,5,6,5], [16,1,42,14,6,43,13,23,24,22,7,5],
   [6,6,27,46,12,20,21,32,42,39,8,5], [43,10,12,31,19,44,28,41,13,10,10,5], [33,15,44,15,26,21,36,3,32,27,11,5],
   [23,20,29,0,33,45,43,12,3,45,12,5], [13,25,14,32,39,22,4,22,21,15,14,5], [3,30,46,16,46,46,11,31,39,32,15,5],
   [40,34,31,1,6,24,19,40,10,3,17,5], [30,39,16,33,12,1,27,2,29,20,18,5], [20,44,1,18,19,25,34,11,0,38,19,5],
   [10,2,34,2,26,2,42,20,18,8,21,5], [0,7,19,34,32,26,2,30,36,25,22,5], [37,11,4,19,39,3,10,39,7,43,23,5],
   [27,16,36,3,46,27,17,1,26,13,25,5], [17,21,21,35,5,5,25,10,44,30,26,5], [7,26,6,20,12,29,32,19,15,1,28,5],
   [44,30,38,4,19,6,40,28,33,18,29,5], [34,35,23,36,25,30,0,38,4,36,30,5], [24,40,8,21,32,7,8,0,23,6,32,5],
   [14,45,40,5,39,31,15,9,41,23,33,5], [4,3,26,37,45,8,23,18,12,41,34,5], [41,7,11,22,5,33,30,27,30,11,36,5],
   [31,12,43,6,12,10,38,36,1,29,37,5], [21,17,28,38,18,34,45,45,19,46,38,5], [11,22,13,23,25,11,6,8,38,16,40,5],
   [1,27,45,7,32,35,13,17,9,34,41,5], [38,31,30,39,38,12,21,26,27,4,43,5], [28,36,15,24,45,36,28,35,45,21,44,5],
   [18,41,0,9,5,14,36,44,16,39,45,5], [8,46,32,40,11,38,43,6,35,9,0,6], [45,3,18,25,18,15,4,16,6,27,1,6],
   [35,8,3,10,25,39,11,25,24,44,2,6], [25,13,35,41,31,16,19,34,42,14,4,6], [15,18,20,26,38,40,26,43,13,32,5,6],
   [5,23,5,11,45,17,34,5,32,2,7,6], [42,27,37,42,4,42,41,14,3,20,8,6], [32,32,22,27,11,19,2,24,21,37,9,6],
   [22,37,7,12,18,43,9,33,39,7,11,6], [12,42,39,43,24,20,17,42,10,25,12,6], [2,0,25,28,31,44,24,4,29,42,13,6],
   [39,4,10,13,38,21,32,13,0,13,15,6], [29,9,42,44,44,45,39,22,18,30,16,6], [19,14,27,29,4,23,0,32,36,0,18,6],
   [9,19,12,14,11,0,8,41,7,18,19,6], [46,23,44,45,17,24,15,3,26,35,20,6], [36,28,29,30,24,1,23,12,44,5,22,6],
   [26,33,14,15,31,25,30,21,15,23,23,6], [16,38,46,46,37,2,38,30,33,40,24,6], [6,43,31,31,44,26,45,39,4,11,26,6],
   [43,0,17,16,4,4,6,2,23,28,27,6], [33,5,2,1,11,28,13,11,41,45,28,6], [23,10,34,32,17,5,21,20,12,16,30,6],
   [13,15,19,17,24,29,28,29,30,33,31,6], [3,20,4,2,31,6,36,38,1,4,33,6], [40,24,36,33,37,30,43,0,20,21,34,6],
   [30,29,21,18,44,7,4,10,38,38,35,6], [20,34,6,3,4,32,11,19,9,9,37,6], [10,39,38,34,10,9,19,28,27,26,38,6],
   [0,44,23,19,17,33,26,37,45,43,39,6], [37,1,9,4,24,10,34,46,16,14,41,6], [27,6,41,35,30,34,41,8,35,31,42,6],
   [17,11,26,20,37,11,2,18,6,2,44,6], [7,16,11,5,44,35,9,27,24,19,45,6], [44,20,43,36,3,13,17,36,42,36,46,6],
   [34,25,28,21,10,37,24,45,13,7,1,7], [24,30,13,6,17,14,32,7,32,24,2,7], [14,35,45,37,23,38,39,16,3,42,3,7],
   [4,40,30,22,30,15,0,26,21,12,5,7], [41,44,15,7,37,39,7,35,39,29,6,7], [31,2,1,39,43,16,15,44,10,0,8,7],
   [21,7,33,23,3,41,22,6,29,17,9,7], [11,12,18,8,10,18,30,15,0,35,10,7], [1,17,3,40,16,42,37,24,18,5,12,7],
   [38,21,35,24,23,19,45,33,36,22,13,7], [28,26,20,9,30,43,5,43,7,40,14,7], [18,31,5,41,36,20,13,5,26,10,16,7],
   [8,36,37,25,43,44,20,14,44,27,17,7], [45,40,22,10,3,22,28,23,15,45,18,7], [35,45,7,42,9,46,35,32,33,15,20,7]]"

definition BASE47_POS8 :: "nat list list" where
  "BASE47_POS8 = [
   [0,0,0,0,0,0,0,0,0,0,0,0,0], [25,3,40,26,16,23,43,41,4,33,21,7,0], [3,7,33,6,33,46,39,36,9,19,43,14,0],
   [28,10,26,33,2,23,36,31,14,5,18,22,0], [6,14,19,13,19,46,32,26,19,38,39,29,0], [31,17,12,40,35,22,29,21,24,24,14,37,0],
   [9,21,5,20,5,46,25,16,29,10,36,44,0], [34,24,45,46,21,22,22,11,34,43,10,5,1], [12,28,38,26,38,45,18,6,39,29,32,12,1],
   [37,31,31,6,8,22,15,1,44,15,7,20,1], [15,35,24,33,24,45,11,43,1,2,29,27,1], [40,38,17,13,41,21,8,38,6,35,3,35,1],
   [18,42,10,40,10,45,4,33,11,21,25,42,1], [43,45,3,20,27,21,1,28,16,7,0,3,2], [21,2,44,46,43,44,44,22,21,40,21,10,2],
   [46,5,37,26,13,21,41,17,26,26,43,17,2], [24,9,30,6,30,44,37,12,31,12,18,25,2], [2,13,23,33,46,20,34,7,36,45,39,32,2],
   [27,16,16,13,16,44,30,2,41,31,14,40,2], [5,20,9,40,32,20,27,44,45,17,36,0,3], [30,23,2,20,2,44,23,39,3,4,11,8,3],
   [8,27,42,46,18,20,20,34,8,37,32,15,3], [33,30,35,26,35,43,16,29,13,23,7,23,3], [11,34,28,6,5,20,13,24,18,9,29,30,3],
   [36,37,21,33,21,43,9,19,23,42,3,38,3], [14,41,14,13,38,19,6,14,28,28,25,45,3], [39,44,7,40,7,43,2,9,33,14,0,6,4],
   [17,1,1,20,24,19,46,3,38,0,22,13,4], [42,4,41,46,40,42,42,45,42,33,43,20,4], [20,8,34,26,10,19,39,40,0,20,18,28,4],
   [45,11,27,6,27,42,35,35,5,6,40,35,4], [23,15,20,33,43,18,32,30,10,39,14,43,4], [1,19,13,13,13,42,28,25,15,25,36,3,5],
   [26,22,6,40,29,18,25,20,20,11,11,11,5], [4,26,46,19,46,41,21,15,25,44,32,18,5], [29,29,39,46,15,18,18,10,30,30,7,26,5],
   [7,33,32,26,32,41,14,5,35,16,29,33,5], [32,36,25,6,2,18,11,0,40,2,4,41,5], [10,40,18,33,18,41,7,42,44,35,25,1,6],
   [35,43,11,13,35,17,4,37,2,22,0,9,6], [13,0,5,40,4,41,0,32,7,8,22,16,6], [38,3,45,19,21,17,44,26,12,41,43,23,6],
   [16,7,38,46,37,40,40,21,17,27,18,31,6], [41,10,31,26,7,17,37,16,22,13,40,38,6], [19,14,24,6,24,40,33,11,27,46,14,46,6],
   [44,17,17,33,40,16,30,6,32,32,36,6,7], [22,21,10,13,10,40,26,1,37,18,11,14,7], [0,25,3,40,26,16,23,43,41,4,33,21,7],
   [25,28,43,19,43,39,19,38,46,37,7,29,7], [3,32,36,46,12,16,16,33,4,24,29,36,7], [28,35,29,26,29,39,12,28,9,10,4,44,7],
   [6,39,22,6,46,15,9,23,14,43,25,4,8], [31,42,15,33,15,39,5,18,19,29,0,12,8], [9,46,8,13,32,15,2,13,24,15,22,19,8],
   [34,2,2,40,1,39,45,7,29,1,44,26,8], [12,6,42,19,18,15,42,2,34,34,18,34,8], [37,9,35,46,34,38,38,44,38,20,40,41,8],
   [15,13,28,26,4,15,35,39,43,6,15,2,9], [40,16,21,6,21,38,31,34,1,40,36,9,9], [18,20,14,33,37,14,28,29,6,26,11,17,9],
   [43,23,7,13,7,38,24,24,11,12,33,24,9], [21,27,0,40,23,14,21,19,16,45,7,32,9], [46,30,40,19,40,37,17,14,21,31,29,39,9],
   [24,34,33,46,9,14,14,9,26,17,4,0,10], [2,38,26,26,26,37,10,4,31,3,26,7,10], [27,41,19,6,43,13,7,46,35,36,0,15,10],
   [5,45,12,33,12,37,3,41,40,22,22,22,10], [30,1,6,13,29,13,0,36,45,8,44,29,10], [8,5,46,39,45,36,43,30,3,42,18,37,10],
   [33,8,39,19,15,13,40,25,8,28,40,44,10], [11,12,32,46,31,36,36,20,13,14,15,5,11], [36,15,25,26,1,13,33,15,18,0,37,12,11],
   [14,19,18,6,18,36,29,10,23,33,11,20,11], [39,22,11,33,34,12,26,5,28,19,33,27,11], [17,26,4,13,4,36,22,0,33,5,8,35,11],
   [42,29,44,39,20,12,19,42,37,38,29,42,11], [20,33,37,19,37,35,15,37,42,24,4,3,12], [45,36,30,46,6,12,12,32,0,11,26,10,12],
   [23,40,23,26,23,35,8,27,5,44,0,18,12], [1,44,16,6,40,11,5,22,10,30,22,25,12], [26,0,10,33,9,35,1,17,15,16,44,32,12],
   [4,4,3,13,26,11,45,11,20,2,19,40,12], [29,7,43,39,42,34,41,6,25,35,40,0,13], [7,11,36,19,12,11,38,1,30,21,15,8,13],
   [32,14,29,46,28,34,34,43,34,7,37,15,13], [10,18,22,26,45,10,31,38,39,40,11,23,13], [35,21,15,6,15,34,27,33,44,26,33,30,13],
   [13,25,8,33,31,10,24,28,2,13,8,38,13], [38,28,1,13,1,34,20,23,7,46,29,45,13], [16,32,41,39,17,10,17,18,12,32,4,6,14],
   [41,35,34,19,34,33,13,13,17,18,26,13,14], [19,39,27,46,3,10,10,8,22,4,1,21,14], [44,42,20,26,20,33,6,3,27,37,22,28,14],
   [22,46,13,6,37,9,3,45,31,23,44,35,14], [0,3,7,33,6,33,46,39,36,9,19,43,14], [25,6,0,13,23,9,43,34,41,42,40,3,15],
   [3,10,40,39,39,32,39,29,46,28,15,11,15], [28,13,33,19,9,9,36,24,4,15,37,18,15], [6,17,26,46,25,32,32,19,9,1,12,26,15],
   [31,20,19,26,42,8,29,14,14,34,33,33,15], [9,24,12,6,12,32,25,9,19,20,8,41,15], [34,27,5,33,28,8,22,4,24,6,30,1,16],
   [12,31,45,12,45,31,18,46,28,39,4,9,16], [37,34,38,39,14,8,15,41,33,25,26,16,16], [15,38,31,19,31,31,11,36,38,11,1,24,16],
   [40,41,24,46,0,8,8,31,43,44,22,31,16], [18,45,17,26,17,31,4,26,1,31,44,38,16], [43,1,11,6,34,7,1,21,6,17,19,46,16],
   [21,5,4,33,3,31,44,15,11,3,41,6,17], [46,8,44,12,20,7,41,10,16,36,15,14,17], [24,12,37,39,36,30,37,5,21,22,37,21,17],
   [2,16,30,19,6,7,34,0,26,8,12,29,17], [27,19,23,46,22,30,30,42,30,41,33,36,17], [5,23,16,26,39,6,27,37,35,27,8,44,17],
   [30,26,9,6,9,30,23,32,40,13,30,4,18], [8,30,2,33,25,6,20,27,45,46,4,12,18], [33,33,42,12,42,29,16,22,3,33,26,19,18],
   [11,37,35,39,11,6,13,17,8,19,1,27,18], [36,40,28,19,28,29,9,12,13,5,23,34,18], [14,44,21,46,44,5,6,7,18,38,44,41,18],
   [39,0,15,26,14,29,2,2,23,24,19,2,19], [17,4,8,6,31,5,46,43,27,10,41,9,19], [42,7,1,33,0,29,42,38,32,43,15,17,19],
   [20,11,41,12,17,5,39,33,37,29,37,24,19], [45,14,34,39,33,28,35,28,42,15,12,32,19], [23,18,27,19,3,5,32,23,0,2,34,39,19],
   [1,22,20,46,19,28,28,18,5,35,8,0,20], [26,25,13,26,36,4,25,13,10,21,30,7,20], [4,29,6,6,6,28,21,8,15,7,5,15,20],
   [29,32,46,32,22,4,18,3,20,40,26,22,20], [7,36,39,12,39,27,14,45,24,26,1,30,20], [32,39,32,39,8,4,11,40,29,12,23,37,20],
   [10,43,25,19,25,27,7,35,34,45,44,44,20], [35,46,18,46,41,3,4,30,39,31,19,5,21], [13,3,12,26,11,27,0,25,44,17,41,12,21],
   [38,6,5,6,28,3,44,19,2,4,16,20,21], [16,10,45,32,44,26,40,14,7,37,37,27,21], [41,13,38,12,14,3,37,9,12,23,12,35,21],
   [19,17,31,39,30,26,33,4,17,9,34,42,21], [44,20,24,19,0,3,30,46,21,42,8,3,22], [22,24,17,46,16,26,26,41,26,28,30,10,22],
   [0,28,10,26,33,2,23,36,31,14,5,18,22], [25,31,3,6,3,26,19,31,36,0,27,25,22], [3,35,43,32,19,2,16,26,41,33,1,33,22],
   [28,38,36,12,36,25,12,21,46,19,23,40,22], [6,42,29,39,5,2,9,16,4,6,45,0,23], [31,45,22,19,22,25,5,11,9,39,19,8,23],
   [9,2,16,46,38,1,2,6,14,25,41,15,23], [34,5,9,26,8,25,45,0,19,11,16,23,23], [12,9,2,6,25,1,42,42,23,44,37,30,23],
   [37,12,42,32,41,24,38,37,28,30,12,38,23], [15,16,35,12,11,1,35,32,33,16,34,45,23], [40,19,28,39,27,24,31,27,38,2,9,6,24],
   [18,23,21,19,44,0,28,22,43,35,30,13,24], [43,26,14,46,13,24,24,17,1,22,5,21,24], [21,30,7,26,30,0,21,12,6,8,27,28,24],
   [46,33,0,6,0,24,17,7,11,41,1,36,24], [24,37,40,32,16,0,14,2,16,27,23,43,24], [2,41,33,12,33,23,10,44,20,13,45,3,25],
   [27,44,26,39,2,0,7,39,25,46,19,11,25], [5,1,20,19,19,23,3,34,30,32,41,18,25], [30,4,13,46,35,46,46,28,35,18,16,26,25],
   [8,8,6,26,5,23,43,23,40,4,38,33,25], [33,11,46,5,22,46,39,18,45,37,12,41,25], [11,15,39,32,38,22,36,13,3,24,34,1,26],
   [36,18,32,12,8,46,32,8,8,10,9,9,26], [14,22,25,39,24,22,29,3,13,43,30,16,26], [39,25,18,19,41,45,25,45,17,29,5,24,26],
   [17,29,11,46,10,22,22,40,22,15,27,31,26], [42,32,4,26,27,45,18,35,27,1,2,39,26], [20,36,44,5,44,21,15,30,32,34,23,46,26],
   [45,39,37,32,13,45,11,25,37,20,45,6,27], [23,43,30,12,30,21,8,20,42,6,20,14,27], [1,0,24,39,46,44,4,15,0,40,41,21,27],
   [26,3,17,19,16,21,1,10,5,26,16,29,27], [4,7,10,46,32,44,44,4,10,12,38,36,27], [29,10,3,26,2,21,41,46,14,45,12,44,27],
   [7,14,43,5,19,44,37,41,19,31,34,4,28], [32,17,36,32,35,20,34,36,24,17,9,12,28], [10,21,29,12,5,44,30,31,29,3,31,19,28],
   [35,24,22,39,21,20,27,26,34,36,5,27,28], [13,28,15,19,38,43,23,21,39,22,27,34,28], [38,31,8,46,7,20,20,16,44,8,2,42,28],
   [16,35,1,26,24,43,16,11,2,42,23,2,29], [41,38,41,5,41,19,13,6,7,28,45,9,29], [19,42,34,32,10,43,9,1,12,14,20,17,29],
   [44,45,27,12,27,19,6,43,16,0,42,24,29], [22,2,21,39,43,42,2,38,21,33,16,32,29], [0,6,14,19,13,19,46,32,26,19,38,39,29],
   [25,9,7,46,29,42,42,27,31,5,13,0,30], [3,13,0,26,46,18,39,22,36,38,34,7,30], [28,16,40,5,16,42,35,17,41,24,9,15,30],
   [6,20,33,32,32,18,32,12,46,10,31,22,30], [31,23,26,12,2,42,28,7,4,44,5,30,30], [9,27,19,39,18,18,25,2,9,30,27,37,30],
   [34,30,12,19,35,41,21,44,13,16,2,45,30], [12,34,5,46,4,18,18,39,18,2,24,5,31], [37,37,45,25,21,41,14,34,23,35,45,12,31],
   [15,41,38,5,38,17,11,29,28,21,20,20,31], [40,44,31,32,7,41,7,24,33,7,42,27,31], [18,1,25,12,24,17,4,19,38,40,16,35,31],
   [43,4,18,39,40,40,0,14,43,26,38,42,31], [21,8,11,19,10,17,44,8,1,13,13,3,32], [46,11,4,46,26,40,40,3,6,46,34,10,32],
   [24,15,44,25,43,16,37,45,10,32,9,18,32], [2,19,37,5,13,40,33,40,15,18,31,25,32], [27,22,30,32,29,16,30,35,20,4,6,33,32],
   [5,26,23,12,46,39,26,30,25,37,27,40,32], [30,29,16,39,15,16,23,25,30,23,2,1,33], [8,33,9,19,32,39,19,20,35,9,24,8,33],
   [33,36,2,46,1,16,16,15,40,42,45,15,33], [11,40,42,25,18,39,12,10,45,28,20,23,33], [36,43,35,5,35,15,9,5,3,15,42,30,33],
   [14,0,29,32,4,39,5,0,8,1,17,38,33], [39,3,22,12,21,15,2,42,12,34,38,45,33], [17,7,15,39,37,38,45,36,17,20,13,6,34],
   [42,10,8,19,7,15,42,31,22,6,35,13,34], [20,14,1,46,23,38,38,26,27,39,9,21,34], [45,17,41,25,40,14,35,21,32,25,31,28,34],
   [23,21,34,5,10,38,31,16,37,11,6,36,34], [1,25,27,32,26,14,28,11,42,44,27,43,34], [26,28,20,12,43,37,24,6,0,31,2,4,35],
   [4,32,13,39,12,14,21,1,5,17,24,11,35], [29,35,6,19,29,37,17,43,9,3,46,18,35], [7,39,46,45,45,13,14,38,14,36,20,26,35],
   [32,42,39,25,15,37,10,33,19,22,42,33,35], [10,46,32,5,32,13,7,28,24,8,17,41,35], [35,2,26,32,1,37,3,23,29,41,38,1,36],
   [13,6,19,12,18,13,0,18,34,27,13,9,36], [38,9,12,39,34,36,43,12,39,13,35,16,36], [16,13,5,19,4,13,40,7,44,46,9,24,36],
   [41,16,45,45,20,36,36,2,2,33,31,31,36], [19,20,38,25,37,12,33,44,6,19,6,39,36], [44,23,31,5,7,36,29,39,11,5,28,46,36],
   [22,27,24,32,23,12,26,34,16,38,2,7,37], [0,31,17,12,40,35,22,29,21,24,24,14,37], [25,34,10,39,9,12,19,24,26,10,46,21,37],
   [3,38,3,19,26,35,15,19,31,43,20,29,37], [28,41,43,45,42,11,12,14,36,29,42,36,37], [6,45,36,25,12,35,8,9,41,15,17,44,37],
   [31,1,30,5,29,11,5,4,46,1,39,4,38], [9,5,23,32,45,34,1,46,3,35,13,12,38], [34,8,16,12,15,11,45,40,8,21,35,19,38],
   [12,12,9,39,31,34,41,35,13,7,10,27,38], [37,15,2,19,1,11,38,30,18,40,31,34,38], [15,19,42,45,17,34,34,25,23,26,6,42,38],
   [40,22,35,25,34,10,31,20,28,12,28,2,39], [18,26,28,5,4,34,27,15,33,45,2,10,39], [43,29,21,32,20,10,24,10,38,31,24,17,39],
   [21,33,14,12,37,33,20,5,43,17,46,24,39], [46,36,7,39,6,10,17,0,1,4,21,32,39], [24,40,0,19,23,33,13,42,5,37,42,39,39],
   [2,44,40,45,39,9,10,37,10,23,17,0,40], [27,0,34,25,9,33,6,32,15,9,39,7,40], [5,4,27,5,26,9,3,27,20,42,13,15,40],
   [30,7,20,32,42,32,46,21,25,28,35,22,40]]"

definition BASE47_POS9 :: "nat list list" where
  "BASE47_POS9 = [
   [0,0,0,0,0,0,0,0,0,0,0,0,0,0,0], [8,11,13,12,12,9,43,16,30,14,10,30,40,0,0], [16,22,26,24,24,18,39,33,13,29,20,13,34,1,0],
   [24,33,39,36,36,27,35,3,44,43,30,43,27,2,0], [32,44,5,2,2,37,31,20,27,11,41,26,21,3,0], [40,8,19,14,14,46,27,37,10,26,4,10,15,4,0],
   [1,20,32,26,26,8,24,7,41,40,14,40,8,5,0], [9,31,45,38,38,17,20,24,24,8,25,23,2,6,0], [17,42,11,4,4,27,16,41,7,23,35,6,43,6,0],
   [25,6,25,16,16,36,12,11,38,37,45,36,36,7,0], [33,17,38,28,28,45,8,28,21,5,9,20,30,8,0], [41,28,4,41,40,7,5,45,4,20,19,3,24,9,0],
   [2,40,17,6,6,17,1,15,35,34,29,33,17,10,0], [10,4,31,18,18,26,44,31,18,2,40,16,11,11,0], [18,15,44,30,30,35,40,1,2,17,3,0,5,12,0],
   [26,26,10,43,42,44,36,18,32,31,13,30,45,12,0], [34,37,23,8,8,7,33,35,15,46,23,13,39,13,0], [42,1,37,20,20,16,29,5,46,13,34,43,32,14,0],
   [3,13,3,33,32,25,25,22,29,28,44,26,26,15,0], [11,24,16,45,44,34,21,39,12,43,7,10,20,16,0], [19,35,29,10,10,44,17,9,43,10,18,40,13,17,0],
   [27,46,42,22,22,6,14,26,26,25,28,23,7,18,0], [35,10,9,35,34,15,10,43,9,40,38,6,1,19,0], [43,21,22,0,0,25,6,13,40,7,2,37,41,19,0],
   [4,33,35,12,12,34,2,30,23,22,12,20,35,20,0], [12,44,1,25,24,43,45,46,6,37,22,3,29,21,0], [20,8,15,37,36,5,42,16,37,4,33,33,22,22,0],
   [28,19,28,2,2,15,38,33,20,19,43,16,16,23,0], [36,30,41,14,14,24,34,3,4,34,6,0,10,24,0], [44,41,7,27,26,33,30,20,34,1,17,30,3,25,0],
   [5,6,21,39,38,42,26,37,17,16,27,13,44,25,0], [13,17,34,4,4,5,23,7,1,31,37,43,37,26,0], [21,28,0,17,16,14,19,24,31,45,0,27,31,27,0],
   [29,39,13,29,28,23,15,41,14,13,11,10,25,28,0], [37,3,27,41,40,32,11,11,45,27,21,40,18,29,0], [45,14,40,6,6,42,7,28,28,42,31,23,12,30,0],
   [6,26,6,19,18,4,4,45,11,10,42,6,6,31,0], [14,37,19,31,30,13,0,15,42,24,5,37,46,31,0], [22,1,33,43,42,22,43,31,25,39,15,20,40,32,0],
   [30,12,46,8,8,32,39,1,9,7,26,3,34,33,0], [38,23,12,21,20,41,35,18,39,21,36,33,27,34,0], [46,34,25,33,32,3,32,35,22,36,46,16,21,35,0],
   [7,46,38,45,44,12,28,5,6,4,10,0,15,36,0], [15,10,5,11,10,22,24,22,36,18,20,30,8,37,0], [23,21,18,23,22,31,20,39,19,33,30,13,2,38,0],
   [31,32,31,35,34,40,16,9,3,1,41,43,42,38,0], [39,43,44,0,0,3,13,26,33,15,4,27,36,39,0], [0,8,11,13,12,12,9,43,16,30,14,10,30,40,0],
   [8,19,24,25,24,21,5,13,0,45,24,40,23,41,0], [16,30,37,37,36,30,1,30,30,12,35,23,17,42,0], [24,41,3,3,2,40,44,46,13,27,45,6,11,43,0],
   [32,5,17,15,14,2,41,16,44,41,8,37,4,44,0], [40,16,30,27,26,11,37,33,27,9,19,20,45,44,0], [1,28,43,39,38,20,33,3,11,24,29,3,39,45,0],
   [9,39,9,5,4,30,29,20,41,38,39,33,32,46,0], [17,3,23,17,16,39,25,37,24,6,3,17,26,0,1], [25,14,36,29,28,1,22,7,8,21,13,0,20,1,1],
   [33,25,2,42,40,10,18,24,38,35,23,30,13,2,1], [41,36,15,7,6,20,14,41,21,3,34,13,7,3,1], [2,1,29,19,18,29,10,11,5,18,44,43,0,4,1],
   [10,12,42,31,30,38,6,28,35,32,7,27,41,4,1], [18,23,8,44,42,0,3,45,18,0,18,10,35,5,1], [26,34,21,9,8,10,46,14,2,15,28,40,28,6,1],
   [34,45,34,21,20,19,42,31,32,29,38,23,22,7,1], [42,9,1,34,32,28,38,1,16,44,1,7,16,8,1], [3,21,14,46,44,37,34,18,46,11,12,37,9,9,1],
   [11,32,27,11,10,0,31,35,29,26,22,20,3,10,1], [19,43,40,23,22,9,27,5,13,41,32,3,44,10,1], [27,7,7,36,34,18,23,22,43,8,43,33,37,11,1],
   [35,18,20,1,0,28,19,39,26,23,6,17,31,12,1], [43,29,33,13,12,37,15,9,10,38,16,0,25,13,1], [4,41,46,25,24,46,11,26,40,5,27,30,18,14,1],
   [12,5,13,38,36,8,8,43,23,20,37,13,12,15,1], [20,16,26,3,2,18,4,13,7,35,0,44,5,16,1], [28,27,39,15,14,27,0,30,37,2,11,27,46,16,1],
   [36,38,5,28,26,36,43,46,20,17,21,10,40,17,1], [44,2,19,40,38,45,39,16,4,32,31,40,33,18,1], [5,14,32,5,4,8,36,33,34,46,41,23,27,19,1],
   [13,25,45,17,16,17,32,3,18,14,5,7,21,20,1], [21,36,11,30,28,26,28,20,1,29,15,37,14,21,1], [29,0,25,42,40,35,24,37,31,43,25,20,8,22,1],
   [37,11,38,7,6,45,20,7,15,11,36,3,2,23,1], [45,22,4,20,18,7,17,24,45,25,46,33,42,23,1], [6,34,17,32,30,16,13,41,28,40,9,17,36,24,1],
   [14,45,30,44,42,25,9,11,12,8,20,0,30,25,1], [22,9,44,9,8,35,5,28,42,22,30,30,23,26,1], [30,20,10,22,20,44,1,45,25,37,40,13,17,27,1],
   [38,31,23,34,32,6,45,14,9,5,4,44,10,28,1], [46,42,36,46,44,15,41,31,39,19,14,27,4,29,1], [7,7,3,12,10,25,37,1,23,34,24,10,45,29,1],
   [15,18,16,24,22,34,33,18,6,2,35,40,38,30,1], [23,29,29,36,34,43,29,35,36,16,45,23,32,31,1], [31,40,42,1,0,6,26,5,20,31,8,7,26,32,1],
   [39,4,9,14,12,15,22,22,3,46,18,37,19,33,1], [0,16,22,26,24,24,18,39,33,13,29,20,13,34,1], [8,27,35,38,36,33,14,9,17,28,39,3,7,35,1],
   [16,38,1,4,2,43,10,26,0,43,2,34,0,36,1], [24,2,15,16,14,5,7,43,30,10,13,17,41,36,1], [32,13,28,28,26,14,3,13,14,25,23,0,35,37,1],
   [40,24,41,40,38,23,46,29,44,39,33,30,28,38,1], [1,36,7,6,4,33,42,46,27,7,44,13,22,39,1], [9,0,21,18,16,42,38,16,11,22,7,44,15,40,1],
   [17,11,34,30,28,4,35,33,41,36,17,27,9,41,1], [25,22,0,43,40,13,31,3,25,4,28,10,3,42,1], [33,33,13,8,6,23,27,20,8,19,38,40,43,42,1],
   [41,44,26,20,18,32,23,37,38,33,1,24,37,43,1], [2,9,40,32,30,41,19,7,22,1,12,7,31,44,1], [10,20,6,45,42,3,16,24,5,16,22,37,24,45,1],
   [18,31,19,10,8,13,12,41,35,30,32,20,18,46,1], [26,42,32,22,20,22,8,11,19,45,42,3,12,0,2], [34,6,46,34,32,31,4,28,2,13,6,34,5,1,2],
   [42,17,12,0,45,40,0,45,32,27,16,17,46,1,2], [3,29,25,12,10,3,44,14,16,42,26,0,40,2,2], [11,40,38,24,22,12,40,31,46,9,37,30,33,3,2],
   [19,4,5,37,34,21,36,1,30,24,0,14,27,4,2], [27,15,18,2,0,31,32,18,13,39,10,44,20,5,2], [35,26,31,14,12,40,28,35,43,6,21,27,14,6,2],
   [43,37,44,26,24,2,25,5,27,21,31,10,8,7,2], [4,2,11,39,36,11,21,22,10,36,41,40,1,8,2], [12,13,24,4,2,21,17,39,40,3,5,24,42,8,2],
   [20,24,37,16,14,30,13,9,24,18,15,7,36,9,2], [28,35,3,29,26,39,9,26,7,33,25,37,29,10,2], [36,46,16,41,38,1,6,43,37,0,36,20,23,11,2],
   [44,10,30,6,4,11,2,13,21,15,46,3,17,12,2], [5,22,43,18,16,20,45,29,4,30,9,34,10,13,2], [13,33,9,31,28,29,41,46,34,44,19,17,4,14,2],
   [21,44,22,43,40,38,37,16,18,12,30,0,45,14,2], [29,8,36,8,6,1,34,33,1,27,40,30,38,15,2], [37,19,2,21,18,10,30,3,32,41,3,14,32,16,2],
   [45,30,15,33,30,19,26,20,15,9,14,44,25,17,2], [6,42,28,45,42,28,22,37,45,23,24,27,19,18,2], [14,6,42,10,8,38,18,7,29,38,34,10,13,19,2],
   [22,17,8,23,20,0,15,24,12,6,45,40,6,20,2], [30,28,21,35,32,9,11,41,42,20,8,24,0,21,2], [38,39,34,0,45,18,7,11,26,35,18,7,41,21,2],
   [46,3,1,13,10,28,3,28,9,3,29,37,34,22,2], [7,15,14,25,22,37,46,44,39,17,39,20,28,23,2], [15,26,27,37,34,46,42,14,23,32,2,4,22,24,2],
   [23,37,40,2,0,9,39,31,6,0,13,34,15,25,2], [31,1,7,15,12,18,35,1,37,14,23,17,9,26,2], [39,12,20,27,24,27,31,18,20,29,33,0,3,27,2],
   [0,24,33,39,36,36,27,35,3,44,43,30,43,27,2], [8,35,46,4,2,46,23,5,34,11,7,14,37,28,2], [16,46,12,17,14,8,20,22,17,26,17,44,30,29,2],
   [24,10,26,29,26,17,16,39,0,41,27,27,24,30,2], [32,21,39,41,38,26,12,9,31,8,38,10,18,31,2], [40,32,5,7,4,36,8,26,14,23,1,41,11,32,2],
   [1,44,18,19,16,45,4,43,44,37,11,24,5,33,2], [9,8,32,31,28,7,1,13,28,5,22,7,46,33,2], [17,19,45,43,40,16,44,29,11,20,32,37,39,34,2],
   [25,30,11,9,6,26,40,46,41,34,42,20,33,35,2], [33,41,24,21,18,35,36,16,25,2,6,4,27,36,2], [41,5,38,33,30,44,32,33,8,17,16,34,20,37,2],
   [2,17,4,46,42,6,29,3,39,31,26,17,14,38,2], [10,28,17,11,8,16,25,20,22,46,36,0,8,39,2], [18,39,30,23,20,25,21,37,5,14,0,31,1,40,2],
   [26,3,44,35,32,34,17,7,36,28,10,14,42,40,2], [34,14,10,1,45,43,13,24,19,43,20,44,35,41,2], [42,25,23,13,10,6,10,41,2,11,31,27,29,42,2],
   [3,37,36,25,22,15,6,11,33,25,41,10,23,43,2], [11,1,3,38,34,24,2,28,16,40,4,41,16,44,2], [19,12,16,3,0,34,45,44,46,7,15,24,10,45,2],
   [27,23,29,15,12,43,41,14,30,22,25,7,4,46,2], [35,34,42,27,24,5,38,31,13,37,35,37,44,46,2], [43,45,8,40,36,14,34,1,44,4,46,20,38,0,3],
   [4,10,22,5,2,24,30,18,27,19,9,4,32,1,3], [12,21,35,17,14,33,26,35,10,34,19,34,25,2,3], [20,32,1,30,26,42,22,5,41,1,30,17,19,3,3],
   [28,43,14,42,38,4,19,22,24,16,40,0,13,4,3], [36,7,28,7,4,14,15,39,7,31,3,31,6,5,3], [44,18,41,19,16,23,11,9,38,45,13,14,0,6,3],
   [5,30,7,32,28,32,7,26,21,13,24,44,40,6,3], [13,41,20,44,40,41,3,43,4,28,34,27,34,7,3], [21,5,34,9,6,4,0,13,35,42,44,10,28,8,3],
   [29,16,0,22,18,13,43,29,18,10,8,41,21,9,3], [37,27,13,34,30,22,39,46,1,25,18,24,15,10,3], [45,38,26,46,42,31,35,16,32,39,28,7,9,11,3],
   [6,3,40,11,8,41,31,33,15,7,39,37,2,12,3], [14,14,6,24,20,3,28,3,46,21,2,21,43,12,3], [22,25,19,36,32,12,24,20,29,36,12,4,37,13,3],
   [30,36,32,1,45,21,20,37,12,4,23,34,30,14,3], [38,0,46,13,10,31,16,7,43,18,33,17,24,15,3], [46,11,12,26,22,40,12,24,26,33,43,0,18,16,3],
   [7,23,25,38,34,2,9,41,9,1,7,31,11,17,3], [15,34,38,3,0,12,5,11,40,15,17,14,5,18,3], [23,45,4,16,12,21,1,28,23,30,27,44,45,18,3],
   [31,9,18,28,24,30,44,44,6,45,37,27,39,19,3], [39,20,31,40,36,39,40,14,37,12,1,11,33,20,3], [0,32,44,5,2,2,37,31,20,27,11,41,26,21,3],
   [8,43,10,18,14,11,33,1,4,42,21,24,20,22,3], [16,7,24,30,26,20,29,18,34,9,32,7,14,23,3], [24,18,37,42,38,29,25,35,17,24,42,37,7,24,3],
   [32,29,3,8,4,39,21,5,1,39,5,21,1,25,3], [40,40,16,20,16,1,18,22,31,6,16,4,42,25,3], [1,5,30,32,28,10,14,39,14,21,26,34,35,26,3],
   [9,16,43,44,40,19,10,9,45,35,36,17,29,27,3], [17,27,9,10,6,29,6,26,28,3,0,1,23,28,3], [25,38,22,22,18,38,2,43,11,18,10,31,16,29,3],
   [33,2,36,34,30,0,46,12,42,32,20,14,10,30,3], [41,13,2,0,43,9,42,29,25,0,31,44,3,31,3], [2,25,15,12,8,19,38,46,8,15,41,27,44,31,3],
   [10,36,28,24,20,28,34,16,39,29,4,11,38,32,3], [18,0,42,36,32,37,30,33,22,44,14,41,31,33,3], [26,11,8,2,45,46,26,3,6,12,25,24,25,34,3],
   [34,22,21,14,10,9,23,20,36,26,35,7,19,35,3], [42,33,34,26,22,18,19,37,19,41,45,37,12,36,3], [3,45,0,39,34,27,15,7,3,9,9,21,6,37,3],
   [11,9,14,4,0,37,11,24,33,23,19,4,0,38,3], [19,20,27,16,12,46,7,41,16,38,29,34,40,38,3], [27,31,40,28,24,8,4,11,0,6,40,17,34,39,3],
   [35,42,6,41,36,17,0,28,30,20,3,1,28,40,3], [43,6,20,6,2,27,43,44,13,35,13,31,21,41,3], [4,18,33,18,14,36,39,14,44,2,24,14,15,42,3],
   [12,29,46,30,26,45,35,31,27,17,34,44,8,43,3], [20,40,12,43,38,7,32,1,11,32,44,27,2,44,3], [28,4,26,8,4,17,28,18,41,46,7,11,43,44,3],
   [36,15,39,20,16,26,24,35,24,14,18,41,36,45,3], [44,26,5,33,28,35,20,5,8,29,28,24,30,46,3], [5,38,18,45,40,44,16,22,38,43,38,7,24,0,4],
   [13,2,32,10,6,7,13,39,21,11,2,38,17,1,4], [21,13,45,22,18,16,9,9,5,26,12,21,11,2,4], [29,24,11,35,30,25,5,26,35,40,22,4,5,3,4],
   [37,35,24,0,43,34,1,43,18,8,33,34,45,3,4], [45,46,37,12,8,44,44,12,2,23,43,17,39,4,4], [6,11,4,25,20,6,41,29,32,37,6,1,33,5,4],
   [14,22,17,37,32,15,37,46,15,5,17,31,26,6,4], [22,33,30,2,45,24,33,16,46,19,27,14,20,7,4], [30,44,43,14,10,34,29,33,29,34,37,44,13,8,4],
   [38,8,10,27,22,43,25,3,13,2,1,28,7,9,4], [46,19,23,39,34,5,22,20,43,16,11,11,1,10,4], [7,31,36,4,0,15,18,37,26,31,21,41,41,10,4],
   [15,42,2,17,12,24,14,7,10,46,31,24,35,11,4], [23,6,16,29,24,33,10,24,40,13,42,7,29,12,4], [31,17,29,41,36,42,6,41,23,28,5,38,22,13,4],
   [39,28,42,6,2,5,3,11,7,43,15,21,16,14,4], [0,40,8,19,14,14,46,27,37,10,26,4,10,15,4], [8,4,22,31,26,23,42,44,20,25,36,34,3,16,4],
   [16,15,35,43,38,32,38,14,4,40,46,17,44,16,4], [24,26,1,9,4,42,34,31,34,7,10,1,38,17,4], [32,37,14,21,16,4,31,1,18,22,20,31,31,18,4],
   [40,1,28,33,28,13,27,18,1,37,30,14,25,19,4], [1,13,41,45,40,22,23,35,31,4,41,44,18,20,4], [9,24,7,11,6,32,19,5,15,19,4,28,12,21,4],
   [17,35,20,23,18,41,15,22,45,33,14,11,6,22,4], [25,46,33,35,30,3,12,39,28,1,25,41,46,22,4], [33,10,0,1,43,12,8,9,12,16,35,24,40,23,4],
   [41,21,13,13,8,22,4,26,42,30,45,7,34,24,4], [2,33,26,25,20,31,0,43,25,45,8,38,27,25,4], [10,44,39,37,32,40,43,12,9,13,19,21,21,26,4],
   [18,8,6,3,45,2,40,29,39,27,29,4,15,27,4], [26,19,19,15,10,12,36,46,22,42,39,34,8,28,4], [34,30,32,27,22,21,32,16,6,10,3,18,2,29,4],
   [42,41,45,39,34,30,28,33,36,24,13,1,43,29,4], [3,6,12,5,0,40,24,3,20,39,23,31,36,30,4], [11,17,25,17,12,2,21,20,3,7,34,14,30,31,4],
   [19,28,38,29,24,11,17,37,33,21,44,44,23,32,4]]"

definition BASE47_POS10 :: "nat list list" where
  "BASE47_POS10 = [
   [0,0,0,0,0,0,0,0,0,0,0,0,0,0,0,0], [27,39,4,42,36,20,13,7,17,36,7,28,17,33,4,0], [7,32,9,37,26,41,26,14,34,25,15,9,35,19,9,0],
   [34,24,14,32,16,15,40,21,4,15,23,37,5,6,14,0], [14,17,19,27,6,36,6,29,21,4,31,18,23,39,18,0], [41,9,24,22,43,9,20,36,38,40,38,46,40,25,23,0],
   [21,2,29,17,33,30,33,43,8,30,46,27,11,12,28,0], [1,42,33,12,23,4,0,4,26,19,7,9,29,45,32,0], [28,34,38,7,13,25,13,11,43,8,15,37,46,31,37,0],
   [8,27,43,2,3,46,26,18,13,45,22,18,17,18,42,0], [35,19,1,45,39,19,40,25,30,34,30,46,34,4,0,1], [15,12,6,40,29,40,6,33,0,24,38,27,5,38,4,1],
   [42,4,11,35,19,14,20,40,17,13,46,8,23,24,9,1], [22,44,15,30,9,35,33,0,35,2,7,37,40,10,14,1], [2,37,20,25,46,8,0,8,5,39,14,18,11,44,18,1],
   [29,29,25,20,36,29,13,15,22,28,22,46,28,30,23,1], [9,22,30,15,26,3,27,22,39,17,30,27,46,16,28,1], [36,14,35,10,16,24,40,29,9,7,38,8,17,3,33,1],
   [16,7,40,5,6,45,6,37,26,43,45,36,34,36,37,1], [43,46,44,0,43,18,20,44,43,32,6,18,5,23,42,1], [23,39,2,43,32,39,33,4,14,22,14,46,22,9,0,2],
   [3,32,7,38,22,13,0,12,31,11,22,27,40,42,4,2], [30,24,12,33,12,34,13,19,1,1,30,8,11,29,9,2], [10,17,17,28,2,8,27,26,18,37,37,36,28,15,14,2],
   [37,9,22,23,39,28,40,33,35,26,45,17,46,1,19,2], [17,2,27,18,29,2,7,41,5,16,6,46,16,35,23,2], [44,41,31,13,19,23,20,1,23,5,14,27,34,21,28,2],
   [24,34,36,8,9,44,33,8,40,41,21,8,5,8,33,2], [4,27,41,3,46,17,0,16,10,31,29,36,22,41,37,2], [31,19,46,45,35,38,13,23,27,20,37,17,40,27,42,2],
   [11,12,4,41,25,12,27,30,44,9,45,45,10,14,0,3], [38,4,9,36,15,33,40,37,14,46,5,27,28,0,5,3], [18,44,13,31,5,7,7,45,31,35,13,8,46,33,9,3],
   [45,36,18,26,42,27,20,5,2,25,21,36,16,20,14,3], [25,29,23,21,32,1,34,12,19,14,29,17,34,6,19,3], [5,22,28,16,22,22,0,20,36,3,37,45,4,40,23,3],
   [32,14,33,11,12,43,13,27,6,40,44,26,22,26,28,3], [12,7,38,6,2,17,27,34,23,29,5,8,40,12,33,3], [39,46,42,1,39,37,40,41,40,18,13,36,10,46,37,3],
   [19,39,0,44,28,11,7,2,11,8,21,17,28,32,42,3], [46,31,5,39,18,32,20,9,28,44,28,45,45,18,0,4], [26,24,10,34,8,6,34,16,45,33,36,26,16,5,5,4],
   [6,17,15,29,45,26,0,24,15,23,44,7,34,38,9,4], [33,9,20,24,35,0,14,31,32,12,5,36,4,25,14,4], [13,2,25,19,25,21,27,38,2,2,13,17,22,11,19,4],
   [40,41,29,14,15,42,40,45,19,38,20,45,39,44,23,4], [20,34,34,9,5,16,7,6,37,27,28,26,10,31,28,4], [0,27,39,4,42,36,20,13,7,17,36,7,28,17,33,4],
   [27,19,44,46,31,10,34,20,24,6,44,35,45,3,38,4], [7,12,2,42,21,31,0,28,41,42,4,17,16,37,42,4], [34,4,7,37,11,5,14,35,11,32,12,45,33,23,0,5],
   [14,44,11,32,1,26,27,42,28,21,20,26,4,10,5,5], [41,36,16,27,38,46,40,2,46,10,28,7,22,43,9,5], [21,29,21,22,28,20,7,10,16,0,36,35,39,29,14,5],
   [1,22,26,17,18,41,20,17,33,36,43,16,10,16,19,5], [28,14,31,12,8,15,34,24,3,26,4,45,27,2,24,5], [8,7,36,7,45,35,0,32,20,15,12,26,45,35,28,5],
   [35,46,40,2,35,9,14,39,37,4,20,7,16,22,33,5], [15,39,45,44,24,30,27,46,7,41,27,35,33,8,38,5], [42,31,3,40,14,4,41,6,25,30,35,16,4,42,42,5],
   [22,24,8,35,4,25,7,14,42,19,43,44,21,28,0,6], [2,17,13,30,41,45,20,21,12,9,4,26,39,14,5,6], [29,9,18,25,31,19,34,28,29,45,11,7,10,1,10,6],
   [9,2,23,20,21,40,0,36,46,34,19,35,27,34,14,6], [36,41,27,15,11,14,14,43,16,24,27,16,45,20,19,6], [16,34,32,10,1,35,27,3,34,13,35,44,15,7,24,6],
   [43,26,37,5,38,8,41,10,4,3,43,25,33,40,28,6], [23,19,42,0,28,29,7,18,21,39,3,7,4,27,33,6], [3,12,0,43,17,3,21,25,38,28,11,35,21,13,38,6],
   [30,4,5,38,7,24,34,32,8,18,19,16,39,46,42,6], [10,44,9,33,44,44,0,40,25,7,27,44,9,33,0,7], [37,36,14,28,34,18,14,0,43,43,34,25,27,19,5,7],
   [17,29,19,23,24,39,27,7,13,33,42,6,45,5,10,7], [44,21,24,18,14,13,41,14,30,22,3,35,15,39,14,7], [24,14,29,13,4,34,7,22,0,12,11,16,33,25,19,7],
   [4,7,34,8,41,7,21,29,17,1,19,44,3,12,24,7], [31,46,38,3,31,28,34,36,34,37,26,25,21,45,28,7], [11,39,43,45,20,2,1,44,4,27,34,6,39,31,33,7],
   [38,31,1,41,10,23,14,4,22,16,42,34,9,18,38,7], [18,24,6,36,0,44,27,11,39,5,3,16,27,4,43,7], [45,16,11,31,37,17,41,18,9,42,10,44,44,37,0,8],
   [25,9,16,26,27,38,7,26,26,31,18,25,15,24,5,8], [5,2,21,21,17,12,21,33,43,20,26,6,33,10,10,8], [32,41,25,16,7,33,34,40,13,10,34,34,3,44,14,8],
   [12,34,30,11,44,6,1,1,31,46,41,15,21,30,19,8], [39,26,35,6,34,27,14,8,1,36,2,44,38,16,24,8], [19,19,40,1,24,1,28,15,18,25,10,25,9,3,29,8],
   [46,11,45,43,13,22,41,22,35,14,18,6,27,36,33,8], [26,4,3,39,3,43,7,30,5,4,26,34,44,22,38,8], [6,44,7,34,40,16,21,37,22,40,33,15,15,9,43,8],
   [33,36,12,29,30,37,34,44,39,29,41,43,32,42,0,9], [13,29,17,24,20,11,1,5,10,19,2,25,3,29,5,9], [40,21,22,19,10,32,14,12,27,8,10,6,21,15,10,9],
   [20,14,27,14,0,6,28,19,44,44,17,34,38,1,15,9], [0,7,32,9,37,26,41,26,14,34,25,15,9,35,19,9], [27,46,36,4,27,0,8,34,31,23,33,43,26,21,24,9],
   [7,39,41,46,16,21,21,41,1,13,41,24,44,7,29,9], [34,31,46,41,6,42,34,1,19,2,2,6,15,41,33,9], [14,24,4,37,43,15,1,9,36,38,9,34,32,27,38,9],
   [41,16,9,32,33,36,14,16,6,28,17,15,3,14,43,9], [21,9,14,27,23,10,28,23,23,17,25,43,20,0,1,10], [1,2,19,22,13,31,41,30,40,6,33,24,38,33,5,10],
   [28,41,23,17,3,5,8,38,10,43,40,5,9,20,10,10], [8,34,28,12,40,25,21,45,27,32,1,34,26,6,15,10], [35,26,33,7,30,46,34,5,45,21,9,15,44,39,19,10],
   [15,19,38,2,20,20,1,13,15,11,17,43,14,26,24,10], [42,11,43,44,9,41,14,20,32,0,25,24,32,12,29,10], [22,4,1,40,46,14,28,27,2,37,32,5,3,46,33,10],
   [2,44,5,35,36,35,41,34,19,26,40,33,20,32,38,10], [29,36,10,30,26,9,8,42,36,15,1,15,38,18,43,10], [9,29,15,25,16,30,21,2,7,5,9,43,8,5,1,11],
   [36,21,20,20,6,4,35,9,24,41,16,24,26,38,5,11], [16,14,25,15,43,24,1,17,41,30,24,5,44,24,10,11], [43,6,30,10,33,45,14,24,11,20,32,33,14,11,15,11],
   [23,46,34,5,23,19,28,31,28,9,40,14,32,44,19,11], [3,39,39,0,13,40,41,38,45,45,0,43,2,31,24,11], [30,31,44,42,2,14,8,46,15,35,8,24,20,17,29,11],
   [10,24,2,38,39,34,21,6,33,24,16,5,38,3,34,11], [37,16,7,33,29,8,35,13,3,14,24,33,8,37,38,11], [17,9,12,28,19,29,1,21,20,3,32,14,26,23,43,11],
   [44,1,17,23,9,3,15,28,37,39,39,42,43,9,1,12], [24,41,21,18,46,23,28,35,7,29,0,24,14,43,5,12], [4,34,26,13,36,44,41,42,24,18,8,5,32,29,10,12],
   [31,26,31,8,26,18,8,3,42,7,16,33,2,16,15,12], [11,19,36,3,16,39,21,10,12,44,23,14,20,2,20,12], [38,11,41,45,5,13,35,17,29,33,31,42,37,35,24,12],
   [18,4,46,40,42,33,1,25,46,22,39,23,8,22,29,12], [45,43,3,36,32,7,15,32,16,12,0,5,26,8,34,12], [25,36,8,31,22,28,28,39,33,1,8,33,43,41,38,12],
   [5,29,13,26,12,2,42,46,3,38,15,14,14,28,43,12], [32,21,18,21,2,23,8,7,21,27,23,42,31,14,1,13], [12,14,23,16,39,43,21,14,38,16,31,23,2,1,6,13],
   [39,6,28,11,29,17,35,21,8,6,39,4,20,34,10,13], [19,46,32,6,19,38,1,29,25,42,46,32,37,20,15,13], [46,38,37,1,9,12,15,36,42,31,7,14,8,7,20,13],
   [26,31,42,43,45,32,28,43,12,21,15,42,25,40,24,13], [6,24,0,39,35,6,42,3,30,10,23,23,43,26,29,13], [33,16,5,34,25,27,8,11,0,0,31,4,14,13,34,13],
   [13,9,10,29,15,1,22,18,17,36,38,32,31,46,38,13], [40,1,15,24,5,22,35,25,34,25,46,13,2,33,43,13], [20,41,19,19,42,42,1,33,4,15,7,42,19,19,1,14],
   [0,34,24,14,32,16,15,40,21,4,15,23,37,5,6,14], [27,26,29,9,22,37,28,0,39,40,22,4,8,39,10,14], [7,19,34,4,12,11,42,7,9,30,30,32,25,25,15,14],
   [34,11,39,46,1,32,8,15,26,19,38,13,43,11,20,14], [14,4,44,41,38,5,22,22,43,8,46,41,13,45,24,14], [41,43,1,37,28,26,35,29,13,45,6,23,31,31,29,14],
   [21,36,6,32,18,0,2,37,30,34,14,4,2,18,34,14], [1,29,11,27,8,21,15,44,0,24,22,32,19,4,39,14], [28,21,16,22,45,41,28,4,18,13,30,13,37,37,43,14],
   [8,14,21,17,35,15,42,11,35,2,38,41,7,24,1,15], [35,6,26,12,25,36,8,19,5,39,45,22,25,10,6,15], [15,46,30,7,15,10,22,26,22,28,6,4,43,43,10,15],
   [42,38,35,2,5,31,35,33,39,17,14,32,13,30,15,15], [22,31,40,44,41,4,2,41,9,7,22,13,31,16,20,15], [2,24,45,39,31,25,15,1,27,43,29,41,1,3,25,15],
   [29,16,3,35,21,46,28,8,44,32,37,22,19,36,29,15], [9,9,8,30,11,20,42,15,14,22,45,3,37,22,34,15], [36,1,13,25,1,41,8,23,31,11,6,32,7,9,39,15],
   [16,41,17,20,38,14,22,30,1,1,14,13,25,42,43,15], [43,33,22,15,28,35,35,37,18,37,21,41,42,28,1,16], [23,26,27,10,18,9,2,45,35,26,29,22,13,15,6,16],
   [3,19,32,5,8,30,15,5,6,16,37,3,31,1,11,16], [30,11,37,0,45,3,29,12,23,5,45,31,1,35,15,16], [10,4,42,42,34,24,42,19,40,41,5,13,19,21,20,16],
   [37,43,46,37,24,45,8,27,10,31,13,41,36,7,25,16], [17,36,4,33,14,19,22,34,27,20,21,22,7,41,29,16], [44,28,9,28,4,40,35,41,44,9,29,3,25,27,34,16],
   [24,21,14,23,41,13,2,2,15,46,36,31,42,13,39,16], [4,14,19,18,31,34,15,9,32,35,44,12,13,0,44,16], [31,6,24,13,21,8,29,16,2,25,5,41,30,33,1,17],
   [11,46,28,8,11,29,42,23,19,14,13,22,1,20,6,17], [38,38,33,3,1,3,9,31,36,3,21,3,19,6,11,17], [18,31,38,45,37,23,22,38,6,40,28,31,36,39,15,17],
   [45,23,43,40,27,44,35,45,23,29,36,12,7,26,20,17], [25,16,1,36,17,18,2,6,41,18,44,40,24,12,25,17], [5,9,6,31,7,39,15,13,11,8,5,22,42,45,29,17],
   [32,1,11,26,44,12,29,20,28,44,12,3,13,32,34,17], [12,41,15,21,34,33,42,27,45,33,20,31,30,18,39,17], [39,33,20,16,24,7,9,35,15,23,28,12,1,5,44,17],
   [19,26,25,11,14,28,22,42,32,12,36,40,18,38,1,18], [46,18,30,6,4,2,36,2,3,2,44,21,36,24,6,18], [26,11,35,1,41,22,2,10,20,38,4,3,7,11,11,18],
   [6,4,40,43,30,43,15,17,37,27,12,31,24,44,15,18], [33,43,44,38,20,17,29,24,7,17,20,12,42,30,20,18], [13,36,2,34,10,38,42,31,24,6,28,40,12,17,25,18],
   [40,28,7,29,0,12,9,39,41,42,35,21,30,3,30,18], [20,21,12,24,37,32,22,46,11,32,43,2,1,37,34,18], [0,14,17,19,27,6,36,6,29,21,4,31,18,23,39,18],
   [27,6,22,14,17,27,2,14,46,10,12,12,36,9,44,18], [7,46,26,9,7,1,16,21,16,0,20,40,6,43,1,19], [34,38,31,4,44,21,29,28,33,36,27,21,24,29,6,19],
   [14,31,36,46,33,42,42,35,3,26,35,2,42,15,11,19], [41,23,41,41,23,16,9,43,20,15,43,30,12,2,16,19], [21,16,46,36,13,37,22,3,38,4,4,12,30,35,20,19],
   [1,9,4,32,3,11,36,10,8,41,11,40,0,22,25,19], [28,1,9,27,40,31,2,18,25,30,19,21,18,8,30,19], [8,41,13,22,30,5,16,25,42,19,27,2,36,41,34,19],
   [35,33,18,17,20,26,29,32,12,9,35,30,6,28,39,19], [15,26,23,12,10,0,43,39,29,45,42,11,24,14,44,19], [42,18,28,7,0,21,9,0,0,35,3,40,41,0,2,20],
   [22,11,33,2,37,41,22,7,17,24,11,21,12,34,6,20], [2,4,38,44,26,15,36,14,34,13,19,2,30,20,11,20], [29,43,42,39,16,36,2,22,4,3,27,30,0,7,16,20],
   [9,36,0,35,6,10,16,29,21,39,34,11,18,40,20,20], [36,28,5,30,43,30,29,36,38,28,42,39,35,26,25,20], [16,21,10,25,33,4,43,43,8,18,3,21,6,13,30,20],
   [43,13,15,20,23,25,9,4,26,7,11,2,24,46,34,20], [23,6,20,15,13,46,22,11,43,43,18,30,41,32,39,20], [3,46,24,10,3,20,36,18,13,33,26,11,12,19,44,20],
   [30,38,29,5,40,40,2,26,30,22,34,39,29,5,2,21], [10,31,34,0,30,14,16,33,0,12,42,20,0,39,6,21], [37,23,39,42,19,35,29,40,17,1,3,2,18,25,11,21],
   [17,16,44,37,9,9,43,0,35,37,10,30,35,11,16,21], [44,8,2,33,46,29,9,8,5,27,18,11,6,45,20,21], [24,1,7,28,36,3,23,15,22,16,26,39,23,31,25,21],
   [4,41,11,23,26,24,36,22,39,5,34,20,41,17,30,21], [31,33,16,18,16,45,2,30,9,42,41,1,12,4,35,21], [11,26,21,13,6,19,16,37,26,31,2,30,29,37,39,21],
   [38,18,26,8,43,39,29,44,43,20,10,11,0,24,44,21], [18,11,31,3,33,13,43,4,14,10,18,39,17,10,2,22], [45,3,36,45,22,34,9,12,31,46,25,20,35,43,6,22],
   [25,43,40,40,12,8,23,19,1,36,33,1,6,30,11,22], [5,36,45,35,2,29,36,26,18,25,41,29,23,16,16,22], [32,28,3,31,39,2,3,34,35,14,2,11,41,2,21,22],
   [12,21,8,26,29,23,16,41,5,4,10,39,11,36,25,22], [39,13,13,21,19,44,29,1,23,40,17,20,29,22,30,22], [19,6,18,16,9,18,43,8,40,29,25,1,0,9,35,22],
   [46,45,22,11,46,38,9,16,10,19,33,29,17,42,39,22], [26,38,27,6,36,12,23,23,27,8,41,10,35,28,44,22], [6,31,32,1,26,33,36,30,44,44,1,39,5,15,2,23],
   [33,23,37,43,15,7,3,38,14,34,9,20,23,1,7,23], [13,16,42,38,5,28,16,45,31,23,17,1,41,34,11,23], [40,8,0,34,42,1,30,5,2,13,25,29,11,21,16,23],
   [20,1,5,29,32,22,43,12,19,2,33,10,29,7,21,23], [0,41,9,24,22,43,9,20,36,38,40,38,46,40,25,23], [27,33,14,19,12,17,23,27,6,28,1,20,17,27,30,23],
   [7,26,19,14,2,38,36,34,23,17,9,1,35,13,35,23], [34,18,24,9,39,11,3,42,40,6,17,29,5,0,40,23], [14,11,29,4,29,32,16,2,11,43,24,10,23,33,44,23],
   [41,3,34,46,18,6,30,9,28,32,32,38,40,19,2,24], [21,43,38,41,8,27,43,16,45,21,40,19,11,6,7,24], [1,36,43,36,45,0,10,24,15,11,1,1,29,39,11,24],
   [28,28,1,32,35,21,23,31,32,0,9,29,46,25,16,24], [8,21,6,27,25,42,36,38,2,37,16,10,17,12,21,24], [35,13,11,22,15,16,3,46,19,26,24,38,34,45,25,24],
   [15,6,16,17,5,37,16,6,37,15,32,19,5,32,30,24], [42,45,20,12,42,10,30,13,7,5,40,0,23,18,35,24], [22,38,25,7,32,31,43,20,24,41,0,29,40,4,40,24],
   [2,31,30,2,22,5,10,28,41,30,8,10,11,38,44,24], [29,23,35,44,11,26,23,35,11,20,16,38,28,24,2,25], [9,16,40,39,1,0,37,42,28,9,24,19,46,10,7,25],
   [36,8,45,34,38,20,3,3,46,45,31,0,17,44,11,25], [16,1,3,30,28,41,16,10,16,35,39,28,34,30,16,25], [43,40,7,25,18,15,30,17,33,24,0,10,5,17,21,25],
   [23,33,12,20,8,36,43,24,3,14,8,38,22,3,26,25]]"

lemma BASE47_POS7_ok: "table_ok 47 12 7 BASE47_POS7"
proof (rule table_okI)
  show "rows_step 47 [37, 4, 32, 31, 6, 24, 7, 9, 18, 17, 1, 0] BASE47_POS7"
    by (simp only: BASE47_POS7_def rows_step_eval cong: if_weak_cong)
  show "length BASE47_POS7 = 256"
    by (simp only: BASE47_POS7_def length_table_eval)
  show "hd BASE47_POS7 = [0, 0, 0, 0, 0, 0, 0, 0, 0, 0, 0, 0]"
    by (simp only: BASE47_POS7_def list.sel)
qed (simp_all add: digit_simps)

lemma BASE47_POS8_ok: "table_ok 47 13 8 BASE47_POS8"
proof (rule table_okI)
  show "rows_step 47 [25, 3, 40, 26, 16, 23, 43, 41, 4, 33, 21, 7, 0] BASE47_POS8"
    by (simp only: BASE47_POS8_def rows_step_eval cong: if_weak_cong)
  show "length BASE47_POS8 = 256"
    by (simp only: BASE47_POS8_def length_table_eval)
  show "hd BASE47_POS8 = [0, 0, 0, 0, 0, 0, 0, 0, 0, 0, 0, 0, 0]"
    by (simp only: BASE47_POS8_def list.sel)
qed (simp_all add: digit_simps)

lemma BASE47_POS9_ok: "table_ok 47 15 9 BASE47_POS9"
proof (rule table_okI)
  show "rows_step 47 [8, 11, 13, 12, 12, 9, 43, 16, 30, 14, 10, 30, 40, 0, 0] BASE47_POS9"
    by (simp only: BASE47_POS9_def rows_step_eval cong: if_weak_cong)
  show "length BASE47_POS9 = 256"
    by (simp only: BASE47_POS9_def length_table_eval)
  show "hd BASE47_POS9 = [0, 0, 0, 0, 0, 0, 0, 0, 0, 0, 0, 0, 0, 0, 0]"
    by (simp only: BASE47_POS9_def list.sel)
qed (simp_all add: digit_simps)

lemma BASE47_POS10_ok: "table_ok 47 16 10 BASE47_POS10"
proof (rule table_okI)
  show "rows_step 47 [27, 39, 4, 42, 36, 20, 13, 7, 17, 36, 7, 28, 17, 33, 4, 0] BASE47_POS10"
    by (simp only: BASE47_POS10_def rows_step_eval cong: if_weak_cong)
  show "length BASE47_POS10 = 256"
    by (simp only: BASE47_POS10_def length_table_eval)
  show "hd BASE47_POS10 = [0, 0, 0, 0, 0, 0, 0, 0, 0, 0, 0, 0, 0, 0, 0, 0]"
    by (simp only: BASE47_POS10_def list.sel)
qed (simp_all add: digit_simps)

end
