(* ===== verification/Tables_47_C.thy ===== *)
theory Tables_47_C
  imports Digits
begin

text \<open>
  The tables \<open>BASE47_POS11\<close> to \<open>BASE47_POS13\<close> of \<^verbatim>\<open>fancy-garbling/base_conversion/cbits/lookup_tables.c\<close>,
  entry by entry, as lists of rows of \<open>uint16_t\<close> values read as naturals.  Each lemma \<open>_ok\<close> shows that row \<open>x\<close> holds the base-47
  digits of \<open>x * 256 ^ pos\<close>, for the width that the declaration of the table has.
\<close>

definition BASE47_POS11 :: "nat list list" where
  "BASE47_POS11 = [
   [0,0,0,0,0,0,0,0,0,0,0,0,0,0,0,0,0,0], [3,26,17,15,45,9,10,32,20,3,16,19,40,36,30,25,0,0], [6,5,35,30,43,19,20,17,41,6,32,38,33,26,14,4,1,0],
   [9,31,5,46,41,29,30,2,15,10,1,11,27,16,45,29,1,0], [12,10,23,14,40,39,40,34,35,13,17,30,20,6,29,8,2,0],
   [15,36,40,29,38,2,4,20,9,17,33,2,14,43,12,34,2,0], [18,15,11,45,36,12,14,5,30,20,2,22,7,33,43,12,3,0],
   [21,41,28,13,35,22,24,37,3,24,18,41,0,23,27,38,3,0], [24,20,46,28,33,32,34,22,24,27,34,13,41,12,11,17,4,0],
   [27,46,16,44,31,42,44,7,45,30,3,33,34,2,42,42,4,0], [30,25,34,12,30,5,8,40,18,34,19,5,28,39,25,21,5,0],
   [33,4,5,28,28,15,18,25,39,37,35,24,21,29,9,0,6,0], [36,30,22,43,26,25,28,10,13,41,4,44,14,19,40,25,6,0],
   [39,9,40,11,25,35,38,42,33,44,20,16,8,9,24,4,7,0], [42,35,10,27,23,45,1,28,7,1,37,35,1,46,7,30,7,0],
   [45,14,28,42,21,8,12,13,28,4,6,8,42,35,38,8,8,0], [1,41,45,10,20,18,22,45,1,8,22,27,35,25,22,34,8,0],
   [4,20,16,26,18,28,32,30,22,11,38,46,28,15,6,13,9,0], [7,46,33,41,16,38,42,15,43,14,7,19,22,5,37,38,9,0],
   [10,25,4,10,15,1,6,1,17,18,23,38,15,42,20,17,10,0], [13,4,22,25,13,11,16,33,37,21,39,10,9,32,4,43,10,0],
   [16,30,39,40,11,21,26,18,11,25,8,30,2,22,35,21,11,0], [19,9,10,9,10,31,36,3,32,28,24,2,43,11,19,0,12,0],
   [22,35,27,24,8,41,46,35,5,32,40,21,36,1,3,26,12,0], [25,14,45,39,6,4,10,21,26,35,9,41,29,38,33,4,13,0],
   [28,40,15,8,5,14,20,6,0,39,25,13,23,28,17,30,13,0], [31,19,33,23,3,24,30,38,20,42,41,32,16,18,1,9,14,0],
   [34,45,3,39,1,34,40,23,41,45,10,5,10,8,32,34,14,0], [37,24,21,7,0,44,3,9,15,2,27,24,3,45,15,13,15,0],
   [40,3,39,22,45,6,14,41,35,5,43,43,43,34,46,38,15,0], [43,29,9,38,43,16,24,26,9,9,12,16,37,24,30,17,16,0],
   [46,8,27,6,42,26,34,11,30,12,28,35,30,14,14,43,16,0], [2,35,44,21,40,36,44,43,3,16,44,7,24,4,45,21,17,0],
   [5,14,15,37,38,46,7,29,24,19,13,27,17,41,28,0,18,0], [8,40,32,5,37,9,18,14,45,22,29,46,10,31,12,26,18,0],
   [11,19,3,21,35,19,28,46,18,26,45,18,4,21,43,4,19,0], [14,45,20,36,33,29,38,31,39,29,14,38,44,10,27,30,19,0],
   [17,24,38,4,32,39,1,17,13,33,30,10,38,0,11,9,20,0], [20,3,9,20,30,2,12,2,34,36,46,29,31,37,41,34,20,0],
   [23,29,26,35,28,12,22,34,7,40,15,2,25,27,25,13,21,0], [26,8,44,3,27,22,32,19,28,43,31,21,18,17,9,39,21,0],
   [29,34,14,19,25,32,42,4,2,0,1,41,11,7,40,17,22,0], [32,13,32,34,23,42,5,37,22,3,17,13,5,44,23,43,22,0],
   [35,39,2,3,22,5,16,22,43,6,33,32,45,33,7,22,23,0], [38,18,20,18,20,15,26,7,17,10,2,5,39,23,38,0,24,0],
   [41,44,37,33,18,25,36,39,37,13,18,24,32,13,22,26,24,0], [44,23,8,2,17,35,46,24,11,17,34,43,25,3,6,5,25,0],
   [0,3,26,17,15,45,9,10,32,20,3,16,19,40,36,30,25,0], [3,29,43,32,13,8,20,42,5,24,19,35,12,30,20,9,26,0],
   [6,8,14,1,12,18,30,27,26,27,35,7,6,20,4,35,26,0], [9,34,31,16,10,28,40,12,0,31,4,27,46,9,35,13,27,0],
   [12,13,2,32,8,38,3,45,20,34,20,46,39,46,18,39,27,0], [15,39,19,0,7,1,14,30,41,37,36,18,33,36,2,18,28,0],
   [18,18,37,15,5,11,24,15,15,41,5,38,26,26,33,43,28,0], [21,44,7,31,3,21,34,0,36,44,21,10,20,16,17,22,29,0],
   [24,23,25,46,1,31,44,32,9,1,38,29,13,6,1,1,30,0], [27,2,43,14,0,41,7,18,30,4,7,2,7,43,31,26,30,0], [30,28,13,30,45,3,18,3,4,8,23,21,0,33,15,5,31,0],
   [33,7,31,45,43,13,28,35,24,11,39,40,40,22,46,30,31,0], [36,33,1,14,42,23,38,20,45,14,8,13,34,12,30,9,32,0],
   [39,12,19,29,40,33,1,6,19,18,24,32,27,2,14,35,32,0], [42,38,36,44,38,43,11,38,39,21,40,4,21,39,44,13,33,0],
   [45,17,7,13,37,6,22,23,13,25,9,24,14,29,28,39,33,0], [1,44,24,28,35,16,32,8,34,28,25,43,7,19,12,18,34,0],
   [4,23,42,43,33,26,42,40,7,32,41,15,1,9,43,43,34,0], [7,2,13,12,32,36,5,26,28,35,10,35,41,45,26,22,35,0],
   [10,28,30,27,30,46,15,11,2,39,26,7,35,35,10,1,36,0], [13,7,1,43,28,9,26,43,22,42,42,26,28,25,41,26,36,0],
   [16,33,18,11,27,19,36,28,43,45,11,46,21,15,25,5,37,0], [19,12,36,26,25,29,46,13,17,2,28,18,15,5,9,31,37,0],
   [22,38,6,42,23,39,9,46,37,5,44,37,8,42,39,9,38,0], [25,17,24,10,22,2,20,31,11,9,13,10,2,32,23,35,38,0],
   [28,43,41,25,20,12,30,16,32,12,29,29,42,21,7,14,39,0], [31,22,12,41,18,22,40,1,6,16,45,1,36,11,38,39,39,0],
   [34,1,30,9,17,32,3,34,26,19,14,21,29,1,22,18,40,0], [37,27,0,25,15,42,13,19,0,23,30,40,22,38,5,44,40,0],
   [40,6,18,40,13,5,24,4,21,26,46,12,16,28,36,22,41,0], [43,32,35,8,12,15,34,36,41,29,15,32,9,18,20,1,42,0],
   [46,11,6,24,10,25,44,21,15,33,31,4,3,8,4,27,42,0], [2,38,23,39,8,35,7,7,36,36,0,24,43,44,34,5,43,0],
   [5,17,41,7,7,45,17,39,9,40,16,43,36,34,18,31,43,0], [8,43,11,23,5,8,28,24,30,43,32,15,30,24,2,10,44,0],
   [11,22,29,38,3,18,38,9,4,0,2,35,23,14,33,35,44,0], [14,1,0,7,2,28,1,42,24,3,18,7,17,4,17,14,45,0], [17,27,17,22,0,38,11,27,45,6,34,26,10,41,0,40,45,0],
   [20,6,35,37,45,0,22,12,19,10,3,46,3,31,31,18,46,0], [23,32,5,6,44,10,32,44,39,13,19,18,44,20,15,44,46,0],
   [26,11,23,21,42,20,42,29,13,17,35,37,37,10,46,22,0,1], [29,37,40,36,40,30,5,15,34,20,4,10,31,0,30,1,1,1],
   [32,16,11,5,39,40,15,0,8,24,20,29,24,37,13,27,1,1], [35,42,28,20,37,3,26,32,28,27,36,1,18,27,44,5,2,1],
   [38,21,46,35,35,13,36,17,2,31,5,21,11,17,28,31,2,1], [41,0,17,4,34,23,46,2,23,34,21,40,4,7,12,10,3,1],
   [44,26,34,19,32,33,9,35,43,37,37,12,45,43,42,35,3,1], [0,6,5,35,30,43,19,20,17,41,6,32,38,33,26,14,4,1],
   [3,32,22,3,29,6,30,5,38,44,22,4,32,23,10,40,4,1], [6,11,40,18,27,16,40,37,11,1,39,23,25,13,41,18,5,1],
   [9,37,10,34,25,26,3,23,32,4,8,43,18,3,25,44,5,1], [12,16,28,2,24,36,13,8,6,8,24,15,12,40,8,23,6,1], [15,42,45,17,22,46,23,40,26,11,40,34,5,30,39,1,7,1],
   [18,21,16,33,20,9,34,25,0,15,9,7,46,19,23,27,7,1], [21,0,34,1,19,19,44,10,21,18,25,26,39,9,7,6,8,1],
   [24,26,4,17,17,29,7,43,41,21,41,45,32,46,37,31,8,1], [27,5,22,32,15,39,17,28,15,25,10,18,26,36,21,10,9,1],
   [30,31,39,0,14,2,28,13,36,28,26,37,19,26,5,36,9,1], [33,10,10,16,12,12,38,45,9,32,42,9,13,16,36,14,10,1],
   [36,36,27,31,10,22,1,31,30,35,11,29,6,6,20,40,10,1], [39,15,45,46,8,32,11,16,4,39,27,1,0,43,3,19,11,1],
   [42,41,15,15,7,42,21,1,25,42,43,20,40,32,34,44,11,1], [45,20,33,30,5,5,32,33,45,45,12,40,33,22,18,23,12,1],
   [1,0,4,46,3,15,42,18,19,2,29,12,27,12,2,2,13,1], [4,26,21,14,2,25,5,4,40,5,45,31,20,2,33,27,13,1], [7,5,39,29,0,35,15,36,13,9,14,4,14,39,16,6,14,1],
   [10,31,9,45,45,44,25,21,34,12,30,23,7,29,0,32,14,1], [13,10,27,13,44,7,36,6,8,16,46,42,0,19,31,10,15,1],
   [16,36,44,28,42,17,46,38,28,19,15,15,41,8,15,36,15,1], [19,15,15,44,40,27,9,24,2,23,31,34,34,45,45,14,16,1],
   [22,41,32,12,39,37,19,9,23,26,0,7,28,35,29,40,16,1], [25,20,3,28,37,0,30,41,43,29,16,26,21,25,13,19,17,1],
   [28,46,20,43,35,10,40,26,17,33,32,45,14,15,44,44,17,1], [31,25,38,11,34,20,3,12,38,36,1,18,8,5,28,23,18,1],
   [34,4,9,27,32,30,13,44,11,40,17,37,1,42,11,2,19,1], [37,30,26,42,30,40,23,29,32,43,33,9,42,31,42,27,19,1],
   [40,9,44,10,29,3,34,14,6,0,3,29,35,21,26,6,20,1], [43,35,14,26,27,13,44,46,26,3,19,1,29,11,10,32,20,1],
   [46,14,32,41,25,23,7,32,0,7,35,20,22,1,41,10,21,1], [2,41,2,10,24,33,17,17,21,10,4,40,15,38,24,36,21,1],
   [5,20,20,25,22,43,27,2,42,13,20,12,9,28,8,15,22,1], [8,46,37,40,20,6,38,34,15,17,36,31,2,18,39,40,22,1],
   [11,25,8,9,19,16,1,20,36,20,5,4,43,7,23,19,23,1], [14,4,26,24,17,26,11,5,10,24,21,23,36,44,6,45,23,1],
   [17,30,43,39,15,36,21,37,30,27,37,42,29,34,37,23,24,1], [20,9,14,8,14,46,31,22,4,31,6,15,23,24,21,2,25,1],
   [23,35,31,23,12,9,42,7,25,34,22,34,16,14,5,28,25,1], [26,14,2,39,10,19,5,40,45,37,38,6,10,4,36,6,26,1],
   [29,40,19,7,9,29,15,25,19,41,7,26,3,41,19,32,26,1], [32,19,37,22,7,39,25,10,40,44,23,45,43,30,3,11,27,1],
   [35,45,7,38,5,2,36,42,13,1,40,17,37,20,34,36,27,1], [38,24,25,6,4,12,46,27,34,4,9,37,30,10,18,15,28,1],
   [41,3,43,21,2,22,9,13,8,8,25,9,24,0,2,41,28,1], [44,29,13,37,0,32,19,45,28,11,41,28,17,37,32,19,29,1],
   [0,9,31,5,46,41,29,30,2,15,10,1,11,27,16,45,29,1], [3,35,1,21,44,4,40,15,23,18,26,20,4,17,0,24,30,1],
   [6,14,19,36,42,14,3,1,44,21,42,39,44,6,31,2,31,1], [9,40,36,4,41,24,13,33,17,25,11,12,38,43,14,28,31,1],
   [12,19,7,20,39,34,23,18,38,28,27,31,31,33,45,6,32,1], [15,45,24,35,37,44,33,3,12,32,43,3,25,23,29,32,32,1],
   [18,24,42,3,36,7,44,35,32,35,12,23,18,13,13,11,33,1], [21,3,13,19,34,17,7,21,6,39,28,42,11,3,44,36,33,1],
   [24,29,30,34,32,27,17,6,27,42,44,14,5,40,27,15,34,1], [27,8,1,3,31,37,27,38,0,46,13,34,45,29,11,41,34,1],
   [30,34,18,18,29,0,38,23,21,2,30,6,39,19,42,19,35,1], [33,13,36,33,27,10,1,9,42,5,46,25,32,9,26,45,35,1],
   [36,39,6,2,26,20,11,41,15,9,15,45,25,46,9,24,36,1], [39,18,24,17,24,30,21,26,36,12,31,17,19,36,40,2,37,1],
   [42,44,41,32,22,40,31,11,10,16,0,37,12,26,24,28,37,1], [45,23,12,1,21,3,42,43,30,19,16,9,6,16,8,7,38,1],
   [1,3,30,16,19,13,5,29,4,23,32,28,46,5,39,32,38,1], [4,29,0,32,17,23,15,14,25,26,1,1,40,42,22,11,39,1],
   [7,8,18,0,16,33,25,46,45,29,17,20,33,32,6,37,39,1], [10,34,35,15,14,43,35,31,19,33,33,39,26,22,37,15,40,1],
   [13,13,6,31,12,6,46,16,40,36,2,12,20,12,21,41,40,1], [16,39,23,46,10,16,9,2,14,40,18,31,13,2,5,20,41,1],
   [19,18,41,14,9,26,19,34,34,43,34,3,7,39,35,45,41,1], [22,44,11,30,7,36,29,19,8,0,4,23,0,29,19,24,42,1],
   [25,23,29,45,5,46,39,4,29,3,20,42,40,18,3,3,43,1], [28,2,0,14,4,9,3,37,2,7,36,14,34,8,34,28,43,1], [31,28,17,29,2,19,13,22,23,10,5,34,27,45,17,7,44,1],
   [34,7,35,44,0,29,23,7,44,13,21,6,21,35,1,33,44,1], [37,33,5,13,46,38,33,39,17,17,37,25,14,25,32,11,45,1],
   [40,12,23,28,44,1,44,24,38,20,6,45,7,15,16,37,45,1], [43,38,40,43,42,11,7,10,12,24,22,17,1,5,0,16,46,1],
   [46,17,11,12,41,21,17,42,32,27,38,36,41,41,30,41,46,1], [2,44,28,27,39,31,27,27,6,31,7,9,35,31,14,20,0,2],
   [5,23,46,42,37,41,37,12,27,34,23,28,28,21,45,45,0,2], [8,2,17,11,36,4,1,45,0,38,39,0,22,11,29,24,1,2],
   [11,28,34,26,34,14,11,30,21,41,8,20,15,1,13,3,2,2], [14,7,5,42,32,24,21,15,42,44,24,39,8,38,43,28,2,2],
   [17,33,22,10,31,34,31,0,16,1,41,11,2,28,27,7,3,2], [20,12,40,25,29,44,41,32,36,4,10,31,42,17,11,33,3,2],
   [23,38,10,41,27,7,5,18,10,8,26,3,36,7,42,11,4,2], [26,17,28,9,26,17,15,3,31,11,42,22,29,44,25,37,4,2],
   [29,43,45,24,24,27,25,35,4,15,11,42,22,34,9,16,5,2], [32,22,16,40,22,37,35,20,25,18,27,14,16,24,40,41,5,2],
   [35,1,34,8,21,0,46,5,46,21,43,33,9,14,24,20,6,2], [38,27,4,24,19,10,9,38,19,25,12,6,3,4,8,46,6,2], [41,6,22,39,17,20,19,23,40,28,28,25,43,40,38,24,7,2],
   [44,32,39,7,16,30,29,8,14,32,44,44,36,30,22,3,8,2], [0,12,10,23,14,40,39,40,34,35,13,17,30,20,6,29,8,2],
   [3,38,27,38,12,3,3,26,8,39,29,36,23,10,37,7,9,2], [6,17,45,6,11,13,13,11,29,42,45,8,17,0,21,33,9,2],
   [9,43,15,22,9,23,23,43,2,46,14,28,10,37,4,12,10,2], [12,22,33,37,7,33,33,28,23,2,31,0,4,27,35,37,10,2],
   [15,1,4,6,6,43,43,13,44,5,0,20,44,16,19,16,11,2], [18,27,21,21,4,6,7,46,17,9,16,39,37,6,3,42,11,2], [21,6,39,36,2,16,17,31,38,12,32,11,31,43,33,20,12,2],
   [24,32,9,5,1,26,27,16,12,16,1,31,24,33,17,46,12,2], [27,11,27,20,46,35,37,1,33,19,17,3,18,23,1,25,13,2],
   [30,37,44,35,44,45,0,34,6,23,33,22,11,13,32,3,14,2], [33,16,15,4,43,8,11,19,27,26,2,42,4,3,16,29,14,2],
   [36,42,32,19,41,18,21,4,1,30,18,14,45,39,46,7,15,2], [39,21,3,35,39,28,31,36,21,33,34,33,38,29,30,33,15,2],
   [42,0,21,3,38,38,41,21,42,36,3,6,32,19,14,12,16,2], [45,26,38,18,36,1,5,7,16,40,19,25,25,9,45,37,16,2],
   [1,6,9,34,34,11,15,39,36,43,35,44,18,46,28,16,17,2], [4,32,26,2,33,21,25,24,10,0,5,17,12,36,12,42,17,2],
   [7,11,44,17,31,31,35,9,31,3,21,36,5,26,43,20,18,2], [10,37,14,33,29,41,45,41,4,7,37,8,46,15,27,46,18,2],
   [13,16,32,1,28,4,9,27,25,10,6,28,39,5,11,25,19,2], [16,42,2,17,26,14,19,12,46,13,22,0,33,42,41,3,20,2],
   [19,21,20,32,24,24,29,44,19,17,38,19,26,32,25,29,20,2], [22,0,38,0,23,34,39,29,40,20,7,39,19,22,9,8,21,2],
   [25,26,8,16,21,44,2,15,14,24,23,11,13,12,40,33,21,2], [28,5,26,31,19,7,13,0,35,27,39,30,6,2,24,12,22,2],
   [31,31,43,46,17,17,23,32,8,31,8,3,0,39,7,38,22,2], [34,10,14,15,16,27,33,17,29,34,24,22,40,28,38,16,23,2],
   [37,36,31,30,14,37,43,2,3,38,40,41,33,18,22,42,23,2], [40,15,2,46,12,0,7,35,23,41,9,14,27,8,6,21,24,2],
   [43,41,19,14,11,10,17,20,44,44,25,33,20,45,36,46,24,2], [46,20,37,29,9,20,27,5,18,1,42,5,14,35,20,25,25,2],
   [2,0,8,45,7,30,37,37,38,4,11,25,7,25,4,4,26,2], [5,26,25,13,6,40,0,23,12,8,27,44,0,15,35,29,26,2], [8,5,43,28,4,3,11,8,33,11,43,16,41,4,19,8,27,2],
   [11,31,13,44,2,13,21,40,6,15,12,36,34,41,2,34,27,2], [14,10,31,12,1,23,31,25,27,18,28,8,28,31,33,12,28,2],
   [17,36,1,28,46,32,41,10,1,22,44,27,21,21,17,38,28,2], [20,15,19,43,44,42,4,43,21,25,13,0,15,11,1,17,29,2],
   [23,41,36,11,43,5,15,28,42,28,29,19,8,1,32,42,29,2], [26,20,7,27,41,15,25,13,16,32,45,38,1,38,15,21,30,2],
   [29,46,24,42,39,25,35,45,36,35,14,11,42,27,46,46,30,2], [32,25,42,10,38,35,45,30,10,39,30,30,35,17,30,25,31,2],
   [35,4,13,26,36,45,8,16,31,42,46,2,29,7,14,4,32,2], [38,30,30,41,34,8,19,1,5,46,15,22,22,44,44,29,32,2],
   [41,9,1,10,33,18,29,33,25,2,32,41,15,34,28,8,33,2], [44,35,18,25,31,28,39,18,46,5,1,14,9,24,12,34,33,2],
   [0,15,36,40,29,38,2,4,20,9,17,33,2,14,43,12,34,2], [3,41,6,9,28,1,13,36,40,12,33,5,43,3,27,38,34,2],
   [6,20,24,24,26,11,23,21,14,16,2,25,36,40,10,17,35,2], [9,46,41,39,24,21,33,6,35,19,18,44,29,30,41,42,35,2],
   [12,25,12,8,23,31,43,38,8,23,34,16,23,20,25,21,36,2], [15,4,30,23,21,41,6,24,29,26,3,36,16,10,9,0,37,2],
   [18,30,0,39,19,4,17,9,3,30,19,8,10,0,40,25,37,2], [21,9,18,7,18,14,27,41,23,33,35,27,3,37,23,4,38,2],
   [24,35,35,22,16,24,37,26,44,36,4,0,44,26,7,30,38,2], [27,14,6,38,14,34,0,12,18,40,20,19,37,16,38,8,39,2],
   [30,40,23,6,13,44,10,44,38,43,36,38,30,6,22,34,39,2], [33,19,41,21,11,7,21,29,12,0,6,11,24,43,5,13,40,2],
   [36,45,11,37,9,17,31,14,33,3,22,30,17,33,36,38,40,2], [39,24,29,5,8,27,41,46,6,7,38,2,11,23,20,17,41,2],
   [42,3,0,21,6,37,4,32,27,10,7,22,4,13,4,43,41,2], [45,29,17,36,4,0,15,17,1,14,23,41,44,2,35,21,42,2],
   [1,9,35,4,3,10,25,2,22,17,39,13,38,39,18,0,43,2], [4,35,5,20,1,20,35,34,42,20,8,33,31,29,2,26,43,2],
   [7,14,23,35,46,29,45,19,16,24,24,5,25,19,33,4,44,2], [10,40,40,3,45,39,8,5,37,27,40,24,18,9,17,30,44,2],
   [13,19,11,19,43,2,19,37,10,31,9,44,11,46,0,9,45,2]]"

definition BASE47_POS12 :: "nat list list" where
  "BASE47_POS12 = [
   [0,0,0,0,0,0,0,0,0,0,0,0,0,0,0,0,0,0,0], [16,45,28,34,41,12,29,22,31,34,25,16,5,36,31,34,45,2,0], [32,43,10,22,36,25,11,45,15,22,4,33,10,25,16,22,44,5,0],
   [1,42,39,9,31,38,40,20,0,10,30,2,16,14,1,10,43,8,0], [17,40,21,44,25,4,23,43,31,44,8,19,21,3,33,44,41,11,0],
   [33,38,3,32,20,17,5,19,16,32,34,35,26,39,17,32,40,14,0], [2,37,32,19,15,30,34,41,0,20,13,5,32,28,2,20,39,17,0],
   [18,35,14,7,10,43,16,17,32,7,39,21,37,17,34,7,38,20,0], [34,33,43,41,4,9,46,39,16,42,17,38,42,6,19,42,36,23,0],
   [3,32,25,29,46,21,28,15,1,30,43,7,1,43,3,30,35,26,0], [19,30,7,17,41,34,10,38,32,17,22,24,6,32,35,17,34,29,0],
   [35,28,36,4,36,0,40,13,17,5,1,41,11,21,20,5,33,32,0], [4,27,18,39,30,13,22,36,1,40,26,10,17,10,5,40,31,35,0],
   [20,25,0,27,25,26,4,12,33,27,5,27,22,46,36,27,30,38,0], [36,23,29,14,20,39,33,34,17,15,31,43,27,35,21,15,29,41,0],
   [5,22,11,2,15,5,16,10,2,3,10,13,33,24,6,3,28,44,0], [21,20,40,36,9,18,45,32,33,37,35,29,38,13,38,37,26,0,1],
   [37,18,22,24,4,31,27,8,18,25,14,46,43,2,23,25,25,3,1], [6,17,4,12,46,43,9,31,2,13,40,15,2,39,7,13,24,6,1],
   [22,15,33,46,40,9,39,6,34,0,19,32,7,28,39,0,23,9,1], [38,13,15,34,35,22,21,29,18,35,44,1,13,17,24,35,21,12,1],
   [7,12,44,21,30,35,3,5,3,23,23,18,18,6,9,23,20,15,1], [23,10,26,9,25,1,33,27,34,10,2,35,23,42,40,10,19,18,1],
   [39,8,8,44,19,14,15,3,19,45,27,4,29,31,25,45,17,21,1], [8,7,37,31,14,27,44,25,3,33,6,21,34,20,10,33,16,24,1],
   [24,5,19,19,9,40,26,1,35,20,32,37,39,9,42,20,15,27,1], [40,3,1,7,4,6,9,24,19,8,11,7,45,45,26,8,14,30,1],
   [9,2,30,41,45,18,38,46,3,43,36,23,3,35,11,43,12,33,1], [25,0,12,29,40,31,20,22,35,30,15,40,8,24,43,30,11,36,1],
   [41,45,40,16,35,44,2,45,19,18,41,9,14,13,28,18,10,39,1], [10,44,22,4,30,10,32,20,4,6,20,26,19,2,13,6,9,42,1],
   [26,42,4,39,24,23,14,43,35,40,45,42,24,38,44,40,7,45,1], [42,40,33,26,19,36,43,18,20,28,24,12,30,27,29,28,6,1,2],
   [11,39,15,14,14,2,26,41,4,16,3,29,35,16,14,16,5,4,2], [27,37,44,1,9,15,8,17,36,3,29,45,40,5,46,3,4,7,2],
   [43,35,26,36,3,28,37,39,20,38,7,15,46,41,30,38,2,10,2], [12,34,8,24,45,40,19,15,5,26,33,31,4,31,15,26,1,13,2],
   [28,32,37,11,40,6,2,38,36,13,12,1,10,20,0,14,0,16,2], [44,30,19,46,34,19,31,13,21,1,38,17,15,9,32,1,46,18,2],
   [13,29,1,34,29,32,13,36,5,36,16,34,20,45,16,36,44,21,2], [29,27,30,21,24,45,42,11,37,23,42,3,26,34,1,24,43,24,2],
   [45,25,12,9,19,11,25,34,21,11,21,20,31,23,33,11,42,27,2], [14,24,41,43,13,24,7,10,6,46,46,36,36,12,18,46,40,30,2],
   [30,22,23,31,8,37,36,32,37,33,25,6,42,1,3,34,39,33,2], [46,20,5,19,3,3,19,8,22,21,4,23,0,38,34,21,38,36,2],
   [15,19,34,6,45,15,1,31,6,9,30,39,5,27,19,9,37,39,2], [31,17,16,41,39,28,30,6,38,43,8,9,11,16,4,44,35,42,2],
   [0,16,45,28,34,41,12,29,22,31,34,25,16,5,36,31,34,45,2], [16,14,27,16,29,7,42,4,7,19,13,42,21,41,20,19,33,1,3],
   [32,12,9,4,24,20,24,27,38,6,39,11,27,30,5,7,32,4,3], [1,11,38,38,18,33,6,3,23,41,17,28,32,19,37,41,30,7,3],
   [17,9,20,26,13,46,35,25,7,29,43,44,37,8,22,29,29,10,3], [33,7,2,14,8,12,18,1,39,16,22,14,43,44,6,17,28,13,3],
   [2,6,31,1,3,25,0,24,23,4,1,31,1,34,38,4,27,16,3], [18,4,13,36,44,37,29,46,7,39,26,0,7,23,23,39,25,19,3],
   [34,2,42,23,39,3,12,22,39,26,5,17,12,12,8,27,24,22,3], [3,1,24,11,34,16,41,44,23,14,31,33,17,1,40,14,23,25,3],
   [19,46,5,46,28,29,23,20,8,2,10,3,23,37,24,2,22,28,3], [35,44,34,33,23,42,5,43,39,36,35,19,28,26,9,37,20,31,3],
   [4,43,16,21,18,8,35,18,24,24,14,36,33,15,41,24,19,34,3], [20,41,45,8,13,21,17,41,8,12,40,5,39,4,26,12,18,37,3],
   [36,39,27,43,7,34,46,16,40,46,18,22,44,40,10,0,17,40,3], [5,38,9,31,2,0,29,39,24,34,44,38,2,30,42,34,15,43,3],
   [21,36,38,18,44,12,11,15,9,22,23,8,8,19,27,22,14,46,3], [37,34,20,6,39,25,40,37,40,9,2,25,13,8,12,10,13,2,4],
   [6,33,2,41,33,38,22,13,25,44,27,41,18,44,43,44,11,5,4], [22,31,31,28,28,4,5,36,9,32,6,11,24,33,28,32,10,8,4],
   [38,29,13,16,23,17,34,11,41,19,32,27,29,22,13,20,9,11,4], [7,28,42,3,18,30,16,34,25,7,11,44,34,11,45,7,8,14,4],
   [23,26,24,38,12,43,45,9,10,42,36,13,40,0,30,42,6,17,4], [39,24,6,26,7,9,28,32,41,29,15,30,45,36,14,30,5,20,4],
   [8,23,35,13,2,22,10,8,26,17,41,46,3,26,46,17,4,23,4], [24,21,17,1,44,34,39,30,10,5,20,16,9,15,31,5,3,26,4],
   [40,19,46,35,38,0,22,6,42,39,45,32,14,4,16,40,1,29,4], [9,18,28,23,33,13,4,29,26,27,24,2,20,40,0,28,0,32,4],
   [25,16,10,11,28,26,33,4,11,15,3,19,25,29,32,15,46,34,4], [41,14,39,45,22,39,15,27,42,2,29,35,30,18,17,3,45,37,4],
   [10,13,21,33,17,5,45,2,27,37,7,5,36,7,2,38,43,40,4], [26,11,3,21,12,18,27,25,11,25,33,21,41,43,33,25,42,43,4],
   [42,9,32,8,7,31,9,1,43,12,12,38,46,32,18,13,41,46,4], [11,8,14,43,1,44,38,23,27,0,38,7,5,22,3,1,40,2,5],
   [27,6,43,30,43,9,21,46,11,35,16,24,10,11,35,35,38,5,5], [43,4,25,18,38,22,3,22,43,22,42,40,15,0,20,23,37,8,5],
   [12,3,7,6,33,35,32,44,27,10,21,10,21,36,4,11,36,11,5], [28,1,36,40,27,1,15,20,12,45,46,26,26,25,36,45,34,14,5],
   [44,46,17,28,22,14,44,42,43,32,25,43,31,14,21,33,33,17,5], [13,45,46,15,17,27,26,18,28,20,4,13,37,3,6,21,32,20,5],
   [29,43,28,3,12,40,8,41,12,8,30,29,42,39,37,8,31,23,5], [45,41,10,38,6,6,38,16,44,42,8,46,0,29,22,43,29,26,5],
   [14,40,39,25,1,19,20,39,28,30,34,15,6,18,7,31,28,29,5], [30,38,21,13,43,31,2,15,13,18,13,32,11,7,39,18,27,32,5],
   [46,36,3,1,38,44,31,37,44,5,39,1,17,43,23,6,26,35,5], [15,35,32,35,32,10,14,13,29,40,17,18,22,32,8,41,24,38,5],
   [31,33,14,23,27,23,43,35,13,28,43,34,27,21,40,28,23,41,5], [0,32,43,10,22,36,25,11,45,15,22,4,33,10,25,16,22,44,5],
   [16,30,25,45,16,2,8,34,29,3,1,21,38,46,9,4,21,0,6], [32,28,7,33,11,15,37,9,14,38,26,37,43,35,41,38,19,3,6],
   [1,27,36,20,6,28,19,32,45,25,5,7,2,25,26,26,18,6,6], [17,25,18,8,1,41,1,8,30,13,31,23,7,14,11,14,17,9,6],
   [33,23,0,43,42,6,31,30,14,1,10,40,12,3,43,1,16,12,6], [2,22,29,30,37,19,13,6,46,35,35,9,18,39,27,36,14,15,6],
   [18,20,11,18,32,32,42,28,30,23,14,26,23,28,12,24,13,18,6], [34,18,40,5,27,45,24,4,15,11,40,42,28,17,44,11,12,21,6],
   [3,17,22,40,21,11,7,27,46,45,18,12,34,6,29,46,10,24,6], [19,15,4,28,16,24,36,2,31,33,44,28,39,42,13,34,9,27,6],
   [35,13,33,15,11,37,18,25,15,21,23,45,44,31,45,21,8,30,6], [4,12,15,3,6,3,1,1,0,9,2,15,3,21,30,9,7,33,6],
   [20,10,44,37,0,16,30,23,31,43,27,31,8,10,15,44,5,36,6], [36,8,26,25,42,28,12,46,15,31,6,1,14,46,46,31,4,39,6],
   [5,7,8,13,37,41,41,21,0,19,32,17,19,35,31,19,3,42,6], [21,5,37,0,32,7,24,44,31,6,11,34,24,24,16,7,2,45,6],
   [37,3,19,35,26,20,6,20,16,41,36,3,30,13,1,42,0,1,7], [6,2,1,23,21,33,35,42,0,29,15,20,35,2,33,29,46,3,7],
   [22,0,30,10,16,46,17,18,32,16,41,36,40,38,17,17,45,6,7], [38,45,11,45,10,12,0,41,16,4,20,6,46,27,2,5,44,9,7],
   [7,44,40,32,5,25,29,16,1,39,45,22,4,17,34,39,42,12,7], [23,42,22,20,0,38,11,39,32,26,24,39,9,6,19,27,41,15,7],
   [39,40,4,8,42,3,41,14,17,14,3,9,15,42,3,15,40,18,7], [8,39,33,42,36,16,23,37,1,2,29,25,20,31,35,2,39,21,7],
   [24,37,15,30,31,29,5,13,33,36,7,42,25,20,20,37,37,24,7], [40,35,44,17,26,42,34,35,17,24,33,11,31,9,5,25,36,27,7],
   [9,34,26,5,21,8,17,11,2,12,12,28,36,45,36,12,35,30,7], [25,32,8,40,15,21,46,33,33,46,37,44,41,34,21,0,34,33,7],
   [41,30,37,27,10,34,28,9,18,34,16,14,0,24,6,35,32,36,7], [10,29,19,15,5,0,11,32,2,22,42,30,5,13,38,22,31,39,7],
   [26,27,1,3,0,13,40,7,34,9,21,0,11,2,23,10,30,42,7], [42,25,30,37,41,25,22,30,18,44,46,16,16,38,7,45,28,45,7],
   [11,24,12,25,36,38,4,6,3,32,25,33,21,27,39,32,27,1,8], [27,22,41,12,31,4,34,28,34,19,4,3,27,16,24,20,26,4,8],
   [43,20,23,0,26,17,16,4,19,7,30,19,32,5,9,8,25,7,8], [12,19,5,35,20,30,45,26,3,42,8,36,37,41,40,42,23,10,8],
   [28,17,34,22,15,43,27,2,35,29,34,5,43,30,25,30,22,13,8], [44,15,16,10,10,9,10,25,19,17,13,22,1,20,10,18,21,16,8],
   [13,14,45,44,4,22,39,0,4,5,39,38,6,9,42,5,20,19,8], [29,12,27,32,46,34,21,23,35,39,17,8,12,45,26,40,18,22,8],
   [45,10,9,20,41,0,4,46,19,27,43,24,17,34,11,28,17,25,8], [14,9,38,7,36,13,33,21,4,15,22,41,22,23,43,15,16,28,8],
   [30,7,20,42,30,26,15,44,35,2,1,11,28,12,28,3,15,31,8], [46,5,2,30,25,39,44,19,20,37,26,27,33,1,13,38,13,34,8],
   [15,4,31,17,20,5,27,42,4,25,5,44,38,37,44,25,12,37,8], [31,2,13,5,15,18,9,18,36,12,31,13,44,26,29,13,11,40,8],
   [0,1,42,39,9,31,38,40,20,0,10,30,2,16,14,1,10,43,8], [16,46,23,27,4,44,20,16,5,35,35,46,7,5,46,35,8,46,8],
   [32,44,5,15,46,9,3,39,36,22,14,16,13,41,30,23,7,2,9], [1,43,34,2,41,22,32,14,21,10,40,32,18,30,15,11,6,5,9],
   [17,41,16,37,35,35,14,37,5,45,18,2,24,19,0,46,4,8,9], [33,39,45,24,30,1,44,12,37,32,44,18,29,8,32,33,3,11,9],
   [2,38,27,12,25,14,26,35,21,20,23,35,34,44,16,21,2,14,9], [18,36,9,0,20,27,8,11,6,8,2,5,40,33,1,9,1,17,9],
   [34,34,38,34,14,40,37,33,37,42,27,21,45,22,33,43,46,19,9], [3,33,20,22,9,6,20,9,22,30,6,38,3,12,18,31,45,22,9],
   [19,31,2,10,4,19,2,32,6,18,32,7,9,1,3,19,44,25,9], [35,29,31,44,45,31,31,7,38,5,11,24,14,37,34,6,43,28,9],
   [4,28,13,32,40,44,13,30,22,40,36,40,19,26,19,41,41,31,9], [20,26,42,19,35,10,43,5,7,28,15,10,25,15,4,29,40,34,9],
   [36,24,24,7,30,23,25,28,38,15,41,26,30,4,36,16,39,37,9], [5,23,6,42,24,36,7,4,23,3,20,43,35,40,20,4,38,40,9],
   [21,21,35,29,19,2,37,26,7,38,45,12,41,29,5,39,36,43,9], [37,19,17,17,14,15,19,2,39,25,24,29,46,18,37,26,35,46,9],
   [6,18,46,4,9,28,1,25,23,13,3,46,4,8,22,14,34,2,10], [22,16,28,39,3,41,30,0,8,1,29,15,10,44,6,2,33,5,10],
   [38,14,10,27,45,6,13,23,39,35,7,32,15,33,38,36,31,8,10], [7,13,39,14,40,19,42,45,23,23,33,1,21,22,23,24,30,11,10],
   [23,11,21,2,35,32,24,21,8,11,12,18,26,11,8,12,29,14,10], [39,9,3,37,29,45,6,44,39,45,37,34,31,0,40,46,27,17,10],
   [8,8,32,24,24,11,36,19,24,33,16,4,37,36,24,34,26,20,10], [24,6,14,12,19,24,18,42,8,21,42,20,42,25,9,22,25,23,10],
   [40,4,43,46,13,37,0,18,40,8,21,37,0,15,41,9,24,26,10], [9,3,25,34,8,3,30,40,24,43,46,6,6,4,26,44,22,29,10],
   [25,1,7,22,3,16,12,16,9,31,25,23,11,40,10,32,21,32,10], [41,46,35,9,45,28,41,38,40,18,4,40,16,29,42,19,20,35,10],
   [10,45,17,44,39,41,23,14,25,6,30,9,22,18,27,7,19,38,10], [26,43,46,31,34,7,6,37,9,41,8,26,27,7,12,42,17,41,10],
   [42,41,28,19,29,20,35,12,41,28,34,42,32,43,43,29,16,44,10], [11,40,10,7,24,33,17,35,25,16,13,12,38,32,28,17,15,0,11],
   [27,38,39,41,18,46,46,10,10,4,39,28,43,21,13,5,14,3,11], [43,36,21,29,13,12,29,33,41,38,17,45,1,11,45,39,12,6,11],
   [12,35,3,17,8,25,11,9,26,26,43,14,7,0,30,27,11,9,11], [28,33,32,4,3,38,40,31,10,14,22,31,12,36,14,15,10,12,11],
   [44,31,14,39,44,3,23,7,42,1,1,1,18,25,46,2,9,15,11], [13,30,43,26,39,16,5,30,26,36,26,17,23,14,31,37,7,18,11],
   [29,28,25,14,34,29,34,5,11,24,5,34,28,3,16,25,6,21,11], [45,26,7,2,29,42,16,28,42,11,31,3,34,39,0,13,5,24,11],
   [14,25,36,36,23,8,46,3,27,46,9,20,39,28,32,0,4,27,11], [30,23,18,24,18,21,28,26,11,34,35,36,44,17,17,35,2,30,11],
   [46,21,0,12,13,34,10,2,43,21,14,6,3,7,2,23,1,33,11], [15,20,29,46,7,0,40,24,27,9,40,22,8,43,33,10,0,36,11],
   [31,18,11,34,2,13,22,0,12,44,18,39,13,32,18,45,45,38,11], [0,17,40,21,44,25,4,23,43,31,44,8,19,21,3,33,44,41,11],
   [16,15,22,9,39,38,33,45,27,19,23,25,24,10,35,20,43,44,11], [32,13,4,44,33,4,16,21,12,7,2,42,29,46,19,8,42,0,12],
   [1,12,33,31,28,17,45,43,43,41,27,11,35,35,4,43,40,3,12], [17,10,15,19,23,30,27,19,28,29,6,28,40,24,36,30,39,6,12],
   [33,8,44,6,18,43,9,42,12,17,32,44,45,13,21,18,38,9,12], [2,7,26,41,12,9,39,17,44,4,11,14,4,3,6,6,37,12,12],
   [18,5,8,29,7,22,21,40,28,39,36,30,9,39,37,40,35,15,12], [34,3,37,16,2,35,3,16,13,27,15,0,15,28,22,28,34,18,12],
   [3,2,19,4,44,0,33,38,44,14,41,16,20,17,7,16,33,21,12], [19,0,1,39,38,13,15,14,29,2,20,33,25,6,39,3,32,24,12],
   [35,45,29,26,33,26,44,36,13,37,45,2,31,42,23,38,30,27,12], [4,44,11,14,28,39,26,12,45,24,24,19,36,31,8,26,29,30,12],
   [20,42,40,1,23,5,9,35,29,12,3,36,41,20,40,13,28,33,12], [36,40,22,36,17,18,38,10,14,0,29,5,0,10,25,1,27,36,12],
   [5,39,4,24,12,31,20,33,45,34,7,22,5,46,9,36,25,39,12], [21,37,33,11,7,44,2,9,30,22,33,38,10,35,41,23,24,42,12],
   [37,35,15,46,1,10,32,31,14,10,12,8,16,24,26,11,23,45,12], [6,34,44,33,43,22,14,7,46,44,37,24,21,13,11,46,21,1,13],
   [22,32,26,21,38,35,43,29,30,32,16,41,26,2,43,33,20,4,13], [38,30,8,9,33,1,26,5,15,20,42,10,32,38,27,21,19,7,13],
   [7,29,37,43,27,14,8,28,46,7,21,27,37,27,12,9,18,10,13], [23,27,19,31,22,27,37,3,31,42,46,43,42,16,44,43,16,13,13],
   [39,25,1,19,17,40,19,26,15,30,25,13,1,6,29,31,15,16,13], [8,24,30,6,12,6,2,2,0,18,4,30,6,42,13,19,14,19,13],
   [24,22,12,41,6,19,31,24,31,5,30,46,11,31,45,6,13,22,13], [40,20,41,28,1,32,13,0,16,40,8,16,17,20,30,41,11,25,13],
   [9,19,23,16,43,44,42,22,0,28,34,32,22,9,15,29,10,28,13], [25,17,5,4,38,10,25,45,31,15,13,2,28,45,46,16,9,31,13],
   [41,15,34,38,32,23,7,21,16,3,39,18,33,34,31,4,8,34,13], [10,14,16,26,27,36,36,43,0,38,17,35,38,23,16,39,6,37,13],
   [26,12,45,13,22,2,19,19,32,25,43,4,44,12,1,27,5,40,13], [42,10,27,1,17,15,1,42,16,13,22,21,2,2,33,14,4,43,13],
   [11,9,9,36,11,28,30,17,1,1,1,38,7,38,17,2,3,46,13], [27,7,38,23,6,41,12,40,32,35,26,7,13,27,2,37,1,2,14],
   [43,5,20,11,1,7,42,15,17,23,5,24,18,16,34,24,0,5,14], [12,4,2,46,42,19,24,38,1,11,31,40,23,5,19,12,46,7,14],
   [28,2,31,33,37,32,6,14,33,45,9,10,29,41,3,0,45,10,14], [44,0,13,21,32,45,35,36,17,33,35,26,34,30,35,34,43,13,14],
   [13,46,41,8,27,11,18,12,2,21,14,43,39,19,20,22,42,16,14], [29,44,23,43,21,24,0,35,33,8,40,12,45,8,5,10,41,19,14],
   [45,42,5,31,16,37,29,10,18,43,18,29,3,45,36,44,39,22,14], [14,41,34,18,11,3,12,33,2,31,44,45,8,34,21,32,38,25,14],
   [30,39,16,6,6,16,41,8,34,18,23,15,14,23,6,20,37,28,14], [46,37,45,40,0,29,23,31,18,6,2,32,19,12,38,7,36,31,14],
   [15,36,27,28,42,41,5,7,3,41,27,1,25,1,23,42,34,34,14], [31,34,9,16,37,7,35,29,34,28,6,18,30,37,7,30,33,37,14],
   [0,33,38,3,32,20,17,5,19,16,32,34,35,26,39,17,32,40,14], [16,31,20,38,26,33,46,27,3,4,11,4,41,15,24,5,31,43,14],
   [32,29,2,26,21,46,28,3,35,38,36,20,46,4,9,40,29,46,14], [1,28,31,13,16,12,11,26,19,26,15,37,4,41,40,27,28,2,15],
   [17,26,13,1,11,25,40,1,4,14,41,6,10,30,25,15,27,5,15], [33,24,42,35,5,38,22,24,35,1,20,23,15,19,10,3,26,8,15],
   [2,23,24,23,0,4,5,0,20,36,45,39,20,8,42,37,24,11,15], [18,21,6,11,42,16,34,22,4,24,24,9,26,44,26,25,23,14,15],
   [34,19,35,45,36,29,16,45,35,11,3,26,31,33,11,13,22,17,15], [3,18,17,33,31,42,45,20,20,46,28,42,36,22,43,0,21,20,15],
   [19,16,46,20,26,8,28,43,4,34,7,12,42,11,28,35,19,23,15], [35,14,28,8,21,21,10,19,36,21,33,28,0,1,13,23,18,26,15],
   [4,13,10,43,15,34,39,41,20,9,12,45,5,37,44,10,17,29,15], [20,11,39,30,10,0,22,17,5,44,37,14,11,26,29,45,15,32,15],
   [36,9,21,18,5,13,4,40,36,31,16,31,16,15,14,33,14,35,15], [5,8,3,6,0,26,33,15,21,19,42,0,22,4,46,20,13,38,15],
   [21,6,32,40,41,38,15,38,5,7,21,17,27,40,30,8,12,41,15], [37,4,14,28,36,4,45,13,37,41,46,33,32,29,15,43,10,44,15],
   [6,3,43,15,31,17,27,36,21,29,25,3,38,18,0,31,9,0,16], [22,1,25,3,26,30,9,12,6,17,4,20,43,7,32,18,8,3,16],
   [38,46,6,38,20,43,38,34,37,4,30,36,1,44,16,6,7,6,16]]"

definition BASE47_POS13 :: "nat list list" where
  "BASE47_POS13 = [
   [0,0,0,0,0,0,0,0,0,0,0,0,0,0,0,0,0,0,0,0,0], [7,45,35,25,15,9,21,10,22,39,8,6,7,33,1,41,5,9,16,0,0],
   [14,43,24,4,31,18,42,20,44,31,17,12,14,19,3,35,11,18,32,0,0], [21,41,13,30,46,27,16,31,19,24,26,18,21,5,5,29,17,27,1,1,0],
   [28,39,2,9,15,37,37,41,41,16,35,24,28,38,6,23,23,36,17,1,0], [35,37,38,34,30,46,11,5,17,9,44,30,35,24,8,17,29,45,33,1,0],
   [42,35,27,13,46,8,33,15,39,1,6,37,42,10,10,11,35,7,3,2,0], [2,34,16,39,14,18,7,26,14,41,14,43,2,44,11,5,41,16,19,2,0],
   [9,32,5,18,30,27,28,36,36,33,23,2,10,30,13,46,46,25,35,2,0], [16,30,41,43,45,36,2,0,12,26,32,8,17,16,15,40,5,35,4,3,0],
   [23,28,30,22,14,46,23,10,34,18,41,14,24,2,17,34,11,44,20,3,0], [30,26,19,1,30,8,45,20,9,11,3,21,31,35,18,28,17,6,37,3,0],
   [37,24,8,27,45,17,19,31,31,3,12,27,38,21,20,22,23,15,6,4,0], [44,22,44,5,14,27,40,41,6,43,20,33,45,7,22,16,29,24,22,4,0],
   [4,21,33,31,29,36,14,5,29,35,29,39,5,41,23,10,35,33,38,4,0], [11,19,22,10,45,45,35,15,4,28,38,45,12,27,25,4,41,42,7,5,0],
   [18,17,11,36,13,8,10,26,26,20,0,5,20,13,27,45,46,4,24,5,0], [25,15,0,15,29,17,31,36,1,13,9,11,27,46,28,39,5,14,40,5,0],
   [32,13,36,40,44,26,5,0,24,5,18,17,34,32,30,33,11,23,9,6,0], [39,11,25,19,13,36,26,10,46,44,26,23,41,18,32,27,17,32,25,6,0],
   [46,9,14,45,28,45,0,21,21,37,35,29,1,5,34,21,23,41,41,6,0], [6,8,3,24,44,7,22,31,43,29,44,35,8,38,35,15,29,3,11,7,0],
   [13,6,39,2,13,17,43,41,18,22,6,42,15,24,37,9,35,12,27,7,0], [20,4,28,28,28,26,17,5,41,14,15,1,23,10,39,3,41,21,43,7,0],
   [27,2,17,7,44,35,38,15,16,7,24,7,30,43,40,44,46,30,12,8,0], [34,0,6,33,12,45,12,26,38,46,32,13,37,29,42,38,5,40,28,8,0],
   [41,45,41,11,28,7,34,36,13,39,41,19,44,15,44,32,11,2,45,8,0], [1,44,30,37,43,16,8,0,36,31,3,26,4,2,46,26,17,11,14,9,0],
   [8,42,19,16,12,26,29,10,11,24,12,32,11,35,0,21,23,20,30,9,0], [15,40,8,42,27,35,3,21,33,16,21,38,18,21,2,15,29,29,46,9,0],
   [22,38,44,20,43,44,24,31,8,9,30,44,25,7,4,9,35,38,15,10,0], [29,36,33,46,11,7,46,41,30,1,39,3,33,40,5,3,41,0,32,10,0],
   [36,34,22,25,27,16,20,5,6,41,0,10,40,26,7,44,46,9,1,11,0], [43,32,11,4,43,25,41,15,28,33,9,16,0,13,9,38,5,19,17,11,0],
   [3,31,0,30,11,35,15,26,3,26,18,22,7,46,10,32,11,28,33,11,0], [10,29,36,8,27,44,36,36,25,18,27,28,14,32,12,26,17,37,2,12,0],
   [17,27,25,34,42,6,11,0,1,11,36,34,21,18,14,20,23,46,18,12,0], [24,25,14,13,11,16,32,10,23,3,45,40,28,4,16,14,29,8,35,12,0],
   [31,23,3,39,26,25,6,21,45,42,6,0,36,37,17,8,35,17,4,13,0], [38,21,39,17,42,34,27,31,20,35,15,6,43,23,19,2,41,26,20,13,0],
   [45,19,28,43,10,44,1,42,42,27,24,12,3,10,21,43,46,35,36,13,0], [5,18,17,22,26,6,23,5,18,20,33,18,10,43,22,37,5,45,5,14,0],
   [12,16,6,1,42,15,44,15,40,12,42,24,17,29,24,31,11,7,22,14,0], [19,14,42,26,10,25,18,26,15,5,4,31,24,15,26,25,17,16,38,14,0],
   [26,12,31,5,26,34,39,36,37,44,12,37,31,1,28,19,23,25,7,15,0], [33,10,20,31,41,43,13,0,13,37,21,43,38,34,29,13,29,34,23,15,0],
   [40,8,9,10,10,6,35,10,35,29,30,2,46,20,31,7,35,43,39,15,0], [0,7,45,35,25,15,9,21,10,22,39,8,6,7,33,1,41,5,9,16,0],
   [7,5,34,14,41,24,30,31,32,14,1,15,13,40,34,42,46,14,25,16,0], [14,3,23,40,9,34,4,42,7,7,10,21,20,26,36,36,5,24,41,16,0],
   [21,1,12,19,25,43,25,5,30,46,18,27,27,12,38,30,11,33,10,17,0], [28,46,0,45,40,5,0,16,5,39,27,33,34,45,39,24,17,42,26,17,0],
   [35,44,36,23,9,15,21,26,27,31,36,39,41,31,41,18,23,4,43,17,0], [42,42,25,2,25,24,42,36,2,24,45,45,1,18,43,12,29,13,12,18,0],
   [2,41,14,28,40,33,16,0,25,16,7,5,9,4,45,6,35,22,28,18,0], [9,39,3,7,9,43,37,10,0,9,16,11,16,37,46,0,41,31,44,18,0],
   [16,37,39,32,24,5,12,21,22,1,25,17,23,23,1,42,46,40,13,19,0], [23,35,28,11,40,14,33,31,44,40,33,23,30,9,3,36,5,3,30,19,0],
   [30,33,17,37,8,24,7,42,19,33,42,29,37,42,4,30,11,12,46,19,0], [37,31,6,16,24,33,28,5,42,25,4,36,44,28,6,24,17,21,15,20,0],
   [44,29,42,41,39,42,2,16,17,18,13,42,4,15,8,18,23,30,31,20,0], [4,28,31,20,8,5,24,26,39,10,22,1,12,1,10,12,29,39,0,21,0],
   [11,26,20,46,23,14,45,36,14,3,31,7,19,34,11,6,35,1,17,21,0], [18,24,9,25,39,23,19,0,37,42,39,13,26,20,13,0,41,10,33,21,0],
   [25,22,45,3,8,33,40,10,12,35,1,20,33,6,15,41,46,19,2,22,0], [32,20,34,29,23,42,14,21,34,27,10,26,40,39,16,35,5,29,18,22,0],
   [39,18,23,8,39,4,36,31,9,20,19,32,0,26,18,29,11,38,34,22,0], [46,16,12,34,7,14,10,42,31,12,28,38,7,12,20,23,17,0,4,23,0],
   [6,15,1,13,23,23,31,5,7,5,37,44,14,45,21,17,23,9,20,23,0], [13,13,37,38,38,32,5,16,29,44,45,3,22,31,23,11,29,18,36,23,0],
   [20,11,26,17,7,42,26,26,4,37,7,10,29,17,25,5,35,27,5,24,0], [27,9,15,43,22,4,1,37,26,29,16,16,36,3,27,46,40,36,21,24,0],
   [34,7,4,22,38,13,22,0,2,22,25,22,43,36,28,40,46,45,37,24,0], [41,5,40,0,7,23,43,10,24,14,34,28,3,23,30,34,5,8,7,25,0],
   [1,4,29,26,22,32,17,21,46,6,43,34,10,9,32,28,11,17,23,25,0], [8,2,18,5,38,41,38,31,21,46,4,41,17,42,33,22,17,26,39,25,0],
   [15,0,7,31,6,4,13,42,43,38,13,0,25,28,35,16,23,35,8,26,0], [22,45,42,9,22,13,34,5,19,31,22,6,32,14,37,10,29,44,24,26,0],
   [29,43,31,35,37,22,8,16,41,23,31,12,39,0,39,4,35,6,41,26,0], [36,41,20,14,6,32,29,26,16,16,40,18,46,33,40,45,40,15,10,27,0],
   [43,39,9,40,21,41,3,37,38,8,2,25,6,20,42,39,46,24,26,27,0], [3,38,45,18,37,3,25,0,14,1,11,31,13,6,44,33,5,34,42,27,0],
   [10,36,34,44,5,13,46,10,36,40,19,37,20,39,45,27,11,43,11,28,0], [17,34,23,23,21,22,20,21,11,33,28,43,27,25,0,22,17,5,28,28,0],
   [24,32,12,2,37,31,41,31,33,25,37,2,35,11,2,16,23,14,44,28,0], [31,30,1,28,5,41,15,42,8,18,46,8,42,44,3,10,29,23,13,29,0],
   [38,28,37,6,21,3,37,5,31,10,8,15,2,31,5,4,35,32,29,29,0], [45,26,26,32,36,12,11,16,6,3,17,21,9,17,7,45,40,41,45,29,0],
   [5,25,15,11,5,22,32,26,28,42,25,27,16,3,9,39,46,3,15,30,0], [12,23,4,37,20,31,6,37,3,35,34,33,23,36,10,33,5,13,31,30,0],
   [19,21,40,15,36,40,27,0,26,27,43,39,30,22,12,27,11,22,0,31,0], [26,19,29,41,4,3,2,11,1,20,5,46,37,8,14,21,17,31,16,31,0],
   [33,17,18,20,20,12,23,21,23,12,14,5,45,41,15,15,23,40,32,31,0], [40,15,7,46,35,21,44,31,45,4,23,11,5,28,17,9,29,2,2,32,0],
   [0,14,43,24,4,31,18,42,20,44,31,17,12,14,19,3,35,11,18,32,0], [7,12,32,3,20,40,39,5,43,36,40,23,19,0,21,44,40,20,34,32,0],
   [14,10,21,29,35,2,14,16,18,29,2,30,26,33,22,38,46,29,3,33,0], [21,8,10,8,4,12,35,26,40,21,11,36,33,19,24,32,5,39,19,33,0],
   [28,6,46,33,19,21,9,37,15,14,20,42,40,5,26,26,11,1,36,33,0], [35,4,35,12,35,30,30,0,38,6,29,1,1,39,27,20,17,10,5,34,0],
   [42,2,24,38,3,40,4,11,13,46,37,7,8,25,29,14,23,19,21,34,0], [2,1,13,17,19,2,26,21,35,38,46,13,15,11,31,8,29,28,37,34,0],
   [9,46,1,43,34,11,0,32,10,31,8,20,22,44,32,2,35,37,6,35,0], [16,44,37,21,3,21,21,42,32,23,17,26,29,30,34,43,40,46,22,35,0],
   [23,42,26,0,19,30,42,5,8,16,26,32,36,16,36,37,46,8,39,35,0], [30,40,15,26,34,39,16,16,30,8,35,38,43,2,38,31,5,18,8,36,0],
   [37,38,4,5,3,2,38,26,5,1,44,44,3,36,39,25,11,27,24,36,0], [44,36,40,30,18,11,12,37,27,40,5,4,11,22,41,19,17,36,40,36,0],
   [4,35,29,9,34,20,33,0,3,33,14,10,18,8,43,13,23,45,9,37,0], [11,33,18,35,2,30,7,11,25,25,23,16,25,41,44,7,29,7,26,37,0],
   [18,31,7,14,18,39,28,21,0,18,32,22,32,27,46,1,35,16,42,37,0], [25,29,43,39,33,1,3,32,22,10,41,28,39,13,1,43,40,25,11,38,0],
   [32,27,32,18,2,11,24,42,44,2,3,35,46,46,2,37,46,34,27,38,0], [39,25,21,44,17,20,45,5,20,42,11,41,6,33,4,31,5,44,43,38,0],
   [46,23,10,23,33,29,19,16,42,34,20,0,14,19,6,25,11,6,13,39,0], [6,22,46,1,2,39,40,26,17,27,29,6,21,5,8,19,17,15,29,39,0],
   [13,20,35,27,17,1,15,37,39,19,38,12,28,38,9,13,23,24,45,39,0], [20,18,24,6,33,10,36,0,15,12,0,19,35,24,11,7,29,33,14,40,0],
   [27,16,13,32,1,20,10,11,37,4,9,25,42,10,13,1,35,42,30,40,0], [34,14,2,11,17,29,31,21,12,44,17,31,2,44,14,42,40,4,0,41,0],
   [41,12,38,36,32,38,5,32,34,36,26,37,9,30,16,36,46,13,16,41,0], [1,11,27,15,1,1,27,42,9,29,35,43,16,16,18,30,5,23,32,41,0],
   [8,9,16,41,16,10,1,6,32,21,44,2,24,2,20,24,11,32,1,42,0], [15,7,5,20,32,19,22,16,7,14,6,9,31,35,21,18,17,41,17,42,0],
   [22,5,41,45,0,29,43,26,29,6,15,15,38,21,23,12,23,3,34,42,0], [29,3,30,24,16,38,17,37,4,46,23,21,45,7,25,6,29,12,3,43,0],
   [36,1,19,3,32,0,39,0,27,38,32,27,5,41,26,0,35,21,19,43,0], [43,46,7,29,0,10,13,11,2,31,41,33,12,27,28,41,40,30,35,43,0],
   [3,45,43,7,16,19,34,21,24,23,3,40,19,13,30,35,46,39,4,44,0], [10,43,32,33,31,28,8,32,46,15,12,46,26,46,31,29,5,2,21,44,0],
   [17,41,21,12,0,38,29,42,21,8,21,5,34,32,33,23,11,11,37,44,0], [24,39,10,38,15,0,4,6,44,0,30,11,41,18,35,17,17,20,6,45,0],
   [31,37,46,16,31,9,25,16,19,40,38,17,1,5,37,11,23,29,22,45,0], [38,35,35,42,46,18,46,26,41,32,0,24,8,38,38,5,29,38,38,45,0],
   [45,33,24,21,15,28,20,37,16,25,9,30,15,24,40,46,34,0,8,46,0], [5,32,13,0,31,37,41,0,39,17,18,36,22,10,42,40,40,9,24,46,0],
   [12,30,2,26,46,46,15,11,14,10,27,42,29,43,43,34,46,18,40,46,0], [19,28,38,4,15,9,37,21,36,2,36,1,37,29,45,28,5,28,9,0,1],
   [26,26,27,30,30,18,11,32,11,42,44,7,44,15,0,23,11,37,25,0,1], [33,24,16,9,46,27,32,42,33,34,6,14,4,2,2,17,17,46,41,0,1],
   [40,22,5,35,14,37,6,6,9,27,15,20,11,35,3,11,23,8,11,1,1], [0,21,41,13,30,46,27,16,31,19,24,26,18,21,5,5,29,17,27,1,1],
   [7,19,30,39,45,8,2,27,6,12,33,32,25,7,7,46,34,26,43,1,1], [14,17,19,18,14,18,23,37,28,4,42,38,32,40,8,40,40,35,12,2,1],
   [21,15,8,44,29,27,44,0,4,44,3,45,39,26,10,34,46,44,28,2,1], [28,13,44,22,45,36,18,11,26,36,12,4,0,13,12,28,5,7,45,2,1],
   [35,11,33,1,14,46,39,21,1,29,21,10,7,46,13,22,11,16,14,3,1], [42,9,22,27,29,8,14,32,23,21,30,16,14,32,15,16,17,25,30,3,1],
   [2,8,11,6,45,17,35,42,45,13,39,22,21,18,17,10,23,34,46,3,1], [9,6,0,32,13,27,9,6,21,6,1,29,28,4,19,4,29,43,15,4,1],
   [16,4,36,10,29,36,30,16,43,45,9,35,35,37,20,45,34,5,32,4,1], [23,2,25,36,44,45,4,27,18,38,18,41,42,23,22,39,40,14,1,5,1],
   [30,0,14,15,13,8,26,37,40,30,27,0,3,10,24,33,46,23,17,5,1], [37,45,2,41,28,17,0,1,16,23,36,6,10,43,25,27,5,33,33,5,1],
   [44,43,38,19,44,26,21,11,38,15,45,12,17,29,27,21,11,42,2,6,1], [4,42,27,45,12,36,42,21,13,8,7,19,24,15,29,15,17,4,19,6,1],
   [11,40,16,24,28,45,16,32,35,0,16,25,31,1,31,9,23,13,35,6,1], [18,38,5,3,44,7,38,42,10,40,24,31,38,34,32,3,29,22,4,7,1],
   [25,36,41,28,12,17,12,6,33,32,33,37,45,20,34,44,34,31,20,7,1], [32,34,30,7,28,26,33,16,8,25,42,43,5,7,36,38,40,40,36,7,1],
   [39,32,19,33,43,35,7,27,30,17,4,3,13,40,37,32,46,2,6,8,1], [46,30,8,12,12,45,28,37,5,10,13,9,20,26,39,26,5,12,22,8,1],
   [6,29,44,37,27,7,3,1,28,2,22,15,27,12,41,20,11,21,38,8,1], [13,27,33,16,43,16,24,11,3,42,30,21,34,45,42,14,17,30,7,9,1],
   [20,25,22,42,11,26,45,21,25,34,39,27,41,31,44,8,23,39,23,9,1], [27,23,11,21,27,35,19,32,0,27,1,34,1,18,46,2,29,1,40,9,1],
   [34,21,0,0,43,44,40,42,22,19,10,40,8,4,1,44,34,10,9,10,1], [41,19,36,25,11,7,15,6,45,11,19,46,15,37,2,38,40,19,25,10,1],
   [1,18,25,4,27,16,36,16,20,4,28,5,23,23,4,32,46,28,41,10,1], [8,16,14,30,42,25,10,27,42,43,36,11,30,9,6,26,5,38,10,11,1],
   [15,14,3,9,11,35,31,37,17,36,45,17,37,42,7,20,11,0,27,11,1], [22,12,39,34,26,44,5,1,40,28,7,24,44,28,9,14,17,9,43,11,1],
   [29,10,28,13,42,6,27,11,15,21,16,30,4,15,11,8,23,18,12,12,1], [36,8,17,39,10,16,1,22,37,13,25,36,11,1,13,2,29,27,28,12,1],
   [43,6,6,18,26,25,22,32,12,6,34,42,18,34,14,43,34,36,44,12,1], [3,5,42,43,41,34,43,42,34,45,42,1,26,20,16,37,40,45,13,13,1],
   [10,3,31,22,10,44,17,6,10,38,4,8,33,6,18,31,46,7,30,13,1], [17,1,20,1,26,6,39,16,32,30,13,14,40,39,19,25,5,17,46,13,1],
   [24,46,8,27,41,15,13,27,7,23,22,20,0,26,21,19,11,26,15,14,1], [31,44,44,5,10,25,34,37,29,15,31,26,7,12,23,13,17,35,31,14,1],
   [38,42,33,31,25,34,8,1,5,8,40,32,14,45,24,7,23,44,0,15,1], [45,40,22,10,41,43,29,11,27,0,2,39,21,31,26,1,29,6,17,15,1],
   [5,39,11,36,9,6,4,22,2,40,10,45,28,17,28,42,34,15,33,15,1], [12,37,0,15,25,15,25,32,24,32,19,4,36,3,30,36,40,24,2,16,1],
   [19,35,36,40,40,24,46,42,46,24,28,10,43,36,31,30,46,33,18,16,1], [26,33,25,19,9,34,20,6,22,17,37,16,3,23,33,24,5,43,34,16,1],
   [33,31,14,45,24,43,41,16,44,9,46,22,10,9,35,18,11,5,4,17,1], [40,29,3,24,40,5,16,27,19,2,8,29,17,42,36,12,17,14,20,17,1],
   [0,28,39,2,9,15,37,37,41,41,16,35,24,28,38,6,23,23,36,17,1], [7,26,28,28,24,24,11,1,17,34,25,41,31,14,40,0,29,32,5,18,1],
   [14,24,17,7,40,33,32,11,39,26,34,0,39,0,42,41,34,41,21,18,1], [21,22,6,33,8,43,6,22,14,19,43,6,46,33,43,35,40,3,38,18,1],
   [28,20,42,11,24,5,28,32,36,11,5,13,6,20,45,29,46,12,7,19,1], [35,18,31,37,39,14,2,43,11,4,14,19,13,6,0,24,5,22,23,19,1],
   [42,16,20,16,8,24,23,6,34,43,22,25,20,39,1,18,11,31,39,19,1], [2,15,9,42,23,33,44,16,9,36,31,31,27,25,3,12,17,40,8,20,1],
   [9,13,45,20,39,42,18,27,31,28,40,37,34,11,5,6,23,2,25,20,1], [16,11,34,46,7,5,40,37,6,21,2,44,41,44,6,0,29,11,41,20,1],
   [23,9,23,25,23,14,14,1,29,13,11,3,2,31,8,41,34,20,10,21,1], [30,7,12,4,39,23,35,11,4,6,20,9,9,17,10,35,40,29,26,21,1],
   [37,5,1,30,7,33,9,22,26,45,28,15,16,3,12,29,46,38,42,21,1], [44,3,37,8,23,42,30,32,1,38,37,21,23,36,13,23,5,1,12,22,1],
   [4,2,26,34,38,4,5,43,23,30,46,27,30,22,15,17,11,10,28,22,1], [11,0,15,13,7,14,26,6,46,22,8,34,37,8,17,11,17,19,44,22,1],
   [18,45,3,39,22,23,0,17,21,15,17,40,44,41,18,5,23,28,13,23,1], [25,43,39,17,38,32,21,27,43,7,26,46,4,28,20,46,28,37,29,23,1],
   [32,41,28,43,6,42,42,37,18,0,35,5,12,14,22,40,34,46,45,23,1], [39,39,17,22,22,4,17,1,41,39,43,11,19,0,24,34,40,8,15,24,1],
   [46,37,6,1,38,13,38,11,16,32,5,18,26,33,25,28,46,17,31,24,1], [6,36,42,26,6,23,12,22,38,24,14,24,33,19,27,22,5,27,0,25,1],
   [13,34,31,5,22,32,33,32,13,17,23,30,40,5,29,16,11,36,16,25,1], [20,32,20,31,37,41,7,43,35,9,32,36,0,39,30,10,17,45,32,25,1],
   [27,30,9,10,6,4,29,6,11,2,41,42,7,25,32,4,23,7,2,26,1], [34,28,45,35,21,13,3,17,33,41,2,2,15,11,34,45,28,16,18,26,1],
   [41,26,34,14,37,22,24,27,8,34,11,8,22,44,35,39,34,25,34,26,1], [1,25,23,40,5,32,45,37,30,26,20,14,29,30,37,33,40,34,3,27,1],
   [8,23,12,19,21,41,19,1,6,19,29,20,36,16,39,27,46,43,19,27,1], [15,21,1,45,36,3,41,11,28,11,38,26,43,2,41,21,5,6,36,27,1],
   [22,19,37,23,5,13,15,22,3,4,0,33,3,36,42,15,11,15,5,28,1], [29,17,26,2,21,22,36,32,25,43,8,39,10,22,44,9,17,24,21,28,1],
   [36,15,15,28,36,31,10,43,0,36,17,45,17,8,46,3,23,33,37,28,1], [43,13,4,7,5,41,31,6,23,28,26,4,25,41,0,45,28,42,6,29,1],
   [3,12,40,32,20,3,6,17,45,20,35,10,32,27,2,39,34,4,23,29,1], [10,10,29,11,36,12,27,27,20,13,44,16,39,13,4,33,40,13,39,29,1],
   [17,8,18,37,4,22,1,38,42,5,6,23,46,46,5,27,46,22,8,30,1], [24,6,7,16,20,31,22,1,18,45,14,29,6,33,7,21,5,32,24,30,1],
   [31,4,43,41,35,40,43,11,40,37,23,35,13,19,9,15,11,41,40,30,1], [38,2,32,20,4,3,18,22,15,30,32,41,20,5,11,9,17,3,10,31,1],
   [45,0,21,46,19,12,39,32,37,22,41,0,28,38,12,3,23,12,26,31,1], [5,46,9,25,35,21,13,43,12,15,3,7,35,24,14,44,28,21,42,31,1],
   [12,44,45,3,4,31,34,6,35,7,12,13,42,10,16,38,34,30,11,32,1], [19,42,34,29,19,40,8,17,10,0,21,19,2,44,17,32,40,39,27,32,1],
   [26,40,23,8,35,2,30,27,32,39,29,25,9,30,19,26,46,1,44,32,1], [33,38,12,34,3,12,4,38,7,32,38,31,16,16,21,20,5,11,13,33,1],
   [40,36,1,13,19,21,25,1,30,24,0,38,23,2,23,14,11,20,29,33,1], [0,35,37,38,34,30,46,11,5,17,9,44,30,35,24,8,17,29,45,33,1],
   [7,33,26,17,3,40,20,22,27,9,18,3,38,21,26,2,23,38,14,34,1], [14,31,15,43,18,2,42,32,2,2,27,9,45,7,28,43,28,0,31,34,1],
   [21,29,4,22,34,11,16,43,24,41,35,15,5,41,29,37,34,9,0,35,1], [28,27,40,0,3,21,37,6,0,34,44,21,12,27,31,31,40,18,16,35,1],
   [35,25,29,26,18,30,11,17,22,26,6,28,19,13,33,25,46,27,32,35,1], [42,23,18,5,34,39,32,27,44,18,15,34,26,46,34,19,5,37,1,36,1],
   [2,22,7,31,2,2,7,38,19,11,24,40,33,32,36,13,11,46,17,36,1], [9,20,43,9,18,11,28,1,42,3,33,46,40,18,38,7,17,8,34,36,1],
   [16,18,32,35,33,20,2,12,17,43,41,5,1,5,40,1,23,17,3,37,1], [23,16,21,14,2,30,23,22,39,35,3,12,8,38,41,42,28,26,19,37,1],
   [30,14,10,40,17,39,44,32,14,28,12,18,15,24,43,36,34,35,35,37,1], [37,12,46,18,33,1,19,43,36,20,21,24,22,10,45,30,40,44,4,38,1],
   [44,10,35,44,1,11,40,6,12,13,30,30,29,43,46,24,46,6,21,38,1], [4,9,24,23,17,20,14,17,34,5,39,36,36,29,1,19,5,16,37,38,1],
   [11,7,13,2,33,29,35,27,9,45,0,43,43,15,3,13,11,25,6,39,1], [18,5,2,28,1,39,9,38,31,37,9,2,4,2,5,7,17,34,22,39,1],
   [25,3,38,6,17,1,31,1,7,30,18,8,11,35,6,1,23,43,38,39,1], [32,1,27,32,32,10,5,12,29,22,27,14,18,21,8,42,28,5,8,40,1],
   [39,46,15,11,1,20,26,22,4,15,36,20,25,7,10,36,34,14,24,40,1], [46,44,4,37,16,29,0,33,26,7,45,26,32,40,11,30,40,23,40,40,1]]"

lemma BASE47_POS11_ok: "table_ok 47 18 11 BASE47_POS11"
proof (rule table_okI)
  show "rows_step 47 [3, 26, 17, 15, 45, 9, 10, 32, 20, 3, 16, 19, 40, 36, 30, 25, 0, 0] BASE47_POS11"
    by (simp only: BASE47_POS11_def rows_step_eval cong: if_weak_cong)
  show "length BASE47_POS11 = 256"
    by (simp only: BASE47_POS11_def length_table_eval)
  show "hd BASE47_POS11 = [0, 0, 0, 0, 0, 0, 0, 0, 0, 0, 0, 0, 0, 0, 0, 0, 0, 0]"
    by (simp only: BASE47_POS11_def list.sel)
qed (simp_all add: digit_simps)

lemma BASE47_POS12_ok: "table_ok 47 19 12 BASE47_POS12"
proof (rule table_okI)
  show "rows_step 47 [16, 45, 28, 34, 41, 12, 29, 22, 31, 34, 25, 16, 5, 36, 31, 34, 45, 2, 0] BASE47_POS12"
    by (simp only: BASE47_POS12_def rows_step_eval cong: if_weak_cong)
  show "length BASE47_POS12 = 256"
    by (simp only: BASE47_POS12_def length_table_eval)
  show "hd BASE47_POS12 = [0, 0, 0, 0, 0, 0, 0, 0, 0, 0, 0, 0, 0, 0, 0, 0, 0, 0, 0]"
    by (simp only: BASE47_POS12_def list.sel)
qed (simp_all add: digit_simps)

lemma BASE47_POS13_ok: "table_ok 47 21 13 BASE47_POS13"
proof (rule table_okI)
  show "rows_step 47 [7, 45, 35, 25, 15, 9, 21, 10, 22, 39, 8, 6, 7, 33, 1, 41, 5, 9, 16, 0, 0] BASE47_POS13"
    by (simp only: BASE47_POS13_def rows_step_eval cong: if_weak_cong)
  show "length BASE47_POS13 = 256"
    by (simp only: BASE47_POS13_def length_table_eval)
  show "hd BASE47_POS13 = [0, 0, 0, 0, 0, 0, 0, 0, 0, 0, 0, 0, 0, 0, 0, 0, 0, 0, 0, 0, 0]"
    by (simp only: BASE47_POS13_def list.sel)
qed (simp_all add: digit_simps)

end
