(* ===== verification/Tables_47_D.thy ===== *)
theory Tables_47_D
  imports Digits
begin

text \<open>
  The tables \<open>BASE47_POS14\<close> to \<open>BASE47_POS15\<close> of \<^verbatim>\<open>fancy-garbling/base_conversion/cbits/lookup_tables.c\<close>,
  entry by entry, as lists of rows of \<open>uint16_t\<close> values read as naturals.  Each lemma \<open>_ok\<close> shows that row \<open>x\<close> holds the base-47
  digits of \<open>x * 256 ^ pos\<close>, for the width that the declaration of the table has.
\<close>

definition BASE47_POS14 :: "nat list list" where
  "BASE47_POS14 = [
   [0,0,0,0,0,0,0,0,0,0,0,0,0,0,0,0,0,0,0,0,0,0], [6,43,40,15,32,38,21,43,1,0,7,33,39,26,13,24,46,32,9,41,1,0],
   [12,39,34,31,17,30,43,39,3,0,14,19,32,6,27,1,46,18,19,35,3,0], [18,35,28,0,3,22,18,36,5,0,21,5,25,33,40,25,45,4,29,29,5,0],
   [24,31,22,16,35,13,40,32,7,0,28,38,17,13,7,3,45,37,38,23,7,0], [30,27,16,32,20,5,15,29,9,0,35,24,10,40,20,27,44,23,1,18,9,0],
   [36,23,10,1,6,44,36,25,11,0,42,10,3,20,34,4,44,9,11,12,11,0], [42,19,4,17,38,35,11,22,13,0,2,44,42,46,0,29,43,42,20,6,13,0],
   [1,16,45,32,23,27,33,18,15,0,9,30,35,26,14,6,43,28,30,0,15,0], [7,12,39,1,9,19,8,15,17,0,16,16,28,6,28,30,42,14,40,41,16,0],
   [13,8,33,17,41,10,30,11,19,0,23,2,21,33,41,7,42,0,3,36,18,0], [19,4,27,33,26,2,5,8,21,0,30,35,13,13,8,32,41,33,12,30,20,0],
   [25,0,21,2,12,41,26,4,23,0,37,21,6,40,21,9,41,19,22,24,22,0], [31,43,14,18,44,32,1,1,25,0,44,7,46,19,35,33,40,5,32,18,24,0],
   [37,39,8,34,29,24,23,44,26,0,4,41,38,46,1,11,40,38,41,12,26,0], [43,35,2,3,15,16,45,40,28,0,11,27,31,26,15,35,39,24,4,7,28,0],
   [2,32,43,18,0,8,20,37,30,0,18,13,24,6,29,12,39,10,14,1,30,0], [8,28,37,34,32,46,41,33,32,0,25,46,16,33,42,36,38,43,23,42,31,0],
   [14,24,31,3,18,38,16,30,34,0,32,32,9,13,9,14,38,29,33,36,33,0], [20,20,25,19,3,30,38,26,36,0,39,18,2,40,22,38,37,15,43,30,35,0],
   [26,16,19,35,35,21,13,23,38,0,46,4,42,19,36,15,37,1,6,25,37,0], [32,12,13,4,21,13,35,19,40,0,6,38,34,46,2,40,36,34,15,19,39,0],
   [38,8,7,20,6,5,10,16,42,0,13,24,27,26,16,17,36,20,25,13,41,0], [44,4,1,36,38,43,31,12,44,0,20,10,20,6,30,41,35,6,35,7,43,0],
   [3,1,42,4,24,35,6,9,46,0,27,43,12,33,43,18,35,39,44,1,45,0], [9,44,35,20,9,27,28,5,1,1,34,29,5,13,10,43,34,25,7,43,46,0],
   [15,40,29,36,41,18,3,2,3,1,41,15,45,39,23,20,34,11,17,37,1,1], [21,36,23,5,27,10,25,45,4,1,1,2,38,19,37,44,33,44,26,31,3,1],
   [27,32,17,21,12,2,0,42,6,1,8,35,30,46,3,22,33,30,36,25,5,1], [33,28,11,37,44,40,21,38,8,1,15,21,23,26,17,46,32,16,46,19,7,1],
   [39,24,5,6,30,32,43,34,10,1,22,7,16,6,31,23,32,2,9,14,9,1], [45,20,46,21,15,24,18,31,12,1,29,40,8,33,44,0,32,35,18,8,11,1],
   [4,17,40,37,0,16,40,27,14,1,36,26,1,13,11,25,31,21,28,2,13,1], [10,13,34,6,33,7,15,24,16,1,43,12,41,39,24,2,31,7,38,43,14,1],
   [16,9,28,22,18,46,36,20,18,1,3,46,33,19,38,26,30,40,0,38,16,1], [22,5,22,38,3,38,11,17,20,1,10,32,26,46,4,4,30,26,10,32,18,1],
   [28,1,16,7,36,29,33,13,22,1,17,18,19,26,18,28,29,12,20,26,20,1], [34,44,9,23,21,21,8,10,24,1,24,4,12,6,32,5,29,45,29,20,22,1],
   [40,40,3,39,6,13,30,6,26,1,31,37,4,33,45,29,28,31,39,14,24,1], [46,36,44,7,39,4,5,3,28,1,38,23,44,12,12,7,28,17,2,9,26,1],
   [5,33,38,23,24,43,26,46,29,1,45,9,37,39,25,31,27,3,12,3,28,1], [11,29,32,39,9,35,1,43,31,1,5,43,29,19,39,8,27,36,21,44,29,1],
   [17,25,26,8,42,26,23,39,33,1,12,29,22,46,5,33,26,22,31,38,31,1], [23,21,20,24,27,18,45,35,35,1,19,15,15,26,19,10,26,8,41,32,33,1],
   [29,17,14,40,12,10,20,32,37,1,26,1,8,6,33,34,25,41,3,27,35,1], [35,13,8,9,45,1,42,28,39,1,33,34,0,33,46,11,25,27,13,21,37,1],
   [41,9,2,25,30,40,16,25,41,1,40,20,40,12,13,36,24,13,23,15,39,1], [0,6,43,40,15,32,38,21,43,1,0,7,33,39,26,13,24,46,32,9,41,1],
   [6,2,37,9,1,24,13,18,45,1,7,40,25,19,40,37,23,32,42,3,43,1], [12,45,30,25,33,15,35,14,0,2,14,26,18,46,6,15,23,18,5,45,44,1],
   [18,41,24,41,18,7,10,11,2,2,21,12,11,26,20,39,22,4,15,39,46,1], [24,37,18,10,4,46,31,7,4,2,28,45,3,6,34,16,22,37,24,33,1,2],
   [30,33,12,26,36,37,6,4,6,2,35,31,43,32,0,41,21,23,34,27,3,2], [36,29,6,42,21,29,28,0,8,2,42,17,36,12,14,18,21,9,44,21,5,2],
   [42,25,0,11,7,21,3,44,9,2,2,4,29,39,27,42,20,42,6,16,7,2], [1,22,41,26,39,12,25,40,11,2,9,37,21,19,41,19,20,28,16,10,9,2],
   [7,18,35,42,24,4,0,37,13,2,16,23,14,46,7,44,19,14,26,4,11,2], [13,14,29,11,10,43,21,33,15,2,23,9,7,26,21,21,19,0,36,45,12,2],
   [19,10,23,27,42,34,43,29,17,2,30,42,46,5,35,45,18,33,45,39,14,2], [25,6,17,43,27,26,18,26,19,2,37,28,39,32,1,23,18,19,8,34,16,2],
   [31,2,11,12,13,18,40,22,21,2,44,14,32,12,15,0,18,5,18,28,18,2], [37,45,4,28,45,9,15,19,23,2,4,1,25,39,28,24,17,38,27,22,20,2],
   [43,41,45,43,30,1,37,15,25,2,11,34,17,19,42,1,17,24,37,16,22,2], [2,38,39,12,16,40,11,12,27,2,18,20,10,46,8,26,16,10,0,11,24,2],
   [8,34,33,28,1,32,33,8,29,2,25,6,3,26,22,3,16,43,9,5,26,2], [14,30,27,44,33,23,8,5,31,2,32,39,42,5,36,27,15,29,19,46,27,2],
   [20,26,21,13,19,15,30,1,33,2,39,25,35,32,2,5,15,15,29,40,29,2], [26,22,15,29,4,7,5,45,34,2,46,11,28,12,16,29,14,1,39,34,31,2],
   [32,18,9,45,36,45,26,41,36,2,6,45,20,39,29,6,14,34,1,29,33,2], [38,14,3,14,22,37,1,38,38,2,13,31,13,19,43,30,13,20,11,23,35,2],
   [44,10,44,29,7,29,23,34,40,2,20,17,6,46,9,8,13,6,21,17,37,2], [3,7,38,45,39,20,45,30,42,2,27,3,46,25,23,32,12,39,30,11,39,2],
   [9,3,32,14,25,12,20,27,44,2,34,36,38,5,37,9,12,25,40,5,41,2], [15,46,25,30,10,4,42,23,46,2,41,22,31,32,3,34,11,11,3,0,43,2],
   [21,42,19,46,42,42,16,20,1,3,1,9,24,12,17,11,11,44,12,41,44,2], [27,38,13,15,28,34,38,16,3,3,8,42,16,39,30,35,10,30,22,35,46,2],
   [33,34,7,31,13,26,13,13,5,3,15,28,9,19,44,12,10,16,32,29,1,3], [39,30,1,0,46,17,35,9,7,3,22,14,2,46,10,37,9,2,42,23,3,3],
   [45,26,42,15,31,9,10,6,9,3,29,0,42,25,24,14,9,35,4,18,5,3], [4,23,36,31,16,1,32,2,11,3,36,33,34,5,38,38,8,21,14,12,7,3],
   [10,19,30,0,2,40,6,46,12,3,43,19,27,32,4,16,8,7,24,6,9,3], [16,15,24,16,34,31,28,42,14,3,3,6,20,12,18,40,7,40,33,0,11,3],
   [22,11,18,32,19,23,3,39,16,3,10,39,12,39,31,17,7,26,43,41,12,3], [28,7,12,1,5,15,25,35,18,3,17,25,5,19,45,41,6,12,6,36,14,3],
   [34,3,6,17,37,6,0,32,20,3,24,11,45,45,11,19,6,45,15,30,16,3], [40,46,46,32,22,45,21,28,22,3,31,44,37,25,25,43,5,31,25,24,18,3],
   [46,42,40,1,8,37,43,24,24,3,38,30,30,5,39,20,5,17,35,18,20,3], [5,39,34,17,40,28,18,21,26,3,45,16,23,32,5,45,4,3,45,12,22,3],
   [11,35,28,33,25,20,40,17,28,3,5,3,16,12,19,22,4,36,7,7,24,3], [17,31,22,2,11,12,15,14,30,3,12,36,8,39,32,46,3,22,17,1,26,3],
   [23,27,16,18,43,3,37,10,32,3,19,22,1,19,46,23,3,8,27,42,27,3], [29,23,10,34,28,42,11,7,34,3,26,8,41,45,12,1,3,41,36,36,29,3],
   [35,19,4,3,14,34,33,3,36,3,33,41,33,25,26,25,2,27,46,30,31,3], [41,15,45,18,46,25,8,0,38,3,40,27,26,5,40,2,2,13,9,25,33,3],
   [0,12,39,34,31,17,30,43,39,3,0,14,19,32,6,27,1,46,18,19,35,3], [6,8,33,3,17,9,5,40,41,3,7,0,12,12,20,4,1,32,28,13,37,3],
   [12,4,27,19,2,1,27,36,43,3,14,33,4,39,33,28,0,18,38,7,39,3], [18,0,21,35,34,39,1,33,45,3,21,19,44,18,0,6,0,4,1,2,41,3],
   [24,43,14,4,20,31,23,29,0,4,28,5,37,45,13,30,46,36,10,43,42,3], [30,39,8,20,5,23,45,25,2,4,35,38,29,25,27,7,46,22,20,37,44,3],
   [36,35,2,36,37,14,20,22,4,4,42,24,22,5,41,31,45,8,30,31,46,3], [42,31,43,4,23,6,42,18,6,4,2,11,15,32,7,9,45,41,39,25,1,4],
   [1,28,37,20,8,45,16,15,8,4,9,44,7,12,21,33,44,27,2,20,3,4], [7,24,31,36,40,36,38,11,10,4,16,30,0,39,34,10,44,13,12,14,5,4],
   [13,20,25,5,26,28,13,8,12,4,23,16,40,18,1,35,43,46,21,8,7,4], [19,16,19,21,11,20,35,4,14,4,30,2,33,45,14,12,43,32,31,2,9,4],
   [25,12,13,37,43,11,10,1,16,4,37,35,25,25,28,36,42,18,41,43,10,4], [31,8,7,6,29,3,32,44,17,4,44,21,18,5,42,13,42,4,4,38,12,4],
   [37,4,1,22,14,42,6,41,19,4,4,8,11,32,8,38,41,37,13,32,14,4], [43,0,42,37,46,33,28,37,21,4,11,41,3,12,22,15,41,23,23,26,16,4],
   [2,44,35,6,32,25,3,34,23,4,18,27,43,38,35,39,40,9,33,20,18,4], [8,40,29,22,17,17,25,30,25,4,25,13,36,18,2,17,40,42,42,14,20,4],
   [14,36,23,38,2,9,0,27,27,4,32,46,28,45,15,41,39,28,5,9,22,4], [20,32,17,7,35,0,22,23,29,4,39,32,21,25,29,18,39,14,15,3,24,4],
   [26,28,11,23,20,39,43,19,31,4,46,18,14,5,43,42,38,0,25,44,25,4], [32,24,5,39,5,31,18,16,33,4,6,5,7,32,9,20,38,33,34,38,27,4],
   [38,20,46,7,38,22,40,12,35,4,13,38,46,11,23,44,37,19,44,32,29,4], [44,16,40,23,23,14,15,9,37,4,20,24,39,38,36,21,37,5,7,27,31,4],
   [3,13,34,39,8,6,37,5,39,4,27,10,32,18,3,46,36,38,16,21,33,4], [9,9,28,8,41,44,11,2,41,4,34,43,24,45,16,23,36,24,26,15,35,4],
   [15,5,22,24,26,36,33,45,42,4,41,29,17,25,30,0,36,10,36,9,37,4], [21,1,16,40,11,28,8,42,44,4,1,16,10,5,44,24,35,43,45,3,39,4],
   [27,44,9,9,44,19,30,38,46,4,8,2,3,32,10,2,35,29,8,45,40,4], [33,40,3,25,29,11,5,35,1,5,15,35,42,11,24,26,34,15,18,39,42,4],
   [39,36,44,40,14,3,27,31,3,5,22,21,35,38,37,3,34,1,28,33,44,4], [45,32,38,9,0,42,1,28,5,5,29,7,28,18,4,28,33,34,37,27,46,4],
   [4,29,32,25,32,33,23,24,7,5,36,40,20,45,17,5,33,20,0,22,1,5], [10,25,26,41,17,25,45,20,9,5,43,26,13,25,31,29,32,6,10,16,3,5],
   [16,21,20,10,3,17,20,17,11,5,3,13,6,5,45,6,32,39,19,10,5,5], [22,17,14,26,35,8,42,13,13,5,10,46,45,31,11,31,31,25,29,4,7,5],
   [28,13,8,42,20,0,17,10,15,5,17,32,38,11,25,8,31,11,39,45,8,5], [34,9,2,11,6,39,38,6,17,5,24,18,31,38,38,32,30,44,1,40,10,5],
   [40,5,43,26,38,30,13,3,19,5,31,4,24,18,5,10,30,30,11,34,12,5], [46,1,37,42,23,22,35,46,20,5,38,37,16,45,18,34,29,16,21,28,14,5],
   [5,45,30,11,9,14,10,43,22,5,45,23,9,25,32,11,29,2,31,22,16,5], [11,41,24,27,41,5,32,39,24,5,5,10,2,5,46,35,28,35,40,16,18,5],
   [17,37,18,43,26,44,6,36,26,5,12,43,41,31,12,13,28,21,3,11,20,5], [23,33,12,12,12,36,28,32,28,5,19,29,34,11,26,37,27,7,13,5,22,5],
   [29,29,6,28,44,27,3,29,30,5,26,15,27,38,39,14,27,40,22,46,23,5], [35,25,0,44,29,19,25,25,32,5,33,1,20,18,6,39,26,26,32,40,25,5],
   [41,21,41,12,15,11,0,22,34,5,40,34,12,45,19,16,26,12,42,34,27,5], [0,18,35,28,0,3,22,18,36,5,0,21,5,25,33,40,25,45,4,29,29,5],
   [6,14,29,44,32,41,43,14,38,5,7,7,45,4,0,18,25,31,14,23,31,5], [12,10,23,13,18,33,18,11,40,5,14,40,37,31,13,42,24,17,24,17,33,5],
   [18,6,17,29,3,25,40,7,42,5,21,26,30,11,27,19,24,3,34,11,35,5], [24,2,11,45,35,16,15,4,44,5,28,12,23,38,40,43,23,36,43,5,37,5],
   [30,45,4,14,21,8,37,0,46,5,35,45,15,18,7,21,23,22,6,0,39,5], [36,41,45,29,6,0,12,44,0,6,42,31,8,45,20,45,22,8,16,41,40,5],
   [42,37,39,45,38,38,33,40,2,6,2,18,1,25,34,22,22,41,25,35,42,5], [1,34,33,14,24,30,8,37,4,6,9,4,41,4,1,0,22,27,35,29,44,5],
   [7,30,27,30,9,22,30,33,6,6,16,37,33,31,14,24,21,13,45,23,46,5], [13,26,21,46,41,13,5,30,8,6,23,23,26,11,28,1,21,46,7,18,1,6],
   [19,22,15,15,27,5,27,26,10,6,30,9,19,38,41,25,20,32,17,12,3,6], [25,18,9,31,12,44,1,23,12,6,37,42,11,18,8,3,20,18,27,6,5,6],
   [31,14,3,0,45,35,23,19,14,6,44,28,4,45,21,27,19,4,37,0,7,6], [37,10,44,15,30,27,45,15,16,6,4,15,44,24,35,4,19,37,46,41,8,6],
   [43,6,38,31,15,19,20,12,18,6,11,1,37,4,2,29,18,23,9,36,10,6], [2,3,32,0,1,11,42,8,20,6,18,34,29,31,15,6,18,9,19,30,12,6],
   [8,46,25,16,33,2,17,5,22,6,25,20,22,11,29,30,17,42,28,24,14,6], [14,42,19,32,18,41,38,1,24,6,32,6,15,38,42,7,17,28,38,18,16,6],
   [20,38,13,1,4,33,13,45,25,6,39,39,7,18,9,32,16,14,1,13,18,6], [26,34,7,17,36,24,35,41,27,6,46,25,0,45,22,9,16,0,11,7,20,6],
   [32,30,1,33,21,16,10,38,29,6,6,12,40,24,36,33,15,33,20,1,22,6], [38,26,42,1,7,8,32,34,31,6,13,45,32,4,3,11,15,19,30,42,23,6],
   [44,22,36,17,39,46,6,31,33,6,20,31,25,31,16,35,14,5,40,36,25,6], [3,19,30,33,24,38,28,27,35,6,27,17,18,11,30,12,14,38,2,31,27,6],
   [9,15,24,2,10,30,3,24,37,6,34,3,11,38,43,36,13,24,12,25,29,6], [15,11,18,18,42,21,25,20,39,6,41,36,3,18,10,14,13,10,22,19,31,6],
   [21,7,12,34,27,13,0,17,41,6,1,23,43,44,23,38,12,43,31,13,33,6], [27,3,6,3,13,5,22,13,43,6,8,9,36,24,37,15,12,29,41,7,35,6],
   [33,46,46,18,45,43,43,9,45,6,15,42,28,4,4,40,11,15,4,2,37,6], [39,42,40,34,30,35,18,6,0,7,22,28,21,31,17,17,11,1,14,43,38,6],
   [45,38,34,3,16,27,40,2,2,7,29,14,14,11,31,41,10,34,23,37,40,6], [4,35,28,19,1,19,15,46,3,7,36,0,7,38,44,18,10,20,33,31,42,6],
   [10,31,22,35,33,10,37,42,5,7,43,33,46,17,11,43,9,6,43,25,44,6], [16,27,16,4,19,2,12,39,7,7,3,20,39,44,24,20,9,39,5,20,46,6],
   [22,23,10,20,4,41,33,35,9,7,10,6,32,24,38,44,8,25,15,14,1,7], [28,19,4,36,36,32,8,32,11,7,17,39,24,4,5,22,8,11,25,8,3,7],
   [34,15,45,4,22,24,30,28,13,7,24,25,17,31,18,46,7,44,34,2,5,7], [40,11,39,20,7,16,5,25,15,7,31,11,10,11,32,23,7,30,44,43,6,7],
   [46,7,33,36,39,7,27,21,17,7,38,44,2,38,45,0,7,16,7,38,8,7], [5,4,27,5,25,46,1,18,19,7,45,30,42,17,12,25,6,2,17,32,10,7],
   [11,0,21,21,10,38,23,14,21,7,5,17,35,44,25,2,6,35,26,26,12,7], [17,43,14,37,42,29,45,10,23,7,12,3,28,24,39,26,5,21,36,20,14,7],
   [23,39,8,6,28,21,20,7,25,7,19,36,20,4,6,4,5,7,46,14,16,7], [29,35,2,22,13,13,42,3,27,7,26,22,13,31,19,28,4,40,8,9,18,7],
   [35,31,43,37,45,4,17,0,29,7,33,8,6,11,33,5,4,26,18,3,20,7], [41,27,37,6,31,43,38,43,30,7,40,41,45,37,46,29,3,12,28,44,21,7],
   [0,24,31,22,16,35,13,40,32,7,0,28,38,17,13,7,3,45,37,38,23,7], [6,20,25,38,1,27,35,36,34,7,7,14,31,44,26,31,2,31,0,33,25,7],
   [12,16,19,7,34,18,10,33,36,7,14,0,24,24,40,8,2,17,10,27,27,7], [18,12,13,23,19,10,32,29,38,7,21,33,16,4,7,33,1,3,20,21,29,7],
   [24,8,7,39,4,2,7,26,40,7,28,19,9,31,20,10,1,36,29,15,31,7], [30,4,1,8,37,40,28,22,42,7,35,5,2,11,34,34,0,22,39,9,33,7],
   [36,0,42,23,22,32,3,19,44,7,42,38,41,37,0,12,0,8,2,4,35,7], [42,43,35,39,7,24,25,15,46,7,2,25,34,17,14,36,46,40,11,45,36,7],
   [1,40,29,8,40,15,0,12,1,8,9,11,27,44,27,13,46,26,21,39,38,7], [7,36,23,24,25,7,22,8,3,8,16,44,19,24,41,37,45,12,31,33,40,7],
   [13,32,17,40,10,46,43,4,5,8,23,30,12,4,8,15,45,45,40,27,42,7], [19,28,11,9,43,37,18,1,7,8,30,16,5,31,21,39,44,31,3,22,44,7],
   [25,24,5,25,28,29,40,44,8,8,37,2,45,10,35,16,44,17,13,16,46,7], [31,20,46,40,13,21,15,41,10,8,44,35,37,37,1,41,43,3,23,10,1,8],
   [37,16,40,9,46,12,37,37,12,8,4,22,30,17,15,18,43,36,32,4,3,8], [43,12,34,25,31,4,12,34,14,8,11,8,23,44,28,42,42,22,42,45,4,8],
   [2,9,28,41,16,43,33,30,16,8,18,41,15,24,42,19,42,8,5,40,6,8], [8,5,22,10,2,35,8,27,18,8,25,27,8,4,9,44,41,41,14,34,8,8],
   [14,1,16,26,34,26,30,23,20,8,32,13,1,31,22,21,41,27,24,28,10,8], [20,44,9,42,19,18,5,20,22,8,39,46,40,10,36,45,40,13,34,22,12,8],
   [26,40,3,11,5,10,27,16,24,8,46,32,33,37,2,23,40,46,43,16,14,8], [32,36,44,26,37,1,2,13,26,8,6,19,26,17,16,0,40,32,6,11,16,8],
   [38,32,38,42,22,40,23,9,28,8,13,5,19,44,29,24,39,18,16,5,18,8], [44,28,32,11,8,32,45,5,30,8,20,38,11,24,43,1,39,4,26,46,19,8],
   [3,25,26,27,40,23,20,2,32,8,27,24,4,4,10,26,38,37,35,40,21,8], [9,21,20,43,25,15,42,45,33,8,34,10,44,30,23,3,38,23,45,34,23,8],
   [15,17,14,12,11,7,17,42,35,8,41,43,36,10,37,27,37,9,8,29,25,8], [21,13,8,28,43,45,38,38,37,8,1,30,29,37,3,5,37,42,17,23,27,8],
   [27,9,2,44,28,37,13,35,39,8,8,16,22,17,17,29,36,28,27,17,29,8], [33,5,43,12,14,29,35,31,41,8,15,2,15,44,30,6,36,14,37,11,31,8],
   [39,1,37,28,46,20,10,28,43,8,22,35,7,24,44,30,35,0,0,6,33,8], [45,44,30,44,31,12,32,24,45,8,29,21,0,4,11,8,35,33,9,0,35,8],
   [4,41,24,13,17,4,7,21,0,9,36,7,40,30,24,32,34,19,19,41,36,8], [10,37,18,29,2,43,28,17,2,9,43,40,32,10,38,9,34,5,29,35,38,8],
   [16,33,12,45,34,34,3,14,4,9,3,27,25,37,4,34,33,38,38,29,40,8], [22,29,6,14,20,26,25,10,6,9,10,13,18,17,18,11,33,24,1,24,42,8],
   [28,25,0,30,5,18,0,7,8,9,17,46,10,44,31,35,32,10,11,18,44,8], [34,21,41,45,37,9,22,3,10,9,24,32,3,24,45,12,32,43,20,12,46,8],
   [40,17,35,14,23,1,44,46,11,9,31,18,43,3,12,37,31,29,30,6,1,9], [46,13,29,30,8,40,18,43,13,9,38,4,36,30,25,14,31,15,40,0,3,9],
   [5,10,23,46,40,31,40,39,15,9,45,37,28,10,39,38,30,1,3,42,4,9], [11,6,17,15,26,23,15,36,17,9,5,24,21,37,5,16,30,34,12,36,6,9],
   [17,2,11,31,11,15,37,32,19,9,12,10,14,17,19,40,29,20,22,30,8,9], [23,45,4,0,44,6,12,29,21,9,19,43,6,44,32,17,29,6,32,24,10,9],
   [29,41,45,15,29,45,33,25,23,9,26,29,46,23,46,41,28,39,41,18,12,9], [35,37,39,31,14,37,8,22,25,9,33,15,39,3,13,19,28,25,4,13,14,9],
   [41,33,33,0,0,29,30,18,27,9,40,1,32,30,26,43,27,11,14,7,16,9], [0,30,27,16,32,20,5,15,29,9,0,35,24,10,40,20,27,44,23,1,18,9],
   [6,26,21,32,17,12,27,11,31,9,7,21,17,37,6,45,26,30,33,42,19,9], [12,22,15,1,3,4,2,8,33,9,14,7,10,17,20,22,26,16,43,36,21,9],
   [18,18,9,17,35,42,23,4,35,9,21,40,2,44,33,46,25,2,6,31,23,9], [24,14,3,33,20,34,45,0,37,9,28,26,42,23,0,24,25,35,15,25,25,9],
   [30,10,44,1,6,26,20,44,38,9,35,12,35,3,14,1,25,21,25,19,27,9], [36,6,38,17,38,17,42,40,40,9,42,45,27,30,27,25,24,7,35,13,29,9],
   [42,2,32,33,23,9,17,37,42,9,2,32,20,10,41,2,24,40,44,7,31,9], [1,46,25,2,9,1,39,33,44,9,9,18,13,37,7,27,23,26,7,2,33,9],
   [7,42,19,18,41,39,13,30,46,9,16,4,6,17,21,4,23,12,17,43,34,9], [13,38,13,34,26,31,35,26,1,10,23,37,45,43,34,28,22,45,26,37,36,9],
   [19,34,7,3,12,23,10,23,3,10,30,23,38,23,1,6,22,31,36,31,38,9], [25,30,1,19,44,14,32,19,5,10,37,9,31,3,15,30,21,17,46,25,40,9],
   [31,26,42,34,29,6,7,16,7,10,44,42,23,30,28,7,21,3,9,20,42,9], [37,22,36,3,15,45,28,12,9,10,4,29,16,10,42,31,20,36,18,14,44,9],
   [43,18,30,19,0,37,3,9,11,10,11,15,9,37,8,9,20,22,28,8,46,9], [2,15,24,35,32,28,25,5,13,10,18,1,2,17,22,33,19,8,38,2,1,10],
   [8,11,18,4,18,20,0,2,15,10,25,34,41,43,35,10,19,41,0,44,2,10], [14,7,12,20,3,12,22,45,16,10,32,20,34,23,2,35,18,27,10,38,4,10],
   [20,3,6,36,35,3,44,41,18,10,39,6,27,3,16,12,18,13,20,32,6,10], [26,46,46,4,21,42,18,38,20,10,46,39,19,30,29,36,17,46,29,26,8,10]]"

definition BASE47_POS15 :: "nat list list" where
  "BASE47_POS15 = [
   [0,0,0,0,0,0,0,0,0,0,0,0,0,0,0,0,0,0,0,0,0,0,0,0], [32,42,40,20,6,34,40,34,22,10,6,26,12,10,43,13,17,32,39,20,10,10,0,0],
   [17,38,34,41,12,21,34,22,45,20,12,5,25,20,39,27,34,17,32,41,20,20,0,0], [2,34,28,15,19,8,28,10,21,31,18,31,37,30,35,41,4,3,25,15,31,30,0,0],
   [34,29,22,36,25,42,21,45,43,41,24,10,3,41,31,8,22,35,17,36,41,40,0,0], [19,25,16,10,32,29,15,33,19,5,31,36,15,4,28,22,39,20,10,10,5,4,1,0],
   [4,21,10,31,38,16,9,21,42,15,37,15,28,14,24,36,9,6,3,31,15,14,1,0], [36,16,4,5,45,3,3,9,18,26,43,41,40,24,20,3,27,38,42,4,26,24,1,0],
   [21,12,45,25,4,38,43,43,40,36,2,21,6,35,16,17,44,23,35,25,36,34,1,0], [6,8,39,46,10,25,37,31,16,0,9,0,19,45,12,31,14,9,28,46,46,44,1,0],
   [38,3,33,20,17,12,31,19,39,10,15,26,31,8,9,45,31,41,20,20,10,8,2,0], [23,46,26,41,23,46,24,7,15,21,21,5,44,18,5,12,2,27,13,41,20,18,2,0],
   [8,42,20,15,30,33,18,42,37,31,27,31,9,29,1,26,19,12,6,15,31,28,2,0], [40,37,14,36,36,20,12,30,13,42,33,10,22,39,44,39,36,44,45,35,41,38,2,0],
   [25,33,8,10,43,7,6,18,36,5,40,36,34,2,41,6,7,30,38,9,5,2,3,0], [10,29,2,31,2,42,46,5,12,16,46,15,0,13,37,20,24,15,31,30,15,12,3,0],
   [42,24,43,4,9,29,40,40,34,26,5,42,12,23,33,34,41,0,24,4,26,22,3,0], [27,20,37,25,15,16,34,28,10,37,11,21,25,33,29,1,12,33,16,25,36,32,3,0],
   [12,16,31,46,21,3,28,16,33,0,18,0,38,43,25,15,29,18,9,46,46,42,3,0], [44,11,25,20,28,37,21,4,9,11,24,26,3,7,22,29,46,3,2,20,10,6,4,0],
   [29,7,19,41,34,24,15,39,31,21,30,5,16,17,18,43,16,36,41,40,20,16,4,0], [14,3,13,15,41,11,9,27,7,32,36,31,28,27,14,10,34,21,34,14,31,26,4,0],
   [46,45,6,36,0,46,2,15,30,42,42,10,41,37,10,24,4,7,27,35,41,36,4,0], [31,41,0,10,7,33,43,2,6,6,2,37,6,1,7,38,21,39,19,9,5,0,5,0],
   [16,37,41,30,13,20,37,37,28,16,8,16,19,11,3,5,39,24,12,30,15,10,5,0], [1,33,35,4,20,7,31,25,4,27,14,42,31,21,46,18,9,10,5,4,26,20,5,0],
   [33,28,29,25,26,41,24,13,27,37,20,21,44,31,42,32,26,42,44,24,36,30,5,0], [18,24,23,46,32,28,18,1,3,1,27,0,10,42,38,46,43,27,37,45,46,40,5,0],
   [3,20,17,20,39,15,12,36,25,11,33,26,22,5,35,13,14,13,30,19,10,4,6,0], [35,15,11,41,45,2,6,24,1,22,39,5,35,15,31,27,31,45,22,40,20,14,6,0],
   [20,11,5,15,5,37,46,11,24,32,45,31,0,26,27,41,1,31,15,14,31,24,6,0], [5,7,46,35,11,24,40,46,46,42,4,11,13,36,23,8,19,16,8,35,41,34,6,0],
   [37,2,40,9,18,11,34,34,22,6,11,37,25,46,19,22,36,1,1,9,5,45,6,0], [22,45,33,30,24,45,27,22,45,16,17,16,38,9,16,36,6,34,40,29,15,8,7,0],
   [7,41,27,4,31,32,21,10,21,27,23,42,3,20,12,3,24,19,33,3,26,18,7,0], [39,36,21,25,37,19,15,45,43,37,29,21,16,30,8,17,41,4,26,24,36,28,7,0],
   [24,32,15,46,43,6,9,33,19,1,36,0,29,40,4,31,11,37,18,45,46,38,7,0], [9,28,9,20,3,41,2,21,42,11,42,26,41,3,1,45,28,22,11,19,10,2,8,0],
   [41,23,3,41,9,28,43,8,18,22,1,6,7,14,44,11,46,7,4,40,20,12,8,0], [26,19,44,14,16,15,37,43,40,32,7,32,19,24,40,25,16,40,43,13,31,22,8,0],
   [11,15,38,35,22,2,31,31,16,43,13,11,32,34,36,39,33,25,36,34,41,32,8,0], [43,10,32,9,29,36,24,19,39,6,20,37,44,44,32,6,4,11,29,8,5,43,8,0],
   [28,6,26,30,35,23,18,7,15,17,26,16,10,8,29,20,21,43,21,29,15,6,9,0], [13,2,20,4,42,10,12,42,37,27,32,42,22,18,25,34,38,28,14,3,26,16,9,0],
   [45,44,13,25,1,45,5,30,13,38,38,21,35,28,21,1,9,14,7,24,36,26,9,0], [30,40,7,46,7,32,46,17,36,1,45,0,1,39,17,15,26,46,46,44,46,36,9,0],
   [15,36,1,20,14,19,40,5,12,12,4,27,13,2,14,29,43,31,39,18,10,0,10,0], [0,32,42,40,20,6,34,40,34,22,10,6,26,12,10,43,13,17,32,39,20,10,10,0],
   [32,27,36,14,27,40,27,28,10,33,16,32,38,22,6,10,31,2,25,13,31,20,10,0], [17,23,30,35,33,27,21,16,33,43,22,11,4,33,2,24,1,35,17,34,41,30,10,0],
   [2,19,24,9,40,14,15,4,9,7,29,37,16,43,45,37,18,20,10,8,5,41,10,0], [34,14,18,30,46,1,9,39,31,17,35,16,29,6,42,4,36,5,3,29,15,4,11,0],
   [19,10,12,4,6,36,2,27,7,28,41,42,41,16,38,18,6,38,42,2,26,14,11,0], [4,6,6,25,12,23,43,14,30,38,0,22,7,27,34,32,23,23,35,23,36,24,11,0],
   [36,1,0,46,18,10,37,2,6,2,7,1,20,37,30,46,40,8,28,44,46,34,11,0], [21,44,40,19,25,44,30,37,28,12,13,27,32,0,27,13,11,41,20,18,10,45,11,0],
   [6,40,34,40,31,31,24,25,4,23,19,6,45,10,23,27,28,26,13,39,20,8,12,0], [38,35,28,14,38,18,18,13,27,33,25,32,10,21,19,41,45,11,6,13,31,18,12,0],
   [23,31,22,35,44,5,12,1,3,44,31,11,23,31,15,8,16,44,45,33,41,28,12,0], [8,27,16,9,4,40,5,36,25,7,38,37,35,41,11,22,33,29,38,7,5,39,12,0],
   [40,22,10,30,10,27,46,23,1,18,44,16,1,5,8,36,3,15,31,28,15,2,13,0], [25,18,4,4,17,14,40,11,24,28,3,43,13,15,4,3,21,0,24,2,26,12,13,0],
   [10,14,45,24,23,1,34,46,46,38,9,22,26,25,0,17,38,32,16,23,36,22,13,0], [42,9,39,45,29,35,27,34,22,2,16,1,39,35,43,30,8,18,9,44,46,32,13,0],
   [27,5,33,19,36,22,21,22,45,12,22,27,4,46,39,44,25,3,2,18,10,43,13,0], [12,1,27,40,42,9,15,10,21,23,28,6,17,9,36,11,43,35,41,38,20,6,14,0],
   [44,43,20,14,2,44,8,45,43,33,34,32,29,19,32,25,13,21,34,12,31,16,14,0], [29,39,14,35,8,31,2,33,19,44,40,11,42,29,28,39,30,6,27,33,41,26,14,0],
   [14,35,8,9,15,18,43,20,42,7,0,38,7,40,24,6,1,39,19,7,5,37,14,0], [46,30,2,30,21,5,37,8,18,18,6,17,20,3,21,20,18,24,12,28,15,0,15,0],
   [31,26,43,3,28,39,30,43,40,28,12,43,32,13,17,34,35,9,5,2,26,10,15,0], [16,22,37,24,34,26,24,31,16,39,18,22,45,23,13,1,6,42,44,22,36,20,15,0],
   [1,18,31,45,40,13,18,19,39,2,25,1,11,34,9,15,23,27,37,43,46,30,15,0], [33,13,25,19,0,1,12,7,15,13,31,27,23,44,5,29,40,12,30,17,10,41,15,0],
   [18,9,19,40,6,35,5,42,37,23,37,6,36,7,2,43,10,45,22,38,20,4,16,0], [3,5,13,14,13,22,46,29,13,34,43,32,1,18,45,9,28,30,15,12,31,14,16,0],
   [35,0,7,35,19,9,40,17,36,44,2,12,14,28,41,23,45,15,8,33,41,24,16,0], [20,43,0,9,26,43,33,5,12,8,9,38,26,38,37,37,15,1,1,7,5,35,16,0],
   [5,39,41,29,32,30,27,40,34,18,15,17,39,1,34,4,33,33,40,27,15,45,16,0], [37,34,35,3,39,17,21,28,10,29,21,43,4,12,30,18,3,19,33,1,26,8,17,0],
   [22,30,29,24,45,4,15,16,33,39,27,22,17,22,26,32,20,4,26,22,36,18,17,0], [7,26,23,45,4,39,8,4,9,3,34,1,30,32,22,46,37,36,18,43,46,28,17,0],
   [39,21,17,19,11,26,2,39,31,13,40,27,42,42,18,13,8,22,11,17,10,39,17,0], [24,17,11,40,17,13,43,26,7,24,46,6,8,6,15,27,25,7,4,38,20,2,18,0],
   [9,13,5,14,24,0,37,14,30,34,5,33,20,16,11,41,42,39,43,11,31,12,18,0], [41,8,46,34,30,34,30,2,6,45,11,12,33,26,7,8,13,25,36,32,41,22,18,0],
   [26,4,40,8,37,21,24,37,28,8,18,38,45,36,3,22,30,10,29,6,5,33,18,0], [11,0,34,29,43,8,18,25,4,19,24,17,11,0,0,36,0,43,21,27,15,43,18,0],
   [43,42,27,3,3,43,11,13,27,29,30,43,23,10,43,2,18,28,14,1,26,6,19,0], [28,38,21,24,9,30,5,1,3,40,36,22,36,20,39,16,35,13,7,22,36,16,19,0],
   [13,34,15,45,15,17,46,35,25,3,43,1,2,31,35,30,5,46,46,42,46,26,19,0], [45,29,9,19,22,4,40,23,1,14,2,28,14,41,31,44,22,31,39,16,10,37,19,0],
   [30,25,3,40,28,38,33,11,24,24,8,7,27,4,28,11,40,16,32,37,20,0,20,0], [15,21,44,13,35,25,27,46,46,34,14,33,39,14,24,25,10,2,25,11,31,10,20,0],
   [0,17,38,34,41,12,21,34,22,45,20,12,5,25,20,39,27,34,17,32,41,20,20,0], [32,12,32,8,1,0,15,22,45,8,27,38,17,35,16,6,45,19,10,6,5,31,20,0],
   [17,8,26,29,7,34,8,10,21,19,33,17,30,45,12,20,15,5,3,27,15,41,20,0], [2,4,20,3,14,21,2,45,43,29,39,43,42,8,9,34,32,37,42,0,26,4,21,0],
   [34,46,13,24,20,8,43,32,19,40,45,22,8,19,5,1,3,23,35,21,36,14,21,0], [19,42,7,45,26,42,36,20,42,3,5,2,21,29,1,15,20,8,28,42,46,24,21,0],
   [4,38,1,19,33,29,30,8,18,14,11,28,33,39,44,28,37,40,20,16,10,35,21,0], [36,33,42,39,39,16,24,43,40,24,17,7,46,2,41,42,7,26,13,37,20,45,21,0],
   [21,29,36,13,46,3,18,31,16,35,23,33,11,13,37,9,25,11,6,11,31,8,22,0], [6,25,30,34,5,38,11,19,39,45,29,12,24,23,33,23,42,43,45,31,41,18,22,0],
   [38,20,24,8,12,25,5,7,15,9,36,38,36,33,29,37,12,29,38,5,5,29,22,0], [23,16,18,29,18,12,46,41,37,19,42,17,2,44,25,4,30,14,31,26,15,39,22,0],
   [8,12,12,3,25,46,39,29,13,30,1,44,14,7,22,18,0,0,24,0,26,2,23,0], [40,7,6,24,31,33,33,17,36,40,7,23,27,17,18,32,17,32,16,21,36,12,23,0],
   [25,3,0,45,37,20,27,5,12,4,14,2,40,27,14,46,34,17,9,42,46,22,23,0], [10,46,40,18,44,7,21,40,34,14,20,28,5,38,10,13,5,3,2,16,10,33,23,0],
   [42,41,34,39,3,42,14,28,10,25,26,7,18,1,7,27,22,35,41,36,20,43,23,0], [27,37,28,13,10,29,8,16,33,35,32,33,30,11,3,41,39,20,34,10,31,6,24,0],
   [12,33,22,34,16,16,2,4,9,46,38,12,43,21,46,7,10,6,27,31,41,16,24,0], [44,28,16,8,23,3,43,38,31,9,45,38,8,32,42,21,27,38,19,5,5,27,24,0],
   [29,24,10,29,29,37,36,26,7,20,4,18,21,42,38,35,44,23,12,26,15,37,24,0], [14,20,4,3,36,24,30,14,30,30,10,44,33,5,35,2,15,9,5,0,26,0,25,0],
   [46,15,45,23,42,11,24,2,6,41,16,23,46,15,31,16,32,41,44,20,36,10,25,0], [31,11,39,44,1,46,17,37,28,4,23,2,12,26,27,30,2,27,37,41,46,20,25,0],
   [16,7,33,18,8,33,11,25,4,15,29,28,24,36,23,44,19,12,30,15,10,31,25,0], [1,3,27,39,14,20,5,13,27,25,35,7,37,46,19,11,37,44,22,36,20,41,25,0],
   [33,45,20,13,21,7,46,0,3,36,41,33,2,10,16,25,7,30,15,10,31,4,26,0], [18,41,14,34,27,41,39,35,25,46,0,13,15,20,12,39,24,15,8,31,41,14,26,0],
   [3,37,8,8,34,28,33,23,1,10,7,39,27,30,8,6,42,0,1,5,5,25,26,0], [35,32,2,29,40,15,27,11,24,20,13,18,40,40,4,20,12,33,40,25,15,35,26,0],
   [20,28,43,2,0,3,21,46,46,30,19,44,5,4,1,34,29,18,33,46,25,45,26,0], [5,24,37,23,6,37,14,34,22,41,25,23,18,14,44,0,0,4,26,20,36,8,27,0],
   [37,19,31,44,12,24,8,22,45,4,32,2,31,24,40,14,17,36,18,41,46,18,27,0], [22,15,25,18,19,11,2,10,21,15,38,28,43,34,36,28,34,21,11,15,10,29,27,0],
   [7,11,19,39,25,45,42,44,43,25,44,7,9,45,32,42,4,7,4,36,20,39,27,0], [39,6,13,13,32,32,36,32,19,36,3,34,21,8,29,9,22,39,43,9,31,2,28,0],
   [24,2,7,34,38,19,30,20,42,46,9,13,34,18,25,23,39,24,36,30,41,12,28,0], [9,45,0,8,45,6,24,8,18,10,16,39,46,28,21,37,9,10,29,4,5,23,28,0],
   [41,40,41,28,4,41,17,43,40,20,22,18,12,39,17,4,27,42,21,25,15,33,28,0], [26,36,35,2,11,28,11,31,16,31,28,44,24,2,14,18,44,27,14,46,25,43,28,0],
   [11,32,29,23,17,15,5,19,39,41,34,23,37,12,10,32,14,13,7,20,36,6,29,0], [43,27,23,44,23,2,46,6,15,5,41,2,3,23,6,46,31,45,46,40,46,16,29,0],
   [28,23,17,18,30,36,39,41,37,15,0,29,15,33,2,13,2,31,39,14,10,27,29,0], [13,19,11,39,36,23,33,29,13,26,6,8,28,43,45,26,19,16,32,35,20,37,29,0],
   [45,14,5,13,43,10,27,17,36,36,12,34,40,6,42,40,36,1,25,9,31,0,30,0], [30,10,46,33,2,45,20,5,12,0,19,13,6,17,38,7,7,34,17,30,41,10,30,0],
   [15,6,40,7,9,32,14,40,34,10,25,39,18,27,34,21,24,19,10,4,5,21,30,0], [0,2,34,28,15,19,8,28,10,21,31,18,31,37,30,35,41,4,3,25,15,31,30,0],
   [32,44,27,2,22,6,2,16,33,31,37,44,43,0,27,2,12,37,42,45,25,41,30,0], [17,40,21,23,28,40,42,3,9,42,43,23,9,11,23,16,29,22,35,19,36,4,31,0],
   [2,36,15,44,34,27,36,38,31,5,3,3,22,21,19,30,46,7,28,40,46,14,31,0], [34,31,9,18,41,14,30,26,7,16,9,29,34,31,15,44,16,40,20,14,10,25,31,0],
   [19,27,3,39,0,2,24,14,30,26,15,8,0,42,11,11,34,25,13,35,20,35,31,0], [4,23,44,12,7,36,17,2,6,37,21,34,12,5,8,25,4,11,6,9,31,45,31,0],
   [36,18,38,33,13,23,11,37,28,0,28,13,25,15,4,39,21,43,45,29,41,8,32,0], [21,14,32,7,20,10,5,25,4,11,34,39,37,25,0,6,39,28,38,3,5,19,32,0],
   [6,10,26,28,26,44,45,12,27,21,40,18,3,36,43,19,9,14,31,24,15,29,32,0], [38,5,20,2,33,31,39,0,3,32,46,44,15,46,39,33,26,46,23,45,25,39,32,0],
   [23,1,14,23,39,18,33,35,25,42,5,24,28,9,36,0,44,31,16,19,36,2,33,0], [8,44,7,44,45,5,27,23,1,6,12,3,41,19,32,14,14,17,9,40,46,12,33,0],
   [40,39,1,18,5,40,20,11,24,16,18,29,6,30,28,28,31,2,2,14,10,23,33,0], [25,35,42,38,11,27,14,46,46,26,24,8,19,40,24,42,1,35,41,34,20,33,33,0],
   [10,31,36,12,18,14,8,34,22,37,30,34,31,3,21,9,19,20,34,8,31,43,33,0], [42,26,30,33,24,1,2,22,45,0,37,13,44,13,17,23,36,5,27,29,41,6,34,0],
   [27,22,24,7,31,35,42,9,21,11,43,39,9,24,13,37,6,38,19,3,5,17,34,0], [12,18,18,28,37,22,36,44,43,21,2,19,22,34,9,4,24,23,12,24,15,27,34,0],
   [44,13,12,2,44,9,30,32,19,32,8,45,34,44,5,18,41,8,5,45,25,37,34,0], [29,9,6,23,3,44,23,20,42,42,14,24,0,8,2,32,11,41,44,18,36,0,35,0],
   [14,5,0,44,9,31,17,8,18,6,21,3,13,18,45,45,28,26,37,39,46,10,35,0], [46,0,41,17,16,18,11,43,40,16,27,29,25,28,41,12,46,11,30,13,10,21,35,0],
   [31,43,34,38,22,5,5,31,16,27,33,8,38,38,37,26,16,44,22,34,20,31,35,0], [16,39,28,12,29,39,45,18,39,37,39,34,3,2,34,40,33,29,15,8,31,41,35,0],
   [1,35,22,33,35,26,39,6,15,1,46,13,16,12,30,7,4,15,8,29,41,4,36,0], [33,30,16,7,42,13,33,41,37,11,5,40,28,22,26,21,21,0,1,3,5,15,36,0],
   [18,26,10,28,1,1,27,29,13,22,11,19,41,32,22,35,38,32,40,23,15,25,36,0], [3,22,4,2,8,35,20,17,36,32,17,45,6,43,18,2,9,18,33,44,25,35,36,0],
   [35,17,45,22,14,22,14,5,12,43,23,24,19,6,15,16,26,3,26,18,36,45,36,0], [20,13,39,43,20,9,8,40,34,6,30,3,32,16,11,30,43,35,18,39,46,8,37,0],
   [5,9,33,17,27,43,1,28,10,17,36,29,44,26,7,44,13,21,11,13,10,19,37,0], [37,4,27,38,33,30,42,15,33,27,42,8,10,37,3,11,31,6,4,34,20,29,37,0],
   [22,0,21,12,40,17,36,3,9,38,1,35,22,0,0,25,1,39,43,7,31,39,37,0], [7,43,14,33,46,4,30,38,31,1,8,14,35,10,43,38,18,24,36,28,41,2,38,0],
   [39,38,8,7,6,39,23,26,7,12,14,40,0,21,39,5,36,9,29,2,5,13,38,0], [24,34,2,28,12,26,17,14,30,22,20,19,13,31,35,19,6,42,21,23,15,23,38,0],
   [9,30,43,1,19,13,11,2,6,33,26,45,25,41,31,33,23,27,14,44,25,33,38,0], [41,25,37,22,25,0,5,37,28,43,32,24,38,4,28,0,41,12,7,18,36,43,38,0],
   [26,21,31,43,31,34,45,24,4,7,39,3,4,15,24,14,11,45,46,38,46,6,39,0], [11,17,25,17,38,21,39,12,27,17,45,29,16,25,20,28,28,30,39,12,10,17,39,0],
   [43,12,19,38,44,8,33,0,3,28,4,9,29,35,16,42,45,15,32,33,20,27,39,0], [28,8,13,12,4,43,26,35,25,38,10,35,41,45,12,9,16,1,25,7,31,37,39,0],
   [13,4,7,33,10,30,20,23,1,2,17,14,7,9,9,23,33,33,17,28,41,0,40,0], [45,46,0,7,17,17,14,11,24,12,23,40,19,19,5,37,3,19,10,2,5,11,40,0],
   [30,42,41,27,23,4,8,46,46,22,29,19,32,29,1,4,21,4,3,23,15,21,40,0], [15,38,35,1,30,38,1,34,22,33,35,45,44,39,44,17,38,36,42,43,25,31,40,0],
   [0,34,29,22,36,25,42,21,45,43,41,24,10,3,41,31,8,22,35,17,36,41,40,0], [32,29,23,43,42,12,36,9,21,7,1,4,23,13,37,45,25,7,28,38,46,4,41,0],
   [17,25,17,17,2,0,30,44,43,17,7,30,35,23,33,12,43,39,20,12,10,15,41,0], [2,21,11,38,8,34,23,32,19,28,13,9,1,34,29,26,13,25,13,33,20,25,41,0],
   [34,16,5,12,15,21,17,20,42,38,19,35,13,44,25,40,30,10,6,7,31,35,41,0], [19,12,46,32,21,8,11,8,18,2,26,14,26,7,22,7,1,43,45,27,41,45,41,0],
   [4,8,40,6,28,42,4,43,40,12,32,40,38,17,18,21,18,28,38,1,5,9,42,0], [36,3,34,27,34,29,45,30,16,23,38,19,4,28,14,35,35,13,31,22,15,19,42,0],
   [21,46,27,1,41,16,39,18,39,33,44,45,16,38,10,2,6,46,23,43,25,29,42,0], [6,42,21,22,0,4,33,6,15,44,3,25,29,1,7,16,23,31,16,17,36,39,42,0],
   [38,37,15,43,6,38,26,41,37,7,10,4,42,11,3,30,40,16,9,38,46,2,43,0], [23,33,9,17,13,25,20,29,13,18,16,30,7,22,46,43,10,2,2,12,10,13,43,0],
   [8,29,3,38,19,12,14,17,36,28,22,9,20,32,42,10,28,34,41,32,20,23,43,0], [40,24,44,11,26,46,7,5,12,39,28,35,32,42,38,24,45,19,34,6,31,33,43,0],
   [25,20,38,32,32,33,1,40,34,2,35,14,45,5,35,38,15,5,27,27,41,43,43,0], [10,16,32,6,39,20,42,27,10,13,41,40,10,16,31,5,33,37,19,1,5,7,44,0],
   [42,11,26,27,45,7,36,15,33,23,0,20,23,26,27,19,3,23,12,22,15,17,44,0], [27,7,20,1,5,42,29,3,9,34,6,46,35,36,23,33,20,8,5,43,25,27,44,0],
   [12,3,14,22,11,29,23,38,31,44,12,25,1,0,20,0,38,40,44,16,36,37,44,0], [44,45,7,43,17,16,17,26,7,8,19,4,14,10,16,14,8,26,37,37,46,0,45,0],
   [29,41,1,17,24,3,11,14,30,18,25,30,26,20,12,28,25,11,30,11,10,11,45,0], [14,37,42,37,30,37,4,2,6,29,31,9,39,30,8,42,42,43,22,32,20,21,45,0],
   [46,32,36,11,37,24,45,36,28,39,37,35,4,41,4,9,13,29,15,6,31,31,45,0], [31,28,30,32,43,11,39,24,4,3,44,14,17,4,1,23,30,14,8,27,41,41,45,0],
   [16,24,24,6,3,46,32,12,27,13,3,41,29,14,44,36,0,0,1,1,5,5,46,0], [1,20,18,27,9,33,26,0,3,24,9,20,42,24,40,3,18,32,40,21,15,15,46,0],
   [33,15,12,1,16,20,20,35,25,34,15,46,7,35,36,17,35,17,33,42,25,25,46,0], [18,11,6,22,22,7,14,23,1,45,21,25,20,45,32,31,5,3,26,16,36,35,46,0],
   [3,7,0,43,28,41,7,11,24,8,28,4,33,8,29,45,22,35,18,37,46,45,46,0], [35,2,41,16,35,28,1,46,46,18,34,30,45,18,25,12,40,20,11,11,10,9,0,1],
   [20,45,34,37,41,15,42,33,22,29,40,9,11,29,21,26,10,6,4,32,20,19,0,1], [5,41,28,11,1,3,36,21,45,39,46,35,23,39,17,40,27,38,43,5,31,29,0,1],
   [37,36,22,32,7,37,29,9,21,3,6,15,36,2,14,7,45,23,36,26,41,39,0,1], [22,32,16,6,14,24,23,44,43,13,12,41,1,13,10,21,15,9,29,0,5,3,1,1],
   [7,28,10,27,20,11,17,32,19,24,18,20,14,23,6,35,32,41,21,21,15,13,1,1], [39,23,4,1,27,45,10,20,42,34,24,46,26,33,2,2,3,27,14,42,25,23,1,1],
   [24,19,45,21,33,32,4,8,18,45,30,25,39,43,45,15,20,12,7,16,36,33,1,1], [9,15,39,42,39,19,45,42,40,8,37,4,5,7,42,29,37,44,46,36,46,43,1,1],
   [41,10,33,16,46,6,39,30,16,19,43,30,17,17,38,43,7,30,39,10,10,7,2,1], [26,6,27,37,5,41,32,18,39,29,2,10,30,27,34,10,25,15,32,31,20,17,2,1],
   [11,2,21,11,12,28,26,6,15,40,8,36,42,37,30,24,42,0,25,5,31,27,2,1], [43,44,14,32,18,15,20,41,37,3,15,15,8,1,27,38,12,33,17,26,41,37,2,1],
   [28,40,8,6,25,2,14,29,13,14,21,41,20,11,23,5,30,18,10,0,5,1,3,1], [13,36,2,27,31,36,7,17,36,24,27,20,33,21,19,19,0,4,3,21,15,11,3,1],
   [45,31,43,0,38,23,1,5,12,35,33,46,45,31,15,33,17,36,42,41,25,21,3,1], [30,27,37,21,44,10,42,39,34,45,39,25,11,42,11,0,35,21,35,15,36,31,3,1],
   [15,23,31,42,3,45,35,27,10,9,46,4,24,5,8,14,5,7,28,36,46,41,3,1], [0,19,25,16,10,32,29,15,33,19,5,31,36,15,4,28,22,39,20,10,10,5,4,1],
   [32,14,19,37,16,19,23,3,9,30,11,10,2,26,0,42,39,24,13,31,20,15,4,1], [17,10,13,11,23,6,17,38,31,40,17,36,14,36,43,8,10,10,6,5,31,25,4,1],
   [2,6,7,32,29,40,10,26,7,4,24,15,27,46,39,22,27,42,45,25,41,35,4,1], [34,1,1,6,36,27,4,14,30,14,30,41,39,9,36,36,44,27,38,46,4,46,4,1],
   [19,44,41,26,42,14,45,1,6,25,36,20,5,20,32,3,15,13,31,20,15,9,5,1], [4,40,35,0,2,2,39,36,28,35,42,46,17,30,28,17,32,45,23,41,25,19,5,1],
   [36,35,29,21,8,36,32,24,4,46,1,26,30,40,24,31,2,31,16,15,36,29,5,1], [21,31,23,42,14,23,26,12,27,9,8,5,43,3,21,45,19,16,9,36,46,39,5,1],
   [6,27,17,16,21,10,20,0,3,20,14,31,8,14,17,12,37,1,2,10,10,3,6,1], [38,22,11,37,27,44,13,35,25,30,20,10,21,24,13,26,7,34,41,30,20,13,6,1],
   [23,18,5,11,34,31,7,23,1,41,26,36,33,34,9,40,24,19,34,4,31,23,6,1], [8,14,46,31,40,18,1,11,24,4,33,15,46,44,5,7,42,4,27,25,41,33,6,1],
   [40,9,40,5,0,6,42,45,46,14,39,41,11,8,2,21,12,37,19,46,4,44,6,1], [25,5,34,26,6,40,35,33,22,25,45,20,24,18,45,34,29,22,12,20,15,7,7,1],
   [10,1,28,0,13,27,29,21,45,35,4,0,37,28,41,1,0,8,5,41,25,17,7,1], [42,43,21,21,19,14,23,9,21,46,10,26,2,39,37,15,17,40,44,14,36,27,7,1],
   [27,39,15,42,25,1,17,44,43,9,17,5,15,2,34,29,34,25,37,35,46,37,7,1], [12,35,9,16,32,35,10,32,19,20,23,31,27,12,30,43,4,11,30,9,10,1,8,1],
   [44,30,3,37,38,22,4,20,42,30,29,10,40,22,26,10,22,43,22,30,20,11,8,1], [29,26,44,10,45,9,45,7,18,41,35,36,5,33,22,24,39,28,15,4,31,21,8,1]]"

lemma BASE47_POS14_ok: "table_ok 47 22 14 BASE47_POS14"
proof (rule table_okI)
  show "rows_step 47 [6, 43, 40, 15, 32, 38, 21, 43, 1, 0, 7, 33, 39, 26, 13, 24, 46, 32, 9, 41, 1, 0] BASE47_POS14"
    by (simp only: BASE47_POS14_def rows_step_eval cong: if_weak_cong)
  show "length BASE47_POS14 = 256"
    by (simp only: BASE47_POS14_def length_table_eval)
  show "hd BASE47_POS14 = [0, 0, 0, 0, 0, 0, 0, 0, 0, 0, 0, 0, 0, 0, 0, 0, 0, 0, 0, 0, 0, 0]"
    by (simp only: BASE47_POS14_def list.sel)
qed (simp_all add: digit_simps)

lemma BASE47_POS15_ok: "table_ok 47 24 15 BASE47_POS15"
proof (rule table_okI)
  show "rows_step 47 [32, 42, 40, 20, 6, 34, 40, 34, 22, 10, 6, 26, 12, 10, 43, 13, 17, 32, 39, 20, 10, 10, 0, 0] BASE47_POS15"
    by (simp only: BASE47_POS15_def rows_step_eval cong: if_weak_cong)
  show "length BASE47_POS15 = 256"
    by (simp only: BASE47_POS15_def length_table_eval)
  show "hd BASE47_POS15 = [0, 0, 0, 0, 0, 0, 0, 0, 0, 0, 0, 0, 0, 0, 0, 0, 0, 0, 0, 0, 0, 0, 0, 0]"
    by (simp only: BASE47_POS15_def list.sel)
qed (simp_all add: digit_simps)

end
