(* ===== verification/Tables_POS0_A.thy ===== *)
theory Tables_POS0_A
  imports Digits
begin

text \<open>
  The tables \<open>BASE<q>_POS0\<close> of \<^verbatim>\<open>fancy-garbling/base_conversion/cbits/lookup_tables.c\<close> for the bases
  5 to 19: row \<open>x\<close> holds the digits of the byte \<open>x\<close>.
\<close>

definition BASE5_POS0 :: "nat list list" where
  "BASE5_POS0 = [
   [0,0,0,0], [1,0,0,0], [2,0,0,0], [3,0,0,0], [4,0,0,0], [0,1,0,0], [1,1,0,0], [2,1,0,0], [3,1,0,0], [4,1,0,0],
   [0,2,0,0], [1,2,0,0], [2,2,0,0], [3,2,0,0], [4,2,0,0], [0,3,0,0], [1,3,0,0], [2,3,0,0], [3,3,0,0], [4,3,0,0],
   [0,4,0,0], [1,4,0,0], [2,4,0,0], [3,4,0,0], [4,4,0,0], [0,0,1,0], [1,0,1,0], [2,0,1,0], [3,0,1,0], [4,0,1,0],
   [0,1,1,0], [1,1,1,0], [2,1,1,0], [3,1,1,0], [4,1,1,0], [0,2,1,0], [1,2,1,0], [2,2,1,0], [3,2,1,0], [4,2,1,0],
   [0,3,1,0], [1,3,1,0], [2,3,1,0], [3,3,1,0], [4,3,1,0], [0,4,1,0], [1,4,1,0], [2,4,1,0], [3,4,1,0], [4,4,1,0],
   [0,0,2,0], [1,0,2,0], [2,0,2,0], [3,0,2,0], [4,0,2,0], [0,1,2,0], [1,1,2,0], [2,1,2,0], [3,1,2,0], [4,1,2,0],
   [0,2,2,0], [1,2,2,0], [2,2,2,0], [3,2,2,0], [4,2,2,0], [0,3,2,0], [1,3,2,0], [2,3,2,0], [3,3,2,0], [4,3,2,0],
   [0,4,2,0], [1,4,2,0], [2,4,2,0], [3,4,2,0], [4,4,2,0], [0,0,3,0], [1,0,3,0], [2,0,3,0], [3,0,3,0], [4,0,3,0],
   [0,1,3,0], [1,1,3,0], [2,1,3,0], [3,1,3,0], [4,1,3,0], [0,2,3,0], [1,2,3,0], [2,2,3,0], [3,2,3,0], [4,2,3,0],
   [0,3,3,0], [1,3,3,0], [2,3,3,0], [3,3,3,0], [4,3,3,0], [0,4,3,0], [1,4,3,0], [2,4,3,0], [3,4,3,0], [4,4,3,0],
   [0,0,4,0], [1,0,4,0], [2,0,4,0], [3,0,4,0], [4,0,4,0], [0,1,4,0], [1,1,4,0], [2,1,4,0], [3,1,4,0], [4,1,4,0],
   [0,2,4,0], [1,2,4,0], [2,2,4,0], [3,2,4,0], [4,2,4,0], [0,3,4,0], [1,3,4,0], [2,3,4,0], [3,3,4,0], [4,3,4,0],
   [0,4,4,0], [1,4,4,0], [2,4,4,0], [3,4,4,0], [4,4,4,0], [0,0,0,1], [1,0,0,1], [2,0,0,1], [3,0,0,1], [4,0,0,1],
   [0,1,0,1], [1,1,0,1], [2,1,0,1], [3,1,0,1], [4,1,0,1], [0,2,0,1], [1,2,0,1], [2,2,0,1], [3,2,0,1], [4,2,0,1],
   [0,3,0,1], [1,3,0,1], [2,3,0,1], [3,3,0,1], [4,3,0,1], [0,4,0,1], [1,4,0,1], [2,4,0,1], [3,4,0,1], [4,4,0,1],
   [0,0,1,1], [1,0,1,1], [2,0,1,1], [3,0,1,1], [4,0,1,1], [0,1,1,1], [1,1,1,1], [2,1,1,1], [3,1,1,1], [4,1,1,1],
   [0,2,1,1], [1,2,1,1], [2,2,1,1], [3,2,1,1], [4,2,1,1], [0,3,1,1], [1,3,1,1], [2,3,1,1], [3,3,1,1], [4,3,1,1],
   [0,4,1,1], [1,4,1,1], [2,4,1,1], [3,4,1,1], [4,4,1,1], [0,0,2,1], [1,0,2,1], [2,0,2,1], [3,0,2,1], [4,0,2,1],
   [0,1,2,1], [1,1,2,1], [2,1,2,1], [3,1,2,1], [4,1,2,1], [0,2,2,1], [1,2,2,1], [2,2,2,1], [3,2,2,1], [4,2,2,1],
   [0,3,2,1], [1,3,2,1], [2,3,2,1], [3,3,2,1], [4,3,2,1], [0,4,2,1], [1,4,2,1], [2,4,2,1], [3,4,2,1], [4,4,2,1],
   [0,0,3,1], [1,0,3,1], [2,0,3,1], [3,0,3,1], [4,0,3,1], [0,1,3,1], [1,1,3,1], [2,1,3,1], [3,1,3,1], [4,1,3,1],
   [0,2,3,1], [1,2,3,1], [2,2,3,1], [3,2,3,1], [4,2,3,1], [0,3,3,1], [1,3,3,1], [2,3,3,1], [3,3,3,1], [4,3,3,1],
   [0,4,3,1], [1,4,3,1], [2,4,3,1], [3,4,3,1], [4,4,3,1], [0,0,4,1], [1,0,4,1], [2,0,4,1], [3,0,4,1], [4,0,4,1],
   [0,1,4,1], [1,1,4,1], [2,1,4,1], [3,1,4,1], [4,1,4,1], [0,2,4,1], [1,2,4,1], [2,2,4,1], [3,2,4,1], [4,2,4,1],
   [0,3,4,1], [1,3,4,1], [2,3,4,1], [3,3,4,1], [4,3,4,1], [0,4,4,1], [1,4,4,1], [2,4,4,1], [3,4,4,1], [4,4,4,1],
   [0,0,0,2], [1,0,0,2], [2,0,0,2], [3,0,0,2], [4,0,0,2], [0,1,0,2]]"

definition BASE6_POS0 :: "nat list list" where
  "BASE6_POS0 = [
   [0,0,0,0], [1,0,0,0], [2,0,0,0], [3,0,0,0], [4,0,0,0], [5,0,0,0], [0,1,0,0], [1,1,0,0], [2,1,0,0], [3,1,0,0],
   [4,1,0,0], [5,1,0,0], [0,2,0,0], [1,2,0,0], [2,2,0,0], [3,2,0,0], [4,2,0,0], [5,2,0,0], [0,3,0,0], [1,3,0,0],
   [2,3,0,0], [3,3,0,0], [4,3,0,0], [5,3,0,0], [0,4,0,0], [1,4,0,0], [2,4,0,0], [3,4,0,0], [4,4,0,0], [5,4,0,0],
   [0,5,0,0], [1,5,0,0], [2,5,0,0], [3,5,0,0], [4,5,0,0], [5,5,0,0], [0,0,1,0], [1,0,1,0], [2,0,1,0], [3,0,1,0],
   [4,0,1,0], [5,0,1,0], [0,1,1,0], [1,1,1,0], [2,1,1,0], [3,1,1,0], [4,1,1,0], [5,1,1,0], [0,2,1,0], [1,2,1,0],
   [2,2,1,0], [3,2,1,0], [4,2,1,0], [5,2,1,0], [0,3,1,0], [1,3,1,0], [2,3,1,0], [3,3,1,0], [4,3,1,0], [5,3,1,0],
   [0,4,1,0], [1,4,1,0], [2,4,1,0], [3,4,1,0], [4,4,1,0], [5,4,1,0], [0,5,1,0], [1,5,1,0], [2,5,1,0], [3,5,1,0],
   [4,5,1,0], [5,5,1,0], [0,0,2,0], [1,0,2,0], [2,0,2,0], [3,0,2,0], [4,0,2,0], [5,0,2,0], [0,1,2,0], [1,1,2,0],
   [2,1,2,0], [3,1,2,0], [4,1,2,0], [5,1,2,0], [0,2,2,0], [1,2,2,0], [2,2,2,0], [3,2,2,0], [4,2,2,0], [5,2,2,0],
   [0,3,2,0], [1,3,2,0], [2,3,2,0], [3,3,2,0], [4,3,2,0], [5,3,2,0], [0,4,2,0], [1,4,2,0], [2,4,2,0], [3,4,2,0],
   [4,4,2,0], [5,4,2,0], [0,5,2,0], [1,5,2,0], [2,5,2,0], [3,5,2,0], [4,5,2,0], [5,5,2,0], [0,0,3,0], [1,0,3,0],
   [2,0,3,0], [3,0,3,0], [4,0,3,0], [5,0,3,0], [0,1,3,0], [1,1,3,0], [2,1,3,0], [3,1,3,0], [4,1,3,0], [5,1,3,0],
   [0,2,3,0], [1,2,3,0], [2,2,3,0], [3,2,3,0], [4,2,3,0], [5,2,3,0], [0,3,3,0], [1,3,3,0], [2,3,3,0], [3,3,3,0],
   [4,3,3,0], [5,3,3,0], [0,4,3,0], [1,4,3,0], [2,4,3,0], [3,4,3,0], [4,4,3,0], [5,4,3,0], [0,5,3,0], [1,5,3,0],
   [2,5,3,0], [3,5,3,0], [4,5,3,0], [5,5,3,0], [0,0,4,0], [1,0,4,0], [2,0,4,0], [3,0,4,0], [4,0,4,0], [5,0,4,0],
   [0,1,4,0], [1,1,4,0], [2,1,4,0], [3,1,4,0], [4,1,4,0], [5,1,4,0], [0,2,4,0], [1,2,4,0], [2,2,4,0], [3,2,4,0],
   [4,2,4,0], [5,2,4,0], [0,3,4,0], [1,3,4,0], [2,3,4,0], [3,3,4,0], [4,3,4,0], [5,3,4,0], [0,4,4,0], [1,4,4,0],
   [2,4,4,0], [3,4,4,0], [4,4,4,0], [5,4,4,0], [0,5,4,0], [1,5,4,0], [2,5,4,0], [3,5,4,0], [4,5,4,0], [5,5,4,0],
   [0,0,5,0], [1,0,5,0], [2,0,5,0], [3,0,5,0], [4,0,5,0], [5,0,5,0], [0,1,5,0], [1,1,5,0], [2,1,5,0], [3,1,5,0],
   [4,1,5,0], [5,1,5,0], [0,2,5,0], [1,2,5,0], [2,2,5,0], [3,2,5,0], [4,2,5,0], [5,2,5,0], [0,3,5,0], [1,3,5,0],
   [2,3,5,0], [3,3,5,0], [4,3,5,0], [5,3,5,0], [0,4,5,0], [1,4,5,0], [2,4,5,0], [3,4,5,0], [4,4,5,0], [5,4,5,0],
   [0,5,5,0], [1,5,5,0], [2,5,5,0], [3,5,5,0], [4,5,5,0], [5,5,5,0], [0,0,0,1], [1,0,0,1], [2,0,0,1], [3,0,0,1],
   [4,0,0,1], [5,0,0,1], [0,1,0,1], [1,1,0,1], [2,1,0,1], [3,1,0,1], [4,1,0,1], [5,1,0,1], [0,2,0,1], [1,2,0,1],
   [2,2,0,1], [3,2,0,1], [4,2,0,1], [5,2,0,1], [0,3,0,1], [1,3,0,1], [2,3,0,1], [3,3,0,1], [4,3,0,1], [5,3,0,1],
   [0,4,0,1], [1,4,0,1], [2,4,0,1], [3,4,0,1], [4,4,0,1], [5,4,0,1], [0,5,0,1], [1,5,0,1], [2,5,0,1], [3,5,0,1],
   [4,5,0,1], [5,5,0,1], [0,0,1,1], [1,0,1,1], [2,0,1,1], [3,0,1,1]]"

definition BASE7_POS0 :: "nat list list" where
  "BASE7_POS0 = [
   [0,0,0], [1,0,0], [2,0,0], [3,0,0], [4,0,0], [5,0,0], [6,0,0], [0,1,0], [1,1,0], [2,1,0], [3,1,0], [4,1,0],
   [5,1,0], [6,1,0], [0,2,0], [1,2,0], [2,2,0], [3,2,0], [4,2,0], [5,2,0], [6,2,0], [0,3,0], [1,3,0], [2,3,0],
   [3,3,0], [4,3,0], [5,3,0], [6,3,0], [0,4,0], [1,4,0], [2,4,0], [3,4,0], [4,4,0], [5,4,0], [6,4,0], [0,5,0],
   [1,5,0], [2,5,0], [3,5,0], [4,5,0], [5,5,0], [6,5,0], [0,6,0], [1,6,0], [2,6,0], [3,6,0], [4,6,0], [5,6,0],
   [6,6,0], [0,0,1], [1,0,1], [2,0,1], [3,0,1], [4,0,1], [5,0,1], [6,0,1], [0,1,1], [1,1,1], [2,1,1], [3,1,1],
   [4,1,1], [5,1,1], [6,1,1], [0,2,1], [1,2,1], [2,2,1], [3,2,1], [4,2,1], [5,2,1], [6,2,1], [0,3,1], [1,3,1],
   [2,3,1], [3,3,1], [4,3,1], [5,3,1], [6,3,1], [0,4,1], [1,4,1], [2,4,1], [3,4,1], [4,4,1], [5,4,1], [6,4,1],
   [0,5,1], [1,5,1], [2,5,1], [3,5,1], [4,5,1], [5,5,1], [6,5,1], [0,6,1], [1,6,1], [2,6,1], [3,6,1], [4,6,1],
   [5,6,1], [6,6,1], [0,0,2], [1,0,2], [2,0,2], [3,0,2], [4,0,2], [5,0,2], [6,0,2], [0,1,2], [1,1,2], [2,1,2],
   [3,1,2], [4,1,2], [5,1,2], [6,1,2], [0,2,2], [1,2,2], [2,2,2], [3,2,2], [4,2,2], [5,2,2], [6,2,2], [0,3,2],
   [1,3,2], [2,3,2], [3,3,2], [4,3,2], [5,3,2], [6,3,2], [0,4,2], [1,4,2], [2,4,2], [3,4,2], [4,4,2], [5,4,2],
   [6,4,2], [0,5,2], [1,5,2], [2,5,2], [3,5,2], [4,5,2], [5,5,2], [6,5,2], [0,6,2], [1,6,2], [2,6,2], [3,6,2],
   [4,6,2], [5,6,2], [6,6,2], [0,0,3], [1,0,3], [2,0,3], [3,0,3], [4,0,3], [5,0,3], [6,0,3], [0,1,3], [1,1,3],
   [2,1,3], [3,1,3], [4,1,3], [5,1,3], [6,1,3], [0,2,3], [1,2,3], [2,2,3], [3,2,3], [4,2,3], [5,2,3], [6,2,3],
   [0,3,3], [1,3,3], [2,3,3], [3,3,3], [4,3,3], [5,3,3], [6,3,3], [0,4,3], [1,4,3], [2,4,3], [3,4,3], [4,4,3],
   [5,4,3], [6,4,3], [0,5,3], [1,5,3], [2,5,3], [3,5,3], [4,5,3], [5,5,3], [6,5,3], [0,6,3], [1,6,3], [2,6,3],
   [3,6,3], [4,6,3], [5,6,3], [6,6,3], [0,0,4], [1,0,4], [2,0,4], [3,0,4], [4,0,4], [5,0,4], [6,0,4], [0,1,4],
   [1,1,4], [2,1,4], [3,1,4], [4,1,4], [5,1,4], [6,1,4], [0,2,4], [1,2,4], [2,2,4], [3,2,4], [4,2,4], [5,2,4],
   [6,2,4], [0,3,4], [1,3,4], [2,3,4], [3,3,4], [4,3,4], [5,3,4], [6,3,4], [0,4,4], [1,4,4], [2,4,4], [3,4,4],
   [4,4,4], [5,4,4], [6,4,4], [0,5,4], [1,5,4], [2,5,4], [3,5,4], [4,5,4], [5,5,4], [6,5,4], [0,6,4], [1,6,4],
   [2,6,4], [3,6,4], [4,6,4], [5,6,4], [6,6,4], [0,0,5], [1,0,5], [2,0,5], [3,0,5], [4,0,5], [5,0,5], [6,0,5],
   [0,1,5], [1,1,5], [2,1,5], [3,1,5]]"

definition BASE8_POS0 :: "nat list list" where
  "BASE8_POS0 = [
   [0,0,0], [1,0,0], [2,0,0], [3,0,0], [4,0,0], [5,0,0], [6,0,0], [7,0,0], [0,1,0], [1,1,0], [2,1,0], [3,1,0],
   [4,1,0], [5,1,0], [6,1,0], [7,1,0], [0,2,0], [1,2,0], [2,2,0], [3,2,0], [4,2,0], [5,2,0], [6,2,0], [7,2,0],
   [0,3,0], [1,3,0], [2,3,0], [3,3,0], [4,3,0], [5,3,0], [6,3,0], [7,3,0], [0,4,0], [1,4,0], [2,4,0], [3,4,0],
   [4,4,0], [5,4,0], [6,4,0], [7,4,0], [0,5,0], [1,5,0], [2,5,0], [3,5,0], [4,5,0], [5,5,0], [6,5,0], [7,5,0],
   [0,6,0], [1,6,0], [2,6,0], [3,6,0], [4,6,0], [5,6,0], [6,6,0], [7,6,0], [0,7,0], [1,7,0], [2,7,0], [3,7,0],
   [4,7,0], [5,7,0], [6,7,0], [7,7,0], [0,0,1], [1,0,1], [2,0,1], [3,0,1], [4,0,1], [5,0,1], [6,0,1], [7,0,1],
   [0,1,1], [1,1,1], [2,1,1], [3,1,1], [4,1,1], [5,1,1], [6,1,1], [7,1,1], [0,2,1], [1,2,1], [2,2,1], [3,2,1],
   [4,2,1], [5,2,1], [6,2,1], [7,2,1], [0,3,1], [1,3,1], [2,3,1], [3,3,1], [4,3,1], [5,3,1], [6,3,1], [7,3,1],
   [0,4,1], [1,4,1], [2,4,1], [3,4,1], [4,4,1], [5,4,1], [6,4,1], [7,4,1], [0,5,1], [1,5,1], [2,5,1], [3,5,1],
   [4,5,1], [5,5,1], [6,5,1], [7,5,1], [0,6,1], [1,6,1], [2,6,1], [3,6,1], [4,6,1], [5,6,1], [6,6,1], [7,6,1],
   [0,7,1], [1,7,1], [2,7,1], [3,7,1], [4,7,1], [5,7,1], [6,7,1], [7,7,1], [0,0,2], [1,0,2], [2,0,2], [3,0,2],
   [4,0,2], [5,0,2], [6,0,2], [7,0,2], [0,1,2], [1,1,2], [2,1,2], [3,1,2], [4,1,2], [5,1,2], [6,1,2], [7,1,2],
   [0,2,2], [1,2,2], [2,2,2], [3,2,2], [4,2,2], [5,2,2], [6,2,2], [7,2,2], [0,3,2], [1,3,2], [2,3,2], [3,3,2],
   [4,3,2], [5,3,2], [6,3,2], [7,3,2], [0,4,2], [1,4,2], [2,4,2], [3,4,2], [4,4,2], [5,4,2], [6,4,2], [7,4,2],
   [0,5,2], [1,5,2], [2,5,2], [3,5,2], [4,5,2], [5,5,2], [6,5,2], [7,5,2], [0,6,2], [1,6,2], [2,6,2], [3,6,2],
   [4,6,2], [5,6,2], [6,6,2], [7,6,2], [0,7,2], [1,7,2], [2,7,2], [3,7,2], [4,7,2], [5,7,2], [6,7,2], [7,7,2],
   [0,0,3], [1,0,3], [2,0,3], [3,0,3], [4,0,3], [5,0,3], [6,0,3], [7,0,3], [0,1,3], [1,1,3], [2,1,3], [3,1,3],
   [4,1,3], [5,1,3], [6,1,3], [7,1,3], [0,2,3], [1,2,3], [2,2,3], [3,2,3], [4,2,3], [5,2,3], [6,2,3], [7,2,3],
   [0,3,3], [1,3,3], [2,3,3], [3,3,3], [4,3,3], [5,3,3], [6,3,3], [7,3,3], [0,4,3], [1,4,3], [2,4,3], [3,4,3],
   [4,4,3], [5,4,3], [6,4,3], [7,4,3], [0,5,3], [1,5,3], [2,5,3], [3,5,3], [4,5,3], [5,5,3], [6,5,3], [7,5,3],
   [0,6,3], [1,6,3], [2,6,3], [3,6,3], [4,6,3], [5,6,3], [6,6,3], [7,6,3], [0,7,3], [1,7,3], [2,7,3], [3,7,3],
   [4,7,3], [5,7,3], [6,7,3], [7,7,3]]"

definition BASE9_POS0 :: "nat list list" where
  "BASE9_POS0 = [
   [0,0,0], [1,0,0], [2,0,0], [3,0,0], [4,0,0], [5,0,0], [6,0,0], [7,0,0], [8,0,0], [0,1,0], [1,1,0], [2,1,0],
   [3,1,0], [4,1,0], [5,1,0], [6,1,0], [7,1,0], [8,1,0], [0,2,0], [1,2,0], [2,2,0], [3,2,0], [4,2,0], [5,2,0],
   [6,2,0], [7,2,0], [8,2,0], [0,3,0], [1,3,0], [2,3,0], [3,3,0], [4,3,0], [5,3,0], [6,3,0], [7,3,0], [8,3,0],
   [0,4,0], [1,4,0], [2,4,0], [3,4,0], [4,4,0], [5,4,0], [6,4,0], [7,4,0], [8,4,0], [0,5,0], [1,5,0], [2,5,0],
   [3,5,0], [4,5,0], [5,5,0], [6,5,0], [7,5,0], [8,5,0], [0,6,0], [1,6,0], [2,6,0], [3,6,0], [4,6,0], [5,6,0],
   [6,6,0], [7,6,0], [8,6,0], [0,7,0], [1,7,0], [2,7,0], [3,7,0], [4,7,0], [5,7,0], [6,7,0], [7,7,0], [8,7,0],
   [0,8,0], [1,8,0], [2,8,0], [3,8,0], [4,8,0], [5,8,0], [6,8,0], [7,8,0], [8,8,0], [0,0,1], [1,0,1], [2,0,1],
   [3,0,1], [4,0,1], [5,0,1], [6,0,1], [7,0,1], [8,0,1], [0,1,1], [1,1,1], [2,1,1], [3,1,1], [4,1,1], [5,1,1],
   [6,1,1], [7,1,1], [8,1,1], [0,2,1], [1,2,1], [2,2,1], [3,2,1], [4,2,1], [5,2,1], [6,2,1], [7,2,1], [8,2,1],
   [0,3,1], [1,3,1], [2,3,1], [3,3,1], [4,3,1], [5,3,1], [6,3,1], [7,3,1], [8,3,1], [0,4,1], [1,4,1], [2,4,1],
   [3,4,1], [4,4,1], [5,4,1], [6,4,1], [7,4,1], [8,4,1], [0,5,1], [1,5,1], [2,5,1], [3,5,1], [4,5,1], [5,5,1],
   [6,5,1], [7,5,1], [8,5,1], [0,6,1], [1,6,1], [2,6,1], [3,6,1], [4,6,1], [5,6,1], [6,6,1], [7,6,1], [8,6,1],
   [0,7,1], [1,7,1], [2,7,1], [3,7,1], [4,7,1], [5,7,1], [6,7,1], [7,7,1], [8,7,1], [0,8,1], [1,8,1], [2,8,1],
   [3,8,1], [4,8,1], [5,8,1], [6,8,1], [7,8,1], [8,8,1], [0,0,2], [1,0,2], [2,0,2], [3,0,2], [4,0,2], [5,0,2],
   [6,0,2], [7,0,2], [8,0,2], [0,1,2], [1,1,2], [2,1,2], [3,1,2], [4,1,2], [5,1,2], [6,1,2], [7,1,2], [8,1,2],
   [0,2,2], [1,2,2], [2,2,2], [3,2,2], [4,2,2], [5,2,2], [6,2,2], [7,2,2], [8,2,2], [0,3,2], [1,3,2], [2,3,2],
   [3,3,2], [4,3,2], [5,3,2], [6,3,2], [7,3,2], [8,3,2], [0,4,2], [1,4,2], [2,4,2], [3,4,2], [4,4,2], [5,4,2],
   [6,4,2], [7,4,2], [8,4,2], [0,5,2], [1,5,2], [2,5,2], [3,5,2], [4,5,2], [5,5,2], [6,5,2], [7,5,2], [8,5,2],
   [0,6,2], [1,6,2], [2,6,2], [3,6,2], [4,6,2], [5,6,2], [6,6,2], [7,6,2], [8,6,2], [0,7,2], [1,7,2], [2,7,2],
   [3,7,2], [4,7,2], [5,7,2], [6,7,2], [7,7,2], [8,7,2], [0,8,2], [1,8,2], [2,8,2], [3,8,2], [4,8,2], [5,8,2],
   [6,8,2], [7,8,2], [8,8,2], [0,0,3], [1,0,3], [2,0,3], [3,0,3], [4,0,3], [5,0,3], [6,0,3], [7,0,3], [8,0,3],
   [0,1,3], [1,1,3], [2,1,3], [3,1,3]]"

definition BASE10_POS0 :: "nat list list" where
  "BASE10_POS0 = [
   [0,0,0], [1,0,0], [2,0,0], [3,0,0], [4,0,0], [5,0,0], [6,0,0], [7,0,0], [8,0,0], [9,0,0], [0,1,0], [1,1,0],
   [2,1,0], [3,1,0], [4,1,0], [5,1,0], [6,1,0], [7,1,0], [8,1,0], [9,1,0], [0,2,0], [1,2,0], [2,2,0], [3,2,0],
   [4,2,0], [5,2,0], [6,2,0], [7,2,0], [8,2,0], [9,2,0], [0,3,0], [1,3,0], [2,3,0], [3,3,0], [4,3,0], [5,3,0],
   [6,3,0], [7,3,0], [8,3,0], [9,3,0], [0,4,0], [1,4,0], [2,4,0], [3,4,0], [4,4,0], [5,4,0], [6,4,0], [7,4,0],
   [8,4,0], [9,4,0], [0,5,0], [1,5,0], [2,5,0], [3,5,0], [4,5,0], [5,5,0], [6,5,0], [7,5,0], [8,5,0], [9,5,0],
   [0,6,0], [1,6,0], [2,6,0], [3,6,0], [4,6,0], [5,6,0], [6,6,0], [7,6,0], [8,6,0], [9,6,0], [0,7,0], [1,7,0],
   [2,7,0], [3,7,0], [4,7,0], [5,7,0], [6,7,0], [7,7,0], [8,7,0], [9,7,0], [0,8,0], [1,8,0], [2,8,0], [3,8,0],
   [4,8,0], [5,8,0], [6,8,0], [7,8,0], [8,8,0], [9,8,0], [0,9,0], [1,9,0], [2,9,0], [3,9,0], [4,9,0], [5,9,0],
   [6,9,0], [7,9,0], [8,9,0], [9,9,0], [0,0,1], [1,0,1], [2,0,1], [3,0,1], [4,0,1], [5,0,1], [6,0,1], [7,0,1],
   [8,0,1], [9,0,1], [0,1,1], [1,1,1], [2,1,1], [3,1,1], [4,1,1], [5,1,1], [6,1,1], [7,1,1], [8,1,1], [9,1,1],
   [0,2,1], [1,2,1], [2,2,1], [3,2,1], [4,2,1], [5,2,1], [6,2,1], [7,2,1], [8,2,1], [9,2,1], [0,3,1], [1,3,1],
   [2,3,1], [3,3,1], [4,3,1], [5,3,1], [6,3,1], [7,3,1], [8,3,1], [9,3,1], [0,4,1], [1,4,1], [2,4,1], [3,4,1],
   [4,4,1], [5,4,1], [6,4,1], [7,4,1], [8,4,1], [9,4,1], [0,5,1], [1,5,1], [2,5,1], [3,5,1], [4,5,1], [5,5,1],
   [6,5,1], [7,5,1], [8,5,1], [9,5,1], [0,6,1], [1,6,1], [2,6,1], [3,6,1], [4,6,1], [5,6,1], [6,6,1], [7,6,1],
   [8,6,1], [9,6,1], [0,7,1], [1,7,1], [2,7,1], [3,7,1], [4,7,1], [5,7,1], [6,7,1], [7,7,1], [8,7,1], [9,7,1],
   [0,8,1], [1,8,1], [2,8,1], [3,8,1], [4,8,1], [5,8,1], [6,8,1], [7,8,1], [8,8,1], [9,8,1], [0,9,1], [1,9,1],
   [2,9,1], [3,9,1], [4,9,1], [5,9,1], [6,9,1], [7,9,1], [8,9,1], [9,9,1], [0,0,2], [1,0,2], [2,0,2], [3,0,2],
   [4,0,2], [5,0,2], [6,0,2], [7,0,2], [8,0,2], [9,0,2], [0,1,2], [1,1,2], [2,1,2], [3,1,2], [4,1,2], [5,1,2],
   [6,1,2], [7,1,2], [8,1,2], [9,1,2], [0,2,2], [1,2,2], [2,2,2], [3,2,2], [4,2,2], [5,2,2], [6,2,2], [7,2,2],
   [8,2,2], [9,2,2], [0,3,2], [1,3,2], [2,3,2], [3,3,2], [4,3,2], [5,3,2], [6,3,2], [7,3,2], [8,3,2], [9,3,2],
   [0,4,2], [1,4,2], [2,4,2], [3,4,2], [4,4,2], [5,4,2], [6,4,2], [7,4,2], [8,4,2], [9,4,2], [0,5,2], [1,5,2],
   [2,5,2], [3,5,2], [4,5,2], [5,5,2]]"

definition BASE11_POS0 :: "nat list list" where
  "BASE11_POS0 = [
   [0,0,0], [1,0,0], [2,0,0], [3,0,0], [4,0,0], [5,0,0], [6,0,0], [7,0,0], [8,0,0], [9,0,0], [10,0,0], [0,1,0],
   [1,1,0], [2,1,0], [3,1,0], [4,1,0], [5,1,0], [6,1,0], [7,1,0], [8,1,0], [9,1,0], [10,1,0], [0,2,0], [1,2,0],
   [2,2,0], [3,2,0], [4,2,0], [5,2,0], [6,2,0], [7,2,0], [8,2,0], [9,2,0], [10,2,0], [0,3,0], [1,3,0], [2,3,0],
   [3,3,0], [4,3,0], [5,3,0], [6,3,0], [7,3,0], [8,3,0], [9,3,0], [10,3,0], [0,4,0], [1,4,0], [2,4,0], [3,4,0],
   [4,4,0], [5,4,0], [6,4,0], [7,4,0], [8,4,0], [9,4,0], [10,4,0], [0,5,0], [1,5,0], [2,5,0], [3,5,0], [4,5,0],
   [5,5,0], [6,5,0], [7,5,0], [8,5,0], [9,5,0], [10,5,0], [0,6,0], [1,6,0], [2,6,0], [3,6,0], [4,6,0], [5,6,0],
   [6,6,0], [7,6,0], [8,6,0], [9,6,0], [10,6,0], [0,7,0], [1,7,0], [2,7,0], [3,7,0], [4,7,0], [5,7,0], [6,7,0],
   [7,7,0], [8,7,0], [9,7,0], [10,7,0], [0,8,0], [1,8,0], [2,8,0], [3,8,0], [4,8,0], [5,8,0], [6,8,0], [7,8,0],
   [8,8,0], [9,8,0], [10,8,0], [0,9,0], [1,9,0], [2,9,0], [3,9,0], [4,9,0], [5,9,0], [6,9,0], [7,9,0], [8,9,0],
   [9,9,0], [10,9,0], [0,10,0], [1,10,0], [2,10,0], [3,10,0], [4,10,0], [5,10,0], [6,10,0], [7,10,0], [8,10,0],
   [9,10,0], [10,10,0], [0,0,1], [1,0,1], [2,0,1], [3,0,1], [4,0,1], [5,0,1], [6,0,1], [7,0,1], [8,0,1],
   [9,0,1], [10,0,1], [0,1,1], [1,1,1], [2,1,1], [3,1,1], [4,1,1], [5,1,1], [6,1,1], [7,1,1], [8,1,1], [9,1,1],
   [10,1,1], [0,2,1], [1,2,1], [2,2,1], [3,2,1], [4,2,1], [5,2,1], [6,2,1], [7,2,1], [8,2,1], [9,2,1], [10,2,1],
   [0,3,1], [1,3,1], [2,3,1], [3,3,1], [4,3,1], [5,3,1], [6,3,1], [7,3,1], [8,3,1], [9,3,1], [10,3,1], [0,4,1],
   [1,4,1], [2,4,1], [3,4,1], [4,4,1], [5,4,1], [6,4,1], [7,4,1], [8,4,1], [9,4,1], [10,4,1], [0,5,1], [1,5,1],
   [2,5,1], [3,5,1], [4,5,1], [5,5,1], [6,5,1], [7,5,1], [8,5,1], [9,5,1], [10,5,1], [0,6,1], [1,6,1], [2,6,1],
   [3,6,1], [4,6,1], [5,6,1], [6,6,1], [7,6,1], [8,6,1], [9,6,1], [10,6,1], [0,7,1], [1,7,1], [2,7,1], [3,7,1],
   [4,7,1], [5,7,1], [6,7,1], [7,7,1], [8,7,1], [9,7,1], [10,7,1], [0,8,1], [1,8,1], [2,8,1], [3,8,1], [4,8,1],
   [5,8,1], [6,8,1], [7,8,1], [8,8,1], [9,8,1], [10,8,1], [0,9,1], [1,9,1], [2,9,1], [3,9,1], [4,9,1], [5,9,1],
   [6,9,1], [7,9,1], [8,9,1], [9,9,1], [10,9,1], [0,10,1], [1,10,1], [2,10,1], [3,10,1], [4,10,1], [5,10,1],
   [6,10,1], [7,10,1], [8,10,1], [9,10,1], [10,10,1], [0,0,2], [1,0,2], [2,0,2], [3,0,2], [4,0,2], [5,0,2],
   [6,0,2], [7,0,2], [8,0,2], [9,0,2], [10,0,2], [0,1,2], [1,1,2], [2,1,2]]"

definition BASE12_POS0 :: "nat list list" where
  "BASE12_POS0 = [
   [0,0,0], [1,0,0], [2,0,0], [3,0,0], [4,0,0], [5,0,0], [6,0,0], [7,0,0], [8,0,0], [9,0,0], [10,0,0], [11,0,0],
   [0,1,0], [1,1,0], [2,1,0], [3,1,0], [4,1,0], [5,1,0], [6,1,0], [7,1,0], [8,1,0], [9,1,0], [10,1,0], [11,1,0],
   [0,2,0], [1,2,0], [2,2,0], [3,2,0], [4,2,0], [5,2,0], [6,2,0], [7,2,0], [8,2,0], [9,2,0], [10,2,0], [11,2,0],
   [0,3,0], [1,3,0], [2,3,0], [3,3,0], [4,3,0], [5,3,0], [6,3,0], [7,3,0], [8,3,0], [9,3,0], [10,3,0], [11,3,0],
   [0,4,0], [1,4,0], [2,4,0], [3,4,0], [4,4,0], [5,4,0], [6,4,0], [7,4,0], [8,4,0], [9,4,0], [10,4,0], [11,4,0],
   [0,5,0], [1,5,0], [2,5,0], [3,5,0], [4,5,0], [5,5,0], [6,5,0], [7,5,0], [8,5,0], [9,5,0], [10,5,0], [11,5,0],
   [0,6,0], [1,6,0], [2,6,0], [3,6,0], [4,6,0], [5,6,0], [6,6,0], [7,6,0], [8,6,0], [9,6,0], [10,6,0], [11,6,0],
   [0,7,0], [1,7,0], [2,7,0], [3,7,0], [4,7,0], [5,7,0], [6,7,0], [7,7,0], [8,7,0], [9,7,0], [10,7,0], [11,7,0],
   [0,8,0], [1,8,0], [2,8,0], [3,8,0], [4,8,0], [5,8,0], [6,8,0], [7,8,0], [8,8,0], [9,8,0], [10,8,0], [11,8,0],
   [0,9,0], [1,9,0], [2,9,0], [3,9,0], [4,9,0], [5,9,0], [6,9,0], [7,9,0], [8,9,0], [9,9,0], [10,9,0], [11,9,0],
   [0,10,0], [1,10,0], [2,10,0], [3,10,0], [4,10,0], [5,10,0], [6,10,0], [7,10,0], [8,10,0], [9,10,0], [10,10,0],
   [11,10,0], [0,11,0], [1,11,0], [2,11,0], [3,11,0], [4,11,0], [5,11,0], [6,11,0], [7,11,0], [8,11,0],
   [9,11,0], [10,11,0], [11,11,0], [0,0,1], [1,0,1], [2,0,1], [3,0,1], [4,0,1], [5,0,1], [6,0,1], [7,0,1],
   [8,0,1], [9,0,1], [10,0,1], [11,0,1], [0,1,1], [1,1,1], [2,1,1], [3,1,1], [4,1,1], [5,1,1], [6,1,1],
   [7,1,1], [8,1,1], [9,1,1], [10,1,1], [11,1,1], [0,2,1], [1,2,1], [2,2,1], [3,2,1], [4,2,1], [5,2,1],
   [6,2,1], [7,2,1], [8,2,1], [9,2,1], [10,2,1], [11,2,1], [0,3,1], [1,3,1], [2,3,1], [3,3,1], [4,3,1],
   [5,3,1], [6,3,1], [7,3,1], [8,3,1], [9,3,1], [10,3,1], [11,3,1], [0,4,1], [1,4,1], [2,4,1], [3,4,1],
   [4,4,1], [5,4,1], [6,4,1], [7,4,1], [8,4,1], [9,4,1], [10,4,1], [11,4,1], [0,5,1], [1,5,1], [2,5,1],
   [3,5,1], [4,5,1], [5,5,1], [6,5,1], [7,5,1], [8,5,1], [9,5,1], [10,5,1], [11,5,1], [0,6,1], [1,6,1],
   [2,6,1], [3,6,1], [4,6,1], [5,6,1], [6,6,1], [7,6,1], [8,6,1], [9,6,1], [10,6,1], [11,6,1], [0,7,1],
   [1,7,1], [2,7,1], [3,7,1], [4,7,1], [5,7,1], [6,7,1], [7,7,1], [8,7,1], [9,7,1], [10,7,1], [11,7,1],
   [0,8,1], [1,8,1], [2,8,1], [3,8,1], [4,8,1], [5,8,1], [6,8,1], [7,8,1], [8,8,1], [9,8,1], [10,8,1], [11,8,1],
   [0,9,1], [1,9,1], [2,9,1], [3,9,1]]"

definition BASE13_POS0 :: "nat list list" where
  "BASE13_POS0 = [
   [0,0,0], [1,0,0], [2,0,0], [3,0,0], [4,0,0], [5,0,0], [6,0,0], [7,0,0], [8,0,0], [9,0,0], [10,0,0], [11,0,0],
   [12,0,0], [0,1,0], [1,1,0], [2,1,0], [3,1,0], [4,1,0], [5,1,0], [6,1,0], [7,1,0], [8,1,0], [9,1,0], [10,1,0],
   [11,1,0], [12,1,0], [0,2,0], [1,2,0], [2,2,0], [3,2,0], [4,2,0], [5,2,0], [6,2,0], [7,2,0], [8,2,0],
   [9,2,0], [10,2,0], [11,2,0], [12,2,0], [0,3,0], [1,3,0], [2,3,0], [3,3,0], [4,3,0], [5,3,0], [6,3,0],
   [7,3,0], [8,3,0], [9,3,0], [10,3,0], [11,3,0], [12,3,0], [0,4,0], [1,4,0], [2,4,0], [3,4,0], [4,4,0],
   [5,4,0], [6,4,0], [7,4,0], [8,4,0], [9,4,0], [10,4,0], [11,4,0], [12,4,0], [0,5,0], [1,5,0], [2,5,0],
   [3,5,0], [4,5,0], [5,5,0], [6,5,0], [7,5,0], [8,5,0], [9,5,0], [10,5,0], [11,5,0], [12,5,0], [0,6,0],
   [1,6,0], [2,6,0], [3,6,0], [4,6,0], [5,6,0], [6,6,0], [7,6,0], [8,6,0], [9,6,0], [10,6,0], [11,6,0],
   [12,6,0], [0,7,0], [1,7,0], [2,7,0], [3,7,0], [4,7,0], [5,7,0], [6,7,0], [7,7,0], [8,7,0], [9,7,0], [10,7,0],
   [11,7,0], [12,7,0], [0,8,0], [1,8,0], [2,8,0], [3,8,0], [4,8,0], [5,8,0], [6,8,0], [7,8,0], [8,8,0],
   [9,8,0], [10,8,0], [11,8,0], [12,8,0], [0,9,0], [1,9,0], [2,9,0], [3,9,0], [4,9,0], [5,9,0], [6,9,0],
   [7,9,0], [8,9,0], [9,9,0], [10,9,0], [11,9,0], [12,9,0], [0,10,0], [1,10,0], [2,10,0], [3,10,0], [4,10,0],
   [5,10,0], [6,10,0], [7,10,0], [8,10,0], [9,10,0], [10,10,0], [11,10,0], [12,10,0], [0,11,0], [1,11,0],
   [2,11,0], [3,11,0], [4,11,0], [5,11,0], [6,11,0], [7,11,0], [8,11,0], [9,11,0], [10,11,0], [11,11,0],
   [12,11,0], [0,12,0], [1,12,0], [2,12,0], [3,12,0], [4,12,0], [5,12,0], [6,12,0], [7,12,0], [8,12,0],
   [9,12,0], [10,12,0], [11,12,0], [12,12,0], [0,0,1], [1,0,1], [2,0,1], [3,0,1], [4,0,1], [5,0,1], [6,0,1],
   [7,0,1], [8,0,1], [9,0,1], [10,0,1], [11,0,1], [12,0,1], [0,1,1], [1,1,1], [2,1,1], [3,1,1], [4,1,1],
   [5,1,1], [6,1,1], [7,1,1], [8,1,1], [9,1,1], [10,1,1], [11,1,1], [12,1,1], [0,2,1], [1,2,1], [2,2,1],
   [3,2,1], [4,2,1], [5,2,1], [6,2,1], [7,2,1], [8,2,1], [9,2,1], [10,2,1], [11,2,1], [12,2,1], [0,3,1],
   [1,3,1], [2,3,1], [3,3,1], [4,3,1], [5,3,1], [6,3,1], [7,3,1], [8,3,1], [9,3,1], [10,3,1], [11,3,1],
   [12,3,1], [0,4,1], [1,4,1], [2,4,1], [3,4,1], [4,4,1], [5,4,1], [6,4,1], [7,4,1], [8,4,1], [9,4,1], [10,4,1],
   [11,4,1], [12,4,1], [0,5,1], [1,5,1], [2,5,1], [3,5,1], [4,5,1], [5,5,1], [6,5,1], [7,5,1], [8,5,1],
   [9,5,1], [10,5,1], [11,5,1], [12,5,1], [0,6,1], [1,6,1], [2,6,1], [3,6,1], [4,6,1], [5,6,1], [6,6,1],
   [7,6,1], [8,6,1]]"

definition BASE14_POS0 :: "nat list list" where
  "BASE14_POS0 = [
   [0,0,0], [1,0,0], [2,0,0], [3,0,0], [4,0,0], [5,0,0], [6,0,0], [7,0,0], [8,0,0], [9,0,0], [10,0,0], [11,0,0],
   [12,0,0], [13,0,0], [0,1,0], [1,1,0], [2,1,0], [3,1,0], [4,1,0], [5,1,0], [6,1,0], [7,1,0], [8,1,0],
   [9,1,0], [10,1,0], [11,1,0], [12,1,0], [13,1,0], [0,2,0], [1,2,0], [2,2,0], [3,2,0], [4,2,0], [5,2,0],
   [6,2,0], [7,2,0], [8,2,0], [9,2,0], [10,2,0], [11,2,0], [12,2,0], [13,2,0], [0,3,0], [1,3,0], [2,3,0],
   [3,3,0], [4,3,0], [5,3,0], [6,3,0], [7,3,0], [8,3,0], [9,3,0], [10,3,0], [11,3,0], [12,3,0], [13,3,0],
   [0,4,0], [1,4,0], [2,4,0], [3,4,0], [4,4,0], [5,4,0], [6,4,0], [7,4,0], [8,4,0], [9,4,0], [10,4,0], [11,4,0],
   [12,4,0], [13,4,0], [0,5,0], [1,5,0], [2,5,0], [3,5,0], [4,5,0], [5,5,0], [6,5,0], [7,5,0], [8,5,0],
   [9,5,0], [10,5,0], [11,5,0], [12,5,0], [13,5,0], [0,6,0], [1,6,0], [2,6,0], [3,6,0], [4,6,0], [5,6,0],
   [6,6,0], [7,6,0], [8,6,0], [9,6,0], [10,6,0], [11,6,0], [12,6,0], [13,6,0], [0,7,0], [1,7,0], [2,7,0],
   [3,7,0], [4,7,0], [5,7,0], [6,7,0], [7,7,0], [8,7,0], [9,7,0], [10,7,0], [11,7,0], [12,7,0], [13,7,0],
   [0,8,0], [1,8,0], [2,8,0], [3,8,0], [4,8,0], [5,8,0], [6,8,0], [7,8,0], [8,8,0], [9,8,0], [10,8,0], [11,8,0],
   [12,8,0], [13,8,0], [0,9,0], [1,9,0], [2,9,0], [3,9,0], [4,9,0], [5,9,0], [6,9,0], [7,9,0], [8,9,0],
   [9,9,0], [10,9,0], [11,9,0], [12,9,0], [13,9,0], [0,10,0], [1,10,0], [2,10,0], [3,10,0], [4,10,0], [5,10,0],
   [6,10,0], [7,10,0], [8,10,0], [9,10,0], [10,10,0], [11,10,0], [12,10,0], [13,10,0], [0,11,0], [1,11,0],
   [2,11,0], [3,11,0], [4,11,0], [5,11,0], [6,11,0], [7,11,0], [8,11,0], [9,11,0], [10,11,0], [11,11,0],
   [12,11,0], [13,11,0], [0,12,0], [1,12,0], [2,12,0], [3,12,0], [4,12,0], [5,12,0], [6,12,0], [7,12,0],
   [8,12,0], [9,12,0], [10,12,0], [11,12,0], [12,12,0], [13,12,0], [0,13,0], [1,13,0], [2,13,0], [3,13,0],
   [4,13,0], [5,13,0], [6,13,0], [7,13,0], [8,13,0], [9,13,0], [10,13,0], [11,13,0], [12,13,0], [13,13,0],
   [0,0,1], [1,0,1], [2,0,1], [3,0,1], [4,0,1], [5,0,1], [6,0,1], [7,0,1], [8,0,1], [9,0,1], [10,0,1], [11,0,1],
   [12,0,1], [13,0,1], [0,1,1], [1,1,1], [2,1,1], [3,1,1], [4,1,1], [5,1,1], [6,1,1], [7,1,1], [8,1,1],
   [9,1,1], [10,1,1], [11,1,1], [12,1,1], [13,1,1], [0,2,1], [1,2,1], [2,2,1], [3,2,1], [4,2,1], [5,2,1],
   [6,2,1], [7,2,1], [8,2,1], [9,2,1], [10,2,1], [11,2,1], [12,2,1], [13,2,1], [0,3,1], [1,3,1], [2,3,1],
   [3,3,1], [4,3,1], [5,3,1], [6,3,1], [7,3,1], [8,3,1], [9,3,1], [10,3,1], [11,3,1], [12,3,1], [13,3,1],
   [0,4,1], [1,4,1], [2,4,1], [3,4,1]]"

definition BASE15_POS0 :: "nat list list" where
  "BASE15_POS0 = [
   [0,0,0], [1,0,0], [2,0,0], [3,0,0], [4,0,0], [5,0,0], [6,0,0], [7,0,0], [8,0,0], [9,0,0], [10,0,0], [11,0,0],
   [12,0,0], [13,0,0], [14,0,0], [0,1,0], [1,1,0], [2,1,0], [3,1,0], [4,1,0], [5,1,0], [6,1,0], [7,1,0],
   [8,1,0], [9,1,0], [10,1,0], [11,1,0], [12,1,0], [13,1,0], [14,1,0], [0,2,0], [1,2,0], [2,2,0], [3,2,0],
   [4,2,0], [5,2,0], [6,2,0], [7,2,0], [8,2,0], [9,2,0], [10,2,0], [11,2,0], [12,2,0], [13,2,0], [14,2,0],
   [0,3,0], [1,3,0], [2,3,0], [3,3,0], [4,3,0], [5,3,0], [6,3,0], [7,3,0], [8,3,0], [9,3,0], [10,3,0], [11,3,0],
   [12,3,0], [13,3,0], [14,3,0], [0,4,0], [1,4,0], [2,4,0], [3,4,0], [4,4,0], [5,4,0], [6,4,0], [7,4,0],
   [8,4,0], [9,4,0], [10,4,0], [11,4,0], [12,4,0], [13,4,0], [14,4,0], [0,5,0], [1,5,0], [2,5,0], [3,5,0],
   [4,5,0], [5,5,0], [6,5,0], [7,5,0], [8,5,0], [9,5,0], [10,5,0], [11,5,0], [12,5,0], [13,5,0], [14,5,0],
   [0,6,0], [1,6,0], [2,6,0], [3,6,0], [4,6,0], [5,6,0], [6,6,0], [7,6,0], [8,6,0], [9,6,0], [10,6,0], [11,6,0],
   [12,6,0], [13,6,0], [14,6,0], [0,7,0], [1,7,0], [2,7,0], [3,7,0], [4,7,0], [5,7,0], [6,7,0], [7,7,0],
   [8,7,0], [9,7,0], [10,7,0], [11,7,0], [12,7,0], [13,7,0], [14,7,0], [0,8,0], [1,8,0], [2,8,0], [3,8,0],
   [4,8,0], [5,8,0], [6,8,0], [7,8,0], [8,8,0], [9,8,0], [10,8,0], [11,8,0], [12,8,0], [13,8,0], [14,8,0],
   [0,9,0], [1,9,0], [2,9,0], [3,9,0], [4,9,0], [5,9,0], [6,9,0], [7,9,0], [8,9,0], [9,9,0], [10,9,0], [11,9,0],
   [12,9,0], [13,9,0], [14,9,0], [0,10,0], [1,10,0], [2,10,0], [3,10,0], [4,10,0], [5,10,0], [6,10,0], [7,10,0],
   [8,10,0], [9,10,0], [10,10,0], [11,10,0], [12,10,0], [13,10,0], [14,10,0], [0,11,0], [1,11,0], [2,11,0],
   [3,11,0], [4,11,0], [5,11,0], [6,11,0], [7,11,0], [8,11,0], [9,11,0], [10,11,0], [11,11,0], [12,11,0],
   [13,11,0], [14,11,0], [0,12,0], [1,12,0], [2,12,0], [3,12,0], [4,12,0], [5,12,0], [6,12,0], [7,12,0],
   [8,12,0], [9,12,0], [10,12,0], [11,12,0], [12,12,0], [13,12,0], [14,12,0], [0,13,0], [1,13,0], [2,13,0],
   [3,13,0], [4,13,0], [5,13,0], [6,13,0], [7,13,0], [8,13,0], [9,13,0], [10,13,0], [11,13,0], [12,13,0],
   [13,13,0], [14,13,0], [0,14,0], [1,14,0], [2,14,0], [3,14,0], [4,14,0], [5,14,0], [6,14,0], [7,14,0],
   [8,14,0], [9,14,0], [10,14,0], [11,14,0], [12,14,0], [13,14,0], [14,14,0], [0,0,1], [1,0,1], [2,0,1],
   [3,0,1], [4,0,1], [5,0,1], [6,0,1], [7,0,1], [8,0,1], [9,0,1], [10,0,1], [11,0,1], [12,0,1], [13,0,1],
   [14,0,1], [0,1,1], [1,1,1], [2,1,1], [3,1,1], [4,1,1], [5,1,1], [6,1,1], [7,1,1], [8,1,1], [9,1,1], [10,1,1],
   [11,1,1], [12,1,1], [13,1,1], [14,1,1], [0,2,1]]"

definition BASE16_POS0 :: "nat list list" where
  "BASE16_POS0 = [
   [0,0], [1,0], [2,0], [3,0], [4,0], [5,0], [6,0], [7,0], [8,0], [9,0], [10,0], [11,0], [12,0], [13,0],
   [14,0], [15,0], [0,1], [1,1], [2,1], [3,1], [4,1], [5,1], [6,1], [7,1], [8,1], [9,1], [10,1], [11,1],
   [12,1], [13,1], [14,1], [15,1], [0,2], [1,2], [2,2], [3,2], [4,2], [5,2], [6,2], [7,2], [8,2], [9,2],
   [10,2], [11,2], [12,2], [13,2], [14,2], [15,2], [0,3], [1,3], [2,3], [3,3], [4,3], [5,3], [6,3], [7,3],
   [8,3], [9,3], [10,3], [11,3], [12,3], [13,3], [14,3], [15,3], [0,4], [1,4], [2,4], [3,4], [4,4], [5,4],
   [6,4], [7,4], [8,4], [9,4], [10,4], [11,4], [12,4], [13,4], [14,4], [15,4], [0,5], [1,5], [2,5], [3,5],
   [4,5], [5,5], [6,5], [7,5], [8,5], [9,5], [10,5], [11,5], [12,5], [13,5], [14,5], [15,5], [0,6], [1,6],
   [2,6], [3,6], [4,6], [5,6], [6,6], [7,6], [8,6], [9,6], [10,6], [11,6], [12,6], [13,6], [14,6], [15,6],
   [0,7], [1,7], [2,7], [3,7], [4,7], [5,7], [6,7], [7,7], [8,7], [9,7], [10,7], [11,7], [12,7], [13,7],
   [14,7], [15,7], [0,8], [1,8], [2,8], [3,8], [4,8], [5,8], [6,8], [7,8], [8,8], [9,8], [10,8], [11,8],
   [12,8], [13,8], [14,8], [15,8], [0,9], [1,9], [2,9], [3,9], [4,9], [5,9], [6,9], [7,9], [8,9], [9,9],
   [10,9], [11,9], [12,9], [13,9], [14,9], [15,9], [0,10], [1,10], [2,10], [3,10], [4,10], [5,10], [6,10],
   [7,10], [8,10], [9,10], [10,10], [11,10], [12,10], [13,10], [14,10], [15,10], [0,11], [1,11], [2,11],
   [3,11], [4,11], [5,11], [6,11], [7,11], [8,11], [9,11], [10,11], [11,11], [12,11], [13,11], [14,11],
   [15,11], [0,12], [1,12], [2,12], [3,12], [4,12], [5,12], [6,12], [7,12], [8,12], [9,12], [10,12], [11,12],
   [12,12], [13,12], [14,12], [15,12], [0,13], [1,13], [2,13], [3,13], [4,13], [5,13], [6,13], [7,13], [8,13],
   [9,13], [10,13], [11,13], [12,13], [13,13], [14,13], [15,13], [0,14], [1,14], [2,14], [3,14], [4,14],
   [5,14], [6,14], [7,14], [8,14], [9,14], [10,14], [11,14], [12,14], [13,14], [14,14], [15,14], [0,15],
   [1,15], [2,15], [3,15], [4,15], [5,15], [6,15], [7,15], [8,15], [9,15], [10,15], [11,15], [12,15], [13,15],
   [14,15], [15,15]]"

definition BASE17_POS0 :: "nat list list" where
  "BASE17_POS0 = [
   [0,0], [1,0], [2,0], [3,0], [4,0], [5,0], [6,0], [7,0], [8,0], [9,0], [10,0], [11,0], [12,0], [13,0],
   [14,0], [15,0], [16,0], [0,1], [1,1], [2,1], [3,1], [4,1], [5,1], [6,1], [7,1], [8,1], [9,1], [10,1],
   [11,1], [12,1], [13,1], [14,1], [15,1], [16,1], [0,2], [1,2], [2,2], [3,2], [4,2], [5,2], [6,2], [7,2],
   [8,2], [9,2], [10,2], [11,2], [12,2], [13,2], [14,2], [15,2], [16,2], [0,3], [1,3], [2,3], [3,3], [4,3],
   [5,3], [6,3], [7,3], [8,3], [9,3], [10,3], [11,3], [12,3], [13,3], [14,3], [15,3], [16,3], [0,4], [1,4],
   [2,4], [3,4], [4,4], [5,4], [6,4], [7,4], [8,4], [9,4], [10,4], [11,4], [12,4], [13,4], [14,4], [15,4],
   [16,4], [0,5], [1,5], [2,5], [3,5], [4,5], [5,5], [6,5], [7,5], [8,5], [9,5], [10,5], [11,5], [12,5],
   [13,5], [14,5], [15,5], [16,5], [0,6], [1,6], [2,6], [3,6], [4,6], [5,6], [6,6], [7,6], [8,6], [9,6],
   [10,6], [11,6], [12,6], [13,6], [14,6], [15,6], [16,6], [0,7], [1,7], [2,7], [3,7], [4,7], [5,7], [6,7],
   [7,7], [8,7], [9,7], [10,7], [11,7], [12,7], [13,7], [14,7], [15,7], [16,7], [0,8], [1,8], [2,8], [3,8],
   [4,8], [5,8], [6,8], [7,8], [8,8], [9,8], [10,8], [11,8], [12,8], [13,8], [14,8], [15,8], [16,8], [0,9],
   [1,9], [2,9], [3,9], [4,9], [5,9], [6,9], [7,9], [8,9], [9,9], [10,9], [11,9], [12,9], [13,9], [14,9],
   [15,9], [16,9], [0,10], [1,10], [2,10], [3,10], [4,10], [5,10], [6,10], [7,10], [8,10], [9,10], [10,10],
   [11,10], [12,10], [13,10], [14,10], [15,10], [16,10], [0,11], [1,11], [2,11], [3,11], [4,11], [5,11],
   [6,11], [7,11], [8,11], [9,11], [10,11], [11,11], [12,11], [13,11], [14,11], [15,11], [16,11], [0,12],
   [1,12], [2,12], [3,12], [4,12], [5,12], [6,12], [7,12], [8,12], [9,12], [10,12], [11,12], [12,12], [13,12],
   [14,12], [15,12], [16,12], [0,13], [1,13], [2,13], [3,13], [4,13], [5,13], [6,13], [7,13], [8,13], [9,13],
   [10,13], [11,13], [12,13], [13,13], [14,13], [15,13], [16,13], [0,14], [1,14], [2,14], [3,14], [4,14],
   [5,14], [6,14], [7,14], [8,14], [9,14], [10,14], [11,14], [12,14], [13,14], [14,14], [15,14], [16,14],
   [0,15]]"

definition BASE18_POS0 :: "nat list list" where
  "BASE18_POS0 = [
   [0,0], [1,0], [2,0], [3,0], [4,0], [5,0], [6,0], [7,0], [8,0], [9,0], [10,0], [11,0], [12,0], [13,0],
   [14,0], [15,0], [16,0], [17,0], [0,1], [1,1], [2,1], [3,1], [4,1], [5,1], [6,1], [7,1], [8,1], [9,1],
   [10,1], [11,1], [12,1], [13,1], [14,1], [15,1], [16,1], [17,1], [0,2], [1,2], [2,2], [3,2], [4,2], [5,2],
   [6,2], [7,2], [8,2], [9,2], [10,2], [11,2], [12,2], [13,2], [14,2], [15,2], [16,2], [17,2], [0,3], [1,3],
   [2,3], [3,3], [4,3], [5,3], [6,3], [7,3], [8,3], [9,3], [10,3], [11,3], [12,3], [13,3], [14,3], [15,3],
   [16,3], [17,3], [0,4], [1,4], [2,4], [3,4], [4,4], [5,4], [6,4], [7,4], [8,4], [9,4], [10,4], [11,4],
   [12,4], [13,4], [14,4], [15,4], [16,4], [17,4], [0,5], [1,5], [2,5], [3,5], [4,5], [5,5], [6,5], [7,5],
   [8,5], [9,5], [10,5], [11,5], [12,5], [13,5], [14,5], [15,5], [16,5], [17,5], [0,6], [1,6], [2,6], [3,6],
   [4,6], [5,6], [6,6], [7,6], [8,6], [9,6], [10,6], [11,6], [12,6], [13,6], [14,6], [15,6], [16,6], [17,6],
   [0,7], [1,7], [2,7], [3,7], [4,7], [5,7], [6,7], [7,7], [8,7], [9,7], [10,7], [11,7], [12,7], [13,7],
   [14,7], [15,7], [16,7], [17,7], [0,8], [1,8], [2,8], [3,8], [4,8], [5,8], [6,8], [7,8], [8,8], [9,8],
   [10,8], [11,8], [12,8], [13,8], [14,8], [15,8], [16,8], [17,8], [0,9], [1,9], [2,9], [3,9], [4,9], [5,9],
   [6,9], [7,9], [8,9], [9,9], [10,9], [11,9], [12,9], [13,9], [14,9], [15,9], [16,9], [17,9], [0,10], [1,10],
   [2,10], [3,10], [4,10], [5,10], [6,10], [7,10], [8,10], [9,10], [10,10], [11,10], [12,10], [13,10], [14,10],
   [15,10], [16,10], [17,10], [0,11], [1,11], [2,11], [3,11], [4,11], [5,11], [6,11], [7,11], [8,11], [9,11],
   [10,11], [11,11], [12,11], [13,11], [14,11], [15,11], [16,11], [17,11], [0,12], [1,12], [2,12], [3,12],
   [4,12], [5,12], [6,12], [7,12], [8,12], [9,12], [10,12], [11,12], [12,12], [13,12], [14,12], [15,12],
   [16,12], [17,12], [0,13], [1,13], [2,13], [3,13], [4,13], [5,13], [6,13], [7,13], [8,13], [9,13], [10,13],
   [11,13], [12,13], [13,13], [14,13], [15,13], [16,13], [17,13], [0,14], [1,14], [2,14], [3,14]]"

definition BASE19_POS0 :: "nat list list" where
  "BASE19_POS0 = [
   [0,0], [1,0], [2,0], [3,0], [4,0], [5,0], [6,0], [7,0], [8,0], [9,0], [10,0], [11,0], [12,0], [13,0],
   [14,0], [15,0], [16,0], [17,0], [18,0], [0,1], [1,1], [2,1], [3,1], [4,1], [5,1], [6,1], [7,1], [8,1],
   [9,1], [10,1], [11,1], [12,1], [13,1], [14,1], [15,1], [16,1], [17,1], [18,1], [0,2], [1,2], [2,2], [3,2],
   [4,2], [5,2], [6,2], [7,2], [8,2], [9,2], [10,2], [11,2], [12,2], [13,2], [14,2], [15,2], [16,2], [17,2],
   [18,2], [0,3], [1,3], [2,3], [3,3], [4,3], [5,3], [6,3], [7,3], [8,3], [9,3], [10,3], [11,3], [12,3],
   [13,3], [14,3], [15,3], [16,3], [17,3], [18,3], [0,4], [1,4], [2,4], [3,4], [4,4], [5,4], [6,4], [7,4],
   [8,4], [9,4], [10,4], [11,4], [12,4], [13,4], [14,4], [15,4], [16,4], [17,4], [18,4], [0,5], [1,5], [2,5],
   [3,5], [4,5], [5,5], [6,5], [7,5], [8,5], [9,5], [10,5], [11,5], [12,5], [13,5], [14,5], [15,5], [16,5],
   [17,5], [18,5], [0,6], [1,6], [2,6], [3,6], [4,6], [5,6], [6,6], [7,6], [8,6], [9,6], [10,6], [11,6],
   [12,6], [13,6], [14,6], [15,6], [16,6], [17,6], [18,6], [0,7], [1,7], [2,7], [3,7], [4,7], [5,7], [6,7],
   [7,7], [8,7], [9,7], [10,7], [11,7], [12,7], [13,7], [14,7], [15,7], [16,7], [17,7], [18,7], [0,8], [1,8],
   [2,8], [3,8], [4,8], [5,8], [6,8], [7,8], [8,8], [9,8], [10,8], [11,8], [12,8], [13,8], [14,8], [15,8],
   [16,8], [17,8], [18,8], [0,9], [1,9], [2,9], [3,9], [4,9], [5,9], [6,9], [7,9], [8,9], [9,9], [10,9],
   [11,9], [12,9], [13,9], [14,9], [15,9], [16,9], [17,9], [18,9], [0,10], [1,10], [2,10], [3,10], [4,10],
   [5,10], [6,10], [7,10], [8,10], [9,10], [10,10], [11,10], [12,10], [13,10], [14,10], [15,10], [16,10],
   [17,10], [18,10], [0,11], [1,11], [2,11], [3,11], [4,11], [5,11], [6,11], [7,11], [8,11], [9,11], [10,11],
   [11,11], [12,11], [13,11], [14,11], [15,11], [16,11], [17,11], [18,11], [0,12], [1,12], [2,12], [3,12],
   [4,12], [5,12], [6,12], [7,12], [8,12], [9,12], [10,12], [11,12], [12,12], [13,12], [14,12], [15,12],
   [16,12], [17,12], [18,12], [0,13], [1,13], [2,13], [3,13], [4,13], [5,13], [6,13], [7,13], [8,13]]"

lemma BASE5_POS0_ok: "table_ok 5 4 0 BASE5_POS0"
proof (rule table_okI)
  show "rows_step 5 [1, 0, 0, 0] BASE5_POS0"
    by (simp only: BASE5_POS0_def rows_step_eval cong: if_weak_cong)
  show "length BASE5_POS0 = 256"
    by (simp only: BASE5_POS0_def length_table_eval)
  show "hd BASE5_POS0 = [0, 0, 0, 0]"
    by (simp only: BASE5_POS0_def list.sel)
qed (simp_all add: digit_simps)

lemma BASE6_POS0_ok: "table_ok 6 4 0 BASE6_POS0"
proof (rule table_okI)
  show "rows_step 6 [1, 0, 0, 0] BASE6_POS0"
    by (simp only: BASE6_POS0_def rows_step_eval cong: if_weak_cong)
  show "length BASE6_POS0 = 256"
    by (simp only: BASE6_POS0_def length_table_eval)
  show "hd BASE6_POS0 = [0, 0, 0, 0]"
    by (simp only: BASE6_POS0_def list.sel)
qed (simp_all add: digit_simps)

lemma BASE7_POS0_ok: "table_ok 7 3 0 BASE7_POS0"
proof (rule table_okI)
  show "rows_step 7 [1, 0, 0] BASE7_POS0"
    by (simp only: BASE7_POS0_def rows_step_eval cong: if_weak_cong)
  show "length BASE7_POS0 = 256"
    by (simp only: BASE7_POS0_def length_table_eval)
  show "hd BASE7_POS0 = [0, 0, 0]"
    by (simp only: BASE7_POS0_def list.sel)
qed (simp_all add: digit_simps)

lemma BASE8_POS0_ok: "table_ok 8 3 0 BASE8_POS0"
proof (rule table_okI)
  show "rows_step 8 [1, 0, 0] BASE8_POS0"
    by (simp only: BASE8_POS0_def rows_step_eval cong: if_weak_cong)
  show "length BASE8_POS0 = 256"
    by (simp only: BASE8_POS0_def length_table_eval)
  show "hd BASE8_POS0 = [0, 0, 0]"
    by (simp only: BASE8_POS0_def list.sel)
qed (simp_all add: digit_simps)

lemma BASE9_POS0_ok: "table_ok 9 3 0 BASE9_POS0"
proof (rule table_okI)
  show "rows_step 9 [1, 0, 0] BASE9_POS0"
    by (simp only: BASE9_POS0_def rows_step_eval cong: if_weak_cong)
  show "length BASE9_POS0 = 256"
    by (simp only: BASE9_POS0_def length_table_eval)
  show "hd BASE9_POS0 = [0, 0, 0]"
    by (simp only: BASE9_POS0_def list.sel)
qed (simp_all add: digit_simps)

lemma BASE10_POS0_ok: "table_ok 10 3 0 BASE10_POS0"
proof (rule table_okI)
  show "rows_step 10 [1, 0, 0] BASE10_POS0"
    by (simp only: BASE10_POS0_def rows_step_eval cong: if_weak_cong)
  show "length BASE10_POS0 = 256"
    by (simp only: BASE10_POS0_def length_table_eval)
  show "hd BASE10_POS0 = [0, 0, 0]"
    by (simp only: BASE10_POS0_def list.sel)
qed (simp_all add: digit_simps)

lemma BASE11_POS0_ok: "table_ok 11 3 0 BASE11_POS0"
proof (rule table_okI)
  show "rows_step 11 [1, 0, 0] BASE11_POS0"
    by (simp only: BASE11_POS0_def rows_step_eval cong: if_weak_cong)
  show "length BASE11_POS0 = 256"
    by (simp only: BASE11_POS0_def length_table_eval)
  show "hd BASE11_POS0 = [0, 0, 0]"
    by (simp only: BASE11_POS0_def list.sel)
qed (simp_all add: digit_simps)

lemma BASE12_POS0_ok: "table_ok 12 3 0 BASE12_POS0"
proof (rule table_okI)
  show "rows_step 12 [1, 0, 0] BASE12_POS0"
    by (simp only: BASE12_POS0_def rows_step_eval cong: if_weak_cong)
  show "length BASE12_POS0 = 256"
    by (simp only: BASE12_POS0_def length_table_eval)
  show "hd BASE12_POS0 = [0, 0, 0]"
    by (simp only: BASE12_POS0_def list.sel)
qed (simp_all add: digit_simps)

lemma BASE13_POS0_ok: "table_ok 13 3 0 BASE13_POS0"
proof (rule table_okI)
  show "rows_step 13 [1, 0, 0] BASE13_POS0"
    by (simp only: BASE13_POS0_def rows_step_eval cong: if_weak_cong)
  show "length BASE13_POS0 = 256"
    by (simp only: BASE13_POS0_def length_table_eval)
  show "hd BASE13_POS0 = [0, 0, 0]"
    by (simp only: BASE13_POS0_def list.sel)
qed (simp_all add: digit_simps)

lemma BASE14_POS0_ok: "table_ok 14 3 0 BASE14_POS0"
proof (rule table_okI)
  show "rows_step 14 [1, 0, 0] BASE14_POS0"
    by (simp only: BASE14_POS0_def rows_step_eval cong: if_weak_cong)
  show "length BASE14_POS0 = 256"
    by (simp only: BASE14_POS0_def length_table_eval)
  show "hd BASE14_POS0 = [0, 0, 0]"
    by (simp only: BASE14_POS0_def list.sel)
qed (simp_all add: digit_simps)

lemma BASE15_POS0_ok: "table_ok 15 3 0 BASE15_POS0"
proof (rule table_okI)
  show "rows_step 15 [1, 0, 0] BASE15_POS0"
    by (simp only: BASE15_POS0_def rows_step_eval cong: if_weak_cong)
  show "length BASE15_POS0 = 256"
    by (simp only: BASE15_POS0_def length_table_eval)
  show "hd BASE15_POS0 = [0, 0, 0]"
    by (simp only: BASE15_POS0_def list.sel)
qed (simp_all add: digit_simps)

lemma BASE16_POS0_ok: "table_ok 16 2 0 BASE16_POS0"
proof (rule table_okI)
  show "rows_step 16 [1, 0] BASE16_POS0"
    by (simp only: BASE16_POS0_def rows_step_eval cong: if_weak_cong)
  show "length BASE16_POS0 = 256"
    by (simp only: BASE16_POS0_def length_table_eval)
  show "hd BASE16_POS0 = [0, 0]"
    by (simp only: BASE16_POS0_def list.sel)
qed (simp_all add: digit_simps)

lemma BASE17_POS0_ok: "table_ok 17 2 0 BASE17_POS0"
proof (rule table_okI)
  show "rows_step 17 [1, 0] BASE17_POS0"
    by (simp only: BASE17_POS0_def rows_step_eval cong: if_weak_cong)
  show "length BASE17_POS0 = 256"
    by (simp only: BASE17_POS0_def length_table_eval)
  show "hd BASE17_POS0 = [0, 0]"
    by (simp only: BASE17_POS0_def list.sel)
qed (simp_all add: digit_simps)

lemma BASE18_POS0_ok: "table_ok 18 2 0 BASE18_POS0"
proof (rule table_okI)
  show "rows_step 18 [1, 0] BASE18_POS0"
    by (simp only: BASE18_POS0_def rows_step_eval cong: if_weak_cong)
  show "length BASE18_POS0 = 256"
    by (simp only: BASE18_POS0_def length_table_eval)
  show "hd BASE18_POS0 = [0, 0]"
    by (simp only: BASE18_POS0_def list.sel)
qed (simp_all add: digit_simps)

lemma BASE19_POS0_ok: "table_ok 19 2 0 BASE19_POS0"
proof (rule table_okI)
  show "rows_step 19 [1, 0] BASE19_POS0"
    by (simp only: BASE19_POS0_def rows_step_eval cong: if_weak_cong)
  show "length BASE19_POS0 = 256"
    by (simp only: BASE19_POS0_def length_table_eval)
  show "hd BASE19_POS0 = [0, 0]"
    by (simp only: BASE19_POS0_def list.sel)
qed (simp_all add: digit_simps)

end
