(* ===== verification/Tables_POS0_B.thy ===== *)
theory Tables_POS0_B
  imports Digits
begin

text \<open>
  The tables \<open>BASE<q>_POS0\<close> of \<^verbatim>\<open>fancy-garbling/base_conversion/cbits/lookup_tables.c\<close> for the bases
  20 to 34: row \<open>x\<close> holds the digits of the byte \<open>x\<close>.
\<close>

definition BASE20_POS0 :: "nat list list" where
  "BASE20_POS0 = [
   [0,0], [1,0], [2,0], [3,0], [4,0], [5,0], [6,0], [7,0], [8,0], [9,0], [10,0], [11,0], [12,0], [13,0],
   [14,0], [15,0], [16,0], [17,0], [18,0], [19,0], [0,1], [1,1], [2,1], [3,1], [4,1], [5,1], [6,1], [7,1],
   [8,1], [9,1], [10,1], [11,1], [12,1], [13,1], [14,1], [15,1], [16,1], [17,1], [18,1], [19,1], [0,2],
   [1,2], [2,2], [3,2], [4,2], [5,2], [6,2], [7,2], [8,2], [9,2], [10,2], [11,2], [12,2], [13,2], [14,2],
   [15,2], [16,2], [17,2], [18,2], [19,2], [0,3], [1,3], [2,3], [3,3], [4,3], [5,3], [6,3], [7,3], [8,3],
   [9,3], [10,3], [11,3], [12,3], [13,3], [14,3], [15,3], [16,3], [17,3], [18,3], [19,3], [0,4], [1,4],
   [2,4], [3,4], [4,4], [5,4], [6,4], [7,4], [8,4], [9,4], [10,4], [11,4], [12,4], [13,4], [14,4], [15,4],
   [16,4], [17,4], [18,4], [19,4], [0,5], [1,5], [2,5], [3,5], [4,5], [5,5], [6,5], [7,5], [8,5], [9,5],
   [10,5], [11,5], [12,5], [13,5], [14,5], [15,5], [16,5], [17,5], [18,5], [19,5], [0,6], [1,6], [2,6],
   [3,6], [4,6], [5,6], [6,6], [7,6], [8,6], [9,6], [10,6], [11,6], [12,6], [13,6], [14,6], [15,6], [16,6],
   [17,6], [18,6], [19,6], [0,7], [1,7], [2,7], [3,7], [4,7], [5,7], [6,7], [7,7], [8,7], [9,7], [10,7],
   [11,7], [12,7], [13,7], [14,7], [15,7], [16,7], [17,7], [18,7], [19,7], [0,8], [1,8], [2,8], [3,8], [4,8],
   [5,8], [6,8], [7,8], [8,8], [9,8], [10,8], [11,8], [12,8], [13,8], [14,8], [15,8], [16,8], [17,8], [18,8],
   [19,8], [0,9], [1,9], [2,9], [3,9], [4,9], [5,9], [6,9], [7,9], [8,9], [9,9], [10,9], [11,9], [12,9],
   [13,9], [14,9], [15,9], [16,9], [17,9], [18,9], [19,9], [0,10], [1,10], [2,10], [3,10], [4,10], [5,10],
   [6,10], [7,10], [8,10], [9,10], [10,10], [11,10], [12,10], [13,10], [14,10], [15,10], [16,10], [17,10],
   [18,10], [19,10], [0,11], [1,11], [2,11], [3,11], [4,11], [5,11], [6,11], [7,11], [8,11], [9,11], [10,11],
   [11,11], [12,11], [13,11], [14,11], [15,11], [16,11], [17,11], [18,11], [19,11], [0,12], [1,12], [2,12],
   [3,12], [4,12], [5,12], [6,12], [7,12], [8,12], [9,12], [10,12], [11,12], [12,12], [13,12], [14,12],
   [15,12]]"

definition BASE21_POS0 :: "nat list list" where
  "BASE21_POS0 = [
   [0,0], [1,0], [2,0], [3,0], [4,0], [5,0], [6,0], [7,0], [8,0], [9,0], [10,0], [11,0], [12,0], [13,0],
   [14,0], [15,0], [16,0], [17,0], [18,0], [19,0], [20,0], [0,1], [1,1], [2,1], [3,1], [4,1], [5,1], [6,1],
   [7,1], [8,1], [9,1], [10,1], [11,1], [12,1], [13,1], [14,1], [15,1], [16,1], [17,1], [18,1], [19,1],
   [20,1], [0,2], [1,2], [2,2], [3,2], [4,2], [5,2], [6,2], [7,2], [8,2], [9,2], [10,2], [11,2], [12,2],
   [13,2], [14,2], [15,2], [16,2], [17,2], [18,2], [19,2], [20,2], [0,3], [1,3], [2,3], [3,3], [4,3], [5,3],
   [6,3], [7,3], [8,3], [9,3], [10,3], [11,3], [12,3], [13,3], [14,3], [15,3], [16,3], [17,3], [18,3], [19,3],
   [20,3], [0,4], [1,4], [2,4], [3,4], [4,4], [5,4], [6,4], [7,4], [8,4], [9,4], [10,4], [11,4], [12,4],
   [13,4], [14,4], [15,4], [16,4], [17,4], [18,4], [19,4], [20,4], [0,5], [1,5], [2,5], [3,5], [4,5], [5,5],
   [6,5], [7,5], [8,5], [9,5], [10,5], [11,5], [12,5], [13,5], [14,5], [15,5], [16,5], [17,5], [18,5], [19,5],
   [20,5], [0,6], [1,6], [2,6], [3,6], [4,6], [5,6], [6,6], [7,6], [8,6], [9,6], [10,6], [11,6], [12,6],
   [13,6], [14,6], [15,6], [16,6], [17,6], [18,6], [19,6], [20,6], [0,7], [1,7], [2,7], [3,7], [4,7], [5,7],
   [6,7], [7,7], [8,7], [9,7], [10,7], [11,7], [12,7], [13,7], [14,7], [15,7], [16,7], [17,7], [18,7], [19,7],
   [20,7], [0,8], [1,8], [2,8], [3,8], [4,8], [5,8], [6,8], [7,8], [8,8], [9,8], [10,8], [11,8], [12,8],
   [13,8], [14,8], [15,8], [16,8], [17,8], [18,8], [19,8], [20,8], [0,9], [1,9], [2,9], [3,9], [4,9], [5,9],
   [6,9], [7,9], [8,9], [9,9], [10,9], [11,9], [12,9], [13,9], [14,9], [15,9], [16,9], [17,9], [18,9], [19,9],
   [20,9], [0,10], [1,10], [2,10], [3,10], [4,10], [5,10], [6,10], [7,10], [8,10], [9,10], [10,10], [11,10],
   [12,10], [13,10], [14,10], [15,10], [16,10], [17,10], [18,10], [19,10], [20,10], [0,11], [1,11], [2,11],
   [3,11], [4,11], [5,11], [6,11], [7,11], [8,11], [9,11], [10,11], [11,11], [12,11], [13,11], [14,11],
   [15,11], [16,11], [17,11], [18,11], [19,11], [20,11], [0,12], [1,12], [2,12], [3,12]]"

definition BASE22_POS0 :: "nat list list" where
  "BASE22_POS0 = [
   [0,0], [1,0], [2,0], [3,0], [4,0], [5,0], [6,0], [7,0], [8,0], [9,0], [10,0], [11,0], [12,0], [13,0],
   [14,0], [15,0], [16,0], [17,0], [18,0], [19,0], [20,0], [21,0], [0,1], [1,1], [2,1], [3,1], [4,1], [5,1],
   [6,1], [7,1], [8,1], [9,1], [10,1], [11,1], [12,1], [13,1], [14,1], [15,1], [16,1], [17,1], [18,1], [19,1],
   [20,1], [21,1], [0,2], [1,2], [2,2], [3,2], [4,2], [5,2], [6,2], [7,2], [8,2], [9,2], [10,2], [11,2],
   [12,2], [13,2], [14,2], [15,2], [16,2], [17,2], [18,2], [19,2], [20,2], [21,2], [0,3], [1,3], [2,3],
   [3,3], [4,3], [5,3], [6,3], [7,3], [8,3], [9,3], [10,3], [11,3], [12,3], [13,3], [14,3], [15,3], [16,3],
   [17,3], [18,3], [19,3], [20,3], [21,3], [0,4], [1,4], [2,4], [3,4], [4,4], [5,4], [6,4], [7,4], [8,4],
   [9,4], [10,4], [11,4], [12,4], [13,4], [14,4], [15,4], [16,4], [17,4], [18,4], [19,4], [20,4], [21,4],
   [0,5], [1,5], [2,5], [3,5], [4,5], [5,5], [6,5], [7,5], [8,5], [9,5], [10,5], [11,5], [12,5], [13,5],
   [14,5], [15,5], [16,5], [17,5], [18,5], [19,5], [20,5], [21,5], [0,6], [1,6], [2,6], [3,6], [4,6], [5,6],
   [6,6], [7,6], [8,6], [9,6], [10,6], [11,6], [12,6], [13,6], [14,6], [15,6], [16,6], [17,6], [18,6], [19,6],
   [20,6], [21,6], [0,7], [1,7], [2,7], [3,7], [4,7], [5,7], [6,7], [7,7], [8,7], [9,7], [10,7], [11,7],
   [12,7], [13,7], [14,7], [15,7], [16,7], [17,7], [18,7], [19,7], [20,7], [21,7], [0,8], [1,8], [2,8],
   [3,8], [4,8], [5,8], [6,8], [7,8], [8,8], [9,8], [10,8], [11,8], [12,8], [13,8], [14,8], [15,8], [16,8],
   [17,8], [18,8], [19,8], [20,8], [21,8], [0,9], [1,9], [2,9], [3,9], [4,9], [5,9], [6,9], [7,9], [8,9],
   [9,9], [10,9], [11,9], [12,9], [13,9], [14,9], [15,9], [16,9], [17,9], [18,9], [19,9], [20,9], [21,9],
   [0,10], [1,10], [2,10], [3,10], [4,10], [5,10], [6,10], [7,10], [8,10], [9,10], [10,10], [11,10], [12,10],
   [13,10], [14,10], [15,10], [16,10], [17,10], [18,10], [19,10], [20,10], [21,10], [0,11], [1,11], [2,11],
   [3,11], [4,11], [5,11], [6,11], [7,11], [8,11], [9,11], [10,11], [11,11], [12,11], [13,11]]"

definition BASE23_POS0 :: "nat list list" where
  "BASE23_POS0 = [
   [0,0], [1,0], [2,0], [3,0], [4,0], [5,0], [6,0], [7,0], [8,0], [9,0], [10,0], [11,0], [12,0], [13,0],
   [14,0], [15,0], [16,0], [17,0], [18,0], [19,0], [20,0], [21,0], [22,0], [0,1], [1,1], [2,1], [3,1], [4,1],
   [5,1], [6,1], [7,1], [8,1], [9,1], [10,1], [11,1], [12,1], [13,1], [14,1], [15,1], [16,1], [17,1], [18,1],
   [19,1], [20,1], [21,1], [22,1], [0,2], [1,2], [2,2], [3,2], [4,2], [5,2], [6,2], [7,2], [8,2], [9,2],
   [10,2], [11,2], [12,2], [13,2], [14,2], [15,2], [16,2], [17,2], [18,2], [19,2], [20,2], [21,2], [22,2],
   [0,3], [1,3], [2,3], [3,3], [4,3], [5,3], [6,3], [7,3], [8,3], [9,3], [10,3], [11,3], [12,3], [13,3],
   [14,3], [15,3], [16,3], [17,3], [18,3], [19,3], [20,3], [21,3], [22,3], [0,4], [1,4], [2,4], [3,4], [4,4],
   [5,4], [6,4], [7,4], [8,4], [9,4], [10,4], [11,4], [12,4], [13,4], [14,4], [15,4], [16,4], [17,4], [18,4],
   [19,4], [20,4], [21,4], [22,4], [0,5], [1,5], [2,5], [3,5], [4,5], [5,5], [6,5], [7,5], [8,5], [9,5],
   [10,5], [11,5], [12,5], [13,5], [14,5], [15,5], [16,5], [17,5], [18,5], [19,5], [20,5], [21,5], [22,5],
   [0,6], [1,6], [2,6], [3,6], [4,6], [5,6], [6,6], [7,6], [8,6], [9,6], [10,6], [11,6], [12,6], [13,6],
   [14,6], [15,6], [16,6], [17,6], [18,6], [19,6], [20,6], [21,6], [22,6], [0,7], [1,7], [2,7], [3,7], [4,7],
   [5,7], [6,7], [7,7], [8,7], [9,7], [10,7], [11,7], [12,7], [13,7], [14,7], [15,7], [16,7], [17,7], [18,7],
   [19,7], [20,7], [21,7], [22,7], [0,8], [1,8], [2,8], [3,8], [4,8], [5,8], [6,8], [7,8], [8,8], [9,8],
   [10,8], [11,8], [12,8], [13,8], [14,8], [15,8], [16,8], [17,8], [18,8], [19,8], [20,8], [21,8], [22,8],
   [0,9], [1,9], [2,9], [3,9], [4,9], [5,9], [6,9], [7,9], [8,9], [9,9], [10,9], [11,9], [12,9], [13,9],
   [14,9], [15,9], [16,9], [17,9], [18,9], [19,9], [20,9], [21,9], [22,9], [0,10], [1,10], [2,10], [3,10],
   [4,10], [5,10], [6,10], [7,10], [8,10], [9,10], [10,10], [11,10], [12,10], [13,10], [14,10], [15,10],
   [16,10], [17,10], [18,10], [19,10], [20,10], [21,10], [22,10], [0,11], [1,11], [2,11]]"

definition BASE24_POS0 :: "nat list list" where
  "BASE24_POS0 = [
   [0,0], [1,0], [2,0], [3,0], [4,0], [5,0], [6,0], [7,0], [8,0], [9,0], [10,0], [11,0], [12,0], [13,0],
   [14,0], [15,0], [16,0], [17,0], [18,0], [19,0], [20,0], [21,0], [22,0], [23,0], [0,1], [1,1], [2,1],
   [3,1], [4,1], [5,1], [6,1], [7,1], [8,1], [9,1], [10,1], [11,1], [12,1], [13,1], [14,1], [15,1], [16,1],
   [17,1], [18,1], [19,1], [20,1], [21,1], [22,1], [23,1], [0,2], [1,2], [2,2], [3,2], [4,2], [5,2], [6,2],
   [7,2], [8,2], [9,2], [10,2], [11,2], [12,2], [13,2], [14,2], [15,2], [16,2], [17,2], [18,2], [19,2],
   [20,2], [21,2], [22,2], [23,2], [0,3], [1,3], [2,3], [3,3], [4,3], [5,3], [6,3], [7,3], [8,3], [9,3],
   [10,3], [11,3], [12,3], [13,3], [14,3], [15,3], [16,3], [17,3], [18,3], [19,3], [20,3], [21,3], [22,3],
   [23,3], [0,4], [1,4], [2,4], [3,4], [4,4], [5,4], [6,4], [7,4], [8,4], [9,4], [10,4], [11,4], [12,4],
   [13,4], [14,4], [15,4], [16,4], [17,4], [18,4], [19,4], [20,4], [21,4], [22,4], [23,4], [0,5], [1,5],
   [2,5], [3,5], [4,5], [5,5], [6,5], [7,5], [8,5], [9,5], [10,5], [11,5], [12,5], [13,5], [14,5], [15,5],
   [16,5], [17,5], [18,5], [19,5], [20,5], [21,5], [22,5], [23,5], [0,6], [1,6], [2,6], [3,6], [4,6], [5,6],
   [6,6], [7,6], [8,6], [9,6], [10,6], [11,6], [12,6], [13,6], [14,6], [15,6], [16,6], [17,6], [18,6], [19,6],
   [20,6], [21,6], [22,6], [23,6], [0,7], [1,7], [2,7], [3,7], [4,7], [5,7], [6,7], [7,7], [8,7], [9,7],
   [10,7], [11,7], [12,7], [13,7], [14,7], [15,7], [16,7], [17,7], [18,7], [19,7], [20,7], [21,7], [22,7],
   [23,7], [0,8], [1,8], [2,8], [3,8], [4,8], [5,8], [6,8], [7,8], [8,8], [9,8], [10,8], [11,8], [12,8],
   [13,8], [14,8], [15,8], [16,8], [17,8], [18,8], [19,8], [20,8], [21,8], [22,8], [23,8], [0,9], [1,9],
   [2,9], [3,9], [4,9], [5,9], [6,9], [7,9], [8,9], [9,9], [10,9], [11,9], [12,9], [13,9], [14,9], [15,9],
   [16,9], [17,9], [18,9], [19,9], [20,9], [21,9], [22,9], [23,9], [0,10], [1,10], [2,10], [3,10], [4,10],
   [5,10], [6,10], [7,10], [8,10], [9,10], [10,10], [11,10], [12,10], [13,10], [14,10], [15,10]]"

definition BASE25_POS0 :: "nat list list" where
  "BASE25_POS0 = [
   [0,0], [1,0], [2,0], [3,0], [4,0], [5,0], [6,0], [7,0], [8,0], [9,0], [10,0], [11,0], [12,0], [13,0],
   [14,0], [15,0], [16,0], [17,0], [18,0], [19,0], [20,0], [21,0], [22,0], [23,0], [24,0], [0,1], [1,1],
   [2,1], [3,1], [4,1], [5,1], [6,1], [7,1], [8,1], [9,1], [10,1], [11,1], [12,1], [13,1], [14,1], [15,1],
   [16,1], [17,1], [18,1], [19,1], [20,1], [21,1], [22,1], [23,1], [24,1], [0,2], [1,2], [2,2], [3,2], [4,2],
   [5,2], [6,2], [7,2], [8,2], [9,2], [10,2], [11,2], [12,2], [13,2], [14,2], [15,2], [16,2], [17,2], [18,2],
   [19,2], [20,2], [21,2], [22,2], [23,2], [24,2], [0,3], [1,3], [2,3], [3,3], [4,3], [5,3], [6,3], [7,3],
   [8,3], [9,3], [10,3], [11,3], [12,3], [13,3], [14,3], [15,3], [16,3], [17,3], [18,3], [19,3], [20,3],
   [21,3], [22,3], [23,3], [24,3], [0,4], [1,4], [2,4], [3,4], [4,4], [5,4], [6,4], [7,4], [8,4], [9,4],
   [10,4], [11,4], [12,4], [13,4], [14,4], [15,4], [16,4], [17,4], [18,4], [19,4], [20,4], [21,4], [22,4],
   [23,4], [24,4], [0,5], [1,5], [2,5], [3,5], [4,5], [5,5], [6,5], [7,5], [8,5], [9,5], [10,5], [11,5],
   [12,5], [13,5], [14,5], [15,5], [16,5], [17,5], [18,5], [19,5], [20,5], [21,5], [22,5], [23,5], [24,5],
   [0,6], [1,6], [2,6], [3,6], [4,6], [5,6], [6,6], [7,6], [8,6], [9,6], [10,6], [11,6], [12,6], [13,6],
   [14,6], [15,6], [16,6], [17,6], [18,6], [19,6], [20,6], [21,6], [22,6], [23,6], [24,6], [0,7], [1,7],
   [2,7], [3,7], [4,7], [5,7], [6,7], [7,7], [8,7], [9,7], [10,7], [11,7], [12,7], [13,7], [14,7], [15,7],
   [16,7], [17,7], [18,7], [19,7], [20,7], [21,7], [22,7], [23,7], [24,7], [0,8], [1,8], [2,8], [3,8], [4,8],
   [5,8], [6,8], [7,8], [8,8], [9,8], [10,8], [11,8], [12,8], [13,8], [14,8], [15,8], [16,8], [17,8], [18,8],
   [19,8], [20,8], [21,8], [22,8], [23,8], [24,8], [0,9], [1,9], [2,9], [3,9], [4,9], [5,9], [6,9], [7,9],
   [8,9], [9,9], [10,9], [11,9], [12,9], [13,9], [14,9], [15,9], [16,9], [17,9], [18,9], [19,9], [20,9],
   [21,9], [22,9], [23,9], [24,9], [0,10], [1,10], [2,10], [3,10], [4,10], [5,10]]"

definition BASE26_POS0 :: "nat list list" where
  "BASE26_POS0 = [
   [0,0], [1,0], [2,0], [3,0], [4,0], [5,0], [6,0], [7,0], [8,0], [9,0], [10,0], [11,0], [12,0], [13,0],
   [14,0], [15,0], [16,0], [17,0], [18,0], [19,0], [20,0], [21,0], [22,0], [23,0], [24,0], [25,0], [0,1],
   [1,1], [2,1], [3,1], [4,1], [5,1], [6,1], [7,1], [8,1], [9,1], [10,1], [11,1], [12,1], [13,1], [14,1],
   [15,1], [16,1], [17,1], [18,1], [19,1], [20,1], [21,1], [22,1], [23,1], [24,1], [25,1], [0,2], [1,2],
   [2,2], [3,2], [4,2], [5,2], [6,2], [7,2], [8,2], [9,2], [10,2], [11,2], [12,2], [13,2], [14,2], [15,2],
   [16,2], [17,2], [18,2], [19,2], [20,2], [21,2], [22,2], [23,2], [24,2], [25,2], [0,3], [1,3], [2,3],
   [3,3], [4,3], [5,3], [6,3], [7,3], [8,3], [9,3], [10,3], [11,3], [12,3], [13,3], [14,3], [15,3], [16,3],
   [17,3], [18,3], [19,3], [20,3], [21,3], [22,3], [23,3], [24,3], [25,3], [0,4], [1,4], [2,4], [3,4], [4,4],
   [5,4], [6,4], [7,4], [8,4], [9,4], [10,4], [11,4], [12,4], [13,4], [14,4], [15,4], [16,4], [17,4], [18,4],
   [19,4], [20,4], [21,4], [22,4], [23,4], [24,4], [25,4], [0,5], [1,5], [2,5], [3,5], [4,5], [5,5], [6,5],
   [7,5], [8,5], [9,5], [10,5], [11,5], [12,5], [13,5], [14,5], [15,5], [16,5], [17,5], [18,5], [19,5],
   [20,5], [21,5], [22,5], [23,5], [24,5], [25,5], [0,6], [1,6], [2,6], [3,6], [4,6], [5,6], [6,6], [7,6],
   [8,6], [9,6], [10,6], [11,6], [12,6], [13,6], [14,6], [15,6], [16,6], [17,6], [18,6], [19,6], [20,6],
   [21,6], [22,6], [23,6], [24,6], [25,6], [0,7], [1,7], [2,7], [3,7], [4,7], [5,7], [6,7], [7,7], [8,7],
   [9,7], [10,7], [11,7], [12,7], [13,7], [14,7], [15,7], [16,7], [17,7], [18,7], [19,7], [20,7], [21,7],
   [22,7], [23,7], [24,7], [25,7], [0,8], [1,8], [2,8], [3,8], [4,8], [5,8], [6,8], [7,8], [8,8], [9,8],
   [10,8], [11,8], [12,8], [13,8], [14,8], [15,8], [16,8], [17,8], [18,8], [19,8], [20,8], [21,8], [22,8],
   [23,8], [24,8], [25,8], [0,9], [1,9], [2,9], [3,9], [4,9], [5,9], [6,9], [7,9], [8,9], [9,9], [10,9],
   [11,9], [12,9], [13,9], [14,9], [15,9], [16,9], [17,9], [18,9], [19,9], [20,9], [21,9]]"

definition BASE27_POS0 :: "nat list list" where
  "BASE27_POS0 = [
   [0,0], [1,0], [2,0], [3,0], [4,0], [5,0], [6,0], [7,0], [8,0], [9,0], [10,0], [11,0], [12,0], [13,0],
   [14,0], [15,0], [16,0], [17,0], [18,0], [19,0], [20,0], [21,0], [22,0], [23,0], [24,0], [25,0], [26,0],
   [0,1], [1,1], [2,1], [3,1], [4,1], [5,1], [6,1], [7,1], [8,1], [9,1], [10,1], [11,1], [12,1], [13,1],
   [14,1], [15,1], [16,1], [17,1], [18,1], [19,1], [20,1], [21,1], [22,1], [23,1], [24,1], [25,1], [26,1],
   [0,2], [1,2], [2,2], [3,2], [4,2], [5,2], [6,2], [7,2], [8,2], [9,2], [10,2], [11,2], [12,2], [13,2],
   [14,2], [15,2], [16,2], [17,2], [18,2], [19,2], [20,2], [21,2], [22,2], [23,2], [24,2], [25,2], [26,2],
   [0,3], [1,3], [2,3], [3,3], [4,3], [5,3], [6,3], [7,3], [8,3], [9,3], [10,3], [11,3], [12,3], [13,3],
   [14,3], [15,3], [16,3], [17,3], [18,3], [19,3], [20,3], [21,3], [22,3], [23,3], [24,3], [25,3], [26,3],
   [0,4], [1,4], [2,4], [3,4], [4,4], [5,4], [6,4], [7,4], [8,4], [9,4], [10,4], [11,4], [12,4], [13,4],
   [14,4], [15,4], [16,4], [17,4], [18,4], [19,4], [20,4], [21,4], [22,4], [23,4], [24,4], [25,4], [26,4],
   [0,5], [1,5], [2,5], [3,5], [4,5], [5,5], [6,5], [7,5], [8,5], [9,5], [10,5], [11,5], [12,5], [13,5],
   [14,5], [15,5], [16,5], [17,5], [18,5], [19,5], [20,5], [21,5], [22,5], [23,5], [24,5], [25,5], [26,5],
   [0,6], [1,6], [2,6], [3,6], [4,6], [5,6], [6,6], [7,6], [8,6], [9,6], [10,6], [11,6], [12,6], [13,6],
   [14,6], [15,6], [16,6], [17,6], [18,6], [19,6], [20,6], [21,6], [22,6], [23,6], [24,6], [25,6], [26,6],
   [0,7], [1,7], [2,7], [3,7], [4,7], [5,7], [6,7], [7,7], [8,7], [9,7], [10,7], [11,7], [12,7], [13,7],
   [14,7], [15,7], [16,7], [17,7], [18,7], [19,7], [20,7], [21,7], [22,7], [23,7], [24,7], [25,7], [26,7],
   [0,8], [1,8], [2,8], [3,8], [4,8], [5,8], [6,8], [7,8], [8,8], [9,8], [10,8], [11,8], [12,8], [13,8],
   [14,8], [15,8], [16,8], [17,8], [18,8], [19,8], [20,8], [21,8], [22,8], [23,8], [24,8], [25,8], [26,8],
   [0,9], [1,9], [2,9], [3,9], [4,9], [5,9], [6,9], [7,9], [8,9], [9,9], [10,9], [11,9], [12,9]]"

definition BASE28_POS0 :: "nat list list" where
  "BASE28_POS0 = [
   [0,0], [1,0], [2,0], [3,0], [4,0], [5,0], [6,0], [7,0], [8,0], [9,0], [10,0], [11,0], [12,0], [13,0],
   [14,0], [15,0], [16,0], [17,0], [18,0], [19,0], [20,0], [21,0], [22,0], [23,0], [24,0], [25,0], [26,0],
   [27,0], [0,1], [1,1], [2,1], [3,1], [4,1], [5,1], [6,1], [7,1], [8,1], [9,1], [10,1], [11,1], [12,1],
   [13,1], [14,1], [15,1], [16,1], [17,1], [18,1], [19,1], [20,1], [21,1], [22,1], [23,1], [24,1], [25,1],
   [26,1], [27,1], [0,2], [1,2], [2,2], [3,2], [4,2], [5,2], [6,2], [7,2], [8,2], [9,2], [10,2], [11,2],
   [12,2], [13,2], [14,2], [15,2], [16,2], [17,2], [18,2], [19,2], [20,2], [21,2], [22,2], [23,2], [24,2],
   [25,2], [26,2], [27,2], [0,3], [1,3], [2,3], [3,3], [4,3], [5,3], [6,3], [7,3], [8,3], [9,3], [10,3],
   [11,3], [12,3], [13,3], [14,3], [15,3], [16,3], [17,3], [18,3], [19,3], [20,3], [21,3], [22,3], [23,3],
   [24,3], [25,3], [26,3], [27,3], [0,4], [1,4], [2,4], [3,4], [4,4], [5,4], [6,4], [7,4], [8,4], [9,4],
   [10,4], [11,4], [12,4], [13,4], [14,4], [15,4], [16,4], [17,4], [18,4], [19,4], [20,4], [21,4], [22,4],
   [23,4], [24,4], [25,4], [26,4], [27,4], [0,5], [1,5], [2,5], [3,5], [4,5], [5,5], [6,5], [7,5], [8,5],
   [9,5], [10,5], [11,5], [12,5], [13,5], [14,5], [15,5], [16,5], [17,5], [18,5], [19,5], [20,5], [21,5],
   [22,5], [23,5], [24,5], [25,5], [26,5], [27,5], [0,6], [1,6], [2,6], [3,6], [4,6], [5,6], [6,6], [7,6],
   [8,6], [9,6], [10,6], [11,6], [12,6], [13,6], [14,6], [15,6], [16,6], [17,6], [18,6], [19,6], [20,6],
   [21,6], [22,6], [23,6], [24,6], [25,6], [26,6], [27,6], [0,7], [1,7], [2,7], [3,7], [4,7], [5,7], [6,7],
   [7,7], [8,7], [9,7], [10,7], [11,7], [12,7], [13,7], [14,7], [15,7], [16,7], [17,7], [18,7], [19,7],
   [20,7], [21,7], [22,7], [23,7], [24,7], [25,7], [26,7], [27,7], [0,8], [1,8], [2,8], [3,8], [4,8], [5,8],
   [6,8], [7,8], [8,8], [9,8], [10,8], [11,8], [12,8], [13,8], [14,8], [15,8], [16,8], [17,8], [18,8], [19,8],
   [20,8], [21,8], [22,8], [23,8], [24,8], [25,8], [26,8], [27,8], [0,9], [1,9], [2,9], [3,9]]"

definition BASE29_POS0 :: "nat list list" where
  "BASE29_POS0 = [
   [0,0], [1,0], [2,0], [3,0], [4,0], [5,0], [6,0], [7,0], [8,0], [9,0], [10,0], [11,0], [12,0], [13,0],
   [14,0], [15,0], [16,0], [17,0], [18,0], [19,0], [20,0], [21,0], [22,0], [23,0], [24,0], [25,0], [26,0],
   [27,0], [28,0], [0,1], [1,1], [2,1], [3,1], [4,1], [5,1], [6,1], [7,1], [8,1], [9,1], [10,1], [11,1],
   [12,1], [13,1], [14,1], [15,1], [16,1], [17,1], [18,1], [19,1], [20,1], [21,1], [22,1], [23,1], [24,1],
   [25,1], [26,1], [27,1], [28,1], [0,2], [1,2], [2,2], [3,2], [4,2], [5,2], [6,2], [7,2], [8,2], [9,2],
   [10,2], [11,2], [12,2], [13,2], [14,2], [15,2], [16,2], [17,2], [18,2], [19,2], [20,2], [21,2], [22,2],
   [23,2], [24,2], [25,2], [26,2], [27,2], [28,2], [0,3], [1,3], [2,3], [3,3], [4,3], [5,3], [6,3], [7,3],
   [8,3], [9,3], [10,3], [11,3], [12,3], [13,3], [14,3], [15,3], [16,3], [17,3], [18,3], [19,3], [20,3],
   [21,3], [22,3], [23,3], [24,3], [25,3], [26,3], [27,3], [28,3], [0,4], [1,4], [2,4], [3,4], [4,4], [5,4],
   [6,4], [7,4], [8,4], [9,4], [10,4], [11,4], [12,4], [13,4], [14,4], [15,4], [16,4], [17,4], [18,4], [19,4],
   [20,4], [21,4], [22,4], [23,4], [24,4], [25,4], [26,4], [27,4], [28,4], [0,5], [1,5], [2,5], [3,5], [4,5],
   [5,5], [6,5], [7,5], [8,5], [9,5], [10,5], [11,5], [12,5], [13,5], [14,5], [15,5], [16,5], [17,5], [18,5],
   [19,5], [20,5], [21,5], [22,5], [23,5], [24,5], [25,5], [26,5], [27,5], [28,5], [0,6], [1,6], [2,6],
   [3,6], [4,6], [5,6], [6,6], [7,6], [8,6], [9,6], [10,6], [11,6], [12,6], [13,6], [14,6], [15,6], [16,6],
   [17,6], [18,6], [19,6], [20,6], [21,6], [22,6], [23,6], [24,6], [25,6], [26,6], [27,6], [28,6], [0,7],
   [1,7], [2,7], [3,7], [4,7], [5,7], [6,7], [7,7], [8,7], [9,7], [10,7], [11,7], [12,7], [13,7], [14,7],
   [15,7], [16,7], [17,7], [18,7], [19,7], [20,7], [21,7], [22,7], [23,7], [24,7], [25,7], [26,7], [27,7],
   [28,7], [0,8], [1,8], [2,8], [3,8], [4,8], [5,8], [6,8], [7,8], [8,8], [9,8], [10,8], [11,8], [12,8],
   [13,8], [14,8], [15,8], [16,8], [17,8], [18,8], [19,8], [20,8], [21,8], [22,8], [23,8]]"

definition BASE30_POS0 :: "nat list list" where
  "BASE30_POS0 = [
   [0,0], [1,0], [2,0], [3,0], [4,0], [5,0], [6,0], [7,0], [8,0], [9,0], [10,0], [11,0], [12,0], [13,0],
   [14,0], [15,0], [16,0], [17,0], [18,0], [19,0], [20,0], [21,0], [22,0], [23,0], [24,0], [25,0], [26,0],
   [27,0], [28,0], [29,0], [0,1], [1,1], [2,1], [3,1], [4,1], [5,1], [6,1], [7,1], [8,1], [9,1], [10,1],
   [11,1], [12,1], [13,1], [14,1], [15,1], [16,1], [17,1], [18,1], [19,1], [20,1], [21,1], [22,1], [23,1],
   [24,1], [25,1], [26,1], [27,1], [28,1], [29,1], [0,2], [1,2], [2,2], [3,2], [4,2], [5,2], [6,2], [7,2],
   [8,2], [9,2], [10,2], [11,2], [12,2], [13,2], [14,2], [15,2], [16,2], [17,2], [18,2], [19,2], [20,2],
   [21,2], [22,2], [23,2], [24,2], [25,2], [26,2], [27,2], [28,2], [29,2], [0,3], [1,3], [2,3], [3,3], [4,3],
   [5,3], [6,3], [7,3], [8,3], [9,3], [10,3], [11,3], [12,3], [13,3], [14,3], [15,3], [16,3], [17,3], [18,3],
   [19,3], [20,3], [21,3], [22,3], [23,3], [24,3], [25,3], [26,3], [27,3], [28,3], [29,3], [0,4], [1,4],
   [2,4], [3,4], [4,4], [5,4], [6,4], [7,4], [8,4], [9,4], [10,4], [11,4], [12,4], [13,4], [14,4], [15,4],
   [16,4], [17,4], [18,4], [19,4], [20,4], [21,4], [22,4], [23,4], [24,4], [25,4], [26,4], [27,4], [28,4],
   [29,4], [0,5], [1,5], [2,5], [3,5], [4,5], [5,5], [6,5], [7,5], [8,5], [9,5], [10,5], [11,5], [12,5],
   [13,5], [14,5], [15,5], [16,5], [17,5], [18,5], [19,5], [20,5], [21,5], [22,5], [23,5], [24,5], [25,5],
   [26,5], [27,5], [28,5], [29,5], [0,6], [1,6], [2,6], [3,6], [4,6], [5,6], [6,6], [7,6], [8,6], [9,6],
   [10,6], [11,6], [12,6], [13,6], [14,6], [15,6], [16,6], [17,6], [18,6], [19,6], [20,6], [21,6], [22,6],
   [23,6], [24,6], [25,6], [26,6], [27,6], [28,6], [29,6], [0,7], [1,7], [2,7], [3,7], [4,7], [5,7], [6,7],
   [7,7], [8,7], [9,7], [10,7], [11,7], [12,7], [13,7], [14,7], [15,7], [16,7], [17,7], [18,7], [19,7],
   [20,7], [21,7], [22,7], [23,7], [24,7], [25,7], [26,7], [27,7], [28,7], [29,7], [0,8], [1,8], [2,8],
   [3,8], [4,8], [5,8], [6,8], [7,8], [8,8], [9,8], [10,8], [11,8], [12,8], [13,8], [14,8], [15,8]]"

definition BASE31_POS0 :: "nat list list" where
  "BASE31_POS0 = [
   [0,0], [1,0], [2,0], [3,0], [4,0], [5,0], [6,0], [7,0], [8,0], [9,0], [10,0], [11,0], [12,0], [13,0],
   [14,0], [15,0], [16,0], [17,0], [18,0], [19,0], [20,0], [21,0], [22,0], [23,0], [24,0], [25,0], [26,0],
   [27,0], [28,0], [29,0], [30,0], [0,1], [1,1], [2,1], [3,1], [4,1], [5,1], [6,1], [7,1], [8,1], [9,1],
   [10,1], [11,1], [12,1], [13,1], [14,1], [15,1], [16,1], [17,1], [18,1], [19,1], [20,1], [21,1], [22,1],
   [23,1], [24,1], [25,1], [26,1], [27,1], [28,1], [29,1], [30,1], [0,2], [1,2], [2,2], [3,2], [4,2], [5,2],
   [6,2], [7,2], [8,2], [9,2], [10,2], [11,2], [12,2], [13,2], [14,2], [15,2], [16,2], [17,2], [18,2], [19,2],
   [20,2], [21,2], [22,2], [23,2], [24,2], [25,2], [26,2], [27,2], [28,2], [29,2], [30,2], [0,3], [1,3],
   [2,3], [3,3], [4,3], [5,3], [6,3], [7,3], [8,3], [9,3], [10,3], [11,3], [12,3], [13,3], [14,3], [15,3],
   [16,3], [17,3], [18,3], [19,3], [20,3], [21,3], [22,3], [23,3], [24,3], [25,3], [26,3], [27,3], [28,3],
   [29,3], [30,3], [0,4], [1,4], [2,4], [3,4], [4,4], [5,4], [6,4], [7,4], [8,4], [9,4], [10,4], [11,4],
   [12,4], [13,4], [14,4], [15,4], [16,4], [17,4], [18,4], [19,4], [20,4], [21,4], [22,4], [23,4], [24,4],
   [25,4], [26,4], [27,4], [28,4], [29,4], [30,4], [0,5], [1,5], [2,5], [3,5], [4,5], [5,5], [6,5], [7,5],
   [8,5], [9,5], [10,5], [11,5], [12,5], [13,5], [14,5], [15,5], [16,5], [17,5], [18,5], [19,5], [20,5],
   [21,5], [22,5], [23,5], [24,5], [25,5], [26,5], [27,5], [28,5], [29,5], [30,5], [0,6], [1,6], [2,6],
   [3,6], [4,6], [5,6], [6,6], [7,6], [8,6], [9,6], [10,6], [11,6], [12,6], [13,6], [14,6], [15,6], [16,6],
   [17,6], [18,6], [19,6], [20,6], [21,6], [22,6], [23,6], [24,6], [25,6], [26,6], [27,6], [28,6], [29,6],
   [30,6], [0,7], [1,7], [2,7], [3,7], [4,7], [5,7], [6,7], [7,7], [8,7], [9,7], [10,7], [11,7], [12,7],
   [13,7], [14,7], [15,7], [16,7], [17,7], [18,7], [19,7], [20,7], [21,7], [22,7], [23,7], [24,7], [25,7],
   [26,7], [27,7], [28,7], [29,7], [30,7], [0,8], [1,8], [2,8], [3,8], [4,8], [5,8], [6,8], [7,8]]"

definition BASE32_POS0 :: "nat list list" where
  "BASE32_POS0 = [
   [0,0], [1,0], [2,0], [3,0], [4,0], [5,0], [6,0], [7,0], [8,0], [9,0], [10,0], [11,0], [12,0], [13,0],
   [14,0], [15,0], [16,0], [17,0], [18,0], [19,0], [20,0], [21,0], [22,0], [23,0], [24,0], [25,0], [26,0],
   [27,0], [28,0], [29,0], [30,0], [31,0], [0,1], [1,1], [2,1], [3,1], [4,1], [5,1], [6,1], [7,1], [8,1],
   [9,1], [10,1], [11,1], [12,1], [13,1], [14,1], [15,1], [16,1], [17,1], [18,1], [19,1], [20,1], [21,1],
   [22,1], [23,1], [24,1], [25,1], [26,1], [27,1], [28,1], [29,1], [30,1], [31,1], [0,2], [1,2], [2,2],
   [3,2], [4,2], [5,2], [6,2], [7,2], [8,2], [9,2], [10,2], [11,2], [12,2], [13,2], [14,2], [15,2], [16,2],
   [17,2], [18,2], [19,2], [20,2], [21,2], [22,2], [23,2], [24,2], [25,2], [26,2], [27,2], [28,2], [29,2],
   [30,2], [31,2], [0,3], [1,3], [2,3], [3,3], [4,3], [5,3], [6,3], [7,3], [8,3], [9,3], [10,3], [11,3],
   [12,3], [13,3], [14,3], [15,3], [16,3], [17,3], [18,3], [19,3], [20,3], [21,3], [22,3], [23,3], [24,3],
   [25,3], [26,3], [27,3], [28,3], [29,3], [30,3], [31,3], [0,4], [1,4], [2,4], [3,4], [4,4], [5,4], [6,4],
   [7,4], [8,4], [9,4], [10,4], [11,4], [12,4], [13,4], [14,4], [15,4], [16,4], [17,4], [18,4], [19,4],
   [20,4], [21,4], [22,4], [23,4], [24,4], [25,4], [26,4], [27,4], [28,4], [29,4], [30,4], [31,4], [0,5],
   [1,5], [2,5], [3,5], [4,5], [5,5], [6,5], [7,5], [8,5], [9,5], [10,5], [11,5], [12,5], [13,5], [14,5],
   [15,5], [16,5], [17,5], [18,5], [19,5], [20,5], [21,5], [22,5], [23,5], [24,5], [25,5], [26,5], [27,5],
   [28,5], [29,5], [30,5], [31,5], [0,6], [1,6], [2,6], [3,6], [4,6], [5,6], [6,6], [7,6], [8,6], [9,6],
   [10,6], [11,6], [12,6], [13,6], [14,6], [15,6], [16,6], [17,6], [18,6], [19,6], [20,6], [21,6], [22,6],
   [23,6], [24,6], [25,6], [26,6], [27,6], [28,6], [29,6], [30,6], [31,6], [0,7], [1,7], [2,7], [3,7], [4,7],
   [5,7], [6,7], [7,7], [8,7], [9,7], [10,7], [11,7], [12,7], [13,7], [14,7], [15,7], [16,7], [17,7], [18,7],
   [19,7], [20,7], [21,7], [22,7], [23,7], [24,7], [25,7], [26,7], [27,7], [28,7], [29,7], [30,7], [31,7]]"

definition BASE33_POS0 :: "nat list list" where
  "BASE33_POS0 = [
   [0,0], [1,0], [2,0], [3,0], [4,0], [5,0], [6,0], [7,0], [8,0], [9,0], [10,0], [11,0], [12,0], [13,0],
   [14,0], [15,0], [16,0], [17,0], [18,0], [19,0], [20,0], [21,0], [22,0], [23,0], [24,0], [25,0], [26,0],
   [27,0], [28,0], [29,0], [30,0], [31,0], [32,0], [0,1], [1,1], [2,1], [3,1], [4,1], [5,1], [6,1], [7,1],
   [8,1], [9,1], [10,1], [11,1], [12,1], [13,1], [14,1], [15,1], [16,1], [17,1], [18,1], [19,1], [20,1],
   [21,1], [22,1], [23,1], [24,1], [25,1], [26,1], [27,1], [28,1], [29,1], [30,1], [31,1], [32,1], [0,2],
   [1,2], [2,2], [3,2], [4,2], [5,2], [6,2], [7,2], [8,2], [9,2], [10,2], [11,2], [12,2], [13,2], [14,2],
   [15,2], [16,2], [17,2], [18,2], [19,2], [20,2], [21,2], [22,2], [23,2], [24,2], [25,2], [26,2], [27,2],
   [28,2], [29,2], [30,2], [31,2], [32,2], [0,3], [1,3], [2,3], [3,3], [4,3], [5,3], [6,3], [7,3], [8,3],
   [9,3], [10,3], [11,3], [12,3], [13,3], [14,3], [15,3], [16,3], [17,3], [18,3], [19,3], [20,3], [21,3],
   [22,3], [23,3], [24,3], [25,3], [26,3], [27,3], [28,3], [29,3], [30,3], [31,3], [32,3], [0,4], [1,4],
   [2,4], [3,4], [4,4], [5,4], [6,4], [7,4], [8,4], [9,4], [10,4], [11,4], [12,4], [13,4], [14,4], [15,4],
   [16,4], [17,4], [18,4], [19,4], [20,4], [21,4], [22,4], [23,4], [24,4], [25,4], [26,4], [27,4], [28,4],
   [29,4], [30,4], [31,4], [32,4], [0,5], [1,5], [2,5], [3,5], [4,5], [5,5], [6,5], [7,5], [8,5], [9,5],
   [10,5], [11,5], [12,5], [13,5], [14,5], [15,5], [16,5], [17,5], [18,5], [19,5], [20,5], [21,5], [22,5],
   [23,5], [24,5], [25,5], [26,5], [27,5], [28,5], [29,5], [30,5], [31,5], [32,5], [0,6], [1,6], [2,6],
   [3,6], [4,6], [5,6], [6,6], [7,6], [8,6], [9,6], [10,6], [11,6], [12,6], [13,6], [14,6], [15,6], [16,6],
   [17,6], [18,6], [19,6], [20,6], [21,6], [22,6], [23,6], [24,6], [25,6], [26,6], [27,6], [28,6], [29,6],
   [30,6], [31,6], [32,6], [0,7], [1,7], [2,7], [3,7], [4,7], [5,7], [6,7], [7,7], [8,7], [9,7], [10,7],
   [11,7], [12,7], [13,7], [14,7], [15,7], [16,7], [17,7], [18,7], [19,7], [20,7], [21,7], [22,7], [23,7],
   [24,7]]"

definition BASE34_POS0 :: "nat list list" where
  "BASE34_POS0 = [
   [0,0], [1,0], [2,0], [3,0], [4,0], [5,0], [6,0], [7,0], [8,0], [9,0], [10,0], [11,0], [12,0], [13,0],
   [14,0], [15,0], [16,0], [17,0], [18,0], [19,0], [20,0], [21,0], [22,0], [23,0], [24,0], [25,0], [26,0],
   [27,0], [28,0], [29,0], [30,0], [31,0], [32,0], [33,0], [0,1], [1,1], [2,1], [3,1], [4,1], [5,1], [6,1],
   [7,1], [8,1], [9,1], [10,1], [11,1], [12,1], [13,1], [14,1], [15,1], [16,1], [17,1], [18,1], [19,1],
   [20,1], [21,1], [22,1], [23,1], [24,1], [25,1], [26,1], [27,1], [28,1], [29,1], [30,1], [31,1], [32,1],
   [33,1], [0,2], [1,2], [2,2], [3,2], [4,2], [5,2], [6,2], [7,2], [8,2], [9,2], [10,2], [11,2], [12,2],
   [13,2], [14,2], [15,2], [16,2], [17,2], [18,2], [19,2], [20,2], [21,2], [22,2], [23,2], [24,2], [25,2],
   [26,2], [27,2], [28,2], [29,2], [30,2], [31,2], [32,2], [33,2], [0,3], [1,3], [2,3], [3,3], [4,3], [5,3],
   [6,3], [7,3], [8,3], [9,3], [10,3], [11,3], [12,3], [13,3], [14,3], [15,3], [16,3], [17,3], [18,3], [19,3],
   [20,3], [21,3], [22,3], [23,3], [24,3], [25,3], [26,3], [27,3], [28,3], [29,3], [30,3], [31,3], [32,3],
   [33,3], [0,4], [1,4], [2,4], [3,4], [4,4], [5,4], [6,4], [7,4], [8,4], [9,4], [10,4], [11,4], [12,4],
   [13,4], [14,4], [15,4], [16,4], [17,4], [18,4], [19,4], [20,4], [21,4], [22,4], [23,4], [24,4], [25,4],
   [26,4], [27,4], [28,4], [29,4], [30,4], [31,4], [32,4], [33,4], [0,5], [1,5], [2,5], [3,5], [4,5], [5,5],
   [6,5], [7,5], [8,5], [9,5], [10,5], [11,5], [12,5], [13,5], [14,5], [15,5], [16,5], [17,5], [18,5], [19,5],
   [20,5], [21,5], [22,5], [23,5], [24,5], [25,5], [26,5], [27,5], [28,5], [29,5], [30,5], [31,5], [32,5],
   [33,5], [0,6], [1,6], [2,6], [3,6], [4,6], [5,6], [6,6], [7,6], [8,6], [9,6], [10,6], [11,6], [12,6],
   [13,6], [14,6], [15,6], [16,6], [17,6], [18,6], [19,6], [20,6], [21,6], [22,6], [23,6], [24,6], [25,6],
   [26,6], [27,6], [28,6], [29,6], [30,6], [31,6], [32,6], [33,6], [0,7], [1,7], [2,7], [3,7], [4,7], [5,7],
   [6,7], [7,7], [8,7], [9,7], [10,7], [11,7], [12,7], [13,7], [14,7], [15,7], [16,7], [17,7]]"

lemma BASE20_POS0_ok: "table_ok 20 2 0 BASE20_POS0"
proof (rule table_okI)
  show "rows_step 20 [1, 0] BASE20_POS0"
    by (simp only: BASE20_POS0_def rows_step_eval cong: if_weak_cong)
  show "length BASE20_POS0 = 256"
    by (simp only: BASE20_POS0_def length_table_eval)
  show "hd BASE20_POS0 = [0, 0]"
    by (simp only: BASE20_POS0_def list.sel)
qed (simp_all add: digit_simps)

lemma BASE21_POS0_ok: "table_ok 21 2 0 BASE21_POS0"
proof (rule table_okI)
  show "rows_step 21 [1, 0] BASE21_POS0"
    by (simp only: BASE21_POS0_def rows_step_eval cong: if_weak_cong)
  show "length BASE21_POS0 = 256"
    by (simp only: BASE21_POS0_def length_table_eval)
  show "hd BASE21_POS0 = [0, 0]"
    by (simp only: BASE21_POS0_def list.sel)
qed (simp_all add: digit_simps)

lemma BASE22_POS0_ok: "table_ok 22 2 0 BASE22_POS0"
proof (rule table_okI)
  show "rows_step 22 [1, 0] BASE22_POS0"
    by (simp only: BASE22_POS0_def rows_step_eval cong: if_weak_cong)
  show "length BASE22_POS0 = 256"
    by (simp only: BASE22_POS0_def length_table_eval)
  show "hd BASE22_POS0 = [0, 0]"
    by (simp only: BASE22_POS0_def list.sel)
qed (simp_all add: digit_simps)

lemma BASE23_POS0_ok: "table_ok 23 2 0 BASE23_POS0"
proof (rule table_okI)
  show "rows_step 23 [1, 0] BASE23_POS0"
    by (simp only: BASE23_POS0_def rows_step_eval cong: if_weak_cong)
  show "length BASE23_POS0 = 256"
    by (simp only: BASE23_POS0_def length_table_eval)
  show "hd BASE23_POS0 = [0, 0]"
    by (simp only: BASE23_POS0_def list.sel)
qed (simp_all add: digit_simps)

lemma BASE24_POS0_ok: "table_ok 24 2 0 BASE24_POS0"
proof (rule table_okI)
  show "rows_step 24 [1, 0] BASE24_POS0"
    by (simp only: BASE24_POS0_def rows_step_eval cong: if_weak_cong)
  show "length BASE24_POS0 = 256"
    by (simp only: BASE24_POS0_def length_table_eval)
  show "hd BASE24_POS0 = [0, 0]"
    by (simp only: BASE24_POS0_def list.sel)
qed (simp_all add: digit_simps)

lemma BASE25_POS0_ok: "table_ok 25 2 0 BASE25_POS0"
proof (rule table_okI)
  show "rows_step 25 [1, 0] BASE25_POS0"
    by (simp only: BASE25_POS0_def rows_step_eval cong: if_weak_cong)
  show "length BASE25_POS0 = 256"
    by (simp only: BASE25_POS0_def length_table_eval)
  show "hd BASE25_POS0 = [0, 0]"
    by (simp only: BASE25_POS0_def list.sel)
qed (simp_all add: digit_simps)

lemma BASE26_POS0_ok: "table_ok 26 2 0 BASE26_POS0"
proof (rule table_okI)
  show "rows_step 26 [1, 0] BASE26_POS0"
    by (simp only: BASE26_POS0_def rows_step_eval cong: if_weak_cong)
  show "length BASE26_POS0 = 256"
    by (simp only: BASE26_POS0_def length_table_eval)
  show "hd BASE26_POS0 = [0, 0]"
    by (simp only: BASE26_POS0_def list.sel)
qed (simp_all add: digit_simps)

lemma BASE27_POS0_ok: "table_ok 27 2 0 BASE27_POS0"
proof (rule table_okI)
  show "rows_step 27 [1, 0] BASE27_POS0"
    by (simp only: BASE27_POS0_def rows_step_eval cong: if_weak_cong)
  show "length BASE27_POS0 = 256"
    by (simp only: BASE27_POS0_def length_table_eval)
  show "hd BASE27_POS0 = [0, 0]"
    by (simp only: BASE27_POS0_def list.sel)
qed (simp_all add: digit_simps)

lemma BASE28_POS0_ok: "table_ok 28 2 0 BASE28_POS0"
proof (rule table_okI)
  show "rows_step 28 [1, 0] BASE28_POS0"
    by (simp only: BASE28_POS0_def rows_step_eval cong: if_weak_cong)
  show "length BASE28_POS0 = 256"
    by (simp only: BASE28_POS0_def length_table_eval)
  show "hd BASE28_POS0 = [0, 0]"
    by (simp only: BASE28_POS0_def list.sel)
qed (simp_all add: digit_simps)

lemma BASE29_POS0_ok: "table_ok 29 2 0 BASE29_POS0"
proof (rule table_okI)
  show "rows_step 29 [1, 0] BASE29_POS0"
    by (simp only: BASE29_POS0_def rows_step_eval cong: if_weak_cong)
  show "length BASE29_POS0 = 256"
    by (simp only: BASE29_POS0_def length_table_eval)
  show "hd BASE29_POS0 = [0, 0]"
    by (simp only: BASE29_POS0_def list.sel)
qed (simp_all add: digit_simps)

lemma BASE30_POS0_ok: "table_ok 30 2 0 BASE30_POS0"
proof (rule table_okI)
  show "rows_step 30 [1, 0] BASE30_POS0"
    by (simp only: BASE30_POS0_def rows_step_eval cong: if_weak_cong)
  show "length BASE30_POS0 = 256"
    by (simp only: BASE30_POS0_def length_table_eval)
  show "hd BASE30_POS0 = [0, 0]"
    by (simp only: BASE30_POS0_def list.sel)
qed (simp_all add: digit_simps)

lemma BASE31_POS0_ok: "table_ok 31 2 0 BASE31_POS0"
proof (rule table_okI)
  show "rows_step 31 [1, 0] BASE31_POS0"
    by (simp only: BASE31_POS0_def rows_step_eval cong: if_weak_cong)
  show "length BASE31_POS0 = 256"
    by (simp only: BASE31_POS0_def length_table_eval)
  show "hd BASE31_POS0 = [0, 0]"
    by (simp only: BASE31_POS0_def list.sel)
qed (simp_all add: digit_simps)

lemma BASE32_POS0_ok: "table_ok 32 2 0 BASE32_POS0"
proof (rule table_okI)
  show "rows_step 32 [1, 0] BASE32_POS0"
    by (simp only: BASE32_POS0_def rows_step_eval cong: if_weak_cong)
  show "length BASE32_POS0 = 256"
    by (simp only: BASE32_POS0_def length_table_eval)
  show "hd BASE32_POS0 = [0, 0]"
    by (simp only: BASE32_POS0_def list.sel)
qed (simp_all add: digit_simps)

lemma BASE33_POS0_ok: "table_ok 33 2 0 BASE33_POS0"
proof (rule table_okI)
  show "rows_step 33 [1, 0] BASE33_POS0"
    by (simp only: BASE33_POS0_def rows_step_eval cong: if_weak_cong)
  show "length BASE33_POS0 = 256"
    by (simp only: BASE33_POS0_def length_table_eval)
  show "hd BASE33_POS0 = [0, 0]"
    by (simp only: BASE33_POS0_def list.sel)
qed (simp_all add: digit_simps)

lemma BASE34_POS0_ok: "table_ok 34 2 0 BASE34_POS0"
proof (rule table_okI)
  show "rows_step 34 [1, 0] BASE34_POS0"
    by (simp only: BASE34_POS0_def rows_step_eval cong: if_weak_cong)
  show "length BASE34_POS0 = 256"
    by (simp only: BASE34_POS0_def length_table_eval)
  show "hd BASE34_POS0 = [0, 0]"
    by (simp only: BASE34_POS0_def list.sel)
qed (simp_all add: digit_simps)

end
