(* ===== verification/Tables_POS0_C.thy ===== *)
theory Tables_POS0_C
  imports Digits
begin

text \<open>
  The tables \<open>BASE<q>_POS0\<close> of \<^verbatim>\<open>fancy-garbling/base_conversion/cbits/lookup_tables.c\<close> for the bases
  35 to 49 other than 43 and 47, which are transcribed whole: row \<open>x\<close> holds the digits of the byte \<open>x\<close>.
\<close>

definition BASE35_POS0 :: "nat list list" where
  "BASE35_POS0 = [
   [0,0], [1,0], [2,0], [3,0], [4,0], [5,0], [6,0], [7,0], [8,0], [9,0], [10,0], [11,0], [12,0], [13,0],
   [14,0], [15,0], [16,0], [17,0], [18,0], [19,0], [20,0], [21,0], [22,0], [23,0], [24,0], [25,0], [26,0],
   [27,0], [28,0], [29,0], [30,0], [31,0], [32,0], [33,0], [34,0], [0,1], [1,1], [2,1], [3,1], [4,1], [5,1],
   [6,1], [7,1], [8,1], [9,1], [10,1], [11,1], [12,1], [13,1], [14,1], [15,1], [16,1], [17,1], [18,1], [19,1],
   [20,1], [21,1], [22,1], [23,1], [24,1], [25,1], [26,1], [27,1], [28,1], [29,1], [30,1], [31,1], [32,1],
   [33,1], [34,1], [0,2], [1,2], [2,2], [3,2], [4,2], [5,2], [6,2], [7,2], [8,2], [9,2], [10,2], [11,2],
   [12,2], [13,2], [14,2], [15,2], [16,2], [17,2], [18,2], [19,2], [20,2], [21,2], [22,2], [23,2], [24,2],
   [25,2], [26,2], [27,2], [28,2], [29,2], [30,2], [31,2], [32,2], [33,2], [34,2], [0,3], [1,3], [2,3],
   [3,3], [4,3], [5,3], [6,3], [7,3], [8,3], [9,3], [10,3], [11,3], [12,3], [13,3], [14,3], [15,3], [16,3],
   [17,3], [18,3], [19,3], [20,3], [21,3], [22,3], [23,3], [24,3], [25,3], [26,3], [27,3], [28,3], [29,3],
   [30,3], [31,3], [32,3], [33,3], [34,3], [0,4], [1,4], [2,4], [3,4], [4,4], [5,4], [6,4], [7,4], [8,4],
   [9,4], [10,4], [11,4], [12,4], [13,4], [14,4], [15,4], [16,4], [17,4], [18,4], [19,4], [20,4], [21,4],
   [22,4], [23,4], [24,4], [25,4], [26,4], [27,4], [28,4], [29,4], [30,4], [31,4], [32,4], [33,4], [34,4],
   [0,5], [1,5], [2,5], [3,5], [4,5], [5,5], [6,5], [7,5], [8,5], [9,5], [10,5], [11,5], [12,5], [13,5],
   [14,5], [15,5], [16,5], [17,5], [18,5], [19,5], [20,5], [21,5], [22,5], [23,5], [24,5], [25,5], [26,5],
   [27,5], [28,5], [29,5], [30,5], [31,5], [32,5], [33,5], [34,5], [0,6], [1,6], [2,6], [3,6], [4,6], [5,6],
   [6,6], [7,6], [8,6], [9,6], [10,6], [11,6], [12,6], [13,6], [14,6], [15,6], [16,6], [17,6], [18,6], [19,6],
   [20,6], [21,6], [22,6], [23,6], [24,6], [25,6], [26,6], [27,6], [28,6], [29,6], [30,6], [31,6], [32,6],
   [33,6], [34,6], [0,7], [1,7], [2,7], [3,7], [4,7], [5,7], [6,7], [7,7], [8,7], [9,7], [10,7]]"

definition BASE36_POS0 :: "nat list list" where
  "BASE36_POS0 = [
   [0,0], [1,0], [2,0], [3,0], [4,0], [5,0], [6,0], [7,0], [8,0], [9,0], [10,0], [11,0], [12,0], [13,0],
   [14,0], [15,0], [16,0], [17,0], [18,0], [19,0], [20,0], [21,0], [22,0], [23,0], [24,0], [25,0], [26,0],
   [27,0], [28,0], [29,0], [30,0], [31,0], [32,0], [33,0], [34,0], [35,0], [0,1], [1,1], [2,1], [3,1], [4,1],
   [5,1], [6,1], [7,1], [8,1], [9,1], [10,1], [11,1], [12,1], [13,1], [14,1], [15,1], [16,1], [17,1], [18,1],
   [19,1], [20,1], [21,1], [22,1], [23,1], [24,1], [25,1], [26,1], [27,1], [28,1], [29,1], [30,1], [31,1],
   [32,1], [33,1], [34,1], [35,1], [0,2], [1,2], [2,2], [3,2], [4,2], [5,2], [6,2], [7,2], [8,2], [9,2],
   [10,2], [11,2], [12,2], [13,2], [14,2], [15,2], [16,2], [17,2], [18,2], [19,2], [20,2], [21,2], [22,2],
   [23,2], [24,2], [25,2], [26,2], [27,2], [28,2], [29,2], [30,2], [31,2], [32,2], [33,2], [34,2], [35,2],
   [0,3], [1,3], [2,3], [3,3], [4,3], [5,3], [6,3], [7,3], [8,3], [9,3], [10,3], [11,3], [12,3], [13,3],
   [14,3], [15,3], [16,3], [17,3], [18,3], [19,3], [20,3], [21,3], [22,3], [23,3], [24,3], [25,3], [26,3],
   [27,3], [28,3], [29,3], [30,3], [31,3], [32,3], [33,3], [34,3], [35,3], [0,4], [1,4], [2,4], [3,4], [4,4],
   [5,4], [6,4], [7,4], [8,4], [9,4], [10,4], [11,4], [12,4], [13,4], [14,4], [15,4], [16,4], [17,4], [18,4],
   [19,4], [20,4], [21,4], [22,4], [23,4], [24,4], [25,4], [26,4], [27,4], [28,4], [29,4], [30,4], [31,4],
   [32,4], [33,4], [34,4], [35,4], [0,5], [1,5], [2,5], [3,5], [4,5], [5,5], [6,5], [7,5], [8,5], [9,5],
   [10,5], [11,5], [12,5], [13,5], [14,5], [15,5], [16,5], [17,5], [18,5], [19,5], [20,5], [21,5], [22,5],
   [23,5], [24,5], [25,5], [26,5], [27,5], [28,5], [29,5], [30,5], [31,5], [32,5], [33,5], [34,5], [35,5],
   [0,6], [1,6], [2,6], [3,6], [4,6], [5,6], [6,6], [7,6], [8,6], [9,6], [10,6], [11,6], [12,6], [13,6],
   [14,6], [15,6], [16,6], [17,6], [18,6], [19,6], [20,6], [21,6], [22,6], [23,6], [24,6], [25,6], [26,6],
   [27,6], [28,6], [29,6], [30,6], [31,6], [32,6], [33,6], [34,6], [35,6], [0,7], [1,7], [2,7], [3,7]]"

definition BASE37_POS0 :: "nat list list" where
  "BASE37_POS0 = [
   [0,0], [1,0], [2,0], [3,0], [4,0], [5,0], [6,0], [7,0], [8,0], [9,0], [10,0], [11,0], [12,0], [13,0],
   [14,0], [15,0], [16,0], [17,0], [18,0], [19,0], [20,0], [21,0], [22,0], [23,0], [24,0], [25,0], [26,0],
   [27,0], [28,0], [29,0], [30,0], [31,0], [32,0], [33,0], [34,0], [35,0], [36,0], [0,1], [1,1], [2,1],
   [3,1], [4,1], [5,1], [6,1], [7,1], [8,1], [9,1], [10,1], [11,1], [12,1], [13,1], [14,1], [15,1], [16,1],
   [17,1], [18,1], [19,1], [20,1], [21,1], [22,1], [23,1], [24,1], [25,1], [26,1], [27,1], [28,1], [29,1],
   [30,1], [31,1], [32,1], [33,1], [34,1], [35,1], [36,1], [0,2], [1,2], [2,2], [3,2], [4,2], [5,2], [6,2],
   [7,2], [8,2], [9,2], [10,2], [11,2], [12,2], [13,2], [14,2], [15,2], [16,2], [17,2], [18,2], [19,2],
   [20,2], [21,2], [22,2], [23,2], [24,2], [25,2], [26,2], [27,2], [28,2], [29,2], [30,2], [31,2], [32,2],
   [33,2], [34,2], [35,2], [36,2], [0,3], [1,3], [2,3], [3,3], [4,3], [5,3], [6,3], [7,3], [8,3], [9,3],
   [10,3], [11,3], [12,3], [13,3], [14,3], [15,3], [16,3], [17,3], [18,3], [19,3], [20,3], [21,3], [22,3],
   [23,3], [24,3], [25,3], [26,3], [27,3], [28,3], [29,3], [30,3], [31,3], [32,3], [33,3], [34,3], [35,3],
   [36,3], [0,4], [1,4], [2,4], [3,4], [4,4], [5,4], [6,4], [7,4], [8,4], [9,4], [10,4], [11,4], [12,4],
   [13,4], [14,4], [15,4], [16,4], [17,4], [18,4], [19,4], [20,4], [21,4], [22,4], [23,4], [24,4], [25,4],
   [26,4], [27,4], [28,4], [29,4], [30,4], [31,4], [32,4], [33,4], [34,4], [35,4], [36,4], [0,5], [1,5],
   [2,5], [3,5], [4,5], [5,5], [6,5], [7,5], [8,5], [9,5], [10,5], [11,5], [12,5], [13,5], [14,5], [15,5],
   [16,5], [17,5], [18,5], [19,5], [20,5], [21,5], [22,5], [23,5], [24,5], [25,5], [26,5], [27,5], [28,5],
   [29,5], [30,5], [31,5], [32,5], [33,5], [34,5], [35,5], [36,5], [0,6], [1,6], [2,6], [3,6], [4,6], [5,6],
   [6,6], [7,6], [8,6], [9,6], [10,6], [11,6], [12,6], [13,6], [14,6], [15,6], [16,6], [17,6], [18,6], [19,6],
   [20,6], [21,6], [22,6], [23,6], [24,6], [25,6], [26,6], [27,6], [28,6], [29,6], [30,6], [31,6], [32,6],
   [33,6]]"

definition BASE38_POS0 :: "nat list list" where
  "BASE38_POS0 = [
   [0,0], [1,0], [2,0], [3,0], [4,0], [5,0], [6,0], [7,0], [8,0], [9,0], [10,0], [11,0], [12,0], [13,0],
   [14,0], [15,0], [16,0], [17,0], [18,0], [19,0], [20,0], [21,0], [22,0], [23,0], [24,0], [25,0], [26,0],
   [27,0], [28,0], [29,0], [30,0], [31,0], [32,0], [33,0], [34,0], [35,0], [36,0], [37,0], [0,1], [1,1],
   [2,1], [3,1], [4,1], [5,1], [6,1], [7,1], [8,1], [9,1], [10,1], [11,1], [12,1], [13,1], [14,1], [15,1],
   [16,1], [17,1], [18,1], [19,1], [20,1], [21,1], [22,1], [23,1], [24,1], [25,1], [26,1], [27,1], [28,1],
   [29,1], [30,1], [31,1], [32,1], [33,1], [34,1], [35,1], [36,1], [37,1], [0,2], [1,2], [2,2], [3,2], [4,2],
   [5,2], [6,2], [7,2], [8,2], [9,2], [10,2], [11,2], [12,2], [13,2], [14,2], [15,2], [16,2], [17,2], [18,2],
   [19,2], [20,2], [21,2], [22,2], [23,2], [24,2], [25,2], [26,2], [27,2], [28,2], [29,2], [30,2], [31,2],
   [32,2], [33,2], [34,2], [35,2], [36,2], [37,2], [0,3], [1,3], [2,3], [3,3], [4,3], [5,3], [6,3], [7,3],
   [8,3], [9,3], [10,3], [11,3], [12,3], [13,3], [14,3], [15,3], [16,3], [17,3], [18,3], [19,3], [20,3],
   [21,3], [22,3], [23,3], [24,3], [25,3], [26,3], [27,3], [28,3], [29,3], [30,3], [31,3], [32,3], [33,3],
   [34,3], [35,3], [36,3], [37,3], [0,4], [1,4], [2,4], [3,4], [4,4], [5,4], [6,4], [7,4], [8,4], [9,4],
   [10,4], [11,4], [12,4], [13,4], [14,4], [15,4], [16,4], [17,4], [18,4], [19,4], [20,4], [21,4], [22,4],
   [23,4], [24,4], [25,4], [26,4], [27,4], [28,4], [29,4], [30,4], [31,4], [32,4], [33,4], [34,4], [35,4],
   [36,4], [37,4], [0,5], [1,5], [2,5], [3,5], [4,5], [5,5], [6,5], [7,5], [8,5], [9,5], [10,5], [11,5],
   [12,5], [13,5], [14,5], [15,5], [16,5], [17,5], [18,5], [19,5], [20,5], [21,5], [22,5], [23,5], [24,5],
   [25,5], [26,5], [27,5], [28,5], [29,5], [30,5], [31,5], [32,5], [33,5], [34,5], [35,5], [36,5], [37,5],
   [0,6], [1,6], [2,6], [3,6], [4,6], [5,6], [6,6], [7,6], [8,6], [9,6], [10,6], [11,6], [12,6], [13,6],
   [14,6], [15,6], [16,6], [17,6], [18,6], [19,6], [20,6], [21,6], [22,6], [23,6], [24,6], [25,6], [26,6],
   [27,6]]"

definition BASE39_POS0 :: "nat list list" where
  "BASE39_POS0 = [
   [0,0], [1,0], [2,0], [3,0], [4,0], [5,0], [6,0], [7,0], [8,0], [9,0], [10,0], [11,0], [12,0], [13,0],
   [14,0], [15,0], [16,0], [17,0], [18,0], [19,0], [20,0], [21,0], [22,0], [23,0], [24,0], [25,0], [26,0],
   [27,0], [28,0], [29,0], [30,0], [31,0], [32,0], [33,0], [34,0], [35,0], [36,0], [37,0], [38,0], [0,1],
   [1,1], [2,1], [3,1], [4,1], [5,1], [6,1], [7,1], [8,1], [9,1], [10,1], [11,1], [12,1], [13,1], [14,1],
   [15,1], [16,1], [17,1], [18,1], [19,1], [20,1], [21,1], [22,1], [23,1], [24,1], [25,1], [26,1], [27,1],
   [28,1], [29,1], [30,1], [31,1], [32,1], [33,1], [34,1], [35,1], [36,1], [37,1], [38,1], [0,2], [1,2],
   [2,2], [3,2], [4,2], [5,2], [6,2], [7,2], [8,2], [9,2], [10,2], [11,2], [12,2], [13,2], [14,2], [15,2],
   [16,2], [17,2], [18,2], [19,2], [20,2], [21,2], [22,2], [23,2], [24,2], [25,2], [26,2], [27,2], [28,2],
   [29,2], [30,2], [31,2], [32,2], [33,2], [34,2], [35,2], [36,2], [37,2], [38,2], [0,3], [1,3], [2,3],
   [3,3], [4,3], [5,3], [6,3], [7,3], [8,3], [9,3], [10,3], [11,3], [12,3], [13,3], [14,3], [15,3], [16,3],
   [17,3], [18,3], [19,3], [20,3], [21,3], [22,3], [23,3], [24,3], [25,3], [26,3], [27,3], [28,3], [29,3],
   [30,3], [31,3], [32,3], [33,3], [34,3], [35,3], [36,3], [37,3], [38,3], [0,4], [1,4], [2,4], [3,4], [4,4],
   [5,4], [6,4], [7,4], [8,4], [9,4], [10,4], [11,4], [12,4], [13,4], [14,4], [15,4], [16,4], [17,4], [18,4],
   [19,4], [20,4], [21,4], [22,4], [23,4], [24,4], [25,4], [26,4], [27,4], [28,4], [29,4], [30,4], [31,4],
   [32,4], [33,4], [34,4], [35,4], [36,4], [37,4], [38,4], [0,5], [1,5], [2,5], [3,5], [4,5], [5,5], [6,5],
   [7,5], [8,5], [9,5], [10,5], [11,5], [12,5], [13,5], [14,5], [15,5], [16,5], [17,5], [18,5], [19,5],
   [20,5], [21,5], [22,5], [23,5], [24,5], [25,5], [26,5], [27,5], [28,5], [29,5], [30,5], [31,5], [32,5],
   [33,5], [34,5], [35,5], [36,5], [37,5], [38,5], [0,6], [1,6], [2,6], [3,6], [4,6], [5,6], [6,6], [7,6],
   [8,6], [9,6], [10,6], [11,6], [12,6], [13,6], [14,6], [15,6], [16,6], [17,6], [18,6], [19,6], [20,6],
   [21,6]]"

definition BASE40_POS0 :: "nat list list" where
  "BASE40_POS0 = [
   [0,0], [1,0], [2,0], [3,0], [4,0], [5,0], [6,0], [7,0], [8,0], [9,0], [10,0], [11,0], [12,0], [13,0],
   [14,0], [15,0], [16,0], [17,0], [18,0], [19,0], [20,0], [21,0], [22,0], [23,0], [24,0], [25,0], [26,0],
   [27,0], [28,0], [29,0], [30,0], [31,0], [32,0], [33,0], [34,0], [35,0], [36,0], [37,0], [38,0], [39,0],
   [0,1], [1,1], [2,1], [3,1], [4,1], [5,1], [6,1], [7,1], [8,1], [9,1], [10,1], [11,1], [12,1], [13,1],
   [14,1], [15,1], [16,1], [17,1], [18,1], [19,1], [20,1], [21,1], [22,1], [23,1], [24,1], [25,1], [26,1],
   [27,1], [28,1], [29,1], [30,1], [31,1], [32,1], [33,1], [34,1], [35,1], [36,1], [37,1], [38,1], [39,1],
   [0,2], [1,2], [2,2], [3,2], [4,2], [5,2], [6,2], [7,2], [8,2], [9,2], [10,2], [11,2], [12,2], [13,2],
   [14,2], [15,2], [16,2], [17,2], [18,2], [19,2], [20,2], [21,2], [22,2], [23,2], [24,2], [25,2], [26,2],
   [27,2], [28,2], [29,2], [30,2], [31,2], [32,2], [33,2], [34,2], [35,2], [36,2], [37,2], [38,2], [39,2],
   [0,3], [1,3], [2,3], [3,3], [4,3], [5,3], [6,3], [7,3], [8,3], [9,3], [10,3], [11,3], [12,3], [13,3],
   [14,3], [15,3], [16,3], [17,3], [18,3], [19,3], [20,3], [21,3], [22,3], [23,3], [24,3], [25,3], [26,3],
   [27,3], [28,3], [29,3], [30,3], [31,3], [32,3], [33,3], [34,3], [35,3], [36,3], [37,3], [38,3], [39,3],
   [0,4], [1,4], [2,4], [3,4], [4,4], [5,4], [6,4], [7,4], [8,4], [9,4], [10,4], [11,4], [12,4], [13,4],
   [14,4], [15,4], [16,4], [17,4], [18,4], [19,4], [20,4], [21,4], [22,4], [23,4], [24,4], [25,4], [26,4],
   [27,4], [28,4], [29,4], [30,4], [31,4], [32,4], [33,4], [34,4], [35,4], [36,4], [37,4], [38,4], [39,4],
   [0,5], [1,5], [2,5], [3,5], [4,5], [5,5], [6,5], [7,5], [8,5], [9,5], [10,5], [11,5], [12,5], [13,5],
   [14,5], [15,5], [16,5], [17,5], [18,5], [19,5], [20,5], [21,5], [22,5], [23,5], [24,5], [25,5], [26,5],
   [27,5], [28,5], [29,5], [30,5], [31,5], [32,5], [33,5], [34,5], [35,5], [36,5], [37,5], [38,5], [39,5],
   [0,6], [1,6], [2,6], [3,6], [4,6], [5,6], [6,6], [7,6], [8,6], [9,6], [10,6], [11,6], [12,6], [13,6],
   [14,6], [15,6]]"

definition BASE41_POS0 :: "nat list list" where
  "BASE41_POS0 = [
   [0,0], [1,0], [2,0], [3,0], [4,0], [5,0], [6,0], [7,0], [8,0], [9,0], [10,0], [11,0], [12,0], [13,0],
   [14,0], [15,0], [16,0], [17,0], [18,0], [19,0], [20,0], [21,0], [22,0], [23,0], [24,0], [25,0], [26,0],
   [27,0], [28,0], [29,0], [30,0], [31,0], [32,0], [33,0], [34,0], [35,0], [36,0], [37,0], [38,0], [39,0],
   [40,0], [0,1], [1,1], [2,1], [3,1], [4,1], [5,1], [6,1], [7,1], [8,1], [9,1], [10,1], [11,1], [12,1],
   [13,1], [14,1], [15,1], [16,1], [17,1], [18,1], [19,1], [20,1], [21,1], [22,1], [23,1], [24,1], [25,1],
   [26,1], [27,1], [28,1], [29,1], [30,1], [31,1], [32,1], [33,1], [34,1], [35,1], [36,1], [37,1], [38,1],
   [39,1], [40,1], [0,2], [1,2], [2,2], [3,2], [4,2], [5,2], [6,2], [7,2], [8,2], [9,2], [10,2], [11,2],
   [12,2], [13,2], [14,2], [15,2], [16,2], [17,2], [18,2], [19,2], [20,2], [21,2], [22,2], [23,2], [24,2],
   [25,2], [26,2], [27,2], [28,2], [29,2], [30,2], [31,2], [32,2], [33,2], [34,2], [35,2], [36,2], [37,2],
   [38,2], [39,2], [40,2], [0,3], [1,3], [2,3], [3,3], [4,3], [5,3], [6,3], [7,3], [8,3], [9,3], [10,3],
   [11,3], [12,3], [13,3], [14,3], [15,3], [16,3], [17,3], [18,3], [19,3], [20,3], [21,3], [22,3], [23,3],
   [24,3], [25,3], [26,3], [27,3], [28,3], [29,3], [30,3], [31,3], [32,3], [33,3], [34,3], [35,3], [36,3],
   [37,3], [38,3], [39,3], [40,3], [0,4], [1,4], [2,4], [3,4], [4,4], [5,4], [6,4], [7,4], [8,4], [9,4],
   [10,4], [11,4], [12,4], [13,4], [14,4], [15,4], [16,4], [17,4], [18,4], [19,4], [20,4], [21,4], [22,4],
   [23,4], [24,4], [25,4], [26,4], [27,4], [28,4], [29,4], [30,4], [31,4], [32,4], [33,4], [34,4], [35,4],
   [36,4], [37,4], [38,4], [39,4], [40,4], [0,5], [1,5], [2,5], [3,5], [4,5], [5,5], [6,5], [7,5], [8,5],
   [9,5], [10,5], [11,5], [12,5], [13,5], [14,5], [15,5], [16,5], [17,5], [18,5], [19,5], [20,5], [21,5],
   [22,5], [23,5], [24,5], [25,5], [26,5], [27,5], [28,5], [29,5], [30,5], [31,5], [32,5], [33,5], [34,5],
   [35,5], [36,5], [37,5], [38,5], [39,5], [40,5], [0,6], [1,6], [2,6], [3,6], [4,6], [5,6], [6,6], [7,6],
   [8,6], [9,6]]"

definition BASE42_POS0 :: "nat list list" where
  "BASE42_POS0 = [
   [0,0], [1,0], [2,0], [3,0], [4,0], [5,0], [6,0], [7,0], [8,0], [9,0], [10,0], [11,0], [12,0], [13,0],
   [14,0], [15,0], [16,0], [17,0], [18,0], [19,0], [20,0], [21,0], [22,0], [23,0], [24,0], [25,0], [26,0],
   [27,0], [28,0], [29,0], [30,0], [31,0], [32,0], [33,0], [34,0], [35,0], [36,0], [37,0], [38,0], [39,0],
   [40,0], [41,0], [0,1], [1,1], [2,1], [3,1], [4,1], [5,1], [6,1], [7,1], [8,1], [9,1], [10,1], [11,1],
   [12,1], [13,1], [14,1], [15,1], [16,1], [17,1], [18,1], [19,1], [20,1], [21,1], [22,1], [23,1], [24,1],
   [25,1], [26,1], [27,1], [28,1], [29,1], [30,1], [31,1], [32,1], [33,1], [34,1], [35,1], [36,1], [37,1],
   [38,1], [39,1], [40,1], [41,1], [0,2], [1,2], [2,2], [3,2], [4,2], [5,2], [6,2], [7,2], [8,2], [9,2],
   [10,2], [11,2], [12,2], [13,2], [14,2], [15,2], [16,2], [17,2], [18,2], [19,2], [20,2], [21,2], [22,2],
   [23,2], [24,2], [25,2], [26,2], [27,2], [28,2], [29,2], [30,2], [31,2], [32,2], [33,2], [34,2], [35,2],
   [36,2], [37,2], [38,2], [39,2], [40,2], [41,2], [0,3], [1,3], [2,3], [3,3], [4,3], [5,3], [6,3], [7,3],
   [8,3], [9,3], [10,3], [11,3], [12,3], [13,3], [14,3], [15,3], [16,3], [17,3], [18,3], [19,3], [20,3],
   [21,3], [22,3], [23,3], [24,3], [25,3], [26,3], [27,3], [28,3], [29,3], [30,3], [31,3], [32,3], [33,3],
   [34,3], [35,3], [36,3], [37,3], [38,3], [39,3], [40,3], [41,3], [0,4], [1,4], [2,4], [3,4], [4,4], [5,4],
   [6,4], [7,4], [8,4], [9,4], [10,4], [11,4], [12,4], [13,4], [14,4], [15,4], [16,4], [17,4], [18,4], [19,4],
   [20,4], [21,4], [22,4], [23,4], [24,4], [25,4], [26,4], [27,4], [28,4], [29,4], [30,4], [31,4], [32,4],
   [33,4], [34,4], [35,4], [36,4], [37,4], [38,4], [39,4], [40,4], [41,4], [0,5], [1,5], [2,5], [3,5], [4,5],
   [5,5], [6,5], [7,5], [8,5], [9,5], [10,5], [11,5], [12,5], [13,5], [14,5], [15,5], [16,5], [17,5], [18,5],
   [19,5], [20,5], [21,5], [22,5], [23,5], [24,5], [25,5], [26,5], [27,5], [28,5], [29,5], [30,5], [31,5],
   [32,5], [33,5], [34,5], [35,5], [36,5], [37,5], [38,5], [39,5], [40,5], [41,5], [0,6], [1,6], [2,6],
   [3,6]]"

definition BASE44_POS0 :: "nat list list" where
  "BASE44_POS0 = [
   [0,0], [1,0], [2,0], [3,0], [4,0], [5,0], [6,0], [7,0], [8,0], [9,0], [10,0], [11,0], [12,0], [13,0],
   [14,0], [15,0], [16,0], [17,0], [18,0], [19,0], [20,0], [21,0], [22,0], [23,0], [24,0], [25,0], [26,0],
   [27,0], [28,0], [29,0], [30,0], [31,0], [32,0], [33,0], [34,0], [35,0], [36,0], [37,0], [38,0], [39,0],
   [40,0], [41,0], [42,0], [43,0], [0,1], [1,1], [2,1], [3,1], [4,1], [5,1], [6,1], [7,1], [8,1], [9,1],
   [10,1], [11,1], [12,1], [13,1], [14,1], [15,1], [16,1], [17,1], [18,1], [19,1], [20,1], [21,1], [22,1],
   [23,1], [24,1], [25,1], [26,1], [27,1], [28,1], [29,1], [30,1], [31,1], [32,1], [33,1], [34,1], [35,1],
   [36,1], [37,1], [38,1], [39,1], [40,1], [41,1], [42,1], [43,1], [0,2], [1,2], [2,2], [3,2], [4,2], [5,2],
   [6,2], [7,2], [8,2], [9,2], [10,2], [11,2], [12,2], [13,2], [14,2], [15,2], [16,2], [17,2], [18,2], [19,2],
   [20,2], [21,2], [22,2], [23,2], [24,2], [25,2], [26,2], [27,2], [28,2], [29,2], [30,2], [31,2], [32,2],
   [33,2], [34,2], [35,2], [36,2], [37,2], [38,2], [39,2], [40,2], [41,2], [42,2], [43,2], [0,3], [1,3],
   [2,3], [3,3], [4,3], [5,3], [6,3], [7,3], [8,3], [9,3], [10,3], [11,3], [12,3], [13,3], [14,3], [15,3],
   [16,3], [17,3], [18,3], [19,3], [20,3], [21,3], [22,3], [23,3], [24,3], [25,3], [26,3], [27,3], [28,3],
   [29,3], [30,3], [31,3], [32,3], [33,3], [34,3], [35,3], [36,3], [37,3], [38,3], [39,3], [40,3], [41,3],
   [42,3], [43,3], [0,4], [1,4], [2,4], [3,4], [4,4], [5,4], [6,4], [7,4], [8,4], [9,4], [10,4], [11,4],
   [12,4], [13,4], [14,4], [15,4], [16,4], [17,4], [18,4], [19,4], [20,4], [21,4], [22,4], [23,4], [24,4],
   [25,4], [26,4], [27,4], [28,4], [29,4], [30,4], [31,4], [32,4], [33,4], [34,4], [35,4], [36,4], [37,4],
   [38,4], [39,4], [40,4], [41,4], [42,4], [43,4], [0,5], [1,5], [2,5], [3,5], [4,5], [5,5], [6,5], [7,5],
   [8,5], [9,5], [10,5], [11,5], [12,5], [13,5], [14,5], [15,5], [16,5], [17,5], [18,5], [19,5], [20,5],
   [21,5], [22,5], [23,5], [24,5], [25,5], [26,5], [27,5], [28,5], [29,5], [30,5], [31,5], [32,5], [33,5],
   [34,5], [35,5]]"

definition BASE45_POS0 :: "nat list list" where
  "BASE45_POS0 = [
   [0,0], [1,0], [2,0], [3,0], [4,0], [5,0], [6,0], [7,0], [8,0], [9,0], [10,0], [11,0], [12,0], [13,0],
   [14,0], [15,0], [16,0], [17,0], [18,0], [19,0], [20,0], [21,0], [22,0], [23,0], [24,0], [25,0], [26,0],
   [27,0], [28,0], [29,0], [30,0], [31,0], [32,0], [33,0], [34,0], [35,0], [36,0], [37,0], [38,0], [39,0],
   [40,0], [41,0], [42,0], [43,0], [44,0], [0,1], [1,1], [2,1], [3,1], [4,1], [5,1], [6,1], [7,1], [8,1],
   [9,1], [10,1], [11,1], [12,1], [13,1], [14,1], [15,1], [16,1], [17,1], [18,1], [19,1], [20,1], [21,1],
   [22,1], [23,1], [24,1], [25,1], [26,1], [27,1], [28,1], [29,1], [30,1], [31,1], [32,1], [33,1], [34,1],
   [35,1], [36,1], [37,1], [38,1], [39,1], [40,1], [41,1], [42,1], [43,1], [44,1], [0,2], [1,2], [2,2],
   [3,2], [4,2], [5,2], [6,2], [7,2], [8,2], [9,2], [10,2], [11,2], [12,2], [13,2], [14,2], [15,2], [16,2],
   [17,2], [18,2], [19,2], [20,2], [21,2], [22,2], [23,2], [24,2], [25,2], [26,2], [27,2], [28,2], [29,2],
   [30,2], [31,2], [32,2], [33,2], [34,2], [35,2], [36,2], [37,2], [38,2], [39,2], [40,2], [41,2], [42,2],
   [43,2], [44,2], [0,3], [1,3], [2,3], [3,3], [4,3], [5,3], [6,3], [7,3], [8,3], [9,3], [10,3], [11,3],
   [12,3], [13,3], [14,3], [15,3], [16,3], [17,3], [18,3], [19,3], [20,3], [21,3], [22,3], [23,3], [24,3],
   [25,3], [26,3], [27,3], [28,3], [29,3], [30,3], [31,3], [32,3], [33,3], [34,3], [35,3], [36,3], [37,3],
   [38,3], [39,3], [40,3], [41,3], [42,3], [43,3], [44,3], [0,4], [1,4], [2,4], [3,4], [4,4], [5,4], [6,4],
   [7,4], [8,4], [9,4], [10,4], [11,4], [12,4], [13,4], [14,4], [15,4], [16,4], [17,4], [18,4], [19,4],
   [20,4], [21,4], [22,4], [23,4], [24,4], [25,4], [26,4], [27,4], [28,4], [29,4], [30,4], [31,4], [32,4],
   [33,4], [34,4], [35,4], [36,4], [37,4], [38,4], [39,4], [40,4], [41,4], [42,4], [43,4], [44,4], [0,5],
   [1,5], [2,5], [3,5], [4,5], [5,5], [6,5], [7,5], [8,5], [9,5], [10,5], [11,5], [12,5], [13,5], [14,5],
   [15,5], [16,5], [17,5], [18,5], [19,5], [20,5], [21,5], [22,5], [23,5], [24,5], [25,5], [26,5], [27,5],
   [28,5], [29,5], [30,5]]"

definition BASE46_POS0 :: "nat list list" where
  "BASE46_POS0 = [
   [0,0], [1,0], [2,0], [3,0], [4,0], [5,0], [6,0], [7,0], [8,0], [9,0], [10,0], [11,0], [12,0], [13,0],
   [14,0], [15,0], [16,0], [17,0], [18,0], [19,0], [20,0], [21,0], [22,0], [23,0], [24,0], [25,0], [26,0],
   [27,0], [28,0], [29,0], [30,0], [31,0], [32,0], [33,0], [34,0], [35,0], [36,0], [37,0], [38,0], [39,0],
   [40,0], [41,0], [42,0], [43,0], [44,0], [45,0], [0,1], [1,1], [2,1], [3,1], [4,1], [5,1], [6,1], [7,1],
   [8,1], [9,1], [10,1], [11,1], [12,1], [13,1], [14,1], [15,1], [16,1], [17,1], [18,1], [19,1], [20,1],
   [21,1], [22,1], [23,1], [24,1], [25,1], [26,1], [27,1], [28,1], [29,1], [30,1], [31,1], [32,1], [33,1],
   [34,1], [35,1], [36,1], [37,1], [38,1], [39,1], [40,1], [41,1], [42,1], [43,1], [44,1], [45,1], [0,2],
   [1,2], [2,2], [3,2], [4,2], [5,2], [6,2], [7,2], [8,2], [9,2], [10,2], [11,2], [12,2], [13,2], [14,2],
   [15,2], [16,2], [17,2], [18,2], [19,2], [20,2], [21,2], [22,2], [23,2], [24,2], [25,2], [26,2], [27,2],
   [28,2], [29,2], [30,2], [31,2], [32,2], [33,2], [34,2], [35,2], [36,2], [37,2], [38,2], [39,2], [40,2],
   [41,2], [42,2], [43,2], [44,2], [45,2], [0,3], [1,3], [2,3], [3,3], [4,3], [5,3], [6,3], [7,3], [8,3],
   [9,3], [10,3], [11,3], [12,3], [13,3], [14,3], [15,3], [16,3], [17,3], [18,3], [19,3], [20,3], [21,3],
   [22,3], [23,3], [24,3], [25,3], [26,3], [27,3], [28,3], [29,3], [30,3], [31,3], [32,3], [33,3], [34,3],
   [35,3], [36,3], [37,3], [38,3], [39,3], [40,3], [41,3], [42,3], [43,3], [44,3], [45,3], [0,4], [1,4],
   [2,4], [3,4], [4,4], [5,4], [6,4], [7,4], [8,4], [9,4], [10,4], [11,4], [12,4], [13,4], [14,4], [15,4],
   [16,4], [17,4], [18,4], [19,4], [20,4], [21,4], [22,4], [23,4], [24,4], [25,4], [26,4], [27,4], [28,4],
   [29,4], [30,4], [31,4], [32,4], [33,4], [34,4], [35,4], [36,4], [37,4], [38,4], [39,4], [40,4], [41,4],
   [42,4], [43,4], [44,4], [45,4], [0,5], [1,5], [2,5], [3,5], [4,5], [5,5], [6,5], [7,5], [8,5], [9,5],
   [10,5], [11,5], [12,5], [13,5], [14,5], [15,5], [16,5], [17,5], [18,5], [19,5], [20,5], [21,5], [22,5],
   [23,5], [24,5], [25,5]]"

definition BASE48_POS0 :: "nat list list" where
  "BASE48_POS0 = [
   [0,0], [1,0], [2,0], [3,0], [4,0], [5,0], [6,0], [7,0], [8,0], [9,0], [10,0], [11,0], [12,0], [13,0],
   [14,0], [15,0], [16,0], [17,0], [18,0], [19,0], [20,0], [21,0], [22,0], [23,0], [24,0], [25,0], [26,0],
   [27,0], [28,0], [29,0], [30,0], [31,0], [32,0], [33,0], [34,0], [35,0], [36,0], [37,0], [38,0], [39,0],
   [40,0], [41,0], [42,0], [43,0], [44,0], [45,0], [46,0], [47,0], [0,1], [1,1], [2,1], [3,1], [4,1], [5,1],
   [6,1], [7,1], [8,1], [9,1], [10,1], [11,1], [12,1], [13,1], [14,1], [15,1], [16,1], [17,1], [18,1], [19,1],
   [20,1], [21,1], [22,1], [23,1], [24,1], [25,1], [26,1], [27,1], [28,1], [29,1], [30,1], [31,1], [32,1],
   [33,1], [34,1], [35,1], [36,1], [37,1], [38,1], [39,1], [40,1], [41,1], [42,1], [43,1], [44,1], [45,1],
   [46,1], [47,1], [0,2], [1,2], [2,2], [3,2], [4,2], [5,2], [6,2], [7,2], [8,2], [9,2], [10,2], [11,2],
   [12,2], [13,2], [14,2], [15,2], [16,2], [17,2], [18,2], [19,2], [20,2], [21,2], [22,2], [23,2], [24,2],
   [25,2], [26,2], [27,2], [28,2], [29,2], [30,2], [31,2], [32,2], [33,2], [34,2], [35,2], [36,2], [37,2],
   [38,2], [39,2], [40,2], [41,2], [42,2], [43,2], [44,2], [45,2], [46,2], [47,2], [0,3], [1,3], [2,3],
   [3,3], [4,3], [5,3], [6,3], [7,3], [8,3], [9,3], [10,3], [11,3], [12,3], [13,3], [14,3], [15,3], [16,3],
   [17,3], [18,3], [19,3], [20,3], [21,3], [22,3], [23,3], [24,3], [25,3], [26,3], [27,3], [28,3], [29,3],
   [30,3], [31,3], [32,3], [33,3], [34,3], [35,3], [36,3], [37,3], [38,3], [39,3], [40,3], [41,3], [42,3],
   [43,3], [44,3], [45,3], [46,3], [47,3], [0,4], [1,4], [2,4], [3,4], [4,4], [5,4], [6,4], [7,4], [8,4],
   [9,4], [10,4], [11,4], [12,4], [13,4], [14,4], [15,4], [16,4], [17,4], [18,4], [19,4], [20,4], [21,4],
   [22,4], [23,4], [24,4], [25,4], [26,4], [27,4], [28,4], [29,4], [30,4], [31,4], [32,4], [33,4], [34,4],
   [35,4], [36,4], [37,4], [38,4], [39,4], [40,4], [41,4], [42,4], [43,4], [44,4], [45,4], [46,4], [47,4],
   [0,5], [1,5], [2,5], [3,5], [4,5], [5,5], [6,5], [7,5], [8,5], [9,5], [10,5], [11,5], [12,5], [13,5],
   [14,5], [15,5]]"

definition BASE49_POS0 :: "nat list list" where
  "BASE49_POS0 = [
   [0,0], [1,0], [2,0], [3,0], [4,0], [5,0], [6,0], [7,0], [8,0], [9,0], [10,0], [11,0], [12,0], [13,0],
   [14,0], [15,0], [16,0], [17,0], [18,0], [19,0], [20,0], [21,0], [22,0], [23,0], [24,0], [25,0], [26,0],
   [27,0], [28,0], [29,0], [30,0], [31,0], [32,0], [33,0], [34,0], [35,0], [36,0], [37,0], [38,0], [39,0],
   [40,0], [41,0], [42,0], [43,0], [44,0], [45,0], [46,0], [47,0], [48,0], [0,1], [1,1], [2,1], [3,1], [4,1],
   [5,1], [6,1], [7,1], [8,1], [9,1], [10,1], [11,1], [12,1], [13,1], [14,1], [15,1], [16,1], [17,1], [18,1],
   [19,1], [20,1], [21,1], [22,1], [23,1], [24,1], [25,1], [26,1], [27,1], [28,1], [29,1], [30,1], [31,1],
   [32,1], [33,1], [34,1], [35,1], [36,1], [37,1], [38,1], [39,1], [40,1], [41,1], [42,1], [43,1], [44,1],
   [45,1], [46,1], [47,1], [48,1], [0,2], [1,2], [2,2], [3,2], [4,2], [5,2], [6,2], [7,2], [8,2], [9,2],
   [10,2], [11,2], [12,2], [13,2], [14,2], [15,2], [16,2], [17,2], [18,2], [19,2], [20,2], [21,2], [22,2],
   [23,2], [24,2], [25,2], [26,2], [27,2], [28,2], [29,2], [30,2], [31,2], [32,2], [33,2], [34,2], [35,2],
   [36,2], [37,2], [38,2], [39,2], [40,2], [41,2], [42,2], [43,2], [44,2], [45,2], [46,2], [47,2], [48,2],
   [0,3], [1,3], [2,3], [3,3], [4,3], [5,3], [6,3], [7,3], [8,3], [9,3], [10,3], [11,3], [12,3], [13,3],
   [14,3], [15,3], [16,3], [17,3], [18,3], [19,3], [20,3], [21,3], [22,3], [23,3], [24,3], [25,3], [26,3],
   [27,3], [28,3], [29,3], [30,3], [31,3], [32,3], [33,3], [34,3], [35,3], [36,3], [37,3], [38,3], [39,3],
   [40,3], [41,3], [42,3], [43,3], [44,3], [45,3], [46,3], [47,3], [48,3], [0,4], [1,4], [2,4], [3,4], [4,4],
   [5,4], [6,4], [7,4], [8,4], [9,4], [10,4], [11,4], [12,4], [13,4], [14,4], [15,4], [16,4], [17,4], [18,4],
   [19,4], [20,4], [21,4], [22,4], [23,4], [24,4], [25,4], [26,4], [27,4], [28,4], [29,4], [30,4], [31,4],
   [32,4], [33,4], [34,4], [35,4], [36,4], [37,4], [38,4], [39,4], [40,4], [41,4], [42,4], [43,4], [44,4],
   [45,4], [46,4], [47,4], [48,4], [0,5], [1,5], [2,5], [3,5], [4,5], [5,5], [6,5], [7,5], [8,5], [9,5],
   [10,5]]"

lemma BASE35_POS0_ok: "table_ok 35 2 0 BASE35_POS0"
proof (rule table_okI)
  show "rows_step 35 [1, 0] BASE35_POS0"
    by (simp only: BASE35_POS0_def rows_step_eval cong: if_weak_cong)
  show "length BASE35_POS0 = 256"
    by (simp only: BASE35_POS0_def length_table_eval)
  show "hd BASE35_POS0 = [0, 0]"
    by (simp only: BASE35_POS0_def list.sel)
qed (simp_all add: digit_simps)

lemma BASE36_POS0_ok: "table_ok 36 2 0 BASE36_POS0"
proof (rule table_okI)
  show "rows_step 36 [1, 0] BASE36_POS0"
    by (simp only: BASE36_POS0_def rows_step_eval cong: if_weak_cong)
  show "length BASE36_POS0 = 256"
    by (simp only: BASE36_POS0_def length_table_eval)
  show "hd BASE36_POS0 = [0, 0]"
    by (simp only: BASE36_POS0_def list.sel)
qed (simp_all add: digit_simps)

lemma BASE37_POS0_ok: "table_ok 37 2 0 BASE37_POS0"
proof (rule table_okI)
  show "rows_step 37 [1, 0] BASE37_POS0"
    by (simp only: BASE37_POS0_def rows_step_eval cong: if_weak_cong)
  show "length BASE37_POS0 = 256"
    by (simp only: BASE37_POS0_def length_table_eval)
  show "hd BASE37_POS0 = [0, 0]"
    by (simp only: BASE37_POS0_def list.sel)
qed (simp_all add: digit_simps)

lemma BASE38_POS0_ok: "table_ok 38 2 0 BASE38_POS0"
proof (rule table_okI)
  show "rows_step 38 [1, 0] BASE38_POS0"
    by (simp only: BASE38_POS0_def rows_step_eval cong: if_weak_cong)
  show "length BASE38_POS0 = 256"
    by (simp only: BASE38_POS0_def length_table_eval)
  show "hd BASE38_POS0 = [0, 0]"
    by (simp only: BASE38_POS0_def list.sel)
qed (simp_all add: digit_simps)

lemma BASE39_POS0_ok: "table_ok 39 2 0 BASE39_POS0"
proof (rule table_okI)
  show "rows_step 39 [1, 0] BASE39_POS0"
    by (simp only: BASE39_POS0_def rows_step_eval cong: if_weak_cong)
  show "length BASE39_POS0 = 256"
    by (simp only: BASE39_POS0_def length_table_eval)
  show "hd BASE39_POS0 = [0, 0]"
    by (simp only: BASE39_POS0_def list.sel)
qed (simp_all add: digit_simps)

lemma BASE40_POS0_ok: "table_ok 40 2 0 BASE40_POS0"
proof (rule table_okI)
  show "rows_step 40 [1, 0] BASE40_POS0"
    by (simp only: BASE40_POS0_def rows_step_eval cong: if_weak_cong)
  show "length BASE40_POS0 = 256"
    by (simp only: BASE40_POS0_def length_table_eval)
  show "hd BASE40_POS0 = [0, 0]"
    by (simp only: BASE40_POS0_def list.sel)
qed (simp_all add: digit_simps)

lemma BASE41_POS0_ok: "table_ok 41 2 0 BASE41_POS0"
proof (rule table_okI)
  show "rows_step 41 [1, 0] BASE41_POS0"
    by (simp only: BASE41_POS0_def rows_step_eval cong: if_weak_cong)
  show "length BASE41_POS0 = 256"
    by (simp only: BASE41_POS0_def length_table_eval)
  show "hd BASE41_POS0 = [0, 0]"
    by (simp only: BASE41_POS0_def list.sel)
qed (simp_all add: digit_simps)

lemma BASE42_POS0_ok: "table_ok 42 2 0 BASE42_POS0"
proof (rule table_okI)
  show "rows_step 42 [1, 0] BASE42_POS0"
    by (simp only: BASE42_POS0_def rows_step_eval cong: if_weak_cong)
  show "length BASE42_POS0 = 256"
    by (simp only: BASE42_POS0_def length_table_eval)
  show "hd BASE42_POS0 = [0, 0]"
    by (simp only: BASE42_POS0_def list.sel)
qed (simp_all add: digit_simps)

lemma BASE44_POS0_ok: "table_ok 44 2 0 BASE44_POS0"
proof (rule table_okI)
  show "rows_step 44 [1, 0] BASE44_POS0"
    by (simp only: BASE44_POS0_def rows_step_eval cong: if_weak_cong)
  show "length BASE44_POS0 = 256"
    by (simp only: BASE44_POS0_def length_table_eval)
  show "hd BASE44_POS0 = [0, 0]"
    by (simp only: BASE44_POS0_def list.sel)
qed (simp_all add: digit_simps)

lemma BASE45_POS0_ok: "table_ok 45 2 0 BASE45_POS0"
proof (rule table_okI)
  show "rows_step 45 [1, 0] BASE45_POS0"
    by (simp only: BASE45_POS0_def rows_step_eval cong: if_weak_cong)
  show "length BASE45_POS0 = 256"
    by (simp only: BASE45_POS0_def length_table_eval)
  show "hd BASE45_POS0 = [0, 0]"
    by (simp only: BASE45_POS0_def list.sel)
qed (simp_all add: digit_simps)

lemma BASE46_POS0_ok: "table_ok 46 2 0 BASE46_POS0"
proof (rule table_okI)
  show "rows_step 46 [1, 0] BASE46_POS0"
    by (simp only: BASE46_POS0_def rows_step_eval cong: if_weak_cong)
  show "length BASE46_POS0 = 256"
    by (simp only: BASE46_POS0_def length_table_eval)
  show "hd BASE46_POS0 = [0, 0]"
    by (simp only: BASE46_POS0_def list.sel)
qed (simp_all add: digit_simps)

lemma BASE48_POS0_ok: "table_ok 48 2 0 BASE48_POS0"
proof (rule table_okI)
  show "rows_step 48 [1, 0] BASE48_POS0"
    by (simp only: BASE48_POS0_def rows_step_eval cong: if_weak_cong)
  show "length BASE48_POS0 = 256"
    by (simp only: BASE48_POS0_def length_table_eval)
  show "hd BASE48_POS0 = [0, 0]"
    by (simp only: BASE48_POS0_def list.sel)
qed (simp_all add: digit_simps)

lemma BASE49_POS0_ok: "table_ok 49 2 0 BASE49_POS0"
proof (rule table_okI)
  show "rows_step 49 [1, 0] BASE49_POS0"
    by (simp only: BASE49_POS0_def rows_step_eval cong: if_weak_cong)
  show "length BASE49_POS0 = 256"
    by (simp only: BASE49_POS0_def length_table_eval)
  show "hd BASE49_POS0 = [0, 0]"
    by (simp only: BASE49_POS0_def list.sel)
qed (simp_all add: digit_simps)

end
