(* ===== verification/Static_Tables.thy ===== *)
theory Static_Tables
  imports Base_Conversion Tables_43_A Tables_43_B Tables_43_C Tables_43_D
    Tables_47_A Tables_47_B Tables_47_C Tables_47_D
    Tables_POS0_A Tables_POS0_B Tables_POS0_C
begin

text \<open>
  The static data of \<^verbatim>\<open>lookup_tables.c\<close> as one memory, and the interpretation of the interface
  \<open>digit_tables\<close> on it for the bases 43 and 47, whose sixteen tables are transcribed.  Of the other bases up to 49 the
  table of position 0 is; the contents of the remaining objects are a parameter.
\<close>

definition BASE43_tables :: "nat list list list" where
  "BASE43_tables =
    [BASE43_POS0, BASE43_POS1, BASE43_POS2, BASE43_POS3,
     BASE43_POS4, BASE43_POS5, BASE43_POS6, BASE43_POS7,
     BASE43_POS8, BASE43_POS9, BASE43_POS10, BASE43_POS11,
     BASE43_POS12, BASE43_POS13, BASE43_POS14, BASE43_POS15]"

definition BASE47_tables :: "nat list list list" where
  "BASE47_tables =
    [BASE47_POS0, BASE47_POS1, BASE47_POS2, BASE47_POS3,
     BASE47_POS4, BASE47_POS5, BASE47_POS6, BASE47_POS7,
     BASE47_POS8, BASE47_POS9, BASE47_POS10, BASE47_POS11,
     BASE47_POS12, BASE47_POS13, BASE47_POS14, BASE47_POS15]"

definition POS0_tables :: "nat list list list" where
  "POS0_tables =
    [BASE5_POS0, BASE6_POS0, BASE7_POS0, BASE8_POS0, BASE9_POS0, BASE10_POS0, BASE11_POS0,
     BASE12_POS0, BASE13_POS0, BASE14_POS0, BASE15_POS0, BASE16_POS0, BASE17_POS0, BASE18_POS0,
     BASE19_POS0, BASE20_POS0, BASE21_POS0, BASE22_POS0, BASE23_POS0, BASE24_POS0, BASE25_POS0,
     BASE26_POS0, BASE27_POS0, BASE28_POS0, BASE29_POS0, BASE30_POS0, BASE31_POS0, BASE32_POS0,
     BASE33_POS0, BASE34_POS0, BASE35_POS0, BASE36_POS0, BASE37_POS0, BASE38_POS0, BASE39_POS0,
     BASE40_POS0, BASE41_POS0, BASE42_POS0, BASE43_POS0, BASE44_POS0, BASE45_POS0, BASE46_POS0,
     BASE47_POS0, BASE48_POS0, BASE49_POS0]"

text \<open>\<open>rest q p\<close> stands for the contents of the objects that are not transcribed.\<close>

definition table_words :: "(nat \<Rightarrow> nat \<Rightarrow> nat list) \<Rightarrow> nat \<Rightarrow> nat \<Rightarrow> nat list" where
  "table_words rest q p =
     (if q = 43 then concat (BASE43_tables ! p)
      else if q = 47 then concat (BASE47_tables ! p)
      else if p = 0 \<and> 5 \<le> q \<and> q \<le> 49 then concat (POS0_tables ! (q - 5))
      else rest q p)"

section \<open>The whole bases\<close>

lemma all_nth_sixteen:
  "list_all2 P [0..<16] xs \<Longrightarrow> p < 16 \<Longrightarrow> P p (xs ! p)"
  by (auto simp: list_all2_conv_all_nth simp del: upt_rec_numeral)

lemma tables_contents:
  assumes base: "5 \<le> q" "q \<le> 113" and case_q: "map_of num_digits_cases q = Some ns"
    and tables: "list_all2 (\<lambda>p (n, t). table_ok q n p t) [0..<16] (zip ns ts)"
    and len: "length ns = 16" "length ts = 16" and ns: "\<forall>n\<in>set ns. n < 2 ^ 16" and "pos < 16"
  shows "ts ! pos = snd (digits_for_pos pos q)"
proof -
  have "table_ok q (ns ! pos) pos (ts ! pos)"
    using all_nth_sixteen [OF tables assms(8)] len assms(8) by simp
  moreover have "c_num_digits q pos = Inr (ns ! pos)"
    using case_q len ns assms(8) by (simp add: c_num_digits_def read_at_def)
  then have "table_width q pos = ns ! pos"
    using table_width_bounds(1) [OF base assms(8)] by simp
  ultimately show ?thesis
    using table_width_bounds(5) [OF base assms(8)] by (simp add: table_ok_def)
qed

lemma BASE43_tables_ok: "list_all2 (\<lambda>p (n, t). table_ok 43 n p t) [0..<16] (zip NDIGITS_BASE43 BASE43_tables)"
  unfolding upto_sixteen NDIGITS_BASE43_def BASE43_tables_def zip_Cons_Cons zip_Nil list_all2_Cons
    prod.case
  by (intro conjI list.rel_intros(1)
    BASE43_POS0_ok BASE43_POS1_ok BASE43_POS2_ok BASE43_POS3_ok BASE43_POS4_ok BASE43_POS5_ok BASE43_POS6_ok
    BASE43_POS7_ok BASE43_POS8_ok BASE43_POS9_ok BASE43_POS10_ok BASE43_POS11_ok BASE43_POS12_ok
    BASE43_POS13_ok BASE43_POS14_ok BASE43_POS15_ok)

lemma BASE43_contents: "pos < 16 \<Longrightarrow> BASE43_tables ! pos = snd (digits_for_pos pos 43)"
  by (rule tables_contents [OF _ _ _ BASE43_tables_ok])
    (simp_all add: num_digits_cases_def NDIGITS_BASE43_def BASE43_tables_def)

lemma BASE47_tables_ok: "list_all2 (\<lambda>p (n, t). table_ok 47 n p t) [0..<16] (zip NDIGITS_BASE47 BASE47_tables)"
  unfolding upto_sixteen NDIGITS_BASE47_def BASE47_tables_def zip_Cons_Cons zip_Nil list_all2_Cons
    prod.case
  by (intro conjI list.rel_intros(1)
    BASE47_POS0_ok BASE47_POS1_ok BASE47_POS2_ok BASE47_POS3_ok BASE47_POS4_ok BASE47_POS5_ok BASE47_POS6_ok
    BASE47_POS7_ok BASE47_POS8_ok BASE47_POS9_ok BASE47_POS10_ok BASE47_POS11_ok BASE47_POS12_ok
    BASE47_POS13_ok BASE47_POS14_ok BASE47_POS15_ok)

lemma BASE47_contents: "pos < 16 \<Longrightarrow> BASE47_tables ! pos = snd (digits_for_pos pos 47)"
  by (rule tables_contents [OF _ _ _ BASE47_tables_ok])
    (simp_all add: num_digits_cases_def NDIGITS_BASE47_def BASE47_tables_def)

interpretation base43: digit_tables "table_words rest" 43 for rest
  by unfold_locales (simp_all add: table_words_def BASE43_contents)

interpretation base47: digit_tables "table_words rest" 47 for rest
  by unfold_locales (simp_all add: table_words_def BASE47_contents)

section \<open>The tables of position 0\<close>

definition byte_width :: "nat \<Rightarrow> nat" where
  "byte_width q = (if q \<le> 6 then 4 else if q \<le> 15 then 3 else 2)"

lemma byte_width_table:
  assumes "5 \<le> q" and "q \<le> 49"
  shows "table_width q 0 = byte_width q"
proof -
  have lo: "q ^ (byte_width q - 1) \<le> 255" and hi: "255 < q ^ byte_width q"
    using assms power_mono [of 5 q 4] power_mono [of q 6 3] power_mono [of 7 q 3] power_mono [of q 15 2]
      power_mono [of 16 q 2]
    by (auto simp: byte_width_def)
  have w: "0 < table_width q 0" "q ^ (table_width q 0 - 1) \<le> 255" "255 < q ^ table_width q 0"
    using table_width_bounds(2-4) [of q 0] assms by simp_all
  have "q ^ (byte_width q - 1) < q ^ table_width q 0" "q ^ (table_width q 0 - 1) < q ^ byte_width q"
    using lo hi w by linarith+
  then have "byte_width q - 1 < table_width q 0" "table_width q 0 - 1 < byte_width q"
    using assms(1) by simp_all
  with w(1) show ?thesis by linarith
qed

lemma bases_upt: "[5..<50] =
  [5, 6, 7, 8, 9, 10, 11, 12, 13, 14, 15, 16, 17, 18, 19, 20, 21, 22, 23, 24, 25, 26, 27, 28, 29, 30, 31, 32, 33, 34, 35, 36, 37, 38, 39, 40, 41, 42, 43, 44, 45, 46, 47, 48, 49]"
  by (simp add: upt_conv_Cons)

lemma POS0_tables_ok: "list_all2 (\<lambda>q t. table_ok q (byte_width q) 0 t) [5..<50] POS0_tables"
  unfolding bases_upt POS0_tables_def
  by (simp add: byte_width_def
    BASE5_POS0_ok BASE6_POS0_ok BASE7_POS0_ok BASE8_POS0_ok BASE9_POS0_ok BASE10_POS0_ok BASE11_POS0_ok
    BASE12_POS0_ok BASE13_POS0_ok BASE14_POS0_ok BASE15_POS0_ok BASE16_POS0_ok BASE17_POS0_ok BASE18_POS0_ok
    BASE19_POS0_ok BASE20_POS0_ok BASE21_POS0_ok BASE22_POS0_ok BASE23_POS0_ok BASE24_POS0_ok BASE25_POS0_ok
    BASE26_POS0_ok BASE27_POS0_ok BASE28_POS0_ok BASE29_POS0_ok BASE30_POS0_ok BASE31_POS0_ok BASE32_POS0_ok
    BASE33_POS0_ok BASE34_POS0_ok BASE35_POS0_ok BASE36_POS0_ok BASE37_POS0_ok BASE38_POS0_ok BASE39_POS0_ok
    BASE40_POS0_ok BASE41_POS0_ok BASE42_POS0_ok BASE43_POS0_ok BASE44_POS0_ok BASE45_POS0_ok BASE46_POS0_ok
    BASE47_POS0_ok BASE48_POS0_ok BASE49_POS0_ok)

lemma POS0_contents:
  assumes "5 \<le> q" and "q \<le> 49"
  shows "POS0_tables ! (q - 5) = snd (digits_for_pos 0 q)"
proof -
  have "table_ok q (byte_width q) 0 (POS0_tables ! (q - 5))"
    using list_all2_nthD [OF POS0_tables_ok, of "q - 5"] assms by (simp del: upt_rec_numeral)
  then show ?thesis
    using table_width_bounds(5) [of q 0] assms by (simp add: table_ok_def byte_width_table)
qed

lemma table_words_POS0:
  assumes "5 \<le> q" and "q \<le> 49"
  shows "table_words rest q 0 = concat (snd (digits_for_pos 0 q))"
  using assms by (auto simp: table_words_def POS0_contents BASE43_contents BASE47_contents)

end
