(* ===== verification/Wire_Mod_Q.thy ===== *)
theory Wire_Mod_Q
  imports Base_Conversion
begin

text \<open>
  The wire labels modulo \<open>q\<close> of \<^verbatim>\<open>fancy-garbling/src/wire.rs\<close>: the conversion of a block into base-\<open>q\<close>
  digits by \<open>WireModQ::from_block\<close> with its three ways (bit fields, \<open>_unrank\<close>, the C tables), the
  table of powers \<^verbatim>\<open>wire/npaths_tab.rs\<close>, and the digit-wise arithmetic of labels.  Values of type \<open>u16\<close>
  and \<open>u128\<close> are naturals with the release build's wrap-around written out.
\<close>

section \<open>The table of powers\<close>

definition npaths_5 :: "nat list" where
  "npaths_5 =
    [1, 5, 25, 125, 625, 3125, 15625, 78125, 390625, 1953125, 9765625, 48828125, 244140625,
     1220703125, 6103515625, 30517578125, 152587890625, 762939453125, 3814697265625,
     19073486328125, 95367431640625, 476837158203125, 2384185791015625, 11920928955078125,
     59604644775390625, 298023223876953125, 1490116119384765625, 7450580596923828125,
     37252902984619140625, 186264514923095703125, 931322574615478515625, 4656612873077392578125,
     23283064365386962890625, 116415321826934814453125, 582076609134674072265625,
     2910383045673370361328125, 14551915228366851806640625, 72759576141834259033203125,
     363797880709171295166015625, 1818989403545856475830078125, 9094947017729282379150390625,
     45474735088646411895751953125]"

definition npaths_6 :: "nat list" where
  "npaths_6 =
    [1, 6, 36, 216, 1296, 7776, 46656, 279936, 1679616, 10077696, 60466176, 362797056,
     2176782336, 13060694016, 78364164096, 470184984576, 2821109907456, 16926659444736,
     101559956668416, 609359740010496, 3656158440062976, 21936950640377856, 131621703842267136,
     789730223053602816, 4738381338321616896, 28430288029929701376, 170581728179578208256,
     1023490369077469249536, 6140942214464815497216, 36845653286788892983296,
     221073919720733357899776, 1326443518324400147398656, 7958661109946400884391936,
     47751966659678405306351616, 286511799958070431838109696, 1719070799748422591028658176,
     10314424798490535546171949056, 61886548790943213277031694336,
     371319292745659279662190166016, 2227915756473955677973140996096,
     13367494538843734067838845976576, 80204967233062404407033075859456]"

definition npaths_7 :: "nat list" where
  "npaths_7 =
    [1, 7, 49, 343, 2401, 16807, 117649, 823543, 5764801, 40353607, 282475249, 1977326743,
     13841287201, 96889010407, 678223072849, 4747561509943, 33232930569601, 232630513987207,
     1628413597910449, 11398895185373143, 79792266297612001, 558545864083284007,
     3909821048582988049, 27368747340080916343, 191581231380566414401, 1341068619663964900807,
     9387480337647754305649, 65712362363534280139543, 459986536544739960976801,
     3219905755813179726837607, 22539340290692258087863249, 157775382034845806615042743,
     1104427674243920646305299201, 7730993719707444524137094407, 54116956037952111668959660849,
     378818692265664781682717625943, 2651730845859653471779023381601,
     18562115921017574302453163671207, 129934811447123020117172145698449,
     909543680129861140820205019889143, 6366805760909027985741435139224001,
     44567640326363195900190045974568007]"

definition npaths_9 :: "nat list" where
  "npaths_9 =
    [1, 9, 81, 729, 6561, 59049, 531441, 4782969, 43046721, 387420489, 3486784401, 31381059609,
     282429536481, 2541865828329, 22876792454961, 205891132094649, 1853020188851841,
     16677181699666569, 150094635296999121, 1350851717672992089, 12157665459056928801,
     109418989131512359209, 984770902183611232881, 8862938119652501095929,
     79766443076872509863361, 717897987691852588770249, 6461081889226673298932241,
     58149737003040059690390169, 523347633027360537213511521, 4710128697246244834921603689,
     42391158275216203514294433201, 381520424476945831628649898809]"

definition npaths_10 :: "nat list" where
  "npaths_10 =
    [1, 10, 100, 1000, 10000, 100000, 1000000, 10000000, 100000000, 1000000000, 10000000000,
     100000000000, 1000000000000, 10000000000000, 100000000000000, 1000000000000000,
     10000000000000000, 100000000000000000, 1000000000000000000, 10000000000000000000,
     100000000000000000000, 1000000000000000000000, 10000000000000000000000,
     100000000000000000000000, 1000000000000000000000000, 10000000000000000000000000,
     100000000000000000000000000, 1000000000000000000000000000, 10000000000000000000000000000,
     100000000000000000000000000000, 1000000000000000000000000000000,
     10000000000000000000000000000000]"

definition npaths_11 :: "nat list" where
  "npaths_11 =
    [1, 11, 121, 1331, 14641, 161051, 1771561, 19487171, 214358881, 2357947691, 25937424601,
     285311670611, 3138428376721, 34522712143931, 379749833583241, 4177248169415651,
     45949729863572161, 505447028499293771, 5559917313492231481, 61159090448414546291,
     672749994932560009201, 7400249944258160101211, 81402749386839761113321,
     895430243255237372246531, 9849732675807611094711841, 108347059433883722041830251,
     1191817653772720942460132761, 13109994191499930367061460371,
     144209936106499234037676064081, 1586309297171491574414436704891,
     17449402268886407318558803753801, 191943424957750480504146841291811]"

definition npaths_12 :: "nat list" where
  "npaths_12 =
    [1, 12, 144, 1728, 20736, 248832, 2985984, 35831808, 429981696, 5159780352, 61917364224,
     743008370688, 8916100448256, 106993205379072, 1283918464548864, 15407021574586368,
     184884258895036416, 2218611106740436992, 26623333280885243904, 319479999370622926848,
     3833759992447475122176, 46005119909369701466112, 552061438912436417593344,
     6624737266949237011120128, 79496847203390844133441536, 953962166440690129601298432,
     11447545997288281555215581184, 137370551967459378662586974208,
     1648446623609512543951043690496, 19781359483314150527412524285952,
     237376313799769806328950291431424, 2848515765597237675947403497177088]"

definition npaths_13 :: "nat list" where
  "npaths_13 =
    [1, 13, 169, 2197, 28561, 371293, 4826809, 62748517, 815730721, 10604499373, 137858491849,
     1792160394037, 23298085122481, 302875106592253, 3937376385699289, 51185893014090757,
     665416609183179841, 8650415919381337933, 112455406951957393129, 1461920290375446110677,
     19004963774880799438801, 247064529073450392704413, 3211838877954855105157369,
     41753905413413116367045797, 542800770374370512771595361, 7056410014866816666030739693,
     91733330193268616658399616009, 1192533292512492016559195008117,
     15502932802662396215269535105521, 201538126434611150798503956371773,
     2619995643649944960380551432833049, 34059943367449284484947168626829637]"

definition npaths_14 :: "nat list" where
  "npaths_14 =
    [1, 14, 196, 2744, 38416, 537824, 7529536, 105413504, 1475789056, 20661046784, 289254654976,
     4049565169664, 56693912375296, 793714773254144, 11112006825558016, 155568095557812224,
     2177953337809371136, 30491346729331195904, 426878854210636742656, 5976303958948914397184,
     83668255425284801560576, 1171355575953987221848064, 16398978063355821105872896,
     229585692886981495482220544, 3214199700417740936751087616, 44998795805848373114515226624,
     629983141281877223603213172736, 8819763977946281130444984418304,
     123476695691247935826229781856256, 1728673739677471101567216945987584,
     24201432355484595421941037243826176, 338820052976784335907174521413566464]"

definition npaths_15 :: "nat list" where
  "npaths_15 =
    [1, 15, 225, 3375, 50625, 759375, 11390625, 170859375, 2562890625, 38443359375,
     576650390625, 8649755859375, 129746337890625, 1946195068359375, 29192926025390625,
     437893890380859375, 6568408355712890625, 98526125335693359375, 1477891880035400390625,
     22168378200531005859375, 332525673007965087890625, 4987885095119476318359375,
     74818276426792144775390625, 1122274146401882171630859375, 16834112196028232574462890625,
     252511682940423488616943359375, 3787675244106352329254150390625,
     56815128661595284938812255859375, 852226929923929274082183837890625,
     12783403948858939111232757568359375, 191751059232884086668491363525390625,
     2876265888493261300027370452880859375]"

definition npaths_17 :: "nat list" where
  "npaths_17 =
    [1, 17, 289, 4913, 83521, 1419857, 24137569, 410338673, 6975757441, 118587876497,
     2015993900449, 34271896307633, 582622237229761, 9904578032905937, 168377826559400929,
     2862423051509815793, 48661191875666868481, 827240261886336764177, 14063084452067724991009,
     239072435685151324847153, 4064231406647572522401601, 69091933913008732880827217,
     1174562876521148458974062689, 19967568900859523802559065713, 339448671314611904643504117121]"

definition npaths_18 :: "nat list" where
  "npaths_18 =
    [1, 18, 324, 5832, 104976, 1889568, 34012224, 612220032, 11019960576, 198359290368,
     3570467226624, 64268410079232, 1156831381426176, 20822964865671168, 374813367582081024,
     6746640616477458432, 121439531096594251776, 2185911559738696531968,
     39346408075296537575424, 708235345355337676357632, 12748236216396078174437376,
     229468251895129407139872768, 4130428534112329328517709824, 74347713614021927913318776832,
     1338258845052394702439737982976]"

definition npaths_19 :: "nat list" where
  "npaths_19 =
    [1, 19, 361, 6859, 130321, 2476099, 47045881, 893871739, 16983563041, 322687697779,
     6131066257801, 116490258898219, 2213314919066161, 42052983462257059, 799006685782884121,
     15181127029874798299, 288441413567621167681, 5480386857784802185939,
     104127350297911241532841, 1978419655660313589123979, 37589973457545958193355601,
     714209495693373205673756419, 13569980418174090907801371961, 257829627945307727248226067259,
     4898762930960846817716295277921]"

definition npaths_20 :: "nat list" where
  "npaths_20 =
    [1, 20, 400, 8000, 160000, 3200000, 64000000, 1280000000, 25600000000, 512000000000,
     10240000000000, 204800000000000, 4096000000000000, 81920000000000000, 1638400000000000000,
     32768000000000000000, 655360000000000000000, 13107200000000000000000,
     262144000000000000000000, 5242880000000000000000000, 104857600000000000000000000,
     2097152000000000000000000000, 41943040000000000000000000000,
     838860800000000000000000000000, 16777216000000000000000000000000]"

definition npaths_21 :: "nat list" where
  "npaths_21 =
    [1, 21, 441, 9261, 194481, 4084101, 85766121, 1801088541, 37822859361, 794280046581,
     16679880978201, 350277500542221, 7355827511386641, 154472377739119461, 3243919932521508681,
     68122318582951682301, 1430568690241985328321, 30041942495081691894741,
     630880792396715529789561, 13248496640331026125580781, 278218429446951548637196401,
     5842587018385982521381124421, 122694327386105632949003612841,
     2576580875108218291929075869661, 54108198377272584130510593262881]"

definition npaths_22 :: "nat list" where
  "npaths_22 =
    [1, 22, 484, 10648, 234256, 5153632, 113379904, 2494357888, 54875873536, 1207269217792,
     26559922791424, 584318301411328, 12855002631049216, 282810057883082752,
     6221821273427820544, 136880068015412051968, 3011361496339065143296,
     66249952919459433152512, 1457498964228107529355264, 32064977213018365645815808,
     705429498686404044207947776, 15519448971100888972574851072, 341427877364219557396646723584,
     7511413302012830262726227918848, 165251092644282265779977014214656]"

definition npaths_23 :: "nat list" where
  "npaths_23 =
    [1, 23, 529, 12167, 279841, 6436343, 148035889, 3404825447, 78310985281, 1801152661463,
     41426511213649, 952809757913927, 21914624432020321, 504036361936467383,
     11592836324538749809, 266635235464391245607, 6132610415680998648961,
     141050039560662968926103, 3244150909895248285300369, 74615470927590710561908487,
     1716155831334586342923895201, 39471584120695485887249589623,
     907846434775996175406740561329, 20880467999847912034355032910567,
     480250763996501976790165756943041]"

definition npaths_24 :: "nat list" where
  "npaths_24 =
    [1, 24, 576, 13824, 331776, 7962624, 191102976, 4586471424, 110075314176, 2641807540224,
     63403380965376, 1521681143169024, 36520347436056576, 876488338465357824,
     21035720123168587776, 504857282956046106624, 12116574790945106558976,
     290797794982682557415424, 6979147079584381377970176, 167499529910025153071284224,
     4019988717840603673710821376, 96479729228174488169059713024,
     2315513501476187716057433112576, 55572324035428505185378394701824,
     1333735776850284124449081472843776]"

definition npaths_cases :: "(nat \<times> nat list) list" where
  "npaths_cases =
    [(5, npaths_5), (6, npaths_6), (7, npaths_7), (9, npaths_9),
     (10, npaths_10), (11, npaths_11), (12, npaths_12), (13, npaths_13),
     (14, npaths_14), (15, npaths_15), (17, npaths_17), (18, npaths_18),
     (19, npaths_19), (20, npaths_20), (21, npaths_21), (22, npaths_22),
     (23, npaths_23), (24, npaths_24)]"

text \<open>The last arm of \<open>lookup\<close> fills the vector by multiplication, modulo \<open>2 ^ 128\<close>.\<close>

fun npaths_powers :: "nat \<Rightarrow> nat \<Rightarrow> nat \<Rightarrow> nat list" where
  "npaths_powers q x 0 = []"
| "npaths_powers q x (Suc n) = x # npaths_powers q (x * q mod 2 ^ 128) n"

definition npaths_lookup :: "nat \<Rightarrow> nat list" where
  "npaths_lookup q =
     (case map_of npaths_cases q of
        Some tab \<Rightarrow> tab
      | None \<Rightarrow> npaths_powers q 1 (digits_per_u128 q))"

section \<open>Digits by repeated division\<close>

text \<open>Subtraction of \<open>u128\<close> values.\<close>

definition sub_u128 :: "nat \<Rightarrow> nat \<Rightarrow> nat" where
  "sub_u128 a b = (a + 2 ^ 128 - b) mod 2 ^ 128"

text \<open>The linear search of \<open>_unrank\<close>: the digit and the rest of \<open>x\<close>, or nothing.\<close>

function search :: "nat \<Rightarrow> nat \<Rightarrow> nat \<Rightarrow> nat \<Rightarrow> nat \<Rightarrow> (nat \<times> nat) option" where
  "search q npaths j acc x =
     (if j < q
      then let acc' = (acc + npaths) mod 2 ^ 128
        in if x < acc' then Some (j, sub_u128 x (sub_u128 acc' npaths))
           else search q npaths (Suc j) acc' x
      else None)"
  by pat_completeness auto
termination
  by (relation "measure (\<lambda>(q, npaths, j, acc, x). q - j)") auto

declare search.simps [simp del]

fun unrank_loop :: "nat \<Rightarrow> nat list \<Rightarrow> nat \<Rightarrow> nat \<Rightarrow> nat list \<Rightarrow> nat list run" where
  "unrank_loop q tab 0 x ds = Inr ds"
| "unrank_loop q tab (Suc i) x ds =
     bind_run (read_at tab i) (\<lambda>npaths.
       if q \<le> 23
       then (case search q npaths 0 0 x of
               Some (j, x') \<Rightarrow> unrank_loop q tab i x' (ds[i := j])
             | None \<Rightarrow> unrank_loop q tab i x ds)
       else if npaths = 0 then Inl Panic
       else let d = x div npaths in
         unrank_loop q tab i (sub_u128 x (d * npaths mod 2 ^ 128)) (ds[i := d mod 2 ^ 16]))"

definition unrank :: "nat \<Rightarrow> nat \<Rightarrow> nat list run" where
  "unrank inp q =
     (let ndigits = digits_per_u128 q; npaths_tab = npaths_lookup q in
      bind_run (read_at npaths_tab (ndigits - 1)) (\<lambda>top.
        let m = top * q mod 2 ^ 128 in
        if m = 0 then Inl Panic
        else unrank_loop q npaths_tab ndigits (inp mod m) (replicate ndigits 0)))"

section \<open>Wire labels\<close>

record WireModQ =
  modulus :: nat
  wire_digits :: "nat list"

definition is_power_of_2 :: "nat \<Rightarrow> bool" where
  "is_power_of_2 x = (x AND (x - 1) = 0)"

text \<open>The bit fields of a power of two: \<open>width\<close> bits for each digit.\<close>

definition bit_fields :: "nat \<Rightarrow> nat \<Rightarrow> nat list" where
  "bit_fields x q =
     (let ndigits = digits_per_u128 q; width = 128 div ndigits; mask = 2 ^ width - 1
      in map (\<lambda>i. (drop_bit (width * i) x AND mask) mod 2 ^ 16) [0..<ndigits])"

definition from_block :: "(nat \<Rightarrow> nat \<Rightarrow> nat list) \<Rightarrow> bytes \<Rightarrow> nat \<Rightarrow> WireModQ run" where
  "from_block words inp q =
     (if q < 2 then Inl Panic
      else bind_run
        (if is_power_of_2 q then Inr (bit_fields (u128_from_block inp) q)
         else if q \<le> 23 then unrank (u128_from_block inp) q
         else bind_run (lookup_defined_for_mod q) (\<lambda>defined.
           if defined then from_block_lookup words inp q
           else unrank (u128_from_block inp) q))
        (\<lambda>ds. Inr \<lparr>modulus = q, wire_digits = ds\<rparr>))"

text \<open>\<open>as_block\<close>, as the \<open>u128\<close> value of the block.\<close>

definition as_block :: "WireModQ \<Rightarrow> nat" where
  "as_block w = from_base_q (wire_digits w) (modulus w)"

definition zero :: "nat \<Rightarrow> WireModQ run" where
  "zero q = (if q < 2 then Inl Panic else Inr \<lparr>modulus = q, wire_digits = replicate (digits_per_u128 q) 0\<rparr>)"

text \<open>
  \<open>plus_eq\<close> adds modulo \<open>2 ^ 16\<close> and subtracts \<open>q\<close> unless that underflows; \<open>zip\<close> leaves the digits
  beyond the shorter list alone.
\<close>

fun plus_digits :: "nat \<Rightarrow> nat list \<Rightarrow> nat list \<Rightarrow> nat list" where
  "plus_digits q (x # xs) (y # ys) =
     (let s = (x + y) mod 2 ^ 16 in (if s < q then s else s - q) # plus_digits q xs ys)"
| "plus_digits q xs ys = xs"

definition plus_eq :: "WireModQ \<Rightarrow> WireModQ \<Rightarrow> WireModQ" where
  "plus_eq w other = w\<lparr>wire_digits := plus_digits (modulus w) (wire_digits w) (wire_digits other)\<rparr>"

definition cmul_eq :: "WireModQ \<Rightarrow> nat \<Rightarrow> WireModQ" where
  "cmul_eq w c = w\<lparr>wire_digits := map (\<lambda>d. d * c mod 2 ^ 32 mod modulus w mod 2 ^ 16) (wire_digits w)\<rparr>"

definition negate_eq :: "WireModQ \<Rightarrow> WireModQ" where
  "negate_eq w = w\<lparr>wire_digits := map (\<lambda>d. if 0 < d then modulus w - d else 0) (wire_digits w)\<rparr>"

section \<open>The powers and the digit counts\<close>

lemmas npaths_defs =
  npaths_5_def npaths_6_def npaths_7_def npaths_9_def npaths_10_def npaths_11_def
  npaths_12_def npaths_13_def npaths_14_def npaths_15_def npaths_17_def npaths_18_def
  npaths_19_def npaths_20_def npaths_21_def npaths_22_def npaths_23_def npaths_24_def

lemma ceil_log2_pow: "2 ^ k < n \<Longrightarrow> n \<le> 2 ^ Suc k \<Longrightarrow> ceil_log2 n = Suc k"
proof (induction k arbitrary: n)
  case 0
  then have "n = 2" by simp
  then show ?case by (simp add: ceil_log2.simps)
next
  case (Suc k)
  then have "2 ^ k < (n + 1) div 2" and "(n + 1) div 2 \<le> 2 ^ Suc k" and "1 < n"
    by (simp_all add: less_le_trans [OF one_less_power])
  with Suc.IH show ?case by (subst ceil_log2.simps) simp
qed

lemma pow_interval:
  assumes "2 \<le> (n :: nat)"
  obtains k where "2 ^ k < n" and "n \<le> 2 ^ Suc k"
proof -
  define k where "k = (LEAST j. n \<le> 2 ^ Suc j)"
  have "n \<le> 2 ^ Suc n" unfolding power_Suc using less_exp [of n] by linarith
  then have up: "n \<le> 2 ^ Suc k" unfolding k_def by (rule LeastI)
  have "2 ^ k < n"
  proof (cases k)
    case (Suc j)
    then have "j < k" by simp
    then have "\<not> n \<le> 2 ^ Suc j" unfolding k_def by (rule not_less_Least)
    with Suc show ?thesis by simp
  qed (use assms in simp)
  with up that show thesis by blast
qed

text \<open>The thresholds of \<open>digits_per_u128\<close> are those of the general formula.\<close>

lemma digits_per_u128_log:
  assumes "2 ^ k < q" and "q \<le> 2 ^ Suc k"
  shows "digits_per_u128 q = 128 div Suc k"
proof (cases "k < 9")
  case True
  then have "k \<in> {0, 1, 2, 3, 4, 5, 6, 7, 8}" by auto
  with assms show ?thesis by (auto simp: digits_per_u128_def simp flip: numeral_2_eq_2)
next
  case False
  then have "2 ^ 9 \<le> (2 :: nat) ^ k" by (intro power_increasing) simp_all
  with assms have "512 < q" by simp
  with ceil_log2_pow [OF assms] show ?thesis by (simp add: digits_per_u128_def)
qed

lemma is_power_of_2_pow [simp]: "is_power_of_2 (2 ^ k)"
proof -
  have "2 ^ k AND mask k = take_bit k (2 ^ k :: nat)" by (rule take_bit_eq_mask [symmetric])
  also have "\<dots> = 0" by (simp add: take_bit_eq_mod)
  finally show ?thesis by (simp add: is_power_of_2_def mask_eq_exp_minus_1)
qed

lemma not_power_of_2:
  assumes "2 ^ k < q" and "q < 2 ^ Suc k"
  shows "\<not> is_power_of_2 q"
proof -
  have "q div 2 ^ k = 1" and "(q - 1) div 2 ^ k = 1"
    using assms by (auto intro!: div_nat_eqI)
  then have "bit q k" and "bit (q - 1) k" by (simp_all add: bit_iff_odd)
  then have "bit (q AND (q - 1)) k" by (simp only: bit_and_iff)
  then show ?thesis unfolding is_power_of_2_def by (metis bit_0_eq bot_apply bot_bool_def)
qed

lemma digits_below:
  assumes "2 \<le> q" and "\<not> is_power_of_2 q" and "q < 2 ^ 16"
  shows "q ^ digits_per_u128 q < 2 ^ 128" and "0 < digits_per_u128 q"
proof -
  obtain k where k: "2 ^ k < q" "q \<le> 2 ^ Suc k" using pow_interval [OF assms(1)] .
  with assms(2) have less: "q < 2 ^ Suc k" by (metis is_power_of_2_pow le_neq_implies_less)
  have "(2 :: nat) ^ k < 2 ^ 16" using k(1) assms(3) by (rule less_trans)
  then have "k < 16" by (rule power_less_imp_less_exp [rotated]) simp
  then have "Suc k \<le> 128" by simp
  then have pos: "0 < 128 div Suc k" by (simp add: div_greater_zero_iff)
  then show "0 < digits_per_u128 q" by (simp add: digits_per_u128_log [OF k])
  have "q ^ digits_per_u128 q < (2 ^ Suc k) ^ (128 div Suc k)"
    using power_strict_mono [OF less _ pos] by (simp add: digits_per_u128_log [OF k])
  also have "\<dots> \<le> 2 ^ 128" unfolding power_mult [symmetric] by (intro power_increasing times_div_less_eq_dividend) simp
  finally show "q ^ digits_per_u128 q < 2 ^ 128" .
qed

lemma digits_capacity:
  assumes "2 \<le> q" and "q < 2 ^ 16"
  shows "q ^ digits_per_u128 q \<le> 2 ^ 128"
proof -
  obtain k where k: "2 ^ k < q" "q \<le> 2 ^ Suc k" using pow_interval [OF assms(1)] .
  have "q ^ digits_per_u128 q \<le> (2 ^ Suc k) ^ (128 div Suc k)"
    using power_mono [OF k(2)] by (simp add: digits_per_u128_log [OF k])
  also have "\<dots> \<le> 2 ^ 128" unfolding power_mult [symmetric] by (intro power_increasing times_div_less_eq_dividend) simp
  finally show ?thesis .
qed

lemma block_value_less: "length inp = 16 \<Longrightarrow> u128_from_block inp < 2 ^ 128"
  using val_less [of 256 "map unat inp"] unat_u8_less
  by (simp add: u128_from_block_def proper_def list_all_iff)

lemma npaths_cases_powers:
  "list_all (\<lambda>(q, tab). tab = map (\<lambda>i. q ^ i) [0..<digits_per_u128 q]) npaths_cases"
  by (simp add: npaths_cases_def npaths_defs digits_per_u128_def upt_rec)

lemma npaths_powers_exact:
  "x * q ^ n < 2 ^ 128 \<Longrightarrow> 0 < q \<Longrightarrow> npaths_powers q x (Suc n) = map (\<lambda>i. x * q ^ i) [0..<Suc n]"
proof (induction n arbitrary: x)
  case (Suc n)
  have "x * q \<le> x * q ^ Suc n" using Suc.prems(2) by simp
  then have "x * q mod 2 ^ 128 = x * q" using Suc.prems(1) by (intro mod_less) linarith
  moreover have "npaths_powers q (x * q) (Suc n) = map (\<lambda>i. x * q * q ^ i) [0..<Suc n]"
    using Suc.prems by (intro Suc.IH) (simp_all add: ac_simps)
  moreover have "[0..<Suc (Suc n)] = 0 # map Suc [0..<Suc n]" by (simp add: upt_conv_Cons map_Suc_upt)
  ultimately show ?case by (simp add: ac_simps del: upt_Suc npaths_powers.simps(2) add: npaths_powers.simps(2) [of q x])
qed simp

lemma npaths_lookup_powers:
  assumes "2 \<le> q" and "\<not> is_power_of_2 q" and "q < 2 ^ 16"
  shows "npaths_lookup q = map (\<lambda>i. q ^ i) [0..<digits_per_u128 q]"
proof (cases "map_of npaths_cases q")
  case (Some tab)
  then have "(q, tab) \<in> set npaths_cases" by (rule map_of_SomeD)
  with npaths_cases_powers Some show ?thesis
    by (auto simp: npaths_lookup_def list_all_iff)
next
  case None
  obtain n where n: "digits_per_u128 q = Suc n" using digits_below(2) [OF assms] gr0_conv_Suc by blast
  have "q ^ n \<le> q ^ Suc n" using assms(1) by simp
  with digits_below(1) [OF assms] have "1 * q ^ n < 2 ^ 128" unfolding n by linarith
  with None n assms(1) npaths_powers_exact [of 1 q n] show ?thesis
    by (simp add: npaths_lookup_def del: npaths_powers.simps)
qed

section \<open>Repeated division gives the digits\<close>

lemma sub_u128_exact: "b \<le> a \<Longrightarrow> a < 2 ^ 128 \<Longrightarrow> sub_u128 a b = a - b"
proof -
  assume "b \<le> a" and a: "a < 2 ^ 128"
  then have "a + 2 ^ 128 - b = (a - b) + 2 ^ 128" by (simp only: diff_add_assoc2)
  then have "sub_u128 a b = (a - b) mod 2 ^ 128" by (simp only: sub_u128_def mod_add_self2)
  with a show ?thesis by (simp only: less_imp_diff_less mod_less)
qed

lemma search_finds:
  assumes "j \<le> x div m" and "x div m < q" and "0 < m" and "q * m < 2 ^ 128"
  shows "search q m j (j * m) x = Some (x div m, x mod m)"
  using assms(1)
proof (induction "x div m - j" arbitrary: j)
  case 0
  then have j: "j = x div m" by simp
  have x: "x < j * m + m"
    using dividend_less_div_times [OF assms(3), of x] by (simp add: j)
  have top: "j * m + m < 2 ^ 128"
    using mult_le_mono1 [of "Suc j" q m] assms(2,4) j by simp
  then have acc: "(j * m + m) mod 2 ^ 128 = j * m + m" by (rule mod_less)
  have "sub_u128 (j * m + m) m = j * m" using top by (simp add: sub_u128_exact)
  moreover have "sub_u128 x (j * m) = x mod m"
    using x top j by (subst sub_u128_exact) (simp_all add: modulo_nat_def mult.commute)
  ultimately show ?case
    unfolding search.simps [of q m j "j * m" x] Let_def acc using assms(2) x j by simp
next
  case (Suc d)
  then have less: "Suc j \<le> x div m" by simp
  have "Suc j * m \<le> q * m" using less assms(2) by (intro mult_le_mono1) simp
  then have "j * m + m < 2 ^ 128" using assms(4) by simp
  then have acc: "(j * m + m) mod 2 ^ 128 = Suc j * m" by (simp only: mod_less mult_Suc add.commute)
  moreover have "\<not> x < Suc j * m" using less assms(3) by (simp only: less_eq_div_iff_mult_less_eq not_less)
  moreover have "search q m (Suc j) (Suc j * m) x = Some (x div m, x mod m)"
    using Suc less by (intro Suc.hyps(1)) simp_all
  ultimately show ?case
    unfolding search.simps [of q m j "j * m" x] Let_def acc using assms(2) less by simp
qed

text \<open>The loop writes the digits below \<open>i\<close>, the highest first.\<close>

lemma base_digits_snoc: "base_digits q (Suc n) x = base_digits q n x @ [x div q ^ n mod q]"
  by (induction n arbitrary: x) (simp_all add: div_mult2_eq)

lemma unrank_loop_digits:
  assumes tab: "\<forall>j<n. j < length tab \<and> tab ! j = q ^ j" and q: "2 \<le> q" "q < 2 ^ 16"
    and bound: "q ^ n < 2 ^ 128"
  shows "i \<le> n \<Longrightarrow> x < q ^ i \<Longrightarrow> i \<le> length ds \<Longrightarrow>
    unrank_loop q tab i x ds = Inr (base_digits q i x @ drop i ds)"
proof (induction i arbitrary: x ds)
  case (Suc i)
  let ?m = "q ^ i"
  have m: "0 < ?m" "read_at tab i = Inr ?m" using tab q Suc.prems(1) by (simp_all add: buffer_simps)
  have d: "x div ?m < q" using Suc.prems(2) by (simp add: less_mult_imp_div_less)
  have top: "q * ?m < 2 ^ 128"
    using power_increasing [of "Suc i" n q] q(1) Suc.prems(1) bound by simp
  have "unrank_loop q tab i (x mod ?m) (ds[i := x div ?m]) =
      Inr (base_digits q i (x mod ?m) @ drop i (ds[i := x div ?m]))"
    using Suc.prems m by (intro Suc.IH) simp_all
  also have "base_digits q i (x mod ?m) @ drop i (ds[i := x div ?m]) = base_digits q (Suc i) x @ drop (Suc i) ds"
    using Suc.prems(3) q(1) d base_digits_mod [of q i x]
    by (simp add: base_digits_snoc drop_update_swap Cons_nth_drop_Suc [symmetric] del: base_digits.simps)
  finally have rest: "unrank_loop q tab i (x mod ?m) (ds[i := x div ?m]) =
      Inr (base_digits q (Suc i) x @ drop (Suc i) ds)" .
  have "x < 2 ^ 128" using Suc.prems(2) top by simp
  then have "sub_u128 x (x div ?m * ?m mod 2 ^ 128) = x mod ?m"
    by (subst sub_u128_exact) (simp_all add: minus_div_mult_eq_mod le_less_trans [OF div_times_less_eq_dividend])
  moreover have "x div ?m mod 2 ^ 16 = x div ?m" using d q(2) by simp
  ultimately show ?case
    using m rest search_finds [of 0 x ?m q] d top by (simp add: Let_def)
qed simp

lemma unrank_digits:
  assumes "2 \<le> q" and "\<not> is_power_of_2 q" and "q < 2 ^ 16"
  shows "unrank x q = Inr (base_digits q (digits_per_u128 q) x)"
proof -
  let ?n = "digits_per_u128 q" and ?tab = "npaths_lookup q"
  have tab: "?tab = map (\<lambda>i. q ^ i) [0..<?n]" using npaths_lookup_powers [OF assms] .
  note n = digits_below [OF assms]
  have "read_at ?tab (?n - 1) = Inr (q ^ (?n - 1))" using n by (simp add: tab buffer_simps)
  moreover have "q ^ (?n - 1) * q mod 2 ^ 128 = q ^ ?n"
    unfolding power_minus_mult [OF n(2)] using n(1) by (rule mod_less)
  moreover have "unrank_loop q ?tab ?n (x mod q ^ ?n) (replicate ?n 0) =
      Inr (base_digits q ?n (x mod q ^ ?n) @ drop ?n (replicate ?n 0))"
    using assms n by (intro unrank_loop_digits [where n = ?n]) (simp_all add: tab)
  ultimately show ?thesis
    using assms(1) base_digits_mod [of q ?n x] by (simp add: unrank_def Let_def)
qed

section \<open>Every way of \<open>from_block\<close> gives the digits\<close>

lemma base_digits_map: "base_digits q n x = map (\<lambda>i. x div q ^ i mod q) [0..<n]"
proof (induction n)
  case (Suc n)
  then show ?case by (simp add: base_digits_snoc del: base_digits.simps(2))
qed simp

lemma digits_per_power: "0 < k \<Longrightarrow> digits_per_u128 (2 ^ k) = 128 div k"
  using digits_per_u128_log [of "k - 1" "2 ^ k"] by (cases k) simp_all

lemma bit_fields_value:
  assumes "0 < k"
  shows "bit_fields x (2 ^ k) =
    (let d = 128 div k; w = 128 div d in map (\<lambda>i. x div 2 ^ (w * i) mod 2 ^ w mod 2 ^ 16) [0..<d])"
  by (simp only: bit_fields_def digits_per_power [OF assms] Let_def drop_bit_eq_div
      mask_eq_exp_minus_1 [symmetric] take_bit_eq_mask [symmetric] take_bit_eq_mod)

lemma bit_fields_digits:
  assumes "0 < k" and "k \<le> 16" and "128 div (128 div k) = k"
  shows "bit_fields x (2 ^ k) = base_digits (2 ^ k) (128 div k) x"
proof -
  have "(2 :: nat) ^ k \<le> 2 ^ 16" using assms(2) by (intro power_increasing) simp_all
  then have small: "y mod 2 ^ k mod 2 ^ 16 = y mod (2 :: nat) ^ k" for y
    using less_le_trans [OF mod_less_divisor [of "2 ^ k" y]] by (intro mod_less) simp
  show ?thesis
    by (simp only: bit_fields_value [OF assms(1)] Let_def assms(3) base_digits_map small power_mult)
qed

text \<open>
  The widths: for the powers of two below \<open>2 ^ 16\<close> the field has the width of the modulus, except for
  \<open>2 ^ 13\<close> (9 fields of 14 bits) and \<open>2 ^ 15\<close> (8 fields of 16 bits).
\<close>

lemma field_width:
  "0 < k \<Longrightarrow> k < 16 \<Longrightarrow> k \<noteq> 13 \<Longrightarrow> k \<noteq> 15 \<Longrightarrow> 128 div (128 div k) = (k :: nat)"
proof -
  assume "0 < k" "k < 16" "k \<noteq> 13" "k \<noteq> 15"
  then have "k \<in> {1, 2, 3, 4, 5, 6, 7, 8, 9, 10, 11, 12, 14}"
    unfolding insert_iff empty_iff by presburger
  then show ?thesis by (elim insertE) simp_all
qed

lemma lookup_defined: "lookup_defined_for_mod q = Inr (5 \<le> q \<and> q \<le> 113)"
  using table_width_bounds(1,2) [of q 0] c_num_digits_undefined [of q 0]
  by (cases "5 \<le> q \<and> q \<le> 113") (auto simp: lookup_defined_for_mod_def)

lemma power_of_2_cases:
  assumes "is_power_of_2 q" and "2 \<le> q" and "q < 2 ^ 16"
  obtains k where "q = 2 ^ k" and "0 < k" and "k < 16"
proof -
  obtain k where k: "2 ^ k < q" "q \<le> 2 ^ Suc k" using pow_interval [OF assms(2)] .
  with assms(1) not_power_of_2 [of k q] have q: "q = 2 ^ Suc k" by (meson le_neq_implies_less)
  with assms(3) have "(2 :: nat) ^ Suc k < 2 ^ 16" by simp
  then have "Suc k < 16" by (rule power_less_imp_less_exp [rotated]) simp
  with q that [of "Suc k"] show thesis by simp
qed

text \<open>The three ways agree, given the tables where they are used.\<close>

lemma from_block_digits:
  assumes q: "2 \<le> q" "q < 2 ^ 16" "q \<noteq> 2 ^ 13" "q \<noteq> 2 ^ 15" and len: "length inp = 16"
    and tables: "23 < q \<Longrightarrow> q \<le> 113 \<Longrightarrow> \<not> is_power_of_2 q \<Longrightarrow> digit_tables words q"
  shows "from_block words inp q = Inr \<lparr>modulus = q,
    wire_digits = base_digits q (digits_per_u128 q) (u128_from_block inp)\<rparr>"
proof (cases "is_power_of_2 q")
  case True
  then obtain k where k: "q = 2 ^ k" "0 < k" "k < 16" using power_of_2_cases q by blast
  then have "k \<noteq> 13" "k \<noteq> 15" using q by auto
  then have "bit_fields x q = base_digits q (digits_per_u128 q) x" for x
    using k bit_fields_digits [of k] field_width [of k] by (simp add: digits_per_power)
  with True q show ?thesis by (simp add: from_block_def)
next
  case False
  note unrank = unrank_digits [OF q(1) False q(2)]
  show ?thesis
  proof (cases "23 < q \<and> q \<le> 113")
    case True
    then have "digit_tables words q" using tables False by simp
    then have "from_block_lookup words inp q = Inr (base_digits q (digits_per_u128 q) (u128_from_block inp))"
      using len by (rule digit_tables.from_block_lookup_digits)
    with True False show ?thesis by (simp add: from_block_def lookup_defined)
  qed (use False q unrank in \<open>auto simp: from_block_def lookup_defined\<close>)
qed

section \<open>Label arithmetic\<close>

text \<open>A well-formed label: the modulus is a \<open>u16\<close> of at least 2, the digits are reduced and as many as fit.\<close>

definition wire_ok :: "WireModQ \<Rightarrow> bool" where
  "wire_ok w = (2 \<le> modulus w \<and> modulus w < 2 ^ 16 \<and>
     length (wire_digits w) = digits_per_u128 (modulus w) \<and> proper (modulus w) (wire_digits w))"

lemma plus_digits_mod:
  "q \<le> 2 ^ 15 \<Longrightarrow> proper q xs \<Longrightarrow> proper q ys \<Longrightarrow> length xs = length ys \<Longrightarrow>
   plus_digits q xs ys = map2 (\<lambda>x y. (x + y) mod q) xs ys"
  by (induction q xs ys rule: plus_digits.induct)
    (auto simp: digit_simps Let_def mod_if)

lemma proper_map: "(\<And>x. x \<in> set xs \<Longrightarrow> f x < q) \<Longrightarrow> proper q (map f xs)"
  by (simp add: proper_def list_all_iff)

lemma plus_eq_digits:
  assumes "wire_ok w" and "wire_ok v" and "modulus v = modulus w" and "modulus w \<le> 2 ^ 15"
  shows "wire_digits (plus_eq w v) = map2 (\<lambda>x y. (x + y) mod modulus w) (wire_digits w) (wire_digits v)"
  using assms by (simp add: plus_eq_def wire_ok_def plus_digits_mod)

lemma plus_eq_ok:
  assumes "wire_ok w" and "wire_ok v" and "modulus v = modulus w" and "modulus w \<le> 2 ^ 15"
  shows "wire_ok (plus_eq w v)"
proof -
  have "modulus (plus_eq w v) = modulus w" by (simp add: plus_eq_def)
  with assms plus_eq_digits [OF assms] show ?thesis
    unfolding wire_ok_def by (auto intro!: proper_map)
qed

lemma cmul_eq_digits:
  assumes "wire_ok w" and "c < 2 ^ 16"
  shows "wire_digits (cmul_eq w c) = map (\<lambda>d. d * c mod modulus w) (wire_digits w)"
proof -
  have "d * c mod 2 ^ 32 mod modulus w mod 2 ^ 16 = d * c mod modulus w" if "d \<in> set (wire_digits w)" for d
  proof -
    have "d < 2 ^ 16" and "0 < modulus w" and q: "modulus w < 2 ^ 16"
      using assms(1) that by (auto simp: wire_ok_def proper_def list_all_iff)
    then have "d * c < 2 ^ 16 * 2 ^ 16" using assms(2) by (intro mult_strict_mono) simp_all
    moreover have "d * c mod modulus w < 2 ^ 16"
      using mod_less_divisor [OF \<open>0 < modulus w\<close>] q by (rule less_trans)
    ultimately show ?thesis by simp
  qed
  then show ?thesis by (simp add: cmul_eq_def)
qed

lemma cmul_eq_ok: "wire_ok w \<Longrightarrow> c < 2 ^ 16 \<Longrightarrow> wire_ok (cmul_eq w c)"
proof -
  assume *: "wire_ok w" "c < 2 ^ 16"
  have "modulus (cmul_eq w c) = modulus w" by (simp add: cmul_eq_def)
  with *(1) cmul_eq_digits [OF *] show ?thesis
    unfolding wire_ok_def by (auto intro!: proper_map)
qed

lemma negate_eq_ok: "wire_ok w \<Longrightarrow> wire_ok (negate_eq w)"
  by (auto simp: wire_ok_def negate_eq_def intro!: proper_map)

lemma zero_ok: "zero q = Inr w \<Longrightarrow> q < 2 ^ 16 \<Longrightarrow> wire_ok w"
  by (auto simp: zero_def wire_ok_def proper_def list_all_iff split: if_splits)

lemma plus_negate:
  "q \<le> 2 ^ 15 \<Longrightarrow> proper q xs \<Longrightarrow> plus_digits q xs (map (\<lambda>d. if 0 < d then q - d else 0) xs) = replicate (length xs) 0"
  by (induction xs) (auto simp: digit_simps Let_def)

text \<open>
  C11.  The arithmetic of labels modulo \<open>q\<close>, for \<open>q\<close> up to \<open>2 ^ 15\<close>: \<open>plus_eq\<close>, \<open>cmul_eq\<close> and \<open>negate_eq\<close>
  keep labels well-formed, act digit by digit modulo \<open>q\<close> although they compute in \<open>u16\<close> and \<open>u32\<close>,
  and a label plus its negation is the zero label.
\<close>

theorem wire_arithmetic:
  assumes "wire_ok w" and "wire_ok v" and "modulus v = modulus w" and "modulus w \<le> 2 ^ 15" and "c < 2 ^ 16"
  shows "wire_ok (plus_eq w v) \<and> wire_ok (cmul_eq w c) \<and> wire_ok (negate_eq w) \<and>
    wire_digits (plus_eq w v) = map2 (\<lambda>x y. (x + y) mod modulus w) (wire_digits w) (wire_digits v) \<and>
    wire_digits (cmul_eq w c) = map (\<lambda>d. d * c mod modulus w) (wire_digits w) \<and>
    zero (modulus w) = Inr (plus_eq w (negate_eq w))"
proof -
  have "plus_eq w (negate_eq w) = \<lparr>modulus = modulus w, wire_digits = replicate (digits_per_u128 (modulus w)) 0\<rparr>"
    using assms(1,4) by (simp add: plus_eq_def negate_eq_def wire_ok_def plus_negate)
  then have "zero (modulus w) = Inr (plus_eq w (negate_eq w))"
    using assms(1) by (simp add: zero_def wire_ok_def)
  with assms show ?thesis
    by (simp add: plus_eq_ok cmul_eq_ok negate_eq_ok plus_eq_digits cmul_eq_digits)
qed

theorem wire_arithmetic_witness:
  "wire_digits (plus_eq \<lparr>modulus = 20000, wire_digits = [19999, 1, 2, 3, 4, 5, 6, 7]\<rparr>
     \<lparr>modulus = 20000, wire_digits = [19998, 0, 0, 0, 0, 0, 0, 1]\<rparr>) = [19997, 1, 2, 3, 4, 5, 6, 8]"
proof -
  have "digits_per_u128 20000 = 8" by (simp add: digits_per_u128_def ceil_log2.simps)
  then show ?thesis
    using wire_arithmetic [of "\<lparr>modulus = 20000, wire_digits = [19999, 1, 2, 3, 4, 5, 6, 7]\<rparr>"
      "\<lparr>modulus = 20000, wire_digits = [19998, 0, 0, 0, 0, 0, 0, 1]\<rparr>" 3]
    by (simp add: wire_ok_def proper_def)
qed

text \<open>
  C12.  Above \<open>2 ^ 15\<close> the sum of two digits wraps around in \<open>u16\<close>: for every modulus from
  32770 on, adding the largest digit to itself gives a digit that is not the sum modulo \<open>q\<close>.
\<close>

theorem plus_eq_wraps:
  assumes "32770 \<le> q" and "q < 2 ^ 16"
  shows "plus_digits q [q - 1] [q - 1] \<noteq> [(q - 1 + (q - 1)) mod q]"
proof -
  have "(q - 1 + (q - 1)) mod q = q - 2"
    using assms by (subst mod_if) (simp add: mod_if)
  moreover have "(q - 1 + (q - 1)) mod 2 ^ 16 = q - 1 + (q - 1) - 2 ^ 16"
    using assms by (subst mod_if) (simp add: mod_if)
  ultimately show ?thesis using assms by (auto simp: Let_def)
qed

theorem plus_eq_wraps_witness: "plus_digits 40000 [39999] [39999] \<noteq> [39998]"
  using plus_eq_wraps [of 40000] by simp

lemma ones_value: "val 256 (replicate n 255) + 1 = 256 ^ n"
  by (induction n) simp_all

lemma ones_fields:
  assumes "w * i + w \<le> 128"
  shows "(2 ^ 128 - 1) div 2 ^ (w * i) mod 2 ^ w = (2 ^ w - 1 :: nat)"
proof -
  have "take_bit w (drop_bit (w * i) (mask 128 :: nat)) = mask w"
    using assms by (intro bit_eqI) (auto simp: bit_take_bit_iff bit_drop_bit_eq bit_mask_iff)
  then show ?thesis by (simp add: take_bit_eq_mod drop_bit_eq_div mask_eq_exp_minus_1)
qed

lemma ones_map:
  assumes "w * d \<le> 128"
  shows "map (\<lambda>i. (2 ^ 128 - 1) div 2 ^ (w * i) mod 2 ^ w) [0..<d] = replicate d (2 ^ w - 1 :: nat)"
proof (rule nth_equalityI)
  fix i
  assume "i < length (map (\<lambda>i. (2 ^ 128 - 1) div 2 ^ (w * i) mod 2 ^ w :: nat) [0..<d])"
  then have "i < d" by simp
  then have "w * i + w \<le> 128" using assms mult_le_mono2 [of "Suc i" d w] by simp
  with \<open>i < d\<close> show "map (\<lambda>i. (2 ^ 128 - 1) div 2 ^ (w * i) mod 2 ^ w) [0..<d] ! i = replicate d (2 ^ w - 1 :: nat) ! i"
    by (simp only: ones_fields nth_map_upt nth_replicate length_replicate minus_nat.diff_0 add_0)
qed simp

lemma from_block_power:
  assumes "0 < k" and "128 div (128 div k) \<le> 16"
  shows "from_block words inp (2 ^ k) = (let d = 128 div k; w = 128 div d in
    Inr \<lparr>modulus = 2 ^ k, wire_digits = map (\<lambda>i. u128_from_block inp div 2 ^ (w * i) mod 2 ^ w) [0..<d]\<rparr>)"
proof -
  have two: "2 \<le> (2 :: nat) ^ k" using assms(1) power_increasing [of 1 k "2 :: nat"] by simp
  have "(2 :: nat) ^ (128 div (128 div k)) \<le> 2 ^ 16" using assms(2) by (intro power_increasing) simp_all
  then have small: "y mod 2 ^ (128 div (128 div k)) mod 2 ^ 16 = y mod (2 :: nat) ^ (128 div (128 div k))" for y
    using less_le_trans [OF mod_less_divisor [of "2 ^ (128 div (128 div k))" y]] by (intro mod_less) simp
  show ?thesis
    using two by (simp only: from_block_def bit_fields_value [OF assms(1)] Let_def small is_power_of_2_pow
        if_True bind_run_def sum.case not_less [symmetric] if_False)
qed

text \<open>
  C13.  For the moduli \<open>2 ^ 13\<close> and \<open>2 ^ 15\<close> \<open>from_block\<close> cuts the block into fields that are wider
  than the modulus: nine digits of \<open>128 / 9 = 14\<close> bits and eight digits of \<open>128 / 8 = 16\<close> bits.  The
  label of the block of all ones has the right number of digits, and not one of them is below \<open>q\<close>.
\<close>

theorem from_block_unreduced:
  "from_block words inp (2 ^ 13) =
     Inr \<lparr>modulus = 2 ^ 13, wire_digits = map (\<lambda>i. u128_from_block inp div 2 ^ (14 * i) mod 2 ^ 14) [0..<9]\<rparr> \<and>
   from_block words inp (2 ^ 15) =
     Inr \<lparr>modulus = 2 ^ 15, wire_digits = map (\<lambda>i. u128_from_block inp div 2 ^ (16 * i) mod 2 ^ 16) [0..<8]\<rparr> \<and>
   from_block words (replicate 16 255) (2 ^ 13) =
     Inr \<lparr>modulus = 2 ^ 13, wire_digits = replicate (digits_per_u128 (2 ^ 13)) (2 ^ 14 - 1)\<rparr> \<and>
   from_block words (replicate 16 255) (2 ^ 15) =
     Inr \<lparr>modulus = 2 ^ 15, wire_digits = replicate (digits_per_u128 (2 ^ 15)) (2 ^ 16 - 1)\<rparr> \<and>
   digits_per_u128 (2 ^ 13) = 9 \<and> digits_per_u128 (2 ^ 15) = 8"
proof -
  have 13: "from_block words inp (2 ^ 13) =
     Inr \<lparr>modulus = 2 ^ 13, wire_digits = map (\<lambda>i. u128_from_block inp div 2 ^ (14 * i) mod 2 ^ 14) [0..<9]\<rparr>" for inp
    using from_block_power [of 13 words inp] by (simp only: Let_def) simp
  have 15: "from_block words inp (2 ^ 15) =
     Inr \<lparr>modulus = 2 ^ 15, wire_digits = map (\<lambda>i. u128_from_block inp div 2 ^ (16 * i) mod 2 ^ 16) [0..<8]\<rparr>" for inp
    using from_block_power [of 15 words inp] by (simp only: Let_def) simp
  have d: "digits_per_u128 (2 ^ 13) = 9" "digits_per_u128 (2 ^ 15) = 8"
    using digits_per_power [of 13] digits_per_power [of 15] by simp_all
  have ones: "u128_from_block (replicate 16 255) = 2 ^ 128 - 1"
    using ones_value [of 16] by (simp add: u128_from_block_def)
  have "map (\<lambda>i. u128_from_block (replicate 16 255) div 2 ^ (14 * i) mod 2 ^ 14) [0..<9] = replicate 9 (2 ^ 14 - 1)"
    and "map (\<lambda>i. u128_from_block (replicate 16 255) div 2 ^ (16 * i) mod 2 ^ 16) [0..<8] = replicate 8 (2 ^ 16 - 1)"
    unfolding ones by (rule ones_map; simp)+
  with 13 15 d show ?thesis by (simp only: simp_thms)
qed

text \<open>
  The powers that \<open>_unrank\<close> divides by: the vector of \<open>npaths_tab::lookup\<close>, from its eighteen literal
  arms or from its loop, is \<open>[1, q, q ^ 2, ...]\<close>, one power for each digit, without wrap-around.
\<close>

theorem npaths_lookup_correct:
  assumes "2 \<le> q" and "\<not> is_power_of_2 q" and "q < 2 ^ 16"
  shows "npaths_lookup q = map (\<lambda>i. q ^ i) [0..<digits_per_u128 q] \<and> q ^ digits_per_u128 q < 2 ^ 128"
  using npaths_lookup_powers [OF assms] digits_below [OF assms] by simp

theorem npaths_lookup_correct_witness: "npaths_lookup 24 = map (\<lambda>i. 24 ^ i) [0..<25]"
  using npaths_lookup_correct [of 24] not_power_of_2 [of 4 24] by (simp add: digits_per_u128_def del: upt_rec_numeral)

end
