(* ===== verification/Fancy_Digits.thy ===== *)
theory Fancy_Digits
  imports Static_Tables Wire_Mod_Q
begin

text \<open>
  The properties of the block-to-digits conversion as a whole: the C tables, their wrapper, the digit
  arithmetic and the wire labels together, on the static data of \<^verbatim>\<open>lookup_tables.c\<close>.
\<close>

lemma digit_tables_static: "q \<in> {43, 47} \<Longrightarrow> digit_tables (table_words rest) q"
  using base43.digit_tables_axioms [of rest] base47.digit_tables_axioms [of rest] by auto

lemma digit_tables_generated:
  "5 \<le> q \<Longrightarrow> q \<le> 113 \<Longrightarrow> \<forall>pos<16. words q pos = concat (snd (digits_for_pos pos q)) \<Longrightarrow> digit_tables words q"
  by unfold_locales simp_all

lemma from_block_static:
  assumes "2 \<le> q" and "q < 2 ^ 16" and "q \<noteq> 2 ^ 13" and "q \<noteq> 2 ^ 15" and "length inp = 16"
    and "q \<in> {43, 47} \<or> q \<le> 23 \<or> 113 < q \<or> is_power_of_2 q \<or>
      (\<forall>pos<16. table_words rest q pos = concat (snd (digits_for_pos pos q)))"
  shows "from_block (table_words rest) inp q = Inr \<lparr>modulus = q,
    wire_digits = base_digits q (digits_per_u128 q) (u128_from_block inp)\<rparr>"
  using assms digit_tables_static digit_tables_generated [of q] by (intro from_block_digits) auto

text \<open>
  C8.  \<open>WireModQ::from_block\<close> computes the reference conversion \<open>as_base_q_u128\<close> on every block of 16
  bytes, for these moduli below \<open>2 ^ 16\<close>: the powers of two other than \<open>2 ^ 13\<close> and \<open>2 ^ 15\<close> (bit
  fields), those up to 23 (\<open>_unrank\<close> with its linear search), those above 113 (\<open>_unrank\<close> with its
  division), 43 and 47 (sums of rows of the transcribed C tables), and each of the other table bases
  from 24 to 113 whose sixteen C tables, the argument \<open>rest\<close>, hold what \<^verbatim>\<open>make_lookup_tables.py\<close> prints.  All give
  the same digits as repeated remainder and division.
\<close>

theorem from_block_agrees:
  assumes "2 \<le> q" and "q < 2 ^ 16" and "q \<noteq> 2 ^ 13" and "q \<noteq> 2 ^ 15" and "length inp = 16"
    and "q \<in> {43, 47} \<or> q \<le> 23 \<or> 113 < q \<or> is_power_of_2 q \<or>
      (\<forall>pos<16. table_words rest q pos = concat (snd (digits_for_pos pos q)))"
  shows "from_block (table_words rest) inp q =
    bind_run (as_base_q_u128 (u128_from_block inp) q) (\<lambda>ds. Inr \<lparr>modulus = q, wire_digits = ds\<rparr>)"
  using from_block_static [OF assms] assms(1,2)
  by (simp add: as_base_q_u128_def as_base_q_def as_mixed_radix_digits)

theorem from_block_agrees_witness:
  "from_block (table_words (\<lambda>_ _. [])) (replicate 16 255) 47 =
    bind_run (as_base_q_u128 (u128_from_block (replicate 16 255)) 47) (\<lambda>ds. Inr \<lparr>modulus = 47, wire_digits = ds\<rparr>)"
  by (rule from_block_agrees) simp_all

text \<open>
  C9.  Packing a label back, for the moduli of the previous property: the label of a block is
  well-formed, and its block is the input block modulo \<open>q ^ digits_per_u128 q\<close>, a power of at most
  \<open>2 ^ 128\<close>; the wrapping \<open>u128\<close> arithmetic of \<open>as_block\<close> gives the exact positional value of the digits.
  For the moduli whose digits fill the block exactly (2, 4, 16 and 256) it is the input block itself.
\<close>

theorem from_block_as_block:
  assumes "2 \<le> q" and "q < 2 ^ 16" and "q \<noteq> 2 ^ 13" and "q \<noteq> 2 ^ 15" and "length inp = 16"
    and "q \<in> {43, 47} \<or> q \<le> 23 \<or> 113 < q \<or> is_power_of_2 q \<or>
      (\<forall>pos<16. table_words rest q pos = concat (snd (digits_for_pos pos q)))"
  shows "\<exists>w. from_block (table_words rest) inp q = Inr w \<and> wire_ok w \<and>
    as_block w = u128_from_block inp mod q ^ digits_per_u128 q \<and> q ^ digits_per_u128 q \<le> 2 ^ 128 \<and>
    as_block w = val q (wire_digits w) \<and>
    (q \<in> {2, 4, 16, 256} \<longrightarrow> as_block w = u128_from_block inp)"
proof -
  define ds where "ds = base_digits q (digits_per_u128 q) (u128_from_block inp)"
  have ds: "proper q ds" "length ds = digits_per_u128 q"
    using assms(1) by (simp_all add: ds_def digit_simps)
  have cap: "q ^ digits_per_u128 q \<le> 2 ^ 128" using digits_capacity [OF assms(1,2)] .
  then have exact: "from_base_q ds q = val q ds" using from_base_q_val [of q ds] ds by simp
  then have block: "from_base_q ds q = u128_from_block inp mod q ^ digits_per_u128 q"
    using assms(1) by (simp add: ds_def digit_simps)
  have "u128_from_block inp mod q ^ digits_per_u128 q = u128_from_block inp" if "q \<in> {2, 4, 16, 256}"
  proof -
    have "q ^ digits_per_u128 q = 2 ^ 128" using that by (auto simp: digits_per_u128_def)
    then show ?thesis using block_value_less [OF assms(5)] by simp
  qed
  with from_block_static [OF assms] ds block exact cap assms(1,2) show ?thesis
    by (auto simp: as_block_def wire_ok_def ds_def)
qed

theorem from_block_as_block_witness:
  "\<exists>w. from_block (table_words (\<lambda>_ _. [])) (replicate 16 7) 256 = Inr w \<and> wire_ok w \<and>
    as_block w = u128_from_block (replicate 16 7)"
  using from_block_as_block [of 256 "replicate 16 7" "\<lambda>_ _. []"] is_power_of_2_pow [of 8] by auto

text \<open>
  C10.  The transcribed tables are the generator's: every one of the sixteen tables of each of the bases
  43 and 47, and the table of position 0 of every base from 5 to 49, is, row for row and digit for digit, what
  \<open>digits_for_pos\<close> of \<^verbatim>\<open>make_lookup_tables.py\<close> computes.
\<close>

theorem tables_match_generator:
  "BASE43_tables = map (\<lambda>pos. snd (digits_for_pos pos 43)) [0..<16] \<and>
   BASE47_tables = map (\<lambda>pos. snd (digits_for_pos pos 47)) [0..<16] \<and>
   POS0_tables = map (\<lambda>q. snd (digits_for_pos 0 q)) [5..<50]"
proof -
  have len: "length BASE43_tables = 16" "length BASE47_tables = 16" "length POS0_tables = 45"
    by (simp_all add: BASE43_tables_def BASE47_tables_def POS0_tables_def)
  have "POS0_tables ! i = snd (digits_for_pos 0 (5 + i))" if "i < 45" for i
    using POS0_contents [of "5 + i"] that by simp
  with len show ?thesis
    by (auto intro!: nth_equalityI simp: BASE43_contents BASE47_contents simp del: upt_rec_numeral)
qed

text \<open>
  A byte looked up at position 0, for any base from 5 to 49: the wrapper finds the row of the static data without a
  fault, its digits are reduced, and read in base \<open>q\<close> they are the byte again.
\<close>

theorem byte_lookup_round_trip:
  assumes "5 \<le> q" and "q \<le> 49" and "x < 256"
  shows "\<exists>ds. lookup_digits_mod_at_position (table_words rest) x q 0 = Inr ds \<and> proper q ds \<and>
    val q ds = x \<and> from_base_q ds q = x"
proof -
  define ds where "ds = base_digits q (byte_width q) x"
  have "lookup_digits_mod_at_position (table_words rest) x q 0 = Inr ds"
    using lookup_row_at [of q x 0 "table_words rest"] table_words_POS0 [OF assms(1,2)] assms
    by (simp add: ds_def byte_width_table)
  moreover have "byte_width q \<le> 4" by (simp add: byte_width_def)
  then have "q ^ byte_width q \<le> 49 ^ 4"
    using power_mono [OF assms(2), of "byte_width q"] power_increasing [of "byte_width q" 4 "49 :: nat"] by linarith
  moreover have cap: "255 < q ^ byte_width q"
    using table_width_bounds(4) [of q 0] assms by (simp add: byte_width_table)
  moreover have "proper q ds" "val q ds = x" "length ds = byte_width q"
    using assms cap by (simp_all add: ds_def digit_simps)
  moreover have "from_base_q ds q = val q ds"
    using from_base_q_val [of q ds] calculation by simp
  ultimately show ?thesis by simp
qed

theorem byte_lookup_round_trip_witness:
  "\<exists>ds. lookup_digits_mod_at_position (table_words (\<lambda>_ _. [])) 200 7 0 = Inr ds \<and> proper 7 ds \<and>
    val 7 ds = 200 \<and> from_base_q ds 7 = 200"
  by (rule byte_lookup_round_trip) simp_all

end
