(* ===== verification/Transpose_C.thy ===== *)
theory Transpose_C
  imports Prelude
begin

text \<open>
  The bit-matrix transpose \<open>sse_trans\<close> of \<^verbatim>\<open>ocelot/cbits/transpose.c\<close>, written with SSE2
  intrinsics: a register is a 128-bit word, memory is a byte list with checked accesses, every
  index is a \<open>uint64_t\<close> and wraps around.  The loops are partial functions, so that a loop that
  never ends is the value \<open>None\<close>; an access outside a buffer is a fault.
\<close>

section \<open>The SSE2 intrinsics\<close>

text \<open>A register from its sixteen bytes, byte 0 least significant.\<close>

definition mm_of_bytes :: "bytes \<Rightarrow> u128" where
  "mm_of_bytes bs = foldr (\<lambda>b v. ucast b OR push_bit 8 v) bs 0"

text \<open>\<open>_mm_set_epi8 (e15, \<dots>, e0)\<close>: the arguments come most significant byte first.\<close>

definition mm_set_epi8 :: "bytes \<Rightarrow> u128" where
  "mm_set_epi8 es = mm_of_bytes (rev es)"

text \<open>\<open>_mm_set_epi16 (e7, \<dots>, e0)\<close>: eight 16-bit lanes, most significant first.\<close>

definition mm_set_epi16 :: "u16 list \<Rightarrow> u128" where
  "mm_set_epi16 es = foldr (\<lambda>e v. ucast e OR push_bit 16 v) (rev es) 0"

text \<open>\<open>_mm_slli_epi64 (v, n)\<close>: both 64-bit lanes shifted left on their own.\<close>

definition mm_slli_epi64 :: "u128 \<Rightarrow> nat \<Rightarrow> u128" where
  "mm_slli_epi64 v n =
     take_bit 64 (push_bit n (take_bit 64 v)) OR push_bit 64 (push_bit n (drop_bit 64 v))"

text \<open>\<open>_mm_movemask_epi8 (v)\<close>: an \<open>int\<close> whose bit \<open>k\<close> is the top bit of byte \<open>k\<close>.\<close>

definition mm_movemask_epi8 :: "u128 \<Rightarrow> u32" where
  "mm_movemask_epi8 v = horner_sum of_bool 2 (map (\<lambda>k. bit v (8 * k + 7)) [0..<16])"

text \<open>The union \<open>tmp\<close>: an assignment to \<open>tmp.b[i]\<close> seen on \<open>tmp.x\<close>.\<close>

definition set_byte :: "u128 \<Rightarrow> nat \<Rightarrow> u8 \<Rightarrow> u128" where
  "set_byte v i b = (v AND NOT (push_bit (8 * i) (mask 8))) OR push_bit (8 * i) (ucast b)"

section \<open>Memory accesses\<close>

definition load8 :: "bytes \<Rightarrow> u64 \<Rightarrow> u8 run" where
  "load8 m ix = read_at m (unat ix)"

definition load16 :: "bytes \<Rightarrow> u64 \<Rightarrow> u16 run" where
  "load16 m ix = bind_run (read_at m (unat ix)) (\<lambda>lo. bind_run (read_at m (unat ix + 1))
     (\<lambda>hi. Inr (ucast lo OR push_bit 8 (ucast hi))))"

definition store8 :: "bytes \<Rightarrow> u64 \<Rightarrow> u8 \<Rightarrow> bytes run" where
  "store8 m ix v = write_at m (unat ix) v"

definition store16 :: "bytes \<Rightarrow> u64 \<Rightarrow> u16 \<Rightarrow> bytes run" where
  "store16 m ix v = bind_run (write_at m (unat ix) (ucast v))
     (\<lambda>m'. write_at m' (unat ix + 1) (ucast (drop_bit 8 v)))"

text \<open>The macros \<open>INP (x, y)\<close> and \<open>OUT (x, y)\<close> as indices.\<close>

definition INP :: "u64 \<Rightarrow> u64 \<Rightarrow> u64 \<Rightarrow> u64" where
  "INP ncols x y = x * ncols div 8 + y div 8"

definition OUT :: "u64 \<Rightarrow> u64 \<Rightarrow> u64 \<Rightarrow> u64" where
  "OUT nrows x y = y * nrows div 8 + x div 8"

section \<open>The main body: blocks of 16 rows and 8 columns\<close>

text \<open>\<open>for (i = 8; --i >= 0; vec <<= 1) *(uint16_t *)&OUT(rr, cc + i) = movemask (vec)\<close>\<close>

fun emit16 :: "u64 \<Rightarrow> u64 \<Rightarrow> u64 \<Rightarrow> nat \<Rightarrow> u128 \<Rightarrow> bytes \<Rightarrow> bytes run" where
  "emit16 nrows rr cc 0 vec out = Inr out"
| "emit16 nrows rr cc (Suc i) vec out =
     bind_run (store16 out (OUT nrows rr (cc + of_nat i)) (ucast (mm_movemask_epi8 vec)))
       (emit16 nrows rr cc i (mm_slli_epi64 vec 1))"

definition block16 :: "u64 \<Rightarrow> u64 \<Rightarrow> bytes \<Rightarrow> u64 \<Rightarrow> u64 \<Rightarrow> bytes \<Rightarrow> bytes run" where
  "block16 nrows ncols inp rr cc out =
     bind_run (map_run (\<lambda>k. load8 inp (INP ncols (rr + k) cc))
                 [15, 14, 13, 12, 11, 10, 9, 8, 7, 6, 5, 4, 3, 2, 1, 0])
       (\<lambda>es. emit16 nrows rr cc 8 (mm_set_epi8 es) out)"

text \<open>\<open>for (cc = 0; cc < ncols; cc += 8)\<close>\<close>

partial_function (option) cols16 ::
    "u64 \<Rightarrow> u64 \<Rightarrow> bytes \<Rightarrow> u64 \<Rightarrow> u64 \<Rightarrow> bytes \<Rightarrow> bytes run option" where
  "cols16 nrows ncols inp rr cc out =
     (if cc < ncols then
        (case block16 nrows ncols inp rr cc out of
           Inl e \<Rightarrow> Some (Inl e)
         | Inr out' \<Rightarrow> cols16 nrows ncols inp rr (cc + 8) out')
      else Some (Inr out))"

text \<open>\<open>for (rr = 0; rr <= nrows - 16; rr += 16)\<close>, with the final \<open>rr\<close>\<close>

partial_function (option) rows16 ::
    "u64 \<Rightarrow> u64 \<Rightarrow> bytes \<Rightarrow> u64 \<Rightarrow> bytes \<Rightarrow> (u64 \<times> bytes) run option" where
  "rows16 nrows ncols inp rr out =
     (if rr \<le> nrows - 16 then
        Option.bind (cols16 nrows ncols inp rr 0 out) (\<lambda>res.
          case res of
            Inl e \<Rightarrow> Some (Inl e)
          | Inr out' \<Rightarrow> rows16 nrows ncols inp (rr + 16) out')
      else Some (Inr (rr, out)))"

section \<open>The remainder: 8 rows\<close>

text \<open>\<open>tmp.b[i] = h = INP16; tmp.b[i + 8] = h >> 8\<close> for \<open>i = 0 \<dots> 7\<close>\<close>

fun fill_pair :: "u64 \<Rightarrow> bytes \<Rightarrow> u64 \<Rightarrow> u64 \<Rightarrow> nat list \<Rightarrow> u128 \<Rightarrow> u128 run" where
  "fill_pair ncols inp rr cc [] tmp = Inr tmp"
| "fill_pair ncols inp rr cc (i # is) tmp =
     bind_run (load16 inp (INP ncols (rr + of_nat i) cc))
       (\<lambda>h. fill_pair ncols inp rr cc is
              (set_byte (set_byte tmp i (ucast h)) (i + 8) (ucast (drop_bit 8 h))))"

text \<open>
  \<open>OUT(rr, cc + i) = h = movemask; OUT(rr, cc + i + 8) = h >> 8\<close> for \<open>i = 7 \<dots> 0\<close>;
  the shifted register is kept, since the union outlives the loop.
\<close>

fun emit_pair :: "u64 \<Rightarrow> u64 \<Rightarrow> u64 \<Rightarrow> nat \<Rightarrow> u128 \<Rightarrow> bytes \<Rightarrow> (u128 \<times> bytes) run" where
  "emit_pair nrows rr cc 0 x out = Inr (x, out)"
| "emit_pair nrows rr cc (Suc i) x out =
     (let h = mm_movemask_epi8 x in
      bind_run (store8 out (OUT nrows rr (cc + of_nat i)) (ucast h)) (\<lambda>out1.
      bind_run (store8 out1 (OUT nrows rr (cc + of_nat i + 8)) (ucast (drop_bit 8 h))) (\<lambda>out2.
      emit_pair nrows rr cc i (mm_slli_epi64 x 1) out2)))"

definition pair_block ::
    "u64 \<Rightarrow> u64 \<Rightarrow> bytes \<Rightarrow> u64 \<Rightarrow> u64 \<Rightarrow> u128 \<Rightarrow> bytes \<Rightarrow> (u128 \<times> bytes) run" where
  "pair_block nrows ncols inp rr cc tmp out =
     bind_run (fill_pair ncols inp rr cc [0..<8] tmp) (\<lambda>x. emit_pair nrows rr cc 8 x out)"

text \<open>The other arm: the register is filled with \<open>_mm_set_epi16\<close> and \<open>tmp\<close> is not touched.\<close>

definition pair_block16 ::
    "u64 \<Rightarrow> u64 \<Rightarrow> bytes \<Rightarrow> u64 \<Rightarrow> u64 \<Rightarrow> u128 \<Rightarrow> bytes \<Rightarrow> (u128 \<times> bytes) run" where
  "pair_block16 nrows ncols inp rr cc tmp out =
     bind_run (map_run (\<lambda>k. load16 inp (INP ncols (rr + k) cc)) [7, 6, 5, 4, 3, 2, 1, 0]) (\<lambda>es.
     bind_run (emit_pair nrows rr cc 8 (mm_set_epi16 es) out) (\<lambda>(_, out'). Inr (tmp, out')))"

text \<open>\<open>for (cc = 0; cc <= ncols - 16; cc += 16)\<close> around either body, with the final \<open>cc\<close>\<close>

partial_function (option) pairs ::
    "(u64 \<Rightarrow> u128 \<Rightarrow> bytes \<Rightarrow> (u128 \<times> bytes) run) \<Rightarrow> u64 \<Rightarrow> u64 \<Rightarrow> u128 \<Rightarrow> bytes
       \<Rightarrow> (u64 \<times> u128 \<times> bytes) run option" where
  "pairs body ncols cc tmp out =
     (if cc \<le> ncols - 16 then
        (case body cc tmp out of
           Inl e \<Rightarrow> Some (Inl e)
         | Inr (tmp', out') \<Rightarrow> pairs body ncols (cc + 16) tmp' out')
      else Some (Inr (cc, tmp, out)))"

text \<open>The remaining 8x8 block; \<open>tmp.b[8..15]\<close> keep what the loop before left there.\<close>

fun fill8 :: "u64 \<Rightarrow> bytes \<Rightarrow> u64 \<Rightarrow> u64 \<Rightarrow> nat list \<Rightarrow> u128 \<Rightarrow> u128 run" where
  "fill8 ncols inp rr cc [] tmp = Inr tmp"
| "fill8 ncols inp rr cc (i # is) tmp =
     bind_run (load8 inp (INP ncols (rr + of_nat i) cc))
       (\<lambda>b. fill8 ncols inp rr cc is (set_byte tmp i b))"

fun emit8 :: "u64 \<Rightarrow> u64 \<Rightarrow> u64 \<Rightarrow> nat \<Rightarrow> u128 \<Rightarrow> bytes \<Rightarrow> bytes run" where
  "emit8 nrows rr cc 0 x out = Inr out"
| "emit8 nrows rr cc (Suc i) x out =
     bind_run (store8 out (OUT nrows rr (cc + of_nat i)) (ucast (mm_movemask_epi8 x)))
       (emit8 nrows rr cc i (mm_slli_epi64 x 1))"

definition last_block :: "u64 \<Rightarrow> u64 \<Rightarrow> bytes \<Rightarrow> u64 \<Rightarrow> u64 \<Rightarrow> u128 \<Rightarrow> bytes \<Rightarrow> bytes run" where
  "last_block nrows ncols inp rr cc tmp out =
     bind_run (fill8 ncols inp rr cc [0..<8] tmp) (\<lambda>x. emit8 nrows rr cc 8 x out)"

section \<open>The whole function\<close>

text \<open>
  \<open>sse_trans (out, inp, nrows, ncols)\<close>; \<open>tmp0\<close> is the uninitialised content of the union.
\<close>

definition sse_trans :: "u128 \<Rightarrow> bytes \<Rightarrow> bytes \<Rightarrow> u64 \<Rightarrow> u64 \<Rightarrow> bytes run option" where
  "sse_trans tmp0 out inp nrows ncols =
     (if \<not> (nrows mod 8 = 0 \<and> ncols mod 8 = 0) then Some (Inl AssertFailed)
      else Option.bind (rows16 nrows ncols inp 0 out) (\<lambda>res.
        case res of
          Inl e \<Rightarrow> Some (Inl e)
        | Inr (rr, out1) \<Rightarrow>
            if rr = nrows then Some (Inr out1)
            else Option.bind
              (if (ncols mod 8 = 0 \<and> ncols mod 16 \<noteq> 0) \<or> (nrows mod 8 = 0 \<and> nrows mod 16 \<noteq> 0)
               then pairs (pair_block nrows ncols inp rr) ncols 0 tmp0 out1
               else pairs (pair_block16 nrows ncols inp rr) ncols 0 tmp0 out1) (\<lambda>res2.
              case res2 of
                Inl e \<Rightarrow> Some (Inl e)
              | Inr (cc, tmp, out2) \<Rightarrow>
                  if cc = ncols then Some (Inr out2)
                  else Some (last_block nrows ncols inp rr cc tmp out2))))"

end
