(* ===== verification/Bit_Matrix.thy ===== *)
theory Bit_Matrix
  imports Prelude
begin

text \<open>
  The reference for every transpose of the program: a bit matrix stored line by line in a byte
  buffer, its transpose as a function on buffers, and the interface \<open>bit_transposer\<close> that the
  oblivious-transfer code relies on.
\<close>

section \<open>Buffers from bits\<close>

definition pack :: "nat \<Rightarrow> (nat \<Rightarrow> bool) \<Rightarrow> bytes" where
  "pack n f = map (\<lambda>i. horner_sum of_bool 2 (map (\<lambda>j. f (8 * i + j)) [0..<8])) [0..<n]"

lemma length_pack [simp]: "length (pack n f) = n"
  by (simp add: pack_def)

lemma buf_bit_pack [simp]: "k < 8 * n \<Longrightarrow> buf_bit (pack n f) k = f k"
proof -
  assume "k < 8 * n"
  then have "k div 8 < n" and "8 * (k div 8) + k mod 8 = k" by auto
  then show ?thesis
    by (simp add: buf_bit_def pack_def bit_horner_sum_bit_word_iff)
qed

lemma pack_eqI: "length bs = n \<Longrightarrow> (\<And>k. k < 8 * n \<Longrightarrow> buf_bit bs k = f k) \<Longrightarrow> bs = pack n f"
  by (rule buf_eqI) simp_all

section \<open>The transpose\<close>

text \<open>\<open>m\<close> has \<open>N\<close> rows of \<open>M\<close> bits; the result has \<open>M\<close> rows of \<open>N\<close> bits.\<close>

definition bit_transpose :: "nat \<Rightarrow> nat \<Rightarrow> bytes \<Rightarrow> bytes" where
  "bit_transpose N M m = pack (length m) (\<lambda>k. buf_bit m (k mod N * M + k div N))"

lemma length_bit_transpose [simp]: "length (bit_transpose N M m) = length m"
  by (simp add: bit_transpose_def)

lemma bit_transpose_cell:
  assumes "8 * length m = N * M" "r < N" "c < M"
  shows "buf_bit (bit_transpose N M m) (c * N + r) = buf_bit m (r * M + c)"
proof -
  have "c * N + r < 8 * length m" using cell_less [OF assms(2,3)] assms(1) by (simp add: mult.commute)
  with assms show ?thesis by (simp add: bit_transpose_def)
qed

lemma bit_transpose_unique:
  assumes len: "8 * length m = N * M" "length bs = length m"
    and cells: "\<And>r c. r < N \<Longrightarrow> c < M \<Longrightarrow> buf_bit bs (c * N + r) = buf_bit m (r * M + c)"
  shows "bs = bit_transpose N M m"
proof (rule buf_eqI)
  show "length bs = length (bit_transpose N M m)" using len by simp
  fix k assume "k < 8 * length bs"
  then have "k < M * N" using len by (simp add: mult.commute)
  then obtain r c where "r < N" "c < M" "k = c * N + r" by (rule cell_cases)
  with cells len show "buf_bit bs k = buf_bit (bit_transpose N M m) k"
    by (simp add: bit_transpose_cell)
qed

lemma bit_transpose_involution:
  assumes "8 * length m = N * M"
  shows "bit_transpose M N (bit_transpose N M m) = m"
  by (rule bit_transpose_unique [symmetric])
    (use assms in \<open>simp_all add: bit_transpose_cell mult.commute\<close>)

section \<open>The interface of a transpose routine\<close>

text \<open>
  What a client may rely on: on a matrix of \<open>N\<close> rows and \<open>M\<close> columns with \<open>N\<close> a positive multiple
  of 16 and \<open>M\<close> a positive multiple of 8, of less than \<open>2 ^ 64\<close> bits, the routine ends without a
  fault and returns the transpose.  Sizes are \<open>usize\<close> values, 64 bits wide.
\<close>

definition matrix_ok :: "u64 \<Rightarrow> u64 \<Rightarrow> bytes \<Rightarrow> bool" where
  "matrix_ok nrows ncols m \<longleftrightarrow> 0 < nrows \<and> 0 < ncols \<and> unat nrows mod 16 = 0 \<and> unat ncols mod 8 = 0 \<and>
     unat nrows * unat ncols < 2 ^ 64 \<and> 8 * length m = unat nrows * unat ncols"

locale bit_transposer =
  fixes tr :: "bytes \<Rightarrow> u64 \<Rightarrow> u64 \<Rightarrow> bytes run option"
  assumes transposes: "matrix_ok nrows ncols m \<Longrightarrow>
    tr m nrows ncols = Some (Inr (bit_transpose (unat nrows) (unat ncols) m))"
begin

lemma tr_length:
  "matrix_ok nrows ncols m \<Longrightarrow> tr m nrows ncols = Some (Inr m') \<Longrightarrow> length m' = length m"
  by (auto simp: transposes)

lemma tr_cell:
  "matrix_ok nrows ncols m \<Longrightarrow> tr m nrows ncols = Some (Inr m') \<Longrightarrow> r < unat nrows \<Longrightarrow> c < unat ncols \<Longrightarrow>
   buf_bit m' (c * unat nrows + r) = buf_bit m (r * unat ncols + c)"
  by (auto simp: transposes bit_transpose_cell matrix_ok_def)

text \<open>Line \<open>c\<close> of the result, as bytes, holds column \<open>c\<close> of the matrix.\<close>

lemma tr_line_bit:
  assumes "matrix_ok nrows ncols m" "tr m nrows ncols = Some (Inr m')" "c < unat ncols" "r < unat nrows"
    and w: "unat nrows = 8 * w"
  shows "buf_bit (take w (drop (c * w) m')) r = buf_bit m (r * unat ncols + c)"
proof -
  have "8 * length m' = unat ncols * (8 * w)"
    using tr_length [OF assms(1,2)] assms(1) w by (simp add: matrix_ok_def mult.commute)
  then have len: "length m' = unat ncols * w" by simp
  have rd: "r div 8 < w" using assms(4) w by linarith
  then have "c * w + r div 8 < unat ncols * w" using assms(3) by (rule cell_less)
  then have "take w (drop (c * w) m') ! (r div 8) = m' ! (c * w + r div 8)"
    using rd len assms(3) by (subst nth_take, simp, subst nth_drop) simp_all
  moreover have e: "c * unat nrows + r = 8 * (c * w) + r" using w by simp
  have "(c * unat nrows + r) div 8 = c * w + r div 8" "(c * unat nrows + r) mod 8 = r mod 8"
    unfolding e by simp_all
  ultimately show ?thesis
    using tr_cell [OF assms(1,2,4,3)] by (simp add: buf_bit_def)
qed

end

end
