(* ===== verification/Transpose_Correct.thy ===== *)
theory Transpose_Correct
  imports Transpose_C Bit_Matrix
begin

text \<open>
  \<open>sse_trans\<close> transposes: the bit-level laws of the intrinsics, the effect of every block on the
  cells of the output matrix (\<open>filled\<close>: which cells were written, with which bits, everything
  else kept), the loops by induction on the iterations left, and the whole function.  The
  reference is \<open>bit_transpose\<close>; the last sections show where the loop guards
  \<open>nrows - 16\<close> and \<open>ncols - 16\<close> wrap around.
\<close>

section \<open>The bits of the intrinsics\<close>

lemma mm_of_bytes_Cons: "mm_of_bytes (b # bs) = ucast b OR push_bit 8 (mm_of_bytes bs)"
  by (simp add: mm_of_bytes_def)

lemma bit_mm_of_bytes:
  "length bs \<le> 16 \<Longrightarrow>
   bit (mm_of_bytes bs) n \<longleftrightarrow> n < 8 * length bs \<and> bit (bs ! (n div 8)) (n mod 8)"
proof (induction bs arbitrary: n)
  case Nil
  then show ?case by (simp add: mm_of_bytes_def)
next
  case (Cons b bs)
  show ?case
  proof (cases "n < 8")
    case True
    then show ?thesis by (simp add: mm_of_bytes_Cons bit_simps)
  next
    case False
    then obtain m where m: "n = m + 8"
      by (metis add.commute le_Suc_ex not_less)
    have "bit (mm_of_bytes (b # bs)) n \<longleftrightarrow> m + 8 < 128 \<and> bit (mm_of_bytes bs) m"
      using bit_imp_le_length [of b "m + 8"]
      by (simp add: mm_of_bytes_Cons m bit_or_iff bit_push_bit_iff bit_ucast_iff) blast
    then show ?thesis
      using Cons.IH [of m] Cons.prems div_add_self2 [of 8 m] by (auto simp: m)
  qed
qed

lemma bit_movemask: "bit (mm_movemask_epi8 v) k \<longleftrightarrow> k < 16 \<and> bit v (8 * k + 7)"
  by (auto simp: mm_movemask_epi8_def bit_horner_sum_bit_word_iff)

lemma bit_slli:
  "n < 128 \<Longrightarrow> bit (mm_slli_epi64 v s) n \<longleftrightarrow> s \<le> n mod 64 \<and> bit v (n - s)"
proof (cases "n < 64")
  case True
  then show ?thesis by (auto simp: mm_slli_epi64_def bit_simps)
next
  case False
  assume "n < 128"
  with False have "n mod 64 = n - 64"
    by (simp add: mod_if)
  with False \<open>n < 128\<close> show ?thesis
    by (auto simp: mm_slli_epi64_def bit_simps)
qed

lemma bit_set_byte:
  assumes "i < 16"
  shows "bit (set_byte v i b) n \<longleftrightarrow> (if n div 8 = i then bit b (n mod 8) else bit v n)"
proof (cases "n div 8 = i")
  case True
  then have "n < 128" "8 * i \<le> n" "n - 8 * i = n mod 8" using assms
    by (auto simp: minus_mult_div_eq_mod)
  with True show ?thesis
    by (auto simp: set_byte_def bit_simps)
next
  case False
  then have "\<not> (8 * i \<le> n \<and> n - 8 * i < 8)" by auto
  with False show ?thesis
    by (auto simp: set_byte_def bit_simps dest: bit_imp_le_length)
qed

lemma bit_set_byte_at:
  "i < 16 \<Longrightarrow> j < 8 \<Longrightarrow> bit (set_byte v i b) (8 * k + j) \<longleftrightarrow> (if k = i then bit b j else bit v (8 * k + j))"
  by (simp only: bit_set_byte byte_pos)

section \<open>Cells of the output\<close>

text \<open>
  The output is a matrix of \<open>M\<close> lines of \<open>N\<close> bits.  \<open>filled N M f S out out'\<close>: from \<open>out\<close> to
  \<open>out'\<close> exactly the cells in \<open>S\<close> were written, each with the bit \<open>f\<close> gives for it.
\<close>

definition filled ::
    "nat \<Rightarrow> nat \<Rightarrow> (nat \<Rightarrow> nat \<Rightarrow> bool) \<Rightarrow> (nat \<Rightarrow> nat \<Rightarrow> bool) \<Rightarrow> bytes \<Rightarrow> bytes \<Rightarrow> bool" where
  "filled N M f S out out' \<longleftrightarrow> length out' = length out \<and>
     (\<forall>r<N. \<forall>c<M. buf_bit out' (c * N + r) = (if S r c then f r c else buf_bit out (c * N + r)))"

lemma filled_refl: "filled N M f (\<lambda>_ _. False) out out"
  by (simp add: filled_def)

lemma filled_trans:
  "filled N M f S out out1 \<Longrightarrow> filled N M f T out1 out2 \<Longrightarrow>
   filled N M f (\<lambda>r c. S r c \<or> T r c) out out2"
  by (auto simp: filled_def)

lemma filled_cong:
  "filled N M f S out out' \<Longrightarrow> (\<And>r c. r < N \<Longrightarrow> c < M \<Longrightarrow> S r c = T r c) \<Longrightarrow> filled N M f T out out'"
  by (simp add: filled_def)

lemma filled_length: "filled N M f S out out' \<Longrightarrow> length out' = length out"
  by (simp add: filled_def)

lemma write_byte_filled:
  assumes len: "8 * length out = N * M" and pos: "8 * ix = c * N + rr"
    and "rr + 8 \<le> N" "c < M" and b: "\<And>k. k < 8 \<Longrightarrow> bit b k = f (rr + k) c"
  shows "ix < length out"
    and "filled N M f (\<lambda>r c'. c' = c \<and> rr \<le> r \<and> r < rr + 8) out (out[ix := b])"
proof -
  have "8 * ix < 8 * length out"
    unfolding pos len using cell_less [of rr N c M] assms by (simp add: mult.commute)
  then show ix: "ix < length out" by simp
  have "buf_bit (out[ix := b]) (c' * N + r) =
      (if c' = c \<and> rr \<le> r \<and> r < rr + 8 then f r c' else buf_bit out (c' * N + r))"
    if "r < N" "c' < M" for r c'
  proof (cases "c' = c \<and> rr \<le> r \<and> r < rr + 8")
    case True
    then obtain k where k: "r = rr + k" "k < 8"
      by (metis le_Suc_ex nat_add_left_cancel_less)
    then have e: "c' * N + r = 8 * ix + k" using pos True by simp
    from k have "(8 * ix + k) div 8 = ix" "(8 * ix + k) mod 8 = k" by simp_all
    then show ?thesis unfolding e buf_bit_update [OF ix] using True b [of k] k by simp
  next
    case False
    have "(c' * N + r) div 8 \<noteq> ix"
    proof
      assume "(c' * N + r) div 8 = ix"
      then have k: "c' * N + r = 8 * ix + (c' * N + r) mod 8" by (metis mult_div_mod_eq)
      define k where "k = (c' * N + r) mod 8"
      have "k < 8" by (simp add: k_def)
      with k have "c' * N + r = c * N + (rr + k)" by (simp add: pos k_def)
      then show False
        using cell_inj [of r N "rr + k" c' c] \<open>k < 8\<close> that assms(3) False by auto
    qed
    then show ?thesis using False ix by (auto simp: buf_bit_update)
  qed
  then show "filled N M f (\<lambda>r c'. c' = c \<and> rr \<le> r \<and> r < rr + 8) out (out[ix := b])"
    by (simp add: filled_def)
qed

section \<open>Dimensions\<close>

text \<open>Both sides multiples of eight, both buffers of that size, no 64-bit overflow.\<close>

definition dims :: "u64 \<Rightarrow> u64 \<Rightarrow> bytes \<Rightarrow> bytes \<Rightarrow> bool" where
  "dims nrows ncols inp out \<longleftrightarrow> nrows mod 8 = 0 \<and> ncols mod 8 = 0 \<and>
     unat nrows * unat ncols < 2 ^ 64 \<and>
     8 * length inp = unat nrows * unat ncols \<and> 8 * length out = unat nrows * unat ncols"

text \<open>The input bit of row \<open>r\<close> and column \<open>c\<close>.\<close>

definition tbit :: "u64 \<Rightarrow> bytes \<Rightarrow> nat \<Rightarrow> nat \<Rightarrow> bool" where
  "tbit ncols inp r c = buf_bit inp (r * unat ncols + c)"

lemma word_mod_8: "(w :: u64) mod 8 = 0 \<longleftrightarrow> unat w mod 8 = 0"
proof -
  have "w mod 8 = 0 \<longleftrightarrow> unat (w mod 8) = 0" by (simp only: unat_eq_zero)
  then show ?thesis by (simp add: unat_mod)
qed

lemma unat_cell_index:
  assumes "8 dvd unat line" "unat y mod 8 = 0" "unat x < n" "unat y < unat line"
    and "n * unat line < 2 ^ 64"
  shows "8 * unat (x * line div 8 + y div 8 :: u64) = unat x * unat line + unat y"
proof -
  have d: "8 dvd unat y" using assms by auto
  have "unat x * unat line + unat y < n * unat line"
    by (rule cell_less) (use assms in auto)
  then have lt: "unat x * unat line + unat y < 2 ^ 64" using assms by simp
  then have "unat (x * line) = unat x * unat line" by (intro unat_mult_small) simp
  then have "unat (x * line div 8 + y div 8) = unat x * unat line div 8 + unat y div 8"
    using lt by (subst unat_add_small) (auto simp: unat_div)
  then show ?thesis using d assms(1) by (simp add: add_mult_distrib2)
qed

lemma unat_INP:
  assumes "dims nrows ncols inp out" "unat x < unat nrows" "unat y < unat ncols" "unat y mod 8 = 0"
  shows "8 * unat (INP ncols x y) = unat x * unat ncols + unat y"
  unfolding INP_def
  by (rule unat_cell_index [where n = "unat nrows"]) (use assms in \<open>auto simp: dims_def word_mod_8\<close>)

lemma unat_OUT:
  assumes "dims nrows ncols inp out" "unat x < unat nrows" "unat y < unat ncols" "unat x mod 8 = 0"
  shows "8 * unat (OUT nrows x y) = unat y * unat nrows + unat x"
  unfolding OUT_def
  by (rule unat_cell_index [where n = "unat ncols"])
    (use assms in \<open>auto simp: dims_def word_mod_8 mult.commute\<close>)

lemma unat_add_of_nat:
  "unat (x :: u64) + i < 2 ^ 64 \<Longrightarrow> unat (x + of_nat i) = unat x + i"
  by (subst unat_add_small) (simp_all add: unat_of_nat)

lemma dims_out: "dims nrows ncols inp out \<Longrightarrow> length out' = length out \<Longrightarrow> dims nrows ncols inp out'"
  by (simp add: dims_def)

lemma load8_bits:
  assumes d: "dims nrows ncols inp out" "unat x < unat nrows" "unat y + 8 \<le> unat ncols" "unat y mod 8 = 0"
  obtains b where "load8 inp (INP ncols x y) = Inr b"
    and "\<And>j. j < 8 \<Longrightarrow> bit b j = tbit ncols inp (unat x) (unat y + j)"
proof
  let ?ix = "unat (INP ncols x y)"
  have ix: "8 * ?ix = unat x * unat ncols + unat y"
    by (rule unat_INP) (use assms in auto)
  have "unat x * unat ncols + unat y < unat nrows * unat ncols"
    by (rule cell_less) (use assms in auto)
  with ix d have lt: "?ix < length inp" by (simp add: dims_def)
  then show "load8 inp (INP ncols x y) = Inr (inp ! ?ix)"
    by (simp add: load8_def buffer_simps)
  fix j :: nat assume "j < 8"
  then have "(8 * ?ix + j) div 8 = ?ix" "(8 * ?ix + j) mod 8 = j" by simp_all
  then show "bit (inp ! ?ix) j = tbit ncols inp (unat x) (unat y + j)"
    using ix by (simp add: tbit_def buf_bit_def add.assoc)
qed

lemma store8_filled:
  assumes d: "dims nrows ncols inp out" "unat x + 8 \<le> unat nrows" "unat y < unat ncols"
    "unat x mod 8 = 0" and b: "\<And>k. k < 8 \<Longrightarrow> bit b k = f (unat x + k) (unat y)"
  obtains out' where "store8 out (OUT nrows x y) b = Inr out'"
    and "filled (unat nrows) (unat ncols) f (\<lambda>r c. c = unat y \<and> unat x \<le> r \<and> r < unat x + 8) out out'"
proof
  let ?ix = "unat (OUT nrows x y)"
  have ix: "8 * ?ix = unat y * unat nrows + unat x"
    by (rule unat_OUT) (use assms in auto)
  have len: "8 * length out = unat nrows * unat ncols" using d by (simp add: dims_def)
  note w = write_byte_filled [where f = f, OF len ix assms(2,3) b]
  show "store8 out (OUT nrows x y) b = Inr (out[?ix := b])"
    using w(1) by (simp add: store8_def buffer_simps)
  show "filled (unat nrows) (unat ncols) f (\<lambda>r c. c = unat y \<and> unat x \<le> r \<and> r < unat x + 8) out
     (out[?ix := b])" by (rule w(2))
qed

lemma ucast_halves:
  "(ucast (ucast (h :: u32) :: u16) :: u8) = ucast h"
  "(ucast (drop_bit 8 (ucast (h :: u32) :: u16)) :: u8) = ucast (drop_bit 8 h)"
  by (rule byte_eqI, simp add: bit_simps)+

section \<open>Blocks of sixteen rows\<close>

lemma store16_store8:
  assumes "unat ix + 1 < 2 ^ 64"
  shows "store16 m ix v = bind_run (store8 m ix (ucast v)) (\<lambda>m'. store8 m' (ix + 1) (ucast (drop_bit 8 v)))"
  using unat_add_of_nat [of ix 1] assms by (simp add: store16_def store8_def)

text \<open>The next byte of the same output line holds the next eight rows.\<close>

lemma OUT_next:
  assumes d: "dims nrows ncols inp out" and "unat x + 16 \<le> unat nrows" "unat y < unat ncols"
    "unat x mod 8 = 0"
  shows "OUT nrows x y + 1 = OUT nrows (x + 8) y" and "unat (OUT nrows x y) + 1 < 2 ^ 64"
proof -
  have x8: "unat (x + 8) = unat x + 8"
    using unat_add_of_nat [of x 8] assms(2) unat_u64_less [of nrows] by simp
  have "8 * unat (OUT nrows x y) = unat y * unat nrows + unat x"
    by (rule unat_OUT) (use assms in auto)
  moreover have o8: "8 * unat (OUT nrows (x + 8) y) = unat y * unat nrows + (unat x + 8)"
    unfolding x8 [symmetric] by (rule unat_OUT) (use assms x8 in auto)
  ultimately have eq: "unat (OUT nrows (x + 8) y) = unat (OUT nrows x y) + 1" by simp
  then show lt: "unat (OUT nrows x y) + 1 < 2 ^ 64"
    using unat_u64_less [of "OUT nrows (x + 8) y"] by simp
  have "unat (OUT nrows x y + 1) = unat (OUT nrows x y) + 1"
    using unat_add_of_nat [of "OUT nrows x y" 1] lt by simp
  with eq show "OUT nrows x y + 1 = OUT nrows (x + 8) y"
    by (metis word_unat_eq_iff)
qed

lemma bit_slli_step:
  "k < 16 \<Longrightarrow> i < 8 \<Longrightarrow> 0 < i \<Longrightarrow> bit (mm_slli_epi64 v 1) (8 * k + i) = bit v (8 * k + i - 1)"
proof -
  assume a: "k < 16" "i < 8" "0 < i"
  have "(8 * k + i) mod 64 mod 8 = i" using a by (simp add: mod_mod_cancel)
  then have "1 \<le> (8 * k + i) mod 64" using a by (cases "(8 * k + i) mod 64") auto
  with a show ?thesis by (simp add: bit_slli)
qed

text \<open>
  What the emitting loops rely on: with \<open>i\<close> shifts to go, bit \<open>8 - i + j\<close> of byte \<open>k\<close> is the
  bit of column \<open>j\<close>, for the columns below \<open>i\<close>.
\<close>

definition aligned :: "nat \<Rightarrow> nat \<Rightarrow> u128 \<Rightarrow> (nat \<Rightarrow> nat \<Rightarrow> bool) \<Rightarrow> bool" where
  "aligned n i vec g \<longleftrightarrow> (\<forall>k<n. \<forall>j<i. bit vec (8 * k + (8 - i) + j) = g k j)"

lemma aligned_top: "aligned n (Suc i) vec g \<Longrightarrow> i < 8 \<Longrightarrow> k < n \<Longrightarrow> bit vec (8 * k + 7) = g k i"
proof -
  assume a: "aligned n (Suc i) vec g" "i < 8" "k < n"
  then have "bit vec (8 * k + (8 - Suc i) + i) = g k i" unfolding aligned_def by blast
  moreover have "8 * k + (8 - Suc i) + i = 8 * k + 7" using a by simp
  ultimately show ?thesis by simp
qed

lemma aligned_shift:
  assumes "aligned n (Suc i) vec g" "n \<le> 16" "i < 8"
  shows "aligned n i (mm_slli_epi64 vec 1) g"
  unfolding aligned_def
proof (intro allI impI)
  fix k j assume "k < n" "j < i"
  then have "bit (mm_slli_epi64 vec 1) (8 * k + (8 - i + j)) = bit vec (8 * k + (8 - i + j) - 1)"
    using assms by (intro bit_slli_step) auto
  also have "8 * k + (8 - i + j) - 1 = 8 * k + (8 - Suc i) + j" using assms \<open>j < i\<close> by auto
  also have "bit vec \<dots> = g k j" using assms \<open>k < n\<close> \<open>j < i\<close> by (auto simp: aligned_def)
  finally show "bit (mm_slli_epi64 vec 1) (8 * k + (8 - i) + j) = g k j" by (simp add: add.assoc)
qed

lemma emit16_filled:
  assumes "dims nrows ncols inp out" "unat rr + 16 \<le> unat nrows" "unat rr mod 8 = 0"
    "unat cc + 8 \<le> unat ncols" "i \<le> 8"
    "aligned 16 i vec (\<lambda>k j. f (unat rr + k) (unat cc + j))"
  shows "\<exists>out'. emit16 nrows rr cc i vec out = Inr out' \<and>
    filled (unat nrows) (unat ncols) f
      (\<lambda>r c. unat rr \<le> r \<and> r < unat rr + 16 \<and> unat cc \<le> c \<and> c < unat cc + i) out out'"
  using assms
proof (induction i arbitrary: vec out)
  case 0
  show ?case by (auto intro: filled_cong [OF filled_refl])
next
  case (Suc i)
  let ?y = "cc + of_nat i" and ?h = "mm_movemask_epi8 vec"
  have y: "unat ?y = unat cc + i"
    using Suc.prems unat_u64_less [of ncols] by (intro unat_add_of_nat) simp
  have r8: "unat (rr + 8) = unat rr + 8"
    using unat_add_of_nat [of rr 8] Suc.prems(2) unat_u64_less [of nrows] by simp
  have h: "bit ?h k = f (unat rr + k) (unat ?y)" if "k < 16" for k
    using aligned_top [OF Suc.prems(6)] Suc.prems(5) that by (simp add: bit_movemask y)
  obtain out1 where o1: "store8 out (OUT nrows rr ?y) (ucast ?h) = Inr out1"
    and f1: "filled (unat nrows) (unat ncols) f (\<lambda>r c. c = unat ?y \<and> unat rr \<le> r \<and> r < unat rr + 8) out out1"
    by (rule store8_filled [OF Suc.prems(1), of rr ?y "ucast ?h" f])
      (use Suc.prems h in \<open>auto simp: y bit_simps\<close>)
  obtain out2 where o2: "store8 out1 (OUT nrows (rr + 8) ?y) (ucast (drop_bit 8 ?h)) = Inr out2"
    and f2: "filled (unat nrows) (unat ncols) f
      (\<lambda>r c. c = unat ?y \<and> unat (rr + 8) \<le> r \<and> r < unat (rr + 8) + 8) out1 out2"
    by (rule store8_filled [OF dims_out [OF Suc.prems(1) filled_length [OF f1]],
          of "rr + 8" ?y "ucast (drop_bit 8 ?h)" f])
      (use Suc.prems h in \<open>auto simp: r8 y bit_simps add.assoc\<close>)
  note nx = OUT_next [OF Suc.prems(1,2), of ?y]
  have st: "store16 out (OUT nrows rr ?y) (ucast ?h) = Inr out2"
    using nx Suc.prems o1 o2 by (simp add: store16_store8 y ucast_halves)
  have d2: "dims nrows ncols inp out2"
    using dims_out [OF Suc.prems(1)] filled_length [OF f1] filled_length [OF f2] by simp
  obtain out' where "emit16 nrows rr cc i (mm_slli_epi64 vec 1) out2 = Inr out'"
    and f3: "filled (unat nrows) (unat ncols) f
      (\<lambda>r c. unat rr \<le> r \<and> r < unat rr + 16 \<and> unat cc \<le> c \<and> c < unat cc + i) out2 out'"
    using Suc.IH [OF d2, of "mm_slli_epi64 vec 1"] aligned_shift [OF Suc.prems(6)] Suc.prems by auto
  with st show ?case
    by (auto intro!: filled_cong [OF filled_trans [OF filled_trans [OF f1 f2] f3]] simp: y r8)
qed

text \<open>A register filled with one byte per row holds the rows' bits at their places.\<close>

lemma block16_filled:
  assumes d: "dims nrows ncols inp out" "unat rr + 16 \<le> unat nrows" "unat rr mod 8 = 0"
    "unat cc + 8 \<le> unat ncols" "unat cc mod 8 = 0"
  shows "\<exists>out'. block16 nrows ncols inp rr cc out = Inr out' \<and>
    filled (unat nrows) (unat ncols) (tbit ncols inp)
      (\<lambda>r c. unat rr \<le> r \<and> r < unat rr + 16 \<and> unat cc \<le> c \<and> c < unat cc + 8) out out'"
proof -
  let ?ks = "[15, 14, 13, 12, 11, 10, 9, 8, 7, 6, 5, 4, 3, 2, 1, 0] :: u64 list"
  define g where "g k = inp ! unat (INP ncols (rr + k) cc)" for k
  have ks: "?ks = map of_nat (rev [0..<16])" by (simp add: upt_rec)
  have rk: "unat (rr + of_nat k) = unat rr + k" if "k < 16" for k
    using unat_u64_less [of nrows] d that by (intro unat_add_of_nat) simp
  have load: "load8 inp (INP ncols (rr + of_nat k) cc) = Inr (g (of_nat k)) \<and>
     (\<forall>j<8. bit (g (of_nat k)) j = tbit ncols inp (unat rr + k) (unat cc + j))" if k: "k < 16" for k
  proof -
    obtain b where b: "load8 inp (INP ncols (rr + of_nat k) cc) = Inr b"
      "\<And>j. j < 8 \<Longrightarrow> bit b j = tbit ncols inp (unat (rr + of_nat k)) (unat cc + j)"
      by (rule load8_bits [OF d(1), of "rr + of_nat k" cc]) (use d rk k in auto)
    then have "b = g (of_nat k)"
      by (auto simp: load8_def read_at_def g_def split: if_splits)
    with b rk k show ?thesis by simp
  qed
  have "map_run (\<lambda>k. load8 inp (INP ncols (rr + k) cc)) ?ks = Inr (map g ?ks)"
    unfolding ks using load by (intro map_run_Inr) auto
  moreover have "mm_set_epi8 (map g ?ks) = mm_of_bytes (map (\<lambda>k. g (of_nat k)) [0..<16])"
    unfolding mm_set_epi8_def ks by (simp add: rev_map [symmetric] comp_def)
  moreover have "aligned 16 8 (mm_of_bytes (map (\<lambda>k. g (of_nat k)) [0..<16]))
      (\<lambda>k j. tbit ncols inp (unat rr + k) (unat cc + j))"
    using load by (simp add: aligned_def bit_mm_of_bytes)
  ultimately show ?thesis
    using emit16_filled [OF d(1-4) order.refl] by (simp add: block16_def)
qed

lemma cols16_filled:
  assumes "dims nrows ncols inp out" "unat rr + 16 \<le> unat nrows" "unat rr mod 8 = 0"
    "unat cc + 8 * n = unat ncols" "unat cc mod 8 = 0"
  shows "\<exists>out'. cols16 nrows ncols inp rr cc out = Some (Inr out') \<and>
    filled (unat nrows) (unat ncols) (tbit ncols inp)
      (\<lambda>r c. unat rr \<le> r \<and> r < unat rr + 16 \<and> unat cc \<le> c) out out'"
  using assms
proof (induction n arbitrary: cc out)
  case 0
  then have "\<not> cc < ncols" by (simp add: word_less_nat_alt)
  then show ?case using 0
    by (subst cols16.simps) (auto intro: filled_cong [OF filled_refl])
next
  case (Suc n)
  have lt: "cc < ncols" using Suc.prems by (simp add: word_less_nat_alt)
  have c8: "unat (cc + 8) = unat cc + 8"
    using unat_add_of_nat [of cc 8] unat_u64_less [of ncols] Suc.prems(4) by simp
  obtain out1 where o1: "block16 nrows ncols inp rr cc out = Inr out1"
    and f1: "filled (unat nrows) (unat ncols) (tbit ncols inp)
      (\<lambda>r c. unat rr \<le> r \<and> r < unat rr + 16 \<and> unat cc \<le> c \<and> c < unat cc + 8) out out1"
    using block16_filled [OF Suc.prems(1-3) _ Suc.prems(5)] Suc.prems(4) by auto
  obtain out' where "cols16 nrows ncols inp rr (cc + 8) out1 = Some (Inr out')"
    and f2: "filled (unat nrows) (unat ncols) (tbit ncols inp)
      (\<lambda>r c. unat rr \<le> r \<and> r < unat rr + 16 \<and> unat (cc + 8) \<le> c) out1 out'"
    using Suc.IH [OF dims_out [OF Suc.prems(1) filled_length [OF f1]], of "cc + 8"] Suc.prems c8 by auto
  with lt o1 show ?case
    by (subst cols16.simps) (auto intro!: filled_cong [OF filled_trans [OF f1 f2]] simp: c8)
qed

lemma rows16_filled:
  assumes "dims nrows ncols inp out" "unat rr + 16 * n + rest = unat nrows" "rest < 16"
    "16 \<le> unat nrows" "unat rr mod 8 = 0"
  shows "\<exists>rr' out'. rows16 nrows ncols inp rr out = Some (Inr (rr', out')) \<and>
    unat rr' = unat rr + 16 * n \<and>
    filled (unat nrows) (unat ncols) (tbit ncols inp)
      (\<lambda>r c. unat rr \<le> r \<and> r < unat rr + 16 * n) out out'"
  using assms
proof (induction n arbitrary: rr out)
  case 0
  have "unat (nrows - 16) = unat nrows - 16"
    using 0 by (simp add: unat_sub word_le_nat_alt)
  with 0 have "\<not> rr \<le> nrows - 16" by (simp add: word_le_nat_alt)
  then show ?case
    by (subst rows16.simps) (auto intro: filled_cong [OF filled_refl])
next
  case (Suc n)
  have "unat (nrows - 16) = unat nrows - 16"
    using Suc.prems by (simp add: unat_sub word_le_nat_alt)
  with Suc.prems have le: "rr \<le> nrows - 16" by (simp add: word_le_nat_alt)
  have r16: "unat (rr + 16) = unat rr + 16"
    using unat_add_of_nat [of rr 16] unat_u64_less [of nrows] Suc.prems(2) by simp
  have "unat ncols mod 8 = 0" using Suc.prems(1) by (simp add: dims_def word_mod_8)
  then obtain m where m: "unat (0::u64) + 8 * m = unat ncols" by auto
  obtain out1 where o1: "cols16 nrows ncols inp rr 0 out = Some (Inr out1)"
    and f1: "filled (unat nrows) (unat ncols) (tbit ncols inp)
      (\<lambda>r c. unat rr \<le> r \<and> r < unat rr + 16 \<and> unat (0::u64) \<le> c) out out1"
    using cols16_filled [OF Suc.prems(1) _ Suc.prems(5) m] Suc.prems(2) by auto
  obtain rr' out' where "rows16 nrows ncols inp (rr + 16) out1 = Some (Inr (rr', out'))"
    and "unat rr' = unat (rr + 16) + 16 * n"
    and f2: "filled (unat nrows) (unat ncols) (tbit ncols inp)
      (\<lambda>r c. unat (rr + 16) \<le> r \<and> r < unat (rr + 16) + 16 * n) out1 out'"
    using Suc.IH [OF dims_out [OF Suc.prems(1) filled_length [OF f1]], of "rr + 16"] Suc.prems r16
    by (auto simp: mod_add_right_eq) 
  with le o1 show ?case
    by (subst rows16.simps) (auto intro!: filled_cong [OF filled_trans [OF f1 f2]] simp: r16)
qed

section \<open>The last eight rows\<close>

lemma load16_bits:
  assumes d: "dims nrows ncols inp out" "unat x < unat nrows" "unat y + 16 \<le> unat ncols" "unat y mod 8 = 0"
  obtains h where "load16 inp (INP ncols x y) = Inr h"
    and "\<And>j. j < 8 \<Longrightarrow> bit (ucast h :: u8) j = tbit ncols inp (unat x) (unat y + j)"
    and "\<And>j. j < 8 \<Longrightarrow> bit (ucast (drop_bit 8 h) :: u8) j = tbit ncols inp (unat x) (unat y + 8 + j)"
proof -
  let ?ix = "unat (INP ncols x y)"
  have ix: "8 * ?ix = unat x * unat ncols + unat y"
    by (rule unat_INP) (use assms in auto)
  have "unat x * unat ncols + (unat y + 8) < unat nrows * unat ncols"
    by (rule cell_less) (use assms in auto)
  with ix d have lt: "?ix + 1 < length inp" by (simp add: dims_def)
  have bits: "bit (inp ! (?ix + i)) j = tbit ncols inp (unat x) (unat y + 8 * i + j)" if "j < 8" for i j
  proof -
    note byte_pos [of j "?ix + i", OF that]
    moreover have "unat x * unat ncols + (unat y + 8 * i + j) = 8 * (?ix + i) + j"
      using ix by simp
    ultimately show ?thesis by (simp only: tbit_def buf_bit_def)
  qed
  show thesis
  proof (rule that)
    show "load16 inp (INP ncols x y) =
        Inr (ucast (inp ! ?ix) OR push_bit 8 (ucast (inp ! (?ix + 1))))"
      using lt by (simp add: load16_def buffer_simps)
  qed (use bits [of _ 0] bits [of _ 1] in \<open>auto simp: bit_simps\<close>)
qed

text \<open>The sixteen bytes of a pair of 8x8 blocks: byte \<open>k\<close> and byte \<open>k + 8\<close> belong to row \<open>k\<close>.\<close>

definition pair_bit :: "u64 \<Rightarrow> bytes \<Rightarrow> nat \<Rightarrow> nat \<Rightarrow> nat \<Rightarrow> nat \<Rightarrow> bool" where
  "pair_bit ncols inp r0 c0 k j =
     (if k < 8 then tbit ncols inp (r0 + k) (c0 + j) else tbit ncols inp (r0 + (k - 8)) (c0 + 8 + j))"

lemma fill_pair_bits:
  assumes d: "dims nrows ncols inp out" "unat rr + 8 \<le> unat nrows"
    "unat cc + 16 \<le> unat ncols" "unat cc mod 8 = 0" and "set is \<subseteq> {..<8}"
  shows "\<exists>x. fill_pair ncols inp rr cc is tmp = Inr x \<and>
    (\<forall>k<16. \<forall>j<8. bit x (8 * k + j) =
       (if k mod 8 \<in> set is then pair_bit ncols inp (unat rr) (unat cc) k j else bit tmp (8 * k + j)))"
  using assms(5)
proof (induction "is" arbitrary: tmp)
  case Nil
  then show ?case by simp
next
  case (Cons i "is")
  have i: "i < 8" using Cons.prems by simp
  have ri: "unat (rr + of_nat i) = unat rr + i"
    using unat_u64_less [of nrows] d i by (intro unat_add_of_nat) simp
  obtain h where h: "load16 inp (INP ncols (rr + of_nat i) cc) = Inr h"
    and lo: "\<And>j. j < 8 \<Longrightarrow> bit (ucast h :: u8) j = tbit ncols inp (unat rr + i) (unat cc + j)"
    and hi: "\<And>j. j < 8 \<Longrightarrow> bit (ucast (drop_bit 8 h) :: u8) j = tbit ncols inp (unat rr + i) (unat cc + 8 + j)"
    by (rule load16_bits [OF d(1), of "rr + of_nat i" cc, unfolded ri]) (use d i in auto)
  let ?t = "set_byte (set_byte tmp i (ucast h)) (i + 8) (ucast (drop_bit 8 h))"
  have t: "bit ?t (8 * k + j) = (if k mod 8 = i then pair_bit ncols inp (unat rr) (unat cc) k j
      else bit tmp (8 * k + j))" if "k < 16" "j < 8" for k j
  proof -
    have "k mod 8 = i \<longleftrightarrow> k = i \<or> k = i + 8" using i that by (auto simp: mod_if)
    with i that lo hi show ?thesis by (auto simp: bit_set_byte_at pair_bit_def)
  qed
  obtain x where "fill_pair ncols inp rr cc is ?t = Inr x"
    and "\<forall>k<16. \<forall>j<8. bit x (8 * k + j) =
       (if k mod 8 \<in> set is then pair_bit ncols inp (unat rr) (unat cc) k j else bit ?t (8 * k + j))"
    using Cons.IH [of ?t] Cons.prems by auto
  with h t show ?case by auto
qed

lemma emit_pair_filled:
  assumes "dims nrows ncols inp out" "unat rr + 8 \<le> unat nrows" "unat rr mod 8 = 0"
    "unat cc + 16 \<le> unat ncols" "i \<le> 8" "aligned 16 i x (pair_bit ncols inp (unat rr) (unat cc))"
  shows "\<exists>x' out'. emit_pair nrows rr cc i x out = Inr (x', out') \<and>
    filled (unat nrows) (unat ncols) (tbit ncols inp)
      (\<lambda>r c. unat rr \<le> r \<and> r < unat rr + 8 \<and>
         (unat cc \<le> c \<and> c < unat cc + i \<or> unat cc + 8 \<le> c \<and> c < unat cc + 8 + i)) out out'"
  using assms
proof (induction i arbitrary: x out)
  case 0
  show ?case by (auto intro: filled_cong [OF filled_refl])
next
  case (Suc i)
  let ?y = "cc + of_nat i" and ?h = "mm_movemask_epi8 x"
  have y: "unat ?y = unat cc + i"
    using Suc.prems unat_u64_less [of ncols] by (intro unat_add_of_nat) simp
  have y8: "unat (?y + 8) = unat cc + 8 + i"
    using Suc.prems unat_u64_less [of ncols] unat_add_of_nat [of ?y 8] y by simp
  have h: "bit ?h k = pair_bit ncols inp (unat rr) (unat cc) k i" if "k < 16" for k
    using aligned_top [OF Suc.prems(6)] Suc.prems(5) that by (simp add: bit_movemask)
  obtain out1 where o1: "store8 out (OUT nrows rr ?y) (ucast ?h) = Inr out1"
    and f1: "filled (unat nrows) (unat ncols) (tbit ncols inp)
      (\<lambda>r c. c = unat ?y \<and> unat rr \<le> r \<and> r < unat rr + 8) out out1"
    by (rule store8_filled [OF Suc.prems(1), of rr ?y "ucast ?h" "tbit ncols inp"])
      (use Suc.prems h in \<open>auto simp: y bit_simps pair_bit_def\<close>)
  obtain out2 where o2: "store8 out1 (OUT nrows rr (?y + 8)) (ucast (drop_bit 8 ?h)) = Inr out2"
    and f2: "filled (unat nrows) (unat ncols) (tbit ncols inp)
      (\<lambda>r c. c = unat (?y + 8) \<and> unat rr \<le> r \<and> r < unat rr + 8) out1 out2"
    by (rule store8_filled [OF dims_out [OF Suc.prems(1) filled_length [OF f1]],
          of rr "?y + 8" "ucast (drop_bit 8 ?h)" "tbit ncols inp"])
      (use Suc.prems h in \<open>auto simp: y8 bit_simps pair_bit_def\<close>)
  have d2: "dims nrows ncols inp out2"
    using dims_out [OF Suc.prems(1)] filled_length [OF f1] filled_length [OF f2] by simp
  obtain x' out' where "emit_pair nrows rr cc i (mm_slli_epi64 x 1) out2 = Inr (x', out')"
    and f3: "filled (unat nrows) (unat ncols) (tbit ncols inp)
      (\<lambda>r c. unat rr \<le> r \<and> r < unat rr + 8 \<and>
         (unat cc \<le> c \<and> c < unat cc + i \<or> unat cc + 8 \<le> c \<and> c < unat cc + 8 + i)) out2 out'"
    using Suc.IH [OF d2, of "mm_slli_epi64 x 1"] aligned_shift [OF Suc.prems(6)] Suc.prems by auto
  with o1 o2 show ?case
    by (auto intro!: filled_cong [OF filled_trans [OF filled_trans [OF f1 f2] f3]] simp: y y8 Let_def)
qed

lemma pair_block_filled:
  assumes d: "dims nrows ncols inp out" "unat rr + 8 \<le> unat nrows" "unat rr mod 8 = 0"
    "unat cc + 16 \<le> unat ncols" "unat cc mod 8 = 0"
  shows "\<exists>tmp' out'. pair_block nrows ncols inp rr cc tmp out = Inr (tmp', out') \<and>
    filled (unat nrows) (unat ncols) (tbit ncols inp)
      (\<lambda>r c. unat rr \<le> r \<and> r < unat rr + 8 \<and> unat cc \<le> c \<and> c < unat cc + 16) out out'"
proof -
  obtain x where x: "fill_pair ncols inp rr cc [0..<8] tmp = Inr x"
    and bits: "\<forall>k<16. \<forall>j<8. bit x (8 * k + j) =
       (if k mod 8 \<in> set [0..<8] then pair_bit ncols inp (unat rr) (unat cc) k j else bit tmp (8 * k + j))"
    using fill_pair_bits [OF d(1,2,4,5), of "[0..<8]" tmp] by (auto simp: subset_eq)
  have "aligned 16 8 x (pair_bit ncols inp (unat rr) (unat cc))"
    using bits by (simp add: aligned_def)
  then obtain x' out' where "emit_pair nrows rr cc 8 x out = Inr (x', out')"
    and f: "filled (unat nrows) (unat ncols) (tbit ncols inp)
      (\<lambda>r c. unat rr \<le> r \<and> r < unat rr + 8 \<and>
         (unat cc \<le> c \<and> c < unat cc + 8 \<or> unat cc + 8 \<le> c \<and> c < unat cc + 8 + 8)) out out'"
    using emit_pair_filled [OF d(1-4) order.refl] by blast
  with x show ?thesis
    by (auto simp: pair_block_def intro!: filled_cong [OF f])
qed

lemma pairs_filled:
  assumes "dims nrows ncols inp out" "unat rr + 8 \<le> unat nrows" "unat rr mod 8 = 0"
    "unat cc + 16 * n + rest = unat ncols" "rest < 16" "16 \<le> unat ncols" "unat cc mod 8 = 0"
  shows "\<exists>cc' tmp' out'. pairs (pair_block nrows ncols inp rr) ncols cc tmp out = Some (Inr (cc', tmp', out')) \<and>
    unat cc' = unat cc + 16 * n \<and>
    filled (unat nrows) (unat ncols) (tbit ncols inp)
      (\<lambda>r c. unat rr \<le> r \<and> r < unat rr + 8 \<and> unat cc \<le> c \<and> c < unat cc + 16 * n) out out'"
  using assms
proof (induction n arbitrary: cc tmp out)
  case 0
  have "unat (ncols - 16) = unat ncols - 16"
    using 0 by (simp add: unat_sub word_le_nat_alt)
  with 0 have "\<not> cc \<le> ncols - 16" by (simp add: word_le_nat_alt)
  then show ?case
    by (subst pairs.simps) (auto intro: filled_cong [OF filled_refl])
next
  case (Suc n)
  have "unat (ncols - 16) = unat ncols - 16"
    using Suc.prems by (simp add: unat_sub word_le_nat_alt)
  with Suc.prems have le: "cc \<le> ncols - 16" by (simp add: word_le_nat_alt)
  have c16: "unat (cc + 16) = unat cc + 16"
    using unat_add_of_nat [of cc 16] unat_u64_less [of ncols] Suc.prems(4) by simp
  obtain tmp1 out1 where o1: "pair_block nrows ncols inp rr cc tmp out = Inr (tmp1, out1)"
    and f1: "filled (unat nrows) (unat ncols) (tbit ncols inp)
      (\<lambda>r c. unat rr \<le> r \<and> r < unat rr + 8 \<and> unat cc \<le> c \<and> c < unat cc + 16) out out1"
    using pair_block_filled [OF Suc.prems(1-3) _ Suc.prems(7)] Suc.prems(4) by force
  obtain cc' tmp' out' where
    "pairs (pair_block nrows ncols inp rr) ncols (cc + 16) tmp1 out1 = Some (Inr (cc', tmp', out'))"
    and "unat cc' = unat (cc + 16) + 16 * n"
    and f2: "filled (unat nrows) (unat ncols) (tbit ncols inp)
      (\<lambda>r c. unat rr \<le> r \<and> r < unat rr + 8 \<and> unat (cc + 16) \<le> c \<and> c < unat (cc + 16) + 16 * n) out1 out'"
    using Suc.IH [OF dims_out [OF Suc.prems(1) filled_length [OF f1]], of "cc + 16" tmp1] Suc.prems c16
    by auto
  with le o1 show ?case
    by (subst pairs.simps) (auto intro!: filled_cong [OF filled_trans [OF f1 f2]] simp: c16)
qed

lemma fill8_bits:
  assumes d: "dims nrows ncols inp out" "unat rr + 8 \<le> unat nrows"
    "unat cc + 8 \<le> unat ncols" "unat cc mod 8 = 0" and "set is \<subseteq> {..<8}"
  shows "\<exists>x. fill8 ncols inp rr cc is tmp = Inr x \<and>
    (\<forall>k<8. \<forall>j<8. bit x (8 * k + j) =
       (if k \<in> set is then tbit ncols inp (unat rr + k) (unat cc + j) else bit tmp (8 * k + j)))"
  using assms(5)
proof (induction "is" arbitrary: tmp)
  case Nil
  then show ?case by simp
next
  case (Cons i "is")
  have i: "i < 8" using Cons.prems by simp
  have ri: "unat (rr + of_nat i) = unat rr + i"
    using unat_u64_less [of nrows] d i by (intro unat_add_of_nat) simp
  obtain b where b: "load8 inp (INP ncols (rr + of_nat i) cc) = Inr b"
    and lo: "\<And>j. j < 8 \<Longrightarrow> bit b j = tbit ncols inp (unat rr + i) (unat cc + j)"
    by (rule load8_bits [OF d(1), of "rr + of_nat i" cc, unfolded ri]) (use d i in auto)
  obtain x where "fill8 ncols inp rr cc is (set_byte tmp i b) = Inr x"
    and "\<forall>k<8. \<forall>j<8. bit x (8 * k + j) =
       (if k \<in> set is then tbit ncols inp (unat rr + k) (unat cc + j)
        else bit (set_byte tmp i b) (8 * k + j))"
    using Cons.IH [of "set_byte tmp i b"] Cons.prems by auto
  with b lo i show ?case by (auto simp: bit_set_byte_at)
qed

lemma emit8_filled:
  assumes "dims nrows ncols inp out" "unat rr + 8 \<le> unat nrows" "unat rr mod 8 = 0"
    "unat cc + 8 \<le> unat ncols" "i \<le> 8"
    "aligned 8 i x (\<lambda>k j. f (unat rr + k) (unat cc + j))"
  shows "\<exists>out'. emit8 nrows rr cc i x out = Inr out' \<and>
    filled (unat nrows) (unat ncols) f
      (\<lambda>r c. unat rr \<le> r \<and> r < unat rr + 8 \<and> unat cc \<le> c \<and> c < unat cc + i) out out'"
  using assms
proof (induction i arbitrary: x out)
  case 0
  show ?case by (auto intro: filled_cong [OF filled_refl])
next
  case (Suc i)
  let ?y = "cc + of_nat i" and ?h = "mm_movemask_epi8 x"
  have y: "unat ?y = unat cc + i"
    using Suc.prems unat_u64_less [of ncols] by (intro unat_add_of_nat) simp
  have h: "bit ?h k = f (unat rr + k) (unat ?y)" if "k < 8" for k
    using aligned_top [OF Suc.prems(6)] Suc.prems(5) that by (simp add: bit_movemask y)
  obtain out1 where o1: "store8 out (OUT nrows rr ?y) (ucast ?h) = Inr out1"
    and f1: "filled (unat nrows) (unat ncols) f (\<lambda>r c. c = unat ?y \<and> unat rr \<le> r \<and> r < unat rr + 8) out out1"
    by (rule store8_filled [OF Suc.prems(1), of rr ?y "ucast ?h" f])
      (use Suc.prems h in \<open>auto simp: y bit_simps\<close>)
  obtain out' where "emit8 nrows rr cc i (mm_slli_epi64 x 1) out1 = Inr out'"
    and f2: "filled (unat nrows) (unat ncols) f
      (\<lambda>r c. unat rr \<le> r \<and> r < unat rr + 8 \<and> unat cc \<le> c \<and> c < unat cc + i) out1 out'"
    using Suc.IH [OF dims_out [OF Suc.prems(1) filled_length [OF f1]], of "mm_slli_epi64 x 1"]
      aligned_shift [OF Suc.prems(6)] Suc.prems by auto
  with o1 show ?case
    by (auto intro!: filled_cong [OF filled_trans [OF f1 f2]] simp: y)
qed

lemma last_block_filled:
  assumes d: "dims nrows ncols inp out" "unat rr + 8 \<le> unat nrows" "unat rr mod 8 = 0"
    "unat cc + 8 \<le> unat ncols" "unat cc mod 8 = 0"
  shows "\<exists>out'. last_block nrows ncols inp rr cc tmp out = Inr out' \<and>
    filled (unat nrows) (unat ncols) (tbit ncols inp)
      (\<lambda>r c. unat rr \<le> r \<and> r < unat rr + 8 \<and> unat cc \<le> c \<and> c < unat cc + 8) out out'"
proof -
  obtain x where x: "fill8 ncols inp rr cc [0..<8] tmp = Inr x"
    and bits: "\<forall>k<8. \<forall>j<8. bit x (8 * k + j) =
       (if k \<in> set [0..<8] then tbit ncols inp (unat rr + k) (unat cc + j) else bit tmp (8 * k + j))"
    using fill8_bits [OF d(1,2,4,5), of "[0..<8]" tmp] by (auto simp: subset_eq)
  have "aligned 8 8 x (\<lambda>k j. tbit ncols inp (unat rr + k) (unat cc + j))"
    using bits by (simp add: aligned_def)
  with x show ?thesis
    using emit8_filled [OF d(1-4) order.refl] by (simp add: last_block_def)
qed

text \<open>
  The remainder after the blocks of sixteen rows: rows \<open>rr\<close> to \<open>nrows - 1\<close>, of which there are eight.
\<close>

lemma remainder_filled:
  assumes d: "dims nrows ncols inp out" "unat rr + 8 = unat nrows" "unat rr mod 8 = 0" "16 \<le> unat ncols"
  shows "\<exists>cc tmp' out1 out'.
    pairs (pair_block nrows ncols inp rr) ncols 0 tmp out = Some (Inr (cc, tmp', out1)) \<and>
    (if cc = ncols then Inr out1 else last_block nrows ncols inp rr cc tmp' out1) = Inr out' \<and>
    filled (unat nrows) (unat ncols) (tbit ncols inp) (\<lambda>r c. unat rr \<le> r) out out'"
proof -
  let ?n = "unat ncols div 16" and ?rest = "unat ncols mod 16"
  have M: "unat (0::u64) + 16 * ?n + ?rest = unat ncols" by simp
  have m8: "unat ncols mod 8 = 0" using d(1) by (simp add: dims_def word_mod_8)
  obtain cc tmp' out1 where
    p: "pairs (pair_block nrows ncols inp rr) ncols 0 tmp out = Some (Inr (cc, tmp', out1))"
    and cc: "unat cc = 16 * ?n"
    and f1: "filled (unat nrows) (unat ncols) (tbit ncols inp)
      (\<lambda>r c. unat rr \<le> r \<and> r < unat rr + 8 \<and> unat (0::u64) \<le> c \<and> c < unat (0::u64) + 16 * ?n) out out1"
    using pairs_filled [OF d(1) _ d(3) M, of tmp] d by auto
  show ?thesis
  proof (cases "cc = ncols")
    case True
    then show ?thesis using p cc d
      by (auto intro!: exI [of _ out1] filled_cong [OF f1])
  next
    case False
    then have "?rest \<noteq> 0" using cc M by (metis add.right_neutral add_0 unat_0 word_unat_eq_iff)
    then have "?rest = 8" using m8 by presburger
    then have c8: "unat cc + 8 = unat ncols" using cc M by simp
    obtain out' where "last_block nrows ncols inp rr cc tmp' out1 = Inr out'"
      and f2: "filled (unat nrows) (unat ncols) (tbit ncols inp)
        (\<lambda>r c. unat rr \<le> r \<and> r < unat rr + 8 \<and> unat cc \<le> c \<and> c < unat cc + 8) out1 out'"
      using last_block_filled [OF dims_out [OF d(1) filled_length [OF f1]], of rr cc tmp'] d c8 cc by auto
    with False p show ?thesis using d c8 cc
      by (auto intro!: exI [of _ out'] filled_cong [OF filled_trans [OF f1 f2]])
  qed
qed

section \<open>The whole function\<close>

lemma sse_trans_filled:
  assumes d: "dims nrows ncols inp out" "16 \<le> unat nrows" "unat nrows mod 16 = 0 \<or> 16 \<le> unat ncols"
  shows "\<exists>out'. sse_trans tmp0 out inp nrows ncols = Some (Inr out') \<and>
    filled (unat nrows) (unat ncols) (tbit ncols inp) (\<lambda>r c. True) out out'"
proof -
  let ?n = "unat nrows div 16" and ?rest = "unat nrows mod 16"
  have N: "unat (0::u64) + 16 * ?n + ?rest = unat nrows" by simp
  have ok: "nrows mod 8 = 0 \<and> ncols mod 8 = 0" using d(1) by (simp add: dims_def)
  then have n8: "unat nrows mod 8 = 0" by (simp add: word_mod_8)
  obtain rr out1 where r: "rows16 nrows ncols inp 0 out = Some (Inr (rr, out1))"
    and rr: "unat rr = 16 * ?n"
    and f1: "filled (unat nrows) (unat ncols) (tbit ncols inp)
      (\<lambda>r c. unat (0::u64) \<le> r \<and> r < unat (0::u64) + 16 * ?n) out out1"
    using rows16_filled [OF d(1) N] d by auto
  show ?thesis
  proof (cases "rr = nrows")
    case True
    with r ok rr show ?thesis
      by (auto simp: sse_trans_def intro!: filled_cong [OF f1])
  next
    case False
    then have "?rest \<noteq> 0" using rr N by (metis add.right_neutral add_0 unat_0 word_unat_eq_iff)
    then have r8: "?rest = 8" using n8 by presburger
    have "unat (nrows mod 16) = 8" using r8 by (simp add: unat_mod)
    then have arm: "nrows mod 16 \<noteq> 0" by (metis unat_0 zero_neq_numeral)
    obtain cc tmp' out2 out' where
      "pairs (pair_block nrows ncols inp rr) ncols 0 tmp0 out1 = Some (Inr (cc, tmp', out2))"
      "(if cc = ncols then Inr out2 else last_block nrows ncols inp rr cc tmp' out2) = Inr out'"
      and f2: "filled (unat nrows) (unat ncols) (tbit ncols inp) (\<lambda>r c. unat rr \<le> r) out1 out'"
      using remainder_filled [OF dims_out [OF d(1) filled_length [OF f1]], of rr tmp0] d r8 rr N by auto
    with False r ok arm rr show ?thesis
      by (auto simp: sse_trans_def intro!: filled_cong [OF filled_trans [OF f1 f2]] split: if_splits)
  qed
qed

lemma filled_transpose:
  assumes d: "dims nrows ncols inp out"
    and f: "filled (unat nrows) (unat ncols) (tbit ncols inp) (\<lambda>r c. True) out out'"
  shows "out' = bit_transpose (unat nrows) (unat ncols) inp"
  by (rule bit_transpose_unique) (use d f in \<open>auto simp: dims_def filled_def tbit_def\<close>)

text \<open>
  C1. The C transpose is correct: on buffers of \<open>nrows * ncols / 8\<close> bytes, with both sides multiples
  of eight, at least sixteen rows, and either a multiple of sixteen rows or at least sixteen columns,
  \<open>sse_trans\<close> terminates without touching memory outside its buffers, whatever the uninitialised
  union and the output buffer held, and leaves the transposed matrix in \<open>out\<close>.
\<close>

theorem sse_trans_correct:
  assumes "dims nrows ncols inp out" and "16 \<le> unat nrows"
    and "unat nrows mod 16 = 0 \<or> 16 \<le> unat ncols"
  shows "sse_trans tmp0 out inp nrows ncols =
    Some (Inr (bit_transpose (unat nrows) (unat ncols) inp))"
  using sse_trans_filled [OF assms, of tmp0] filled_transpose [OF assms(1)] by auto

theorem sse_trans_correct_witness:
  "dims 24 16 (replicate 48 3) (replicate 48 0) \<and>
   sse_trans 0 (replicate 48 0) (replicate 48 3) 24 16 = Some (Inr (bit_transpose 24 16 (replicate 48 3)))"
proof -
  have d: "dims 24 16 (replicate 48 3) (replicate 48 0)" by (simp add: dims_def)
  show ?thesis using d sse_trans_correct [OF d, of 0] by simp
qed

section \<open>Where the loop guards wrap around\<close>

lemma load16_cases: "(\<exists>h. load16 m ix = Inr h) \<or> load16 m ix = Inl OutOfBounds"
  by (auto simp: load16_def read_at_def)

lemma fill_pair_fault:
  "i \<in> set is \<Longrightarrow> load16 inp (INP ncols (rr + of_nat i) cc) = Inl OutOfBounds \<Longrightarrow>
   fill_pair ncols inp rr cc is tmp = Inl OutOfBounds"
proof (induction "is" arbitrary: tmp)
  case (Cons i' "is")
  then show ?case using load16_cases [of inp "INP ncols (rr + of_nat i') cc"] by auto
qed simp

text \<open>
  C2. The loop guard \<open>cc <= ncols - 16\<close> wraps around when \<open>ncols\<close> is 8: with a number of rows that
  is 8 more than a positive multiple of sixteen the remainder loop is entered and reads past the end of
  the input, although every assertion of \<open>sse_trans\<close> and of its Rust caller holds.
\<close>

theorem sse_trans_narrow_out_of_bounds:
  assumes d: "dims nrows 8 inp out" and "24 \<le> unat nrows" and "unat nrows mod 16 = 8"
  shows "sse_trans tmp0 out inp nrows 8 = Some (Inl OutOfBounds)"
proof -
  let ?n = "unat nrows div 16"
  have N: "unat (0::u64) + 16 * ?n + 8 = unat nrows" 
    using assms(3) mult_div_mod_eq [of 16 "unat nrows"] by simp
  obtain rr out1 where r: "rows16 nrows 8 inp 0 out = Some (Inr (rr, out1))" and rr: "unat rr = 16 * ?n"
    using rows16_filled [OF d N] assms by auto
  have r7: "unat (rr + 7) = unat rr + 7"
    using unat_add_of_nat [of rr 7] rr N unat_u64_less [of nrows] by simp
  have "8 * unat (INP 8 (rr + 7) 0) = unat (rr + 7) * unat (8::u64) + unat (0::u64)"
    by (rule unat_INP [OF d]) (use rr N r7 in auto)
  moreover have "length inp = unat nrows" using d by (simp add: dims_def)
  ultimately have "load16 inp (INP 8 (rr + of_nat 7) 0) = Inl OutOfBounds"
    using rr N r7 by (simp add: load16_def read_at_def)
  then have "fill_pair 8 inp rr 0 [0..<8] tmp0 = Inl OutOfBounds"
    by (intro fill_pair_fault [of 7]) simp_all
  then have "pairs (pair_block nrows 8 inp rr) 8 0 tmp0 out1 = Some (Inl OutOfBounds)"
    by (subst pairs.simps) (simp add: pair_block_def)
  moreover have "rr \<noteq> nrows" using rr N by auto
  moreover have "unat (nrows mod 16) = 8" using assms(3) by (simp add: unat_mod)
  then have "nrows mod 16 \<noteq> 0" by (metis unat_0 zero_neq_numeral)
  ultimately show ?thesis using r d by (simp add: sse_trans_def dims_def)
qed

theorem sse_trans_narrow_out_of_bounds_witness:
  "dims 24 8 (replicate 24 0) (replicate 24 0) \<and>
   sse_trans 0 (replicate 24 0) (replicate 24 0) 24 8 = Some (Inl OutOfBounds)"
proof -
  have d: "dims 24 8 (replicate 24 0) (replicate 24 0)" by (simp add: dims_def)
  show ?thesis using d sse_trans_narrow_out_of_bounds [OF d, of 0] by simp
qed

text \<open>
  The loop guard \<open>rr <= nrows - 16\<close> wraps around for a matrix of eight rows: the first block of
  sixteen rows is read past the end of the input.  The Rust caller rules this out with its assertion
  \<open>nrows >= 16\<close>.
\<close>

theorem sse_trans_eight_rows_out_of_bounds:
  assumes d: "dims 8 ncols inp out" and "0 < ncols" and "16 * unat ncols < 2 ^ 64"
  shows "sse_trans tmp0 out inp 8 ncols = Some (Inl OutOfBounds)"
proof -
  have m8: "ncols mod 8 = 0" and len: "length inp = unat ncols" using d by (auto simp: dims_def)
  have "8 * unat (15 * ncols div 8 + 0 div 8) = unat (15::u64) * unat ncols + unat (0::u64)"
    by (rule unat_cell_index [where n = 16]) (use assms m8 in \<open>auto simp: word_mod_8 word_less_nat_alt\<close>)
  then have "\<not> unat (INP ncols 15 0) < length inp" by (simp add: INP_def len)
  then have "load8 inp (INP ncols (0 + 15) 0) = Inl OutOfBounds"
    by (simp add: load8_def buffer_simps)
  then have "block16 8 ncols inp 0 0 out = Inl OutOfBounds" by (simp add: block16_def)
  then have "cols16 8 ncols inp 0 0 out = Some (Inl OutOfBounds)"
    using assms(2) by (subst cols16.simps) simp
  then have "rows16 8 ncols inp 0 out = Some (Inl OutOfBounds)"
    by (subst rows16.simps) simp
  then show ?thesis using m8 by (simp add: sse_trans_def)
qed

theorem sse_trans_eight_rows_out_of_bounds_witness:
  "dims 8 16 (replicate 16 0) (replicate 16 0) \<and>
   sse_trans 0 (replicate 16 0) (replicate 16 0) 8 16 = Some (Inl OutOfBounds)"
proof -
  have d: "dims 8 16 (replicate 16 0) (replicate 16 0)" by (simp add: dims_def)
  show ?thesis using d sse_trans_eight_rows_out_of_bounds [OF d, of 0] by simp
qed

end
