(* ===== verification/Transpose_Ends.thy ===== *)
theory Transpose_Ends
  imports Transpose_Correct
begin

text \<open>
  When \<open>sse_trans\<close> ends.  Its loops have unsigned guards that can wrap around, so a run may go on beyond the matrix.  For buffers
  shorter than \<open>2 ^ 60\<close> bytes such a run leaves them before its counter wraps, and stops there; only with no columns at all does it
  access nothing, and then goes on for ever.
\<close>

section \<open>Only accesses fail\<close>

lemma run_faults: "load8 m ix = Inl e \<Longrightarrow> e = OutOfBounds" "load16 m ix = Inl e \<Longrightarrow> e = OutOfBounds"
    "store16 m ix v = Inl e \<Longrightarrow> e = OutOfBounds" "store8 m ix b = Inl e \<Longrightarrow> e = OutOfBounds"
  by (auto simp: load8_def load16_def store16_def store8_def read_at_def write_at_def bind_run_def split: if_splits)

lemma bind_run_fault:
  "bind_run m f = Inl e \<Longrightarrow> (\<And>e. m = Inl e \<Longrightarrow> P e) \<Longrightarrow> (\<And>x e. m = Inr x \<Longrightarrow> f x = Inl e \<Longrightarrow> P e) \<Longrightarrow> P e"
  by (cases m) auto

lemma map_run_fault: "map_run f xs = Inl e \<Longrightarrow> (\<And>x e. f x = Inl e \<Longrightarrow> P e) \<Longrightarrow> P e"
  by (induction xs) (auto simp: bind_run_def split: sum.splits)

lemma emit16_fault: "emit16 nrows rr cc n vec out = Inl e \<Longrightarrow> e = OutOfBounds"
  by (induction n arbitrary: vec out) (auto simp: bind_run_def run_faults split: sum.splits)

lemma block16_fault: "block16 nrows ncols inp rr cc out = Inl e \<Longrightarrow> e = OutOfBounds"
  unfolding block16_def
  by (erule bind_run_fault, erule map_run_fault, erule run_faults, erule emit16_fault)

lemma store16_length: "store16 m ix v = Inr m' \<Longrightarrow> length m' = length m"
  by (auto simp: store16_def bind_run_Inr_conv dest!: write_at_length)

lemma emit16_length: "emit16 nrows rr cc n vec out = Inr out' \<Longrightarrow> length out' = length out"
  by (induction n arbitrary: vec out) (auto simp: bind_run_Inr_conv dest: store16_length)

lemma block16_length: "block16 nrows ncols inp rr cc out = Inr out' \<Longrightarrow> length out' = length out"
  by (auto simp: block16_def bind_run_Inr_conv simp del: map_run.simps dest: emit16_length)

section \<open>Accesses far outside\<close>

text \<open>An index that is the sum of two cell numbers is at least the second.\<close>

lemma index_far: "2 ^ 63 \<le> unat (c :: u64) \<Longrightarrow> 2 ^ 60 \<le> unat (a div 8 + c div 8)"
proof -
  assume c: "2 ^ 63 \<le> unat c"
  have "unat (a div 8) < 2 ^ 61" "unat (c div 8) < 2 ^ 61" using unat_u64_less [of a] unat_u64_less [of c] by (simp_all add: unat_div)
  then have "unat (a div 8 + c div 8) = unat (a div 8) + unat (c div 8)" by (intro unat_add_small) simp
  moreover have "2 ^ 60 \<le> unat (c div 8)" using c by (simp add: unat_div)
  ultimately show ?thesis by simp
qed

lemma block16_far:
  assumes "2 ^ 63 \<le> unat rr" and "length out < 2 ^ 60"
  shows "block16 nrows ncols inp rr cc out = Inl OutOfBounds"
proof -
  have "\<not> unat (OUT nrows rr (cc + of_nat 7)) < length out"
    using index_far [OF assms(1), of "(cc + of_nat 7) * nrows"] assms(2) by (simp only: OUT_def not_less)
  then have "emit16 nrows rr cc (Suc 7) vec out = Inl OutOfBounds" for vec
    unfolding emit16.simps store16_def by (subst write_at_out) simp_all
  then have emit: "emit16 nrows rr cc 8 vec out = Inl OutOfBounds" for vec by simp
  show ?thesis
  proof (cases "block16 nrows ncols inp rr cc out")
    case (Inl e)
    then show ?thesis using block16_fault by simp
  next
    case (Inr b)
    then show ?thesis unfolding block16_def bind_run_Inr_conv emit by blast
  qed
qed

section \<open>The rows, taken sixteen at a time\<close>

lemma cols16_ends:
  assumes "unat ncols mod 8 = 0"
  shows "unat cc mod 8 = 0 \<Longrightarrow> \<exists>r. cols16 nrows ncols inp rr cc out = Some r \<and>
    (case r of Inl e \<Rightarrow> e = OutOfBounds | Inr out' \<Rightarrow> length out' = length out)"
proof (induction "unat ncols - unat cc" arbitrary: cc out rule: less_induct)
  case less
  show ?case
  proof (cases "cc < ncols")
    case True
    then have "unat cc < unat ncols" by (simp add: word_less_nat_alt)
    moreover from this have le: "unat cc + 8 \<le> unat ncols" using assms less.prems by presburger
    then have c8: "unat (cc + 8) = unat cc + 8"
      using unat_add_of_nat [of cc 8] unat_u64_less [of ncols] by simp
    ultimately have step: "unat ncols - unat (cc + 8) < unat ncols - unat cc" by simp
    have m8: "unat (cc + 8) mod 8 = 0" using c8 less.prems by simp
    show ?thesis
    proof (cases "block16 nrows ncols inp rr cc out")
      case (Inl e)
      with block16_fault [OF this] True show ?thesis by (subst cols16.simps) simp
    next
      case (Inr out1)
      with less.hyps [OF step m8, of out1] True block16_length [OF Inr] show ?thesis by (subst cols16.simps) (simp only: if_True sum.case)
    qed
  qed (subst cols16.simps, simp)
qed

lemma unat_add_16_mod: "unat (rr :: u64) mod 16 = 0 \<Longrightarrow> unat (rr + 16) mod 16 = 0"
proof -
  assume "unat rr mod 16 = 0"
  then have "(unat rr + 16) mod 2 ^ 64 mod 16 = 0" by (subst mod_mod_cancel) (simp_all add: dvd_def mod_add_left_eq)
  moreover have "unat (rr + 16) = (unat rr + 16) mod 2 ^ 64" by (simp add: unat_word_ariths)
  ultimately show ?thesis by simp
qed

text \<open>With at least one column, the rows end: the matrix does, or the buffer.\<close>

lemma rows16_ends:
  assumes "unat ncols mod 8 = 0" and "0 < ncols"
  shows "unat rr \<le> 2 ^ 63 \<Longrightarrow> unat rr mod 16 = 0 \<Longrightarrow> length out < 2 ^ 60 \<Longrightarrow> \<exists>r. rows16 nrows ncols inp rr out = Some r \<and>
    (case r of Inl e \<Rightarrow> e = OutOfBounds | Inr (rr', out') \<Rightarrow> length out' = length out \<and> unat rr' mod 16 = 0 \<and> \<not> rr' \<le> nrows - 16)"
proof (induction "2 ^ 63 - unat rr" arbitrary: rr out rule: less_induct)
  case less
  obtain r where r: "cols16 nrows ncols inp rr 0 out = Some r"
    "case r of Inl e \<Rightarrow> e = OutOfBounds | Inr out' \<Rightarrow> length out' = length out"
    using cols16_ends [OF assms(1), of 0 nrows inp rr out] by auto
  show ?case
  proof (cases "rr \<le> nrows - 16")
    case False
    then show ?thesis using less.prems by (subst rows16.simps) simp
  next
    case True
    show ?thesis
    proof (cases r)
      case (Inl e)
      with r True show ?thesis by (subst rows16.simps) simp
    next
      case (Inr out1)
      have "unat rr \<noteq> 2 ^ 63"
      proof
        assume "unat rr = 2 ^ 63"
        then have "block16 nrows ncols inp rr 0 out = Inl OutOfBounds" using less.prems by (intro block16_far) simp_all
        then have "cols16 nrows ncols inp rr 0 out = Some (Inl OutOfBounds)" using assms(2) by (subst cols16.simps) simp
        with r(1) Inr show False by simp
      qed
      then have le: "unat rr + 16 \<le> 2 ^ 63" using less.prems(1,2) by (simp, presburger)
      then have r16: "unat (rr + 16) = unat rr + 16" using unat_add_of_nat [of rr 16] by simp
      have len: "length out1 = length out" using r(2) Inr by simp
      have "2 ^ 63 - unat (rr + 16) < 2 ^ 63 - unat rr" "unat (rr + 16) \<le> 2 ^ 63" "length out1 < 2 ^ 60"
        using le r16 len less.prems(3) by simp_all
      then show ?thesis using less.hyps [of "rr + 16" out1, unfolded len] unat_add_16_mod [OF less.prems(2)] r(1) Inr True len by (subst rows16.simps) simp
    qed
  qed
qed

text \<open>With fewer than 16 rows, \<open>nrows - 16\<close> wraps around and the guard holds for every counter.\<close>

lemma rows16_wraps: "unat (nrows :: u64) < 16 \<Longrightarrow> unat rr mod 16 = 0 \<Longrightarrow> rr \<le> nrows - 16"
proof -
  assume n: "unat nrows < 16" and rr: "unat rr mod 16 = 0"
  have e: "nrows - 16 = nrows + (2 ^ 64 - 16)" by simp
  have "unat (nrows + (2 ^ 64 - 16)) = unat nrows + (2 ^ 64 - 16)"
    using n by (subst unat_add_small) simp_all
  then have "unat (nrows - 16) = unat nrows + (2 ^ 64 - 16)" by (simp only: e)
  moreover have "unat rr \<le> 2 ^ 64 - 16" using unat_u64_less [of rr] rr by (simp, presburger)
  ultimately show ?thesis by (simp add: word_le_nat_alt)
qed

text \<open>Without columns nothing is accessed: the loop ends if its guard fails at the end of the rows.\<close>

lemma cols16_empty: "cols16 nrows 0 inp rr cc out = Some (Inr out)"
  by (subst cols16.simps) simp

lemma rows16_empty:
  assumes "16 \<le> unat nrows"
  shows "unat rr \<le> unat nrows \<Longrightarrow> \<exists>rr'. rows16 nrows 0 inp rr out = Some (Inr (rr', out))"
proof (induction "unat nrows - unat rr" arbitrary: rr rule: less_induct)
  case less
  have "unat (nrows - 16) = unat nrows - 16" using assms by (simp add: unat_sub word_le_nat_alt)
  then have le: "rr \<le> nrows - 16 \<longleftrightarrow> unat rr + 16 \<le> unat nrows" using assms by (auto simp: word_le_nat_alt)
  show ?case
  proof (cases "rr \<le> nrows - 16")
    case True
    then have r16: "unat (rr + 16) = unat rr + 16" using unat_add_of_nat [of rr 16] unat_u64_less [of nrows] le by simp
    have "unat nrows - unat (rr + 16) < unat nrows - unat rr" "unat (rr + 16) \<le> unat nrows" using r16 True le by simp_all
    then show ?thesis using less.hyps [of "rr + 16"] True by (subst rows16.simps) (simp add: cols16_empty)
  qed (subst rows16.simps, simp)
qed

lemma rows16_endless:
  assumes "unat nrows < 16"
  shows "unat rr mod 16 = 0 \<Longrightarrow> rows16 nrows 0 inp rr out = None"
proof (rule ccontr)
  assume rr: "unat rr mod 16 = 0" and "rows16 nrows 0 inp rr out \<noteq> None"
  then obtain y where y: "rows16 nrows 0 inp rr out = Some y" by blast
  have "\<not> (unat nrows < 16 \<and> (0::u64) = 0 \<and> unat rr mod 16 = 0)"
  proof (rule rows16.raw_induct [where P = "\<lambda>n c i r ou y. \<not> (unat n < 16 \<and> c = 0 \<and> unat r mod 16 = 0)", OF _ y])
    fix rows n c i r ou y
    assume IH: "\<And>n c i r ou y. rows n c i r ou = Some y \<Longrightarrow> \<not> (unat n < 16 \<and> c = 0 \<and> unat r mod 16 = 0)"
      and y: "(if r \<le> n - 16 then Option.bind (cols16 n c i r 0 ou)
          (\<lambda>res. case res of Inl e \<Rightarrow> Some (Inl e) | Inr out' \<Rightarrow> rows n c i (r + 16) out') else Some (Inr (r, ou))) = Some y"
    show "\<not> (unat n < 16 \<and> c = 0 \<and> unat r mod 16 = 0)"
    proof
      assume n: "unat n < 16 \<and> c = 0 \<and> unat r mod 16 = 0"
      then have "rows n c i (r + 16) ou = Some y" using y rows16_wraps [of n r] by (simp add: cols16_empty)
      from IH [OF this] n unat_add_16_mod [of r] show False by simp
    qed
  qed
  then show False using assms rr by simp
qed

section \<open>The pairs of blocks\<close>

lemma load16_far:
  assumes "2 ^ 63 \<le> unat cc" and "length inp < 2 ^ 60"
  shows "load16 inp (INP ncols x cc) = Inl OutOfBounds"
proof -
  have "\<not> unat (INP ncols x cc) < length inp"
    using index_far [OF assms(1), of "x * ncols"] assms(2) by (simp only: INP_def not_less)
  then show ?thesis unfolding load16_def by (subst read_at_out) simp_all
qed

lemma pair_block_far:
  assumes "2 ^ 63 \<le> unat cc" and "length inp < 2 ^ 60"
  shows "pair_block nrows ncols inp rr cc tmp out = Inl OutOfBounds"
    and "pair_block16 nrows ncols inp rr cc tmp out = Inl OutOfBounds"
  by (simp_all add: pair_block_def pair_block16_def upt_conv_Cons load16_far [OF assms])

lemma fill_pair_fault_kind: "fill_pair ncols inp rr cc ks tmp = Inl e \<Longrightarrow> e = OutOfBounds"
proof (induction ks arbitrary: tmp e)
  case (Cons k ks)
  from Cons.prems show ?case unfolding fill_pair.simps
    by (rule bind_run_fault) (erule run_faults, erule Cons.IH)
qed simp

lemma emit_pair_fault: "emit_pair nrows rr cc n x out = Inl e \<Longrightarrow> e = OutOfBounds"
proof (induction n arbitrary: x out e)
  case (Suc n)
  from Suc.prems show ?case unfolding emit_pair.simps Let_def
    by (elim bind_run_fault run_faults Suc.IH)
qed simp

lemma pair_block_fault: "pair_block nrows ncols inp rr cc tmp out = Inl e \<Longrightarrow> e = OutOfBounds"
  unfolding pair_block_def by (erule bind_run_fault, erule fill_pair_fault_kind, erule emit_pair_fault)

lemma pair_block16_fault: "pair_block16 nrows ncols inp rr cc tmp out = Inl e \<Longrightarrow> e = OutOfBounds"
  unfolding pair_block16_def
  by (elim bind_run_fault) (erule map_run_fault, erule run_faults, erule emit_pair_fault, auto)

lemma pairs_ends:
  assumes far: "\<And>cc tmp out. 2 ^ 63 \<le> unat cc \<Longrightarrow> body cc tmp out = Inl OutOfBounds"
  shows "unat cc \<le> 2 ^ 63 \<Longrightarrow> unat cc mod 16 = 0 \<Longrightarrow> \<exists>r. pairs body ncols cc tmp out = Some r"
proof (induction "2 ^ 63 - unat cc" arbitrary: cc tmp out rule: less_induct)
  case less
  show ?case
  proof (cases "cc \<le> ncols - 16 \<and> (\<exists>s. body cc tmp out = Inr s)")
    case False
    then show ?thesis by (subst pairs.simps) (auto split: sum.splits)
  next
    case True
    then obtain tmp1 out1 where s: "body cc tmp out = Inr (tmp1, out1)" and le: "cc \<le> ncols - 16" by auto
    have "unat cc \<noteq> 2 ^ 63" using far [of cc tmp out] s by auto
    then have "unat cc + 16 \<le> 2 ^ 63" using less.prems by (simp, presburger)
    moreover from this have "unat (cc + 16) = unat cc + 16" using unat_add_of_nat [of cc 16] by simp
    ultimately have "2 ^ 63 - unat (cc + 16) < 2 ^ 63 - unat cc" "unat (cc + 16) \<le> 2 ^ 63" by simp_all
    with less.hyps [of "cc + 16" tmp1 out1] unat_add_16_mod [OF less.prems(2)] s le show ?thesis by (subst pairs.simps) simp
  qed
qed

section \<open>The whole function\<close>

lemma rows16_None_iff:
  assumes "length out < 2 ^ 60" "nrows mod 8 = 0" "ncols mod 8 = 0"
  shows "rows16 nrows ncols inp 0 out = None \<longleftrightarrow> unat nrows < 16 \<and> ncols = 0"
proof (cases "ncols = 0")
  case True
  then show ?thesis using rows16_endless [of nrows 0] rows16_empty [of nrows 0 inp out] by (cases "unat nrows < 16") auto
next
  case False
  then show ?thesis using rows16_ends [of ncols 0 out nrows inp] assms by (auto simp: word_mod_8 word_neq_0_conv)
qed

lemma bind_ends: "(\<And>x. f x \<noteq> None) \<Longrightarrow> Option.bind m f = None \<longleftrightarrow> m = None"
  by (cases m) simp_all

lemma sse_trans_None_iff:
  assumes "length inp < 2 ^ 60" and "length out < 2 ^ 60"
  shows "sse_trans tmp0 out inp nrows ncols = None \<longleftrightarrow> nrows mod 8 = 0 \<and> unat nrows < 16 \<and> ncols = 0"
proof (cases "nrows mod 8 = 0 \<and> ncols mod 8 = 0")
  case True
  have p: "pairs (pair_block nrows ncols inp rr) ncols 0 tmp0 out1 \<noteq> None"
    "pairs (pair_block16 nrows ncols inp rr) ncols 0 tmp0 out1 \<noteq> None" for rr out1
    using pairs_ends [OF pair_block_far(1) [OF _ assms(1)], where cc = 0]
      pairs_ends [OF pair_block_far(2) [OF _ assms(1)], where cc = 0] by fastforce+
  have "sse_trans tmp0 out inp nrows ncols = None \<longleftrightarrow> rows16 nrows ncols inp 0 out = None"
    unfolding sse_trans_def
    by (subst if_not_P) (use True in simp, rule bind_ends, auto simp: bind_ends p simp del: not_None_eq split: sum.splits)
  then show ?thesis using rows16_None_iff [OF assms(2)] True by simp
qed (auto simp: sse_trans_def)

lemma sse_trans_short_faults:
  assumes "length out < 2 ^ 60" and "nrows mod 8 = 0" "unat nrows < 16" "ncols mod 8 = 0" "ncols \<noteq> 0"
  shows "sse_trans tmp0 out inp nrows ncols = Some (Inl OutOfBounds)"
proof -
  have c: "unat ncols mod 8 = 0" "0 < ncols" using assms(4,5) by (simp_all add: word_mod_8 word_neq_0_conv)
  obtain r where r: "rows16 nrows ncols inp 0 out = Some r"
    "case r of Inl e \<Rightarrow> e = OutOfBounds
       | Inr (rr', out') \<Rightarrow> length out' = length out \<and> unat rr' mod 16 = 0 \<and> \<not> rr' \<le> nrows - 16"
    using rows16_ends [OF c, of 0 out nrows inp] assms(1) by auto
  then have "r = Inl OutOfBounds" using rows16_wraps [OF assms(3)] by (auto split: sum.splits)
  then show ?thesis using r(1) assms by (simp add: sse_trans_def)
qed

text \<open>
  C3. On buffers shorter than 2 to the 60 bytes, \<open>sse_trans\<close> runs for ever in exactly one case: fewer than 16 rows and no columns, which
  pass the assertion of transpose.c line 49.  With fewer than 16 rows and some columns it does not transpose either: the guard of line
  52 has wrapped around, and the run ends at an access outside a buffer.
\<close>

theorem sse_trans_ends:
  assumes "length inp < 2 ^ 60" and "length out < 2 ^ 60"
  shows "(sse_trans tmp0 out inp nrows ncols = None \<longleftrightarrow> nrows mod 8 = 0 \<and> unat nrows < 16 \<and> ncols = 0) \<and>
    (nrows mod 8 = 0 \<and> unat nrows < 16 \<and> ncols mod 8 = 0 \<and> ncols \<noteq> 0 \<longrightarrow>
       sse_trans tmp0 out inp nrows ncols = Some (Inl OutOfBounds))"
  by (rule conjI [OF sse_trans_None_iff [OF assms]], intro impI, elim conjE, rule sse_trans_short_faults [OF assms(2)])

theorem sse_trans_ends_witness:
  "sse_trans 0 [] [] 8 0 = None \<and> (\<exists>r. sse_trans 0 (replicate 32 0) (replicate 32 0) 16 16 = Some r) \<and>
   sse_trans 0 (replicate 16 0) (replicate 16 0) 8 16 = Some (Inl OutOfBounds)"
proof (intro conjI)
  show "sse_trans 0 [] [] 8 0 = None" using sse_trans_ends [of "[]" "[]" 0 8 0] by simp
  have b: "length (replicate 32 (0::u8)) < 2 ^ 60" "length (replicate 16 (0::u8)) < 2 ^ 60" by simp_all
  have "sse_trans 0 (replicate 32 0) (replicate 32 0) 16 16 \<noteq> None"
    using conjunct1 [OF sse_trans_ends [OF b(1) b(1), of 0 16 16]] by simp
  then show "\<exists>r. sse_trans 0 (replicate 32 0) (replicate 32 0) 16 16 = Some r" by simp
  show "sse_trans 0 (replicate 16 0) (replicate 16 0) 8 16 = Some (Inl OutOfBounds)"
    by (rule mp [OF conjunct2 [OF sse_trans_ends [OF b(2) b(2)]]]) simp
qed

end
