(* ===== verification/Wire_All.thy ===== *)
theory Wire_All
  imports Wire_Mod_Q
begin

text \<open>
  The other wire labels of \<^verbatim>\<open>fancy-garbling/src/wire.rs\<close>: \<open>WireMod2\<close> (a block of 128 bits), \<open>WireMod3\<close> (64 digits in two words, one bit
  of each digit in either), their sum type \<open>AllWire\<close>, the operations of the trait \<open>WireLabel\<close> on each, and the checks on labels that are
  read from another party.  The random generator and the tweakable hash are arguments.
\<close>

section \<open>The three kinds of labels\<close>

record WireMod2 =
  val2 :: u128

record WireMod3 =
  lsb :: u64
  msb :: u64

datatype AllWire = Mod2 WireMod2 | Mod3 WireMod3 | ModN WireModQ

text \<open>What a random generator gives: a block, and sequences of bytes and 16-bit words.\<close>

record draws =
  draw_block :: u128
  draw_u8 :: "nat \<Rightarrow> u8"
  draw_u16 :: "nat \<Rightarrow> u16"

definition all_modulus :: "AllWire \<Rightarrow> nat" where
  "all_modulus w = (case w of Mod2 x \<Rightarrow> 2 | Mod3 x \<Rightarrow> 3 | ModN x \<Rightarrow> modulus x)"

section \<open>Labels modulo 2\<close>

definition digits_mod2 :: "WireMod2 \<Rightarrow> nat list" where
  "digits_mod2 w = map (\<lambda>i. unat ((ucast (drop_bit i (val2 w)) :: u16) AND 1)) [0..<128]"

definition color_mod2 :: "WireMod2 \<Rightarrow> nat" where
  "color_mod2 w = unat ((ucast (ucast (val2 w) :: u8) :: u16) AND 1)"

definition plus_eq_mod2 :: "WireMod2 \<Rightarrow> WireMod2 \<Rightarrow> WireMod2" where
  "plus_eq_mod2 w other = w\<lparr>val2 := val2 w XOR val2 other\<rparr>"

definition cmul_eq_mod2 :: "WireMod2 \<Rightarrow> nat \<Rightarrow> WireMod2" where
  "cmul_eq_mod2 w c = (if c AND 1 = 0 then w\<lparr>val2 := 0\<rparr> else w)"

definition negate_eq_mod2 :: "WireMod2 \<Rightarrow> WireMod2" where
  "negate_eq_mod2 w = w"

definition from_block_mod2 :: "u128 \<Rightarrow> nat \<Rightarrow> WireMod2 run" where
  "from_block_mod2 inp q = (if q \<noteq> 2 then Inl Panic else Inr \<lparr>val2 = inp\<rparr>)"

definition zero_mod2 :: "nat \<Rightarrow> WireMod2 run" where
  "zero_mod2 q = (if q \<noteq> 2 then Inl Panic else Inr \<lparr>val2 = 0\<rparr>)"

definition rand_mod2 :: "draws \<Rightarrow> nat \<Rightarrow> WireMod2 run" where
  "rand_mod2 rng q = (if q \<noteq> 2 then Inl Panic else Inr \<lparr>val2 = draw_block rng\<rparr>)"

definition rand_delta_mod2 :: "draws \<Rightarrow> nat \<Rightarrow> WireMod2 run" where
  "rand_delta_mod2 rng q =
     (if q \<noteq> 2 then Inl Panic
      else bind_run (rand_mod2 rng q) (\<lambda>w. Inr (w\<lparr>val2 := val2 w OR 1\<rparr>)))"

definition conditional_select :: "WireMod2 \<Rightarrow> WireMod2 \<Rightarrow> bool \<Rightarrow> WireMod2 run" where
  "conditional_select a b choice = from_block_mod2 (if choice then val2 b else val2 a) 2"

section \<open>Labels modulo 3\<close>

definition digits_mod3 :: "WireMod3 \<Rightarrow> nat list" where
  "digits_mod3 w = map (\<lambda>i. unat (((ucast (drop_bit i (lsb w)) :: u16) AND 1) AND
     (push_bit 1 ((ucast (drop_bit i (msb w)) :: u16) AND 1)))) [0..<64]"

definition as_block_mod3 :: "WireMod3 \<Rightarrow> u128" where
  "as_block_mod3 w = push_bit 64 (ucast (msb w)) OR ucast (lsb w)"

definition color_mod3 :: "WireMod3 \<Rightarrow> nat" where
  "color_mod3 w = unat (push_bit 1 (ucast (msb w AND 1) :: u16) OR ucast (lsb w AND 1))"

definition plus_eq_mod3 :: "WireMod3 \<Rightarrow> WireMod3 \<Rightarrow> WireMod3" where
  "plus_eq_mod3 w other =
     (let a1 = lsb w; a2 = msb w; b1 = lsb other; b2 = msb other;
          t = (a1 OR b2) XOR (a2 OR b1);
          c1 = (a2 OR b2) XOR t;
          c2 = (a1 OR b1) XOR t
      in w\<lparr>lsb := c1, msb := c2\<rparr>)"

definition negate_eq_mod3 :: "WireMod3 \<Rightarrow> WireMod3" where
  "negate_eq_mod3 w = w\<lparr>lsb := msb w, msb := lsb w\<rparr>"

function cmul_eq_mod3 :: "WireMod3 \<Rightarrow> nat \<Rightarrow> WireMod3" where
  "cmul_eq_mod3 w c =
     (if c = 0 then w\<lparr>msb := 0, lsb := 0\<rparr>
      else if c = 1 then w
      else if c = 2 then w\<lparr>lsb := msb w, msb := lsb w\<rparr>
      else cmul_eq_mod3 w (c mod 3))"
  by pat_completeness auto
termination
  by (relation "measure snd") (auto intro: le_less_trans [OF mod_le_divisor])

declare cmul_eq_mod3.simps [simp del]

definition from_block_mod3 :: "u128 \<Rightarrow> nat \<Rightarrow> WireMod3 run" where
  "from_block_mod3 inp q = (if q \<noteq> 3 then Inl Panic else Inr \<lparr>lsb = ucast inp, msb = ucast (drop_bit 64 inp)\<rparr>)"

definition zero_mod3 :: "nat \<Rightarrow> WireMod3 run" where
  "zero_mod3 q = (if q \<noteq> 3 then Inl Panic else Inr \<lparr>lsb = 0, msb = 0\<rparr>)"

text \<open>The loops of \<open>encode_block_mod3\<close> and \<open>rand\<close>: the digits of a list into the two words.\<close>

definition set_digit :: "nat \<times> nat \<Rightarrow> WireMod3 \<Rightarrow> WireMod3" where
  "set_digit iv w = (case iv of (i, v) \<Rightarrow>
     w\<lparr>lsb := lsb w OR push_bit i (of_nat (v AND 1)), msb := msb w OR push_bit i (of_nat (drop_bit 1 v AND 1))\<rparr>)"

definition pack_digits :: "nat list \<Rightarrow> WireMod3" where
  "pack_digits ds = fold set_digit (zip [0..<length ds] ds) \<lparr>lsb = 0, msb = 0\<rparr>"

text \<open>\<open>ds.drain(..64)\<close> panics if there are fewer digits.\<close>

definition encode_block_mod3 :: "nat \<Rightarrow> WireMod3 run" where
  "encode_block_mod3 block =
     bind_run (unrank block 3) (\<lambda>ds. if length ds < 64 then Inl Panic else Inr (pack_digits (take 64 ds)))"

definition rand_mod3 :: "draws \<Rightarrow> nat \<Rightarrow> WireMod3 run" where
  "rand_mod3 rng q =
     (if q \<noteq> 3 then Inl Panic else Inr (pack_digits (map (\<lambda>i. unat (draw_u8 rng i) mod 3) [0..<64])))"

definition rand_delta_mod3 :: "draws \<Rightarrow> nat \<Rightarrow> WireMod3 run" where
  "rand_delta_mod3 rng q =
     (if q \<noteq> 3 then Inl Panic
      else bind_run (rand_mod3 rng 3) (\<lambda>w. Inr (w\<lparr>lsb := lsb w OR 1, msb := msb w AND 0xFFFFFFFFFFFFFFFE\<rparr>)))"

definition hash_to_mod3 :: "nat \<Rightarrow> nat \<Rightarrow> WireMod3 run" where
  "hash_to_mod3 hash q = (if q \<noteq> 3 then Inl Panic else encode_block_mod3 hash)"

section \<open>The rest of the labels modulo q\<close>

definition color_modq :: "WireModQ \<Rightarrow> nat run" where
  "color_modq w = read_at (wire_digits w) 0"

definition rand_modq :: "draws \<Rightarrow> nat \<Rightarrow> WireModQ run" where
  "rand_modq rng q =
     (if q < 2 then Inl Panic
      else Inr \<lparr>modulus = q, wire_digits = map (\<lambda>i. unat (draw_u16 rng i) mod q) [0..<digits_per_u128 q]\<rparr>)"

definition rand_delta_modq :: "draws \<Rightarrow> nat \<Rightarrow> WireModQ run" where
  "rand_delta_modq rng q =
     (if q < 2 then Inl Panic
      else bind_run (rand_modq rng q) (\<lambda>w.
        bind_run (write_at (wire_digits w) 0 1) (\<lambda>ds. Inr (w\<lparr>wire_digits := ds\<rparr>))))"

section \<open>Any label\<close>

definition all_digits :: "AllWire \<Rightarrow> nat list" where
  "all_digits w = (case w of Mod2 x \<Rightarrow> digits_mod2 x | Mod3 x \<Rightarrow> digits_mod3 x | ModN x \<Rightarrow> wire_digits x)"

definition all_as_block :: "AllWire \<Rightarrow> nat" where
  "all_as_block w = (case w of Mod2 x \<Rightarrow> unat (val2 x) | Mod3 x \<Rightarrow> unat (as_block_mod3 x) | ModN x \<Rightarrow> as_block x)"

definition all_color :: "AllWire \<Rightarrow> nat run" where
  "all_color w = (case w of Mod2 x \<Rightarrow> Inr (color_mod2 x) | Mod3 x \<Rightarrow> Inr (color_mod3 x) | ModN x \<Rightarrow> color_modq x)"

definition all_plus_eq :: "AllWire \<Rightarrow> AllWire \<Rightarrow> AllWire run" where
  "all_plus_eq w other =
     (case (w, other) of
        (Mod2 x, Mod2 y) \<Rightarrow> Inr (Mod2 (plus_eq_mod2 x y))
      | (Mod3 x, Mod3 y) \<Rightarrow> Inr (Mod3 (plus_eq_mod3 x y))
      | (ModN x, ModN y) \<Rightarrow> Inr (ModN (plus_eq x y))
      | _ \<Rightarrow> Inl Panic)"

definition all_cmul_eq :: "AllWire \<Rightarrow> nat \<Rightarrow> AllWire" where
  "all_cmul_eq w c = (case w of Mod2 x \<Rightarrow> Mod2 (cmul_eq_mod2 x c) | Mod3 x \<Rightarrow> Mod3 (cmul_eq_mod3 x c) | ModN x \<Rightarrow> ModN (cmul_eq x c))"

definition all_negate_eq :: "AllWire \<Rightarrow> AllWire" where
  "all_negate_eq w = (case w of Mod2 x \<Rightarrow> Mod2 (negate_eq_mod2 x) | Mod3 x \<Rightarrow> Mod3 (negate_eq_mod3 x) | ModN x \<Rightarrow> ModN (negate_eq x))"

definition minus_eq :: "AllWire \<Rightarrow> AllWire \<Rightarrow> AllWire run" where
  "minus_eq w other = all_plus_eq w (all_negate_eq other)"

definition map_wire :: "('a \<Rightarrow> AllWire) \<Rightarrow> 'a run \<Rightarrow> AllWire run" where
  "map_wire f r = bind_run r (\<lambda>x. Inr (f x))"

definition all_from_block :: "(nat \<Rightarrow> nat \<Rightarrow> nat list) \<Rightarrow> bytes \<Rightarrow> nat \<Rightarrow> AllWire run" where
  "all_from_block words inp q =
     (if q = 2 then map_wire Mod2 (from_block_mod2 (of_nat (u128_from_block inp)) q)
      else if q = 3 then map_wire Mod3 (from_block_mod3 (of_nat (u128_from_block inp)) q)
      else map_wire ModN (from_block words inp q))"

definition all_zero :: "nat \<Rightarrow> AllWire run" where
  "all_zero q =
     (if q = 2 then map_wire Mod2 (zero_mod2 q) else if q = 3 then map_wire Mod3 (zero_mod3 q) else map_wire ModN (zero q))"

definition all_rand :: "draws \<Rightarrow> nat \<Rightarrow> AllWire run" where
  "all_rand rng q =
     (if q = 2 then map_wire Mod2 (rand_mod2 rng q) else if q = 3 then map_wire Mod3 (rand_mod3 rng q)
      else map_wire ModN (rand_modq rng q))"

definition all_rand_delta :: "draws \<Rightarrow> nat \<Rightarrow> AllWire run" where
  "all_rand_delta rng q =
     (if q = 2 then map_wire Mod2 (rand_delta_mod2 rng q) else if q = 3 then map_wire Mod3 (rand_delta_mod3 rng q)
      else map_wire ModN (rand_delta_modq rng q))"

definition hash_to_mod :: "(nat \<Rightarrow> nat \<Rightarrow> nat list) \<Rightarrow> bytes \<Rightarrow> nat \<Rightarrow> AllWire run" where
  "hash_to_mod words hash q =
     (if q = 3 then map_wire Mod3 (encode_block_mod3 (u128_from_block hash)) else all_from_block words hash q)"

text \<open>The tweakable hash of a block is a parameter.\<close>

definition hash :: "(u128 \<Rightarrow> nat \<Rightarrow> bytes) \<Rightarrow> AllWire \<Rightarrow> u128 \<Rightarrow> bytes" where
  "hash tccr_hash w t = tccr_hash t (all_as_block w)"

definition hashback :: "(nat \<Rightarrow> nat \<Rightarrow> nat list) \<Rightarrow> (u128 \<Rightarrow> nat \<Rightarrow> bytes) \<Rightarrow> AllWire \<Rightarrow> u128 \<Rightarrow> nat \<Rightarrow> AllWire run" where
  "hashback words tccr_hash w t q = hash_to_mod words (hash tccr_hash w t) q"

definition generate_deltas :: "draws list \<Rightarrow> nat list \<Rightarrow> (nat \<rightharpoonup> AllWire) run" where
  "generate_deltas rngs primes =
     fold (\<lambda>(rng, q) r. bind_run r (\<lambda>deltas. bind_run (all_rand_delta rng q) (\<lambda>d. Inr (deltas(q \<mapsto> d)))))
       (zip rngs primes) (Inr Map.empty)"

section \<open>Reading labels of another party\<close>

datatype ModQDeserializationError = BadModulus nat | DigitTooLarge nat nat | InvalidDigitsLength nat nat

datatype WireDeserializationError = InvalidWireMod3 | InvalidWireModQ ModQDeserializationError

definition try_from_mod3 :: "u64 \<Rightarrow> u64 \<Rightarrow> WireDeserializationError + WireMod3" where
  "try_from_mod3 l m = (if l AND m \<noteq> 0 then Inl InvalidWireMod3 else Inr \<lparr>lsb = l, msb = m\<rparr>)"

definition try_from_modq :: "nat \<Rightarrow> nat list \<Rightarrow> WireDeserializationError + WireModQ" where
  "try_from_modq q ds =
     (if q < 2 then Inl (InvalidWireModQ (BadModulus q))
      else if length ds \<noteq> digits_per_u128 q then Inl (InvalidWireModQ (InvalidDigitsLength (length ds) (digits_per_u128 q)))
      else case find (\<lambda>x. q \<le> x) ds of
             Some d \<Rightarrow> Inl (InvalidWireModQ (DigitTooLarge d q))
           | None \<Rightarrow> Inr \<lparr>modulus = q, wire_digits = ds\<rparr>)"

section \<open>The bit-sliced labels refine the digit lists\<close>

definition mod3_ok :: "WireMod3 \<Rightarrow> bool" where
  "mod3_ok w = (lsb w AND msb w = 0)"

definition digit3 :: "WireMod3 \<Rightarrow> nat \<Rightarrow> nat" where
  "digit3 w i = of_bool (bit (lsb w) i) + 2 * of_bool (bit (msb w) i)"

definition as_modq :: "WireMod3 \<Rightarrow> WireModQ" where
  "as_modq w = \<lparr>modulus = 3, wire_digits = map (digit3 w) [0..<64]\<rparr>"

lemma mod3_ok_iff: "mod3_ok w \<longleftrightarrow> (\<forall>i<64. \<not> (bit (lsb w) i \<and> bit (msb w) i))"
  unfolding mod3_ok_def by (auto simp: bit_eq_iff bit_simps dest: bit_imp_le_length)

lemma digit3_less: "mod3_ok w \<Longrightarrow> i < 64 \<Longrightarrow> digit3 w i < 3"
  by (auto simp: mod3_ok_iff digit3_def)

lemma as_modq_ok: "mod3_ok w \<Longrightarrow> wire_ok (as_modq w)"
  by (auto simp: wire_ok_def as_modq_def digits_per_u128_def proper_def list_all_iff digit3_less)

lemma plus_eq_mod3_digit:
  assumes "mod3_ok w" "mod3_ok v" "i < 64"
  shows "digit3 (plus_eq_mod3 w v) i = (digit3 w i + digit3 v i) mod 3"
    and "\<not> (bit (lsb (plus_eq_mod3 w v)) i \<and> bit (msb (plus_eq_mod3 w v)) i)"
  using assms unfolding mod3_ok_iff
  by (auto simp: plus_eq_mod3_def digit3_def Let_def bit_simps)

lemma cmul_eq_mod3_digit:
  "mod3_ok w \<Longrightarrow> mod3_ok (cmul_eq_mod3 w c) \<and> (\<forall>i<64. digit3 (cmul_eq_mod3 w c) i = digit3 w i * c mod 3)"
proof (induction w c rule: cmul_eq_mod3.induct)
  case (1 w c)
  consider "c = 0" | "c = 1" | "c = 2" | "3 \<le> c" by linarith
  then show ?case
  proof cases
    case 4
    then have "c \<noteq> 0" "c \<noteq> 1" "c \<noteq> 2" by simp_all
    with 1 show ?thesis by (subst (1 2) cmul_eq_mod3.simps) (simp add: mod_mult_right_eq)
  next
    case 2
    then show ?thesis using 1(2) digit3_less [of w] by (simp add: cmul_eq_mod3.simps)
  qed (use 1(2) in \<open>auto simp: cmul_eq_mod3.simps [of w] mod3_ok_iff digit3_def\<close>)
qed

lemma negate_eq_mod3_digit:
  "mod3_ok w \<Longrightarrow> mod3_ok (negate_eq_mod3 w) \<and>
   (\<forall>i<64. digit3 (negate_eq_mod3 w) i = (if 0 < digit3 w i then 3 - digit3 w i else 0))"
  by (auto simp: mod3_ok_iff negate_eq_mod3_def digit3_def)

lemma map2_self: "map2 f (map g xs) (map h xs) = map (\<lambda>x. f (g x) (h x)) xs"
  by (induction xs) simp_all

text \<open>
  C22.  The labels modulo 3 refine the generic labels modulo \<open>q\<close>: on two words with no common bit, the Boolean formulas of \<open>plus_eq\<close>,
  the case distinction of \<open>cmul_eq\<close> and the swap of \<open>negate_eq\<close> compute on all 64 digits at once what \<open>WireModQ\<close> computes digit by
  digit for \<open>q = 3\<close>, and the words of the result have no common bit again.
\<close>

theorem mod3_refines:
  assumes "mod3_ok w" and "mod3_ok v" and "c < 2 ^ 16"
  shows "mod3_ok (plus_eq_mod3 w v) \<and> as_modq (plus_eq_mod3 w v) = plus_eq (as_modq w) (as_modq v) \<and>
    mod3_ok (cmul_eq_mod3 w c) \<and> as_modq (cmul_eq_mod3 w c) = cmul_eq (as_modq w) c \<and>
    mod3_ok (negate_eq_mod3 w) \<and> as_modq (negate_eq_mod3 w) = negate_eq (as_modq w)"
proof -
  have q: "modulus (as_modq w) = 3" "modulus (as_modq v) = 3" by (simp_all add: as_modq_def)
  have "wire_digits (as_modq (plus_eq_mod3 w v)) = wire_digits (plus_eq (as_modq w) (as_modq v))"
    using plus_eq_digits [OF as_modq_ok [OF assms(1)] as_modq_ok [OF assms(2)]]
    by (simp add: q) (simp add: as_modq_def map2_self plus_eq_mod3_digit(1) [OF assms(1,2)])
  moreover have "wire_digits (as_modq (cmul_eq_mod3 w c)) = wire_digits (cmul_eq (as_modq w) c)"
    using cmul_eq_digits [OF as_modq_ok [OF assms(1)] assms(3)] cmul_eq_mod3_digit [OF assms(1), of c]
    by (simp add: q) (simp add: as_modq_def)
  moreover have "wire_digits (as_modq (negate_eq_mod3 w)) = wire_digits (negate_eq (as_modq w))"
    using negate_eq_mod3_digit [OF assms(1)] by (simp add: negate_eq_def q) (simp add: as_modq_def)
  moreover have "mod3_ok (plus_eq_mod3 w v)" using plus_eq_mod3_digit(2) [OF assms(1,2)] by (simp add: mod3_ok_iff)
  ultimately show ?thesis
    using cmul_eq_mod3_digit [OF assms(1), of c] negate_eq_mod3_digit [OF assms(1)]
    by (simp add: plus_eq_def cmul_eq_def negate_eq_def) (simp add: as_modq_def)
qed

theorem mod3_refines_witness:
  "as_modq (plus_eq_mod3 \<lparr>lsb = 1, msb = 2\<rparr> \<lparr>lsb = 3, msb = 4\<rparr>) =
     plus_eq (as_modq \<lparr>lsb = 1, msb = 2\<rparr>) (as_modq \<lparr>lsb = 3, msb = 4\<rparr>)"
  using mod3_refines [of "\<lparr>lsb = 1, msb = 2\<rparr>" "\<lparr>lsb = 3, msb = 4\<rparr>" 5] by (simp add: mod3_ok_def)

section \<open>Making labels modulo 3\<close>

lemma bit_push_of_bool: "bit (push_bit i (of_bool b) :: 'a::len word) j \<longleftrightarrow> b \<and> j = i \<and> j < LENGTH('a)"
  by (auto simp: bit_simps bit_of_bool_iff)

lemma bit_push_digit: "bit (push_bit k (of_nat (d mod 2)) :: u64) i \<longleftrightarrow> odd d \<and> i = k \<and> i < 64"
proof -
  have "of_nat (d mod 2) = (of_bool (odd d) :: u64)" by (cases "odd d") (simp_all add: odd_iff_mod_2_eq_one)
  then show ?thesis by (simp only: bit_push_of_bool) simp
qed

lemma fold_set_digit:
  "k + length ds \<le> 64 \<Longrightarrow> i < 64 \<Longrightarrow>
   (bit (lsb (fold set_digit (zip [k..<k + length ds] ds) w)) i \<longleftrightarrow> bit (lsb w) i \<or> (k \<le> i \<and> i < k + length ds \<and> odd (ds ! (i - k)))) \<and>
   (bit (msb (fold set_digit (zip [k..<k + length ds] ds) w)) i \<longleftrightarrow> bit (msb w) i \<or> (k \<le> i \<and> i < k + length ds \<and> odd (ds ! (i - k) div 2)))"
proof (induction ds arbitrary: k w)
  case (Cons d ds)
  let ?w = "set_digit (k, d) w"
  have w: "bit (lsb ?w) i \<longleftrightarrow> bit (lsb w) i \<or> (i = k \<and> odd d)" "bit (msb ?w) i \<longleftrightarrow> bit (msb w) i \<or> (i = k \<and> odd (d div 2))"
    using Cons.prems(2) unfolding set_digit_def by (auto simp: and_one_eq bit_or_iff bit_push_digit drop_bit_Suc)
  have zip: "zip [k..<k + length (d # ds)] (d # ds) = (k, d) # zip [Suc k..<Suc k + length ds] ds"
    by (simp add: upt_conv_Cons del: upt_Suc)
  have ih: "bit (lsb (fold set_digit (zip [k..<k + length (d # ds)] (d # ds)) w)) i \<longleftrightarrow>
        bit (lsb ?w) i \<or> (Suc k \<le> i \<and> i < Suc k + length ds \<and> odd (ds ! (i - Suc k)))"
      "bit (msb (fold set_digit (zip [k..<k + length (d # ds)] (d # ds)) w)) i \<longleftrightarrow>
        bit (msb ?w) i \<or> (Suc k \<le> i \<and> i < Suc k + length ds \<and> odd (ds ! (i - Suc k) div 2))"
    using Cons.IH [of "Suc k" ?w] Cons.prems unfolding zip fold_simps by simp_all
  consider "i < k" | "i = k" | "k < i" by linarith
  then show ?case
  proof cases
    case 3
    then have "(d # ds) ! (i - k) = ds ! (i - Suc k)" by (simp add: nth_Cons')
    with 3 show ?thesis unfolding ih w by auto
  qed (unfold ih w, simp_all)
qed auto

lemma pack_digits_value:
  assumes "length ds = 64" "proper 3 ds"
  shows "mod3_ok (pack_digits ds) \<and> as_modq (pack_digits ds) = \<lparr>modulus = 3, wire_digits = ds\<rparr>"
proof -
  have b: "bit (lsb (pack_digits ds)) i \<longleftrightarrow> odd (ds ! i)" "bit (msb (pack_digits ds)) i \<longleftrightarrow> odd (ds ! i div 2)" if "i < 64" for i
    using fold_set_digit [of 0 ds i "\<lparr>lsb = 0, msb = 0\<rparr>"] assms(1) that by (simp_all add: pack_digits_def)
  have d: "ds ! i \<in> {0, 1, 2}" if "i < 64" for i
  proof -
    have "ds ! i < 3" using assms that by (simp add: proper_def list_all_length)
    then show ?thesis by auto
  qed
  have "digit3 (pack_digits ds) i = ds ! i" if "i < 64" for i
    using b [OF that] d [OF that] by (auto simp: digit3_def)
  then have "map (digit3 (pack_digits ds)) [0..<64] = ds" using assms(1) by (intro nth_equalityI) simp_all
  moreover have "mod3_ok (pack_digits ds)" unfolding mod3_ok_iff using b d by fastforce
  ultimately show ?thesis by (simp add: as_modq_def)
qed

lemma encode_block_mod3_digits:
  "\<exists>w. encode_block_mod3 block = Inr w \<and> mod3_ok w \<and> as_modq w = \<lparr>modulus = 3, wire_digits = base_digits 3 64 block\<rparr>"
proof -
  have "\<not> is_power_of_2 3" using not_power_of_2 [of 1 3] by simp
  then have "unrank block 3 = Inr (base_digits 3 64 block)" using unrank_digits [of 3 block] by (simp add: digits_per_u128_def)
  then have "encode_block_mod3 block = Inr (pack_digits (base_digits 3 64 block))"
    by (simp add: encode_block_mod3_def digit_simps)
  then show ?thesis using pack_digits_value [of "base_digits 3 64 block"] by (simp add: digit_simps)
qed

lemma as_block_from_block_mod3: "from_block_mod3 (as_block_mod3 w) 3 = Inr w"
proof -
  have "ucast (as_block_mod3 w) = lsb w"
    by (rule bit_word_eqI) (simp add: as_block_mod3_def bit_simps)
  moreover have "ucast (drop_bit 64 (as_block_mod3 w)) = msb w"
    by (rule bit_word_eqI) (auto simp: as_block_mod3_def bit_simps dest: bit_imp_le_length)
  ultimately show ?thesis by (simp add: from_block_mod3_def)
qed

text \<open>
  C25.  \<open>WireMod3::digits\<close> combines the low bit and the shifted high bit of a digit with \<open>&\<close> instead of \<open>|\<close>: it returns 64 zeros for
  every label, and so not the digits of the label.
\<close>

theorem digits_mod3_zero:
  "digits_mod3 w = replicate 64 0 \<and> (\<exists>v. mod3_ok v \<and> digits_mod3 v \<noteq> wire_digits (as_modq v))"
proof -
  have "(x AND 1) AND push_bit 1 (y AND 1) = 0" for x y :: u16
    by (rule bit_word_eqI) (auto simp: bit_simps)
  then have zero: "digits_mod3 w = replicate 64 0" for w
    by (simp only: digits_mod3_def unsigned_0 map_replicate_const length_upt diff_zero)
  have "mod3_ok \<lparr>lsb = 1, msb = 0\<rparr>" by (simp add: mod3_ok_def)
  moreover have "wire_digits (as_modq \<lparr>lsb = 1, msb = 0\<rparr>) ! 0 = 1" by (simp add: as_modq_def digit3_def)
  moreover have "replicate 64 (0 :: nat) ! 0 = 0" by simp
  ultimately have "mod3_ok \<lparr>lsb = 1, msb = 0\<rparr> \<and> digits_mod3 \<lparr>lsb = 1, msb = 0\<rparr> \<noteq> wire_digits (as_modq \<lparr>lsb = 1, msb = 0\<rparr>)"
    unfolding zero by force
  then show ?thesis using zero by blast
qed

section \<open>Every label is well-formed\<close>

definition all_ok :: "AllWire \<Rightarrow> bool" where
  "all_ok w = (case w of Mod2 x \<Rightarrow> True | Mod3 x \<Rightarrow> mod3_ok x | ModN x \<Rightarrow> wire_ok x \<and> 3 < modulus x)"

lemma all_zero_ok: "2 \<le> q \<Longrightarrow> q < 2 ^ 16 \<Longrightarrow> \<exists>w. all_zero q = Inr w \<and> all_ok w \<and> all_modulus w = q"
  by (auto simp: all_zero_def map_wire_def zero_mod2_def zero_mod3_def zero_def all_ok_def mod3_ok_def
      all_modulus_def wire_ok_def proper_def list_all_iff)

lemma rand_mod3_ok: "\<exists>w. rand_mod3 rng 3 = Inr w \<and> mod3_ok w"
  using pack_digits_value [of "map (\<lambda>i. unat (draw_u8 rng i) mod 3) [0..<64]"]
  by (simp add: rand_mod3_def proper_def list_all_iff)

lemma rand_delta_mod3_ok: "\<exists>w. rand_delta_mod3 rng 3 = Inr w \<and> mod3_ok w \<and> digit3 w 0 = 1"
proof -
  obtain w where w: "rand_mod3 rng 3 = Inr w" "mod3_ok w" using rand_mod3_ok by blast
  let ?d = "w\<lparr>lsb := lsb w OR 1, msb := msb w AND 0xFFFFFFFFFFFFFFFE\<rparr>"
  have m: "(0xFFFFFFFFFFFFFFFE :: u64) = NOT 1" by simp
  have "mod3_ok ?d" "digit3 ?d 0 = 1"
    using w(2) unfolding mod3_ok_iff m by (auto simp: bit_simps digit3_def)
  then show ?thesis using w(1) by (simp add: rand_delta_mod3_def)
qed

lemma digits_per_pos:
  assumes "2 \<le> q" "q < 2 ^ 16"
  shows "0 < digits_per_u128 q"
proof -
  obtain k where k: "2 ^ k < q" "q \<le> 2 ^ Suc k" using pow_interval [OF assms(1)] .
  have "(2 :: nat) ^ k < 2 ^ 16" using k(1) assms(2) by (rule less_trans)
  then have "k < 16" by (rule power_less_imp_less_exp [rotated]) simp
  then show ?thesis by (simp add: digits_per_u128_log [OF k] div_greater_zero_iff)
qed

lemma rand_modq_ok:
  assumes "2 \<le> q" "q < 2 ^ 16"
  shows "\<exists>w. rand_modq rng q = Inr w \<and> wire_ok w \<and> modulus w = q"
  using assms by (simp add: rand_modq_def wire_ok_def proper_def list_all_iff)

lemma rand_delta_modq_ok:
  assumes "2 \<le> q" "q < 2 ^ 16"
  shows "\<exists>w. rand_delta_modq rng q = Inr w \<and> wire_ok w \<and> modulus w = q \<and> color_modq w = Inr 1"
proof -
  obtain w where w: "rand_modq rng q = Inr w" "wire_ok w" "modulus w = q" using rand_modq_ok [OF assms] by blast
  then have "0 < length (wire_digits w)" using digits_per_pos [OF assms] by (simp only: wire_ok_def)
  then have "wire_digits w \<noteq> []" unfolding length_greater_0_conv .
  then obtain d rest where dr: "wire_digits w = d # rest" by (cases "wire_digits w") simp_all
  then have "proper q rest" "length (d # rest) = digits_per_u128 q" using w(2,3) by (simp_all add: wire_ok_def digit_simps)
  then show ?thesis
    using w(1,3) dr assms by (simp add: rand_delta_modq_def write_at_def read_at_def color_modq_def wire_ok_def digit_simps)
qed

text \<open>Random labels and deltas are well-formed labels of the modulus asked for; a delta has the color 1.\<close>

theorem all_rand_ok:
  assumes "2 \<le> q" "q < 2 ^ 16"
  shows "\<exists>w. all_rand rng q = Inr w \<and> all_ok w \<and> all_modulus w = q"
proof -
  consider "q = 2" | "q = 3" | "3 < q" using assms(1) by linarith
  then show ?thesis
    using rand_mod3_ok [of rng] rand_modq_ok [OF assms, of rng]
    by cases (auto simp: all_rand_def map_wire_def rand_mod2_def all_ok_def all_modulus_def)
qed

theorem all_rand_delta_ok:
  assumes "2 \<le> q" "q < 2 ^ 16"
  shows "\<exists>w. all_rand_delta rng q = Inr w \<and> all_ok w \<and> all_modulus w = q \<and> all_color w = Inr 1"
proof -
  have c3: "color_mod3 w = digit3 w 0" if "mod3_ok w" for w
  proof -
    have "(ucast (lsb w AND 1) :: u16) = of_bool (bit (lsb w) 0)" "(ucast (msb w AND 1) :: u16) = of_bool (bit (msb w) 0)"
      by (auto intro!: bit_word_eqI simp: bit_simps bit_of_bool_iff)
    moreover have "\<not> (bit (lsb w) 0 \<and> bit (msb w) 0)" using that by (simp add: mod3_ok_iff)
    ultimately show ?thesis by (auto simp: color_mod3_def digit3_def)
  qed
  have c2: "color_mod2 \<lparr>val2 = v OR 1\<rparr> = 1" for v
  proof -
    have "(ucast (ucast (v OR 1) :: u8) :: u16) AND 1 = 1"
      by (rule bit_word_eqI) (auto simp: bit_simps)
    then show ?thesis by (simp only: color_mod2_def WireMod2.simps) simp
  qed
  consider "q = 2" | "q = 3" | "3 < q" using assms(1) by linarith
  then show ?thesis
    using rand_delta_mod3_ok [of rng] rand_delta_modq_ok [OF assms, of rng] c3 c2
    by cases (auto simp: all_rand_delta_def map_wire_def rand_delta_mod2_def rand_mod2_def all_ok_def all_modulus_def all_color_def)
qed

text \<open>
  So is the label made from a hash, whatever the hash: for the modulus 3 by way of \<open>_unrank\<close>, since two arbitrary words may have a common bit.
\<close>

theorem hash_to_mod_ok:
  assumes q: "2 \<le> q" "q < 2 ^ 16" "q \<noteq> 2 ^ 13" "q \<noteq> 2 ^ 15" and len: "length h = 16"
    and tables: "23 < q \<Longrightarrow> q \<le> 113 \<Longrightarrow> \<not> is_power_of_2 q \<Longrightarrow> digit_tables words q"
  shows "\<exists>w. hash_to_mod words h q = Inr w \<and> all_ok w \<and> all_modulus w = q"
proof -
  consider "q = 2" | "q = 3" | "3 < q" using q(1) by linarith
  then show ?thesis
  proof cases
    case 2
    then show ?thesis using encode_block_mod3_digits [of "u128_from_block h"]
      by (auto simp: hash_to_mod_def map_wire_def all_ok_def all_modulus_def)
  next
    case 3
    then show ?thesis using from_block_digits [OF q len tables] q
      by (auto simp: hash_to_mod_def all_from_block_def map_wire_def all_ok_def all_modulus_def wire_ok_def digit_simps)
  qed (simp add: hash_to_mod_def all_from_block_def map_wire_def from_block_mod2_def all_ok_def all_modulus_def)
qed

text \<open>Arithmetic keeps labels well-formed, and the sum of two labels of one modulus never panics.\<close>

theorem all_arithmetic_ok:
  assumes w: "all_ok w" and c: "c < 2 ^ 16"
  shows "all_ok (all_negate_eq w) \<and> all_modulus (all_negate_eq w) = all_modulus w \<and>
    all_ok (all_cmul_eq w c) \<and> all_modulus (all_cmul_eq w c) = all_modulus w \<and>
    (\<forall>v. all_ok v \<and> all_modulus v = all_modulus w \<and> all_modulus w \<le> 2 ^ 15 \<longrightarrow>
       (\<exists>s. all_plus_eq w v = Inr s \<and> all_ok s \<and> all_modulus s = all_modulus w))"
proof (cases w)
  case (Mod2 x)
  then show ?thesis
    by (auto simp: all_ok_def all_modulus_def all_negate_eq_def all_cmul_eq_def all_plus_eq_def split: AllWire.splits)
next
  case (Mod3 x)
  then show ?thesis using w c mod3_refines [of x _ c] mod3_refines [of x x c]
    by (auto simp: all_ok_def all_modulus_def all_negate_eq_def all_cmul_eq_def all_plus_eq_def split: AllWire.splits)
next
  case (ModN x)
  have m: "modulus (negate_eq x) = modulus x" "modulus (cmul_eq x c) = modulus x" "modulus (plus_eq x y) = modulus x" for y
    by (simp_all add: negate_eq_def cmul_eq_def plus_eq_def)
  show ?thesis using w c ModN plus_eq_ok [of x] cmul_eq_ok [of x c] negate_eq_ok [of x]
    by (auto simp: all_ok_def all_modulus_def all_negate_eq_def all_cmul_eq_def all_plus_eq_def m split: AllWire.splits)
qed

text \<open>The panic on unequal moduli compares the kinds of the labels only: two labels modulo \<open>q\<close> are added whatever their moduli.\<close>

theorem all_plus_eq_kinds:
  "all_plus_eq w v = Inl Panic \<longleftrightarrow>
     \<not> ((\<exists>x y. w = Mod2 x \<and> v = Mod2 y) \<or> (\<exists>x y. w = Mod3 x \<and> v = Mod3 y) \<or> (\<exists>x y. w = ModN x \<and> v = ModN y))"
  by (cases w; cases v) (simp_all add: all_plus_eq_def)

text \<open>Packing a label modulo 2 or 3 into a block and reading it again.\<close>

theorem all_block_round_trip:
  assumes "all_ok w" "all_modulus w \<le> 3" "length inp = 16" "u128_from_block inp = all_as_block w"
  shows "all_from_block words inp (all_modulus w) = Inr w"
  using assms as_block_from_block_mod3
  by (cases w) (auto simp: all_ok_def all_modulus_def all_as_block_def all_from_block_def map_wire_def from_block_mod2_def)

text \<open>The checks on labels that are read accept exactly the well-formed ones.\<close>

theorem try_from_modq_iff:
  assumes "q < 2 ^ 16"
  shows "try_from_modq q ds = Inr w \<longleftrightarrow> w = \<lparr>modulus = q, wire_digits = ds\<rparr> \<and> wire_ok w"
proof -
  have "find (\<lambda>x. q \<le> x) ds = None \<longleftrightarrow> proper q ds" by (auto simp: find_None_iff proper_def list_all_iff not_le)
  then show ?thesis using assms
    by (auto simp: try_from_modq_def wire_ok_def split: option.splits)
qed

theorem try_from_mod3_iff: "try_from_mod3 l m = Inr w \<longleftrightarrow> w = \<lparr>lsb = l, msb = m\<rparr> \<and> mod3_ok w"
  by (auto simp: try_from_mod3_def mod3_ok_def)

text \<open>\<open>generate_deltas\<close> makes one delta for each modulus, in a map that has exactly these keys.\<close>

theorem generate_deltas_ok:
  "\<forall>q\<in>set primes. 2 \<le> q \<and> q < 2 ^ 16 \<Longrightarrow> length rngs = length primes \<Longrightarrow>
   \<exists>deltas. generate_deltas rngs primes = Inr deltas \<and> dom deltas = set primes \<and>
     (\<forall>q w. deltas q = Some w \<longrightarrow> all_ok w \<and> all_modulus w = q \<and> all_color w = Inr 1)"
proof (induction primes arbitrary: rngs rule: rev_induct)
  case (snoc q primes)
  obtain rs r where rngs: "rngs = rs @ [r]" "length rs = length primes" using snoc.prems(2) by (cases rngs rule: rev_cases) auto
  obtain ds where ds: "generate_deltas rs primes = Inr ds" "dom ds = set primes"
      "\<forall>q w. ds q = Some w \<longrightarrow> all_ok w \<and> all_modulus w = q \<and> all_color w = Inr 1"
    using snoc.IH [of rs] snoc.prems(1) rngs(2) by auto
  obtain d where d: "all_rand_delta r q = Inr d" "all_ok d" "all_modulus d = q" "all_color d = Inr 1"
    using all_rand_delta_ok [of q r] snoc.prems(1) by auto
  have "generate_deltas rngs (primes @ [q]) = Inr (ds(q \<mapsto> d))"
    using ds(1) d(1) rngs by (simp add: generate_deltas_def)
  then show ?case using ds(2,3) d by auto
qed (simp add: generate_deltas_def)

section \<open>Random blocks\<close>

text \<open>
  \<open>gen_usable_block\<close> of \<^verbatim>\<open>util.rs\<close>, with the random number as an argument: a block that some label of the modulus packs into.
  The remainder by zero panics.
\<close>

definition count_ones :: "nat \<Rightarrow> nat" where
  "count_ones x = length (filter (bit x) [0..<16])"

definition gen_usable_block :: "nat \<Rightarrow> nat \<Rightarrow> nat run" where
  "gen_usable_block r m =
     (let nbits = count_ones ((m + 2 ^ 16 - 1) mod 2 ^ 16);
          below = (let n = digits_per_u128 m; top = m ^ n mod 2 ^ 128 in if top = 0 then Inl Panic else Inr (r mod top))
      in if is_power_of_2 m
         then if nbits = 0 then Inl Panic else if 128 mod nbits = 0 then Inr r else below
         else below)"

lemma count_ones_mask: "k \<le> 16 \<Longrightarrow> count_ones (2 ^ k - 1) = k"
proof -
  assume k: "k \<le> 16"
  have "bit (2 ^ k - 1 :: nat) = (\<lambda>i. i < k)" by (rule ext, unfold mask_eq_exp_minus_1 [symmetric] bit_mask_iff, simp)
  moreover have "[0..<16] = [0..<k] @ [k..<16]" using k upt_add_eq_append [of 0 k "16 - k"] by (simp del: upt_rec_numeral)
  ultimately show ?thesis by (simp add: count_ones_def filter_False filter_True)
qed

theorem gen_usable_block_ok:
  assumes "2 \<le> m" and "m < 2 ^ 16" and "r < 2 ^ 128"
  shows "\<exists>b. gen_usable_block r m = Inr b \<and> b < m ^ digits_per_u128 m"
proof (cases "is_power_of_2 m")
  case True
  then obtain k where k: "m = 2 ^ k" "0 < k" "k < 16" using power_of_2_cases assms(1,2) by blast
  have "(m + 2 ^ 16 - 1) mod 2 ^ 16 = m - 1" using assms(1,2) by (simp add: mod_if)
  then have nbits: "count_ones ((m + 2 ^ 16 - 1) mod 2 ^ 16) = k" using count_ones_mask [of k] k by simp
  have top: "m ^ digits_per_u128 m = 2 ^ (k * (128 div k))" using digits_per_power [OF k(2)] by (simp add: k(1) power_mult)
  show ?thesis
  proof (cases "128 mod k = 0")
    case True
    then have "k * (128 div k) = 128" by auto
    then show ?thesis using top nbits \<open>is_power_of_2 m\<close> True k(2) assms(3) by (simp add: gen_usable_block_def)
  next
    case False
    then have "k * (128 div k) < 128" using mult_div_mod_eq [of k 128] by linarith
    then have "m ^ digits_per_u128 m < 2 ^ 128" unfolding top by (intro power_strict_increasing) simp_all
    moreover have "0 < m ^ digits_per_u128 m" using assms(1) by simp
    ultimately show ?thesis using nbits \<open>is_power_of_2 m\<close> False k(2) by (simp add: gen_usable_block_def Let_def)
  qed
next
  case False
  then have "m ^ digits_per_u128 m < 2 ^ 128" using digits_below [OF assms(1) False assms(2)] by simp
  moreover have "0 < m ^ digits_per_u128 m" using assms(1) by simp
  ultimately show ?thesis using False by (simp add: gen_usable_block_def Let_def)
qed

end
