(* ===== verification/Crt_Arith.thy ===== *)
theory Crt_Arith
  imports Base_Conversion "HOL-Library.Signed_Division" "HOL-Library.Sublist"
begin

text \<open>
  The number conversions of \<^verbatim>\<open>fancy-garbling/src/util.rs\<close> beside the base-\<open>q\<close> digits: the tweaks, mixed radices, bits, and
  the residues modulo the supported primes (\<open>factor\<close>, \<open>crt\<close>, \<open>crt_inv\<close>, \<open>inv\<close>, \<open>primes_with_width\<close>).  Values of type \<open>u128\<close> are
  naturals and values of type \<open>i128\<close> integers, with the release build's wrap-around written out.
\<close>

section \<open>Tweaks\<close>

text \<open>A block from its two 64-bit lanes, and from a \<open>u128\<close>.\<close>

definition tweak :: "u64 \<Rightarrow> u128" where
  "tweak i = ucast i"

definition tweak2 :: "u64 \<Rightarrow> u64 \<Rightarrow> u128" where
  "tweak2 i j = ucast j OR push_bit 64 (ucast i)"

definition output_tweak :: "u64 \<Rightarrow> u16 \<Rightarrow> u128" where
  "output_tweak i k = push_bit 64 (ucast i) + ucast k"

section \<open>Mixed radix and bits\<close>

definition from_mixed_radix :: "nat list \<Rightarrow> nat list \<Rightarrow> nat" where
  "from_mixed_radix ds radii =
     foldl (\<lambda>x (d, q). let xp = x * q mod 2 ^ 128 in (xp + d) mod 2 ^ 128) 0 (rev (zip ds radii))"

fun u128_to_bits :: "nat \<Rightarrow> nat \<Rightarrow> nat list" where
  "u128_to_bits y 0 = []"
| "u128_to_bits y (Suc n) = (let b = y AND 1 in b # u128_to_bits ((y - b) div 2) n)"

text \<open>The bits from the last down to the second; then \<open>bs[0]\<close>, whose access panics on an empty slice.\<close>

definition u128_from_bits :: "nat list \<Rightarrow> nat run" where
  "u128_from_bits bs =
     (let x = foldl (\<lambda>x b. (x + b) mod 2 ^ 128 * 2 mod 2 ^ 128) 0 (rev (drop 1 bs)) in
      bind_run (read_at bs 0) (\<lambda>b0. Inr ((x + b0) mod 2 ^ 128)))"

section \<open>The primes\<close>

definition NPRIMES :: nat where
  "NPRIMES = 29"

definition PRIMES :: "nat list" where
  "PRIMES =
    [2, 3, 5, 7, 11, 13, 17, 19, 23, 29, 31, 37, 41, 43, 47, 53, 59, 61, 67, 71, 73, 79, 83, 89, 97,
     101, 103, 107, 109]"

definition product :: "nat list \<Rightarrow> nat" where
  "product xs = foldl (\<lambda>acc x. acc * x mod 2 ^ 128) 1 xs"

definition modulus_with_nprimes :: "nat \<Rightarrow> nat run" where
  "modulus_with_nprimes n = (if n \<le> length PRIMES then Inr (product (take n PRIMES)) else Inl OutOfBounds)"

text \<open>The loop of \<open>base_primes_with_width\<close>: the primes pushed and the last product.  A shift takes its amount modulo 128.\<close>

fun width_loop :: "nat \<Rightarrow> nat list \<Rightarrow> nat \<Rightarrow> nat list \<Rightarrow> nat list \<times> nat" where
  "width_loop nbits [] res ps = (ps, res)"
| "width_loop nbits (p # primes) res ps =
     (let res' = res * p mod 2 ^ 128; ps' = ps @ [p] in
      if 0 < drop_bit (nbits mod 128) res' then (ps', res') else width_loop nbits primes res' ps')"

definition base_primes_with_width :: "nat \<Rightarrow> nat list \<Rightarrow> nat list run" where
  "base_primes_with_width nbits primes =
     (case width_loop nbits primes 1 [] of (ps, res) \<Rightarrow>
       bind_run (guard_run (0 < drop_bit (nbits mod 128) res)) (\<lambda>_. Inr ps))"

definition primes_with_width :: "nat \<Rightarrow> nat list run" where
  "primes_with_width n = base_primes_with_width n PRIMES"

definition base_modulus_with_width :: "nat \<Rightarrow> nat list \<Rightarrow> nat run" where
  "base_modulus_with_width nbits primes = bind_run (base_primes_with_width nbits primes) (\<lambda>ps. Inr (product ps))"

definition modulus_with_width :: "nat \<Rightarrow> nat run" where
  "modulus_with_width n = base_modulus_with_width n PRIMES"

fun factor_loop :: "nat list \<Rightarrow> nat \<Rightarrow> nat list \<Rightarrow> nat \<times> nat list" where
  "factor_loop [] x fs = (x, fs)"
| "factor_loop (q # primes) x fs =
     (if x mod q = 0 then factor_loop primes (x div q) (fs @ [q]) else factor_loop primes x fs)"

definition factor :: "nat \<Rightarrow> nat list run" where
  "factor inp = (case factor_loop PRIMES inp [] of (x, fs) \<Rightarrow> if x \<noteq> 1 then Inl Panic else Inr fs)"

section \<open>Residues\<close>

definition crt :: "nat \<Rightarrow> nat list \<Rightarrow> nat list run" where
  "crt x ps = map_run (\<lambda>p. if p = 0 then Inl Panic else Inr (x mod p)) ps"

definition crt_factor :: "nat \<Rightarrow> nat \<Rightarrow> nat list run" where
  "crt_factor x q = bind_run (factor q) (crt x)"

text \<open>Values of type \<open>i128\<close>: integers, reduced into the range after an operation; division truncates.\<close>

definition wrap_i128 :: "int \<Rightarrow> int" where
  "wrap_i128 n = (n + 2 ^ 127) mod 2 ^ 128 - 2 ^ 127"

definition div_i128 :: "int \<Rightarrow> int \<Rightarrow> int run" where
  "div_i128 a b = (if b = 0 \<or> a = - (2 ^ 127) \<and> b = - 1 then Inl Panic else Inr (a sdiv b))"

definition rem_i128 :: "int \<Rightarrow> int \<Rightarrow> int run" where
  "rem_i128 a b = (if b = 0 \<or> a = - (2 ^ 127) \<and> b = - 1 then Inl Panic else Inr (a smod b))"

section \<open>The extended Euclidean algorithm\<close>

lemma rem_i128_less: "0 < b \<Longrightarrow> rem_i128 a b = Inr r \<Longrightarrow> r < b"
proof -
  assume b: "0 < b" "rem_i128 a b = Inr r"
  then have r: "r = sgn a * (\<bar>a\<bar> mod b)" by (auto simp: rem_i128_def signed_modulo_int_def split: if_splits)
  have "- ((- a) mod b) \<le> 0" using b(1) by (simp only: neg_le_0_iff_le pos_mod_sign)
  then have "- ((- a) mod b) < b" using b(1) by (rule le_less_trans)
  then show "r < b" unfolding r using b(1) by (auto simp: sgn_if)
qed

text \<open>
  The loop of \<open>inv\<close>, called \<open>inv_mod\<close> here, with its four variables.  It ends for all values: once \<open>b\<close> is not positive the next \<open>a\<close> is not above 1.
\<close>

function inv_loop :: "int \<Rightarrow> int \<Rightarrow> int \<Rightarrow> int \<Rightarrow> int run" where
  "inv_loop a b x0 x1 =
     (if 1 < a
      then bind_run (div_i128 a b) (\<lambda>q. bind_run (rem_i128 a b) (\<lambda>r.
             inv_loop b r (wrap_i128 (x1 - wrap_i128 (q * x0))) x0))
      else Inr x1)"
  by pat_completeness auto
termination
proof (relation "measure (\<lambda>(a, b, x0, x1). if 1 < a then nat b + 1 else 0)", simp)
  fix a b x0 x1 q r :: int
  assume "1 < a" "rem_i128 a b = Inr r"
  then show "((b, r, wrap_i128 (x1 - wrap_i128 (q * x0)), x0), a, b, x0, x1)
      \<in> measure (\<lambda>(a, b, x0, x1). if 1 < a then nat b + 1 else 0)"
    using rem_i128_less [of b a r] by auto
qed

declare inv_loop.simps [simp del]

definition inv_mod :: "int \<Rightarrow> int \<Rightarrow> int run" where
  "inv_mod inp_a inp_b =
     (if inp_b = 1 then Inr 1
      else bind_run (inv_loop inp_a inp_b 0 1) (\<lambda>x1. Inr (if x1 < 0 then wrap_i128 (x1 + inp_b) else x1)))"

section \<open>The value of given residues\<close>

fun crt_inv_loop :: "int \<Rightarrow> (nat \<times> nat) list \<Rightarrow> int \<Rightarrow> int run" where
  "crt_inv_loop M [] ret = Inr ret"
| "crt_inv_loop M ((p, a) # rest) ret =
     bind_run (div_i128 M (int p)) (\<lambda>q.
     bind_run (inv_mod q (int p)) (\<lambda>v.
     bind_run (rem_i128 (wrap_i128 (ret + wrap_i128 (wrap_i128 (int a * v) * q))) M)
       (crt_inv_loop M rest)))"

definition crt_inv :: "nat list \<Rightarrow> nat list \<Rightarrow> nat run" where
  "crt_inv xs ps =
     (let M = foldl (\<lambda>acc x. wrap_i128 (int x * acc)) 1 ps in
      bind_run (crt_inv_loop M (zip ps xs) 0) (\<lambda>ret. Inr (nat (ret mod 2 ^ 128))))"

definition crt_inv_factor :: "nat list \<Rightarrow> nat \<Rightarrow> nat run" where
  "crt_inv_factor xs q = bind_run (factor q) (crt_inv xs)"

section \<open>Arithmetic without overflow\<close>

lemma wrap_small: "- (2 ^ 127) \<le> n \<Longrightarrow> n < 2 ^ 127 \<Longrightarrow> wrap_i128 n = n"
  by (simp add: wrap_i128_def)

lemma div_pos: "0 \<le> a \<Longrightarrow> 0 < b \<Longrightarrow> div_i128 a b = Inr (a div b)"
  by (auto simp: div_i128_def signed_divide_int_def sgn_if)

lemma rem_pos: "0 \<le> a \<Longrightarrow> 0 < b \<Longrightarrow> rem_i128 a b = Inr (a mod b)"
  by (auto simp: rem_i128_def signed_modulo_int_def sgn_if)


section \<open>The modular inverse\<close>

lemma inv_loop_steps:
  "a \<le> 1 \<Longrightarrow> inv_loop a b x0 x1 = Inr x1"
  "1 < a \<Longrightarrow> 0 < b \<Longrightarrow> inv_loop a b x0 x1 = inv_loop b (a mod b) (wrap_i128 (x1 - wrap_i128 (a div b * x0))) x0"
  by (simp_all add: inv_loop.simps [of a] div_pos rem_pos)

lemma abs_swing: "x1 * x0 \<le> 0 \<Longrightarrow> 0 \<le> q \<Longrightarrow> \<bar>x1 - q * x0\<bar> = \<bar>x1\<bar> + q * \<bar>x0\<bar>" for x0 x1 q :: int
proof -
  assume *: "x1 * x0 \<le> 0" "0 \<le> q"
  then consider "0 \<le> x1" "x0 \<le> 0" | "x1 \<le> 0" "0 \<le> x0" by (auto simp: mult_le_0_iff)
  then show ?thesis
  proof cases
    case 1
    then have "q * x0 \<le> 0" using *(2) by (simp add: mult_nonneg_nonpos)
    with 1 show ?thesis by simp
  next
    case 2
    then have "0 \<le> q * x0" using *(2) by simp
    with 2 show ?thesis by simp
  qed
qed

lemma le_mult_pos: "1 \<le> b \<Longrightarrow> \<bar>x\<bar> \<le> b * \<bar>x\<bar>" for x b :: int
  using mult_right_mono [of 1 b "\<bar>x\<bar>"] by simp

text \<open>The invariant: \<open>a\<close> and \<open>b\<close> weighted with the opposite coefficients sum to the modulus, and the coefficients have opposite signs.\<close>

lemma inv_loop_correct:
  fixes a0 b0 :: int
  assumes b0: "0 < b0" "b0 < 2 ^ 127"
  shows "0 < a \<Longrightarrow> 0 \<le> b \<Longrightarrow> a * \<bar>x0\<bar> + b * \<bar>x1\<bar> = b0 \<Longrightarrow> x1 * x0 \<le> 0 \<Longrightarrow> \<bar>x1\<bar> \<le> b0 \<Longrightarrow>
    b0 dvd x1 * a0 - a \<Longrightarrow> b0 dvd x0 * a0 - b \<Longrightarrow>
    (if gcd a b = 1 then \<exists>x. inv_loop a b x0 x1 = Inr x \<and> \<bar>x\<bar> \<le> b0 \<and> b0 dvd x * a0 - 1
     else inv_loop a b x0 x1 = Inl Panic)"
proof (induction "nat b" arbitrary: a b x0 x1 rule: less_induct)
  case less
  consider "a = 1" | "1 < a" "b = 0" | "1 < a" "0 < b" using less.prems(1,2) by linarith
  then show ?case
  proof cases
    case 1
    then show ?thesis using less.prems by (simp add: inv_loop.simps [of 1])
  next
    case 2
    then show ?thesis by (simp add: inv_loop.simps [of a] div_i128_def)
  next
    case 3
    define q where "q = a div b"
    have q0: "0 \<le> q" using 3 by (simp add: q_def pos_imp_zdiv_nonneg_iff)
    have ab: "a mod b = a - q * b" by (simp add: q_def minus_div_mult_eq_mod)
    have swing: "\<bar>x1 - q * x0\<bar> = \<bar>x1\<bar> + q * \<bar>x0\<bar>" using abs_swing less.prems(4) q0 by simp
    have sum: "b * \<bar>x1 - q * x0\<bar> + a mod b * \<bar>x0\<bar> = b0"
      using less.prems(3) unfolding swing ab by (simp add: algebra_simps)
    have "0 \<le> a mod b * \<bar>x0\<bar>" using 3 by simp
    then have "b * \<bar>x1 - q * x0\<bar> \<le> b0" using sum by linarith
    then have bound: "\<bar>x1 - q * x0\<bar> \<le> b0" using 3 by (intro order_trans [OF le_mult_pos]) simp_all
    have "\<bar>q * x0\<bar> \<le> \<bar>x1 - q * x0\<bar>" unfolding swing using q0 by (simp add: abs_mult)
    then have "\<bar>q * x0\<bar> < 2 ^ 127" "\<bar>x1 - q * x0\<bar> < 2 ^ 127" using bound b0 by linarith+
    then have w: "wrap_i128 (x1 - wrap_i128 (q * x0)) = x1 - q * x0" by (simp add: wrap_small abs_less_iff)
    have x0: "\<bar>x0\<bar> \<le> b0"
    proof -
      have "a * \<bar>x0\<bar> \<le> b0" using less.prems(3) 3 mult_nonneg_nonneg [of b "\<bar>x1\<bar>"] by linarith
      then show ?thesis using 3 by (intro order_trans [OF le_mult_pos]) simp_all
    qed
    have sign: "x0 * (x1 - q * x0) \<le> 0"
      using less.prems(4) mult_nonneg_nonneg [OF q0 zero_le_square [of x0]] by (simp add: algebra_simps)
    have "(x1 - q * x0) * a0 - a mod b = (x1 * a0 - a) - q * (x0 * a0 - b)"
      unfolding ab by (simp add: algebra_simps)
    then have dvd: "b0 dvd (x1 - q * x0) * a0 - a mod b" using less.prems(6,7) by simp
    have "inv_loop a b x0 x1 = inv_loop b (a mod b) (x1 - q * x0) x0"
      using 3 w by (simp add: inv_loop.simps [of a] div_pos rem_pos q_def)
    moreover have "gcd a b = gcd b (a mod b)" using gcd_red_int by simp
    ultimately show ?thesis
      using less.hyps [of "a mod b" b "x1 - q * x0" x0] 3 sum sign x0 less.prems(7) dvd by (simp add: nat_less_iff)
  qed
qed

lemma inv_mod_correct:
  fixes a b :: int
  assumes "1 < b" "b < 2 ^ 127" "0 < a"
  shows "if coprime a b then \<exists>x. inv_mod a b = Inr x \<and> 0 \<le> x \<and> x < b \<and> a * x mod b = 1 else inv_mod a b = Inl Panic"
proof -
  have r: "if gcd a b = 1 then \<exists>x. inv_loop a b 0 1 = Inr x \<and> \<bar>x\<bar> \<le> b \<and> b dvd x * a - 1 else inv_loop a b 0 1 = Inl Panic"
    using assms by (intro inv_loop_correct) simp_all
  show ?thesis
  proof (cases "coprime a b")
    case True
    then obtain x where x: "inv_loop a b 0 1 = Inr x" "\<bar>x\<bar> \<le> b" "b dvd x * a - 1" using r by (auto simp: coprime_iff_gcd_eq_1)
    have nb: "x \<noteq> b" "x \<noteq> - b" using x(3) assms(1) by (auto simp: dvd_diff_right_iff zdvd_not_zless)
    define y where "y = (if x < 0 then x + b else x)"
    have "inv_mod a b = Inr y" using x assms by (simp add: inv_mod_def y_def wrap_small)
    moreover have "b dvd y * a - 1"
    proof -
      have "(x + b) * a - 1 = (x * a - 1) + b * a" by (simp add: algebra_simps)
      then have "b dvd (x + b) * a - 1" using x(3) by (simp only: dvd_add dvd_triv_left)
      then show ?thesis using x(3) by (simp add: y_def)
    qed
    then have "a * y mod b = 1" using assms(1) by (metis mod_eq_dvd_iff mod_pos_pos_trivial mult.commute zero_le_one)
    moreover have "0 \<le> y" "y < b" using x(2) nb by (auto simp: y_def)
    ultimately show ?thesis using True by simp
  qed (use r assms in \<open>simp add: inv_mod_def coprime_iff_gcd_eq_1\<close>)
qed

text \<open>
  C5.  \<open>inv\<close> ends on every input and is the inverse where there is one: for a modulus \<open>b\<close> of at least 2 it returns the inverse of a positive
  \<open>a\<close> in the range \<open>0 \<dots> b - 1\<close>, without an overflow on the way, if the two are coprime, and panics on a division by zero if
  they are not; zero and negative numbers are not inverted, for them it returns 1.
\<close>

theorem inv_mod_spec:
  assumes "1 < b" and "b < 2 ^ 127"
  shows "(0 < a \<and> coprime a b \<longrightarrow> (\<exists>x. inv_mod a b = Inr x \<and> 0 \<le> x \<and> x < b \<and> a * x mod b = 1)) \<and>
    (0 < a \<and> \<not> coprime a b \<longrightarrow> inv_mod a b = Inl Panic) \<and> (a \<le> 0 \<longrightarrow> inv_mod a b = Inr 1)"
  using inv_mod_correct [OF assms, of a] assms(1) by (auto simp: inv_mod_def inv_loop_steps)

theorem inv_mod_spec_witness:
  "(\<exists>x. inv_mod 3 7 = Inr x \<and> 0 \<le> x \<and> x < 7 \<and> 3 * x mod 7 = 1) \<and> inv_mod 6 9 = Inl Panic \<and> inv_mod 0 7 = Inr 1"
proof -
  have "coprime 3 (7 :: int)" "\<not> coprime 6 (9 :: int)" by code_simp+
  then show ?thesis using inv_mod_spec [of 7 3] inv_mod_spec [of 9 6] inv_mod_spec [of 7 0] by simp
qed

section \<open>Pairwise coprime moduli\<close>

fun coprimes :: "nat list \<Rightarrow> bool" where
  "coprimes [] = True"
| "coprimes (p # ps) = (list_all (coprime p) ps \<and> coprimes ps)"

lemma coprime_prod_list: "list_all (coprime p) ps \<Longrightarrow> coprime p (prod_list ps)" for p :: nat
  by (induction ps) auto

lemma factor_dvd: "p \<in> set ps \<Longrightarrow> p dvd prod_list ps" for p :: nat
  by (induction ps) auto

lemma coprimes_append: "coprimes (ps @ qs) \<longleftrightarrow> coprimes ps \<and> coprimes qs \<and> (\<forall>p\<in>set ps. list_all (coprime p) qs)"
  by (induction ps) auto

lemma coprimes_take: "coprimes ps \<Longrightarrow> coprimes (take n ps)"
  using coprimes_append [of "take n ps" "drop n ps"] by simp

lemma coprimes_dvd: "coprimes ps \<Longrightarrow> \<forall>p\<in>set ps. int p dvd n \<Longrightarrow> int (prod_list ps) dvd n"
proof (induction ps)
  case (Cons p ps)
  then have "coprime (int p) (int (prod_list ps))" by (simp add: coprime_prod_list)
  with Cons show ?case by (simp add: divides_mult)
qed simp

lemma prod_list_pos: "\<forall>p\<in>set ps. 0 < p \<Longrightarrow> 0 < prod_list ps" for ps :: "nat list"
  by (induction ps) simp_all

lemma PRIMES_coprimes: "coprimes PRIMES"
  by (simp add: PRIMES_def coprime_iff_gcd_eq_1 gcd_non_0_nat)

lemma fold_wrap:
  "\<forall>p\<in>set ps. 0 < p \<Longrightarrow> 0 \<le> acc \<Longrightarrow> acc * int (prod_list ps) < 2 ^ 127 \<Longrightarrow>
   foldl (\<lambda>acc x. wrap_i128 (int x * acc)) acc ps = acc * int (prod_list ps)"
proof (induction ps arbitrary: acc)
  case (Cons p ps)
  have pos: "1 \<le> int (prod_list ps)" using prod_list_pos [of ps] Cons.prems(1) by simp
  have "int p * acc * 1 \<le> int p * acc * int (prod_list ps)" using pos Cons.prems(2) by (intro mult_left_mono) simp_all
  then have "int p * acc < 2 ^ 127" using Cons.prems(3) by (simp add: mult.commute mult.left_commute)
  then have "wrap_i128 (int p * acc) = int p * acc"
    using mult_nonneg_nonneg [of "int p" acc] Cons.prems(2) by (intro wrap_small) linarith+
  then show ?case using Cons.IH [of "int p * acc"] Cons.prems by (simp add: mult.commute mult.left_commute)
qed simp

lemma fold_product:
  "\<forall>p\<in>set ps. 0 < p \<Longrightarrow> acc * prod_list ps < 2 ^ 128 \<Longrightarrow> foldl (\<lambda>acc x. acc * x mod 2 ^ 128) acc ps = acc * prod_list ps"
  for ps :: "nat list"
proof (induction ps arbitrary: acc)
  case (Cons p ps)
  have "acc * p * 1 \<le> acc * p * prod_list ps" using prod_list_pos [of ps] Cons.prems(1) by (intro mult_le_mono2) simp
  moreover have "acc * p * prod_list ps < 2 ^ 128" using Cons.prems(2) by (simp add: mult.assoc)
  ultimately have "acc * p < 2 ^ 128" by linarith
  then show ?case using Cons.IH [of "acc * p"] Cons.prems by (simp add: mult.assoc)
qed simp

lemma product_exact: "\<forall>p\<in>set ps. 0 < p \<Longrightarrow> prod_list ps < 2 ^ 128 \<Longrightarrow> product ps = prod_list ps"
  using fold_product [of ps 1] by (simp add: product_def)

lemma crt_residues: "\<forall>p\<in>set ps. 0 < p \<Longrightarrow> crt x ps = Inr (map (\<lambda>p. x mod p) ps)"
  unfolding crt_def by (rule map_run_Inr) simp

section \<open>The inverse of the residues\<close>

text \<open>No intermediate value of the step for \<open>p\<close> leaves the range of \<open>i128\<close>.\<close>

definition crt_fits :: "int \<Rightarrow> int \<Rightarrow> bool" where
  "crt_fits M p = (\<forall>v. inv_mod (M div p) p = Inr v \<longrightarrow> (p - 1) * v * (M div p) + M \<le> 2 ^ 127)"

lemma inv_mod_range:
  assumes "0 < p" "p < 2 ^ 127" "0 < q" "coprime q p"
  obtains v where "inv_mod q p = Inr v" and "0 \<le> v" and "v \<le> p" and "p dvd q * v - 1"
proof (cases "p = 1")
  case True
  then show thesis using that [of 1] by (simp add: inv_mod_def)
next
  case False
  then obtain x where x: "inv_mod q p = Inr x" "0 \<le> x" "x < p" "q * x mod p = 1"
    using inv_mod_correct [of p q] assms by auto
  then have "p dvd q * x - 1" using False assms(1) by (simp add: mod_eq_dvd_iff [symmetric])
  with x that show thesis by simp
qed

lemma crt_fits_bound:
  assumes "0 < p" "p < 2 ^ 127" "0 < M" "p dvd M" "coprime (M div p) p" "p * M \<le> 2 ^ 127"
  shows "crt_fits M p"
  unfolding crt_fits_def
proof (intro allI impI)
  fix v assume v: "inv_mod (M div p) p = Inr v"
  obtain q where q: "M = p * q" using assms(4) by blast
  have q0: "0 < q" using assms(1,3) q by (simp add: zero_less_mult_iff)
  have Mq: "M div p = q" using q assms(1) by simp
  obtain v' where "inv_mod q p = Inr v'" "0 \<le> v'" "v' \<le> p" using inv_mod_range [OF assms(1,2) q0] assms(5) Mq by auto
  then have "(p - 1) * v * q \<le> (p - 1) * p * q" using v Mq q0 assms(1) by (intro mult_right_mono mult_left_mono) simp_all
  also have "\<dots> + M = p * M" by (simp add: q algebra_simps)
  finally show "(p - 1) * v * (M div p) + M \<le> 2 ^ 127" using assms(6) Mq by simp
qed

lemma coprimes_quotient:
  assumes "coprimes ps" "\<forall>p\<in>set ps. 0 < p" "p \<in> set ps"
  shows "coprime (int (prod_list ps) div int p) (int p)"
proof -
  obtain xs ys where ps: "ps = xs @ p # ys" using assms(3) by (meson split_list)
  have "list_all (coprime p) (xs @ ys)"
    using assms(1) unfolding ps coprimes_append by (auto simp: list_all_iff coprime_commute)
  then have "coprime (prod_list (xs @ ys)) p" using coprime_prod_list by (simp add: coprime_commute)
  moreover have "prod_list ps div p = prod_list (xs @ ys)" using assms(2,3) by (simp add: ps)
  ultimately show ?thesis by (metis coprime_int_iff zdiv_int)
qed

text \<open>One prime: the new sum has the residue of \<open>x\<close> for \<open>p\<close> and keeps the residues for the divisors of the others.\<close>

lemma crt_step:
  assumes M: "M = int p * q" "0 < q" "0 < p" "coprime q (int p)" and ret: "0 \<le> ret" "ret < M" "int p dvd ret"
    and fits: "crt_fits M (int p)" and len: "M < 2 ^ 127"
  obtains r where "crt_inv_loop M ((p, x mod p) # rest) ret = crt_inv_loop M rest r" and "0 \<le> r" and "r < M"
    and "int p dvd r - int x" and "\<And>d. d dvd q \<Longrightarrow> d dvd r - ret"
proof -
  have M0: "0 < M" "M div int p = q" using M by simp_all
  have pM: "int p \<le> M" using M by simp
  then obtain v where v: "inv_mod q (int p) = Inr v" "0 \<le> v" "int p dvd q * v - 1"
    using inv_mod_range [of "int p" q] M len by (metis le_less_trans of_nat_0_less_iff)
  have a: "int (x mod p) \<le> int p - 1" using M(3) by (simp add: zmod_int)
  have "int (x mod p) * v * q \<le> (int p - 1) * v * q" using a v(2) M(2) by (intro mult_right_mono) simp_all
  then have avq: "int (x mod p) * v * q + M \<le> 2 ^ 127" using fits v(1) M0 unfolding crt_fits_def by fastforce
  have av0: "0 \<le> int (x mod p) * v" using v(2) by simp
  have "int (x mod p) * v * 1 \<le> int (x mod p) * v * q" using av0 M(2) by (intro mult_left_mono) simp_all
  then have av: "int (x mod p) * v < 2 ^ 127" using avq M0 by linarith
  have avq0: "0 \<le> int (x mod p) * v * q" using av0 M(2) by simp
  define s where "s = ret + int (x mod p) * v * q"
  have s: "0 \<le> s" "s < 2 ^ 127" using avq avq0 ret by (simp_all add: s_def)
  have w1: "wrap_i128 (int (x mod p) * v) = int (x mod p) * v" using av av0 by (intro wrap_small) linarith+
  have w2: "wrap_i128 (int (x mod p) * v * q) = int (x mod p) * v * q" using avq avq0 M0 by (intro wrap_small) linarith+
  have w3: "wrap_i128 s = s" using s by (intro wrap_small) linarith+
  have step: "crt_inv_loop M ((p, x mod p) # rest) ret = crt_inv_loop M rest (s mod M)"
    using M0 M(3) v(1) s rem_pos [of s M]
    by (simp only: crt_inv_loop.simps div_pos bind_run_simps w1 w2 flip: s_def)
       (simp add: w3 div_pos)
  have dM: "d dvd s mod M - s" if "d dvd M" for d using that by (metis dvd_minus_mod dvd_diff_commute dvd_trans)
  have "int p dvd s mod M - int x"
  proof -
    have "int p dvd int (x mod p) * (q * v - 1)" using v(3) by simp
    moreover have "int p dvd int (x mod p) - int x" by (simp add: zmod_int mod_eq_dvd_iff [symmetric])
    moreover have "int p dvd s mod M - s" using dM M(1) by simp
    ultimately have "int p dvd (s mod M - s) + ret + int (x mod p) * (q * v - 1) + (int (x mod p) - int x)"
      using ret(3) by (intro dvd_add)
    moreover have "(s mod M - s) + ret + int (x mod p) * (q * v - 1) + (int (x mod p) - int x) = s mod M - int x"
      by (simp add: s_def algebra_simps)
    ultimately show ?thesis by simp
  qed
  moreover have "d dvd s mod M - ret" if "d dvd q" for d
  proof -
    have "d dvd s mod M - s" using that M(1) by (intro dM) simp
    moreover have "d dvd s - ret" using that by (simp add: s_def)
    ultimately have "d dvd (s mod M - s) + (s - ret)" by (rule dvd_add)
    then show ?thesis by simp
  qed
  ultimately show thesis using that [of "s mod M"] step M0(1) by simp
qed

lemma crt_inv_loop_correct:
  assumes c: "coprimes ps" "\<forall>p\<in>set ps. 0 < p" and M: "M = int (prod_list ps)" "M < 2 ^ 127"
    and fits: "\<forall>p\<in>set ps. crt_fits M (int p)"
  shows "ps = seen @ todo \<Longrightarrow> 0 \<le> ret \<Longrightarrow> ret < M \<Longrightarrow> \<forall>p\<in>set seen. int p dvd ret - int x \<Longrightarrow> \<forall>p\<in>set todo. int p dvd ret \<Longrightarrow>
    \<exists>r. crt_inv_loop M (zip todo (map (\<lambda>p. x mod p) todo)) ret = Inr r \<and> 0 \<le> r \<and> r < M \<and> (\<forall>p\<in>set ps. int p dvd r - int x)"
proof (induction todo arbitrary: seen ret)
  case (Cons p todo)
  define q where "q = int (prod_list (seen @ todo))"
  have pos: "\<forall>p\<in>set (seen @ todo). 0 < p" using c(2) Cons.prems(1) by simp
  have q0: "0 < q" using prod_list_pos [OF pos] by (simp add: q_def)
  have Mq: "M = int p * q" by (simp add: M(1) q_def Cons.prems(1) mult.left_commute)
  have cop: "list_all (coprime p) (seen @ todo)"
    using c(1) unfolding Cons.prems(1) coprimes_append by (auto simp: list_all_iff coprime_commute)
  then have cq: "coprime q (int p)" using coprime_prod_list [OF cop] by (simp add: q_def coprime_commute)
  have p: "0 < p" "crt_fits M (int p)" "int p dvd ret" using c(2) fits Cons.prems by simp_all
  obtain r where r: "crt_inv_loop M ((p, x mod p) # zip todo (map (\<lambda>p. x mod p) todo)) ret =
      crt_inv_loop M (zip todo (map (\<lambda>p. x mod p) todo)) r" "0 \<le> r" "r < M" "int p dvd r - int x"
      "\<And>d. d dvd q \<Longrightarrow> d dvd r - ret"
    using crt_step [OF Mq q0 p(1) cq Cons.prems(2,3) p(3,2) M(2)] by blast
  have dq: "int p' dvd r - ret" if "p' \<in> set (seen @ todo)" for p'
    using r(5) factor_dvd [OF that] by (simp only: q_def of_nat_dvd_iff)
  have "\<forall>p'\<in>set (seen @ [p]). int p' dvd r - int x"
  proof
    fix p' assume "p' \<in> set (seen @ [p])"
    then consider "p' = p" | "p' \<in> set seen" by auto
    then show "int p' dvd r - int x"
    proof cases
      case 2
      then have "int p' dvd (r - ret) + (ret - int x)" using dq Cons.prems(4) by (intro dvd_add) simp_all
      then show ?thesis by simp
    qed (use r(4) in simp)
  qed
  moreover have "\<forall>p'\<in>set todo. int p' dvd r"
  proof
    fix p' assume "p' \<in> set todo"
    then have "int p' dvd (r - ret) + ret" using dq Cons.prems(5) by (intro dvd_add) simp_all
    then show "int p' dvd r" by simp
  qed
  ultimately show ?case using Cons.IH [of "seen @ [p]" r] Cons.prems(1) r(1-3) by simp
qed simp

lemma crt_inv_correct:
  assumes c: "coprimes ps" "\<forall>p\<in>set ps. 0 < p" and M: "int (prod_list ps) < 2 ^ 127"
    and fits: "\<forall>p\<in>set ps. crt_fits (int (prod_list ps)) (int p)" and x: "x < prod_list ps"
  shows "bind_run (crt x ps) (\<lambda>xs. crt_inv xs ps) = Inr x"
proof -
  let ?M = "int (prod_list ps)"
  obtain r where r: "crt_inv_loop ?M (zip ps (map (\<lambda>p. x mod p) ps)) 0 = Inr r" "0 \<le> r" "r < ?M"
    "\<forall>p\<in>set ps. int p dvd r - int x"
    using crt_inv_loop_correct [OF c refl M fits, of "[]" ps 0 x] x by auto
  have "?M dvd r - int x" using coprimes_dvd [OF c(1) r(4)] .
  then have "r = int x" using r(2,3) x by (metis mod_eq_dvd_iff mod_pos_pos_trivial of_nat_0_le_iff of_nat_less_iff)
  moreover have "foldl (\<lambda>acc x. wrap_i128 (int x * acc)) 1 ps = ?M" using fold_wrap [OF c(2), of 1] M by simp
  moreover have "int x < 2 ^ 128" using M x by simp
  ultimately show ?thesis using r(1) c(2) by (simp add: crt_residues crt_inv_def)
qed

section \<open>The supported primes\<close>

lemma PRIMES_pos: "\<forall>p\<in>set (take n PRIMES). 0 < p"
proof
  fix p assume "p \<in> set (take n PRIMES)"
  then have "p \<in> set PRIMES" by (rule in_set_takeD)
  then show "0 < p" by (auto simp: PRIMES_def)
qed

lemma prod_list_take_le:
  fixes ps :: "nat list"
  assumes "\<forall>p\<in>set ps. 0 < p" "n \<le> m"
  shows "prod_list (take n ps) \<le> prod_list (take m ps)"
proof -
  have "take m ps = take n ps @ take (m - n) (drop n ps)" using assms(2) by (simp flip: take_add)
  moreover have "0 < prod_list (take (m - n) (drop n ps))"
    using assms(1) by (intro prod_list_pos) (meson in_set_dropD in_set_takeD)
  ultimately show ?thesis by simp
qed

lemma PRIMES_products:
  "prod_list (take 24 PRIMES) = 23768741896345550770650537601358310"
  "prod_list (take 25 PRIMES) = 2305567963945518424753102147331756070"
  "prod_list (take 26 PRIMES) = 232862364358497360900063316880507363070"
  by (simp_all add: PRIMES_def)

text \<open>Up to 24 primes the product times the largest prime is below \<open>2 ^ 127\<close>; with 25 the inverses for the four largest count.\<close>

lemma wrap_literal: "wrap_i128 n =
    (n + 170141183460469231731687303715884105728) mod 340282366920938463463374607431768211456 - 170141183460469231731687303715884105728"
  by (simp add: wrap_i128_def)

lemmas wrap_eval = wrap_literal [of "numeral w" for w] wrap_literal [of "- numeral w" for w] wrap_literal [of 0] wrap_literal [of 1]
  wrap_literal [of "- 1"]

lemma inv_mod_eval:
  "1 < b \<Longrightarrow> inv_mod a b = bind_run (inv_loop a b 0 1) (\<lambda>x1. Inr (if x1 < 0 then wrap_i128 (x1 + b) else x1))"
  by (simp add: inv_mod_def)

lemma bind_run_weak_cong: "m = m' \<Longrightarrow> bind_run m f = bind_run m' f"
  by simp

lemma crt_fits_25:
  assumes "p \<in> {79, 83, 89, 97}"
  shows "crt_fits 2305567963945518424753102147331756070 p"
  using assms unfolding insert_iff empty_iff
  by (elim disjE FalseE; simp add: wrap_eval inv_mod_eval inv_loop_steps crt_fits_def cong: bind_run_weak_cong)

lemma of_nat_bound: "a * b \<le> 2 ^ 127 \<Longrightarrow> int a * int b \<le> 2 ^ 127"
  by (metis of_nat_le_iff of_nat_mult of_nat_numeral of_nat_power)

lemma PRIMES_fit:
  assumes "n \<le> 25"
  shows "\<forall>p\<in>set (take n PRIMES). crt_fits (int (prod_list (take n PRIMES))) (int p)"
proof
  let ?ps = "take n PRIMES" and ?M = "int (prod_list (take n PRIMES))"
  fix p assume p: "p \<in> set ?ps"
  note pos = PRIMES_pos [of n]
  have bound: "crt_fits ?M (int p)" if "int p * ?M \<le> 2 ^ 127"
  proof -
    have "0 < ?M" "int p dvd ?M" using prod_list_pos [OF pos] factor_dvd [OF p] by simp_all
    moreover have "p \<in> set PRIMES" using p by (rule in_set_takeD)
    then have "0 < p" "p < 2 ^ 127" by (auto simp: PRIMES_def)
    ultimately show ?thesis
      using that coprimes_quotient [OF coprimes_take [OF PRIMES_coprimes] pos p] by (intro crt_fits_bound) simp_all
  qed
  have le: "prod_list (take n PRIMES) \<le> prod_list (take k PRIMES)" if "n \<le> k" for k
    using that PRIMES_pos [of "length PRIMES"] by (intro prod_list_take_le) simp_all
  show "crt_fits ?M (int p)"
  proof (cases "n \<le> 24")
    case True
    have "p \<in> set (take 24 PRIMES)" using subsetD [OF set_take_subset_set_take [OF True] p] .
    then have "p \<le> 89" by (auto simp: PRIMES_def)
    then have "p * prod_list ?ps \<le> 89 * 23768741896345550770650537601358310" using le [OF True] unfolding PRIMES_products by (rule mult_le_mono)
    then have "p * prod_list ?ps \<le> 2 ^ 127" by (rule order_trans) simp
    then have "int p * ?M \<le> 2 ^ 127" by (rule of_nat_bound)
    then show ?thesis by (rule bound)
  next
    case False
    then have n: "n = 25" using assms by simp
    show ?thesis
    proof (cases "p \<le> 73")
      case True
      then have "p * prod_list ?ps \<le> 73 * 2305567963945518424753102147331756070" unfolding n PRIMES_products by (rule mult_le_mono) simp
      then have "p * prod_list ?ps \<le> 2 ^ 127" by (rule order_trans) simp
    then have "int p * ?M \<le> 2 ^ 127" by (rule of_nat_bound)
      then show ?thesis by (rule bound)
    next
      case False
      then have "p \<in> {79, 83, 89, 97}" using p n by (auto simp: PRIMES_def)
      then show ?thesis using crt_fits_25 [of "int p"] unfolding n PRIMES_products by auto
    qed
  qed
qed

lemma crt_primes_small:
  assumes "n \<le> 25" "x < product (take n PRIMES)"
  shows "bind_run (crt x (take n PRIMES)) (\<lambda>xs. crt_inv xs (take n PRIMES)) = Inr x"
proof -
  have "prod_list (take n PRIMES) \<le> prod_list (take 25 PRIMES)"
    using assms(1) PRIMES_pos [of "length PRIMES"] by (intro prod_list_take_le) simp_all
  then have M: "prod_list (take n PRIMES) \<le> 2305567963945518424753102147331756070" unfolding PRIMES_products .
  then have "x < prod_list (take n PRIMES)" using assms(2) product_exact [OF PRIMES_pos] by simp
  then show ?thesis using M by (intro crt_inv_correct coprimes_take PRIMES_coprimes PRIMES_pos PRIMES_fit assms(1)) simp_all
qed

lemma div_neg: "a < 0 \<Longrightarrow> 1 < b \<Longrightarrow> div_i128 a b = Inr (- (- a div b))"
  by (simp add: div_i128_def signed_divide_int_def)

lemma rem_neg: "b < - 1 \<Longrightarrow> rem_i128 a b = Inr (sgn a * (\<bar>a\<bar> mod - b))"
  by (simp add: rem_i128_def signed_modulo_int_def)

lemma crt_26_primes:
  "bind_run (crt 1 (take 26 PRIMES)) (\<lambda>xs. crt_inv xs (take 26 PRIMES)) = Inr 252980176745290605739773439839097891279"
  by (simp add: crt_def crt_inv_def PRIMES_def wrap_eval div_neg rem_neg inv_mod_eval inv_loop_steps cong: bind_run_weak_cong)

text \<open>
  C7.  The residues of a number modulo the first supported primes give the number back: for up to 25 primes and every number below
  their product, \<open>crt_inv\<close> of \<open>crt\<close> is the identity, and no \<open>i128\<close> overflows.  With 26 primes the product still is a \<open>u128\<close>,
  but not an \<open>i128\<close>, and already the residues of 1 give another number.
\<close>

theorem crt_primes_round_trip:
  assumes "n \<le> 25" and "x < product (take n PRIMES)"
  shows "bind_run (crt x (take n PRIMES)) (\<lambda>xs. crt_inv xs (take n PRIMES)) = Inr x \<and>
    modulus_with_nprimes 26 = Inr 232862364358497360900063316880507363070 \<and>
    bind_run (crt 1 (take 26 PRIMES)) (\<lambda>xs. crt_inv xs (take 26 PRIMES)) \<noteq> Inr 1"
proof -
  have "product (take 26 PRIMES) = 232862364358497360900063316880507363070"
    using product_exact [OF PRIMES_pos, of 26] unfolding PRIMES_products by simp
  then have "modulus_with_nprimes 26 = Inr 232862364358497360900063316880507363070"
    by (simp add: modulus_with_nprimes_def PRIMES_def)
  then show ?thesis using crt_primes_small [OF assms] crt_26_primes by simp
qed

theorem crt_primes_round_trip_witness:
  "bind_run (crt 1000 (take 5 PRIMES)) (\<lambda>xs. crt_inv xs (take 5 PRIMES)) = Inr 1000"
proof -
  have "(1000 :: nat) < product (take 5 PRIMES)" by (simp add: product_def PRIMES_def)
  then show ?thesis using crt_primes_round_trip [of 5 1000] by simp
qed

section \<open>Factoring\<close>

lemma subseq_member: "subseq qs ps \<Longrightarrow> x \<in> set qs \<Longrightarrow> x \<in> set ps"
  by (erule (1) list_emb_set) simp

lemma coprimes_subseq: "subseq qs ps \<Longrightarrow> coprimes ps \<Longrightarrow> coprimes qs"
proof (induction rule: list_emb.induct)
  case (list_emb_Cons2 x y xs ys)
  then show ?case using subseq_member [of xs ys] by (simp add: list_all_iff)
qed simp_all

lemma factor_loop_product:
  "\<forall>p\<in>set ps. 0 < p \<Longrightarrow> factor_loop ps x fs = (x', fs') \<Longrightarrow> \<exists>gs. fs' = fs @ gs \<and> x = x' * prod_list gs \<and> subseq gs ps"
proof (induction ps x fs rule: factor_loop.induct)
  case (2 q ps x fs)
  show ?case
  proof (cases "x mod q = 0")
    case True
    then obtain gs where "fs' = (fs @ [q]) @ gs" "x div q = x' * prod_list gs" "subseq gs ps" using 2 by auto
    moreover from this True have "x = x' * prod_list gs * q" using div_mult_mod_eq [of x q] by simp
    ultimately have "fs' = fs @ q # gs \<and> x = x' * prod_list (q # gs) \<and> subseq (q # gs) (q # ps)" by simp
    then show ?thesis by blast
  next
    case False
    then obtain gs where "fs' = fs @ gs" "x = x' * prod_list gs" "subseq gs ps" using 2 by auto
    then have "fs' = fs @ gs \<and> x = x' * prod_list gs \<and> subseq gs (q # ps)" by (simp add: list_emb_Cons)
    then show ?thesis by blast
  qed
qed simp

lemma factor_loop_complete:
  "coprimes ps \<Longrightarrow> \<forall>p\<in>set ps. 1 < p \<Longrightarrow> subseq gs ps \<Longrightarrow> factor_loop ps (prod_list gs) fs = (1, fs @ gs)"
proof (induction ps arbitrary: gs fs)
  case (Cons p ps)
  show ?case
  proof (cases "p \<in> set gs")
    case True
    have "p \<notin> set ps" using Cons.prems(1,2) by (force simp: list_all_iff dest: bspec [where x = p])
    with True obtain hs where gs: "gs = p # hs" "subseq hs ps"
      using Cons.prems(1,2,3) subseq_member [of gs ps p] by (cases gs) (auto simp: list_all_iff split: if_splits)
    then show ?thesis using Cons.prems Cons.IH [of hs "fs @ [p]"] by simp
  next
    case False
    then have sub: "subseq gs ps" using Cons.prems(3) by (cases gs) (auto split: if_splits)
    then have "list_all (coprime p) gs" using Cons.prems(1) subseq_member [OF sub] by (simp add: list_all_iff)
    then have "coprime p (prod_list gs)" by (rule coprime_prod_list)
    then have "prod_list gs mod p \<noteq> 0" using Cons.prems(2) by (auto simp: coprime_absorb_left mod_eq_0_iff_dvd)
    then show ?thesis using sub Cons by simp
  qed
qed (auto dest: list_emb_Nil2)

lemma PRIMES_bounds: "p \<in> set PRIMES \<Longrightarrow> 1 < p \<and> p \<le> 109"
  by (auto simp: PRIMES_def)

text \<open>\<open>factor\<close> answers exactly for the products of some of the primes, each taken once, with these primes in their order.\<close>

theorem factor_Inr_iff: "factor q = Inr fs \<longleftrightarrow> subseq fs PRIMES \<and> prod_list fs = q"
proof
  assume "factor q = Inr fs"
  then have "factor_loop PRIMES q [] = (1, fs)" by (auto simp: factor_def split: prod.splits if_splits)
  then show "subseq fs PRIMES \<and> prod_list fs = q" using factor_loop_product [of PRIMES q "[]" 1 fs] PRIMES_bounds by fastforce
next
  assume "subseq fs PRIMES \<and> prod_list fs = q"
  then show "factor q = Inr fs"
    using factor_loop_complete [OF PRIMES_coprimes, of fs "[]"] PRIMES_bounds by (auto simp: factor_def)
qed

text \<open>The round trip for a composite modulus of up to 120 bits.\<close>

theorem crt_factor_inverse:
  assumes q: "factor q = Inr fs" "q \<le> 2 ^ 120" and x: "x < q"
  shows "bind_run (crt_factor x q) (\<lambda>xs. crt_inv_factor xs q) = Inr x"
proof -
  have fs: "subseq fs PRIMES" "prod_list fs = q" using q(1) by (simp_all add: factor_Inr_iff)
  have range: "1 < p \<and> p \<le> 109" if "p \<in> set fs" for p using PRIMES_bounds [OF subseq_member [OF fs(1) that]] .
  have c: "coprimes fs" using coprimes_subseq [OF fs(1) PRIMES_coprimes] .
  have pos: "\<forall>p\<in>set fs. 0 < p" using range by fastforce
  have q0: "0 < q" using x by simp
  have "crt_fits (int q) (int p)" if p: "p \<in> set fs" for p
  proof (rule crt_fits_bound)
    have "p * q \<le> 109 * 2 ^ 120" using range [OF p] q(2) by (intro mult_le_mono) simp_all
    then have "p * q \<le> 2 ^ 127" by (rule order_trans) simp
    then show "int p * int q \<le> 2 ^ 127" by (rule of_nat_bound)
    show "coprime (int q div int p) (int p)" using coprimes_quotient [OF c pos p] fs(2) by simp
    show "int p dvd int q" using factor_dvd [OF p] fs(2) by simp
  qed (use range [OF p] q0 in simp_all)
  then have "bind_run (crt x fs) (\<lambda>xs. crt_inv xs fs) = Inr x"
    using fs(2) x q(2) by (intro crt_inv_correct c pos) (simp_all flip: of_nat_less_iff)
  then show ?thesis using q(1) by (simp add: crt_factor_def crt_inv_factor_def)
qed

section \<open>Widths\<close>

lemma drop_bit_pos: "0 < drop_bit n (x :: nat) \<longleftrightarrow> 2 ^ n \<le> x"
  by (simp add: drop_bit_eq_div div_greater_zero_iff)

lemma width_loop_shortest:
  assumes "nbits < 128"
  shows "\<forall>p\<in>set todo. 0 < p \<Longrightarrow> \<exists>m\<le>length todo. 0 < m \<and> 2 ^ nbits \<le> prod_list (used @ take m todo) \<and> prod_list (used @ take m todo) < 2 ^ 128 \<Longrightarrow>
    \<exists>k\<le>length todo. 0 < k \<and> width_loop nbits todo (prod_list used) used = (used @ take k todo, prod_list (used @ take k todo)) \<and>
      2 ^ nbits \<le> prod_list (used @ take k todo) \<and> prod_list (used @ take k todo) < 2 ^ 128 \<and>
      (\<forall>j<k. 0 < j \<longrightarrow> prod_list (used @ take j todo) < 2 ^ nbits)"
proof (induction todo arbitrary: used)
  case (Cons p todo)
  then obtain m where m: "m \<le> length todo" "2 ^ nbits \<le> prod_list ((used @ [p]) @ take m todo)"
      "prod_list ((used @ [p]) @ take m todo) < 2 ^ 128"
    by (metis (no_types, lifting) Suc_le_mono append.assoc append_Cons append_Nil gr0_conv_Suc length_Cons take_Suc_Cons)
  have "1 \<le> prod_list (take m todo)" using prod_list_pos [of "take m todo"] Cons.prems(1) in_set_takeD [of _ m todo] by fastforce
  then have "prod_list (used @ [p]) * 1 \<le> prod_list (used @ [p]) * prod_list (take m todo)" by (rule mult_le_mono2)
  moreover have "prod_list (used @ [p]) * prod_list (take m todo) < 2 ^ 128" using m(3) by (simp add: mult.assoc)
  ultimately have res: "prod_list (used @ [p]) < 2 ^ 128" by linarith
  show ?case
  proof (cases "2 ^ nbits \<le> prod_list (used @ [p])")
    case True
    then show ?thesis using res assms by (intro exI [of _ 1]) (simp add: drop_bit_pos)
  next
    case False
    then have "0 < m" using m(2) by (cases m) simp_all
    with m Cons.prems(1) obtain k where k: "k \<le> length todo" "0 < k"
        "width_loop nbits todo (prod_list (used @ [p])) (used @ [p]) = ((used @ [p]) @ take k todo, prod_list ((used @ [p]) @ take k todo))"
        "2 ^ nbits \<le> prod_list ((used @ [p]) @ take k todo)" "prod_list ((used @ [p]) @ take k todo) < 2 ^ 128"
        "\<forall>j<k. 0 < j \<longrightarrow> prod_list ((used @ [p]) @ take j todo) < 2 ^ nbits"
      using Cons.IH [of "used @ [p]"] by (metis list.set_intros(2))
    have "prod_list (used @ take j (p # todo)) < 2 ^ nbits" if "j < Suc k" "0 < j" for j
      using that k(6) False by (cases j; cases "j - 1") auto
    then show ?thesis using k(1-5) False res assms by (intro exI [of _ "Suc k"]) (simp add: drop_bit_pos)
  qed
qed simp

text \<open>Up to 127 bits \<open>primes_with_width\<close> returns the shortest run of primes whose product has the width; nothing overflows.\<close>

theorem primes_with_width_shortest:
  assumes "n \<le> 127"
  shows "\<exists>k\<le>26. primes_with_width n = Inr (take k PRIMES) \<and> modulus_with_width n = Inr (prod_list (take k PRIMES)) \<and>
    2 ^ n \<le> prod_list (take k PRIMES) \<and> (\<forall>j<k. 0 < j \<longrightarrow> prod_list (take j PRIMES) < 2 ^ n)"
proof -
  have "(2 :: nat) ^ n \<le> 2 ^ 127" using assms by (intro power_increasing) simp_all
  then have n26: "2 ^ n \<le> prod_list (take 26 PRIMES)" "prod_list (take 26 PRIMES) < 2 ^ 128" unfolding PRIMES_products by simp_all
  have "\<exists>m\<le>length PRIMES. 0 < m \<and> 2 ^ n \<le> prod_list ([] @ take m PRIMES) \<and> prod_list ([] @ take m PRIMES) < 2 ^ 128"
    using n26 by (intro exI [of _ 26]) (simp add: PRIMES_def)
  then obtain k where k: "k \<le> length PRIMES" "0 < k" "width_loop n PRIMES 1 [] = (take k PRIMES, prod_list (take k PRIMES))"
      "2 ^ n \<le> prod_list (take k PRIMES)" "prod_list (take k PRIMES) < 2 ^ 128"
      "\<forall>j<k. 0 < j \<longrightarrow> prod_list (take j PRIMES) < 2 ^ n"
    using width_loop_shortest [of n PRIMES "[]"] assms PRIMES_bounds by fastforce
  have "k \<le> 26" using k(6) n26(1) by (meson not_le zero_less_numeral)
  moreover have "primes_with_width n = Inr (take k PRIMES)"
    using k(3,4) assms by (simp add: primes_with_width_def base_primes_with_width_def drop_bit_pos)
  moreover from this have "modulus_with_width n = Inr (prod_list (take k PRIMES))"
    using product_exact [OF PRIMES_pos k(5)]
    by (simp add: modulus_with_width_def base_modulus_with_width_def primes_with_width_def)
  ultimately show ?thesis using k(4,6) by blast
qed

section \<open>Mixed radix and bits\<close>

lemma from_mixed_radix_Cons:
  "from_mixed_radix (d # ds) (q # radii) = (from_mixed_radix ds radii * q mod 2 ^ 128 + d) mod 2 ^ 128"
  by (simp add: from_mixed_radix_def)

theorem mixed_radix_inverse:
  "\<forall>m\<in>set radii. 0 < m \<and> m < 2 ^ 16 \<Longrightarrow> prod_list radii \<le> 2 ^ 128 \<Longrightarrow> x < prod_list radii \<Longrightarrow>
   \<exists>ds. as_mixed_radix x radii = Inr ds \<and> list_all2 (<) ds radii \<and> from_mixed_radix ds radii = x"
proof (induction radii arbitrary: x)
  case (Cons m radii)
  have m: "0 < m" "m < 2 ^ 16" using Cons.prems(1) by simp_all
  have "1 * prod_list radii \<le> m * prod_list radii" using m by (intro mult_le_mono1) simp
  then have le: "prod_list radii \<le> 2 ^ 128" using Cons.prems(2) by (simp only: mult_1 prod_list.Cons)
  have "x div m < prod_list radii" using Cons.prems(3) by (simp add: less_mult_imp_div_less mult.commute)
  then obtain ds where ds: "as_mixed_radix (x div m) radii = Inr ds" "list_all2 (<) ds radii" "from_mixed_radix ds radii = x div m"
    using Cons.IH [of "x div m"] Cons.prems(1) le by auto
  have step: "as_mixed_radix x (m # radii) = Inr (x mod m # ds)"
  proof (cases "m \<le> x")
    case True
    then show ?thesis using ds(1) m by (simp add: Let_def minus_mod_eq_div_mult less_trans [OF mod_less_divisor])
  qed (use ds(1) m in simp)
  have "x < 2 ^ 128" using Cons.prems(2,3) by simp
  then have "(x div m * m mod 2 ^ 128 + x mod m) mod 2 ^ 128 = x"
    by (metis div_mult_mod_eq mod_add_left_eq mod_less)
  then show ?case using step ds(2,3) m by (simp add: from_mixed_radix_Cons)
qed (simp add: from_mixed_radix_def)

lemma u128_to_bits_digits: "u128_to_bits x n = base_digits 2 n x"
  by (induction n arbitrary: x) (simp_all add: and_one_eq Let_def minus_mod_eq_div_mult)

theorem u128_bits_inverse:
  assumes "0 < n" "n \<le> 128"
  shows "u128_from_bits (u128_to_bits x n) = Inr (x mod 2 ^ n)"
proof -
  have bits: "foldl (\<lambda>x b. (x + b) mod 2 ^ 128 * 2 mod 2 ^ 128) 0 (rev bs) = 2 * val 2 bs"
    if "proper 2 bs" "length bs < 128" for bs
    using that
  proof (induction bs)
    case (Cons b bs)
    have "val 2 (b # bs) < 2 ^ length (b # bs)" using val_less [OF Cons.prems(1)] .
    moreover have "2 * (2 :: nat) ^ length (b # bs) \<le> 2 ^ 128" using Cons.prems(2) power_increasing [of "Suc (length (b # bs))" 128 "2 :: nat"] by simp
    ultimately have "2 * val 2 (b # bs) < 2 ^ 128" by linarith
    then show ?case using Cons by (simp add: digit_simps algebra_simps)
  qed simp
  obtain k where k: "n = Suc k" using assms(1) by (cases n) simp_all
  have "2 * val 2 (base_digits 2 k (x div 2)) + x mod 2 = x mod 2 ^ n" using val_base_digits [of 2 n x] by (simp add: k)
  moreover have "x mod 2 ^ n < 2 ^ 128" using assms(2) power_increasing [of n 128 "2 :: nat"] by (intro less_le_trans [OF mod_less_divisor]) simp_all
  ultimately show ?thesis
    using bits [of "base_digits 2 k (x div 2)"] assms(2)
    by (simp add: u128_from_bits_def u128_to_bits_digits k buffer_simps digit_simps Let_def)
qed

lemma tweaks: "tweak2 0 i = tweak i" "output_tweak i k = tweak2 i (ucast k)"
proof -
  show "tweak2 0 i = tweak i" by (simp add: tweak_def tweak2_def)
  have "output_tweak i k = push_bit 64 (ucast i) OR ucast k"
    unfolding output_tweak_def
    by (rule disjunctive_add) (auto simp: bit_simps dest: bit_imp_le_length)
  moreover have "ucast (ucast k :: u64) = (ucast k :: u128)"
    by (rule bit_word_eqI) (auto simp: bit_simps dest: bit_imp_le_length)
  ultimately show "output_tweak i k = tweak2 i (ucast k)" by (simp add: tweak2_def or.commute)
qed

section \<open>Random moduli\<close>

text \<open>
  The generators of \<open>RngExt\<close>, with the numbers and coins they draw as arguments: one coin for each of the first 25 primes, and a
  product that stops at an overflow.
\<close>

definition gen_prime :: "nat \<Rightarrow> nat run" where
  "gen_prime r = read_at PRIMES (r mod NPRIMES)"

definition gen_modulus :: "nat \<Rightarrow> nat" where
  "gen_modulus r = 2 + r mod 111"

fun take_factors :: "nat \<Rightarrow> nat list \<Rightarrow> nat list" where
  "take_factors x [] = []"
| "take_factors x (q # qs) = (if x * q < 2 ^ 128 then q # take_factors (x * q) qs else [])"

definition gen_usable_factors :: "bool list \<Rightarrow> nat list" where
  "gen_usable_factors coins = take_factors 1 (map fst (filter snd (zip (take 25 PRIMES) coins)))"

definition gen_usable_composite_modulus :: "bool list \<Rightarrow> nat" where
  "gen_usable_composite_modulus coins = product (gen_usable_factors coins)"

lemma subseq_filter_zip: "subseq (map fst (filter snd (zip xs bs))) xs"
  by (induction xs bs rule: list_induct2') auto

lemma take_factors_all: "\<forall>q\<in>set qs. 0 < q \<Longrightarrow> x * prod_list qs < 2 ^ 128 \<Longrightarrow> take_factors x qs = qs"
proof (induction qs arbitrary: x)
  case (Cons q qs)
  have "x * q * 1 \<le> x * q * prod_list qs" using prod_list_pos [of qs] Cons.prems(1) by (intro mult_le_mono2) simp
  moreover have "x * q * prod_list qs < 2 ^ 128" using Cons.prems(2) by (simp add: mult.assoc)
  ultimately have "x * q < 2 ^ 128" by linarith
  then show ?case using Cons.IH [of "x * q"] Cons.prems by (simp add: mult.assoc)
qed simp

lemma prod_list_subseq: "subseq qs ps \<Longrightarrow> \<forall>p\<in>set ps. 0 < p \<Longrightarrow> prod_list qs \<le> prod_list ps" for ps :: "nat list"
proof (induction rule: list_emb.induct)
  case (list_emb_Nil ys)
  then show ?case using prod_list_pos [of ys] by (simp add: Suc_leI)
next
  case (list_emb_Cons xs ys y)
  then have "1 * prod_list xs \<le> y * prod_list ys" by (intro mult_le_mono) simp_all
  then show ?case by simp
qed simp_all

text \<open>The product of a random choice never overflows, so the check never stops it, and \<open>factor\<close> gives the choice back.\<close>

theorem gen_usable_factors_all:
  "gen_usable_factors coins = map fst (filter snd (zip (take 25 PRIMES) coins)) \<and>
   factor (gen_usable_composite_modulus coins) = Inr (gen_usable_factors coins)"
proof -
  let ?qs = "map fst (filter snd (zip (take 25 PRIMES) coins))"
  have sub: "subseq ?qs (take 25 PRIMES)" by (rule subseq_filter_zip)
  then have pos: "\<forall>q\<in>set ?qs. 0 < q" using PRIMES_pos [of 25] subseq_member [OF sub] by blast
  have "prod_list ?qs \<le> prod_list (take 25 PRIMES)" using prod_list_subseq [OF sub PRIMES_pos] .
  then have small: "prod_list ?qs < 2 ^ 128" unfolding PRIMES_products by simp
  then have all: "gen_usable_factors coins = ?qs" using take_factors_all [OF pos, of 1] by (simp add: gen_usable_factors_def)
  have "subseq (take 25 PRIMES) PRIMES" by (metis append_take_drop_id list_emb_append2 subseq_order.order_refl list_emb_prefix)
  then have "subseq ?qs PRIMES" using sub subseq_order.order_trans by blast
  then show ?thesis
    using all product_exact [OF pos small] by (simp add: gen_usable_composite_modulus_def factor_Inr_iff)
qed

text \<open>A width of 128 bits is out of reach, but the shift takes its amount modulo 128 and the first prime passes the test.\<close>

theorem primes_with_width_wraps: "primes_with_width 128 = Inr [2] \<and> modulus_with_width 128 = Inr 2"
  by (simp add: primes_with_width_def modulus_with_width_def base_modulus_with_width_def base_primes_with_width_def PRIMES_def product_def)

end
