(* ===== verification/Ocelot_Utils.thy ===== *)
theory Ocelot_Utils
  imports Transpose_Correct
begin

text \<open>
  \<^verbatim>\<open>ocelot/src/utils.rs\<close>: the Rust entry points of the transpose (the x86-64 build, which calls the
  C routine, and the portable build, which moves one bit at a time), and the conversions between bit
  vectors and bytes.  \<open>usize\<close> is 64 bits wide.  Both builds implement the interface
  \<open>bit_transposer\<close>.
\<close>

section \<open>The portable transpose\<close>

definition get_bit :: "bytes \<Rightarrow> nat \<Rightarrow> u8 run" where
  "get_bit src i = bind_run (read_at src (i div 8))
     (\<lambda>byte. Inr (if byte AND push_bit (i mod 8) 1 \<noteq> 0 then 1 else 0))"

definition set_bit :: "bytes \<Rightarrow> nat \<Rightarrow> u8 \<Rightarrow> bytes run" where
  "set_bit dst i b = bind_run (read_at dst (i div 8))
     (\<lambda>old. write_at dst (i div 8)
        (if b = 1 then old OR push_bit (i mod 8) 1 else old AND NOT (push_bit (i mod 8) 1)))"

fun naive_loop :: "bytes \<Rightarrow> nat \<Rightarrow> nat \<Rightarrow> nat list \<Rightarrow> bytes \<Rightarrow> bytes run" where
  "naive_loop src m n [] dst = Inr dst"
| "naive_loop src m n (i # is) dst =
     bind_run (get_bit src i) (\<lambda>b. bind_run (set_bit dst (i mod m * n + i div m) b)
       (naive_loop src m n is))"

text \<open>The remainder by \<open>m\<close> panics for \<open>m = 0\<close>.\<close>

definition transpose_naive_inplace :: "bytes \<Rightarrow> bytes \<Rightarrow> nat \<Rightarrow> bytes run" where
  "transpose_naive_inplace dst src m =
     (if m = 0 then Inl Panic
      else bind_run (guard_run (length src mod m = 0))
        (\<lambda>_. let l = length src * 8; n = l div m in naive_loop src m n [0..<l] dst))"

definition transpose_naive :: "bytes \<Rightarrow> u64 \<Rightarrow> u64 \<Rightarrow> bytes run" where
  "transpose_naive input nrows ncols =
     bind_run (guard_run (nrows mod 8 = 0)) (\<lambda>_.
     bind_run (guard_run (ncols mod 8 = 0)) (\<lambda>_.
     bind_run (guard_run (unat (nrows * ncols) = length input * 8)) (\<lambda>_.
     transpose_naive_inplace (replicate (unat (nrows * ncols div 8)) 0) input (unat ncols))))"

section \<open>The x86-64 build\<close>

text \<open>\<open>_transpose\<close>: three assertions, then the C routine on the two raw buffers.\<close>

definition transpose_asserted :: "u128 \<Rightarrow> bytes \<Rightarrow> bytes \<Rightarrow> u64 \<Rightarrow> u64 \<Rightarrow> bytes run option" where
  "transpose_asserted tmp0 out inp nrows ncols =
     (if \<not> 16 \<le> nrows then Some (Inl AssertFailed)
      else if nrows mod 8 \<noteq> 0 then Some (Inl AssertFailed)
      else if ncols mod 8 \<noteq> 0 then Some (Inl AssertFailed)
      else sse_trans tmp0 out inp nrows ncols)"

text \<open>\<open>transpose\<close>, compiled for x86-64 and for the other targets.\<close>

definition transpose_x86 :: "u128 \<Rightarrow> bytes \<Rightarrow> u64 \<Rightarrow> u64 \<Rightarrow> bytes run option" where
  "transpose_x86 tmp0 m nrows ncols =
     transpose_asserted tmp0 (replicate (unat (nrows * ncols div 8)) 0) m nrows ncols"

definition transpose_portable :: "bytes \<Rightarrow> u64 \<Rightarrow> u64 \<Rightarrow> bytes run option" where
  "transpose_portable m nrows ncols = Some (transpose_naive m nrows ncols)"

text \<open>\<open>transpose_pre_allocated (m, dst, nrows, ncols)\<close> on both targets.\<close>

definition transpose_pre_allocated_x86 ::
    "u128 \<Rightarrow> bytes \<Rightarrow> bytes \<Rightarrow> u64 \<Rightarrow> u64 \<Rightarrow> bytes run option" where
  "transpose_pre_allocated_x86 tmp0 m dst nrows ncols =
     (if length dst \<noteq> unat (nrows * ncols div 8) then Some (Inl AssertFailed)
      else if length m \<noteq> unat (nrows * ncols div 8) then Some (Inl AssertFailed)
      else transpose_asserted tmp0 dst m nrows ncols)"

definition transpose_pre_allocated_portable ::
    "bytes \<Rightarrow> bytes \<Rightarrow> u64 \<Rightarrow> u64 \<Rightarrow> bytes run option" where
  "transpose_pre_allocated_portable m dst nrows ncols =
     (if length dst \<noteq> unat (nrows * ncols div 8) then Some (Inl AssertFailed)
      else if length m \<noteq> unat (nrows * ncols div 8) then Some (Inl AssertFailed)
      else Some (transpose_naive_inplace dst m (unat ncols)))"

section \<open>Bit vectors and bytes\<close>

text \<open>\<open>v[i / 8] |= (*b as u8) << (i % 8)\<close> for each \<open>(i, b)\<close>\<close>

fun or_bits :: "(nat \<times> bool) list \<Rightarrow> bytes \<Rightarrow> bytes run" where
  "or_bits [] v = Inr v"
| "or_bits ((i, b) # ibs) v =
     bind_run (read_at v (i div 8)) (\<lambda>old.
     bind_run (write_at v (i div 8) (old OR push_bit (i mod 8) (if b then 1 else 0))) (or_bits ibs))"

definition boolvec_to_u8vec :: "bool list \<Rightarrow> bytes run" where
  "boolvec_to_u8vec bv =
     (let offset = (if length bv mod 8 = 0 then 0 else 1)
      in or_bits (zip [0..<length bv] bv) (replicate (length bv div 8 + offset) 0))"

definition u8vec_to_boolvec :: "bytes \<Rightarrow> bool list" where
  "u8vec_to_boolvec v = concat (map (\<lambda>byte. map (\<lambda>i. push_bit i 1 AND byte \<noteq> 0) [0..<8]) v)"

text \<open>A block is its sixteen bytes; \<open>^\<close> on blocks works byte by byte.\<close>

definition xor_block :: "bytes \<Rightarrow> bytes \<Rightarrow> bytes" where
  "xor_block a b = map2 (XOR) a b"

definition xor_two_blocks :: "bytes \<times> bytes \<Rightarrow> bytes \<times> bytes \<Rightarrow> bytes \<times> bytes" where
  "xor_two_blocks x y = (xor_block (fst x) (fst y), xor_block (snd x) (snd y))"

section \<open>Correctness of the portable transpose\<close>

lemma get_bit_ok:
  "i < 8 * length src \<Longrightarrow> get_bit src i = Inr (if buf_bit src i then 1 else 0)"
  by (simp add: get_bit_def buffer_simps and_exp_eq_0_iff_not_bit buf_bit_def)

lemma set_bit_ok:
  assumes "i < 8 * length dst"
  obtains dst' where "set_bit dst i (if b then 1 else 0) = Inr dst'" and "length dst' = length dst"
    and "\<And>k. buf_bit dst' k = (if k = i then b else buf_bit dst k)"
proof -
  let ?w = "dst ! (i div 8)" and ?x = "if b then dst ! (i div 8) OR push_bit (i mod 8) 1
     else dst ! (i div 8) AND NOT (push_bit (i mod 8) 1)"
  have i: "i div 8 < length dst" using assms by simp
  have x: "bit ?x j = (if j = i mod 8 then b else bit ?w j)" if "j < 8" for j
    using that by (auto simp: bit_simps)
  have "buf_bit (dst[i div 8 := ?x]) k = (if k = i then b else buf_bit dst k)" for k
  proof (cases "k div 8 = i div 8")
    case True
    then have "k = i \<longleftrightarrow> k mod 8 = i mod 8" by (metis mult_div_mod_eq)
    with True show ?thesis using x [of "k mod 8"] i by (simp add: buf_bit_update buf_bit_def)
  next
    case False
    then show ?thesis using i by (auto simp: buf_bit_update)
  qed
  then show thesis
    using i by (intro that [of "dst[i div 8 := ?x]"]) (simp_all add: set_bit_def buffer_simps)
qed

lemma naive_loop_ok:
  assumes len: "8 * length src = n * m" "length dst = length src" and "set is \<subseteq> {..<n * m}"
  shows "\<exists>dst'. naive_loop src m n is dst = Inr dst' \<and> length dst' = length dst \<and>
    (\<forall>r<n. \<forall>c<m. buf_bit dst' (c * n + r) =
       (if r * m + c \<in> set is then buf_bit src (r * m + c) else buf_bit dst (c * n + r)))"
  using assms(2,3)
proof (induction "is" arbitrary: dst)
  case Nil
  then show ?case by simp
next
  case (Cons i "is")
  from Cons.prems have i: "i < n * m" by simp
  then obtain c0 r0 where c0: "c0 < m" and r0: "r0 < n" and i_eq: "i = r0 * m + c0" by (rule cell_cases)
  have pos: "i mod m * n + i div m = c0 * n + r0" using c0 i_eq by simp
  have "c0 * n + r0 < 8 * length dst"
    using cell_less [OF r0 c0] len(1) Cons.prems(1) by (simp add: mult.commute)
  then obtain dst1 where s1: "set_bit dst (c0 * n + r0) (if buf_bit src i then 1 else 0) = Inr dst1"
    and l1: "length dst1 = length dst"
    and b1: "\<And>k. buf_bit dst1 k = (if k = c0 * n + r0 then buf_bit src i else buf_bit dst k)"
    using set_bit_ok [where b = "buf_bit src i"] by blast
  obtain dst' where "naive_loop src m n is dst1 = Inr dst'" "length dst' = length dst1"
    and b2: "\<forall>r<n. \<forall>c<m. buf_bit dst' (c * n + r) =
       (if r * m + c \<in> set is then buf_bit src (r * m + c) else buf_bit dst1 (c * n + r))"
    using Cons.IH [of dst1] Cons.prems l1 by auto
  moreover have "get_bit src i = Inr (if buf_bit src i then 1 else 0)"
    using i len by (intro get_bit_ok) simp
  moreover have "(c * n + r = c0 * n + r0) = (r * m + c = i)" if "r < n" "c < m" for r c
    using that c0 r0 by (auto simp: i_eq cell_inj)
  ultimately show ?case using s1 l1 b1 by (auto simp: pos)
qed

lemma transpose_naive_inplace_correct:
  assumes len: "8 * length src = n * m" "length dst = length src" and "0 < m" "n mod 8 = 0"
  shows "transpose_naive_inplace dst src m = Inr (bit_transpose n m src)"
proof -
  have "length src * 8 = n * m" using len by simp
  then have n: "length src * 8 div m = n" using assms(3) by simp
  from assms(4) obtain k where "n = 8 * k" by auto
  with len have "length src mod m = 0" by auto
  moreover obtain dst' where "naive_loop src m n [0..<length src * 8] dst = Inr dst'"
    and "length dst' = length dst"
    and "\<forall>r<n. \<forall>c<m. buf_bit dst' (c * n + r) =
       (if r * m + c \<in> set [0..<length src * 8] then buf_bit src (r * m + c) else buf_bit dst (c * n + r))"
    using naive_loop_ok [OF len, of "[0..<length src * 8]"] len(1) by (auto simp: subset_eq mult.commute)
  moreover have "r * m + c < length src * 8" if "r < n" "c < m" for r c
    using cell_less [OF that(2,1)] len(1) by simp
  ultimately show ?thesis
    using assms(3) len n
    by (auto simp: transpose_naive_inplace_def intro!: bit_transpose_unique)
qed

lemma unat_mult_div8:
  "unat nrows * unat ncols < 2 ^ 64 \<Longrightarrow> 8 * k = unat nrows * unat ncols \<Longrightarrow> unat (nrows * ncols div 8 :: u64) = k"
  by (simp add: unat_div unat_mult_small flip: mult.commute [of k])

lemma transpose_naive_correct:
  assumes "nrows mod 8 = 0" "ncols mod 8 = 0" "0 < ncols" "unat nrows * unat ncols < 2 ^ 64"
    "8 * length m = unat nrows * unat ncols"
  shows "transpose_naive m nrows ncols = Inr (bit_transpose (unat nrows) (unat ncols) m)"
proof -
  have "transpose_naive_inplace (replicate (length m) 0) m (unat ncols) =
      Inr (bit_transpose (unat nrows) (unat ncols) m)"
    by (rule transpose_naive_inplace_correct)
      (use assms in \<open>auto simp: word_mod_8 word_less_nat_alt\<close>)
  with assms show ?thesis
    by (simp add: transpose_naive_def unat_mult_div8 unat_mult_small mult.commute)
qed

section \<open>Both builds implement the interface\<close>

lemma transpose_x86_correct:
  assumes "nrows mod 8 = 0" "ncols mod 8 = 0" "16 \<le> nrows" "unat nrows mod 16 = 0 \<or> 16 \<le> unat ncols"
    "unat nrows * unat ncols < 2 ^ 64" "8 * length m = unat nrows * unat ncols"
  shows "transpose_x86 tmp0 m nrows ncols = Some (Inr (bit_transpose (unat nrows) (unat ncols) m))"
proof -
  have "dims nrows ncols m (replicate (length m) 0)" using assms by (simp add: dims_def)
  from sse_trans_filled [OF this, of tmp0] filled_transpose [OF this] assms show ?thesis
    by (auto simp: transpose_x86_def transpose_asserted_def unat_mult_div8 word_le_nat_alt)
qed

lemma matrix_ok_dims:
  assumes "matrix_ok nrows ncols m"
  shows "nrows mod 8 = 0" "ncols mod 8 = 0" "16 \<le> nrows" "unat nrows mod 16 = 0"
    "unat nrows * unat ncols < 2 ^ 64" "8 * length m = unat nrows * unat ncols" "0 < ncols"
proof -
  from assms have "unat nrows mod 8 = 0" by (auto simp: matrix_ok_def elim: dvd_trans [rotated])
  with assms show "nrows mod 8 = 0" "ncols mod 8 = 0" "unat nrows mod 16 = 0" "0 < ncols"
    "unat nrows * unat ncols < 2 ^ 64" "8 * length m = unat nrows * unat ncols"
    by (auto simp: matrix_ok_def word_mod_8)
  from assms have "0 < unat nrows" "unat nrows mod 16 = 0" by (auto simp: matrix_ok_def word_less_nat_alt)
  then have "16 \<le> unat nrows" by auto
  then show "16 \<le> nrows" by (simp add: word_le_nat_alt)
qed

interpretation x86: bit_transposer "transpose_x86 tmp0" for tmp0
  by unfold_locales (auto intro!: transpose_x86_correct dest: matrix_ok_dims)

interpretation portable: bit_transposer transpose_portable
  by unfold_locales
    (unfold transpose_portable_def, auto intro!: transpose_naive_correct dest: matrix_ok_dims)

section \<open>Correctness of the conversions\<close>

lemma buf_bit_or:
  assumes "i div 8 < length v"
  shows "buf_bit (v[i div 8 := v ! (i div 8) OR push_bit (i mod 8) (if b then 1 else 0)]) k =
    (buf_bit v k \<or> k = i \<and> b)"
proof (cases "k div 8 = i div 8")
  case True
  then have "k = i \<longleftrightarrow> k mod 8 = i mod 8" by (metis mult_div_mod_eq)
  with True assms show ?thesis
    by (auto simp: buf_bit_update buf_bit_def bit_simps)
next
  case False
  then show ?thesis using assms by (auto simp: buf_bit_update)
qed

lemma or_bits_ok:
  "\<forall>(i, b) \<in> set ibs. i < 8 * length v \<Longrightarrow>
   \<exists>v'. or_bits ibs v = Inr v' \<and> length v' = length v \<and>
     (\<forall>k. buf_bit v' k = (buf_bit v k \<or> (k, True) \<in> set ibs))"
proof (induction ibs arbitrary: v)
  case (Cons ib ibs)
  obtain i b where ib: "ib = (i, b)" by (cases ib)
  with Cons.prems have i: "i div 8 < length v" by auto
  let ?v = "v[i div 8 := v ! (i div 8) OR push_bit (i mod 8) (if b then 1 else 0)]"
  obtain v' where "or_bits ibs ?v = Inr v'" "length v' = length ?v"
    "\<forall>k. buf_bit v' k = (buf_bit ?v k \<or> (k, True) \<in> set ibs)"
    using Cons.IH [of ?v] Cons.prems by auto
  with i show ?case by (auto simp: ib buffer_simps buf_bit_or simp del: push_bit_of_1)
qed simp

lemma or_bits_pack:
  assumes "length bv \<le> 8 * n"
  shows "or_bits (zip [0..<length bv] bv) (replicate n 0) = Inr (pack n (\<lambda>k. k < length bv \<and> bv ! k))"
proof -
  have "\<forall>(i, b) \<in> set (zip [0..<length bv] bv). i < 8 * length (replicate n (0 :: u8))"
    using assms by (auto simp: set_zip)
  from or_bits_ok [OF this] obtain v where
    v: "or_bits (zip [0..<length bv] bv) (replicate n 0) = Inr v" "length v = n"
    and bits: "\<forall>k. buf_bit v k = (buf_bit (replicate n 0) k \<or> (k, True) \<in> set (zip [0..<length bv] bv))"
    by auto
  have "(k, True) \<in> set (zip [0..<length bv] bv) \<longleftrightarrow> k < length bv \<and> bv ! k" for k
    by (force simp: set_zip)
  then have "v = pack n (\<lambda>k. k < length bv \<and> bv ! k)"
    by (intro pack_eqI) (use v bits in \<open>simp_all add: buf_bit_def\<close>)
  with v show ?thesis by simp
qed

lemma boolvec_to_u8vec_pack:
  "boolvec_to_u8vec bv = Inr (pack ((length bv + 7) div 8) (\<lambda>k. k < length bv \<and> bv ! k))"
proof -
  have n: "length bv div 8 + (if length bv mod 8 = 0 then 0 else 1) = (length bv + 7) div 8"
    by presburger
  have "length bv \<le> 8 * ((length bv + 7) div 8)" by presburger
  then show ?thesis unfolding boolvec_to_u8vec_def Let_def n by (rule or_bits_pack)
qed

lemma u8vec_to_boolvec_bits: "u8vec_to_boolvec v = map (buf_bit v) [0..<8 * length v]"
proof (induction v rule: rev_induct)
  case (snoc b v)
  have "map (\<lambda>i. push_bit i 1 AND b \<noteq> 0) [0..<8] = map (bit b) [0..<8]"
    by (simp add: and.commute [of _ b] and_exp_eq_0_iff_not_bit)
  also have "\<dots> = map (buf_bit (v @ [b])) [8 * length v..<8 * length v + 8]"
    by (rule nth_equalityI) (simp_all add: buf_bit_def nth_append byte_pos)
  finally have "u8vec_to_boolvec (v @ [b]) =
      map (buf_bit v) [0..<8 * length v] @ map (buf_bit (v @ [b])) [8 * length v..<8 * length v + 8]"
    using snoc by (simp add: u8vec_to_boolvec_def)
  also have "map (buf_bit v) [0..<8 * length v] = map (buf_bit (v @ [b])) [0..<8 * length v]"
    by (auto simp: buf_bit_def nth_append)
  finally show ?case
    using upt_add_eq_append [of 0 "8 * length v" 8] by (simp add: add.commute)
qed (simp add: u8vec_to_boolvec_def)

section \<open>Properties\<close>

text \<open>
  C4. The x86-64 build and the portable build of \<open>transpose\<close> agree, on every matrix both accept
  with at least sixteen rows and sixteen columns (or a multiple of sixteen rows): the vectorised C
  routine and the bit-by-bit loop compute the same buffer.
\<close>

theorem transpose_builds_agree:
  assumes "nrows mod 8 = 0" "ncols mod 8 = 0" "16 \<le> nrows" "0 < ncols"
    and "unat nrows mod 16 = 0 \<or> 16 \<le> unat ncols"
    and "unat nrows * unat ncols < 2 ^ 64" "8 * length m = unat nrows * unat ncols"
  shows "transpose_x86 tmp0 m nrows ncols = transpose_portable m nrows ncols"
  using assms by (simp add: transpose_x86_correct transpose_naive_correct transpose_portable_def)

theorem transpose_builds_agree_witness:
  "transpose_x86 5 (replicate 72 7) 24 24 = transpose_portable (replicate 72 7) 24 24"
  by (rule transpose_builds_agree) simp_all

text \<open>
  Transposing twice gives the matrix back: \<open>transpose\<close> of the x86-64 build, applied with the
  dimensions swapped to its own result, returns its input.
\<close>

theorem transpose_round_trip:
  assumes "nrows mod 8 = 0" "ncols mod 8 = 0" "16 \<le> nrows" "16 \<le> ncols"
    and "unat nrows * unat ncols < 2 ^ 64" "8 * length m = unat nrows * unat ncols"
  shows "\<exists>m'. transpose_x86 tmp0 m nrows ncols = Some (Inr m') \<and>
    transpose_x86 tmp1 m' ncols nrows = Some (Inr m)"
proof -
  have "16 \<le> unat ncols" "16 \<le> unat nrows" using assms by (simp_all add: word_le_nat_alt)
  with assms show ?thesis
    by (simp add: transpose_x86_correct bit_transpose_involution mult.commute)
qed

theorem transpose_round_trip_witness:
  "\<exists>m'. transpose_x86 0 (replicate 80 9) 40 16 = Some (Inr m') \<and>
     transpose_x86 1 m' 16 40 = Some (Inr (replicate 80 9))"
  by (rule transpose_round_trip) simp_all

text \<open>
  C6. \<open>transpose\<close> of the x86-64 build never compares the length of its slice with the dimensions:
  on an empty slice, with dimensions that pass its two assertions on multiples of 8 (at least 16
  rows, a non-empty matrix), the C routine reads outside the slice.  The portable build of \<open>transpose\<close>
  stops at its assertion on the same call, and so does \<open>transpose_pre_allocated\<close> of the x86-64 build.
\<close>

theorem transpose_unchecked_length:
  assumes "nrows mod 8 = 0" "ncols mod 8 = 0" "16 \<le> nrows" "0 < ncols"
    and "0 < unat (nrows * ncols div 8)"
  shows "transpose_x86 tmp0 [] nrows ncols = Some (Inl OutOfBounds) \<and>
    transpose_portable [] nrows ncols = Some (Inl AssertFailed) \<and>
    transpose_pre_allocated_x86 tmp0 [] dst nrows ncols = Some (Inl AssertFailed)"
proof (intro conjI)
  let ?out = "replicate (unat (nrows * ncols div 8)) 0"
  have "block16 nrows ncols [] 0 0 ?out = Inl OutOfBounds"
    by (simp add: block16_def load8_def buffer_simps)
  then have "cols16 nrows ncols [] 0 0 ?out = Some (Inl OutOfBounds)"
    using assms(4) by (subst cols16.simps) simp
  then have "rows16 nrows ncols [] 0 ?out = Some (Inl OutOfBounds)"
    by (subst rows16.simps) simp
  then show "transpose_x86 tmp0 [] nrows ncols = Some (Inl OutOfBounds)"
    using assms by (simp add: transpose_x86_def transpose_asserted_def sse_trans_def)
  have "nrows * ncols \<noteq> 0" using assms(5) by auto
  then show "transpose_portable [] nrows ncols = Some (Inl AssertFailed)"
    using assms(1,2) by (simp add: transpose_portable_def transpose_naive_def unat_eq_0)
  show "transpose_pre_allocated_x86 tmp0 [] dst nrows ncols = Some (Inl AssertFailed)"
    using assms(5) by (simp add: transpose_pre_allocated_x86_def)
qed

theorem transpose_unchecked_length_witness:
  "transpose_x86 0 [] 16 8 = Some (Inl OutOfBounds) \<and>
   transpose_portable [] 16 8 = Some (Inl AssertFailed) \<and>
   transpose_pre_allocated_x86 0 [] [] 16 8 = Some (Inl AssertFailed)"
  using transpose_unchecked_length [of 16 8] by simp

text \<open>
  Packing a bit vector never faults, and unpacking the bytes gives the bits back, followed by
  the padding up to a whole number of bytes; unpacking bytes and packing them again is the identity.
\<close>

theorem boolvec_u8vec_round_trip:
  "(\<exists>v. boolvec_to_u8vec bv = Inr v \<and>
      u8vec_to_boolvec v = bv @ replicate (8 * ((length bv + 7) div 8) - length bv) False) \<and>
   boolvec_to_u8vec (u8vec_to_boolvec w) = Inr w"
proof
  let ?n = "(length bv + 7) div 8"
  have le: "length bv \<le> 8 * ?n" by presburger
  have "u8vec_to_boolvec (pack ?n (\<lambda>k. k < length bv \<and> bv ! k)) =
      bv @ replicate (8 * ?n - length bv) False"
    by (rule nth_equalityI) (use le in \<open>auto simp: u8vec_to_boolvec_bits nth_append\<close>)
  then show "\<exists>v. boolvec_to_u8vec bv = Inr v \<and>
     u8vec_to_boolvec v = bv @ replicate (8 * ?n - length bv) False"
    by (simp add: boolvec_to_u8vec_pack)
  have "w = pack (length w) (\<lambda>k. k < 8 * length w \<and> u8vec_to_boolvec w ! k)"
    by (intro pack_eqI) (auto simp: u8vec_to_boolvec_bits)
  then show "boolvec_to_u8vec (u8vec_to_boolvec w) = Inr w"
    by (simp add: boolvec_to_u8vec_pack u8vec_to_boolvec_bits)
qed

end
