(* ===== verification/Ot_Alsz.thy ===== *)
theory Ot_Alsz
  imports Ocelot_Utils
begin

text \<open>
  The oblivious-transfer extension of \<^verbatim>\<open>ocelot/src/ot/alsz.rs\<close>: both parties of the protocol with
  their state, the set-up that masks a bit matrix row by row and transposes it, and the
  chosen-message, correlated and random transfers.  A channel direction is the stream of its
  bytes.  The generator \<open>AesRng\<close> (\<open>fill_bytes\<close>), the hash \<open>AesHash::cr_hash\<close> and the base transfer
  are parameters; the transpose is any routine with the interface \<open>bit_transposer\<close>.
\<close>

section \<open>Channels, slices, masks\<close>

text \<open>\<open>read_bytes\<close> of a stream that ends too early is an I/O error, on which the callers \<open>unwrap\<close>.\<close>

definition read_bytes :: "nat \<Rightarrow> bytes \<Rightarrow> (bytes \<times> bytes) run" where
  "read_bytes n ch = (if n \<le> length ch then Inr (take n ch, drop n ch) else Inl Panic)"

text \<open>\<open>&xs[a..b]\<close>, and storing \<open>ys\<close> into that slice.\<close>

definition slice_at :: "bytes \<Rightarrow> nat \<Rightarrow> nat \<Rightarrow> bytes run" where
  "slice_at xs a b = (if a \<le> b \<and> b \<le> length xs then Inr (take (b - a) (drop a xs)) else Inl OutOfBounds)"

definition splice_at :: "bytes \<Rightarrow> nat \<Rightarrow> bytes \<Rightarrow> bytes" where
  "splice_at xs a ys = take a xs @ ys @ drop (a + length ys) xs"

definition xor_inplace :: "bytes \<Rightarrow> bytes \<Rightarrow> bytes" where
  "xor_inplace a b = map2 (XOR) a b @ drop (length b) a"

text \<open>A transpose that does not end is the value \<open>None\<close>.\<close>

definition bind_tr :: "'a run option \<Rightarrow> ('a \<Rightarrow> 'b run) \<Rightarrow> 'b run option" where
  "bind_tr m f = (case m of None \<Rightarrow> None | Some r \<Rightarrow> Some (bind_run r f))"

lemma bind_tr_simps [simp]:
  "bind_tr (Some r) f = Some (bind_run r f)" "bind_tr None f = None"
  by (simp_all add: bind_tr_def)

section \<open>The parties\<close>

text \<open>\<open>'r\<close> is the state of an \<open>AesRng\<close>; \<open>fill rng n\<close> the \<open>n\<close> bytes of \<open>fill_bytes\<close> and the next state.\<close>

record 'r alsz_sender =
  s_bits :: "bool list"
  s_block :: bytes
  s_rngs :: "'r list"

record 'r alsz_receiver =
  r_rngs :: "('r \<times> 'r) list"

definition init_fixed_key :: "(bytes \<Rightarrow> 'r) \<Rightarrow> bytes \<Rightarrow> bytes list \<Rightarrow> 'r alsz_sender" where
  "init_fixed_key from_seed sb ks =
     \<lparr>s_bits = u8vec_to_boolvec sb, s_block = sb, s_rngs = map from_seed ks\<rparr>"

definition init_receiver :: "(bytes \<Rightarrow> 'r) \<Rightarrow> (bytes \<times> bytes) list \<Rightarrow> 'r alsz_receiver" where
  "init_receiver from_seed ks = \<lparr>r_rngs = map (\<lambda>(k0, k1). (from_seed k0, from_seed k1)) ks\<rparr>"

text \<open>
  Both initialisations with the base transfer between them: the extension's sender receives with the bits of
  \<open>s_\<close>, the extension's receiver sends its 128 pairs of seeds.
\<close>

definition alsz_init ::
    "((bytes \<times> bytes) list \<Rightarrow> bool list \<Rightarrow> bytes list) \<Rightarrow> (bytes \<Rightarrow> 'r) \<Rightarrow> bytes \<Rightarrow> (bytes \<times> bytes) list \<Rightarrow>
     'r alsz_sender \<times> 'r alsz_receiver" where
  "alsz_init base_ot from_seed sb ks =
     (init_fixed_key from_seed sb (base_ot ks (u8vec_to_boolvec sb)), init_receiver from_seed ks)"

section \<open>The set-up\<close>

definition round_up :: "nat \<Rightarrow> nat" where
  "round_up m = (if m mod 8 \<noteq> 0 then m + (8 - m mod 8) else m)"

fun send_rows ::
    "('r \<Rightarrow> nat \<Rightarrow> bytes \<times> 'r) \<Rightarrow> nat \<Rightarrow> nat \<Rightarrow> (bool \<times> 'r) list \<Rightarrow> bytes \<Rightarrow> bytes \<Rightarrow>
     ('r list \<times> bytes \<times> bytes) run" where
  "send_rows fill ncols j [] ch qs = Inr ([], ch, qs)"
| "send_rows fill ncols j ((b, rng) # rest) ch qs =
     bind_run (slice_at qs (j * ncols div 8) ((j + 1) * ncols div 8)) (\<lambda>q.
     bind_run (read_bytes (ncols div 8) ch) (\<lambda>(u, ch).
       let (q, rng') = fill rng (length q);
           q = xor_inplace q (if b then u else replicate (ncols div 8) 0)
       in bind_run (send_rows fill ncols (j + 1) rest ch (splice_at qs (j * ncols div 8) q))
            (\<lambda>(rngs, ch, qs). Inr (rng' # rngs, ch, qs))))"

definition send_setup ::
    "(bytes \<Rightarrow> u64 \<Rightarrow> u64 \<Rightarrow> bytes run option) \<Rightarrow> ('r \<Rightarrow> nat \<Rightarrow> bytes \<times> 'r) \<Rightarrow> 'r alsz_sender \<Rightarrow> bytes \<Rightarrow> nat \<Rightarrow>
     ('r alsz_sender \<times> bytes \<times> bytes) run option" where
  "send_setup tr fill S ch m =
     (let nrows = 128; ncols = round_up m
      in case send_rows fill ncols 0 (zip (s_bits S) (s_rngs S)) ch (replicate (nrows * ncols div 8) 0) of
           Inl e \<Rightarrow> Some (Inl e)
         | Inr (rngs, ch, qs) \<Rightarrow>
             bind_tr (tr qs (of_nat nrows) (of_nat ncols)) (\<lambda>qs. Inr (S\<lparr>s_rngs := rngs\<rparr>, ch, qs)))"

fun receive_rows ::
    "('r \<Rightarrow> nat \<Rightarrow> bytes \<times> 'r) \<Rightarrow> bytes \<Rightarrow> nat \<Rightarrow> nat \<Rightarrow> ('r \<times> 'r) list \<Rightarrow> bytes \<Rightarrow>
     (('r \<times> 'r) list \<times> bytes \<times> bytes) run" where
  "receive_rows fill r ncols j [] ts = Inr ([], [], ts)"
| "receive_rows fill r ncols j ((rng0, rng1) # rest) ts =
     bind_run (slice_at ts (j * ncols div 8) ((j + 1) * ncols div 8)) (\<lambda>t.
       let (t, rng0') = fill rng0 (length t);
           (g, rng1') = fill rng1 (ncols div 8);
           g = xor_inplace (xor_inplace g t) r
       in bind_run (receive_rows fill r ncols (j + 1) rest (splice_at ts (j * ncols div 8) t))
            (\<lambda>(rngs, out, ts). Inr ((rng0', rng1') # rngs, g @ out, ts)))"

text \<open>The result is the new state, the bytes written to the channel and the transposed matrix.\<close>

definition receive_setup ::
    "(bytes \<Rightarrow> u64 \<Rightarrow> u64 \<Rightarrow> bytes run option) \<Rightarrow> ('r \<Rightarrow> nat \<Rightarrow> bytes \<times> 'r) \<Rightarrow> 'r alsz_receiver \<Rightarrow> bytes \<Rightarrow> nat \<Rightarrow>
     ('r alsz_receiver \<times> bytes \<times> bytes) run option" where
  "receive_setup tr fill R r m =
     (let nrows = 128; ncols = round_up m
      in case receive_rows fill r ncols 0 (r_rngs R) (replicate (nrows * ncols div 8) 0) of
           Inl e \<Rightarrow> Some (Inl e)
         | Inr (rngs, out, ts) \<Rightarrow>
             bind_tr (tr ts (of_nat nrows) (of_nat ncols)) (\<lambda>ts. Inr (R\<lparr>r_rngs := rngs\<rparr>, out, ts)))"

section \<open>The transfers\<close>

text \<open>
  \<open>send\<close> writes two masked blocks for each pair; \<open>hash j q\<close> is \<open>cr_hash (Block::from (j), q)\<close>.
\<close>

fun send_blocks :: "(nat \<Rightarrow> bytes \<Rightarrow> bytes) \<Rightarrow> bytes \<Rightarrow> bytes \<Rightarrow> nat \<Rightarrow> (bytes \<times> bytes) list \<Rightarrow> bytes run" where
  "send_blocks hash sb qs j [] = Inr []"
| "send_blocks hash sb qs j ((m0, m1) # inputs) =
     bind_run (slice_at qs (j * 16) ((j + 1) * 16)) (\<lambda>q.
       let y0 = xor_block (hash j q) m0;
           y1 = xor_block (hash j (xor_block q sb)) m1
       in bind_run (send_blocks hash sb qs (j + 1) inputs) (\<lambda>out. Inr (y0 @ y1 @ out)))"

definition alsz_send ::
    "(bytes \<Rightarrow> u64 \<Rightarrow> u64 \<Rightarrow> bytes run option) \<Rightarrow> ('r \<Rightarrow> nat \<Rightarrow> bytes \<times> 'r) \<Rightarrow> (nat \<Rightarrow> bytes \<Rightarrow> bytes) \<Rightarrow>
     'r alsz_sender \<Rightarrow> bytes \<Rightarrow> (bytes \<times> bytes) list \<Rightarrow> ('r alsz_sender \<times> bytes) run option" where
  "alsz_send tr fill hash S ch inputs =
     bind_tr (send_setup tr fill S ch (length inputs)) (\<lambda>(S, ch, qs).
     bind_run (send_blocks hash (s_block S) qs 0 inputs) (\<lambda>out. Inr (S, out)))"

fun receive_blocks :: "(nat \<Rightarrow> bytes \<Rightarrow> bytes) \<Rightarrow> bytes \<Rightarrow> nat \<Rightarrow> bool list \<Rightarrow> bytes \<Rightarrow> bytes list run" where
  "receive_blocks hash ts j [] ch = Inr []"
| "receive_blocks hash ts j (b # inputs) ch =
     bind_run (slice_at ts (j * 16) ((j + 1) * 16)) (\<lambda>t.
     bind_run (read_bytes 16 ch) (\<lambda>(y0, ch).
     bind_run (read_bytes 16 ch) (\<lambda>(y1, ch).
       let y = xor_block (if b then y1 else y0) (hash j t)
       in bind_run (receive_blocks hash ts (j + 1) inputs ch) (\<lambda>out. Inr (y # out)))))"

text \<open>
  \<open>receive\<close> writes its masked rows before it reads anything, so it is split there: \<open>receive_start\<close>
  up to the flush of \<open>receive_setup\<close>, \<open>receive_blocks\<close> for the rest.
\<close>

definition receive_start ::
    "(bytes \<Rightarrow> u64 \<Rightarrow> u64 \<Rightarrow> bytes run option) \<Rightarrow> ('r \<Rightarrow> nat \<Rightarrow> bytes \<times> 'r) \<Rightarrow> 'r alsz_receiver \<Rightarrow> bool list \<Rightarrow>
     ('r alsz_receiver \<times> bytes \<times> bytes) run option" where
  "receive_start tr fill R inputs =
     (case boolvec_to_u8vec inputs of
        Inl e \<Rightarrow> Some (Inl e)
      | Inr r \<Rightarrow> receive_setup tr fill R r (length inputs))"

text \<open>One chosen-message transfer: the new states and the blocks that the receiver gets.\<close>

definition alsz_transfer ::
    "(bytes \<Rightarrow> u64 \<Rightarrow> u64 \<Rightarrow> bytes run option) \<Rightarrow> ('r \<Rightarrow> nat \<Rightarrow> bytes \<times> 'r) \<Rightarrow> (nat \<Rightarrow> bytes \<Rightarrow> bytes) \<Rightarrow>
     'r alsz_sender \<Rightarrow> 'r alsz_receiver \<Rightarrow> (bytes \<times> bytes) list \<Rightarrow> bool list \<Rightarrow>
     ('r alsz_sender \<times> 'r alsz_receiver \<times> bytes list) run option" where
  "alsz_transfer tr fill hash S R inputs bs =
     (case receive_start tr fill R bs of
        None \<Rightarrow> None
      | Some (Inl e) \<Rightarrow> Some (Inl e)
      | Some (Inr (R, u, ts)) \<Rightarrow>
          bind_tr (alsz_send tr fill hash S u inputs) (\<lambda>(S, ys).
          bind_run (receive_blocks hash ts 0 bs ys) (\<lambda>out. Inr (S, R, out))))"

text \<open>The correlated transfer sends one block for each index, the random transfer none.\<close>

fun correlated_blocks ::
    "(nat \<Rightarrow> bytes \<Rightarrow> bytes) \<Rightarrow> bytes \<Rightarrow> bytes \<Rightarrow> bytes \<Rightarrow> nat \<Rightarrow> nat \<Rightarrow> (bytes list \<times> bytes) run" where
  "correlated_blocks hash sb delta qs j 0 = Inr ([], [])"
| "correlated_blocks hash sb delta qs j (Suc n) =
     bind_run (slice_at qs (j * 16) ((j + 1) * 16)) (\<lambda>q.
       let x0 = hash j q;
           x1 = xor_block x0 delta;
           y = xor_block (hash j (xor_block q sb)) x1
       in bind_run (correlated_blocks hash sb delta qs (j + 1) n) (\<lambda>(out, ys). Inr (x0 # out, y @ ys)))"

fun receive_correlated_blocks :: "(nat \<Rightarrow> bytes \<Rightarrow> bytes) \<Rightarrow> bytes \<Rightarrow> nat \<Rightarrow> bool list \<Rightarrow> bytes \<Rightarrow> bytes list run" where
  "receive_correlated_blocks hash ts j [] ch = Inr []"
| "receive_correlated_blocks hash ts j (b # inputs) ch =
     bind_run (slice_at ts (j * 16) ((j + 1) * 16)) (\<lambda>t.
     bind_run (read_bytes 16 ch) (\<lambda>(y, ch).
       let y = (if b then y else replicate 16 0); h = hash j t
       in bind_run (receive_correlated_blocks hash ts (j + 1) inputs ch) (\<lambda>out. Inr (xor_block y h # out))))"

fun random_blocks :: "(nat \<Rightarrow> bytes \<Rightarrow> bytes) \<Rightarrow> bytes \<Rightarrow> bytes \<Rightarrow> nat \<Rightarrow> nat \<Rightarrow> (bytes \<times> bytes) list run" where
  "random_blocks hash sb qs j 0 = Inr []"
| "random_blocks hash sb qs j (Suc n) =
     bind_run (slice_at qs (j * 16) ((j + 1) * 16)) (\<lambda>q.
     bind_run (random_blocks hash sb qs (j + 1) n) (\<lambda>out.
       Inr ((hash j q, hash j (xor_block q sb)) # out)))"

fun receive_random_blocks :: "(nat \<Rightarrow> bytes \<Rightarrow> bytes) \<Rightarrow> bytes \<Rightarrow> nat \<Rightarrow> nat \<Rightarrow> bytes list run" where
  "receive_random_blocks hash ts j 0 = Inr []"
| "receive_random_blocks hash ts j (Suc n) =
     bind_run (slice_at ts (j * 16) ((j + 1) * 16)) (\<lambda>t.
     bind_run (receive_random_blocks hash ts (j + 1) n) (\<lambda>out. Inr (hash j t # out)))"

definition alsz_correlated ::
    "(bytes \<Rightarrow> u64 \<Rightarrow> u64 \<Rightarrow> bytes run option) \<Rightarrow> ('r \<Rightarrow> nat \<Rightarrow> bytes \<times> 'r) \<Rightarrow> (nat \<Rightarrow> bytes \<Rightarrow> bytes) \<Rightarrow>
     'r alsz_sender \<Rightarrow> 'r alsz_receiver \<Rightarrow> bytes \<Rightarrow> bool list \<Rightarrow> (bytes list \<times> bytes list) run option" where
  "alsz_correlated tr fill hash S R delta bs =
     (case receive_start tr fill R bs of
        None \<Rightarrow> None
      | Some (Inl e) \<Rightarrow> Some (Inl e)
      | Some (Inr (R, u, ts)) \<Rightarrow>
          bind_tr (send_setup tr fill S u (length bs)) (\<lambda>(S, ch, qs).
          bind_run (correlated_blocks hash (s_block S) delta qs 0 (length bs)) (\<lambda>(xs, ys).
          bind_run (receive_correlated_blocks hash ts 0 bs ys) (\<lambda>out. Inr (xs, out)))))"

definition alsz_random ::
    "(bytes \<Rightarrow> u64 \<Rightarrow> u64 \<Rightarrow> bytes run option) \<Rightarrow> ('r \<Rightarrow> nat \<Rightarrow> bytes \<times> 'r) \<Rightarrow> (nat \<Rightarrow> bytes \<Rightarrow> bytes) \<Rightarrow>
     'r alsz_sender \<Rightarrow> 'r alsz_receiver \<Rightarrow> bool list \<Rightarrow> ((bytes \<times> bytes) list \<times> bytes list) run option" where
  "alsz_random tr fill hash S R bs =
     (case receive_start tr fill R bs of
        None \<Rightarrow> None
      | Some (Inl e) \<Rightarrow> Some (Inl e)
      | Some (Inr (R, u, ts)) \<Rightarrow>
          bind_tr (send_setup tr fill S u (length bs)) (\<lambda>(S, ch, qs).
          bind_run (random_blocks hash (s_block S) qs 0 (length bs)) (\<lambda>xs.
          bind_run (receive_random_blocks hash ts 0 (length bs)) (\<lambda>out. Inr (xs, out)))))"

section \<open>Masks\<close>

lemma length_xor_block [simp]: "length (xor_block a b) = min (length a) (length b)"
  by (simp add: xor_block_def)

lemma xor_inplace_block: "length a = length b \<Longrightarrow> xor_inplace a b = xor_block a b"
  by (simp add: xor_inplace_def xor_block_def)

lemma xor_block_nth: "i < length a \<Longrightarrow> i < length b \<Longrightarrow> xor_block a b ! i = a ! i XOR b ! i"
  by (simp add: xor_block_def)

lemma buf_bit_xor_block:
  "length a = length b \<Longrightarrow> k < 8 * length a \<Longrightarrow> buf_bit (xor_block a b) k = (buf_bit a k \<noteq> buf_bit b k)"
  by (simp add: buf_bit_def xor_block_nth bit_xor_iff less_mult_imp_div_less mult.commute)

lemma xor_block_cancel:
  "length a = length b \<Longrightarrow> xor_block (xor_block a b) a = b"
  "length a = length b \<Longrightarrow> xor_block (xor_block a b) b = a"
  "length a = length b \<Longrightarrow> xor_block a (xor_block a b) = b"
  by (auto intro!: nth_equalityI byte_eqI simp: xor_block_nth bit_xor_iff)

lemma xor_block_commute: "xor_block a b = xor_block b a"
  by (simp add: xor_block_def zip_commute [of b a] xor.commute split_beta)

lemma xor_block_zero: "length a = n \<Longrightarrow> xor_block a (replicate n 0) = a"
  by (auto intro!: nth_equalityI simp: xor_block_nth)

lemma xor_block_mask:
  "length g = w \<Longrightarrow> length t = w \<Longrightarrow> length r = w \<Longrightarrow>
   xor_block g (xor_block (xor_block g t) r) = xor_block t r"
  by (auto intro!: nth_equalityI byte_eqI simp: xor_block_nth bit_xor_iff)

section \<open>The rows of the two matrices\<close>

text \<open>What the code relies on of the parameters: lengths only.\<close>

definition fills :: "('r \<Rightarrow> nat \<Rightarrow> bytes \<times> 'r) \<Rightarrow> bool" where
  "fills fill = (\<forall>rng n. length (fst (fill rng n)) = n)"

definition hashes :: "(nat \<Rightarrow> bytes \<Rightarrow> bytes) \<Rightarrow> bool" where
  "hashes hash = (\<forall>j q. length q = 16 \<longrightarrow> length (hash j q) = 16)"

definition pick :: "bool \<Rightarrow> 'a \<times> 'a \<Rightarrow> 'a" where
  "pick b x = (if b then snd x else fst x)"

definition advance :: "('r \<Rightarrow> nat \<Rightarrow> bytes \<times> 'r) \<Rightarrow> nat \<Rightarrow> 'r \<times> 'r \<Rightarrow> 'r \<times> 'r" where
  "advance fill w x = (snd (fill (fst x) w), snd (fill (snd x) w))"

definition row_t :: "('r \<Rightarrow> nat \<Rightarrow> bytes \<times> 'r) \<Rightarrow> nat \<Rightarrow> 'r \<times> 'r \<Rightarrow> bytes" where
  "row_t fill w x = fst (fill (fst x) w)"

definition row_u :: "('r \<Rightarrow> nat \<Rightarrow> bytes \<times> 'r) \<Rightarrow> nat \<Rightarrow> bytes \<Rightarrow> 'r \<times> 'r \<Rightarrow> bytes" where
  "row_u fill w r x = xor_block (xor_block (fst (fill (snd x) w)) (row_t fill w x)) r"

definition row_q :: "('r \<Rightarrow> nat \<Rightarrow> bytes \<times> 'r) \<Rightarrow> nat \<Rightarrow> bytes \<Rightarrow> bool \<Rightarrow> 'r \<times> 'r \<Rightarrow> bytes" where
  "row_q fill w r b x = (if b then xor_block (row_t fill w x) r else row_t fill w x)"

lemma row_lengths:
  assumes "fills fill"
  shows "length (row_t fill w x) = w"
    and "length r = w \<Longrightarrow> length (row_u fill w r x) = w"
    and "length r = w \<Longrightarrow> length (row_q fill w r b x) = w"
  using assms by (simp_all add: fills_def row_t_def row_u_def row_q_def)

lemma slice_row:
  assumes "length pre = j * w" and "w \<le> length post"
  shows "slice_at (pre @ post) (j * (8 * w) div 8) ((j + 1) * (8 * w) div 8) = Inr (take w post)"
proof -
  have "j * (8 * w) div 8 = j * w" and "(j + 1) * (8 * w) div 8 = j * w + w" by simp_all
  with assms show ?thesis by (simp add: slice_at_def)
qed

lemma splice_row:
  assumes "length pre = j * w" and "length t = w"
  shows "splice_at (pre @ post) (j * (8 * w) div 8) t = (pre @ t) @ drop w post"
proof -
  have "j * (8 * w) div 8 = j * w" by simp
  with assms show ?thesis by (simp add: splice_at_def)
qed

lemma receive_rows_value:
  assumes "fills fill" and "length r = w"
  shows "length pre = j * w \<Longrightarrow> length xs * w \<le> length post \<Longrightarrow>
    receive_rows fill r (8 * w) j xs (pre @ post) =
      Inr (map (advance fill w) xs, concat (map (row_u fill w r) xs),
           pre @ concat (map (row_t fill w) xs) @ drop (length xs * w) post)"
proof (induction xs arbitrary: j pre post)
  case (Cons x xs)
  obtain r0 r1 where x: "x = (r0, r1)" by (cases x)
  have len: "length (fst (fill r0 w)) = w" "length (fst (fill r1 w)) = w"
    using assms(1) by (simp_all add: fills_def)
  have post: "w \<le> length post" and rest: "length xs * w \<le> length (drop w post)"
    using Cons.prems(2) by simp_all
  have "receive_rows fill r (8 * w) (j + 1) xs ((pre @ fst (fill r0 w)) @ drop w post) =
      Inr (map (advance fill w) xs, concat (map (row_u fill w r) xs),
        (pre @ fst (fill r0 w)) @ concat (map (row_t fill w) xs) @ drop (length xs * w) (drop w post))"
    using Cons.prems(1) len rest by (intro Cons.IH) simp_all
  moreover have "row_t fill w x = fst (fill r0 w)"
    and "row_u fill w r x = xor_block (xor_block (fst (fill r1 w)) (fst (fill r0 w))) r"
    by (simp_all add: x row_t_def row_u_def)
  ultimately show ?case
    using post Cons.prems(1) len assms(2) slice_row [OF Cons.prems(1) post]
      splice_row [OF Cons.prems(1) len(1), of post]
    by (simp add: x Let_def split_beta xor_inplace_block advance_def add.commute)
qed simp

lemma send_rows_value:
  assumes "fills fill" and "length r = w"
  shows "length bs = length xs \<Longrightarrow> length pre = j * w \<Longrightarrow> length xs * w \<le> length post \<Longrightarrow>
    send_rows fill (8 * w) j (zip bs (map2 pick bs xs)) (concat (map (row_u fill w r) xs)) (pre @ post) =
      Inr (map2 pick bs (map (advance fill w) xs), [],
           pre @ concat (map2 (row_q fill w r) bs xs) @ drop (length xs * w) post)"
proof (induction bs xs arbitrary: j pre post rule: list_induct2)
  case (Cons b bs x xs)
  obtain g rng where fill: "fill (pick b x) w = (g, rng)" by (cases "fill (pick b x) w")
  let ?q = "row_q fill w r b x"
  note len = row_lengths [OF assms(1)]
  have g: "length g = w" using assms(1) fill by (metis fills_def fst_conv)
  have rng: "rng = pick b (advance fill w x)"
    using fill by (simp add: pick_def advance_def split: if_splits)
  have "g = (if b then fst (fill (snd x) w) else row_t fill w x)"
    using fill by (simp add: pick_def row_t_def split: if_splits)
  then have q: "xor_inplace g (if b then row_u fill w r x else replicate (8 * w div 8) 0) = ?q"
    using g assms(2) len(1) [of w x] len(2) [of r w x]
    by (cases b) (simp_all add: xor_inplace_block xor_block_zero row_q_def row_u_def xor_block_mask)
  have post: "w \<le> length post" and rest: "length xs * w \<le> length (drop w post)"
    using Cons.prems(2) by simp_all
  have u: "read_bytes w (row_u fill w r x @ concat (map (row_u fill w r) xs)) =
      Inr (row_u fill w r x, concat (map (row_u fill w r) xs))"
    using len(2) [OF assms(2)] by (simp add: read_bytes_def)
  have "send_rows fill (8 * w) (j + 1) (zip bs (map2 pick bs xs)) (concat (map (row_u fill w r) xs))
        ((pre @ ?q) @ drop w post) =
      Inr (map2 pick bs (map (advance fill w) xs), [],
        (pre @ ?q) @ concat (map2 (row_q fill w r) bs xs) @ drop (length xs * w) (drop w post))"
    using Cons.prems(1) len(3) [OF assms(2)] rest by (intro Cons.IH) simp_all
  then show ?case
    using post slice_row [OF Cons.prems(1) post] u q
      splice_row [OF Cons.prems(1) len(3) [OF assms(2), of b x], of post]
    by (simp add: Let_def fill add.commute rng split del: if_split)
qed simp

section \<open>The columns of the two matrices\<close>

lemma concat_nth:
  "\<forall>row\<in>set rows. length row = w \<Longrightarrow> j < length rows \<Longrightarrow> i < w \<Longrightarrow> concat rows ! (j * w + i) = rows ! j ! i"
proof (induction rows arbitrary: j)
  case (Cons row rows)
  then show ?case by (cases j) (simp_all add: nth_append add.assoc)
qed simp

lemma concat_bit:
  assumes "\<forall>row\<in>set rows. length row = w" and "j < length rows" and "k < 8 * w"
  shows "buf_bit (concat rows) (j * (8 * w) + k) = buf_bit (rows ! j) k"
proof -
  have e: "j * (8 * w) + k = 8 * (j * w) + k" by simp
  have "(j * (8 * w) + k) div 8 = j * w + k div 8" and "(j * (8 * w) + k) mod 8 = k mod 8"
    unfolding e by simp_all
  moreover have "k div 8 < w" using assms(3) by linarith
  ultimately show ?thesis using concat_nth [OF assms(1,2)] by (simp add: buf_bit_def)
qed

lemma length_concat_rows: "\<forall>row\<in>set rows. length row = w \<Longrightarrow> length (concat rows) = length rows * w"
  by (induction rows) simp_all

lemma round_up_eq: "round_up m = 8 * ((m + 7) div 8)"
proof -
  have "(m + 7) div 8 = m div 8 + (if m mod 8 = 0 then 0 else 1)" by presburger
  moreover have "8 * (m div 8) + m mod 8 = m" and "m mod 8 < 8" by simp_all
  then have "m + (8 - m mod 8) = 8 * (m div 8) + 8" by linarith
  ultimately show ?thesis by (auto simp: round_up_def)
qed

text \<open>
  The relation of the two matrices after the set-up: line \<open>i\<close> of the sender's is line \<open>i\<close> of the
  receiver's, with the sender's block added where the choice bit is set.
\<close>

fun columns_ok :: "bytes \<Rightarrow> bytes \<Rightarrow> bytes \<Rightarrow> nat \<Rightarrow> bool list \<Rightarrow> bool" where
  "columns_ok sb ts qs j [] = True"
| "columns_ok sb ts qs j (b # bs) =
     ((\<exists>t. length t = 16 \<and> slice_at ts (j * 16) ((j + 1) * 16) = Inr t \<and>
        slice_at qs (j * 16) ((j + 1) * 16) = Inr (if b then xor_block t sb else t)) \<and>
      columns_ok sb ts qs (j + 1) bs)"

lemma columns_okI:
  assumes "length ts = length qs" and "16 * (j + length bs) \<le> length ts" and "length sb = 16"
    and "\<And>i r. i < length bs \<Longrightarrow> r < 128 \<Longrightarrow>
      buf_bit (take 16 (drop ((j + i) * 16) qs)) r = (buf_bit (take 16 (drop ((j + i) * 16) ts)) r \<noteq> (bs ! i \<and> buf_bit sb r))"
  shows "columns_ok sb ts qs j bs"
  using assms(2,4)
proof (induction bs arbitrary: j)
  case (Cons b bs)
  let ?t = "take 16 (drop (j * 16) ts)" and ?q = "take 16 (drop (j * 16) qs)"
  have len: "length ?t = 16" "length ?q = 16" using Cons.prems(1) assms(1) by simp_all
  have "?q = (if b then xor_block ?t sb else ?t)"
    using len assms(3) Cons.prems(2) [of 0]
    by (intro buf_eqI) (auto simp: buf_bit_xor_block)
  moreover have "columns_ok sb ts qs (j + 1) bs"
  proof (rule Cons.IH)
    show "16 * (j + 1 + length bs) \<le> length ts" using Cons.prems(1) by simp
    show "buf_bit (take 16 (drop ((j + 1 + i) * 16) qs)) r =
        (buf_bit (take 16 (drop ((j + 1 + i) * 16) ts)) r \<noteq> (bs ! i \<and> buf_bit sb r))"
      if "i < length bs" "r < 128" for i r
      using Cons.prems(2) [of "Suc i" r] that by (simp add: algebra_simps)
  qed
  moreover have "slice_at ts (j * 16) ((j + 1) * 16) = Inr ?t" "slice_at qs (j * 16) ((j + 1) * 16) = Inr ?q"
    using Cons.prems(1) assms(1) by (simp_all add: slice_at_def)
  ultimately show ?case using len by auto
qed simp

text \<open>Two parties in the same session: the sender holds, for each bit of its block, the generator that the bit picks.\<close>

definition in_sync :: "'r alsz_sender \<Rightarrow> 'r alsz_receiver \<Rightarrow> bool" where
  "in_sync S R = (length (s_block S) = 16 \<and> s_bits S = u8vec_to_boolvec (s_block S) \<and>
     length (r_rngs R) = 128 \<and> s_rngs S = map2 pick (s_bits S) (r_rngs R))"

lemma in_sync_bits:
  assumes "in_sync S R"
  shows "length (s_bits S) = 128" and "r < 128 \<Longrightarrow> s_bits S ! r = buf_bit (s_block S) r"
  using assms by (simp_all add: in_sync_def u8vec_to_boolvec_bits)

lemma setup_rows:
  assumes "fills fill" and "in_sync S R" and "length r = w"
  defines "xs \<equiv> r_rngs R"
  shows "receive_rows fill r (8 * w) 0 xs (replicate (128 * (8 * w) div 8) 0) =
      Inr (map (advance fill w) xs, concat (map (row_u fill w r) xs), concat (map (row_t fill w) xs))"
    and "send_rows fill (8 * w) 0 (zip (s_bits S) (s_rngs S)) (concat (map (row_u fill w r) xs))
        (replicate (128 * (8 * w) div 8) 0) =
      Inr (map2 pick (s_bits S) (map (advance fill w) xs), [], concat (map2 (row_q fill w r) (s_bits S) xs))"
proof -
  have len: "length xs = 128" "length (s_bits S) = length xs" "s_rngs S = map2 pick (s_bits S) xs"
    using assms in_sync_bits [of S R] by (simp_all add: in_sync_def)
  have z: "128 * (8 * w) div 8 = 128 * w" by simp
  show "receive_rows fill r (8 * w) 0 xs (replicate (128 * (8 * w) div 8) 0) =
      Inr (map (advance fill w) xs, concat (map (row_u fill w r) xs), concat (map (row_t fill w) xs))"
    using receive_rows_value [OF assms(1,3), of "[]" 0 xs "replicate (128 * w) 0"] len z by simp
  show "send_rows fill (8 * w) 0 (zip (s_bits S) (s_rngs S)) (concat (map (row_u fill w r) xs))
        (replicate (128 * (8 * w) div 8) 0) =
      Inr (map2 pick (s_bits S) (map (advance fill w) xs), [], concat (map2 (row_q fill w r) (s_bits S) xs))"
    using send_rows_value [OF assms(1,3), of "s_bits S" xs "[]" 0 "replicate (128 * w) 0"] len z by simp
qed

lemma ot_matrix_ok:
  assumes "\<forall>row\<in>set rows. length row = w" and "length rows = 128" and "0 < w" and "1024 * w < 2 ^ 64"
  shows "matrix_ok 128 (word_of_nat (8 * w)) (concat rows)" and "unat (word_of_nat (8 * w) :: u64) = 8 * w"
proof -
  show u: "unat (word_of_nat (8 * w) :: u64) = 8 * w" unfolding unat_of_nat using assms(4) by simp
  then have "0 < (word_of_nat (8 * w) :: u64)" using assms(3) by (simp add: word_less_nat_alt)
  with u show "matrix_ok 128 (word_of_nat (8 * w)) (concat rows)"
    using assms by (simp add: matrix_ok_def length_concat_rows [OF assms(1)])
qed

section \<open>The blocks of a transfer\<close>

definition blocks16 :: "(bytes \<times> bytes) list \<Rightarrow> bool" where
  "blocks16 inputs = list_all (\<lambda>(m0, m1). length m0 = 16 \<and> length m1 = 16) inputs"

lemma transfer_blocks:
  assumes "hashes hash" and "length sb = 16"
  shows "length inputs = length bs \<Longrightarrow> blocks16 inputs \<Longrightarrow> columns_ok sb ts qs j bs \<Longrightarrow>
    \<exists>ys. send_blocks hash sb qs j inputs = Inr ys \<and> receive_blocks hash ts j bs ys = Inr (map2 pick bs inputs)"
proof (induction inputs bs arbitrary: j rule: list_induct2)
  case (Cons input inputs b bs)
  obtain m0 m1 where input: "input = (m0, m1)" by (cases input)
  have len: "length m0 = 16" "length m1 = 16" "blocks16 inputs"
    using Cons.prems(1) by (simp_all add: blocks16_def input)
  obtain t where t: "length t = 16" "slice_at ts (j * 16) ((j + 1) * 16) = Inr t"
    and qt: "slice_at qs (j * 16) ((j + 1) * 16) = Inr (if b then xor_block t sb else t)"
    and rest: "columns_ok sb ts qs (j + 1) bs"
    using Cons.prems(2) by auto
  obtain ys where ys: "send_blocks hash sb qs (j + 1) inputs = Inr ys"
      "receive_blocks hash ts (j + 1) bs ys = Inr (map2 pick bs inputs)"
    using Cons.IH [OF len(3) rest] by blast
  define q where "q = (if b then xor_block t sb else t)"
  define y0 y1 where "y0 = xor_block (hash j q) m0" and "y1 = xor_block (hash j (xor_block q sb)) m1"
  have "length q = 16" using t(1) assms(2) by (simp add: q_def)
  then have y: "length y0 = 16" "length y1 = 16"
    using assms len by (simp_all add: hashes_def y0_def y1_def)
  have h: "length (hash j t) = 16" using assms(1) t(1) by (simp add: hashes_def)
  have "xor_block (if b then y1 else y0) (hash j t) = pick b (m0, m1)"
    using t(1) assms(2) len h by (simp add: pick_def q_def y0_def y1_def xor_block_cancel)
  with t ys y have "receive_blocks hash ts j (b # bs) (y0 @ y1 @ ys) = Inr (pick b (m0, m1) # map2 pick bs inputs)"
    by (simp add: read_bytes_def Let_def split del: if_split)
  moreover have "send_blocks hash sb qs j (input # inputs) = Inr (y0 @ y1 @ ys)"
    using qt [folded q_def] ys(1) by (simp add: input Let_def y0_def y1_def)
  ultimately show ?case by (simp add: input)
qed simp

lemma correlated_transfer_blocks:
  assumes "hashes hash" and "length sb = 16" and "length delta = 16"
  shows "columns_ok sb ts qs j bs \<Longrightarrow>
    \<exists>xs ys. correlated_blocks hash sb delta qs j (length bs) = Inr (xs, ys) \<and> length xs = length bs \<and>
      receive_correlated_blocks hash ts j bs ys = Inr (map2 (\<lambda>b x. if b then xor_block x delta else x) bs xs)"
proof (induction bs arbitrary: j)
  case (Cons b bs)
  obtain t where t: "length t = 16" "slice_at ts (j * 16) ((j + 1) * 16) = Inr t"
    and qt: "slice_at qs (j * 16) ((j + 1) * 16) = Inr (if b then xor_block t sb else t)"
    and rest: "columns_ok sb ts qs (j + 1) bs"
    using Cons.prems by auto
  obtain xs ys where ys: "correlated_blocks hash sb delta qs (j + 1) (length bs) = Inr (xs, ys)" "length xs = length bs"
      "receive_correlated_blocks hash ts (j + 1) bs ys = Inr (map2 (\<lambda>b x. if b then xor_block x delta else x) bs xs)"
    using Cons.IH [OF rest] by blast
  define q where "q = (if b then xor_block t sb else t)"
  define x0 y where "x0 = hash j q" and "y = xor_block (hash j (xor_block q sb)) (xor_block x0 delta)"
  have "length q = 16" using t(1) assms(2) by (simp add: q_def)
  then have len: "length x0 = 16" "length (hash j (xor_block q sb)) = 16" "length y = 16" "length (hash j t) = 16"
    using assms t(1) by (simp_all add: hashes_def x0_def y_def)
  have "xor_block (if b then y else replicate 16 0) (hash j t) = (if b then xor_block x0 delta else x0)"
  proof (cases b)
    case True
    then have "xor_block q sb = t" using t(1) assms(2) by (simp add: q_def xor_block_cancel)
    with True len assms(3) show ?thesis by (simp add: y_def xor_block_cancel)
  next
    case False
    then show ?thesis using xor_block_zero [OF len(4)] by (simp add: x0_def q_def xor_block_commute)
  qed
  with t ys len have "receive_correlated_blocks hash ts j (b # bs) (y @ ys) =
      Inr (map2 (\<lambda>b x. if b then xor_block x delta else x) (b # bs) (x0 # xs))"
    by (simp add: read_bytes_def Let_def split del: if_split)
  moreover have "correlated_blocks hash sb delta qs j (length (b # bs)) = Inr (x0 # xs, y @ ys)"
    using qt [folded q_def] ys(1) by (simp add: Let_def x0_def y_def)
  moreover have "length (x0 # xs) = length (b # bs)" using ys(2) by simp
  ultimately show ?case by blast
qed simp

lemma random_transfer_blocks:
  assumes "length sb = 16"
  shows "columns_ok sb ts qs j bs \<Longrightarrow>
    \<exists>xs. random_blocks hash sb qs j (length bs) = Inr xs \<and> length xs = length bs \<and>
      receive_random_blocks hash ts j (length bs) = Inr (map2 pick bs xs)"
proof (induction bs arbitrary: j)
  case (Cons b bs)
  obtain t where t: "length t = 16" "slice_at ts (j * 16) ((j + 1) * 16) = Inr t"
    and qt: "slice_at qs (j * 16) ((j + 1) * 16) = Inr (if b then xor_block t sb else t)"
    and rest: "columns_ok sb ts qs (j + 1) bs"
    using Cons.prems by auto
  obtain xs where xs: "random_blocks hash sb qs (j + 1) (length bs) = Inr xs" "length xs = length bs"
      "receive_random_blocks hash ts (j + 1) (length bs) = Inr (map2 pick bs xs)"
    using Cons.IH [OF rest] by blast
  show ?case
    using t qt xs assms by (auto simp: pick_def xor_block_cancel)
qed simp

section \<open>The transfers are correct for every transpose routine\<close>

context bit_transposer
begin

lemma ot_transpose_bit:
  assumes "\<forall>row\<in>set rows. length row = w" and "length rows = 128" and "0 < w" and "1024 * w < 2 ^ 64"
  obtains m where "tr (concat rows) 128 (word_of_nat (8 * w)) = Some (Inr m)" and "length m = 128 * w"
    and "\<And>i r. i < 8 * w \<Longrightarrow> r < 128 \<Longrightarrow> buf_bit (take 16 (drop (i * 16) m)) r = buf_bit (rows ! r) i"
proof -
  note ok = ot_matrix_ok [OF assms]
  obtain m where m: "tr (concat rows) 128 (word_of_nat (8 * w)) = Some (Inr m)"
    using transposes [OF ok(1)] by blast
  have "buf_bit (take 16 (drop (i * 16) m)) r = buf_bit (rows ! r) i" if "i < 8 * w" "r < 128" for i r
    using tr_line_bit [OF ok(1) m, of i r 16] that ok(2) concat_bit [OF assms(1), of r i] assms(2)
    by (simp del: of_nat_mult)
  with that m tr_length [OF ok(1) m] show thesis
    using length_concat_rows [OF assms(1)] assms(2) by simp
qed

lemma setup_columns:
  assumes fill: "fills fill" and sync: "in_sync S R" and m: "0 < length bs" "1024 * ((length bs + 7) div 8) < 2 ^ 64"
  shows "\<exists>R' u ts S' qs. receive_start tr fill R bs = Some (Inr (R', u, ts)) \<and>
    send_setup tr fill S u (length bs) = Some (Inr (S', [], qs)) \<and>
    in_sync S' R' \<and> s_block S' = s_block S \<and> columns_ok (s_block S) ts qs 0 bs"
proof -
  define w where "w = (length bs + 7) div 8"
  define r where "r = pack w (\<lambda>k. k < length bs \<and> bs ! k)"
  have w: "0 < w" "1024 * w < 2 ^ 64" "length bs \<le> 8 * w"
    unfolding w_def using m by presburger+
  have r: "length r = w" by (simp add: r_def)
  have rbit: "buf_bit r i = bs ! i" if "i < length bs" for i using that w(3) by (simp add: r_def)
  note rows = setup_rows [OF fill sync r] and bits = in_sync_bits [OF sync] and len = row_lengths [OF fill]
  have xs: "length (r_rngs R) = 128" using sync by (simp add: in_sync_def)
  let ?T = "map (row_t fill w) (r_rngs R)" and ?Q = "map2 (row_q fill w r) (s_bits S) (r_rngs R)"
  have T: "\<forall>row\<in>set ?T. length row = w" "length ?T = 128"
    and Q: "\<forall>row\<in>set ?Q. length row = w" "length ?Q = 128"
    using len r xs bits(1) by auto
  obtain ts where ts: "tr (concat ?T) 128 (word_of_nat (8 * w)) = Some (Inr ts)" "length ts = 128 * w"
    and tbit: "\<And>i k. i < 8 * w \<Longrightarrow> k < 128 \<Longrightarrow> buf_bit (take 16 (drop (i * 16) ts)) k = buf_bit (?T ! k) i"
    using ot_transpose_bit [OF T w(1,2)] by blast
  obtain qs where qs: "tr (concat ?Q) 128 (word_of_nat (8 * w)) = Some (Inr qs)" "length qs = 128 * w"
    and qbit: "\<And>i k. i < 8 * w \<Longrightarrow> k < 128 \<Longrightarrow> buf_bit (take 16 (drop (i * 16) qs)) k = buf_bit (?Q ! k) i"
    using ot_transpose_bit [OF Q w(1,2)] by blast
  have "columns_ok (s_block S) ts qs 0 bs"
  proof (rule columns_okI)
    fix i k :: nat
    assume i: "i < length bs" and k: "k < 128"
    then have "buf_bit (?Q ! k) i = (buf_bit (?T ! k) i \<noteq> (bs ! i \<and> buf_bit (s_block S) k))"
      using bits xs len(1) [of w "r_rngs R ! k"] r w(3) rbit [OF i]
      by (auto simp: row_q_def buf_bit_xor_block)
    with i k w(3) show "buf_bit (take 16 (drop ((0 + i) * 16) qs)) k =
        (buf_bit (take 16 (drop ((0 + i) * 16) ts)) k \<noteq> (bs ! i \<and> buf_bit (s_block S) k))"
      by (simp add: tbit qbit)
  qed (use ts qs w sync in \<open>simp_all add: in_sync_def\<close>)
  moreover have "receive_start tr fill R bs =
      Some (Inr (R\<lparr>r_rngs := map (advance fill w) (r_rngs R)\<rparr>, concat (map (row_u fill w r) (r_rngs R)), ts))"
    using ts(1) rows(1) by (simp add: receive_start_def boolvec_to_u8vec_pack receive_setup_def
        round_up_eq r_def w_def Let_def del: of_nat_mult)
  moreover have "send_setup tr fill S (concat (map (row_u fill w r) (r_rngs R))) (length bs) =
      Some (Inr (S\<lparr>s_rngs := map2 pick (s_bits S) (map (advance fill w) (r_rngs R))\<rparr>, [], qs))"
    using qs(1) rows(2) by (simp add: send_setup_def round_up_eq w_def Let_def del: of_nat_mult)
  moreover have "in_sync (S\<lparr>s_rngs := map2 pick (s_bits S) (map (advance fill w) (r_rngs R))\<rparr>)
      (R\<lparr>r_rngs := map (advance fill w) (r_rngs R)\<rparr>)"
    using sync by (simp add: in_sync_def)
  ultimately show ?thesis by fastforce
qed

lemma transfer_correct:
  assumes "fills fill" and "hashes hash" and "in_sync S R" and "length inputs = length bs" and "blocks16 inputs"
    and "0 < length bs" and "1024 * ((length bs + 7) div 8) < 2 ^ 64"
  shows "\<exists>S' R'. alsz_transfer tr fill hash S R inputs bs = Some (Inr (S', R', map2 pick bs inputs)) \<and> in_sync S' R'"
proof -
  obtain R' u ts S' qs where start: "receive_start tr fill R bs = Some (Inr (R', u, ts))"
    and prep: "send_setup tr fill S u (length bs) = Some (Inr (S', [], qs))"
    and sync: "in_sync S' R'" and sb: "s_block S' = s_block S" and cols: "columns_ok (s_block S) ts qs 0 bs"
    using setup_columns [OF assms(1,3,6,7)] by blast
  have "length (s_block S) = 16" using assms(3) by (simp add: in_sync_def)
  from transfer_blocks [OF assms(2) this assms(4,5) cols] obtain ys
    where "send_blocks hash (s_block S) qs 0 inputs = Inr ys" "receive_blocks hash ts 0 bs ys = Inr (map2 pick bs inputs)"
    by blast
  with start prep sb assms(4) have "alsz_transfer tr fill hash S R inputs bs = Some (Inr (S', R', map2 pick bs inputs))"
    by (simp add: alsz_transfer_def alsz_send_def)
  with sync show ?thesis by blast
qed

lemma correlated_random_correct:
  assumes "fills fill" and "hashes hash" and "in_sync S R" and "length delta = 16"
    and "0 < length bs" and "1024 * ((length bs + 7) div 8) < 2 ^ 64"
  shows "(\<exists>xs. length xs = length bs \<and> alsz_correlated tr fill hash S R delta bs =
      Some (Inr (xs, map2 (\<lambda>b x. if b then xor_block x delta else x) bs xs))) \<and>
    (\<exists>xs. length xs = length bs \<and> alsz_random tr fill hash S R bs = Some (Inr (xs, map2 pick bs xs)))"
proof -
  obtain R' u ts S' qs where start: "receive_start tr fill R bs = Some (Inr (R', u, ts))"
    and prep: "send_setup tr fill S u (length bs) = Some (Inr (S', [], qs))"
    and sb: "s_block S' = s_block S" and cols: "columns_ok (s_block S) ts qs 0 bs"
    using setup_columns [OF assms(1,3,5,6)] by blast
  have len: "length (s_block S) = 16" using assms(3) by (simp add: in_sync_def)
  from correlated_transfer_blocks [OF assms(2) len assms(4) cols] random_transfer_blocks [OF len cols, of hash]
  show ?thesis
    using start prep sb by (fastforce simp: alsz_correlated_def alsz_random_def)
qed

end

lemma alsz_init_sync:
  assumes "\<And>ks bs. length ks = length bs \<Longrightarrow> base_ot ks bs = map2 pick bs ks"
    and "length sb = 16" and "length ks = 128" and "alsz_init base_ot from_seed sb ks = (S, R)"
  shows "in_sync S R"
proof -
  have len: "length (u8vec_to_boolvec sb) = length ks" using assms(2,3) by (simp add: u8vec_to_boolvec_bits)
  have "map from_seed (map2 pick bs ks) = map2 pick bs (map (\<lambda>(k0, k1). (from_seed k0, from_seed k1)) ks)"
    if "length bs = length ks" for bs
    using that by (induction bs ks rule: list_induct2) (auto simp: pick_def)
  with assms len show ?thesis
    by (auto simp: alsz_init_def init_fixed_key_def init_receiver_def in_sync_def)
qed

section \<open>Properties\<close>

text \<open>
  C18.  The extension transfers the chosen messages.  After an initialisation with a base transfer that
  delivers the chosen seeds, every transfer of \<open>n > 0\<close> pairs of blocks ends, on the x86-64 build with the C
  transpose, without a fault; the receiver gets from each pair the block its bit chooses, and the parties are in step for
  the next transfer of the session.
\<close>

theorem alsz_chosen_transfer:
  assumes "\<And>ks bs. length ks = length bs \<Longrightarrow> base_ot ks bs = map2 pick bs ks"
    and "fills fill" and "hashes hash" and "length sb = 16" and "length ks = 128"
    and "length inputs = length bs" and "blocks16 inputs"
    and "0 < length bs" and "1024 * ((length bs + 7) div 8) < 2 ^ 64"
  shows "(\<forall>S R. alsz_init base_ot from_seed sb ks = (S, R) \<longrightarrow> in_sync S R) \<and>
    (\<forall>S R. in_sync S R \<longrightarrow> (\<exists>S' R'. alsz_transfer (transpose_x86 tmp0) fill hash S R inputs bs =
       Some (Inr (S', R', map2 pick bs inputs)) \<and> in_sync S' R'))"
  using alsz_init_sync [OF assms(1,4,5)] x86.transfer_correct [OF assms(2,3) _ assms(6-9)] by blast

theorem alsz_chosen_transfer_witness:
  "\<exists>S R S' R'. alsz_init (\<lambda>ks bs. map2 pick bs ks) id (replicate 16 77) (replicate 128 ([], [1])) = (S, R) \<and>
    alsz_transfer (transpose_x86 0) (\<lambda>seed n. (replicate n (of_nat (length seed)), 5 # seed)) (\<lambda>j q. map (\<lambda>b. b + of_nat j) q) S R
      [(replicate 16 1, replicate 16 2), (replicate 16 3, replicate 16 4)] [True, False] =
    Some (Inr (S', R', [replicate 16 2, replicate 16 3]))"
proof -
  obtain S R where init: "alsz_init (\<lambda>ks bs. map2 pick bs ks) id (replicate 16 77 :: bytes) (replicate 128 ([], [1])) = (S, R)"
    by (cases "alsz_init (\<lambda>ks bs. map2 pick bs ks) id (replicate 16 77 :: bytes) (replicate 128 ([], [1]))")
  have "fills (\<lambda>seed n. (replicate n (of_nat (length seed)), 5 # seed))"
    and "hashes (\<lambda>j q. map (\<lambda>b. b + of_nat j) q)"
    and "blocks16 [(replicate 16 1, replicate 16 2), (replicate 16 3, replicate 16 4)]"
    by (simp_all add: fills_def hashes_def blocks16_def)
  then show ?thesis
    using alsz_chosen_transfer [of "\<lambda>ks bs. map2 pick bs ks" "\<lambda>seed n. (replicate n (of_nat (length seed)), 5 # seed)"
      "\<lambda>j q. map (\<lambda>b. b + of_nat j) q" "replicate 16 77" "replicate 128 ([], [1])"
      "[(replicate 16 1, replicate 16 2), (replicate 16 3, replicate 16 4)]" "[True, False]" id 0] init
    by (auto simp: pick_def)
qed

text \<open>
  C19.  The correlated and the random transfer: the sender gets a block \<open>x\<close> (a pair of blocks) for each index, and the
  receiver the block \<open>x\<close> or \<open>x ^ delta\<close> (the block of the pair) that its bit chooses, on the
  portable build as on the x86-64 build.
\<close>

theorem alsz_correlated_random:
  assumes "fills fill" and "hashes hash" and "in_sync S R" and "length delta = 16"
    and "0 < length bs" and "1024 * ((length bs + 7) div 8) < 2 ^ 64"
    and "tr = transpose_portable \<or> tr = transpose_x86 tmp0"
  shows "(\<exists>xs. length xs = length bs \<and> alsz_correlated tr fill hash S R delta bs =
      Some (Inr (xs, map2 (\<lambda>b x. if b then xor_block x delta else x) bs xs))) \<and>
    (\<exists>xs. length xs = length bs \<and> alsz_random tr fill hash S R bs = Some (Inr (xs, map2 pick bs xs)))"
  using assms(7) x86.correlated_random_correct [OF assms(1-6)] portable.correlated_random_correct [OF assms(1-6)]
  by blast

theorem alsz_correlated_random_witness:
  "\<exists>S R. in_sync S R \<and> (\<exists>xs. length xs = 1 \<and>
    alsz_random transpose_portable (\<lambda>seed n. (replicate n seed, seed)) (\<lambda>j q. q) S R [True] = Some (Inr (xs, map2 pick [True] xs)))"
proof -
  obtain S R where init: "alsz_init (\<lambda>ks bs. map2 pick bs ks) hd (replicate 16 77 :: bytes) (replicate 128 ([3], [1])) = (S, R)"
    by (cases "alsz_init (\<lambda>ks bs. map2 pick bs ks) hd (replicate 16 77 :: bytes) (replicate 128 ([3], [1]))")
  have "in_sync S R" by (rule alsz_init_sync [OF _ _ _ init]) simp_all
  moreover have "fills (\<lambda>seed n. (replicate n seed, seed :: u8))" "hashes (\<lambda>j q. q)"
    by (simp_all add: fills_def hashes_def)
  ultimately show ?thesis
    using alsz_correlated_random [of "\<lambda>seed n. (replicate n seed, seed)" "\<lambda>j q. q" S R "replicate 16 0" "[True]" transpose_portable]
    by auto
qed

end
