(* ===== verification/Block_Clmul.thy ===== *)
theory Block_Clmul
  imports Ot_Alsz
begin

unbundle bit_operations_syntax

text \<open>
  The carry-less product of two blocks, \<open>carryless_mul_wide\<close> of \<^verbatim>\<open>vectoreyes/src/utils.rs\<close>: three products of 64-bit halves (the
  instruction \<open>_mm_clmulepi64_si128\<close>), combined.  A vector of two 64-bit lanes is a 128-bit word.  The consistency check of the
  malicious transfer needs that the product is additive (for \<open>XOR\<close>) in each argument and commutative.
\<close>

section \<open>The product\<close>

fun xor_sum :: "(nat \<Rightarrow> 'a::len word) \<Rightarrow> nat \<Rightarrow> 'a word" where
  "xor_sum f 0 = 0"
| "xor_sum f (Suc n) = xor_sum f n XOR f n"

text \<open>The instruction: the product of two 64-bit polynomials over the field of two elements.\<close>

definition clmul64 :: "u64 \<Rightarrow> u64 \<Rightarrow> u128" where
  "clmul64 a b = xor_sum (\<lambda>i. if bit a i then push_bit i (ucast b) else 0) 64"

text \<open>\<open>carryless_mul\<close>, with the choice of the lane of either operand.\<close>

definition lane :: "bool \<Rightarrow> u128 \<Rightarrow> u64" where
  "lane hi a = ucast (if hi then drop_bit 64 a else a)"

definition carryless_mul :: "bool \<Rightarrow> bool \<Rightarrow> u128 \<Rightarrow> u128 \<Rightarrow> u128" where
  "carryless_mul hi_other hi_self a b = clmul64 (lane hi_self a) (lane hi_other b)"

definition upper_bits_made_lower :: "u128 \<Rightarrow> u128" where
  "upper_bits_made_lower a = drop_bit 64 a"

definition lower_bits_made_upper :: "u128 \<Rightarrow> u128" where
  "lower_bits_made_upper a = push_bit 64 a"

fun block_word :: "bytes \<Rightarrow> u128" where
  "block_word [] = 0"
| "block_word (b # bs) = ucast b XOR push_bit 8 (block_word bs)"

definition word_block :: "u128 \<Rightarrow> bytes" where
  "word_block w = map (\<lambda>i. ucast (drop_bit (8 * i) w)) [0..<16]"

definition carryless_mul_wide :: "bytes \<Rightarrow> bytes \<Rightarrow> bytes \<times> bytes" where
  "carryless_mul_wide self other =
     (let a = block_word self; b = block_word other;
          c = carryless_mul True True a b;
          d = carryless_mul False False a b;
          e = carryless_mul False False (a XOR upper_bits_made_lower a) (b XOR upper_bits_made_lower b);
          product_upper_half = c XOR upper_bits_made_lower c XOR upper_bits_made_lower d XOR upper_bits_made_lower e;
          product_lower_half = d XOR lower_bits_made_upper d XOR lower_bits_made_upper c XOR lower_bits_made_upper e
      in (word_block product_lower_half, word_block product_upper_half))"

section \<open>Sums\<close>

lemma xor_sum_cong: "(\<And>i. i < n \<Longrightarrow> f i = g i) \<Longrightarrow> xor_sum f n = xor_sum g n"
  by (induction n) simp_all

lemma xor_sum_xor: "xor_sum (\<lambda>i. f i XOR g i) n = xor_sum f n XOR xor_sum g n"
  by (induction n) (simp_all add: ac_simps)

lemma xor_sum_zero: "xor_sum (\<lambda>i. 0) n = 0"
  by (induction n) simp_all

lemma xor_sum_swap: "xor_sum (\<lambda>i. xor_sum (f i) m) n = xor_sum (\<lambda>j. xor_sum (\<lambda>i. f i j) n) m"
  by (induction n) (simp_all add: xor_sum_zero xor_sum_xor)

lemma push_bit_xor_sum: "push_bit k (xor_sum f n) = xor_sum (\<lambda>i. push_bit k (f i)) n"
  by (induction n) simp_all

lemma bit_xor_sum: "bit (xor_sum f n) k = odd (card {i. i < n \<and> bit (f i) k})"
proof (induction n)
  case (Suc n)
  have "{i. i < Suc n \<and> bit (f i) k} = (if bit (f n) k then insert n {i. i < n \<and> bit (f i) k} else {i. i < n \<and> bit (f i) k})"
    by (auto simp: less_Suc_eq)
  then show ?case using Suc by (auto simp: bit_xor_iff)
qed simp

text \<open>A word as the sum of its bits.\<close>

lemma ucast_as_sum: "(ucast (b :: u64) :: u128) = xor_sum (\<lambda>j. if bit b j then 2 ^ j else 0) 64"
proof (rule bit_word_eqI)
  fix k :: nat
  assume k: "k < LENGTH(128)"
  then have "{j. j < 64 \<and> bit (if bit b j then 2 ^ j else 0 :: u128) k} = (if k < 64 \<and> bit b k then {k} else {})"
    by (auto simp: bit_exp_iff split: if_splits)
  then have "bit (xor_sum (\<lambda>j. if bit b j then 2 ^ j else 0 :: u128) 64) k \<longleftrightarrow> k < 64 \<and> bit b k"
    unfolding bit_xor_sum by simp
  then show "bit (ucast b :: u128) k = bit (xor_sum (\<lambda>j. if bit b j then 2 ^ j else 0 :: u128) 64) k"
    using k bit_imp_le_length [of b k] by (auto simp: bit_ucast_iff)
qed

lemma clmul64_double:
  "clmul64 a b = xor_sum (\<lambda>i. xor_sum (\<lambda>j. if bit a i \<and> bit b j then 2 ^ (i + j) else 0) 64) 64"
  unfolding clmul64_def ucast_as_sum [of b] push_bit_xor_sum
  by (intro xor_sum_cong) (auto intro!: xor_sum_cong simp: xor_sum_zero push_bit_eq_mult power_add)

lemma clmul64_commute: "clmul64 a b = clmul64 b a"
  unfolding clmul64_double [of a b] clmul64_double [of b a]
  by (rule trans [OF xor_sum_swap], intro xor_sum_cong) (simp add: conj_commute add.commute)

lemma clmul64_xor: "clmul64 (a XOR a') b = clmul64 a b XOR clmul64 a' b"
  unfolding clmul64_def xor_sum_xor [symmetric] by (intro xor_sum_cong) (auto simp: bit_xor_iff)

lemma lane_xor: "lane hi (a XOR a') = lane hi a XOR lane hi a'"
  by (simp add: lane_def unsigned_xor_eq)

lemma carryless_mul_commute: "carryless_mul h h a b = carryless_mul h h b a"
  by (simp add: carryless_mul_def clmul64_commute)

lemma carryless_mul_xor: "carryless_mul h' h (a XOR a') b = carryless_mul h' h a b XOR carryless_mul h' h a' b"
  by (simp add: carryless_mul_def lane_xor clmul64_xor)

lemma block_word_xor: "length a = length b \<Longrightarrow> block_word (xor_block a b) = block_word a XOR block_word b"
  by (induction a b rule: list_induct2) (simp_all add: xor_block_def unsigned_xor_eq ac_simps)

lemma word_block_xor: "word_block (v XOR w) = xor_block (word_block v) (word_block w)"
  by (simp add: word_block_def xor_block_def unsigned_xor_eq zip_map_map zip_same_conv_map comp_def del: upt_rec_numeral)

lemma length_word_block [simp]: "length (word_block w) = 16"
  by (simp add: word_block_def)

section \<open>The wide product\<close>

lemma carryless_mul_wide_commute: "carryless_mul_wide a b = carryless_mul_wide b a"
  by (simp add: carryless_mul_wide_def Let_def carryless_mul_commute [of _ "block_word a"]
      carryless_mul_commute [of _ "block_word a XOR upper_bits_made_lower (block_word a)"])

lemma carryless_mul_wide_xor:
  assumes "length a = length a'"
  shows "carryless_mul_wide (xor_block a a') b = xor_two_blocks (carryless_mul_wide a b) (carryless_mul_wide a' b)"
proof -
  have move: "(x XOR y) XOR upper_bits_made_lower (x XOR y) =
      (x XOR upper_bits_made_lower x) XOR (y XOR upper_bits_made_lower y)" for x y
    by (simp add: upper_bits_made_lower_def ac_simps)
  show ?thesis
    unfolding carryless_mul_wide_def Let_def block_word_xor [OF assms] move carryless_mul_xor xor_two_blocks_def
    by (simp add: upper_bits_made_lower_def lower_bits_made_upper_def carryless_mul_xor word_block_xor [symmetric] ac_simps)
qed

lemma carryless_mul_wide_length:
  "length (fst (carryless_mul_wide a b)) = 16" "length (snd (carryless_mul_wide a b)) = 16"
  by (simp_all add: carryless_mul_wide_def Let_def)

end
