(* ===== verification/Soft_Clmul.thy ===== *)
theory Soft_Clmul
  imports Block_Clmul
begin

text \<open>
  The carry-less product of the scalar backend of vectoreyes, and that it is the one of the instruction.  The scalar code computes it with
  integer products of words that have three zero bits between two bits that may be set: at most 15 pairs of bits meet at a position
  below 60, so that their number stays within the four bits, and its lowest bit is the bit of the carry-less product.  The
  high half is the product of the reversed words, reversed.
\<close>

section \<open>The scalar product\<close>

definition bmul64 :: "u64 \<Rightarrow> u64 \<Rightarrow> u64" where
  "bmul64 x y =
     (let x0 = x AND 0x1111111111111111; x1 = x AND 0x2222222222222222;
          x2 = x AND 0x4444444444444444; x3 = x AND 0x8888888888888888;
          y0 = y AND 0x1111111111111111; y1 = y AND 0x2222222222222222;
          y2 = y AND 0x4444444444444444; y3 = y AND 0x8888888888888888;
          z0 = x0 * y0 XOR x1 * y3 XOR x2 * y2 XOR x3 * y1;
          z1 = x0 * y1 XOR x1 * y0 XOR x2 * y3 XOR x3 * y2;
          z2 = x0 * y2 XOR x1 * y1 XOR x2 * y0 XOR x3 * y3;
          z3 = x0 * y3 XOR x1 * y2 XOR x2 * y1 XOR x3 * y0
      in z0 AND 0x1111111111111111 OR z1 AND 0x2222222222222222 OR
         z2 AND 0x4444444444444444 OR z3 AND 0x8888888888888888)"

definition rev64 :: "u64 \<Rightarrow> u64" where
  "rev64 x =
     (let x = push_bit 1 (x AND 0x5555555555555555) OR (drop_bit 1 x AND 0x5555555555555555);
          x = push_bit 2 (x AND 0x3333333333333333) OR (drop_bit 2 x AND 0x3333333333333333);
          x = push_bit 4 (x AND 0x0f0f0f0f0f0f0f0f) OR (drop_bit 4 x AND 0x0f0f0f0f0f0f0f0f);
          x = push_bit 8 (x AND 0x00ff00ff00ff00ff) OR (drop_bit 8 x AND 0x00ff00ff00ff00ff);
          x = push_bit 16 (x AND 0xffff0000ffff) OR (drop_bit 16 x AND 0xffff0000ffff)
      in word_rotr 32 x)"

definition carryless_mul_scalar :: "bool \<Rightarrow> bool \<Rightarrow> u128 \<Rightarrow> u128 \<Rightarrow> u128" where
  "carryless_mul_scalar hi_other hi_self a b =
     (let x = lane hi_self a; y = lane hi_other b in
      ucast (bmul64 x y) OR push_bit 64 (ucast (drop_bit 1 (rev64 (bmul64 (rev64 x) (rev64 y))))))"

section \<open>The masks\<close>

lemma bits64I: "list_all (\<lambda>k. bit m k = P k) [0..<64] \<Longrightarrow> k < 64 \<Longrightarrow> bit (m :: u64) k = P k"
  by (simp add: list_all_iff)

lemma quarter_masks:
  "k < 64 \<Longrightarrow> bit (0x1111111111111111 :: u64) k = (k mod 4 = 0)"
  "k < 64 \<Longrightarrow> bit (0x2222222222222222 :: u64) k = (k mod 4 = 1)"
  "k < 64 \<Longrightarrow> bit (0x4444444444444444 :: u64) k = (k mod 4 = 2)"
  "k < 64 \<Longrightarrow> bit (0x8888888888888888 :: u64) k = (k mod 4 = 3)"
  by (rule bits64I [rotated], assumption, code_simp)+

lemma swap_masks:
  "k < 64 \<Longrightarrow> bit (0x5555555555555555 :: u64) k = (k mod 2 < 1)"
  "k < 64 \<Longrightarrow> bit (0x3333333333333333 :: u64) k = (k mod 4 < 2)"
  "k < 64 \<Longrightarrow> bit (0x0f0f0f0f0f0f0f0f :: u64) k = (k mod 8 < 4)"
  "k < 64 \<Longrightarrow> bit (0x00ff00ff00ff00ff :: u64) k = (k mod 16 < 8)"
  "k < 64 \<Longrightarrow> bit (0xffff0000ffff :: u64) k = (k mod 32 < 16)"
  by (rule bits64I [rotated], assumption, code_simp)+

section \<open>Reversal\<close>

text \<open>One round of the reversal exchanges the bits at \<open>k\<close> and \<open>swap_pos n k\<close>.\<close>

definition swap_pos :: "nat \<Rightarrow> nat \<Rightarrow> nat" where
  "swap_pos n k = (if k mod (2 * n) < n then k + n else k - n)"

lemma swap_pos_mod:
  fixes n k :: nat
  assumes "0 < n"
  shows "k mod (2 * n) < n \<Longrightarrow> n \<le> k \<Longrightarrow> (k - n) mod (2 * n) = k mod (2 * n) + n"
    and "\<not> k mod (2 * n) < n \<Longrightarrow> n \<le> k \<and> (k - n) mod (2 * n) = k mod (2 * n) - n"
proof -
  define q r where "q = k div (2 * n)" and "r = k mod (2 * n)"
  have k: "k = q * (2 * n) + r" "r < 2 * n" using assms by (simp_all only: q_def r_def div_mult_mod_eq) simp
  show "(k - n) mod (2 * n) = k mod (2 * n) + n" if less: "k mod (2 * n) < n" and le: "n \<le> k"
  proof -
    have r: "r < n" using less by (simp add: r_def)
    then obtain p where p: "q = Suc p" using le k by (cases q) simp_all
    have "k - n = p * (2 * n) + (r + n)" unfolding k(1) p by simp
    then have "(k - n) mod (2 * n) = r + n" using r by (simp only: mod_mult_self3) simp
    then show ?thesis by (simp add: r_def)
  qed
  show "n \<le> k \<and> (k - n) mod (2 * n) = k mod (2 * n) - n" if "\<not> k mod (2 * n) < n"
  proof -
    have r: "n \<le> r" using that by (simp add: r_def)
    then have "k - n = q * (2 * n) + (r - n)" unfolding k(1) by simp
    then have "(k - n) mod (2 * n) = r - n" using k(2) by (simp only: mod_mult_self3) simp
    moreover have "n \<le> k" unfolding k(1) using r by (rule trans_le_add2)
    ultimately show ?thesis by (simp only: r_def)
  qed
qed

lemma bit_swap:
  assumes mask: "\<And>k. k < 64 \<Longrightarrow> bit m k = (k mod (2 * n) < n)" and n: "0 < n" and k: "k < 64"
  shows "bit (push_bit n (x AND m) OR (drop_bit n x AND m) :: u64) k = bit x (swap_pos n k)"
proof (cases "k mod (2 * n) < n")
  case True
  then have "\<not> (n \<le> k \<and> (k - n) mod (2 * n) < n)" using swap_pos_mod(1) [OF n True] by auto
  then have "\<not> (n \<le> k \<and> bit m (k - n))" using mask [of "k - n"] k by auto
  then show ?thesis using True mask [OF k] k by (auto simp: bit_simps swap_pos_def add.commute)
next
  case False
  have "k mod (2 * n) < 2 * n" using n by simp
  then have "n \<le> k" "(k - n) mod (2 * n) < n" using swap_pos_mod(2) [OF n False] by linarith+
  then have "bit m (k - n)" using mask [of "k - n"] k by auto
  then show ?thesis using False mask [OF k] k \<open>n \<le> k\<close> by (auto simp: bit_simps swap_pos_def)
qed

lemmas swap_pos_eval = swap_pos_def [of n "numeral k" for n k] swap_pos_def [of n 0 for n] swap_pos_def [of n 1 for n] swap_pos_def [of n "Suc 0" for n]
  swap_pos_def [of n "Suc (Suc 0)" for n] swap_pos_def [of n "Suc (Suc (Suc 0))" for n]

lemma all64: "list_all P [0..<64] \<Longrightarrow> k < 64 \<Longrightarrow> P k"
  by (simp add: list_all_iff)

lemma upt64: "[0..<64] = 0 # 1 # [2..<64]"
  using upt_conv_Cons [of 0 64] upt_conv_Cons [of 1 64] by (simp add: numeral_2_eq_2 del: upt_rec_numeral)

lemma swap_pos_bounds:
  assumes "k < 64"
  shows "swap_pos 1 k < 64" and "swap_pos 2 k < 64" and "swap_pos 4 k < 64" and "swap_pos 8 k < 64" and "swap_pos 16 k < 64"
    and "swap_pos 1 (swap_pos 2 (swap_pos 4 (swap_pos 8 (swap_pos 16 ((k + 32) mod 64))))) = 63 - k"
proof -
  have "list_all (\<lambda>k. swap_pos 1 k < 64 \<and> swap_pos 2 k < 64 \<and> swap_pos 4 k < 64 \<and> swap_pos 8 k < 64 \<and> swap_pos 16 k < 64) [0..<64]"
    by (simp add: upt64 swap_pos_eval upt_rec_numeral)
  from all64 [OF this assms] show "swap_pos 1 k < 64" "swap_pos 2 k < 64" "swap_pos 4 k < 64" "swap_pos 8 k < 64" "swap_pos 16 k < 64" by simp_all
  have "list_all (\<lambda>k. swap_pos 1 (swap_pos 2 (swap_pos 4 (swap_pos 8 (swap_pos 16 ((k + 32) mod 64))))) = 63 - k) [0..<64]"
    by (simp add: upt64 swap_pos_eval upt_rec_numeral)
  from all64 [OF this assms] show "swap_pos 1 (swap_pos 2 (swap_pos 4 (swap_pos 8 (swap_pos 16 ((k + 32) mod 64))))) = 63 - k" .
qed

lemma bit_rev64: "k < 64 \<Longrightarrow> bit (rev64 x) k = bit x (63 - k)"
proof -
  assume k: "k < 64"
  define x1 where "x1 = push_bit 1 (x AND 0x5555555555555555) OR (drop_bit 1 x AND 0x5555555555555555)"
  define x2 where "x2 = push_bit 2 (x1 AND 0x3333333333333333) OR (drop_bit 2 x1 AND 0x3333333333333333)"
  define x3 where "x3 = push_bit 4 (x2 AND 0x0f0f0f0f0f0f0f0f) OR (drop_bit 4 x2 AND 0x0f0f0f0f0f0f0f0f)"
  define x4 where "x4 = push_bit 8 (x3 AND 0x00ff00ff00ff00ff) OR (drop_bit 8 x3 AND 0x00ff00ff00ff00ff)"
  define x5 where "x5 = push_bit 16 (x4 AND 0xffff0000ffff) OR (drop_bit 16 x4 AND 0xffff0000ffff)"
  have b: "bit x1 k = bit x (swap_pos 1 k)" "bit x2 k = bit x1 (swap_pos 2 k)" "bit x3 k = bit x2 (swap_pos 4 k)"
      "bit x4 k = bit x3 (swap_pos 8 k)" "bit x5 k = bit x4 (swap_pos 16 k)" if "k < 64" for k
    unfolding x1_def x2_def x3_def x4_def x5_def by (rule bit_swap; use that swap_masks in simp)+
  let ?k = "(k + 32) mod 64"
  have "bit (rev64 x) k = bit x5 ?k"
    unfolding rev64_def Let_def x1_def [symmetric] x2_def [symmetric] x3_def [symmetric] x4_def [symmetric] x5_def [symmetric]
    using k by (simp add: bit_word_rotr_iff)
  also have "\<dots> = bit x4 (swap_pos 16 ?k)" by (rule b) simp
  also have "\<dots> = bit x3 (swap_pos 8 (swap_pos 16 ?k))" by (intro b swap_pos_bounds) simp
  also have "\<dots> = bit x2 (swap_pos 4 (swap_pos 8 (swap_pos 16 ?k)))" by (intro b swap_pos_bounds) simp
  also have "\<dots> = bit x1 (swap_pos 2 (swap_pos 4 (swap_pos 8 (swap_pos 16 ?k))))" by (intro b swap_pos_bounds) simp
  also have "\<dots> = bit x (swap_pos 1 (swap_pos 2 (swap_pos 4 (swap_pos 8 (swap_pos 16 ?k)))))" by (intro b swap_pos_bounds) simp
  finally show ?thesis using swap_pos_bounds(6) [OF k] by simp
qed

section \<open>Products with holes\<close>

text \<open>Digits in base 16 that do not overflow below position \<open>m\<close>: the lowest bit of digit \<open>m\<close> can be read off the sum.\<close>

lemma digit_bit:
  fixes c :: "nat \<Rightarrow> int"
  assumes "\<And>r. 0 \<le> c r" "\<And>r. r < m \<Longrightarrow> c r < 16" "m \<le> n"
  shows "bit (\<Sum>r\<le>n. c r * 16 ^ r) (4 * m) = odd (c m)"
proof -
  have low: "(\<Sum>r<j. c r * 16 ^ r) < 16 ^ j" if "j \<le> m" for j
    using that
  proof (induction j)
    case (Suc j)
    then have "(\<Sum>r<j. c r * 16 ^ r) < 16 ^ j" "c j \<le> 15" using assms(2) [of j] by simp_all
    moreover from this have "c j * 16 ^ j \<le> 15 * 16 ^ j" by (intro mult_right_mono) simp_all
    ultimately show ?case unfolding sum.lessThan_Suc power_Suc by linarith
  qed simp
  have low0: "0 \<le> (\<Sum>r<m. c r * 16 ^ r)" using assms(1) by (intro sum_nonneg) simp
  have "{..n} = {..<m} \<union> {m} \<union> {m<..n}" using assms(3) by auto
  then have "(\<Sum>r\<le>n. c r * 16 ^ r) = (\<Sum>r<m. c r * 16 ^ r) + c m * 16 ^ m + (\<Sum>r\<in>{m<..n}. c r * 16 ^ r)"
    by (simp add: sum.union_disjoint disjoint_iff)
  also have "(\<Sum>r\<in>{m<..n}. c r * 16 ^ r) = 16 ^ m * (2 * (\<Sum>r\<in>{m<..n}. c r * 8 * 16 ^ (r - Suc m)))"
  proof -
    have "c r * 16 ^ r = 16 ^ m * (2 * (c r * 8 * 16 ^ (r - Suc m)))" if "r \<in> {m<..n}" for r
    proof -
      have "r = Suc m + (r - Suc m)" using that by simp
      then have "(16 :: int) ^ r = 16 ^ (Suc m + (r - Suc m))" by (rule arg_cong)
      also have "\<dots> = 16 ^ m * 16 * 16 ^ (r - Suc m)" unfolding power_add power_Suc2 ..
      finally show ?thesis by simp
    qed
    then show ?thesis unfolding sum_distrib_left by (rule sum.cong [OF refl])
  qed
  finally have N: "(\<Sum>r\<le>n. c r * 16 ^ r) = (\<Sum>r<m. c r * 16 ^ r) + 16 ^ m * (c m + 2 * (\<Sum>r\<in>{m<..n}. c r * 8 * 16 ^ (r - Suc m)))"
    by (simp add: algebra_simps)
  have "(\<Sum>r\<le>n. c r * 16 ^ r) div 16 ^ m = c m + 2 * (\<Sum>r\<in>{m<..n}. c r * 8 * 16 ^ (r - Suc m))"
    unfolding N using low [of m] low0 by simp
  moreover have "(2 :: int) ^ (4 * m) = 16 ^ m" by (simp add: power_mult)
  ultimately show ?thesis by (simp add: bit_iff_odd)
qed

text \<open>The bits of a word at the positions \<open>a\<close>, \<open>a + 4\<close>, \<dots>, as digits.\<close>

definition fourth :: "u64 \<Rightarrow> nat \<Rightarrow> nat \<Rightarrow> int" where
  "fourth x a t = of_bool (bit x (4 * t + a))"

lemma uint_holes:
  assumes a: "a < 4" and m: "\<And>k. k < 64 \<Longrightarrow> bit m k = (k mod 4 = a)"
  shows "uint (x AND m) = 2 ^ a * (\<Sum>t\<le>15. fourth x a t * 16 ^ t)"
proof -
  have "uint (x AND m) = (\<Sum>k = 0..<64. push_bit k (of_bool (bit (uint (x AND m)) k)))"
    unfolding take_bit_sum [symmetric] by transfer simp
  also have "\<dots> = (\<Sum>k<16 * 4. if k mod 4 = a then of_bool (bit x k) * 2 ^ k else 0)"
    by (rule sum.cong) (auto simp: bit_simps m push_bit_eq_mult atLeast0LessThan)
  also have "\<dots> = (\<Sum>t<16. \<Sum>k\<in>{t * 4..<t * 4 + 4}. if k mod 4 = a then of_bool (bit x k) * 2 ^ k else 0)"
    by (rule sum.nat_group [symmetric])
  also have "\<dots> = (\<Sum>t<16. of_bool (bit x (4 * t + a)) * 2 ^ (4 * t + a))"
  proof (rule sum.cong [OF refl])
    fix t :: nat
    have "(\<Sum>k\<in>{t * 4..<t * 4 + 4}. if k mod 4 = a then of_bool (bit x k) * 2 ^ k else (0 :: int)) =
        (\<Sum>k\<in>{t * 4..<t * 4 + 4}. if k = 4 * t + a then of_bool (bit x k) * 2 ^ k else 0)"
    proof (rule sum.cong [OF refl])
      fix k assume "k \<in> {t * 4..<t * 4 + 4}"
      then obtain i where "k = 4 * t + i" "i < 4" by (auto simp: le_iff_add)
      then have "k mod 4 = a \<longleftrightarrow> k = 4 * t + a" by simp
      then show "(if k mod 4 = a then of_bool (bit x k) * 2 ^ k else (0 :: int)) = (if k = 4 * t + a then of_bool (bit x k) * 2 ^ k else 0)"
        by (simp only:)
    qed
    then show "(\<Sum>k\<in>{t * 4..<t * 4 + 4}. if k mod 4 = a then of_bool (bit x k) * 2 ^ k else 0) = (of_bool (bit x (4 * t + a)) * 2 ^ (4 * t + a) :: int)"
      using a by (simp add: sum.delta)
  qed
  also have "\<dots> = 2 ^ a * (\<Sum>t\<le>15. fourth x a t * 16 ^ t)"
    unfolding sum_distrib_left by (rule sum.cong) (auto simp: fourth_def power_add power_mult)
  finally show ?thesis .
qed


text \<open>The digits of a product: the number of pairs of bits that meet.\<close>

definition conv :: "u64 \<Rightarrow> u64 \<Rightarrow> nat \<Rightarrow> nat \<Rightarrow> nat \<Rightarrow> int" where
  "conv x y a b r = (\<Sum>t\<le>r. fourth x a t * fourth y b (r - t))"

lemma fourth_beyond: "15 < t \<Longrightarrow> fourth x a t = 0"
  by (auto simp: fourth_def dest: bit_imp_le_length)

lemma conv_bounds: "0 \<le> conv x y a b r" "conv x y a b r \<le> int r + 1"
proof -
  show "0 \<le> conv x y a b r" unfolding conv_def by (intro sum_nonneg) (simp add: fourth_def)
  have "conv x y a b r \<le> (\<Sum>t\<le>r. 1)" unfolding conv_def by (intro sum_mono) (simp add: fourth_def)
  then show "conv x y a b r \<le> int r + 1" by simp
qed

lemma uint_product:
  assumes "a < 4" "b < 4" "\<And>k. k < 64 \<Longrightarrow> bit m k = (k mod 4 = a)" "\<And>k. k < 64 \<Longrightarrow> bit n k = (k mod 4 = b)"
  shows "uint (x AND m) * uint (y AND n) = 2 ^ (a + b) * (\<Sum>r\<le>30. conv x y a b r * 16 ^ r)"
proof -
  have "(\<Sum>t\<le>15. fourth x a t * 16 ^ t) * (\<Sum>t\<le>15. fourth y b t * 16 ^ t) = (\<Sum>r\<le>15 + 15. conv x y a b r * 16 ^ r)"
    unfolding conv_def by (rule polynomial_product) (simp_all add: fourth_beyond)
  moreover have "uint (x AND m) * uint (y AND n) = 2 ^ a * (\<Sum>t\<le>15. fourth x a t * 16 ^ t) * (2 ^ b * (\<Sum>t\<le>15. fourth y b t * 16 ^ t))"
    by (simp only: uint_holes [OF assms(1,3)] uint_holes [OF assms(2,4)])
  moreover have "2 ^ a * A * (2 ^ b * B) = 2 ^ (a + b) * (A * B)" for A B :: int by (simp add: power_add)
  ultimately show ?thesis by (simp only: add_numeral_left) simp
qed

text \<open>The positions of the pairs of bits that meet at \<open>k\<close>, the first one being \<open>a\<close> modulo 4.\<close>

definition pairs_at :: "u64 \<Rightarrow> u64 \<Rightarrow> nat \<Rightarrow> nat \<Rightarrow> nat set" where
  "pairs_at x y k a = {i. i \<le> k \<and> i mod 4 = a \<and> bit x i \<and> bit y (k - i)}"

lemma conv_card:
  assumes "a < 4" "b < 4"
  shows "conv x y a b r = int (card (pairs_at x y (4 * r + a + b) a))"
proof -
  have "pairs_at x y (4 * r + a + b) a = (\<lambda>t. 4 * t + a) ` {t. t \<le> r \<and> bit x (4 * t + a) \<and> bit y (4 * (r - t) + b)}" (is "_ = ?f ` ?T")
  proof (intro set_eqI iffI)
    fix i assume i: "i \<in> pairs_at x y (4 * r + a + b) a"
    define t where "t = i div 4"
    have it: "i = 4 * t + a" using i mult_div_mod_eq [of 4 i] by (simp add: pairs_at_def t_def)
    then have "4 * t \<le> 4 * r + b" using i by (simp add: pairs_at_def)
    then have "t \<le> r" using assms(2) by linarith
    moreover from this have "4 * r + a + b - i = 4 * (r - t) + b" by (simp add: it)
    ultimately show "i \<in> ?f ` ?T" using i it by (auto simp: pairs_at_def)
  next
    fix i assume "i \<in> ?f ` ?T"
    then obtain t where t: "i = 4 * t + a" "t \<le> r" "bit x (4 * t + a)" "bit y (4 * (r - t) + b)" by blast
    moreover have "4 * r + a + b - i = 4 * (r - t) + b" using t(1,2) by simp
    ultimately show "i \<in> pairs_at x y (4 * r + a + b) a" using assms(1) by (simp add: pairs_at_def)
  qed
  then have "card (pairs_at x y (4 * r + a + b) a) = card ?T" by (simp add: card_image inj_on_def)
  moreover have "conv x y a b r = (\<Sum>t\<le>r. of_bool (t \<in> ?T))"
    unfolding conv_def by (rule sum.cong) (auto simp: fourth_def)
  moreover have "(\<Sum>t\<le>r. of_bool (t \<in> ?T)) = int (card ({..r} \<inter> ?T))" by (simp add: of_bool_def sum.If_cases Int_def)
  moreover have "{..r} \<inter> ?T = ?T" by auto
  ultimately show ?thesis by (simp only:)
qed

lemma mod_cancel_left: "(a + j) mod n = (a + b) mod n \<Longrightarrow> j mod n = b mod (n :: nat)"
proof -
  assume "(a + j) mod n = (a + b) mod n"
  then have "(int a + int j) mod int n = (int a + int b) mod int n" by (simp flip: of_nat_add zmod_int)
  then have "int j mod int n = int b mod int n" by (simp add: mod_eq_dvd_iff)
  then show ?thesis by (simp flip: zmod_int)
qed

lemma bit_product:
  assumes ab: "a < 4" "b < 4" and m: "\<And>k. k < 64 \<Longrightarrow> bit m k = (k mod 4 = a)" and n: "\<And>k. k < 64 \<Longrightarrow> bit n k = (k mod 4 = b)"
    and k: "k < 64" "k mod 4 = (a + b) mod 4"
  shows "bit ((x AND m) * (y AND n) :: u64) k = odd (card (pairs_at x y k a))"
proof -
  let ?N = "\<Sum>r\<le>30. conv x y a b r * 16 ^ r"
  have "bit ((x AND m) * (y AND n)) k = bit (uint (x AND m) * uint (y AND n)) k"
  proof -
    have "uint ((x AND m) * (y AND n)) = take_bit 64 (uint (x AND m) * uint (y AND n))" by (simp add: uint_word_ariths take_bit_eq_mod)
    then have "bit (uint ((x AND m) * (y AND n))) k = bit (uint (x AND m) * uint (y AND n)) k" using k(1) by (simp only: bit_take_bit_iff simp_thms)
    then show ?thesis using k(1) by (simp only: bit_uint_iff) simp
  qed
  also have "\<dots> = bit (push_bit (a + b) ?N) k"
    using uint_product [OF ab m n] by (simp add: push_bit_eq_mult mult.commute)
  also have "\<dots> = odd (card (pairs_at x y k a))"
  proof (cases "a + b \<le> k")
    case True
    then have "4 dvd k - (a + b)" using k(2) by (simp add: mod_eq_dvd_iff_nat)
    then obtain r where r: "k - (a + b) = 4 * r" by blast
    then have kr: "k = 4 * r + a + b" using True by simp
    have "conv x y a b r' < 16" if "r' < r" for r' using conv_bounds(2) [of x y a b r'] that kr k(1) by simp
    then have "bit ?N (4 * r) = odd (conv x y a b r)" using conv_bounds(1) kr k(1) by (intro digit_bit) simp_all
    then show ?thesis using r True conv_card [OF ab, of x y r] by (simp add: bit_push_bit_iff_int kr)
  next
    case False
    have "pairs_at x y k a = {}"
    proof -
      have "a + b \<le> k" if "i \<le> k" "i mod 4 = a" for i
      proof -
        define j where "j = k - i"
        have "(i + j) mod 4 = (a + b) mod 4" using that(1) k(2) by (simp add: j_def)
        then have "(a + j) mod 4 = (a + b) mod 4" unfolding that(2) [symmetric] by (simp only: mod_add_left_eq)
        then have "j mod 4 = b mod 4" by (rule mod_cancel_left)
        then have "b \<le> j" "a \<le> i" using ab(2) that(2) mod_less_eq_dividend [of j 4] mod_less_eq_dividend [of i 4] by simp_all
        then show ?thesis using that(1) by (simp add: j_def)
      qed
      then show ?thesis using False by (auto simp: pairs_at_def)
    qed
    then show ?thesis using False by (simp add: bit_push_bit_iff_int)
  qed
  finally show ?thesis .
qed


section \<open>The low half\<close>

definition all_pairs :: "u64 \<Rightarrow> u64 \<Rightarrow> nat \<Rightarrow> nat set" where
  "all_pairs x y k = {i. i \<le> k \<and> bit x i \<and> bit y (k - i)}"

lemma all_pairs_parity:
  "odd (card (all_pairs x y k)) =
    (((odd (card (pairs_at x y k 0)) \<noteq> odd (card (pairs_at x y k 1))) \<noteq> odd (card (pairs_at x y k 2))) \<noteq> odd (card (pairs_at x y k 3)))"
proof -
  have fin: "finite (pairs_at x y k a)" for a by (rule finite_subset [of _ "{..k}"]) (auto simp: pairs_at_def)
  have "all_pairs x y k = (\<Union>a\<in>{0, 1, 2, 3}. pairs_at x y k a)"
  proof (intro set_eqI iffI)
    fix i assume i: "i \<in> all_pairs x y k"
    have "i mod 4 < 4" by simp
    then have "i mod 4 \<in> {0, 1, 2, 3}" by (simp only: insert_iff empty_iff) linarith
    then show "i \<in> (\<Union>a\<in>{0, 1, 2, 3}. pairs_at x y k a)" using i by (auto simp: all_pairs_def pairs_at_def)
  qed (auto simp: all_pairs_def pairs_at_def)
  then have "card (all_pairs x y k) = (\<Sum>a\<in>{0, 1, 2, 3}. card (pairs_at x y k a))"
    using fin by (subst card_UN_disjoint [symmetric]) (auto simp: pairs_at_def)
  then show ?thesis by (simp, argo)
qed

lemma bit_bmul64: "k < 64 \<Longrightarrow> bit (bmul64 x y) k = odd (card (all_pairs x y k))"
proof -
  assume k: "k < 64"
  note q = quarter_masks
  have r: "k mod 4 < 4" by simp
  then consider "k mod 4 = 0" | "k mod 4 = 1" | "k mod 4 = 2" | "k mod 4 = 3" by linarith
  then show ?thesis
  proof cases
    case 1
    have "bit (bmul64 x y) k = bit ((x AND 0x1111111111111111) * (y AND 0x1111111111111111) XOR (x AND 0x2222222222222222) * (y AND 0x8888888888888888) XOR
        (x AND 0x4444444444444444) * (y AND 0x4444444444444444) XOR (x AND 0x8888888888888888) * (y AND 0x2222222222222222)) k"
      unfolding bmul64_def Let_def bit_or_iff bit_and_iff q [OF k] using 1 by (simp only:) simp
    then show ?thesis
      unfolding bit_xor_iff all_pairs_parity
      using bit_product [OF _ _ q(1) q(1) k, of x y] bit_product [OF _ _ q(2) q(4) k, of x y]
        bit_product [OF _ _ q(3) q(3) k, of x y] bit_product [OF _ _ q(4) q(2) k, of x y] 1 by (simp, argo)
  next
    case 2
    have "bit (bmul64 x y) k = bit ((x AND 0x1111111111111111) * (y AND 0x2222222222222222) XOR (x AND 0x2222222222222222) * (y AND 0x1111111111111111) XOR
        (x AND 0x4444444444444444) * (y AND 0x8888888888888888) XOR (x AND 0x8888888888888888) * (y AND 0x4444444444444444)) k"
      unfolding bmul64_def Let_def bit_or_iff bit_and_iff q [OF k] using 2 by (simp only:) simp
    then show ?thesis
      unfolding bit_xor_iff all_pairs_parity
      using bit_product [OF _ _ q(1) q(2) k, of x y] bit_product [OF _ _ q(2) q(1) k, of x y]
        bit_product [OF _ _ q(3) q(4) k, of x y] bit_product [OF _ _ q(4) q(3) k, of x y] 2 by (simp, argo)
  next
    case 3
    have "bit (bmul64 x y) k = bit ((x AND 0x1111111111111111) * (y AND 0x4444444444444444) XOR (x AND 0x2222222222222222) * (y AND 0x2222222222222222) XOR
        (x AND 0x4444444444444444) * (y AND 0x1111111111111111) XOR (x AND 0x8888888888888888) * (y AND 0x8888888888888888)) k"
      unfolding bmul64_def Let_def bit_or_iff bit_and_iff q [OF k] using 3 by (simp only:) simp
    then show ?thesis
      unfolding bit_xor_iff all_pairs_parity
      using bit_product [OF _ _ q(1) q(3) k, of x y] bit_product [OF _ _ q(2) q(2) k, of x y]
        bit_product [OF _ _ q(3) q(1) k, of x y] bit_product [OF _ _ q(4) q(4) k, of x y] 3 by (simp, argo)
  next
    case 4
    have "bit (bmul64 x y) k = bit ((x AND 0x1111111111111111) * (y AND 0x8888888888888888) XOR (x AND 0x2222222222222222) * (y AND 0x4444444444444444) XOR
        (x AND 0x4444444444444444) * (y AND 0x2222222222222222) XOR (x AND 0x8888888888888888) * (y AND 0x1111111111111111)) k"
      unfolding bmul64_def Let_def bit_or_iff bit_and_iff q [OF k] using 4 by (simp only:) simp
    then show ?thesis
      unfolding bit_xor_iff all_pairs_parity
      using bit_product [OF _ _ q(1) q(4) k, of x y] bit_product [OF _ _ q(2) q(3) k, of x y]
        bit_product [OF _ _ q(3) q(2) k, of x y] bit_product [OF _ _ q(4) q(1) k, of x y] 4 by (simp, argo)
  qed
qed

section \<open>Both halves\<close>

lemma bit_clmul64: "k < 128 \<Longrightarrow> bit (clmul64 x y) k = odd (card (all_pairs x y k))"
proof -
  assume k: "k < 128"
  have "{i. i < 64 \<and> bit (if bit x i then push_bit i (ucast y) else 0 :: u128) k} = all_pairs x y k"
    using k by (auto simp: all_pairs_def bit_simps dest: bit_imp_le_length split: if_splits)
  then show ?thesis unfolding clmul64_def bit_xor_sum by simp
qed

lemma all_pairs_mirror:
  assumes "k < 63"
  shows "card (all_pairs (rev64 x) (rev64 y) (62 - k)) = card (all_pairs x y (64 + k))"
proof (rule bij_betw_same_card [of "\<lambda>i. 63 - i"], rule bij_betw_byWitness [of _ "\<lambda>i. 63 - i"])
  have b: "bit (rev64 z) i \<longleftrightarrow> i < 64 \<and> bit z (63 - i)" for z i
    using bit_rev64 [of i z] bit_imp_le_length [of "rev64 z" i] by auto
  have le: "i < 64" if "bit z i" for z :: u64 and i using bit_imp_le_length [OF that] by simp
  show "\<forall>i\<in>all_pairs (rev64 x) (rev64 y) (62 - k). 63 - (63 - i) = i" by (auto simp: all_pairs_def)
  show "\<forall>i\<in>all_pairs x y (64 + k). 63 - (63 - i) = i" using le by (fastforce simp: all_pairs_def)
  have e: "63 - (62 - k - i) = 64 + k - (63 - i)" if "i \<le> 62 - k" for i using that assms by linarith
  show "(\<lambda>i. 63 - i) ` all_pairs (rev64 x) (rev64 y) (62 - k) \<subseteq> all_pairs x y (64 + k)"
    using e by (auto simp: all_pairs_def b)
  show "(\<lambda>i. 63 - i) ` all_pairs x y (64 + k) \<subseteq> all_pairs (rev64 x) (rev64 y) (62 - k)"
  proof
    fix j assume "j \<in> (\<lambda>i. 63 - i) ` all_pairs x y (64 + k)"
    then obtain i where i: "j = 63 - i" "bit x i" "bit y (64 + k - i)" by (auto simp: all_pairs_def)
    then have "i < 64" "64 + k - i < 64" using le by blast+
    then have j: "j \<le> 62 - k" "63 - j = i" "63 - (62 - k - j) = 64 + k - i" "j < 64" "62 - k - j < 64" using i(1) assms by linarith+
    have "bit (rev64 x) j" unfolding b j(2) using j(4) i(2) by blast
    moreover have "bit (rev64 y) (62 - k - j)" unfolding b j(3) using j(5) i(3) by blast
    ultimately show "j \<in> all_pairs (rev64 x) (rev64 y) (62 - k)" using j(1) unfolding all_pairs_def by blast
  qed
qed

lemma scalar_clmul:
  "ucast (bmul64 x y) OR push_bit 64 (ucast (drop_bit 1 (rev64 (bmul64 (rev64 x) (rev64 y))))) = clmul64 x y"
proof (rule bit_word_eqI)
  fix k assume k: "k < LENGTH(128)"
  consider "k < 64" | i where "k = 64 + i" "i < 63" | "k = 127"
  proof -
    have "k < 64 \<or> k = 64 + (k - 64) \<and> k - 64 < 63 \<or> k = 127" using k by simp linarith
    then show thesis using that by blast
  qed
  then show "bit (ucast (bmul64 x y) OR push_bit 64 (ucast (drop_bit 1 (rev64 (bmul64 (rev64 x) (rev64 y))))) :: u128) k = bit (clmul64 x y) k"
  proof cases
    case 1
    then show ?thesis using bit_bmul64 bit_clmul64 k by (simp add: bit_simps)
  next
    case 2
    have "bit (rev64 (bmul64 (rev64 x) (rev64 y))) (Suc i) = odd (card (all_pairs (rev64 x) (rev64 y) (62 - i)))"
      using 2 by (simp add: bit_rev64 bit_bmul64)
    then have "bit (rev64 (bmul64 (rev64 x) (rev64 y))) (Suc i) = bit (clmul64 x y) k"
      using 2 by (simp add: all_pairs_mirror bit_clmul64)
    then show ?thesis using 2 by (auto simp: bit_simps dest: bit_imp_le_length)
  next
    case 3
    have "all_pairs x y 127 = {}" by (auto simp: all_pairs_def dest!: bit_imp_le_length)
    then show ?thesis using 3 by (auto simp: bit_simps bit_clmul64 dest: bit_imp_le_length)
  qed
qed

text \<open>
  C33.  The two builds of the carry-less product agree: for every choice of the lanes of all operands, the scalar backend (sixteen
  integer products of masked words for the low half, the same on the reversed words for the high half) returns the value of the
  instruction \<open>_mm_clmulepi64_si128\<close>, the product of polynomials over the field of two elements.
\<close>

theorem carryless_mul_builds_agree: "carryless_mul_scalar hi_other hi_self a b = carryless_mul hi_other hi_self a b"
  by (simp only: carryless_mul_scalar_def carryless_mul_def Let_def scalar_clmul)

end
