(* ===== verification/Psu_Permutation.thy ===== *)
theory Psu_Permutation
  imports Prelude "HOL-Library.Multiset"
begin

text \<open>
  \<open>random_permutation\<close> of \<^verbatim>\<open>src/aok.rs\<close>: the Fisher-Yates shuffle that keeps the inverse permutation in step.
  The random choices are a parameter: \<open>pick_j i\<close> is the value of \<open>rng.gen_range (0..=i)\<close>.
\<close>

section \<open>The shuffle\<close>

definition swap_at :: "'a list \<Rightarrow> nat \<Rightarrow> nat \<Rightarrow> 'a list run" where
  "swap_at xs i j =
     (if i < length xs \<and> j < length xs then Inr (xs[i := xs ! j, j := xs ! i]) else Inl OutOfBounds)"

definition shuffle_step :: "nat \<Rightarrow> nat \<Rightarrow> nat list \<times> nat list \<Rightarrow> (nat list \<times> nat list) run" where
  "shuffle_step i j st =
     (let (perm, inv) = st in
      bind_run (swap_at perm i j) (\<lambda>perm.
      bind_run (read_at perm i) (\<lambda>pi.
      bind_run (write_at inv pi i) (\<lambda>inv.
      bind_run (read_at perm j) (\<lambda>pj.
      bind_run (write_at inv pj j) (\<lambda>inv. Inr (perm, inv)))))))"

fun shuffle_loop :: "(nat \<Rightarrow> nat) \<Rightarrow> nat list \<Rightarrow> nat list \<times> nat list \<Rightarrow> (nat list \<times> nat list) run" where
  "shuffle_loop pick_j [] st = Inr st"
| "shuffle_loop pick_j (i # is) st = bind_run (shuffle_step i (pick_j i) st) (shuffle_loop pick_j is)"

definition random_permutation :: "(nat \<Rightarrow> nat) \<Rightarrow> nat \<Rightarrow> (nat list \<times> nat list) run" where
  "random_permutation pick_j n = shuffle_loop pick_j (rev [1..<n]) ([0..<n], [0..<n])"

section \<open>The two lists stay inverse permutations\<close>

definition inverse_perms :: "nat \<Rightarrow> nat list \<times> nat list \<Rightarrow> bool" where
  "inverse_perms n st = (let (perm, inv) = st in
     length perm = n \<and> length inv = n \<and> mset perm = mset [0..<n] \<and> (\<forall>i<n. inv ! (perm ! i) = i))"

lemma perm_entry:
  "mset perm = mset [0..<n] \<Longrightarrow> length perm = n \<Longrightarrow> i < n \<Longrightarrow> perm ! i < n"
  by (metis atLeastLessThan_iff nth_mem set_mset_mset set_upt)

lemma perm_inj:
  "mset perm = mset [0..<n] \<Longrightarrow> length perm = n \<Longrightarrow> i < n \<Longrightarrow> j < n \<Longrightarrow> perm ! i = perm ! j \<longleftrightarrow> i = j"
  by (metis distinct_upt mset_eq_imp_distinct_iff nth_eq_iff_index_eq)

lemma shuffle_step_ok:
  assumes "inverse_perms n st" and "i < n" and "j < n"
  shows "\<exists>st'. shuffle_step i j st = Inr st' \<and> inverse_perms n st'"
proof -
  obtain perm inv where st: "st = (perm, inv)" by (cases st)
  have inv: "length perm = n" "length inv = n" "mset perm = mset [0..<n]" "\<forall>k<n. inv ! (perm ! k) = k"
    using assms(1) by (simp_all add: inverse_perms_def st)
  define p where "p = perm[i := perm ! j, j := perm ! i]"
  have p: "mset p = mset [0..<n]" "length p = n"
    using mset_swap [of j perm i] assms(2,3) inv by (simp_all add: p_def)
  have entry: "p ! i < n" "p ! j < n" using p perm_entry assms(2,3) by blast+
  have "inv[p ! i := i, p ! j := j] ! (p ! k) = k" if "k < n" for k
  proof (cases "k = j \<or> k = i")
    case True
    then show ?thesis
      using entry inv(2) perm_inj [OF p, of i j] assms(2,3) by (auto simp: nth_list_update)
  next
    case False
    then have "p ! k = perm ! k" by (simp add: p_def)
    with False that show ?thesis
      using perm_inj [OF p, of k i] perm_inj [OF p, of k j] assms(2,3) inv(4) by simp
  qed
  moreover have "shuffle_step i j st = Inr (p, inv[p ! i := i, p ! j := j])"
    using assms(2,3) inv entry p(2)
    by (simp add: shuffle_step_def st swap_at_def buffer_simps flip: p_def)
  ultimately show ?thesis using p inv(2) by (simp add: inverse_perms_def)
qed

lemma shuffle_loop_ok:
  "inverse_perms n st \<Longrightarrow> \<forall>i\<in>set is. i < n \<and> pick_j i \<le> i \<Longrightarrow>
   \<exists>st'. shuffle_loop pick_j is st = Inr st' \<and> inverse_perms n st'"
proof (induction "is" arbitrary: st)
  case (Cons i "is")
  then obtain st' where st': "shuffle_step i (pick_j i) st = Inr st'" "inverse_perms n st'"
    using shuffle_step_ok [of n st i "pick_j i"] by fastforce
  with Cons.IH [of st'] Cons.prems(2) show ?case by simp
qed simp

lemma random_permutation_value:
  assumes "\<forall>i<n. pick_j i \<le> i"
  shows "\<exists>perm inv. random_permutation pick_j n = Inr (perm, inv) \<and> mset perm = mset [0..<n] \<and>
    mset inv = mset [0..<n] \<and> (\<forall>i<n. inv ! (perm ! i) = i) \<and> (\<forall>i<n. perm ! (inv ! i) = i)"
proof -
  have "inverse_perms n ([0..<n], [0..<n])" by (simp add: inverse_perms_def)
  then obtain perm inv where run: "random_permutation pick_j n = Inr (perm, inv)"
    and ok: "inverse_perms n (perm, inv)"
    using shuffle_loop_ok [of n "([0..<n], [0..<n])" "rev [1..<n]" pick_j] assms
    by (fastforce simp: random_permutation_def)
  have p: "length perm = n" "length inv = n" "mset perm = mset [0..<n]" "\<forall>i<n. inv ! (perm ! i) = i"
    using ok by (simp_all add: inverse_perms_def)
  have undo: "perm ! (inv ! k) = k \<and> inv ! k < n" if "k < n" for k
  proof -
    have "set perm = set [0..<n]" using p(3) by (metis set_mset_mset)
    with that have "k \<in> set perm" by simp
    then obtain i where "i < n" "perm ! i = k" using p(1) by (auto simp: in_set_conv_nth)
    with p(4) show ?thesis by auto
  qed
  have "distinct inv" unfolding distinct_conv_nth using undo p(2) by metis
  moreover have "set inv \<subseteq> set [0..<n]" using undo p(2) by (auto simp: in_set_conv_nth)
  ultimately have "set inv = set [0..<n]" using p(2) by (intro card_seteq) (simp_all add: distinct_card)
  with \<open>distinct inv\<close> have "mset inv = mset [0..<n]" by (metis distinct_upt set_eq_iff_mset_eq_distinct)
  with run p undo show ?thesis by blast
qed

text \<open>
  C20.  \<open>random_permutation\<close> never indexes out of range and returns a permutation of \<open>0..n\<close> with its inverse,
  whatever the random choices are: both lists have length \<open>n\<close>, the first is a rearrangement of the
  indices, and each undoes the other.
\<close>

theorem random_permutation_inverse:
  assumes "\<forall>i<n. pick_j i \<le> i"
  shows "\<exists>perm inv. random_permutation pick_j n = Inr (perm, inv) \<and> mset perm = mset [0..<n] \<and>
    mset inv = mset [0..<n] \<and> (\<forall>i<n. inv ! (perm ! i) = i) \<and> (\<forall>i<n. perm ! (inv ! i) = i)"
  using assms by (rule random_permutation_value)

theorem random_permutation_inverse_witness:
  "\<exists>perm inv. random_permutation (\<lambda>i. i div 2) 5 = Inr (perm, inv) \<and> mset perm = mset [0..<5]"
  using random_permutation_inverse [of 5 "\<lambda>i. i div 2"] by (metis div_le_dividend)

end
