(* ===== verification/Psu_Aok.thy ===== *)
theory Psu_Aok
  imports Complex_Main Psu_Permutation
begin

text \<open>
  \<^verbatim>\<open>src/aok.rs\<close>: Pedersen commitments, the argument for a shuffle of known content, the adapted shuffle argument with its batched
  verification, and the batched Diffie-Hellman argument.  Scalars are the elements of a commutative ring \<open>'s\<close> (in
  the code, the integers modulo the group order), points the elements of an abelian group \<open>'g\<close> (in the code, the subgroup of
  prime order, in which all points of these arguments lie).  What the code takes from other crates is collected in a record:
  the multiples of a point, the base point, point compression, the bytes of a scalar, the scalar of 32 bytes,
  inversion, Blake2s and the scalars that ChaCha12 draws from a seed.  Random scalars are arguments.
\<close>

section \<open>Points, scalars and commitments\<close>

record ('s, 'g) curve =
  pt_mul :: "'s \<Rightarrow> 'g \<Rightarrow> 'g"
  pt_base :: 'g
  pt_compress :: "'g \<Rightarrow> bytes"
  pt_decompress :: "bytes \<Rightarrow> 'g option"
  sc_bytes :: "'s \<Rightarrow> bytes"
  sc_from_bytes :: "bytes \<Rightarrow> 's"
  sc_invert :: "'s \<Rightarrow> 's"
  blake2s :: "bytes \<Rightarrow> bytes"
  chacha_scalars :: "bytes \<Rightarrow> nat \<Rightarrow> 's list"

definition mul_base :: "('s, 'g) curve \<Rightarrow> 's \<Rightarrow> 'g" where
  "mul_base C r = pt_mul C r (pt_base C)"

text \<open>\<open>vartime_multiscalar_mul\<close> asserts that there are as many scalars as points.\<close>

definition multiscalar_mul :: "('s, 'g::ab_group_add) curve \<Rightarrow> 's list \<Rightarrow> 'g list \<Rightarrow> 'g run" where
  "multiscalar_mul C scalars points =
     bind_run (guard_run (length scalars = length points)) (\<lambda>_.
     Inr (sum_list (map2 (pt_mul C) scalars points)))"

definition commit :: "('s, 'g::ab_group_add) curve \<Rightarrow> 'g list \<Rightarrow> 's list \<Rightarrow> 's \<Rightarrow> 'g run" where
  "commit C pp m r = bind_run (multiscalar_mul C m pp) (\<lambda>p. Inr (p + mul_base C r))"

definition decompress_unwrap :: "('s, 'g) curve \<Rightarrow> bytes \<Rightarrow> 'g run" where
  "decompress_unwrap C b = (case pt_decompress C b of Some p \<Rightarrow> Inr p | None \<Rightarrow> Inl Panic)"

section \<open>Shuffle of known content\<close>

record ('s, 'g) known_hint =
  kh_d :: "'s list"
  kh_delta :: "'s list"
  kh_r_d :: 's
  kh_r_delta :: 's
  kh_r_a :: 's
  kh_c_d :: 'g
  kh_c_delta :: 'g

record 's known_proof =
  kp_c_d :: bytes
  kp_c_delta :: bytes
  kp_c_a :: bytes
  kp_f :: "'s list"
  kp_f_delta :: "'s list"
  kp_z :: 's
  kp_z_delta :: 's

text \<open>
  \<open>prove_shuffle_known_preprocess\<close>: \<open>rnd_d i\<close> and \<open>rnd_delta i\<close> are the random scalars of the two loops.  Of no items at all,
  \<open>delta[0] = d[0]\<close> is out of bounds.
\<close>

definition known_delta :: "nat \<Rightarrow> (nat \<Rightarrow> 's) \<Rightarrow> 's::zero list \<Rightarrow> 's list" where
  "known_delta n rnd_delta d =
     (foldl (\<lambda>delta i. delta[i := rnd_delta i]) ((replicate n 0)[0 := d ! 0]) [1..<n - 1])[n - 1 := 0]"

definition prove_shuffle_known_preprocess ::
    "('s::comm_ring_1, 'g::ab_group_add) curve \<Rightarrow> 'g list \<Rightarrow> nat \<Rightarrow> (nat \<Rightarrow> 's) \<Rightarrow> (nat \<Rightarrow> 's) \<Rightarrow> 's \<Rightarrow> 's \<Rightarrow> 's \<Rightarrow>
     ('s, 'g) known_hint run" where
  "prove_shuffle_known_preprocess C pp n rnd_d rnd_delta r_d r_delta r_a =
     (if n = 0 then Inl OutOfBounds
      else
        let d = map rnd_d [0..<n];
            delta = known_delta n rnd_delta d;
            d2 = map (\<lambda>i. if i < n - 1 then - (delta ! i) * d ! (i + 1) else 0) [0..<n]
        in bind_run (commit C pp d r_d) (\<lambda>c_d.
           bind_run (commit C pp d2 r_delta) (\<lambda>c_delta.
           Inr \<lparr>kh_d = d, kh_delta = delta, kh_r_d = r_d, kh_r_delta = r_delta, kh_r_a = r_a,
                kh_c_d = c_d, kh_c_delta = c_delta\<rparr>)))"

text \<open>The two challenges, which prover and verifier derive from the same bytes.\<close>

definition known_hx :: "('s, 'g) curve \<Rightarrow> 'g \<Rightarrow> 's list \<Rightarrow> bytes" where
  "known_hx C c m = blake2s C (pt_compress C c @ concat (map (sc_bytes C) m))"

definition known_e :: "('s, 'g) curve \<Rightarrow> bytes \<Rightarrow> bytes \<Rightarrow> bytes \<Rightarrow> bytes \<Rightarrow> 's" where
  "known_e C b_d b_delta b_a hx = sc_from_bytes C (blake2s C (b_d @ b_delta @ b_a @ hx))"

fun partial_products :: "'s::comm_ring_1 list \<Rightarrow> 's \<Rightarrow> 's \<Rightarrow> nat list \<Rightarrow> 's list run" where
  "partial_products m x acc [] = Inr []"
| "partial_products m x acc (j # js) =
     bind_run (read_at m j) (\<lambda>mj.
       let acc = acc * (mj - x) in
       bind_run (partial_products m x acc js) (\<lambda>a. Inr (acc # a)))"

text \<open>\<open>delta[i + 1] - (m[perm[i + 1]] - x) * delta[i] - a[i] * d[i + 1]\<close>, which both loops of the prover compute.\<close>

definition known_term :: "('s::comm_ring_1, 'g) known_hint \<Rightarrow> 's list \<Rightarrow> 's \<Rightarrow> nat list \<Rightarrow> 's list \<Rightarrow> nat \<Rightarrow> 's run" where
  "known_term hint m x perm a i =
     bind_run (read_at (kh_delta hint) (i + 1)) (\<lambda>delta'.
     bind_run (read_at perm (i + 1)) (\<lambda>j.
     bind_run (read_at m j) (\<lambda>mj.
     bind_run (read_at (kh_delta hint) i) (\<lambda>delta.
     bind_run (read_at a i) (\<lambda>ai.
     bind_run (read_at (kh_d hint) (i + 1)) (\<lambda>d'.
     Inr (delta' - (mj - x) * delta - ai * d')))))))"

definition prove_shuffle_known ::
    "('s::comm_ring_1, 'g::ab_group_add) curve \<Rightarrow> 'g list \<Rightarrow> ('s, 'g) known_hint \<Rightarrow> 's list \<Rightarrow> 'g \<Rightarrow> nat list \<Rightarrow> 's \<Rightarrow>
     's known_proof run" where
  "prove_shuffle_known C pp hint m c perm r =
     (let n = length m; hx = known_hx C c m; x = sc_from_bytes C hx
      in bind_run (partial_products m x 1 perm) (\<lambda>a.
         if n = 0 then Inl OutOfBounds
         else
           bind_run (map_run (known_term hint m x perm a) [0..<n - 1]) (\<lambda>terms.
           bind_run (commit C pp (terms @ [0]) (kh_r_a hint)) (\<lambda>c_a.
             let b_d = pt_compress C (kh_c_d hint); b_delta = pt_compress C (kh_c_delta hint);
                 b_a = pt_compress C c_a; e = known_e C b_d b_delta b_a hx
             in bind_run (map_run (\<lambda>(i, j). bind_run (read_at m j) (\<lambda>mj.
                    bind_run (read_at (kh_d hint) i) (\<lambda>di. Inr (e * mj + di)))) (zip [0..<length perm] perm)) (\<lambda>f.
                let z = e * r + kh_r_d hint;
                    f_delta = map (\<lambda>i. if i < n - 1 then e * terms ! i - kh_delta hint ! i * kh_d hint ! (i + 1) else 0) [0..<n];
                    z_delta = e * kh_r_a hint + kh_r_delta hint
                in Inr \<lparr>kp_c_d = b_d, kp_c_delta = b_delta, kp_c_a = b_a, kp_f = f, kp_f_delta = f_delta,
                        kp_z = z, kp_z_delta = z_delta\<rparr>)))))"

text \<open>The recursion \<open>F_i = (F_(i - 1) * (f_i - e * x) + f_delta_(i - 1)) / e\<close> of the verifiers.\<close>

fun known_F :: "'s::comm_ring_1 list \<Rightarrow> 's list \<Rightarrow> 's \<Rightarrow> 's \<Rightarrow> nat list \<Rightarrow> 's \<Rightarrow> 's run" where
  "known_F f f_delta ex e_inv [] F = Inr F"
| "known_F f f_delta ex e_inv (i # is) F =
     bind_run (read_at f i) (\<lambda>fi.
     bind_run (read_at f_delta (i - 1)) (\<lambda>fd.
     known_F f f_delta ex e_inv is ((F * (fi - ex) + fd) * e_inv)))"

definition known_product_check ::
    "('s::comm_ring_1, 'g) curve \<Rightarrow> 's list \<Rightarrow> 's \<Rightarrow> 's \<Rightarrow> 's known_proof \<Rightarrow> bool run" where
  "known_product_check C m x e proof =
     bind_run (read_at (kp_f proof) 0) (\<lambda>f0.
     bind_run (known_F (kp_f proof) (kp_f_delta proof) (e * x) (sc_invert C e) [1..<length m] (f0 - e * x)) (\<lambda>F.
     Inr (F = e * foldl (\<lambda>prod mi. prod * (mi - x)) 1 m)))"

definition verify_shuffle_known ::
    "('s::comm_ring_1, 'g::ab_group_add) curve \<Rightarrow> 's \<Rightarrow> 'g list \<Rightarrow> 's list \<Rightarrow> 'g \<Rightarrow> 's known_proof \<Rightarrow> bool run" where
  "verify_shuffle_known C alpha pp m c proof =
     (let hx = known_hx C c m; x = sc_from_bytes C hx;
          e = known_e C (kp_c_d proof) (kp_c_delta proof) (kp_c_a proof) hx
      in bind_run (decompress_unwrap C (kp_c_d proof)) (\<lambda>c_d.
         bind_run (decompress_unwrap C (kp_c_delta proof)) (\<lambda>c_delta.
         bind_run (decompress_unwrap C (kp_c_a proof)) (\<lambda>c_a.
           let lhs = pt_mul C alpha (pt_mul C e c + c_d) + pt_mul C e c_a + c_delta;
               z_sum = kp_z proof * alpha + kp_z_delta proof;
               f_sum = map2 (\<lambda>fi fd. alpha * fi + fd) (kp_f proof) (kp_f_delta proof)
           in bind_run (commit C pp f_sum z_sum) (\<lambda>rhs.
              if lhs \<noteq> rhs then Inr False else known_product_check C m x e proof)))))"

section \<open>The adapted shuffle\<close>

record ('s, 'g) adapted_hint =
  ah_c_pi :: 'g
  ah_c_d :: 'g
  ah_d :: "'s list"
  ah_r_d :: 's
  ah_r_pi :: 's
  ah_r_z :: 's
  ah_u :: 's
  ah_u2 :: 's
  ah_hint2 :: "('s, 'g) known_hint"

record 's adapted_proof =
  ap_c_pi :: bytes
  ap_c_d :: bytes
  ap_g_d :: bytes
  ap_c_z :: bytes
  ap_g_u :: bytes
  ap_c_u :: bytes
  ap_x :: "'s list"
  ap_v :: 's
  ap_v2 :: 's
  ap_psi :: "'s known_proof"

text \<open>
  \<open>prove_shuffle_adapted_preprocess\<close>; \<open>rnd_d i\<close> are the scalars of \<open>d\<close>, \<open>hint2\<close> the result of
  \<open>prove_shuffle_known_preprocess pp n\<close>.
\<close>

definition prove_shuffle_adapted_preprocess ::
    "('s::comm_ring_1, 'g::ab_group_add) curve \<Rightarrow> 'g list \<Rightarrow> nat list \<Rightarrow> nat \<Rightarrow> (nat \<Rightarrow> 's) \<Rightarrow> 's \<Rightarrow> 's \<Rightarrow> 's \<Rightarrow> 's \<Rightarrow> 's \<Rightarrow>
     ('s, 'g) known_hint run \<Rightarrow> ('s, 'g) adapted_hint run" where
  "prove_shuffle_adapted_preprocess C pp perm n rnd_d r_d r_pi r_z u u2 known =
     (let d = map rnd_d [0..<n]
      in bind_run (commit C pp d r_d) (\<lambda>c_d.
         bind_run (commit C pp (map of_nat perm) r_pi) (\<lambda>c_pi.
         bind_run known (\<lambda>hint2.
         Inr \<lparr>ah_c_pi = c_pi, ah_c_d = c_d, ah_d = d, ah_r_d = r_d, ah_r_pi = r_pi, ah_r_z = r_z,
              ah_u = u, ah_u2 = u2, ah_hint2 = hint2\<rparr>))))"

text \<open>The challenges \<open>z\<close> (expanded from its hash) and \<open>delta\<close>.\<close>

definition adapted_hz :: "('s, 'g) curve \<Rightarrow> 'g \<Rightarrow> bytes list \<Rightarrow> bytes list \<Rightarrow> bytes \<Rightarrow> bytes \<Rightarrow> bytes \<Rightarrow> bytes" where
  "adapted_hz C pk bg bh b_pi b_d b_gd = blake2s C (pt_compress C pk @ concat bg @ concat bh @ b_pi @ b_d @ b_gd)"

definition adapted_delta :: "('s, 'g) curve \<Rightarrow> 's list \<Rightarrow> bytes \<Rightarrow> bytes \<Rightarrow> bytes \<Rightarrow> bytes \<Rightarrow> 's" where
  "adapted_delta C x b_z b_gu b_u hz = sc_from_bytes C (blake2s C (concat (map (sc_bytes C) x) @ b_z @ b_gu @ b_u @ hz))"

definition z_rho :: "'s::comm_ring_1 list \<Rightarrow> 's \<Rightarrow> nat \<Rightarrow> 's list run" where
  "z_rho z delta n = map_run (\<lambda>i. bind_run (read_at z i) (\<lambda>zi. Inr (zi + delta * of_nat i))) [0..<n]"

definition prove_shuffle_adapted ::
    "('s::comm_ring_1, 'g::ab_group_add) curve \<Rightarrow> 'g list \<Rightarrow> 'g \<Rightarrow> ('s, 'g) adapted_hint \<Rightarrow> 'g list \<Rightarrow> bytes list \<Rightarrow> bytes list \<Rightarrow>
     's \<Rightarrow> nat list \<Rightarrow> 's adapted_proof run" where
  "prove_shuffle_adapted C pp pk hint g bg bh s perm =
     (let n = length g in
      bind_run (multiscalar_mul C (ah_d hint) g) (\<lambda>g_d.
        let b_pi = pt_compress C (ah_c_pi hint); b_d = pt_compress C (ah_c_d hint); b_gd = pt_compress C g_d;
            hz = adapted_hz C pk bg bh b_pi b_d b_gd;
            z = chacha_scalars C hz n
        in bind_run (map_run (\<lambda>i. bind_run (read_at perm i) (\<lambda>j. bind_run (read_at z j) (\<lambda>zj.
             bind_run (read_at (ah_d hint) i) (\<lambda>di. Inr (s * zj + di))))) [0..<n]) (\<lambda>x.
           bind_run (map_run (read_at z) perm) (\<lambda>z_pi.
           bind_run (commit C pp z_pi (ah_r_z hint)) (\<lambda>c_z.
             let g_u = mul_base C (ah_u hint);
                 c_u = pt_mul C (- ah_u hint) c_z + mul_base C (ah_u2 hint);
                 b_z = pt_compress C c_z; b_gu = pt_compress C g_u; b_u = pt_compress C c_u;
                 delta = adapted_delta C x b_z b_gu b_u hz;
                 v = s * delta + ah_u hint;
                 v2 = (s * ah_r_z hint + ah_r_d hint) * delta + ah_u2 hint;
                 c_rho = c_z + pt_mul C delta (ah_c_pi hint);
                 r_rho = ah_r_z hint + ah_r_pi hint * delta
             in bind_run (z_rho z delta n) (\<lambda>rho.
                bind_run (prove_shuffle_known C pp (ah_hint2 hint) rho c_rho perm r_rho) (\<lambda>psi.
                Inr \<lparr>ap_c_pi = b_pi, ap_c_d = b_d, ap_g_d = b_gd, ap_c_z = b_z, ap_g_u = b_gu, ap_c_u = b_u,
                     ap_x = x, ap_v = v, ap_v2 = v2, ap_psi = psi\<rparr>)))))))"

definition verify_shuffle_adapted ::
    "('s::comm_ring_1, 'g::ab_group_add) curve \<Rightarrow> 's \<Rightarrow> 's \<Rightarrow> 'g list \<Rightarrow> 'g \<Rightarrow> 'g list \<Rightarrow> 'g list \<Rightarrow> bytes list \<Rightarrow> bytes list \<Rightarrow>
     's adapted_proof \<Rightarrow> bool run" where
  "verify_shuffle_adapted C alpha1 alpha2 pp pk g h bg bh proof =
     (let n = length g; psi = ap_psi proof;
          hz = adapted_hz C pk bg bh (ap_c_pi proof) (ap_c_d proof) (ap_g_d proof);
          z = chacha_scalars C hz n
      in bind_run (decompress_unwrap C (ap_c_pi proof)) (\<lambda>c_pi.
         bind_run (decompress_unwrap C (ap_c_d proof)) (\<lambda>c_d.
         bind_run (decompress_unwrap C (ap_g_d proof)) (\<lambda>g_d.
           let delta = adapted_delta C (ap_x proof) (ap_c_z proof) (ap_g_u proof) (ap_c_u proof) hz in
         bind_run (decompress_unwrap C (ap_c_z proof)) (\<lambda>c_z.
         bind_run (decompress_unwrap C (ap_g_u proof)) (\<lambda>g_u.
         bind_run (decompress_unwrap C (ap_c_u proof)) (\<lambda>c_u.
         bind_run (z_rho z delta n) (\<lambda>rho.
           let c_rho = c_z + pt_mul C delta c_pi;
               hx = known_hx C c_rho rho; x = sc_from_bytes C hx;
               e = known_e C (kp_c_d psi) (kp_c_delta psi) (kp_c_a psi) hx in
         bind_run (decompress_unwrap C (kp_c_d psi)) (\<lambda>psi_c_d.
         bind_run (decompress_unwrap C (kp_c_delta psi)) (\<lambda>psi_c_delta.
         bind_run (decompress_unwrap C (kp_c_a psi)) (\<lambda>psi_c_a.
         bind_run (known_product_check C rho x e psi) (\<lambda>ok.
           if \<not> ok then Inr False
           else if mul_base C (ap_v proof) \<noteq> g_u + pt_mul C delta pk then Inr False
           else
             let com1 = pt_mul C e c_rho + psi_c_d;
                 com2 = pt_mul C e psi_c_a + psi_c_delta;
                 com3 = pt_mul C (ap_v proof) c_z + pt_mul C delta c_d + c_u - mul_base C (ap_v2 proof);
                 lhs = pt_mul C alpha1 com1 + pt_mul C alpha2 com2 + com3;
                 r_sum = kp_z psi * alpha1 + kp_z_delta psi * alpha2;
                 f_sum = map (\<lambda>(fi, fd, xi). alpha1 * fi + alpha2 * fd + xi * delta)
                           (zip (kp_f psi) (zip (kp_f_delta psi) (ap_x proof)))
             in bind_run (commit C pp f_sum r_sum) (\<lambda>rhs.
                if lhs \<noteq> rhs then Inr False
                else bind_run (multiscalar_mul C (ap_x proof @ map uminus z) (g @ h)) (\<lambda>rhs2.
                     Inr (g_d = rhs2)))))))))))))))"

section \<open>Batched Diffie-Hellman\<close>

record 's ddh_proof =
  dp_c :: bytes
  dp_z :: 's

definition ddh_ha :: "('s, 'g) curve \<Rightarrow> 'g \<Rightarrow> bytes list \<Rightarrow> bytes list \<Rightarrow> bytes" where
  "ddh_ha C pk bg bh = blake2s C (pt_compress C pk @ concat bg @ concat bh)"

definition ddh_delta :: "('s, 'g) curve \<Rightarrow> bytes \<Rightarrow> bytes \<Rightarrow> 's" where
  "ddh_delta C b_c ha = sc_from_bytes C (blake2s C (b_c @ ha))"

definition batched_ddh_prove ::
    "('s::comm_ring_1, 'g::ab_group_add) curve \<Rightarrow> 's \<Rightarrow> 'g \<Rightarrow> 'g list \<Rightarrow> bytes list \<Rightarrow> bytes list \<Rightarrow> 's \<Rightarrow> 's ddh_proof run" where
  "batched_ddh_prove C r pk g bg bh s =
     (let ha = ddh_ha C pk bg bh;
          ar = map (\<lambda>a. a * r) (chacha_scalars C ha (length g))
      in bind_run (multiscalar_mul C ar g) (\<lambda>p.
           let b_c = pt_compress C (p + mul_base C r); delta = ddh_delta C b_c ha
           in Inr \<lparr>dp_c = b_c, dp_z = delta * s + r\<rparr>))"

definition batched_ddh_verify ::
    "('s::comm_ring_1, 'g::ab_group_add) curve \<Rightarrow> 'g \<Rightarrow> 'g list \<Rightarrow> 'g list \<Rightarrow> bytes list \<Rightarrow> bytes list \<Rightarrow> 's ddh_proof \<Rightarrow>
     bool run" where
  "batched_ddh_verify C pk g h bg bh proof =
     (let ha = ddh_ha C pk bg bh;
          a = chacha_scalars C ha (length g);
          delta = ddh_delta C (dp_c proof) ha
      in bind_run (decompress_unwrap C (dp_c proof)) (\<lambda>c.
           let lhs = c + pt_mul C delta pk - mul_base C (dp_z proof)
           in bind_run (multiscalar_mul C (map (\<lambda>ai. ai * dp_z proof) a @ map (\<lambda>ai. - ai * delta) a) (g @ h)) (\<lambda>rhs2.
              Inr (lhs = rhs2))))"

end
