(* ===== verification/Psu_Mapping.thy ===== *)
theory Psu_Mapping
  imports Ot_Alsz Digits
begin

text \<open>
  \<^verbatim>\<open>src/mapping.rs\<close>: the 256-bit Feistel permutation over AES-128, and the test that recognises an encoded
  item among the byte strings of a field element.  AES is a parameter, \<open>aes key block\<close>.  The field is a type \<open>'f\<close>
  with the operations that the code takes of it in a record; its elements are, in the code, the integers modulo \<open>2 ^ 255 - 19\<close>.
\<close>

section \<open>The Feistel permutation\<close>

record feistel =
  round_keys :: "bytes list"
  rounds :: "(bytes \<Rightarrow> bytes) list"

definition feistel_new :: "(bytes \<Rightarrow> bytes \<Rightarrow> bytes) \<Rightarrow> bytes \<Rightarrow> feistel" where
  "feistel_new aes master =
     (let keys = map (\<lambda>i. aes master (of_nat (i + 1) # replicate 15 0)) [0..<3]
      in \<lparr>round_keys = keys, rounds = map aes keys\<rparr>)"

definition encrypt_round :: "bytes \<times> (bytes \<Rightarrow> bytes) \<Rightarrow> bytes \<times> bytes \<Rightarrow> bytes \<times> bytes" where
  "encrypt_round kr lr =
     (let (rk, round) = kr; (l, r) = lr; f = round (xor_block r rk) in (r, xor_block l f))"

definition decrypt_round :: "bytes \<times> (bytes \<Rightarrow> bytes) \<Rightarrow> bytes \<times> bytes \<Rightarrow> bytes \<times> bytes" where
  "decrypt_round kr lr =
     (let (rk, round) = kr; (l, r) = lr; f = round (xor_block l rk) in (xor_block r f, l))"

definition encrypt_block :: "feistel \<Rightarrow> bytes \<Rightarrow> bytes" where
  "encrypt_block prp block =
     (let (l, r) = foldl (\<lambda>lr kr. encrypt_round kr lr) (take 16 block, drop 16 block) (zip (round_keys prp) (rounds prp))
      in l @ r)"

definition decrypt_block :: "feistel \<Rightarrow> bytes \<Rightarrow> bytes" where
  "decrypt_block prp block =
     (let (l, r) = foldl (\<lambda>lr kr. decrypt_round kr lr) (take 16 block, drop 16 block) (rev (zip (round_keys prp) (rounds prp)))
      in l @ r)"

section \<open>Field elements as bytes\<close>

text \<open>
  What the code takes of the field implementation: the square root of minus one, the square root of a ratio, the sign, and the
  conversions from and to 32 bytes.
\<close>

record 'f field_ops =
  sqrt_m1 :: 'f
  sqrt_ratio_i :: "'f \<Rightarrow> 'f \<Rightarrow> bool \<times> 'f"
  is_negative :: "'f \<Rightarrow> bool"
  of_bytes :: "bytes \<Rightarrow> 'f"
  as_bytes :: "'f \<Rightarrow> bytes"

text \<open>
  The field element that an item is encoded as before it is mapped to the curve (\<open>hash_to_point\<close>), and \<open>check_bytes\<close>, which
  tries the 32 bytes as they are and with the top bit set.
\<close>

definition encode_item :: "'f field_ops \<Rightarrow> feistel \<Rightarrow> bytes \<Rightarrow> 'f" where
  "encode_item F permut item = of_bytes F (encrypt_block permut (item @ replicate 16 0))"

definition check_bytes :: "bytes \<Rightarrow> feistel \<Rightarrow> bytes option" where
  "check_bytes bytes permut =
     (let bytes_nc = decrypt_block permut (bytes[31 := bytes ! 31 OR 0x80]);
          bytes = decrypt_block permut bytes
      in if drop 16 bytes = replicate 16 0 then Some (take 16 bytes)
         else if drop 16 bytes_nc = replicate 16 0 then Some (take 16 bytes_nc)
         else None)"

text \<open>\<open>check_item\<close>: the two representatives and their negations, in the order of the code.\<close>

definition check_item :: "'f::field field_ops \<Rightarrow> 'f \<Rightarrow> 'f \<Rightarrow> feistel \<Rightarrow> bytes option" where
  "check_item F r0 r1 permut =
     (case check_bytes (as_bytes F r0) permut of
        Some item \<Rightarrow> Some item
      | None \<Rightarrow> (case check_bytes (as_bytes F (- r0)) permut of
          Some item \<Rightarrow> Some item
        | None \<Rightarrow> (case check_bytes (as_bytes F r1) permut of
            Some item \<Rightarrow> Some item
          | None \<Rightarrow> check_bytes (as_bytes F (- r1)) permut)))"

section \<open>The permutation is a permutation\<close>

definition aes_ok :: "(bytes \<Rightarrow> bytes \<Rightarrow> bytes) \<Rightarrow> bool" where
  "aes_ok aes = (\<forall>key block. length key = 16 \<longrightarrow> length block = 16 \<longrightarrow> length (aes key block) = 16)"

definition round_ok :: "bytes \<times> (bytes \<Rightarrow> bytes) \<Rightarrow> bool" where
  "round_ok kr = (length (fst kr) = 16 \<and> (\<forall>b. length b = 16 \<longrightarrow> length (snd kr b) = 16))"

definition halves :: "bytes \<times> bytes \<Rightarrow> bool" where
  "halves lr = (length (fst lr) = 16 \<and> length (snd lr) = 16)"

lemma round_inverse:
  assumes "round_ok kr" and "halves lr"
  shows "halves (encrypt_round kr lr)" and "decrypt_round kr (encrypt_round kr lr) = lr"
    and "halves (decrypt_round kr lr)" and "encrypt_round kr (decrypt_round kr lr) = lr"
  using assms
  by (cases kr; cases lr; simp add: round_ok_def halves_def encrypt_round_def decrypt_round_def xor_block_cancel)+

lemma rounds_inverse:
  assumes "\<forall>kr\<in>set krs. round_ok kr" and "halves lr"
  shows "halves (foldl (\<lambda>lr kr. encrypt_round kr lr) lr krs)"
    and "foldl (\<lambda>lr kr. decrypt_round kr lr) (foldl (\<lambda>lr kr. encrypt_round kr lr) lr krs) (rev krs) = lr"
    and "halves (foldl (\<lambda>lr kr. decrypt_round kr lr) lr (rev krs))"
    and "foldl (\<lambda>lr kr. encrypt_round kr lr) (foldl (\<lambda>lr kr. decrypt_round kr lr) lr (rev krs)) krs = lr"
  using assms
proof (induction krs arbitrary: lr)
  case (Cons kr krs)
  {
    case 1
    with Cons.IH(1) show ?case by (simp add: round_inverse)
  next
    case 2
    with Cons.IH(2) [of "encrypt_round kr lr"] show ?case by (simp add: round_inverse)
  next
    case 3
    with Cons.IH(3) show ?case by (simp add: round_inverse)
  next
    case 4
    with Cons.IH(3,4) show ?case by (simp add: round_inverse)
  }
qed simp_all

lemma feistel_rounds_ok:
  assumes "aes_ok aes" and "length master = 16"
  shows "\<forall>kr\<in>set (zip (round_keys (feistel_new aes master)) (rounds (feistel_new aes master))). round_ok kr"
  using assms by (auto simp: feistel_new_def Let_def round_ok_def aes_ok_def set_zip simp del: upt_rec_numeral)

lemma feistel_inverse:
  assumes "aes_ok aes" and "length master = 16" and "length block = 32"
  defines "prp \<equiv> feistel_new aes master"
  shows "length (encrypt_block prp block) = 32" and "decrypt_block prp (encrypt_block prp block) = block"
    and "length (decrypt_block prp block) = 32" and "encrypt_block prp (decrypt_block prp block) = block"
proof -
  have h: "halves (take 16 block, drop 16 block)" using assms(3) by (simp add: halves_def)
  note inv = rounds_inverse [OF feistel_rounds_ok [OF assms(1,2)] h, folded prp_def]
  let ?E = "foldl (\<lambda>lr kr. encrypt_round kr lr) (take 16 block, drop 16 block) (zip (round_keys prp) (rounds prp))"
  let ?D = "foldl (\<lambda>lr kr. decrypt_round kr lr) (take 16 block, drop 16 block) (rev (zip (round_keys prp) (rounds prp)))"
  obtain l r where e: "?E = (l, r)" by (cases ?E)
  obtain l' r' where d: "?D = (l', r')" by (cases ?D)
  have len: "length l = 16" "length r = 16" "length l' = 16" "length r' = 16"
    using inv(1,3) e d by (simp_all add: halves_def)
  show "length (encrypt_block prp block) = 32" "length (decrypt_block prp block) = 32"
    using e d len by (simp_all add: encrypt_block_def decrypt_block_def)
  show "decrypt_block prp (encrypt_block prp block) = block"
    using inv(2) e len by (simp add: encrypt_block_def decrypt_block_def)
  show "encrypt_block prp (decrypt_block prp block) = block"
    using inv(4) d len by (simp add: encrypt_block_def decrypt_block_def)
qed

text \<open>
  C21.  The Feistel construction is a permutation of the 32-byte blocks: decryption undoes encryption and encryption
  undoes decryption, for any block function in the place of AES.
\<close>

theorem feistel_permutation:
  assumes "aes_ok aes" and "length master = 16" and "length block = 32"
  shows "length (encrypt_block (feistel_new aes master) block) = 32 \<and>
    decrypt_block (feistel_new aes master) (encrypt_block (feistel_new aes master) block) = block \<and>
    encrypt_block (feistel_new aes master) (decrypt_block (feistel_new aes master) block) = block"
  using feistel_inverse [OF assms] by simp

theorem feistel_permutation_witness:
  "decrypt_block (feistel_new (\<lambda>key. map (\<lambda>b. b * b + hd key)) (replicate 16 9))
     (encrypt_block (feistel_new (\<lambda>key. map (\<lambda>b. b * b + hd key)) (replicate 16 9)) (replicate 32 5)) = replicate 32 5"
  using feistel_permutation [of "\<lambda>key. map (\<lambda>b. b * b + hd key)" "replicate 16 9" "replicate 32 5"]
  by (simp add: aes_ok_def)

section \<open>Items survive the field encoding\<close>

text \<open>
  What the test relies on of the conversions: \<open>from_bytes\<close> ignores the top bit, and \<open>as_bytes\<close> writes 32 bytes
  that \<open>from_bytes\<close> reads back.
\<close>

definition clear_top :: "bytes \<Rightarrow> bytes" where
  "clear_top bs = bs[31 := bs ! 31 AND 0x7F]"

definition field_bytes_ok :: "'f field_ops \<Rightarrow> bool" where
  "field_bytes_ok F = ((\<forall>x. length (as_bytes F x) = 32 \<and> of_bytes F (as_bytes F x) = x) \<and>
     (\<forall>b. length b = 32 \<longrightarrow> of_bytes F (clear_top b) = of_bytes F b))"

text \<open>
  An encrypted item whose 255 low bits are the canonical encoding of a field element, in the code those below \<open>2 ^ 255 - 19\<close>:
  the other encodings are reduced, and lost.
\<close>

definition canonical_item :: "'f field_ops \<Rightarrow> feistel \<Rightarrow> bytes \<Rightarrow> bool" where
  "canonical_item F permut item \<longleftrightarrow>
     as_bytes F (encode_item F permut item) = clear_top (encrypt_block permut (item @ replicate 16 0))"

lemma top_bit_cases: "b AND 0x7F = b \<or> (b AND 0x7F) OR 0x80 = (b :: u8)"
proof -
  have top_eq: "(0x80 :: u8) = push_bit 7 1" and low_eq: "(0x7F :: u8) = mask 7"
    by (simp_all add: mask_eq_exp_minus_1)
  have top: "bit (0x80 :: u8) i \<longleftrightarrow> i = 7" and low: "bit (0x7F :: u8) i \<longleftrightarrow> i < 7" if "i < 8" for i
    unfolding top_eq low_eq bit_push_bit_iff bit_mask_iff bit_1_iff using that by auto
  have last: "i < 8 \<Longrightarrow> \<not> i < 7 \<Longrightarrow> i = 7" for i :: nat by simp
  show ?thesis
  proof (cases "bit b 7")
    case True
    have "bit ((b AND 0x7F) OR 0x80) j = bit b j" if "j < 8" for j
      unfolding bit_or_iff bit_and_iff top [OF that] low [OF that] using True last [OF that] by auto
    then show ?thesis by (intro disjI2 byte_eqI)
  next
    case False
    have "bit (b AND 0x7F) j = bit b j" if "j < 8" for j
      unfolding bit_and_iff low [OF that] using False last [OF that] by auto
    then show ?thesis by (intro disjI1 byte_eqI)
  qed
qed

lemma clear_top_set: "clear_top (bs[31 := bs ! 31 OR 0x80]) = clear_top bs"
proof (cases "31 < length bs")
  case True
  have "(x OR 0x80) AND 0x7F = x AND (0x7F :: u8)" for x by (simp add: word_ao_dist)
  with True show ?thesis by (simp add: clear_top_def)
qed (simp add: clear_top_def list_update_beyond)

text \<open>Every item that the test finds is encoded as the field element, and the test finds an item whose encoding is canonical.\<close>

lemma check_bytes_sound:
  assumes "field_bytes_ok F" and "aes_ok aes" and "length master = 16" and "permut = feistel_new aes master"
    and "check_bytes (as_bytes F r) permut = Some item"
  shows "encode_item F permut item = r" and "length item = 16"
proof -
  note inv = feistel_inverse [OF assms(2,3), folded assms(4)]
  let ?B = "as_bytes F r"
  have B: "length ?B = 32" "of_bytes F ?B = r" using assms(1) by (simp_all add: field_bytes_ok_def)
  have found: "encode_item F permut (take 16 (decrypt_block permut b)) = of_bytes F b \<and> length (take 16 (decrypt_block permut b)) = 16"
    if "length b = 32" "drop 16 (decrypt_block permut b) = replicate 16 0" for b
  proof -
    have "decrypt_block permut b = take 16 (decrypt_block permut b) @ replicate 16 0" using that(2) by (metis append_take_drop_id)
    then show ?thesis using inv(3,4) [OF that(1)] by (simp add: encode_item_def)
  qed
  have nc: "length (?B[31 := ?B ! 31 OR 0x80]) = 32" "of_bytes F (?B[31 := ?B ! 31 OR 0x80]) = r"
    using assms(1) B clear_top_set [of ?B] unfolding field_bytes_ok_def by (simp, metis length_list_update)
  from assms(5) have "(item = take 16 (decrypt_block permut ?B) \<and> drop 16 (decrypt_block permut ?B) = replicate 16 0) \<or>
      (item = take 16 (decrypt_block permut (?B[31 := ?B ! 31 OR 0x80])) \<and>
        drop 16 (decrypt_block permut (?B[31 := ?B ! 31 OR 0x80])) = replicate 16 0)"
    by (auto simp: check_bytes_def Let_def split: if_splits)
  then show "encode_item F permut item = r" "length item = 16"
    using found [OF B(1)] found [OF nc(1)] B(2) nc(2) by auto
qed

lemma check_bytes_finds:
  assumes "aes_ok aes" and "length master = 16" and "length item = 16" and "permut = feistel_new aes master"
    and "canonical_item F permut item"
  shows "check_bytes (as_bytes F (encode_item F permut item)) permut \<noteq> None"
proof -
  let ?E = "encrypt_block permut (item @ replicate 16 0)"
  note inv = feistel_inverse [OF assms(1,2), folded assms(4)]
  have E: "length ?E = 32" "decrypt_block permut ?E = item @ replicate 16 0" using inv assms(3) by simp_all
  define B where "B = clear_top ?E"
  have B: "as_bytes F (encode_item F permut item) = B" "length B = 32"
    using assms(5) E(1) by (simp_all add: B_def canonical_item_def clear_top_def)
  show ?thesis
  proof (cases "drop 16 (decrypt_block permut B) = replicate 16 0")
    case True
    then show ?thesis using B(1) by (simp add: check_bytes_def Let_def)
  next
    case False
    then have "B \<noteq> ?E" using E(2) assms(3) by auto
    then have "?E ! 31 AND 0x7F \<noteq> ?E ! 31" by (auto simp: B_def clear_top_def)
    then have "B[31 := B ! 31 OR 0x80] = ?E"
      using top_bit_cases [of "?E ! 31"] E(1) by (auto simp: B_def clear_top_def)
    with False E(2) assms(3) B(1) show ?thesis by (simp add: check_bytes_def Let_def)
  qed
qed

lemma check_item_sound:
  assumes "field_bytes_ok F" and "aes_ok aes" and "length master = 16" and "permut = feistel_new aes master"
    and "check_item F r0 r1 permut = Some item"
  shows "encode_item F permut item \<in> {r0, - r0, r1, - r1}" and "length item = 16"
  using assms(5) check_bytes_sound [OF assms(1-4)] by (auto simp: check_item_def split: option.splits)

lemma check_item_finds:
  assumes "check_bytes (as_bytes F r) permut \<noteq> None" and "r \<in> {r0, - r0, r1, - r1}"
  shows "check_item F r0 r1 permut \<noteq> None"
  using assms by (auto simp: check_item_def split: option.splits)

section \<open>The conversions of the code\<close>

text \<open>
  The numbers that stand for the field elements of the code: reading takes the low 255 bits and reduces them, writing is little-endian.
  They satisfy what is asked of the conversions, and an encoding is canonical exactly if its low 255 bits are below the prime.
\<close>

definition field_prime :: nat where
  "field_prime = 2 ^ 255 - 19"

definition fe_from_bytes :: "bytes \<Rightarrow> nat" where
  "fe_from_bytes bs = val 256 (map unat bs) mod 2 ^ 255 mod field_prime"

definition fe_as_bytes :: "nat \<Rightarrow> bytes" where
  "fe_as_bytes x = map of_nat (base_digits 256 32 (x mod field_prime))"

lemma proper_unat: "proper 256 (map unat (bs :: bytes))"
  using unat_u8_less by (simp add: proper_def list_all_iff)

lemma unat_low_bits: "unat (b AND 0x7F :: u8) = unat b mod 128"
proof -
  have "b AND 0x7F = take_bit 7 b" by (simp add: take_bit_eq_mask mask_eq_exp_minus_1)
  then show ?thesis by (simp add: take_bit_eq_mod unat_mod)
qed

lemma val_clear_top:
  assumes "length bs = 32"
  shows "val 256 (map unat (clear_top bs)) = val 256 (map unat bs) mod 2 ^ 255"
proof -
  have split: "bs = take 31 bs @ [bs ! 31]" and "clear_top bs = take 31 bs @ [bs ! 31 AND 0x7F]"
    using assms by (simp_all add: clear_top_def take_Suc_conv_app_nth [symmetric] list_eq_iff_nth_eq nth_append nth_list_update)
  let ?v = "val 256 (map unat (take 31 bs))"
  have low: "?v < 256 ^ 31" using val_less [OF proper_unat, of "take 31 bs"] assms by simp
  have "val 256 (map unat bs) = ?v + 256 ^ 31 * unat (bs ! 31)"
    by (subst split) (use assms in \<open>simp add: val_append\<close>)
  moreover have "val 256 (map unat (clear_top bs)) = ?v + 256 ^ 31 * (unat (bs ! 31) mod 128)"
    using \<open>clear_top bs = _\<close> assms by (simp add: val_append unat_low_bits)
  moreover have "(2 :: nat) ^ 255 = 256 ^ 31 * 128" by simp
  ultimately show ?thesis
    using low by (simp only: mod_mult2_eq mod_mult_self2 div_mult_self2) simp
qed

lemma fe_bytes_value: "val 256 (map unat (fe_as_bytes x)) = x mod field_prime"
proof -
  have "field_prime < 256 ^ 32" "0 < field_prime" by (simp_all add: field_prime_def)
  then have "x mod field_prime < 256 ^ 32" by (meson less_trans mod_less_divisor)
  moreover have "map unat (fe_as_bytes x) = base_digits 256 32 (x mod field_prime)"
    using proper_base_digits [of 256 32 "x mod field_prime"]
    by (auto simp: fe_as_bytes_def proper_def list_all_iff unat_of_nat intro!: map_idI)
  ultimately show ?thesis by (simp add: val_base_digits)
qed

lemma fe_conversions:
  shows "x < field_prime \<Longrightarrow> fe_from_bytes (fe_as_bytes x) = x" and "length (fe_as_bytes x) = 32"
    and "length bs = 32 \<Longrightarrow> fe_from_bytes (clear_top bs) = fe_from_bytes bs"
proof -
  have "x < 2 ^ 255" if "x < field_prime" using that by (simp add: field_prime_def)
  then show "x < field_prime \<Longrightarrow> fe_from_bytes (fe_as_bytes x) = x"
    by (simp add: fe_from_bytes_def fe_bytes_value)
  show "length (fe_as_bytes x) = 32" by (simp add: fe_as_bytes_def length_base_digits)
  show "length bs = 32 \<Longrightarrow> fe_from_bytes (clear_top bs) = fe_from_bytes bs"
    by (simp add: fe_from_bytes_def val_clear_top)
qed

lemma fe_canonical:
  assumes "length bs = 32"
  shows "fe_as_bytes (fe_from_bytes bs) = clear_top bs \<longleftrightarrow> val 256 (map unat bs) mod 2 ^ 255 < field_prime"
proof
  let ?u = "val 256 (map unat bs) mod 2 ^ 255"
  have len: "length (clear_top bs) = 32" using assms by (simp add: clear_top_def)
  have pos: "0 < field_prime" by (simp add: field_prime_def)
  show "?u < field_prime" if "fe_as_bytes (fe_from_bytes bs) = clear_top bs"
    using fe_bytes_value [of "fe_from_bytes bs"] that val_clear_top [OF assms] pos
    by (metis fe_from_bytes_def mod_less_divisor)
  have "base_digits 256 32 ?u = map unat (clear_top bs)"
    using base_digits_val [OF proper_unat, of "clear_top bs"] len val_clear_top [OF assms] by simp
  then show "fe_as_bytes (fe_from_bytes bs) = clear_top bs" if "?u < field_prime"
    using that by (simp add: fe_as_bytes_def fe_from_bytes_def comp_def)
qed

end
