(* ===== verification/Psu_Elligator.thy ===== *)
theory Psu_Elligator
  imports Psu_Mapping
begin

text \<open>
  The maps between field and curve of \<^verbatim>\<open>src/mapping.rs\<close>, after Elligator 2, over a field \<open>'f\<close> with the operations of
  \<open>Psu_Mapping\<close>.  In the code it is the field of \<open>2 ^ 255 - 19\<close> elements.  A Montgomery point is its \<open>u\<close> coordinate; the
  code holds its canonical bytes, which \<open>from_bytes\<close> reads back.
\<close>

section \<open>The two maps\<close>

definition FE_A :: "'f::field" where
  "FE_A = 486662"

definition FE_Z :: "'f::field" where
  "FE_Z = 2"

definition hash_to_field :: "'f field_ops \<Rightarrow> (bytes \<Rightarrow> bytes) \<Rightarrow> bytes \<Rightarrow> 'f" where
  "hash_to_field F digest input = of_bytes F (digest input)"

definition field_to_mont :: "'f::field field_ops \<Rightarrow> 'f \<Rightarrow> 'f" where
  "field_to_mont F r =
     (let u_squared = r * r;
          zu = FE_Z * u_squared;
          v = zu + 1;
          v_squared = v * v;
          t3 = ((FE_A * FE_A) * zu - v_squared) * FE_A;
          t1 = v_squared * v;
          (is_sq, inv) = sqrt_ratio_i F 1 (t3 * t1);
          u = (if is_sq then 1 else u_squared * (- FE_Z * sqrt_m1 F));
          t1_squared = inv * inv
      in - u * FE_A * t3 * v_squared * t1_squared)"

definition mont_to_field :: "'f::field field_ops \<Rightarrow> 'f \<Rightarrow> ('f \<times> 'f) option" where
  "mont_to_field F u =
     (if u = - FE_A then None
      else
        let t = u + FE_A;
            zu = - FE_Z * u;
            (is_sq, r) = sqrt_ratio_i F 1 (zu * t)
        in if \<not> is_sq then None
           else
             let tr = t * r; ur = u * r;
                 r0 = (if is_negative F tr then - tr else tr);
                 r1 = (if is_negative F ur then - ur else ur)
             in Some (r0, r1))"

definition hash_to_curve :: "'f::field field_ops \<Rightarrow> (bytes \<Rightarrow> bytes) \<Rightarrow> bytes \<Rightarrow> 'f" where
  "hash_to_curve F digest input = field_to_mont F (hash_to_field F digest input)"

text \<open>
  The maps to and from points in Edwards form: \<open>to_edwards\<close> is the conversion of a \<open>u\<close> coordinate with the sign zero, and
  \<open>to_montgomery\<close> that of a point.
\<close>

definition field_to_edwards :: "'f::field field_ops \<Rightarrow> ('f \<Rightarrow> 'p option) \<Rightarrow> 'f \<Rightarrow> 'p run" where
  "field_to_edwards F to_edwards r = (case to_edwards (field_to_mont F r) of Some p \<Rightarrow> Inr p | None \<Rightarrow> Inl Panic)"

definition edwards_to_field :: "'f::field field_ops \<Rightarrow> ('p \<Rightarrow> 'f) \<Rightarrow> 'p \<Rightarrow> ('f \<times> 'f) option" where
  "edwards_to_field F to_montgomery p = mont_to_field F (to_montgomery p)"

section \<open>What the maps rely on\<close>

text \<open>
  As \<open>sqrt_ratio_i\<close> documents it; two is not a square, and \<open>486662\<close> is not zero.
\<close>

definition field_ops_ok :: "'f::field field_ops \<Rightarrow> bool" where
  "field_ops_ok F = (sqrt_m1 F * sqrt_m1 F = - 1 \<and> (\<forall>x :: 'f. x * x \<noteq> FE_Z) \<and> (FE_A :: 'f) \<noteq> 0 \<and>
     (\<forall>u. u \<noteq> 0 \<longrightarrow> sqrt_ratio_i F u 0 = (False, 0)) \<and>
     (\<forall>u v is_sq r. v \<noteq> 0 \<and> sqrt_ratio_i F u v = (is_sq, r) \<longrightarrow>
        (is_sq \<longleftrightarrow> (\<exists>s. s * s * v = u)) \<and> r * r * v = (if is_sq then u else sqrt_m1 F * u)))"

lemma field_ops_props:
  fixes F :: "'f::field field_ops" and x :: 'f
  assumes "field_ops_ok F"
  shows "sqrt_m1 F * sqrt_m1 F = - 1" "x * x \<noteq> FE_Z" "(FE_A :: 'f) \<noteq> 0" "u \<noteq> 0 \<Longrightarrow> sqrt_ratio_i F u 0 = (False, 0)"
  using assms by (simp_all add: field_ops_ok_def)

lemma sqrt_ratio:
  assumes "field_ops_ok F" and "v \<noteq> 0" and "sqrt_ratio_i F u v = (is_sq, r)"
  shows "is_sq \<longleftrightarrow> (\<exists>s. s * s * v = u)" and "is_sq \<Longrightarrow> r * r * v = u" and "\<not> is_sq \<Longrightarrow> r * r * v = sqrt_m1 F * u"
  using assms unfolding field_ops_ok_def by (metis (full_types))+

text \<open>The two values that are inverted do not vanish.\<close>

lemma v_nonzero:
  fixes F :: "'f::field field_ops" and r :: 'f
  assumes "field_ops_ok F"
  shows "FE_Z * (r * r) + 1 \<noteq> (0 :: 'f)"
proof
  assume z: "FE_Z * (r * r) + 1 = (0 :: 'f)"
  then have r: "r \<noteq> 0" by auto
  have "FE_Z * (r * r) = - 1" using z by (simp add: add_eq_0_iff2)
  then have "(sqrt_m1 F / r) * (sqrt_m1 F / r) = FE_Z"
    using r field_ops_props(1) [OF assms] by (simp add: field_simps)
  with field_ops_props(2) [OF assms] show False by blast
qed

lemma t3_nonzero:
  fixes F :: "'f::field field_ops" and r :: 'f
  assumes "field_ops_ok F"
  defines "v \<equiv> FE_Z * (r * r) + 1"
  shows "((FE_A * FE_A) * (FE_Z * (r * r)) - v * v) * FE_A \<noteq> (0 :: 'f)"
proof
  assume "((FE_A * FE_A) * (FE_Z * (r * r)) - v * v) * FE_A = 0"
  then have z: "v * v = (FE_A * FE_A) * (FE_Z * (r * r))" using field_ops_props(3) [OF assms(1)] by simp
  have v: "v \<noteq> 0" using v_nonzero [OF assms(1)] by (simp add: v_def)
  then have "r \<noteq> 0" using z by auto
  then have "(v / (FE_A * r)) * (v / (FE_A * r)) = FE_Z"
    using z field_ops_props(3) [OF assms(1)] by (simp add: field_simps)
  with field_ops_props(2) [OF assms(1)] show False by blast
qed

lemma inverted: "v \<noteq> 0 \<Longrightarrow> i * i * (t * (v * v * v)) = w \<Longrightarrow> t * (v * v) * (i * i) = w / (v :: 'f::field)"
  by (simp add: nonzero_eq_divide_eq ac_simps)

text \<open>The map in closed form: \<open>- A / v\<close>, or \<open>- A\<close> minus that.\<close>

lemma field_to_mont_value:
  fixes F :: "'f::field field_ops" and r :: 'f
  assumes "field_ops_ok F"
  defines "v \<equiv> FE_Z * (r * r) + 1"
  defines "t \<equiv> ((FE_A * FE_A) * (FE_Z * (r * r)) - v * v) * FE_A * (v * v * v)"
  shows "field_to_mont F r = (if \<exists>s. s * s * t = 1 then - FE_A / v else - FE_A * FE_Z * (r * r) / v)"
proof -
  let ?t3 = "((FE_A * FE_A) * (FE_Z * (r * r)) - v * v) * FE_A"
  have v: "v \<noteq> 0" and t3: "?t3 \<noteq> 0" using v_nonzero t3_nonzero assms by auto
  then have t: "t \<noteq> 0" by (simp add: t_def)
  obtain is_sq inv where s: "sqrt_ratio_i F 1 t = (is_sq, inv)" by (cases "sqrt_ratio_i F 1 t")
  note q = sqrt_ratio [OF assms(1) t s]
  have val: "field_to_mont F r =
      - (if is_sq then 1 else r * r * (- FE_Z * sqrt_m1 F)) * FE_A * ?t3 * (v * v) * (inv * inv)"
    using s by (simp add: field_to_mont_def Let_def v_def t_def)
  show ?thesis
  proof (cases is_sq)
    case True
    have "?t3 * (v * v) * (inv * inv) = 1 / v" by (rule inverted [OF v q(2) [OF True, unfolded t_def]])
    then have "field_to_mont F r = - FE_A / v" using True unfolding val by (simp add: mult.assoc)
    with True q(1) show ?thesis by simp
  next
    case False
    have "?t3 * (v * v) * (inv * inv) = sqrt_m1 F / v" by (rule inverted [OF v q(3) [OF False, unfolded t_def mult.right_neutral]])
    then have "field_to_mont F r = (sqrt_m1 F * sqrt_m1 F) * (FE_A * FE_Z * (r * r)) / v"
      using False unfolding val by (simp add: mult.assoc)
    with False q(1) field_ops_props(1) [OF assms(1)] show ?thesis by simp
  qed
qed


section \<open>Images are points of the curve\<close>

definition on_curve :: "'f::field \<Rightarrow> bool" where
  "on_curve u = (\<exists>y. y * y = u * u * u + FE_A * (u * u) + u)"

text \<open>At \<open>- A / v\<close> the equation of the curve has the value \<open>t3 / v ^ 3\<close>, at the other candidate \<open>Z r ^ 2\<close> times it.\<close>

lemma curve_at:
  fixes v :: "'f::field"
  assumes "v \<noteq> 0" and "v = z + 1"
  shows "(- FE_A / v) * (- FE_A / v) * (- FE_A / v) + FE_A * ((- FE_A / v) * (- FE_A / v)) + - FE_A / v =
      ((FE_A * FE_A) * z - v * v) * FE_A / (v * v * v)" (is ?one)
    and "(- FE_A * z / v) * (- FE_A * z / v) * (- FE_A * z / v) + FE_A * ((- FE_A * z / v) * (- FE_A * z / v)) + - FE_A * z / v =
      z * (((FE_A * FE_A) * z - v * v) * FE_A / (v * v * v))" (is ?two)
proof -
  have z: "z = v - 1" using assms(2) by simp
  show ?one ?two using assms(1) unfolding z by (simp_all add: field_simps)
qed


lemma field_to_mont_on_curve:
  fixes F :: "'f::field field_ops" and r :: 'f
  assumes "field_ops_ok F"
  shows "on_curve (field_to_mont F r)"
proof -
  define v where "v = FE_Z * (r * r) + 1"
  define t3 where "t3 = ((FE_A * FE_A) * (FE_Z * (r * r)) - v * v) * FE_A"
  have v: "v \<noteq> 0" "t3 * (v * v * v) \<noteq> 0" using v_nonzero [OF assms] t3_nonzero [OF assms] by (simp_all add: v_def t3_def)
  note at = curve_at [OF v(1) v_def, folded t3_def]
  note mont = field_to_mont_value [OF assms, of r, folded v_def, folded t3_def]
  show ?thesis
  proof (cases "\<exists>s. s * s * (t3 * (v * v * v)) = 1")
    case True
    then obtain s where s: "s * s * (t3 * (v * v * v)) = 1" by blast
    then have "s \<noteq> 0" by auto
    then have "(1 / (s * (v * v * v))) * (1 / (s * (v * v * v))) = t3 / (v * v * v)" using s v(1) by (simp add: field_simps)
    with at(1) True mont show ?thesis unfolding on_curve_def by metis
  next
    case False
    obtain is_sq w where w: "sqrt_ratio_i F 1 (t3 * (v * v * v)) = (is_sq, w)" by fastforce
    with False have w2: "w * w * (t3 * (v * v * v)) = sqrt_m1 F"
      using sqrt_ratio(1,3) [OF assms v(2) w] by simp
    have i: "sqrt_m1 F * sqrt_m1 F = - 1" using field_ops_props(1) [OF assms] .
    then have "w \<noteq> 0" using w2 by auto
    let ?y = "(1 + sqrt_m1 F) * r / (w * (v * v * v))"
    have two: "(1 + sqrt_m1 F) * (1 + sqrt_m1 F) = FE_Z * sqrt_m1 F" using i by (simp add: algebra_simps FE_Z_def)
    have "?y * ?y = (1 + sqrt_m1 F) * (1 + sqrt_m1 F) * (r * r) / (w * w * (v * v * v) * (v * v * v))"
      by (simp only: times_divide_times_eq ac_simps)
    also have "\<dots> = FE_Z * (r * r) * (t3 / (v * v * v))"
      unfolding two unfolding w2 [symmetric] using \<open>w \<noteq> 0\<close> v(1) by (simp add: field_simps)
    finally have y: "?y * ?y = FE_Z * (r * r) * (t3 / (v * v * v))" .
    have "field_to_mont F r = - FE_A * (FE_Z * (r * r)) / v" using False mont by (simp add: mult.assoc)
    then show ?thesis using y unfolding on_curve_def by (simp only: at(2)) blast
  qed
qed

section \<open>The inverse map\<close>

text \<open>The inverse map finds, up to the sign, \<open>t w\<close> and \<open>u w\<close> for every root \<open>w\<close> of \<open>1 / (- Z u t)\<close>.\<close>

lemma mont_to_field_value:
  fixes F :: "'f::field field_ops"
  assumes "field_ops_ok F" and "u \<noteq> 0" and "u + FE_A \<noteq> 0" and w: "w * w * (- FE_Z * u * (u + FE_A)) = 1"
  shows "\<exists>r0 r1. mont_to_field F u = Some (r0, r1) \<and> (r0 = (u + FE_A) * w \<or> - r0 = (u + FE_A) * w) \<and> (r1 = u * w \<or> - r1 = u * w)"
proof -
  let ?q = "- FE_Z * u * (u + FE_A)"
  have q: "?q \<noteq> 0" using w by auto
  obtain is_sq c where c: "sqrt_ratio_i F 1 ?q = (is_sq, c)" by fastforce
  have sq: "is_sq" using sqrt_ratio(1) [OF assms(1) q c] w by blast
  have "c * c * ?q = w * w * ?q" using sqrt_ratio(2) [OF assms(1) q c sq] w by simp
  then have "c * c = w * w" by (rule iffD1 [OF mult_right_cancel [OF q]])
  then have "(c - w) * (c + w) = 0" by (simp add: algebra_simps)
  then have cw: "c = w \<or> c = - w" by (auto simp: add_eq_0_iff2)
  have "u \<noteq> - FE_A" using assms(3) by auto
  then show ?thesis using sq c cw by (auto simp: mont_to_field_def Let_def)
qed

lemma mont_field_round_trip:
  fixes F :: "'f::field field_ops" and r :: 'f
  assumes "field_ops_ok F" and "r \<noteq> 0"
  shows "\<exists>r0 r1. mont_to_field F (field_to_mont F r) = Some (r0, r1) \<and> r \<in> {r0, - r0, r1, - r1}"
proof -
  define v where "v = FE_Z * (r * r) + 1"
  have v: "v \<noteq> 0" using v_nonzero [OF assms(1)] by (simp add: v_def)
  have A: "FE_A \<noteq> (0 :: 'f)" and Z: "FE_Z \<noteq> (0 :: 'f)"
    using field_ops_props(2) [OF assms(1), of 0] field_ops_props(3) [OF assms(1)] by auto
  have v1: "v - 1 = FE_Z * (r * r)" by (simp add: v_def)
  let ?w = "v / (FE_Z * FE_A * r)"
  consider "field_to_mont F r = - FE_A / v" | "field_to_mont F r = - FE_A * FE_Z * (r * r) / v"
    using field_to_mont_value [OF assms(1), of r, folded v_def] by metis
  then show ?thesis
  proof cases
    case 1
    have t: "- FE_A / v + FE_A = FE_A * FE_Z * (r * r) / v" using v unfolding mult.assoc v1 [symmetric] by (simp add: field_simps)
    have "?w * ?w * (- FE_Z * (- FE_A / v) * (- FE_A / v + FE_A)) = 1" unfolding t using A Z v assms(2) by (simp add: field_simps)
    moreover have "- FE_A / v \<noteq> 0" "- FE_A / v + FE_A \<noteq> 0" using A Z v assms(2) unfolding t by simp_all
    moreover have r: "(- FE_A / v + FE_A) * ?w = r" unfolding t using A Z v assms(2) by (simp add: field_simps)
    ultimately obtain r0 r1 where "mont_to_field F (- FE_A / v) = Some (r0, r1)" "r0 = r \<or> - r0 = r"
      using mont_to_field_value [OF assms(1), of "- FE_A / v" ?w] unfolding r by blast
    then show ?thesis unfolding 1 by auto
  next
    case 2
    define u where "u = - FE_A * FE_Z * (r * r) / v"
    have t: "u + FE_A = FE_A / v" using v unfolding u_def mult.assoc v1 [symmetric] by (simp add: field_simps)
    have "?w * ?w * (- FE_Z * u * (u + FE_A)) = 1" unfolding t using A Z v assms(2) by (simp add: field_simps u_def)
    moreover have "u \<noteq> 0" "u + FE_A \<noteq> 0" using A Z v assms(2) unfolding t by (simp_all add: u_def)
    moreover have r: "u * ?w = - r" using A Z v assms(2) by (simp add: field_simps u_def)
    ultimately obtain r0 r1 where "mont_to_field F u = Some (r0, r1)" "r1 = - r \<or> - r1 = - r"
      using mont_to_field_value [OF assms(1), of u ?w] unfolding r by blast
    then show ?thesis unfolding 2 u_def [symmetric] by auto
  qed
qed

lemma mont_to_field_zero:
  fixes F :: "'f::field field_ops"
  assumes "field_ops_ok F"
  shows "mont_to_field F (field_to_mont F 0) = None"
  using field_to_mont_value [OF assms, of 0] field_ops_props(4) [OF assms, of 1]
  by (auto simp: mont_to_field_def Let_def)

section \<open>Preimages\<close>

text \<open>Of the two candidates for the image of a field element only one is on the curve, since their quotient is not a square.\<close>

lemma candidates_exclusive:
  fixes F :: "'f::field field_ops" and r :: 'f
  assumes "field_ops_ok F" and "r \<noteq> 0"
  defines "v \<equiv> FE_Z * (r * r) + 1"
  shows "\<not> (on_curve (- FE_A / v) \<and> on_curve (- FE_A * (FE_Z * (r * r)) / v))"
proof
  let ?f = "((FE_A * FE_A) * (FE_Z * (r * r)) - v * v) * FE_A / (v * v * v)"
  have v: "v \<noteq> 0" and f: "?f \<noteq> 0" using v_nonzero [OF assms(1)] t3_nonzero [OF assms(1), of r] by (simp_all add: v_def)
  assume "on_curve (- FE_A / v) \<and> on_curve (- FE_A * (FE_Z * (r * r)) / v)"
  then obtain y z where y: "y * y = ?f" and z: "z * z = FE_Z * (r * r) * ?f"
    unfolding on_curve_def curve_at [OF v meta_eq_to_obj_eq [OF v_def]] by blast
  have "y \<noteq> 0" using y f by auto
  moreover have "z * z = FE_Z * (r * r) * (y * y)" unfolding z y ..
  ultimately have "(z / (r * y)) * (z / (r * y)) = FE_Z" using assms(2) by (simp add: field_simps)
  with field_ops_props(2) [OF assms(1)] show False by blast
qed

lemma mont_to_field_root:
  assumes "field_ops_ok F" and "mont_to_field F u = Some (r0, r1)"
  obtains c where "c * c * (- FE_Z * u * (u + FE_A)) = 1" and "r0 \<in> {(u + FE_A) * c, - ((u + FE_A) * c)}" and "r1 \<in> {u * c, - (u * c)}"
proof -
  let ?q = "- FE_Z * u * (u + FE_A)"
  obtain is_sq c where c: "sqrt_ratio_i F 1 ?q = (is_sq, c)" by fastforce
  have sq: "is_sq" using assms(2) c by (auto simp: mont_to_field_def Let_def split: if_splits)
  then have "?q \<noteq> 0" using field_ops_props(4) [OF assms(1), of 1] c by auto
  then have "c * c * ?q = 1" using sqrt_ratio(2) [OF assms(1) _ c sq] by simp
  moreover have "r0 \<in> {(u + FE_A) * c, - ((u + FE_A) * c)}" "r1 \<in> {u * c, - (u * c)}"
    using assms(2) c sq by (auto simp: mont_to_field_def Let_def split: if_splits)
  ultimately show ?thesis by (rule that)
qed

text \<open>The elements that the inverse map returns are preimages, with both signs.\<close>

lemma field_to_mont_preimage:
  fixes F :: "'f::field field_ops"
  assumes "field_ops_ok F" and "on_curve u" and "mont_to_field F u = Some (r0, r1)" and "s \<in> {r0, - r0, r1, - r1}"
  shows "field_to_mont F s = u"
proof -
  obtain c where c: "c * c * (- FE_Z * u * (u + FE_A)) = 1" "r0 \<in> {(u + FE_A) * c, - ((u + FE_A) * c)}" "r1 \<in> {u * c, - (u * c)}"
    using mont_to_field_root [OF assms(1,3)] .
  have A: "FE_A \<noteq> (0 :: 'f)" and Z: "FE_Z \<noteq> (0 :: 'f)"
    using field_ops_props(2) [OF assms(1), of 0] field_ops_props(3) [OF assms(1)] by auto
  have nz: "u \<noteq> 0" "u + FE_A \<noteq> 0" "c \<noteq> 0" using c(1) by auto
  define w where "w = FE_Z * (s * s)"
  have sq: "s * s = (u + FE_A) * (u + FE_A) * (c * c) \<or> s * s = u * u * (c * c)" using c(2,3) assms(4) by auto
  have "- (c * c * (FE_Z * u * (u + FE_A))) = c * c * (- FE_Z * u * (u + FE_A))" by simp
  then have cc: "c * c * (FE_Z * u * (u + FE_A)) = - 1" unfolding c(1) by (metis minus_minus)
  have s: "s \<noteq> 0" using sq nz by auto
  have v: "w + 1 \<noteq> 0" using v_nonzero [OF assms(1), of s] by (simp add: w_def)
  from sq have "u = - FE_A / (w + 1) \<or> u = - FE_A * w / (w + 1)"
  proof
    assume "s * s = (u + FE_A) * (u + FE_A) * (c * c)"
    then have "w * u = (u + FE_A) * (c * c * (FE_Z * u * (u + FE_A)))" unfolding w_def by (simp only: ac_simps)
    then have "u * (w + 1) = - FE_A" unfolding cc by (simp add: algebra_simps)
    then have "u = - FE_A / (w + 1)" by (rule iffD2 [OF nonzero_eq_divide_eq [OF v]])
    then show ?thesis ..
  next
    assume "s * s = u * u * (c * c)"
    then have "w * (u + FE_A) = u * (c * c * (FE_Z * u * (u + FE_A)))" unfolding w_def by (simp only: ac_simps)
    then have "w * (u + FE_A) = - u" unfolding cc by simp
    moreover have "u * (w + 1) = w * (u + FE_A) - FE_A * w + u" by (simp add: algebra_simps)
    ultimately have "u * (w + 1) = - FE_A * w" by simp
    then have "u = - FE_A * w / (w + 1)" by (rule iffD2 [OF nonzero_eq_divide_eq [OF v]])
    then show ?thesis ..
  qed
  moreover have "field_to_mont F s = - FE_A / (w + 1) \<or> field_to_mont F s = - FE_A * w / (w + 1)"
    using field_to_mont_value [OF assms(1), of s] by (auto simp: w_def mult.assoc)
  moreover have "on_curve (field_to_mont F s)" by (rule field_to_mont_on_curve [OF assms(1)])
  moreover note candidates_exclusive [OF assms(1) s, folded w_def] assms(2)
  ultimately show ?thesis by metis
qed

text \<open>
  Which field elements the map sends to the same point: those that differ in the sign or, up to the sign, are inverse to each
  other after doubling.
\<close>

definition same_class :: "'f::field \<Rightarrow> 'f \<Rightarrow> bool" where
  "same_class r s = (s \<in> {r, - r, 1 / (FE_Z * r), - (1 / (FE_Z * r))})"

lemma field_to_mont_collision:
  fixes F :: "'f::field field_ops"
  assumes "field_ops_ok F" and "field_to_mont F r = field_to_mont F s"
  shows "same_class r s"
proof (cases "r = 0")
  case True
  then have "s = 0" using mont_field_round_trip [OF assms(1), of s] mont_to_field_zero [OF assms(1)] assms(2) by auto
  with True show ?thesis by (simp add: same_class_def)
next
  case False
  obtain r0 r1 where r: "mont_to_field F (field_to_mont F r) = Some (r0, r1)" "r \<in> {r0, - r0, r1, - r1}"
    using mont_field_round_trip [OF assms(1) False] by blast
  then have "s \<noteq> 0" using mont_to_field_zero [OF assms(1)] assms(2) by auto
  then have s: "s \<in> {r0, - r0, r1, - r1}" using mont_field_round_trip [OF assms(1)] r(1) assms(2) by fastforce
  let ?u = "field_to_mont F r"
  obtain c where c: "c * c * (- FE_Z * ?u * (?u + FE_A)) = 1" "r0 \<in> {(?u + FE_A) * c, - ((?u + FE_A) * c)}" "r1 \<in> {?u * c, - (?u * c)}"
    using mont_to_field_root [OF assms(1) r(1)] .
  have Z: "FE_Z \<noteq> (0 :: 'f)" using field_ops_props(2) [OF assms(1), of 0] by auto
  have "- (FE_Z * (((?u + FE_A) * c) * (?u * c))) = c * c * (- FE_Z * ?u * (?u + FE_A))" by (simp only: mult_minus_left mult_minus_right ac_simps)
  then have one: "FE_Z * (((?u + FE_A) * c) * (?u * c)) = - 1" unfolding c(1) by (metis minus_minus)
  have "FE_Z * (r0 * r1) = FE_Z * (((?u + FE_A) * c) * (?u * c)) \<or> FE_Z * (r0 * r1) = - (FE_Z * (((?u + FE_A) * c) * (?u * c)))"
    using c(2,3) by auto
  then have one: "FE_Z * (r0 * r1) = 1 \<or> FE_Z * (r0 * r1) = - 1" unfolding one by auto
  then have nz: "r0 \<noteq> 0" "r1 \<noteq> 0" by auto
  with one Z have "r1 = 1 / (FE_Z * r0) \<or> r1 = - (1 / (FE_Z * r0))" "r0 = 1 / (FE_Z * r1) \<or> r0 = - (1 / (FE_Z * r1))"
    by (auto simp: field_simps)
  moreover have "same_class a b" if "a \<in> {p, - p}" "b \<in> {p, - p, q, - q}" "q = 1 / (FE_Z * p) \<or> q = - (1 / (FE_Z * p))" for a b p q :: 'f
  proof -
    have "1 / (FE_Z * a) \<in> {1 / (FE_Z * p), - (1 / (FE_Z * p))}" using that(1) by auto
    with that show ?thesis unfolding same_class_def by auto
  qed
  from this [of r r0 s r1] this [of r r1 s r0] calculation r(2) s show ?thesis by blast
qed

section \<open>A small field\<close>

text \<open>The field of five elements, on which the properties are applied: \<open>2\<close> is not a square in it, and \<open>2 ^ 2 = - 1\<close>.\<close>

datatype gf5 = F0 | F1 | F2 | F3 | F4

fun gf5_nat :: "gf5 \<Rightarrow> nat" where
  "gf5_nat F0 = 0" | "gf5_nat F1 = 1" | "gf5_nat F2 = 2" | "gf5_nat F3 = 3" | "gf5_nat F4 = 4"

definition gf5_of :: "nat \<Rightarrow> gf5" where
  "gf5_of n = [F0, F1, F2, F3, F4] ! (n mod 5)"

instantiation gf5 :: field
begin
definition "0 = F0"
definition "1 = F1"
definition "a + b = gf5_of (gf5_nat a + gf5_nat b)"
definition "a * b = gf5_of (gf5_nat a * gf5_nat b)"
definition "- a = gf5_of (5 - gf5_nat a)"
definition "a - b = gf5_of (gf5_nat a + (5 - gf5_nat b))"
definition "inverse a = gf5_of (gf5_nat a ^ 3)"
definition "a div b = gf5_of (gf5_nat a * gf5_nat b ^ 3)"
lemmas gf5_defs = zero_gf5_def one_gf5_def plus_gf5_def times_gf5_def uminus_gf5_def minus_gf5_def inverse_gf5_def divide_gf5_def gf5_of_def
instance
proof
  fix a b c :: gf5
  show "a + b + c = a + (b + c)" "a * b * c = a * (b * c)" "(a + b) * c = a * c + b * c"
    by (cases a; cases b; cases c; simp add: gf5_defs)+
  show "a + b = b + a" "a * b = b * a" "a - b = a + - b" "a div b = a * inverse b"
    by (cases a; cases b; simp add: gf5_defs)+
  show "0 + a = a" "1 * a = a" "- a + a = 0" "(0 :: gf5) \<noteq> 1" "inverse (0 :: gf5) = 0" "a \<noteq> 0 \<Longrightarrow> inverse a * a = 1"
    by (cases a; simp add: gf5_defs)+
qed
end

definition gf5_ops :: "gf5 field_ops" where
  "gf5_ops = \<lparr>sqrt_m1 = F2,
     sqrt_ratio_i = (\<lambda>u v. if v = F0 then (u = F0, F0)
       else case u * v of F0 \<Rightarrow> (True, F0) | F1 \<Rightarrow> (True, inverse v) | F4 \<Rightarrow> (True, F2 * inverse v)
         | F2 \<Rightarrow> (False, F2 * inverse v) | F3 \<Rightarrow> (False, inverse v)),
     is_negative = (\<lambda>x. odd (gf5_nat x)), of_bytes = (\<lambda>b. gf5_of (length b)), as_bytes = (\<lambda>x. replicate (gf5_nat x) 0)\<rparr>"

lemma gf5_numeral: "FE_Z = F2" "FE_A = F2"
proof -
  have two: "(2 :: gf5) = F2" unfolding one_add_one [symmetric] by (simp add: gf5_defs)
  have "(5 :: gf5) = 2 + 2 + 1" by simp
  then have five: "(5 :: gf5) = 0" unfolding two by (simp add: gf5_defs)
  have "(486662 :: gf5) = 5 * 97332 + 2" by simp
  then have "(486662 :: gf5) = 2" unfolding five by simp
  with two show "FE_Z = F2" "FE_A = F2" by (simp_all add: FE_Z_def FE_A_def)
qed

lemma gf5_ops_ok: "field_ops_ok gf5_ops"
proof -
  have ex: "(\<exists>s. P s) \<longleftrightarrow> P F0 \<or> P F1 \<or> P F2 \<or> P F3 \<or> P F4" for P by (metis gf5.exhaust)
  have "v \<noteq> F0 \<Longrightarrow> sqrt_ratio_i gf5_ops u v = (is_sq, r) \<Longrightarrow>
      (is_sq \<longleftrightarrow> (\<exists>s. s * s * v = u)) \<and> r * r * v = (if is_sq then u else sqrt_m1 gf5_ops * u)" for u v is_sq r
    unfolding ex by (cases u; cases v; auto simp: gf5_ops_def gf5_defs)
  moreover have "x * x \<noteq> F2" for x by (cases x; simp add: gf5_defs)
  ultimately show ?thesis
    unfolding field_ops_ok_def gf5_numeral by (auto simp: gf5_ops_def zero_gf5_def) (simp_all add: gf5_defs)
qed

section \<open>The round trip\<close>

text \<open>
  C36.  The maps invert each other.  A field element is mapped to a point without a panic, because its image is always on the
  curve; and the inverse map finds it again, up to the sign, among the two elements that it returns, unless it is zero: then there is
  no preimage.  The conversion to Edwards form is inverse to the conversion back on the points of the curve.
\<close>

theorem elligator_round_trip:
  assumes "field_ops_ok F" and "\<And>u. on_curve u \<Longrightarrow> \<exists>p. to_edwards u = Some p \<and> to_montgomery p = u"
  shows "\<exists>p. field_to_edwards F to_edwards r = Inr p \<and>
    (case edwards_to_field F to_montgomery p of
       Some (r0, r1) \<Rightarrow> r \<noteq> 0 \<and> r \<in> {r0, - r0, r1, - r1}
     | None \<Rightarrow> r = 0)"
proof -
  obtain p where p: "to_edwards (field_to_mont F r) = Some p" "to_montgomery p = field_to_mont F r"
    using assms(2) field_to_mont_on_curve [OF assms(1)] by blast
  then show ?thesis
    using mont_field_round_trip [OF assms(1), of r] mont_to_field_zero [OF assms(1)]
    by (cases "r = 0") (auto simp: field_to_edwards_def edwards_to_field_def)
qed

theorem elligator_round_trip_witness:
  "\<exists>p. field_to_edwards gf5_ops Some F3 = Inr p \<and>
    (case edwards_to_field gf5_ops id p of Some (r0, r1) \<Rightarrow> F3 \<in> {r0, - r0, r1, - r1} | None \<Rightarrow> False)"
  using elligator_round_trip [OF gf5_ops_ok, of Some id F3] by (auto simp: zero_gf5_def split: option.splits)

end
