(* ===== verification/Psu_Onesided.thy ===== *)
theory Psu_Onesided
  imports Psu_Elligator Psu_Permutation
begin

text \<open>
  \<^verbatim>\<open>src/onesided.rs\<close> and \<^verbatim>\<open>src/channel.rs\<close>: the frames of messages, the two parties of the semi-honest one-sided union protocol, and the
  protocol itself on top of the oblivious-transfer extension.  Points are in Montgomery form, so that a point is a field element; the
  items are mapped to them by \<open>hash_to_curve\<close> of \<open>Psu_Elligator\<close>.  The multiple of a point by an integer, \<open>mul k p\<close>, is a parameter with
  the laws \<open>curve_laws\<close>; \<open>inv8\<close> stands for \<open>Scalar::from (8).invert ()\<close>.  Messages of one run are passed on as they are.
\<close>

section \<open>Frames\<close>

text \<open>
  \<open>write_msg\<close> writes the length of the payload as a \<open>u32\<close>, little-endian, and the payload;
  \<open>ser\<close> and \<open>de\<close> are \<open>bincode::serialize\<close> and \<open>bincode::deserialize\<close>.
\<close>

definition u32_to_le_bytes :: "nat \<Rightarrow> bytes" where
  "u32_to_le_bytes n = map of_nat (base_digits 256 4 n)"

definition write_msg :: "('m \<Rightarrow> bytes) \<Rightarrow> 'm \<Rightarrow> bytes \<Rightarrow> bytes" where
  "write_msg ser msg ch =
     (let payload = ser msg in ch @ u32_to_le_bytes (length payload mod 2 ^ 32) @ payload)"

definition read_msg :: "(bytes \<Rightarrow> 'm option) \<Rightarrow> bytes \<Rightarrow> ('m \<times> bytes) run" where
  "read_msg de ch =
     bind_run (read_bytes 4 ch) (\<lambda>(data, ch).
     bind_run (read_bytes (val 256 (map unat data)) ch) (\<lambda>(buf, ch).
       case de buf of Some msg \<Rightarrow> Inr (msg, ch) | None \<Rightarrow> Inl Panic))"

section \<open>Keys\<close>

definition clamp_integer :: "bytes \<Rightarrow> bytes" where
  "clamp_integer bytes =
     (let bytes = bytes[0 := bytes ! 0 AND 0xF8];
          bytes = bytes[31 := bytes ! 31 AND 0x7F]
      in bytes[31 := bytes ! 31 OR 0x40])"

definition group_order :: nat where
  "group_order = 2 ^ 252 + 27742317777372353535851937790883648493"

definition from_bytes_mod_order :: "bytes \<Rightarrow> nat" where
  "from_bytes_mod_order bytes = val 256 (map unat bytes) mod group_order"

text \<open>\<open>mul_clamped\<close> clamps its argument and multiplies by it as an integer.\<close>

definition mul_clamped :: "(nat \<Rightarrow> 'g \<Rightarrow> 'g) \<Rightarrow> bytes \<Rightarrow> 'g \<Rightarrow> 'g" where
  "mul_clamped mul bytes p = mul (val 256 (map unat (clamp_integer bytes))) p"

section \<open>The parties\<close>

text \<open>The items of an input: its whole 16-byte chunks.\<close>

function chunks_exact :: "nat \<Rightarrow> 'a list \<Rightarrow> 'a list list" where
  "chunks_exact k xs = (if k = 0 \<or> length xs < k then [] else take k xs # chunks_exact k (drop k xs))"
  by pat_completeness auto
termination
  by (relation "measure (\<lambda>(k, xs). length xs)") auto

declare chunks_exact.simps [simp del]

lemma chunks_exact_length: "c \<in> set (chunks_exact k xs) \<Longrightarrow> length c = k"
  by (induction k xs rule: chunks_exact.induct) (subst (asm) (2) chunks_exact.simps, auto split: if_splits)

record party_sender =
  s_input :: bytes
  s_n :: nat
  s_sk_8 :: bytes
  s_sk :: nat
  s_pi :: "nat list"

record party_receiver =
  r_input :: bytes
  r_n :: nat
  r_sk_8 :: bytes
  r_sk :: nat

text \<open>\<open>new\<close> with the random bytes of the key and the permutation given.\<close>

definition sender_new :: "nat \<Rightarrow> bytes \<Rightarrow> nat list \<Rightarrow> bytes \<Rightarrow> nat \<Rightarrow> party_sender" where
  "sender_new inv8 buff pi input n =
     (let sk_8 = clamp_integer buff
      in \<lparr>s_input = input, s_n = n, s_sk_8 = sk_8,
          s_sk = from_bytes_mod_order sk_8 * inv8 mod group_order, s_pi = pi\<rparr>)"

definition receiver_new :: "nat \<Rightarrow> bytes \<Rightarrow> bytes \<Rightarrow> nat \<Rightarrow> party_receiver" where
  "receiver_new inv8 buff input n =
     (let sk_8 = clamp_integer buff
      in \<lparr>r_input = input, r_n = n, r_sk_8 = sk_8,
          r_sk = from_bytes_mod_order sk_8 * inv8 mod group_order\<rparr>)"

definition sender_gen :: "'f::field field_ops \<Rightarrow> (bytes \<Rightarrow> bytes) \<Rightarrow> (nat \<Rightarrow> 'f \<Rightarrow> 'f) \<Rightarrow> party_sender \<Rightarrow> 'f list \<times> 'f list" where
  "sender_gen F digest mul S =
     (let original = map (hash_to_curve F digest) (chunks_exact 16 (s_input S))
      in (map (mul_clamped mul (s_sk_8 S)) original, original))"

definition blind_and_shuffle :: "(nat \<Rightarrow> 'g \<Rightarrow> 'g) \<Rightarrow> party_sender \<Rightarrow> 'g list \<Rightarrow> 'g list run" where
  "blind_and_shuffle mul S receiver_points =
     map_run (\<lambda>i. bind_run (read_at receiver_points i) (\<lambda>p. Inr (mul (s_sk S) p))) (s_pi S)"

definition receiver_gen :: "'f::field field_ops \<Rightarrow> (bytes \<Rightarrow> bytes) \<Rightarrow> (nat \<Rightarrow> 'f \<Rightarrow> 'f) \<Rightarrow> party_receiver \<Rightarrow> 'f list" where
  "receiver_gen F digest mul R =
     map (\<lambda>item. mul_clamped mul (r_sk_8 R) (hash_to_curve F digest item)) (chunks_exact 16 (r_input R))"

definition receiver_blind :: "(nat \<Rightarrow> 'g \<Rightarrow> 'g) \<Rightarrow> party_receiver \<Rightarrow> 'g list \<Rightarrow> 'g list" where
  "receiver_blind mul R sender_points = map (mul (r_sk R)) sender_points"

definition compare :: "'g list \<Rightarrow> 'g list \<Rightarrow> bool list" where
  "compare sender_points shuffled = map (\<lambda>point. point \<in> set shuffled) sender_points"

section \<open>The protocol\<close>

text \<open>
  \<open>semi_honest_psu1\<close>: the sender's masked points, the receiver's, the sender's second message, the set-up of the
  transfer and the transfer.  \<open>base_ot\<close> is the base transfer, \<open>sb\<close> and \<open>seeds\<close> the random bytes of its two sides.  The
  result is the indicator and the blocks that the receiver gets.
\<close>

definition semi_honest_psu1 ::
    "'f::field field_ops \<Rightarrow> (bytes \<Rightarrow> bytes) \<Rightarrow> (nat \<Rightarrow> 'f \<Rightarrow> 'f) \<Rightarrow> (bytes \<Rightarrow> u64 \<Rightarrow> u64 \<Rightarrow> bytes run option) \<Rightarrow>
     ('r \<Rightarrow> nat \<Rightarrow> bytes \<times> 'r) \<Rightarrow> (nat \<Rightarrow> bytes \<Rightarrow> bytes) \<Rightarrow>
     ((bytes \<times> bytes) list \<Rightarrow> bool list \<Rightarrow> bytes list) \<Rightarrow> (bytes \<Rightarrow> 'r) \<Rightarrow> bytes \<Rightarrow> (bytes \<times> bytes) list \<Rightarrow>
     party_sender \<Rightarrow> party_receiver \<Rightarrow> (bytes \<times> bytes) list \<Rightarrow> (bool list \<times> bytes list) run option" where
  "semi_honest_psu1 F digest mul tr fill hash base_ot from_seed sb seeds sender receiver ms =
     (let (sd_m1, _) = sender_gen F digest mul sender;
          rc_m1 = receiver_gen F digest mul receiver;
          blinded = receiver_blind mul receiver sd_m1
      in case blind_and_shuffle mul sender rc_m1 of
           Inl e \<Rightarrow> Some (Inl e)
         | Inr sd_m2 \<Rightarrow>
             (let indicator = compare blinded sd_m2;
                  (A, B) = alsz_init base_ot from_seed sb seeds
              in bind_tr (alsz_transfer tr fill hash A B ms indicator)
                   (\<lambda>(A, B, results). Inr (indicator, results))))"

text \<open>The receiver's output set: its own items and the blocks at the positions that are not in the intersection.\<close>

definition psu_output :: "bytes list \<Rightarrow> bool list \<Rightarrow> bytes list \<Rightarrow> bytes set" where
  "psu_output own indicator results = set own \<union> set (map snd (filter (\<lambda>(b, _). \<not> b) (zip indicator results)))"

section \<open>Frames survive\<close>

text \<open>
  C23.  A message that is written to the stream is read back, with the stream positioned after it, as long as its payload is
  shorter than \<open>2 ^ 32\<close> bytes.
\<close>

theorem read_write_msg:
  assumes "de (ser msg) = Some msg" and "length (ser msg) < 2 ^ 32"
  shows "read_msg de (write_msg ser msg [] @ rest) = Inr (msg, rest)"
proof -
  let ?n = "length (ser msg)" and ?d = "u32_to_le_bytes (length (ser msg))"
  have "proper 256 (base_digits 256 4 ?n)" by (simp add: proper_base_digits)
  then have "map unat ?d = base_digits 256 4 ?n"
    by (auto simp: u32_to_le_bytes_def proper_def list_all_iff unat_of_nat intro!: map_idI)
  then have "val 256 (map unat ?d) = ?n" using assms(2) by (simp add: val_base_digits)
  moreover have "length ?d = 4" by (simp add: u32_to_le_bytes_def length_base_digits)
  ultimately show ?thesis
    using assms by (simp add: read_msg_def write_msg_def read_bytes_def Let_def)
qed

theorem read_write_msg_witness: "read_msg Some (write_msg id [1, 2, 3] [] @ [9]) = Inr ([1, 2, 3], [9])"
  using read_write_msg [of Some id "[1, 2, 3]" "[9]"] by simp

section \<open>Keys are multiples of the cofactor\<close>

lemma unat_clear_low: "unat (b AND 0xF8 :: u8) mod 8 = 0"
proof -
  have "take_bit 3 (b AND 0xF8) = (b AND 0xF8) AND mask 3" by (rule take_bit_eq_mask)
  also have "\<dots> = 0" by (simp add: mask_eq_exp_minus_1 and.assoc)
  finally have "unat (take_bit 3 (b AND 0xF8)) = 0" by simp
  then show ?thesis by (simp add: take_bit_eq_mod unat_mod)
qed

lemma clamp_idem:
  assumes "length bs = 32"
  shows "clamp_integer (clamp_integer bs) = clamp_integer bs"
proof -
  have "(x AND 0x7F OR 0x40) AND 0x7F OR 0x40 = x AND 0x7F OR (0x40 :: u8)" for x
    by (simp add: word_ao_dist and.assoc or.assoc)
  then show ?thesis
    using assms by (simp add: clamp_integer_def Let_def list_update_swap [of 0 31] and.assoc)
qed

lemma clamp_multiple:
  assumes "length bs = 32"
  shows "val 256 (map unat (clamp_integer bs)) mod 8 = 0"
proof -
  have "length (clamp_integer bs) = 32" and hd: "clamp_integer bs ! 0 = bs ! 0 AND 0xF8"
    using assms by (simp_all add: clamp_integer_def Let_def)
  then obtain rest where "clamp_integer bs = (bs ! 0 AND 0xF8) # rest"
    by (cases "clamp_integer bs") simp_all
  then show ?thesis using unat_clear_low [of "bs ! 0"] by (simp add: mod_add_eq [symmetric] mod_mult_eq [symmetric])
qed

text \<open>
  What the protocol relies on of the points \<open>on\<close>: multiples are such points and compose, and a point without torsion has the
  group order.
\<close>

definition curve_laws :: "('g \<Rightarrow> bool) \<Rightarrow> (nat \<Rightarrow> 'g \<Rightarrow> 'g) \<Rightarrow> bool" where
  "curve_laws on mul = ((\<forall>a p. on p \<longrightarrow> on (mul a p)) \<and> (\<forall>a b p. on p \<longrightarrow> mul a (mul b p) = mul (a * b) p) \<and>
     (\<forall>a b p. on p \<longrightarrow> a mod group_order = b mod group_order \<longrightarrow> mul a (mul 8 p) = mul b (mul 8 p)))"

lemma curve_lawsD:
  assumes "curve_laws on mul" and "on p"
  shows "on (mul a p)" and "mul a (mul b p) = mul (a * b) p"
    and "a mod group_order = b mod group_order \<Longrightarrow> mul a (mul 8 p) = mul b (mul 8 p)"
  using assms unfolding curve_laws_def by blast+

text \<open>The secret of a clamped key, and the point that both parties compute for an item.\<close>

definition half_key :: "bytes \<Rightarrow> nat" where
  "half_key buff = val 256 (map unat (clamp_integer buff)) div 8"

definition joint_point :: "(nat \<Rightarrow> 'g \<Rightarrow> 'g) \<Rightarrow> bytes \<Rightarrow> bytes \<Rightarrow> 'g \<Rightarrow> 'g" where
  "joint_point mul ks kr p = mul (half_key ks * half_key kr) (mul 8 p)"

lemma mul_clamped_half:
  assumes "curve_laws on mul" and "on p" and "length buff = 32"
  shows "mul_clamped mul (clamp_integer buff) p = mul (half_key buff) (mul 8 p)"
proof -
  have "val 256 (map unat (clamp_integer buff)) = half_key buff * 8"
    using clamp_multiple [OF assms(3)] by (auto simp: half_key_def)
  with assms show ?thesis by (simp add: mul_clamped_def clamp_idem curve_lawsD(2) [OF assms(1,2)])
qed

lemma half_key_mod:
  assumes "8 * inv8 mod group_order = 1" and "length buff = 32"
  shows "(from_bytes_mod_order (clamp_integer buff) * inv8 mod group_order) mod group_order = half_key buff mod group_order"
proof -
  have "val 256 (map unat (clamp_integer buff)) = half_key buff * 8"
    using clamp_multiple [OF assms(2)] by (auto simp: half_key_def)
  then have "from_bytes_mod_order (clamp_integer buff) * inv8 mod group_order = half_key buff * (8 * inv8) mod group_order"
    by (simp add: from_bytes_mod_order_def mod_mult_left_eq mult.assoc)
  also have "\<dots> = half_key buff * (8 * inv8 mod group_order) mod group_order" by (simp only: mod_mult_right_eq)
  finally show ?thesis using assms(1) by simp
qed

lemma joint_point_eq:
  assumes laws: "curve_laws on mul" and on: "on p" and inv: "8 * inv8 mod group_order = 1" and len: "length ks = 32" "length kr = 32"
  defines "sk b \<equiv> from_bytes_mod_order (clamp_integer b) * inv8 mod group_order"
  shows "mul (sk kr) (mul_clamped mul (clamp_integer ks) p) = joint_point mul ks kr p"
    and "mul (sk ks) (mul_clamped mul (clamp_integer kr) p) = joint_point mul ks kr p"
proof -
  have *: "mul (sk a) (mul_clamped mul (clamp_integer b) p) = mul (half_key b * half_key a) (mul 8 p)"
    if "length a = 32" "length b = 32" for a b
  proof -
    have "sk a * half_key b mod group_order = half_key b * half_key a mod group_order"
      using half_key_mod [OF inv that(1)] unfolding sk_def by (metis mod_mult_left_eq mult.commute)
    moreover have "mul (sk a) (mul_clamped mul (clamp_integer b) p) = mul (sk a * half_key b) (mul 8 p)"
      unfolding mul_clamped_half [OF laws on that(2)] by (rule curve_lawsD(2) [OF laws curve_lawsD(1) [OF laws on]])
    moreover have "mul (sk a * half_key b) (mul 8 p) = mul (half_key b * half_key a) (mul 8 p)"
      using calculation(1) by (rule curve_lawsD(3) [OF laws on])
    ultimately show ?thesis by (simp only:)
  qed
  show "mul (sk kr) (mul_clamped mul (clamp_integer ks) p) = joint_point mul ks kr p"
    using * [OF len(2,1)] by (simp add: joint_point_def)
  show "mul (sk ks) (mul_clamped mul (clamp_integer kr) p) = joint_point mul ks kr p"
    using * [OF len] by (simp add: joint_point_def mult.commute)
qed

text \<open>A secret that is invertible modulo the group order loses nothing but torsion.\<close>

lemma joint_point_eq_iff:
  assumes laws: "curve_laws on mul" and on: "on p" "on q" and key: "coprime (half_key ks) group_order" "coprime (half_key kr) group_order"
    and eq: "joint_point mul ks kr p = joint_point mul ks kr q"
  shows "mul 8 p = mul 8 q"
proof -
  let ?K = "half_key ks * half_key kr"
  have "group_order \<noteq> 1" by (simp add: group_order_def)
  then have "half_key ks \<noteq> 0" "half_key kr \<noteq> 0" using key by (metis coprime_0_left_iff nat_dvd_1_iff_1)+
  then have "?K \<noteq> 0" by simp
  moreover have "gcd ?K group_order = 1" using key by simp
  ultimately obtain x y where "?K * x = group_order * y + 1" using bezout_nat [of ?K group_order] by metis
  then have "x * ?K = 1 + group_order * y" by (simp add: mult.commute)
  then have x: "x * ?K mod group_order = 1 mod group_order" by (simp only: mod_mult_self2)
  have undo: "mul x (joint_point mul ks kr r) = mul 8 r" if "on r" for r
  proof -
    have "mul x (joint_point mul ks kr r) = mul (x * ?K) (mul 8 r)"
      unfolding joint_point_def by (rule curve_lawsD(2) [OF laws curve_lawsD(1) [OF laws that]])
    also have "\<dots> = mul 1 (mul 8 r)" using x by (rule curve_lawsD(3) [OF laws that])
    also have "\<dots> = mul 8 r" using curve_lawsD(2) [OF laws that, of 1 8] by simp
    finally show ?thesis .
  qed
  show ?thesis using undo [OF on(1)] undo [OF on(2)] eq by simp
qed

section \<open>The indicator marks the intersection\<close>

lemma blind_and_shuffle_set:
  assumes "mset (s_pi S) = mset [0..<length ps]"
  shows "\<exists>out. blind_and_shuffle mul S ps = Inr out \<and> set out = mul (s_sk S) ` set ps"
proof -
  have set: "set (s_pi S) = {..<length ps}"
    using arg_cong [OF assms, of set_mset] by (simp add: atLeast0LessThan)
  then have "blind_and_shuffle mul S ps = Inr (map (\<lambda>i. mul (s_sk S) (ps ! i)) (s_pi S))"
    unfolding blind_and_shuffle_def by (intro map_run_Inr) (auto simp: buffer_simps)
  moreover have "(\<lambda>i. ps ! i) ` {..<length ps} = set ps" by (auto simp: set_conv_nth)
  ultimately show ?thesis using set by (auto simp: image_image [symmetric])
qed

text \<open>
  What is asked of the items of a run: the digests of different items are not field elements of the same class, and no two of
  their points differ in a point of small order only.
\<close>

definition digests_apart :: "'f::field field_ops \<Rightarrow> (bytes \<Rightarrow> bytes) \<Rightarrow> bytes set \<Rightarrow> bool" where
  "digests_apart F digest X = (\<forall>x\<in>X. \<forall>y\<in>X. same_class (hash_to_field F digest x) (hash_to_field F digest y) \<longrightarrow> x = y)"

definition torsion_apart :: "(nat \<Rightarrow> 'g \<Rightarrow> 'g) \<Rightarrow> 'g set \<Rightarrow> bool" where
  "torsion_apart mul P = (\<forall>p\<in>P. \<forall>q\<in>P. mul 8 p = mul 8 q \<longrightarrow> p = q)"

lemma hash_to_curve_inj:
  assumes "field_ops_ok F" and "digests_apart F digest X" and "x \<in> X" and "y \<in> X" and "hash_to_curve F digest x = hash_to_curve F digest y"
  shows "x = y"
  using assms field_to_mont_collision [OF assms(1)] unfolding hash_to_curve_def digests_apart_def by blast

definition no_collision :: "(nat \<Rightarrow> 'g \<Rightarrow> 'g) \<Rightarrow> (bytes \<Rightarrow> 'g) \<Rightarrow> bytes \<Rightarrow> bytes \<Rightarrow> bytes list \<Rightarrow> bytes list \<Rightarrow> bool" where
  "no_collision mul h ks kr xs ys = (\<forall>x\<in>set xs. \<forall>y\<in>set ys.
     joint_point mul ks kr (h x) = joint_point mul ks kr (h y) \<longrightarrow> x = y)"

lemma no_collision_items:
  assumes laws: "curve_laws on mul" and on: "\<And>x. on (h x)" and key: "coprime (half_key ks) group_order" "coprime (half_key kr) group_order"
    and torsion: "torsion_apart mul (h ` (set xs \<union> set ys))"
    and inj: "\<And>x y. x \<in> set xs \<union> set ys \<Longrightarrow> y \<in> set xs \<union> set ys \<Longrightarrow> h x = h y \<Longrightarrow> x = y"
  shows "no_collision mul h ks kr xs ys"
  unfolding no_collision_def
proof (intro ballI impI)
  fix x y
  assume xy: "x \<in> set xs" "y \<in> set ys" and eq: "joint_point mul ks kr (h x) = joint_point mul ks kr (h y)"
  have "mul 8 (h x) = mul 8 (h y)" using joint_point_eq_iff [OF laws on on key eq] .
  then have "h x = h y" using torsion xy unfolding torsion_apart_def by blast
  with xy inj [of x y] show "x = y" by simp
qed

lemma indicator_marks:
  assumes laws: "curve_laws on mul" and on: "\<And>x. on (h x)" and inv: "8 * inv8 mod group_order = 1"
    and len: "length ks = 32" "length kr = 32" and pi: "mset (s_pi S) = mset [0..<length Y]" and free: "no_collision mul h ks kr X Y"
    and keys: "s_sk S = from_bytes_mod_order (clamp_integer ks) * inv8 mod group_order"
      "r_sk R = from_bytes_mod_order (clamp_integer kr) * inv8 mod group_order"
  shows "\<exists>sd_m2. blind_and_shuffle mul S (map (\<lambda>y. mul_clamped mul (clamp_integer kr) (h y)) Y) = Inr sd_m2 \<and>
    compare (receiver_blind mul R (map (\<lambda>x. mul_clamped mul (clamp_integer ks) (h x)) X)) sd_m2 = map (\<lambda>x. x \<in> set Y) X"
proof -
  let ?J = "joint_point mul ks kr"
  note joint = joint_point_eq [OF laws on inv len]
  let ?ps = "map (\<lambda>y. mul_clamped mul (clamp_integer kr) (h y)) Y"
  have "mset (s_pi S) = mset [0..<length ?ps]" using pi by simp
  then obtain out where out: "blind_and_shuffle mul S ?ps = Inr out" and "set out = mul (s_sk S) ` set ?ps"
    using blind_and_shuffle_set by blast
  then have shuffled: "set out = (?J \<circ> h) ` set Y" using joint(2) by (auto simp: keys image_image)
  have blinded: "receiver_blind mul R (map (\<lambda>x. mul_clamped mul (clamp_integer ks) (h x)) X) = map (?J \<circ> h) X"
    using joint(1) by (simp add: keys receiver_blind_def)
  have "(?J \<circ> h) x \<in> (?J \<circ> h) ` set Y \<longleftrightarrow> x \<in> set Y" if "x \<in> set X" for x
    using free that by (auto simp: no_collision_def)
  then have "compare (map (?J \<circ> h) X) out = map (\<lambda>x. x \<in> set Y) X"
    unfolding compare_def shuffled by simp
  with out blinded show ?thesis by auto
qed

lemma psu_output_union:
  assumes "length results = length xs" and "\<And>i. i < length xs \<Longrightarrow> xs ! i \<notin> set ys \<Longrightarrow> results ! i = xs ! i"
  shows "psu_output ys (map (\<lambda>x. x \<in> set ys) xs) results = set xs \<union> set ys"
proof -
  let ?I = "{i. i < length xs \<and> xs ! i \<notin> set ys}"
  have "set (map snd (filter (\<lambda>(b, _). \<not> b) (zip (map (\<lambda>x. x \<in> set ys) xs) results))) = (\<lambda>i. results ! i) ` ?I"
    using assms(1) by (fastforce simp: set_zip image_iff)
  also have "\<dots> = (\<lambda>i. xs ! i) ` ?I" using assms(2) by (intro image_cong) simp_all
  also have "\<dots> = set xs - set ys" by (auto simp: in_set_conv_nth)
  finally show ?thesis by (auto simp: psu_output_def)
qed

text \<open>
  C24.  The semi-honest one-sided protocol computes the union, through the whole stack of the map to the curve, key clamping, blinding, shuffling, the
  oblivious-transfer extension and the transpose of either build: for a sender with at least one item it ends without a fault, the indicator marks
  exactly the sender's items that the receiver has, the receiver gets the first block of the pairs at the other positions, and with the sender's items as
  these blocks its output is the union of the two sets.  The keys are invertible modulo the group order (in the code every key is, as the order
  is prime); the digests of different items of the two sets are not in the same class, and no two of their points
  differ in a point of small order.
\<close>

theorem semi_honest_psu1_union:
  assumes "field_ops_ok F" and "curve_laws on_curve mul" and "8 * inv8 mod group_order = 1" and "length ks = 32" and "length kr = 32"
    and "coprime (half_key ks) group_order" and "coprime (half_key kr) group_order"
    and "mset pi = mset [0..<length (chunks_exact 16 input_r)]"
    and "digests_apart F digest (set (chunks_exact 16 input_s) \<union> set (chunks_exact 16 input_r))"
    and "torsion_apart mul (hash_to_curve F digest ` (set (chunks_exact 16 input_s) \<union> set (chunks_exact 16 input_r)))"
    and "fills fill" and "hashes hash"
    and "\<And>ks bs. length ks = length bs \<Longrightarrow> base_ot ks bs = map2 pick bs ks" and "length sb = 16" and "length seeds = 128"
    and "0 < length (chunks_exact 16 input_s)" and "1024 * ((length (chunks_exact 16 input_s) + 7) div 8) < 2 ^ 64"
    and "tr = transpose_portable \<or> tr = transpose_x86 tmp0"
  shows "\<exists>results. semi_honest_psu1 F digest mul tr fill hash base_ot from_seed sb seeds
      (sender_new inv8 ks pi input_s n) (receiver_new inv8 kr input_r m)
      (map (\<lambda>x. (x, replicate 16 0)) (chunks_exact 16 input_s)) =
      Some (Inr (map (\<lambda>x. x \<in> set (chunks_exact 16 input_r)) (chunks_exact 16 input_s), results)) \<and>
    psu_output (chunks_exact 16 input_r) (map (\<lambda>x. x \<in> set (chunks_exact 16 input_r)) (chunks_exact 16 input_s)) results =
      set (chunks_exact 16 input_s) \<union> set (chunks_exact 16 input_r)"
proof -
  let ?X = "chunks_exact 16 input_s" and ?Y = "chunks_exact 16 input_r" and ?h = "hash_to_curve F digest"
  let ?S = "sender_new inv8 ks pi input_s n" and ?R = "receiver_new inv8 kr input_r m"
  let ?ms = "map (\<lambda>x. (x, replicate 16 0 :: bytes)) ?X" and ?ind = "map (\<lambda>x. x \<in> set ?Y) ?X"
  have on: "on_curve (?h x)" for x unfolding hash_to_curve_def by (rule field_to_mont_on_curve [OF assms(1)])
  have free: "no_collision mul ?h ks kr ?X ?Y"
    using no_collision_items [OF assms(2) on assms(6,7,10) hash_to_curve_inj [OF assms(1,9)]] .
  have gen: "fst (sender_gen F digest mul ?S) = map (\<lambda>x. mul_clamped mul (clamp_integer ks) (?h x)) ?X"
    "receiver_gen F digest mul ?R = map (\<lambda>y. mul_clamped mul (clamp_integer kr) (?h y)) ?Y"
    by (simp_all add: sender_gen_def receiver_gen_def sender_new_def receiver_new_def Let_def)
  obtain sd_m2 where sd: "blind_and_shuffle mul ?S (receiver_gen F digest mul ?R) = Inr sd_m2"
    and ind: "compare (receiver_blind mul ?R (fst (sender_gen F digest mul ?S))) sd_m2 = ?ind"
    using indicator_marks [OF assms(2) on assms(3-5) _ free, of ?S ?R] assms(8) unfolding gen
    by (auto simp: sender_new_def receiver_new_def Let_def)
  obtain A B where init: "alsz_init base_ot from_seed sb seeds = (A, B)"
    by (cases "alsz_init base_ot from_seed sb seeds")
  have sync: "in_sync A B" using alsz_init_sync [OF assms(13-15) init] .
  have "blocks16 ?ms" using chunks_exact_length by (force simp: blocks16_def list_all_iff)
  then obtain A' B' where ot: "alsz_transfer tr fill hash A B ?ms ?ind = Some (Inr (A', B', map2 pick ?ind ?ms))"
    using x86.transfer_correct [OF assms(11,12) sync, of ?ms ?ind tmp0]
      portable.transfer_correct [OF assms(11,12) sync, of ?ms ?ind] assms(16-18) by auto
  have "semi_honest_psu1 F digest mul tr fill hash base_ot from_seed sb seeds ?S ?R ?ms = Some (Inr (?ind, map2 pick ?ind ?ms))"
    using sd ind ot init by (simp add: semi_honest_psu1_def Let_def split_beta)
  moreover have "psu_output ?Y ?ind (map2 pick ?ind ?ms) = set ?X \<union> set ?Y"
    by (rule psu_output_union) (simp_all add: pick_def)
  ultimately show ?thesis by blast
qed

lemma scalar_action_laws: "curve_laws (\<lambda>_. True) (\<lambda>a p. a * p mod (8 * group_order))"
proof -
  let ?n = "8 * group_order"
  have "a * (8 * p mod ?n) mod ?n = b * (8 * p mod ?n) mod ?n"
    if "a mod group_order = b mod group_order" for a b p
  proof -
    have "a * p mod group_order = b * p mod group_order" using that by (metis mod_mult_left_eq)
    then have "8 * (a * p) mod ?n = 8 * (b * p) mod ?n" by (simp only: mult_mod_right [symmetric])
    then show ?thesis unfolding mod_mult_right_eq by (simp only: mult.left_commute [of _ 8])
  qed
  moreover have "a * (b * p mod ?n) mod ?n = a * b * p mod ?n" for a b p
    unfolding mod_mult_right_eq by (simp only: mult.assoc)
  ultimately show ?thesis unfolding curve_laws_def by blast
qed

lemma clamp_zero: "clamp_integer (replicate 32 0) = replicate 31 0 @ [0x40]"
proof -
  have "replicate 32 (0 :: u8) = replicate 31 0 @ [0]" by (simp add: replicate_append_same flip: replicate_Suc)
  moreover have "(replicate 31 (0 :: u8))[0 := 0] = replicate 31 0" by (rule list_update_same_conv [THEN iffD2]) simp_all
  ultimately show ?thesis by (simp add: clamp_integer_def list_update_append nth_append)
qed

lemma group_order_numeral:
  "group_order = 7237005577332262213973186563042994240857116359379907606001950938285454250989"
  by (simp add: group_order_def)

lemma half_key_zero: "half_key (replicate 32 0) = 2 ^ 251"
  by (simp add: half_key_def clamp_zero digit_simps)

text \<open>
  The instance: over the field of five elements the multiples by the numbers that are prime to the group order leave a coordinate as it
  is, and the others lead to zero; the digest of an item is as long as its first byte says.
\<close>

definition unit_mul :: "nat \<Rightarrow> gf5 \<Rightarrow> gf5" where
  "unit_mul a p = (if coprime a group_order then p else 0)"

definition hd_digest :: "bytes \<Rightarrow> bytes" where
  "hd_digest item = replicate (unat (hd item)) 0"

lemma unit_mul_laws: "curve_laws on_curve unit_mul"
proof -
  have "on_curve (0 :: gf5)" by (simp add: on_curve_def)
  then have "on_curve p \<Longrightarrow> on_curve (unit_mul a p)" for a p by (simp add: unit_mul_def)
  moreover have "unit_mul a (unit_mul b p) = unit_mul (a * b) p" for a b p by (simp add: unit_mul_def)
  moreover have "unit_mul a q = unit_mul b q" if "a mod group_order = b mod group_order" for a b q
  proof -
    have "group_order \<noteq> 0" by (simp add: group_order_def)
    from coprime_mod_left_iff [OF this, of a] coprime_mod_left_iff [OF this, of b] that show ?thesis by (simp add: unit_mul_def)
  qed
  ultimately show ?thesis unfolding curve_laws_def by blast
qed

lemma unit_keys: "coprime 8 group_order" "coprime (half_key (replicate 32 0)) group_order"
proof -
  have "coprime 2 group_order" by (simp add: group_order_def)
  then have "coprime (2 ^ k) group_order" for k by simp
  from this [of 3] this [of 251] show "coprime 8 group_order" "coprime (half_key (replicate 32 0)) group_order"
    by (simp_all add: half_key_zero)
qed

lemma gf5_items:
  "hash_to_field gf5_ops hd_digest (replicate 16 0) = F0" "hash_to_field gf5_ops hd_digest (replicate 16 1) = F1"
  "hash_to_curve gf5_ops hd_digest (replicate 16 0) = F0" "hash_to_curve gf5_ops hd_digest (replicate 16 1) = F1"
proof -
  have "field_to_mont gf5_ops F0 = F0" "field_to_mont gf5_ops F1 = F1" by code_simp+
  moreover show "hash_to_field gf5_ops hd_digest (replicate 16 0) = F0" "hash_to_field gf5_ops hd_digest (replicate 16 1) = F1"
    by (simp_all add: hash_to_field_def hd_digest_def gf5_ops_def gf5_of_def)
  ultimately show "hash_to_curve gf5_ops hd_digest (replicate 16 0) = F0" "hash_to_curve gf5_ops hd_digest (replicate 16 1) = F1"
    by (simp_all add: hash_to_curve_def)
qed

lemma gf5_apart: "digests_apart gf5_ops hd_digest {replicate 16 0, replicate 16 1}"
proof -
  have "\<not> same_class F0 F1" "\<not> same_class F1 F0" unfolding same_class_def gf5_numeral by (simp_all add: gf5_defs)
  then show ?thesis by (auto simp: digests_apart_def gf5_items)
qed

theorem semi_honest_psu1_union_witness:
  "\<exists>results. semi_honest_psu1 gf5_ops hd_digest unit_mul (transpose_x86 0)
      (\<lambda>seed n. (replicate n (seed :: u8), seed)) (\<lambda>j q. q)
      (\<lambda>ks bs. map2 pick bs ks) hd (replicate 16 77) (replicate 128 ([3], [1]))
      (sender_new ((3 * group_order + 1) div 8) (replicate 32 0) [0] (replicate 16 1 @ replicate 16 0) 2)
      (receiver_new ((3 * group_order + 1) div 8) (replicate 32 0) (replicate 16 0) 1)
      [(replicate 16 1, replicate 16 0), (replicate 16 0, replicate 16 0)] = Some (Inr ([False, True], results)) \<and>
    psu_output [replicate 16 0] [False, True] results = {replicate 16 1, replicate 16 0}"
proof -
  let ?k = "replicate 32 (0 :: u8)"
  have X: "chunks_exact 16 (replicate 16 1 @ replicate 16 0 :: bytes) = [replicate 16 1, replicate 16 0]"
    and Y: "chunks_exact 16 (replicate 16 0 :: bytes) = [replicate 16 0]"
    by (simp_all add: chunks_exact.simps)
  have distinct: "replicate 16 1 \<noteq> (replicate 16 0 :: bytes)" by (simp add: eval_nat_numeral)
  have fh: "fills (\<lambda>seed n. (replicate n seed, seed :: u8))" "hashes (\<lambda>j q. q)"
    by (simp_all add: fills_def hashes_def)
  have inv: "8 * ((3 * group_order + 1) div 8) mod group_order = 1" by (simp add: group_order_def)
  have set: "set [replicate 16 1, replicate 16 0] \<union> set [replicate 16 0] = {replicate 16 0, replicate 16 1 :: bytes}" by auto
  have torsion: "torsion_apart unit_mul (hash_to_curve gf5_ops hd_digest ` {replicate 16 0, replicate 16 1})"
    using unit_keys(1) by (simp add: torsion_apart_def unit_mul_def)
  have ind: "map (\<lambda>x. x \<in> set [replicate 16 0]) [replicate 16 1, replicate 16 (0 :: u8)] = [False, True]"
    using distinct by simp
  note union = semi_honest_psu1_union [of gf5_ops unit_mul _ ?k ?k "[0]" "replicate 16 0" hd_digest
      "replicate 16 1 @ replicate 16 0" _ _ "\<lambda>ks bs. map2 pick bs ks" "replicate 16 77" "replicate 128 ([3], [1])" "transpose_x86 0" 0 hd 2 1,
      unfolded X Y ind set, OF gf5_ops_ok unit_mul_laws inv _ _ unit_keys(2) unit_keys(2) _ gf5_apart torsion fh]
  show ?thesis using union by auto
qed

end
