(* ===== verification/Psu_Rounds.thy ===== *)
theory Psu_Rounds
  imports Main
begin

text \<open>
  The order of reads and writes of \<open>protocol\<close> (\<^verbatim>\<open>src/twosided.rs\<close>): in each round a server writes its message and then reads, and a
  client reads and then writes.  An end is the local state of its party, what it has done in the round, and the
  messages that have reached it; the channel is reliable and its buffers are unbounded.  A party whose peer is gone
  reads the end of the stream, or fails to write, and stops.  The local states and the messages are left open here: \<open>out\<close> gives
  the message of a state (none, if the party has ended) and \<open>inn\<close> the state after a message.
\<close>

section \<open>Ends and steps\<close>

datatype 'm io = Idle | Wrote | Got 'm

record ('a, 'm) endpoint =
  e_server :: bool
  e_st :: 'a
  e_io :: "'m io"
  e_in :: "'m list"

definition endpoint_start :: "bool \<Rightarrow> 'a \<Rightarrow> ('a, 'm) endpoint" where
  "endpoint_start server st = \<lparr>e_server = server, e_st = st, e_io = Idle, e_in = []\<rparr>"

text \<open>One step of the end \<open>x\<close> with the peer \<open>y\<close>.\<close>

inductive end_step ::
    "('a \<Rightarrow> 'm option) \<Rightarrow> ('a \<Rightarrow> 'm \<Rightarrow> 'a) \<Rightarrow> ('b \<Rightarrow> 'm option) \<Rightarrow> 'a \<Rightarrow>
     ('a, 'm) endpoint \<times> ('b, 'm) endpoint \<Rightarrow> ('a, 'm) endpoint \<times> ('b, 'm) endpoint \<Rightarrow> bool"
  for out inn peer halt where
  server_write: "e_server x \<Longrightarrow> e_io x = Idle \<Longrightarrow> out (e_st x) = Some m \<Longrightarrow>
    end_step out inn peer halt (x, y) (x\<lparr>e_io := Wrote\<rparr>, y\<lparr>e_in := e_in y @ [m]\<rparr>)"
| server_read: "out (e_st x) \<noteq> None \<Longrightarrow> e_io x = Wrote \<Longrightarrow> e_in x = m # q \<Longrightarrow>
    end_step out inn peer halt (x, y) (x\<lparr>e_st := inn (e_st x) m, e_io := Idle, e_in := q\<rparr>, y)"
| server_eof: "out (e_st x) \<noteq> None \<Longrightarrow> e_io x = Wrote \<Longrightarrow> e_in x = [] \<Longrightarrow> peer (e_st y) = None \<Longrightarrow>
    end_step out inn peer halt (x, y) (x\<lparr>e_st := halt, e_io := Idle\<rparr>, y)"
| client_read: "out (e_st x) \<noteq> None \<Longrightarrow> \<not> e_server x \<Longrightarrow> e_io x = Idle \<Longrightarrow> e_in x = m # q \<Longrightarrow>
    end_step out inn peer halt (x, y) (x\<lparr>e_io := Got m, e_in := q\<rparr>, y)"
| client_write: "out (e_st x) = Some m' \<Longrightarrow> e_io x = Got m \<Longrightarrow>
    end_step out inn peer halt (x, y) (x\<lparr>e_st := inn (e_st x) m, e_io := Idle\<rparr>, y\<lparr>e_in := e_in y @ [m']\<rparr>)"
| client_eof: "out (e_st x) \<noteq> None \<Longrightarrow> \<not> e_server x \<Longrightarrow> e_io x = Idle \<Longrightarrow> e_in x = [] \<Longrightarrow> peer (e_st y) = None \<Longrightarrow>
    end_step out inn peer halt (x, y) (x\<lparr>e_st := halt\<rparr>, y)"
| write_fails: "out (e_st x) \<noteq> None \<Longrightarrow> e_server x \<and> e_io x = Idle \<or> e_io x = Got m \<Longrightarrow> peer (e_st y) = None \<Longrightarrow>
    end_step out inn peer halt (x, y) (x\<lparr>e_st := halt, e_io := Idle\<rparr>, y)"

text \<open>A step of either end.\<close>

inductive wire_step ::
    "('a \<Rightarrow> 'm option) \<Rightarrow> ('a \<Rightarrow> 'm \<Rightarrow> 'a) \<Rightarrow> 'a \<Rightarrow> ('b \<Rightarrow> 'm option) \<Rightarrow> ('b \<Rightarrow> 'm \<Rightarrow> 'b) \<Rightarrow> 'b \<Rightarrow>
     ('a, 'm) endpoint \<times> ('b, 'm) endpoint \<Rightarrow> ('a, 'm) endpoint \<times> ('b, 'm) endpoint \<Rightarrow> bool"
  for outA innA haltA outB innB haltB where
  left: "end_step outA innA outB haltA (x, y) (x', y') \<Longrightarrow> wire_step outA innA haltA outB innB haltB (x, y) (x', y')"
| right: "end_step outB innB outA haltB (y, x) (y', x') \<Longrightarrow> wire_step outA innA haltA outB innB haltB (x, y) (x', y')"

inductive_cases end_stepE: "end_step out inn peer halt (x, y) (x', y')"
inductive_cases wire_stepE: "wire_step outA innA haltA outB innB haltB (x, y) w"

definition both_ended :: "('a \<Rightarrow> 'm option) \<Rightarrow> ('b \<Rightarrow> 'm option) \<Rightarrow> ('a, 'm) endpoint \<times> ('b, 'm) endpoint \<Rightarrow> bool" where
  "both_ended outA outB w = (outA (e_st (fst w)) = None \<and> outB (e_st (snd w)) = None)"

text \<open>When an end can move.\<close>

definition end_ready :: "('a \<Rightarrow> 'm option) \<Rightarrow> ('b \<Rightarrow> 'm option) \<Rightarrow> ('a, 'm) endpoint \<Rightarrow> ('b, 'm) endpoint \<Rightarrow> bool" where
  "end_ready out peer x y = (out (e_st x) \<noteq> None \<and>
     (e_server x \<and> e_io x = Idle \<or> (\<exists>m. e_io x = Got m) \<or>
      (e_io x = Wrote \<or> \<not> e_server x \<and> e_io x = Idle) \<and> (e_in x \<noteq> [] \<or> peer (e_st y) = None)))"

lemma end_ready_steps: "end_ready out peer x y \<Longrightarrow> \<exists>x' y'. end_step out inn peer halt (x, y) (x', y')"
  unfolding end_ready_def
  by (cases "e_in x") (fastforce intro: end_step.intros)+

section \<open>Rounds\<close>

text \<open>The synchronous reading: in one round each party gets the message of the other, or finds it gone.\<close>

definition round_recv :: "('a \<Rightarrow> 'm option) \<Rightarrow> ('a \<Rightarrow> 'm \<Rightarrow> 'a) \<Rightarrow> 'a \<Rightarrow> 'a \<Rightarrow> 'm option \<Rightarrow> 'a" where
  "round_recv out inn halt st msg = (if out st = None then st else case msg of Some m \<Rightarrow> inn st m | None \<Rightarrow> halt)"

definition sync_step ::
    "('a \<Rightarrow> 'm option) \<Rightarrow> ('a \<Rightarrow> 'm \<Rightarrow> 'a) \<Rightarrow> 'a \<Rightarrow> ('b \<Rightarrow> 'm option) \<Rightarrow> ('b \<Rightarrow> 'm \<Rightarrow> 'b) \<Rightarrow> 'b \<Rightarrow> 'a \<times> 'b \<Rightarrow> 'a \<times> 'b" where
  "sync_step outA innA haltA outB innB haltB st = (case st of (a, b) \<Rightarrow>
     (round_recv outA innA haltA a (outB b), round_recv outB innB haltB b (outA a)))"

text \<open>How far a run can still go: twice the ranks of the states, and one for each end that has not begun its round.\<close>

definition io_weight :: "'m io \<Rightarrow> nat" where
  "io_weight io = (case io of Idle \<Rightarrow> 1 | _ \<Rightarrow> 0)"

definition weight :: "('a \<Rightarrow> nat) \<Rightarrow> ('b \<Rightarrow> nat) \<Rightarrow> ('a, 'm) endpoint \<times> ('b, 'm) endpoint \<Rightarrow> nat" where
  "weight rankA rankB w = 2 * rankA (e_st (fst w)) + io_weight (e_io (fst w)) + 2 * rankB (e_st (snd w)) + io_weight (e_io (snd w))"

text \<open>
  A server \<open>x\<close> with a client \<open>y\<close>, both in the round that starts in the states \<open>(a, b)\<close>.
\<close>

definition in_round ::
    "('a \<Rightarrow> 'm option) \<Rightarrow> ('b \<Rightarrow> 'm option) \<Rightarrow> ('b \<Rightarrow> 'm \<Rightarrow> 'b) \<Rightarrow> 'a \<times> 'b \<Rightarrow> ('a, 'm) endpoint \<times> ('b, 'm) endpoint \<Rightarrow> bool" where
  "in_round outA outB innB st w = (case (st, w) of ((a, b), x, y) \<Rightarrow> e_server x \<and> \<not> e_server y \<and>
     (e_st x = a \<and> e_st y = b \<and> e_io x = Idle \<and> e_io y = Idle \<and> e_in x = [] \<and> e_in y = [] \<or>
      e_st x = a \<and> e_st y = b \<and> e_io x = Wrote \<and> e_io y = Idle \<and> e_in x = [] \<and> (\<exists>m. outA a = Some m \<and> e_in y = [m]) \<or>
      e_st x = a \<and> e_st y = b \<and> e_io x = Wrote \<and> (\<exists>m. outA a = Some m \<and> e_io y = Got m) \<and> outB b \<noteq> None \<and> e_in x = [] \<and> e_in y = [] \<or>
      e_st x = a \<and> (\<exists>m m'. outA a = Some m \<and> outB b = Some m' \<and> e_st y = innB b m \<and> e_in x = [m']) \<and> e_io x = Wrote \<and> e_io y = Idle \<and>
        e_in y = [] \<or>
      e_st x = a \<and> e_st y = b \<and> outA a = None \<and> outB b = None))"

text \<open>
  The interface: a party that has halted has no message, and with every message that a party takes its rank, a bound on the
  rounds that it still takes part in, goes down.
\<close>

locale rounds =
  fixes outA :: "'a \<Rightarrow> 'm option" and innA :: "'a \<Rightarrow> 'm \<Rightarrow> 'a" and haltA :: 'a and rankA :: "'a \<Rightarrow> nat"
    and outB :: "'b \<Rightarrow> 'm option" and innB :: "'b \<Rightarrow> 'm \<Rightarrow> 'b" and haltB :: 'b and rankB :: "'b \<Rightarrow> nat"
  assumes halted: "outA haltA = None" "outB haltB = None" "rankA haltA = 0" "rankB haltB = 0"
    and rank: "outA a \<noteq> None \<Longrightarrow> rankA (innA a m) < rankA a" "outB b \<noteq> None \<Longrightarrow> rankB (innB b m) < rankB b"
begin

abbreviation step where
  "step \<equiv> wire_step outA innA haltA outB innB haltB"

abbreviation sync where
  "sync \<equiv> sync_step outA innA haltA outB innB haltB"

lemma live_rank: "outA a = Some m \<Longrightarrow> 0 < rankA a" "outB b = Some m \<Longrightarrow> 0 < rankB b"
  using rank(1) [of a m] rank(2) [of b m] by simp_all

lemma rank_step:
  "outA a = Some k \<Longrightarrow> Suc (2 * rankA (innA a m)) < 2 * rankA a"
  "outB b = Some k \<Longrightarrow> Suc (2 * rankB (innB b m)) < 2 * rankB b"
  using rank(1) [of a m] rank(2) [of b m] by simp_all

lemma step_weight: "step w w' \<Longrightarrow> weight rankA rankB w' < weight rankA rankB w"
proof (induction rule: wire_step.induct)
  case (left x y x' y')
  then show ?case
    by (elim end_stepE) (auto simp: weight_def io_weight_def halted dest: live_rank intro: rank_step)
next
  case (right y x y' x')
  then show ?case
    by (elim end_stepE) (auto simp: weight_def io_weight_def halted dest: live_rank intro: rank_step)
qed

text \<open>No run is longer than the weight of its start.\<close>

lemma run_bounded: "(step ^^ k) w w' \<Longrightarrow> k + weight rankA rankB w' \<le> weight rankA rankB w"
proof (induction k arbitrary: w')
  case (Suc k)
  then obtain v where "(step ^^ k) w v" "step v w'" by auto
  with Suc.IH step_weight show ?case by fastforce
qed simp

lemma in_round_step:
  assumes "in_round outA outB innB st w" and "step w w'"
  shows "in_round outA outB innB st w' \<or> in_round outA outB innB (sync st) w'"
proof -
  obtain a b x y where w: "st = (a, b)" "w = (x, y)" by (cases st; cases w) auto
  note move = assms(2) [unfolded w] and shape = assms(1) [unfolded w in_round_def prod.case]
  from shape show ?thesis
  proof (elim conjE disjE exE, goal_cases)
    case 1
    from move 1 show ?case
      by (elim wire_stepE end_stepE; simp add: in_round_def w sync_step_def round_recv_def halted split: option.split)
  next
    case (2 m)
    from move 2 show ?case
      by (elim wire_stepE end_stepE; simp add: in_round_def w sync_step_def round_recv_def halted)
  next
    case (3 m)
    from move 3 show ?case
      by (elim wire_stepE end_stepE; simp add: in_round_def w)
  next
    case (4 m m')
    from move 4 show ?case
      by (elim wire_stepE end_stepE; simp add: in_round_def w sync_step_def round_recv_def)
  next
    case 5
    from move 5 show ?case
      by (elim wire_stepE end_stepE; simp add: in_round_def w)
  qed
qed

lemma in_round_progress:
  assumes "in_round outA outB innB st w" and "\<not> both_ended outA outB w"
  shows "\<exists>w'. step w w'"
proof -
  obtain a b x y where w: "st = (a, b)" "w = (x, y)" by (cases st; cases w) auto
  have "end_ready outA outB x y \<or> end_ready outB outA y x"
    using assms unfolding w in_round_def both_ended_def end_ready_def by auto
  then show ?thesis unfolding w by (metis end_ready_steps wire_step.intros)
qed

lemma sync_ended: "outA (fst st) = None \<Longrightarrow> outB (snd st) = None \<Longrightarrow> (sync ^^ k) st = st"
  by (induction k) (auto simp: sync_step_def round_recv_def split: prod.splits)

lemma reachable_in_round:
  "step\<^sup>*\<^sup>* w w' \<Longrightarrow> in_round outA outB innB st w \<Longrightarrow> \<exists>k. in_round outA outB innB ((sync ^^ k) st) w'"
proof (induction rule: rtranclp_induct)
  case base
  then show ?case by (intro exI [of _ 0]) simp
next
  case (step v w')
  then obtain k where "in_round outA outB innB ((sync ^^ k) st) v" by blast
  with in_round_step [OF this step.hyps(2)] show ?case
    by (metis comp_apply funpow.simps(2))
qed

text \<open>From every state of a run an ended state is reached.\<close>

lemma ends_reached: "in_round outA outB innB st w \<Longrightarrow> \<exists>w'. step\<^sup>*\<^sup>* w w' \<and> both_ended outA outB w'"
proof (induction "weight rankA rankB w" arbitrary: st w rule: less_induct)
  case less
  show ?case
  proof (cases "both_ended outA outB w")
    case False
    then obtain v where v: "step w v" using in_round_progress [OF less.prems] by blast
    moreover have "\<exists>st'. in_round outA outB innB st' v" using in_round_step [OF less.prems v] by blast
    ultimately obtain w' where "step\<^sup>*\<^sup>* v w'" "both_ended outA outB w'"
      using less.hyps [OF step_weight [OF v]] by blast
    with v show ?thesis by (meson converse_rtranclp_into_rtranclp)
  qed blast
qed

text \<open>Whatever the order of the steps, the ended states are those of the synchronous rounds.\<close>

lemma reachable_ended:
  assumes run: "step\<^sup>*\<^sup>* w w'" and start: "in_round outA outB innB st w" and ended: "both_ended outA outB w'"
    and final: "(sync ^^ N) st = (a, b)" "outA a = None" "outB b = None"
  shows "(e_st (fst w'), e_st (snd w')) = (a, b)"
proof -
  obtain k where "in_round outA outB innB ((sync ^^ k) st) w'" using reachable_in_round [OF run start] by blast
  then have k: "(sync ^^ k) st = (e_st (fst w'), e_st (snd w'))"
    using ended by (auto simp: in_round_def both_ended_def split: prod.splits)
  have "(sync ^^ (k + N)) st = (e_st (fst w'), e_st (snd w'))"
    using sync_ended [of "(sync ^^ k) st" N] ended k by (simp add: both_ended_def funpow_add add.commute [of k])
  moreover have "(sync ^^ (k + N)) st = (a, b)"
    using sync_ended [of "(sync ^^ N) st" k] final by (simp add: funpow_add)
  ultimately show ?thesis by simp
qed

end

text \<open>Two clients wait for each other.\<close>

lemma two_clients_stuck:
  assumes "outA a \<noteq> None" and "outB b \<noteq> None"
  shows "\<not> wire_step outA innA haltA outB innB haltB (endpoint_start False a, endpoint_start False b) w"
  using assms by (auto simp: endpoint_start_def elim!: wire_stepE end_stepE)

end
