(* ===== verification/Psu_Twosided.thy ===== *)
theory Psu_Twosided
  imports Psu_Aok Psu_Onesided Psu_Rounds
begin

text \<open>
  \<^verbatim>\<open>src/twosided.rs\<close> with the messages of \<^verbatim>\<open>src/channel.rs\<close> and \<open>recover_from_point\<close> of \<^verbatim>\<open>src/mapping.rs\<close>: the party, its local
  computations, and the four rounds of \<open>protocol\<close> as a state machine that consumes one message of the other party per round.
  Besides the subgroup of prime order, in which the points of the protocol lie, there is the type
  \<open>'p\<close> of all curve points, which items are mapped to.  The random scalars of a run are arguments.
\<close>

section \<open>Points and items\<close>

text \<open>
  What the code takes from the curve in addition: the field, the conversions of points between Montgomery and Edwards form, the multiple by a clamped
  integer and the sum with a torsion point (\<open>EIGHT_TORSION\<close>).
\<close>

record ('s, 'g, 'f, 'p) edwards =
  ed_curve :: "('s, 'g) curve"
  ed_field :: "'f field_ops"
  ed_to_edwards :: "'f \<Rightarrow> 'p option"
  ed_to_montgomery :: "'p \<Rightarrow> 'f"
  ed_mul_clamped :: "'p \<Rightarrow> bytes \<Rightarrow> 'g"
  ed_add_torsion :: "'g \<Rightarrow> nat \<Rightarrow> 'p"

definition hash_to_point :: "('s, 'g, 'f::field, 'p) edwards \<Rightarrow> feistel \<Rightarrow> bytes \<Rightarrow> 'p run" where
  "hash_to_point E permut item =
     (if length item \<noteq> 16 then Inl Panic
      else field_to_edwards (ed_field E) (ed_to_edwards E) (encode_item (ed_field E) permut item))"

fun recover_loop :: "('s, 'g, 'f::field, 'p) edwards \<Rightarrow> feistel \<Rightarrow> 'g \<Rightarrow> nat list \<Rightarrow> bytes" where
  "recover_loop E permut point [] = replicate 16 0"
| "recover_loop E permut point (i # is) =
     (case edwards_to_field (ed_field E) (ed_to_montgomery E) (ed_add_torsion E point i) of
        None \<Rightarrow> recover_loop E permut point is
      | Some (r0, r1) \<Rightarrow>
          (case check_item (ed_field E) r0 r1 permut of
             Some item \<Rightarrow> item
           | None \<Rightarrow> recover_loop E permut point is))"

definition recover_from_point :: "('s, 'g, 'f::field, 'p) edwards \<Rightarrow> feistel \<Rightarrow> 'g \<Rightarrow> bytes" where
  "recover_from_point E permut point = recover_loop E permut point [0..<8]"

section \<open>The party\<close>

record ('s, 'g) party =
  p_server :: bool
  p_input :: bytes
  p_n :: nat
  p_sk_8 :: bytes
  p_sk :: 's
  p_sk_inv :: 's
  p_sk_8inv :: 's
  p_pk :: 'g
  p_perm :: "nat list"
  p_perm_inv :: "nat list"
  p_hint :: "('s, 'g) adapted_hint"
  p_permut :: feistel

text \<open>
  The random choices of \<open>new\<close>: the bytes of the key, the choices of the permutation, and the scalars
  of the two preprocessings; and those of a run of the protocol.
\<close>

record 's setup_coins =
  sc_raw :: bytes
  sc_pick :: "nat \<Rightarrow> nat"
  sc_d :: "nat \<Rightarrow> 's"
  sc_scalars :: "'s \<times> 's \<times> 's \<times> 's \<times> 's"
  sc_d2 :: "nat \<Rightarrow> 's"
  sc_delta :: "nat \<Rightarrow> 's"
  sc_scalars2 :: "'s \<times> 's \<times> 's"

record 's run_coins =
  rc_alpha1 :: 's
  rc_alpha2 :: 's
  rc_r :: 's

definition party_new ::
    "('s::comm_ring_1, 'g::ab_group_add, 'f::field, 'p) edwards \<Rightarrow> (bytes \<Rightarrow> bytes \<Rightarrow> bytes) \<Rightarrow> 's setup_coins \<Rightarrow> bool \<Rightarrow> bytes \<Rightarrow> bytes \<Rightarrow>
     'g list \<Rightarrow> nat \<Rightarrow> nat \<Rightarrow> ('s, 'g) party run" where
  "party_new E aes R server input aes_key pp n n_other =
     (let C = ed_curve E;
          sk_8 = clamp_integer (sc_raw R);
          sk = sc_from_bytes C sk_8 * sc_invert C 8;
          sk_inv = sc_invert C sk;
          sk_8inv = sk_inv * sc_invert C 8;
          pk = mul_base C sk
      in bind_run (random_permutation (sc_pick R) n_other) (\<lambda>(perm, perm_inv).
           let permut = feistel_new aes aes_key;
               (r_d, r_pi, r_z, u, u2) = sc_scalars R;
               (r_d2, r_delta, r_a) = sc_scalars2 R
           in bind_run (prove_shuffle_adapted_preprocess C pp perm n (sc_d R) r_d r_pi r_z u u2
                (prove_shuffle_known_preprocess C pp n (sc_d2 R) (sc_delta R) r_d2 r_delta r_a)) (\<lambda>hint.
              Inr \<lparr>p_server = server, p_input = input, p_n = n, p_sk_8 = sk_8, p_sk = sk, p_sk_inv = sk_inv,
                   p_sk_8inv = sk_8inv, p_pk = pk, p_perm = perm, p_perm_inv = perm_inv, p_hint = hint,
                   p_permut = permut\<rparr>)))"

text \<open>\<open>gen\<close>: the points of the items, their compressed form and the commitment \<open>sigma\<close> to them.\<close>

definition sigma_of :: "('s, 'g) curve \<Rightarrow> 'g \<Rightarrow> bytes list \<Rightarrow> bytes" where
  "sigma_of C pk bpoints = blake2s C (pt_compress C pk @ concat bpoints)"

definition party_gen :: "('s, 'g, 'f::field, 'p) edwards \<Rightarrow> ('s, 'g) party \<Rightarrow> (bytes \<times> 'g list \<times> bytes list) run" where
  "party_gen E party =
     bind_run (map_run (\<lambda>item. bind_run (hash_to_point E (p_permut party) item) (\<lambda>p. Inr (ed_mul_clamped E p (p_sk_8 party))))
         (chunks_exact 16 (p_input party))) (\<lambda>points.
       let bpoints = map (pt_compress (ed_curve E)) points
       in Inr (sigma_of (ed_curve E) (p_pk party) bpoints, points, bpoints))"

definition verify_sigma :: "('s, 'g) curve \<Rightarrow> bytes \<Rightarrow> 'g \<Rightarrow> bytes list \<Rightarrow> (bool \<times> 'g list) run" where
  "verify_sigma C sigma_other pk_other bpoints_other =
     bind_run (map_run (decompress_unwrap C) bpoints_other) (\<lambda>points_other.
     Inr (sigma_of C pk_other bpoints_other = sigma_other, points_other))"

definition blind_shuffle ::
    "('s::comm_ring_1, 'g::ab_group_add) curve \<Rightarrow> 'g list \<Rightarrow> ('s, 'g) party \<Rightarrow> 'g list \<Rightarrow> bytes list \<Rightarrow>
     ('s adapted_proof \<times> 'g list \<times> bytes list) run" where
  "blind_shuffle C pp party points_other bpoints_other =
     bind_run (map_run (\<lambda>i. bind_run (read_at (p_perm_inv party) i) (\<lambda>j.
         bind_run (read_at points_other j) (\<lambda>p. Inr (pt_mul C (p_sk party) p)))) [0..<length bpoints_other]) (\<lambda>shuffled.
       let bshuffled = map (pt_compress C) shuffled
       in bind_run (prove_shuffle_adapted C pp (p_pk party) (p_hint party) points_other bpoints_other bshuffled
            (p_sk party) (p_perm party)) (\<lambda>pf. Inr (pf, shuffled, bshuffled)))"

text \<open>The loop of \<open>final_response\<close>; \<open>i as u32\<close> keeps the low 32 bits.\<close>

fun unblind_loop ::
    "('s, 'g) curve \<Rightarrow> 's \<Rightarrow> bytes list \<Rightarrow> 'g list \<Rightarrow> bytes list \<Rightarrow> nat list \<Rightarrow> ('g list \<times> bytes list \<times> bytes list \<times> nat list) run" where
  "unblind_loop C sk_inv bpoints_other shuffled bshuffled [] = Inr ([], [], [], [])"
| "unblind_loop C sk_inv bpoints_other shuffled bshuffled (i # is) =
     bind_run (read_at shuffled i) (\<lambda>ps.
     bind_run (read_at bshuffled i) (\<lambda>bps.
       let p = pt_mul C sk_inv ps; bp = pt_compress C p
       in bind_run (unblind_loop C sk_inv bpoints_other shuffled bshuffled is) (\<lambda>(unblinded, bunblinded, shrinked, ind).
          Inr (if bp \<notin> set bpoints_other then (p # unblinded, bp # bunblinded, bps # shrinked, (i mod 2 ^ 32) # ind)
               else (unblinded, bunblinded, shrinked, ind)))))"

definition final_response ::
    "('s::comm_ring_1, 'g::ab_group_add) curve \<Rightarrow> 's run_coins \<Rightarrow> 'g list \<Rightarrow> ('s, 'g) party \<Rightarrow> 'g \<Rightarrow> 'g list \<Rightarrow> 'g list \<Rightarrow>
     bytes list \<Rightarrow> bytes list \<Rightarrow> bytes list \<Rightarrow> 's adapted_proof \<Rightarrow> (bytes list \<times> nat list \<times> 's ddh_proof) option run" where
  "final_response C R pp party pk_other points shuffled bpoints bshuffled bpoints_other pf =
     bind_run (verify_shuffle_adapted C (rc_alpha1 R) (rc_alpha2 R) pp pk_other points shuffled bpoints bshuffled pf) (\<lambda>ok.
       if \<not> ok then Inr None
       else
         bind_run (unblind_loop C (p_sk_inv party) bpoints_other shuffled bshuffled [0..<p_n party])
           (\<lambda>(unblinded, bunblinded, shrinked, ind).
         bind_run (batched_ddh_prove C (rc_r R) (p_pk party) unblinded bunblinded shrinked (p_sk party)) (\<lambda>pf.
         Inr (Some (bunblinded, ind, pf)))))"

definition reveal_items ::
    "('s::comm_ring_1, 'g::ab_group_add, 'f::field, 'p) edwards \<Rightarrow> ('s, 'g) party \<Rightarrow> 'g \<Rightarrow> 'g list \<Rightarrow> bytes list \<Rightarrow> 'g list \<Rightarrow> bytes list \<Rightarrow>
     's ddh_proof \<Rightarrow> bytes option run" where
  "reveal_items E party pk_other unblinded bunblinded shrinked bshrinked pf =
     bind_run (batched_ddh_verify (ed_curve E) pk_other unblinded shrinked bunblinded bshrinked pf) (\<lambda>ok.
       if \<not> ok then Inr None
       else Inr (Some (concat (map (\<lambda>point. recover_from_point E (p_permut party)
              (pt_mul (ed_curve E) (p_sk_8inv party) point)) unblinded))))"

section \<open>The rounds of the protocol\<close>

datatype ('s, 'g) message =
    Round1 bytes
  | Round2 "'g \<times> bytes list"
  | Round3 "'s adapted_proof \<times> bytes list"
  | Round4 "'s ddh_proof \<times> bytes list \<times> nat list"
  | HashDH "bytes list"
  | HashDH2 "bytes list"

text \<open>
  Where a party stands: before the message of a round is read, with the local variables that are still needed;
  returned; or stopped by a panic.
\<close>

datatype ('s, 'g) stage =
    In1 "'g list" "bytes list" bytes
  | In2 "'g list" "bytes list" bytes
  | In3 "'g list" "bytes list" 'g "bytes list" "'s adapted_proof" "'g list" "bytes list"
  | In4 'g "'g list" "bytes list" "'s ddh_proof" "bytes list" "nat list"
  | Returned "bytes option"
  | Stopped fault

definition stop_on :: "'a run \<Rightarrow> ('a \<Rightarrow> ('s, 'g) stage) \<Rightarrow> ('s, 'g) stage" where
  "stop_on r f = (case r of Inl e \<Rightarrow> Stopped e | Inr x \<Rightarrow> f x)"

definition stage_start :: "('s, 'g, 'f::field, 'p) edwards \<Rightarrow> ('s, 'g) party \<Rightarrow> ('s, 'g) stage" where
  "stage_start E party = stop_on (party_gen E party) (\<lambda>(sigma, points, bpoints). In1 points bpoints sigma)"

text \<open>The message that a party writes in its round.\<close>

fun stage_out :: "('s, 'g) party \<Rightarrow> ('s, 'g) stage \<Rightarrow> ('s, 'g) message option" where
  "stage_out party (In1 points bpoints sigma) = Some (Round1 sigma)"
| "stage_out party (In2 points bpoints right_sigma) = Some (Round2 (p_pk party, bpoints))"
| "stage_out party (In3 points bpoints right_pk bright_points proof1 right_shuffled bright_shuffled) =
     Some (Round3 (proof1, bright_shuffled))"
| "stage_out party (In4 right_pk right_shuffled bright_shuffled proof2 bunblinded ind) = Some (Round4 (proof2, bunblinded, ind))"
| "stage_out party (Returned out) = None"
| "stage_out party (Stopped f) = None"

definition after_round2 ::
    "('s::comm_ring_1, 'g::ab_group_add, 'f::field, 'p) edwards \<Rightarrow> 'g list \<Rightarrow> ('s, 'g) party \<Rightarrow> 'g list \<Rightarrow> bytes list \<Rightarrow> bytes \<Rightarrow> 'g \<Rightarrow>
     bytes list \<Rightarrow> ('s, 'g) stage" where
  "after_round2 E pp party points bpoints right_sigma right_pk bright_points =
     stop_on (verify_sigma (ed_curve E) right_sigma right_pk bright_points) (\<lambda>(valid, right_points).
       if \<not> valid then Returned None
       else stop_on (blind_shuffle (ed_curve E) pp party right_points bright_points)
              (\<lambda>(proof1, right_shuffled, bright_shuffled).
                In3 points bpoints right_pk bright_points proof1 right_shuffled bright_shuffled))"

definition after_round3 ::
    "('s::comm_ring_1, 'g::ab_group_add, 'f::field, 'p) edwards \<Rightarrow> 's run_coins \<Rightarrow> 'g list \<Rightarrow> ('s, 'g) party \<Rightarrow> 'g list \<Rightarrow> bytes list \<Rightarrow> 'g \<Rightarrow>
     bytes list \<Rightarrow> 'g list \<Rightarrow> bytes list \<Rightarrow> 's adapted_proof \<Rightarrow> bytes list \<Rightarrow> ('s, 'g) stage" where
  "after_round3 E R pp party points bpoints right_pk bright_points right_shuffled bright_shuffled right_proof1 bshuffled =
     stop_on (map_run (decompress_unwrap (ed_curve E)) bshuffled) (\<lambda>shuffled.
     stop_on (final_response (ed_curve E) R pp party right_pk points shuffled bpoints bshuffled bright_points right_proof1) (\<lambda>resp.
       case resp of
         None \<Rightarrow> Returned None
       | Some (bunblinded, ind, proof2) \<Rightarrow> In4 right_pk right_shuffled bright_shuffled proof2 bunblinded ind))"

definition after_round4 ::
    "('s::comm_ring_1, 'g::ab_group_add, 'f::field, 'p) edwards \<Rightarrow> ('s, 'g) party \<Rightarrow> 'g \<Rightarrow> 'g list \<Rightarrow> bytes list \<Rightarrow> 's ddh_proof \<Rightarrow> bytes list \<Rightarrow>
     nat list \<Rightarrow> ('s, 'g) stage" where
  "after_round4 E party right_pk right_shuffled bright_shuffled right_proof2 bright_unblinded right_ind =
     stop_on (map_run (\<lambda>i. bind_run (read_at right_ind i) (\<lambda>j.
         bind_run (read_at bright_unblinded i) (\<lambda>b. bind_run (decompress_unwrap (ed_curve E) b) (\<lambda>p.
         bind_run (read_at right_shuffled j) (\<lambda>s. bind_run (read_at bright_shuffled j) (\<lambda>bs. Inr (p, s, bs)))))))
         [0..<length right_ind]) (\<lambda>rows.
     stop_on (reveal_items E party right_pk (map fst rows) bright_unblinded (map (fst \<circ> snd) rows) (map (snd \<circ> snd) rows)
         right_proof2) (\<lambda>out.
       case out of None \<Rightarrow> Stopped Panic | Some output \<Rightarrow> Returned (Some output)))"

text \<open>
  What a party does with the message that it reads; a message of another round ends the protocol (a client then returns
  before it writes, which the steps of \<open>Psu_Rounds\<close> do not tell from a return after it; between two parties that run this code
  it does not arise, as the rounds of the messages in \<open>Psu_Twosided_Correct\<close> show).
\<close>

fun stage_in ::
    "('s::comm_ring_1, 'g::ab_group_add, 'f::field, 'p) edwards \<Rightarrow> 's run_coins \<Rightarrow> 'g list \<Rightarrow> ('s, 'g) party \<Rightarrow> ('s, 'g) stage \<Rightarrow>
     ('s, 'g) message \<Rightarrow> ('s, 'g) stage" where
  "stage_in E R pp party (In1 points bpoints sigma) msg =
     (case msg of Round1 s \<Rightarrow> In2 points bpoints s | _ \<Rightarrow> Returned None)"
| "stage_in E R pp party (In2 points bpoints right_sigma) msg =
     (case msg of Round2 (right_pk, bright_points) \<Rightarrow> after_round2 E pp party points bpoints right_sigma right_pk bright_points
      | _ \<Rightarrow> Returned None)"
| "stage_in E R pp party (In3 points bpoints right_pk bright_points proof1 right_shuffled bright_shuffled) msg =
     (case msg of Round3 (right_proof1, bshuffled) \<Rightarrow>
        after_round3 E R pp party points bpoints right_pk bright_points right_shuffled bright_shuffled right_proof1 bshuffled
      | _ \<Rightarrow> Returned None)"
| "stage_in E R pp party (In4 right_pk right_shuffled bright_shuffled proof2 bunblinded ind) msg =
     (case msg of Round4 (right_proof2, bright_unblinded, right_ind) \<Rightarrow>
        after_round4 E party right_pk right_shuffled bright_shuffled right_proof2 bright_unblinded right_ind
      | _ \<Rightarrow> Returned None)"
| "stage_in E R pp party (Returned out) msg = Returned out"
| "stage_in E R pp party (Stopped f) msg = Stopped f"


section \<open>Two parties on a channel\<close>

text \<open>
  \<open>malicious_psu2\<close>: the two parties run \<open>protocol\<close> at the ends of one connection.  What it returns is the output of the
  left party; it panics if one of the parties has panicked or the left party has returned no output.
\<close>

definition psu_step ::
    "('s::comm_ring_1, 'g::ab_group_add, 'f::field, 'p) edwards \<Rightarrow> 'g list \<Rightarrow> 's run_coins \<Rightarrow> 's run_coins \<Rightarrow> ('s, 'g) party \<Rightarrow> ('s, 'g) party \<Rightarrow>
     (('s, 'g) stage, ('s, 'g) message) endpoint \<times> (('s, 'g) stage, ('s, 'g) message) endpoint \<Rightarrow>
     (('s, 'g) stage, ('s, 'g) message) endpoint \<times> (('s, 'g) stage, ('s, 'g) message) endpoint \<Rightarrow> bool" where
  "psu_step E pp RA RB A B =
     wire_step (stage_out A) (stage_in E RA pp A) (Stopped Panic) (stage_out B) (stage_in E RB pp B) (Stopped Panic)"

definition psu_start ::
    "('s, 'g, 'f::field, 'p) edwards \<Rightarrow> ('s, 'g) party \<Rightarrow> ('s, 'g) party \<Rightarrow>
     (('s, 'g) stage, ('s, 'g) message) endpoint \<times> (('s, 'g) stage, ('s, 'g) message) endpoint" where
  "psu_start E A B = (endpoint_start (p_server A) (stage_start E A), endpoint_start (p_server B) (stage_start E B))"

definition psu_ended ::
    "('s, 'g) party \<Rightarrow> ('s, 'g) party \<Rightarrow> (('s, 'g) stage, ('s, 'g) message) endpoint \<times> (('s, 'g) stage, ('s, 'g) message) endpoint \<Rightarrow> bool" where
  "psu_ended A B w = both_ended (stage_out A) (stage_out B) w"

definition malicious_psu2_out :: "('s, 'g) stage \<Rightarrow> ('s, 'g) stage \<Rightarrow> bytes run" where
  "malicious_psu2_out left right =
     (case left of
        Returned (Some output) \<Rightarrow> (case right of Stopped f \<Rightarrow> Inl f | _ \<Rightarrow> Inr output)
      | _ \<Rightarrow> Inl Panic)"

section \<open>The check of the result\<close>

text \<open>\<open>correctness_check\<close>, which the benchmarks run on the inputs and the output.\<close>

fun check_loop :: "bytes set \<Rightarrow> bytes set \<Rightarrow> bytes list \<Rightarrow> bool" where
  "check_loop set_v set_w [] = True"
| "check_loop set_v set_w (block # blocks) =
     (if block \<notin> set_w then False
      else if block \<in> set_v then False
      else check_loop set_v set_w blocks)"

definition correctness_check :: "bytes \<Rightarrow> bytes \<Rightarrow> bytes \<Rightarrow> bool run" where
  "correctness_check input_v input_w recovered_w =
     (if length input_v mod 16 \<noteq> 0 then Inl AssertFailed
      else if length input_w mod 16 \<noteq> 0 then Inl AssertFailed
      else if length recovered_w mod 16 \<noteq> 0 then Inl AssertFailed
      else Inr (check_loop (set (chunks_exact 16 input_v)) (set (chunks_exact 16 input_w)) (chunks_exact 16 recovered_w)))"

end
