(* ===== verification/Psu_Aok_Complete.thy ===== *)
theory Psu_Aok_Complete
  imports Psu_Aok
begin

text \<open>
  Completeness of the arguments of \<^verbatim>\<open>src/aok.rs\<close>: honest proofs are computed without a fault and accepted.  Commitments are
  linear combinations (\<open>lin\<close>), over which the equations of the verifiers are equations between coefficients; the product of the
  permuted content is carried through the recursion of the verifier.
\<close>

section \<open>Commitments are linear\<close>

text \<open>What the arguments rely on of the other crates.\<close>

definition curve_ok :: "('s::comm_ring_1, 'g::ab_group_add) curve \<Rightarrow> bool" where
  "curve_ok C = (module (pt_mul C) \<and> (\<forall>p. pt_decompress C (pt_compress C p) = Some p) \<and>
     (\<forall>seed n. length (chacha_scalars C seed n) = n))"

text \<open>The commitment to the scalars \<open>F i\<close>, \<open>i < length pp\<close>, as a sum.\<close>

definition lin :: "('s, 'g::ab_group_add) curve \<Rightarrow> 'g list \<Rightarrow> (nat \<Rightarrow> 's) \<Rightarrow> 's \<Rightarrow> 'g" where
  "lin C pp F r = (\<Sum>i<length pp. pt_mul C (F i) (pp ! i)) + mul_base C r"

lemma multiscalar_sum:
  "length ss = length ps \<Longrightarrow> multiscalar_mul C ss ps = Inr (\<Sum>i<length ps. pt_mul C (ss ! i) (ps ! i))"
  by (simp add: multiscalar_mul_def sum_list_sum_nth atLeast0LessThan)

lemma multiscalar_append:
  "length xs = length g \<Longrightarrow> length ys = length h \<Longrightarrow> multiscalar_mul C (xs @ ys) (g @ h) =
     Inr ((\<Sum>i<length g. pt_mul C (xs ! i) (g ! i)) + (\<Sum>i<length h. pt_mul C (ys ! i) (h ! i)))"
  using sum_list_append [of "map2 (pt_mul C) xs g" "map2 (pt_mul C) ys h"]
  by (simp add: multiscalar_mul_def sum_list_sum_nth [of "map2 _ _ _"] atLeast0LessThan)

lemma commit_lin: "length m = length pp \<Longrightarrow> commit C pp m r = Inr (lin C pp (\<lambda>i. m ! i) r)"
  by (simp add: commit_def multiscalar_sum lin_def)

lemma lin_cong: "(\<And>i. i < length pp \<Longrightarrow> F i = G i) \<Longrightarrow> r = t \<Longrightarrow> lin C pp F r = lin C pp G t"
  by (simp add: lin_def)

lemma lin_module:
  assumes "curve_ok C"
  shows "lin C pp F r + lin C pp G t = lin C pp (\<lambda>i. F i + G i) (r + t)"
    and "lin C pp F r - lin C pp G t = lin C pp (\<lambda>i. F i - G i) (r - t)"
    and "pt_mul C a (lin C pp F r) = lin C pp (\<lambda>i. a * F i) (a * r)"
    and "mul_base C t = lin C pp (\<lambda>i. 0) t"
proof -
  have m: "module (pt_mul C)" using assms by (simp add: curve_ok_def)
  note laws = module.scale_left_distrib [OF m] module.scale_right_distrib [OF m] module.scale_scale [OF m]
    module.scale_sum_right [OF m] module.scale_zero_left [OF m] module.scale_left_diff_distrib [OF m]
  show "lin C pp F r + lin C pp G t = lin C pp (\<lambda>i. F i + G i) (r + t)"
    by (simp add: lin_def mul_base_def laws sum.distrib)
  show "lin C pp F r - lin C pp G t = lin C pp (\<lambda>i. F i - G i) (r - t)"
    by (simp add: lin_def mul_base_def laws sum_subtractf)
  show "pt_mul C a (lin C pp F r) = lin C pp (\<lambda>i. a * F i) (a * r)"
    by (simp add: lin_def mul_base_def laws)
  show "mul_base C t = lin C pp (\<lambda>i. 0) t"
    by (simp add: lin_def laws)
qed

lemma decompress_ok: "curve_ok C \<Longrightarrow> decompress_unwrap C (pt_compress C p) = Inr p"
  by (simp add: decompress_unwrap_def curve_ok_def)

section \<open>Hints\<close>

definition known_hint_ok :: "('s::comm_ring_1, 'g::ab_group_add) curve \<Rightarrow> 'g list \<Rightarrow> nat \<Rightarrow> ('s, 'g) known_hint \<Rightarrow> bool" where
  "known_hint_ok C pp n hint = (length (kh_d hint) = n \<and> length (kh_delta hint) = n \<and>
     kh_delta hint ! 0 = kh_d hint ! 0 \<and> kh_delta hint ! (n - 1) = 0 \<and>
     kh_c_d hint = lin C pp (\<lambda>i. kh_d hint ! i) (kh_r_d hint) \<and>
     kh_c_delta hint = lin C pp (\<lambda>i. if i < n - 1 then - (kh_delta hint ! i) * kh_d hint ! (i + 1) else 0) (kh_r_delta hint))"

lemma known_hint_lengths: "known_hint_ok C pp n hint \<Longrightarrow> length (kh_d hint) = n \<and> length (kh_delta hint) = n"
  by (simp add: known_hint_ok_def)

lemma fold_updates:
  "length (foldl (\<lambda>l i. l[i := f i]) xs is) = length xs \<and>
   (k \<notin> set is \<longrightarrow> foldl (\<lambda>l i. l[i := f i]) xs is ! k = xs ! k)"
  by (induction "is" arbitrary: xs) simp_all

lemma known_delta_ends:
  assumes "1 < n" and "length d = n"
  shows "length (known_delta n rnd d) = n" and "known_delta n rnd d ! 0 = d ! 0" and "known_delta n rnd d ! (n - 1) = 0"
proof -
  let ?l = "(replicate n 0)[0 := d ! 0]"
  have u: "length (foldl (\<lambda>l i. l[i := rnd i]) ?l [1..<n - 1]) = n"
    "foldl (\<lambda>l i. l[i := rnd i]) ?l [1..<n - 1] ! 0 = d ! 0"
    using fold_updates [of rnd ?l "[1..<n - 1]" 0] assms(1) by simp_all
  then show "length (known_delta n rnd d) = n" "known_delta n rnd d ! 0 = d ! 0" "known_delta n rnd d ! (n - 1) = 0"
    using assms(1) by (simp_all add: known_delta_def)
qed


lemma known_preprocess_ok:
  assumes "1 < n" and "length pp = n"
  shows "\<exists>hint. prove_shuffle_known_preprocess C pp n rnd_d rnd_delta r_d r_delta r_a = Inr hint \<and> known_hint_ok C pp n hint"
  using assms known_delta_ends [OF assms(1), of "map rnd_d [0..<n]" rnd_delta]
  by (auto simp: prove_shuffle_known_preprocess_def Let_def commit_lin known_hint_ok_def intro!: lin_cong)

section \<open>The product of the permuted content\<close>

lemma partial_products_value:
  "\<forall>j\<in>set js. j < length m \<Longrightarrow>
   partial_products m x acc js = Inr (map (\<lambda>i. acc * (\<Prod>k<Suc i. m ! (js ! k) - x)) [0..<length js])"
proof (induction js arbitrary: acc)
  case (Cons j js)
  have "map (\<lambda>i. acc * (\<Prod>k<Suc i. m ! ((j # js) ! k) - x)) [0..<length (j # js)] =
      acc * (m ! j - x) # map (\<lambda>i. acc * (m ! j - x) * (\<Prod>k<Suc i. m ! (js ! k) - x)) [0..<length js]"
    by (simp add: upt_conv_Cons prod.lessThan_Suc_shift mult.assoc del: upt_Suc prod.lessThan_Suc flip: map_Suc_upt)
  with Cons show ?case by (simp add: buffer_simps Let_def del: prod.lessThan_Suc)
qed simp

lemma foldl_product: "foldl (\<lambda>p mi. p * (mi - x)) (acc :: 's::comm_ring_1) m = acc * prod_list (map (\<lambda>mi. mi - x) m)"
  by (induction m arbitrary: acc) (simp_all add: mult.assoc)

lemma permuted_product:
  fixes m :: "'s::comm_ring_1 list"
  assumes "mset perm = mset [0..<length m]"
  shows "(\<Prod>k<length m. m ! (perm ! k) - x) = foldl (\<lambda>p mi. p * (mi - x)) 1 m"
proof -
  let ?g = "\<lambda>j. m ! j - x"
  have len: "length perm = length m" using mset_eq_length [OF assms] by simp
  have "(\<Prod>k<length m. ?g (perm ! k)) = prod_list (map ?g perm)"
    by (simp add: prod.list_conv_set_nth atLeast0LessThan len)
  also have "\<dots> = prod_mset (image_mset ?g (mset perm))"
    by (metis mset_map prod_mset_prod_list)
  also have "\<dots> = prod_list (map ?g [0..<length m])"
    unfolding assms by (metis mset_map prod_mset_prod_list)
  also have "map ?g [0..<length m] = map (\<lambda>mi. mi - x) m"
    by (rule nth_equalityI) simp_all
  finally show ?thesis by (simp add: foldl_product)
qed

section \<open>Honest proofs of known content\<close>

text \<open>The prover's terms, and the answers that it gives to the challenges \<open>x\<close> and \<open>e\<close>.\<close>

definition known_T :: "('s::comm_ring_1, 'g) known_hint \<Rightarrow> 's list \<Rightarrow> 's \<Rightarrow> nat list \<Rightarrow> nat \<Rightarrow> 's" where
  "known_T hint m x perm i = kh_delta hint ! (i + 1) - (m ! (perm ! (i + 1)) - x) * kh_delta hint ! i -
     (\<Prod>k<Suc i. m ! (perm ! k) - x) * kh_d hint ! (i + 1)"

definition known_answers ::
    "('s::comm_ring_1, 'g::ab_group_add) curve \<Rightarrow> 'g list \<Rightarrow> ('s, 'g) known_hint \<Rightarrow> 's list \<Rightarrow> 's \<Rightarrow> 's \<Rightarrow> nat list \<Rightarrow> 's \<Rightarrow>
     's known_proof \<Rightarrow> bool" where
  "known_answers C pp hint m x e perm r proof = (let n = length m in
     kp_c_d proof = pt_compress C (kh_c_d hint) \<and> kp_c_delta proof = pt_compress C (kh_c_delta hint) \<and>
     kp_c_a proof = pt_compress C (lin C pp (\<lambda>i. if i < n - 1 then known_T hint m x perm i else 0) (kh_r_a hint)) \<and>
     kp_f proof = map (\<lambda>i. e * m ! (perm ! i) + kh_d hint ! i) [0..<n] \<and>
     kp_f_delta proof = map (\<lambda>i. if i < n - 1 then e * known_T hint m x perm i - kh_delta hint ! i * kh_d hint ! (i + 1)
       else 0) [0..<n] \<and>
     kp_z proof = e * r + kh_r_d hint \<and> kp_z_delta proof = e * kh_r_a hint + kh_r_delta hint)"

lemma prove_shuffle_known_answers:
  assumes hint: "length (kh_d hint) = n" "length (kh_delta hint) = n" and n: "0 < n" "length m = n" "length pp = n"
    and perm: "mset perm = mset [0..<n]"
  shows "\<exists>proof. prove_shuffle_known C pp hint m c perm r = Inr proof \<and>
    known_answers C pp hint m (sc_from_bytes C (known_hx C c m))
      (known_e C (kp_c_d proof) (kp_c_delta proof) (kp_c_a proof) (known_hx C c m)) perm r proof"
proof -
  define x where "x = sc_from_bytes C (known_hx C c m)"
  have len: "length (kh_d hint) = n" "length (kh_delta hint) = n" "length perm = n"
    using hint mset_eq_length [OF perm] by simp_all
  have entry: "perm ! i < n" if "i < n" for i using perm_entry [OF perm len(3) that] .
  then have in_range: "\<forall>j\<in>set perm. j < length m" using len(3) n(2) by (auto simp: in_set_conv_nth)
  define a where "a = map (\<lambda>i. 1 * (\<Prod>k<Suc i. m ! (perm ! k) - x)) [0..<length perm]"
  have a: "partial_products m x 1 perm = Inr a"
    unfolding a_def by (rule partial_products_value [OF in_range])
  have "map_run (known_term hint m x perm a) [0..<n - 1] = Inr (map (known_T hint m x perm) [0..<n - 1])"
  proof (rule map_run_Inr)
    fix i assume "i \<in> set [0..<n - 1]"
    then have i: "i < n - 1" by simp
    then have "i < length perm" using len by simp
    then have "a ! i = (\<Prod>k<Suc i. m ! (perm ! k) - x)" and "length a = n" by (simp_all add: a_def len)
    with i entry [of "i + 1"] len n show "known_term hint m x perm a i = Inr (known_T hint m x perm i)"
      by (simp add: known_term_def buffer_simps known_T_def)
  qed
  moreover define c_a where "c_a = lin C pp (\<lambda>i. if i < n - 1 then known_T hint m x perm i else 0) (kh_r_a hint)"
  have "commit C pp (map (known_T hint m x perm) [0..<n - 1] @ [0]) (kh_r_a hint) = Inr c_a"
    using n by (auto simp: commit_lin c_a_def nth_append intro!: lin_cong)
  moreover define e where "e = known_e C (pt_compress C (kh_c_d hint)) (pt_compress C (kh_c_delta hint))
      (pt_compress C c_a) (known_hx C c m)"
  have "map_run (\<lambda>(i, j). bind_run (read_at m j) (\<lambda>mj. bind_run (read_at (kh_d hint) i) (\<lambda>di. Inr (e * mj + di))))
      (zip [0..<length perm] perm) = Inr (map (\<lambda>(i, j). e * m ! j + kh_d hint ! i) (zip [0..<length perm] perm))"
    using len n entry by (intro map_run_Inr) (auto simp: set_zip buffer_simps)
  moreover have "map (\<lambda>(i, j). e * m ! j + kh_d hint ! i) (zip [0..<length perm] perm) =
      map (\<lambda>i. e * m ! (perm ! i) + kh_d hint ! i) [0..<n]"
    using len by (intro nth_equalityI) simp_all
  ultimately show ?thesis
    using a n by (auto simp: prove_shuffle_known_def Let_def known_answers_def c_a_def e_def simp flip: x_def)
qed

lemma known_F_value:
  fixes e e_inv :: "'s::comm_ring_1"
  assumes inv: "e * e_inv = 1" and "length f = n" and "length f_delta = n"
    and f: "\<And>i. i < n \<Longrightarrow> f ! i = e * mu i + d i + e * x"
    and fd: "\<And>i. i < n - 1 \<Longrightarrow> f_delta ! i =
      e * (delta (Suc i) - mu (Suc i) * delta i - (\<Prod>k<Suc i. mu k) * d (Suc i)) - delta i * d (Suc i)"
  shows "0 < i \<Longrightarrow> i \<le> n \<Longrightarrow> known_F f f_delta (e * x) e_inv [i..<n] (e * (\<Prod>k<i. mu k) + delta (i - 1)) =
    Inr (e * (\<Prod>k<n. mu k) + delta (n - 1))"
proof (induction "n - i" arbitrary: i)
  case (Suc j)
  then have i: "i < n" "0 < i" by simp_all
  then obtain k where k: "i = Suc k" by (cases i) simp_all
  let ?P = "\<Prod>k<i. mu k"
  have "(e * ?P + delta (i - 1)) * (f ! i - e * x) + f_delta ! (i - 1) = e * (e * (?P * mu i) + delta i)"
    using f [of i] fd [of k] i k by (simp add: algebra_simps)
  then have "((e * ?P + delta (i - 1)) * (f ! i - e * x) + f_delta ! (i - 1)) * e_inv = e * (?P * mu i) + delta i"
    using inv by (metis mult.assoc mult.commute mult_1)
  then have "known_F f f_delta (e * x) e_inv [i..<n] (e * ?P + delta (i - 1)) =
      known_F f f_delta (e * x) e_inv [Suc i..<n] (e * (\<Prod>k<Suc i. mu k) + delta (Suc i - 1))"
    using i assms(2,3) by (simp add: upt_conv_Cons buffer_simps)
  also have "\<dots> = Inr (e * (\<Prod>k<n. mu k) + delta (n - 1))"
    by (rule Suc.hyps(1)) (use Suc.hyps(2) i in simp_all)
  finally show ?case .
qed simp

lemma known_product_ok:
  assumes hint: "known_hint_ok C pp n hint" and n: "0 < n" "length m = n" and perm: "mset perm = mset [0..<n]"
    and answers: "known_answers C pp hint m x e perm r proof" and inv: "e * sc_invert C e = 1"
  shows "known_product_check C m x e proof = Inr True"
proof -
  let ?mu = "\<lambda>i. m ! (perm ! i) - x"
  have h: "kh_delta hint ! 0 = kh_d hint ! 0" "kh_delta hint ! (n - 1) = 0"
    using hint by (simp_all add: known_hint_ok_def)
  have f: "kp_f proof ! i = e * ?mu i + kh_d hint ! i + e * x" if "i < n" for i
    using answers that n by (simp add: known_answers_def Let_def algebra_simps)
  have fd: "kp_f_delta proof ! i = e * (kh_delta hint ! Suc i - ?mu (Suc i) * kh_delta hint ! i -
      (\<Prod>k<Suc i. ?mu k) * kh_d hint ! Suc i) - kh_delta hint ! i * kh_d hint ! Suc i" if "i < n - 1" for i
    using answers that n by (simp add: known_answers_def Let_def known_T_def)
  have len: "length (kp_f proof) = n" "length (kp_f_delta proof) = n"
    using answers n by (simp_all add: known_answers_def Let_def)
  have "known_F (kp_f proof) (kp_f_delta proof) (e * x) (sc_invert C e) [1..<n] (e * ?mu 0 + kh_delta hint ! 0) =
      Inr (e * (\<Prod>k<n. ?mu k) + kh_delta hint ! (n - 1))"
    using known_F_value [of e "sc_invert C e" "kp_f proof" n "kp_f_delta proof" ?mu "\<lambda>i. kh_d hint ! i" x
        "\<lambda>i. kh_delta hint ! i" 1] inv len f fd n by simp
  then show ?thesis
    using permuted_product [of perm m x] perm n f [of 0] h len
    by (simp add: known_product_check_def buffer_simps)
qed

lemma known_commit_ok:
  assumes C: "curve_ok C" and hint: "known_hint_ok C pp n hint" and n: "length m = n" "length pp = n"
    and answers: "known_answers C pp hint m x e perm r proof"
    and c: "c = lin C pp (\<lambda>i. m ! (perm ! i)) r"
    and c_a: "c_a = lin C pp (\<lambda>i. if i < n - 1 then known_T hint m x perm i else 0) (kh_r_a hint)"
  shows "pt_mul C a1 (pt_mul C e c + kh_c_d hint) + pt_mul C a2 (pt_mul C e c_a + kh_c_delta hint) =
    lin C pp (\<lambda>i. a1 * kp_f proof ! i + a2 * kp_f_delta proof ! i) (kp_z proof * a1 + kp_z_delta proof * a2)"
proof -
  have h: "kh_c_d hint = lin C pp (\<lambda>i. kh_d hint ! i) (kh_r_d hint)"
    "kh_c_delta hint = lin C pp (\<lambda>i. if i < n - 1 then - (kh_delta hint ! i) * kh_d hint ! (i + 1) else 0) (kh_r_delta hint)"
    using hint by (simp_all add: known_hint_ok_def)
  show ?thesis
    unfolding h c c_a lin_module(1,3) [OF C]
    using answers n by (intro lin_cong) (auto simp: known_answers_def Let_def algebra_simps)
qed

text \<open>A verifier that divides by its challenge needs it invertible; all scalars but zero are.\<close>

definition invertible :: "('s::comm_ring_1, 'g) curve \<Rightarrow> 's \<Rightarrow> bool" where
  "invertible C e = (e * sc_invert C e = 1)"

definition known_challenge :: "('s, 'g) curve \<Rightarrow> 'g \<Rightarrow> 's list \<Rightarrow> 's known_proof \<Rightarrow> 's" where
  "known_challenge C c m pf = known_e C (kp_c_d pf) (kp_c_delta pf) (kp_c_a pf) (known_hx C c m)"

lemma prove_shuffle_known_accepted:
  assumes C: "curve_ok C" and hint: "known_hint_ok C pp n hint" and n: "0 < n" "length m = n" "length pp = n"
    and perm: "mset perm = mset [0..<n]" and c: "c = lin C pp (\<lambda>i. m ! (perm ! i)) r"
  shows "\<exists>pf. prove_shuffle_known C pp hint m c perm r = Inr pf \<and>
    known_answers C pp hint m (sc_from_bytes C (known_hx C c m)) (known_challenge C c m pf) perm r pf \<and>
    (invertible C (known_challenge C c m pf) \<longrightarrow> verify_shuffle_known C alpha pp m c pf = Inr True)"
proof -
  define x where "x = sc_from_bytes C (known_hx C c m)"
  obtain pf where p: "prove_shuffle_known C pp hint m c perm r = Inr pf"
    and answers: "known_answers C pp hint m x (known_challenge C c m pf) perm r pf"
    using prove_shuffle_known_answers [OF _ _ n perm, where C = C and c = c and r = r] known_hint_lengths [OF hint] by (auto simp: known_challenge_def x_def)
  define e where "e = known_challenge C c m pf"
  define c_a where "c_a = lin C pp (\<lambda>i. if i < n - 1 then known_T hint m x perm i else 0) (kh_r_a hint)"
  have dec: "decompress_unwrap C (kp_c_d pf) = Inr (kh_c_d hint)"
    "decompress_unwrap C (kp_c_delta pf) = Inr (kh_c_delta hint)" "decompress_unwrap C (kp_c_a pf) = Inr c_a"
    using answers n(2) decompress_ok [OF C] by (simp_all add: known_answers_def Let_def c_a_def)
  have len: "length (kp_f pf) = n" "length (kp_f_delta pf) = n"
    using answers n(2) by (simp_all add: known_answers_def Let_def)
  have one: "pt_mul C 1 q = q" for q
    using C by (simp add: curve_ok_def module.scale_one)
  have "commit C pp (map2 (\<lambda>fi fd. alpha * fi + fd) (kp_f pf) (kp_f_delta pf)) (kp_z pf * alpha + kp_z_delta pf) =
      Inr (pt_mul C alpha (pt_mul C e c + kh_c_d hint) + pt_mul C e c_a + kh_c_delta hint)"
    using known_commit_ok [OF C hint n(2,3) answers c c_a_def, of alpha 1] len n(3) one
    by (auto simp: commit_lin e_def add.assoc intro!: lin_cong)
  then have "verify_shuffle_known C alpha pp m c pf = known_product_check C m x e pf"
    using dec by (simp add: verify_shuffle_known_def Let_def e_def known_challenge_def x_def)
  moreover have "known_product_check C m x e pf = Inr True" if "invertible C e"
    using known_product_ok [OF hint n(1,2) perm answers] that by (simp add: invertible_def e_def)
  ultimately show ?thesis using p answers by (auto simp: e_def x_def)
qed

section \<open>Honest adapted proofs\<close>

definition adapted_hint_ok ::
    "('s::comm_ring_1, 'g::ab_group_add) curve \<Rightarrow> 'g list \<Rightarrow> nat list \<Rightarrow> nat \<Rightarrow> ('s, 'g) adapted_hint \<Rightarrow> bool" where
  "adapted_hint_ok C pp perm n hint = (length (ah_d hint) = n \<and> known_hint_ok C pp n (ah_hint2 hint) \<and>
     ah_c_d hint = lin C pp (\<lambda>i. ah_d hint ! i) (ah_r_d hint) \<and>
     ah_c_pi hint = lin C pp (\<lambda>i. of_nat (perm ! i)) (ah_r_pi hint))"

lemma adapted_preprocess_ok:
  assumes "length pp = n" and "length perm = n" and "known = Inr hint2" and "known_hint_ok C pp n hint2"
  shows "\<exists>hint. prove_shuffle_adapted_preprocess C pp perm n rnd_d r_d r_pi r_z u u2 known = Inr hint \<and>
    adapted_hint_ok C pp perm n hint"
  using assms by (auto simp: prove_shuffle_adapted_preprocess_def Let_def adapted_hint_ok_def commit_lin intro!: lin_cong)

lemma z_rho_value:
  "length z = n \<Longrightarrow> z_rho z delta n = Inr (map (\<lambda>i. z ! i + delta * of_nat i) [0..<n])"
  unfolding z_rho_def by (rule map_run_Inr) (simp add: buffer_simps)

text \<open>The last equation of the verifier: the answers \<open>x\<close> against the points before and after the shuffle.\<close>

lemma shuffled_sum:
  assumes C: "curve_ok C" and len: "length g = n" "length z = n" "length d = n"
    and perm: "mset perm = mset [0..<n]" "\<forall>i<n. pinv ! (perm ! i) = i" "\<forall>i<n. perm ! (pinv ! i) = i" "\<forall>i<n. pinv ! i < n"
    and h: "h = map (\<lambda>i. pt_mul C s (g ! (pinv ! i))) [0..<n]"
  shows "multiscalar_mul C (map (\<lambda>i. s * z ! (perm ! i) + d ! i) [0..<n] @ map uminus z) (g @ h) =
    multiscalar_mul C d g"
proof -
  have m: "module (pt_mul C)" using C by (simp add: curve_ok_def)
  note laws = module.scale_left_distrib [OF m] module.scale_scale [OF m] module.scale_minus_left [OF m]
  have plen: "length perm = n" using mset_eq_length [OF perm(1)] by simp
  let ?x = "map (\<lambda>i. s * z ! (perm ! i) + d ! i) [0..<n]"
  have "(\<Sum>i<n. pt_mul C (z ! (perm ! i) * s) (g ! i)) = (\<Sum>j<n. pt_mul C (z ! j * s) (g ! (pinv ! j)))"
    using perm perm_entry [OF perm(1) plen]
    by (intro sum.reindex_bij_witness [of _ "\<lambda>j. pinv ! j" "\<lambda>i. perm ! i"]) auto
  then have "(\<Sum>i<n. pt_mul C (?x ! i) (g ! i)) + (\<Sum>i<n. pt_mul C (map uminus z ! i) (h ! i)) =
      (\<Sum>i<n. pt_mul C (d ! i) (g ! i))"
    using len by (simp add: h laws sum.distrib sum_negf mult.commute)
  moreover have "length h = n" by (simp add: h)
  ultimately show ?thesis
    using len multiscalar_append [of ?x g "map uminus z" h C] multiscalar_sum [of d g C] by simp
qed

text \<open>The two challenges of a proof, and an honest proof: the answers to them.\<close>

definition adapted_z :: "('s, 'g) curve \<Rightarrow> 'g \<Rightarrow> bytes list \<Rightarrow> bytes list \<Rightarrow> nat \<Rightarrow> 's adapted_proof \<Rightarrow> 's list" where
  "adapted_z C pk bg bh n pf = chacha_scalars C (adapted_hz C pk bg bh (ap_c_pi pf) (ap_c_d pf) (ap_g_d pf)) n"

definition adapted_challenge :: "('s, 'g) curve \<Rightarrow> 'g \<Rightarrow> bytes list \<Rightarrow> bytes list \<Rightarrow> 's adapted_proof \<Rightarrow> 's" where
  "adapted_challenge C pk bg bh pf = adapted_delta C (ap_x pf) (ap_c_z pf) (ap_g_u pf) (ap_c_u pf)
     (adapted_hz C pk bg bh (ap_c_pi pf) (ap_c_d pf) (ap_g_d pf))"

definition adapted_answers ::
    "('s::comm_ring_1, 'g::ab_group_add) curve \<Rightarrow> 'g list \<Rightarrow> ('s, 'g) adapted_hint \<Rightarrow> 'g list \<Rightarrow> 's \<Rightarrow> nat list \<Rightarrow>
     's list \<Rightarrow> 's \<Rightarrow> 's list \<Rightarrow> 'g \<Rightarrow> 'g \<Rightarrow> 'g \<Rightarrow> 's adapted_proof \<Rightarrow> bool" where
  "adapted_answers C pp hint g s perm z delta rho c_z c_rho g_d pf = (let n = length g in
     multiscalar_mul C (ah_d hint) g = Inr g_d \<and> c_z = lin C pp (\<lambda>i. z ! (perm ! i)) (ah_r_z hint) \<and>
     c_rho = c_z + pt_mul C delta (ah_c_pi hint) \<and> rho = map (\<lambda>i. z ! i + delta * of_nat i) [0..<n] \<and>
     ap_c_pi pf = pt_compress C (ah_c_pi hint) \<and> ap_c_d pf = pt_compress C (ah_c_d hint) \<and> ap_g_d pf = pt_compress C g_d \<and>
     ap_c_z pf = pt_compress C c_z \<and> ap_g_u pf = pt_compress C (mul_base C (ah_u hint)) \<and>
     ap_c_u pf = pt_compress C (pt_mul C (- ah_u hint) c_z + mul_base C (ah_u2 hint)) \<and>
     ap_x pf = map (\<lambda>i. s * z ! (perm ! i) + ah_d hint ! i) [0..<n] \<and>
     ap_v pf = s * delta + ah_u hint \<and> ap_v2 pf = (s * ah_r_z hint + ah_r_d hint) * delta + ah_u2 hint \<and>
     prove_shuffle_known C pp (ah_hint2 hint) rho c_rho perm (ah_r_z hint + ah_r_pi hint * delta) = Inr (ap_psi pf))"

lemma rho_commitment:
  assumes C: "curve_ok C" and hint: "adapted_hint_ok C pp perm n hint" and n: "length pp = n" "length z = n"
    and entry: "\<And>i. i < n \<Longrightarrow> perm ! i < n"
  shows "lin C pp (\<lambda>i. z ! (perm ! i)) (ah_r_z hint) + pt_mul C delta (ah_c_pi hint) =
    lin C pp (\<lambda>i. map (\<lambda>i. z ! i + delta * of_nat i) [0..<n] ! (perm ! i)) (ah_r_z hint + ah_r_pi hint * delta)"
proof -
  have c_pi: "ah_c_pi hint = lin C pp (\<lambda>i. of_nat (perm ! i)) (ah_r_pi hint)"
    using hint by (simp add: adapted_hint_ok_def)
  show ?thesis
    unfolding c_pi lin_module(1,3) [OF C] using entry n by (intro lin_cong) (simp_all add: mult.commute)
qed

lemma prove_shuffle_adapted_answers:
  assumes C: "curve_ok C" and d: "length (ah_d hint) = n"
    and h2: "length (kh_d (ah_hint2 hint)) = n" "length (kh_delta (ah_hint2 hint)) = n"
    and n: "0 < n" "length g = n" "length pp = n" "length perm = n" and perm: "mset perm = mset [0..<n]"
  shows "\<exists>pf rho c_z c_rho g_d. prove_shuffle_adapted C pp pk hint g bg bh s perm = Inr pf \<and>
    adapted_answers C pp hint g s perm (adapted_z C pk bg bh n pf) (adapted_challenge C pk bg bh pf) rho c_z c_rho g_d pf"
proof -
  let ?d = "ah_d hint"
  have entry: "perm ! i < n" if "i < n" for i using perm_entry [OF perm n(4) that] .
  obtain g_d where g_d: "multiscalar_mul C ?d g = Inr g_d" using d n(2) by (simp add: multiscalar_mul_def)
  define hz where "hz = adapted_hz C pk bg bh (pt_compress C (ah_c_pi hint)) (pt_compress C (ah_c_d hint)) (pt_compress C g_d)"
  define z where "z = chacha_scalars C hz n"
  have z: "length z = n" using C by (simp add: z_def curve_ok_def)
  define x where "x = map (\<lambda>i. s * z ! (perm ! i) + ?d ! i) [0..<n]"
  have x: "map_run (\<lambda>i. bind_run (read_at perm i) (\<lambda>j. bind_run (read_at z j) (\<lambda>zj.
      bind_run (read_at ?d i) (\<lambda>di. Inr (s * zj + di))))) [0..<n] = Inr x"
    unfolding x_def by (rule map_run_Inr) (simp add: buffer_simps n z d entry)
  have z_pi: "map_run (read_at z) perm = Inr (map ((!) z) perm)"
    using entry n(4) z by (intro map_run_Inr) (auto simp: buffer_simps in_set_conv_nth)
  define c_z where "c_z = lin C pp (\<lambda>i. z ! (perm ! i)) (ah_r_z hint)"
  have c_z: "commit C pp (map ((!) z) perm) (ah_r_z hint) = Inr c_z"
    using n by (auto simp: commit_lin c_z_def intro!: lin_cong)
  define delta where "delta = adapted_delta C x (pt_compress C c_z) (pt_compress C (mul_base C (ah_u hint)))
    (pt_compress C (pt_mul C (- ah_u hint) c_z + mul_base C (ah_u2 hint))) hz"
  define c_rho where "c_rho = c_z + pt_mul C delta (ah_c_pi hint)"
  define rho where "rho = map (\<lambda>i. z ! i + delta * of_nat i) [0..<n]"
  have rho: "z_rho z delta n = Inr rho" unfolding rho_def by (rule z_rho_value [OF z])
  obtain psi where psi: "prove_shuffle_known C pp (ah_hint2 hint) rho c_rho perm (ah_r_z hint + ah_r_pi hint * delta) = Inr psi"
    using prove_shuffle_known_answers [OF h2 n(1) _ n(3) perm, where m = rho and C = C and c = c_rho] by (force simp: rho_def)
  have "\<exists>pf. prove_shuffle_adapted C pp pk hint g bg bh s perm = Inr pf \<and>
      adapted_z C pk bg bh n pf = z \<and> adapted_challenge C pk bg bh pf = delta \<and>
      adapted_answers C pp hint g s perm z delta rho c_z c_rho g_d pf"
    unfolding prove_shuffle_adapted_def Let_def n(2) g_d bind_run_simps hz_def [symmetric] z_def [symmetric] x z_pi c_z
      delta_def [symmetric] rho c_rho_def [symmetric] psi
    using g_d psi
    by (simp add: adapted_answers_def Let_def adapted_z_def adapted_challenge_def n(2) hz_def [symmetric] z_def [symmetric]
        delta_def [symmetric] x_def [symmetric] c_z_def [symmetric] c_rho_def [symmetric] rho_def [symmetric])
  then show ?thesis by metis
qed

lemma adapted_com3:
  assumes C: "curve_ok C" and z: "\<And>i. i < length pp \<Longrightarrow> x i = s * zp i + d i"
    and c: "c_z = lin C pp zp r_z" "c_d = lin C pp d r_d" "c_u = pt_mul C (- u) c_z + mul_base C u2"
    and v: "v = s * delta + u" "v2 = (s * r_z + r_d) * delta + u2"
  shows "pt_mul C v c_z + pt_mul C delta c_d + c_u - mul_base C v2 = lin C pp (\<lambda>i. x i * delta) 0"
  unfolding c v lin_module(4) [OF C, of _ pp] lin_module(1-3) [OF C]
  by (rule lin_cong) (simp_all add: z algebra_simps)

text \<open>The batched commitment equation of the verifier.\<close>

lemma adapted_batch:
  fixes C :: "('s::comm_ring_1, 'g::ab_group_add) curve" and alpha1 alpha2 :: 's
  assumes C: "curve_ok C" and hint: "adapted_hint_ok C pp perm n hint" and n: "length g = n" "length pp = n" "length rho = n"
    and answers: "adapted_answers C pp hint g s perm z delta rho c_z c_rho g_d pf"
    and psi: "known_answers C pp (ah_hint2 hint) rho x e perm r_rho (ap_psi pf)"
    and c: "c_rho = lin C pp (\<lambda>i. rho ! (perm ! i)) r_rho"
    and c_a: "c_a = lin C pp (\<lambda>i. if i < n - 1 then known_T (ah_hint2 hint) rho x perm i else 0) (kh_r_a (ah_hint2 hint))"
    and c_u: "c_u = pt_mul C (- ah_u hint) c_z + mul_base C (ah_u2 hint)"
  defines "f_sum \<equiv> map (\<lambda>(fi, fd, xi). alpha1 * fi + alpha2 * fd + xi * delta)
      (zip (kp_f (ap_psi pf)) (zip (kp_f_delta (ap_psi pf)) (ap_x pf)))"
  shows "commit C pp f_sum (kp_z (ap_psi pf) * alpha1 + kp_z_delta (ap_psi pf) * alpha2) =
    Inr (pt_mul C alpha1 (pt_mul C e c_rho + kh_c_d (ah_hint2 hint)) + pt_mul C alpha2 (pt_mul C e c_a + kh_c_delta (ah_hint2 hint)) +
      (pt_mul C (ap_v pf) c_z + pt_mul C delta (ah_c_d hint) + c_u - mul_base C (ap_v2 pf)))"
proof -
  have h2: "known_hint_ok C pp n (ah_hint2 hint)" and c_d: "ah_c_d hint = lin C pp (\<lambda>i. ah_d hint ! i) (ah_r_d hint)"
    using hint by (simp_all add: adapted_hint_ok_def)
  have a: "c_z = lin C pp (\<lambda>i. z ! (perm ! i)) (ah_r_z hint)" "ap_v pf = s * delta + ah_u hint"
    "ap_v2 pf = (s * ah_r_z hint + ah_r_d hint) * delta + ah_u2 hint"
    "ap_x pf = map (\<lambda>i. s * z ! (perm ! i) + ah_d hint ! i) [0..<n]"
    using answers n(1) by (simp_all add: adapted_answers_def Let_def)
  have com3: "pt_mul C (ap_v pf) c_z + pt_mul C delta (ah_c_d hint) + c_u - mul_base C (ap_v2 pf) =
      lin C pp (\<lambda>i. ap_x pf ! i * delta) 0"
    by (rule adapted_com3 [OF C _ a(1) c_d c_u a(2,3)]) (simp add: a(4) n(2))
  have "length (kp_f (ap_psi pf)) = n" "length (kp_f_delta (ap_psi pf)) = n" "length (ap_x pf) = n"
    using psi n(3) a(4) by (simp_all add: known_answers_def Let_def)
  then have "commit C pp f_sum (kp_z (ap_psi pf) * alpha1 + kp_z_delta (ap_psi pf) * alpha2) =
      Inr (lin C pp (\<lambda>i. alpha1 * kp_f (ap_psi pf) ! i + alpha2 * kp_f_delta (ap_psi pf) ! i + ap_x pf ! i * delta)
        (kp_z (ap_psi pf) * alpha1 + kp_z_delta (ap_psi pf) * alpha2))"
    using n(2) by (auto simp: commit_lin f_sum_def intro!: lin_cong)
  then show ?thesis
    unfolding com3 known_commit_ok [OF C h2 n(3,2) psi c c_a] by (simp add: lin_module(1) [OF C])
qed

lemma verify_shuffle_adapted_accepts:
  assumes C: "curve_ok C" and hint: "adapted_hint_ok C pp perm n hint"
    and n: "0 < n" "length g = n" "length pp = n" "length perm = n"
    and perm: "mset perm = mset [0..<n]" "\<forall>i<n. pinv ! (perm ! i) = i" "\<forall>i<n. perm ! (pinv ! i) = i" "\<forall>i<n. pinv ! i < n"
    and h: "h = map (\<lambda>i. pt_mul C s (g ! (pinv ! i))) [0..<n]" and pk: "pk = mul_base C s"
    and answers: "adapted_answers C pp hint g s perm (adapted_z C pk bg bh n pf) (adapted_challenge C pk bg bh pf) rho c_z c_rho g_d pf"
    and inv: "invertible C (known_challenge C c_rho rho (ap_psi pf))"
  shows "verify_shuffle_adapted C alpha1 alpha2 pp pk g h bg bh pf = Inr True"
proof -
  define z delta where "z = adapted_z C pk bg bh n pf" and "delta = adapted_challenge C pk bg bh pf"
  define psi e x where "psi = ap_psi pf" and "e = known_challenge C c_rho rho psi" and "x = sc_from_bytes C (known_hx C c_rho rho)"
  note a = answers [unfolded adapted_answers_def Let_def n(2), folded z_def delta_def]
  have z: "length z = n" using C by (simp add: z_def adapted_z_def curve_ok_def)
  have rlen: "length rho = n" using a by simp
  have entry: "perm ! i < n" if "i < n" for i using perm_entry [OF perm(1) n(4) that] .
  have h2: "known_hint_ok C pp n (ah_hint2 hint)" and d: "length (ah_d hint) = n" using hint by (simp_all add: adapted_hint_ok_def)
  have c_rho: "c_rho = lin C pp (\<lambda>i. rho ! (perm ! i)) (ah_r_z hint + ah_r_pi hint * delta)"
    using rho_commitment [OF C hint n(3) z entry, of delta] a by simp
  have psi: "known_answers C pp (ah_hint2 hint) rho x e perm (ah_r_z hint + ah_r_pi hint * delta) psi"
    using prove_shuffle_known_answers [OF known_hint_lengths [OF h2, THEN conjunct1] known_hint_lengths [OF h2, THEN conjunct2]
        n(1) rlen n(3) perm(1), where C = C and c = c_rho and r = "ah_r_z hint + ah_r_pi hint * delta"] a
    by (auto simp: psi_def e_def x_def known_challenge_def)
  define c_a where "c_a = lin C pp (\<lambda>i. if i < n - 1 then known_T (ah_hint2 hint) rho x perm i else 0) (kh_r_a (ah_hint2 hint))"
  have b: "kp_c_d psi = pt_compress C (kh_c_d (ah_hint2 hint))" "kp_c_delta psi = pt_compress C (kh_c_delta (ah_hint2 hint))"
    "kp_c_a psi = pt_compress C c_a"
    using psi rlen by (simp_all add: known_answers_def Let_def c_a_def)
  have e: "known_e C (kp_c_d psi) (kp_c_delta psi) (kp_c_a psi) (known_hx C c_rho rho) = e"
    by (simp add: e_def known_challenge_def)
  have product: "known_product_check C rho x e psi = Inr True"
    using known_product_ok [OF h2 n(1) rlen perm(1) psi] inv by (simp add: invertible_def e_def psi_def)
  have m: "module (pt_mul C)" using C by (simp add: curve_ok_def)
  have v: "mul_base C (ap_v pf) = mul_base C (ah_u hint) + pt_mul C delta pk"
    using a by (simp add: pk mul_base_def module.scale_left_distrib [OF m] module.scale_scale [OF m] mult.commute)
  have last: "multiscalar_mul C (ap_x pf @ map uminus z) (g @ h) = Inr g_d"
    using shuffled_sum [OF C n(2) z d perm h] a by simp
  have rho: "z_rho z delta n = Inr rho" using z_rho_value [OF z] a by simp
  note batch = adapted_batch [OF C hint n(2,3) rlen answers [folded z_def delta_def] psi [unfolded psi_def] c_rho c_a_def refl,
      folded psi_def, of alpha1 alpha2]
  show ?thesis
    unfolding verify_shuffle_adapted_def Let_def n(2) adapted_z_def [symmetric] adapted_challenge_def [symmetric]
      z_def [symmetric] delta_def [symmetric] psi_def [symmetric]
    using a b decompress_ok [OF C] rho e product v last batch
    by (simp add: x_def)
qed

section \<open>Honest batched proofs\<close>

lemma batched_ddh_accepted:
  assumes "curve_ok C" and "h = map (pt_mul C s) g"
  shows "\<exists>pf. batched_ddh_prove C r (mul_base C s) g bg bh s = Inr pf \<and>
    batched_ddh_verify C (mul_base C s) g h bg bh pf = Inr True"
proof -
  define ha where "ha = ddh_ha C (mul_base C s) bg bh"
  define a where "a = chacha_scalars C ha (length g)"
  have m: "module (pt_mul C)" and a: "length a = length g" using assms(1) by (simp_all add: curve_ok_def a_def)
  note laws = module.scale_left_distrib [OF m] module.scale_scale [OF m] module.scale_minus_left [OF m]
    module.scale_left_diff_distrib [OF m]
  define R where "R = (\<Sum>i<length g. pt_mul C (a ! i * r) (g ! i))"
  define delta where "delta = ddh_delta C (pt_compress C (R + mul_base C r)) ha"
  define z where "z = delta * s + r"
  have "multiscalar_mul C (map (\<lambda>a. a * r) a) g = Inr R" using a by (simp add: multiscalar_sum R_def)
  then have prove: "batched_ddh_prove C r (mul_base C s) g bg bh s =
      Inr \<lparr>dp_c = pt_compress C (R + mul_base C r), dp_z = z\<rparr>"
    by (simp add: batched_ddh_prove_def Let_def delta_def z_def flip: ha_def a_def)
  have "R + mul_base C r + pt_mul C delta (mul_base C s) - mul_base C z = R"
    by (simp add: z_def mul_base_def laws)
  moreover have "(\<Sum>i<length g. pt_mul C (a ! i * z) (g ! i)) + (\<Sum>i<length g. pt_mul C (- (a ! i) * delta) (h ! i)) = R"
    by (simp add: R_def assms(2) z_def laws algebra_simps sum_subtractf sum.distrib sum_negf)
  then have "multiscalar_mul C (map (\<lambda>ai. ai * z) a @ map (\<lambda>ai. - ai * delta) a) (g @ h) = Inr R"
    using a assms(2) by (simp add: multiscalar_append)
  ultimately show ?thesis
    using prove decompress_ok [OF assms(1)]
    by (simp add: batched_ddh_verify_def Let_def flip: ha_def a_def delta_def)
qed

section \<open>Properties\<close>

text \<open>The challenge that the verifier of an adapted proof divides by.\<close>

definition psi_challenge ::
    "('s::comm_ring_1, 'g::ab_group_add) curve \<Rightarrow> 'g \<Rightarrow> bytes list \<Rightarrow> bytes list \<Rightarrow> nat \<Rightarrow> 's adapted_proof \<Rightarrow> 's" where
  "psi_challenge C pk bg bh n pf =
     (let z = adapted_z C pk bg bh n pf; delta = adapted_challenge C pk bg bh pf;
          c_rho = the (pt_decompress C (ap_c_z pf)) + pt_mul C delta (the (pt_decompress C (ap_c_pi pf)))
      in known_challenge C c_rho (map (\<lambda>i. z ! i + delta * of_nat i) [0..<n]) (ap_psi pf))"

lemma psi_challenge_answers:
  assumes "curve_ok C" and "length g = n"
    and "adapted_answers C pp hint g s perm (adapted_z C pk bg bh n pf) (adapted_challenge C pk bg bh pf) rho c_z c_rho g_d pf"
  shows "psi_challenge C pk bg bh n pf = known_challenge C c_rho rho (ap_psi pf)"
  using assms by (simp add: psi_challenge_def adapted_answers_def Let_def curve_ok_def)

text \<open>A small instance, on which the properties are applied: bytes as scalars and as points.\<close>

definition byte_curve :: "(u8, u8) curve" where
  "byte_curve = \<lparr>pt_mul = (*), pt_base = 1, pt_compress = (\<lambda>p. [p]), pt_decompress = (\<lambda>b. case b of [p] \<Rightarrow> Some p | _ \<Rightarrow> None),
     sc_bytes = (\<lambda>s. [s]), sc_from_bytes = (\<lambda>b. 3), sc_invert = (\<lambda>s. 171), blake2s = id, chacha_scalars = (\<lambda>seed n. replicate n 7)\<rparr>"

lemma byte_curve_ok: "curve_ok byte_curve"
proof -
  have "module ((*) :: u8 \<Rightarrow> u8 \<Rightarrow> u8)" by unfold_locales (simp_all add: algebra_simps)
  then show ?thesis by (simp add: curve_ok_def byte_curve_def)
qed

lemma byte_curve_invertible: "sc_from_bytes byte_curve b * sc_invert byte_curve (sc_from_bytes byte_curve b) = 1"
  by (simp add: byte_curve_def)

text \<open>
  C26.  The argument for a shuffle of known content is complete: for two or more scalars, an honest
  prover whose commitment is to the permuted scalars never faults, and the verifier accepts its proof, whatever the random
  choices of both, as long as its challenge is invertible.
\<close>

theorem shuffle_known_complete:
  assumes "curve_ok C" and "1 < length m" and "length pp = length m" and "mset perm = mset [0..<length m]"
    and "commit C pp (map ((!) m) perm) r = Inr c"
    and "prove_shuffle_known_preprocess C pp (length m) rnd_d rnd_delta r_d r_delta r_a = Inr hint"
  shows "\<exists>pf. prove_shuffle_known C pp hint m c perm r = Inr pf \<and>
    (invertible C (known_challenge C c m pf) \<longrightarrow> verify_shuffle_known C alpha pp m c pf = Inr True)"
proof -
  have hint: "known_hint_ok C pp (length m) hint"
    using known_preprocess_ok [OF assms(2,3), of C rnd_d rnd_delta r_d r_delta r_a] assms(6) by auto
  have "length perm = length m" using mset_eq_length [OF assms(4)] by simp
  then have c: "c = lin C pp (\<lambda>i. m ! (perm ! i)) r"
    using assms(3,5) by (auto simp: commit_lin intro!: lin_cong)
  from prove_shuffle_known_accepted [OF assms(1) hint _ refl assms(3,4) c] assms(2) show ?thesis by fastforce
qed

theorem shuffle_known_complete_witness:
  "\<exists>hint pf. prove_shuffle_known_preprocess byte_curve [5, 9] 2 (\<lambda>i. 4) (\<lambda>i. 6) 1 2 3 = Inr hint \<and>
    prove_shuffle_known byte_curve [5, 9] hint [10, 20] 195 [1, 0] 5 = Inr pf \<and>
    verify_shuffle_known byte_curve 77 [5, 9] [10, 20] 195 pf = Inr True"
proof -
  obtain hint where h: "prove_shuffle_known_preprocess byte_curve [5, 9] 2 (\<lambda>i. 4) (\<lambda>i. 6) 1 2 3 = Inr hint"
    using known_preprocess_ok [of 2 "[5, 9]" byte_curve] by force
  moreover have "commit byte_curve [5, 9] (map ((!) [10, 20]) [1, 0]) 5 = Inr 195"
    by (simp add: commit_def multiscalar_mul_def mul_base_def byte_curve_def)
  moreover have "mset [1, 0] = mset [0..<2]" by (simp add: numeral_2_eq_2)
  ultimately show ?thesis
    using shuffle_known_complete [of byte_curve "[10, 20]" "[5, 9]" "[1, 0]" 5 195 "\<lambda>i. 4" "\<lambda>i. 6" 1 2 3 hint 77]
      byte_curve_ok byte_curve_invertible
    by (simp add: invertible_def known_challenge_def known_e_def numeral_2_eq_2)
qed

text \<open>
  C27.  The adapted shuffle argument is complete: for two or more points, with the permutation of
  \<open>random_permutation\<close> and the hints of the preprocessing, the prover never faults and, as long as the challenge that
  the inner argument divides by is invertible, the batched verification accepts the points that the prover has multiplied by its key and shuffled.
\<close>

theorem shuffle_adapted_complete:
  assumes "curve_ok C" and "1 < n" and "length g = n" and "length pp = n"
    and "\<forall>i<n. pick_j i \<le> i" and "random_permutation pick_j n = Inr (perm, pinv)"
    and "prove_shuffle_adapted_preprocess C pp perm n rnd_d r_d r_pi r_z u u2
      (prove_shuffle_known_preprocess C pp n rnd_d2 rnd_delta r_d2 r_delta r_a) = Inr hint"
  shows "\<exists>pf. prove_shuffle_adapted C pp (mul_base C s) hint g bg bh s perm = Inr pf \<and>
    (invertible C (psi_challenge C (mul_base C s) bg bh n pf) \<longrightarrow>
      verify_shuffle_adapted C alpha1 alpha2 pp (mul_base C s) g (map (\<lambda>i. pt_mul C s (g ! (pinv ! i))) [0..<n]) bg bh pf = Inr True)"
proof -
  have perm: "mset perm = mset [0..<n]" "\<forall>i<n. pinv ! (perm ! i) = i" "\<forall>i<n. perm ! (pinv ! i) = i" "mset pinv = mset [0..<n]"
    using random_permutation_value [OF assms(5)] assms(6) by auto
  have len: "length perm = n" "length pinv = n" using mset_eq_length [OF perm(1)] mset_eq_length [OF perm(4)] by simp_all
  have range: "\<forall>i<n. pinv ! i < n" using perm_entry [OF perm(4) len(2)] by blast
  obtain hint2 where hint2: "prove_shuffle_known_preprocess C pp n rnd_d2 rnd_delta r_d2 r_delta r_a = Inr hint2"
    "known_hint_ok C pp n hint2"
    using known_preprocess_ok [OF assms(2,4)] by blast
  then have hint: "adapted_hint_ok C pp perm n hint"
    using adapted_preprocess_ok [OF assms(4) len(1) hint2, of rnd_d r_d r_pi r_z u u2] assms(7) by auto
  then have lens: "length (ah_d hint) = n" "length (kh_d (ah_hint2 hint)) = n" "length (kh_delta (ah_hint2 hint)) = n"
    by (simp_all add: adapted_hint_ok_def known_hint_ok_def)
  have n: "0 < n" using assms(2) by simp
  obtain pf rho c_z c_rho g_d where pf: "prove_shuffle_adapted C pp (mul_base C s) hint g bg bh s perm = Inr pf"
    and answers: "adapted_answers C pp hint g s perm (adapted_z C (mul_base C s) bg bh n pf)
      (adapted_challenge C (mul_base C s) bg bh pf) rho c_z c_rho g_d pf"
    using prove_shuffle_adapted_answers [OF assms(1) lens n assms(3,4) len(1) perm(1)] by blast
  from verify_shuffle_adapted_accepts [OF assms(1) hint n assms(3,4) len(1) perm(1-3) range refl refl answers]
  show ?thesis using pf psi_challenge_answers [OF assms(1,3) answers] by auto
qed

theorem shuffle_adapted_complete_witness:
  "\<exists>hint pf. prove_shuffle_adapted_preprocess byte_curve [5, 9] [1, 0] 2 (\<lambda>i. 8) 1 2 3 4 5
      (prove_shuffle_known_preprocess byte_curve [5, 9] 2 (\<lambda>i. 4) (\<lambda>i. 6) 1 2 3) = Inr hint \<and>
    prove_shuffle_adapted byte_curve [5, 9] (mul_base byte_curve 11) hint [100, 200] [[1]] [[2]] 11 [1, 0] = Inr pf \<and>
    verify_shuffle_adapted byte_curve 21 22 [5, 9] (mul_base byte_curve 11) [100, 200] [152, 76] [[1]] [[2]] pf = Inr True"
proof -
  obtain hint2 where h2: "prove_shuffle_known_preprocess byte_curve [5, 9] 2 (\<lambda>i. 4) (\<lambda>i. 6) 1 2 3 = Inr hint2"
    "known_hint_ok byte_curve [5, 9] 2 hint2"
    using known_preprocess_ok [of 2 "[5, 9]" byte_curve] by force
  obtain hint where h: "prove_shuffle_adapted_preprocess byte_curve [5, 9] [1, 0] 2 (\<lambda>i. 8) 1 2 3 4 5
      (prove_shuffle_known_preprocess byte_curve [5, 9] 2 (\<lambda>i. 4) (\<lambda>i. 6) 1 2 3) = Inr hint"
    using adapted_preprocess_ok [OF _ _ h2, of "[1, 0]"] by force
  have perm: "random_permutation (\<lambda>i. 0) 2 = Inr ([1, 0], [1, 0])"
    by (simp add: random_permutation_def shuffle_step_def swap_at_def buffer_simps numeral_2_eq_2)
  have out: "map (\<lambda>i. pt_mul byte_curve 11 ([100, 200] ! ([1, 0] ! i))) [0..<2] = [152, 76]"
    by (simp add: byte_curve_def upt_rec)
  have inv: "invertible byte_curve (psi_challenge byte_curve pk bg bh n pf)" for pk bg bh n pf
    using byte_curve_invertible
    by (simp add: psi_challenge_def Let_def known_challenge_def known_e_def invertible_def)
  show ?thesis
    using shuffle_adapted_complete [OF byte_curve_ok _ _ _ _ perm h, of "[100, 200]" 11 "[[1]]" "[[2]]" 21 22] inv h
    unfolding out by simp
qed

text \<open>
  C28.  The batched Diffie-Hellman argument is complete: for any number of points, the verifier accepts the proof
  that the points were multiplied by the key of the prover.
\<close>

theorem batched_ddh_complete:
  assumes "curve_ok C" and "h = map (pt_mul C s) g"
  shows "\<exists>pf. batched_ddh_prove C r (mul_base C s) g bg bh s = Inr pf \<and>
    batched_ddh_verify C (mul_base C s) g h bg bh pf = Inr True"
  using assms by (rule batched_ddh_accepted)

theorem batched_ddh_complete_witness:
  "\<exists>pf. batched_ddh_prove byte_curve 9 (mul_base byte_curve 11) [3, 4] [] [] 11 = Inr pf \<and>
    batched_ddh_verify byte_curve (mul_base byte_curve 11) [3, 4] [33, 44] [] [] pf = Inr True"
  using batched_ddh_complete [OF byte_curve_ok, of "[33, 44]" 11 "[3, 4]" 9 "[]" "[]"] by (simp add: byte_curve_def)



end
