(* ===== verification/Psu_Instance.thy ===== *)
theory Psu_Instance
  imports Psu_Elligator "HOL-Library.Numeral_Type"
begin

text \<open>
  A field of thirteen elements and a block cipher on which the hypotheses about the items of the two-sided protocol hold: of all
  items of sixteen bytes only three are encoded as elements other than zero, and their points are different.
\<close>

section \<open>The field of thirteen elements\<close>

typedef gf13 = "{0..<13 :: nat}"
  morphisms gf13_nat gf13_abs
  by (rule exI [of _ 0]) simp

setup_lifting type_definition_gf13

instantiation gf13 :: comm_ring_1
begin
lift_definition zero_gf13 :: gf13 is 0 by simp
lift_definition one_gf13 :: gf13 is 1 by simp
lift_definition plus_gf13 :: "gf13 \<Rightarrow> gf13 \<Rightarrow> gf13" is "\<lambda>a b. (a + b) mod 13" by simp
lift_definition times_gf13 :: "gf13 \<Rightarrow> gf13 \<Rightarrow> gf13" is "\<lambda>a b. a * b mod 13" by simp
lift_definition uminus_gf13 :: "gf13 \<Rightarrow> gf13" is "\<lambda>a. (13 - a) mod 13" by simp
definition minus_gf13 :: "gf13 \<Rightarrow> gf13 \<Rightarrow> gf13" where "minus_gf13 a b = a + - b"
instance
proof
  fix a b c :: gf13
  show "a + b + c = a + (b + c)" "a * b * c = a * (b * c)" "(a + b) * c = a * c + b * c"
    by (transfer, simp add: mod_simps algebra_simps)+
  show "a + b = b + a" "a * b = b * a" "0 + a = a" "1 * a = a" "(0 :: gf13) \<noteq> 1"
    by (transfer, simp add: ac_simps)+
  show "- a + a = 0" by transfer (simp add: mod_simps)
  show "a - b = a + - b" by (simp add: minus_gf13_def)
qed
end

lift_definition gf13_of :: "nat \<Rightarrow> gf13" is "\<lambda>n. n mod 13" by simp

lemma gf13_of_eq_iff: "gf13_of m = gf13_of n \<longleftrightarrow> m mod 13 = n mod 13"
  by transfer simp

lemma gf13_arith:
  "gf13_of m + gf13_of n = gf13_of (m + n)" "gf13_of m * gf13_of n = gf13_of (m * n)" "- gf13_of n = gf13_of (12 * n)"
  "0 = gf13_of 0" "1 = gf13_of 1" "numeral k = gf13_of (numeral k)"
proof -
  show add: "gf13_of m + gf13_of n = gf13_of (m + n)" for m n by transfer (simp add: mod_simps)
  show "gf13_of m * gf13_of n = gf13_of (m * n)" by transfer (simp add: mod_simps)
  have "gf13_of n + gf13_of (12 * n) = 0" unfolding add by transfer simp
  then show "- gf13_of n = gf13_of (12 * n)" by (simp add: add_eq_0_iff2 add.commute)
  show "0 = gf13_of 0" by transfer simp
  show "1 = gf13_of 1" by transfer simp
  have "of_nat n = gf13_of n" for n
  proof (induction n)
    case 0
    have "0 = gf13_of 0" by transfer simp
    then show ?case by simp
  next
    case (Suc n)
    have "1 = gf13_of 1" by transfer simp
    then show ?case using Suc add [of 1 n] by simp
  qed
  from this [of "numeral k"] show "numeral k = gf13_of (numeral k)" by simp
qed

lemma gf13_all: "(\<forall>x. P x) \<longleftrightarrow> (\<forall>n\<in>set [0..<13]. P (gf13_of n))"
proof
  assume all: "\<forall>n\<in>set [0..<13]. P (gf13_of n)"
  show "\<forall>x. P x"
  proof
    fix x
    have "x = gf13_of (gf13_nat x)" "gf13_nat x < 13" by (transfer, simp)+
    with all show "P x" by (metis atLeastLessThan_iff set_upt zero_le)
  qed
qed simp

lemma powers13: "a \<in> {0..<13} \<Longrightarrow> a \<noteq> 0 \<Longrightarrow> a ^ 11 * a mod 13 = (1 :: nat)"
proof -
  assume "a \<in> {0..<13}" "a \<noteq> 0"
  then have "a = 1 \<or> a = 2 \<or> a = 3 \<or> a = 4 \<or> a = 5 \<or> a = 6 \<or> a = 7 \<or> a = 8 \<or> a = 9 \<or> a = 10 \<or> a = 11 \<or> a = 12"
    unfolding atLeastLessThan_iff by presburger
  then show "a ^ 11 * a mod 13 = 1" by (elim disjE) simp_all
qed

instantiation gf13 :: field
begin
lift_definition inverse_gf13 :: "gf13 \<Rightarrow> gf13" is "\<lambda>a. a ^ 11 mod 13" by simp
definition divide_gf13 :: "gf13 \<Rightarrow> gf13 \<Rightarrow> gf13" where "divide_gf13 a b = a * inverse b"
instance
proof
  fix a b :: gf13
  show "a div b = a * inverse b" by (simp add: divide_gf13_def)
  show "inverse (0 :: gf13) = 0" by transfer simp
  show "inverse a * a = 1" if "a \<noteq> 0"
    using that by transfer (simp add: mod_mult_left_eq powers13 [unfolded One_nat_def])
qed
end

lemma gf13_inverse: "inverse (gf13_of n) = gf13_of (n ^ 11)" "gf13_of m / gf13_of n = gf13_of (m * n ^ 11)"
proof -
  show i: "inverse (gf13_of n) = gf13_of (n ^ 11)" by transfer (simp add: power_mod)
  show "gf13_of m / gf13_of n = gf13_of (m * n ^ 11)" by (simp add: divide_gf13_def i gf13_arith)
qed

text \<open>Square roots from a table: of the element itself, or of its product with 5, the square root of minus one.\<close>

definition root13 :: "gf13 \<Rightarrow> gf13" where
  "root13 w = gf13_of ([0, 1, 6, 4, 2, 5, 2, 3, 1, 3, 6, 4, 5] ! gf13_nat w)"

definition gf13_ops :: "gf13 field_ops" where
  "gf13_ops = \<lparr>sqrt_m1 = gf13_of 5, sqrt_ratio_i = (\<lambda>u v. let r = root13 (u / v) in ((v \<noteq> 0 \<or> u = 0) \<and> r * r = u / v, if v = 0 then 0 else r)),
     is_negative = (\<lambda>x. odd (gf13_nat x)), of_bytes = (\<lambda>b. let c = clear_top b; n = unat (hd c) in
       if n < 13 \<and> c = replicate 16 (of_nat n) @ replicate 16 0 then gf13_of n else 0),
     as_bytes = (\<lambda>x. replicate 16 (of_nat (gf13_nat x)) @ replicate 16 0)\<rparr>"

lemma gf13_exhaust:
  "x = gf13_of 0 \<or> x = gf13_of 1 \<or> x = gf13_of 2 \<or> x = gf13_of 3 \<or> x = gf13_of 4 \<or> x = gf13_of 5 \<or> x = gf13_of 6 \<or>
   x = gf13_of 7 \<or> x = gf13_of 8 \<or> x = gf13_of 9 \<or> x = gf13_of 10 \<or> x = gf13_of 11 \<or> x = gf13_of 12"
proof -
  have x: "x = gf13_of (gf13_nat x)" "gf13_nat x < 13" by (transfer, simp)+
  have "n = 0 \<or> n = 1 \<or> n = 2 \<or> n = 3 \<or> n = 4 \<or> n = 5 \<or> n = 6 \<or> n = 7 \<or> n = 8 \<or> n = 9 \<or> n = 10 \<or> n = 11 \<or> n = 12"
    if "n < 13" for n :: nat using that by presburger
  from this [OF x(2)] show ?thesis by (elim disjE) (use x(1) in simp_all)
qed

lemma gf13_nat_of: "gf13_nat (gf13_of n) = n mod 13"
  by transfer simp

lemma gf13_consts: "FE_A = gf13_of 7" "FE_Z = gf13_of 2"
  unfolding FE_A_def FE_Z_def gf13_arith(6) gf13_of_eq_iff by simp_all

lemmas gf13_eval = gf13_consts gf13_arith gf13_inverse gf13_of_eq_iff gf13_nat_of

lemma root13: "root13 w * root13 w = w \<or> root13 w * root13 w = gf13_of 5 * w" "root13 (s * s) * root13 (s * s) = s * s"
  using gf13_exhaust [of w] gf13_exhaust [of s] by (auto simp: root13_def gf13_eval)

lemma squares13: "s * s \<in> {gf13_of 0, gf13_of 1, gf13_of 3, gf13_of 4, gf13_of 9, gf13_of 10, gf13_of 12}"
  using gf13_exhaust [of s] by (auto simp: gf13_eval)

lemma gf13_ops_ok: "field_ops_ok gf13_ops"
proof -
  have div: "s * s * v = u \<longleftrightarrow> s * s = u / v" if "v \<noteq> 0" for s u v :: gf13 using that by (simp add: nonzero_eq_divide_eq)
  have "(is_sq \<longleftrightarrow> (\<exists>s. s * s * v = u)) \<and> r * r * v = (if is_sq then u else sqrt_m1 gf13_ops * u)"
    if "v \<noteq> 0" "sqrt_ratio_i gf13_ops u v = (is_sq, r)" for u v r :: gf13 and is_sq
  proof -
    have r: "r = root13 (u / v)" "is_sq \<longleftrightarrow> r * r = u / v" using that by (auto simp: gf13_ops_def Let_def)
    have "is_sq \<longleftrightarrow> (\<exists>s. s * s = u / v)" using r root13(2) by metis
    moreover have "r * r = u / v \<or> r * r = gf13_of 5 * (u / v)" using root13(1) [of "u / v"] r(1) by simp
    ultimately show ?thesis using r(2) that(1) by (auto simp: div [OF that(1)] gf13_ops_def)
  qed
  moreover have "x * x \<noteq> FE_Z" for x :: gf13 using squares13 [of x] by (auto simp: gf13_eval)
  moreover have "(FE_A :: gf13) \<noteq> 0" "sqrt_m1 gf13_ops * sqrt_m1 gf13_ops = - 1" by (simp_all add: gf13_ops_def gf13_eval)
  moreover have "sqrt_ratio_i gf13_ops u 0 = (False, 0)" if "u \<noteq> 0" for u using that by (simp add: gf13_ops_def Let_def)
  ultimately show ?thesis unfolding field_ops_ok_def by blast
qed

lemma clear_top_small: "clear_top (replicate 16 b @ replicate 16 0) = replicate 16 b @ replicate 16 0"
  by (simp add: clear_top_def nth_append list_update_append) (simp add: list_eq_iff_nth_eq nth_list_update)

lemma clear_top_idem: "clear_top (clear_top b) = clear_top b"
  by (cases "31 < length b") (simp_all add: clear_top_def list_update_beyond and.assoc)

lemma gf13_bytes_ok: "field_bytes_ok gf13_ops"
proof -
  have "of_bytes gf13_ops (as_bytes gf13_ops x) = x" for x
  proof -
    have x: "gf13_of (gf13_nat x) = x" "gf13_nat x < 13" by (transfer, simp)+
    then have n: "unat (of_nat (gf13_nat x) :: u8) = gf13_nat x" by (simp add: unat_of_nat)
    have "hd (replicate 16 b @ ys) = b" for b :: u8 and ys by (simp add: hd_append)
    then show ?thesis using x n by (simp add: gf13_ops_def Let_def clear_top_small)
  qed
  moreover have "length (as_bytes gf13_ops x) = 32" for x by (simp add: gf13_ops_def)
  moreover have "of_bytes gf13_ops (clear_top b) = of_bytes gf13_ops b" for b by (simp add: gf13_ops_def clear_top_idem)
  ultimately show ?thesis unfolding field_bytes_ok_def by blast
qed

lemma gf13_on_curve: "on_curve u \<longleftrightarrow> u \<in> {gf13_of 0, gf13_of 1, gf13_of 2, gf13_of 7}"
proof
  assume "on_curve u"
  then obtain y where "y * y = u * u * u + FE_A * (u * u) + u" unfolding on_curve_def by blast
  then have sq: "u * u * u + FE_A * (u * u) + u \<in> {gf13_of 0, gf13_of 1, gf13_of 3, gf13_of 4, gf13_of 9, gf13_of 10, gf13_of 12}"
    using squares13 [of y] by simp
  from gf13_exhaust [of u] show "u \<in> {gf13_of 0, gf13_of 1, gf13_of 2, gf13_of 7}"
    by (elim disjE) (use sq in \<open>simp_all add: gf13_eval\<close>)
next
  have "on_curve (gf13_of 0)" unfolding on_curve_def by (rule exI [of _ "gf13_of 0"]) (simp add: gf13_eval)
  moreover have "on_curve (gf13_of 1)" unfolding on_curve_def by (rule exI [of _ "gf13_of 3"]) (simp add: gf13_eval)
  moreover have "on_curve (gf13_of 2)" unfolding on_curve_def by (rule exI [of _ "gf13_of 5"]) (simp add: gf13_eval)
  moreover have "on_curve (gf13_of 7)" unfolding on_curve_def by (rule exI [of _ "gf13_of 2"]) (simp add: gf13_eval)
  moreover assume "u \<in> {gf13_of 0, gf13_of 1, gf13_of 2, gf13_of 7}"
  ultimately show "on_curve u" by auto
qed

lemma gf13_points:
  "field_to_mont gf13_ops (gf13_of 0) = gf13_of 0" "field_to_mont gf13_ops (gf13_of 1) = gf13_of 2"
  "field_to_mont gf13_ops (gf13_of 2) = gf13_of 1" "field_to_mont gf13_ops (gf13_of 4) = gf13_of 7"
proof -
  have two: "field_to_mont gf13_ops r = - FE_A / (FE_Z * (r * r) + 1) \<or> field_to_mont gf13_ops r = - FE_A * FE_Z * (r * r) / (FE_Z * (r * r) + 1)" for r
    using field_to_mont_value [OF gf13_ops_ok, of r] by metis
  have on: "field_to_mont gf13_ops r \<in> {gf13_of 0, gf13_of 1, gf13_of 2, gf13_of 7}" for r
    using field_to_mont_on_curve [OF gf13_ops_ok, of r] gf13_on_curve by blast
  show "field_to_mont gf13_ops (gf13_of 0) = gf13_of 0" using two [of "gf13_of 0"] on [of "gf13_of 0"] by (elim disjE) (simp_all add: gf13_eval)
  show "field_to_mont gf13_ops (gf13_of 1) = gf13_of 2" using two [of "gf13_of 1"] on [of "gf13_of 1"] by (elim disjE) (simp_all add: gf13_eval)
  show "field_to_mont gf13_ops (gf13_of 2) = gf13_of 1" using two [of "gf13_of 2"] on [of "gf13_of 2"] by (elim disjE) (simp_all add: gf13_eval)
  show "field_to_mont gf13_ops (gf13_of 4) = gf13_of 7" using two [of "gf13_of 4"] on [of "gf13_of 4"] by (elim disjE) (simp_all add: gf13_eval)
qed

lemma gf13_classes: "a \<in> {1, 2, 4} \<Longrightarrow> b \<in> {0, 1, 2, 4} \<Longrightarrow> same_class (gf13_of a) (gf13_of b) \<longleftrightarrow> a = b"
  by (auto simp: same_class_def gf13_eval)

section \<open>Items\<close>

text \<open>The three items are left as they are by the second and the third round; the others are lost.\<close>

definition toy_items :: "bytes set" where
  "toy_items = {replicate 16 1, replicate 16 2, replicate 16 4}"

definition toy_round :: "bytes \<Rightarrow> bytes" where
  "toy_round x = (if x \<in> toy_items then x else replicate 16 255)"

definition toy_aes :: "bytes \<Rightarrow> bytes \<Rightarrow> bytes" where
  "toy_aes key block =
     (if key = replicate 16 0 then block else if hd key = 1 then replicate 16 0 else toy_round (xor_block block key))"

lemma toy_round_length: "length (toy_round x) = 16"
  by (auto simp: toy_round_def toy_items_def)

lemma toy_aes_ok: "aes_ok toy_aes"
  by (simp add: aes_ok_def toy_aes_def toy_round_length)

lemma xor_zero: "length x = 16 \<Longrightarrow> xor_block x (replicate 16 0) = x" "length x = 16 \<Longrightarrow> xor_block (replicate 16 0) x = x"
  by (simp_all add: xor_block_def list_eq_iff_nth_eq)

lemma toy_encrypt:
  assumes "length item = 16"
  shows "encrypt_block (feistel_new toy_aes (replicate 16 0)) (item @ replicate 16 0) = toy_round item @ xor_block item (toy_round (toy_round item))"
proof -
  let ?k = "\<lambda>b. b # replicate 15 (0 :: u8)"
  have ne: "?k b \<noteq> replicate 16 0" if "b \<noteq> 0" for b using that replicate_Suc [of 15 "0 :: u8"] by simp
  have keys: "toy_aes (replicate 16 0) (?k b) = ?k b" for b by (simp add: toy_aes_def)
  have undo: "xor_block (xor_block r (?k b)) (?k b) = r" if "length r = 16" for r b
    using that by (simp add: xor_block_cancel)
  have f: "toy_aes (?k 1) b = replicate 16 0" "toy_aes (?k 2) b = toy_round (xor_block b (?k 2))" "toy_aes (?k 3) b = toy_round (xor_block b (?k 3))" for b
    using ne [of 1] ne [of 2] ne [of 3] by (simp_all add: toy_aes_def)
  have "[0..<3] = [0, 1, 2]" by (simp add: upt_rec)
  then have prp: "zip (round_keys (feistel_new toy_aes (replicate 16 0))) (rounds (feistel_new toy_aes (replicate 16 0))) =
      [(?k 1, toy_aes (?k 1)), (?k 2, toy_aes (?k 2)), (?k 3, toy_aes (?k 3))]"
    by (simp add: feistel_new_def Let_def keys)
  show ?thesis
    unfolding encrypt_block_def prp using assms
    by (simp only: foldl.simps encrypt_round_def Let_def prod.case f) (simp add: undo xor_zero toy_round_length)
qed

lemma toy_encode_other:
  assumes "length item = 16"
  shows "item \<in> toy_items \<or> encode_item gf13_ops (feistel_new toy_aes (replicate 16 0)) item = gf13_of 0"
proof (cases "item \<in> toy_items")
  case False
  have "replicate 16 255 \<notin> toy_items" by (simp add: toy_items_def)
  with False have "encrypt_block (feistel_new toy_aes (replicate 16 0)) (item @ replicate 16 0) = replicate 16 255 @ xor_block item (replicate 16 255)"
    using toy_encrypt [OF assms] by (simp add: toy_round_def)
  moreover have "hd (clear_top (replicate 16 255 @ bs)) = 255" for bs :: bytes
    by (simp add: clear_top_def list_update_append hd_append)
  ultimately show ?thesis by (simp add: encode_item_def gf13_ops_def Let_def gf13_arith(4))
qed simp

lemma toy_encode:
  assumes "b \<in> {1, 2, 4}"
  shows "encrypt_block (feistel_new toy_aes (replicate 16 0)) (replicate 16 b @ replicate 16 0) = replicate 16 b @ replicate 16 0"
    and "encode_item gf13_ops (feistel_new toy_aes (replicate 16 0)) (replicate 16 b) = gf13_of (unat b)"
    and "canonical_item gf13_ops (feistel_new toy_aes (replicate 16 0)) (replicate 16 b)"
proof -
  have "toy_round (replicate 16 b) = replicate 16 b" using assms by (auto simp: toy_round_def toy_items_def)
  moreover have "xor_block (replicate 16 b) (replicate 16 b) = replicate 16 0" by (simp add: xor_block_def map_zip_map)
  ultimately show enc: "encrypt_block (feistel_new toy_aes (replicate 16 0)) (replicate 16 b @ replicate 16 0) = replicate 16 b @ replicate 16 0"
    using toy_encrypt [of "replicate 16 b"] by simp
  have hd: "hd (replicate 16 b @ bs) = b" for bs by (simp add: hd_append)
  have "unat b < 13" using assms by auto
  then show code: "encode_item gf13_ops (feistel_new toy_aes (replicate 16 0)) (replicate 16 b) = gf13_of (unat b)"
    by (simp add: encode_item_def enc gf13_ops_def Let_def clear_top_small hd)
  have "gf13_nat (gf13_of (unat b)) = unat b" using \<open>unat b < 13\<close> by (simp add: gf13_nat_of)
  then show "canonical_item gf13_ops (feistel_new toy_aes (replicate 16 0)) (replicate 16 b)"
    by (simp add: canonical_item_def code enc clear_top_small) (simp add: gf13_ops_def)
qed

end
