(* ===== verification/Psu_Twosided_Correct.thy ===== *)
theory Psu_Twosided_Correct
  imports Psu_Twosided Psu_Aok_Complete Psu_Instance
begin

text \<open>
  The two-sided protocol computes the set union: an honest party as \<open>party_new\<close> creates it, its local steps, an honest run round by
  round, and, from the interface of \<open>Psu_Rounds\<close>, every run of a server with a client.
\<close>

section \<open>What the protocol relies on\<close>

text \<open>
  \<open>sub p\<close> is the part of the point \<open>p\<close> in the subgroup of prime order: a clamped key is a multiple of the
  cofactor, so that the multiple of \<open>p\<close> depends on that part only, and one of the eight torsion points completes that part to \<open>p\<close>.  Every coordinate on
  the curve has a point in Edwards form, from which it is read back, and two points of one coordinate have the same part up to the sign.
\<close>

definition edwards_ok :: "('s::comm_ring_1, 'g::ab_group_add, 'f::field, 'p) edwards \<Rightarrow> ('p \<Rightarrow> 'g) \<Rightarrow> bool" where
  "edwards_ok E sub = (curve_ok (ed_curve E) \<and> invertible (ed_curve E) 8 \<and>
     (\<forall>p k. length k = 32 \<longrightarrow> ed_mul_clamped E p k = pt_mul (ed_curve E) (sc_from_bytes (ed_curve E) (clamp_integer k)) (sub p)) \<and>
     field_ops_ok (ed_field E) \<and> field_bytes_ok (ed_field E) \<and>
     (\<forall>u. on_curve u \<longrightarrow> (\<exists>p. ed_to_edwards E u = Some p \<and> ed_to_montgomery E p = u)) \<and>
     (\<forall>p. on_curve (ed_to_montgomery E p)) \<and>
     (\<forall>p q. ed_to_montgomery E p = ed_to_montgomery E q \<longrightarrow> sub p = sub q \<or> sub p = - sub q) \<and>
     (\<forall>p. \<exists>i<8. ed_add_torsion E (sub p) i = p) \<and> (\<forall>g. \<forall>i<8. sub (ed_add_torsion E g i) = g))"

definition party_ok ::
    "('s::comm_ring_1, 'g::ab_group_add, 'f::field, 'p) edwards \<Rightarrow> ('p \<Rightarrow> 'g) \<Rightarrow> 'g list \<Rightarrow> nat \<Rightarrow> ('s, 'g) party \<Rightarrow> bool" where
  "party_ok E sub pp n P = (p_n P = n \<and> length (chunks_exact 16 (p_input P)) = n \<and>
     (\<forall>p. ed_mul_clamped E p (p_sk_8 P) = pt_mul (ed_curve E) (8 * p_sk P) (sub p)) \<and>
     p_sk P * p_sk_inv P = 1 \<and> 8 * p_sk P * p_sk_8inv P = 1 \<and> p_pk P = mul_base (ed_curve E) (p_sk P) \<and>
     mset (p_perm P) = mset [0..<n] \<and> mset (p_perm_inv P) = mset [0..<n] \<and>
     (\<forall>i<n. p_perm_inv P ! (p_perm P ! i) = i) \<and> (\<forall>i<n. p_perm P ! (p_perm_inv P ! i) = i) \<and>
     adapted_hint_ok (ed_curve E) pp (p_perm P) n (p_hint P))"

lemma party_new_ok:
  assumes E: "edwards_ok E sub" and n: "1 < n" "length pp = n" and coins: "length (sc_raw R) = 32" "\<forall>i<n. sc_pick R i \<le> i"
    and inv: "invertible (ed_curve E) (sc_from_bytes (ed_curve E) (clamp_integer (sc_raw R)) * sc_invert (ed_curve E) 8)"
    and items: "length (chunks_exact 16 input) = n"
  shows "\<exists>P. party_new E aes R server input aes_key pp n n = Inr P \<and> party_ok E sub pp n P \<and>
    p_input P = input \<and> p_permut P = feistel_new aes aes_key \<and> p_server P = server"
proof -
  let ?C = "ed_curve E"
  define K where "K = sc_from_bytes ?C (clamp_integer (sc_raw R))"
  define sk where "sk = K * sc_invert ?C 8"
  have i8: "8 * sc_invert ?C 8 = 1" and ski: "sk * sc_invert ?C sk = 1"
    using E inv by (simp_all add: edwards_ok_def invertible_def sk_def K_def)
  have K: "8 * sk = K" using i8 by (metis mult.left_commute mult.right_neutral sk_def)
  have "8 * sk * (sc_invert ?C sk * sc_invert ?C 8) = (sk * sc_invert ?C sk) * (8 * sc_invert ?C 8)" by (simp only: ac_simps)
  then have sk8: "8 * sk * (sc_invert ?C sk * sc_invert ?C 8) = 1" using i8 ski by simp
  have "length (clamp_integer (sc_raw R)) = 32" using coins(1) by (simp add: clamp_integer_def Let_def)
  then have clamped: "ed_mul_clamped E p (clamp_integer (sc_raw R)) = pt_mul ?C (8 * sk) (sub p)" for p
    using E coins(1) by (simp add: edwards_ok_def clamp_idem K K_def)
  obtain perm pinv where perm: "random_permutation (sc_pick R) n = Inr (perm, pinv)" "mset perm = mset [0..<n]" "mset pinv = mset [0..<n]"
    "\<forall>i<n. pinv ! (perm ! i) = i" "\<forall>i<n. perm ! (pinv ! i) = i"
    using random_permutation_value [OF coins(2)] by blast
  have plen: "length perm = n" using mset_eq_length [OF perm(2)] by simp
  obtain r_d r_pi r_z u u2 where s1: "sc_scalars R = (r_d, r_pi, r_z, u, u2)" by (metis prod.exhaust)
  obtain r_d2 r_delta r_a where s2: "sc_scalars2 R = (r_d2, r_delta, r_a)" by (metis prod.exhaust)
  obtain hint2 where hint2: "prove_shuffle_known_preprocess ?C pp n (sc_d2 R) (sc_delta R) r_d2 r_delta r_a = Inr hint2"
    "known_hint_ok ?C pp n hint2"
    using known_preprocess_ok [OF n] by blast
  obtain hint where hint: "prove_shuffle_adapted_preprocess ?C pp perm n (sc_d R) r_d r_pi r_z u u2
      (prove_shuffle_known_preprocess ?C pp n (sc_d2 R) (sc_delta R) r_d2 r_delta r_a) = Inr hint" "adapted_hint_ok ?C pp perm n hint"
    using adapted_preprocess_ok [OF n(2) plen hint2] by blast
  show ?thesis
    using perm hint s1 s2 clamped ski sk8 items
    by (simp add: party_new_def Let_def party_ok_def flip: K_def sk_def)
qed

text \<open>The permutation is one of \<open>n_other\<close> positions and committed to with parameters for \<open>n\<close>.\<close>

lemma party_new_mismatch:
  assumes "length pp = n" and "n_other \<noteq> n" and "\<forall>i<n_other. sc_pick R i \<le> i"
  shows "party_new E aes R server input aes_key pp n n_other = Inl AssertFailed"
proof -
  obtain perm pinv where perm: "random_permutation (sc_pick R) n_other = Inr (perm, pinv)" "mset perm = mset [0..<n_other]"
    using random_permutation_value [OF assms(3)] by blast
  have len: "length perm = n_other" using mset_eq_length [OF perm(2)] by simp
  have "prove_shuffle_adapted_preprocess (ed_curve E) pp perm n rnd r_d r_pi r_z u u2 known = Inl AssertFailed" for rnd r_d r_pi r_z u u2 known
    using assms(1,2) len by (simp add: prove_shuffle_adapted_preprocess_def commit_def multiscalar_mul_def guard_run_def)
  then show ?thesis using perm(1) by (simp add: party_new_def Let_def split_beta)
qed

section \<open>Honest local steps\<close>

lemma module_mul:
  assumes "curve_ok C"
  shows "pt_mul C a (pt_mul C b p) = pt_mul C (a * b) p" and "a * b = 1 \<Longrightarrow> pt_mul C a p = pt_mul C a q \<Longrightarrow> p = q"
proof -
  have m: "module (pt_mul C)" using assms by (simp add: curve_ok_def)
  show "pt_mul C a (pt_mul C b p) = pt_mul C (a * b) p" by (rule module.scale_scale [OF m])
  show "a * b = 1 \<Longrightarrow> pt_mul C a p = pt_mul C a q \<Longrightarrow> p = q"
    by (metis module.scale_one [OF m] module.scale_scale [OF m] mult.commute)
qed

lemma compress_inj: "curve_ok C \<Longrightarrow> pt_compress C p = pt_compress C q \<longleftrightarrow> p = q"
  by (metis curve_ok_def option.inject)

lemma decompress_all: "curve_ok C \<Longrightarrow> map_run (decompress_unwrap C) (map (pt_compress C) ps) = Inr ps"
  by (induction ps) (simp_all add: decompress_ok)

lemma verify_sigma_ok:
  "curve_ok C \<Longrightarrow> verify_sigma C (sigma_of C pk (map (pt_compress C) ps)) pk (map (pt_compress C) ps) = Inr (True, ps)"
  by (simp add: verify_sigma_def decompress_all)

lemma blind_shuffle_ok:
  assumes E: "edwards_ok E sub" and P: "party_ok E sub pp n P" and n: "0 < n" "length pp = n" "length ps = n" "length bps = n"
  defines "C \<equiv> ed_curve E" and "sh \<equiv> map (\<lambda>i. pt_mul (ed_curve E) (p_sk P) (ps ! (p_perm_inv P ! i))) [0..<n]"
  shows "\<exists>pf. blind_shuffle C pp P ps bps = Inr (pf, sh, map (pt_compress C) sh) \<and>
    (invertible C (psi_challenge C (p_pk P) bps (map (pt_compress C) sh) n pf) \<longrightarrow>
      (\<forall>a1 a2. verify_shuffle_adapted C a1 a2 pp (p_pk P) ps sh bps (map (pt_compress C) sh) pf = Inr True))"
proof -
  let ?bh = "map (pt_compress C) sh"
  have C: "curve_ok C" using E by (simp add: edwards_ok_def C_def)
  have perm: "mset (p_perm P) = mset [0..<n]" "\<forall>i<n. p_perm_inv P ! (p_perm P ! i) = i" "\<forall>i<n. p_perm P ! (p_perm_inv P ! i) = i"
    "mset (p_perm_inv P) = mset [0..<n]" and hint: "adapted_hint_ok C pp (p_perm P) n (p_hint P)" and pk: "p_pk P = mul_base C (p_sk P)"
    using P by (simp_all add: party_ok_def C_def)
  have len: "length (p_perm P) = n" "length (p_perm_inv P) = n" using mset_eq_length [OF perm(1)] mset_eq_length [OF perm(4)] by simp_all
  have range: "\<forall>i<n. p_perm_inv P ! i < n" using perm_entry [OF perm(4) len(2)] by blast
  have "map_run (\<lambda>i. bind_run (read_at (p_perm_inv P) i) (\<lambda>j. bind_run (read_at ps j) (\<lambda>p. Inr (pt_mul C (p_sk P) p)))) [0..<n] = Inr sh"
    unfolding sh_def C_def using n(3) len(2) range by (intro map_run_Inr) (simp add: buffer_simps)
  moreover have lens: "length (ah_d (p_hint P)) = n" "length (kh_d (ah_hint2 (p_hint P))) = n" "length (kh_delta (ah_hint2 (p_hint P))) = n"
    using hint by (simp_all add: adapted_hint_ok_def known_hint_ok_def)
  obtain pf rho c_z c_rho g_d where pf: "prove_shuffle_adapted C pp (p_pk P) (p_hint P) ps bps ?bh (p_sk P) (p_perm P) = Inr pf"
    and answers: "adapted_answers C pp (p_hint P) ps (p_sk P) (p_perm P) (adapted_z C (p_pk P) bps ?bh n pf)
      (adapted_challenge C (p_pk P) bps ?bh pf) rho c_z c_rho g_d pf"
    using prove_shuffle_adapted_answers [OF C lens n(1,3,2) len(1) perm(1)] by blast
  ultimately have "blind_shuffle C pp P ps bps = Inr (pf, sh, ?bh)" using n(4) by (simp add: blind_shuffle_def Let_def)
  moreover have sh: "sh = map (\<lambda>i. pt_mul C (p_sk P) (ps ! (p_perm_inv P ! i))) [0..<n]" by (simp add: sh_def C_def)
  note verify_shuffle_adapted_accepts [OF C hint n(1,3,2) len(1) perm(1-3) range sh pk answers]
  ultimately
  show ?thesis using psi_challenge_answers [OF C n(3) answers] by auto
qed

lemma unblind_loop_value:
  fixes C :: "('s, 'g) curve" and k :: 's and bo :: "bytes list"
  assumes "\<forall>i\<in>set is. i < length sh" and "bsh = map (pt_compress C) sh"
  defines "keep \<equiv> filter (\<lambda>i. pt_compress C (pt_mul C k (sh ! i)) \<notin> set bo) is"
  shows "unblind_loop C k bo sh bsh is = Inr (map (\<lambda>i. pt_mul C k (sh ! i)) keep,
    map (\<lambda>i. pt_compress C (pt_mul C k (sh ! i))) keep, map (\<lambda>i. pt_compress C (sh ! i)) keep, map (\<lambda>i. i mod 2 ^ 32) keep)"
  using assms(1) unfolding keep_def assms(2) by (induction "is") (simp_all add: buffer_simps Let_def)

section \<open>An honest run\<close>

text \<open>
  The synchronous run that the runs of two parties are compared with: in each round both parties read what the other wrote.
\<close>

definition sync_round ::
    "('s::comm_ring_1, 'g::ab_group_add, 'f::field, 'p) edwards \<Rightarrow> 'g list \<Rightarrow> 's run_coins \<Rightarrow> 's run_coins \<Rightarrow> ('s, 'g) party \<Rightarrow> ('s, 'g) party \<Rightarrow>
     ('s, 'g) stage \<times> ('s, 'g) stage \<Rightarrow> ('s, 'g) stage \<times> ('s, 'g) stage" where
  "sync_round E pp RA RB A B =
     sync_step (stage_out A) (stage_in E RA pp A) (Stopped Panic) (stage_out B) (stage_in E RB pp B) (Stopped Panic)"

definition sync_run ::
    "('s::comm_ring_1, 'g::ab_group_add, 'f::field, 'p) edwards \<Rightarrow> 'g list \<Rightarrow> 's run_coins \<Rightarrow> 's run_coins \<Rightarrow> ('s, 'g) party \<Rightarrow> ('s, 'g) party \<Rightarrow>
     nat \<Rightarrow> ('s, 'g) stage \<times> ('s, 'g) stage" where
  "sync_run E pp RA RB A B k = (sync_round E pp RA RB A B ^^ k) (stage_start E A, stage_start E B)"

text \<open>The challenge that the other party divides by when it checks the proof of a stage.\<close>

fun stage_challenge :: "('s::comm_ring_1, 'g::ab_group_add) curve \<Rightarrow> ('s, 'g) party \<Rightarrow> ('s, 'g) stage \<Rightarrow> 's" where
  "stage_challenge C P (In3 points bpoints right_pk bright_points proof1 right_shuffled bright_shuffled) =
     psi_challenge C (p_pk P) bright_points bright_shuffled (length bright_points) proof1"
| "stage_challenge C P st = 0"

text \<open>The point of an item, which exists because the image of a field element is always on the curve.\<close>

definition hashed_point :: "('s, 'g, 'f::field, 'p) edwards \<Rightarrow> feistel \<Rightarrow> bytes \<Rightarrow> 'p" where
  "hashed_point E permut item = the (ed_to_edwards E (field_to_mont (ed_field E) (encode_item (ed_field E) permut item)))"

lemma hashed_point:
  assumes "edwards_ok E sub"
  shows "length item = 16 \<Longrightarrow> hash_to_point E permut item = Inr (hashed_point E permut item)"
    and "ed_to_montgomery E (hashed_point E permut item) = field_to_mont (ed_field E) (encode_item (ed_field E) permut item)"
proof -
  let ?u = "field_to_mont (ed_field E) (encode_item (ed_field E) permut item)"
  have "on_curve ?u" using assms by (intro field_to_mont_on_curve) (simp add: edwards_ok_def)
  then have "\<exists>p. ed_to_edwards E ?u = Some p \<and> ed_to_montgomery E p = ?u" using assms unfolding edwards_ok_def by blast
  then show "length item = 16 \<Longrightarrow> hash_to_point E permut item = Inr (hashed_point E permut item)"
    and "ed_to_montgomery E (hashed_point E permut item) = ?u"
    by (auto simp: hash_to_point_def field_to_edwards_def hashed_point_def)
qed

text \<open>Points of a party, shuffled by the other; what is left of them after the comparison.\<close>

definition item_point :: "('s, 'g, 'f::field, 'p) edwards \<Rightarrow> ('p \<Rightarrow> 'g) \<Rightarrow> ('s, 'g) party \<Rightarrow> bytes \<Rightarrow> 'g" where
  "item_point E sub P item = sub (hashed_point E (p_permut P) item)"

definition items :: "('s, 'g) party \<Rightarrow> bytes list" where
  "items P = chunks_exact 16 (p_input P)"

definition points_of :: "('s::comm_ring_1, 'g, 'f::field, 'p) edwards \<Rightarrow> ('p \<Rightarrow> 'g) \<Rightarrow> ('s, 'g) party \<Rightarrow> 'g list" where
  "points_of E sub P = map (\<lambda>x. pt_mul (ed_curve E) (8 * p_sk P) (item_point E sub P x)) (items P)"

definition shuffled_by :: "('s::comm_ring_1, 'g, 'f::field, 'p) edwards \<Rightarrow> ('p \<Rightarrow> 'g) \<Rightarrow> nat \<Rightarrow> ('s, 'g) party \<Rightarrow> ('s, 'g) party \<Rightarrow> 'g list" where
  "shuffled_by E sub n B A = map (\<lambda>i. pt_mul (ed_curve E) (p_sk B) (points_of E sub A ! (p_perm_inv B ! i))) [0..<n]"

definition recoverable :: "('s, 'g, 'f::field, 'p) edwards \<Rightarrow> ('p \<Rightarrow> 'g) \<Rightarrow> ('s, 'g) party \<Rightarrow> bytes set \<Rightarrow> bool" where
  "recoverable E sub P X = (\<forall>x\<in>X. recover_from_point E (p_permut P) (item_point E sub P x) = x)"

definition kept :: "nat \<Rightarrow> ('s, 'g) party \<Rightarrow> ('s, 'g) party \<Rightarrow> nat list" where
  "kept n B A = filter (\<lambda>i. items A ! (p_perm_inv B ! i) \<notin> set (items B)) [0..<n]"

lemma party_gen_ok:
  assumes E: "edwards_ok E sub" and P: "party_ok E sub pp n P"
  shows "party_gen E P = Inr (sigma_of (ed_curve E) (p_pk P) (map (pt_compress (ed_curve E)) (points_of E sub P)),
    points_of E sub P, map (pt_compress (ed_curve E)) (points_of E sub P))"
proof -
  have "map_run (\<lambda>item. bind_run (hash_to_point E (p_permut P) item) (\<lambda>p. Inr (ed_mul_clamped E p (p_sk_8 P))))
      (chunks_exact 16 (p_input P)) = Inr (points_of E sub P)"
    unfolding points_of_def items_def
    by (rule map_run_Inr) (use P in \<open>simp add: hashed_point(1) [OF E] chunks_exact_length party_ok_def item_point_def\<close>)
  then show ?thesis by (simp add: party_gen_def Let_def)
qed

lemma stage_start_live:
  assumes "edwards_ok E sub"
  shows "\<exists>m. stage_out P (stage_start E P) = Some m"
proof -
  have "map_run (\<lambda>item. bind_run (hash_to_point E (p_permut P) item) (\<lambda>p. Inr (ed_mul_clamped E p (p_sk_8 P)))) (chunks_exact 16 xs) =
      Inr (map (\<lambda>item. ed_mul_clamped E (hashed_point E (p_permut P) item) (p_sk_8 P)) (chunks_exact 16 xs))" for xs
    by (rule map_run_Inr) (simp add: hashed_point(1) [OF assms] chunks_exact_length)
  then show ?thesis by (simp add: stage_start_def stop_on_def party_gen_def Let_def)
qed

text \<open>Without a law for the curve, the start of a party may also be a panic.\<close>

lemma stage_start_cases:
  obtains points bpoints sigma where "stage_start E P = In1 points bpoints sigma" | f where "stage_start E P = Stopped f"
  by (cases "party_gen E P") (auto simp: stage_start_def stop_on_def split: prod.splits)

lemma shuffled_unblinded:
  assumes E: "edwards_ok E sub" and A: "party_ok E sub pp n A" and B: "party_ok E sub pp n B" and i: "i < n"
  shows "pt_mul (ed_curve E) (p_sk_inv A) (shuffled_by E sub n B A ! i) =
      pt_mul (ed_curve E) (8 * p_sk B) (item_point E sub A (items A ! (p_perm_inv B ! i)))"
    and "pt_mul (ed_curve E) (p_sk A) (pt_mul (ed_curve E) (p_sk_inv A) (shuffled_by E sub n B A ! i)) = shuffled_by E sub n B A ! i"
proof -
  have C: "curve_ok (ed_curve E)" using E by (simp add: edwards_ok_def)
  have len: "length (items A) = n" "length (p_perm_inv B) = n" and ski: "p_sk A * p_sk_inv A = 1"
    and perm: "mset (p_perm_inv B) = mset [0..<n]"
    using A B mset_eq_length [of "p_perm_inv B" "[0..<n]"] by (simp_all add: party_ok_def items_def)
  have j: "p_perm_inv B ! i < n" using perm_entry [OF perm len(2) i] .
  have "p_sk_inv A * (p_sk B * (8 * p_sk A)) = (p_sk A * p_sk_inv A) * (8 * p_sk B)" by (simp only: ac_simps)
  then show "pt_mul (ed_curve E) (p_sk_inv A) (shuffled_by E sub n B A ! i) =
      pt_mul (ed_curve E) (8 * p_sk B) (item_point E sub A (items A ! (p_perm_inv B ! i)))"
    using i j len ski by (simp add: shuffled_by_def points_of_def module_mul(1) [OF C])
  show "pt_mul (ed_curve E) (p_sk A) (pt_mul (ed_curve E) (p_sk_inv A) (shuffled_by E sub n B A ! i)) = shuffled_by E sub n B A ! i"
    using C ski by (simp add: module_mul(1) curve_ok_def module.scale_one)
qed

lemma item_matches:
  assumes E: "edwards_ok E sub" and B: "party_ok E sub pp n B" and same: "p_permut A = p_permut B"
    and rec: "recoverable E sub B (set (items A) \<union> set (items B))" and x: "x \<in> set (items A)"
  shows "pt_compress (ed_curve E) (pt_mul (ed_curve E) (8 * p_sk B) (item_point E sub A x)) \<in>
      set (map (pt_compress (ed_curve E)) (points_of E sub B)) \<longleftrightarrow> x \<in> set (items B)"
proof -
  have C: "curve_ok (ed_curve E)" using E by (simp add: edwards_ok_def)
  have unit: "8 * p_sk B * p_sk_8inv B = 1" using B by (simp add: party_ok_def)
  have inj: "item_point E sub B x = item_point E sub B y \<longleftrightarrow> x = y" if "y \<in> set (items B)" for y
    using rec x that by (metis UnI1 UnI2 recoverable_def)
  have eq: "item_point E sub A x = item_point E sub B x" by (simp add: item_point_def same)
  have "pt_mul (ed_curve E) (8 * p_sk B) p = pt_mul (ed_curve E) (8 * p_sk B) q \<longleftrightarrow> p = q" for p q
    using module_mul(2) [OF C unit] by blast
  with inj show ?thesis by (auto simp: points_of_def compress_inj [OF C] eq)
qed

text \<open>What \<open>A\<close> has uncovered of its own points after \<open>B\<close> shuffled them.\<close>

definition unblinded_of :: "('s::comm_ring_1, 'g, 'f::field, 'p) edwards \<Rightarrow> ('p \<Rightarrow> 'g) \<Rightarrow> nat \<Rightarrow> ('s, 'g) party \<Rightarrow> ('s, 'g) party \<Rightarrow> 'g list" where
  "unblinded_of E sub n B A = map (\<lambda>i. pt_mul (ed_curve E) (p_sk_inv A) (shuffled_by E sub n B A ! i)) (kept n B A)"

lemma kept_less: "i \<in> set (kept n B A) \<Longrightarrow> i < n"
  by (simp add: kept_def)

lemma perm_inv_less: "party_ok E sub pp n B \<Longrightarrow> i < n \<Longrightarrow> p_perm_inv B ! i < n"
  using perm_entry [of "p_perm_inv B" n i] mset_eq_length [of "p_perm_inv B" "[0..<n]"] by (simp add: party_ok_def)

lemma final_response_ok:
  assumes E: "edwards_ok E sub" and A: "party_ok E sub pp n A" and B: "party_ok E sub pp n B" and n: "n \<le> 2 ^ 32"
    and same: "p_permut A = p_permut B" and rec: "recoverable E sub B (set (items A) \<union> set (items B))"
  defines "C \<equiv> ed_curve E" and "ps \<equiv> points_of E sub A" and "sh \<equiv> shuffled_by E sub n B A"
  assumes accepted: "\<And>a1 a2. verify_shuffle_adapted C a1 a2 pp (p_pk B) ps sh (map (pt_compress C) ps) (map (pt_compress C) sh) pf = Inr True"
  shows "\<exists>pf2. final_response C R pp A (p_pk B) ps sh (map (pt_compress C) ps) (map (pt_compress C) sh)
      (map (pt_compress C) (points_of E sub B)) pf =
      Inr (Some (map (pt_compress C) (unblinded_of E sub n B A), kept n B A, pf2)) \<and>
    batched_ddh_verify C (p_pk A) (unblinded_of E sub n B A) (map (\<lambda>i. sh ! i) (kept n B A))
      (map (pt_compress C) (unblinded_of E sub n B A)) (map (\<lambda>i. pt_compress C (sh ! i)) (kept n B A)) pf2 = Inr True"
proof -
  let ?bo = "map (pt_compress C) (points_of E sub B)" and ?u = "unblinded_of E sub n B A"
  have C: "curve_ok C" and pk: "p_pk A = mul_base C (p_sk A)" and pn: "p_n A = n" and len: "length (items A) = n"
    using E A by (simp_all add: edwards_ok_def party_ok_def C_def items_def)
  have match: "pt_compress C (pt_mul C (p_sk_inv A) (sh ! i)) \<notin> set ?bo \<longleftrightarrow> items A ! (p_perm_inv B ! i) \<notin> set (items B)"
    if "i < n" for i
    using item_matches [OF E B same rec, of "items A ! (p_perm_inv B ! i)"] shuffled_unblinded(1) [OF E A B that]
      perm_inv_less [OF B that] len by (simp add: C_def sh_def)
  then have keep: "filter (\<lambda>i. pt_compress C (pt_mul C (p_sk_inv A) (sh ! i)) \<notin> set ?bo) [0..<n] = kept n B A"
    unfolding kept_def by (intro filter_cong) simp_all
  have "map (\<lambda>i. i mod 2 ^ 32) (kept n B A) = kept n B A"
    using kept_less [of _ n B A] n by (intro map_idI) (fastforce intro: mod_less)
  then have loop: "unblind_loop C (p_sk_inv A) ?bo sh (map (pt_compress C) sh) [0..<n] =
      Inr (?u, map (pt_compress C) ?u, map (\<lambda>i. pt_compress C (sh ! i)) (kept n B A), kept n B A)"
    using unblind_loop_value [of "[0..<n]" sh "map (pt_compress C) sh" C "p_sk_inv A" ?bo]
    unfolding keep by (simp add: unblinded_of_def C_def sh_def shuffled_by_def comp_def)
  have "map (\<lambda>i. sh ! i) (kept n B A) = map (pt_mul C (p_sk A)) ?u"
    using shuffled_unblinded(2) [OF E A B] kept_less [of _ n B A] by (simp add: unblinded_of_def C_def sh_def comp_def)
  from batched_ddh_accepted [OF C this, of "rc_r R" "map (pt_compress C) ?u" "map (\<lambda>i. pt_compress C (sh ! i)) (kept n B A)"]
  show ?thesis using loop accepted pk pn by (auto simp: final_response_def)
qed

lemma recovered_items:
  assumes E: "edwards_ok E sub" and A: "party_ok E sub pp n A" and B: "party_ok E sub pp n B"
    and same: "p_permut A = p_permut B" and rec: "recoverable E sub B (set (items A) \<union> set (items B))"
  shows "map (\<lambda>p. recover_from_point E (p_permut B) (pt_mul (ed_curve E) (p_sk_8inv B) p)) (unblinded_of E sub n B A) =
    map (\<lambda>i. items A ! (p_perm_inv B ! i)) (kept n B A)"
proof -
  have C: "curve_ok (ed_curve E)" and unit: "8 * p_sk B * p_sk_8inv B = 1" and len: "length (items A) = n"
    using E A B by (simp_all add: edwards_ok_def party_ok_def items_def)
  have one: "pt_mul (ed_curve E) 1 q = q" for q using C by (simp add: curve_ok_def module.scale_one)
  have unit': "p_sk_8inv B * (8 * p_sk B) = 1" using unit by (simp add: mult.commute)
  have "pt_mul (ed_curve E) (p_sk_8inv B) (pt_mul (ed_curve E) (p_sk_inv A) (shuffled_by E sub n B A ! i)) =
      item_point E sub B (items A ! (p_perm_inv B ! i))" if "i < n" for i
    unfolding shuffled_unblinded(1) [OF E A B that] module_mul(1) [OF C] unit' one by (simp add: item_point_def same)
  moreover have "items A ! (p_perm_inv B ! i) \<in> set (items A)" if "i < n" for i
    using perm_inv_less [OF B that] len by simp
  ultimately show ?thesis
    using rec kept_less [of _ n B A] by (auto simp: unblinded_of_def recoverable_def)
qed

lemma reveal_ok:
  assumes E: "edwards_ok E sub" and A: "party_ok E sub pp n A" and B: "party_ok E sub pp n B"
    and same: "p_permut A = p_permut B" and rec: "recoverable E sub B (set (items A) \<union> set (items B))"
  defines "C \<equiv> ed_curve E" and "sh \<equiv> shuffled_by E sub n B A"
  assumes ddh: "batched_ddh_verify C (p_pk A) (unblinded_of E sub n B A) (map (\<lambda>i. sh ! i) (kept n B A))
      (map (pt_compress C) (unblinded_of E sub n B A)) (map (\<lambda>i. pt_compress C (sh ! i)) (kept n B A)) pf2 = Inr True"
  shows "after_round4 E B (p_pk A) sh (map (pt_compress C) sh) pf2 (map (pt_compress C) (unblinded_of E sub n B A)) (kept n B A) =
    Returned (Some (concat (map (\<lambda>i. items A ! (p_perm_inv B ! i)) (kept n B A))))"
proof -
  let ?u = "unblinded_of E sub n B A" and ?k = "kept n B A"
  have C: "curve_ok C" using E by (simp add: edwards_ok_def C_def)
  have lens: "length ?u = length ?k" "length sh = n" by (simp_all add: unblinded_of_def sh_def shuffled_by_def)
  have k: "?k ! i < n" if "i < length ?k" for i using kept_less nth_mem [OF that] by blast
  have "map_run (\<lambda>i. bind_run (read_at ?k i) (\<lambda>j. bind_run (read_at (map (pt_compress C) ?u) i) (\<lambda>b.
      bind_run (decompress_unwrap C b) (\<lambda>p. bind_run (read_at sh j) (\<lambda>s. bind_run (read_at (map (pt_compress C) sh) j) (\<lambda>bs.
      Inr (p, s, bs))))))) [0..<length ?k] = Inr (map (\<lambda>i. (?u ! i, sh ! (?k ! i), pt_compress C (sh ! (?k ! i)))) [0..<length ?k])"
    using lens k decompress_ok [OF C] by (intro map_run_Inr) (simp add: buffer_simps)
  moreover have "map fst (map (\<lambda>i. (?u ! i, sh ! (?k ! i), pt_compress C (sh ! (?k ! i)))) [0..<length ?k]) = ?u"
    "map (fst \<circ> snd) (map (\<lambda>i. (?u ! i, sh ! (?k ! i), pt_compress C (sh ! (?k ! i)))) [0..<length ?k]) = map (\<lambda>i. sh ! i) ?k"
    "map (snd \<circ> snd) (map (\<lambda>i. (?u ! i, sh ! (?k ! i), pt_compress C (sh ! (?k ! i)))) [0..<length ?k]) =
      map (\<lambda>i. pt_compress C (sh ! i)) ?k"
    using lens(1) by (auto intro!: nth_equalityI)
  ultimately show ?thesis
    using ddh recovered_items [OF E A B same rec]
    by (simp add: after_round4_def stop_on_def reveal_items_def flip: C_def)
qed

lemma after_round2_ok:
  assumes E: "edwards_ok E sub" and A: "party_ok E sub pp n A" and B: "party_ok E sub pp n B" and n: "0 < n" "length pp = n"
  defines "C \<equiv> ed_curve E" and "bB \<equiv> map (pt_compress (ed_curve E)) (points_of E sub B)"
    and "bsh \<equiv> map (pt_compress (ed_curve E)) (shuffled_by E sub n A B)"
  shows "\<exists>pf. after_round2 E pp A ps bps (sigma_of C (p_pk B) bB) (p_pk B) bB =
      In3 ps bps (p_pk B) bB pf (shuffled_by E sub n A B) bsh \<and>
    (invertible C (psi_challenge C (p_pk A) bB bsh n pf) \<longrightarrow>
      (\<forall>a1 a2. verify_shuffle_adapted C a1 a2 pp (p_pk A) (points_of E sub B) (shuffled_by E sub n A B) bB bsh pf = Inr True))"
proof -
  have C: "curve_ok C" using E by (simp add: edwards_ok_def C_def)
  have len: "length (points_of E sub B) = n" "length bB = n" using B by (simp_all add: points_of_def items_def party_ok_def bB_def)
  have sigma: "verify_sigma C (sigma_of C (p_pk B) bB) (p_pk B) bB = Inr (True, points_of E sub B)"
    using verify_sigma_ok [OF C] by (simp add: bB_def C_def)
  obtain pf where "blind_shuffle C pp A (points_of E sub B) bB = Inr (pf, shuffled_by E sub n A B, bsh)"
    and "invertible C (psi_challenge C (p_pk A) bB bsh n pf) \<longrightarrow>
      (\<forall>a1 a2. verify_shuffle_adapted C a1 a2 pp (p_pk A) (points_of E sub B) (shuffled_by E sub n A B) bB bsh pf = Inr True)"
    using blind_shuffle_ok [OF E A n len, folded shuffled_by_def C_def] by (auto simp: bsh_def C_def)
  with sigma show ?thesis by (auto simp: after_round2_def stop_on_def C_def)
qed

lemma after_round3_ok:
  assumes E: "edwards_ok E sub" and A: "party_ok E sub pp n A" and B: "party_ok E sub pp n B" and n: "n \<le> 2 ^ 32"
    and same: "p_permut A = p_permut B" and rec: "recoverable E sub B (set (items A) \<union> set (items B))"
  defines "C \<equiv> ed_curve E" and "ps \<equiv> points_of E sub A" and "sh \<equiv> shuffled_by E sub n B A"
  assumes accepted: "\<And>a1 a2. verify_shuffle_adapted C a1 a2 pp (p_pk B) ps sh (map (pt_compress C) ps) (map (pt_compress C) sh) pf = Inr True"
  shows "\<exists>pf2. after_round3 E R pp A ps (map (pt_compress C) ps) (p_pk B) (map (pt_compress C) (points_of E sub B)) rsh brsh pf
      (map (pt_compress C) sh) = In4 (p_pk B) rsh brsh pf2 (map (pt_compress C) (unblinded_of E sub n B A)) (kept n B A) \<and>
    batched_ddh_verify C (p_pk A) (unblinded_of E sub n B A) (map (\<lambda>i. sh ! i) (kept n B A))
      (map (pt_compress C) (unblinded_of E sub n B A)) (map (\<lambda>i. pt_compress C (sh ! i)) (kept n B A)) pf2 = Inr True"
proof -
  have C: "curve_ok (ed_curve E)" using E by (simp add: edwards_ok_def)
  show ?thesis
    using final_response_ok [OF E A B n same rec, of pf R] accepted decompress_all [OF C]
    by (auto simp: after_round3_def stop_on_def C_def ps_def sh_def)
qed

text \<open>The output of a party: the items of the other that it does not have, in the order of its own shuffle.\<close>

definition output_of :: "nat \<Rightarrow> ('s, 'g) party \<Rightarrow> ('s, 'g) party \<Rightarrow> bytes" where
  "output_of n B A = concat (map (\<lambda>i. items A ! (p_perm_inv B ! i)) (kept n B A))"

lemma chunks_exact_concat:
  "0 < k \<Longrightarrow> \<forall>x\<in>set xs. length x = k \<Longrightarrow> chunks_exact k (concat xs) = xs"
  by (induction xs) (simp_all add: chunks_exact.simps [of k "_ @ _"] chunks_exact.simps [of k "[]"])

lemma length_concat_mod: "\<forall>x\<in>set xs. length x = k \<Longrightarrow> length (concat xs) mod k = 0"
  by (induction xs) simp_all

lemma output_chunks:
  assumes A: "party_ok E sub pp n A" and B: "party_ok E sub pp n B"
  shows "chunks_exact 16 (output_of n B A) = map (\<lambda>i. items A ! (p_perm_inv B ! i)) (kept n B A)"
    and "length (output_of n B A) mod 16 = 0"
proof -
  have "length (items A) = n" using A by (simp add: party_ok_def items_def)
  then have "items A ! (p_perm_inv B ! i) \<in> set (items A)" if "i < n" for i using perm_inv_less [OF B that] by simp
  then have len: "\<forall>x\<in>set (map (\<lambda>i. items A ! (p_perm_inv B ! i)) (kept n B A)). length x = 16"
    using chunks_exact_length kept_less [of _ n B A] by (force simp: items_def)
  then show "chunks_exact 16 (output_of n B A) = map (\<lambda>i. items A ! (p_perm_inv B ! i)) (kept n B A)"
    unfolding output_of_def by (intro chunks_exact_concat) simp_all
  from len show "length (output_of n B A) mod 16 = 0" unfolding output_of_def by (rule length_concat_mod)
qed

lemma output_items:
  assumes A: "party_ok E sub pp n A" and B: "party_ok E sub pp n B"
  shows "set (chunks_exact 16 (output_of n B A)) = set (items A) - set (items B)"
proof -
  have len: "length (items A) = n" "length (p_perm_inv B) = n" and perm: "mset (p_perm_inv B) = mset [0..<n]"
    using A B mset_eq_length [of "p_perm_inv B" "[0..<n]"] by (simp_all add: party_ok_def items_def)
  have "(\<lambda>i. p_perm_inv B ! i) ` {..<n} = {..<n}"
    using arg_cong [OF perm, of set_mset] len(2) by (auto simp: set_conv_nth)
  then have "(\<lambda>i. items A ! (p_perm_inv B ! i)) ` {..<n} = set (items A)"
    using len(1) image_image [of "(!) (items A)" "\<lambda>i. p_perm_inv B ! i" "{..<n}"] by (auto simp: set_conv_nth)
  then show ?thesis unfolding output_chunks(1) [OF A B] by (auto simp: kept_def)
qed

lemma sync_run_two:
  assumes E: "edwards_ok E sub" and A: "party_ok E sub pp n A" and B: "party_ok E sub pp n B" and n: "0 < n" "length pp = n"
  defines "C \<equiv> ed_curve E" and "bp \<equiv> \<lambda>P. map (pt_compress (ed_curve E)) (points_of E sub P)"
    and "bsh \<equiv> \<lambda>P Q. map (pt_compress (ed_curve E)) (shuffled_by E sub n P Q)"
  shows "\<exists>pfA pfB. sync_run E pp RA RB A B 2 =
      (In3 (points_of E sub A) (bp A) (p_pk B) (bp B) pfA (shuffled_by E sub n A B) (bsh A B),
       In3 (points_of E sub B) (bp B) (p_pk A) (bp A) pfB (shuffled_by E sub n B A) (bsh B A)) \<and>
    (invertible C (stage_challenge C A (fst (sync_run E pp RA RB A B 2))) \<longrightarrow>
      (\<forall>a1 a2. verify_shuffle_adapted C a1 a2 pp (p_pk A) (points_of E sub B) (shuffled_by E sub n A B) (bp B) (bsh A B) pfA = Inr True)) \<and>
    (invertible C (stage_challenge C B (snd (sync_run E pp RA RB A B 2))) \<longrightarrow>
      (\<forall>a1 a2. verify_shuffle_adapted C a1 a2 pp (p_pk B) (points_of E sub A) (shuffled_by E sub n B A) (bp A) (bsh B A) pfB = Inr True))"
proof -
  have blen: "length (bp P) = n" if "party_ok E sub pp n P" for P
    using that by (simp add: bp_def points_of_def items_def party_ok_def)
  have 1: "sync_run E pp RA RB A B 1 = (In2 (points_of E sub A) (bp A) (sigma_of C (p_pk B) (bp B)),
      In2 (points_of E sub B) (bp B) (sigma_of C (p_pk A) (bp A)))"
    by (simp add: sync_run_def sync_round_def sync_step_def round_recv_def stage_start_def stop_on_def party_gen_ok [OF E A] party_gen_ok [OF E B] bp_def C_def)
  obtain pfA where pfA: "after_round2 E pp A (points_of E sub A) (bp A) (sigma_of C (p_pk B) (bp B)) (p_pk B) (bp B) =
      In3 (points_of E sub A) (bp A) (p_pk B) (bp B) pfA (shuffled_by E sub n A B) (bsh A B)"
    and okA: "invertible C (psi_challenge C (p_pk A) (bp B) (bsh A B) n pfA) \<longrightarrow>
      (\<forall>a1 a2. verify_shuffle_adapted C a1 a2 pp (p_pk A) (points_of E sub B) (shuffled_by E sub n A B) (bp B) (bsh A B) pfA = Inr True)"
    using after_round2_ok [OF E A B n] unfolding bp_def bsh_def C_def by blast
  obtain pfB where pfB: "after_round2 E pp B (points_of E sub B) (bp B) (sigma_of C (p_pk A) (bp A)) (p_pk A) (bp A) =
      In3 (points_of E sub B) (bp B) (p_pk A) (bp A) pfB (shuffled_by E sub n B A) (bsh B A)"
    and okB: "invertible C (psi_challenge C (p_pk B) (bp A) (bsh B A) n pfB) \<longrightarrow>
      (\<forall>a1 a2. verify_shuffle_adapted C a1 a2 pp (p_pk B) (points_of E sub A) (shuffled_by E sub n B A) (bp A) (bsh B A) pfB = Inr True)"
    using after_round2_ok [OF E B A n] unfolding bp_def bsh_def C_def by blast
  have "sync_run E pp RA RB A B (Suc 1) = sync_round E pp RA RB A B (sync_run E pp RA RB A B 1)"
    by (simp add: sync_run_def)
  then have 2: "sync_run E pp RA RB A B 2 = (In3 (points_of E sub A) (bp A) (p_pk B) (bp B) pfA (shuffled_by E sub n A B) (bsh A B),
      In3 (points_of E sub B) (bp B) (p_pk A) (bp A) pfB (shuffled_by E sub n B A) (bsh B A))"
    unfolding 1 using pfA pfB by (simp add: sync_round_def sync_step_def round_recv_def numeral_2_eq_2)
  show ?thesis unfolding 2 using okA okB by (auto simp: blen A B)
qed

lemma sync_run_stages:
  assumes E: "edwards_ok E sub" and A: "party_ok E sub pp n A" and B: "party_ok E sub pp n B"
    and n: "0 < n" "length pp = n" "n \<le> 2 ^ 32" and same: "p_permut A = p_permut B"
    and rec: "recoverable E sub B (set (items A) \<union> set (items B))"
    and inv: "invertible (ed_curve E) (stage_challenge (ed_curve E) A (fst (sync_run E pp RA RB A B 2)))"
      "invertible (ed_curve E) (stage_challenge (ed_curve E) B (snd (sync_run E pp RA RB A B 2)))"
  shows "sync_run E pp RA RB A B 4 = (Returned (Some (output_of n A B)), Returned (Some (output_of n B A)))"
proof -
  define C where "C = ed_curve E"
  define bp where "bp P = map (pt_compress C) (points_of E sub P)" for P
  define bsh where "bsh P Q = map (pt_compress C) (shuffled_by E sub n P Q)" for P Q
  have recA: "recoverable E sub A (set (items B) \<union> set (items A))"
    using rec same by (simp add: recoverable_def item_point_def Un_commute)
  have step: "sync_run E pp RA RB A B (Suc k) = sync_round E pp RA RB A B (sync_run E pp RA RB A B k)" for k
    by (simp add: sync_run_def)
  obtain pfA pfB where 2: "sync_run E pp RA RB A B 2 = (In3 (points_of E sub A) (bp A) (p_pk B) (bp B) pfA (shuffled_by E sub n A B) (bsh A B),
      In3 (points_of E sub B) (bp B) (p_pk A) (bp A) pfB (shuffled_by E sub n B A) (bsh B A))"
    and accA: "\<And>a1 a2. verify_shuffle_adapted C a1 a2 pp (p_pk A) (points_of E sub B) (shuffled_by E sub n A B) (bp B) (bsh A B) pfA = Inr True"
    and accB: "\<And>a1 a2. verify_shuffle_adapted C a1 a2 pp (p_pk B) (points_of E sub A) (shuffled_by E sub n B A) (bp A) (bsh B A) pfB = Inr True"
    using sync_run_two [OF E A B n(1,2), of RA RB] inv unfolding bp_def bsh_def C_def by blast
  obtain pf2A where pf2A: "after_round3 E RA pp A (points_of E sub A) (bp A) (p_pk B) (bp B) (shuffled_by E sub n A B) (bsh A B) pfB (bsh B A) =
      In4 (p_pk B) (shuffled_by E sub n A B) (bsh A B) pf2A (map (pt_compress C) (unblinded_of E sub n B A)) (kept n B A)"
    and ddhA: "batched_ddh_verify C (p_pk A) (unblinded_of E sub n B A) (map (\<lambda>i. shuffled_by E sub n B A ! i) (kept n B A))
      (map (pt_compress C) (unblinded_of E sub n B A)) (map (\<lambda>i. pt_compress C (shuffled_by E sub n B A ! i)) (kept n B A)) pf2A = Inr True"
    using after_round3_ok [OF E A B n(3) same rec accB [unfolded bp_def bsh_def C_def], of RA] unfolding bp_def bsh_def C_def by blast
  obtain pf2B where pf2B: "after_round3 E RB pp B (points_of E sub B) (bp B) (p_pk A) (bp A) (shuffled_by E sub n B A) (bsh B A) pfA (bsh A B) =
      In4 (p_pk A) (shuffled_by E sub n B A) (bsh B A) pf2B (map (pt_compress C) (unblinded_of E sub n A B)) (kept n A B)"
    and ddhB: "batched_ddh_verify C (p_pk B) (unblinded_of E sub n A B) (map (\<lambda>i. shuffled_by E sub n A B ! i) (kept n A B))
      (map (pt_compress C) (unblinded_of E sub n A B)) (map (\<lambda>i. pt_compress C (shuffled_by E sub n A B ! i)) (kept n A B)) pf2B = Inr True"
    using after_round3_ok [OF E B A n(3) same [symmetric] recA accA [unfolded bp_def bsh_def C_def], of RB] unfolding bp_def bsh_def C_def by blast
  have 3: "sync_run E pp RA RB A B 3 =
     (In4 (p_pk B) (shuffled_by E sub n A B) (bsh A B) pf2A (map (pt_compress C) (unblinded_of E sub n B A)) (kept n B A),
      In4 (p_pk A) (shuffled_by E sub n B A) (bsh B A) pf2B (map (pt_compress C) (unblinded_of E sub n A B)) (kept n A B))"
    using step [of 2] 2 pf2A pf2B by (simp add: sync_round_def sync_step_def round_recv_def numeral_3_eq_3 numeral_2_eq_2)
  have "sync_run E pp RA RB A B 4 = sync_round E pp RA RB A B (sync_run E pp RA RB A B 3)" using step [of 3] by simp
  then show ?thesis
    unfolding 3 sync_round_def sync_step_def round_recv_def bsh_def C_def
    using reveal_ok [OF E A B same rec ddhA [unfolded C_def]] reveal_ok [OF E B A same [symmetric] recA ddhB [unfolded C_def]]
    by (simp add: output_of_def)
qed

section \<open>Items come back from their points\<close>

lemma recover_loop_finds:
  fixes E :: "('s, 'g, 'f::field, 'p) edwards"
  defines "rep \<equiv> \<lambda>g i. edwards_to_field (ed_field E) (ed_to_montgomery E) (ed_add_torsion E g i)"
  assumes "i \<in> set is" and "rep g i = Some (r0, r1)" and "check_item (ed_field E) r0 r1 permut \<noteq> None"
    and "\<And>j s0 s1 found. j \<in> set is \<Longrightarrow> rep g j = Some (s0, s1) \<Longrightarrow> check_item (ed_field E) s0 s1 permut = Some found \<Longrightarrow> found = item"
  shows "recover_loop E permut g is = item"
  using assms(2,5)
proof (induction "is")
  case (Cons j js)
  show ?case
  proof (cases "\<exists>s0 s1 found. rep g j = Some (s0, s1) \<and> check_item (ed_field E) s0 s1 permut = Some found")
    case True
    with Cons.prems(2) [of j] show ?thesis by (auto simp: rep_def split: option.split)
  next
    case False
    then have "recover_loop E permut g (j # js) = recover_loop E permut g js" by (auto simp: rep_def split: option.split)
    moreover have "j \<noteq> i" using False assms(3,4) by auto
    then have "i \<in> set js" using Cons.prems(1) by simp
    moreover have "found = item" if "k \<in> set js" "rep g k = Some (s0, s1)"
      "check_item (ed_field E) s0 s1 permut = Some found" for k s0 s1 found
      using Cons.prems(2) [OF _ that(2,3)] that(1) by simp
    ultimately show ?thesis using Cons.IH by metis
  qed
qed simp

text \<open>
  An item that can be told from its point: its encryption is the canonical encoding of a field element other than zero, no
  other item is encoded in the same class, and no other point of an item differs from its point in the sign and a point of small order only.
\<close>

definition recognisable :: "('s, 'g::ab_group_add, 'f::field, 'p) edwards \<Rightarrow> ('p \<Rightarrow> 'g) \<Rightarrow> feistel \<Rightarrow> bytes \<Rightarrow> bool" where
  "recognisable E sub permut item = (length item = 16 \<and> canonical_item (ed_field E) permut item \<and>
     encode_item (ed_field E) permut item \<noteq> 0 \<and>
     (\<forall>other. length other = 16 \<and> same_class (encode_item (ed_field E) permut item) (encode_item (ed_field E) permut other) \<longrightarrow>
        other = item) \<and>
     (\<forall>other p q. length other = 16 \<and> hash_to_point E permut item = Inr p \<and> hash_to_point E permut other = Inr q \<and>
        sub q \<in> {sub p, - sub p} \<longrightarrow> q = p))"

lemma recover_item:
  fixes E :: "('s::comm_ring_1, 'g::ab_group_add, 'f::field, 'p) edwards"
  assumes E: "edwards_ok E sub" and aes: "aes_ok aes" "length master = 16" "permut = feistel_new aes master"
    and item: "recognisable E sub permut item"
  shows "recover_from_point E permut (sub (hashed_point E permut item)) = item"
proof -
  let ?F = "ed_field E" and ?p = "hashed_point E permut item" and ?r = "encode_item (ed_field E) permut item"
  let ?g = "sub ?p"
  have F: "field_ops_ok ?F" "field_bytes_ok ?F" and on: "\<And>p. on_curve (ed_to_montgomery E p)"
    and torsion_sub: "\<And>g j. j < 8 \<Longrightarrow> sub (ed_add_torsion E g j) = g"
    and sign: "\<And>p q. ed_to_montgomery E p = ed_to_montgomery E q \<Longrightarrow> sub p = sub q \<or> sub p = - sub q"
    using E by (simp_all add: edwards_ok_def)
  obtain i where i: "i < 8" "ed_add_torsion E ?g i = ?p" using E unfolding edwards_ok_def by blast
  have len: "length item = 16" and canon: "canonical_item ?F permut item" and nz: "?r \<noteq> 0"
    and other_class: "\<And>other. length other = 16 \<Longrightarrow> same_class ?r (encode_item ?F permut other) \<Longrightarrow> other = item"
    using item by (simp_all add: recognisable_def)
  have torsion: "\<And>other. length other = 16 \<Longrightarrow> sub (hashed_point E permut other) \<in> {?g, - ?g} \<Longrightarrow> hashed_point E permut other = ?p"
    using item hashed_point(1) [OF E, of item permut] hashed_point(1) [OF E, of _ permut] unfolding recognisable_def by blast
  have only: "other = item" if "length other = 16" "sub (hashed_point E permut other) \<in> {?g, - ?g}" for other
  proof -
    have "field_to_mont ?F ?r = field_to_mont ?F (encode_item ?F permut other)"
      using torsion [OF that] hashed_point(2) [OF E] by metis
    then show ?thesis using field_to_mont_collision [OF F(1)] other_class [OF that(1)] by blast
  qed
  obtain r0 r1 where r: "edwards_to_field ?F (ed_to_montgomery E) (ed_add_torsion E ?g i) = Some (r0, r1)" "?r \<in> {r0, - r0, r1, - r1}"
    using mont_field_round_trip [OF F(1) nz] unfolding i(2) edwards_to_field_def hashed_point(2) [OF E] by blast
  have "check_item ?F r0 r1 permut \<noteq> None"
    using check_bytes_finds [OF aes(1,2) len aes(3) canon] r(2) by (rule check_item_finds)
  moreover have "found = item" if j: "j \<in> set [0..<8]" and s: "edwards_to_field ?F (ed_to_montgomery E) (ed_add_torsion E ?g j) = Some (s0, s1)"
    "check_item ?F s0 s1 permut = Some found" for j s0 s1 found
  proof -
    note found = check_item_sound [OF F(2) aes s(2)]
    have "ed_to_montgomery E (hashed_point E permut found) = ed_to_montgomery E (ed_add_torsion E ?g j)"
      unfolding hashed_point(2) [OF E] by (rule field_to_mont_preimage [OF F(1) on s(1) [unfolded edwards_to_field_def] found(1)])
    from sign [OF this] torsion_sub [of j ?g] j show ?thesis by (intro only [OF found(2)]) auto
  qed
  ultimately show ?thesis
    unfolding recover_from_point_def using i(1) r(1) by (intro recover_loop_finds [where i = i]) auto
qed

lemma recognisable_recoverable:
  assumes "edwards_ok E sub" and "aes_ok aes" and "length master = 16" and "p_permut P = feistel_new aes master"
    and "\<forall>x\<in>X. recognisable E sub (feistel_new aes master) x"
  shows "recoverable E sub P X"
  using assms recover_item [OF assms(1-3)] by (simp add: recoverable_def item_point_def)

section \<open>Every run\<close>

text \<open>The number of messages that a party still reads.\<close>

fun stage_rank :: "('s, 'g) stage \<Rightarrow> nat" where
  "stage_rank (In1 points bpoints sigma) = 4"
| "stage_rank (In2 points bpoints right_sigma) = 3"
| "stage_rank (In3 points bpoints right_pk bright_points proof1 right_shuffled bright_shuffled) = 2"
| "stage_rank (In4 right_pk right_shuffled bright_shuffled proof2 bunblinded ind) = 1"
| "stage_rank (Returned out) = 0"
| "stage_rank (Stopped f) = 0"

lemma stop_on_rank: "(\<And>x. stage_rank (f x) \<le> k) \<Longrightarrow> stage_rank (stop_on r f) \<le> k"
  by (cases r) (simp_all add: stop_on_def)

lemma after_rank:
  "stage_rank (after_round2 E pp P points bpoints right_sigma right_pk bright_points) \<le> 2"
  "stage_rank (after_round3 E R pp P points bpoints right_pk bright_points right_shuffled bright_shuffled pf bshuffled) \<le> 1"
  "stage_rank (after_round4 E P right_pk right_shuffled bright_shuffled pf2 bunblinded ind) \<le> 0"
  unfolding after_round2_def after_round3_def after_round4_def
  by (intro stop_on_rank; auto intro!: stop_on_rank split: option.split prod.split)+

lemma stage_in_rank: "stage_out P st \<noteq> None \<Longrightarrow> stage_rank (stage_in E R pp P st msg) < stage_rank st"
  using after_rank by (cases st; cases msg) (auto simp: less_Suc_eq_le numeral_eq_Suc split: prod.splits)

interpretation psu: rounds "stage_out A" "stage_in E RA pp A" "Stopped Panic" stage_rank
    "stage_out B" "stage_in E RB pp B" "Stopped Panic" stage_rank
  for E pp RA RB A B
  by unfold_locales (simp_all add: stage_in_rank)

lemma psu_start_round:
  "p_server A \<Longrightarrow> \<not> p_server B \<Longrightarrow>
   in_round (stage_out A) (stage_out B) (stage_in E RB pp B) (stage_start E A, stage_start E B) (psu_start E A B)"
  by (simp add: in_round_def psu_start_def endpoint_start_def)

lemma stage_start_rank: "stage_rank (stage_start E P) \<le> 4"
  by (rule stage_start_cases [of E P]) simp_all

lemma psu_start_weight: "weight stage_rank stage_rank (psu_start E A B) \<le> 18"
  using stage_start_rank [of E A] stage_start_rank [of E B]
  by (simp add: weight_def io_weight_def psu_start_def endpoint_start_def)

lemma sync_rank:
  "stage_rank (fst (sync_run E pp RA RB A B k)) \<le> 4 - k \<and> stage_rank (snd (sync_run E pp RA RB A B k)) \<le> 4 - k"
proof (induction k)
  case 0
  show ?case by (simp add: sync_run_def stage_start_rank)
next
  case (Suc k)
  have "stage_rank (round_recv (stage_out P) (stage_in E R pp P) (Stopped Panic) st msg) \<le> 4 - Suc k"
    if "stage_rank st \<le> 4 - k" for P R st msg
  proof (cases "stage_out P st = None")
    case True
    then show ?thesis by (cases st) (simp_all add: round_recv_def)
  next
    case False
    have "stage_rank (round_recv (stage_out P) (stage_in E R pp P) (Stopped Panic) st msg) < stage_rank st"
    proof (cases msg)
      case None
      with False show ?thesis by (cases st) (simp_all add: round_recv_def)
    qed (use False stage_in_rank [OF False] in \<open>simp add: round_recv_def\<close>)
    with that show ?thesis by simp
  qed
  moreover obtain a b where ab: "sync_run E pp RA RB A B k = (a, b)" by (cases "sync_run E pp RA RB A B k")
  moreover have "sync_run E pp RA RB A B (Suc k) = sync_round E pp RA RB A B (sync_run E pp RA RB A B k)"
    by (simp add: sync_run_def)
  ultimately show ?case using Suc by (simp add: sync_round_def sync_step_def)
qed

lemma rank_ended: "stage_rank st = 0 \<Longrightarrow> stage_out P st = None"
  by (cases st) simp_all

lemma sync_run_ended:
  "stage_out A (fst (sync_run E pp RA RB A B 4)) = None" "stage_out B (snd (sync_run E pp RA RB A B 4)) = None"
  using sync_rank [of E pp RA RB A B 4] by (simp_all add: rank_ended)

lemma psu_run_result:
  assumes "p_server A" and "\<not> p_server B" and "(psu_step E pp RA RB A B)\<^sup>*\<^sup>* (psu_start E A B) w" and "psu_ended A B w"
  shows "(e_st (fst w), e_st (snd w)) = sync_run E pp RA RB A B 4"
proof -
  let ?r = "sync_run E pp RA RB A B 4"
  have "(sync_round E pp RA RB A B ^^ 4) (stage_start E A, stage_start E B) = (fst ?r, snd ?r)" by (simp add: sync_run_def)
  from psu.reachable_ended [OF assms(3) [unfolded psu_step_def] psu_start_round [OF assms(1,2)] assms(4) [unfolded psu_ended_def]
      this [unfolded sync_round_def] sync_run_ended]
  show ?thesis by simp
qed

lemma psu_run_ends:
  assumes "p_server A" and "\<not> p_server B" and "(psu_step E pp RA RB A B)\<^sup>*\<^sup>* (psu_start E A B) w"
  shows "\<exists>w'. (psu_step E pp RA RB A B)\<^sup>*\<^sup>* w w' \<and> psu_ended A B w'"
proof -
  obtain k where "in_round (stage_out A) (stage_out B) (stage_in E RB pp B)
      ((sync_round E pp RA RB A B ^^ k) (stage_start E A, stage_start E B)) w"
    using psu.reachable_in_round [OF assms(3) [unfolded psu_step_def] psu_start_round [OF assms(1,2)]]
    unfolding sync_round_def by blast
  from psu.ends_reached [OF this] show ?thesis unfolding psu_step_def psu_ended_def .
qed

text \<open>Every run of honest parties ends, and with these outputs.\<close>

lemma psu2_results:
  assumes "edwards_ok E sub" and "1 < n" and "n \<le> 2 ^ 32" and "length pp = n"
    and "length (sc_raw NA) = 32" and "\<forall>i<n. sc_pick NA i \<le> i" and "length (sc_raw NB) = 32" and "\<forall>i<n. sc_pick NB i \<le> i"
    and "invertible (ed_curve E) (sc_from_bytes (ed_curve E) (clamp_integer (sc_raw NA)) * sc_invert (ed_curve E) 8)"
    and "invertible (ed_curve E) (sc_from_bytes (ed_curve E) (clamp_integer (sc_raw NB)) * sc_invert (ed_curve E) 8)"
    and "length (chunks_exact 16 input_v) = n" and "length (chunks_exact 16 input_w) = n"
    and "party_new E aes NA True input_v aes_key pp n n = Inr A" and "party_new E aes NB False input_w aes_key pp n n = Inr B"
    and "aes_ok aes" and "length aes_key = 16"
    and "\<forall>x\<in>set (chunks_exact 16 input_v) \<union> set (chunks_exact 16 input_w). recognisable E sub (feistel_new aes aes_key) x"
    and "invertible (ed_curve E) (stage_challenge (ed_curve E) A (fst (sync_run E pp RA RB A B 2)))"
    and "invertible (ed_curve E) (stage_challenge (ed_curve E) B (snd (sync_run E pp RA RB A B 2)))"
  defines "outA \<equiv> output_of n A B" and "outB \<equiv> output_of n B A"
  shows "\<exists>w. (psu_step E pp RA RB A B)\<^sup>*\<^sup>* (psu_start E A B) w \<and> psu_ended A B w"
    and "(psu_step E pp RA RB A B)\<^sup>*\<^sup>* (psu_start E A B) w \<Longrightarrow> psu_ended A B w \<Longrightarrow>
      e_st (fst w) = Returned (Some outA) \<and> e_st (snd w) = Returned (Some outB) \<and>
      malicious_psu2_out (e_st (fst w)) (e_st (snd w)) = Inr outA \<and> malicious_psu2_out (e_st (snd w)) (e_st (fst w)) = Inr outB"
    and "set (chunks_exact 16 outA) = set (chunks_exact 16 input_w) - set (chunks_exact 16 input_v)"
    and "set (chunks_exact 16 outB) = set (chunks_exact 16 input_v) - set (chunks_exact 16 input_w)"
    and "length outA mod 16 = 0" and "length outB mod 16 = 0"
proof -
  have A: "party_ok E sub pp n A" "p_input A = input_v" "p_permut A = feistel_new aes aes_key" "p_server A"
    using party_new_ok [OF assms(1,2,4,5,6,9,11), of aes True aes_key] assms(13) by simp_all
  have B: "party_ok E sub pp n B" "p_input B = input_w" "p_permut B = feistel_new aes aes_key" "\<not> p_server B"
    using party_new_ok [OF assms(1,2,4,7,8,10,12), of aes False aes_key] assms(14) by simp_all
  have items: "items A = chunks_exact 16 input_v" "items B = chunks_exact 16 input_w" using A(2) B(2) by (simp_all add: items_def)
  note srv = A(4) B(4)
  have n: "0 < n" using assms(2) by simp
  have run: "sync_run E pp RA RB A B 4 = (Returned (Some (output_of n A B)), Returned (Some (output_of n B A)))"
    using sync_run_stages [OF assms(1) A(1) B(1) n assms(4,3) _ _ assms(18,19)] A(3) B(3) items
      recognisable_recoverable [OF assms(1,15,16) B(3) assms(17)] by simp
  have "(psu_step E pp RA RB A B)\<^sup>*\<^sup>* (psu_start E A B) (psu_start E A B)" by simp
  from psu_run_ends [OF srv this]
  show "\<exists>w. (psu_step E pp RA RB A B)\<^sup>*\<^sup>* (psu_start E A B) w \<and> psu_ended A B w" .
  show "e_st (fst w) = Returned (Some outA) \<and> e_st (snd w) = Returned (Some outB) \<and>
      malicious_psu2_out (e_st (fst w)) (e_st (snd w)) = Inr outA \<and> malicious_psu2_out (e_st (snd w)) (e_st (fst w)) = Inr outB"
    if "(psu_step E pp RA RB A B)\<^sup>*\<^sup>* (psu_start E A B) w" "psu_ended A B w"
    using psu_run_result [OF srv that] run by (simp add: malicious_psu2_out_def outA_def outB_def)
  show "set (chunks_exact 16 outA) = set (chunks_exact 16 input_w) - set (chunks_exact 16 input_v)"
    "set (chunks_exact 16 outB) = set (chunks_exact 16 input_v) - set (chunks_exact 16 input_w)"
    using output_items [OF B(1) A(1)] output_items [OF A(1) B(1)] by (simp_all add: items outA_def outB_def)
  show "length outA mod 16 = 0" "length outB mod 16 = 0"
    unfolding outA_def outB_def by (rule output_chunks(2) [OF B(1) A(1)], rule output_chunks(2) [OF A(1) B(1)])
qed

section \<open>Properties\<close>

text \<open>
  C30.  The two-sided protocol computes the union.  A server and a client that run it honestly on two or more items each, of
  the same number, both end, whatever the order of their reads and writes, and every ended run has the same result: each
  party has returned exactly the items of the other that it does not have, so that with its own items it has the union, and
  \<open>malicious_psu2\<close> returns this output of its left party.
  The keys, and the challenges that the verifiers divide by, are invertible modulo the group order, and the items are recognisable: their encryptions
  are canonical encodings of field elements other than zero, in whose class no other item is encoded, and no other point of an item differs from theirs
  in the sign and a point of small order only.
\<close>

theorem psu2_union:
  assumes "edwards_ok E sub" and "1 < n" and "n \<le> 2 ^ 32" and "length pp = n"
    and "length (sc_raw NA) = 32" and "\<forall>i<n. sc_pick NA i \<le> i" and "length (sc_raw NB) = 32" and "\<forall>i<n. sc_pick NB i \<le> i"
    and "invertible (ed_curve E) (sc_from_bytes (ed_curve E) (clamp_integer (sc_raw NA)) * sc_invert (ed_curve E) 8)"
    and "invertible (ed_curve E) (sc_from_bytes (ed_curve E) (clamp_integer (sc_raw NB)) * sc_invert (ed_curve E) 8)"
    and "length (chunks_exact 16 input_v) = n" and "length (chunks_exact 16 input_w) = n"
    and "party_new E aes NA True input_v aes_key pp n n = Inr A" and "party_new E aes NB False input_w aes_key pp n n = Inr B"
    and "aes_ok aes" and "length aes_key = 16"
    and "\<forall>x\<in>set (chunks_exact 16 input_v) \<union> set (chunks_exact 16 input_w). recognisable E sub (feistel_new aes aes_key) x"
    and "invertible (ed_curve E) (stage_challenge (ed_curve E) A (fst (sync_run E pp RA RB A B 2)))"
    and "invertible (ed_curve E) (stage_challenge (ed_curve E) B (snd (sync_run E pp RA RB A B 2)))"
  shows "\<exists>outA outB. (\<exists>w. (psu_step E pp RA RB A B)\<^sup>*\<^sup>* (psu_start E A B) w \<and> psu_ended A B w) \<and>
    (\<forall>w. (psu_step E pp RA RB A B)\<^sup>*\<^sup>* (psu_start E A B) w \<and> psu_ended A B w \<longrightarrow>
      e_st (fst w) = Returned (Some outA) \<and> e_st (snd w) = Returned (Some outB) \<and>
      malicious_psu2_out (e_st (fst w)) (e_st (snd w)) = Inr outA \<and> malicious_psu2_out (e_st (snd w)) (e_st (fst w)) = Inr outB) \<and>
    set (chunks_exact 16 outA) = set (chunks_exact 16 input_w) - set (chunks_exact 16 input_v) \<and>
    set (chunks_exact 16 outB) = set (chunks_exact 16 input_v) - set (chunks_exact 16 input_w)"
proof -
  note r = psu2_results [OF assms]
  show ?thesis
    by (rule exI [of _ "output_of n A B"], rule exI [of _ "output_of n B A"], rule conjI [OF r(1) conjI [OF _ conjI [OF r(3,4)]]])
      (use r(2) in blast)
qed

text \<open>
  C31.  Whatever the parties compute and send, honest or not, a server and a client never deadlock: from every state that a run
  reaches, either both have ended or one can move, and no run has more than 18 steps.
\<close>

theorem psu2_no_deadlock:
  assumes "p_server A" and "\<not> p_server B" and "(psu_step E pp RA RB A B ^^ k) (psu_start E A B) w"
  shows "k \<le> 18 \<and> (psu_ended A B w \<or> (\<exists>w'. psu_step E pp RA RB A B w w'))"
proof -
  have run: "(psu_step E pp RA RB A B)\<^sup>*\<^sup>* (psu_start E A B) w" using assms(3) by (rule relpowp_imp_rtranclp)
  have "k \<le> 18"
    using psu.run_bounded [OF assms(3) [unfolded psu_step_def]] psu_start_weight [of E A B] by simp
  moreover obtain w' where "(psu_step E pp RA RB A B)\<^sup>*\<^sup>* w w'" "psu_ended A B w'"
    using psu_run_ends [OF assms(1,2) run] by blast
  then have "psu_ended A B w \<or> (\<exists>w'. psu_step E pp RA RB A B w w')" by (metis converse_rtranclpE)
  ultimately show ?thesis by blast
qed

text \<open>
  C32.  The runs refine the synchronous reading of the protocol: whatever the order of the reads and writes of a server and a
  client, the states in which both have ended are those after four rounds in which both read what the other wrote.
\<close>

theorem psu2_refines_rounds:
  assumes "p_server A" and "\<not> p_server B" and "(psu_step E pp RA RB A B)\<^sup>*\<^sup>* (psu_start E A B) w" and "psu_ended A B w"
  shows "(e_st (fst w), e_st (snd w)) = sync_run E pp RA RB A B 4"
  using assms by (rule psu_run_result)

text \<open>
  Two parties that are both created as clients wait for each other for ever: no step is possible from the start,
  and neither has ended.
\<close>

theorem psu2_two_clients_stuck:
  assumes "\<not> p_server A" and "\<not> p_server B" and "edwards_ok E sub"
  shows "\<not> psu_ended A B (psu_start E A B) \<and> \<not> psu_step E pp RA RB A B (psu_start E A B) w"
proof -
  have live: "stage_out P (stage_start E P) \<noteq> None" for P :: "('a, 'b) party"
    using stage_start_live [OF assms(3)] by blast
  with two_clients_stuck [of "stage_out A" "stage_start E A" "stage_out B" "stage_start E B"] assms show ?thesis
    by (simp add: psu_start_def psu_ended_def both_ended_def psu_step_def endpoint_start_def)
qed


section \<open>The rounds of the messages\<close>

fun message_round :: "('s, 'g) message \<Rightarrow> nat" where
  "message_round (Round1 sigma) = 1"
| "message_round (Round2 m) = 2"
| "message_round (Round3 m) = 3"
| "message_round (Round4 m) = 4"
| "message_round (HashDH m) = 0"
| "message_round (HashDH2 m) = 0"

fun stage_round :: "('s, 'g) stage \<Rightarrow> nat" where
  "stage_round (In1 points bpoints sigma) = 1"
| "stage_round (In2 points bpoints right_sigma) = 2"
| "stage_round (In3 points bpoints right_pk bright_points proof1 right_shuffled bright_shuffled) = 3"
| "stage_round (In4 right_pk right_shuffled bright_shuffled proof2 bunblinded ind) = 4"
| "stage_round (Returned out) = 0"
| "stage_round (Stopped f) = 0"

lemma stage_out_round: "stage_out P st = Some m \<Longrightarrow> message_round m = stage_round st"
  by (cases st) auto

definition in_or_ended :: "nat \<Rightarrow> ('s, 'g) party \<Rightarrow> ('s, 'g) stage \<Rightarrow> bool" where
  "in_or_ended k P st = (stage_out P st \<noteq> None \<longrightarrow> stage_round st = k)"

lemma in_or_ended_cases:
  "in_or_ended k P (Returned out)" "in_or_ended k P (Stopped f)"
  "in_or_ended k P (In2 points bpoints right_sigma) \<longleftrightarrow> k = 2"
  "in_or_ended k P (In3 points bpoints right_pk bright_points proof1 right_shuffled bright_shuffled) \<longleftrightarrow> k = 3"
  "in_or_ended k P (In4 right_pk right_shuffled bright_shuffled proof2 bunblinded ind) \<longleftrightarrow> k = 4"
  by (auto simp: in_or_ended_def)

lemma stop_on_in: "(\<And>x. in_or_ended k P (f x)) \<Longrightarrow> in_or_ended k P (stop_on r f)"
  by (cases r) (simp_all add: stop_on_def in_or_ended_def)

lemma after_in:
  "in_or_ended 3 P (after_round2 E pp P points bpoints right_sigma right_pk bright_points)"
  "in_or_ended 4 P (after_round3 E R pp P points bpoints right_pk bright_points right_shuffled bright_shuffled pf bshuffled)"
  "in_or_ended k P (after_round4 E P right_pk right_shuffled bright_shuffled pf2 bunblinded ind)"
  unfolding after_round2_def after_round3_def after_round4_def
  by (auto intro!: stop_on_in simp: in_or_ended_cases split: option.split prod.split)

lemma stage_in_next:
  assumes "stage_out P st \<noteq> None" and "message_round m = stage_round st"
  shows "in_or_ended (Suc (stage_round st)) P (stage_in E R pp P st m)"
  using assms after_in [where P = P]
  by (cases st; cases m) (auto simp: in_or_ended_cases split: prod.splits)

lemma sync_run_rounds:
  "in_or_ended (Suc k) A (fst (sync_run E pp RA RB A B k)) \<and> in_or_ended (Suc k) B (snd (sync_run E pp RA RB A B k))"
proof (induction k)
  case 0
  have "in_or_ended (Suc 0) P (stage_start E P)" for P
    by (rule stage_start_cases [of E P]) (simp_all add: in_or_ended_def)
  then show ?case by (simp add: sync_run_def)
next
  case (Suc k)
  have recv: "in_or_ended (Suc (Suc k)) P (round_recv (stage_out P) (stage_in E R pp P) (Stopped Panic) st (stage_out Q st'))"
    if "in_or_ended (Suc k) P st" "in_or_ended (Suc k) Q st'" for P R st Q st'
  proof (cases "stage_out P st")
    case (Some m)
    with that(1) have live: "stage_round st = Suc k" by (simp add: in_or_ended_def)
    show ?thesis
    proof (cases "stage_out Q st'")
      case None
      then show ?thesis by (simp add: round_recv_def in_or_ended_def)
    next
      case (Some m')
      then have "message_round m' = stage_round st" using that(2) stage_out_round [OF Some] live by (simp add: in_or_ended_def)
      from stage_in_next [OF _ this, of P E R pp] show ?thesis using Some \<open>stage_out P st = Some m\<close> live by (simp add: round_recv_def)
    qed
  qed (simp add: round_recv_def in_or_ended_def)
  moreover obtain a b where "sync_run E pp RA RB A B k = (a, b)" by (cases "sync_run E pp RA RB A B k")
  moreover have "sync_run E pp RA RB A B (Suc k) = sync_round E pp RA RB A B (sync_run E pp RA RB A B k)"
    by (simp add: sync_run_def)
  ultimately show ?case using Suc by (simp add: sync_round_def sync_step_def)
qed

lemma reachable_rounds:
  assumes "p_server A" and "\<not> p_server B" and "(psu_step E pp RA RB A B)\<^sup>*\<^sup>* (psu_start E A B) w"
  shows "\<exists>k. in_round (stage_out A) (stage_out B) (stage_in E RB pp B) (sync_run E pp RA RB A B k) w"
  using psu.reachable_in_round [OF assms(3) [unfolded psu_step_def] psu_start_round [OF assms(1,2)]]
  by (simp add: sync_run_def sync_round_def)

text \<open>
  C34.  A message is always read in its own round: in every state that a server and a client reach, whatever they compute, the
  messages that wait for a party that has not ended, and the one that the client has read and not yet answered, are those of
  the round in which the party is.  So no run takes the branches of \<open>protocol\<close> that return \<open>None\<close> on a message of another kind.
\<close>

theorem psu2_messages_in_round:
  assumes "p_server A" and "\<not> p_server B" and "(psu_step E pp RA RB A B)\<^sup>*\<^sup>* (psu_start E A B) w"
  shows "(stage_out A (e_st (fst w)) \<noteq> None \<longrightarrow> (\<forall>m\<in>set (e_in (fst w)). message_round m = stage_round (e_st (fst w)))) \<and>
    (stage_out B (e_st (snd w)) \<noteq> None \<longrightarrow>
      (\<forall>m. m \<in> set (e_in (snd w)) \<or> e_io (snd w) = Got m \<longrightarrow> message_round m = stage_round (e_st (snd w))))"
proof -
  obtain k where k: "in_round (stage_out A) (stage_out B) (stage_in E RB pp B) (sync_run E pp RA RB A B k) w"
    using reachable_rounds [OF assms] by blast
  obtain a b where ab: "sync_run E pp RA RB A B k = (a, b)" by (cases "sync_run E pp RA RB A B k")
  have "in_or_ended (Suc k) A a" "in_or_ended (Suc k) B b" using sync_run_rounds [of k A E pp RA RB B] ab by simp_all
  with k show ?thesis
    by (cases w) (auto simp: ab in_round_def in_or_ended_def dest: stage_out_round)
qed

section \<open>The check of the result\<close>

lemma check_loop_iff: "check_loop V W xs \<longleftrightarrow> set xs \<subseteq> W - V"
  by (induction xs) auto

text \<open>
  C35.  What \<open>correctness_check\<close> checks: it panics if a length is not a multiple of 16, and otherwise accepts exactly the outputs
  all of whose items are in the second input and not in the first.
\<close>

theorem correctness_check_difference:
  "correctness_check input_v input_w out =
    (if length input_v mod 16 = 0 \<and> length input_w mod 16 = 0 \<and> length out mod 16 = 0
     then Inr (set (chunks_exact 16 out) \<subseteq> set (chunks_exact 16 input_w) - set (chunks_exact 16 input_v))
     else Inl AssertFailed)"
  by (simp add: correctness_check_def check_loop_iff)

section \<open>Hashing and recovering\<close>

text \<open>
  C37.  The point of an item of sixteen bytes leads back to the item, also from its part in the subgroup of prime order, through the two Elligator maps, the
  enumeration of the torsion points and the test of the four field elements with their two encodings each: \<open>hash_to_point\<close> does not panic, and if the item is recognisable
  (its encryption is the canonical encoding of a field element other than zero, in whose class no other item is encoded, and no other point of an item
  differs from its point in the sign and a point of small order only),
  \<open>recover_from_point\<close> finds it.
\<close>

theorem recover_hash_to_point:
  assumes "edwards_ok E sub" and "aes_ok aes" and "length master = 16" and "permut = feistel_new aes master"
    and "length item = 16"
  shows "\<exists>p. hash_to_point E permut item = Inr p \<and> (recognisable E sub permut item \<longrightarrow> recover_from_point E permut (sub p) = item)"
  using hashed_point(1) [OF assms(1,5)] recover_item [OF assms(1-4)] by blast

section \<open>A small instance\<close>

text \<open>
  The properties are applied over the integers modulo 7 as scalars and points, and the field of \<open>Psu_Instance\<close>: the items of sixteen bytes 1, 2
  and 4 are encoded as these numbers, and their points are 1, 2 and 3; there is no torsion.
\<close>

definition seven_byte :: "7 \<Rightarrow> u8" where
  "seven_byte p = (if p = 1 then 1 else if p = 2 then 2 else if p = 3 then 3 else if p = 4 then 4 else if p = 5 then 5
     else if p = 6 then 6 else 0)"

definition seven_curve :: "(7, 7) curve" where
  "seven_curve = \<lparr>pt_mul = (*), pt_base = 1, pt_compress = (\<lambda>p. [seven_byte p]),
     pt_decompress = (\<lambda>b. case b of [x] \<Rightarrow> Some (of_nat (unat x)) | _ \<Rightarrow> None), sc_bytes = (\<lambda>s. [seven_byte s]),
     sc_from_bytes = (\<lambda>b. 3), sc_invert = (\<lambda>s. s ^ 5), blake2s = id, chacha_scalars = (\<lambda>seed n. replicate n 2)\<rparr>"

definition seven_point :: "gf13 \<Rightarrow> 7" where
  "seven_point u = (if u = gf13_of 2 then 1 else if u = gf13_of 1 then 2 else if u = gf13_of 7 then 3 else 0)"

definition seven_u :: "7 \<Rightarrow> gf13" where
  "seven_u p = gf13_of (if p = 1 \<or> p = 6 then 2 else if p = 2 \<or> p = 5 then 1 else if p = 3 \<or> p = 4 then 7 else 0)"

definition small_edwards :: "(7, 7, gf13, 7) edwards" where
  "small_edwards = \<lparr>ed_curve = seven_curve, ed_field = gf13_ops, ed_to_edwards = (\<lambda>u. Some (seven_point u)), ed_to_montgomery = seven_u,
     ed_mul_clamped = (\<lambda>p k. 3 * p), ed_add_torsion = (\<lambda>g i. g)\<rparr>"

lemma seven_cases: "p = 0 \<or> p = 1 \<or> p = 2 \<or> p = 3 \<or> p = 4 \<or> p = 5 \<or> p = (6 :: 7)"
proof -
  have "card {0 :: 7, 1, 2, 3, 4, 5, 6} = CARD(7)" by simp
  then have "{0 :: 7, 1, 2, 3, 4, 5, 6} = UNIV" by (intro card_subset_eq) simp_all
  then show ?thesis by auto
qed

lemma seven_byte_back: "of_nat (unat (seven_byte p)) = p"
  using seven_cases [of p] by (auto simp: seven_byte_def)

lemma small_edwards_ok: "edwards_ok small_edwards id"
proof -
  have "module ((*) :: 7 \<Rightarrow> 7 \<Rightarrow> 7)" by unfold_locales (simp_all add: algebra_simps)
  then have curve: "curve_ok seven_curve \<and> invertible seven_curve 8"
    by (simp add: curve_ok_def invertible_def seven_curve_def seven_byte_back [simplified])
  have point: "\<exists>p. Some (seven_point u) = Some p \<and> seven_u p = u" if "on_curve u" for u
    using gf13_on_curve [THEN iffD1, OF that] by (auto simp: seven_point_def seven_u_def gf13_of_eq_iff)
  have on: "on_curve (seven_u p)" for p unfolding gf13_on_curve by (simp add: seven_u_def)
  have sign: "p = q \<or> p = - q" if "seven_u p = seven_u q" for p q
    using that seven_cases [of p] seven_cases [of q] by (auto simp: seven_u_def gf13_of_eq_iff)
  show ?thesis
    unfolding edwards_ok_def using curve point on sign gf13_ops_ok gf13_bytes_ok
    by (auto simp: small_edwards_def seven_curve_def intro: exI [of _ 0])
qed

lemma small_hash:
  "length item = 16 \<Longrightarrow> hash_to_point small_edwards (feistel_new toy_aes (replicate 16 0)) item = Inr (seven_point (field_to_mont gf13_ops (encode_item gf13_ops (feistel_new toy_aes (replicate 16 0)) item)))"
  by (simp add: hash_to_point_def field_to_edwards_def small_edwards_def)

lemma seven_points:
  "seven_point (field_to_mont gf13_ops (gf13_of 1)) = 1" "seven_point (field_to_mont gf13_ops (gf13_of 2)) = 2"
  "seven_point (field_to_mont gf13_ops (gf13_of 4)) = 3" "seven_point (field_to_mont gf13_ops (gf13_of 0)) = 0"
  unfolding gf13_points seven_point_def gf13_of_eq_iff by simp_all

lemma small_encodings:
  assumes "length item = 16"
  shows "\<exists>n\<in>{0, 1, 2, 4}. encode_item gf13_ops (feistel_new toy_aes (replicate 16 0)) item = gf13_of n \<and>
    (n = 0 \<or> item = replicate 16 (of_nat n))"
  using toy_encode_other [OF assms] toy_encode(2) [of 1] toy_encode(2) [of 2] toy_encode(2) [of 4] by (auto simp: toy_items_def)

lemma small_recognisable:
  assumes "b \<in> {1, 2, 4}"
  shows "recognisable small_edwards id (feistel_new toy_aes (replicate 16 0)) (replicate 16 b)"
proof -
  let ?P = "feistel_new toy_aes (replicate 16 0)" and ?x = "replicate 16 b"
  have F: "ed_field small_edwards = gf13_ops" by (simp add: small_edwards_def)
  have b: "unat b \<in> {1, 2, 4}" "of_nat (unat b) = b" using assms by auto
  note code = toy_encode(2) [OF assms]
  have "other = ?x" if "length other = 16" "same_class (encode_item gf13_ops ?P ?x) (encode_item gf13_ops ?P other)" for other
  proof -
    note enc = small_encodings [OF that(1)]
    note same = that(2)
    obtain n where n: "n \<in> {0, 1, 2, 4}" "encode_item gf13_ops ?P other = gf13_of n" "n = 0 \<or> other = replicate 16 (of_nat n)"
      using enc by blast
    then have "unat b = n" using same gf13_classes [OF b(1) n(1)] by (simp add: code)
    with n(3) b show ?thesis by auto
  qed
  moreover have "q = p" if "length other = 16" "hash_to_point small_edwards ?P ?x = Inr p" "hash_to_point small_edwards ?P other = Inr q"
    "id q \<in> {id p, - id p}" for other p q
  proof -
    have "p \<in> {1, 2, 3}" using that(2) b(1) by (auto simp: small_hash code seven_points seven_points(1) [unfolded One_nat_def])
    moreover have "q \<in> {0, 1, 2, 3}" using that(1,3) small_encodings [OF that(1)] by (auto simp: small_hash seven_points seven_points(1) [unfolded One_nat_def])
    ultimately show ?thesis using that(4) by auto
  qed
  moreover have "gf13_of (unat b) \<noteq> 0" using b(1) by (auto simp: gf13_arith(4) gf13_of_eq_iff)
  ultimately show ?thesis unfolding recognisable_def F code using toy_encode(3) [OF assms] by auto
qed

text \<open>The parties: the items are the numbers 1 and 2 for the server and 1 and 4 for the client.\<close>

definition small_coins :: "7 setup_coins" where
  "small_coins = \<lparr>sc_raw = replicate 32 0, sc_pick = (\<lambda>i. 0), sc_d = (\<lambda>i. 4), sc_scalars = (1, 2, 3, 4, 5), sc_d2 = (\<lambda>i. 6),
     sc_delta = (\<lambda>i. 2), sc_scalars2 = (1, 2, 3)\<rparr>"

definition small_input :: "u8 \<Rightarrow> bytes" where
  "small_input b = replicate 16 1 @ replicate 16 b"

lemma small_items: "chunks_exact 16 (small_input b) = [replicate 16 1, replicate 16 b]"
  by (simp add: small_input_def chunks_exact.simps)

lemma small_items_recognisable:
  "\<forall>x\<in>set (chunks_exact 16 (small_input 2)) \<union> set (chunks_exact 16 (small_input 4)).
     recognisable small_edwards id (feistel_new toy_aes (replicate 16 0)) x"
  using small_recognisable [of 1] small_recognisable [of 2] small_recognisable [of 4] by (simp add: small_items)

lemma small_invertible: "invertible seven_curve (sc_from_bytes seven_curve b)" "invertible seven_curve (3 * sc_invert seven_curve 8)"
  by (simp_all add: invertible_def seven_curve_def)

definition small_new :: "bool \<Rightarrow> u8 \<Rightarrow> (7, 7) party run" where
  "small_new server b = party_new small_edwards toy_aes small_coins server (small_input b) (replicate 16 0) [1, 1] 2 2"

definition small_run :: "7 run_coins" where
  "small_run = \<lparr>rc_alpha1 = 2, rc_alpha2 = 3, rc_r = 4\<rparr>"

lemma small_key_invertible:
  "invertible (ed_curve small_edwards) (sc_from_bytes (ed_curve small_edwards) (clamp_integer (sc_raw small_coins)) *
    sc_invert (ed_curve small_edwards) 8)"
  using small_invertible(2) by (simp add: small_edwards_def) (simp add: seven_curve_def)

lemma small_party:
  "\<exists>P. small_new server b = Inr P \<and>
    party_ok small_edwards id [1, 1] 2 P \<and> p_permut P = feistel_new toy_aes (replicate 16 0) \<and> p_server P = server"
proof -
  have coins: "length (sc_raw small_coins) = 32" "\<forall>i<2. sc_pick small_coins i \<le> i" by (simp_all add: small_coins_def)
  have two: "1 < (2 :: nat)" "length [1 :: 7, 1] = 2" by simp_all
  have "length (chunks_exact 16 (small_input b)) = 2" by (simp add: small_items)
  from party_new_ok [OF small_edwards_ok two coins small_key_invertible this, of toy_aes server "replicate 16 0"] show ?thesis unfolding small_new_def by blast
qed

lemma small_challenge:
  assumes A: "party_ok small_edwards sub [1, 1] 2 A" and B: "party_ok small_edwards sub [1, 1] 2 B"
    and E: "edwards_ok small_edwards sub"
  shows "invertible seven_curve (stage_challenge seven_curve A (fst (sync_run small_edwards [1, 1] RA RB A B 2)))"
    and "invertible seven_curve (stage_challenge seven_curve B (snd (sync_run small_edwards [1, 1] RA RB A B 2)))"
proof -
  have ch: "invertible seven_curve (psi_challenge seven_curve pk bg bh n pf)" for pk bg bh n pf
    by (simp add: psi_challenge_def Let_def known_challenge_def known_e_def small_invertible)
  have "\<exists>a b c d e f g h i j k l m n'. sync_run small_edwards [1, 1] RA RB A B 2 = (In3 a b c d e f g, In3 h i j k l m n')"
    using sync_run_two [OF E A B, of RA RB] by auto
  then show "invertible seven_curve (stage_challenge seven_curve A (fst (sync_run small_edwards [1, 1] RA RB A B 2)))"
    "invertible seven_curve (stage_challenge seven_curve B (snd (sync_run small_edwards [1, 1] RA RB A B 2)))"
    using ch by auto
qed

lemma small_start_live: "\<not> psu_ended A B (psu_start small_edwards A B)"
  using stage_start_live [OF small_edwards_ok, of A] by (auto simp: psu_ended_def both_ended_def psu_start_def endpoint_start_def)

lemma psu_first_write:
  assumes "edwards_ok E sub" and "p_server A"
  shows "\<exists>w. psu_step E pp RA RB A B (psu_start E A B) w \<and> e_in (snd w) \<noteq> [] \<and> stage_out B (e_st (snd w)) \<noteq> None"
proof -
  let ?x = "endpoint_start (p_server A) (stage_start E A)" and ?y = "endpoint_start (p_server B) (stage_start E B)"
  obtain m where m: "stage_out A (stage_start E A) = Some m" using stage_start_live [OF assms(1)] by blast
  have "psu_step E pp RA RB A B (?x, ?y) (?x\<lparr>e_io := Wrote\<rparr>, ?y\<lparr>e_in := e_in ?y @ [m]\<rparr>)"
    unfolding psu_step_def using assms(2) m by (intro wire_step.left end_step.server_write) (simp_all add: endpoint_start_def)
  then show ?thesis using stage_start_live [OF assms(1), of B] unfolding psu_start_def by (intro exI conjI) (auto simp: endpoint_start_def)
qed

section \<open>The properties on the small instance\<close>

theorem psu2_union_witness:
  "\<exists>A B outA outB w. small_new True 2 = Inr A \<and> small_new False 4 = Inr B \<and>
    (psu_step small_edwards [1, 1] small_run small_run A B)\<^sup>*\<^sup>* (psu_start small_edwards A B) w \<and> psu_ended A B w \<and>
    malicious_psu2_out (e_st (fst w)) (e_st (snd w)) = Inr outA \<and>
    malicious_psu2_out (e_st (snd w)) (e_st (fst w)) = Inr outB \<and>
    set (chunks_exact 16 outA) = {replicate 16 4} \<and> set (chunks_exact 16 outB) = {replicate 16 2}"
proof -
  let ?E = small_edwards and ?sub = "id :: 7 \<Rightarrow> 7" and ?R = small_run
  obtain A where A: "small_new True 2 = Inr A" "party_ok ?E ?sub [1, 1] 2 A" using small_party by blast
  obtain B where B: "small_new False 4 = Inr B" "party_ok ?E ?sub [1, 1] 2 B" "p_permut B = feistel_new toy_aes (replicate 16 0)"
    using small_party by blast
  have curve: "ed_curve ?E = seven_curve" by (simp add: small_edwards_def)
  note ch = small_challenge [OF A(2) B(2) small_edwards_ok, folded curve, of ?R ?R]
  have coins: "length (sc_raw small_coins) = 32" "\<forall>i<2. sc_pick small_coins i \<le> i" by (simp_all add: small_coins_def)
  have diff: "replicate 16 b \<noteq> replicate 16 c" if "b \<noteq> c" for b c :: u8 using that by simp
  have sets: "set (chunks_exact 16 (small_input 4)) - set (chunks_exact 16 (small_input 2)) = {replicate 16 4}"
    "set (chunks_exact 16 (small_input 2)) - set (chunks_exact 16 (small_input 4)) = {replicate 16 2}"
    using diff [of 1 2] diff [of 1 4] diff [of 2 4] by (auto simp: small_items)
  have len: "length (chunks_exact 16 (small_input b)) = 2" for b by (simp add: small_items)
  have two: "1 < (2 :: nat)" "(2 :: nat) \<le> 2 ^ 32" "length [1 :: 7, 1] = 2" by simp_all
  have key16: "length (replicate 16 (0 :: u8)) = 16" by simp
  obtain outA outB where out: "(\<exists>w. (psu_step ?E [1, 1] ?R ?R A B)\<^sup>*\<^sup>* (psu_start ?E A B) w \<and> psu_ended A B w) \<and>
    (\<forall>w. (psu_step ?E [1, 1] ?R ?R A B)\<^sup>*\<^sup>* (psu_start ?E A B) w \<and> psu_ended A B w \<longrightarrow>
      e_st (fst w) = Returned (Some outA) \<and> e_st (snd w) = Returned (Some outB) \<and>
      malicious_psu2_out (e_st (fst w)) (e_st (snd w)) = Inr outA \<and> malicious_psu2_out (e_st (snd w)) (e_st (fst w)) = Inr outB) \<and>
    set (chunks_exact 16 outA) = {replicate 16 4} \<and> set (chunks_exact 16 outB) = {replicate 16 2}"
    using psu2_union [OF small_edwards_ok two coins coins small_key_invertible small_key_invertible len len
        A(1) [unfolded small_new_def] B(1) [unfolded small_new_def] toy_aes_ok key16 small_items_recognisable ch]
    unfolding sets by (elim exE) (rule that)
  then obtain w where "(psu_step ?E [1, 1] ?R ?R A B)\<^sup>*\<^sup>* (psu_start ?E A B) w" "psu_ended A B w" by (elim conjE exE)
  with out A(1) B(1) show ?thesis by (intro exI [of _ A] exI [of _ B] exI [of _ outA] exI [of _ outB] exI [of _ w]) simp
qed

theorem psu2_no_deadlock_witness:
  "\<exists>A B w. small_new True 2 = Inr A \<and> small_new False 4 = Inr B \<and>
    psu_step small_edwards [1, 1] small_run small_run A B (psu_start small_edwards A B) w"
proof -
  obtain A where A: "small_new True 2 = Inr A" "p_server A" using small_party by blast
  obtain B where B: "small_new False 4 = Inr B" "\<not> p_server B" using small_party by blast
  have "(psu_step small_edwards [1, 1] small_run small_run A B ^^ 0) (psu_start small_edwards A B) (psu_start small_edwards A B)"
    by simp
  from psu2_no_deadlock [OF A(2) B(2) this] small_start_live obtain w where
    "psu_step small_edwards [1, 1] small_run small_run A B (psu_start small_edwards A B) w" by blast
  with A(1) B(1) show ?thesis by blast
qed

theorem psu2_refines_rounds_witness:
  "\<exists>A B w. small_new True 2 = Inr A \<and> small_new False 4 = Inr B \<and> psu_ended A B w \<and>
    (e_st (fst w), e_st (snd w)) = sync_run small_edwards [1, 1] small_run small_run A B 4"
proof -
  obtain A where A: "small_new True 2 = Inr A" "p_server A" using small_party by blast
  obtain B where B: "small_new False 4 = Inr B" "\<not> p_server B" using small_party by blast
  obtain w where w: "(psu_step small_edwards [1, 1] small_run small_run A B)\<^sup>*\<^sup>* (psu_start small_edwards A B) w" "psu_ended A B w"
    using psu_run_ends [OF A(2) B(2) rtranclp.rtrancl_refl] by blast
  show ?thesis using psu2_refines_rounds [OF A(2) B(2) w] w(2) A(1) B(1) by blast
qed

theorem psu2_messages_in_round_witness:
  "\<exists>A B w. small_new True 2 = Inr A \<and> small_new False 4 = Inr B \<and> e_in (snd w) \<noteq> [] \<and>
    psu_step small_edwards [1, 1] small_run small_run A B (psu_start small_edwards A B) w \<and>
    map message_round (e_in (snd w)) = map (\<lambda>m. stage_round (e_st (snd w))) (e_in (snd w))"
proof -
  obtain A where A: "small_new True 2 = Inr A" "p_server A" using small_party by blast
  obtain B where B: "small_new False 4 = Inr B" "\<not> p_server B" using small_party by blast
  obtain w where w: "psu_step small_edwards [1, 1] small_run small_run A B (psu_start small_edwards A B) w" "e_in (snd w) \<noteq> []"
      "stage_out B (e_st (snd w)) \<noteq> None"
    using psu_first_write [OF small_edwards_ok A(2)] by blast
  have run: "(psu_step small_edwards [1, 1] small_run small_run A B)\<^sup>*\<^sup>* (psu_start small_edwards A B) w"
    using w(1) by (rule r_into_rtranclp)
  have "map message_round (e_in (snd w)) = map (\<lambda>m. stage_round (e_st (snd w))) (e_in (snd w))"
    using psu2_messages_in_round [OF A(2) B(2) run] w(3) by simp
  with A(1) B(1) w(1,2) show ?thesis by blast
qed

theorem psu2_two_clients_stuck_witness:
  "\<exists>A B. small_new False 2 = Inr A \<and> small_new False 4 = Inr B \<and> \<not> psu_ended A B (psu_start small_edwards A B)"
proof -
  obtain A where A: "small_new False 2 = Inr A" "\<not> p_server A" using small_party by blast
  obtain B where B: "small_new False 4 = Inr B" "\<not> p_server B" using small_party by blast
  show ?thesis using psu2_two_clients_stuck [OF A(2) B(2) small_edwards_ok] A(1) B(1) by blast
qed

theorem recover_hash_to_point_witness:
  "hash_to_point small_edwards (feistel_new toy_aes (replicate 16 0)) (replicate 16 2) = Inr 2 \<and>
    recover_from_point small_edwards (feistel_new toy_aes (replicate 16 0)) 2 = replicate 16 2"
proof -
  have "hash_to_point small_edwards (feistel_new toy_aes (replicate 16 0)) (replicate 16 2) = Inr 2"
    using toy_encode(2) [of 2] by (simp add: small_hash seven_points)
  with recover_hash_to_point [OF small_edwards_ok toy_aes_ok _ refl, of "replicate 16 0" "replicate 16 2"] small_recognisable [of 2]
  show ?thesis by auto
qed

text \<open>
  C40.  A party is well-formed when it is made.  With two or more items and as many public parameters, for another party with as many items, and a key that is
  invertible modulo the group order, \<open>new\<close> does not panic: the keys of the party are inverse to each other as their names say and the clamped one acts as
  eight times the secret on the part of prime order, the two permutations are inverse permutations of the positions, and the prepared hints
  are openings of their commitments.  For another party with a different number of items it always fails, at the length assertion of a commitment.
\<close>

theorem party_well_formed:
  assumes "edwards_ok E sub" and "1 < n" and "length pp = n" and "length (sc_raw R) = 32" and "\<forall>i<n. sc_pick R i \<le> i"
    and "invertible (ed_curve E) (sc_from_bytes (ed_curve E) (clamp_integer (sc_raw R)) * sc_invert (ed_curve E) 8)"
    and "length (chunks_exact 16 input) = n"
  shows "(\<exists>P. party_new E aes R server input aes_key pp n n = Inr P \<and> party_ok E sub pp n P \<and>
      p_input P = input \<and> p_permut P = feistel_new aes aes_key \<and> p_server P = server) \<and>
    (\<forall>n_other. n_other \<noteq> n \<and> (\<forall>i<n_other. sc_pick R i \<le> i) \<longrightarrow> party_new E aes R server input aes_key pp n n_other = Inl AssertFailed)"
  using party_new_ok [OF assms] party_new_mismatch [OF assms(3)] by blast

theorem party_well_formed_witness:
  "\<exists>P. small_new True 2 = Inr P \<and> party_ok small_edwards id [1, 1] 2 P \<and> p_input P = small_input 2 \<and>
    party_new small_edwards toy_aes small_coins True (small_input 2) (replicate 16 0) [1, 1] 2 3 = Inl AssertFailed"
proof -
  have coins: "length (sc_raw small_coins) = 32" "\<forall>i<2. sc_pick small_coins i \<le> i" "\<forall>i<3. sc_pick small_coins i \<le> i"
    by (simp_all add: small_coins_def)
  have two: "1 < (2 :: nat)" "length [1, 1 :: 7] = 2" "length (chunks_exact 16 (small_input 2)) = 2" by (simp_all add: small_items)
  from party_well_formed [OF small_edwards_ok two(1,2) coins(1,2) small_key_invertible two(3), of toy_aes True "replicate 16 0"] coins(3)
  show ?thesis unfolding small_new_def by auto
qed

end
