(* ===== verification/Ot_Kos.thy ===== *)
theory Ot_Kos
  imports Block_Clmul
begin

text \<open>
  The transfer extension with a consistency check, \<^verbatim>\<open>ocelot/src/ot/kos.rs\<close>, and the coin tossing of \<^verbatim>\<open>scuttlebutt/src/cointoss.rs\<close> in it.
  Either party is the party of \<open>Ot_Alsz\<close> in its field \<open>ot\<close>, with no state of its own; the transfers output their blocks as there
  (\<open>send_blocks\<close> and the others), with \<open>tccr_hash\<close> as the hash.  The set-up is extended by 168 random choice bits, and checked
  on a random combination of the lines of the two matrices.
\<close>

section \<open>Coin tossing\<close>

text \<open>
  The sender writes a commitment, reads the seed of the receiver, and opens; both end with the sum of the seeds.  The receiver
  checks the opening.
\<close>

definition cointoss_commit :: "('r \<Rightarrow> nat \<Rightarrow> bytes \<times> 'r) \<Rightarrow> (bytes \<Rightarrow> 'r) \<Rightarrow> bytes \<Rightarrow> bytes" where
  "cointoss_commit fill from_seed seed = fst (fill (from_seed seed) 16)"

definition cointoss_send :: "bytes \<Rightarrow> bytes \<Rightarrow> bytes" where
  "cointoss_send seed seed' = xor_block seed seed'"

definition cointoss_receive :: "('r \<Rightarrow> nat \<Rightarrow> bytes \<times> 'r) \<Rightarrow> (bytes \<Rightarrow> 'r) \<Rightarrow> bytes \<Rightarrow> bytes \<Rightarrow> bytes \<Rightarrow> bytes run" where
  "cointoss_receive fill from_seed seed com seed' =
     (let (check, _) = fill (from_seed seed') 16
      in if check \<noteq> com then Inl Panic else Inr (xor_block seed seed'))"

section \<open>The checked set-up\<close>

definition kos_columns :: "nat \<Rightarrow> nat" where
  "kos_columns m = (let m = (if m mod 8 \<noteq> 0 then m + (8 - m mod 8) else m) in m + 128 + 40)"

text \<open>\<open>receive_setup\<close> up to the check: the choice bits as bytes, and random bytes for the further columns.\<close>

definition kos_receive_start ::
    "(bytes \<Rightarrow> u64 \<Rightarrow> u64 \<Rightarrow> bytes run option) \<Rightarrow> ('r \<Rightarrow> nat \<Rightarrow> bytes \<times> 'r) \<Rightarrow> (nat \<Rightarrow> u8) \<Rightarrow> 'r alsz_receiver \<Rightarrow> bool list \<Rightarrow>
     ('r alsz_receiver \<times> bytes \<times> bytes \<times> bytes) run option" where
  "kos_receive_start tr fill rnd R inputs =
     (let m = length inputs; m = (if m mod 8 \<noteq> 0 then m + (8 - m mod 8) else m); m' = m + 128 + 40
      in case boolvec_to_u8vec inputs of
           Inl e \<Rightarrow> Some (Inl e)
         | Inr r \<Rightarrow>
             let r = r @ map rnd [0..<(m' - m) div 8]
             in bind_tr (receive_setup tr fill R r m') (\<lambda>(R, out, ts). Inr (R, r, out, ts)))"

text \<open>The combinations: \<open>x\<close> of the choice bits and \<open>t\<close> of the lines for the receiver, \<open>check\<close> for the sender.\<close>

fun receive_check ::
    "('r \<Rightarrow> nat \<Rightarrow> bytes \<times> 'r) \<Rightarrow> bytes \<Rightarrow> nat \<Rightarrow> 'r \<Rightarrow> bool list \<Rightarrow> bytes \<Rightarrow> bytes \<times> bytes \<Rightarrow> (bytes \<times> bytes \<times> bytes) run" where
  "receive_check fill ts j rng [] x t = Inr (x, t)"
| "receive_check fill ts j rng (xj # r) x t =
     bind_run (slice_at ts (j * 16) ((j + 1) * 16)) (\<lambda>tj.
       let (chi, rng) = fill rng 16;
           x = xor_block x (if xj then chi else replicate 16 0);
           t = xor_two_blocks t (carryless_mul_wide tj chi)
       in receive_check fill ts (j + 1) rng r x t)"

fun send_check :: "('r \<Rightarrow> nat \<Rightarrow> bytes \<times> 'r) \<Rightarrow> bytes \<Rightarrow> nat \<Rightarrow> 'r \<Rightarrow> nat \<Rightarrow> bytes \<times> bytes \<Rightarrow> (bytes \<times> bytes) run" where
  "send_check fill qs j rng 0 check = Inr check"
| "send_check fill qs j rng (Suc n) check =
     bind_run (slice_at qs (j * 16) ((j + 1) * 16)) (\<lambda>q.
       let (chi, rng) = fill rng 16
       in send_check fill qs (j + 1) rng n (xor_two_blocks check (carryless_mul_wide q chi)))"

text \<open>The sender reads \<open>x\<close> and \<open>t\<close>; a failed check is the error \<open>Consistency check failed\<close>, on which the callers panic.\<close>

definition kos_verify ::
    "('r \<Rightarrow> nat \<Rightarrow> bytes \<times> 'r) \<Rightarrow> bytes \<Rightarrow> bytes \<Rightarrow> 'r \<Rightarrow> nat \<Rightarrow> bytes \<Rightarrow> bytes \<times> bytes \<Rightarrow> unit run" where
  "kos_verify fill sb qs rng ncols x t =
     bind_run (send_check fill qs 0 rng ncols (replicate 16 0, replicate 16 0)) (\<lambda>check.
     let check = xor_two_blocks check (carryless_mul_wide x sb)
     in if check \<noteq> t then Inl Panic else Inr ())"

text \<open>
  Both set-ups with the messages between them: the random bytes \<open>rnd\<close> and the seed of the receiver, and the seed of
  the sender, are arguments.
\<close>

definition kos_setup ::
    "(bytes \<Rightarrow> u64 \<Rightarrow> u64 \<Rightarrow> bytes run option) \<Rightarrow> ('r \<Rightarrow> nat \<Rightarrow> bytes \<times> 'r) \<Rightarrow> (bytes \<Rightarrow> 'r) \<Rightarrow> (nat \<Rightarrow> u8) \<Rightarrow> bytes \<Rightarrow> bytes \<Rightarrow>
     'r alsz_sender \<Rightarrow> 'r alsz_receiver \<Rightarrow> nat \<Rightarrow> bool list \<Rightarrow> ('r alsz_sender \<times> 'r alsz_receiver \<times> bytes \<times> bytes) run option" where
  "kos_setup tr fill from_seed rnd seed_s seed_r S R m bs =
     (case kos_receive_start tr fill rnd R bs of
        None \<Rightarrow> None
      | Some (Inl e) \<Rightarrow> Some (Inl e)
      | Some (Inr (R, r, u, ts)) \<Rightarrow>
          bind_tr (send_setup tr fill S u (kos_columns m)) (\<lambda>(S, ch, qs).
          bind_run (cointoss_receive fill from_seed seed_r (cointoss_commit fill from_seed seed_s) seed_s) (\<lambda>coin_r.
          bind_run (receive_check fill ts 0 (from_seed coin_r) (u8vec_to_boolvec r) (replicate 16 0) (replicate 16 0, replicate 16 0)) (\<lambda>(x, t).
          bind_run (kos_verify fill (s_block S) qs (from_seed (cointoss_send seed_s seed_r)) (kos_columns m) x t) (\<lambda>_.
          Inr (S, R, qs, ts))))))"

section \<open>The transfers\<close>

definition kos_transfer ::
    "(bytes \<Rightarrow> u64 \<Rightarrow> u64 \<Rightarrow> bytes run option) \<Rightarrow> ('r \<Rightarrow> nat \<Rightarrow> bytes \<times> 'r) \<Rightarrow> (bytes \<Rightarrow> 'r) \<Rightarrow> (nat \<Rightarrow> bytes \<Rightarrow> bytes) \<Rightarrow>
     (nat \<Rightarrow> u8) \<Rightarrow> bytes \<Rightarrow> bytes \<Rightarrow> 'r alsz_sender \<Rightarrow> 'r alsz_receiver \<Rightarrow> (bytes \<times> bytes) list \<Rightarrow> bool list \<Rightarrow>
     ('r alsz_sender \<times> 'r alsz_receiver \<times> bytes list) run option" where
  "kos_transfer tr fill from_seed hash rnd seed_s seed_r S R inputs bs =
     bind_tr (kos_setup tr fill from_seed rnd seed_s seed_r S R (length inputs) bs) (\<lambda>(S, R, qs, ts).
     bind_run (send_blocks hash (s_block S) qs 0 inputs) (\<lambda>ys.
     bind_run (receive_blocks hash ts 0 bs ys) (\<lambda>out. Inr (S, R, out))))"

definition kos_correlated ::
    "(bytes \<Rightarrow> u64 \<Rightarrow> u64 \<Rightarrow> bytes run option) \<Rightarrow> ('r \<Rightarrow> nat \<Rightarrow> bytes \<times> 'r) \<Rightarrow> (bytes \<Rightarrow> 'r) \<Rightarrow> (nat \<Rightarrow> bytes \<Rightarrow> bytes) \<Rightarrow>
     (nat \<Rightarrow> u8) \<Rightarrow> bytes \<Rightarrow> bytes \<Rightarrow> 'r alsz_sender \<Rightarrow> 'r alsz_receiver \<Rightarrow> bytes \<Rightarrow> bool list \<Rightarrow> (bytes list \<times> bytes list) run option" where
  "kos_correlated tr fill from_seed hash rnd seed_s seed_r S R delta bs =
     bind_tr (kos_setup tr fill from_seed rnd seed_s seed_r S R (length bs) bs) (\<lambda>(S, R, qs, ts).
     bind_run (correlated_blocks hash (s_block S) delta qs 0 (length bs)) (\<lambda>(xs, ys).
     bind_run (receive_correlated_blocks hash ts 0 bs ys) (\<lambda>out. Inr (xs, out))))"

definition kos_random ::
    "(bytes \<Rightarrow> u64 \<Rightarrow> u64 \<Rightarrow> bytes run option) \<Rightarrow> ('r \<Rightarrow> nat \<Rightarrow> bytes \<times> 'r) \<Rightarrow> (bytes \<Rightarrow> 'r) \<Rightarrow> (nat \<Rightarrow> bytes \<Rightarrow> bytes) \<Rightarrow>
     (nat \<Rightarrow> u8) \<Rightarrow> bytes \<Rightarrow> bytes \<Rightarrow> 'r alsz_sender \<Rightarrow> 'r alsz_receiver \<Rightarrow> bool list \<Rightarrow> ((bytes \<times> bytes) list \<times> bytes list) run option" where
  "kos_random tr fill from_seed hash rnd seed_s seed_r S R bs =
     bind_tr (kos_setup tr fill from_seed rnd seed_s seed_r S R (length bs) bs) (\<lambda>(S, R, qs, ts).
     bind_run (random_blocks hash (s_block S) qs 0 (length bs)) (\<lambda>xs.
     bind_run (receive_random_blocks hash ts 0 (length bs)) (\<lambda>out. Inr (xs, out))))"

section \<open>The check of an honest run\<close>

lemma xor_block_assoc: "xor_block (xor_block a b) c = xor_block a (xor_block b c)"
  by (induction a arbitrary: b c) (simp_all add: xor_block_def zip_Cons1 ac_simps split: list.split)

lemma xor_block_left_commute: "xor_block b (xor_block a c) = xor_block a (xor_block b c)"
  by (metis xor_block_assoc xor_block_commute)

lemma xor_block_self: "length a = n \<Longrightarrow> xor_block a a = replicate n 0"
  by (auto intro!: nth_equalityI simp: xor_block_nth)

lemma carryless_zero: "carryless_mul_wide (replicate 16 0) s = (replicate 16 0, replicate 16 0)"
proof -
  obtain a b where ab: "carryless_mul_wide (replicate 16 0) s = (a, b)" by fastforce
  have "length a = 16" "length b = 16" using carryless_mul_wide_length [of "replicate 16 0" s] ab by simp_all
  moreover have "xor_two_blocks (a, b) (a, b) = (a, b)"
    using carryless_mul_wide_xor [of "replicate 16 0" "replicate 16 0" s] ab xor_block_self [of "replicate 16 0" 16] by simp
  ultimately show ?thesis using ab by (auto simp: xor_two_blocks_def xor_block_self)
qed

lemma xor_two_blocks_laws:
  "xor_two_blocks (xor_two_blocks a b) c = xor_two_blocks a (xor_two_blocks b c)"
  "xor_two_blocks a b = xor_two_blocks b a"
  "xor_two_blocks b (xor_two_blocks a c) = xor_two_blocks a (xor_two_blocks b c)"
  by (simp_all add: xor_two_blocks_def xor_block_assoc xor_block_left_commute xor_block_commute)

text \<open>
  The sender's combination is the receiver's plus \<open>x\<close> times the sender's block, line by line.
\<close>

lemma check_lines:
  assumes fill: "fills fill" and sb: "length sb = 16"
  shows "columns_ok sb ts qs j bs \<Longrightarrow> length x = 16 \<Longrightarrow> length (fst t) = 16 \<and> length (snd t) = 16 \<Longrightarrow>
    \<exists>x' t' check. receive_check fill ts j rng bs x t = Inr (x', t') \<and>
      send_check fill qs j rng (length bs) (xor_two_blocks t (carryless_mul_wide x sb)) = Inr check \<and>
      xor_two_blocks check (carryless_mul_wide x' sb) = t'"
proof (induction bs arbitrary: j rng x t)
  case Nil
  have "xor_two_blocks (carryless_mul_wide x sb) (carryless_mul_wide x sb) = (replicate 16 0, replicate 16 0)"
    using carryless_mul_wide_length [of x sb] by (simp add: xor_two_blocks_def xor_block_self)
  moreover have "xor_two_blocks t (replicate 16 0, replicate 16 0) = t"
    using Nil.prems(3) by (cases t) (simp add: xor_two_blocks_def xor_block_zero)
  ultimately show ?case by (simp add: xor_two_blocks_laws(1))
next
  case (Cons b bs)
  obtain tj where tj: "length tj = 16" "slice_at ts (j * 16) ((j + 1) * 16) = Inr tj"
    and q: "slice_at qs (j * 16) ((j + 1) * 16) = Inr (if b then xor_block tj sb else tj)"
    and rest: "columns_ok sb ts qs (j + 1) bs"
    using Cons.prems(1) by auto
  obtain chi rng' where chi: "fill rng 16 = (chi, rng')" by fastforce
  have len: "length chi = 16" using fill chi by (metis fills_def fst_conv)
  define x1 where "x1 = xor_block x (if b then chi else replicate 16 0)"
  define t1 where "t1 = xor_two_blocks t (carryless_mul_wide tj chi)"
  have x1: "length x1 = 16" "length (fst t1) = 16 \<and> length (snd t1) = 16"
    using Cons.prems(2,3) len by (simp_all add: x1_def t1_def xor_two_blocks_def carryless_mul_wide_length)
  have "xor_two_blocks (xor_two_blocks t (carryless_mul_wide x sb)) (carryless_mul_wide (if b then xor_block tj sb else tj) chi) =
      xor_two_blocks t1 (carryless_mul_wide x1 sb)"
  proof (cases b)
    case True
    have "carryless_mul_wide (xor_block tj sb) chi = xor_two_blocks (carryless_mul_wide tj chi) (carryless_mul_wide chi sb)"
      using carryless_mul_wide_xor [of tj sb chi] tj(1) sb by (simp add: carryless_mul_wide_commute [of sb chi])
    moreover have "carryless_mul_wide x1 sb = xor_two_blocks (carryless_mul_wide x sb) (carryless_mul_wide chi sb)"
      using carryless_mul_wide_xor [of x chi sb] Cons.prems(2) len True by (simp add: x1_def)
    ultimately show ?thesis using True by (simp add: t1_def xor_two_blocks_laws)
  next
    case False
    then have "x1 = x" using xor_block_zero [OF Cons.prems(2)] by (simp add: x1_def)
    with False show ?thesis by (simp add: t1_def xor_two_blocks_laws)
  qed
  with Cons.IH [OF rest x1, of rng'] show ?case
    using tj(2) q by (simp add: chi x1_def [symmetric] t1_def [symmetric])
qed

section \<open>The columns of the checked set-up\<close>

lemma columns_ok_append: "columns_ok sb ts qs j (xs @ ys) \<Longrightarrow> columns_ok sb ts qs j xs"
  by (induction xs arbitrary: j) auto

lemma kos_columns_eq: "kos_columns m = 8 * ((m + 7) div 8 + 21)"
  using round_up_eq [of m] by (simp add: kos_columns_def round_up_def Let_def split: if_splits)

text \<open>The choice bits, as the receiver extends them, start with the choices.\<close>

lemma extended_choices:
  assumes "boolvec_to_u8vec bs = Inr v" and "length w = 21"
  defines "bits \<equiv> u8vec_to_boolvec (v @ w)"
  shows "length (v @ w) = (length bs + 7) div 8 + 21" and "boolvec_to_u8vec bits = Inr (v @ w)" and "\<exists>rest. bits = bs @ rest"
proof -
  have v: "v = pack ((length bs + 7) div 8) (\<lambda>k. k < length bs \<and> bs ! k)"
    using assms(1) by (simp add: boolvec_to_u8vec_pack)
  then show len: "length (v @ w) = (length bs + 7) div 8 + 21" using assms(2) by simp
  have "(8 * length (v @ w) + 7) div 8 = length (v @ w)" by simp
  then show "boolvec_to_u8vec bits = Inr (v @ w)"
    unfolding boolvec_to_u8vec_pack bits_def u8vec_to_boolvec_bits
    by (simp only: length_map length_upt minus_nat.diff_0) (auto intro!: pack_eqI [symmetric])
  have "bits ! k = bs ! k" if "k < length bs" for k
  proof -
    have k: "k < 8 * ((length bs + 7) div 8)" using that by presburger
    then have "k div 8 < length v" using v by (simp add: less_mult_imp_div_less mult.commute)
    then have "buf_bit (v @ w) k = buf_bit v k" by (simp add: buf_bit_def nth_append)
    also have "\<dots> = bs ! k" using v k that by simp
    finally show ?thesis using that len by (simp add: bits_def u8vec_to_boolvec_bits)
  qed
  moreover have "length bs \<le> length bits" using len by (simp add: bits_def u8vec_to_boolvec_bits)
  ultimately have "take (length bs) bits = bs" by (intro nth_equalityI) simp_all
  then show "\<exists>rest. bits = bs @ rest" by (metis append_take_drop_id)
qed

context bit_transposer
begin

lemma kos_setup_columns:
  assumes fill: "fills fill" and sync: "in_sync S R" and size: "1024 * ((length bs + 7) div 8 + 21) < 2 ^ 64"
  shows "\<exists>S' R' qs ts. kos_setup tr fill from_seed rnd seed_s seed_r S R (length bs) bs = Some (Inr (S', R', qs, ts)) \<and>
    in_sync S' R' \<and> s_block S' = s_block S \<and> columns_ok (s_block S) ts qs 0 bs"
proof -
  obtain v where v: "boolvec_to_u8vec bs = Inr v" by (simp add: boolvec_to_u8vec_pack)
  define r where "r = v @ map rnd [0..<21]"
  define bits where "bits = u8vec_to_boolvec r"
  note ext = extended_choices [OF v, of "map rnd [0..<21]", folded r_def bits_def, simplified]
  have n: "length bits = kos_columns (length bs)"
    using ext(1) by (simp add: bits_def u8vec_to_boolvec_bits kos_columns_eq)
  have "0 < length bits" "(length bits + 7) div 8 = (length bs + 7) div 8 + 21" by (simp_all add: n kos_columns_eq)
  then obtain R' u ts S' qs where start: "receive_start tr fill R bits = Some (Inr (R', u, ts))"
    and prep: "send_setup tr fill S u (length bits) = Some (Inr (S', [], qs))"
    and in_step: "in_sync S' R'" "s_block S' = s_block S" and cols: "columns_ok (s_block S) ts qs 0 bits"
    using setup_columns [OF fill sync, of bits] size by auto
  have sb: "length (s_block S) = 16" using sync by (simp add: in_sync_def)
  have start': "kos_receive_start tr fill rnd R bs = Some (Inr (R', r, u, ts))"
    using start ext(2) v n unfolding receive_start_def kos_receive_start_def
    by (simp add: Let_def r_def kos_columns_def)
  let ?coin = "xor_block seed_r seed_s"
  obtain x t check where check: "receive_check fill ts 0 (from_seed ?coin) bits (replicate 16 0) (replicate 16 0, replicate 16 0) = Inr (x, t)"
    "send_check fill qs 0 (from_seed ?coin) (length bits) (replicate 16 0, replicate 16 0) = Inr check"
    "xor_two_blocks check (carryless_mul_wide x (s_block S)) = t"
    using check_lines [OF fill sb cols, of "replicate 16 0" "(replicate 16 0, replicate 16 0)" "from_seed ?coin"]
    by (auto simp: carryless_zero xor_two_blocks_def xor_block_zero)
  have "cointoss_receive fill from_seed seed_r (cointoss_commit fill from_seed seed_s) seed_s = Inr ?coin"
    by (simp add: cointoss_receive_def cointoss_commit_def split_beta)
  moreover have "cointoss_send seed_s seed_r = ?coin" by (simp add: cointoss_send_def xor_block_commute)
  ultimately have "kos_setup tr fill from_seed rnd seed_s seed_r S R (length bs) bs = Some (Inr (S', R', qs, ts))"
    using start' prep check in_step(2) n by (simp add: kos_setup_def kos_verify_def bits_def [symmetric])
  moreover obtain rest where "bits = bs @ rest" using ext(3) by blast
  ultimately show ?thesis using in_step cols columns_ok_append by blast
qed

lemma kos_transfer_correct:
  assumes "fills fill" and "hashes hash" and "in_sync S R" and "length inputs = length bs" and "blocks16 inputs"
    and "1024 * ((length bs + 7) div 8 + 21) < 2 ^ 64"
  shows "\<exists>S' R'. kos_transfer tr fill from_seed hash rnd seed_s seed_r S R inputs bs = Some (Inr (S', R', map2 pick bs inputs)) \<and>
    in_sync S' R'"
proof -
  obtain S' R' qs ts where run: "kos_setup tr fill from_seed rnd seed_s seed_r S R (length bs) bs = Some (Inr (S', R', qs, ts))"
    and sync: "in_sync S' R'" "s_block S' = s_block S" and cols: "columns_ok (s_block S) ts qs 0 bs"
    using kos_setup_columns [OF assms(1,3,6)] by blast
  have "length (s_block S) = 16" using assms(3) by (simp add: in_sync_def)
  from transfer_blocks [OF assms(2) this assms(4,5) cols] obtain ys
    where "send_blocks hash (s_block S) qs 0 inputs = Inr ys" "receive_blocks hash ts 0 bs ys = Inr (map2 pick bs inputs)"
    by blast
  with run sync assms(4) show ?thesis by (simp add: kos_transfer_def)
qed

lemma kos_correlated_random_correct:
  assumes "fills fill" and "hashes hash" and "in_sync S R" and "length delta = 16"
    and "1024 * ((length bs + 7) div 8 + 21) < 2 ^ 64"
  shows "(\<exists>xs. length xs = length bs \<and> kos_correlated tr fill from_seed hash rnd seed_s seed_r S R delta bs =
      Some (Inr (xs, map2 (\<lambda>b x. if b then xor_block x delta else x) bs xs))) \<and>
    (\<exists>xs. length xs = length bs \<and> kos_random tr fill from_seed hash rnd seed_s seed_r S R bs = Some (Inr (xs, map2 pick bs xs)))"
proof -
  obtain S' R' qs ts where run: "kos_setup tr fill from_seed rnd seed_s seed_r S R (length bs) bs = Some (Inr (S', R', qs, ts))"
    and sb: "s_block S' = s_block S" and cols: "columns_ok (s_block S) ts qs 0 bs"
    using kos_setup_columns [OF assms(1,3,5)] by blast
  have len: "length (s_block S) = 16" using assms(3) by (simp add: in_sync_def)
  from correlated_transfer_blocks [OF assms(2) len assms(4) cols] random_transfer_blocks [OF len cols, of hash]
  show ?thesis using run sb by (fastforce simp: kos_correlated_def kos_random_def)
qed

end

section \<open>Properties\<close>

text \<open>
  C38.  The checked extension transfers the chosen messages.  For parties that a base transfer has put in step, whatever the
  receiver's random bits and the two seeds of the coin tossing are, the sender's consistency check accepts the honest receiver,
  the transfer of any number of pairs of blocks ends without a fault on both builds, the receiver gets from each pair the
  block its bit chooses, and the parties are in step for the next transfer; the correlated and the random transfer give the
  receiver \<open>x\<close> or \<open>x ^ delta\<close>, and the chosen block of a pair.
\<close>

theorem kos_chosen_transfer:
  assumes "fills fill" and "hashes hash" and "in_sync S R" and "length inputs = length bs" and "blocks16 inputs"
    and "length delta = 16" and "1024 * ((length bs + 7) div 8 + 21) < 2 ^ 64"
    and "tr = transpose_portable \<or> tr = transpose_x86 tmp0"
  shows "(\<exists>S' R'. kos_transfer tr fill from_seed hash rnd seed_s seed_r S R inputs bs = Some (Inr (S', R', map2 pick bs inputs)) \<and>
      in_sync S' R') \<and>
    (\<exists>xs. length xs = length bs \<and> kos_correlated tr fill from_seed hash rnd seed_s seed_r S R delta bs =
      Some (Inr (xs, map2 (\<lambda>b x. if b then xor_block x delta else x) bs xs))) \<and>
    (\<exists>xs. length xs = length bs \<and> kos_random tr fill from_seed hash rnd seed_s seed_r S R bs = Some (Inr (xs, map2 pick bs xs)))"
  using assms(8) x86.kos_transfer_correct [OF assms(1-5,7)] x86.kos_correlated_random_correct [OF assms(1-3,6,7)]
    portable.kos_transfer_correct [OF assms(1-5,7)] portable.kos_correlated_random_correct [OF assms(1-3,6,7)] by blast

theorem kos_chosen_transfer_witness:
  "\<exists>S R S' R'. alsz_init (\<lambda>ks bs. map2 pick bs ks) hd (replicate 16 77) (replicate 128 ([3], [1])) = (S, R) \<and>
    kos_transfer (transpose_x86 0) (\<lambda>seed n. (replicate n seed, seed + 1)) hd (\<lambda>j q. map (\<lambda>b. b + of_nat j) q) of_nat
      (replicate 16 9) (replicate 16 4) S R
      [(replicate 16 1, replicate 16 2), (replicate 16 3, replicate 16 4)] [True, False] =
    Some (Inr (S', R', [replicate 16 2, replicate 16 3]))"
proof -
  obtain S R where init: "alsz_init (\<lambda>ks bs. map2 pick bs ks) hd (replicate 16 77 :: bytes) (replicate 128 ([3 :: u8], [1])) = (S, R)"
    by (cases "alsz_init (\<lambda>ks bs. map2 pick bs ks) hd (replicate 16 77 :: bytes) (replicate 128 ([3 :: u8], [1]))")
  then have "in_sync S R" by (rule alsz_init_sync [rotated 3]) simp_all
  moreover have "fills (\<lambda>seed n. (replicate n seed, seed + 1 :: u8))" "hashes (\<lambda>j q. map (\<lambda>b. b + of_nat j) q)"
    and "blocks16 [(replicate 16 1, replicate 16 2), (replicate 16 3, replicate 16 4)]"
    by (simp_all add: fills_def hashes_def blocks16_def)
  ultimately show ?thesis
    using kos_chosen_transfer [of "\<lambda>seed n. (replicate n seed, seed + 1)" "\<lambda>j q. map (\<lambda>b. b + of_nat j) q" S R
      "[(replicate 16 1, replicate 16 2), (replicate 16 3, replicate 16 4)]" "[True, False]" "replicate 16 0" "transpose_x86 0" 0
      hd of_nat "replicate 16 9" "replicate 16 4"] init
    by (auto simp: pick_def)
qed

end
