(* ===== verification/Psu_Sender_Malicious.thy ===== *)
theory Psu_Sender_Malicious
  imports Psu_Onesided Ot_Kos
begin

text \<open>
  The union protocol of \<^verbatim>\<open>src/onesided.rs\<close> against a malicious sender: \<open>PartySender1M\<close>, \<open>PartyReceiver1M\<close> and \<open>sender_malicious_psu1\<close>.
  Points are in Edwards form and travel compressed; the sender adds to each item a proof that it knows its key, which goes with
  the item through the checked transfer extension.  A scalar is a number below the group order, as in
  \<open>Psu_Onesided\<close>; a record holds what the code takes from other crates.
\<close>

section \<open>Points, scalars and bytes\<close>

record ('f, 'p) ed_ops =
  eo_field :: "'f field_ops"
  eo_digest :: "bytes \<Rightarrow> bytes"
  eo_to_edwards :: "'f \<Rightarrow> 'p option"
  eo_mul :: "nat \<Rightarrow> 'p \<Rightarrow> 'p"
  eo_compress :: "'p \<Rightarrow> bytes"
  eo_decompress :: "bytes \<Rightarrow> 'p option"
  eo_blake2s :: "bytes \<Rightarrow> bytes"
  eo_inv8 :: nat

text \<open>\<open>hash_to_curve (item).to_edwards (0).unwrap ()\<close>, and \<open>decompress ().unwrap ()\<close>.\<close>

definition item_edwards :: "('f::field, 'p) ed_ops \<Rightarrow> bytes \<Rightarrow> 'p run" where
  "item_edwards D item =
     (case eo_to_edwards D (hash_to_curve (eo_field D) (eo_digest D) item) of Some p \<Rightarrow> Inr p | None \<Rightarrow> Inl Panic)"

definition decompress_point :: "('f, 'p) ed_ops \<Rightarrow> bytes \<Rightarrow> 'p run" where
  "decompress_point D b = (case eo_decompress D b of Some p \<Rightarrow> Inr p | None \<Rightarrow> Inl Panic)"

definition clear_high_bits :: "bytes \<Rightarrow> bytes" where
  "clear_high_bits arr = take 16 arr @ replicate 16 0"

definition set_high_bits :: "bytes \<Rightarrow> bytes" where
  "set_high_bits arr = arr @ replicate 16 0"

definition combine_array :: "bytes \<Rightarrow> bytes \<Rightarrow> bytes" where
  "combine_array low high = low @ high"

definition scalar_as_bytes :: "nat \<Rightarrow> bytes" where
  "scalar_as_bytes z = map of_nat (base_digits 256 32 z)"

definition scalar_sub :: "nat \<Rightarrow> nat \<Rightarrow> nat" where
  "scalar_sub a b = (a + (group_order - b mod group_order)) mod group_order"

section \<open>The parties\<close>

type_synonym party_sender_1m = party_sender
type_synonym party_receiver_1m = party_receiver

definition sender_1m_new :: "nat \<Rightarrow> bytes \<Rightarrow> nat list \<Rightarrow> bytes \<Rightarrow> nat \<Rightarrow> party_sender_1m" where
  "sender_1m_new inv8 buff pi input n =
     (let sk_8 = clamp_integer buff
      in \<lparr>s_input = input, s_n = n, s_sk_8 = sk_8,
          s_sk = from_bytes_mod_order sk_8 * inv8 mod group_order, s_pi = pi\<rparr>)"

definition receiver_1m_new :: "nat \<Rightarrow> bytes \<Rightarrow> bytes \<Rightarrow> nat \<Rightarrow> party_receiver_1m" where
  "receiver_1m_new inv8 buff input n =
     (let sk_8 = clamp_integer buff
      in \<lparr>r_input = input, r_n = n, r_sk_8 = sk_8,
          r_sk = from_bytes_mod_order sk_8 * inv8 mod group_order\<rparr>)"

text \<open>The sender's masked points, its points, and these compressed.\<close>

definition sender_1m_gen :: "('f::field, 'p) ed_ops \<Rightarrow> party_sender_1m \<Rightarrow> (bytes list \<times> 'p list \<times> bytes list) run" where
  "sender_1m_gen D S =
     bind_run (map_run (\<lambda>item. bind_run (item_edwards D item) (\<lambda>hx.
         let y = mul_clamped (eo_mul D) (s_sk_8 S) hx in Inr (eo_compress D y, hx, eo_compress D hx)))
       (chunks_exact 16 (s_input S))) (\<lambda>l.
     Inr (map fst l, map (fst \<circ> snd) l, map (snd \<circ> snd) l))"

definition blind_and_shuffle_1m :: "('f, 'p) ed_ops \<Rightarrow> party_sender_1m \<Rightarrow> bytes list \<Rightarrow> bytes list run" where
  "blind_and_shuffle_1m D S receiver_points =
     map_run (\<lambda>i. bind_run (read_at receiver_points i) (\<lambda>b. bind_run (decompress_point D b) (\<lambda>p.
       Inr (eo_compress D (eo_mul D (s_sk S) p))))) (s_pi S)"

definition receiver_1m_gen :: "('f::field, 'p) ed_ops \<Rightarrow> party_receiver_1m \<Rightarrow> bytes list run" where
  "receiver_1m_gen D R =
     map_run (\<lambda>item. bind_run (item_edwards D item) (\<lambda>hx.
       Inr (eo_compress D (mul_clamped (eo_mul D) (r_sk_8 R) hx)))) (chunks_exact 16 (r_input R))"

definition receiver_1m_blind :: "('f, 'p) ed_ops \<Rightarrow> party_receiver_1m \<Rightarrow> bytes list \<Rightarrow> (bytes list \<times> 'p list) run" where
  "receiver_1m_blind D R sender_points =
     bind_run (map_run (\<lambda>b. bind_run (decompress_point D b) (\<lambda>sp. Inr (eo_compress D (eo_mul D (r_sk R) sp), sp))) sender_points)
       (\<lambda>l. Inr (map fst l, map snd l))"

definition compare_1m :: "bytes list \<Rightarrow> bytes list \<Rightarrow> bool list" where
  "compare_1m sender_points shuffled = map (\<lambda>point. point \<in> set shuffled) sender_points"

section \<open>The proofs of the sender\<close>

text \<open>
  One turn of the sender's loop, with the random bytes \<open>raw\<close>: the first half of the challenge, and the two
  halves of \<open>z = r - c * sk\<close>.
\<close>

definition item_proof :: "('f, 'p) ed_ops \<Rightarrow> party_sender_1m \<Rightarrow> bytes \<Rightarrow> bytes \<Rightarrow> bytes \<Rightarrow> 'p \<Rightarrow> bytes \<times> bytes \<times> bytes" where
  "item_proof D S raw original_c points_c original =
     (let r_8 = clamp_integer raw;
          r = from_bytes_mod_order r_8 * eo_inv8 D mod group_order;
          hc = eo_blake2s D (original_c @ points_c @ eo_compress D (mul_clamped (eo_mul D) r_8 original));
          hc = clear_high_bits hc;
          z = scalar_sub r (from_bytes_mod_order hc * s_sk S mod group_order)
      in (take 16 hc, take 16 (scalar_as_bytes z), drop 16 (scalar_as_bytes z)))"

definition sender_proofs ::
    "('f, 'p) ed_ops \<Rightarrow> party_sender_1m \<Rightarrow> (nat \<Rightarrow> bytes) \<Rightarrow> bytes list \<Rightarrow> 'p list \<Rightarrow> bytes list \<Rightarrow> (bytes \<times> bytes \<times> bytes) list run" where
  "sender_proofs D S raw points_c original original_c =
     map_run (\<lambda>i. bind_run (read_at original_c i) (\<lambda>oc. bind_run (read_at points_c i) (\<lambda>pc. bind_run (read_at original i) (\<lambda>p.
       Inr (item_proof D S (raw i) oc pc p))))) [0..<s_n S]"

text \<open>
  One turn of the receiver's loop.  The code computes both sides of the comparison of the check and does not compare them (the
  \<open>assert!\<close> is commented out): the model returns the two sides.
\<close>

definition item_check ::
    "('f::field, 'p::ab_group_add) ed_ops \<Rightarrow> bool list \<Rightarrow> 'p list \<Rightarrow> bytes list \<Rightarrow> bytes list \<Rightarrow> bytes list \<Rightarrow> bytes list \<Rightarrow> bytes list \<Rightarrow>
     nat \<Rightarrow> (bytes \<times> bytes) option run" where
  "item_check D indicator sender_points sender_points_c results c z0 z1 i =
     bind_run (read_at indicator i) (\<lambda>b.
     if b then Inr None
     else
       bind_run (read_at sender_points i) (\<lambda>h.
       bind_run (read_at sender_points_c i) (\<lambda>hi.
       bind_run (read_at results i) (\<lambda>result.
       bind_run (item_edwards D result) (\<lambda>g.
       bind_run (read_at c i) (\<lambda>ci.
       bind_run (read_at z0 i) (\<lambda>z0i.
       bind_run (read_at z1 i) (\<lambda>z1i.
         let cs = from_bytes_mod_order (set_high_bits ci);
             zs = from_bytes_mod_order (combine_array z0i z1i);
             gr = eo_mul D zs (eo_mul D 8 g) + eo_mul D cs h;
             hc = eo_blake2s D (eo_compress D g @ hi @ eo_compress D gr)
         in Inr (Some (take 16 hc, ci))))))))))"

section \<open>The protocol\<close>

definition bind_ot :: "'a run option \<Rightarrow> ('a \<Rightarrow> 'b run option) \<Rightarrow> 'b run option" where
  "bind_ot m f = (case m of None \<Rightarrow> None | Some (Inl e) \<Rightarrow> Some (Inl e) | Some (Inr x) \<Rightarrow> f x)"

text \<open>
  The messages in their order, and the four transfers on one extension, the \<open>k\<close>-th with the coins \<open>rnd k\<close>, \<open>seed_s k\<close> and
  \<open>seed_r k\<close>.  The result is the indicator, the items that the receiver gets and its checks.
\<close>

definition sender_malicious_psu1 ::
    "('f::field, 'p::ab_group_add) ed_ops \<Rightarrow> (bytes \<Rightarrow> u64 \<Rightarrow> u64 \<Rightarrow> bytes run option) \<Rightarrow> ('r \<Rightarrow> nat \<Rightarrow> bytes \<times> 'r) \<Rightarrow>
     (bytes \<Rightarrow> 'r) \<Rightarrow> (nat \<Rightarrow> bytes \<Rightarrow> bytes) \<Rightarrow> ((bytes \<times> bytes) list \<Rightarrow> bool list \<Rightarrow> bytes list) \<Rightarrow> bytes \<Rightarrow>
     (bytes \<times> bytes) list \<Rightarrow> (nat \<Rightarrow> nat \<Rightarrow> u8) \<Rightarrow> (nat \<Rightarrow> bytes) \<Rightarrow> (nat \<Rightarrow> bytes) \<Rightarrow> (nat \<Rightarrow> bytes) \<Rightarrow>
     party_sender_1m \<Rightarrow> party_receiver_1m \<Rightarrow> (bytes \<times> bytes) list \<Rightarrow>
     (bool list \<times> bytes list \<times> (bytes \<times> bytes) option list) run option" where
  "sender_malicious_psu1 D tr fill from_seed hash base_ot sb seeds rnd seed_s seed_r raw sender receiver ms =
     bind_ot (Some (
       bind_run (sender_1m_gen D sender) (\<lambda>(points_c, original, original_c).
       bind_run (receiver_1m_gen D receiver) (\<lambda>rc_m1.
       bind_run (receiver_1m_blind D receiver points_c) (\<lambda>(blinded, sender_points).
       bind_run (blind_and_shuffle_1m D sender rc_m1) (\<lambda>sd_m2.
       bind_run (sender_proofs D sender raw points_c original original_c) (\<lambda>proofs.
       Inr (points_c, sender_points, compare_1m blinded sd_m2, proofs))))))))
     (\<lambda>(points_c, sender_points, indicator, proofs).
       let (A, B) = alsz_init base_ot from_seed sb seeds;
           mperp = replicate (s_n sender) (replicate 16 0);
           run = (\<lambda>k A B ms. kos_transfer tr fill from_seed hash (rnd k) (seed_s k) (seed_r k) A B ms indicator)
       in bind_ot (run 0 A B ms) (\<lambda>(A, B, results).
          bind_ot (run 1 A B (zip (map fst proofs) mperp)) (\<lambda>(A, B, c).
          bind_ot (run 2 A B (zip (map (fst \<circ> snd) proofs) mperp)) (\<lambda>(A, B, z0).
          bind_tr (run 3 A B (zip (map (snd \<circ> snd) proofs) mperp)) (\<lambda>(A, B, z1).
          bind_run (map_run (item_check D indicator sender_points points_c results c z0 z1) [0..<s_n sender]) (\<lambda>checks.
          Inr (indicator, results, checks)))))))"

section \<open>What the protocol relies on\<close>

text \<open>
  Scalar multiples as in \<open>Psu_Onesided\<close>, and additive; decompression undoes compression; \<open>inv8\<close> is the inverse of eight; the coordinates
  on the curve have different points; a digest of Blake2s has 32 bytes.
\<close>

definition ed_ops_ok :: "('f::field, 'p::ab_group_add) ed_ops \<Rightarrow> bool" where
  "ed_ops_ok D = (curve_laws (\<lambda>_. True) (eo_mul D) \<and> (\<forall>a b p. eo_mul D a p + eo_mul D b p = eo_mul D (a + b) p) \<and>
     (\<forall>p. eo_decompress D (eo_compress D p) = Some p) \<and> 8 * eo_inv8 D mod group_order = 1 \<and>
     field_ops_ok (eo_field D) \<and> (\<forall>u. on_curve u \<longrightarrow> eo_to_edwards D u \<noteq> None) \<and>
     (\<forall>u v. on_curve u \<and> on_curve v \<and> eo_to_edwards D u = eo_to_edwards D v \<longrightarrow> u = v) \<and>
     (\<forall>b. length (eo_blake2s D b) = 32))"

definition edwards_point :: "('f::field, 'p) ed_ops \<Rightarrow> bytes \<Rightarrow> 'p" where
  "edwards_point D item = the (eo_to_edwards D (hash_to_curve (eo_field D) (eo_digest D) item))"

lemma item_edwards_point: "ed_ops_ok D \<Longrightarrow> item_edwards D item = Inr (edwards_point D item)"
  using field_to_mont_on_curve [of "eo_field D"]
  by (auto simp: ed_ops_ok_def item_edwards_def edwards_point_def hash_to_curve_def split: option.split)

lemma decompress_point_compress [simp]: "ed_ops_ok D \<Longrightarrow> decompress_point D (eo_compress D p) = Inr p"
  by (simp add: ed_ops_ok_def decompress_point_def)

lemma compress_1m_inj: "ed_ops_ok D \<Longrightarrow> eo_compress D p = eo_compress D q \<longleftrightarrow> p = q"
  unfolding ed_ops_ok_def by (metis option.inject)

text \<open>The operations on compressed points are those of \<open>Psu_Onesided\<close> on points.\<close>

lemma edwards_point_inj:
  assumes "ed_ops_ok D" and "digests_apart (eo_field D) (eo_digest D) X" and "x \<in> X" and "y \<in> X"
    and "edwards_point D x = edwards_point D y"
  shows "x = y"
proof -
  let ?h = "hash_to_curve (eo_field D) (eo_digest D)"
  have F: "field_ops_ok (eo_field D)" using assms(1) by (simp add: ed_ops_ok_def)
  have on: "on_curve (?h z)" for z unfolding hash_to_curve_def by (rule field_to_mont_on_curve [OF F])
  have "eo_to_edwards D (?h z) = Some (edwards_point D z)" for z
    using assms(1) on [of z] by (auto simp: ed_ops_ok_def edwards_point_def)
  then have "?h x = ?h y" using assms(1,5) on unfolding ed_ops_ok_def by metis
  then show ?thesis by (rule hash_to_curve_inj [OF F assms(2-4)])
qed

lemma gen_1m:
  assumes "ed_ops_ok D"
  defines "h \<equiv> edwards_point D" and "C \<equiv> eo_compress D"
  shows "sender_1m_gen D S = Inr (map (\<lambda>x. C (mul_clamped (eo_mul D) (s_sk_8 S) (h x))) (chunks_exact 16 (s_input S)),
      map h (chunks_exact 16 (s_input S)), map (\<lambda>x. C (h x)) (chunks_exact 16 (s_input S)))"
    and "receiver_1m_gen D R = Inr (map (\<lambda>x. C (mul_clamped (eo_mul D) (r_sk_8 R) (h x))) (chunks_exact 16 (r_input R)))"
proof -
  let ?X = "chunks_exact 16 (s_input S)"
  have "map_run (\<lambda>item. bind_run (item_edwards D item) (\<lambda>hx.
         let y = mul_clamped (eo_mul D) (s_sk_8 S) hx in Inr (eo_compress D y, hx, eo_compress D hx))) ?X =
     Inr (map (\<lambda>x. (C (mul_clamped (eo_mul D) (s_sk_8 S) (h x)), h x, C (h x))) ?X)"
    by (rule map_run_Inr) (simp add: item_edwards_point [OF assms(1)] C_def h_def)
  then show "sender_1m_gen D S = Inr (map (\<lambda>x. C (mul_clamped (eo_mul D) (s_sk_8 S) (h x))) (chunks_exact 16 (s_input S)),
      map h (chunks_exact 16 (s_input S)), map (\<lambda>x. C (h x)) (chunks_exact 16 (s_input S)))"
    by (simp add: sender_1m_gen_def comp_def)
  show "receiver_1m_gen D R = Inr (map (\<lambda>x. C (mul_clamped (eo_mul D) (r_sk_8 R) (h x))) (chunks_exact 16 (r_input R)))"
    unfolding receiver_1m_gen_def
    by (rule map_run_Inr) (simp add: item_edwards_point [OF assms(1)] C_def h_def)
qed

lemma blind_1m:
  assumes "ed_ops_ok D"
  shows "receiver_1m_blind D R (map (eo_compress D) ps) = Inr (map (eo_compress D) (receiver_blind (eo_mul D) R ps), ps)"
proof -
  have "map_run (\<lambda>b. bind_run (decompress_point D b) (\<lambda>sp. Inr (eo_compress D (eo_mul D (r_sk R) sp), sp))) (map (eo_compress D) ps) =
     Inr (map (\<lambda>p. (eo_compress D (eo_mul D (r_sk R) p), p)) ps)"
    using assms by (induction ps) simp_all
  then show ?thesis by (simp add: receiver_1m_blind_def receiver_blind_def comp_def)
qed

lemma blind_and_shuffle_1m_value:
  assumes "ed_ops_ok D" and "blind_and_shuffle (eo_mul D) S ps = Inr out"
  shows "blind_and_shuffle_1m D S (map (eo_compress D) ps) = Inr (map (eo_compress D) out)"
proof -
  have "map_run (\<lambda>i. bind_run (read_at ps i) (\<lambda>p. Inr (eo_mul D (s_sk S) p))) is = Inr out \<Longrightarrow>
    map_run (\<lambda>i. bind_run (read_at (map (eo_compress D) ps) i) (\<lambda>b. bind_run (decompress_point D b) (\<lambda>p.
       Inr (eo_compress D (eo_mul D (s_sk S) p))))) is = Inr (map (eo_compress D) out)" for "is"
    using assms(1) by (induction "is" arbitrary: out) (auto simp: bind_run_Inr_conv read_at_def split: if_splits)
  with assms(2) show ?thesis by (simp add: blind_and_shuffle_def blind_and_shuffle_1m_def)
qed

lemma compare_1m_value: "ed_ops_ok D \<Longrightarrow> compare_1m (map (eo_compress D) ps) (map (eo_compress D) qs) = compare ps qs"
  by (auto simp: compare_1m_def compare_def compress_1m_inj)

section \<open>The proofs of an honest sender are accepted\<close>

lemma group_order_pos: "0 < group_order" "group_order < 256 ^ 32"
  by (simp_all add: group_order_def)

lemma scalar_sub_add:
  assumes "b' mod group_order = b mod group_order"
  shows "(scalar_sub a b + b') mod group_order = a mod group_order"
proof -
  let ?L = group_order
  have "(scalar_sub a b + b') mod ?L = (a + (?L - b mod ?L) + b mod ?L) mod ?L"
    unfolding scalar_sub_def assms [symmetric] by (simp only: mod_add_left_eq mod_add_right_eq)
  also have "a + (?L - b mod ?L) + b mod ?L = a + ?L"
    using mod_less_divisor [OF group_order_pos(1), of b] by simp
  finally show ?thesis by simp
qed

lemma scalar_round_trip:
  assumes "z < group_order"
  shows "from_bytes_mod_order (combine_array (take 16 (scalar_as_bytes z)) (drop 16 (scalar_as_bytes z))) = z"
proof -
  have "map unat (scalar_as_bytes z) = base_digits 256 32 z"
    using proper_base_digits [of 256 32 z]
    by (auto simp: scalar_as_bytes_def proper_def list_all_iff unat_of_nat intro!: map_idI)
  then have "val 256 (map unat (scalar_as_bytes z)) = z" using assms group_order_pos by (simp add: val_base_digits)
  with assms show ?thesis by (simp add: combine_array_def from_bytes_mod_order_def)
qed

lemma scalar_as_bytes_length: "length (scalar_as_bytes z) = 32"
  by (simp add: scalar_as_bytes_def length_base_digits)

text \<open>\<open>(r - c k) P + c (k P) = r P\<close> for the points and scalars of the code.\<close>

lemma response_point:
  fixes D :: "('f::field, 'p::ab_group_add) ed_ops"
  assumes "ed_ops_ok D" and "length ks = 32" and "length raw = 32"
  defines "sk b \<equiv> from_bytes_mod_order (clamp_integer b) * eo_inv8 D mod group_order"
  shows "eo_mul D (scalar_sub (sk raw) (c * sk ks mod group_order)) (eo_mul D 8 p) +
      eo_mul D c (mul_clamped (eo_mul D) (clamp_integer ks) p) = mul_clamped (eo_mul D) (clamp_integer raw) p"
proof -
  let ?L = group_order and ?q = "eo_mul D 8 p" and ?z = "scalar_sub (sk raw) (c * sk ks mod group_order)"
  have laws: "curve_laws (\<lambda>_. True) (eo_mul D)" and add: "\<And>a b p. eo_mul D a p + eo_mul D b p = eo_mul D (a + b) p"
    and inv: "8 * eo_inv8 D mod ?L = 1" using assms(1) by (simp_all add: ed_ops_ok_def)
  have key: "sk b mod ?L = half_key b mod ?L" if "length b = 32" for b
    using half_key_mod [OF inv that] by (simp add: sk_def)
  have "c * half_key ks mod ?L = (c * sk ks mod ?L) mod ?L" using key [OF assms(2)] by (metis mod_mod_trivial mod_mult_right_eq)
  then have "(?z + c * half_key ks) mod ?L = half_key raw mod ?L"
    using key [OF assms(3)] by (simp add: scalar_sub_add)
  then have "eo_mul D (?z + c * half_key ks) ?q = eo_mul D (half_key raw) ?q"
    using laws unfolding curve_laws_def by blast
  moreover have "eo_mul D c (eo_mul D (half_key ks) ?q) = eo_mul D (c * half_key ks) ?q"
    using laws by (simp add: curve_laws_def mult.assoc)
  ultimately show ?thesis
    using mul_clamped_half [OF laws TrueI assms(2), of p] mul_clamped_half [OF laws TrueI assms(3), of p] by (simp add: add)
qed

lemma item_proof_accepted:
  fixes D :: "('f::field, 'p::ab_group_add) ed_ops"
  assumes ok: "ed_ops_ok D" and len: "length ks = 32" "length raw = 32"
    and S: "s_sk S = from_bytes_mod_order (clamp_integer ks) * eo_inv8 D mod group_order"
    and at: "i < length ind" "\<not> ind ! i" "i < length ps" "i < length pcs" "i < length results" "i < length cs" "i < length z0s" "i < length z1s"
    and item: "results ! i = x" and point: "ps ! i = mul_clamped (eo_mul D) (clamp_integer ks) (edwards_point D x)"
    and pf: "(cs ! i, z0s ! i, z1s ! i) = item_proof D S raw (eo_compress D (edwards_point D x)) (pcs ! i) (edwards_point D x)"
  shows "item_check D ind ps pcs results cs z0s z1s i = Inr (Some (cs ! i, cs ! i))"
proof -
  let ?g = "edwards_point D x"
  define d where "d = eo_blake2s D (eo_compress D ?g @ pcs ! i @ eo_compress D (mul_clamped (eo_mul D) (clamp_integer raw) ?g))"
  define c where "c = from_bytes_mod_order (clear_high_bits d)"
  define z where "z = scalar_sub (from_bytes_mod_order (clamp_integer raw) * eo_inv8 D mod group_order) (c * s_sk S mod group_order)"
  have d: "length d = 32" using ok by (simp add: ed_ops_ok_def d_def)
  have parts: "cs ! i = take 16 d" "z0s ! i = take 16 (scalar_as_bytes z)" "z1s ! i = drop 16 (scalar_as_bytes z)"
    using pf d by (simp_all add: item_proof_def Let_def d_def [symmetric] c_def z_def clear_high_bits_def)
  have "z < group_order" using group_order_pos by (simp add: z_def scalar_sub_def)
  then have zs: "from_bytes_mod_order (combine_array (z0s ! i) (z1s ! i)) = z"
    unfolding parts by (rule scalar_round_trip)
  have cs: "from_bytes_mod_order (set_high_bits (cs ! i)) = c"
    using d by (simp add: parts c_def set_high_bits_def clear_high_bits_def)
  have gr: "eo_mul D z (eo_mul D 8 ?g) + eo_mul D c (ps ! i) = mul_clamped (eo_mul D) (clamp_integer raw) ?g"
    unfolding point z_def S by (rule response_point [OF ok len])
  show ?thesis
    unfolding item_check_def using at item
    by (simp add: read_at_def item_edwards_point [OF ok] zs cs gr Let_def flip: d_def) (simp add: parts)
qed

section \<open>The whole run\<close>

lemma sender_proofs_value:
  assumes "n \<le> length oc" "n \<le> length pc" "n \<le> length ps"
  shows "s_n S = n \<Longrightarrow> sender_proofs D S raw pc ps oc = Inr (map (\<lambda>i. item_proof D S (raw i) (oc ! i) (pc ! i) (ps ! i)) [0..<n])"
  unfolding sender_proofs_def using assms by (auto intro!: map_run_Inr simp: read_at_def)

lemma item_proof_blocks:
  assumes "ed_ops_ok D"
  shows "length (fst (item_proof D S raw oc pc p)) = 16" "length (fst (snd (item_proof D S raw oc pc p))) = 16"
    "length (snd (snd (item_proof D S raw oc pc p))) = 16"
  using assms by (simp_all add: item_proof_def Let_def clear_high_bits_def ed_ops_ok_def scalar_as_bytes_length)

lemma blocks16_zero:
  "\<forall>x\<in>set xs. length x = 16 \<Longrightarrow> blocks16 (zip xs (replicate n (replicate 16 0)))"
  by (auto simp: blocks16_def list_all_iff dest: set_zip_leftD set_zip_rightD)

text \<open>The masked points and the proofs that an honest sender makes for the items \<open>xs\<close>.\<close>

definition masked_points :: "('f::field, 'p) ed_ops \<Rightarrow> bytes \<Rightarrow> bytes list \<Rightarrow> 'p list" where
  "masked_points D ks xs = map (\<lambda>x. mul_clamped (eo_mul D) (clamp_integer ks) (edwards_point D x)) xs"

definition honest_proofs :: "('f::field, 'p) ed_ops \<Rightarrow> party_sender_1m \<Rightarrow> (nat \<Rightarrow> bytes) \<Rightarrow> bytes \<Rightarrow> bytes list \<Rightarrow> (bytes \<times> bytes \<times> bytes) list" where
  "honest_proofs D S raw ks xs =
     map (\<lambda>i. item_proof D S (raw i) (eo_compress D (edwards_point D (xs ! i))) (eo_compress D (masked_points D ks xs ! i))
       (edwards_point D (xs ! i))) [0..<length xs]"

lemma honest_lengths [simp]: "length (masked_points D ks xs) = length xs" "length (honest_proofs D S raw ks xs) = length xs"
  by (simp_all add: masked_points_def honest_proofs_def)

lemma honest_messages:
  fixes D :: "('f::field, 'p::ab_group_add) ed_ops" and m :: nat
  assumes ok: "ed_ops_ok D" and len: "length ks = 32" "length kr = 32"
    and pi: "mset pi = mset [0..<length (chunks_exact 16 input_r)]"
    and free: "no_collision (eo_mul D) (edwards_point D) ks kr (chunks_exact 16 input_s) (chunks_exact 16 input_r)"
  defines "X \<equiv> chunks_exact 16 input_s"
  defines "S \<equiv> sender_1m_new (eo_inv8 D) ks pi input_s (length X)" and "R \<equiv> receiver_1m_new (eo_inv8 D) kr input_r m"
  shows "bind_run (sender_1m_gen D S) (\<lambda>(points_c, original, original_c).
       bind_run (receiver_1m_gen D R) (\<lambda>rc_m1.
       bind_run (receiver_1m_blind D R points_c) (\<lambda>(blinded, sender_points).
       bind_run (blind_and_shuffle_1m D S rc_m1) (\<lambda>sd_m2.
       bind_run (sender_proofs D S raw points_c original original_c) (\<lambda>proofs.
       Inr (points_c, sender_points, compare_1m blinded sd_m2, proofs)))))) =
     Inr (map (eo_compress D) (masked_points D ks X), masked_points D ks X, map (\<lambda>x. x \<in> set (chunks_exact 16 input_r)) X,
       honest_proofs D S raw ks X)"
proof -
  let ?h = "edwards_point D" and ?C = "eo_compress D"
  define ps where "ps = masked_points D ks X"
  have laws: "curve_laws (\<lambda>_. True) (eo_mul D)" "8 * eo_inv8 D mod group_order = 1" using ok by (simp_all add: ed_ops_ok_def)
  let ?Y = "chunks_exact 16 input_r"
  let ?rs = "map (\<lambda>y. mul_clamped (eo_mul D) (clamp_integer kr) (?h y)) ?Y"
  obtain sd where sd: "blind_and_shuffle (eo_mul D) S ?rs = Inr sd"
    and cmp: "compare (receiver_blind (eo_mul D) R ps) sd = map (\<lambda>x. x \<in> set ?Y) X"
    using indicator_marks [OF laws(1) TrueI laws(2) len _ free, of S R] pi
    by (auto simp: S_def R_def sender_1m_new_def receiver_1m_new_def Let_def ps_def masked_points_def X_def)
  have gen: "sender_1m_gen D S = Inr (map ?C ps, map ?h X, map ?C (map ?h X))" "receiver_1m_gen D R = Inr (map ?C ?rs)"
    by (simp_all add: gen_1m [OF ok] S_def R_def sender_1m_new_def receiver_1m_new_def Let_def ps_def masked_points_def X_def comp_def)
  have "sender_proofs D S raw (map ?C ps) (map ?h X) (map ?C (map ?h X)) = Inr (honest_proofs D S raw ks X)"
    using sender_proofs_value [of "length X" "map ?C (map ?h X)" "map ?C ps" "map ?h X" S D raw]
    by (simp add: S_def sender_1m_new_def ps_def honest_proofs_def Let_def cong: map_cong)
  then show ?thesis
    using blind_and_shuffle_1m_value [OF ok sd] cmp
    by (simp add: gen blind_1m [OF ok, of R ps] compare_1m_value [OF ok] flip: ps_def)
qed

text \<open>What the receiver computes for each item, from blocks that the transfers delivered.\<close>

lemma honest_checks:
  fixes D :: "('f::field, 'p::ab_group_add) ed_ops" and pi :: "nat list" and input_s :: bytes and n :: nat
  assumes ok: "ed_ops_ok D" and len: "length ks = 32" "\<And>i. length (raw i) = 32" and ind: "length ind = length X" and i: "i < length X"
  defines "S \<equiv> sender_1m_new (eo_inv8 D) ks pi input_s n" and "z \<equiv> replicate 16 0 :: bytes"
  defines "pf \<equiv> honest_proofs D S raw ks X" and "got xs \<equiv> map2 pick ind (zip xs (replicate (length X) z))"
  shows "item_check D ind (masked_points D ks X) (map (eo_compress D) (masked_points D ks X))
      (map2 pick ind (map (\<lambda>x. (x, z)) X)) (got (map fst pf)) (got (map (fst \<circ> snd) pf)) (got (map (snd \<circ> snd) pf)) i =
    Inr (if ind ! i then None else Some (fst (pf ! i), fst (pf ! i)))"
proof (cases "ind ! i")
  case True
  with i ind show ?thesis by (simp add: item_check_def read_at_def)
next
  case False
  have S: "s_sk S = from_bytes_mod_order (clamp_integer ks) * eo_inv8 D mod group_order" by (simp add: S_def sender_1m_new_def Let_def)
  have pf: "length pf = length X" by (simp add: pf_def)
  have "item_check D ind (masked_points D ks X) (map (eo_compress D) (masked_points D ks X))
      (map2 pick ind (map (\<lambda>x. (x, z)) X)) (got (map fst pf)) (got (map (fst \<circ> snd) pf)) (got (map (snd \<circ> snd) pf)) i =
    Inr (Some (got (map fst pf) ! i, got (map fst pf) ! i))"
    using False i ind pf by (intro item_proof_accepted [OF ok len(1) len(2) [of i] S, of _ _ _ _ _ _ _ _ "X ! i"])
      (simp_all add: pick_def pf_def honest_proofs_def masked_points_def got_def)
  with False i ind pf show ?thesis by (simp add: pick_def got_def)
qed

lemma honest_blocks:
  fixes ks :: bytes and X :: "bytes list"
  assumes "ed_ops_ok D"
  shows "blocks16 (zip (map fst (honest_proofs D S raw ks X)) (replicate n (replicate 16 0)))"
    "blocks16 (zip (map (fst \<circ> snd) (honest_proofs D S raw ks X)) (replicate n (replicate 16 0)))"
    "blocks16 (zip (map (snd \<circ> snd) (honest_proofs D S raw ks X)) (replicate n (replicate 16 0)))"
  by (rule blocks16_zero, auto simp: honest_proofs_def item_proof_blocks [OF assms])+

lemma sender_malicious_run:
  fixes D :: "('f::field, 'p::ab_group_add) ed_ops"
  assumes ok: "ed_ops_ok D" and len: "length ks = 32" "length kr = 32" "\<And>i. length (raw i) = 32"
    and pi: "mset pi = mset [0..<length (chunks_exact 16 input_r)]"
    and free: "no_collision (eo_mul D) (edwards_point D) ks kr (chunks_exact 16 input_s) (chunks_exact 16 input_r)"
    and sync: "\<And>A B. alsz_init base_ot from_seed sb seeds = (A, B) \<Longrightarrow> in_sync A B"
    and ot: "\<And>k A B inputs bs. in_sync A B \<Longrightarrow> length bs = length (chunks_exact 16 input_s) \<Longrightarrow> length inputs = length bs \<Longrightarrow>
      blocks16 inputs \<Longrightarrow> \<exists>A' B'. kos_transfer tr fill from_seed hash (rnd k) (seed_s k) (seed_r k) A B inputs bs =
        Some (Inr (A', B', map2 pick bs inputs)) \<and> in_sync A' B'"
  defines "X \<equiv> chunks_exact 16 input_s"
  defines "ind \<equiv> map (\<lambda>x. x \<in> set (chunks_exact 16 input_r)) X"
  shows "\<exists>checks. sender_malicious_psu1 D tr fill from_seed hash base_ot sb seeds rnd seed_s seed_r raw
      (sender_1m_new (eo_inv8 D) ks pi input_s (length X)) (receiver_1m_new (eo_inv8 D) kr input_r m)
      (map (\<lambda>x. (x, replicate 16 0)) X) =
      Some (Inr (ind, map2 pick ind (map (\<lambda>x. (x, replicate 16 0)) X), checks)) \<and>
    length checks = length X \<and> (\<forall>i<length X. if ind ! i then checks ! i = None else \<exists>c. checks ! i = Some (c, c))"
proof -
  define S where "S = sender_1m_new (eo_inv8 D) ks pi input_s (length X)"
  define pf where "pf = honest_proofs D S raw ks X"
  let ?z = "replicate 16 0 :: bytes"
  let ?ms = "map (\<lambda>x. (x, ?z)) X" and ?zs = "replicate (length X) ?z"
  let ?c = "zip (map fst pf) ?zs" and ?z0 = "zip (map (fst \<circ> snd) pf) ?zs" and ?z1 = "zip (map (snd \<circ> snd) pf) ?zs"
  have n: "s_n S = length X" "length ind = length X" "length pf = length X" by (simp_all add: S_def sender_1m_new_def Let_def ind_def pf_def)
  have ms: "blocks16 ?ms" using chunks_exact_length [of _ 16 input_s] by (auto simp: blocks16_def list_all_iff X_def)
  note pfs = honest_blocks [OF ok, where S = S and raw = raw and ks = ks and X = X and n = "length X", folded pf_def]
  have lens: "length ?ms = length ind" "length ?c = length ind" "length ?z0 = length ind" "length ?z1 = length ind" by (simp_all add: n)
  obtain A0 B0 where init: "alsz_init base_ot from_seed sb seeds = (A0, B0)" by fastforce
  let ?run = "\<lambda>k A B ms. kos_transfer tr fill from_seed hash (rnd k) (seed_s k) (seed_r k) A B ms ind"
  note ot' = ot [where bs = ind, folded X_def, OF _ n(2)]
  obtain A1 B1 where t0: "?run 0 A0 B0 ?ms = Some (Inr (A1, B1, map2 pick ind ?ms))" "in_sync A1 B1"
    using ot' [OF sync [OF init] lens(1) ms] by blast
  obtain A2 B2 where t1: "?run 1 A1 B1 ?c = Some (Inr (A2, B2, map2 pick ind ?c))" "in_sync A2 B2"
    using ot' [OF t0(2) lens(2) pfs(1)] by blast
  obtain A3 B3 where t2: "?run 2 A2 B2 ?z0 = Some (Inr (A3, B3, map2 pick ind ?z0))" "in_sync A3 B3"
    using ot' [OF t1(2) lens(3) pfs(2)] by blast
  obtain A4 B4 where t3: "?run 3 A3 B3 ?z1 = Some (Inr (A4, B4, map2 pick ind ?z1))"
    using ot' [OF t2(2) lens(4) pfs(3)] by blast
  have checks: "map_run (item_check D ind (masked_points D ks X) (map (eo_compress D) (masked_points D ks X)) (map2 pick ind ?ms)
      (map2 pick ind ?c) (map2 pick ind ?z0) (map2 pick ind ?z1)) [0..<length X] =
    Inr (map (\<lambda>i. if ind ! i then None else Some (fst (pf ! i), fst (pf ! i))) [0..<length X])"
    unfolding pf_def S_def by (intro map_run_Inr, rule honest_checks [OF ok len(1,3) n(2)]) simp
  show ?thesis
    using checks init t0(1) t1(1) t2(1) t3 n
      honest_messages [OF ok len(1,2) pi free, of m raw, folded X_def, folded S_def, folded pf_def ind_def]
    unfolding sender_malicious_psu1_def S_def [symmetric]
    by (simp add: bind_ot_def Let_def)
qed

section \<open>The union\<close>

text \<open>
  C39.  The protocol against a malicious sender computes the union with honest parties, through the conversion to Edwards form and
  compression, the blinding and the checked extension, on both builds: it ends without a fault, the indicator marks exactly the sender's items that
  the receiver has, the output of the receiver is the union, and each comparison of the proof of an item that the receiver
  takes over, which the code computes and drops, would succeed.  The keys are invertible modulo the group order (in the code every key is); the digests of
  different items of the two sets are not in the same class, and no two of their points differ in a point of small order.
\<close>

theorem sender_malicious_psu1_union:
  fixes D :: "('f::field, 'p::ab_group_add) ed_ops"
  assumes "ed_ops_ok D" and "length ks = 32" and "length kr = 32" and "\<And>i. length (raw i) = 32"
    and "mset pi = mset [0..<length (chunks_exact 16 input_r)]"
    and "coprime (half_key ks) group_order" and "coprime (half_key kr) group_order"
    and "digests_apart (eo_field D) (eo_digest D) (set (chunks_exact 16 input_s) \<union> set (chunks_exact 16 input_r))"
    and "torsion_apart (eo_mul D) (edwards_point D ` (set (chunks_exact 16 input_s) \<union> set (chunks_exact 16 input_r)))"
    and "fills fill" and "hashes hash"
    and "\<And>ks bs. length ks = length bs \<Longrightarrow> base_ot ks bs = map2 pick bs ks" and "length sb = 16" and "length seeds = 128"
    and "1024 * ((length (chunks_exact 16 input_s) + 7) div 8 + 21) < 2 ^ 64"
    and "tr = transpose_portable \<or> tr = transpose_x86 tmp0"
  shows "\<exists>results checks. sender_malicious_psu1 D tr fill from_seed hash base_ot sb seeds rnd seed_s seed_r raw
      (sender_1m_new (eo_inv8 D) ks pi input_s (length (chunks_exact 16 input_s))) (receiver_1m_new (eo_inv8 D) kr input_r m)
      (map (\<lambda>x. (x, replicate 16 0)) (chunks_exact 16 input_s)) =
      Some (Inr (map (\<lambda>x. x \<in> set (chunks_exact 16 input_r)) (chunks_exact 16 input_s), results, checks)) \<and>
    psu_output (chunks_exact 16 input_r) (map (\<lambda>x. x \<in> set (chunks_exact 16 input_r)) (chunks_exact 16 input_s)) results =
      set (chunks_exact 16 input_s) \<union> set (chunks_exact 16 input_r) \<and>
    length checks = length (chunks_exact 16 input_s) \<and>
    (\<forall>i<length checks. if chunks_exact 16 input_s ! i \<in> set (chunks_exact 16 input_r) then checks ! i = None
       else \<exists>c. checks ! i = Some (c, c))"
proof -
  let ?X = "chunks_exact 16 input_s" and ?Y = "chunks_exact 16 input_r"
  let ?ms = "map (\<lambda>x. (x, replicate 16 0 :: bytes)) ?X" and ?ind = "map (\<lambda>x. x \<in> set ?Y) ?X"
  have laws: "curve_laws (\<lambda>_. True) (eo_mul D)" using assms(1) by (simp add: ed_ops_ok_def)
  have free: "no_collision (eo_mul D) (edwards_point D) ks kr ?X ?Y"
    using no_collision_items [OF laws TrueI assms(6,7,9) edwards_point_inj [OF assms(1,8)]] .
  have ot: "\<exists>A' B'. kos_transfer tr fill from_seed hash (rnd k) (seed_s k) (seed_r k) A B inputs bs =
        Some (Inr (A', B', map2 pick bs inputs)) \<and> in_sync A' B'"
    if "in_sync A B" "length bs = length ?X" "length inputs = length bs" "blocks16 inputs" for k A B inputs bs
    using assms(15,16) that x86.kos_transfer_correct [OF assms(10,11) that(1,3,4)]
      portable.kos_transfer_correct [OF assms(10,11) that(1,3,4)] by auto
  have sync: "in_sync A B" if "alsz_init base_ot from_seed sb seeds = (A, B)" for A B
    using alsz_init_sync [OF assms(12-14) that] .
  have "\<exists>checks. sender_malicious_psu1 D tr fill from_seed hash base_ot sb seeds rnd seed_s seed_r raw
      (sender_1m_new (eo_inv8 D) ks pi input_s (length ?X)) (receiver_1m_new (eo_inv8 D) kr input_r m) ?ms =
      Some (Inr (?ind, map2 pick ?ind ?ms, checks)) \<and>
    length checks = length ?X \<and> (\<forall>i<length ?X. if ?ind ! i then checks ! i = None else \<exists>c. checks ! i = Some (c, c))"
    by (rule sender_malicious_run [OF assms(1-5) free]) (erule sync, erule (3) ot)
  moreover have "psu_output ?Y ?ind (map2 pick ?ind ?ms) = set ?X \<union> set ?Y"
    by (rule psu_output_union) (simp_all add: pick_def)
  ultimately show ?thesis by auto
qed

section \<open>A small instance\<close>

text \<open>The cyclic group of eight times the group order, with the maps of \<open>gf5\<close>; the digest of an item is as long as its first byte says.\<close>

typedef cyclic = "{0..<8 * group_order}"
  by (rule exI [of _ 0]) (simp add: group_order_def)

setup_lifting type_definition_cyclic

instantiation cyclic :: ab_group_add
begin
lift_definition zero_cyclic :: cyclic is 0 by (simp add: group_order_def)
lift_definition plus_cyclic :: "cyclic \<Rightarrow> cyclic \<Rightarrow> cyclic" is "\<lambda>a b. (a + b) mod (8 * group_order)" by (simp add: group_order_def)
lift_definition uminus_cyclic :: "cyclic \<Rightarrow> cyclic" is "\<lambda>a. (8 * group_order - a) mod (8 * group_order)" by (simp add: group_order_def)
definition minus_cyclic :: "cyclic \<Rightarrow> cyclic \<Rightarrow> cyclic" where "minus_cyclic a b = a + - b"
instance
proof
  fix a b c :: cyclic
  show "a + b + c = a + (b + c)" by transfer (simp add: mod_simps ac_simps)
  show "a + b = b + a" by transfer (simp add: ac_simps)
  show "0 + a = a" by transfer simp
  show "- a + a = 0" by transfer (simp add: mod_simps)
  show "a - b = a + - b" by (simp add: minus_cyclic_def)
qed
end

lift_definition cyclic_mul :: "nat \<Rightarrow> cyclic \<Rightarrow> cyclic" is "\<lambda>a p. a * p mod (8 * group_order)" by (simp add: group_order_def)
lift_definition cyclic_of :: "nat \<Rightarrow> cyclic" is "\<lambda>a. a mod (8 * group_order)" by (simp add: group_order_def)
lift_definition cyclic_nat :: "cyclic \<Rightarrow> nat" is "\<lambda>a. a" .

definition small_ed_ops :: "(gf5, cyclic) ed_ops" where
  "small_ed_ops = \<lparr>eo_field = gf5_ops, eo_digest = hd_digest, eo_to_edwards = (\<lambda>u. Some (cyclic_of (gf5_nat u))),
     eo_mul = cyclic_mul, eo_compress = (\<lambda>p. scalar_as_bytes (cyclic_nat p)),
     eo_decompress = (\<lambda>b. Some (cyclic_of (val 256 (map unat b)))),
     eo_blake2s = (\<lambda>b. take 32 (b @ replicate 32 0)), eo_inv8 = (3 * group_order + 1) div 8\<rparr>"

lemma cyclic_laws: "curve_laws (\<lambda>_. True) cyclic_mul" "cyclic_mul a p + cyclic_mul b p = cyclic_mul (a + b) p"
proof -
  have nat: "cyclic_mul a p = cyclic_of (a * cyclic_nat p)" for a p by transfer simp
  have "cyclic_mul a (cyclic_mul b p) = cyclic_mul (a * b) p" for a b p
    by transfer (simp add: mod_simps mult.assoc)
  moreover have "cyclic_mul a (cyclic_mul 8 p) = cyclic_mul b (cyclic_mul 8 p)" if "a mod group_order = b mod group_order" for a b p
    using that scalar_action_laws unfolding curve_laws_def by transfer blast
  ultimately show "curve_laws (\<lambda>_. True) cyclic_mul" unfolding curve_laws_def by blast
  show "cyclic_mul a p + cyclic_mul b p = cyclic_mul (a + b) p"
    by transfer (simp add: mod_simps add_mult_distrib)
qed

lemma cyclic_of_gf5: "cyclic_of (gf5_nat u) = cyclic_of (gf5_nat v) \<Longrightarrow> u = v"
proof -
  assume eq: "cyclic_of (gf5_nat u) = cyclic_of (gf5_nat v)"
  have "gf5_nat w < 8 * group_order" for w by (cases w) (simp_all add: group_order_def)
  then have "cyclic_nat (cyclic_of (gf5_nat w)) = gf5_nat w" for w by (simp add: cyclic_of.rep_eq cyclic_nat.rep_eq)
  with eq have "gf5_nat u = gf5_nat v" by metis
  then show "u = v" by (cases u; cases v; simp)
qed

lemma small_ed_ops_ok: "ed_ops_ok small_ed_ops"
proof -
  have "cyclic_of (val 256 (map unat (scalar_as_bytes (cyclic_nat p)))) = p" for p
  proof -
    have "cyclic_nat p < 256 ^ 32" by transfer (simp add: group_order_def)
    moreover have "map unat (scalar_as_bytes z) = base_digits 256 32 z" for z
      using proper_base_digits [of 256 32 z]
      by (auto simp: scalar_as_bytes_def proper_def list_all_iff unat_of_nat intro!: map_idI)
    moreover have "cyclic_of (cyclic_nat p) = p" by transfer simp
    ultimately show ?thesis by (simp add: val_base_digits)
  qed
  moreover have "8 * ((3 * group_order + 1) div 8) mod group_order = 1" by (simp add: group_order_def)
  ultimately show ?thesis
    using cyclic_laws gf5_ops_ok cyclic_of_gf5 by (auto simp: ed_ops_ok_def small_ed_ops_def)
qed

lemma small_points: "edwards_point small_ed_ops (replicate 16 0) = cyclic_of 0" "edwards_point small_ed_ops (replicate 16 1) = cyclic_of 1"
  by (simp_all add: edwards_point_def small_ed_ops_def gf5_items)

theorem sender_malicious_psu1_union_witness:
  "\<exists>results c. sender_malicious_psu1 small_ed_ops (transpose_x86 0) (\<lambda>seed n. (replicate n (seed :: u8), seed + 1)) hd (\<lambda>j q. q)
      (\<lambda>ks bs. map2 pick bs ks) (replicate 16 77) (replicate 128 ([3], [1])) (\<lambda>k. of_nat) (\<lambda>k. replicate 16 9) (\<lambda>k. replicate 16 4)
      (\<lambda>i. replicate 32 0)
      (sender_1m_new (eo_inv8 small_ed_ops) (replicate 32 0) [0] (replicate 16 0 @ replicate 16 1) 2)
      (receiver_1m_new (eo_inv8 small_ed_ops) (replicate 32 0) (replicate 16 0) 1)
      [(replicate 16 0, replicate 16 0), (replicate 16 1, replicate 16 0)] =
      Some (Inr ([True, False], results, [None, Some (c, c)])) \<and>
    psu_output [replicate 16 0] [True, False] results = {replicate 16 0, replicate 16 1}"
proof -
  let ?k = "replicate 32 (0 :: u8)"
  have X: "chunks_exact 16 (replicate 16 0 @ replicate 16 1 :: bytes) = [replicate 16 0, replicate 16 1]"
    and Y: "chunks_exact 16 (replicate 16 0 :: bytes) = [replicate 16 0]"
    by (simp_all add: chunks_exact.simps)
  have distinct: "replicate 16 1 \<noteq> (replicate 16 0 :: bytes)" by (simp add: eval_nat_numeral)
  have mul: "eo_mul small_ed_ops = cyclic_mul" by (simp add: small_ed_ops_def)
  have set: "set [replicate 16 0, replicate 16 1] \<union> set [replicate 16 0] = {replicate 16 0, replicate 16 1 :: bytes}" by auto
  have "cyclic_nat (cyclic_mul 8 (cyclic_of 0)) \<noteq> cyclic_nat (cyclic_mul 8 (cyclic_of 1))"
    by transfer (simp add: group_order_numeral)
  then have "cyclic_mul 8 (cyclic_of 0) \<noteq> cyclic_mul 8 (cyclic_of 1)" by metis
  then have torsion: "torsion_apart (eo_mul small_ed_ops) (edwards_point small_ed_ops ` {replicate 16 0, replicate 16 1})"
    unfolding torsion_apart_def mul by (auto simp: small_points)
  have digests: "digests_apart (eo_field small_ed_ops) (eo_digest small_ed_ops) {replicate 16 0, replicate 16 1}"
    using gf5_apart by (simp add: small_ed_ops_def)
  have fh: "fills (\<lambda>seed n. (replicate n seed, seed + 1 :: u8))" "hashes (\<lambda>j q. q)"
    by (simp_all add: fills_def hashes_def)
  have ind: "map (\<lambda>x. x \<in> set [replicate 16 0]) [replicate 16 0, replicate 16 (1 :: u8)] = [True, False]"
    using distinct by simp
  have two: "length [replicate 16 0, replicate 16 1 :: bytes] = 2" by simp
  note union = sender_malicious_psu1_union [of small_ed_ops ?k ?k "\<lambda>i. ?k" "[0]" "replicate 16 0" "replicate 16 0 @ replicate 16 1" _ _
      "\<lambda>ks bs. map2 pick bs ks" "replicate 16 77" "replicate 128 ([3], [1])" "transpose_x86 0" 0 hd "\<lambda>k. of_nat" "\<lambda>k. replicate 16 9"
      "\<lambda>k. replicate 16 4" 1, unfolded X Y ind two set, OF small_ed_ops_ok _ _ _ _ unit_keys(2) unit_keys(2) digests torsion fh]
  obtain results checks where "sender_malicious_psu1 small_ed_ops (transpose_x86 0) (\<lambda>seed n. (replicate n (seed :: u8), seed + 1)) hd (\<lambda>j q. q)
    (\<lambda>ks bs. map2 pick bs ks) (replicate 16 77) (replicate 128 ([3], [1])) (\<lambda>k. of_nat) (\<lambda>k. replicate 16 9) (\<lambda>k. replicate 16 4)
    (\<lambda>i. ?k) (sender_1m_new (eo_inv8 small_ed_ops) ?k [0] (replicate 16 0 @ replicate 16 1) 2)
    (receiver_1m_new (eo_inv8 small_ed_ops) ?k (replicate 16 0) 1)
    [(replicate 16 0, replicate 16 0), (replicate 16 1, replicate 16 0)] = Some (Inr ([True, False], results, checks))"
    and out: "psu_output [replicate 16 0] [True, False] results = {replicate 16 0, replicate 16 1}"
    and checks: "length checks = 2" "\<forall>i<2. if [replicate 16 0, replicate 16 1] ! i \<in> set [replicate 16 (0 :: u8)] then checks ! i = None
       else \<exists>c. checks ! i = Some (c, c)"
    using union by auto
  moreover obtain c0 c1 where "checks = [c0, c1]" using checks(1) by (auto simp: length_Suc_conv eval_nat_numeral)
  moreover have "c0 = None" "\<exists>c. c1 = Some (c, c)"
    using checks(2) [rule_format, of 0] checks(2) [rule_format, of 1] distinct calculation by simp_all
  ultimately show ?thesis by auto
qed

end
