(* ===== verification/Psu_Setup.thy ===== *)
theory Psu_Setup
  imports Psu_Twosided_Correct Psu_Sender_Malicious
begin

text \<open>
  What surrounds the protocols: the public parameters and the parsing of sizes in \<^verbatim>\<open>src/aok.rs\<close>, the generation of inputs in
  \<^verbatim>\<open>src/twosided.rs\<close>, and the single transfer of \<^verbatim>\<open>src/otext.rs\<close>.  The last section composes them with the two-sided protocol and the
  check of its result, as the program is run.
\<close>

section \<open>Public parameters\<close>

text \<open>The global \<open>PP\<close> is empty (\<open>None\<close>) or set once; setting it again, or reading it before, is a panic.\<close>

definition setup_params :: "('s, 'g) curve \<Rightarrow> (nat \<Rightarrow> 's) \<Rightarrow> nat \<Rightarrow> 'g list option \<Rightarrow> 'g list option run" where
  "setup_params C rnd n PP =
     (let f = map (\<lambda>i. mul_base C (rnd i)) [0..<n]
      in case PP of None \<Rightarrow> Inr (Some f) | Some _ \<Rightarrow> Inl Panic)"

definition pub_params :: "'g list option \<Rightarrow> 'g list run" where
  "pub_params PP = (case PP of Some f \<Rightarrow> Inr f | None \<Rightarrow> Inl Panic)"

definition commit_determ :: "('s, 'g::ab_group_add) curve \<Rightarrow> 'g list \<Rightarrow> 's list \<Rightarrow> 'g run" where
  "commit_determ C pp m = multiscalar_mul C m pp"

section \<open>Sizes\<close>

text \<open>Strings are ASCII here; \<open>u32_from_str\<close> is \<open>u32::from_str_radix\<close>, which takes a leading plus and fails on an overflow.\<close>

definition is_whitespace :: "char \<Rightarrow> bool" where
  "is_whitespace c = ((of_char c :: nat) \<in> {9, 10, 11, 12, 13, 32})"

definition trim :: "string \<Rightarrow> string" where
  "trim s = rev (dropWhile is_whitespace (rev (dropWhile is_whitespace s)))"

definition strip_prefix :: "string \<Rightarrow> string \<Rightarrow> string option" where
  "strip_prefix p s = (if take (length p) s = p then Some (drop (length p) s) else None)"

definition to_digit :: "nat \<Rightarrow> char \<Rightarrow> nat option" where
  "to_digit radix c =
     (let k = of_char c :: nat;
          d = (if 48 \<le> k \<and> k \<le> 57 then k - 48 else if 97 \<le> k \<and> k \<le> 122 then k - 87 else if 65 \<le> k \<and> k \<le> 90 then k - 55 else radix)
      in if d < radix then Some d else None)"

fun parse_digits :: "nat \<Rightarrow> nat \<Rightarrow> string \<Rightarrow> nat option" where
  "parse_digits radix acc [] = Some acc"
| "parse_digits radix acc (c # cs) =
     (case to_digit radix c of
        None \<Rightarrow> None
      | Some d \<Rightarrow> let acc = acc * radix + d in if acc < 2 ^ 32 then parse_digits radix acc cs else None)"

definition u32_from_str :: "nat \<Rightarrow> string \<Rightarrow> nat option" where
  "u32_from_str radix s =
     (case s of [] \<Rightarrow> None
      | c # cs \<Rightarrow> if c = CHR ''+'' then if cs = [] then None else parse_digits radix 0 cs else parse_digits radix 0 s)"

definition parse_power_or_letter :: "string \<Rightarrow> string + nat" where
  "parse_power_or_letter s =
     (case strip_prefix ''2^'' s of
        Some expo \<Rightarrow>
          (case u32_from_str 10 (trim expo) of
             None \<Rightarrow> Inl ''bad exponent''
           | Some expo \<Rightarrow> if expo < 32 then Inr (2 ^ expo) else Inl ''exponent too large for u32'')
      | None \<Rightarrow>
          (case (case strip_prefix ''0x'' (trim s) of Some hex \<Rightarrow> u32_from_str 16 hex | None \<Rightarrow> u32_from_str 10 (trim s)) of
             None \<Rightarrow> Inl ''not a valid integer''
           | Some n \<Rightarrow> Inr n))"

section \<open>Inputs\<close>

text \<open>
  \<open>blk k\<close> is the \<open>k\<close>-th block that \<open>gen_block\<close> draws, \<open>shuf 0\<close> and \<open>shuf 1\<close> are the two shuffles; \<open>in_range\<close> tells whether the percentage is between
  zero and one, and \<open>rounded\<close> is the rounded share of \<open>n\<close> that the code computes in \<open>f32\<close>.
\<close>

definition generate_input :: "(nat \<Rightarrow> bytes) \<Rightarrow> (nat \<Rightarrow> bytes list \<Rightarrow> bytes list) \<Rightarrow> bool \<Rightarrow> nat \<Rightarrow> nat \<Rightarrow> (bytes \<times> bytes) run" where
  "generate_input blk shuf in_range rounded n =
     bind_run (guard_run in_range) (\<lambda>_.
       let common_count = min rounded n;
           unique_v = n - common_count;
           unique_w = n - common_count;
           common = map blk [0..<common_count];
           v_blocks = common @ map (\<lambda>k. blk (common_count + k)) [0..<unique_v];
           w_blocks = common @ map (\<lambda>k. blk (common_count + unique_v + k)) [0..<unique_w]
       in Inr (concat (shuf 0 v_blocks), concat (shuf 1 w_blocks)))"

section \<open>One transfer\<close>

text \<open>
  \<open>otext\<close> for any extension: both ends are initialised, and the sender's pairs are transferred.  The result of \<open>init\<close> is the two
  parties after the base transfer.
\<close>

definition otext ::
    "'s \<times> 'r \<Rightarrow> ('s \<Rightarrow> 'r \<Rightarrow> (bytes \<times> bytes) list \<Rightarrow> bool list \<Rightarrow> ('s \<times> 'r \<times> bytes list) run option) \<Rightarrow> bool list \<Rightarrow>
     (bytes \<times> bytes) list \<Rightarrow> bytes list run option" where
  "otext init transfer bs ms = (case init of (S, R) \<Rightarrow> bind_tr (transfer S R ms bs) (\<lambda>(S, R, results). Inr results))"

text \<open>
  The interface of the extensions: from parties in step a transfer of admissible inputs delivers the chosen blocks and leaves
  the parties in step.
\<close>

locale ot_extension =
  fixes transfer :: "'s \<Rightarrow> 'r \<Rightarrow> (bytes \<times> bytes) list \<Rightarrow> bool list \<Rightarrow> ('s \<times> 'r \<times> bytes list) run option"
    and step_ok :: "'s \<Rightarrow> 'r \<Rightarrow> bool" and admissible :: "(bytes \<times> bytes) list \<Rightarrow> bool list \<Rightarrow> bool"
  assumes delivers: "step_ok S R \<Longrightarrow> admissible ms bs \<Longrightarrow>
    \<exists>S' R'. transfer S R ms bs = Some (Inr (S', R', map2 pick bs ms)) \<and> step_ok S' R'"
begin

lemma otext_delivers:
  assumes "step_ok (fst init) (snd init)" and "admissible ms bs"
  shows "otext init transfer bs ms = Some (Inr (map2 pick bs ms))"
  using delivers [OF assms] by (auto simp: otext_def split_beta)

end

definition alsz_admissible :: "('r \<Rightarrow> nat \<Rightarrow> bytes \<times> 'r) \<Rightarrow> (nat \<Rightarrow> bytes \<Rightarrow> bytes) \<Rightarrow> (bytes \<times> bytes) list \<Rightarrow> bool list \<Rightarrow> bool" where
  "alsz_admissible fill hash ms bs = (fills fill \<and> hashes hash \<and> length ms = length bs \<and> blocks16 ms \<and> 0 < length bs \<and>
     1024 * ((length bs + 7) div 8) < 2 ^ 64)"

definition kos_admissible :: "('r \<Rightarrow> nat \<Rightarrow> bytes \<times> 'r) \<Rightarrow> (nat \<Rightarrow> bytes \<Rightarrow> bytes) \<Rightarrow> (bytes \<times> bytes) list \<Rightarrow> bool list \<Rightarrow> bool" where
  "kos_admissible fill hash ms bs = (fills fill \<and> hashes hash \<and> length ms = length bs \<and> blocks16 ms \<and>
     1024 * ((length bs + 7) div 8 + 21) < 2 ^ 64)"

interpretation alsz_ot: ot_extension "alsz_transfer (transpose_x86 tmp0) fill hash" in_sync "alsz_admissible fill hash" for tmp0 fill hash
  by unfold_locales (unfold alsz_admissible_def, elim conjE, rule x86.transfer_correct)

interpretation kos_ot: ot_extension "kos_transfer (transpose_x86 tmp0) fill from_seed hash rnd seed_s seed_r" in_sync "kos_admissible fill hash"
  for tmp0 fill from_seed hash rnd seed_s seed_r
  by unfold_locales (unfold kos_admissible_def, elim conjE, rule x86.kos_transfer_correct)

section \<open>The generated inputs\<close>

lemma generate_input_items:
  assumes len: "\<forall>k. length (blk k) = 16" and shuf: "\<And>k xs. mset (shuf k xs) = mset xs"
    and gen: "generate_input blk shuf True rounded n = Inr (v, w)"
  defines "c \<equiv> min rounded n"
  shows "length (chunks_exact 16 v) = n" and "length (chunks_exact 16 w) = n" and "length v mod 16 = 0" and "length w mod 16 = 0"
    and "set (chunks_exact 16 v) = blk ` {..<n}" and "set (chunks_exact 16 w) = blk ` ({..<c} \<union> {n..<n + (n - c)})"
proof -
  let ?v = "map blk [0..<c] @ map (\<lambda>k. blk (c + k)) [0..<n - c]"
  let ?w = "map blk [0..<c] @ map (\<lambda>k. blk (c + (n - c) + k)) [0..<n - c]"
  have c: "c \<le> n" by (simp add: c_def)
  have vw: "v = concat (shuf 0 ?v)" "w = concat (shuf 1 ?w)"
    using gen by (simp_all add: generate_input_def Let_def c_def)
  have sets: "set (shuf k xs) = set xs" "length (shuf k xs) = length xs" for k xs
    using shuf [of k xs] by (metis set_mset_mset, metis size_mset)
  have "\<forall>x\<in>set (shuf 0 ?v). length x = 16" "\<forall>x\<in>set (shuf 1 ?w). length x = 16" using len by (auto simp: sets)
  then have chunks: "chunks_exact 16 v = shuf 0 ?v" "chunks_exact 16 w = shuf 1 ?w" and "length v mod 16 = 0" "length w mod 16 = 0"
    unfolding vw by (simp_all add: chunks_exact_concat length_concat_mod)
  then show "length v mod 16 = 0" "length w mod 16 = 0" by simp_all
  show "length (chunks_exact 16 v) = n" "length (chunks_exact 16 w) = n" using c by (simp_all add: chunks sets)
  have shift: "(\<lambda>k. blk (a + k)) ` {0..<m} = blk ` {a..<a + m}" for a m
    using image_image [of blk "(+) a" "{0..<m}"] by (simp add: add.commute)
  show "set (chunks_exact 16 v) = blk ` {..<n}"
    using c by (simp add: chunks sets shift ivl_disj_un image_Un [symmetric] lessThan_atLeast0)
  show "set (chunks_exact 16 w) = blk ` ({..<c} \<union> {n..<n + (n - c)})"
    using c by (simp add: chunks sets shift image_Un lessThan_atLeast0)
qed

lemma generated_difference:
  assumes "inj_on blk {..<2 * n}" and "c \<le> n"
  shows "card (blk ` ({..<c} \<union> {n..<n + (n - c)}) - blk ` {..<n}) = n - c"
proof -
  have "blk ` ({..<c} \<union> {n..<n + (n - c)}) - blk ` {..<n} = blk ` (({..<c} \<union> {n..<n + (n - c)}) - {..<n})"
    using assms(2) by (intro inj_on_image_set_diff [OF assms(1), symmetric]) auto
  also have "({..<c} \<union> {n..<n + (n - c)}) - {..<n} = {n..<n + (n - c)}" using assms(2) by auto
  also have "card (blk ` {n..<n + (n - c)}) = n - c"
    using assms(2) by (subst card_image [OF inj_on_subset [OF assms(1)]]) auto
  finally show ?thesis .
qed

section \<open>Sizes are read back\<close>

definition digit_char :: "nat \<Rightarrow> char" where
  "digit_char d = char_of (48 + d)"

lemma to_digit_char: "d < 10 \<Longrightarrow> to_digit 10 (digit_char d) = Some d"
  by (simp add: to_digit_def digit_char_def Let_def)

lemma decimal_grows: "a \<le> foldl (\<lambda>a d. a * 10 + d) a (ds :: nat list)"
proof (induction ds arbitrary: a)
  case (Cons d ds)
  from Cons [of "a * 10 + d"] show ?case by simp
qed simp

lemma parse_digits_decimal:
  "\<forall>d\<in>set ds. d < 10 \<Longrightarrow> foldl (\<lambda>a d. a * 10 + d) acc ds < 2 ^ 32 \<Longrightarrow>
    parse_digits 10 acc (map digit_char ds) = Some (foldl (\<lambda>a d. a * 10 + d) acc ds)"
proof (induction ds arbitrary: acc)
  case (Cons d ds)
  have "acc * 10 + d < 2 ^ 32" using Cons.prems(2) decimal_grows [of "acc * 10 + d" ds] by simp
  with Cons show ?case by (simp add: to_digit_char)
qed simp

lemma digit_char_code: "d < 10 \<Longrightarrow> of_char (digit_char d) = 48 + (d :: nat)"
  by (simp add: digit_char_def)

text \<open>A decimal number below \<open>2 ^ 32\<close> is read back, and a power of two from its exponent.\<close>

lemma parse_decimal:
  assumes ds: "ds \<noteq> []" "\<forall>d\<in>set ds. d < 10" and "foldl (\<lambda>a d. a * 10 + d) 0 ds < 2 ^ 32"
  shows "parse_power_or_letter (map digit_char ds) = Inr (foldl (\<lambda>a d. a * 10 + d) 0 ds)"
proof -
  have space: "\<not> is_whitespace (digit_char d)" if "d < 10" for d using that by (simp add: is_whitespace_def digit_char_code)
  have neq: "digit_char d \<noteq> c" if "d < 10" "(of_char c :: nat) < 48 \<or> 57 < (of_char c :: nat)" for d c
    using digit_char_code [OF that(1)] that by auto
  have "dropWhile is_whitespace (map digit_char xs) = map digit_char xs" if "\<forall>d\<in>set xs. d < 10" for xs
    using that space by (cases xs) simp_all
  from this [of ds] this [of "rev ds"] have trim: "trim (map digit_char ds) = map digit_char ds"
    using ds(2) by (simp add: trim_def rev_map)
  have caret: "digit_char d \<noteq> CHR ''^''" and x: "digit_char d \<noteq> CHR ''x''" and plus: "digit_char d \<noteq> CHR ''+''" if "d < 10" for d
    using neq [OF that] by simp_all
  have "strip_prefix ''2^'' (map digit_char ds) = None" "strip_prefix ''0x'' (map digit_char ds) = None"
    using ds caret x by (cases ds; cases "tl ds"; auto simp: strip_prefix_def)+
  moreover have "u32_from_str 10 (map digit_char ds) = parse_digits 10 0 (map digit_char ds)"
    using ds(1,2) plus by (auto simp: u32_from_str_def neq_Nil_conv)
  ultimately show ?thesis
    using parse_digits_decimal [OF ds(2) assms(3)] by (simp add: parse_power_or_letter_def trim)
qed

section \<open>The program as it is run\<close>

text \<open>\<open>otext\<close> over either extension, on the x86-64 build.\<close>

lemma otext_extensions:
  assumes "in_sync S R"
  shows "alsz_admissible fill hash ms bs \<Longrightarrow>
      otext (S, R) (alsz_transfer (transpose_x86 tmp0) fill hash) bs ms = Some (Inr (map2 pick bs ms))"
    and "kos_admissible fill hash ms bs \<Longrightarrow>
      otext (S, R) (kos_transfer (transpose_x86 tmp0) fill from_seed hash rnd seed_s seed_r) bs ms = Some (Inr (map2 pick bs ms))"
  using assms by (auto intro: alsz_ot.otext_delivers kos_ot.otext_delivers)

text \<open>
  C17.  The program as its driver runs it, from the generated inputs to the check of the result: with inputs of \<open>n\<close> items from \<open>generate_input\<close> for
  any share of common items, parameters set up once, a client with the first input and a server with the second, every run of
  the two-sided protocol ends, whatever the order of reads and writes; \<open>malicious_psu2\<close> returns an output that \<open>correctness_check\<close>
  accepts, and if the drawn blocks are distinct the output has as many different items as the second input has of its own.
  As in C30 the keys and the challenges that the verifiers divide by are invertible modulo the group order, and the generated items are recognisable.
\<close>

theorem psu2_end_to_end:
  assumes "\<forall>k. length (blk k) = 16" and "\<And>k xs. mset (shuf k xs) = mset xs"
    and "generate_input blk shuf True rounded n = Inr (input_v, input_w)"
    and "setup_params (ed_curve E) rnd n None = Inr PP" and "pub_params PP = Inr pp"
    and "edwards_ok E sub" and "1 < n" and "n \<le> 2 ^ 32"
    and "length (sc_raw NL) = 32" and "\<forall>i<n. sc_pick NL i \<le> i" and "length (sc_raw NR) = 32" and "\<forall>i<n. sc_pick NR i \<le> i"
    and "invertible (ed_curve E) (sc_from_bytes (ed_curve E) (clamp_integer (sc_raw NL)) * sc_invert (ed_curve E) 8)"
    and "invertible (ed_curve E) (sc_from_bytes (ed_curve E) (clamp_integer (sc_raw NR)) * sc_invert (ed_curve E) 8)"
    and "party_new E aes NL False input_v aes_key pp n n = Inr L" and "party_new E aes NR True input_w aes_key pp n n = Inr R"
    and "aes_ok aes" and "length aes_key = 16"
    and "\<forall>x\<in>set (chunks_exact 16 input_v) \<union> set (chunks_exact 16 input_w). recognisable E sub (feistel_new aes aes_key) x"
    and "invertible (ed_curve E) (stage_challenge (ed_curve E) R (fst (sync_run E pp RR RL R L 2)))"
    and "invertible (ed_curve E) (stage_challenge (ed_curve E) L (snd (sync_run E pp RR RL R L 2)))"
  shows "\<exists>recovered. (\<exists>w. (psu_step E pp RR RL R L)\<^sup>*\<^sup>* (psu_start E R L) w \<and> psu_ended R L w) \<and>
    (\<forall>w. (psu_step E pp RR RL R L)\<^sup>*\<^sup>* (psu_start E R L) w \<and> psu_ended R L w \<longrightarrow>
      malicious_psu2_out (e_st (snd w)) (e_st (fst w)) = Inr recovered) \<and>
    correctness_check input_v input_w recovered = Inr True \<and>
    (inj_on blk {..<2 * n} \<longrightarrow> card (set (chunks_exact 16 recovered)) = n - min rounded n)"
proof -
  note gen = generate_input_items [OF assms(1-3)]
  have pp: "length pp = n" using assms(4,5) by (auto simp: setup_params_def pub_params_def Let_def)
  have rec: "\<forall>x\<in>set (chunks_exact 16 input_w) \<union> set (chunks_exact 16 input_v). recognisable E sub (feistel_new aes aes_key) x"
    using assms(19) by blast
  note r = psu2_results [OF assms(6-8) pp assms(11,12,9,10,14,13) gen(2,1) assms(16,15,17,18) rec assms(20,21)]
  let ?out = "output_of n L R"
  have "correctness_check input_v input_w (output_of n L R) = Inr True"
    using gen(3,4) r(6) r(4) by (simp add: correctness_check_def check_loop_iff)
  moreover have "inj_on blk {..<2 * n} \<longrightarrow> card (set (chunks_exact 16 ?out)) = n - min rounded n"
    unfolding r(4) gen(5,6) using generated_difference [of blk n "min rounded n"] by simp
  ultimately show ?thesis using r(1,2) by (intro exI [of _ ?out]) blast
qed

theorem psu2_end_to_end_witness:
  "\<exists>L R recovered w. small_new False 2 = Inr L \<and> small_new True 4 = Inr R \<and>
    generate_input (\<lambda>k. replicate 16 (of_nat (2 ^ k))) (\<lambda>k xs. xs) True 1 2 = Inr (small_input 2, small_input 4) \<and>
    (psu_step small_edwards [1, 1] small_run small_run R L)\<^sup>*\<^sup>* (psu_start small_edwards R L) w \<and> psu_ended R L w \<and>
    malicious_psu2_out (e_st (snd w)) (e_st (fst w)) = Inr recovered \<and>
    correctness_check (small_input 2) (small_input 4) recovered = Inr True \<and> card (set (chunks_exact 16 recovered)) = 1"
proof -
  let ?E = small_edwards and ?sub = "id :: 7 \<Rightarrow> 7" and ?R = small_run
  let ?blk = "\<lambda>k. replicate 16 (of_nat (2 ^ k)) :: bytes" and ?shuf = "\<lambda>(k :: nat) (xs :: bytes list). xs"
  obtain L where L: "small_new False 2 = Inr L" "party_ok ?E ?sub [1, 1] 2 L" "p_permut L = feistel_new toy_aes (replicate 16 0)"
    using small_party by blast
  obtain R where R: "small_new True 4 = Inr R" "party_ok ?E ?sub [1, 1] 2 R" using small_party by blast
  have key16: "length (replicate 16 (0 :: u8)) = 16" by simp
  have curve: "ed_curve ?E = seven_curve" by (simp add: small_edwards_def)
  note ch = small_challenge [OF R(2) L(2) small_edwards_ok, folded curve, of ?R ?R]
  have coins: "length (sc_raw small_coins) = 32" "\<forall>i<2. sc_pick small_coins i \<le> i" by (simp_all add: small_coins_def)
  have two: "1 < (2 :: nat)" "(2 :: nat) \<le> 2 ^ 32" by simp_all
  have gen: "generate_input ?blk ?shuf True 1 2 = Inr (small_input 2, small_input 4)"
    by (simp add: generate_input_def small_input_def Let_def upt_rec)
  have setup_ok: "setup_params (ed_curve ?E) (\<lambda>i. 1) 2 None = Inr (Some [1, 1])" "pub_params (Some [1, 1 :: 7]) = Inr [1, 1]"
    by (simp_all add: setup_params_def pub_params_def curve mul_base_def seven_curve_def upt_rec)
  have inj: "inj_on ?blk {..<2 * 2}"
  proof -
    have "{..<2 * 2} = {0, 1, 2, 3 :: nat}" by auto
    then show ?thesis by (simp add: inj_on_def)
  qed
  from psu2_end_to_end [of ?blk ?shuf, OF _ _ gen setup_ok small_edwards_ok two coins coins small_key_invertible small_key_invertible
      L(1) [unfolded small_new_def] R(1) [unfolded small_new_def] toy_aes_ok key16 small_items_recognisable ch]
  obtain recovered where "\<exists>w. (psu_step ?E [1, 1] ?R ?R R L)\<^sup>*\<^sup>* (psu_start ?E R L) w \<and> psu_ended R L w"
    and "\<forall>w. (psu_step ?E [1, 1] ?R ?R R L)\<^sup>*\<^sup>* (psu_start ?E R L) w \<and> psu_ended R L w \<longrightarrow>
      malicious_psu2_out (e_st (snd w)) (e_st (fst w)) = Inr recovered"
    and "correctness_check (small_input 2) (small_input 4) recovered = Inr True" "card (set (chunks_exact 16 recovered)) = 1"
    using inj by auto
  with L(1) R(1) gen show ?thesis by blast
qed

end
