(* ===== verification/Spec2Isabelle.thy ===== *)
theory Spec2Isabelle
  imports Fancy_Digits Transpose_Ends Wire_All Crt_Arith Soft_Clmul Psu_Setup
begin

text \<open>
  A verification library for the malicious private set union (PSU) and for the parts of the vendored swanky crates under it.

  \<^bold>\<open>The program.\<close>  Two parties hold sets of 128-bit items and learn their union.  An item is encrypted with a 256-bit Feistel
  permutation and mapped to a curve point by Elligator 2 (\<^verbatim>\<open>src/mapping.rs\<close>).  In the one-sided semi-honest protocol (\<^verbatim>\<open>src/onesided.rs\<close>) the parties
  blind each other's points, the receiver finds the common ones, and an oblivious transfer (\<^verbatim>\<open>ocelot/src/ot/alsz.rs\<close>)
  hands it the other items; the variant against a malicious sender adds a proof to each item and transfers both over the checked
  extension (\<^verbatim>\<open>ocelot/src/ot/kos.rs\<close>).  In the two-sided malicious protocol (\<^verbatim>\<open>src/twosided.rs\<close>) both parties do the same in four rounds, each
  proving with the arguments of \<^verbatim>\<open>src/aok.rs\<close> that it has shuffled and unblinded correctly.  The transfer extension is a
  bit-matrix transpose away from its seeds, done in C (\<^verbatim>\<open>ocelot/cbits/transpose.c\<close>); the garbling crate beside it turns
  blocks into base-\<open>q\<close> digits with tables in C (\<^verbatim>\<open>fancy-garbling/base_conversion/cbits/lookup_tables.c\<close>).

  \<^bold>\<open>Conventions.\<close>  A run that can fail returns \<open>fault + 'a\<close> (\<open>Prelude\<close>): a failed assertion, an access out of bounds, a null
  pointer, a panic.  Machine integers are words of their width; \<open>usize\<close> values that index lists in memory are
  naturals.  Randomness and foreign primitives (AES, Blake2s, ChaCha12, the base transfer, the curve) are arguments of the
  definitions, and the hypotheses about them are named predicates (\<open>aes_ok\<close>, \<open>fills\<close>, \<open>hashes\<close>, \<open>curve_laws\<close>, \<open>curve_ok\<close>,
  \<open>edwards_ok\<close>, \<open>ed_ops_ok\<close>, \<open>field_ops_ok\<close>, \<open>field_bytes_ok\<close>, \<open>invertible\<close>): the lengths of blocks, the module laws of the multiples of a point, decompression
  undoing compression, field elements surviving their bytes, points of the curve surviving the change between Montgomery and Edwards form, inverses where
  the code divides.  None of them speaks of the code of this repository.  A second kind of hypothesis is about the inputs of a run: \<open>digests_apart\<close> and
  \<open>torsion_apart\<close> (one-sided protocols: the items have no colliding digests, nor points that differ in a point of small order only) and \<open>recognisable\<close>
  (two-sided protocol: the encryption of an item is the canonical encoding of a nonzero field element, and no other item is encoded in its class of the
  Elligator map or has a point that differs in sign and a point of small order only).  Each excludes events of negligible probability, and each can fail in the code.

  \<^bold>\<open>The transpose.\<close>  \<open>Transpose_C\<close> is \<open>sse_trans\<close> with its intrinsics, its loops with unsigned guards and checked buffer
  accesses.  \<open>Bit_Matrix\<close> has the reference transpose and the interface \<open>bit_transposer\<close>; \<open>Transpose_Correct\<close> follows every
  loop to the final buffer and states where the wrapping guards leave the buffers; \<open>Transpose_Ends\<close> shows for which dimensions
  a run never ends.  \<open>Ocelot_Utils\<close> has both builds of the Rust
  entry points and interprets the interface on each; they agree, and transposing twice is the identity.

  \<^bold>\<open>Digits and tables.\<close>  \<open>Digits\<close> holds digit lists and the generator script.  \<open>Lookup_Tables\<close> is the dispatch of the C file over all
  bases 5 to 113; the \<open>Tables_\<close> theories are its data for the bases 43 and 47 and for position 0 of the bases 5 to
  49, and \<open>Static_Tables\<close> assembles it and proves it equal, digit for digit, to the output of the generator.
  \<open>Base_Conversion\<close> is the wrapper and the digit addition with carry; \<open>Wire_Mod_Q\<close> the labels of \<^verbatim>\<open>wire.rs\<close> with their three
  ways to unpack a block; \<open>Fancy_Digits\<close> shows that all three compute the same reference conversion
  (by the tables for the bases 43 and 47, and for every other base whose tables hold what the generator prints), while for the moduli \<open>2 ^ 13\<close> and \<open>2 ^ 15\<close>
  the digits are not reduced.  \<open>Wire_All\<close> has the labels
  modulo 2 and 3 and the sum of the three kinds, with the bit-sliced arithmetic modulo 3 as a refinement of that modulo \<open>q\<close>, and
  \<open>Crt_Arith\<close> the rest of \<^verbatim>\<open>util.rs\<close>: the residue representation with its inverse in \<open>i128\<close> arithmetic, factors, widths, radices and bits.

  \<^bold>\<open>The transfer extension.\<close>  \<open>Ot_Alsz\<close> has both parties with their session state, the set-up through the transpose of either
  build, and the chosen-message, correlated and random transfers; after every transfer the parties are in step again.
  \<open>Block_Clmul\<close> is the carry-less product of blocks (\<^verbatim>\<open>vectoreyes/src/utils.rs\<close>), shown bilinear and commutative, \<open>Soft_Clmul\<close> the product of the scalar backend,
  which computes the same with masked integer products, and \<open>Ot_Kos\<close> the extension
  with the consistency check on random combinations of the lines and its coin tossing (\<^verbatim>\<open>scuttlebutt/src/cointoss.rs\<close>): the check accepts
  every honest receiver, and the three transfers are again correct.

  \<^bold>\<open>Items, shuffles, the semi-honest protocol.\<close>  \<open>Psu_Permutation\<close> is the Fisher-Yates shuffle with its inverse,
  \<open>Psu_Mapping\<close> the Feistel permutation and the recognition of an item among field elements, \<open>Psu_Elligator\<close> the two maps between
  field and curve over an abstract field, which undo each other up to the sign, with the four field elements that share a point; the protocols hash their
  items with these maps.  \<open>Psu_Instance\<close> has the field with 13 elements, on which the hypotheses are shown to hold together.  \<open>Psu_Onesided\<close> the message
  frames and the one-sided protocol, which is shown to end with the union.  \<open>Psu_Sender_Malicious\<close> is the variant with the proofs of the
  sender: it ends with the union, and the comparisons that the code computes but does not act on would hold.

  \<^bold>\<open>The arguments.\<close>  \<open>Psu_Aok\<close> has prover and verifier of the argument for a shuffle of known content, of the adapted shuffle and
  of the batched Diffie-Hellman argument; \<open>Psu_Aok_Complete\<close> shows each complete, and the first incomplete for one item.

  \<^bold>\<open>The two-sided protocol.\<close>  \<open>Psu_Twosided\<close> has \<open>Party\<close> and its operations, and \<open>protocol\<close> as a machine of four rounds whose states are the
  positions between a write and a read; \<open>hash_to_point\<close> and \<open>recover_from_point\<close> go through the Elligator maps and the torsion points.  \<open>Psu_Rounds\<close> is the channel: a step relation on two ends, each with its place in the
  round and the messages on their way, and the locale \<open>rounds\<close>, in which every run is bounded, never stuck and ends
  as the synchronous rounds do.  \<open>Psu_Twosided_Correct\<close> follows an honest run round by round, interprets the locale on \<open>protocol\<close>
  and transfers the result to every order of reads and writes.  \<open>Psu_Setup\<close> has what surrounds the protocols (the parameters set up once, the
  parsing of sizes, the generated inputs, and \<^verbatim>\<open>src/otext.rs\<close> over the locale \<open>ot_extension\<close>, interpreted on both extensions), and
  composes generation, two-sided protocol and result check.

  \<^bold>\<open>Bounds.\<close>  Loops are structural recursions over index lists or have measures, so that no fuel is needed, except those of
  \<open>sse_trans\<close>, which are partial functions, since their guards wrap around; the only relation
  that is not a function is the step relation of the channel, for which the rank of the local states (at most four rounds)
  bounds every run by 18 steps.  Sets in the two-sided protocol have at most \<open>2 ^ 32\<close> items, since the code sends indices as
  \<open>u32\<close>, and at least two, since one item is always rejected.

  \<^bold>\<open>Not modelled.\<close>  The field and curve arithmetic of the vendored curve25519-dalek (parameters); sockets and threads beyond the
  order of messages; the bincode encoding of the messages; the contents of the other C
  tables (literals of the same structure as those transcribed); the benchmarks; the other crates of swanky, which the PSU does not call.  Soundness
  and privacy are computational and not stated.
\<close>

end
